(* ===== verification/Latx_Prelude.thy ===== *)
theory Latx_Prelude
  imports Main "HOL-Library.Word"
begin

text \<open>
  Shared vocabulary of the development: machine words at the widths the C code
  uses, the two error outcomes a release build of the translator can have, the
  three build targets, and generic facts about bit masks and lists.

  Assertions: the macros lsassert and lsassertm of include/error.h expand to
  nothing unless CONFIG\_LATX\_DEBUG is set, so the model follows the release
  build and leaves them out; abort() and the C library assert are outcomes of
  the type \<open>result\<close>.
\<close>

unbundle bit_operations_syntax

named_theorems mask_simps \<open>bitwise reading of 8-bit flag masks\<close>

type_synonym u8 = "8 word"
type_synonym u16 = "16 word"
type_synonym u32 = "32 word"
type_synonym u64 = "64 word"

text \<open>C casts between the unsigned and signed integer types of each width.\<close>

abbreviation trunc8 :: "u64 \<Rightarrow> u8" where "trunc8 \<equiv> ucast"
abbreviation trunc16 :: "u64 \<Rightarrow> u16" where "trunc16 \<equiv> ucast"
abbreviation trunc32 :: "u64 \<Rightarrow> u32" where "trunc32 \<equiv> ucast"
abbreviation zext8 :: "u8 \<Rightarrow> u64" where "zext8 \<equiv> ucast"
abbreviation zext16 :: "u16 \<Rightarrow> u64" where "zext16 \<equiv> ucast"
abbreviation zext32 :: "u32 \<Rightarrow> u64" where "zext32 \<equiv> ucast"
abbreviation sext8 :: "u8 \<Rightarrow> u64" where "sext8 \<equiv> scast"
abbreviation sext16 :: "u16 \<Rightarrow> u64" where "sext16 \<equiv> scast"
abbreviation sext32 :: "u32 \<Rightarrow> u64" where "sext32 \<equiv> scast"

datatype latx_error =
    Abort
  | Assert_failed

type_synonym 'a result = "latx_error + 'a"

text \<open>
  The three ways the guest side is built and run: qemu-i386 (TARGET\_X86\_64 not
  defined), and qemu-x86\_64 with CODEIS64 false (compatibility mode) or true.
\<close>

datatype target = I386 | AMD64_COMPAT | AMD64

definition TARGET_X86_64 :: "target \<Rightarrow> bool" where
  "TARGET_X86_64 t = (t \<noteq> I386)"

definition CODEIS64 :: "target \<Rightarrow> bool" where
  "CODEIS64 t = (t = AMD64)"

lemma target_simps [simp]:
  "TARGET_X86_64 I386 = False" "TARGET_X86_64 AMD64_COMPAT = True" "TARGET_X86_64 AMD64 = True"
  "CODEIS64 I386 = False" "CODEIS64 AMD64_COMPAT = False" "CODEIS64 AMD64 = True"
  by (simp_all add: TARGET_X86_64_def CODEIS64_def)

text \<open>Bit masks as sets of bit positions.\<close>

definition sub_mask :: "'a::len word \<Rightarrow> 'a word \<Rightarrow> bool" where
  "sub_mask a b \<longleftrightarrow> a AND b = a"

lemma sub_mask_iff: "sub_mask a b \<longleftrightarrow> (\<forall>n. bit a n \<longrightarrow> bit b n)"
  for a b :: "'a::len word"
proof
  assume "sub_mask a b"
  then have "a AND b = a" by (simp add: sub_mask_def)
  then have "bit (a AND b) n = bit a n" for n by simp
  then show "\<forall>n. bit a n \<longrightarrow> bit b n" by (auto simp: bit_and_iff)
next
  assume *: "\<forall>n. bit a n \<longrightarrow> bit b n"
  show "sub_mask a b"
    unfolding sub_mask_def by (rule bit_eqI) (use * in \<open>auto simp: bit_and_iff\<close>)
qed

lemma sub_maskD: "sub_mask a b \<Longrightarrow> bit a n \<Longrightarrow> bit b n"
  by (simp add: sub_mask_iff)

lemma sub_mask_refl [simp]: "sub_mask a a"
  by (simp add: sub_mask_iff)

lemma sub_mask_zero [simp]: "sub_mask 0 a"
  by (simp add: sub_mask_iff)

lemma sub_mask_trans: "sub_mask a b \<Longrightarrow> sub_mask b c \<Longrightarrow> sub_mask a c"
  by (simp add: sub_mask_iff)

lemma bit_not_word [mask_simps]: "bit (NOT a) n \<longleftrightarrow> n < LENGTH('a) \<and> \<not> bit a n"
  for a :: "'a::len word"
  by (simp add: bit_not_iff)

lemmas [mask_simps] = bit_and_iff bit_or_iff

end
