(* ===== verification/X86_Enums.thy ===== *)
theory X86_Enums
  imports Latx_Prelude
begin

text \<open>
  Numbering of the two enumerations of include/x86.h that the modelled code
  switches on: dt\_x86\_reg and dt\_x86\_insn.  Both enumerations are consecutive
  from 0 (the INVALID member), so a member is its position.  Members the modelled
  code does not name are left out.
\<close>

type_synonym dt_x86_reg = nat
type_synonym dt_x86_insn = nat

section \<open>dt\_x86\_reg\<close>

abbreviation (input) dt_X86_REG_INVALID :: dt_x86_reg where "dt_X86_REG_INVALID \<equiv> 0"
abbreviation (input) dt_X86_REG_AH :: dt_x86_reg where "dt_X86_REG_AH \<equiv> 1"
abbreviation (input) dt_X86_REG_AL :: dt_x86_reg where "dt_X86_REG_AL \<equiv> 2"
abbreviation (input) dt_X86_REG_AX :: dt_x86_reg where "dt_X86_REG_AX \<equiv> 3"
abbreviation (input) dt_X86_REG_BH :: dt_x86_reg where "dt_X86_REG_BH \<equiv> 4"
abbreviation (input) dt_X86_REG_BL :: dt_x86_reg where "dt_X86_REG_BL \<equiv> 5"
abbreviation (input) dt_X86_REG_BP :: dt_x86_reg where "dt_X86_REG_BP \<equiv> 6"
abbreviation (input) dt_X86_REG_BPL :: dt_x86_reg where "dt_X86_REG_BPL \<equiv> 7"
abbreviation (input) dt_X86_REG_BX :: dt_x86_reg where "dt_X86_REG_BX \<equiv> 8"
abbreviation (input) dt_X86_REG_CH :: dt_x86_reg where "dt_X86_REG_CH \<equiv> 9"
abbreviation (input) dt_X86_REG_CL :: dt_x86_reg where "dt_X86_REG_CL \<equiv> 10"
abbreviation (input) dt_X86_REG_CS :: dt_x86_reg where "dt_X86_REG_CS \<equiv> 11"
abbreviation (input) dt_X86_REG_CX :: dt_x86_reg where "dt_X86_REG_CX \<equiv> 12"
abbreviation (input) dt_X86_REG_DH :: dt_x86_reg where "dt_X86_REG_DH \<equiv> 13"
abbreviation (input) dt_X86_REG_DI :: dt_x86_reg where "dt_X86_REG_DI \<equiv> 14"
abbreviation (input) dt_X86_REG_DIL :: dt_x86_reg where "dt_X86_REG_DIL \<equiv> 15"
abbreviation (input) dt_X86_REG_DL :: dt_x86_reg where "dt_X86_REG_DL \<equiv> 16"
abbreviation (input) dt_X86_REG_DS :: dt_x86_reg where "dt_X86_REG_DS \<equiv> 17"
abbreviation (input) dt_X86_REG_DX :: dt_x86_reg where "dt_X86_REG_DX \<equiv> 18"
abbreviation (input) dt_X86_REG_EAX :: dt_x86_reg where "dt_X86_REG_EAX \<equiv> 19"
abbreviation (input) dt_X86_REG_EBP :: dt_x86_reg where "dt_X86_REG_EBP \<equiv> 20"
abbreviation (input) dt_X86_REG_EBX :: dt_x86_reg where "dt_X86_REG_EBX \<equiv> 21"
abbreviation (input) dt_X86_REG_ECX :: dt_x86_reg where "dt_X86_REG_ECX \<equiv> 22"
abbreviation (input) dt_X86_REG_EDI :: dt_x86_reg where "dt_X86_REG_EDI \<equiv> 23"
abbreviation (input) dt_X86_REG_EDX :: dt_x86_reg where "dt_X86_REG_EDX \<equiv> 24"
abbreviation (input) dt_X86_REG_EIP :: dt_x86_reg where "dt_X86_REG_EIP \<equiv> 26"
abbreviation (input) dt_X86_REG_ES :: dt_x86_reg where "dt_X86_REG_ES \<equiv> 28"
abbreviation (input) dt_X86_REG_ESI :: dt_x86_reg where "dt_X86_REG_ESI \<equiv> 29"
abbreviation (input) dt_X86_REG_ESP :: dt_x86_reg where "dt_X86_REG_ESP \<equiv> 30"
abbreviation (input) dt_X86_REG_FS :: dt_x86_reg where "dt_X86_REG_FS \<equiv> 32"
abbreviation (input) dt_X86_REG_GS :: dt_x86_reg where "dt_X86_REG_GS \<equiv> 33"
abbreviation (input) dt_X86_REG_RAX :: dt_x86_reg where "dt_X86_REG_RAX \<equiv> 35"
abbreviation (input) dt_X86_REG_RBP :: dt_x86_reg where "dt_X86_REG_RBP \<equiv> 36"
abbreviation (input) dt_X86_REG_RBX :: dt_x86_reg where "dt_X86_REG_RBX \<equiv> 37"
abbreviation (input) dt_X86_REG_RCX :: dt_x86_reg where "dt_X86_REG_RCX \<equiv> 38"
abbreviation (input) dt_X86_REG_RDI :: dt_x86_reg where "dt_X86_REG_RDI \<equiv> 39"
abbreviation (input) dt_X86_REG_RDX :: dt_x86_reg where "dt_X86_REG_RDX \<equiv> 40"
abbreviation (input) dt_X86_REG_RIP :: dt_x86_reg where "dt_X86_REG_RIP \<equiv> 41"
abbreviation (input) dt_X86_REG_RIZ :: dt_x86_reg where "dt_X86_REG_RIZ \<equiv> 42"
abbreviation (input) dt_X86_REG_RSI :: dt_x86_reg where "dt_X86_REG_RSI \<equiv> 43"
abbreviation (input) dt_X86_REG_RSP :: dt_x86_reg where "dt_X86_REG_RSP \<equiv> 44"
abbreviation (input) dt_X86_REG_SI :: dt_x86_reg where "dt_X86_REG_SI \<equiv> 45"
abbreviation (input) dt_X86_REG_SIL :: dt_x86_reg where "dt_X86_REG_SIL \<equiv> 46"
abbreviation (input) dt_X86_REG_SP :: dt_x86_reg where "dt_X86_REG_SP \<equiv> 47"
abbreviation (input) dt_X86_REG_SPL :: dt_x86_reg where "dt_X86_REG_SPL \<equiv> 48"
abbreviation (input) dt_X86_REG_SS :: dt_x86_reg where "dt_X86_REG_SS \<equiv> 49"
abbreviation (input) dt_X86_REG_MM0 :: dt_x86_reg where "dt_X86_REG_MM0 \<equiv> 98"
abbreviation (input) dt_X86_REG_MM1 :: dt_x86_reg where "dt_X86_REG_MM1 \<equiv> 99"
abbreviation (input) dt_X86_REG_MM2 :: dt_x86_reg where "dt_X86_REG_MM2 \<equiv> 100"
abbreviation (input) dt_X86_REG_MM3 :: dt_x86_reg where "dt_X86_REG_MM3 \<equiv> 101"
abbreviation (input) dt_X86_REG_MM4 :: dt_x86_reg where "dt_X86_REG_MM4 \<equiv> 102"
abbreviation (input) dt_X86_REG_MM5 :: dt_x86_reg where "dt_X86_REG_MM5 \<equiv> 103"
abbreviation (input) dt_X86_REG_MM6 :: dt_x86_reg where "dt_X86_REG_MM6 \<equiv> 104"
abbreviation (input) dt_X86_REG_MM7 :: dt_x86_reg where "dt_X86_REG_MM7 \<equiv> 105"
abbreviation (input) dt_X86_REG_R8 :: dt_x86_reg where "dt_X86_REG_R8 \<equiv> 106"
abbreviation (input) dt_X86_REG_R9 :: dt_x86_reg where "dt_X86_REG_R9 \<equiv> 107"
abbreviation (input) dt_X86_REG_R10 :: dt_x86_reg where "dt_X86_REG_R10 \<equiv> 108"
abbreviation (input) dt_X86_REG_R11 :: dt_x86_reg where "dt_X86_REG_R11 \<equiv> 109"
abbreviation (input) dt_X86_REG_R12 :: dt_x86_reg where "dt_X86_REG_R12 \<equiv> 110"
abbreviation (input) dt_X86_REG_R13 :: dt_x86_reg where "dt_X86_REG_R13 \<equiv> 111"
abbreviation (input) dt_X86_REG_R14 :: dt_x86_reg where "dt_X86_REG_R14 \<equiv> 112"
abbreviation (input) dt_X86_REG_R15 :: dt_x86_reg where "dt_X86_REG_R15 \<equiv> 113"
abbreviation (input) dt_X86_REG_ST0 :: dt_x86_reg where "dt_X86_REG_ST0 \<equiv> 114"
abbreviation (input) dt_X86_REG_ST1 :: dt_x86_reg where "dt_X86_REG_ST1 \<equiv> 115"
abbreviation (input) dt_X86_REG_ST2 :: dt_x86_reg where "dt_X86_REG_ST2 \<equiv> 116"
abbreviation (input) dt_X86_REG_ST3 :: dt_x86_reg where "dt_X86_REG_ST3 \<equiv> 117"
abbreviation (input) dt_X86_REG_ST4 :: dt_x86_reg where "dt_X86_REG_ST4 \<equiv> 118"
abbreviation (input) dt_X86_REG_ST5 :: dt_x86_reg where "dt_X86_REG_ST5 \<equiv> 119"
abbreviation (input) dt_X86_REG_ST6 :: dt_x86_reg where "dt_X86_REG_ST6 \<equiv> 120"
abbreviation (input) dt_X86_REG_ST7 :: dt_x86_reg where "dt_X86_REG_ST7 \<equiv> 121"
abbreviation (input) dt_X86_REG_XMM0 :: dt_x86_reg where "dt_X86_REG_XMM0 \<equiv> 122"
abbreviation (input) dt_X86_REG_XMM1 :: dt_x86_reg where "dt_X86_REG_XMM1 \<equiv> 123"
abbreviation (input) dt_X86_REG_XMM2 :: dt_x86_reg where "dt_X86_REG_XMM2 \<equiv> 124"
abbreviation (input) dt_X86_REG_XMM3 :: dt_x86_reg where "dt_X86_REG_XMM3 \<equiv> 125"
abbreviation (input) dt_X86_REG_XMM4 :: dt_x86_reg where "dt_X86_REG_XMM4 \<equiv> 126"
abbreviation (input) dt_X86_REG_XMM5 :: dt_x86_reg where "dt_X86_REG_XMM5 \<equiv> 127"
abbreviation (input) dt_X86_REG_XMM6 :: dt_x86_reg where "dt_X86_REG_XMM6 \<equiv> 128"
abbreviation (input) dt_X86_REG_XMM7 :: dt_x86_reg where "dt_X86_REG_XMM7 \<equiv> 129"
abbreviation (input) dt_X86_REG_XMM8 :: dt_x86_reg where "dt_X86_REG_XMM8 \<equiv> 130"
abbreviation (input) dt_X86_REG_XMM9 :: dt_x86_reg where "dt_X86_REG_XMM9 \<equiv> 131"
abbreviation (input) dt_X86_REG_XMM10 :: dt_x86_reg where "dt_X86_REG_XMM10 \<equiv> 132"
abbreviation (input) dt_X86_REG_XMM11 :: dt_x86_reg where "dt_X86_REG_XMM11 \<equiv> 133"
abbreviation (input) dt_X86_REG_XMM12 :: dt_x86_reg where "dt_X86_REG_XMM12 \<equiv> 134"
abbreviation (input) dt_X86_REG_XMM13 :: dt_x86_reg where "dt_X86_REG_XMM13 \<equiv> 135"
abbreviation (input) dt_X86_REG_XMM14 :: dt_x86_reg where "dt_X86_REG_XMM14 \<equiv> 136"
abbreviation (input) dt_X86_REG_XMM15 :: dt_x86_reg where "dt_X86_REG_XMM15 \<equiv> 137"
abbreviation (input) dt_X86_REG_YMM0 :: dt_x86_reg where "dt_X86_REG_YMM0 \<equiv> 154"
abbreviation (input) dt_X86_REG_YMM1 :: dt_x86_reg where "dt_X86_REG_YMM1 \<equiv> 155"
abbreviation (input) dt_X86_REG_YMM2 :: dt_x86_reg where "dt_X86_REG_YMM2 \<equiv> 156"
abbreviation (input) dt_X86_REG_YMM3 :: dt_x86_reg where "dt_X86_REG_YMM3 \<equiv> 157"
abbreviation (input) dt_X86_REG_YMM4 :: dt_x86_reg where "dt_X86_REG_YMM4 \<equiv> 158"
abbreviation (input) dt_X86_REG_YMM5 :: dt_x86_reg where "dt_X86_REG_YMM5 \<equiv> 159"
abbreviation (input) dt_X86_REG_YMM6 :: dt_x86_reg where "dt_X86_REG_YMM6 \<equiv> 160"
abbreviation (input) dt_X86_REG_YMM7 :: dt_x86_reg where "dt_X86_REG_YMM7 \<equiv> 161"
abbreviation (input) dt_X86_REG_YMM8 :: dt_x86_reg where "dt_X86_REG_YMM8 \<equiv> 162"
abbreviation (input) dt_X86_REG_YMM9 :: dt_x86_reg where "dt_X86_REG_YMM9 \<equiv> 163"
abbreviation (input) dt_X86_REG_YMM10 :: dt_x86_reg where "dt_X86_REG_YMM10 \<equiv> 164"
abbreviation (input) dt_X86_REG_YMM11 :: dt_x86_reg where "dt_X86_REG_YMM11 \<equiv> 165"
abbreviation (input) dt_X86_REG_YMM12 :: dt_x86_reg where "dt_X86_REG_YMM12 \<equiv> 166"
abbreviation (input) dt_X86_REG_YMM13 :: dt_x86_reg where "dt_X86_REG_YMM13 \<equiv> 167"
abbreviation (input) dt_X86_REG_YMM14 :: dt_x86_reg where "dt_X86_REG_YMM14 \<equiv> 168"
abbreviation (input) dt_X86_REG_YMM15 :: dt_x86_reg where "dt_X86_REG_YMM15 \<equiv> 169"
abbreviation (input) dt_X86_REG_R8B :: dt_x86_reg where "dt_X86_REG_R8B \<equiv> 218"
abbreviation (input) dt_X86_REG_R9B :: dt_x86_reg where "dt_X86_REG_R9B \<equiv> 219"
abbreviation (input) dt_X86_REG_R10B :: dt_x86_reg where "dt_X86_REG_R10B \<equiv> 220"
abbreviation (input) dt_X86_REG_R11B :: dt_x86_reg where "dt_X86_REG_R11B \<equiv> 221"
abbreviation (input) dt_X86_REG_R12B :: dt_x86_reg where "dt_X86_REG_R12B \<equiv> 222"
abbreviation (input) dt_X86_REG_R13B :: dt_x86_reg where "dt_X86_REG_R13B \<equiv> 223"
abbreviation (input) dt_X86_REG_R14B :: dt_x86_reg where "dt_X86_REG_R14B \<equiv> 224"
abbreviation (input) dt_X86_REG_R15B :: dt_x86_reg where "dt_X86_REG_R15B \<equiv> 225"
abbreviation (input) dt_X86_REG_R8D :: dt_x86_reg where "dt_X86_REG_R8D \<equiv> 226"
abbreviation (input) dt_X86_REG_R9D :: dt_x86_reg where "dt_X86_REG_R9D \<equiv> 227"
abbreviation (input) dt_X86_REG_R10D :: dt_x86_reg where "dt_X86_REG_R10D \<equiv> 228"
abbreviation (input) dt_X86_REG_R11D :: dt_x86_reg where "dt_X86_REG_R11D \<equiv> 229"
abbreviation (input) dt_X86_REG_R12D :: dt_x86_reg where "dt_X86_REG_R12D \<equiv> 230"
abbreviation (input) dt_X86_REG_R13D :: dt_x86_reg where "dt_X86_REG_R13D \<equiv> 231"
abbreviation (input) dt_X86_REG_R14D :: dt_x86_reg where "dt_X86_REG_R14D \<equiv> 232"
abbreviation (input) dt_X86_REG_R15D :: dt_x86_reg where "dt_X86_REG_R15D \<equiv> 233"
abbreviation (input) dt_X86_REG_R8W :: dt_x86_reg where "dt_X86_REG_R8W \<equiv> 234"
abbreviation (input) dt_X86_REG_R9W :: dt_x86_reg where "dt_X86_REG_R9W \<equiv> 235"
abbreviation (input) dt_X86_REG_R10W :: dt_x86_reg where "dt_X86_REG_R10W \<equiv> 236"
abbreviation (input) dt_X86_REG_R11W :: dt_x86_reg where "dt_X86_REG_R11W \<equiv> 237"
abbreviation (input) dt_X86_REG_R12W :: dt_x86_reg where "dt_X86_REG_R12W \<equiv> 238"
abbreviation (input) dt_X86_REG_R13W :: dt_x86_reg where "dt_X86_REG_R13W \<equiv> 239"
abbreviation (input) dt_X86_REG_R14W :: dt_x86_reg where "dt_X86_REG_R14W \<equiv> 240"
abbreviation (input) dt_X86_REG_R15W :: dt_x86_reg where "dt_X86_REG_R15W \<equiv> 241"
abbreviation (input) dt_X86_REG_ENDING :: dt_x86_reg where "dt_X86_REG_ENDING \<equiv> 242"

section \<open>dt\_x86\_insn\<close>

abbreviation (input) dt_X86_INS_INVALID :: dt_x86_insn where "dt_X86_INS_INVALID \<equiv> 0"
abbreviation (input) dt_X86_INS_WAIT :: dt_x86_insn where "dt_X86_INS_WAIT \<equiv> 2"
abbreviation (input) dt_X86_INS_FCOMI :: dt_x86_insn where "dt_X86_INS_FCOMI \<equiv> 8"
abbreviation (input) dt_X86_INS_FCOMIP :: dt_x86_insn where "dt_X86_INS_FCOMIP \<equiv> 9"
abbreviation (input) dt_X86_INS_FUCOMI :: dt_x86_insn where "dt_X86_INS_FUCOMI \<equiv> 45"
abbreviation (input) dt_X86_INS_FUCOMIP :: dt_x86_insn where "dt_X86_INS_FUCOMIP \<equiv> 46"
abbreviation (input) dt_X86_INS_AAA :: dt_x86_insn where "dt_X86_INS_AAA \<equiv> 54"
abbreviation (input) dt_X86_INS_AAD :: dt_x86_insn where "dt_X86_INS_AAD \<equiv> 55"
abbreviation (input) dt_X86_INS_AAM :: dt_x86_insn where "dt_X86_INS_AAM \<equiv> 56"
abbreviation (input) dt_X86_INS_AAS :: dt_x86_insn where "dt_X86_INS_AAS \<equiv> 57"
abbreviation (input) dt_X86_INS_FCMOVBE :: dt_x86_insn where "dt_X86_INS_FCMOVBE \<equiv> 60"
abbreviation (input) dt_X86_INS_FCMOVB :: dt_x86_insn where "dt_X86_INS_FCMOVB \<equiv> 61"
abbreviation (input) dt_X86_INS_FCMOVE :: dt_x86_insn where "dt_X86_INS_FCMOVE \<equiv> 62"
abbreviation (input) dt_X86_INS_FCMOVNBE :: dt_x86_insn where "dt_X86_INS_FCMOVNBE \<equiv> 63"
abbreviation (input) dt_X86_INS_FCMOVNB :: dt_x86_insn where "dt_X86_INS_FCMOVNB \<equiv> 64"
abbreviation (input) dt_X86_INS_FCMOVNE :: dt_x86_insn where "dt_X86_INS_FCMOVNE \<equiv> 65"
abbreviation (input) dt_X86_INS_FCMOVNU :: dt_x86_insn where "dt_X86_INS_FCMOVNU \<equiv> 66"
abbreviation (input) dt_X86_INS_FCMOVU :: dt_x86_insn where "dt_X86_INS_FCMOVU \<equiv> 67"
abbreviation (input) dt_X86_INS_FNSTENV :: dt_x86_insn where "dt_X86_INS_FNSTENV \<equiv> 88"
abbreviation (input) dt_X86_INS_ADC :: dt_x86_insn where "dt_X86_INS_ADC \<equiv> 96"
abbreviation (input) dt_X86_INS_ADCX :: dt_x86_insn where "dt_X86_INS_ADCX \<equiv> 97"
abbreviation (input) dt_X86_INS_ADD :: dt_x86_insn where "dt_X86_INS_ADD \<equiv> 98"
abbreviation (input) dt_X86_INS_ADOX :: dt_x86_insn where "dt_X86_INS_ADOX \<equiv> 105"
abbreviation (input) dt_X86_INS_AND :: dt_x86_insn where "dt_X86_INS_AND \<equiv> 112"
abbreviation (input) dt_X86_INS_ANDN :: dt_x86_insn where "dt_X86_INS_ANDN \<equiv> 113"
abbreviation (input) dt_X86_INS_ARPL :: dt_x86_insn where "dt_X86_INS_ARPL \<equiv> 118"
abbreviation (input) dt_X86_INS_BLSI :: dt_x86_insn where "dt_X86_INS_BLSI \<equiv> 130"
abbreviation (input) dt_X86_INS_BLSMSK :: dt_x86_insn where "dt_X86_INS_BLSMSK \<equiv> 132"
abbreviation (input) dt_X86_INS_BLSR :: dt_x86_insn where "dt_X86_INS_BLSR \<equiv> 133"
abbreviation (input) dt_X86_INS_BOUND :: dt_x86_insn where "dt_X86_INS_BOUND \<equiv> 134"
abbreviation (input) dt_X86_INS_BSF :: dt_x86_insn where "dt_X86_INS_BSF \<equiv> 135"
abbreviation (input) dt_X86_INS_BSR :: dt_x86_insn where "dt_X86_INS_BSR \<equiv> 136"
abbreviation (input) dt_X86_INS_BSWAP :: dt_x86_insn where "dt_X86_INS_BSWAP \<equiv> 137"
abbreviation (input) dt_X86_INS_BT :: dt_x86_insn where "dt_X86_INS_BT \<equiv> 138"
abbreviation (input) dt_X86_INS_BTC :: dt_x86_insn where "dt_X86_INS_BTC \<equiv> 139"
abbreviation (input) dt_X86_INS_BTR :: dt_x86_insn where "dt_X86_INS_BTR \<equiv> 140"
abbreviation (input) dt_X86_INS_BTS :: dt_x86_insn where "dt_X86_INS_BTS \<equiv> 141"
abbreviation (input) dt_X86_INS_BZHI :: dt_x86_insn where "dt_X86_INS_BZHI \<equiv> 142"
abbreviation (input) dt_X86_INS_CALL :: dt_x86_insn where "dt_X86_INS_CALL \<equiv> 143"
abbreviation (input) dt_X86_INS_CBW :: dt_x86_insn where "dt_X86_INS_CBW \<equiv> 144"
abbreviation (input) dt_X86_INS_CLC :: dt_x86_insn where "dt_X86_INS_CLC \<equiv> 148"
abbreviation (input) dt_X86_INS_CLD :: dt_x86_insn where "dt_X86_INS_CLD \<equiv> 149"
abbreviation (input) dt_X86_INS_CMC :: dt_x86_insn where "dt_X86_INS_CMC \<equiv> 156"
abbreviation (input) dt_X86_INS_CMOVA :: dt_x86_insn where "dt_X86_INS_CMOVA \<equiv> 157"
abbreviation (input) dt_X86_INS_CMOVAE :: dt_x86_insn where "dt_X86_INS_CMOVAE \<equiv> 158"
abbreviation (input) dt_X86_INS_CMOVB :: dt_x86_insn where "dt_X86_INS_CMOVB \<equiv> 159"
abbreviation (input) dt_X86_INS_CMOVBE :: dt_x86_insn where "dt_X86_INS_CMOVBE \<equiv> 160"
abbreviation (input) dt_X86_INS_CMOVE :: dt_x86_insn where "dt_X86_INS_CMOVE \<equiv> 161"
abbreviation (input) dt_X86_INS_CMOVG :: dt_x86_insn where "dt_X86_INS_CMOVG \<equiv> 162"
abbreviation (input) dt_X86_INS_CMOVGE :: dt_x86_insn where "dt_X86_INS_CMOVGE \<equiv> 163"
abbreviation (input) dt_X86_INS_CMOVL :: dt_x86_insn where "dt_X86_INS_CMOVL \<equiv> 164"
abbreviation (input) dt_X86_INS_CMOVLE :: dt_x86_insn where "dt_X86_INS_CMOVLE \<equiv> 165"
abbreviation (input) dt_X86_INS_CMOVNE :: dt_x86_insn where "dt_X86_INS_CMOVNE \<equiv> 166"
abbreviation (input) dt_X86_INS_CMOVNO :: dt_x86_insn where "dt_X86_INS_CMOVNO \<equiv> 167"
abbreviation (input) dt_X86_INS_CMOVNP :: dt_x86_insn where "dt_X86_INS_CMOVNP \<equiv> 168"
abbreviation (input) dt_X86_INS_CMOVNS :: dt_x86_insn where "dt_X86_INS_CMOVNS \<equiv> 169"
abbreviation (input) dt_X86_INS_CMOVO :: dt_x86_insn where "dt_X86_INS_CMOVO \<equiv> 170"
abbreviation (input) dt_X86_INS_CMOVP :: dt_x86_insn where "dt_X86_INS_CMOVP \<equiv> 171"
abbreviation (input) dt_X86_INS_CMOVS :: dt_x86_insn where "dt_X86_INS_CMOVS \<equiv> 172"
abbreviation (input) dt_X86_INS_CMP :: dt_x86_insn where "dt_X86_INS_CMP \<equiv> 173"
abbreviation (input) dt_X86_INS_CMPSB :: dt_x86_insn where "dt_X86_INS_CMPSB \<equiv> 174"
abbreviation (input) dt_X86_INS_CMPSQ :: dt_x86_insn where "dt_X86_INS_CMPSQ \<equiv> 175"
abbreviation (input) dt_X86_INS_CMPSW :: dt_x86_insn where "dt_X86_INS_CMPSW \<equiv> 176"
abbreviation (input) dt_X86_INS_CMPXCHG16B :: dt_x86_insn where "dt_X86_INS_CMPXCHG16B \<equiv> 177"
abbreviation (input) dt_X86_INS_CMPXCHG :: dt_x86_insn where "dt_X86_INS_CMPXCHG \<equiv> 178"
abbreviation (input) dt_X86_INS_CMPXCHG8B :: dt_x86_insn where "dt_X86_INS_CMPXCHG8B \<equiv> 179"
abbreviation (input) dt_X86_INS_COMISD :: dt_x86_insn where "dt_X86_INS_COMISD \<equiv> 180"
abbreviation (input) dt_X86_INS_COMISS :: dt_x86_insn where "dt_X86_INS_COMISS \<equiv> 181"
abbreviation (input) dt_X86_INS_CPUID :: dt_x86_insn where "dt_X86_INS_CPUID \<equiv> 182"
abbreviation (input) dt_X86_INS_CWD :: dt_x86_insn where "dt_X86_INS_CWD \<equiv> 201"
abbreviation (input) dt_X86_INS_DAA :: dt_x86_insn where "dt_X86_INS_DAA \<equiv> 203"
abbreviation (input) dt_X86_INS_DAS :: dt_x86_insn where "dt_X86_INS_DAS \<equiv> 204"
abbreviation (input) dt_X86_INS_DEC :: dt_x86_insn where "dt_X86_INS_DEC \<equiv> 206"
abbreviation (input) dt_X86_INS_DIV :: dt_x86_insn where "dt_X86_INS_DIV \<equiv> 207"
abbreviation (input) dt_X86_INS_RET :: dt_x86_insn where "dt_X86_INS_RET \<equiv> 214"
abbreviation (input) dt_X86_INS_ENTER :: dt_x86_insn where "dt_X86_INS_ENTER \<equiv> 217"
abbreviation (input) dt_X86_INS_LCALL :: dt_x86_insn where "dt_X86_INS_LCALL \<equiv> 220"
abbreviation (input) dt_X86_INS_LJMP :: dt_x86_insn where "dt_X86_INS_LJMP \<equiv> 221"
abbreviation (input) dt_X86_INS_HLT :: dt_x86_insn where "dt_X86_INS_HLT \<equiv> 236"
abbreviation (input) dt_X86_INS_IDIV :: dt_x86_insn where "dt_X86_INS_IDIV \<equiv> 239"
abbreviation (input) dt_X86_INS_IMUL :: dt_x86_insn where "dt_X86_INS_IMUL \<equiv> 240"
abbreviation (input) dt_X86_INS_IN :: dt_x86_insn where "dt_X86_INS_IN \<equiv> 241"
abbreviation (input) dt_X86_INS_INC :: dt_x86_insn where "dt_X86_INS_INC \<equiv> 242"
abbreviation (input) dt_X86_INS_INSB :: dt_x86_insn where "dt_X86_INS_INSB \<equiv> 243"
abbreviation (input) dt_X86_INS_INSD :: dt_x86_insn where "dt_X86_INS_INSD \<equiv> 246"
abbreviation (input) dt_X86_INS_INSW :: dt_x86_insn where "dt_X86_INS_INSW \<equiv> 247"
abbreviation (input) dt_X86_INS_INT :: dt_x86_insn where "dt_X86_INS_INT \<equiv> 248"
abbreviation (input) dt_X86_INS_INT3 :: dt_x86_insn where "dt_X86_INS_INT3 \<equiv> 250"
abbreviation (input) dt_X86_INS_INTO :: dt_x86_insn where "dt_X86_INS_INTO \<equiv> 251"
abbreviation (input) dt_X86_INS_INVD :: dt_x86_insn where "dt_X86_INS_INVD \<equiv> 252"
abbreviation (input) dt_X86_INS_INVLPG :: dt_x86_insn where "dt_X86_INS_INVLPG \<equiv> 254"
abbreviation (input) dt_X86_INS_IRET :: dt_x86_insn where "dt_X86_INS_IRET \<equiv> 258"
abbreviation (input) dt_X86_INS_UCOMISD :: dt_x86_insn where "dt_X86_INS_UCOMISD \<equiv> 261"
abbreviation (input) dt_X86_INS_UCOMISS :: dt_x86_insn where "dt_X86_INS_UCOMISS \<equiv> 262"
abbreviation (input) dt_X86_INS_JAE :: dt_x86_insn where "dt_X86_INS_JAE \<equiv> 277"
abbreviation (input) dt_X86_INS_JA :: dt_x86_insn where "dt_X86_INS_JA \<equiv> 278"
abbreviation (input) dt_X86_INS_JBE :: dt_x86_insn where "dt_X86_INS_JBE \<equiv> 279"
abbreviation (input) dt_X86_INS_JB :: dt_x86_insn where "dt_X86_INS_JB \<equiv> 280"
abbreviation (input) dt_X86_INS_JCXZ :: dt_x86_insn where "dt_X86_INS_JCXZ \<equiv> 281"
abbreviation (input) dt_X86_INS_JECXZ :: dt_x86_insn where "dt_X86_INS_JECXZ \<equiv> 282"
abbreviation (input) dt_X86_INS_JE :: dt_x86_insn where "dt_X86_INS_JE \<equiv> 283"
abbreviation (input) dt_X86_INS_JGE :: dt_x86_insn where "dt_X86_INS_JGE \<equiv> 284"
abbreviation (input) dt_X86_INS_JG :: dt_x86_insn where "dt_X86_INS_JG \<equiv> 285"
abbreviation (input) dt_X86_INS_JLE :: dt_x86_insn where "dt_X86_INS_JLE \<equiv> 286"
abbreviation (input) dt_X86_INS_JL :: dt_x86_insn where "dt_X86_INS_JL \<equiv> 287"
abbreviation (input) dt_X86_INS_JMP :: dt_x86_insn where "dt_X86_INS_JMP \<equiv> 288"
abbreviation (input) dt_X86_INS_JNE :: dt_x86_insn where "dt_X86_INS_JNE \<equiv> 289"
abbreviation (input) dt_X86_INS_JNO :: dt_x86_insn where "dt_X86_INS_JNO \<equiv> 290"
abbreviation (input) dt_X86_INS_JNP :: dt_x86_insn where "dt_X86_INS_JNP \<equiv> 291"
abbreviation (input) dt_X86_INS_JNS :: dt_x86_insn where "dt_X86_INS_JNS \<equiv> 292"
abbreviation (input) dt_X86_INS_JO :: dt_x86_insn where "dt_X86_INS_JO \<equiv> 293"
abbreviation (input) dt_X86_INS_JP :: dt_x86_insn where "dt_X86_INS_JP \<equiv> 294"
abbreviation (input) dt_X86_INS_JRCXZ :: dt_x86_insn where "dt_X86_INS_JRCXZ \<equiv> 295"
abbreviation (input) dt_X86_INS_JS :: dt_x86_insn where "dt_X86_INS_JS \<equiv> 296"
abbreviation (input) dt_X86_INS_LAHF :: dt_x86_insn where "dt_X86_INS_LAHF \<equiv> 338"
abbreviation (input) dt_X86_INS_LAR :: dt_x86_insn where "dt_X86_INS_LAR \<equiv> 339"
abbreviation (input) dt_X86_INS_LDS :: dt_x86_insn where "dt_X86_INS_LDS \<equiv> 342"
abbreviation (input) dt_X86_INS_LEA :: dt_x86_insn where "dt_X86_INS_LEA \<equiv> 343"
abbreviation (input) dt_X86_INS_LEAVE :: dt_x86_insn where "dt_X86_INS_LEAVE \<equiv> 344"
abbreviation (input) dt_X86_INS_LES :: dt_x86_insn where "dt_X86_INS_LES \<equiv> 345"
abbreviation (input) dt_X86_INS_LFS :: dt_x86_insn where "dt_X86_INS_LFS \<equiv> 347"
abbreviation (input) dt_X86_INS_LGDT :: dt_x86_insn where "dt_X86_INS_LGDT \<equiv> 348"
abbreviation (input) dt_X86_INS_LGS :: dt_x86_insn where "dt_X86_INS_LGS \<equiv> 349"
abbreviation (input) dt_X86_INS_LIDT :: dt_x86_insn where "dt_X86_INS_LIDT \<equiv> 350"
abbreviation (input) dt_X86_INS_LLDT :: dt_x86_insn where "dt_X86_INS_LLDT \<equiv> 351"
abbreviation (input) dt_X86_INS_LMSW :: dt_x86_insn where "dt_X86_INS_LMSW \<equiv> 352"
abbreviation (input) dt_X86_INS_OR :: dt_x86_insn where "dt_X86_INS_OR \<equiv> 353"
abbreviation (input) dt_X86_INS_SUB :: dt_x86_insn where "dt_X86_INS_SUB \<equiv> 354"
abbreviation (input) dt_X86_INS_XOR :: dt_x86_insn where "dt_X86_INS_XOR \<equiv> 355"
abbreviation (input) dt_X86_INS_LODSB :: dt_x86_insn where "dt_X86_INS_LODSB \<equiv> 356"
abbreviation (input) dt_X86_INS_LODSD :: dt_x86_insn where "dt_X86_INS_LODSD \<equiv> 357"
abbreviation (input) dt_X86_INS_LODSQ :: dt_x86_insn where "dt_X86_INS_LODSQ \<equiv> 358"
abbreviation (input) dt_X86_INS_LODSW :: dt_x86_insn where "dt_X86_INS_LODSW \<equiv> 359"
abbreviation (input) dt_X86_INS_LOOP :: dt_x86_insn where "dt_X86_INS_LOOP \<equiv> 360"
abbreviation (input) dt_X86_INS_LOOPE :: dt_x86_insn where "dt_X86_INS_LOOPE \<equiv> 361"
abbreviation (input) dt_X86_INS_LOOPNE :: dt_x86_insn where "dt_X86_INS_LOOPNE \<equiv> 362"
abbreviation (input) dt_X86_INS_RETF :: dt_x86_insn where "dt_X86_INS_RETF \<equiv> 363"
abbreviation (input) dt_X86_INS_LSL :: dt_x86_insn where "dt_X86_INS_LSL \<equiv> 365"
abbreviation (input) dt_X86_INS_LSS :: dt_x86_insn where "dt_X86_INS_LSS \<equiv> 366"
abbreviation (input) dt_X86_INS_LTR :: dt_x86_insn where "dt_X86_INS_LTR \<equiv> 367"
abbreviation (input) dt_X86_INS_XADD :: dt_x86_insn where "dt_X86_INS_XADD \<equiv> 368"
abbreviation (input) dt_X86_INS_LZCNT :: dt_x86_insn where "dt_X86_INS_LZCNT \<equiv> 369"
abbreviation (input) dt_X86_INS_MONITOR :: dt_x86_insn where "dt_X86_INS_MONITOR \<equiv> 468"
abbreviation (input) dt_X86_INS_MOV :: dt_x86_insn where "dt_X86_INS_MOV \<equiv> 470"
abbreviation (input) dt_X86_INS_MOVABS :: dt_x86_insn where "dt_X86_INS_MOVABS \<equiv> 471"
abbreviation (input) dt_X86_INS_MOVSB :: dt_x86_insn where "dt_X86_INS_MOVSB \<equiv> 491"
abbreviation (input) dt_X86_INS_MOVSD :: dt_x86_insn where "dt_X86_INS_MOVSD \<equiv> 492"
abbreviation (input) dt_X86_INS_MOVSQ :: dt_x86_insn where "dt_X86_INS_MOVSQ \<equiv> 495"
abbreviation (input) dt_X86_INS_MOVSW :: dt_x86_insn where "dt_X86_INS_MOVSW \<equiv> 497"
abbreviation (input) dt_X86_INS_MOVSX :: dt_x86_insn where "dt_X86_INS_MOVSX \<equiv> 498"
abbreviation (input) dt_X86_INS_MOVZX :: dt_x86_insn where "dt_X86_INS_MOVZX \<equiv> 502"
abbreviation (input) dt_X86_INS_MUL :: dt_x86_insn where "dt_X86_INS_MUL \<equiv> 504"
abbreviation (input) dt_X86_INS_MWAIT :: dt_x86_insn where "dt_X86_INS_MWAIT \<equiv> 510"
abbreviation (input) dt_X86_INS_NEG :: dt_x86_insn where "dt_X86_INS_NEG \<equiv> 511"
abbreviation (input) dt_X86_INS_NOP :: dt_x86_insn where "dt_X86_INS_NOP \<equiv> 512"
abbreviation (input) dt_X86_INS_NOT :: dt_x86_insn where "dt_X86_INS_NOT \<equiv> 513"
abbreviation (input) dt_X86_INS_OUT :: dt_x86_insn where "dt_X86_INS_OUT \<equiv> 514"
abbreviation (input) dt_X86_INS_OUTSB :: dt_x86_insn where "dt_X86_INS_OUTSB \<equiv> 515"
abbreviation (input) dt_X86_INS_OUTSD :: dt_x86_insn where "dt_X86_INS_OUTSD \<equiv> 516"
abbreviation (input) dt_X86_INS_OUTSW :: dt_x86_insn where "dt_X86_INS_OUTSW \<equiv> 517"
abbreviation (input) dt_X86_INS_POP :: dt_x86_insn where "dt_X86_INS_POP \<equiv> 584"
abbreviation (input) dt_X86_INS_POPAW :: dt_x86_insn where "dt_X86_INS_POPAW \<equiv> 585"
abbreviation (input) dt_X86_INS_POPAL :: dt_x86_insn where "dt_X86_INS_POPAL \<equiv> 586"
abbreviation (input) dt_X86_INS_POPCNT :: dt_x86_insn where "dt_X86_INS_POPCNT \<equiv> 587"
abbreviation (input) dt_X86_INS_POPF :: dt_x86_insn where "dt_X86_INS_POPF \<equiv> 588"
abbreviation (input) dt_X86_INS_POPFD :: dt_x86_insn where "dt_X86_INS_POPFD \<equiv> 589"
abbreviation (input) dt_X86_INS_POPFQ :: dt_x86_insn where "dt_X86_INS_POPFQ \<equiv> 590"
abbreviation (input) dt_X86_INS_PUSH :: dt_x86_insn where "dt_X86_INS_PUSH \<equiv> 606"
abbreviation (input) dt_X86_INS_PUSHAW :: dt_x86_insn where "dt_X86_INS_PUSHAW \<equiv> 607"
abbreviation (input) dt_X86_INS_PUSHAL :: dt_x86_insn where "dt_X86_INS_PUSHAL \<equiv> 608"
abbreviation (input) dt_X86_INS_PUSHF :: dt_x86_insn where "dt_X86_INS_PUSHF \<equiv> 609"
abbreviation (input) dt_X86_INS_PUSHFD :: dt_x86_insn where "dt_X86_INS_PUSHFD \<equiv> 610"
abbreviation (input) dt_X86_INS_PUSHFQ :: dt_x86_insn where "dt_X86_INS_PUSHFQ \<equiv> 611"
abbreviation (input) dt_X86_INS_RCL :: dt_x86_insn where "dt_X86_INS_RCL \<equiv> 612"
abbreviation (input) dt_X86_INS_RCR :: dt_x86_insn where "dt_X86_INS_RCR \<equiv> 615"
abbreviation (input) dt_X86_INS_RDMSR :: dt_x86_insn where "dt_X86_INS_RDMSR \<equiv> 618"
abbreviation (input) dt_X86_INS_RDPMC :: dt_x86_insn where "dt_X86_INS_RDPMC \<equiv> 619"
abbreviation (input) dt_X86_INS_RDTSC :: dt_x86_insn where "dt_X86_INS_RDTSC \<equiv> 622"
abbreviation (input) dt_X86_INS_ROL :: dt_x86_insn where "dt_X86_INS_ROL \<equiv> 624"
abbreviation (input) dt_X86_INS_ROR :: dt_x86_insn where "dt_X86_INS_ROR \<equiv> 625"
abbreviation (input) dt_X86_INS_RSM :: dt_x86_insn where "dt_X86_INS_RSM \<equiv> 631"
abbreviation (input) dt_X86_INS_SAHF :: dt_x86_insn where "dt_X86_INS_SAHF \<equiv> 634"
abbreviation (input) dt_X86_INS_SAL :: dt_x86_insn where "dt_X86_INS_SAL \<equiv> 635"
abbreviation (input) dt_X86_INS_SALC :: dt_x86_insn where "dt_X86_INS_SALC \<equiv> 636"
abbreviation (input) dt_X86_INS_SAR :: dt_x86_insn where "dt_X86_INS_SAR \<equiv> 637"
abbreviation (input) dt_X86_INS_SBB :: dt_x86_insn where "dt_X86_INS_SBB \<equiv> 639"
abbreviation (input) dt_X86_INS_SCASB :: dt_x86_insn where "dt_X86_INS_SCASB \<equiv> 640"
abbreviation (input) dt_X86_INS_SCASD :: dt_x86_insn where "dt_X86_INS_SCASD \<equiv> 641"
abbreviation (input) dt_X86_INS_SCASQ :: dt_x86_insn where "dt_X86_INS_SCASQ \<equiv> 642"
abbreviation (input) dt_X86_INS_SCASW :: dt_x86_insn where "dt_X86_INS_SCASW \<equiv> 643"
abbreviation (input) dt_X86_INS_SETAE :: dt_x86_insn where "dt_X86_INS_SETAE \<equiv> 644"
abbreviation (input) dt_X86_INS_SETA :: dt_x86_insn where "dt_X86_INS_SETA \<equiv> 645"
abbreviation (input) dt_X86_INS_SETBE :: dt_x86_insn where "dt_X86_INS_SETBE \<equiv> 646"
abbreviation (input) dt_X86_INS_SETB :: dt_x86_insn where "dt_X86_INS_SETB \<equiv> 647"
abbreviation (input) dt_X86_INS_SETE :: dt_x86_insn where "dt_X86_INS_SETE \<equiv> 648"
abbreviation (input) dt_X86_INS_SETGE :: dt_x86_insn where "dt_X86_INS_SETGE \<equiv> 649"
abbreviation (input) dt_X86_INS_SETG :: dt_x86_insn where "dt_X86_INS_SETG \<equiv> 650"
abbreviation (input) dt_X86_INS_SETLE :: dt_x86_insn where "dt_X86_INS_SETLE \<equiv> 651"
abbreviation (input) dt_X86_INS_SETL :: dt_x86_insn where "dt_X86_INS_SETL \<equiv> 652"
abbreviation (input) dt_X86_INS_SETNE :: dt_x86_insn where "dt_X86_INS_SETNE \<equiv> 653"
abbreviation (input) dt_X86_INS_SETNO :: dt_x86_insn where "dt_X86_INS_SETNO \<equiv> 654"
abbreviation (input) dt_X86_INS_SETNP :: dt_x86_insn where "dt_X86_INS_SETNP \<equiv> 655"
abbreviation (input) dt_X86_INS_SETNS :: dt_x86_insn where "dt_X86_INS_SETNS \<equiv> 656"
abbreviation (input) dt_X86_INS_SETO :: dt_x86_insn where "dt_X86_INS_SETO \<equiv> 657"
abbreviation (input) dt_X86_INS_SETP :: dt_x86_insn where "dt_X86_INS_SETP \<equiv> 658"
abbreviation (input) dt_X86_INS_SETS :: dt_x86_insn where "dt_X86_INS_SETS \<equiv> 659"
abbreviation (input) dt_X86_INS_SGDT :: dt_x86_insn where "dt_X86_INS_SGDT \<equiv> 661"
abbreviation (input) dt_X86_INS_SHL :: dt_x86_insn where "dt_X86_INS_SHL \<equiv> 669"
abbreviation (input) dt_X86_INS_SHLD :: dt_x86_insn where "dt_X86_INS_SHLD \<equiv> 670"
abbreviation (input) dt_X86_INS_SHR :: dt_x86_insn where "dt_X86_INS_SHR \<equiv> 672"
abbreviation (input) dt_X86_INS_SHRD :: dt_x86_insn where "dt_X86_INS_SHRD \<equiv> 673"
abbreviation (input) dt_X86_INS_SIDT :: dt_x86_insn where "dt_X86_INS_SIDT \<equiv> 677"
abbreviation (input) dt_X86_INS_SLDT :: dt_x86_insn where "dt_X86_INS_SLDT \<equiv> 679"
abbreviation (input) dt_X86_INS_SMSW :: dt_x86_insn where "dt_X86_INS_SMSW \<equiv> 680"
abbreviation (input) dt_X86_INS_STC :: dt_x86_insn where "dt_X86_INS_STC \<equiv> 686"
abbreviation (input) dt_X86_INS_STD :: dt_x86_insn where "dt_X86_INS_STD \<equiv> 687"
abbreviation (input) dt_X86_INS_STI :: dt_x86_insn where "dt_X86_INS_STI \<equiv> 689"
abbreviation (input) dt_X86_INS_STOSB :: dt_x86_insn where "dt_X86_INS_STOSB \<equiv> 691"
abbreviation (input) dt_X86_INS_STOSD :: dt_x86_insn where "dt_X86_INS_STOSD \<equiv> 692"
abbreviation (input) dt_X86_INS_STOSQ :: dt_x86_insn where "dt_X86_INS_STOSQ \<equiv> 693"
abbreviation (input) dt_X86_INS_STOSW :: dt_x86_insn where "dt_X86_INS_STOSW \<equiv> 694"
abbreviation (input) dt_X86_INS_STR :: dt_x86_insn where "dt_X86_INS_STR \<equiv> 695"
abbreviation (input) dt_X86_INS_SYSCALL :: dt_x86_insn where "dt_X86_INS_SYSCALL \<equiv> 702"
abbreviation (input) dt_X86_INS_SYSENTER :: dt_x86_insn where "dt_X86_INS_SYSENTER \<equiv> 703"
abbreviation (input) dt_X86_INS_SYSEXIT :: dt_x86_insn where "dt_X86_INS_SYSEXIT \<equiv> 704"
abbreviation (input) dt_X86_INS_SYSRET :: dt_x86_insn where "dt_X86_INS_SYSRET \<equiv> 705"
abbreviation (input) dt_X86_INS_TEST :: dt_x86_insn where "dt_X86_INS_TEST \<equiv> 707"
abbreviation (input) dt_X86_INS_TZCNT :: dt_x86_insn where "dt_X86_INS_TZCNT \<equiv> 709"
abbreviation (input) dt_X86_INS_VERR :: dt_x86_insn where "dt_X86_INS_VERR \<equiv> 777"
abbreviation (input) dt_X86_INS_VERW :: dt_x86_insn where "dt_X86_INS_VERW \<equiv> 778"
abbreviation (input) dt_X86_INS_WBINVD :: dt_x86_insn where "dt_X86_INS_WBINVD \<equiv> 1295"
abbreviation (input) dt_X86_INS_WRMSR :: dt_x86_insn where "dt_X86_INS_WRMSR \<equiv> 1298"
abbreviation (input) dt_X86_INS_XCHG :: dt_x86_insn where "dt_X86_INS_XCHG \<equiv> 1302"
abbreviation (input) dt_X86_INS_XLATB :: dt_x86_insn where "dt_X86_INS_XLATB \<equiv> 1310"
abbreviation (input) dt_X86_INS_CMPSD :: dt_x86_insn where "dt_X86_INS_CMPSD \<equiv> 1340"
abbreviation (input) dt_X86_INS_UD0 :: dt_x86_insn where "dt_X86_INS_UD0 \<equiv> 1499"
abbreviation (input) dt_X86_INS_BNDMOV :: dt_x86_insn where "dt_X86_INS_BNDMOV \<equiv> 1503"
abbreviation (input) dt_X86_INS_ENDING :: dt_x86_insn where "dt_X86_INS_ENDING \<equiv> 1504"

end
