(* ===== verification/Glib_Hash.thy ===== *)
theory Glib_Hash
  imports Latx_Prelude
begin

text \<open>
  The part of glib's GHashTable that the translator calls.  glib is not part of the
  repository, so its operations are a parameter: the record \<open>ghash_ops\<close> collects the
  functions, and the locale \<open>ghash\<close> states what the glib manual documents about them
  through an abstraction \<open>\<alpha>\<close> to a finite map.  Keys and values are gpointers, kept as
  64-bit words; a missing key is looked up as NULL.
\<close>

type_synonym gpointer = u64

record 'h ghash_ops =
  g_hash_table_new :: 'h
  g_hash_table_insert :: "'h \<Rightarrow> gpointer \<Rightarrow> gpointer \<Rightarrow> 'h"
  g_hash_table_lookup :: "'h \<Rightarrow> gpointer \<Rightarrow> gpointer"
  g_hash_table_foreach_remove :: "'h \<Rightarrow> (gpointer \<Rightarrow> gpointer \<Rightarrow> bool) \<Rightarrow> 'h"

locale ghash =
  fixes ops :: "'h ghash_ops"
    and \<alpha> :: "'h \<Rightarrow> gpointer \<rightharpoonup> gpointer"
  assumes new: "\<alpha> (g_hash_table_new ops) = Map.empty"
    and insert: "\<alpha> (g_hash_table_insert ops h k v) = (\<alpha> h)(k \<mapsto> v)"
    and lookup: "g_hash_table_lookup ops h k = (case \<alpha> h k of None \<Rightarrow> 0 | Some v \<Rightarrow> v)"
    and foreach_remove: "\<alpha> (g_hash_table_foreach_remove ops h P) k =
          (case \<alpha> h k of None \<Rightarrow> None | Some v \<Rightarrow> if P k v then None else Some v)"
begin

lemma lookup_new: "g_hash_table_lookup ops (g_hash_table_new ops) k = 0"
  by (simp add: lookup new)

lemma lookup_insert:
  "g_hash_table_lookup ops (g_hash_table_insert ops h k v) k' =
    (if k' = k then v else g_hash_table_lookup ops h k')"
  by (simp add: lookup insert)

lemma lookup_foreach_remove_key:
  assumes "\<And>v. P k v = Q k"
  shows "g_hash_table_lookup ops (g_hash_table_foreach_remove ops h P) k =
    (if Q k then 0 else g_hash_table_lookup ops h k)"
  by (simp add: lookup foreach_remove assms split: option.splits)

end

text \<open>An association list with the most recent binding first satisfies the contract.\<close>

definition alist_ghash :: "(gpointer \<times> gpointer) list ghash_ops" where
  "alist_ghash = \<lparr>
     g_hash_table_new = [],
     g_hash_table_insert = (\<lambda>h k v. (k, v) # filter (\<lambda>p. fst p \<noteq> k) h),
     g_hash_table_lookup = (\<lambda>h k. case map_of h k of None \<Rightarrow> 0 | Some v \<Rightarrow> v),
     g_hash_table_foreach_remove = (\<lambda>h P. filter (\<lambda>p. \<not> P (fst p) (the (map_of h (fst p)))) h)\<rparr>"

lemma map_of_filter_key: "map_of (filter (\<lambda>p. Q (fst p)) h) k = (if Q k then map_of h k else None)"
  by (induction h) auto

interpretation alist_hash: ghash alist_ghash map_of
proof
  show "map_of (g_hash_table_new alist_ghash) = Map.empty"
    by (simp add: alist_ghash_def)
next
  fix h k v
  show "map_of (g_hash_table_insert alist_ghash h k v) = (map_of h)(k \<mapsto> v)"
    using map_of_filter_key[of "\<lambda>x. x \<noteq> k" h] by (auto simp: alist_ghash_def fun_eq_iff)
next
  fix h k
  show "g_hash_table_lookup alist_ghash h k = (case map_of h k of None \<Rightarrow> 0 | Some v \<Rightarrow> v)"
    by (simp add: alist_ghash_def)
next
  fix h P k
  show "map_of (g_hash_table_foreach_remove alist_ghash h P) k =
      (case map_of h k of None \<Rightarrow> None | Some v \<Rightarrow> if P k v then None else Some v)"
    using map_of_filter_key[of "\<lambda>x. \<not> P x (the (map_of h x))" h k]
    by (auto simp: alist_ghash_def split: option.splits)
qed

end
