(* ===== verification/Pc_Thunk.thy ===== *)
theory Pc_Thunk
  imports Glib_Hash
begin

text \<open>
  The table of x86 pc-thunk functions of latx-config.c: a hash table from the address of
  a thunk to the general register it loads with the return address.  A register number is
  stored incremented by one, so that NULL can stand for a miss.
\<close>

definition GINT_TO_POINTER :: "32 word \<Rightarrow> gpointer" where
  "GINT_TO_POINTER i = scast i"

definition GPOINTER_TO_INT :: "gpointer \<Rightarrow> 32 word" where
  "GPOINTER_TO_INT p = ucast p"

definition GUINT_TO_POINTER :: "u32 \<Rightarrow> gpointer" where
  "GUINT_TO_POINTER u = ucast u"

definition GPOINTER_TO_UINT :: "gpointer \<Rightarrow> u32" where
  "GPOINTER_TO_UINT p = ucast p"

definition ht_pc_thunk_insert :: "'h ghash_ops \<Rightarrow> 'h \<Rightarrow> u32 \<Rightarrow> 32 word \<Rightarrow> 'h" where
  "ht_pc_thunk_insert ops ht_pc_thunk thunk_addr reg_index =
     g_hash_table_insert ops ht_pc_thunk (GUINT_TO_POINTER thunk_addr)
       (GINT_TO_POINTER (reg_index + 1))"

definition ht_pc_thunk_lookup :: "'h ghash_ops \<Rightarrow> 'h \<Rightarrow> u32 \<Rightarrow> 32 word" where
  "ht_pc_thunk_lookup ops ht_pc_thunk thunk_addr =
    (let reg_index = GPOINTER_TO_INT (g_hash_table_lookup ops ht_pc_thunk (GUINT_TO_POINTER thunk_addr))
     in if reg_index \<noteq> 0 then reg_index - 1 else -1)"

definition remove_thunk_entry :: "gpointer \<Rightarrow> u64 \<Rightarrow> bool" where
  "remove_thunk_entry key data =
    (let thunk_addr = GPOINTER_TO_UINT key;
         start = (ucast (drop_bit 32 data) :: u32);
         stop = (ucast (data AND 0xffffffff) :: u32)
     in thunk_addr \<ge> start \<and> thunk_addr < stop)"

definition ht_pc_thunk_invalidate :: "'h ghash_ops \<Rightarrow> 'h \<Rightarrow> u32 \<Rightarrow> u32 \<Rightarrow> 'h" where
  "ht_pc_thunk_invalidate ops ht_pc_thunk start stop =
    (let data = push_bit 32 (ucast start :: u64) OR ucast stop
     in g_hash_table_foreach_remove ops ht_pc_thunk (\<lambda>key value. remove_thunk_entry key data))"

lemma pointer_int_inverse [simp]: "GPOINTER_TO_INT (GINT_TO_POINTER i) = i"
  unfolding GPOINTER_TO_INT_def GINT_TO_POINTER_def
  by (rule bit_word_eqI) (simp add: bit_simps)

lemma pointer_uint_inverse [simp]: "GPOINTER_TO_UINT (GUINT_TO_POINTER u) = u"
  unfolding GPOINTER_TO_UINT_def GUINT_TO_POINTER_def
  by (rule bit_word_eqI) (auto simp: bit_simps)

lemma uint_pointer_inj [simp]: "GUINT_TO_POINTER a = GUINT_TO_POINTER b \<longleftrightarrow> a = b"
  by (metis pointer_uint_inverse)

lemma remove_thunk_entry_packed:
  "remove_thunk_entry (GUINT_TO_POINTER a) (push_bit 32 (ucast start :: u64) OR ucast stop)
     \<longleftrightarrow> start \<le> a \<and> a < stop"
proof -
  let ?d = "push_bit 32 (ucast start :: u64) OR ucast stop"
  have "(ucast (drop_bit 32 ?d) :: u32) = start"
    by (rule bit_word_eqI) (auto simp: bit_simps dest: bit_imp_le_length)
  moreover have "(ucast (?d AND 0xffffffff) :: u32) = stop"
  proof -
    have m: "(0xffffffff :: u64) = mask 32" by (simp add: mask_eq_exp_minus_1)
    show ?thesis unfolding m by (rule bit_word_eqI) (auto simp: bit_simps)
  qed
  ultimately show ?thesis by (simp add: remove_thunk_entry_def)
qed

lemma ht_pc_thunk_lookup_insert_lemma:
  assumes "ghash ops \<alpha>" and "reg_index \<noteq> -1"
  shows "ht_pc_thunk_lookup ops (ht_pc_thunk_insert ops h a reg_index) b =
    (if b = a then reg_index else ht_pc_thunk_lookup ops h b)"
proof -
  have "reg_index + 1 \<noteq> 0"
    using assms(2) by (metis add_eq_0_iff2 eq_neg_iff_add_eq_0)
  then show ?thesis
    by (simp add: ht_pc_thunk_lookup_def ht_pc_thunk_insert_def ghash.lookup_insert[OF assms(1)] Let_def)
qed

lemma ht_pc_thunk_lookup_invalidate_lemma:
  assumes "ghash ops \<alpha>"
  shows "ht_pc_thunk_lookup ops (ht_pc_thunk_invalidate ops h start stop) a =
    (if start \<le> a \<and> a < stop then -1 else ht_pc_thunk_lookup ops h a)"
proof -
  let ?d = "push_bit 32 (ucast start :: u64) OR ucast stop"
  have "g_hash_table_lookup ops (ht_pc_thunk_invalidate ops h start stop) (GUINT_TO_POINTER a) =
    (if start \<le> a \<and> a < stop then 0 else g_hash_table_lookup ops h (GUINT_TO_POINTER a))"
    unfolding ht_pc_thunk_invalidate_def Let_def
    using ghash.lookup_foreach_remove_key[OF assms, where P = "\<lambda>k v. remove_thunk_entry k ?d"
        and Q = "\<lambda>k. remove_thunk_entry k ?d"]
    by (simp add: remove_thunk_entry_packed)
  then show ?thesis
    by (simp add: ht_pc_thunk_lookup_def Let_def GPOINTER_TO_INT_def)
qed

end
