(* ===== verification/X86_Ir1.thy ===== *)
theory X86_Ir1
  imports X86_Enums Pc_Thunk
begin

text \<open>
  The x86 instruction as the translator sees it (IR1): the operand structure of
  include/x86.h, the instruction structures of include/latx-disassemble-trace.h and
  include/ir1.h, and the accessors and classification predicates of ir1/ir1.c, in the
  order of that file.

  The operand's union of reg, imm and mem is kept with its layout: imm is the whole
  first 8 bytes, reg and mem.segment are its low 32 bits (the host is little endian),
  mem.default\_segment its high 32 bits, and base, index, scale and disp follow it.
  The parameter \<open>t\<close> is the build target, see the prelude.
\<close>

section \<open>Operands and instructions\<close>

abbreviation (input) dt_X86_OP_INVALID :: nat where "dt_X86_OP_INVALID \<equiv> 0"
abbreviation (input) dt_X86_OP_REG :: nat where "dt_X86_OP_REG \<equiv> 1"
abbreviation (input) dt_X86_OP_IMM :: nat where "dt_X86_OP_IMM \<equiv> 2"
abbreviation (input) dt_X86_OP_MEM :: nat where "dt_X86_OP_MEM \<equiv> 3"

abbreviation (input) dt_X86_AVX_BCAST_INVALID :: nat where "dt_X86_AVX_BCAST_INVALID \<equiv> 0"

abbreviation (input) dt_X86_PREFIX_LOCK :: u8 where "dt_X86_PREFIX_LOCK \<equiv> 0xf0"
abbreviation (input) dt_X86_PREFIX_REPE :: u8 where "dt_X86_PREFIX_REPE \<equiv> 0xf3"
abbreviation (input) dt_X86_PREFIX_REPNE :: u8 where "dt_X86_PREFIX_REPNE \<equiv> 0xf2"

record ir1_opnd =
  op_type :: nat
  op_imm :: u64
  op_mem_base :: dt_x86_reg
  op_mem_index :: dt_x86_reg
  op_mem_scale :: int
  op_mem_disp :: u64
  op_size :: u8
  op_avx_bcast :: nat

definition op_reg :: "ir1_opnd \<Rightarrow> dt_x86_reg" where
  "op_reg opnd = unat (trunc32 (op_imm opnd))"

definition op_mem_segment :: "ir1_opnd \<Rightarrow> dt_x86_reg" where
  "op_mem_segment opnd = unat (trunc32 (op_imm opnd))"

definition set_low32 :: "nat \<Rightarrow> u64 \<Rightarrow> u64" where
  "set_low32 r w = (w AND 0xffffffff00000000) OR zext32 (of_nat r)"

record ir1_inst =
  i_prefix :: "u8 list"
  i_opcode :: "u8 list"
  i_addr_size :: u8
  i_rex :: u8
  i_op_count :: u8
  i_operands :: "ir1_opnd list"
  i_size :: u16
  i_address :: u64
  i_bytes :: "u8 list"
  i_id :: dt_x86_insn
  i_eflag_use :: u8
  i_eflag_def :: u8

text \<open>The arrays of the C structures have fixed lengths.\<close>

definition ir1_wf :: "ir1_inst \<Rightarrow> bool" where
  "ir1_wf ir1 \<longleftrightarrow> length (i_prefix ir1) = 4 \<and> length (i_opcode ir1) = 4 \<and>
     length (i_operands ir1) = 8 \<and> length (i_bytes ir1) = 24 \<and> i_op_count ir1 \<le> 8"

section \<open>Building operands\<close>

definition ir1_opnd_build_reg :: "int \<Rightarrow> dt_x86_reg \<Rightarrow> ir1_opnd \<Rightarrow> ir1_opnd" where
  "ir1_opnd_build_reg sz reg opnd = opnd\<lparr>op_type := dt_X86_OP_REG,
     op_size := of_int (sz div 8), op_imm := set_low32 reg (op_imm opnd),
     op_avx_bcast := dt_X86_AVX_BCAST_INVALID\<rparr>"

definition ir1_opnd_build_imm :: "int \<Rightarrow> u64 \<Rightarrow> ir1_opnd \<Rightarrow> ir1_opnd" where
  "ir1_opnd_build_imm sz imm opnd = opnd\<lparr>op_type := dt_X86_OP_IMM,
     op_size := of_int (sz div 8), op_imm := imm,
     op_avx_bcast := dt_X86_AVX_BCAST_INVALID\<rparr>"

definition ir1_opnd_build_mem :: "int \<Rightarrow> dt_x86_reg \<Rightarrow> u64 \<Rightarrow> ir1_opnd \<Rightarrow> ir1_opnd" where
  "ir1_opnd_build_mem sz base disp opnd = opnd\<lparr>op_type := dt_X86_OP_MEM,
     op_size := of_int (sz div 8), op_mem_base := base, op_mem_disp := disp,
     op_mem_index := dt_X86_REG_INVALID, op_mem_scale := 0,
     op_imm := set_low32 dt_X86_REG_INVALID (op_imm opnd),
     op_avx_bcast := dt_X86_AVX_BCAST_INVALID\<rparr>"

section \<open>Sizes, register numbers and immediates\<close>

definition ir1_opnd_size :: "ir1_opnd \<Rightarrow> int" where
  "ir1_opnd_size opnd = push_bit 3 (uint (op_size opnd))"

definition ir1_addr_size :: "ir1_inst \<Rightarrow> int" where
  "ir1_addr_size inst = push_bit 3 (uint (i_addr_size inst))"

definition ir1_opcode :: "ir1_inst \<Rightarrow> dt_x86_insn" where
  "ir1_opcode ir1 = i_id ir1"

definition ir1_prefix :: "ir1_inst \<Rightarrow> u8" where
  "ir1_prefix ir1 = i_prefix ir1 ! 0"

definition ir1_prefix_opnd_size :: "ir1_inst \<Rightarrow> u8" where
  "ir1_prefix_opnd_size ir1 = i_prefix ir1 ! 2"

definition ir1_get_opnd_size :: "target \<Rightarrow> ir1_inst \<Rightarrow> int" where
  "ir1_get_opnd_size t inst =
    (if ir1_opcode inst \<in> {dt_X86_INS_CALL, dt_X86_INS_LCALL, dt_X86_INS_RET, dt_X86_INS_RETF,
         dt_X86_INS_ENTER, dt_X86_INS_LEAVE} then
       if \<not> TARGET_X86_64 t then if ir1_prefix_opnd_size inst \<noteq> 0 then 16 else 32
       else if \<not> CODEIS64 t then if ir1_prefix_opnd_size inst \<noteq> 0 then 16 else 32
       else 64
     else 0)"

definition ir1_opnd_base_reg_bits_start :: "ir1_opnd \<Rightarrow> int" where
  "ir1_opnd_base_reg_bits_start opnd =
    (if op_reg opnd \<in> {dt_X86_REG_AH, dt_X86_REG_BH, dt_X86_REG_CH, dt_X86_REG_DH} then 8 else 0)"

definition ir1_opnd_vsib_index_reg_num :: "ir1_opnd \<Rightarrow> int" where
  "ir1_opnd_vsib_index_reg_num opnd =
    (let index = op_mem_index opnd in
     if index \<le> dt_X86_REG_XMM15 then int index - int dt_X86_REG_XMM0
     else int index - int dt_X86_REG_YMM0)"

definition ir1_index_reg_is_ymm :: "ir1_opnd \<Rightarrow> bool" where
  "ir1_index_reg_is_ymm opnd =
    (let index = op_mem_index opnd in dt_X86_REG_YMM0 \<le> index \<and> index \<le> dt_X86_REG_YMM15)"

abbreviation (input) eax_index :: int where "eax_index \<equiv> 0"
abbreviation (input) ecx_index :: int where "ecx_index \<equiv> 1"
abbreviation (input) edx_index :: int where "edx_index \<equiv> 2"
abbreviation (input) ebx_index :: int where "ebx_index \<equiv> 3"
abbreviation (input) esp_index :: int where "esp_index \<equiv> 4"
abbreviation (input) ebp_index :: int where "ebp_index \<equiv> 5"
abbreviation (input) esi_index :: int where "esi_index \<equiv> 6"
abbreviation (input) edi_index :: int where "edi_index \<equiv> 7"
abbreviation (input) r8_index :: int where "r8_index \<equiv> 8"
abbreviation (input) r9_index :: int where "r9_index \<equiv> 9"
abbreviation (input) r10_index :: int where "r10_index \<equiv> 10"
abbreviation (input) r11_index :: int where "r11_index \<equiv> 11"
abbreviation (input) r12_index :: int where "r12_index \<equiv> 12"
abbreviation (input) r13_index :: int where "r13_index \<equiv> 13"
abbreviation (input) r14_index :: int where "r14_index \<equiv> 14"
abbreviation (input) r15_index :: int where "r15_index \<equiv> 15"
abbreviation (input) riz_index :: int where "riz_index \<equiv> 16"
abbreviation (input) es_index :: int where "es_index \<equiv> 0"
abbreviation (input) cs_index :: int where "cs_index \<equiv> 1"
abbreviation (input) ss_index :: int where "ss_index \<equiv> 2"
abbreviation (input) ds_index :: int where "ds_index \<equiv> 3"
abbreviation (input) fs_index :: int where "fs_index \<equiv> 4"
abbreviation (input) gs_index :: int where "gs_index \<equiv> 5"

definition ir1_opnd_index_reg_num :: "target \<Rightarrow> ir1_opnd \<Rightarrow> int" where
  "ir1_opnd_index_reg_num t opnd = (let r = op_mem_index opnd in
     if r \<in> {dt_X86_REG_AL, dt_X86_REG_AH, dt_X86_REG_AX,
         dt_X86_REG_EAX} \<or> TARGET_X86_64 t \<and> r \<in> {dt_X86_REG_RAX} then eax_index
     else if r \<in> {dt_X86_REG_BL, dt_X86_REG_BH, dt_X86_REG_BX,
         dt_X86_REG_EBX} \<or> TARGET_X86_64 t \<and> r \<in> {dt_X86_REG_RBX} then ebx_index
     else if r \<in> {dt_X86_REG_CL, dt_X86_REG_CH, dt_X86_REG_CX,
         dt_X86_REG_ECX} \<or> TARGET_X86_64 t \<and> r \<in> {dt_X86_REG_RCX} then ecx_index
     else if r \<in> {dt_X86_REG_DL, dt_X86_REG_DH, dt_X86_REG_DX,
         dt_X86_REG_EDX} \<or> TARGET_X86_64 t \<and> r \<in> {dt_X86_REG_RDX} then edx_index
     else if r \<in> {dt_X86_REG_BP,
         dt_X86_REG_EBP} \<or> TARGET_X86_64 t \<and> r \<in> {dt_X86_REG_RBP,
         dt_X86_REG_BPL} then ebp_index
     else if r \<in> {dt_X86_REG_SI,
         dt_X86_REG_ESI} \<or> TARGET_X86_64 t \<and> r \<in> {dt_X86_REG_RSI,
         dt_X86_REG_SIL} then esi_index
     else if r \<in> {dt_X86_REG_DI,
         dt_X86_REG_EDI} \<or> TARGET_X86_64 t \<and> r \<in> {dt_X86_REG_RDI,
         dt_X86_REG_DIL} then edi_index
     else if r \<in> {dt_X86_REG_SP,
         dt_X86_REG_ESP} \<or> TARGET_X86_64 t \<and> r \<in> {dt_X86_REG_RSP,
         dt_X86_REG_SPL} then esp_index
     else if r \<in> {dt_X86_REG_CS} then cs_index
     else if r \<in> {dt_X86_REG_DS} then ds_index
     else if r \<in> {dt_X86_REG_SS} then ss_index
     else if r \<in> {dt_X86_REG_ES} then es_index
     else if r \<in> {dt_X86_REG_GS} then gs_index
     else if r \<in> {dt_X86_REG_FS} then fs_index
     else if TARGET_X86_64 t \<and> r \<in> {dt_X86_REG_R8B, dt_X86_REG_R8W, dt_X86_REG_R8D,
         dt_X86_REG_R8} then r8_index
     else if TARGET_X86_64 t \<and> r \<in> {dt_X86_REG_R9B, dt_X86_REG_R9W, dt_X86_REG_R9D,
         dt_X86_REG_R9} then r9_index
     else if TARGET_X86_64 t \<and> r \<in> {dt_X86_REG_R10B, dt_X86_REG_R10W, dt_X86_REG_R10D,
         dt_X86_REG_R10} then r10_index
     else if TARGET_X86_64 t \<and> r \<in> {dt_X86_REG_R11B, dt_X86_REG_R11W, dt_X86_REG_R11D,
         dt_X86_REG_R11} then r11_index
     else if TARGET_X86_64 t \<and> r \<in> {dt_X86_REG_R12B, dt_X86_REG_R12W, dt_X86_REG_R12D,
         dt_X86_REG_R12} then r12_index
     else if TARGET_X86_64 t \<and> r \<in> {dt_X86_REG_R13B, dt_X86_REG_R13W, dt_X86_REG_R13D,
         dt_X86_REG_R13} then r13_index
     else if TARGET_X86_64 t \<and> r \<in> {dt_X86_REG_R14B, dt_X86_REG_R14W, dt_X86_REG_R14D,
         dt_X86_REG_R14} then r14_index
     else if TARGET_X86_64 t \<and> r \<in> {dt_X86_REG_R15B, dt_X86_REG_R15W, dt_X86_REG_R15D,
         dt_X86_REG_R15} then r15_index
     else if TARGET_X86_64 t \<and> r \<in> {dt_X86_REG_RIZ} then riz_index
     else -1)"

text \<open>The switch of \<open>ir1_opnd_base_reg_num\<close> in its two halves: the general registers, then
  segment, MMX, SSE, AVX and x87 registers.\<close>

definition base_reg_num_gpr :: "target \<Rightarrow> dt_x86_reg \<Rightarrow> int option" where
  "base_reg_num_gpr t r = (
     if r \<in> {dt_X86_REG_AL, dt_X86_REG_AH, dt_X86_REG_AX,
         dt_X86_REG_EAX} \<or> TARGET_X86_64 t \<and> r \<in> {dt_X86_REG_RAX} then Some eax_index
     else if r \<in> {dt_X86_REG_BL, dt_X86_REG_BH, dt_X86_REG_BX,
         dt_X86_REG_EBX} \<or> TARGET_X86_64 t \<and> r \<in> {dt_X86_REG_RBX} then Some ebx_index
     else if r \<in> {dt_X86_REG_CL, dt_X86_REG_CH, dt_X86_REG_CX,
         dt_X86_REG_ECX} \<or> TARGET_X86_64 t \<and> r \<in> {dt_X86_REG_RCX} then Some ecx_index
     else if r \<in> {dt_X86_REG_DL, dt_X86_REG_DH, dt_X86_REG_DX,
         dt_X86_REG_EDX} \<or> TARGET_X86_64 t \<and> r \<in> {dt_X86_REG_RDX} then Some edx_index
     else if r \<in> {dt_X86_REG_BP,
         dt_X86_REG_EBP} \<or> TARGET_X86_64 t \<and> r \<in> {dt_X86_REG_RBP,
         dt_X86_REG_BPL} then Some ebp_index
     else if r \<in> {dt_X86_REG_SI,
         dt_X86_REG_ESI} \<or> TARGET_X86_64 t \<and> r \<in> {dt_X86_REG_RSI,
         dt_X86_REG_SIL} then Some esi_index
     else if r \<in> {dt_X86_REG_DI,
         dt_X86_REG_EDI} \<or> TARGET_X86_64 t \<and> r \<in> {dt_X86_REG_RDI,
         dt_X86_REG_DIL} then Some edi_index
     else if r \<in> {dt_X86_REG_SP,
         dt_X86_REG_ESP} \<or> TARGET_X86_64 t \<and> r \<in> {dt_X86_REG_RSP,
         dt_X86_REG_SPL} then Some esp_index
     else if TARGET_X86_64 t \<and> r \<in> {dt_X86_REG_R8B, dt_X86_REG_R8W, dt_X86_REG_R8D,
         dt_X86_REG_R8} then Some r8_index
     else if TARGET_X86_64 t \<and> r \<in> {dt_X86_REG_R9B, dt_X86_REG_R9W, dt_X86_REG_R9D,
         dt_X86_REG_R9} then Some r9_index
     else if TARGET_X86_64 t \<and> r \<in> {dt_X86_REG_R10B, dt_X86_REG_R10W, dt_X86_REG_R10D,
         dt_X86_REG_R10} then Some r10_index
     else if TARGET_X86_64 t \<and> r \<in> {dt_X86_REG_R11B, dt_X86_REG_R11W, dt_X86_REG_R11D,
         dt_X86_REG_R11} then Some r11_index
     else if TARGET_X86_64 t \<and> r \<in> {dt_X86_REG_R12B, dt_X86_REG_R12W, dt_X86_REG_R12D,
         dt_X86_REG_R12} then Some r12_index
     else if TARGET_X86_64 t \<and> r \<in> {dt_X86_REG_R13B, dt_X86_REG_R13W, dt_X86_REG_R13D,
         dt_X86_REG_R13} then Some r13_index
     else if TARGET_X86_64 t \<and> r \<in> {dt_X86_REG_R14B, dt_X86_REG_R14W, dt_X86_REG_R14D,
         dt_X86_REG_R14} then Some r14_index
     else if TARGET_X86_64 t \<and> r \<in> {dt_X86_REG_R15B, dt_X86_REG_R15W, dt_X86_REG_R15D,
         dt_X86_REG_R15} then Some r15_index
     else None)"

definition base_reg_num_other :: "target \<Rightarrow> dt_x86_reg \<Rightarrow> int" where
  "base_reg_num_other t r = (
     if r \<in> {dt_X86_REG_CS} then cs_index
     else if r \<in> {dt_X86_REG_DS} then ds_index
     else if r \<in> {dt_X86_REG_SS} then ss_index
     else if r \<in> {dt_X86_REG_ES} then es_index
     else if r \<in> {dt_X86_REG_GS} then gs_index
     else if r \<in> {dt_X86_REG_FS} then fs_index
     else if r \<in> {dt_X86_REG_MM0} then 0
     else if r \<in> {dt_X86_REG_MM1} then 1
     else if r \<in> {dt_X86_REG_MM2} then 2
     else if r \<in> {dt_X86_REG_MM3} then 3
     else if r \<in> {dt_X86_REG_MM4} then 4
     else if r \<in> {dt_X86_REG_MM5} then 5
     else if r \<in> {dt_X86_REG_MM6} then 6
     else if r \<in> {dt_X86_REG_MM7} then 7
     else if r \<in> {dt_X86_REG_XMM0} then 0
     else if r \<in> {dt_X86_REG_XMM1} then 1
     else if r \<in> {dt_X86_REG_XMM2} then 2
     else if r \<in> {dt_X86_REG_XMM3} then 3
     else if r \<in> {dt_X86_REG_XMM4} then 4
     else if r \<in> {dt_X86_REG_XMM5} then 5
     else if r \<in> {dt_X86_REG_XMM6} then 6
     else if r \<in> {dt_X86_REG_XMM7} then 7
     else if r \<in> {dt_X86_REG_YMM0} then 0
     else if r \<in> {dt_X86_REG_YMM1} then 1
     else if r \<in> {dt_X86_REG_YMM2} then 2
     else if r \<in> {dt_X86_REG_YMM3} then 3
     else if r \<in> {dt_X86_REG_YMM4} then 4
     else if r \<in> {dt_X86_REG_YMM5} then 5
     else if r \<in> {dt_X86_REG_YMM6} then 6
     else if r \<in> {dt_X86_REG_YMM7} then 7
     else if TARGET_X86_64 t \<and> r \<in> {dt_X86_REG_XMM8} then 8
     else if TARGET_X86_64 t \<and> r \<in> {dt_X86_REG_XMM9} then 9
     else if TARGET_X86_64 t \<and> r \<in> {dt_X86_REG_XMM10} then 10
     else if TARGET_X86_64 t \<and> r \<in> {dt_X86_REG_XMM11} then 11
     else if TARGET_X86_64 t \<and> r \<in> {dt_X86_REG_XMM12} then 12
     else if TARGET_X86_64 t \<and> r \<in> {dt_X86_REG_XMM13} then 13
     else if TARGET_X86_64 t \<and> r \<in> {dt_X86_REG_XMM14} then 14
     else if TARGET_X86_64 t \<and> r \<in> {dt_X86_REG_XMM15} then 15
     else if TARGET_X86_64 t \<and> r \<in> {dt_X86_REG_YMM8} then 8
     else if TARGET_X86_64 t \<and> r \<in> {dt_X86_REG_YMM9} then 9
     else if TARGET_X86_64 t \<and> r \<in> {dt_X86_REG_YMM10} then 10
     else if TARGET_X86_64 t \<and> r \<in> {dt_X86_REG_YMM11} then 11
     else if TARGET_X86_64 t \<and> r \<in> {dt_X86_REG_YMM12} then 12
     else if TARGET_X86_64 t \<and> r \<in> {dt_X86_REG_YMM13} then 13
     else if TARGET_X86_64 t \<and> r \<in> {dt_X86_REG_YMM14} then 14
     else if TARGET_X86_64 t \<and> r \<in> {dt_X86_REG_YMM15} then 15
     else if r \<in> {dt_X86_REG_ST0} then 0
     else if r \<in> {dt_X86_REG_ST1} then 1
     else if r \<in> {dt_X86_REG_ST2} then 2
     else if r \<in> {dt_X86_REG_ST3} then 3
     else if r \<in> {dt_X86_REG_ST4} then 4
     else if r \<in> {dt_X86_REG_ST5} then 5
     else if r \<in> {dt_X86_REG_ST6} then 6
     else if r \<in> {dt_X86_REG_ST7} then 7
     else -1)"

definition ir1_opnd_base_reg_num :: "target \<Rightarrow> ir1_opnd \<Rightarrow> int" where
  "ir1_opnd_base_reg_num t opnd =
    (if op_type opnd = dt_X86_OP_MEM \<and> op_mem_base opnd = dt_X86_REG_INVALID then -1
     else let r = (if op_type opnd = dt_X86_OP_REG then op_reg opnd else op_mem_base opnd) in
       case base_reg_num_gpr t r of Some n \<Rightarrow> n | None \<Rightarrow> base_reg_num_other t r)"

definition ir1_opnd_is_imm :: "ir1_opnd \<Rightarrow> bool" where
  "ir1_opnd_is_imm opnd = (op_type opnd = dt_X86_OP_IMM)"

definition ir1_opnd_is_mem :: "ir1_opnd \<Rightarrow> bool" where
  "ir1_opnd_is_mem opnd = (op_type opnd = dt_X86_OP_MEM)"

text \<open>Conversion to longx and ulongx: 32 bits wide on the i386 target, 64 otherwise.  The
  value is returned in 64 bits: sign extended for longx, zero extended for ulongx.\<close>

definition to_longx :: "target \<Rightarrow> u64 \<Rightarrow> u64" where
  "to_longx t w = (if TARGET_X86_64 t then w else sext32 (trunc32 w))"

definition to_ulongx :: "target \<Rightarrow> u64 \<Rightarrow> u64" where
  "to_ulongx t w = (if TARGET_X86_64 t then w else zext32 (trunc32 w))"

definition ir1_opnd_simm :: "target \<Rightarrow> ir1_opnd \<Rightarrow> u64 result" where
  "ir1_opnd_simm t opnd =
    (if ir1_opnd_is_imm opnd then
       if ir1_opnd_size opnd = 8 then Inr (to_longx t (sext8 (trunc8 (op_imm opnd))))
       else if ir1_opnd_size opnd = 16 then Inr (to_longx t (sext16 (trunc16 (op_imm opnd))))
       else if ir1_opnd_size opnd = 32 then Inr (to_longx t (sext32 (trunc32 (op_imm opnd))))
       else if ir1_opnd_size opnd = 64 then Inr (to_longx t (op_imm opnd))
       else Inl Abort
     else if ir1_opnd_is_mem opnd then Inr (to_longx t (op_mem_disp opnd))
     else Inl Abort)"

definition ir1_opnd_uimm_addr :: "target \<Rightarrow> ir1_opnd \<Rightarrow> u64 result" where
  "ir1_opnd_uimm_addr t opnd =
    (if ir1_opnd_is_imm opnd then Inr (to_ulongx t (op_imm opnd))
     else if ir1_opnd_is_mem opnd then Inr (to_ulongx t (op_mem_disp opnd))
     else Inl Abort)"

definition ir1_opnd_uimm :: "target \<Rightarrow> ir1_opnd \<Rightarrow> u64 result" where
  "ir1_opnd_uimm t opnd =
    (if ir1_opnd_is_imm opnd then
       if ir1_opnd_size opnd = 8 then Inr (to_ulongx t (zext8 (trunc8 (op_imm opnd))))
       else if ir1_opnd_size opnd = 16 then Inr (to_ulongx t (zext16 (trunc16 (op_imm opnd))))
       else if ir1_opnd_size opnd = 32 then Inr (to_ulongx t (zext32 (trunc32 (op_imm opnd))))
       else if ir1_opnd_size opnd = 64 then Inr (to_ulongx t (op_imm opnd))
       else Inl Abort
     else if ir1_opnd_is_mem opnd then Inr (to_ulongx t (op_mem_disp opnd))
     else Inl Abort)"

definition ir1_opnd_u2simm :: "target \<Rightarrow> ir1_opnd \<Rightarrow> u64 result" where
  "ir1_opnd_u2simm t opnd =
    (if ir1_opnd_size opnd = 8 then Inr (to_longx t (zext8 (trunc8 (op_imm opnd))))
     else if ir1_opnd_size opnd = 16 then Inr (to_longx t (zext16 (trunc16 (op_imm opnd))))
     else if ir1_opnd_size opnd = 32 then Inr (to_longx t (zext32 (trunc32 (op_imm opnd))))
     else if ir1_opnd_size opnd = 64 then Inr (to_longx t (op_imm opnd))
     else Inl Abort)"

definition ir1_opnd_s2uimm :: "target \<Rightarrow> ir1_opnd \<Rightarrow> u64 result" where
  "ir1_opnd_s2uimm t opnd =
    (if ir1_opnd_size opnd = 8 then Inr (to_ulongx t (sext8 (trunc8 (op_imm opnd))))
     else if ir1_opnd_size opnd = 16 then Inr (to_ulongx t (sext16 (trunc16 (op_imm opnd))))
     else if ir1_opnd_size opnd = 32 then Inr (to_ulongx t (sext32 (trunc32 (op_imm opnd))))
     else if ir1_opnd_size opnd = 64 then Inr (to_ulongx t (op_imm opnd))
     else Inl Abort)"

section \<open>Register classes\<close>

definition ir1_opnd_is_8h :: "ir1_opnd \<Rightarrow> bool" where
  "ir1_opnd_is_8h opnd \<longleftrightarrow> op_type opnd = dt_X86_OP_REG \<and> op_size opnd = 1 \<and>
     op_reg opnd \<in> {dt_X86_REG_AH, dt_X86_REG_BH, dt_X86_REG_CH, dt_X86_REG_DH}"

definition ir1_opnd_is_8l :: "target \<Rightarrow> ir1_opnd \<Rightarrow> bool" where
  "ir1_opnd_is_8l t opnd =
    (if \<not> TARGET_X86_64 t \<or> \<not> CODEIS64 t then
       op_type opnd = dt_X86_OP_REG \<and> op_size opnd = 1 \<and>
       op_reg opnd \<in> {dt_X86_REG_AL, dt_X86_REG_BL, dt_X86_REG_CL, dt_X86_REG_DL}
     else
       op_type opnd = dt_X86_OP_REG \<and> op_size opnd = 1 \<and>
       op_reg opnd \<in> {dt_X86_REG_AL, dt_X86_REG_BL, dt_X86_REG_CL, dt_X86_REG_DL,
         dt_X86_REG_R8B, dt_X86_REG_R9B, dt_X86_REG_R10B, dt_X86_REG_R11B,
         dt_X86_REG_R12B, dt_X86_REG_R13B, dt_X86_REG_R14B, dt_X86_REG_R15B,
         dt_X86_REG_SPL, dt_X86_REG_BPL, dt_X86_REG_SIL, dt_X86_REG_DIL})"

definition ir1_opnd_is_16bit :: "target \<Rightarrow> ir1_opnd \<Rightarrow> bool" where
  "ir1_opnd_is_16bit t opnd =
    (if \<not> TARGET_X86_64 t \<or> \<not> CODEIS64 t then
       op_type opnd = dt_X86_OP_REG \<and> op_size opnd = 2 \<and>
       op_reg opnd \<in> {dt_X86_REG_AX, dt_X86_REG_BX, dt_X86_REG_CX, dt_X86_REG_DX,
         dt_X86_REG_SP, dt_X86_REG_BP, dt_X86_REG_SI, dt_X86_REG_DI}
     else
       op_type opnd = dt_X86_OP_REG \<and> op_size opnd = 2 \<and>
       op_reg opnd \<in> {dt_X86_REG_AX, dt_X86_REG_BX, dt_X86_REG_CX, dt_X86_REG_DX,
         dt_X86_REG_R8W, dt_X86_REG_R9W, dt_X86_REG_R10W, dt_X86_REG_R11W,
         dt_X86_REG_R12W, dt_X86_REG_R13W, dt_X86_REG_R14W, dt_X86_REG_R15W,
         dt_X86_REG_SP, dt_X86_REG_BP, dt_X86_REG_SI, dt_X86_REG_DI})"

definition ir1_opnd_is_32bit :: "target \<Rightarrow> ir1_opnd \<Rightarrow> bool" where
  "ir1_opnd_is_32bit t opnd =
    (if \<not> TARGET_X86_64 t \<or> \<not> CODEIS64 t then
       op_type opnd = dt_X86_OP_REG \<and> op_size opnd = 4 \<and>
       op_reg opnd \<in> {dt_X86_REG_EAX, dt_X86_REG_EBX, dt_X86_REG_ECX, dt_X86_REG_EDX,
         dt_X86_REG_ESP, dt_X86_REG_EBP, dt_X86_REG_ESI, dt_X86_REG_EDI}
     else
       op_type opnd = dt_X86_OP_REG \<and> op_size opnd = 4 \<and>
       op_reg opnd \<in> {dt_X86_REG_EAX, dt_X86_REG_EBX, dt_X86_REG_ECX, dt_X86_REG_EDX,
         dt_X86_REG_R8D, dt_X86_REG_R9D, dt_X86_REG_R10D, dt_X86_REG_R11D,
         dt_X86_REG_R12D, dt_X86_REG_R13D, dt_X86_REG_R14D, dt_X86_REG_R15D,
         dt_X86_REG_ESP, dt_X86_REG_EBP, dt_X86_REG_ESI, dt_X86_REG_EDI})"

definition ir1_opnd_is_64bit :: "ir1_opnd \<Rightarrow> bool" where
  "ir1_opnd_is_64bit opnd \<longleftrightarrow> op_type opnd = dt_X86_OP_REG \<and> op_size opnd = 8 \<and>
     op_reg opnd \<in> {dt_X86_REG_RAX, dt_X86_REG_RBX, dt_X86_REG_RCX, dt_X86_REG_RDX,
       dt_X86_REG_R8, dt_X86_REG_R9, dt_X86_REG_R10, dt_X86_REG_R11,
       dt_X86_REG_R12, dt_X86_REG_R13, dt_X86_REG_R14, dt_X86_REG_R15,
       dt_X86_REG_RSP, dt_X86_REG_RBP, dt_X86_REG_RSI, dt_X86_REG_RDI}"

definition ir1_opnd_is_gpr :: "target \<Rightarrow> ir1_opnd \<Rightarrow> bool" where
  "ir1_opnd_is_gpr t opnd \<longleftrightarrow> op_type opnd = dt_X86_OP_REG \<and>
    (op_reg opnd \<in> {dt_X86_REG_AL, dt_X86_REG_AH, dt_X86_REG_AX, dt_X86_REG_EAX,
       dt_X86_REG_BL, dt_X86_REG_BH, dt_X86_REG_BX, dt_X86_REG_EBX,
       dt_X86_REG_CL, dt_X86_REG_CH, dt_X86_REG_CX, dt_X86_REG_ECX,
       dt_X86_REG_DL, dt_X86_REG_DH, dt_X86_REG_DX, dt_X86_REG_EDX,
       dt_X86_REG_BP, dt_X86_REG_EBP, dt_X86_REG_SI, dt_X86_REG_ESI,
       dt_X86_REG_DI, dt_X86_REG_EDI, dt_X86_REG_SP, dt_X86_REG_ESP} \<or>
     TARGET_X86_64 t \<and>
      (op_reg opnd \<in> {dt_X86_REG_RAX, dt_X86_REG_RBX, dt_X86_REG_RCX, dt_X86_REG_RDX} \<or>
       op_reg opnd \<in> {dt_X86_REG_R8..dt_X86_REG_R15} \<or>
       op_reg opnd \<in> {dt_X86_REG_R8D..dt_X86_REG_R15D} \<or>
       op_reg opnd \<in> {dt_X86_REG_R8W..dt_X86_REG_R15W} \<or>
       op_reg opnd \<in> {dt_X86_REG_R8B..dt_X86_REG_R15B} \<or>
       op_reg opnd \<in> {dt_X86_REG_RBP, dt_X86_REG_RSI, dt_X86_REG_RDI, dt_X86_REG_RSP,
         dt_X86_REG_BPL, dt_X86_REG_SIL, dt_X86_REG_DIL, dt_X86_REG_SPL}))"

definition ir1_opnd_is_fpr :: "ir1_opnd \<Rightarrow> bool" where
  "ir1_opnd_is_fpr opnd \<longleftrightarrow> op_type opnd = dt_X86_OP_REG \<and>
    op_reg opnd \<in> {dt_X86_REG_ST0, dt_X86_REG_ST1, dt_X86_REG_ST2, dt_X86_REG_ST3,
      dt_X86_REG_ST4, dt_X86_REG_ST5, dt_X86_REG_ST6, dt_X86_REG_ST7}"

definition ir1_opnd_is_seg :: "ir1_opnd \<Rightarrow> bool" where
  "ir1_opnd_is_seg opnd \<longleftrightarrow> op_type opnd = dt_X86_OP_REG \<and>
    op_reg opnd \<in> {dt_X86_REG_CS, dt_X86_REG_DS, dt_X86_REG_SS, dt_X86_REG_ES,
      dt_X86_REG_FS, dt_X86_REG_GS}"

definition ir1_opnd_is_mmx :: "ir1_opnd \<Rightarrow> bool" where
  "ir1_opnd_is_mmx opnd \<longleftrightarrow> op_type opnd = dt_X86_OP_REG \<and>
    op_reg opnd \<in> {dt_X86_REG_MM0, dt_X86_REG_MM1, dt_X86_REG_MM2, dt_X86_REG_MM3,
      dt_X86_REG_MM4, dt_X86_REG_MM5, dt_X86_REG_MM6, dt_X86_REG_MM7}"

definition ir1_opnd_is_xmm :: "target \<Rightarrow> ir1_opnd \<Rightarrow> bool" where
  "ir1_opnd_is_xmm t opnd \<longleftrightarrow> op_type opnd = dt_X86_OP_REG \<and>
    (op_reg opnd \<in> {dt_X86_REG_XMM0, dt_X86_REG_XMM1, dt_X86_REG_XMM2, dt_X86_REG_XMM3,
       dt_X86_REG_XMM4, dt_X86_REG_XMM5, dt_X86_REG_XMM6, dt_X86_REG_XMM7} \<or>
     TARGET_X86_64 t \<and>
       op_reg opnd \<in> {dt_X86_REG_XMM8, dt_X86_REG_XMM9, dt_X86_REG_XMM10, dt_X86_REG_XMM11,
       dt_X86_REG_XMM12, dt_X86_REG_XMM13, dt_X86_REG_XMM14, dt_X86_REG_XMM15})"

definition ir1_opnd_is_ymm :: "target \<Rightarrow> ir1_opnd \<Rightarrow> bool" where
  "ir1_opnd_is_ymm t opnd \<longleftrightarrow> op_type opnd = dt_X86_OP_REG \<and>
    (op_reg opnd \<in> {dt_X86_REG_YMM0, dt_X86_REG_YMM1, dt_X86_REG_YMM2, dt_X86_REG_YMM3,
       dt_X86_REG_YMM4, dt_X86_REG_YMM5, dt_X86_REG_YMM6, dt_X86_REG_YMM7} \<or>
     TARGET_X86_64 t \<and>
       op_reg opnd \<in> {dt_X86_REG_YMM8, dt_X86_REG_YMM9, dt_X86_REG_YMM10, dt_X86_REG_YMM11,
       dt_X86_REG_YMM12, dt_X86_REG_YMM13, dt_X86_REG_YMM14, dt_X86_REG_YMM15})"

definition ir1_opnd_is_reg :: "target \<Rightarrow> ir1_opnd \<Rightarrow> bool" where
  "ir1_opnd_is_reg t opnd \<longleftrightarrow> ir1_opnd_is_gpr t opnd \<or> ir1_opnd_is_fpr opnd \<or>
     ir1_opnd_is_seg opnd \<or> ir1_opnd_is_mmx opnd \<or>
     ir1_opnd_is_xmm t opnd \<or> ir1_opnd_is_ymm t opnd"

definition ir1_opnd_is_same_reg :: "target \<Rightarrow> ir1_opnd \<Rightarrow> ir1_opnd \<Rightarrow> bool" where
  "ir1_opnd_is_same_reg t opnd0 opnd1 \<longleftrightarrow>
     ir1_opnd_is_reg t opnd0 \<and> ir1_opnd_is_reg t opnd1 \<and> op_reg opnd0 = op_reg opnd1"

text \<open>The switch that \<open>ir1_opnd_is_same_reg_without_width\<close> runs on each of its operands; a
  register without a case leaves the initial value -1.\<close>

definition reg_index_without_width :: "target \<Rightarrow> dt_x86_reg \<Rightarrow> int" where
  "reg_index_without_width t r = (
     if TARGET_X86_64 t \<and> r \<in> {dt_X86_REG_RIP, dt_X86_REG_EIP} then -1
     else if r \<in> {dt_X86_REG_AL, dt_X86_REG_AH, dt_X86_REG_AX,
         dt_X86_REG_EAX} \<or> TARGET_X86_64 t \<and> r \<in> {dt_X86_REG_RAX} then eax_index
     else if r \<in> {dt_X86_REG_BL, dt_X86_REG_BH, dt_X86_REG_BX,
         dt_X86_REG_EBX} \<or> TARGET_X86_64 t \<and> r \<in> {dt_X86_REG_RBX} then ebx_index
     else if r \<in> {dt_X86_REG_CL, dt_X86_REG_CH, dt_X86_REG_CX,
         dt_X86_REG_ECX} \<or> TARGET_X86_64 t \<and> r \<in> {dt_X86_REG_RCX} then ecx_index
     else if r \<in> {dt_X86_REG_DL, dt_X86_REG_DH, dt_X86_REG_DX,
         dt_X86_REG_EDX} \<or> TARGET_X86_64 t \<and> r \<in> {dt_X86_REG_RDX} then edx_index
     else if r \<in> {dt_X86_REG_BP,
         dt_X86_REG_EBP} \<or> TARGET_X86_64 t \<and> r \<in> {dt_X86_REG_RBP,
         dt_X86_REG_BPL} then ebp_index
     else if r \<in> {dt_X86_REG_SI,
         dt_X86_REG_ESI} \<or> TARGET_X86_64 t \<and> r \<in> {dt_X86_REG_RSI,
         dt_X86_REG_SIL} then esi_index
     else if r \<in> {dt_X86_REG_DI,
         dt_X86_REG_EDI} \<or> TARGET_X86_64 t \<and> r \<in> {dt_X86_REG_RDI,
         dt_X86_REG_DIL} then edi_index
     else if r \<in> {dt_X86_REG_SP,
         dt_X86_REG_ESP} \<or> TARGET_X86_64 t \<and> r \<in> {dt_X86_REG_RSP,
         dt_X86_REG_SPL} then esp_index
     else if TARGET_X86_64 t \<and> r \<in> {dt_X86_REG_R8B, dt_X86_REG_R8W, dt_X86_REG_R8D,
         dt_X86_REG_R8} then r8_index
     else if TARGET_X86_64 t \<and> r \<in> {dt_X86_REG_R9B, dt_X86_REG_R9W, dt_X86_REG_R9D,
         dt_X86_REG_R9} then r9_index
     else if TARGET_X86_64 t \<and> r \<in> {dt_X86_REG_R10B, dt_X86_REG_R10W, dt_X86_REG_R10D,
         dt_X86_REG_R10} then r10_index
     else if TARGET_X86_64 t \<and> r \<in> {dt_X86_REG_R11B, dt_X86_REG_R11W, dt_X86_REG_R11D,
         dt_X86_REG_R11} then r11_index
     else if TARGET_X86_64 t \<and> r \<in> {dt_X86_REG_R12B, dt_X86_REG_R12W, dt_X86_REG_R12D,
         dt_X86_REG_R12} then r12_index
     else if TARGET_X86_64 t \<and> r \<in> {dt_X86_REG_R13B, dt_X86_REG_R13W, dt_X86_REG_R13D,
         dt_X86_REG_R13} then r13_index
     else if TARGET_X86_64 t \<and> r \<in> {dt_X86_REG_R14B, dt_X86_REG_R14W, dt_X86_REG_R14D,
         dt_X86_REG_R14} then r14_index
     else if TARGET_X86_64 t \<and> r \<in> {dt_X86_REG_R15B, dt_X86_REG_R15W, dt_X86_REG_R15D,
         dt_X86_REG_R15} then r15_index
     else -1)"

definition ir1_opnd_is_same_reg_without_width :: "target \<Rightarrow> ir1_opnd \<Rightarrow> ir1_opnd \<Rightarrow> bool" where
  "ir1_opnd_is_same_reg_without_width t opnd0 opnd1 =
    (let opnd0_index = reg_index_without_width t (op_reg opnd0);
         opnd1_index = reg_index_without_width t (op_reg opnd1)
     in opnd0_index = opnd1_index)"

definition ir1_opnd_is_pc_relative :: "ir1_opnd \<Rightarrow> int" where
  "ir1_opnd_is_pc_relative opnd =
    (let base = op_mem_base opnd in
     if base = dt_X86_REG_RIP then 1 else if base = dt_X86_REG_EIP then 2 else 0)"

definition ir1_opnd_is_uimm12 :: "target \<Rightarrow> ir1_opnd \<Rightarrow> bool result" where
  "ir1_opnd_is_uimm12 t opnd =
    (if ir1_opnd_is_imm opnd then map_sum id (\<lambda>v. v < 4096) (ir1_opnd_uimm t opnd)
     else Inr False)"

definition ir1_opnd_is_simm12 :: "target \<Rightarrow> ir1_opnd \<Rightarrow> bool result" where
  "ir1_opnd_is_simm12 t opnd =
    (if ir1_opnd_is_imm opnd then
       map_sum id (\<lambda>v. sint v \<ge> -2048 \<and> sint v < 2047) (ir1_opnd_simm t opnd)
     else Inr False)"

definition ir1_opnd_is_s2uimm12 :: "target \<Rightarrow> ir1_opnd \<Rightarrow> bool result" where
  "ir1_opnd_is_s2uimm12 t opnd =
    (if ir1_opnd_is_imm opnd then map_sum id (\<lambda>v. v < 4096) (ir1_opnd_s2uimm t opnd)
     else Inr False)"

definition ir1_opnd_is_u2simm12 :: "target \<Rightarrow> ir1_opnd \<Rightarrow> bool result" where
  "ir1_opnd_is_u2simm12 t opnd =
    (if ir1_opnd_is_imm opnd then map_sum id (\<lambda>v. sint v < 2047) (ir1_opnd_u2simm t opnd)
     else Inr False)"

definition ir1_opnd_has_base :: "ir1_opnd \<Rightarrow> bool" where
  "ir1_opnd_has_base opnd = (op_mem_base opnd \<noteq> dt_X86_REG_INVALID)"

definition ir1_opnd_has_index :: "ir1_opnd \<Rightarrow> bool" where
  "ir1_opnd_has_index opnd = (op_mem_index opnd \<noteq> dt_X86_REG_INVALID)"

definition ir1_opnd_has_seg :: "ir1_opnd \<Rightarrow> bool" where
  "ir1_opnd_has_seg opnd = (op_mem_segment opnd \<noteq> dt_X86_REG_INVALID)"

definition ir1_opnd_is_gpr_used :: "target \<Rightarrow> ir1_opnd \<Rightarrow> u8 \<Rightarrow> bool" where
  "ir1_opnd_is_gpr_used t opnd gpr_index =
    (if ir1_opnd_is_gpr t opnd then ir1_opnd_base_reg_num t opnd = uint gpr_index
     else if ir1_opnd_is_mem opnd then
       if ir1_opnd_has_base opnd then
         if TARGET_X86_64 t \<and> \<not> CODEIS64 t \<and> op_mem_base opnd = dt_X86_REG_RIP then False
         else ir1_opnd_base_reg_num t opnd = uint gpr_index
       else if ir1_opnd_has_index opnd then ir1_opnd_index_reg_num t opnd = uint gpr_index
       else False
     else False)"

definition ir1_opnd_get_seg_index :: "ir1_opnd \<Rightarrow> int result" where
  "ir1_opnd_get_seg_index opnd =
    (let seg = op_mem_segment opnd in
     if seg = dt_X86_REG_ES then Inr es_index
     else if seg = dt_X86_REG_CS then Inr cs_index
     else if seg = dt_X86_REG_SS then Inr ss_index
     else if seg = dt_X86_REG_DS then Inr ds_index
     else if seg = dt_X86_REG_FS then Inr fs_index
     else if seg = dt_X86_REG_GS then Inr gs_index
     else Inl Abort)"

section \<open>Instructions\<close>

definition ir1_opnd_num :: "ir1_inst \<Rightarrow> u8" where
  "ir1_opnd_num ir1 = i_op_count ir1"

definition ir1_get_opnd_num :: "ir1_inst \<Rightarrow> u8" where
  "ir1_get_opnd_num ir1 = i_op_count ir1"

definition ir1_get_opnd :: "ir1_inst \<Rightarrow> nat \<Rightarrow> ir1_opnd" where
  "ir1_get_opnd ir1 i = i_operands ir1 ! i"

definition ir1_rex_w :: "ir1_inst \<Rightarrow> u8" where
  "ir1_rex_w ir1 = i_rex ir1 AND 0x8"

definition ir1_addr :: "target \<Rightarrow> ir1_inst \<Rightarrow> u64" where
  "ir1_addr t ir1 = to_ulongx t (i_address ir1)"

definition ir1_addr_next :: "target \<Rightarrow> ir1_inst \<Rightarrow> u64" where
  "ir1_addr_next t ir1 = to_ulongx t (i_address ir1 + zext16 (i_size ir1))"

definition ir1_target_addr :: "target \<Rightarrow> ir1_inst \<Rightarrow> u64 result" where
  "ir1_target_addr t ir1 = ir1_opnd_uimm_addr t (i_operands ir1 ! 0)"

definition ir1_is_branch :: "ir1_inst \<Rightarrow> bool" where
  "ir1_is_branch ir1 \<longleftrightarrow> i_id ir1 \<in> {dt_X86_INS_JO, dt_X86_INS_JNO, dt_X86_INS_JB, dt_X86_INS_JAE,
     dt_X86_INS_JE, dt_X86_INS_JNE, dt_X86_INS_JBE, dt_X86_INS_JA, dt_X86_INS_JS, dt_X86_INS_JNS,
     dt_X86_INS_JP, dt_X86_INS_JNP, dt_X86_INS_JL, dt_X86_INS_JGE, dt_X86_INS_JLE, dt_X86_INS_JG,
     dt_X86_INS_LOOPNE, dt_X86_INS_LOOPE, dt_X86_INS_LOOP,
     dt_X86_INS_JCXZ, dt_X86_INS_JECXZ, dt_X86_INS_JRCXZ}"

definition ir1_is_jump :: "ir1_inst \<Rightarrow> bool" where
  "ir1_is_jump ir1 \<longleftrightarrow> i_id ir1 = dt_X86_INS_JMP \<or> i_id ir1 = dt_X86_INS_LJMP"

definition ir1_is_call :: "ir1_inst \<Rightarrow> bool" where
  "ir1_is_call ir1 \<longleftrightarrow> i_id ir1 = dt_X86_INS_CALL"

definition ir1_is_return :: "ir1_inst \<Rightarrow> bool" where
  "ir1_is_return ir1 \<longleftrightarrow>
     i_id ir1 = dt_X86_INS_RET \<or> i_id ir1 = dt_X86_INS_IRET \<or> i_id ir1 = dt_X86_INS_RETF"

definition ir1_is_indirect :: "ir1_inst \<Rightarrow> bool" where
  "ir1_is_indirect ir1 \<longleftrightarrow> i_id ir1 = dt_X86_INS_LJMP \<or> i_id ir1 = dt_X86_INS_LCALL"

definition ir1_is_syscall :: "target \<Rightarrow> ir1_inst \<Rightarrow> bool" where
  "ir1_is_syscall t ir1 \<longleftrightarrow> i_id ir1 = dt_X86_INS_INT \<or>
     TARGET_X86_64 t \<and> i_id ir1 \<in> {dt_X86_INS_SYSCALL, dt_X86_INS_SYSENTER,
       dt_X86_INS_SYSEXIT, dt_X86_INS_SYSRET}"

definition ir1_is_indirect_call :: "ir1_inst \<Rightarrow> bool" where
  "ir1_is_indirect_call ir1 = (\<not> ir1_opnd_is_imm (ir1_get_opnd ir1 0))"

definition ir1_is_indirect_jmp :: "ir1_inst \<Rightarrow> bool" where
  "ir1_is_indirect_jmp ir1 = (\<not> ir1_opnd_is_imm (ir1_get_opnd ir1 0))"

definition ir1_is_prefix_lock :: "ir1_inst \<Rightarrow> bool" where
  "ir1_is_prefix_lock ir1 = (i_prefix ir1 ! 0 = dt_X86_PREFIX_LOCK)"

text \<open>The build and run options that the end-of-block test reads: CONFIG\_LATX\_KZT together
  with option\_kzt, and CONFIG\_LATX\_SYSCALL\_TUNNEL.\<close>

record tb_ending_cfg =
  cfg_kzt :: bool
  cfg_syscall_tunnel :: bool

definition ir1_is_tb_ending ::
  "target \<Rightarrow> tb_ending_cfg \<Rightarrow> 'h ghash_ops \<Rightarrow> 'h \<Rightarrow> ir1_inst \<Rightarrow> bool result" where
  "ir1_is_tb_ending t cfg ops ht ir1 =
    (if cfg_kzt cfg \<and> ir1_opcode ir1 = dt_X86_INS_INT3 then Inr True
     else if ir1_is_call ir1 \<and> \<not> ir1_is_indirect_call ir1 then
       (case ir1_target_addr t ir1 of
          Inl e \<Rightarrow> Inl e
        | Inr target_addr \<Rightarrow>
            if ir1_addr_next t ir1 = target_addr then Inr False
            else if 0 \<le>s ht_pc_thunk_lookup ops ht (trunc32 target_addr) then Inr False
            else Inr True)
     else Inr (ir1_is_branch ir1 \<or> ir1_is_jump ir1 \<or> ir1_is_call ir1 \<or> ir1_is_return ir1 \<or>
       (\<not> cfg_syscall_tunnel cfg \<and> ir1_is_syscall t ir1)))"

definition BITS_ARE_SET :: "u8 \<Rightarrow> u8 \<Rightarrow> bool" where
  "BITS_ARE_SET v bits = (v AND bits = bits)"

definition ir1_is_cf_use :: "ir1_inst \<Rightarrow> bool" where
  "ir1_is_cf_use ir1 = BITS_ARE_SET (i_eflag_use ir1) 1"
definition ir1_is_pf_use :: "ir1_inst \<Rightarrow> bool" where
  "ir1_is_pf_use ir1 = BITS_ARE_SET (i_eflag_use ir1) 2"
definition ir1_is_af_use :: "ir1_inst \<Rightarrow> bool" where
  "ir1_is_af_use ir1 = BITS_ARE_SET (i_eflag_use ir1) 4"
definition ir1_is_zf_use :: "ir1_inst \<Rightarrow> bool" where
  "ir1_is_zf_use ir1 = BITS_ARE_SET (i_eflag_use ir1) 8"
definition ir1_is_sf_use :: "ir1_inst \<Rightarrow> bool" where
  "ir1_is_sf_use ir1 = BITS_ARE_SET (i_eflag_use ir1) 16"
definition ir1_is_of_use :: "ir1_inst \<Rightarrow> bool" where
  "ir1_is_of_use ir1 = BITS_ARE_SET (i_eflag_use ir1) 32"
definition ir1_is_cf_def :: "ir1_inst \<Rightarrow> bool" where
  "ir1_is_cf_def ir1 = BITS_ARE_SET (i_eflag_def ir1) 1"
definition ir1_is_pf_def :: "ir1_inst \<Rightarrow> bool" where
  "ir1_is_pf_def ir1 = BITS_ARE_SET (i_eflag_def ir1) 2"
definition ir1_is_af_def :: "ir1_inst \<Rightarrow> bool" where
  "ir1_is_af_def ir1 = BITS_ARE_SET (i_eflag_def ir1) 4"
definition ir1_is_zf_def :: "ir1_inst \<Rightarrow> bool" where
  "ir1_is_zf_def ir1 = BITS_ARE_SET (i_eflag_def ir1) 8"
definition ir1_is_sf_def :: "ir1_inst \<Rightarrow> bool" where
  "ir1_is_sf_def ir1 = BITS_ARE_SET (i_eflag_def ir1) 16"
definition ir1_is_of_def :: "ir1_inst \<Rightarrow> bool" where
  "ir1_is_of_def ir1 = BITS_ARE_SET (i_eflag_def ir1) 32"

definition ir1_set_eflag_use :: "u8 \<Rightarrow> ir1_inst \<Rightarrow> ir1_inst" where
  "ir1_set_eflag_use u ir1 = ir1\<lparr>i_eflag_use := u\<rparr>"

definition ir1_set_eflag_def :: "u8 \<Rightarrow> ir1_inst \<Rightarrow> ir1_inst" where
  "ir1_set_eflag_def d ir1 = ir1\<lparr>i_eflag_def := d\<rparr>"

text \<open>Little-endian store of a 32-bit value into the instruction bytes.\<close>

definition store_le32 :: "nat \<Rightarrow> u32 \<Rightarrow> u8 list \<Rightarrow> u8 list" where
  "store_le32 k w bs = bs[k := ucast w, k + 1 := ucast (drop_bit 8 w),
     k + 2 := ucast (drop_bit 16 w), k + 3 := ucast (drop_bit 24 w)]"

definition ir1_make_ins_JMP :: "target \<Rightarrow> u64 \<Rightarrow> 32 word \<Rightarrow> ir1_inst \<Rightarrow> ir1_inst" where
  "ir1_make_ins_JMP t addr off ir1 =
    (let w = (if CODEIS64 t then 8 else 4);
         op0 = (i_operands ir1 ! 0)\<lparr>op_type := dt_X86_OP_IMM,
                 op_imm := scast off + to_ulongx t addr, op_size := w\<rparr>
     in ir1\<lparr>i_bytes := store_le32 1 off ((i_bytes ir1)[0 := 0x69]),
            i_address := to_ulongx t addr, i_size := 5,
            i_opcode := (i_opcode ir1)[0 := 0xe9], i_op_count := 1,
            i_operands := (i_operands ir1)[0 := op0], i_addr_size := w,
            i_id := dt_X86_INS_JMP\<rparr>)"

end
