(* ===== verification/Flag_Reduction.thy ===== *)
theory Flag_Reduction
  imports X86_Ir1
begin

text \<open>
  Dead flag elimination inside one translation block: optimization/flag-reduction.c and
  include/flag-reduction.h.  Every x86 instruction has a row (use, def, undef) in a table
  of flag masks; a backward scan over the block keeps the set of flags whose value is still
  needed (pending\_use) and stores in each instruction which flags it must really compute.

  The parameter \<open>radical\<close> is CONFIG\_LATX\_RADICAL\_EFLAGS.  Reading the immediate of a
  rotate or shift can abort on an operand size the decoder does not produce, so the scan
  returns a \<open>result\<close>.
\<close>

section \<open>Flag masks and the table\<close>

abbreviation (input) F_NONE :: u8 where "F_NONE \<equiv> 0"
abbreviation (input) F_INVALID :: u8 where "F_INVALID \<equiv> 0x80"
abbreviation (input) F_CF :: u8 where "F_CF \<equiv> 1"
abbreviation (input) F_PF :: u8 where "F_PF \<equiv> 2"
abbreviation (input) F_AF :: u8 where "F_AF \<equiv> 4"
abbreviation (input) F_ZF :: u8 where "F_ZF \<equiv> 8"
abbreviation (input) F_SF :: u8 where "F_SF \<equiv> 16"
abbreviation (input) F_OF :: u8 where "F_OF \<equiv> 32"
abbreviation (input) F_DF :: u8 where "F_DF \<equiv> 64"
abbreviation (input) F_OSAPF :: u8 where "F_OSAPF \<equiv> F_OF OR F_SF OR F_AF OR F_PF"
abbreviation (input) F_OSZPF :: u8 where "F_OSZPF \<equiv> F_OF OR F_SF OR F_ZF OR F_PF"
abbreviation (input) F_SZAPF :: u8 where "F_SZAPF \<equiv> F_SF OR F_ZF OR F_AF OR F_PF"
abbreviation (input) F_SZAPCF :: u8 where "F_SZAPCF \<equiv> F_SZAPF OR F_CF"

definition ALL_EFLAGS :: u8 where
  "ALL_EFLAGS = F_OF OR F_SF OR F_ZF OR F_AF OR F_PF OR F_CF"

lemma bit_ALL_EFLAGS [mask_simps]: "bit ALL_EFLAGS f \<longleftrightarrow> f < 6"
proof -
  have m: "ALL_EFLAGS = mask 6" by (simp add: ALL_EFLAGS_def mask_eq_exp_minus_1)
  show ?thesis unfolding m by (auto simp: bit_mask_iff)
qed

record ir1_eflag_usedef =
  ud_use :: u8
  ud_def :: u8
  ud_undef :: u8

definition FLAG_DEFINE :: "dt_x86_insn \<Rightarrow> u8 \<Rightarrow> u8 \<Rightarrow> u8 \<Rightarrow> dt_x86_insn \<times> ir1_eflag_usedef" where
  "FLAG_DEFINE opcode u d n = (opcode, \<lparr>ud_use = u, ud_def = d, ud_undef = n\<rparr>)"

text \<open>The rows of the table, in source order and in two parts.\<close>

definition eflag_usedef_rows_A_L :: "(dt_x86_insn \<times> ir1_eflag_usedef) list" where
  "eflag_usedef_rows_A_L = [
    FLAG_DEFINE dt_X86_INS_INVALID F_NONE F_INVALID F_INVALID,
    FLAG_DEFINE dt_X86_INS_AAA F_AF ALL_EFLAGS (F_OF OR F_SF OR F_ZF OR F_PF),
    FLAG_DEFINE dt_X86_INS_AAD F_NONE ALL_EFLAGS (F_OF OR F_AF OR F_CF),
    FLAG_DEFINE dt_X86_INS_AAM F_NONE ALL_EFLAGS (F_OF OR F_AF OR F_CF),
    FLAG_DEFINE dt_X86_INS_AAS F_AF ALL_EFLAGS (F_OF OR F_SF OR F_ZF OR F_PF),
    FLAG_DEFINE dt_X86_INS_ADC F_CF ALL_EFLAGS F_NONE,
    FLAG_DEFINE dt_X86_INS_ADD F_NONE ALL_EFLAGS F_NONE,
    FLAG_DEFINE dt_X86_INS_AND F_NONE ALL_EFLAGS F_AF,
    FLAG_DEFINE dt_X86_INS_ANDN F_NONE ALL_EFLAGS (F_AF OR F_PF),
    FLAG_DEFINE dt_X86_INS_ARPL F_NONE F_ZF F_NONE,
    FLAG_DEFINE dt_X86_INS_BLSI F_NONE (F_ZF OR F_CF OR F_SF OR F_OF) (F_AF OR F_PF),
    FLAG_DEFINE dt_X86_INS_BLSR F_NONE (F_ZF OR F_CF OR F_SF OR F_OF) (F_AF OR F_PF),
    FLAG_DEFINE dt_X86_INS_BLSMSK F_NONE (F_ZF OR F_CF OR F_SF OR F_OF) (F_AF OR F_PF),
    FLAG_DEFINE dt_X86_INS_BZHI F_NONE (F_ZF OR F_CF OR F_SF OR F_OF) (F_AF OR F_PF),
    FLAG_DEFINE dt_X86_INS_BOUND F_NONE F_NONE F_NONE,
    FLAG_DEFINE dt_X86_INS_BSF F_NONE ALL_EFLAGS (F_OSAPF OR F_CF),
    FLAG_DEFINE dt_X86_INS_BSR F_NONE ALL_EFLAGS (F_OSAPF OR F_CF),
    FLAG_DEFINE dt_X86_INS_BSWAP F_NONE F_NONE F_NONE,
    FLAG_DEFINE dt_X86_INS_BT F_NONE (F_OSAPF OR F_CF) F_OSAPF,
    FLAG_DEFINE dt_X86_INS_BTC F_NONE (F_OSAPF OR F_CF) F_OSAPF,
    FLAG_DEFINE dt_X86_INS_BTR F_NONE (F_OSAPF OR F_CF) F_OSAPF,
    FLAG_DEFINE dt_X86_INS_BTS F_NONE (F_OSAPF OR F_CF) F_OSAPF,
    FLAG_DEFINE dt_X86_INS_CALL F_NONE F_NONE F_NONE,
    FLAG_DEFINE dt_X86_INS_CBW F_NONE F_NONE F_NONE,
    FLAG_DEFINE dt_X86_INS_CLC F_NONE F_CF F_NONE,
    FLAG_DEFINE dt_X86_INS_CLD F_NONE F_DF F_NONE,
    FLAG_DEFINE dt_X86_INS_SALC F_CF F_NONE F_NONE,
    FLAG_DEFINE dt_X86_INS_CMC F_CF F_CF F_NONE,
    FLAG_DEFINE dt_X86_INS_CMOVA (F_ZF OR F_CF) F_NONE F_NONE,
    FLAG_DEFINE dt_X86_INS_CMOVAE F_CF F_NONE F_NONE,
    FLAG_DEFINE dt_X86_INS_CMOVB F_CF F_NONE F_NONE,
    FLAG_DEFINE dt_X86_INS_CMOVBE (F_ZF OR F_CF) F_NONE F_NONE,
    FLAG_DEFINE dt_X86_INS_CMOVE F_ZF F_NONE F_NONE,
    FLAG_DEFINE dt_X86_INS_CMOVG (F_OF OR F_SF OR F_ZF) F_NONE F_NONE,
    FLAG_DEFINE dt_X86_INS_CMOVGE (F_OF OR F_SF) F_NONE F_NONE,
    FLAG_DEFINE dt_X86_INS_CMOVL (F_OF OR F_SF) F_NONE F_NONE,
    FLAG_DEFINE dt_X86_INS_CMOVLE (F_OF OR F_SF OR F_ZF) F_NONE F_NONE,
    FLAG_DEFINE dt_X86_INS_CMOVNE F_ZF F_NONE F_NONE,
    FLAG_DEFINE dt_X86_INS_CMOVO F_OF F_NONE F_NONE,
    FLAG_DEFINE dt_X86_INS_CMOVNO F_OF F_NONE F_NONE,
    FLAG_DEFINE dt_X86_INS_CMOVP F_PF F_NONE F_NONE,
    FLAG_DEFINE dt_X86_INS_CMOVNP F_PF F_NONE F_NONE,
    FLAG_DEFINE dt_X86_INS_CMOVS F_SF F_NONE F_NONE,
    FLAG_DEFINE dt_X86_INS_CMOVNS F_SF F_NONE F_NONE,
    FLAG_DEFINE dt_X86_INS_CMOVLE (F_OF OR F_SF OR F_ZF) F_NONE F_NONE,
    FLAG_DEFINE dt_X86_INS_CMOVLE (F_OF OR F_SF OR F_ZF) F_NONE F_NONE,
    FLAG_DEFINE dt_X86_INS_CMOVLE (F_OF OR F_SF OR F_ZF) F_NONE F_NONE,
    FLAG_DEFINE dt_X86_INS_CMP F_NONE ALL_EFLAGS F_NONE,
    FLAG_DEFINE dt_X86_INS_CMPSB F_DF ALL_EFLAGS F_NONE,
    FLAG_DEFINE dt_X86_INS_CMPSW F_DF ALL_EFLAGS F_NONE,
    FLAG_DEFINE dt_X86_INS_CMPSD F_DF ALL_EFLAGS F_NONE,
    FLAG_DEFINE dt_X86_INS_CMPSQ F_DF ALL_EFLAGS F_NONE,
    FLAG_DEFINE dt_X86_INS_CMPXCHG F_NONE ALL_EFLAGS F_NONE,
    FLAG_DEFINE dt_X86_INS_CMPXCHG8B F_NONE F_ZF F_NONE,
    FLAG_DEFINE dt_X86_INS_CMPXCHG16B F_NONE F_ZF F_NONE,
    FLAG_DEFINE dt_X86_INS_COMISD F_NONE ALL_EFLAGS F_NONE,
    FLAG_DEFINE dt_X86_INS_COMISS F_NONE ALL_EFLAGS F_NONE,
    FLAG_DEFINE dt_X86_INS_CPUID F_NONE F_NONE F_NONE,
    FLAG_DEFINE dt_X86_INS_CWD F_NONE F_NONE F_NONE,
    FLAG_DEFINE dt_X86_INS_DAA (F_AF OR F_CF) ALL_EFLAGS F_OF,
    FLAG_DEFINE dt_X86_INS_DAS (F_AF OR F_CF) ALL_EFLAGS F_OF,
    FLAG_DEFINE dt_X86_INS_DEC F_NONE (F_OF OR F_SZAPF) F_NONE,
    FLAG_DEFINE dt_X86_INS_DIV F_NONE ALL_EFLAGS ALL_EFLAGS,
    FLAG_DEFINE dt_X86_INS_ENTER F_NONE F_NONE F_NONE,
    FLAG_DEFINE dt_X86_INS_FCMOVB F_CF F_NONE F_NONE,
    FLAG_DEFINE dt_X86_INS_FCMOVBE (F_ZF OR F_CF) F_NONE F_NONE,
    FLAG_DEFINE dt_X86_INS_FCMOVE F_ZF F_NONE F_NONE,
    FLAG_DEFINE dt_X86_INS_FCMOVNB F_CF F_NONE F_NONE,
    FLAG_DEFINE dt_X86_INS_FCMOVNBE (F_ZF OR F_CF) F_NONE F_NONE,
    FLAG_DEFINE dt_X86_INS_FCMOVNE F_ZF F_NONE F_NONE,
    FLAG_DEFINE dt_X86_INS_FCMOVNU F_PF F_NONE F_NONE,
    FLAG_DEFINE dt_X86_INS_FCMOVU F_PF F_NONE F_NONE,
    FLAG_DEFINE dt_X86_INS_FCOMI F_NONE ALL_EFLAGS F_NONE,
    FLAG_DEFINE dt_X86_INS_FCOMIP F_NONE ALL_EFLAGS F_NONE,
    FLAG_DEFINE dt_X86_INS_FUCOMI F_NONE ALL_EFLAGS F_NONE,
    FLAG_DEFINE dt_X86_INS_FUCOMIP F_NONE ALL_EFLAGS F_NONE,
    FLAG_DEFINE dt_X86_INS_HLT F_NONE F_NONE F_NONE,
    FLAG_DEFINE dt_X86_INS_IDIV F_NONE ALL_EFLAGS ALL_EFLAGS,
    FLAG_DEFINE dt_X86_INS_IMUL F_NONE ALL_EFLAGS F_SZAPF,
    FLAG_DEFINE dt_X86_INS_IN F_NONE F_NONE F_NONE,
    FLAG_DEFINE dt_X86_INS_INC F_NONE (F_OF OR F_SZAPF) F_NONE,
    FLAG_DEFINE dt_X86_INS_INSB F_NONE F_DF F_NONE,
    FLAG_DEFINE dt_X86_INS_INSW F_NONE F_DF F_NONE,
    FLAG_DEFINE dt_X86_INS_INSD F_NONE F_DF F_NONE,
    FLAG_DEFINE dt_X86_INS_INT F_NONE F_NONE F_NONE,
    FLAG_DEFINE dt_X86_INS_INTO F_OF F_NONE F_NONE,
    FLAG_DEFINE dt_X86_INS_INVD F_NONE F_NONE F_NONE,
    FLAG_DEFINE dt_X86_INS_INVLPG F_NONE F_NONE F_NONE,
    FLAG_DEFINE dt_X86_INS_UCOMISD F_NONE ALL_EFLAGS F_NONE,
    FLAG_DEFINE dt_X86_INS_UCOMISS F_NONE ALL_EFLAGS F_NONE,
    FLAG_DEFINE dt_X86_INS_IRET F_NONE F_INVALID F_NONE,
    FLAG_DEFINE dt_X86_INS_JO F_OF F_NONE F_NONE,
    FLAG_DEFINE dt_X86_INS_JNO F_OF F_NONE F_NONE,
    FLAG_DEFINE dt_X86_INS_JB F_CF F_NONE F_NONE,
    FLAG_DEFINE dt_X86_INS_JAE F_CF F_NONE F_NONE,
    FLAG_DEFINE dt_X86_INS_JE F_ZF F_NONE F_NONE,
    FLAG_DEFINE dt_X86_INS_JNE F_ZF F_NONE F_NONE,
    FLAG_DEFINE dt_X86_INS_JBE (F_CF OR F_ZF) F_NONE F_NONE,
    FLAG_DEFINE dt_X86_INS_JA (F_CF OR F_ZF) F_NONE F_NONE,
    FLAG_DEFINE dt_X86_INS_JS F_SF F_NONE F_NONE,
    FLAG_DEFINE dt_X86_INS_JNS F_SF F_NONE F_NONE,
    FLAG_DEFINE dt_X86_INS_JP F_PF F_NONE F_NONE,
    FLAG_DEFINE dt_X86_INS_JNP F_PF F_NONE F_NONE,
    FLAG_DEFINE dt_X86_INS_JL (F_OF OR F_SF) F_NONE F_NONE,
    FLAG_DEFINE dt_X86_INS_JGE (F_OF OR F_SF) F_NONE F_NONE,
    FLAG_DEFINE dt_X86_INS_JLE (F_OF OR F_SF OR F_ZF) F_NONE F_NONE,
    FLAG_DEFINE dt_X86_INS_JG (F_OF OR F_SF OR F_ZF) F_NONE F_NONE,
    FLAG_DEFINE dt_X86_INS_JCXZ F_NONE F_NONE F_NONE,
    FLAG_DEFINE dt_X86_INS_JMP F_NONE F_NONE F_NONE,
    FLAG_DEFINE dt_X86_INS_LAHF F_SZAPCF F_NONE F_NONE,
    FLAG_DEFINE dt_X86_INS_LAR F_NONE F_INVALID F_NONE,
    FLAG_DEFINE dt_X86_INS_LDS F_NONE F_INVALID F_NONE,
    FLAG_DEFINE dt_X86_INS_LES F_NONE F_INVALID F_NONE,
    FLAG_DEFINE dt_X86_INS_LSS F_NONE F_INVALID F_NONE,
    FLAG_DEFINE dt_X86_INS_LFS F_NONE F_INVALID F_NONE,
    FLAG_DEFINE dt_X86_INS_LGS F_NONE F_INVALID F_NONE]"

definition eflag_usedef_rows_M_Z :: "(dt_x86_insn \<times> ir1_eflag_usedef) list" where
  "eflag_usedef_rows_M_Z = [
    FLAG_DEFINE dt_X86_INS_LEA F_NONE F_NONE F_NONE,
    FLAG_DEFINE dt_X86_INS_LEAVE F_NONE F_NONE F_NONE,
    FLAG_DEFINE dt_X86_INS_LGDT F_NONE F_INVALID F_NONE,
    FLAG_DEFINE dt_X86_INS_LIDT F_NONE F_INVALID F_NONE,
    FLAG_DEFINE dt_X86_INS_LLDT F_NONE F_INVALID F_NONE,
    FLAG_DEFINE dt_X86_INS_LMSW F_NONE F_INVALID F_NONE,
    FLAG_DEFINE dt_X86_INS_LODSB F_DF F_NONE F_NONE,
    FLAG_DEFINE dt_X86_INS_LODSW F_DF F_NONE F_NONE,
    FLAG_DEFINE dt_X86_INS_LODSD F_DF F_NONE F_NONE,
    FLAG_DEFINE dt_X86_INS_LODSQ F_DF F_NONE F_NONE,
    FLAG_DEFINE dt_X86_INS_LOOP F_NONE F_NONE F_NONE,
    FLAG_DEFINE dt_X86_INS_LOOPE F_ZF F_NONE F_NONE,
    FLAG_DEFINE dt_X86_INS_LOOPNE F_ZF F_NONE F_NONE,
    FLAG_DEFINE dt_X86_INS_LSL F_NONE F_INVALID F_NONE,
    FLAG_DEFINE dt_X86_INS_LTR F_NONE F_INVALID F_NONE,
    FLAG_DEFINE dt_X86_INS_LZCNT F_NONE ALL_EFLAGS F_OSAPF,
    FLAG_DEFINE dt_X86_INS_MONITOR F_NONE F_INVALID F_NONE,
    FLAG_DEFINE dt_X86_INS_MWAIT F_NONE F_INVALID F_NONE,
    FLAG_DEFINE dt_X86_INS_MOV F_NONE F_NONE F_NONE,
    FLAG_DEFINE dt_X86_INS_MOVABS F_NONE F_NONE F_NONE,
    FLAG_DEFINE dt_X86_INS_MOVSB F_DF F_NONE F_NONE,
    FLAG_DEFINE dt_X86_INS_MOVSW F_DF F_NONE F_NONE,
    FLAG_DEFINE dt_X86_INS_MOVSD F_DF F_NONE F_NONE,
    FLAG_DEFINE dt_X86_INS_MOVSQ F_DF F_NONE F_NONE,
    FLAG_DEFINE dt_X86_INS_MOVSX F_NONE F_NONE F_NONE,
    FLAG_DEFINE dt_X86_INS_MOVZX F_NONE F_NONE F_NONE,
    FLAG_DEFINE dt_X86_INS_MUL F_NONE ALL_EFLAGS F_SZAPF,
    FLAG_DEFINE dt_X86_INS_NEG F_NONE ALL_EFLAGS F_NONE,
    FLAG_DEFINE dt_X86_INS_NOP F_NONE F_NONE F_NONE,
    FLAG_DEFINE dt_X86_INS_NOT F_NONE F_NONE F_NONE,
    FLAG_DEFINE dt_X86_INS_OR F_NONE ALL_EFLAGS F_AF,
    FLAG_DEFINE dt_X86_INS_OUT F_NONE F_NONE F_NONE,
    FLAG_DEFINE dt_X86_INS_OUTSB F_DF F_NONE F_NONE,
    FLAG_DEFINE dt_X86_INS_OUTSW F_DF F_NONE F_NONE,
    FLAG_DEFINE dt_X86_INS_OUTSD F_DF F_NONE F_NONE,
    FLAG_DEFINE dt_X86_INS_POP F_NONE F_NONE F_NONE,
    FLAG_DEFINE dt_X86_INS_POPAW F_NONE F_NONE F_NONE,
    FLAG_DEFINE dt_X86_INS_POPAL F_NONE F_NONE F_NONE,
    FLAG_DEFINE dt_X86_INS_POPF F_NONE (ALL_EFLAGS OR F_DF) F_NONE,
    FLAG_DEFINE dt_X86_INS_POPFD F_NONE (ALL_EFLAGS OR F_DF) F_NONE,
    FLAG_DEFINE dt_X86_INS_POPFQ F_NONE (ALL_EFLAGS OR F_DF) F_NONE,
    FLAG_DEFINE dt_X86_INS_POPCNT F_NONE ALL_EFLAGS F_NONE,
    FLAG_DEFINE dt_X86_INS_PUSH F_NONE F_NONE F_NONE,
    FLAG_DEFINE dt_X86_INS_PUSHAW F_NONE F_NONE F_NONE,
    FLAG_DEFINE dt_X86_INS_PUSHAL F_NONE F_NONE F_NONE,
    FLAG_DEFINE dt_X86_INS_PUSHF (ALL_EFLAGS OR F_DF) F_NONE F_NONE,
    FLAG_DEFINE dt_X86_INS_PUSHFD (ALL_EFLAGS OR F_DF) F_NONE F_NONE,
    FLAG_DEFINE dt_X86_INS_PUSHFQ (ALL_EFLAGS OR F_DF) F_NONE F_NONE,
    FLAG_DEFINE dt_X86_INS_RCL F_CF (F_CF OR F_OF) F_NONE,
    FLAG_DEFINE dt_X86_INS_RCR F_CF (F_CF OR F_OF) F_NONE,
    FLAG_DEFINE dt_X86_INS_RDMSR F_NONE F_INVALID F_NONE,
    FLAG_DEFINE dt_X86_INS_RDPMC F_NONE F_INVALID F_NONE,
    FLAG_DEFINE dt_X86_INS_RDTSC F_NONE F_NONE F_NONE,
    FLAG_DEFINE dt_X86_INS_RET F_NONE F_NONE F_NONE,
    FLAG_DEFINE dt_X86_INS_ROL F_NONE (F_OF OR F_CF) F_NONE,
    FLAG_DEFINE dt_X86_INS_ROR F_NONE (F_OF OR F_CF) F_NONE,
    FLAG_DEFINE dt_X86_INS_RSM F_NONE (ALL_EFLAGS OR F_DF) F_NONE,
    FLAG_DEFINE dt_X86_INS_SAHF F_NONE F_SZAPCF F_NONE,
    FLAG_DEFINE dt_X86_INS_SAL F_NONE ALL_EFLAGS F_AF,
    FLAG_DEFINE dt_X86_INS_SAR F_NONE ALL_EFLAGS F_AF,
    FLAG_DEFINE dt_X86_INS_SHL F_NONE ALL_EFLAGS F_AF,
    FLAG_DEFINE dt_X86_INS_SHR F_NONE ALL_EFLAGS F_AF,
    FLAG_DEFINE dt_X86_INS_SBB F_CF ALL_EFLAGS F_NONE,
    FLAG_DEFINE dt_X86_INS_SCASB F_DF ALL_EFLAGS F_NONE,
    FLAG_DEFINE dt_X86_INS_SCASW F_DF ALL_EFLAGS F_NONE,
    FLAG_DEFINE dt_X86_INS_SCASD F_DF ALL_EFLAGS F_NONE,
    FLAG_DEFINE dt_X86_INS_SCASQ F_DF ALL_EFLAGS F_NONE,
    FLAG_DEFINE dt_X86_INS_SETO F_OF F_NONE F_NONE,
    FLAG_DEFINE dt_X86_INS_SETNO F_OF F_NONE F_NONE,
    FLAG_DEFINE dt_X86_INS_SETB F_CF F_NONE F_NONE,
    FLAG_DEFINE dt_X86_INS_SETAE F_CF F_NONE F_NONE,
    FLAG_DEFINE dt_X86_INS_SETE F_ZF F_NONE F_NONE,
    FLAG_DEFINE dt_X86_INS_SETNE F_ZF F_NONE F_NONE,
    FLAG_DEFINE dt_X86_INS_SETBE (F_ZF OR F_CF) F_NONE F_NONE,
    FLAG_DEFINE dt_X86_INS_SETA (F_ZF OR F_CF) F_NONE F_NONE,
    FLAG_DEFINE dt_X86_INS_SETS F_SF F_NONE F_NONE,
    FLAG_DEFINE dt_X86_INS_SETNS F_SF F_NONE F_NONE,
    FLAG_DEFINE dt_X86_INS_SETP F_PF F_NONE F_NONE,
    FLAG_DEFINE dt_X86_INS_SETNP F_PF F_NONE F_NONE,
    FLAG_DEFINE dt_X86_INS_SETL (F_OF OR F_SF) F_NONE F_NONE,
    FLAG_DEFINE dt_X86_INS_SETGE (F_OF OR F_SF) F_NONE F_NONE,
    FLAG_DEFINE dt_X86_INS_SETLE (F_OF OR F_SF OR F_ZF) F_NONE F_NONE,
    FLAG_DEFINE dt_X86_INS_SETG (F_OF OR F_SF OR F_ZF) F_NONE F_NONE,
    FLAG_DEFINE dt_X86_INS_SGDT F_NONE F_INVALID F_NONE,
    FLAG_DEFINE dt_X86_INS_SIDT F_NONE F_INVALID F_NONE,
    FLAG_DEFINE dt_X86_INS_SLDT F_NONE F_INVALID F_NONE,
    FLAG_DEFINE dt_X86_INS_SMSW F_NONE F_INVALID F_NONE,
    FLAG_DEFINE dt_X86_INS_SHLD F_NONE ALL_EFLAGS F_AF,
    FLAG_DEFINE dt_X86_INS_SHRD F_NONE ALL_EFLAGS F_AF,
    FLAG_DEFINE dt_X86_INS_STC F_NONE F_CF F_NONE,
    FLAG_DEFINE dt_X86_INS_STD F_NONE F_DF F_NONE,
    FLAG_DEFINE dt_X86_INS_STI F_NONE F_INVALID F_NONE,
    FLAG_DEFINE dt_X86_INS_STOSB F_NONE F_NONE F_NONE,
    FLAG_DEFINE dt_X86_INS_STOSW F_NONE F_NONE F_NONE,
    FLAG_DEFINE dt_X86_INS_STOSD F_NONE F_NONE F_NONE,
    FLAG_DEFINE dt_X86_INS_STOSQ F_NONE F_NONE F_NONE,
    FLAG_DEFINE dt_X86_INS_STR F_NONE F_INVALID F_NONE,
    FLAG_DEFINE dt_X86_INS_SUB F_NONE ALL_EFLAGS F_NONE,
    FLAG_DEFINE dt_X86_INS_TEST F_NONE ALL_EFLAGS F_AF,
    FLAG_DEFINE dt_X86_INS_TZCNT F_NONE ALL_EFLAGS F_OSAPF,
    FLAG_DEFINE dt_X86_INS_UD0 F_NONE F_NONE F_NONE,
    FLAG_DEFINE dt_X86_INS_VERR F_NONE F_ZF F_NONE,
    FLAG_DEFINE dt_X86_INS_VERW F_NONE F_ZF F_NONE,
    FLAG_DEFINE dt_X86_INS_WAIT F_NONE F_NONE F_NONE,
    FLAG_DEFINE dt_X86_INS_WBINVD F_NONE F_INVALID F_NONE,
    FLAG_DEFINE dt_X86_INS_WRMSR F_NONE F_INVALID F_NONE,
    FLAG_DEFINE dt_X86_INS_XADD F_NONE ALL_EFLAGS F_NONE,
    FLAG_DEFINE dt_X86_INS_XCHG F_NONE F_NONE F_NONE,
    FLAG_DEFINE dt_X86_INS_XLATB F_NONE F_NONE F_NONE,
    FLAG_DEFINE dt_X86_INS_XOR F_NONE ALL_EFLAGS F_AF,
    FLAG_DEFINE dt_X86_INS_ADCX F_CF F_CF F_NONE,
    FLAG_DEFINE dt_X86_INS_ADOX F_OF F_OF F_NONE,
    FLAG_DEFINE dt_X86_INS_BNDMOV F_NONE F_NONE F_NONE,
    FLAG_DEFINE dt_X86_INS_ENDING F_INVALID F_INVALID F_INVALID]"

text \<open>A designated initialiser: a later row for the same opcode replaces an earlier one, and an
  opcode without a row is all zero.\<close>

definition ir1_opcode_eflag_usedef :: "dt_x86_insn \<Rightarrow> ir1_eflag_usedef" where
  "ir1_opcode_eflag_usedef opcode =
    foldl (\<lambda>acc (k, row). if k = opcode then row else acc) \<lparr>ud_use = 0, ud_def = 0, ud_undef = 0\<rparr>
      (eflag_usedef_rows_A_L @ eflag_usedef_rows_M_Z)"

definition ir1_opcode_to_eflag_usedef :: "ir1_inst \<Rightarrow> ir1_eflag_usedef" where
  "ir1_opcode_to_eflag_usedef ir1 =
    (if ir1_opcode ir1 = dt_X86_INS_MOVSD \<and> i_opcode ir1 ! 0 = 0xa5
     then ir1_opcode_eflag_usedef (dt_X86_INS_MOVSB - dt_X86_INS_INVALID)
     else ir1_opcode_eflag_usedef (ir1_opcode ir1 - dt_X86_INS_INVALID))"

section \<open>Instructions that may leave a flag unchanged\<close>

definition rotate_shift_get_masked_imm :: "target \<Rightarrow> ir1_opnd \<Rightarrow> ir1_opnd \<Rightarrow> u32 result" where
  "rotate_shift_get_masked_imm t d s =
    map_sum id (\<lambda>v. trunc32 (if TARGET_X86_64 t \<and> ir1_opnd_size d = 64 then v AND 0x3f else v AND 0x1f))
      (ir1_opnd_uimm t s)"

text \<open>The count test shared by the three functions below: a count that is not an immediate, or
  an immediate that is 0 after masking.\<close>

definition count_may_be_zero :: "target \<Rightarrow> ir1_opnd \<Rightarrow> ir1_opnd \<Rightarrow> bool result" where
  "count_may_be_zero t opnd0 opnd1 =
    (if \<not> ir1_opnd_is_imm opnd1 then Inr True
     else map_sum id (\<lambda>c. c = 0) (rotate_shift_get_masked_imm t opnd0 opnd1))"

definition rotate_need_of :: "target \<Rightarrow> ir1_inst \<Rightarrow> bool result" where
  "rotate_need_of t pir1 =
    (if ir1_opcode pir1 \<in> {dt_X86_INS_RCL, dt_X86_INS_RCR, dt_X86_INS_ROL, dt_X86_INS_ROR} then
       if ir1_get_opnd_num pir1 = 1 then Inr False
       else count_may_be_zero t (ir1_get_opnd pir1 0) (ir1_get_opnd pir1 1)
     else Inr False)"

definition shift_need_oszpcf :: "target \<Rightarrow> ir1_inst \<Rightarrow> bool result" where
  "shift_need_oszpcf t pir1 =
    (if ir1_opcode pir1 \<in> {dt_X86_INS_SAL, dt_X86_INS_SAR, dt_X86_INS_SHL, dt_X86_INS_SHR} then
       count_may_be_zero t (ir1_get_opnd pir1 0) (ir1_get_opnd pir1 1)
     else Inr False)"

definition double_shift_need_all :: "target \<Rightarrow> ir1_inst \<Rightarrow> bool result" where
  "double_shift_need_all t pir1 =
    (if ir1_opcode pir1 \<in> {dt_X86_INS_SHLD, dt_X86_INS_SHRD} then
       count_may_be_zero t (ir1_get_opnd pir1 0) (ir1_get_opnd pir1 1)
     else Inr False)"

definition cmp_scas_need_zf :: "ir1_inst \<Rightarrow> bool" where
  "cmp_scas_need_zf pir1 \<longleftrightarrow>
    (ir1_prefix pir1 = dt_X86_PREFIX_REPE \<or> ir1_prefix pir1 = dt_X86_PREFIX_REPNE) \<and>
    ir1_opcode pir1 \<in> {dt_X86_INS_CMPSB, dt_X86_INS_CMPSW, dt_X86_INS_CMPSD, dt_X86_INS_CMPSQ,
      dt_X86_INS_SCASB, dt_X86_INS_SCASW, dt_X86_INS_SCASD, dt_X86_INS_SCASQ}"

section \<open>The block scan\<close>

text \<open>The loop of \<open>flag_reduction_pass1\<close> over the instructions from the last to the first.\<close>

fun pass1_scan :: "ir1_inst list \<Rightarrow> bool" where
  "pass1_scan [] = True"
| "pass1_scan (pir1 # rest) =
    (let usedef = ir1_opcode_to_eflag_usedef pir1 in
     if ud_use usedef \<noteq> F_NONE then False
     else if ud_def usedef = F_NONE then pass1_scan rest
     else True)"

definition flag_reduction_pass1 :: "ir1_inst list \<Rightarrow> bool" where
  "flag_reduction_pass1 tb = pass1_scan (rev tb)"

definition pending_use_of_succ :: "target \<Rightarrow> ir1_inst list \<Rightarrow> u8" where
  "pending_use_of_succ t tb =
    (let pir1 = last tb in
     if ir1_is_syscall t pir1 \<or> (ir1_is_call pir1 \<and> ir1_is_indirect_call pir1) then F_NONE
     else ALL_EFLAGS)"

text \<open>The three tests in program order; they are compiled out under CONFIG\_LATX\_RADICAL\_EFLAGS.\<close>

definition flag_needs :: "target \<Rightarrow> bool \<Rightarrow> ir1_inst \<Rightarrow> (bool \<times> bool \<times> bool) result" where
  "flag_needs t radical pir1 =
    (if radical then Inr (False, False, False) else
     case rotate_need_of t pir1 of Inl e \<Rightarrow> Inl e | Inr need_of \<Rightarrow>
     case shift_need_oszpcf t pir1 of Inl e \<Rightarrow> Inl e | Inr need_oszpcf \<Rightarrow>
     case double_shift_need_all t pir1 of Inl e \<Rightarrow> Inl e | Inr need_all \<Rightarrow>
     Inr (need_of, need_oszpcf, need_all))"

definition flag_reduction :: "target \<Rightarrow> bool \<Rightarrow> ir1_inst \<Rightarrow> u8 \<Rightarrow> (ir1_inst \<times> u8) result" where
  "flag_reduction t radical pir1 pending_use =
    (case flag_needs t radical pir1 of
       Inl e \<Rightarrow> Inl e
     | Inr (need_of, need_oszpcf, need_all) \<Rightarrow>
         let curr = ir1_opcode_to_eflag_usedef pir1;
             curr_def = ud_def curr;
             current_def = (if radical then F_NONE else curr_def);
             curr_def = (if need_of then curr_def AND NOT F_OF else curr_def);
             curr_def = (if need_oszpcf then curr_def AND NOT (F_OSZPF OR F_CF) else curr_def);
             curr_def = (if need_all then curr_def AND NOT F_OSZPF else curr_def);
             current_def = (if radical then current_def else current_def AND pending_use);
             curr_def = curr_def AND pending_use;
             pending_use = pending_use AND NOT curr_def;
             curr_use = (if cmp_scas_need_zf pir1 then ud_use curr OR F_ZF else ud_use curr);
             pending_use = pending_use OR curr_use;
             current_def = current_def OR curr_def
         in Inr (ir1_set_eflag_def (current_def AND NOT (ud_undef curr))
                   (ir1_set_eflag_use curr_use pir1), pending_use))"

definition flag_reduction_check :: "target \<Rightarrow> ir1_inst list \<Rightarrow> u8" where
  "flag_reduction_check t tb =
    (if flag_reduction_pass1 tb then pending_use_of_succ t tb else ALL_EFLAGS)"

definition flag_gen :: "ir1_inst \<Rightarrow> ir1_inst" where
  "flag_gen pir1 =
    (let curr = ir1_opcode_to_eflag_usedef pir1 in
     ir1_set_eflag_def (ud_def curr AND NOT (ud_undef curr)) (ir1_set_eflag_use (ud_use curr) pir1))"

text \<open>OPT\_FLAG\_RDTN: the scan step under the run-time option option\_flag\_reduction.\<close>

definition OPT_FLAG_RDTN ::
  "target \<Rightarrow> bool \<Rightarrow> bool \<Rightarrow> ir1_inst \<Rightarrow> u8 \<Rightarrow> (ir1_inst \<times> u8) result" where
  "OPT_FLAG_RDTN t radical option_flag_reduction inst pending_use =
    (if option_flag_reduction then flag_reduction t radical inst pending_use
     else Inr (flag_gen inst, pending_use))"

section \<open>Kill and gen sets of one step\<close>

text \<open>What one step removes from the pending set (\<open>fr_kill\<close>) and adds to it (\<open>fr_use\<close>).\<close>

definition fr_use :: "ir1_inst \<Rightarrow> u8" where
  "fr_use i = (if cmp_scas_need_zf i then ud_use (ir1_opcode_to_eflag_usedef i) OR F_ZF
               else ud_use (ir1_opcode_to_eflag_usedef i))"

abbreviation fr_def :: "ir1_inst \<Rightarrow> u8" where
  "fr_def i \<equiv> ud_def (ir1_opcode_to_eflag_usedef i)"

abbreviation fr_undef :: "ir1_inst \<Rightarrow> u8" where
  "fr_undef i \<equiv> ud_undef (ir1_opcode_to_eflag_usedef i)"

definition fr_kill :: "target \<Rightarrow> bool \<Rightarrow> ir1_inst \<Rightarrow> u8" where
  "fr_kill t radical i =
    (case flag_needs t radical i of
       Inl e \<Rightarrow> 0
     | Inr (need_of, need_oszpcf, need_all) \<Rightarrow>
         fr_def i AND (if need_of then NOT F_OF else NOT 0)
           AND (if need_oszpcf then NOT (F_OSZPF OR F_CF) else NOT 0)
           AND (if need_all then NOT F_OSZPF else NOT 0))"

definition flags_ok :: "target \<Rightarrow> bool \<Rightarrow> ir1_inst \<Rightarrow> bool" where
  "flags_ok t radical i = (\<exists>ns. flag_needs t radical i = Inr ns)"

lemma fr_kill_def_sub: "bit (fr_kill t radical i) f \<Longrightarrow> bit (fr_def i) f"
  by (auto simp: fr_kill_def mask_simps split: sum.splits prod.splits if_splits)

lemma flag_reduction_eq:
  assumes "flags_ok t radical i"
  shows "flag_reduction t radical i p =
    Inr (i\<lparr>i_eflag_use := fr_use i, i_eflag_def := fr_def i AND p AND NOT (fr_undef i)\<rparr>,
         (p AND NOT (fr_kill t radical i)) OR fr_use i)"
proof -
  obtain a b c where n: "flag_needs t radical i = Inr (a, b, c)"
    using assms by (auto simp: flags_ok_def)
  let ?d = "fr_def i"
  let ?d3 = "fr_kill t radical i"
  have k: "(if c then (if b then (if a then ?d AND NOT F_OF else ?d) AND NOT (F_OSZPF OR F_CF)
        else if a then ?d AND NOT F_OF else ?d) AND NOT F_OSZPF
      else if b then (if a then ?d AND NOT F_OF else ?d) AND NOT (F_OSZPF OR F_CF)
        else if a then ?d AND NOT F_OF else ?d) = ?d3"
    by (simp add: fr_kill_def n and.assoc)
  have r: "radical \<Longrightarrow> ?d3 = ?d"
    using n by (auto simp: fr_kill_def flag_needs_def)
  have e: "((if radical then if radical then F_NONE else ?d else (if radical then F_NONE else ?d) AND p)
      OR ?d3 AND p) AND NOT (fr_undef i) = ?d AND p AND NOT (fr_undef i)"
    using r by (intro bit_eqI) (auto simp: mask_simps dest: fr_kill_def_sub)
  have q: "p AND NOT (?d3 AND p) = p AND NOT ?d3"
    by (rule bit_eqI) (auto simp: mask_simps)
  show ?thesis
    unfolding flag_reduction_def n sum.case prod.case Let_def k e q fr_use_def [symmetric]
    by (simp add: ir1_set_eflag_use_def ir1_set_eflag_def_def)
qed

end
