(* ===== verification/Flag_Dataflow.thy ===== *)
theory Flag_Dataflow
  imports Flag_Reduction
begin

text \<open>
  Dead flag elimination over one block and over a translation unit (TU):
  optimization/ir1-optimization.c.  \<open>ir1_optimization\<close> scans one block;
  \<open>over_tb_rfd\<close> first scans every block of the unit with all flags pending, then
  propagates live flags over the recorded successor pointers until nothing changes, and
  last rescans every block with the propagated set.

  Translation blocks live in a store from block identifiers (the C pointers) to records.
  The pattern matcher that the same loops call (OPT\_INSTS\_PTN) is taken to be off
  (option\_instptn = 0); it does not touch the fields modelled here.
\<close>

section \<open>Translation blocks\<close>

abbreviation (input) IR1_TYPE_NORMAL :: nat where "IR1_TYPE_NORMAL \<equiv> 0"
abbreviation (input) IR1_TYPE_BRANCH :: nat where "IR1_TYPE_BRANCH \<equiv> 1"
abbreviation (input) IR1_TYPE_JUMP :: nat where "IR1_TYPE_JUMP \<equiv> 2"
abbreviation (input) IR1_TYPE_CALL :: nat where "IR1_TYPE_CALL \<equiv> 3"
abbreviation (input) IR1_TYPE_RET :: nat where "IR1_TYPE_RET \<equiv> 4"
abbreviation (input) IR1_TYPE_JUMPIN :: nat where "IR1_TYPE_JUMPIN \<equiv> 5"
abbreviation (input) IR1_TYPE_CALLIN :: nat where "IR1_TYPE_CALLIN \<equiv> 6"
abbreviation (input) IR1_TYPE_SYSCALL :: nat where "IR1_TYPE_SYSCALL \<equiv> 7"

text \<open>The fields of TranslationBlock and of its separated\_data that the analysis uses; icount is
  the length of \<open>tb_ir1\<close>, and the two entries of next\_tb are \<open>tb_next\<close> (TU\_TB\_INDEX\_NEXT) and
  \<open>tb_target\<close> (TU\_TB\_INDEX\_TARGET).\<close>

record translation_block =
  tb_ir1 :: "ir1_inst list"
  tb_eflag_use :: u8
  tb_eflag_out :: u8
  tb_last_ir1_type :: nat
  tb_next :: "nat option"
  tb_target :: "nat option"
  tb_next_pc :: u64
  tb_target_pc :: u64

type_synonym tb_store = "nat \<Rightarrow> translation_block"

definition get_last_info :: "target \<Rightarrow> translation_block \<Rightarrow> ir1_inst \<Rightarrow> translation_block result" where
  "get_last_info t tb pir1 =
    (if tb_ir1 tb = [] then Inr tb else
     let tb = tb\<lparr>tb_next_pc := ir1_addr_next t pir1\<rparr> in
     if ir1_is_branch pir1 then
       if ir1_opnd_is_imm (ir1_get_opnd pir1 0) then
         map_sum id (\<lambda>a. tb\<lparr>tb_last_ir1_type := IR1_TYPE_BRANCH, tb_target_pc := a\<rparr>) (ir1_target_addr t pir1)
       else Inl Assert_failed
     else if ir1_is_call pir1 \<and> \<not> ir1_is_indirect_call pir1 then
       map_sum id (\<lambda>a. tb\<lparr>tb_last_ir1_type := IR1_TYPE_CALL, tb_target_pc := a\<rparr>) (ir1_target_addr t pir1)
     else if ir1_is_jump pir1 \<and> \<not> ir1_is_indirect_jmp pir1 then
       map_sum id (\<lambda>a. tb\<lparr>tb_last_ir1_type := IR1_TYPE_JUMP, tb_target_pc := a\<rparr>) (ir1_target_addr t pir1)
     else if ir1_is_return pir1 then Inr (tb\<lparr>tb_last_ir1_type := IR1_TYPE_RET\<rparr>)
     else if ir1_opcode pir1 = dt_X86_INS_CALL \<and> ir1_is_indirect_call pir1 then
       Inr (tb\<lparr>tb_last_ir1_type := IR1_TYPE_CALLIN\<rparr>)
     else if ir1_opcode pir1 = dt_X86_INS_JMP \<and> ir1_is_indirect_jmp pir1 then
       Inr (tb\<lparr>tb_last_ir1_type := IR1_TYPE_JUMPIN\<rparr>)
     else Inr (tb\<lparr>tb_last_ir1_type := IR1_TYPE_NORMAL\<rparr>))"

section \<open>The scans\<close>

text \<open>The loop "for (i = tb\_ir1\_num(tb) - 1; i >= 0; --i)" with a step that may change the
  instruction and carries the pending set.\<close>

fun scan_back :: "(ir1_inst \<Rightarrow> u8 \<Rightarrow> (ir1_inst \<times> u8) result) \<Rightarrow> ir1_inst list \<Rightarrow> u8 \<Rightarrow>
    (ir1_inst list \<times> u8) result" where
  "scan_back step [] pending = Inr ([], pending)"
| "scan_back step (ir1 # ir1s) pending =
    (case scan_back step ir1s pending of
       Inl e \<Rightarrow> Inl e
     | Inr (ir1s', pending') \<Rightarrow>
         (case step ir1 pending' of
            Inl e \<Rightarrow> Inl e
          | Inr (ir1', pending'') \<Rightarrow> Inr (ir1' # ir1s', pending'')))"

definition ir1_optimization ::
  "target \<Rightarrow> bool \<Rightarrow> bool \<Rightarrow> translation_block \<Rightarrow> translation_block result" where
  "ir1_optimization t radical option_flag_reduction tb =
    (if tb_ir1 tb = [] then Inr tb else
     map_sum id (\<lambda>(ir1s, rdtn_pending_use). tb\<lparr>tb_ir1 := ir1s, tb_eflag_use := rdtn_pending_use\<rparr>)
       (scan_back (OPT_FLAG_RDTN t radical option_flag_reduction) (tb_ir1 tb)
         (flag_reduction_check t (tb_ir1 tb))))"

definition ir1_optimization_over_tb ::
  "target \<Rightarrow> bool \<Rightarrow> bool \<Rightarrow> translation_block \<Rightarrow> translation_block result" where
  "ir1_optimization_over_tb t radical option_flag_reduction tb =
    (if tb_ir1 tb = [] then Inr tb else
     map_sum id (\<lambda>(ir1s, rdtn_pending_use). tb\<lparr>tb_ir1 := ir1s, tb_eflag_use := rdtn_pending_use\<rparr>)
       (scan_back (OPT_FLAG_RDTN t radical option_flag_reduction) (tb_ir1 tb)
         (flag_reduction_check t (tb_ir1 tb) AND tb_eflag_out tb)))"

section \<open>Propagation over the unit\<close>

definition get_eflag_out :: "tb_store \<Rightarrow> nat \<Rightarrow> tb_store" where
  "get_eflag_out st p =
    (let tb = st p; out = tb_eflag_out tb; ty = tb_last_ir1_type tb in
     if ty = IR1_TYPE_BRANCH then
       (case (tb_next tb, tb_target tb) of
          (Some n, Some g) \<Rightarrow>
            st(p := tb\<lparr>tb_eflag_out := out OR tb_eflag_use (st g) OR tb_eflag_use (st n)\<rparr>)
        | _ \<Rightarrow> st(p := tb\<lparr>tb_eflag_out := out OR ALL_EFLAGS\<rparr>))
     else if ty = IR1_TYPE_JUMP \<or> ty = IR1_TYPE_CALL then
       (case tb_target tb of
          Some g \<Rightarrow> st(p := tb\<lparr>tb_eflag_out := out OR tb_eflag_use (st g)\<rparr>)
        | None \<Rightarrow> st(p := tb\<lparr>tb_eflag_out := out OR ALL_EFLAGS\<rparr>))
     else if ty = IR1_TYPE_NORMAL then
       (case tb_next tb of
          Some n \<Rightarrow> st(p := tb\<lparr>tb_eflag_out := out OR tb_eflag_use (st n)\<rparr>)
        | None \<Rightarrow> st(p := tb\<lparr>tb_eflag_out := out OR ALL_EFLAGS\<rparr>))
     else if ty = IR1_TYPE_CALLIN \<or> ty = IR1_TYPE_JUMPIN \<or> ty = IR1_TYPE_RET then
       st(p := tb\<lparr>tb_eflag_out := out OR ALL_EFLAGS\<rparr>)
     else st)"

text \<open>First loop of \<open>over_tb_rfd\<close>.  The array eflag\_def is on the stack and is not written for
  a block without instructions, whose entry keeps the unknown content \<open>junk\<close>.\<close>

fun rfd_init :: "target \<Rightarrow> bool \<Rightarrow> bool \<Rightarrow> nat list \<Rightarrow> u8 list \<Rightarrow> tb_store \<Rightarrow> (tb_store \<times> u8 list) result" where
  "rfd_init t radical ofr [] junk st = Inr (st, [])"
| "rfd_init t radical ofr (p # ps) junk st =
    (if tb_ir1 (st p) = [] then
       map_sum id (\<lambda>(st', ds). (st', hd junk # ds)) (rfd_init t radical ofr ps (tl junk) st)
     else
       (case scan_back (OPT_FLAG_RDTN t radical ofr) (tb_ir1 (st p)) ALL_EFLAGS of
          Inl e \<Rightarrow> Inl e
        | Inr (ir1s, rdtn_pending_use) \<Rightarrow>
            map_sum id (\<lambda>(st', ds). (st', foldr (\<lambda>i d. d OR i_eflag_def i) ir1s F_NONE # ds))
              (rfd_init t radical ofr ps (tl junk)
                (st(p := (st p)\<lparr>tb_ir1 := ir1s, tb_eflag_use := rdtn_pending_use\<rparr>)))))"

text \<open>Body of the inner loop for one block, and the inner loop from the last block down; the flag
  \<open>unfinished\<close> is set when a mask changed.\<close>

definition rfd_step :: "nat \<Rightarrow> u8 \<Rightarrow> tb_store \<Rightarrow> tb_store" where
  "rfd_step p d st =
    (let st = get_eflag_out st p in
     st(p := (st p)\<lparr>tb_eflag_use := tb_eflag_use (st p) OR (tb_eflag_out (st p) AND NOT d)\<rparr>))"

fun rfd_round :: "(nat \<times> u8) list \<Rightarrow> tb_store \<Rightarrow> tb_store \<times> bool" where
  "rfd_round [] st = (st, False)"
| "rfd_round ((p, d) # rest) st =
    (let (st1, unfinished) = rfd_round rest st;
         st2 = rfd_step p d st1
     in (st2, unfinished \<or> tb_eflag_use (st2 p) \<noteq> tb_eflag_use (st1 p) \<or>
              tb_eflag_out (st2 p) \<noteq> tb_eflag_out (st1 p)))"

section \<open>Termination of the propagation\<close>

text \<open>Masks only grow, and a round that reports a change has grown one of them.\<close>

definition tb_le :: "translation_block \<Rightarrow> translation_block \<Rightarrow> bool" where
  "tb_le a b \<longleftrightarrow> sub_mask (tb_eflag_use a) (tb_eflag_use b) \<and> sub_mask (tb_eflag_out a) (tb_eflag_out b) \<and>
     tb_ir1 b = tb_ir1 a \<and> tb_last_ir1_type b = tb_last_ir1_type a \<and>
     tb_next b = tb_next a \<and> tb_target b = tb_target a"

definition store_le :: "tb_store \<Rightarrow> tb_store \<Rightarrow> bool" where
  "store_le s1 s2 \<longleftrightarrow> (\<forall>p. tb_le (s1 p) (s2 p))"

lemma tb_le_refl [simp]: "tb_le a a"
  by (simp add: tb_le_def)

lemma tb_le_trans: "tb_le a b \<Longrightarrow> tb_le b c \<Longrightarrow> tb_le a c"
  unfolding tb_le_def by (metis sub_mask_trans)

lemma store_le_refl [simp]: "store_le s s"
  by (simp add: store_le_def)

lemma store_le_trans: "store_le a b \<Longrightarrow> store_le b c \<Longrightarrow> store_le a c"
  unfolding store_le_def by (metis tb_le_trans)

lemma store_leD: "store_le a b \<Longrightarrow> tb_le (a p) (b p)"
  by (simp add: store_le_def)

lemma sub_mask_or_left: "sub_mask a (a OR b)"
  by (simp add: sub_mask_iff bit_or_iff)

lemma get_eflag_out_other: "q \<noteq> p \<Longrightarrow> get_eflag_out st p q = st q"
  by (simp add: get_eflag_out_def Let_def split: option.splits)

lemma get_eflag_out_le: "tb_le (st q) (get_eflag_out st p q)"
proof (cases "q = p")
  case True
  show ?thesis
    unfolding True
    by (simp add: get_eflag_out_def Let_def tb_le_def sub_mask_iff bit_or_iff split: option.splits)
qed (simp add: get_eflag_out_other)

lemma rfd_step_other: "q \<noteq> p \<Longrightarrow> rfd_step p d st q = st q"
  by (simp add: rfd_step_def Let_def get_eflag_out_other)

lemma rfd_step_le: "store_le st (rfd_step p d st)"
  unfolding store_le_def
proof
  fix q
  have "tb_le (get_eflag_out st p q) (rfd_step p d st q)"
    by (simp add: rfd_step_def Let_def tb_le_def sub_mask_or_left)
  with get_eflag_out_le show "tb_le (st q) (rfd_step p d st q)"
    by (rule tb_le_trans)
qed

lemma rfd_round_le: "store_le st (fst (rfd_round ps st))"
  by (induction ps st rule: rfd_round.induct)
    (auto simp: Let_def split: prod.splits intro: store_le_trans rfd_step_le)

lemma rfd_round_other: "q \<notin> fst ` set ps \<Longrightarrow> fst (rfd_round ps st) q = st q"
  by (induction ps st rule: rfd_round.induct) (auto simp: Let_def rfd_step_other split: prod.splits)

text \<open>The number of flag bits still clear in the two masks of a block.\<close>

definition clear_bits :: "u8 \<Rightarrow> nat" where
  "clear_bits w = card {n. n < 8 \<and> \<not> bit w n}"

definition tb_clear :: "translation_block \<Rightarrow> nat" where
  "tb_clear tb = clear_bits (tb_eflag_use tb) + clear_bits (tb_eflag_out tb)"

lemma clear_bits_mono: "sub_mask a b \<Longrightarrow> clear_bits b \<le> clear_bits a"
  unfolding clear_bits_def by (rule card_mono) (auto simp: sub_mask_iff)

lemma clear_bits_strict:
  assumes "sub_mask a b" "a \<noteq> b"
  shows "clear_bits b < clear_bits a"
proof -
  have "\<exists>n<8. bit b n \<and> \<not> bit a n"
  proof (rule ccontr)
    assume "\<not> ?thesis"
    then have "a = b" using assms(1) by (intro bit_word_eqI) (auto simp: sub_mask_iff)
    with assms(2) show False by simp
  qed
  then obtain n where n: "n < 8" "bit b n" "\<not> bit a n" by blast
  show ?thesis
    unfolding clear_bits_def
    by (rule psubset_card_mono) (use n assms(1) in \<open>auto simp: sub_mask_iff\<close>)
qed

lemma tb_clear_mono: "tb_le a b \<Longrightarrow> tb_clear b \<le> tb_clear a"
  unfolding tb_le_def tb_clear_def by (simp add: add_mono clear_bits_mono)

lemma tb_clear_strict:
  assumes "tb_le a b" "tb_eflag_use b \<noteq> tb_eflag_use a \<or> tb_eflag_out b \<noteq> tb_eflag_out a"
  shows "tb_clear b < tb_clear a"
proof -
  have s: "sub_mask (tb_eflag_use a) (tb_eflag_use b)" "sub_mask (tb_eflag_out a) (tb_eflag_out b)"
    using assms(1) by (simp_all add: tb_le_def)
  from assms(2) show ?thesis
  proof
    assume "tb_eflag_use b \<noteq> tb_eflag_use a"
    then show ?thesis
      unfolding tb_clear_def by (intro add_less_le_mono clear_bits_strict clear_bits_mono s) simp
  next
    assume "tb_eflag_out b \<noteq> tb_eflag_out a"
    then show ?thesis
      unfolding tb_clear_def by (intro add_le_less_mono clear_bits_strict clear_bits_mono s) simp
  qed
qed

definition rfd_measure :: "(nat \<times> u8) list \<Rightarrow> tb_store \<Rightarrow> nat" where
  "rfd_measure ps st = (\<Sum>p \<in> fst ` set ps. tb_clear (st p))"

lemma rfd_round_changed:
  assumes "snd (rfd_round ps st)"
  obtains p where "p \<in> fst ` set ps" "tb_clear (fst (rfd_round ps st) p) < tb_clear (st p)"
  using assms
proof (induction ps st arbitrary: thesis rule: rfd_round.induct)
  case (2 p d rest st)
  obtain st1 u where r: "rfd_round rest st = (st1, u)" by force
  have le1: "store_le st st1" using rfd_round_le[of st rest] by (simp add: r)
  have le2: "store_le st1 (rfd_step p d st1)" by (rule rfd_step_le)
  have fs: "fst (rfd_round ((p, d) # rest) st) = rfd_step p d st1" by (simp add: r Let_def)
  show ?case
  proof (cases u)
    case True
    then obtain q where q: "q \<in> fst ` set rest" "tb_clear (st1 q) < tb_clear (st q)"
      using "2.IH" r by (metis fst_conv snd_conv)
    then have "tb_clear (rfd_step p d st1 q) < tb_clear (st q)"
      using tb_clear_mono[OF store_leD[OF le2, of q]] by linarith
    with q(1) show ?thesis by (intro "2.prems"(1)[of q]) (simp_all add: fs del: rfd_round.simps)
  next
    case False
    then have "tb_eflag_use (rfd_step p d st1 p) \<noteq> tb_eflag_use (st1 p) \<or>
        tb_eflag_out (rfd_step p d st1 p) \<noteq> tb_eflag_out (st1 p)"
      using "2.prems"(2) by (simp add: r Let_def)
    with store_leD[OF le2] have "tb_clear (rfd_step p d st1 p) < tb_clear (st1 p)"
      by (rule tb_clear_strict)
    then have "tb_clear (rfd_step p d st1 p) < tb_clear (st p)"
      using tb_clear_mono[OF store_leD[OF le1, of p]] by linarith
    then show ?thesis by (intro "2.prems"(1)[of p]) (simp_all add: fs del: rfd_round.simps)
  qed
qed simp

lemma rfd_measure_decreases:
  assumes "snd (rfd_round ps st)"
  shows "rfd_measure ps (fst (rfd_round ps st)) < rfd_measure ps st"
proof -
  obtain p where p: "p \<in> fst ` set ps" "tb_clear (fst (rfd_round ps st) p) < tb_clear (st p)"
    using assms by (rule rfd_round_changed)
  show ?thesis
    unfolding rfd_measure_def
    by (rule sum_strict_mono_ex1)
      (use p store_leD[OF rfd_round_le] in \<open>auto intro: tb_clear_mono\<close>)
qed

function rfd_loop :: "(nat \<times> u8) list \<Rightarrow> tb_store \<Rightarrow> tb_store" where
  "rfd_loop ps st =
    (let (st', unfinished) = rfd_round ps st in if unfinished then rfd_loop ps st' else st')"
  by pat_completeness auto
termination
  by (relation "measure (\<lambda>(ps, st). rfd_measure ps st)")
    (auto dest: rfd_measure_decreases simp: prod_eq_iff)

declare rfd_loop.simps [simp del]

text \<open>Last loop, and the whole pass.\<close>

fun rfd_finish :: "target \<Rightarrow> bool \<Rightarrow> bool \<Rightarrow> nat list \<Rightarrow> tb_store \<Rightarrow> tb_store result" where
  "rfd_finish t radical ofr [] st = Inr st"
| "rfd_finish t radical ofr (p # ps) st =
    (case ir1_optimization_over_tb t radical ofr (st p) of
       Inl e \<Rightarrow> Inl e
     | Inr tb \<Rightarrow> rfd_finish t radical ofr ps (st(p := tb)))"

definition over_tb_rfd ::
  "target \<Rightarrow> bool \<Rightarrow> bool \<Rightarrow> u8 list \<Rightarrow> nat list \<Rightarrow> tb_store \<Rightarrow> tb_store result" where
  "over_tb_rfd t radical ofr junk tb_list st =
    (case rfd_init t radical ofr tb_list junk st of
       Inl e \<Rightarrow> Inl e
     | Inr (st1, eflag_def) \<Rightarrow>
         rfd_finish t radical ofr tb_list (rfd_loop (zip tb_list eflag_def) st1))"

end
