(* ===== verification/Flag_Soundness.thy ===== *)
theory Flag_Soundness
  imports Flag_Dataflow
begin

text \<open>
  Correctness of dead flag elimination.  The hardware side is an interface, the locale
  \<open>x86_flag_semantics\<close>: executing an instruction may read only the flags of its use
  column, and always writes the flags of its def column unless the instruction can leave
  all flags alone (a shift or rotate by 0, a repeated string comparison of length 0).
  Against any such semantics, the annotated block computes the same machine states as the
  original block, for one block and along every path of a translation unit.
\<close>

section \<open>Closed form of a scan\<close>

fun live_before :: "target \<Rightarrow> bool \<Rightarrow> ir1_inst list \<Rightarrow> u8 \<Rightarrow> u8" where
  "live_before t radical [] p = p"
| "live_before t radical (i # is) p =
    (live_before t radical is p AND NOT (fr_kill t radical i)) OR fr_use i"

fun annotate :: "target \<Rightarrow> bool \<Rightarrow> ir1_inst list \<Rightarrow> u8 \<Rightarrow> ir1_inst list" where
  "annotate t radical [] p = []"
| "annotate t radical (i # is) p =
    i\<lparr>i_eflag_use := fr_use i,
      i_eflag_def := fr_def i AND live_before t radical is p AND NOT (fr_undef i)\<rparr>
    # annotate t radical is p"

lemma scan_back_reduction:
  assumes "\<forall>i\<in>set is. flags_ok t radical i"
  shows "scan_back (OPT_FLAG_RDTN t radical True) is p =
    Inr (annotate t radical is p, live_before t radical is p)"
  using assms by (induction "is") (simp_all add: OPT_FLAG_RDTN_def flag_reduction_eq)

lemma live_before_mono:
  "sub_mask p q \<Longrightarrow> sub_mask (live_before t radical is p) (live_before t radical is q)"
  by (induction "is") (auto simp: sub_mask_iff mask_simps)

text \<open>The annotations do not influence the analysis.\<close>

definition strip :: "ir1_inst \<Rightarrow> ir1_inst" where
  "strip i = i\<lparr>i_eflag_use := 0, i_eflag_def := 0\<rparr>"

lemma ir1_accessors_strip:
  "ir1_opcode (strip i) = ir1_opcode i" "ir1_prefix (strip i) = ir1_prefix i"
  "ir1_get_opnd (strip i) n = ir1_get_opnd i n" "ir1_get_opnd_num (strip i) = ir1_get_opnd_num i"
  "ir1_is_syscall t (strip i) = ir1_is_syscall t i" "ir1_is_call (strip i) = ir1_is_call i"
  "ir1_is_indirect_call (strip i) = ir1_is_indirect_call i" "i_opcode (strip i) = i_opcode i"
  by (simp_all add: strip_def ir1_opcode_def ir1_prefix_def ir1_get_opnd_def ir1_get_opnd_num_def
      ir1_is_syscall_def ir1_is_call_def ir1_is_indirect_call_def)

lemma usedef_strip: "ir1_opcode_to_eflag_usedef (strip i) = ir1_opcode_to_eflag_usedef i"
  unfolding ir1_opcode_to_eflag_usedef_def ir1_accessors_strip by (rule refl)

lemma cmp_scas_strip: "cmp_scas_need_zf (strip i) = cmp_scas_need_zf i"
  by (simp add: cmp_scas_need_zf_def ir1_accessors_strip)

lemma flag_needs_strip: "flag_needs t radical (strip i) = flag_needs t radical i"
  unfolding flag_needs_def rotate_need_of_def shift_need_oszpcf_def double_shift_need_all_def
    ir1_accessors_strip by (rule refl)

lemmas fr_strip [simp] = usedef_strip cmp_scas_strip flag_needs_strip

lemma fr_use_strip [simp]: "fr_use (strip i) = fr_use i"
  by (simp add: fr_use_def)

lemma fr_kill_strip [simp]: "fr_kill t radical (strip i) = fr_kill t radical i"
  unfolding fr_kill_def fr_strip by (rule refl)

lemma flags_ok_strip [simp]: "flags_ok t radical (strip i) = flags_ok t radical i"
  by (simp add: flags_ok_def)

lemma map_strip_annotate [simp]: "map strip (annotate t radical is p) = map strip is"
  by (induction "is") (simp_all add: strip_def)

lemma live_before_strip: "live_before t radical (map strip is) p = live_before t radical is p"
  by (induction "is") simp_all

lemma live_before_annotate [simp]:
  "live_before t radical (annotate t radical' is p') p = live_before t radical is p"
  by (metis live_before_strip map_strip_annotate)

lemma flags_ok_annotate [simp]:
  "(\<forall>i\<in>set (annotate t radical' is p). flags_ok t radical i) = (\<forall>i\<in>set is. flags_ok t radical i)"
proof -
  have "(\<forall>i\<in>set xs. flags_ok t radical i) = (\<forall>i\<in>set (map strip xs). flags_ok t radical i)" for xs
    by simp
  then show ?thesis by (metis map_strip_annotate)
qed

lemma annotate_Nil_iff: "annotate t radical is p = [] \<longleftrightarrow> is = []"
  by (cases "is") simp_all

lemma annotate_annotate [simp]:
  "annotate t radical (annotate t radical' is p') p = annotate t radical is p"
proof (induction "is")
  case (Cons i "is")
  let ?i = "i\<lparr>i_eflag_use := fr_use i,
      i_eflag_def := fr_def i AND live_before t radical' is p' AND NOT (fr_undef i)\<rparr>"
  have s: "strip ?i = strip i" by (simp add: strip_def)
  have "fr_use ?i = fr_use i" "ir1_opcode_to_eflag_usedef ?i = ir1_opcode_to_eflag_usedef i"
    by (metis s fr_use_strip, metis s usedef_strip)
  with Cons show ?case by simp
qed simp

section \<open>Exact characterisation\<close>

text \<open>A flag is live before a block when some instruction uses it before any instruction kills
  it, or when no instruction kills it and it is pending at the end.\<close>

definition live_path :: "target \<Rightarrow> bool \<Rightarrow> ir1_inst list \<Rightarrow> u8 \<Rightarrow> nat \<Rightarrow> bool" where
  "live_path t radical is p f \<longleftrightarrow>
    (\<exists>k<length is. bit (fr_use (is ! k)) f \<and> (\<forall>j<k. \<not> bit (fr_kill t radical (is ! j)) f)) \<or>
    (bit p f \<and> (\<forall>j<length is. \<not> bit (fr_kill t radical (is ! j)) f))"

lemma live_path_Nil: "live_path t radical [] p f = bit p f"
  by (simp add: live_path_def)

lemma live_path_Cons:
  "live_path t radical (i # is) p f \<longleftrightarrow>
    bit (fr_use i) f \<or> (\<not> bit (fr_kill t radical i) f \<and> live_path t radical is p f)"
  by (simp add: live_path_def Ex_less_Suc2 All_less_Suc2) blast

lemma bit_live_before: "bit (live_before t radical is p) f = live_path t radical is p f"
  by (induction "is")
    (auto simp: live_path_Nil live_path_Cons mask_simps dest: bit_imp_le_length)

section \<open>The hardware contract\<close>

text \<open>The manual's conditions under which an instruction leaves the flags alone: a shift, rotate
  or double shift whose masked count is 0 (the count is operand 1, for a double shift operand 2),
  and a string comparison under REPE or REPNE with a zero counter register.\<close>

definition zero_count :: "target \<Rightarrow> ir1_opnd \<Rightarrow> ir1_opnd \<Rightarrow> bool" where
  "zero_count t opnd0 opnd1 = (count_may_be_zero t opnd0 opnd1 \<noteq> Inr False)"

definition may_keep_flags :: "target \<Rightarrow> ir1_inst \<Rightarrow> bool" where
  "may_keep_flags t i \<longleftrightarrow>
    (ir1_opcode i \<in> {dt_X86_INS_RCL, dt_X86_INS_RCR, dt_X86_INS_ROL, dt_X86_INS_ROR} \<and>
       ir1_get_opnd_num i \<noteq> 1 \<and> zero_count t (ir1_get_opnd i 0) (ir1_get_opnd i 1)) \<or>
    (ir1_opcode i \<in> {dt_X86_INS_SAL, dt_X86_INS_SAR, dt_X86_INS_SHL, dt_X86_INS_SHR} \<and>
       zero_count t (ir1_get_opnd i 0) (ir1_get_opnd i 1)) \<or>
    (ir1_opcode i \<in> {dt_X86_INS_SHLD, dt_X86_INS_SHRD} \<and>
       zero_count t (ir1_get_opnd i 0) (ir1_get_opnd i 2)) \<or>
    cmp_scas_need_zf i"

definition must_def :: "target \<Rightarrow> ir1_inst \<Rightarrow> u8" where
  "must_def t i = (if may_keep_flags t i then 0 else fr_def i)"

locale x86_flag_semantics =
  fixes t :: target
    and exec :: "ir1_inst \<Rightarrow> 's \<Rightarrow> (nat \<Rightarrow> bool) \<Rightarrow> 's"
    and flag_val :: "ir1_inst \<Rightarrow> 's \<Rightarrow> (nat \<Rightarrow> bool) \<Rightarrow> nat \<Rightarrow> bool"
    and writes :: "ir1_inst \<Rightarrow> 's \<Rightarrow> nat \<Rightarrow> bool"
  assumes exec_reads: "(\<And>f. f < 6 \<Longrightarrow> bit (fr_use i) f \<Longrightarrow> F f = G f) \<Longrightarrow> exec i s F = exec i s G"
    and val_reads: "(\<And>f. f < 6 \<Longrightarrow> bit (fr_use i) f \<Longrightarrow> F f = G f) \<Longrightarrow>
          flag_val i s F g = flag_val i s G g"
    and writes_must: "f < 6 \<Longrightarrow> bit (must_def t i) f \<Longrightarrow> writes i s f"

text \<open>Architectural execution.  A flag is \<open>None\<close> after an instruction whose undef column has it;
  an instruction that reads such a flag has no defined behaviour and the run is \<open>None\<close>.\<close>

definition arch_step ::
  "(ir1_inst \<Rightarrow> 's \<Rightarrow> (nat \<Rightarrow> bool) \<Rightarrow> 's) \<Rightarrow> (ir1_inst \<Rightarrow> 's \<Rightarrow> (nat \<Rightarrow> bool) \<Rightarrow> nat \<Rightarrow> bool) \<Rightarrow>
   (ir1_inst \<Rightarrow> 's \<Rightarrow> nat \<Rightarrow> bool) \<Rightarrow> ir1_inst \<Rightarrow> 's \<times> (nat \<Rightarrow> bool option) \<Rightarrow>
   ('s \<times> (nat \<Rightarrow> bool option)) option" where
  "arch_step exec val wr i = (\<lambda>(s, F).
     let V = (\<lambda>f. F f = Some True) in
     if \<forall>f<6. bit (fr_use i) f \<longrightarrow> F f \<noteq> None then
       Some (exec (strip i) s V,
             \<lambda>f. if bit (fr_undef i) f then None
                 else if wr (strip i) s f then Some (val (strip i) s V f) else F f)
     else None)"

fun arch_run where
  "arch_run exec val wr [] c = Some c"
| "arch_run exec val wr (i # is) c =
    (case arch_step exec val wr i c of None \<Rightarrow> None | Some c' \<Rightarrow> arch_run exec val wr is c')"

text \<open>The translated instruction computes flag \<open>f\<close> only when its annotation \<open>i_eflag_def\<close> asks
  for it; a flag outside the def column is not under control of the annotation.\<close>

definition trans_step ::
  "(ir1_inst \<Rightarrow> 's \<Rightarrow> (nat \<Rightarrow> bool) \<Rightarrow> 's) \<Rightarrow> (ir1_inst \<Rightarrow> 's \<Rightarrow> (nat \<Rightarrow> bool) \<Rightarrow> nat \<Rightarrow> bool) \<Rightarrow>
   (ir1_inst \<Rightarrow> 's \<Rightarrow> nat \<Rightarrow> bool) \<Rightarrow> ir1_inst \<Rightarrow> 's \<times> (nat \<Rightarrow> bool) \<Rightarrow> 's \<times> (nat \<Rightarrow> bool)" where
  "trans_step exec val wr i = (\<lambda>(s, G).
     (exec (strip i) s G,
      \<lambda>f. if wr (strip i) s f \<and> (bit (i_eflag_def i) f \<or> \<not> bit (fr_def i) f)
          then val (strip i) s G f else G f))"

fun trans_run where
  "trans_run exec val wr [] c = c"
| "trans_run exec val wr (i # is) c = trans_run exec val wr is (trans_step exec val wr i c)"

definition flags_agree :: "u8 \<Rightarrow> (nat \<Rightarrow> bool option) \<Rightarrow> (nat \<Rightarrow> bool) \<Rightarrow> bool" where
  "flags_agree p F G \<longleftrightarrow> (\<forall>f<6. bit p f \<longrightarrow> (\<forall>v. F f = Some v \<longrightarrow> G f = v))"

text \<open>The scan may drop a flag from the pending set only where the hardware surely writes it.\<close>

definition kill_sound :: "target \<Rightarrow> bool \<Rightarrow> ir1_inst \<Rightarrow> bool" where
  "kill_sound t radical i \<longleftrightarrow> flags_ok t radical i \<and>
     sub_mask (fr_kill t radical i AND NOT (fr_undef i)) (must_def t i)"

lemma arch_run_append:
  "arch_run exec val wr (xs @ ys) c =
    (case arch_run exec val wr xs c of None \<Rightarrow> None | Some c' \<Rightarrow> arch_run exec val wr ys c')"
  by (induction xs arbitrary: c) (auto split: option.splits)

lemma trans_run_append:
  "trans_run exec val wr (xs @ ys) c = trans_run exec val wr ys (trans_run exec val wr xs c)"
  by (induction xs arbitrary: c) auto

lemma flags_agree_sub: "flags_agree q F G \<Longrightarrow> (\<And>f. f < 6 \<Longrightarrow> bit p f \<Longrightarrow> bit q f) \<Longrightarrow> flags_agree p F G"
  by (simp add: flags_agree_def)

lemma must_def_strip [simp]: "must_def t (strip i) = must_def t i"
  unfolding must_def_def may_keep_flags_def fr_strip ir1_accessors_strip by (rule refl)

context x86_flag_semantics
begin

lemma step_sim:
  assumes "kill_sound t radical i"
    and step: "arch_step exec flag_val writes i (s, F) = Some (s', F')"
    and agree: "flags_agree ((p AND NOT (fr_kill t radical i)) OR fr_use i) F G"
    and i': "strip i' = strip i" "i_eflag_def i' = fr_def i AND p AND NOT (fr_undef i)"
  shows "\<exists>G'. trans_step exec flag_val writes i' (s, G) = (s', G') \<and> flags_agree p F' G'"
proof -
  let ?V = "\<lambda>f. F f = Some True"
  have same: "?V f = G f" if "f < 6" "bit (fr_use i) f" for f
  proof -
    have "F f \<noteq> None" using step that by (auto simp: arch_step_def Let_def split: if_splits)
    then obtain v where "F f = Some v" by auto
    then show ?thesis using agree that by (auto simp: flags_agree_def mask_simps)
  qed
  have e: "exec (strip i) s ?V = exec (strip i) s G"
    by (rule exec_reads) (simp add: same)
  have v: "flag_val (strip i) s ?V g = flag_val (strip i) s G g" for g
    by (rule val_reads) (simp add: same)
  have s': "s' = exec (strip i) s ?V" and F': "F' = (\<lambda>f. if bit (fr_undef i) f then None
      else if writes (strip i) s f then Some (flag_val (strip i) s ?V f) else F f)"
    using step by (auto simp: arch_step_def Let_def split: if_splits)
  have ud: "fr_def i' = fr_def i" by (metis i'(1) usedef_strip)
  define G' where "G' = (\<lambda>f. if writes (strip i) s f \<and>
    (bit (fr_def i AND p AND NOT (fr_undef i)) f \<or> \<not> bit (fr_def i) f) then flag_val (strip i) s G f else G f)"
  have "trans_step exec flag_val writes i' (s, G) = (s', G')"
    by (simp add: trans_step_def i' ud s' e G'_def)
  moreover have "flags_agree p F' G'"
    unfolding flags_agree_def
  proof (intro allI impI)
    fix f b assume f: "f < 6" "bit p f" "F' f = Some b"
    then have nu: "\<not> bit (fr_undef i) f" by (auto simp: F')
    show "G' f = b"
    proof (cases "writes (strip i) s f")
      case True
      then show ?thesis using f nu by (auto simp: F' G'_def v mask_simps)
    next
      case False
      then have "\<not> bit (must_def t i) f" using writes_must[of f "strip i" s] f(1) by auto
      then have "\<not> bit (fr_kill t radical i) f"
        using assms(1) nu f(1) by (auto simp: kill_sound_def sub_mask_iff mask_simps)
      then have "G f = b"
        using agree f False nu by (auto simp: flags_agree_def mask_simps F')
      then show ?thesis using False by (simp add: G'_def)
    qed
  qed
  ultimately show ?thesis by blast
qed

lemma block_sim:
  assumes "\<forall>i\<in>set is. kill_sound t radical i"
    and "arch_run exec flag_val writes is (s, F) = Some (s', F')"
    and "flags_agree (live_before t radical is p) F G"
  shows "\<exists>G'. trans_run exec flag_val writes (annotate t radical is p) (s, G) = (s', G') \<and>
    flags_agree p F' G'"
  using assms
proof (induction "is" arbitrary: s F G)
  case (Cons i "is")
  obtain s1 F1 where st: "arch_step exec flag_val writes i (s, F) = Some (s1, F1)"
    and run: "arch_run exec flag_val writes is (s1, F1) = Some (s', F')"
    using Cons.prems(2) by (auto split: option.splits)
  let ?i' = "i\<lparr>i_eflag_use := fr_use i,
      i_eflag_def := fr_def i AND live_before t radical is p AND NOT (fr_undef i)\<rparr>"
  have "strip ?i' = strip i" by (simp add: strip_def)
  with step_sim[OF _ st, of radical "live_before t radical is p" G ?i'] Cons.prems(1,3)
  obtain G1 where G1: "trans_step exec flag_val writes ?i' (s, G) = (s1, G1)"
    "flags_agree (live_before t radical is p) F1 G1"
    by auto
  with Cons.IH[OF _ run G1(2)] Cons.prems(1) show ?case by simp
qed simp

end

section \<open>The propagated solution\<close>

lemma rfd_step_shape:
  obtains u v where "rfd_step p d st = st(p := (st p)\<lparr>tb_eflag_out := u, tb_eflag_use := v\<rparr>)"
proof -
  obtain u where "get_eflag_out st p = st(p := (st p)\<lparr>tb_eflag_out := u\<rparr>)"
  proof -
    have "\<exists>u. get_eflag_out st p = st(p := (st p)\<lparr>tb_eflag_out := u\<rparr>)"
      by (auto simp: get_eflag_out_def Let_def split: option.splits
          intro: exI[of _ "tb_eflag_out (st p)"])
    with that show ?thesis by blast
  qed
  then have "rfd_step p d st = st(p := (st p)\<lparr>tb_eflag_out := u,
      tb_eflag_use := tb_eflag_use (st p) OR (u AND NOT d)\<rparr>)"
    by (simp add: rfd_step_def Let_def)
  with that show ?thesis by blast
qed

lemma rfd_step_unchanged:
  assumes "tb_eflag_use (rfd_step p d st p) = tb_eflag_use (st p)"
    "tb_eflag_out (rfd_step p d st p) = tb_eflag_out (st p)"
  shows "rfd_step p d st = st"
proof -
  obtain u v where s: "rfd_step p d st = st(p := (st p)\<lparr>tb_eflag_out := u, tb_eflag_use := v\<rparr>)"
    by (rule rfd_step_shape)
  with assms have "u = tb_eflag_out (st p)" "v = tb_eflag_use (st p)" by auto
  with s show ?thesis by simp
qed

lemma rfd_round_stable:
  assumes "\<not> snd (rfd_round ps st)"
  shows "fst (rfd_round ps st) = st \<and> (\<forall>(p, d)\<in>set ps. rfd_step p d st = st)"
  using assms
proof (induction ps st rule: rfd_round.induct)
  case (2 p d rest st)
  obtain st1 u where r: "rfd_round rest st = (st1, u)" by force
  with 2 have "\<not> u" by (simp add: Let_def)
  with 2 r have IH: "st1 = st" "\<forall>(p, d)\<in>set rest. rfd_step p d st = st" by auto
  moreover have "rfd_step p d st = st"
    using "2.prems" by (intro rfd_step_unchanged) (simp_all add: r IH(1) Let_def)
  ultimately show ?case by (simp add: r Let_def)
qed simp

lemma rfd_loop_stable: "\<forall>(p, d)\<in>set ps. rfd_step p d (rfd_loop ps st) = rfd_loop ps st"
proof (induction ps st rule: rfd_loop.induct)
  case (1 ps st)
  obtain st' u where r: "rfd_round ps st = (st', u)" by force
  show ?case
  proof (cases u)
    case True
    with 1 r show ?thesis by (simp add: rfd_loop.simps[of ps st])
  next
    case False
    with rfd_round_stable[of ps st] r show ?thesis by (simp add: rfd_loop.simps[of ps st])
  qed
qed

lemma rfd_loop_le: "store_le st (rfd_loop ps st)"
proof (induction ps st rule: rfd_loop.induct)
  case (1 ps st)
  obtain st' u where r: "rfd_round ps st = (st', u)" by force
  with rfd_round_le[of st ps] have "store_le st st'" by simp
  with 1 r show ?case by (cases u) (auto simp: rfd_loop.simps[of ps st] intro: store_le_trans)
qed

text \<open>Control may pass from \<open>p\<close> to \<open>q\<close>: when the pointers the block needs are recorded, \<open>q\<close> is one
  of them; otherwise the successor is unknown and any block may follow.\<close>

definition tu_edge :: "tb_store \<Rightarrow> nat \<Rightarrow> nat \<Rightarrow> bool" where
  "tu_edge st p q \<longleftrightarrow>
    (let tb = st p; ty = tb_last_ir1_type tb in
     ty = IR1_TYPE_BRANCH \<and> (tb_next tb = None \<or> tb_target tb = None \<or> tb_next tb = Some q \<or> tb_target tb = Some q) \<or>
     (ty = IR1_TYPE_JUMP \<or> ty = IR1_TYPE_CALL) \<and> (tb_target tb = None \<or> tb_target tb = Some q) \<or>
     ty = IR1_TYPE_NORMAL \<and> (tb_next tb = None \<or> tb_next tb = Some q) \<or>
     ty = IR1_TYPE_CALLIN \<or> ty = IR1_TYPE_JUMPIN \<or> ty = IR1_TYPE_RET)"

lemma stable_edge:
  assumes "rfd_step p d st = st" "tu_edge st p q" "f < 6" "bit (tb_eflag_use (st q)) f"
  shows "bit (tb_eflag_out (st p)) f"
proof -
  have "tb_eflag_out (get_eflag_out st p p) = tb_eflag_out (st p)"
    using arg_cong[OF assms(1), of "\<lambda>s. tb_eflag_out (s p)"] by (simp add: rfd_step_def Let_def)
  then have e: "bit (tb_eflag_out (get_eflag_out st p p)) f = bit (tb_eflag_out (st p)) f" by simp
  have "bit (tb_eflag_out (get_eflag_out st p p)) f"
    using assms(2-4) unfolding get_eflag_out_def tu_edge_def Let_def
    by (auto simp: bit_or_iff bit_ALL_EFLAGS split: option.splits)
  with e show ?thesis by simp
qed

section \<open>Result of the whole pass\<close>

definition unit_ok :: "target \<Rightarrow> bool \<Rightarrow> nat list \<Rightarrow> tb_store \<Rightarrow> bool" where
  "unit_ok t radical tb_list st \<longleftrightarrow> distinct tb_list \<and>
    (\<forall>p\<in>set tb_list. tb_ir1 (st p) \<noteq> [] \<and> (\<forall>i\<in>set (tb_ir1 (st p)). flags_ok t radical i))"

definition rfd_init_tb :: "target \<Rightarrow> bool \<Rightarrow> translation_block \<Rightarrow> translation_block" where
  "rfd_init_tb t radical tb = tb\<lparr>tb_ir1 := annotate t radical (tb_ir1 tb) ALL_EFLAGS,
      tb_eflag_use := live_before t radical (tb_ir1 tb) ALL_EFLAGS\<rparr>"

lemma rfd_init_result:
  assumes "unit_ok t radical ps st"
  shows "\<exists>ds. rfd_init t radical True ps junk st =
      Inr (\<lambda>p. if p \<in> set ps then rfd_init_tb t radical (st p) else st p, ds) \<and> length ds = length ps"
  using assms
proof (induction ps arbitrary: st junk)
  case (Cons p ps)
  let ?st = "st(p := rfd_init_tb t radical (st p))"
  have np: "p \<notin> set ps" using Cons.prems by (simp add: unit_ok_def)
  have ok: "unit_ok t radical ps ?st"
    using Cons.prems np by (auto simp: unit_ok_def)
  have ne: "tb_ir1 (st p) \<noteq> []" and f: "\<forall>i\<in>set (tb_ir1 (st p)). flags_ok t radical i"
    using Cons.prems by (auto simp: unit_ok_def)
  obtain ds where "rfd_init t radical True ps (tl junk) ?st =
      Inr (\<lambda>q. if q \<in> set ps then rfd_init_tb t radical (?st q) else ?st q, ds)" "length ds = length ps"
    using Cons.IH[OF ok] by blast
  moreover have "(\<lambda>q. if q \<in> set ps then rfd_init_tb t radical (?st q) else ?st q) =
      (\<lambda>q. if q \<in> set (p # ps) then rfd_init_tb t radical (st q) else st q)"
    using np by (auto simp: fun_eq_iff)
  ultimately show ?case
    using ne by (simp add: scan_back_reduction[OF f] rfd_init_tb_def)
qed simp

lemma flag_reduction_check_strip:
  assumes "is \<noteq> []"
  shows "flag_reduction_check t (map strip is) = flag_reduction_check t is"
proof -
  have "pass1_scan (map strip xs) = pass1_scan xs" for xs
    by (induction xs) (simp_all add: Let_def)
  then show ?thesis
    using assms by (simp add: flag_reduction_check_def flag_reduction_pass1_def pending_use_of_succ_def
        rev_map last_map ir1_accessors_strip Let_def)
qed

lemma flag_reduction_check_annotate:
  "is \<noteq> [] \<Longrightarrow> flag_reduction_check t (annotate t radical is p) = flag_reduction_check t is"
  by (metis flag_reduction_check_strip map_is_Nil_conv map_strip_annotate)

text \<open>Pending set at the end of block \<open>p\<close> in the last scan.\<close>

definition end_pending :: "target \<Rightarrow> translation_block \<Rightarrow> u8" where
  "end_pending t tb = flag_reduction_check t (tb_ir1 tb) AND tb_eflag_out tb"

definition rfd_finish_tb :: "target \<Rightarrow> bool \<Rightarrow> translation_block \<Rightarrow> translation_block" where
  "rfd_finish_tb t radical tb = tb\<lparr>tb_ir1 := annotate t radical (tb_ir1 tb) (end_pending t tb),
      tb_eflag_use := live_before t radical (tb_ir1 tb) (end_pending t tb)\<rparr>"

lemma rfd_finish_result:
  assumes "unit_ok t radical ps st"
  shows "rfd_finish t radical True ps st =
    Inr (\<lambda>p. if p \<in> set ps then rfd_finish_tb t radical (st p) else st p)"
  using assms
proof (induction ps arbitrary: st)
  case (Cons p ps)
  let ?st = "st(p := rfd_finish_tb t radical (st p))"
  have np: "p \<notin> set ps" using Cons.prems by (simp add: unit_ok_def)
  have ok: "unit_ok t radical ps ?st"
    using Cons.prems np by (auto simp: unit_ok_def)
  have ne: "tb_ir1 (st p) \<noteq> []" and f: "\<forall>i\<in>set (tb_ir1 (st p)). flags_ok t radical i"
    using Cons.prems by (auto simp: unit_ok_def)
  have "(\<lambda>q. if q \<in> set ps then rfd_finish_tb t radical (?st q) else ?st q) =
      (\<lambda>q. if q \<in> set (p # ps) then rfd_finish_tb t radical (st q) else st q)"
    using np by (auto simp: fun_eq_iff)
  moreover have "ir1_optimization_over_tb t radical True (st p) = Inr (rfd_finish_tb t radical (st p))"
    using ne by (simp add: ir1_optimization_over_tb_def scan_back_reduction[OF f] rfd_finish_tb_def end_pending_def)
  ultimately show ?case
    using Cons.IH[OF ok] by (simp only: rfd_finish.simps sum.case)
qed simp

lemma over_tb_rfd_result:
  assumes ok: "unit_ok t radical tb_list st" and q: "q \<in> set tb_list"
    and run: "over_tb_rfd t radical True junk tb_list st = Inr st'"
  shows "tb_ir1 (st' q) =
      annotate t radical (tb_ir1 (st q)) (flag_reduction_check t (tb_ir1 (st q)) AND tb_eflag_out (st' q))"
    and "tb_eflag_use (st' q) =
      live_before t radical (tb_ir1 (st q)) (flag_reduction_check t (tb_ir1 (st q)) AND tb_eflag_out (st' q))"
    and "\<And>p f. p \<in> set tb_list \<Longrightarrow> tu_edge st p q \<Longrightarrow> f < 6 \<Longrightarrow> bit (tb_eflag_use (st' q)) f \<Longrightarrow>
       bit (tb_eflag_out (st' p)) f"
proof -
  let ?st1 = "\<lambda>p. if p \<in> set tb_list then rfd_init_tb t radical (st p) else st p"
  obtain ds where init: "rfd_init t radical True tb_list junk st = Inr (?st1, ds)" "length ds = length tb_list"
    using rfd_init_result[OF ok] by blast
  define st2 where "st2 = rfd_loop (zip tb_list ds) ?st1"
  have le: "tb_le (?st1 p) (st2 p)" for p
    unfolding st2_def by (rule store_leD[OF rfd_loop_le])
  have ir1_2: "tb_ir1 (st2 p) = annotate t radical (tb_ir1 (st p)) ALL_EFLAGS" if "p \<in> set tb_list" for p
    using le[of p] that by (simp add: tb_le_def rfd_init_tb_def)
  have use2: "sub_mask (live_before t radical (tb_ir1 (st p)) ALL_EFLAGS) (tb_eflag_use (st2 p))"
    if "p \<in> set tb_list" for p
    using le[of p] that by (simp add: tb_le_def rfd_init_tb_def)
  have edge2: "tu_edge st2 p q" if "tu_edge st p q" for p
    using le[of p] that by (auto simp: tb_le_def rfd_init_tb_def tu_edge_def Let_def split: if_splits)
  have ok2: "unit_ok t radical tb_list st2"
    using ok by (auto simp: unit_ok_def ir1_2 annotate_Nil_iff flags_ok_annotate[simplified])
  have st': "st' = (\<lambda>p. if p \<in> set tb_list then rfd_finish_tb t radical (st2 p) else st2 p)"
    using run by (simp add: over_tb_rfd_def init rfd_finish_result[OF ok2] flip: st2_def)
  have ne: "tb_ir1 (st p) \<noteq> []" if "p \<in> set tb_list" for p
    using ok that by (simp add: unit_ok_def)
  have out': "tb_eflag_out (st' p) = tb_eflag_out (st2 p)" for p
    by (simp add: st' rfd_finish_tb_def)
  show ir1': "tb_ir1 (st' q) =
      annotate t radical (tb_ir1 (st q)) (flag_reduction_check t (tb_ir1 (st q)) AND tb_eflag_out (st' q))"
    and use': "tb_eflag_use (st' q) =
      live_before t radical (tb_ir1 (st q)) (flag_reduction_check t (tb_ir1 (st q)) AND tb_eflag_out (st' q))"
    using q ne by (simp_all add: out') (simp_all add: st' rfd_finish_tb_def end_pending_def ir1_2 flag_reduction_check_annotate)
  have chk: "sub_mask (flag_reduction_check t is AND w) ALL_EFLAGS" for "is" w
    by (simp add: flag_reduction_check_def pending_use_of_succ_def Let_def sub_mask_iff mask_simps)
  fix p f assume p: "p \<in> set tb_list" "tu_edge st p q" and f: "f < 6" "bit (tb_eflag_use (st' q)) f"
    have "bit (live_before t radical (tb_ir1 (st q)) ALL_EFLAGS) f"
      using live_before_mono[OF chk, of t radical] f(2) unfolding use' by (rule sub_maskD)
    then have u: "bit (tb_eflag_use (st2 q)) f" using use2[OF q] by (rule sub_maskD[rotated])
    obtain d where "(p, d) \<in> set (zip tb_list ds)"
      using p(1) init(2) by (metis in_set_impl_in_set_zip1)
    then have "rfd_step p d st2 = st2" using rfd_loop_stable unfolding st2_def by fast
    then have "bit (tb_eflag_out (st2 p)) f" using edge2[OF p(2)] f(1) u by (rule stable_edge)
    then show "bit (tb_eflag_out (st' p)) f" by (simp add: out')
qed

lemma over_tb_rfd_returns:
  assumes "unit_ok t radical tb_list st"
  shows "\<exists>st'. over_tb_rfd t radical True junk tb_list st = Inr st'"
proof -
  obtain ds where init: "rfd_init t radical True tb_list junk st =
      Inr (\<lambda>p. if p \<in> set tb_list then rfd_init_tb t radical (st p) else st p, ds)"
    using rfd_init_result[OF assms] by blast
  let ?st2 = "rfd_loop (zip tb_list ds) (\<lambda>p. if p \<in> set tb_list then rfd_init_tb t radical (st p) else st p)"
  have "tb_ir1 (?st2 p) = annotate t radical (tb_ir1 (st p)) ALL_EFLAGS" if "p \<in> set tb_list" for p
    using store_leD[OF rfd_loop_le] that by (fastforce simp: tb_le_def rfd_init_tb_def)
  then have "unit_ok t radical tb_list ?st2"
    using assms by (auto simp: unit_ok_def annotate_Nil_iff flags_ok_annotate[simplified])
  then show ?thesis by (simp add: over_tb_rfd_def init rfd_finish_result)
qed

text \<open>A path through the unit: consecutive blocks are joined by an edge, and no block but the last
  ends in an instruction after which the scan assumes all flags dead.\<close>

fun tu_path :: "target \<Rightarrow> tb_store \<Rightarrow> nat list \<Rightarrow> bool" where
  "tu_path t st [] = True"
| "tu_path t st [p] = True"
| "tu_path t st (p # q # ps) \<longleftrightarrow>
    tu_edge st p q \<and> flag_reduction_check t (tb_ir1 (st p)) = ALL_EFLAGS \<and> tu_path t st (q # ps)"

context x86_flag_semantics
begin

lemma path_sim:
  assumes "unit_ok t radical tb_list st" "over_tb_rfd t radical True junk tb_list st = Inr st'"
    and "\<forall>p\<in>set tb_list. \<forall>i\<in>set (tb_ir1 (st p)). kill_sound t radical i"
    and "set path \<subseteq> set tb_list" "tu_path t st path" "path \<noteq> []"
    and "arch_run exec flag_val writes (concat (map (\<lambda>p. tb_ir1 (st p)) path)) (s, F) = Some (s', F')"
    and "flags_agree (tb_eflag_use (st' (hd path))) F G"
  shows "\<exists>G'. trans_run exec flag_val writes (concat (map (\<lambda>p. tb_ir1 (st' p)) path)) (s, G) = (s', G')"
  using assms(4-)
proof (induction path arbitrary: s F G rule: induct_list012)
  case (2 p)
  have p: "p \<in> set tb_list" using 2 by simp
  let ?e = "flag_reduction_check t (tb_ir1 (st p)) AND tb_eflag_out (st' p)"
  have "arch_run exec flag_val writes (tb_ir1 (st p)) (s, F) = Some (s', F')" using 2 by simp
  from block_sim[OF _ this, of radical ?e G] assms(3) p "2.prems"(5)
  show ?case by (auto simp: over_tb_rfd_result(1,2)[OF assms(1) p assms(2)])
next
  case (3 p q ps)
  have p: "p \<in> set tb_list" and q: "q \<in> set tb_list" using 3 by simp_all
  let ?e = "flag_reduction_check t (tb_ir1 (st p)) AND tb_eflag_out (st' p)"
  have ip: "tb_ir1 (st' p) = annotate t radical (tb_ir1 (st p)) ?e"
    and up: "tb_eflag_use (st' p) = live_before t radical (tb_ir1 (st p)) ?e"
    by (rule over_tb_rfd_result(1,2)[OF assms(1) p assms(2)])+
  obtain s1 F1 where r1: "arch_run exec flag_val writes (tb_ir1 (st p)) (s, F) = Some (s1, F1)"
    and r2: "arch_run exec flag_val writes (concat (map (\<lambda>p. tb_ir1 (st p)) (q # ps))) (s1, F1) = Some (s', F')"
    using "3.prems"(4) by (auto simp: arch_run_append split: option.splits)
  obtain G1 where G1: "trans_run exec flag_val writes (tb_ir1 (st' p)) (s, G) = (s1, G1)"
    "flags_agree ?e F1 G1"
    using block_sim[OF _ r1, of radical ?e G] assms(3) p "3.prems"(5) ip up by auto
  have "flags_agree (tb_eflag_use (st' q)) F1 G1"
  proof (rule flags_agree_sub[OF G1(2)])
    fix f :: nat assume f: "f < 6" "bit (tb_eflag_use (st' q)) f"
    have "bit (tb_eflag_out (st' p)) f"
      by (rule over_tb_rfd_result(3)[OF assms(1) q assms(2) p _ f]) (use "3.prems"(2) in simp)
    with "3.prems"(2) f(1) show "bit ?e f" by (simp add: mask_simps)
  qed
  then obtain G' where "trans_run exec flag_val writes (concat (map (\<lambda>p. tb_ir1 (st' p)) (q # ps))) (s1, G1) = (s', G')"
    using "3.IH"(2)[OF _ _ _ r2] "3.prems"(1,2) by auto
  with G1(1) show ?case by (simp add: trans_run_append)
qed simp

end

section \<open>A free semantics\<close>

text \<open>The most general instance of the contract: the machine state is the list of the executed
  instructions with the flags each of them read, and new flag values are an arbitrary function
  \<open>orc\<close> of that history.  Whether an instruction that can leave a flag alone writes it is
  decided by \<open>orc\<close> too.\<close>

type_synonym history = "(ir1_inst \<times> bool list) list"

definition free_exec :: "ir1_inst \<Rightarrow> history \<Rightarrow> (nat \<Rightarrow> bool) \<Rightarrow> history" where
  "free_exec i s F = s @ [(i, map (\<lambda>f. bit (fr_use i) f \<and> F f) [0..<6])]"

definition free_val :: "(history \<Rightarrow> nat \<Rightarrow> bool) \<Rightarrow> ir1_inst \<Rightarrow> history \<Rightarrow> (nat \<Rightarrow> bool) \<Rightarrow> nat \<Rightarrow> bool" where
  "free_val orc i s F f = orc (free_exec i s F) f"

definition free_writes :: "target \<Rightarrow> (history \<Rightarrow> nat \<Rightarrow> bool) \<Rightarrow> ir1_inst \<Rightarrow> history \<Rightarrow> nat \<Rightarrow> bool" where
  "free_writes t orc i s f \<longleftrightarrow> bit (must_def t i) f \<or> (bit (fr_def i) f \<and> orc s f)"

lemma free_exec_reads:
  assumes "\<And>f. f < 6 \<Longrightarrow> bit (fr_use i) f \<Longrightarrow> F f = G f"
  shows "free_exec i s F = free_exec i s G"
  using assms by (auto simp: free_exec_def)

interpretation free_sem: x86_flag_semantics t free_exec "free_val orc" "free_writes t orc" for t orc
proof
  fix i :: ir1_inst and F G :: "nat \<Rightarrow> bool" and s :: history and g :: nat
  assume same: "\<And>f. f < 6 \<Longrightarrow> bit (fr_use i) f \<Longrightarrow> F f = G f"
  from same show "free_exec i s F = free_exec i s G" by (rule free_exec_reads)
  then show "free_val orc i s F g = free_val orc i s G g" by (simp add: free_val_def)
qed (simp add: free_writes_def)

lemma flags_ok_code [code]:
  "flags_ok t radical i = (case flag_needs t radical i of Inl _ \<Rightarrow> False | Inr _ \<Rightarrow> True)"
  by (auto simp: flags_ok_def split: sum.splits)

section \<open>Evaluation on concrete instructions\<close>

definition sample_opnd :: "nat \<Rightarrow> u64 \<Rightarrow> ir1_opnd" where
  "sample_opnd ty imm = \<lparr>op_type = ty, op_imm = imm, op_mem_base = dt_X86_REG_INVALID,
     op_mem_index = dt_X86_REG_INVALID, op_mem_scale = 0, op_mem_disp = 0, op_size = 4, op_avx_bcast = 0\<rparr>"

definition sample_inst :: "dt_x86_insn \<Rightarrow> u8 \<Rightarrow> ir1_opnd list \<Rightarrow> ir1_inst" where
  "sample_inst n pre ops = \<lparr>i_prefix = [pre, 0, 0, 0], i_opcode = [0, 0, 0, 0], i_addr_size = 8, i_rex = 0,
     i_op_count = of_nat (length ops),
     i_operands = take 8 (ops @ replicate 8 (sample_opnd dt_X86_OP_INVALID 0)),
     i_size = 3, i_address = 0x1000, i_bytes = replicate 24 0, i_id = n, i_eflag_use = 0, i_eflag_def = 0\<rparr>"

definition sample_tb :: "ir1_inst list \<Rightarrow> nat \<Rightarrow> nat option \<Rightarrow> nat option \<Rightarrow> translation_block" where
  "sample_tb is ty nx tg = \<lparr>tb_ir1 = is, tb_eflag_use = 0, tb_eflag_out = 0, tb_last_ir1_type = ty,
     tb_next = nx, tb_target = tg, tb_next_pc = 0, tb_target_pc = 0\<rparr>"

lemmas flag_table = ir1_opcode_eflag_usedef_def eflag_usedef_rows_A_L_def eflag_usedef_rows_M_Z_def
  FLAG_DEFINE_def append.simps foldl.simps prod.case

lemma usedef_rows:
  "ir1_opcode_eflag_usedef dt_X86_INS_CMP = \<lparr>ud_use = 0, ud_def = ALL_EFLAGS, ud_undef = 0\<rparr>"
  "ir1_opcode_eflag_usedef dt_X86_INS_INC = \<lparr>ud_use = 0, ud_def = F_OF OR F_SZAPF, ud_undef = 0\<rparr>"
  "ir1_opcode_eflag_usedef dt_X86_INS_JB = \<lparr>ud_use = F_CF, ud_def = 0, ud_undef = 0\<rparr>"
  "ir1_opcode_eflag_usedef dt_X86_INS_JE = \<lparr>ud_use = F_ZF, ud_def = 0, ud_undef = 0\<rparr>"
  unfolding flag_table by simp_all

lemma usedef_rotates:
  "ir1_opcode_eflag_usedef dt_X86_INS_RCL = \<lparr>ud_use = F_CF, ud_def = F_CF OR F_OF, ud_undef = 0\<rparr>"
  "ir1_opcode_eflag_usedef dt_X86_INS_RCR = \<lparr>ud_use = F_CF, ud_def = F_CF OR F_OF, ud_undef = 0\<rparr>"
  "ir1_opcode_eflag_usedef dt_X86_INS_ROL = \<lparr>ud_use = 0, ud_def = F_OF OR F_CF, ud_undef = 0\<rparr>"
  "ir1_opcode_eflag_usedef dt_X86_INS_ROR = \<lparr>ud_use = 0, ud_def = F_OF OR F_CF, ud_undef = 0\<rparr>"
  unfolding flag_table by simp_all

lemma usedef_shifts:
  "ir1_opcode_eflag_usedef dt_X86_INS_SAL = \<lparr>ud_use = 0, ud_def = ALL_EFLAGS, ud_undef = F_AF\<rparr>"
  "ir1_opcode_eflag_usedef dt_X86_INS_SAR = \<lparr>ud_use = 0, ud_def = ALL_EFLAGS, ud_undef = F_AF\<rparr>"
  "ir1_opcode_eflag_usedef dt_X86_INS_SHL = \<lparr>ud_use = 0, ud_def = ALL_EFLAGS, ud_undef = F_AF\<rparr>"
  "ir1_opcode_eflag_usedef dt_X86_INS_SHR = \<lparr>ud_use = 0, ud_def = ALL_EFLAGS, ud_undef = F_AF\<rparr>"
  "ir1_opcode_eflag_usedef dt_X86_INS_SHLD = \<lparr>ud_use = 0, ud_def = ALL_EFLAGS, ud_undef = F_AF\<rparr>"
  "ir1_opcode_eflag_usedef dt_X86_INS_SHRD = \<lparr>ud_use = 0, ud_def = ALL_EFLAGS, ud_undef = F_AF\<rparr>"
  unfolding flag_table by simp_all

lemma usedef_string_compares:
  "ir1_opcode_eflag_usedef dt_X86_INS_CMPSB = \<lparr>ud_use = F_DF, ud_def = ALL_EFLAGS, ud_undef = 0\<rparr>"
  "ir1_opcode_eflag_usedef dt_X86_INS_CMPSW = \<lparr>ud_use = F_DF, ud_def = ALL_EFLAGS, ud_undef = 0\<rparr>"
  "ir1_opcode_eflag_usedef dt_X86_INS_CMPSD = \<lparr>ud_use = F_DF, ud_def = ALL_EFLAGS, ud_undef = 0\<rparr>"
  "ir1_opcode_eflag_usedef dt_X86_INS_CMPSQ = \<lparr>ud_use = F_DF, ud_def = ALL_EFLAGS, ud_undef = 0\<rparr>"
  "ir1_opcode_eflag_usedef dt_X86_INS_SCASB = \<lparr>ud_use = F_DF, ud_def = ALL_EFLAGS, ud_undef = 0\<rparr>"
  "ir1_opcode_eflag_usedef dt_X86_INS_SCASW = \<lparr>ud_use = F_DF, ud_def = ALL_EFLAGS, ud_undef = 0\<rparr>"
  "ir1_opcode_eflag_usedef dt_X86_INS_SCASD = \<lparr>ud_use = F_DF, ud_def = ALL_EFLAGS, ud_undef = 0\<rparr>"
  "ir1_opcode_eflag_usedef dt_X86_INS_SCASQ = \<lparr>ud_use = F_DF, ud_def = ALL_EFLAGS, ud_undef = 0\<rparr>"
  unfolding flag_table by simp_all

end
