(* ===== verification/Flag_Properties.thy ===== *)
theory Flag_Properties
  imports Flag_Soundness
begin

text \<open>
  The properties of dead flag elimination, with instances on concrete blocks.
\<close>

section \<open>Concrete instructions\<close>

definition cmp_inst :: ir1_inst where
  "cmp_inst = sample_inst dt_X86_INS_CMP 0 [sample_opnd dt_X86_OP_REG (of_nat dt_X86_REG_EAX), sample_opnd dt_X86_OP_IMM 5]"

definition jb_inst :: ir1_inst where
  "jb_inst = sample_inst dt_X86_INS_JB 0 [sample_opnd dt_X86_OP_IMM 0x2000]"

definition rol_cl_inst :: ir1_inst where
  "rol_cl_inst = sample_inst dt_X86_INS_ROL 0 [sample_opnd dt_X86_OP_REG (of_nat dt_X86_REG_EAX), sample_opnd dt_X86_OP_REG (of_nat dt_X86_REG_CL)]"

definition repe_cmpsb_inst :: ir1_inst where
  "repe_cmpsb_inst = sample_inst dt_X86_INS_CMPSB dt_X86_PREFIX_REPE []"

lemmas sample_insts = cmp_inst_def jb_inst_def rol_cl_inst_def repe_cmpsb_inst_def

lemmas flag_eval = sample_insts sample_inst_def sample_opnd_def ir1_opcode_def ir1_prefix_def ir1_get_opnd_def
  ir1_get_opnd_num_def ir1_opnd_is_imm_def flag_needs_def rotate_need_of_def shift_need_oszpcf_def
  double_shift_need_all_def count_may_be_zero_def cmp_scas_need_zf_def ir1_opcode_to_eflag_usedef_def
  usedef_rows usedef_rotates usedef_shifts usedef_string_compares

lemma sample_flag_facts:
  "flags_ok t r cmp_inst" "fr_use cmp_inst = 0" "fr_kill t r cmp_inst = ALL_EFLAGS"
  "fr_def cmp_inst = ALL_EFLAGS" "fr_undef cmp_inst = 0" "\<not> may_keep_flags t cmp_inst"
  "flags_ok t r jb_inst" "fr_use jb_inst = F_CF" "fr_kill t r jb_inst = 0"
  "fr_def jb_inst = 0" "fr_undef jb_inst = 0" "\<not> may_keep_flags t jb_inst"
  "flags_ok t r repe_cmpsb_inst" "fr_use repe_cmpsb_inst = F_DF OR F_ZF"
  "fr_kill t r repe_cmpsb_inst = ALL_EFLAGS" "fr_def repe_cmpsb_inst = ALL_EFLAGS"
  "fr_undef repe_cmpsb_inst = 0" "may_keep_flags t repe_cmpsb_inst"
  "flags_ok t r rol_cl_inst" "may_keep_flags t rol_cl_inst"
  by (simp_all add: flag_eval flags_ok_code fr_use_def fr_kill_def may_keep_flags_def zero_count_def)


lemma strip_annotated: "strip (i\<lparr>i_eflag_use := u, i_eflag_def := d\<rparr>) = strip i"
  by (simp add: strip_def)

lemma usedef_annotated:
  "ir1_opcode_to_eflag_usedef (i\<lparr>i_eflag_use := u, i_eflag_def := d\<rparr>) = ir1_opcode_to_eflag_usedef i"
  by (metis strip_annotated usedef_strip)

section \<open>Properties\<close>







text \<open>C5: One block, exactly.  After \<open>ir1_optimization\<close> instruction \<open>k\<close> is told to compute flag \<open>f\<close>
  exactly when the table says it defines \<open>f\<close> and leaves it defined, and \<open>f\<close> is live after it: some
  later instruction of the block uses \<open>f\<close> before any instruction kills it, or none kills it and
  the end of the block still needs it.  The flags saved for the predecessors are those live at the
  start of the block.\<close>

theorem block_reduction_exact:
  assumes "\<forall>i\<in>set (tb_ir1 tb). flags_ok t radical i" and "k < length (tb_ir1 tb)"
  shows "\<exists>tb'. ir1_optimization t radical True tb = Inr tb' \<and>
    (bit (i_eflag_def (tb_ir1 tb' ! k)) f \<longleftrightarrow>
       bit (fr_def (tb_ir1 tb ! k)) f \<and> \<not> bit (fr_undef (tb_ir1 tb ! k)) f \<and>
       live_path t radical (drop (Suc k) (tb_ir1 tb)) (flag_reduction_check t (tb_ir1 tb)) f) \<and>
    (bit (tb_eflag_use tb') f \<longleftrightarrow>
       live_path t radical (tb_ir1 tb) (flag_reduction_check t (tb_ir1 tb)) f)"
proof -
  let ?p = "flag_reduction_check t (tb_ir1 tb)"
  have nth: "i_eflag_def (annotate t radical is p ! k) =
      fr_def (is ! k) AND live_before t radical (drop (Suc k) is) p AND NOT (fr_undef (is ! k))"
    if "k < length is" for "is" k p
    using that by (induction "is" arbitrary: k) (auto simp: nth_Cons split: nat.splits)
  have "ir1_optimization t radical True tb = Inr (tb\<lparr>tb_ir1 := annotate t radical (tb_ir1 tb) ?p,
        tb_eflag_use := live_before t radical (tb_ir1 tb) ?p\<rparr>)"
    using assms by (auto simp: ir1_optimization_def scan_back_reduction)
  then show ?thesis
    using assms(2) by (auto simp: nth mask_simps bit_live_before dest: bit_imp_le_length)
qed

theorem block_reduction_exact_witness:
  "\<exists>tb'. ir1_optimization AMD64 False True (sample_tb [cmp_inst, jb_inst] 1 None None) = Inr tb' \<and>
    bit (i_eflag_def (tb_ir1 tb' ! 0)) 0"
proof -
  let ?tb = "sample_tb [cmp_inst, jb_inst] 1 None None"
  have "\<forall>i\<in>set (tb_ir1 ?tb). flags_ok AMD64 False i" "0 < length (tb_ir1 ?tb)"
    by (simp_all add: sample_tb_def sample_flag_facts)
  from block_reduction_exact[OF this, of 0] show ?thesis
    by (auto simp: sample_tb_def sample_flag_facts mask_simps live_path_Cons)
qed



text \<open>C7: The carry flag is lost before a repeated string comparison.  In the block cmp; repe cmpsb; jb
  the scan tells cmp not to compute the carry flag, and there is an execution in which repe cmpsb
  runs zero times, so that architecturally jb reads the carry of cmp, while the annotated block
  makes jb read the stale carry from before the block.\<close>

theorem rep_cmps_loses_carry:
  "\<exists>tb' s' F'. ir1_optimization AMD64 False True
      (sample_tb [cmp_inst, repe_cmpsb_inst, jb_inst] 1 None None) = Inr tb' \<and>
    \<not> ir1_is_cf_def (tb_ir1 tb' ! 0) \<and>
    x86_flag_semantics AMD64 free_exec (free_val (\<lambda>_ _. False)) (free_writes AMD64 (\<lambda>_ _. False)) \<and>
    arch_run free_exec (free_val (\<lambda>_ _. False)) (free_writes AMD64 (\<lambda>_ _. False))
      [cmp_inst, repe_cmpsb_inst, jb_inst] ([], \<lambda>_. Some True) = Some (s', F') \<and>
    fst (trans_run free_exec (free_val (\<lambda>_ _. False)) (free_writes AMD64 (\<lambda>_ _. False))
      (tb_ir1 tb') ([], \<lambda>_. True)) \<noteq> s'"
proof -
  let ?is = "[cmp_inst, repe_cmpsb_inst, jb_inst]"
  let ?tb = "sample_tb ?is 1 None None"
  have s: "strip cmp_inst = cmp_inst" "strip jb_inst = jb_inst" "strip repe_cmpsb_inst = repe_cmpsb_inst"
    by (simp_all add: strip_def flag_eval)
  have chk: "flag_reduction_check AMD64 ?is = ALL_EFLAGS"
    by (simp add: flag_reduction_check_def flag_reduction_pass1_def sample_flag_facts pending_use_of_succ_def
        flag_eval ir1_is_syscall_def ir1_is_call_def Let_def)
  have opt: "ir1_optimization AMD64 False True ?tb =
      Inr (?tb\<lparr>tb_ir1 := annotate AMD64 False ?is ALL_EFLAGS,
        tb_eflag_use := live_before AMD64 False ?is ALL_EFLAGS\<rparr>)"
    using scan_back_reduction[of ?is AMD64 False ALL_EFLAGS]
    by (simp add: ir1_optimization_def sample_tb_def chk sample_flag_facts)
  have d0: "i_eflag_def (annotate AMD64 False ?is ALL_EFLAGS ! 0) = F_ZF"
    by (simp add: sample_flag_facts ALL_EFLAGS_def)
  have arch: "\<exists>F'. arch_run free_exec (free_val (\<lambda>_ _. False)) (free_writes AMD64 (\<lambda>_ _. False)) ?is
      ([], \<lambda>_. Some True) = Some ([(cmp_inst, replicate 6 False), (repe_cmpsb_inst, replicate 6 False),
        (jb_inst, replicate 6 False)], F')"
    by (auto simp: arch_step_def sample_flag_facts s free_exec_def free_val_def free_writes_def
        must_def_def mask_simps upt_rec bit_1_iff Let_def numeral_eq_Suc)
  have "fst (trans_run free_exec (free_val (\<lambda>_ _. False)) (free_writes AMD64 (\<lambda>_ _. False))
      (annotate AMD64 False ?is ALL_EFLAGS) ([], \<lambda>_. True)) \<noteq>
      [(cmp_inst, replicate 6 False), (repe_cmpsb_inst, replicate 6 False), (jb_inst, replicate 6 False)]"
    by (simp add: trans_step_def strip_annotated usedef_annotated sample_flag_facts s free_exec_def
        free_val_def free_writes_def must_def_def mask_simps upt_rec bit_1_iff numeral_eq_Suc)
  with opt d0 arch free_sem.x86_flag_semantics_axioms[of AMD64 "\<lambda>_ _. False"] show ?thesis
    by (intro exI[of _ "?tb\<lparr>tb_ir1 := annotate AMD64 False ?is ALL_EFLAGS,
        tb_eflag_use := live_before AMD64 False ?is ALL_EFLAGS\<rparr>"])
      (auto simp: ir1_is_cf_def_def BITS_ARE_SET_def)
qed

end
