(* ===== verification/Ir1_Properties.thy ===== *)
theory Ir1_Properties
  imports X86_Ir1
begin

text \<open>
  Properties of the IR1 accessors: register numbering, register classes, immediates,
  operand builders, and the pc-thunk table behind the end-of-block test.
\<close>

section \<open>Register numbers\<close>

definition gpr_regs :: "target \<Rightarrow> dt_x86_reg set" where
  "gpr_regs t = {dt_X86_REG_AL, dt_X86_REG_AH, dt_X86_REG_AX, dt_X86_REG_EAX,
     dt_X86_REG_BL, dt_X86_REG_BH, dt_X86_REG_BX, dt_X86_REG_EBX,
     dt_X86_REG_CL, dt_X86_REG_CH, dt_X86_REG_CX, dt_X86_REG_ECX,
     dt_X86_REG_DL, dt_X86_REG_DH, dt_X86_REG_DX, dt_X86_REG_EDX,
     dt_X86_REG_BP, dt_X86_REG_EBP, dt_X86_REG_SI, dt_X86_REG_ESI,
     dt_X86_REG_DI, dt_X86_REG_EDI, dt_X86_REG_SP, dt_X86_REG_ESP} \<union>
   (if TARGET_X86_64 t then
      {dt_X86_REG_RAX, dt_X86_REG_RBX, dt_X86_REG_RCX, dt_X86_REG_RDX} \<union>
      {dt_X86_REG_R8, dt_X86_REG_R9, dt_X86_REG_R10, dt_X86_REG_R11,
       dt_X86_REG_R12, dt_X86_REG_R13, dt_X86_REG_R14, dt_X86_REG_R15} \<union>
      {dt_X86_REG_R8D, dt_X86_REG_R9D, dt_X86_REG_R10D, dt_X86_REG_R11D,
       dt_X86_REG_R12D, dt_X86_REG_R13D, dt_X86_REG_R14D, dt_X86_REG_R15D} \<union>
      {dt_X86_REG_R8W, dt_X86_REG_R9W, dt_X86_REG_R10W, dt_X86_REG_R11W,
       dt_X86_REG_R12W, dt_X86_REG_R13W, dt_X86_REG_R14W, dt_X86_REG_R15W} \<union>
      {dt_X86_REG_R8B, dt_X86_REG_R9B, dt_X86_REG_R10B, dt_X86_REG_R11B,
       dt_X86_REG_R12B, dt_X86_REG_R13B, dt_X86_REG_R14B, dt_X86_REG_R15B} \<union>
      {dt_X86_REG_RBP, dt_X86_REG_RSI, dt_X86_REG_RDI, dt_X86_REG_RSP,
       dt_X86_REG_BPL, dt_X86_REG_SIL, dt_X86_REG_DIL, dt_X86_REG_SPL}
    else {})"

lemma atLeastAtMost_8: "{a..a + 7} = {a, a + 1, a + 2, a + 3, a + 4, a + 5, a + 6, a + 7 :: nat}"
  by auto

lemma is_gpr_iff: "ir1_opnd_is_gpr t o1 \<longleftrightarrow> op_type o1 = dt_X86_OP_REG \<and> op_reg o1 \<in> gpr_regs t"
  using atLeastAtMost_8[of dt_X86_REG_R8] atLeastAtMost_8[of dt_X86_REG_R8D]
    atLeastAtMost_8[of dt_X86_REG_R8W] atLeastAtMost_8[of dt_X86_REG_R8B]
  by (cases "TARGET_X86_64 t"; simp add: ir1_opnd_is_gpr_def gpr_regs_def; blast)

lemma gpr_num:
  assumes "r \<in> gpr_regs t"
  shows "base_reg_num_gpr t r = Some (reg_index_without_width t r) \<and>
    0 \<le> reg_index_without_width t r \<and> reg_index_without_width t r < (if TARGET_X86_64 t then 16 else 8)"
  using assms unfolding gpr_regs_def
  by (cases "TARGET_X86_64 t"; simp only: if_True if_False Un_iff empty_iff; elim disjE insertE emptyE FalseE;
      simp add: base_reg_num_gpr_def reg_index_without_width_def)

text \<open>C25: Two general-register operands name parts of the same register exactly when their register
  numbers are equal, so the two independent switches of \<open>ir1_opnd_is_same_reg_without_width\<close> and
  \<open>ir1_opnd_base_reg_num\<close> agree; the number is in range for the target.\<close>

theorem same_reg_without_width_iff:
  assumes "ir1_opnd_is_gpr t a" "ir1_opnd_is_gpr t b"
  shows "(ir1_opnd_is_same_reg_without_width t a b \<longleftrightarrow>
      ir1_opnd_base_reg_num t a = ir1_opnd_base_reg_num t b) \<and>
    0 \<le> ir1_opnd_base_reg_num t a \<and> ir1_opnd_base_reg_num t a < (if TARGET_X86_64 t then 16 else 8)"
proof -
  have "op_type x = dt_X86_OP_REG \<and> op_reg x \<in> gpr_regs t \<longrightarrow>
      ir1_opnd_base_reg_num t x = reg_index_without_width t (op_reg x)" for x
    using gpr_num[of "op_reg x" t] by (auto simp: ir1_opnd_base_reg_num_def Let_def)
  with assms gpr_num[of "op_reg a" t] show ?thesis
    by (auto simp: is_gpr_iff ir1_opnd_is_same_reg_without_width_def Let_def)
qed

definition gpr_sample :: "dt_x86_reg \<Rightarrow> u8 \<Rightarrow> ir1_opnd" where
  "gpr_sample r sz = \<lparr>op_type = dt_X86_OP_REG, op_imm = of_nat r, op_mem_base = dt_X86_REG_INVALID,
     op_mem_index = dt_X86_REG_INVALID, op_mem_scale = 0, op_mem_disp = 0, op_size = sz, op_avx_bcast = 0\<rparr>"

theorem same_reg_without_width_iff_witness:
  "ir1_opnd_is_gpr AMD64 (gpr_sample dt_X86_REG_AH 1) \<and> ir1_opnd_is_gpr AMD64 (gpr_sample dt_X86_REG_RAX 8) \<and>
   ir1_opnd_base_reg_num AMD64 (gpr_sample dt_X86_REG_AH 1) = 0 \<and>
   ir1_opnd_is_same_reg_without_width AMD64 (gpr_sample dt_X86_REG_AH 1) (gpr_sample dt_X86_REG_RAX 8)"
proof -
  have g: "ir1_opnd_is_gpr AMD64 (gpr_sample dt_X86_REG_AH 1)" "ir1_opnd_is_gpr AMD64 (gpr_sample dt_X86_REG_RAX 8)"
    by (simp_all add: ir1_opnd_is_gpr_def gpr_sample_def op_reg_def)
  have n: "ir1_opnd_base_reg_num AMD64 (gpr_sample dt_X86_REG_AH 1) = 0"
    "ir1_opnd_base_reg_num AMD64 (gpr_sample dt_X86_REG_RAX 8) = 0"
    by (simp_all add: ir1_opnd_base_reg_num_def gpr_sample_def op_reg_def base_reg_num_gpr_def)
  show ?thesis using same_reg_without_width_iff[OF g] g n by simp
qed

section \<open>Register classes\<close>

text \<open>The class predicates, in the order of \<open>ir1_opnd_is_reg\<close>.\<close>

definition reg_classes :: "target \<Rightarrow> ir1_opnd \<Rightarrow> bool list" where
  "reg_classes t o1 = [ir1_opnd_is_gpr t o1, ir1_opnd_is_fpr o1, ir1_opnd_is_seg o1,
     ir1_opnd_is_mmx o1, ir1_opnd_is_xmm t o1, ir1_opnd_is_ymm t o1]"

lemma class_ranges:
  "ir1_opnd_is_gpr t o1 \<Longrightarrow> op_reg o1 \<notin> {dt_X86_REG_ST0..dt_X86_REG_YMM15} \<and>
     op_reg o1 \<notin> {dt_X86_REG_MM0..dt_X86_REG_MM7} \<and>
     op_reg o1 \<notin> {dt_X86_REG_CS, dt_X86_REG_DS, dt_X86_REG_SS, dt_X86_REG_ES, dt_X86_REG_FS, dt_X86_REG_GS}"
  "ir1_opnd_is_fpr o1 \<Longrightarrow> op_reg o1 \<in> {dt_X86_REG_ST0..dt_X86_REG_ST7}"
  "ir1_opnd_is_mmx o1 \<Longrightarrow> op_reg o1 \<in> {dt_X86_REG_MM0..dt_X86_REG_MM7}"
  "ir1_opnd_is_xmm t o1 \<Longrightarrow> op_reg o1 \<in> {dt_X86_REG_XMM0..dt_X86_REG_XMM15}"
  "ir1_opnd_is_ymm t o1 \<Longrightarrow> op_reg o1 \<in> {dt_X86_REG_YMM0..dt_X86_REG_YMM15}"
  "ir1_opnd_is_seg o1 \<Longrightarrow>
     op_reg o1 \<in> {dt_X86_REG_CS, dt_X86_REG_DS, dt_X86_REG_SS, dt_X86_REG_ES, dt_X86_REG_FS, dt_X86_REG_GS}"
  by (auto simp: ir1_opnd_is_gpr_def ir1_opnd_is_fpr_def ir1_opnd_is_mmx_def ir1_opnd_is_xmm_def
      ir1_opnd_is_ymm_def ir1_opnd_is_seg_def)

text \<open>The register classes partition the register operands: an operand accepted by
  \<open>ir1_opnd_is_reg\<close> is in exactly one of the classes general, x87, segment, MMX, SSE and AVX.\<close>

lemma reg_classes_partition:
  "ir1_opnd_is_reg t o1 \<longleftrightarrow> length (filter id (reg_classes t o1)) = 1"
proof -
  have x: "\<not> (ir1_opnd_is_gpr t o1 \<and> (ir1_opnd_is_fpr o1 \<or> ir1_opnd_is_seg o1 \<or> ir1_opnd_is_mmx o1 \<or>
        ir1_opnd_is_xmm t o1 \<or> ir1_opnd_is_ymm t o1))"
    "\<not> (ir1_opnd_is_fpr o1 \<and> (ir1_opnd_is_seg o1 \<or> ir1_opnd_is_mmx o1 \<or> ir1_opnd_is_xmm t o1 \<or> ir1_opnd_is_ymm t o1))"
    "\<not> (ir1_opnd_is_seg o1 \<and> (ir1_opnd_is_mmx o1 \<or> ir1_opnd_is_xmm t o1 \<or> ir1_opnd_is_ymm t o1))"
    "\<not> (ir1_opnd_is_mmx o1 \<and> (ir1_opnd_is_xmm t o1 \<or> ir1_opnd_is_ymm t o1))"
    "\<not> (ir1_opnd_is_xmm t o1 \<and> ir1_opnd_is_ymm t o1)"
    using class_ranges(1)[of t o1] class_ranges(2-3,6)[of o1] class_ranges(4,5)[of t o1] by auto
  then show ?thesis unfolding ir1_opnd_is_reg_def reg_classes_def by auto
qed

text \<open>\<open>ir1_opnd_is_gpr_used\<close> overlooks the index register of a memory operand with a base: for
  a base that is another register it answers no, whatever the index is.\<close>

lemma gpr_used_overlooks_index:
  assumes "ir1_opnd_is_mem o1" "ir1_opnd_has_base o1" "ir1_opnd_base_reg_num t o1 \<noteq> uint g"
  shows "\<not> ir1_opnd_is_gpr_used t o1 g"
  using assms by (simp add: ir1_opnd_is_gpr_used_def ir1_opnd_is_gpr_def ir1_opnd_is_mem_def)

section \<open>Immediates\<close>

lemma uint_trunc: "uint (trunc8 w) = uint w mod 2 ^ 8" "uint (trunc16 w) = uint w mod 2 ^ 16"
  "uint (trunc32 w) = uint w mod 2 ^ 32"
  by (simp_all add: unsigned_ucast_eq take_bit_eq_mod)

lemma to_ulongx_small:
  assumes "uint w < 2 ^ 32 \<or> TARGET_X86_64 t"
  shows "to_ulongx t w = w"
proof -
  have "zext32 (trunc32 w) = w" if "uint w < 2 ^ 32"
    using that by (simp add: word_uint_eq_iff unsigned_ucast_eq take_bit_eq_mod uint_mod)
  with assms show ?thesis by (auto simp: to_ulongx_def)
qed

text \<open>The unsigned reading of an immediate is its value modulo 2 to the operand width, for the
  four widths the decoder produces (64 only on the 64-bit target); any other width aborts.\<close>

lemma ir1_opnd_uimm_value:
  assumes "ir1_opnd_is_imm o1" "ir1_opnd_size o1 = 64 \<longrightarrow> TARGET_X86_64 t"
  shows "ir1_opnd_uimm t o1 =
    (if ir1_opnd_size o1 \<in> {8, 16, 32, 64}
     then Inr (word_of_int (uint (op_imm o1) mod 2 ^ nat (ir1_opnd_size o1))) else Inl Abort)"
proof -
  have z: "zext8 (trunc8 w) = word_of_int (uint w mod 2 ^ 8)" "zext16 (trunc16 w) = word_of_int (uint w mod 2 ^ 16)"
    "zext32 (trunc32 w) = word_of_int (uint w mod 2 ^ 32)" "w = word_of_int (uint w mod 2 ^ 64)" for w :: u64
    using unsigned_less[of w, where ?'a = int]
    by (simp_all add: word_uint_eq_iff unsigned_ucast_eq take_bit_eq_mod uint_word_of_int uint_mod)
  have m: "to_ulongx t (word_of_int (uint w mod 2 ^ n)) = word_of_int (uint w mod 2 ^ n)" if "n \<le> 32" for w :: u64 and n
  proof (rule to_ulongx_small)
    have "uint w mod 2 ^ n < 2 ^ n" by simp
    also have "(2 :: int) ^ n \<le> 2 ^ 32" using that by (intro power_increasing) auto
    finally have "uint w mod 2 ^ n < 2 ^ 32" .
    then show "uint (word_of_int (uint w mod 2 ^ n) :: u64) < 2 ^ 32 \<or> TARGET_X86_64 t"
      by (simp add: uint_word_of_int)
  qed
  have w: "to_ulongx t w = w" if "TARGET_X86_64 t" for w
    using that by (simp add: to_ulongx_def)
  show ?thesis
    using assms(2) m[of 8 "op_imm o1"] m[of 16 "op_imm o1"] m[of 32 "op_imm o1"] z(4)[of "op_imm o1"]
    by (auto simp: ir1_opnd_uimm_def assms(1) z(1-3) w)
qed

text \<open>The signed reading of an immediate is its low bits read as a two's complement number of
  the operand width; any other width aborts.\<close>

lemma ir1_opnd_simm_value:
  assumes "ir1_opnd_is_imm o1" "ir1_opnd_size o1 = 64 \<longrightarrow> TARGET_X86_64 t"
  shows "ir1_opnd_simm t o1 =
    (if ir1_opnd_size o1 \<in> {8, 16, 32, 64}
     then Inr (word_of_int (signed_take_bit (nat (ir1_opnd_size o1) - 1) (uint (op_imm o1)))) else Inl Abort)"
proof -
  have s: "to_longx t (sext8 (trunc8 w)) = word_of_int (signed_take_bit 7 (uint w))"
    "to_longx t (sext16 (trunc16 w)) = word_of_int (signed_take_bit 15 (uint w))"
    "to_longx t (sext32 (trunc32 w)) = word_of_int (signed_take_bit 31 (uint w))" for w :: u64
    unfolding to_longx_def by (rule bit_word_eqI; auto simp: bit_simps min_def)+
  have w: "to_longx t w = w" if "TARGET_X86_64 t" for w
    using that by (simp add: to_longx_def)
  have v: "w = word_of_int (signed_take_bit 63 (uint w))" for w :: u64
  proof (rule bit_word_eqI)
    fix n assume "n < LENGTH(64)"
    then consider "n < 63" | "n = 63" by fastforce
    then show "bit w n = bit (word_of_int (signed_take_bit 63 (uint w)) :: u64) n"
      by cases (auto simp: bit_simps min_def)
  qed
  show ?thesis
    using assms(2) s[of "op_imm o1"] v[of "op_imm o1"] by (auto simp: ir1_opnd_simm_def assms(1) w)
qed

text \<open>C29: immediates.  Read unsigned, an immediate is its value modulo 2 to the operand width; read
  signed, it is its low bits as a two's complement number of that width.  Both hold for the four widths
  that the decoder produces (64 only on the 64-bit target); any other width aborts.\<close>

theorem ir1_opnd_imm_value:
  assumes "ir1_opnd_is_imm o1" "ir1_opnd_size o1 = 64 \<longrightarrow> TARGET_X86_64 t"
  shows "if ir1_opnd_size o1 \<in> {8, 16, 32, 64} then
      ir1_opnd_uimm t o1 = Inr (word_of_int (uint (op_imm o1) mod 2 ^ nat (ir1_opnd_size o1))) \<and>
      ir1_opnd_simm t o1 = Inr (word_of_int (signed_take_bit (nat (ir1_opnd_size o1) - 1) (uint (op_imm o1))))
    else ir1_opnd_uimm t o1 = Inl Abort \<and> ir1_opnd_simm t o1 = Inl Abort"
  using ir1_opnd_uimm_value[OF assms] ir1_opnd_simm_value[OF assms] by simp

definition imm_sample :: "u64 \<Rightarrow> u8 \<Rightarrow> ir1_opnd" where
  "imm_sample v sz = \<lparr>op_type = dt_X86_OP_IMM, op_imm = v, op_mem_base = dt_X86_REG_INVALID,
     op_mem_index = dt_X86_REG_INVALID, op_mem_scale = 0, op_mem_disp = 0, op_size = sz, op_avx_bcast = 0\<rparr>"

theorem ir1_opnd_imm_value_witness:
  "ir1_opnd_is_imm (imm_sample 0x1fffe 2) \<and> ir1_opnd_uimm AMD64 (imm_sample 0x1fffe 2) = Inr 0xfffe \<and>
   ir1_opnd_simm AMD64 (imm_sample 0x1fffe 2) = Inr (-2)"
proof -
  have h: "ir1_opnd_is_imm (imm_sample 0x1fffe 2)" "ir1_opnd_size (imm_sample 0x1fffe 2) = 64 \<longrightarrow> TARGET_X86_64 AMD64"
    by (simp_all add: ir1_opnd_is_imm_def imm_sample_def)
  have "ir1_opnd_size (imm_sample 0x1fffe 2) = 16"
    by (simp add: ir1_opnd_size_def imm_sample_def)
  with ir1_opnd_imm_value[OF h] h(1) show ?thesis by (simp add: imm_sample_def)
qed



section \<open>The pc-thunk table\<close>

text \<open>C26: The pc-thunk table is a map.  After a thunk is registered, its address is looked up as the
  stored register and every other address as before; after a range is invalidated exactly the
  addresses of the half-open range miss (-1).\<close>

theorem ht_pc_thunk_map:
  assumes "ghash ops \<alpha>" "0 \<le>s reg_index"
  shows "ht_pc_thunk_lookup ops (ht_pc_thunk_insert ops h a reg_index) b =
      (if b = a then reg_index else ht_pc_thunk_lookup ops h b) \<and>
    ht_pc_thunk_lookup ops (ht_pc_thunk_invalidate ops h start stop) b =
      (if start \<le> b \<and> b < stop then -1 else ht_pc_thunk_lookup ops h b)"
proof -
  have "reg_index \<noteq> -1" using assms(2) by auto
  with assms(1) show ?thesis
    by (intro conjI ht_pc_thunk_lookup_insert_lemma ht_pc_thunk_lookup_invalidate_lemma)
qed

theorem ht_pc_thunk_map_witness:
  "ht_pc_thunk_lookup alist_ghash (ht_pc_thunk_insert alist_ghash [] 0x1000 3) 0x1000 = 3 \<and>
   ht_pc_thunk_lookup alist_ghash
     (ht_pc_thunk_invalidate alist_ghash (ht_pc_thunk_insert alist_ghash [] 0x1000 3) 0x800 0x1001) 0x1000 = -1"
proof -
  have "0 \<le>s (3 :: u32)" by (simp add: word_sle_eq)
  from ht_pc_thunk_map[OF alist_hash.ghash_axioms this] show ?thesis by simp
qed

end
