(* ===== verification/Reg_Map.thy ===== *)
theory Reg_Map
  imports Latx_Prelude
begin

text \<open>
  The register maps of include/reg-map.h and translator/reg-alloc.c: which LoongArch
  register holds which x86 register, and which LoongArch registers are temporaries.  An
  array is the list of its elements; an index without initialiser is 0.
\<close>

abbreviation (input) NOT_DEF :: int where "NOT_DEF \<equiv> -1"
abbreviation (input) INVALID_TEMP :: int where "INVALID_TEMP \<equiv> -1"

abbreviation (input) la_zero :: int where "la_zero \<equiv> 0"
abbreviation (input) la_ra :: int where "la_ra \<equiv> 1"
abbreviation (input) la_tp :: int where "la_tp \<equiv> 2"
abbreviation (input) la_sp :: int where "la_sp \<equiv> 3"
abbreviation (input) la_a0 :: int where "la_a0 \<equiv> 4"
abbreviation (input) la_a1 :: int where "la_a1 \<equiv> 5"
abbreviation (input) la_a2 :: int where "la_a2 \<equiv> 6"
abbreviation (input) la_a3 :: int where "la_a3 \<equiv> 7"
abbreviation (input) la_a4 :: int where "la_a4 \<equiv> 8"
abbreviation (input) la_a5 :: int where "la_a5 \<equiv> 9"
abbreviation (input) la_a6 :: int where "la_a6 \<equiv> 10"
abbreviation (input) la_a7 :: int where "la_a7 \<equiv> 11"
abbreviation (input) la_t0 :: int where "la_t0 \<equiv> 12"
abbreviation (input) la_t1 :: int where "la_t1 \<equiv> 13"
abbreviation (input) la_t2 :: int where "la_t2 \<equiv> 14"
abbreviation (input) la_t3 :: int where "la_t3 \<equiv> 15"
abbreviation (input) la_t4 :: int where "la_t4 \<equiv> 16"
abbreviation (input) la_t5 :: int where "la_t5 \<equiv> 17"
abbreviation (input) la_t6 :: int where "la_t6 \<equiv> 18"
abbreviation (input) la_t7 :: int where "la_t7 \<equiv> 19"
abbreviation (input) la_t8 :: int where "la_t8 \<equiv> 20"
abbreviation (input) la_r21 :: int where "la_r21 \<equiv> 21"
abbreviation (input) la_fp :: int where "la_fp \<equiv> 22"
abbreviation (input) la_s0 :: int where "la_s0 \<equiv> 23"
abbreviation (input) la_s1 :: int where "la_s1 \<equiv> 24"
abbreviation (input) la_s2 :: int where "la_s2 \<equiv> 25"
abbreviation (input) la_s3 :: int where "la_s3 \<equiv> 26"
abbreviation (input) la_s4 :: int where "la_s4 \<equiv> 27"
abbreviation (input) la_s5 :: int where "la_s5 \<equiv> 28"
abbreviation (input) la_s6 :: int where "la_s6 \<equiv> 29"
abbreviation (input) la_s7 :: int where "la_s7 \<equiv> 30"
abbreviation (input) la_s8 :: int where "la_s8 \<equiv> 31"

definition reg_gpr_map :: "target \<Rightarrow> int list" where
  "reg_gpr_map t = [la_s0, la_s1, la_s2, la_s3, la_s4, la_s5, la_s6, la_s7] @
    (if TARGET_X86_64 t then [la_a2, la_a3, la_a4, la_a5, la_t5, la_t6, la_t7, la_t8, la_zero] else [])"

definition reg_fpr_map :: "int list" where
  "reg_fpr_map = [0, 1, 2, 3, 4, 5, 6, 7]"

definition reg_xmm_map :: "target \<Rightarrow> int list" where
  "reg_xmm_map t = [16, 17, 18, 19, 20, 21, 22, 23] @
    (if TARGET_X86_64 t then [24, 25, 26, 27, 28, 29, 30, 31] else [])"

definition reg_statics_map :: "target \<Rightarrow> int list" where
  "reg_statics_map t = [la_fp, la_r21, if TARGET_X86_64 t then 0 else NOT_DEF, la_s8, la_a6]"

definition reg_trace_map :: "int list" where
  "reg_trace_map = [NOT_DEF]"

definition reg_itemp_map :: "target \<Rightarrow> int list" where
  "reg_itemp_map t = [la_t0, la_t1, la_t2, la_t3, la_t4] @
    (if \<not> TARGET_X86_64 t then [la_t5, la_t6, la_t7, la_t8, la_ra, la_a7] else [la_ra, la_a7])"

definition reg_itemp_reverse_map :: "target \<Rightarrow> int list" where
  "reg_itemp_reverse_map t =
    (let m = (replicate 32 INVALID_TEMP)[nat la_t0 := 0, nat la_t1 := 1, nat la_t2 := 2, nat la_t3 := 3,
               nat la_t4 := 4] in
     if \<not> TARGET_X86_64 t then m[nat la_t5 := 5, nat la_t6 := 6, nat la_t7 := 7, nat la_t8 := 8,
               nat la_ra := 9, nat la_a7 := 10]
     else m[nat la_ra := 5, nat la_a7 := 6])"

definition reg_ftemp_map :: "int list" where
  "reg_ftemp_map = [8, 9, 10, 11, 12, 13, 14, 15]"

definition reg_ftemp_reverse_map :: "int list" where
  "reg_ftemp_reverse_map = replicate 8 INVALID_TEMP @ [0, 1, 2, 3, 4, 5, 6, 7] @ replicate 16 INVALID_TEMP"

definition reg_scr_map :: "int list" where
  "reg_scr_map = [0, 1, 2, 3]"

text \<open>Array access of the C code: reading outside the array is undefined.\<close>

definition arr_get :: "'a list \<Rightarrow> int \<Rightarrow> 'a option" where
  "arr_get xs i = (if 0 \<le> i \<and> i < int (length xs) then Some (xs ! nat i) else None)"

lemma length_maps [simp]:
  "length (reg_itemp_reverse_map t) = 32" "length reg_ftemp_reverse_map = 32" "length reg_ftemp_map = 8"
  "length (reg_itemp_map t) = (if TARGET_X86_64 t then 7 else 11)"
  by (simp_all add: reg_itemp_reverse_map_def reg_ftemp_reverse_map_def reg_ftemp_map_def
      reg_itemp_map_def Let_def)

section \<open>The maps are consistent\<close>

lemma itemp_reverse_values:
  "reg_itemp_reverse_map t = (if TARGET_X86_64 t then
     [-1, 5, -1, -1, -1, -1, -1, -1, -1, -1, -1, 6, 0, 1, 2, 3, 4, -1, -1, -1, -1, -1, -1, -1, -1, -1, -1, -1, -1, -1, -1, -1]
   else
     [-1, 9, -1, -1, -1, -1, -1, -1, -1, -1, -1, 10, 0, 1, 2, 3, 4, 5, 6, 7, 8, -1, -1, -1, -1, -1, -1, -1, -1, -1, -1, -1])"
  by (simp add: reg_itemp_reverse_map_def Let_def numeral_eq_Suc)

lemma itemp_reverse_inverse:
  assumes "n < length (reg_itemp_map t)"
  shows "arr_get (reg_itemp_reverse_map t) (reg_itemp_map t ! n) = Some (int n)"
proof -
  have "\<forall>n<length (reg_itemp_map t). arr_get (reg_itemp_reverse_map t) (reg_itemp_map t ! n) = Some (int n)"
    unfolding itemp_reverse_values reg_itemp_map_def arr_get_def
    by (cases "TARGET_X86_64 t") (simp_all add: All_less_Suc2 numeral_eq_Suc)
  then show ?thesis using assms by blast
qed

lemma itemp_map_of_reverse:
  assumes "arr_get (reg_itemp_reverse_map t) r = Some v" "0 \<le> v"
  shows "nat v < length (reg_itemp_map t) \<and> reg_itemp_map t ! nat v = r"
proof -
  have r: "0 \<le> r" "r < 32" "v = reg_itemp_reverse_map t ! nat r"
    using assms(1) by (auto simp: arr_get_def split: if_splits)
  have "\<forall>k<32. 0 \<le> reg_itemp_reverse_map t ! k \<longrightarrow>
      nat (reg_itemp_reverse_map t ! k) < length (reg_itemp_map t) \<and>
      reg_itemp_map t ! nat (reg_itemp_reverse_map t ! k) = int k"
    unfolding itemp_reverse_values reg_itemp_map_def
    by (cases "TARGET_X86_64 t") (simp_all add: All_less_Suc2 numeral_eq_Suc)
  moreover have "nat r < 32" "int (nat r) = r" using r by auto
  ultimately show ?thesis using r(3) assms(2) by force
qed

end
