(* ===== verification/Imm_Cache.thy ===== *)
theory Imm_Cache
  imports Reg_Map X86_Ir1 "HOL-Library.Monad_Syntax" "HOL-Library.Multiset"
begin

text \<open>
  The cache of address values kept in temporary registers, optimization/imm-cache.c.  A
  bucket says that the temporary \<open>b_itemp_num\<close> holds base + index * scale + offset; a later
  memory operand with the same registers and an offset within a signed 12-bit distance is
  addressed from it.

  The structures IMM\_CACHE\_BUCKET, IMM\_CACHE and IMM\_CACHE\_RES are records.  The file's
  global array itemp\_stat, its counters and the static variable stop\_opt of
  imm\_cache\_allocate are fields of the cache record.  Offsets are 64-bit words (the
  translator is compiled with wrapping signed arithmetic); the other counters are bounded by
  the number of instructions of a block and are unbounded integers here.  An access outside
  an array makes the result \<open>None\<close>.  Log output is not modelled.

  \<open>qs\<close> stands for the call of the C library's qsort on the buckets: the order of buckets
  that compare equal is not specified.  Its contract is the locale \<open>imm_qsort\<close>.
\<close>

section \<open>Data\<close>

record imm_cache_bucket =
  b_free :: bool
  b_use_count :: int
  b_lifecycle :: int
  b_itemp_num :: int
  b_pre_cache :: bool
  b_base :: int
  b_index :: int
  b_scale :: int
  b_curr_ir1_index :: int
  b_offset :: u64
  b_avg_offset :: u64
  b_min_offset :: u64
  b_max_offset :: u64

record imm_cache =
  c_bucket :: "imm_cache_bucket list"
  c_cache_count :: int
  c_free_count :: int
  c_curr_imm_index :: int
  c_curr_ir1_index :: int
  c_curr_ir2_index :: int
  c_optimized_ir2 :: bool
  c_curr_pc :: u64
  c_itemp_allocated :: bool
  c_ir1_reg_last_updated_index :: "int list"
  itemp_stat :: "int list"
  cache_call :: int
  cache_hit :: int
  stop_opt :: bool

record imm_cache_res =
  res_diff :: "u64 option"
  res_offset :: "u64 option"
  res_itemp_num :: int
  res_cache_id :: int
  res_pre_cache :: bool
  res_cached :: bool

abbreviation (input) CACHE_DEFAULT_CAPACITY :: int where "CACHE_DEFAULT_CAPACITY \<equiv> 4"
abbreviation (input) CACHE_MAX_CAPACITY :: int where "CACHE_MAX_CAPACITY \<equiv> 300"

definition itemp_map :: "target \<Rightarrow> int list" where
  "itemp_map t = (if \<not> TARGET_X86_64 t then [7, 8, 9, 10] else [3, 4, 5, 6])"

definition itemp_reverse_map :: "target \<Rightarrow> int list" where
  "itemp_reverse_map t = (if \<not> TARGET_X86_64 t then (replicate 11 (-1))[7 := 0, 8 := 1, 9 := 2, 10 := 3]
     else (replicate 11 (-1))[3 := 0, 4 := 1, 5 := 2, 6 := 3])"

section \<open>Array access\<close>

definition arr_set :: "'a list \<Rightarrow> int \<Rightarrow> 'a \<Rightarrow> 'a list option" where
  "arr_set xs i v = (if 0 \<le> i \<and> i < int (length xs) then Some (xs[nat i := v]) else None)"

definition bucket_at :: "imm_cache \<Rightarrow> int \<Rightarrow> imm_cache_bucket option" where
  "bucket_at cache i = arr_get (c_bucket cache) i"

definition bucket_upd ::
    "(imm_cache_bucket \<Rightarrow> imm_cache_bucket) \<Rightarrow> imm_cache \<Rightarrow> int \<Rightarrow> imm_cache option" where
  "bucket_upd f cache i = do {
     b \<leftarrow> bucket_at cache i;
     bs \<leftarrow> arr_set (c_bucket cache) i (f b);
     Some (cache\<lparr>c_bucket := bs\<rparr>)
   }"

section \<open>Helpers\<close>

definition si12_overflow :: "u64 \<Rightarrow> bool" where
  "si12_overflow si12 = (if sint si12 \<ge> -2048 \<and> sint si12 \<le> 2047 then False else True)"

definition alloc_itemp :: "target \<Rightarrow> imm_cache \<Rightarrow> imm_cache \<times> int" where
  "alloc_itemp t cache =
    (case find (\<lambda>i. itemp_stat cache ! i \<noteq> 0) [3, 2, 1, 0] of
       Some i \<Rightarrow> (cache\<lparr>itemp_stat := (itemp_stat cache)[i := 0]\<rparr>, itemp_map t ! i)
     | None \<Rightarrow> (cache, -1))"

definition free_itemp :: "target \<Rightarrow> imm_cache \<Rightarrow> int \<Rightarrow> imm_cache option" where
  "free_itemp t cache itemp_num =
    (if itemp_num < 0 then Some cache
     else do {
       index \<leftarrow> arr_get (itemp_reverse_map t) itemp_num;
       st \<leftarrow> arr_set (itemp_stat cache) index 1;
       Some (cache\<lparr>itemp_stat := st\<rparr>)
     })"

definition imm_cache_is_imm_itemp :: "target \<Rightarrow> int \<Rightarrow> bool option" where
  "imm_cache_is_imm_itemp t itemp_num = do {
     index \<leftarrow> arr_get (itemp_reverse_map t) itemp_num;
     Some (index \<noteq> -1)
   }"

definition imm_cache_itemp_is_used :: "target \<Rightarrow> imm_cache \<Rightarrow> int \<Rightarrow> bool option" where
  "imm_cache_itemp_is_used t cache reg_num = do {
     itemp_num \<leftarrow> arr_get (reg_itemp_reverse_map t) reg_num;
     index \<leftarrow> arr_get (itemp_reverse_map t) itemp_num;
     st \<leftarrow> arr_get (itemp_stat cache) index;
     Some (if st \<noteq> -1 then True else False)
   }"

definition imm_cache_is_cached_at :: "imm_cache \<Rightarrow> int \<Rightarrow> bool option" where
  "imm_cache_is_cached_at cache cache_index = do {
     b \<leftarrow> bucket_at cache cache_index;
     Some (\<not> b_free b)
   }"

definition imm_cache_la_reg_num_at :: "target \<Rightarrow> imm_cache \<Rightarrow> int \<Rightarrow> int option" where
  "imm_cache_la_reg_num_at t cache cache_index = do {
     b \<leftarrow> bucket_at cache cache_index;
     arr_get (reg_itemp_map t) (b_itemp_num b)
   }"

definition compare_imm_cache :: "imm_cache_bucket \<Rightarrow> imm_cache_bucket \<Rightarrow> int" where
  "compare_imm_cache a b = b_use_count b - b_use_count a"

type_synonym bucket_sort = "imm_cache_bucket list \<Rightarrow> imm_cache_bucket list"

definition imm_cache_sort :: "bucket_sort \<Rightarrow> imm_cache \<Rightarrow> imm_cache" where
  "imm_cache_sort qs cache =
    (let n = nat (c_cache_count cache) in
     cache\<lparr>c_bucket := qs (take n (c_bucket cache)) @ drop n (c_bucket cache)\<rparr>)"

section \<open>Initialisation\<close>

definition LONG_LONG_MAX :: u64 where "LONG_LONG_MAX = 0x7fffffffffffffff"
definition LONG_LONG_MIN :: u64 where "LONG_LONG_MIN = 0x8000000000000000"

definition init_bucket :: imm_cache_bucket where
  "init_bucket = \<lparr>b_free = True, b_use_count = 0, b_lifecycle = 0, b_itemp_num = -1,
     b_pre_cache = False, b_base = -1, b_index = -1, b_scale = -1, b_curr_ir1_index = -1,
     b_offset = 0, b_avg_offset = 0, b_min_offset = LONG_LONG_MAX, b_max_offset = LONG_LONG_MIN\<rparr>"

definition imm_cache_init_bucket :: "imm_cache \<Rightarrow> int \<Rightarrow> imm_cache option" where
  "imm_cache_init_bucket = bucket_upd (\<lambda>_. init_bucket)"

text \<open>A loop over the indices \<open>i, i + 1, \<dots>, i + n - 1\<close> whose body may fail.\<close>

primrec for_range :: "(int \<Rightarrow> 's \<Rightarrow> 's option) \<Rightarrow> int \<Rightarrow> nat \<Rightarrow> 's \<Rightarrow> 's option" where
  "for_range body i 0 s = Some s"
| "for_range body i (Suc n) s = do { s' \<leftarrow> body i s; for_range body (i + 1) n s' }"

definition imm_cache_init :: "imm_cache \<Rightarrow> int \<Rightarrow> imm_cache option" where
  "imm_cache_init cache capacity0 =
    (let capacity = (if capacity0 < CACHE_DEFAULT_CAPACITY then CACHE_DEFAULT_CAPACITY else capacity0);
         cache1 = cache\<lparr>c_cache_count := capacity, c_free_count := capacity, c_curr_imm_index := 0,
           c_curr_ir1_index := 0, c_curr_ir2_index := 0, c_optimized_ir2 := False,
           c_itemp_allocated := False, c_ir1_reg_last_updated_index := replicate 16 (-1),
           itemp_stat := [1, 1, 1, 1]\<rparr>
     in for_range (\<lambda>i c. imm_cache_init_bucket c i) 0 (nat capacity) cache1)"

section \<open>Filling buckets\<close>

definition imm_cache_fill_bucket ::
    "imm_cache \<Rightarrow> int \<Rightarrow> int \<Rightarrow> int \<Rightarrow> int \<Rightarrow> u64 \<Rightarrow> imm_cache option" where
  "imm_cache_fill_bucket cache cache_id base index scale offset =
     bucket_upd (\<lambda>b. b\<lparr>b_base := base, b_index := index, b_scale := scale, b_offset := offset,
       b_avg_offset := 0, b_free := False, b_use_count := 0\<rparr>) cache cache_id"

definition imm_cache_replace_bucket ::
    "imm_cache \<Rightarrow> int \<Rightarrow> int \<Rightarrow> int \<Rightarrow> int \<Rightarrow> u64 \<Rightarrow> imm_cache option" where
  "imm_cache_replace_bucket cache cache_id base index scale offset = do {
     cache1 \<leftarrow> imm_cache_fill_bucket cache cache_id base index scale offset;
     bucket_upd (\<lambda>b. b\<lparr>b_lifecycle := 0, b_pre_cache := False,
       b_curr_ir1_index := c_curr_ir1_index cache, b_use_count := 1\<rparr>) cache1 cache_id
   }"

section \<open>Tracking register updates\<close>

definition set_updated :: "imm_cache \<Rightarrow> int \<Rightarrow> int \<Rightarrow> imm_cache option" where
  "set_updated cache reg_num curr_ir1_index = do {
     u \<leftarrow> arr_set (c_ir1_reg_last_updated_index cache) reg_num curr_ir1_index;
     Some (cache\<lparr>c_ir1_reg_last_updated_index := u\<rparr>)
   }"

definition update_gpr_opnd :: "target \<Rightarrow> imm_cache \<Rightarrow> ir1_opnd \<Rightarrow> int \<Rightarrow> imm_cache option" where
  "update_gpr_opnd t cache opnd curr_ir1_index =
    (if ir1_opnd_is_gpr t opnd then set_updated cache (ir1_opnd_base_reg_num t opnd) curr_ir1_index
     else Some cache)"

definition imm_cache_update_ir1_usage :: "target \<Rightarrow> imm_cache \<Rightarrow> ir1_inst \<Rightarrow> int \<Rightarrow> imm_cache option" where
  "imm_cache_update_ir1_usage t cache pir1 curr_ir1_index =
    (if i_op_count pir1 > 0 then
       let opcode = ir1_opcode pir1 in
       if opcode \<in> {dt_X86_INS_XCHG, dt_X86_INS_XADD} then
         \<comment> \<open>the loop over both operands returns in its first iteration\<close>
         update_gpr_opnd t cache (ir1_get_opnd pir1 0) curr_ir1_index
       else do {
         cache1 \<leftarrow>
           (if opcode \<in> {dt_X86_INS_PUSH, dt_X86_INS_PUSHF, dt_X86_INS_PUSHFD, dt_X86_INS_PUSHAL,
                dt_X86_INS_PUSHAW, dt_X86_INS_POP, dt_X86_INS_POPF} then
              set_updated cache esp_index curr_ir1_index
            else if opcode \<in> {dt_X86_INS_MUL, dt_X86_INS_IMUL, dt_X86_INS_DIV, dt_X86_INS_IDIV} then do {
              c \<leftarrow> set_updated cache eax_index curr_ir1_index;
              set_updated c edx_index curr_ir1_index
            }
            else if opcode \<in> {dt_X86_INS_POPAL, dt_X86_INS_POPAW} then
              for_range (\<lambda>i c. set_updated c i curr_ir1_index) 0 16 cache
            else Some cache);
         update_gpr_opnd t cache1 (ir1_get_opnd pir1 0) curr_ir1_index
       }
     else Some cache)"

definition imm_cache_check_ir1_should_skip :: "ir1_inst \<Rightarrow> bool \<Rightarrow> bool" where
  "imm_cache_check_ir1_should_skip curr_ir1_inst bool_skip =
    (if ir1_opcode curr_ir1_inst = dt_X86_INS_FNSTENV then True else bool_skip)"

section \<open>Lookup\<close>

definition criterion_offset :: "imm_cache_bucket \<Rightarrow> u64" where
  "criterion_offset b = (if b_avg_offset b = 0 then b_offset b else b_avg_offset b)"

definition bucket_hits :: "int \<Rightarrow> int \<Rightarrow> int \<Rightarrow> u64 \<Rightarrow> imm_cache_bucket \<Rightarrow> bool" where
  "bucket_hits base index scale offset b \<longleftrightarrow>
     b_index b = index \<and> b_base b = base \<and> b_scale b = scale \<and> b_free b = False \<and>
     \<not> si12_overflow (offset - criterion_offset b)"

primrec get_loop :: "imm_cache \<Rightarrow> (imm_cache_bucket \<Rightarrow> bool) \<Rightarrow> int \<Rightarrow> nat \<Rightarrow> int option" where
  "get_loop cache hit i 0 = Some (-1)"
| "get_loop cache hit i (Suc n) = do {
     b \<leftarrow> bucket_at cache i;
     if hit b then Some i else get_loop cache hit (i + 1) n
   }"

definition imm_cache_get :: "imm_cache \<Rightarrow> int \<Rightarrow> int \<Rightarrow> int \<Rightarrow> u64 \<Rightarrow> int option" where
  "imm_cache_get cache base index scale offset =
     get_loop cache (bucket_hits base index scale offset) 0 (nat (c_cache_count cache))"

definition imm_cache_check_base_index_has_changed ::
    "imm_cache \<Rightarrow> int \<Rightarrow> int \<Rightarrow> int \<Rightarrow> bool option" where
  "imm_cache_check_base_index_has_changed cache bucket_id base_reg_num index_reg_num =
    (if base_reg_num < 0 \<and> index_reg_num < 0 then Some False
     else do {
       b \<leftarrow> bucket_at cache bucket_id;
       last_update_base \<leftarrow> (if base_reg_num \<ge> 0
         then arr_get (c_ir1_reg_last_updated_index cache) base_reg_num else Some (-1));
       last_update_index \<leftarrow> (if index_reg_num \<ge> 0
         then arr_get (c_ir1_reg_last_updated_index cache) index_reg_num else Some (-1));
       Some (last_update_base \<ge> b_curr_ir1_index b \<or> last_update_index \<ge> b_curr_ir1_index b)
     })"

definition imm_cache_can_use :: "imm_cache \<Rightarrow> int \<Rightarrow> int \<Rightarrow> int \<Rightarrow> bool option" where
  "imm_cache_can_use cache bucket_id base index = do {
     changed \<leftarrow> imm_cache_check_base_index_has_changed cache bucket_id base index;
     Some (\<not> changed)
   }"

section \<open>Releasing buckets\<close>

definition imm_cache_free :: "target \<Rightarrow> imm_cache \<Rightarrow> int \<Rightarrow> imm_cache option" where
  "imm_cache_free t cache cid = do {
     b \<leftarrow> bucket_at cache cid;
     cache1 \<leftarrow> free_itemp t cache (b_itemp_num b);
     imm_cache_init_bucket cache1 cid
   }"

text \<open>The loop body that \<open>imm_cache_free_itemp\<close>, \<open>imm_cache_free_cache_use_target_reg\<close> and
  \<open>imm_cache_free_dead_cache\<close> share: release bucket i and count it, if the condition holds.\<close>

definition free_if :: "target \<Rightarrow> (imm_cache_bucket \<Rightarrow> bool) \<Rightarrow> int \<Rightarrow> imm_cache \<Rightarrow> imm_cache option" where
  "free_if t P i cache = do {
     b \<leftarrow> bucket_at cache i;
     if P b then do {
       cache1 \<leftarrow> imm_cache_free t cache i;
       Some (cache1\<lparr>c_free_count := c_free_count cache1 + 1\<rparr>)
     } else Some cache
   }"

definition imm_cache_free_itemp :: "target \<Rightarrow> imm_cache \<Rightarrow> int \<Rightarrow> imm_cache option" where
  "imm_cache_free_itemp t cache itemp_num =
     for_range (free_if t (\<lambda>b. b_itemp_num b = itemp_num \<and> \<not> b_free b)) 0 (nat (c_cache_count cache)) cache"

definition imm_cache_free_cache_use_target_reg :: "target \<Rightarrow> imm_cache \<Rightarrow> int \<Rightarrow> imm_cache option" where
  "imm_cache_free_cache_use_target_reg t cache reg_num = do {
     itemp_num \<leftarrow> arr_get (reg_itemp_reverse_map t) reg_num;
     for_range (free_if t (\<lambda>b. b_itemp_num b = itemp_num \<and> \<not> b_free b)) 0 (nat (c_cache_count cache)) cache
   }"

definition imm_cache_free_dead_cache :: "target \<Rightarrow> bucket_sort \<Rightarrow> imm_cache \<Rightarrow> imm_cache option" where
  "imm_cache_free_dead_cache t qs cache = do {
     cache1 \<leftarrow> for_range (free_if t (\<lambda>b. \<not> b_free b \<and> b_lifecycle b \<noteq> 0 \<and>
       b_lifecycle b < c_curr_imm_index cache)) 0 (nat (c_cache_count cache)) cache;
     Some (imm_cache_sort qs cache1)
   }"

definition imm_cache_free_all :: "target \<Rightarrow> imm_cache \<Rightarrow> imm_cache option" where
  "imm_cache_free_all t cache = do {
     cache1 \<leftarrow> for_range (\<lambda>i c. imm_cache_free t c i) 0 (nat (c_cache_count cache)) cache;
     Some (cache1\<lparr>c_free_count := c_cache_count cache1\<rparr>)
   }"

section \<open>Scanning a block before translation\<close>

definition smin :: "u64 \<Rightarrow> u64 \<Rightarrow> u64" where "smin a b = (if sint a < sint b then a else b)"
definition smax :: "u64 \<Rightarrow> u64 \<Rightarrow> u64" where "smax a b = (if sint a > sint b then a else b)"

text \<open>Signed division by two, which rounds towards zero.\<close>

definition half_sum :: "u64 \<Rightarrow> u64 \<Rightarrow> u64" where
  "half_sum a b = (let s = sint (a + b) in word_of_int (sgn s * (\<bar>s\<bar> div 2)))"

definition imm_cache_precache_put ::
    "imm_cache \<Rightarrow> int \<Rightarrow> int \<Rightarrow> int \<Rightarrow> u64 \<Rightarrow> imm_cache option" where
  "imm_cache_precache_put cache base index scale offset = do {
     id0 \<leftarrow> imm_cache_get cache base index scale offset;
     cache_id0 \<leftarrow>
       (if id0 \<ge> 0 then do {
          b \<leftarrow> bucket_at cache id0;
          let min_offset = smin offset (b_min_offset b);
          let max_offset = smax offset (b_max_offset b);
          Some (if si12_overflow (max_offset - half_sum min_offset max_offset) then -2 else id0)
        } else Some id0);
     (cache1, cache_id) \<leftarrow>
       (if cache_id0 = -1 \<or> cache_id0 = -2 then do {
          let cache_id = c_cache_count cache - c_free_count cache;
          c1 \<leftarrow> imm_cache_fill_bucket cache cache_id base index scale offset;
          let c2 = c1\<lparr>c_free_count := c_free_count c1 - 1\<rparr>;
          c3 \<leftarrow> bucket_upd (\<lambda>b. b\<lparr>b_curr_ir1_index := c_curr_ir1_index c2\<rparr>) c2 cache_id;
          Some (c3, cache_id)
        } else Some (cache, cache_id0));
     cache2 \<leftarrow> bucket_upd (\<lambda>b.
        let min_offset = smin offset (b_min_offset b);
            max_offset = smax offset (b_max_offset b)
        in b\<lparr>b_avg_offset := half_sum min_offset max_offset, b_min_offset := min_offset,
             b_max_offset := max_offset, b_use_count := b_use_count b + 1,
             b_lifecycle := c_curr_imm_index cache1\<rparr>) cache1 cache_id;
     Some (cache2\<lparr>c_curr_imm_index := c_curr_imm_index cache2 + 1\<rparr>)
   }"

definition finish_bucket :: "target \<Rightarrow> int \<Rightarrow> imm_cache \<Rightarrow> imm_cache option" where
  "finish_bucket t i cache = do {
     b \<leftarrow> bucket_at cache i;
     if b_free b \<or> i \<ge> 3 then do {
       c \<leftarrow> imm_cache_init_bucket cache i;
       Some (c\<lparr>c_free_count := c_free_count c + 1\<rparr>)
     } else do {
       let (c, n) = alloc_itemp t cache;
       bucket_upd (\<lambda>b. b\<lparr>b_pre_cache := True, b_itemp_num := n\<rparr>) c i
     }
   }"

definition imm_cache_finish_precache :: "target \<Rightarrow> bucket_sort \<Rightarrow> imm_cache \<Rightarrow> imm_cache option" where
  "imm_cache_finish_precache t qs cache =
    (let cache1 = (imm_cache_sort qs cache)\<lparr>c_cache_count := CACHE_DEFAULT_CAPACITY,
           c_curr_imm_index := 0, c_curr_ir1_index := 0, c_curr_ir2_index := 0,
           c_optimized_ir2 := False, c_itemp_allocated := False, c_free_count := 0\<rparr>
     in for_range (finish_bucket t) 0 (nat CACHE_DEFAULT_CAPACITY) cache1)"

section \<open>Allocation\<close>

definition imm_cache_diff :: "imm_cache \<Rightarrow> int \<Rightarrow> u64 \<Rightarrow> u64 option" where
  "imm_cache_diff cache cache_id new_offset = do {
     b \<leftarrow> bucket_at cache cache_id;
     Some (new_offset - criterion_offset b)
   }"

definition imm_cache_update_by_diff :: "imm_cache \<Rightarrow> int \<Rightarrow> u64 \<Rightarrow> imm_cache option" where
  "imm_cache_update_by_diff cache cache_id diff =
     bucket_upd (\<lambda>b. b\<lparr>b_offset := b_offset b + diff\<rparr>) cache cache_id"

definition imm_cache_update_by_offset :: "imm_cache \<Rightarrow> int \<Rightarrow> u64 \<Rightarrow> imm_cache option" where
  "imm_cache_update_by_offset cache cache_id new_offset =
     bucket_upd (\<lambda>b. b\<lparr>b_offset := new_offset\<rparr>) cache cache_id"

definition imm_cache_put ::
    "target \<Rightarrow> imm_cache \<Rightarrow> int \<Rightarrow> int \<Rightarrow> int \<Rightarrow> u64 \<Rightarrow> (imm_cache \<times> int) option" where
  "imm_cache_put t cache base index scale offset = do {
     (cache1, cache_id) \<leftarrow>
       (if c_free_count cache = 0 then do {
          let cache_id = c_cache_count cache - 1;
          c \<leftarrow> imm_cache_free t cache cache_id;
          Some (c\<lparr>c_free_count := c_free_count c + 1\<rparr>, cache_id)
        } else Some (cache, c_cache_count cache - c_free_count cache));
     cache2 \<leftarrow> imm_cache_fill_bucket cache1 cache_id base index scale offset;
     let cache3 = cache2\<lparr>c_free_count := c_free_count cache2 - 1\<rparr>;
     cache4 \<leftarrow> bucket_upd (\<lambda>b. b\<lparr>b_curr_ir1_index := c_curr_ir1_index cache3,
        b_use_count := b_use_count b + 1\<rparr>) cache3 cache_id;
     let (cache5, n) = alloc_itemp t cache4;
     cache6 \<leftarrow> bucket_upd (\<lambda>b. b\<lparr>b_itemp_num := n\<rparr>) cache5 cache_id;
     Some (cache6, cache_id)
   }"

definition imm_cache_allocate ::
    "target \<Rightarrow> bucket_sort \<Rightarrow> u64 \<Rightarrow> imm_cache \<Rightarrow> int \<Rightarrow> int \<Rightarrow> int \<Rightarrow> u64 \<Rightarrow>
     (imm_cache \<times> imm_cache_res) option" where
  "imm_cache_allocate t qs imm_skip_pc cache base index scale offset =
    (let cache1 = cache\<lparr>cache_call := cache_call cache + 1,
           stop_opt := stop_opt cache \<or> imm_skip_pc \<noteq> 0 \<and> c_curr_pc cache = imm_skip_pc\<rparr>;
         cache2 = imm_cache_sort qs cache1;
         res0 = \<lparr>res_diff = None, res_offset = None, res_itemp_num = 0, res_cache_id = 0,
                 res_pre_cache = False, res_cached = False\<rparr>
     in do {
       cache_id0 \<leftarrow> (if \<not> stop_opt cache2 then imm_cache_get cache2 base index scale offset else Some (-1));
       (cache3, res, cache_id) \<leftarrow>
         (if cache_id0 = -1 then do {
            (c, cid) \<leftarrow> imm_cache_put t cache2 base index scale offset;
            Some (c, res0, cid)
          } else do {
            ok \<leftarrow> imm_cache_can_use cache2 cache_id0 base index;
            if ok then do {
              diff \<leftarrow> imm_cache_diff cache2 cache_id0 offset;
              b \<leftarrow> bucket_at cache2 cache_id0;
              c \<leftarrow> bucket_upd (\<lambda>b. b\<lparr>b_pre_cache := False, b_use_count := b_use_count b + 1\<rparr>)
                     cache2 cache_id0;
              Some (c\<lparr>cache_hit := cache_hit c + 1\<rparr>,
                res0\<lparr>res_diff := Some diff, res_offset := Some (criterion_offset b),
                  res_pre_cache := b_pre_cache b, res_cached := True\<rparr>, cache_id0)
            } else do {
              c \<leftarrow> imm_cache_replace_bucket cache2 cache_id0 base index scale offset;
              Some (c, res0\<lparr>res_offset := Some offset\<rparr>, cache_id0)
            }
          });
       b \<leftarrow> bucket_at cache3 cache_id;
       Some (cache3\<lparr>c_curr_imm_index := c_curr_imm_index cache3 + 1, c_optimized_ir2 := True\<rparr>,
         res\<lparr>res_cache_id := cache_id, res_itemp_num := b_itemp_num b\<rparr>)
     })"

end
