(* ===== verification/Imm_Cache_Inv.thy ===== *)
theory Imm_Cache_Inv
  imports Imm_Cache
begin

text \<open>
  Invariants of the address cache.  The buckets are read as a multiset, so that sorting them
  is invisible: a free bucket is in its initial state, live buckets hold pairwise distinct
  temporaries of the cache's own range, the array itemp\_stat marks exactly these, and the
  free counter counts the free buckets.  Every operation keeps the invariant and is defined
  on it; in particular a temporary can be allocated whenever a bucket is free.
\<close>

section \<open>The contract of qsort\<close>

locale imm_qsort =
  fixes qs :: bucket_sort
  assumes mset_qs: "mset (qs bs) = mset bs"
    and sorted_qs: "sorted_wrt (\<lambda>a b. compare_imm_cache a b \<le> 0) (qs bs)"
begin

lemma length_qs [simp]: "length (qs bs) = length bs"
  using mset_qs by (metis size_mset)

lemma use_count_mono: "i < j \<Longrightarrow> j < length bs \<Longrightarrow> b_use_count (qs bs ! j) \<le> b_use_count (qs bs ! i)"
  using sorted_wrt_nth_less[OF sorted_qs, of i j bs] by (simp add: compare_imm_cache_def)

end

text \<open>A stable sort by decreasing use count meets the contract.\<close>

definition stable_bucket_sort :: bucket_sort where
  "stable_bucket_sort bs = sort_key (\<lambda>b. - b_use_count b) bs"

interpretation stable_qs: imm_qsort stable_bucket_sort
proof
  show "mset (stable_bucket_sort bs) = mset bs" for bs
    by (simp add: stable_bucket_sort_def)
  show "sorted_wrt (\<lambda>a b. compare_imm_cache a b \<le> 0) (stable_bucket_sort bs)" for bs
    using sorted_sort_key[of "\<lambda>b. - b_use_count b" bs]
    by (simp add: stable_bucket_sort_def sorted_map compare_imm_cache_def)
qed

section \<open>Loops and arrays\<close>

lemma for_range_inv:
  assumes "\<And>j s. i \<le> j \<Longrightarrow> j < i + int n \<Longrightarrow> P s \<Longrightarrow> \<exists>s'. body j s = Some s' \<and> P s'" and "P s"
  shows "\<exists>s'. for_range body i n s = Some s' \<and> P s'"
  using assms
proof (induction n arbitrary: i s)
  case (Suc n)
  obtain s1 where s1: "body i s = Some s1" "P s1" using Suc.prems(1)[of i s] Suc.prems(2) by auto
  have "\<exists>s'. for_range body (i + 1) n s1 = Some s' \<and> P s'"
    by (rule Suc.IH) (use Suc.prems(1) s1 in auto)
  then show ?case using s1 by simp
qed simp

lemma bucket_at_in: "0 \<le> i \<Longrightarrow> i < int (length (c_bucket c)) \<Longrightarrow> bucket_at c i = Some (c_bucket c ! nat i)"
  by (simp add: bucket_at_def arr_get_def)

lemma bucket_upd_in:
  "0 \<le> i \<Longrightarrow> i < int (length (c_bucket c)) \<Longrightarrow>
   bucket_upd f c i = Some (c\<lparr>c_bucket := (c_bucket c)[nat i := f (c_bucket c ! nat i)]\<rparr>)"
  by (simp add: bucket_upd_def bucket_at_in arr_set_def)

lemma take_nth_mset:
  assumes "i < 4" "4 \<le> length bs"
  shows "mset (take 4 bs) = add_mset (bs ! i) (mset (take 4 bs) - {#bs ! i#})"
    and "mset (take 4 (bs[i := b])) = add_mset b (mset (take 4 bs) - {#bs ! i#})"
proof -
  have i: "i < length (take 4 bs)" "take 4 bs ! i = bs ! i" using assms by auto
  then have "bs ! i \<in> set (take 4 bs)" by (metis nth_mem)
  then show "mset (take 4 bs) = add_mset (bs ! i) (mset (take 4 bs) - {#bs ! i#})" by simp
  show "mset (take 4 (bs[i := b])) = add_mset b (mset (take 4 bs) - {#bs ! i#})"
    using mset_update[OF i(1), of b] i(2) by (simp add: take_update_swap)
qed

section \<open>The invariant on the multiset of buckets\<close>

definition itemps :: "imm_cache_bucket multiset \<Rightarrow> int multiset" where
  "itemps M = image_mset b_itemp_num (filter_mset (\<lambda>b. \<not> b_free b) M)"

definition bucket_ok :: "target \<Rightarrow> imm_cache_bucket \<Rightarrow> bool" where
  "bucket_ok t b \<longleftrightarrow> (if b_free b then b = init_bucket
     else 1 \<le> b_use_count b \<and> b_itemp_num b \<in> set (itemp_map t))"

definition bs_inv :: "target \<Rightarrow> int list \<Rightarrow> int \<Rightarrow> imm_cache_bucket multiset \<Rightarrow> bool" where
  "bs_inv t st fc M \<longleftrightarrow> size M = 4 \<and> fc = int (size (filter_mset b_free M)) \<and>
     (\<forall>b\<in>#M. bucket_ok t b) \<and> (\<forall>x. count (itemps M) x \<le> 1) \<and> length st = 4 \<and>
     (\<forall>k<4. st ! k = 0 \<longleftrightarrow> itemp_map t ! k \<in># itemps M)"

definition imm_inv :: "target \<Rightarrow> imm_cache \<Rightarrow> bool" where
  "imm_inv t c \<longleftrightarrow> c_cache_count c = 4 \<and> 4 \<le> length (c_bucket c) \<and>
     length (c_ir1_reg_last_updated_index c) = 16 \<and>
     bs_inv t (itemp_stat c) (c_free_count c) (mset (take 4 (c_bucket c)))"

lemma itemps_add [simp]:
  "itemps (add_mset b M) = (if b_free b then itemps M else add_mset (b_itemp_num b) (itemps M))"
  by (simp add: itemps_def)

lemma itemp_map_facts [simp]:
  "length (itemp_map t) = 4" "distinct (itemp_map t)"
  by (simp_all add: itemp_map_def)

lemma itemp_map_nth_eq: "j < 4 \<Longrightarrow> k < 4 \<Longrightarrow> itemp_map t ! j = itemp_map t ! k \<longleftrightarrow> j = k"
  using nth_eq_iff_index_eq[OF itemp_map_facts(2), of j t k] by simp

lemma itemp_map_reverse:
  "k < 4 \<Longrightarrow> 0 \<le> itemp_map t ! k \<and> arr_get (itemp_reverse_map t) (itemp_map t ! k) = Some (int k)"
proof -
  have "\<forall>k<4. 0 \<le> itemp_map t ! k \<and> arr_get (itemp_reverse_map t) (itemp_map t ! k) = Some (int k)"
    by (cases "TARGET_X86_64 t")
      (simp_all add: itemp_map_def itemp_reverse_map_def arr_get_def All_less_Suc2 numeral_eq_Suc)
  then show "k < 4 \<Longrightarrow> ?thesis" by blast
qed

lemma free_itemp_map:
  assumes "k < 4" "length (itemp_stat c) = 4"
  shows "free_itemp t c (itemp_map t ! k) = Some (c\<lparr>itemp_stat := (itemp_stat c)[k := 1]\<rparr>)"
  using itemp_map_reverse[OF assms(1), of t] assms by (simp add: free_itemp_def arr_set_def)

lemma init_bucket_simps [simp]:
  "b_free init_bucket" "b_use_count init_bucket = 0" "b_itemp_num init_bucket = -1" "bucket_ok t init_bucket"
  by (simp_all add: init_bucket_def bucket_ok_def)

text \<open>Releasing a live bucket.\<close>

lemma bs_inv_free:
  assumes inv: "bs_inv t st fc (add_mset b R)" and live: "\<not> b_free b"
  obtains k where "k < 4" "b_itemp_num b = itemp_map t ! k" "bs_inv t (st[k := 1]) (fc + 1) (add_mset init_bucket R)"
proof -
  have "b_itemp_num b \<in> set (itemp_map t)" using inv live by (simp add: bs_inv_def bucket_ok_def)
  then obtain k where k: "k < 4" "b_itemp_num b = itemp_map t ! k"
    by (metis in_set_conv_nth itemp_map_facts(1))
  have cnt: "count (add_mset (b_itemp_num b) (itemps R)) x \<le> 1" for x
    using inv live unfolding bs_inv_def by simp
  have notin: "b_itemp_num b \<notin># itemps R"
    using cnt[of "b_itemp_num b"] by (simp add: not_in_iff)
  have cntR: "count (itemps R) x \<le> 1" for x
    using cnt[of x] by (cases "x = b_itemp_num b") auto
  have "bs_inv t (st[k := 1]) (fc + 1) (add_mset init_bucket R)"
    unfolding bs_inv_def
  proof (intro conjI allI impI)
    show "(st[k := 1]) ! j = 0 \<longleftrightarrow> itemp_map t ! j \<in># itemps (add_mset init_bucket R)" if "j < 4" for j
      using inv live that k notin itemp_map_nth_eq[OF that k(1), of t]
      by (cases "j = k") (auto simp: bs_inv_def)
  qed (use inv live cntR in \<open>auto simp: bs_inv_def\<close>)
  with k show ?thesis by (rule that)
qed

text \<open>While a bucket is free a temporary of the cache is unused.\<close>

lemma bs_inv_avail:
  assumes inv: "bs_inv t st fc (add_mset b R)" and free: "b_free b"
  shows "\<exists>k<4. st ! k \<noteq> 0"
proof (rule ccontr)
  assume "\<not> ?thesis"
  then have "set (itemp_map t) \<subseteq> set_mset (itemps R)"
    using inv free by (auto simp: bs_inv_def in_set_conv_nth)
  then have "card (set (itemp_map t)) \<le> card (set_mset (itemps R))" by (intro card_mono) auto
  moreover obtain xs where "itemps R = mset xs" using ex_mset by metis
  then have "card (set_mset (itemps R)) \<le> size (itemps R)" by (simp add: card_length)
  moreover have "size (itemps R) \<le> size R" by (simp add: itemps_def size_filter_mset_lesseq)
  moreover have "size R = 3" using inv by (simp add: bs_inv_def)
  ultimately show False by (simp add: distinct_card)
qed

text \<open>Filling a free bucket with an unused temporary.\<close>

lemma bs_inv_fill:
  assumes inv: "bs_inv t st fc (add_mset b R)" and free: "b_free b"
    and k: "k < 4" "st ! k \<noteq> 0"
    and b': "\<not> b_free b'" "b_itemp_num b' = itemp_map t ! k" "1 \<le> b_use_count b'"
  shows "bs_inv t (st[k := 0]) (fc - 1) (add_mset b' R)"
  unfolding bs_inv_def
proof (intro conjI allI impI)
  have notin: "itemp_map t ! k \<notin># itemps R" using inv free k by (auto simp: bs_inv_def)
  have cntR: "count (itemps R) x \<le> 1" for x using inv free unfolding bs_inv_def by simp
  show "count (itemps (add_mset b' R)) x \<le> 1" for x
    using cntR[of x] notin b' by (cases "x = itemp_map t ! k") (auto simp: not_in_iff)
  show "(st[k := 0]) ! j = 0 \<longleftrightarrow> itemp_map t ! j \<in># itemps (add_mset b' R)" if "j < 4" for j
    using inv free that k b' itemp_map_nth_eq[OF that k(1), of t]
    by (cases "j = k") (auto simp: bs_inv_def)
  have "itemp_map t ! k \<in> set (itemp_map t)" using k by simp
  then show "\<forall>b\<in>#add_mset b' R. bucket_ok t b" using inv b' by (simp add: bs_inv_def bucket_ok_def)
qed (use inv free b' in \<open>auto simp: bs_inv_def\<close>)

lemma bs_inv_upd:
  assumes "bs_inv t st fc (add_mset b R)" "\<not> b_free b" "\<not> b_free b'" "b_itemp_num b' = b_itemp_num b"
    "1 \<le> b_use_count b'"
  shows "bs_inv t st fc (add_mset b' R)"
  using assms by (simp add: bs_inv_def bucket_ok_def)

section \<open>Operations on the whole cache\<close>

definition live_at :: "imm_cache \<Rightarrow> int \<Rightarrow> bool" where
  "live_at c i \<longleftrightarrow> 0 \<le> i \<and> i < 4 \<and> \<not> b_free (c_bucket c ! nat i)"

definition rest :: "imm_cache \<Rightarrow> int \<Rightarrow> imm_cache_bucket multiset" where
  "rest c i = mset (take 4 (c_bucket c)) - {#c_bucket c ! nat i#}"

lemma imm_inv_split:
  assumes "imm_inv t c" "0 \<le> i" "i < 4"
  shows "bs_inv t (itemp_stat c) (c_free_count c) (add_mset (c_bucket c ! nat i) (rest c i))"
    and "mset (take 4 ((c_bucket c)[nat i := b])) = add_mset b (rest c i)"
    and "mset (take 4 (c_bucket c)) = add_mset (c_bucket c ! nat i) (rest c i)"
    and "bucket_at c i = Some (c_bucket c ! nat i)"
    and "nat i < length (c_bucket c)"
    and "i < int (length (c_bucket c))"
  using assms take_nth_mset[of "nat i" "c_bucket c"] unfolding imm_inv_def rest_def
  by (auto simp: bucket_at_in)

lemma imm_inv_upd:
  assumes "imm_inv t c" "0 \<le> i" "i < 4" "bs_inv t st fc (add_mset b (rest c i))"
  shows "imm_inv t (c\<lparr>c_bucket := (c_bucket c)[nat i := b], itemp_stat := st, c_free_count := fc\<rparr>)"
  using assms imm_inv_split(2)[OF assms(1-3), of b] by (simp add: imm_inv_def)

lemma imm_cache_free_live:
  assumes inv: "imm_inv t c" and live: "live_at c i"
  obtains k where "k < 4" "b_itemp_num (c_bucket c ! nat i) = itemp_map t ! k"
    "imm_cache_free t c i = Some (c\<lparr>c_bucket := (c_bucket c)[nat i := init_bucket],
        itemp_stat := (itemp_stat c)[k := 1]\<rparr>)"
    "bs_inv t ((itemp_stat c)[k := 1]) (c_free_count c + 1) (add_mset init_bucket (rest c i))"
proof -
  have i: "0 \<le> i" "i < 4" and nf: "\<not> b_free (c_bucket c ! nat i)" using live by (auto simp: live_at_def)
  note sp = imm_inv_split[OF inv i]
  obtain k where k: "k < 4" "b_itemp_num (c_bucket c ! nat i) = itemp_map t ! k"
    "bs_inv t ((itemp_stat c)[k := 1]) (c_free_count c + 1) (add_mset init_bucket (rest c i))"
    using bs_inv_free[OF sp(1) nf] .
  have "length (itemp_stat c) = 4" using inv by (simp add: imm_inv_def bs_inv_def)
  then have "imm_cache_free t c i = Some (c\<lparr>c_bucket := (c_bucket c)[nat i := init_bucket],
      itemp_stat := (itemp_stat c)[k := 1]\<rparr>)"
    using k sp(4,6) i
    by (simp add: imm_cache_free_def free_itemp_map imm_cache_init_bucket_def bucket_upd_in)
  with k show ?thesis by (intro that)
qed

text \<open>Releasing the buckets that satisfy a condition on live buckets.\<close>

lemma free_if_spec:
  assumes inv: "imm_inv t c" and i: "0 \<le> i" "i < 4" and P: "\<And>b. P b \<Longrightarrow> \<not> b_free b"
  shows "\<exists>c'. free_if t P i c = Some c' \<and> imm_inv t c' \<and>
    c' = c\<lparr>c_bucket := c_bucket c', itemp_stat := itemp_stat c', c_free_count := c_free_count c'\<rparr> \<and>
    (\<forall>b\<in>set (take 4 (c_bucket c')). \<not> b_free b \<longrightarrow> b \<in> set (take 4 (c_bucket c))) \<and>
    \<not> P (c_bucket c' ! nat i) \<and> (\<forall>j<4. j \<noteq> nat i \<longrightarrow> c_bucket c' ! j = c_bucket c ! j)"
proof (cases "P (c_bucket c ! nat i)")
  case False
  then show ?thesis using inv imm_inv_split(4)[OF inv i] by (auto simp: free_if_def)
next
  case True
  have nf: "\<not> b_free (c_bucket c ! nat i)" using P[OF True] .
  then have "live_at c i" using i by (simp add: live_at_def)
  then obtain k where k: "k < 4"
    "imm_cache_free t c i = Some (c\<lparr>c_bucket := (c_bucket c)[nat i := init_bucket],
        itemp_stat := (itemp_stat c)[k := 1]\<rparr>)"
    "bs_inv t ((itemp_stat c)[k := 1]) (c_free_count c + 1) (add_mset init_bucket (rest c i))"
    using imm_cache_free_live[OF inv] by metis
  define c' where "c' = c\<lparr>c_bucket := (c_bucket c)[nat i := init_bucket],
    itemp_stat := (itemp_stat c)[k := 1], c_free_count := c_free_count c + 1\<rparr>"
  have "free_if t P i c = Some c'"
    using True k(2) imm_inv_split(4)[OF inv i] by (simp add: free_if_def c'_def)
  moreover have "imm_inv t c'" unfolding c'_def by (rule imm_inv_upd[OF inv i k(3)])
  moreover have "\<forall>b\<in>set (take 4 (c_bucket c')). \<not> b_free b \<longrightarrow> b \<in> set (take 4 (c_bucket c))"
  proof (intro ballI impI)
    fix b assume "b \<in> set (take 4 (c_bucket c'))" "\<not> b_free b"
    then have "b \<in> set ((take 4 (c_bucket c))[nat i := init_bucket])" "b \<noteq> init_bucket"
      by (auto simp: c'_def take_update_swap)
    then show "b \<in> set (take 4 (c_bucket c))" using set_update_subset_insert by fastforce
  qed
  moreover have "\<not> P (c_bucket c' ! nat i)"
    using P[of init_bucket] imm_inv_split(5)[OF inv i] by (auto simp: c'_def)
  ultimately show ?thesis by (intro exI[of _ c']) (auto simp: c'_def)
qed

text \<open>Allocating a temporary.\<close>

lemma alloc_itemp_avail:
  assumes "\<exists>k<4. itemp_stat c ! k \<noteq> 0"
  obtains k where "k < 4" "itemp_stat c ! k \<noteq> 0"
    "alloc_itemp t c = (c\<lparr>itemp_stat := (itemp_stat c)[k := 0]\<rparr>, itemp_map t ! k)"
proof -
  have "find (\<lambda>i. itemp_stat c ! i \<noteq> 0) [3, 2, 1, 0] \<noteq> None"
    using assms by (auto simp: find_None_iff numeral_eq_Suc less_Suc_eq)
  then obtain k where k: "find (\<lambda>i. itemp_stat c ! i \<noteq> 0) [3, 2, 1, 0] = Some k" by blast
  then have "k < 4" "itemp_stat c ! k \<noteq> 0" by (auto split: if_splits)
  then show ?thesis by (rule that) (simp only: alloc_itemp_def k option.case)
qed

section \<open>Filling the first free bucket\<close>

definition new_bucket :: "imm_cache \<Rightarrow> int \<Rightarrow> int \<Rightarrow> int \<Rightarrow> u64 \<Rightarrow> int \<Rightarrow> imm_cache_bucket" where
  "new_bucket c base index scale offset n = init_bucket\<lparr>b_free := False, b_use_count := 1,
     b_itemp_num := n, b_base := base, b_index := index, b_scale := scale,
     b_curr_ir1_index := c_curr_ir1_index c, b_offset := offset\<rparr>"

definition put_tail ::
    "target \<Rightarrow> imm_cache \<Rightarrow> int \<Rightarrow> int \<Rightarrow> int \<Rightarrow> int \<Rightarrow> u64 \<Rightarrow> (imm_cache \<times> int) option" where
  "put_tail t cache1 cache_id base index scale offset = do {
     cache2 \<leftarrow> imm_cache_fill_bucket cache1 cache_id base index scale offset;
     let cache3 = cache2\<lparr>c_free_count := c_free_count cache2 - 1\<rparr>;
     cache4 \<leftarrow> bucket_upd (\<lambda>b. b\<lparr>b_curr_ir1_index := c_curr_ir1_index cache3,
        b_use_count := b_use_count b + 1\<rparr>) cache3 cache_id;
     let (cache5, n) = alloc_itemp t cache4;
     cache6 \<leftarrow> bucket_upd (\<lambda>b. b\<lparr>b_itemp_num := n\<rparr>) cache5 cache_id;
     Some (cache6, cache_id)
   }"

lemma put_tail_spec:
  assumes inv: "imm_inv t c" and i: "0 \<le> i" "i < 4" and free: "b_free (c_bucket c ! nat i)"
  obtains k c' where "k < 4" "put_tail t c i base index scale offset = Some (c', i)" "imm_inv t c'"
    "c' = c\<lparr>c_bucket := (c_bucket c)[nat i := new_bucket c base index scale offset (itemp_map t ! k)],
       itemp_stat := (itemp_stat c)[k := 0], c_free_count := c_free_count c - 1\<rparr>"
proof -
  note sp = imm_inv_split[OF inv i]
  have b0: "c_bucket c ! nat i = init_bucket"
    using sp(1) free by (simp add: bs_inv_def bucket_ok_def)
  let ?c4 = "c\<lparr>c_free_count := c_free_count c - 1,
    c_bucket := (c_bucket c)[nat i := new_bucket c base index scale offset (-1)]\<rparr>"
  have "\<exists>k<4. itemp_stat ?c4 ! k \<noteq> 0" using bs_inv_avail[OF sp(1) free] by simp
  then obtain k where k: "k < 4" "itemp_stat ?c4 ! k \<noteq> 0"
    "alloc_itemp t ?c4 = (?c4\<lparr>itemp_stat := (itemp_stat ?c4)[k := 0]\<rparr>, itemp_map t ! k)"
    by (rule alloc_itemp_avail)
  let ?c' = "c\<lparr>c_bucket := (c_bucket c)[nat i := new_bucket c base index scale offset (itemp_map t ! k)],
     itemp_stat := (itemp_stat c)[k := 0], c_free_count := c_free_count c - 1\<rparr>"
  have "imm_inv t ?c'"
    by (rule imm_inv_upd[OF inv i], rule bs_inv_fill[OF sp(1) free k(1)])
      (use k in \<open>auto simp: new_bucket_def\<close>)
  moreover have fill: "init_bucket\<lparr>b_base := base, b_index := index, b_scale := scale, b_offset := offset,
      b_avg_offset := 0, b_free := False, b_curr_ir1_index := c_curr_ir1_index c, b_use_count := 1\<rparr> =
      new_bucket c base index scale offset (-1)"
    by (simp add: new_bucket_def init_bucket_def)
  have "put_tail t c i base index scale offset = Some (?c', i)"
    using i sp(5,6) k(3)
    by (simp add: put_tail_def imm_cache_fill_bucket_def bucket_upd_in b0 fill Let_def)
      (rule imm_cache.equality; simp add: new_bucket_def init_bucket_def)
  ultimately show ?thesis using k(1) by (intro that) auto
qed

end
