(* ===== verification/Imm_Cache_Alloc.thy ===== *)
theory Imm_Cache_Alloc
  imports Imm_Cache_Inv
begin

text \<open>
  What the operations of the address cache do to the set of buckets: sorting, lookup,
  insertion and \<open>imm_cache_allocate\<close>, for every sort that meets the contract of qsort.
\<close>

section \<open>Lookup\<close>

lemma get_loop_spec:
  assumes "0 \<le> i" "i + int n \<le> int (length (c_bucket c))"
  shows "\<exists>r. get_loop c hit i n = Some r \<and>
    (r = -1 \<and> (\<forall>j. i \<le> j \<and> j < i + int n \<longrightarrow> \<not> hit (c_bucket c ! nat j)) \<or>
     i \<le> r \<and> r < i + int n \<and> hit (c_bucket c ! nat r) \<and> (\<forall>j. i \<le> j \<and> j < r \<longrightarrow> \<not> hit (c_bucket c ! nat j)))"
  using assms
proof (induction n arbitrary: i)
  case (Suc n)
  have at: "bucket_at c i = Some (c_bucket c ! nat i)" using Suc.prems by (intro bucket_at_in) auto
  show ?case
  proof (cases "hit (c_bucket c ! nat i)")
    case True
    then show ?thesis using at by auto
  next
    case False
    have "0 \<le> i + 1" "i + 1 + int n \<le> int (length (c_bucket c))" using Suc.prems by auto
    from Suc.IH[OF this] obtain r where r: "get_loop c hit (i + 1) n = Some r"
      "r = -1 \<and> (\<forall>j. i + 1 \<le> j \<and> j < i + 1 + int n \<longrightarrow> \<not> hit (c_bucket c ! nat j)) \<or>
       i + 1 \<le> r \<and> r < i + 1 + int n \<and> hit (c_bucket c ! nat r) \<and>
       (\<forall>j. i + 1 \<le> j \<and> j < r \<longrightarrow> \<not> hit (c_bucket c ! nat j))" by blast
    have step: "\<not> hit (c_bucket c ! nat j)"
      if "i \<le> j" "i + 1 \<le> j \<Longrightarrow> \<not> hit (c_bucket c ! nat j)" for j
      using that False by (cases "j = i") auto
    have "get_loop c hit i (Suc n) = Some r" using at False r(1) by simp
    then show ?thesis using r(2) step by (intro exI[of _ r]) fastforce
  qed
qed auto

lemma imm_cache_get_spec:
  assumes "imm_inv t c"
  obtains r where "imm_cache_get c base index scale offset = Some r"
    "r = -1 \<and> (\<forall>b\<in>set (take 4 (c_bucket c)). \<not> bucket_hits base index scale offset b) \<or>
     0 \<le> r \<and> r < 4 \<and> bucket_hits base index scale offset (c_bucket c ! nat r)"
proof -
  have len: "c_cache_count c = 4" "4 \<le> length (c_bucket c)" using assms by (auto simp: imm_inv_def)
  obtain r where r: "get_loop c (bucket_hits base index scale offset) 0 4 = Some r"
    "r = -1 \<and> (\<forall>j. 0 \<le> j \<and> j < 0 + int 4 \<longrightarrow> \<not> bucket_hits base index scale offset (c_bucket c ! nat j)) \<or>
     0 \<le> r \<and> r < 0 + int 4 \<and> bucket_hits base index scale offset (c_bucket c ! nat r) \<and>
     (\<forall>j. 0 \<le> j \<and> j < r \<longrightarrow> \<not> bucket_hits base index scale offset (c_bucket c ! nat j))"
    using get_loop_spec[of 0 4 c "bucket_hits base index scale offset"] len by auto
  have "\<not> bucket_hits base index scale offset b"
    if none: "\<forall>j. 0 \<le> j \<and> j < 0 + int 4 \<longrightarrow> \<not> bucket_hits base index scale offset (c_bucket c ! nat j)"
      and b: "b \<in> set (take 4 (c_bucket c))" for b
  proof -
    obtain k where "k < 4" "b = c_bucket c ! k" using b len by (auto simp: in_set_conv_nth)
    then show ?thesis using none[rule_format, of "int k"] by simp
  qed
  then show ?thesis using r len by (intro that[of r]) (auto simp: imm_cache_get_def)
qed

section \<open>Sorting\<close>

context imm_qsort begin

lemma sort_mset:
  assumes "imm_inv t c"
  shows "mset (take 4 (c_bucket (imm_cache_sort qs c))) = mset (take 4 (c_bucket c))"
  using assms by (simp add: imm_cache_sort_def imm_inv_def Let_def mset_qs)

lemma sort_inv:
  assumes "imm_inv t c"
  shows "imm_inv t (imm_cache_sort qs c)"
  using assms sort_mset[OF assms] by (simp add: imm_inv_def imm_cache_sort_def Let_def)

text \<open>After sorting, the free buckets come last.\<close>

lemma sort_free_tail:
  assumes inv: "imm_inv t c" and i: "4 - c_free_count c \<le> i" "0 \<le> i" "i < 4"
  shows "b_free (c_bucket (imm_cache_sort qs c) ! nat i)"
proof (rule ccontr)
  define bs where "bs = take 4 (c_bucket (imm_cache_sort qs c))"
  have len: "length bs = 4" and srt: "bs = qs (take 4 (c_bucket c))" and len0: "4 \<le> length (c_bucket c)"
    using inv by (auto simp: bs_def imm_inv_def imm_cache_sort_def Let_def)
  have nth: "c_bucket (imm_cache_sort qs c) ! k = bs ! k" if "k < 4" for k
    using that by (simp add: bs_def)
  assume "\<not> b_free (c_bucket (imm_cache_sort qs c) ! nat i)"
  then have live: "\<not> b_free (bs ! nat i)" using nth i by simp
  have ok: "bucket_ok t b" if "b \<in> set bs" for b
    using that inv sort_mset[OF inv] unfolding bs_def imm_inv_def bs_inv_def
    by (metis set_mset_mset)
  have use: "b_free (bs ! k) \<longleftrightarrow> b_use_count (bs ! k) < 1" if "k < 4" for k
    using ok[of "bs ! k"] that len by (auto simp: bucket_ok_def split: if_splits)
  have "{j. j \<le> nat i} \<subseteq> {j. j < length bs \<and> \<not> b_free (bs ! j)}"
  proof
    fix j assume j: "j \<in> {j. j \<le> nat i}"
    then have "b_use_count (bs ! nat i) \<le> b_use_count (bs ! j)"
      using use_count_mono[of j "nat i" "take 4 (c_bucket c)"] len len0 i srt
      by (cases "j = nat i") auto
    then show "j \<in> {j. j < length bs \<and> \<not> b_free (bs ! j)}" using j use i len live by auto
  qed
  then have "card {j. j \<le> nat i} \<le> card {j. j < length bs \<and> \<not> b_free (bs ! j)}"
    by (intro card_mono) auto
  then have "nat i + 1 \<le> length (filter (\<lambda>b. \<not> b_free b) bs)"
    by (simp add: length_filter_conv_card)
  moreover have "length (filter b_free bs) + length (filter (\<lambda>b. \<not> b_free b) bs) = 4"
    using sum_length_filter_compl[of b_free bs] len by simp
  moreover have "c_free_count c = int (length (filter b_free bs))"
    using inv sort_mset[OF inv] unfolding imm_inv_def bs_inv_def bs_def
    by (metis mset_filter size_mset)
  ultimately show False using i by linarith
qed

end

section \<open>Insertion\<close>

definition fresh_bucket :: "imm_cache \<Rightarrow> int \<Rightarrow> int \<Rightarrow> int \<Rightarrow> u64 \<Rightarrow> imm_cache_bucket \<Rightarrow> bool" where
  "fresh_bucket c base index scale offset b \<longleftrightarrow> \<not> b_free b \<and> b_base b = base \<and> b_index b = index \<and>
     b_scale b = scale \<and> b_offset b = offset \<and> b_avg_offset b = 0 \<and> \<not> b_pre_cache b \<and>
     b_curr_ir1_index b = c_curr_ir1_index c"

definition same_frame :: "imm_cache \<Rightarrow> imm_cache \<Rightarrow> bool" where
  "same_frame c c' \<longleftrightarrow> c_curr_ir1_index c' = c_curr_ir1_index c \<and>
     c_ir1_reg_last_updated_index c' = c_ir1_reg_last_updated_index c"

lemma imm_cache_put_unfold:
  "imm_cache_put t c base index scale offset =
    (if c_free_count c = 0 then do {
       c1 \<leftarrow> imm_cache_free t c (c_cache_count c - 1);
       put_tail t (c1\<lparr>c_free_count := c_free_count c1 + 1\<rparr>) (c_cache_count c - 1) base index scale offset
     } else put_tail t c (c_cache_count c - c_free_count c) base index scale offset)"
  by (simp add: imm_cache_put_def put_tail_def Let_def)

lemma imm_cache_put_spec:
  assumes inv: "imm_inv t c"
    and tail: "\<And>i. 4 - c_free_count c \<le> i \<Longrightarrow> 0 \<le> i \<Longrightarrow> i < 4 \<Longrightarrow> b_free (c_bucket c ! nat i)"
  obtains c' i b b' R where "imm_cache_put t c base index scale offset = Some (c', i)"
    "0 \<le> i" "i < 4" "imm_inv t c'" "same_frame c c'" "c_bucket c' ! nat i = b'"
    "mset (take 4 (c_bucket c)) = add_mset b R" "mset (take 4 (c_bucket c')) = add_mset b' R"
    "fresh_bucket c base index scale offset b'"
proof (cases "c_free_count c = 0")
  case True
  have size: "c_cache_count c = 4" using inv by (simp add: imm_inv_def)
  have nofree: "\<not> b_free b" if "b \<in># mset (take 4 (c_bucket c))" for b
    using inv True that unfolding imm_inv_def bs_inv_def
    by (auto simp: filter_mset_eq_conv)
  have "live_at c 3" unfolding live_at_def using nofree imm_inv_split(3)[OF inv, of 3] by auto
  then obtain k where k: "imm_cache_free t c 3 = Some (c\<lparr>c_bucket := (c_bucket c)[nat 3 := init_bucket],
      itemp_stat := (itemp_stat c)[k := 1]\<rparr>)"
    "bs_inv t ((itemp_stat c)[k := 1]) (c_free_count c + 1) (add_mset init_bucket (rest c 3))"
    using imm_cache_free_live[OF inv] by metis
  define c1 where "c1 = c\<lparr>c_bucket := (c_bucket c)[nat 3 := init_bucket],
    itemp_stat := (itemp_stat c)[k := 1], c_free_count := c_free_count c + 1\<rparr>"
  have len: "3 < length (c_bucket c)" using inv by (simp add: imm_inv_def)
  have inv1: "imm_inv t c1" unfolding c1_def by (rule imm_inv_upd[OF inv _ _ k(2)]) auto
  have lo: "(0::int) \<le> 3" and hi: "(3::int) < 4" by auto
  have "b_free (c_bucket c1 ! nat 3)" using len by (simp add: c1_def)
  from put_tail_spec[OF inv1 lo hi this] obtain j c' where j: "put_tail t c1 3 base index scale offset = Some (c', 3)"
    "imm_inv t c'"
    "c' = c1\<lparr>c_bucket := (c_bucket c1)[nat 3 := new_bucket c1 base index scale offset (itemp_map t ! j)],
       itemp_stat := (itemp_stat c1)[j := 0], c_free_count := c_free_count c1 - 1\<rparr>" by metis
  have put: "imm_cache_put t c base index scale offset = Some (c', 3)"
    using True k(1) j(1) size by (simp add: imm_cache_put_unfold c1_def)
  show ?thesis
    by (rule that[OF put _ _ j(2) _ refl imm_inv_split(3)[OF inv, of 3]])
      (use j(3) len imm_inv_split(2)[OF inv, of 3] in
        \<open>auto simp: same_frame_def c1_def fresh_bucket_def new_bucket_def init_bucket_def\<close>)
next
  case False
  define i where "i = c_cache_count c - c_free_count c"
  have sz: "c_cache_count c = 4" and fc: "0 \<le> c_free_count c" using inv by (auto simp: imm_inv_def bs_inv_def)
  have "size (filter_mset b_free (mset (take 4 (c_bucket c)))) \<le> 4"
    using inv size_filter_mset_lesseq[of b_free "mset (take 4 (c_bucket c))"]
    by (simp add: imm_inv_def)
  then have "c_free_count c \<le> 4" using inv by (simp add: imm_inv_def bs_inv_def)
  then have i: "0 \<le> i" "i < 4" "4 - c_free_count c \<le> i" using False sz fc by (auto simp: i_def)
  have "b_free (c_bucket c ! nat i)" using tail i by auto
  from put_tail_spec[OF inv i(1,2) this] obtain j c' where j: "put_tail t c i base index scale offset = Some (c', i)"
    "imm_inv t c'"
    "c' = c\<lparr>c_bucket := (c_bucket c)[nat i := new_bucket c base index scale offset (itemp_map t ! j)],
       itemp_stat := (itemp_stat c)[j := 0], c_free_count := c_free_count c - 1\<rparr>" by metis
  have put: "imm_cache_put t c base index scale offset = Some (c', i)"
    using False j(1) by (simp add: imm_cache_put_unfold i_def)
  show ?thesis
    by (rule that[OF put i(1,2) j(2) _ refl imm_inv_split(3)[OF inv i(1,2)]])
      (use j(3) imm_inv_split(2,5)[OF inv i(1,2)] in
        \<open>auto simp: same_frame_def fresh_bucket_def new_bucket_def init_bucket_def\<close>)
qed

section \<open>Allocation\<close>

definition last_update :: "imm_cache \<Rightarrow> int \<Rightarrow> int" where
  "last_update c r = (if r \<ge> 0 then c_ir1_reg_last_updated_index c ! nat r else -1)"

definition changed_since :: "imm_cache \<Rightarrow> imm_cache_bucket \<Rightarrow> bool" where
  "changed_since c b \<longleftrightarrow> \<not> (b_base b < 0 \<and> b_index b < 0) \<and>
     (last_update c (b_base b) \<ge> b_curr_ir1_index b \<or> last_update c (b_index b) \<ge> b_curr_ir1_index b)"

lemma imm_cache_can_use_spec:
  assumes "imm_inv t c" "0 \<le> i" "i < 4" "base < 16" "index < 16"
    "b_base (c_bucket c ! nat i) = base" "b_index (c_bucket c ! nat i) = index"
  shows "imm_cache_can_use c i base index = Some (\<not> changed_since c (c_bucket c ! nat i))"
  using assms imm_inv_split(4)[OF assms(1-3)]
  by (simp add: imm_cache_can_use_def imm_cache_check_base_index_has_changed_def arr_get_def
      changed_since_def last_update_def imm_inv_def)

text \<open>The two outcomes of an allocation: the address is found in a live bucket whose registers
  have not changed, or some bucket is (re)filled with it.\<close>

definition alloc_hit ::
    "imm_cache \<Rightarrow> int \<Rightarrow> int \<Rightarrow> int \<Rightarrow> u64 \<Rightarrow> imm_cache_res \<Rightarrow> imm_cache_bucket \<Rightarrow> imm_cache_bucket \<Rightarrow> bool" where
  "alloc_hit c base index scale offset res b b' \<longleftrightarrow>
     res_cached res \<and> bucket_hits base index scale offset b \<and> \<not> changed_since c b \<and>
     res_diff res = Some (offset - criterion_offset b) \<and> res_offset res = Some (criterion_offset b) \<and>
     res_pre_cache res = b_pre_cache b \<and>
     b' = b\<lparr>b_pre_cache := False, b_use_count := b_use_count b + 1\<rparr>"

definition alloc_fill ::
    "imm_cache \<Rightarrow> int \<Rightarrow> int \<Rightarrow> int \<Rightarrow> u64 \<Rightarrow> imm_cache_res \<Rightarrow> imm_cache_bucket \<Rightarrow> bool" where
  "alloc_fill c base index scale offset res b' \<longleftrightarrow>
     \<not> res_cached res \<and> \<not> res_pre_cache res \<and> fresh_bucket c base index scale offset b'"

definition alloc_result ::
    "target \<Rightarrow> imm_cache \<Rightarrow> int \<Rightarrow> int \<Rightarrow> int \<Rightarrow> u64 \<Rightarrow> imm_cache \<Rightarrow> imm_cache_res \<Rightarrow>
     imm_cache_bucket \<Rightarrow> imm_cache_bucket \<Rightarrow> imm_cache_bucket multiset \<Rightarrow> bool" where
  "alloc_result t c base index scale offset c' res b b' R \<longleftrightarrow>
     imm_inv t c' \<and> same_frame c c' \<and> 0 \<le> res_cache_id res \<and> res_cache_id res < 4 \<and>
     c_bucket c' ! nat (res_cache_id res) = b' \<and> res_itemp_num res = b_itemp_num b' \<and>
     mset (take 4 (c_bucket c)) = add_mset b R \<and> mset (take 4 (c_bucket c')) = add_mset b' R \<and>
     (alloc_hit c base index scale offset res b b' \<or> alloc_fill c base index scale offset res b')"

text \<open>The bucket a hit or a replacement refers to, updated in place.\<close>

lemma imm_inv_set_bucket:
  assumes "imm_inv t c" "0 \<le> i" "i < 4" "\<not> b_free (c_bucket c ! nat i)" "\<not> b_free b"
    "b_itemp_num b = b_itemp_num (c_bucket c ! nat i)" "1 \<le> b_use_count b"
  shows "imm_inv t (c\<lparr>c_bucket := (c_bucket c)[nat i := b]\<rparr>)"
proof -
  have "bs_inv t (itemp_stat c) (c_free_count c) (add_mset b (rest c i))"
    by (rule bs_inv_upd[OF imm_inv_split(1)[OF assms(1-3)]]) (use assms in auto)
  from imm_inv_upd[OF assms(1-3) this] show ?thesis by simp
qed

lemma alloc_record_inv [simp]:
  "imm_inv t (c\<lparr>cache_call := a, stop_opt := s\<rparr>) = imm_inv t c"
  "imm_inv t (c\<lparr>c_curr_imm_index := j, c_optimized_ir2 := o2\<rparr>) = imm_inv t c"
  "imm_inv t (c\<lparr>cache_hit := h\<rparr>) = imm_inv t c"
  by (simp_all add: imm_inv_def)

lemma bucket_in_use_count:
  assumes "imm_inv t c" "0 \<le> i" "i < 4" "\<not> b_free (c_bucket c ! nat i)"
  shows "1 \<le> b_use_count (c_bucket c ! nat i)"
  using imm_inv_split(1)[OF assms(1-3)] assms(4) by (simp add: bs_inv_def bucket_ok_def)

definition alloc_at ::
    "target \<Rightarrow> imm_cache \<Rightarrow> int \<Rightarrow> int \<Rightarrow> int \<Rightarrow> u64 \<Rightarrow> int \<Rightarrow> (imm_cache \<times> imm_cache_res) option" where
  "alloc_at t c base index scale offset r =
    (let res0 = \<lparr>res_diff = None, res_offset = None, res_itemp_num = 0, res_cache_id = 0,
                 res_pre_cache = False, res_cached = False\<rparr>
     in do {
       (cache3, res, cache_id) \<leftarrow>
         (if r = -1 then do {
            (c, cid) \<leftarrow> imm_cache_put t c base index scale offset;
            Some (c, res0, cid)
          } else do {
            ok \<leftarrow> imm_cache_can_use c r base index;
            if ok then do {
              diff \<leftarrow> imm_cache_diff c r offset;
              b \<leftarrow> bucket_at c r;
              c \<leftarrow> bucket_upd (\<lambda>b. b\<lparr>b_pre_cache := False, b_use_count := b_use_count b + 1\<rparr>) c r;
              Some (c\<lparr>cache_hit := cache_hit c + 1\<rparr>,
                res0\<lparr>res_diff := Some diff, res_offset := Some (criterion_offset b),
                  res_pre_cache := b_pre_cache b, res_cached := True\<rparr>, r)
            } else do {
              c \<leftarrow> imm_cache_replace_bucket c r base index scale offset;
              Some (c, res0\<lparr>res_offset := Some offset\<rparr>, r)
            }
          });
       b \<leftarrow> bucket_at cache3 cache_id;
       Some (cache3\<lparr>c_curr_imm_index := c_curr_imm_index cache3 + 1, c_optimized_ir2 := True\<rparr>,
         res\<lparr>res_cache_id := cache_id, res_itemp_num := b_itemp_num b\<rparr>)
     })"

lemma allocate_unfold:
  assumes "imm_cache_sort qs (c0\<lparr>cache_call := cache_call c0 + 1,
      stop_opt := stop_opt c0 \<or> skip \<noteq> 0 \<and> c_curr_pc c0 = skip\<rparr>) = c"
    and "(if \<not> stop_opt c then imm_cache_get c base index scale offset else Some (-1)) = Some r"
  shows "imm_cache_allocate t qs skip c0 base index scale offset = alloc_at t c base index scale offset r"
  unfolding imm_cache_allocate_def Let_def assms alloc_at_def Option.bind.bind_lunit by (rule refl)

lemma allocate_sorted:
  assumes inv: "imm_inv t c" and regs: "base < 16" "index < 16"
    and tail: "\<And>i. 4 - c_free_count c \<le> i \<Longrightarrow> 0 \<le> i \<Longrightarrow> i < 4 \<Longrightarrow> b_free (c_bucket c ! nat i)"
    and sorted: "imm_cache_sort qs (c0\<lparr>cache_call := cache_call c0 + 1,
      stop_opt := stop_opt c0 \<or> skip \<noteq> 0 \<and> c_curr_pc c0 = skip\<rparr>) = c"
  shows "\<exists>c' res b b' R. imm_cache_allocate t qs skip c0 base index scale offset = Some (c', res) \<and>
    alloc_result t c base index scale offset c' res b b' R"
proof -
  obtain r where r: "(if \<not> stop_opt c then imm_cache_get c base index scale offset else Some (-1)) = Some r"
    "r = -1 \<or> 0 \<le> r \<and> r < 4 \<and> bucket_hits base index scale offset (c_bucket c ! nat r)"
    using imm_cache_get_spec[OF inv, of base index scale offset] by metis
  note alloc = allocate_unfold[OF sorted r(1)] alloc_at_def Let_def
  consider (miss) "r = -1" | (hit) "0 \<le> r" "r < 4" "bucket_hits base index scale offset (c_bucket c ! nat r)"
    using r(2) by blast
  then show ?thesis
  proof cases
    case miss
    obtain c' i b b' R where put: "imm_cache_put t c base index scale offset = Some (c', i)"
      and i: "0 \<le> i" "i < 4" and inv': "imm_inv t c'" and rest: "same_frame c c'" "c_bucket c' ! nat i = b'"
      "mset (take 4 (c_bucket c)) = add_mset b R" "mset (take 4 (c_bucket c')) = add_mset b' R"
      "fresh_bucket c base index scale offset b'"
      by (rule imm_cache_put_spec[OF inv tail, of base index scale offset])
    show ?thesis
      by (rule exI, rule exI, rule exI[of _ b], rule exI[of _ b'], rule exI[of _ R], rule conjI,
          simp add: alloc miss put imm_inv_split(4)[OF inv' i])
        (use inv' rest i in \<open>auto simp: alloc_result_def alloc_fill_def same_frame_def\<close>)
  next
    case hit
    let ?b = "c_bucket c ! nat r"
    have live: "\<not> b_free ?b" and eq: "b_base ?b = base" "b_index ?b = index"
      using hit by (auto simp: bucket_hits_def)
    note use = imm_cache_can_use_spec[OF inv hit(1,2) regs eq]
    note sp = imm_inv_split[OF inv hit(1,2)]
    show ?thesis
    proof (cases "changed_since c ?b")
      case False
      let ?b' = "?b\<lparr>b_pre_cache := False, b_use_count := b_use_count ?b + 1\<rparr>"
      have inv': "imm_inv t (c\<lparr>c_bucket := (c_bucket c)[nat r := ?b']\<rparr>)"
        by (rule imm_inv_set_bucket[OF inv hit(1,2)])
          (use live bucket_in_use_count[OF inv hit(1,2) live] in auto)
      show ?thesis
        by (rule exI, rule exI, rule exI[of _ ?b], rule exI[of _ ?b'], rule exI[of _ "rest c r"], rule conjI,
            use hit False use sp(4,5,6) in \<open>simp add: alloc imm_cache_diff_def bucket_upd_in bucket_at_def arr_get_def\<close>)
          (use inv' hit False sp in \<open>auto simp: alloc_result_def alloc_hit_def same_frame_def imm_inv_def\<close>)
    next
      case True
      let ?b' = "?b\<lparr>b_base := base, b_index := index, b_scale := scale, b_offset := offset,
        b_avg_offset := 0, b_free := False, b_lifecycle := 0, b_pre_cache := False,
        b_curr_ir1_index := c_curr_ir1_index c, b_use_count := 1\<rparr>"
      have inv': "imm_inv t (c\<lparr>c_bucket := (c_bucket c)[nat r := ?b']\<rparr>)"
        by (rule imm_inv_set_bucket[OF inv hit(1,2)]) (use live in auto)
      show ?thesis
        by (rule exI, rule exI, rule exI[of _ ?b], rule exI[of _ ?b'], rule exI[of _ "rest c r"], rule conjI,
            use hit True use sp(4,5,6) in \<open>simp add: alloc imm_cache_replace_bucket_def
              imm_cache_fill_bucket_def bucket_upd_in bucket_at_def arr_get_def\<close>)
          (use inv' hit sp in \<open>auto simp: alloc_result_def alloc_fill_def fresh_bucket_def same_frame_def imm_inv_def\<close>)
    qed
  qed
qed

context imm_qsort begin

lemma allocate_spec:
  assumes inv: "imm_inv t c" and regs: "base < 16" "index < 16"
  shows "\<exists>c' res b b' R. imm_cache_allocate t qs skip c base index scale offset = Some (c', res) \<and>
    alloc_result t c base index scale offset c' res b b' R"
proof -
  let ?c0 = "c\<lparr>cache_call := cache_call c + 1, stop_opt := stop_opt c \<or> skip \<noteq> 0 \<and> c_curr_pc c = skip\<rparr>"
  have inv0: "imm_inv t ?c0" using inv by simp
  let ?cs = "imm_cache_sort qs ?c0"
  have fc: "c_free_count ?cs = c_free_count ?c0" by (simp add: imm_cache_sort_def Let_def)
  have "c_curr_ir1_index ?cs = c_curr_ir1_index c"
    "c_ir1_reg_last_updated_index ?cs = c_ir1_reg_last_updated_index c"
    by (simp_all add: imm_cache_sort_def Let_def)
  then have frame: "same_frame ?cs = same_frame c" "changed_since ?cs = changed_since c"
    "fresh_bucket ?cs = fresh_bucket c"
    by (auto simp: fun_eq_iff same_frame_def changed_since_def last_update_def fresh_bucket_def)
  obtain c' res b b' R where a: "imm_cache_allocate t qs skip c base index scale offset = Some (c', res)"
      "alloc_result t ?cs base index scale offset c' res b b' R"
    using allocate_sorted[OF sort_inv[OF inv0] regs sort_free_tail[OF inv0] refl, unfolded fc] by metis
  have "alloc_result t c base index scale offset c' res b b' R"
    using a(2) sort_mset[OF inv0] unfolding alloc_result_def alloc_hit_def alloc_fill_def frame by simp
  then show ?thesis using a(1) by blast
qed

end

end
