(* ===== verification/Imm_Cache_Run.thy ===== *)
theory Imm_Cache_Run
  imports Imm_Cache_Alloc
begin

text \<open>
  The code that the translator emits around the address cache, and its effect on registers.
  \<open>gpr\<close> is the value of the x86 registers by register number, \<open>tmp\<close> the value of the
  temporaries by temporary number.  \<open>mem_access\<close> is what convert\_mem\_helper
  (translator/mem-interface.c) asks of the cache for one memory operand and the effect of the
  instructions it emits: it loads the bucket's temporary unless the address was found there,
  and addresses the operand from the temporary, either with the distance as the load or store
  offset (\<open>host_off\<close>) or after adding it to the temporary.  \<open>avail\<close> is the answer of
  itemp\_is\_free: a temporary in use elsewhere is not touched and its bucket is released.
\<close>

definition imm_addr :: "(int \<Rightarrow> u64) \<Rightarrow> int \<Rightarrow> int \<Rightarrow> int \<Rightarrow> u64 \<Rightarrow> u64" where
  "imm_addr gpr base index scale offset =
     (if base \<ge> 0 then gpr base else 0) + (if index \<ge> 0 then gpr index * word_of_int scale else 0) + offset"

definition mem_access ::
    "target \<Rightarrow> bucket_sort \<Rightarrow> u64 \<Rightarrow> bool \<Rightarrow> bool \<Rightarrow> imm_cache \<Rightarrow> (int \<Rightarrow> u64) \<Rightarrow> (int \<Rightarrow> u64) \<Rightarrow>
     int \<Rightarrow> int \<Rightarrow> int \<Rightarrow> u64 \<Rightarrow> (imm_cache \<times> (int \<Rightarrow> u64) \<times> u64) option" where
  "mem_access t qs skip host_off avail c gpr tmp base index scale offset = do {
     (c1, res) \<leftarrow> imm_cache_allocate t qs skip c base index scale offset;
     let n = res_itemp_num res;
     if \<not> avail then do {
       c2 \<leftarrow> imm_cache_free_itemp t c1 n;
       Some (c2\<lparr>c_itemp_allocated := True\<rparr>, tmp, imm_addr gpr base index scale offset)
     } else if res_cached res then do {
       load \<leftarrow> res_offset res;
       diff \<leftarrow> res_diff res;
       let tmp1 = (if res_pre_cache res then tmp(n := imm_addr gpr base index scale load) else tmp);
       if host_off then Some (c1, tmp1, tmp1 n + diff)
       else if diff \<noteq> 0 then do {
         c2 \<leftarrow> imm_cache_update_by_diff c1 (res_cache_id res) diff;
         Some (c2, tmp1(n := tmp1 n + diff), tmp1 n + diff)
       } else Some (c1, tmp1, tmp1 n)
     } else Some (c1, tmp(n := imm_addr gpr base index scale offset), imm_addr gpr base index scale offset)
   }"

text \<open>
  The steps of a translated block, as they follow each other in the emitted code: a memory
  access through the cache, the register allocator taking a temporary for another purpose
  (\<open>ra_alloc_itemp\<close> releases its bucket), a helper call (all buckets are released), and the
  end of the current x86 instruction, which may change the x86 registers that
  \<open>imm_cache_update_ir1_usage\<close> records for it.
\<close>

type_synonym run_state = "imm_cache \<times> (int \<Rightarrow> u64) \<times> (int \<Rightarrow> u64)"

inductive imm_step :: "target \<Rightarrow> bucket_sort \<Rightarrow> u64 \<Rightarrow> run_state \<Rightarrow> run_state \<Rightarrow> bool"
  for t :: target and qs :: bucket_sort and skip :: u64 where
  access: "mem_access t qs skip host_off avail c gpr tmp base index scale offset = Some (c', tmp', a) \<Longrightarrow>
     base < 16 \<Longrightarrow> index < 16 \<Longrightarrow> imm_step t qs skip (c, gpr, tmp) (c', gpr, tmp')"
| take_temp: "imm_cache_free_itemp t c n = Some c' \<Longrightarrow>
     imm_step t qs skip (c, gpr, tmp) (c', gpr, tmp(n := v))"
| helper: "imm_cache_free_all t c = Some c' \<Longrightarrow> imm_step t qs skip (c, gpr, tmp) (c', gpr, tmp')"
| finish: "imm_cache_update_ir1_usage t c pir1 (c_curr_ir1_index c) = Some c' \<Longrightarrow>
     (\<And>r. gpr' r \<noteq> gpr r \<Longrightarrow> 0 \<le> r \<and> r < 16 \<and> c_ir1_reg_last_updated_index c' ! nat r = c_curr_ir1_index c) \<Longrightarrow>
     imm_step t qs skip (c, gpr, tmp) (c'\<lparr>c_curr_ir1_index := c_curr_ir1_index c' + 1\<rparr>, gpr', tmp)"

section \<open>The run invariant\<close>

definition run_ok :: "imm_cache \<Rightarrow> (int \<Rightarrow> u64) \<Rightarrow> (int \<Rightarrow> u64) \<Rightarrow> imm_cache_bucket \<Rightarrow> bool" where
  "run_ok c gpr tmp b \<longleftrightarrow> b_avg_offset b = 0 \<and> \<not> b_pre_cache b \<and>
     b_curr_ir1_index b \<le> c_curr_ir1_index c \<and> b_base b < 16 \<and> b_index b < 16 \<and>
     (\<not> changed_since c b \<longrightarrow>
        tmp (b_itemp_num b) = imm_addr gpr (b_base b) (b_index b) (b_scale b) (b_offset b))"

definition run_inv :: "target \<Rightarrow> run_state \<Rightarrow> bool" where
  "run_inv t s = (case s of (c, gpr, tmp) \<Rightarrow> imm_inv t c \<and>
     (\<forall>b\<in>set (take 4 (c_bucket c)). \<not> b_free b \<longrightarrow> run_ok c gpr tmp b))"

lemma same_frame_run_ok: "same_frame c c' \<Longrightarrow> run_ok c' gpr tmp b = run_ok c gpr tmp b"
  by (simp add: same_frame_def run_ok_def changed_since_def last_update_def)

lemma itemp_of_rest:
  assumes "imm_inv t c" "mset (take 4 (c_bucket c)) = add_mset b' R" "\<not> b_free b'" "x \<in># R" "\<not> b_free x"
  shows "b_itemp_num x \<noteq> b_itemp_num b'"
proof
  assume eq: "b_itemp_num x = b_itemp_num b'"
  have "count (add_mset (b_itemp_num b') (itemps R)) (b_itemp_num b') \<le> 1"
    using assms(1-3) unfolding imm_inv_def bs_inv_def by (metis itemps_add)
  then have "b_itemp_num b' \<notin># itemps R" by (simp add: not_in_iff)
  moreover have "b_itemp_num x \<in># itemps R" using assms(4,5) by (force simp: itemps_def)
  ultimately show False using eq by simp
qed

text \<open>Releasing buckets.\<close>

lemma free_itemp_run:
  assumes "imm_inv t c"
  shows "\<exists>c'. imm_cache_free_itemp t c n = Some c' \<and> imm_inv t c' \<and> same_frame c c' \<and>
    (\<forall>b\<in>set (take 4 (c_bucket c')). \<not> b_free b \<longrightarrow> b \<in> set (take 4 (c_bucket c)) \<and> b_itemp_num b \<noteq> n)"
proof -
  let ?P = "\<lambda>b. b_itemp_num b = n \<and> \<not> b_free b"
  let ?Q = "\<lambda>m c'. imm_inv t c' \<and> same_frame c c' \<and> (\<forall>j<m. \<not> ?P (c_bucket c' ! j)) \<and>
    (\<forall>b\<in>set (take 4 (c_bucket c')). \<not> b_free b \<longrightarrow> b \<in> set (take 4 (c_bucket c)))"
  have "m \<le> 4 \<Longrightarrow> ?Q (4 - m) s \<Longrightarrow>
      \<exists>c'. for_range (free_if t ?P) (4 - int m) m s = Some c' \<and> ?Q 4 c'" for m s
  proof (induction m arbitrary: s)
    case (Suc m)
    let ?i = "4 - int (Suc m)"
    have i: "0 \<le> ?i" "?i < 4" "nat ?i = 4 - Suc m" using Suc.prems(1) by auto
    have inv: "imm_inv t s" using Suc.prems(2) by blast
    obtain s' where s': "free_if t ?P ?i s = Some s'" "imm_inv t s'"
      "s' = s\<lparr>c_bucket := c_bucket s', itemp_stat := itemp_stat s', c_free_count := c_free_count s'\<rparr>"
      "\<forall>b\<in>set (take 4 (c_bucket s')). \<not> b_free b \<longrightarrow> b \<in> set (take 4 (c_bucket s))"
      "\<not> ?P (c_bucket s' ! nat ?i)" "\<forall>j<4. j \<noteq> nat ?i \<longrightarrow> c_bucket s' ! j = c_bucket s ! j"
      using free_if_spec[OF inv i(1,2), of ?P] by blast
    have "c_curr_ir1_index s' = c_curr_ir1_index s"
      "c_ir1_reg_last_updated_index s' = c_ir1_reg_last_updated_index s"
      by (subst s'(3), simp)+
    then have fr: "same_frame c s'" using Suc.prems(2) by (simp add: same_frame_def)
    have "\<not> ?P (c_bucket s' ! j)" if "j < 4 - m" for j
      using that Suc.prems s'(5,6) i(3) by (cases "j = nat ?i") auto
    then have "?Q (4 - m) s'" using s'(2,4) fr Suc.prems(2) by blast
    moreover have "?i + 1 = 4 - int m" by simp
    ultimately show ?case using Suc.IH[of s'] Suc.prems(1) s'(1) by simp
  qed simp
  from this[of 4 c] assms obtain c' where c': "for_range (free_if t ?P) 0 4 c = Some c'" "?Q 4 c'"
    by (auto simp: same_frame_def)
  have "b_itemp_num b \<noteq> n" if "b \<in> set (take 4 (c_bucket c'))" "\<not> b_free b" for b
    using that c'(2) by (auto simp: in_set_conv_nth)
  then show ?thesis using c' assms by (auto simp: imm_cache_free_itemp_def imm_inv_def)
qed

lemma imm_cache_free_fc:
  "imm_cache_free t (c\<lparr>c_free_count := x\<rparr>) i = map_option (\<lambda>c. c\<lparr>c_free_count := x\<rparr>) (imm_cache_free t c i)"
  by (simp add: imm_cache_free_def bucket_at_def free_itemp_def imm_cache_init_bucket_def bucket_upd_def
      arr_get_def arr_set_def)

lemma imm_cache_free_any:
  assumes inv: "imm_inv t (c\<lparr>c_free_count := fc\<rparr>)" and i: "0 \<le> i" "i < 4"
  shows "\<exists>c' fc'. imm_cache_free t c i = Some c' \<and> imm_inv t (c'\<lparr>c_free_count := fc'\<rparr>) \<and>
    c_bucket c' = (c_bucket c)[nat i := init_bucket] \<and> same_frame c c'"
proof (cases "b_free (c_bucket c ! nat i)")
  case True
  then have b: "c_bucket c ! nat i = init_bucket"
    using imm_inv_split(1)[OF inv i] by (simp add: bs_inv_def bucket_ok_def)
  have "c_bucket c = (c_bucket c)[nat i := init_bucket]" using b by (metis list_update_id)
  moreover have "bucket_at c i = Some init_bucket" "i < int (length (c_bucket c))"
    using imm_inv_split(4,6)[OF inv i] b by (simp_all add: bucket_at_def)
  ultimately show ?thesis using inv i
    by (intro exI[of _ c] exI[of _ fc])
      (simp add: imm_cache_free_def free_itemp_def imm_cache_init_bucket_def bucket_upd_in same_frame_def)
next
  case False
  let ?c = "c\<lparr>c_free_count := fc\<rparr>"
  have "live_at ?c i" using False i by (simp add: live_at_def)
  then obtain k where k: "imm_cache_free t ?c i = Some (?c\<lparr>c_bucket := (c_bucket ?c)[nat i := init_bucket],
      itemp_stat := (itemp_stat ?c)[k := 1]\<rparr>)"
    "bs_inv t ((itemp_stat ?c)[k := 1]) (c_free_count ?c + 1) (add_mset init_bucket (rest ?c i))"
    using imm_cache_free_live[OF inv] by metis
  obtain c' where c': "imm_cache_free t c i = Some c'"
    "c'\<lparr>c_free_count := fc\<rparr> = ?c\<lparr>c_bucket := (c_bucket ?c)[nat i := init_bucket],
      itemp_stat := (itemp_stat ?c)[k := 1]\<rparr>"
    using k(1) unfolding imm_cache_free_fc by auto
  have "imm_inv t (?c\<lparr>c_bucket := (c_bucket ?c)[nat i := init_bucket], itemp_stat := (itemp_stat ?c)[k := 1],
      c_free_count := fc + 1\<rparr>)"
    using imm_inv_upd[OF inv i k(2)] by simp
  also have "?c\<lparr>c_bucket := (c_bucket ?c)[nat i := init_bucket], itemp_stat := (itemp_stat ?c)[k := 1],
      c_free_count := fc + 1\<rparr> = c'\<lparr>c_free_count := fc + 1\<rparr>"
    using arg_cong[OF c'(2), of "\<lambda>c. c\<lparr>c_free_count := fc + 1\<rparr>"] by simp
  finally have "imm_inv t (c'\<lparr>c_free_count := fc + 1\<rparr>)" .
  moreover have "c_bucket c' = (c_bucket c)[nat i := init_bucket]" "same_frame c c'"
    using arg_cong[OF c'(2), of c_bucket] arg_cong[OF c'(2), of c_curr_ir1_index]
      arg_cong[OF c'(2), of c_ir1_reg_last_updated_index] by (simp_all add: same_frame_def)
  ultimately show ?thesis using c'(1) by blast
qed

lemma free_all_run:
  assumes inv: "imm_inv t c"
  shows "\<exists>c'. imm_cache_free_all t c = Some c' \<and> imm_inv t c' \<and> same_frame c c' \<and>
    (\<forall>b\<in>set (take 4 (c_bucket c')). b_free b)"
proof -
  let ?Q = "\<lambda>m c'. (\<exists>fc. imm_inv t (c'\<lparr>c_free_count := fc\<rparr>)) \<and> same_frame c c' \<and> (\<forall>j<m. b_free (c_bucket c' ! j))"
  have "m \<le> 4 \<Longrightarrow> ?Q (4 - m) s \<Longrightarrow>
      \<exists>c'. for_range (\<lambda>i c. imm_cache_free t c i) (4 - int m) m s = Some c' \<and> ?Q 4 c'" for m s
  proof (induction m arbitrary: s)
    case (Suc m)
    let ?i = "4 - int (Suc m)"
    have i: "0 \<le> ?i" "?i < 4" "nat ?i = 4 - Suc m" using Suc.prems(1) by auto
    obtain fc where inv: "imm_inv t (s\<lparr>c_free_count := fc\<rparr>)" using Suc.prems(2) by blast
    obtain s' fc' where s': "imm_cache_free t s ?i = Some s'" "imm_inv t (s'\<lparr>c_free_count := fc'\<rparr>)"
      "c_bucket s' = (c_bucket s)[nat ?i := init_bucket]" "same_frame s s'"
      using imm_cache_free_any[OF inv i(1,2)] by blast
    have len: "nat ?i < length (c_bucket s)" using imm_inv_split(5)[OF inv i(1,2)] by simp
    have "b_free (c_bucket s' ! j)" if "j < 4 - m" for j
      using that Suc.prems s'(3) i(3) len by (cases "j = nat ?i") auto
    then have "?Q (4 - m) s'" using s'(2,4) Suc.prems(2) by (auto simp: same_frame_def)
    moreover have "?i + 1 = 4 - int m" by simp
    ultimately show ?case using Suc.IH[of s'] Suc.prems(1) s'(1) by simp
  qed simp
  from this[of 4 c] have "\<exists>c'. for_range (\<lambda>i c. imm_cache_free t c i) 0 4 c = Some c' \<and> ?Q 4 c'"
    using inv by (simp add: same_frame_def imm_inv_def) blast
  then obtain c' fc where c': "for_range (\<lambda>i c. imm_cache_free t c i) 0 4 c = Some c'"
    "imm_inv t (c'\<lparr>c_free_count := fc\<rparr>)" "same_frame c c'" "\<forall>j<4. b_free (c_bucket c' ! j)"
    by blast
  have free: "\<forall>b\<in>set (take 4 (c_bucket c')). b_free b" using c'(4) by (auto simp: in_set_conv_nth)
  then have "filter_mset b_free (mset (take 4 (c_bucket c'))) = mset (take 4 (c_bucket c'))"
    by (simp add: filter_mset_eq_conv)
  then have "fc = 4" using c'(2) by (simp add: imm_inv_def bs_inv_def)
  moreover have "c_cache_count c' = 4" using c'(2) by (simp add: imm_inv_def)
  ultimately show ?thesis using c' free inv
    by (auto simp: imm_cache_free_all_def imm_inv_def same_frame_def)
qed

section \<open>Recording register updates\<close>

definition updates_to :: "int \<Rightarrow> imm_cache \<Rightarrow> imm_cache \<Rightarrow> bool" where
  "updates_to v c c' \<longleftrightarrow>
     c' = c\<lparr>c_ir1_reg_last_updated_index := c_ir1_reg_last_updated_index c'\<rparr> \<and>
     length (c_ir1_reg_last_updated_index c') = length (c_ir1_reg_last_updated_index c) \<and>
     (\<forall>r < length (c_ir1_reg_last_updated_index c). c_ir1_reg_last_updated_index c' ! r = v \<or>
        c_ir1_reg_last_updated_index c' ! r = c_ir1_reg_last_updated_index c ! r)"

lemma updates_to_refl [simp]: "updates_to v c c"
  by (simp add: updates_to_def)

lemma updates_to_trans: "updates_to v a b \<Longrightarrow> updates_to v b c \<Longrightarrow> updates_to v a c"
proof -
  assume ab: "updates_to v a b" and bc: "updates_to v b c"
  let ?u = c_ir1_reg_last_updated_index
  have "c = b\<lparr>c_ir1_reg_last_updated_index := ?u c\<rparr>" using bc by (simp add: updates_to_def)
  also have "\<dots> = a\<lparr>c_ir1_reg_last_updated_index := ?u b, c_ir1_reg_last_updated_index := ?u c\<rparr>"
    using ab by (metis updates_to_def)
  finally have "c = a\<lparr>c_ir1_reg_last_updated_index := ?u c\<rparr>" by simp
  moreover have "?u c ! r = v \<or> ?u c ! r = ?u a ! r" if "r < length (?u a)" for r
    using ab bc that unfolding updates_to_def by metis
  ultimately show "updates_to v a c" using ab bc by (simp add: updates_to_def)
qed

lemma set_updated_updates: "set_updated c r v = Some c' \<Longrightarrow> updates_to v c c'"
  by (auto simp: set_updated_def arr_set_def updates_to_def nth_list_update bind_eq_Some_conv split: if_splits)

lemma update_gpr_opnd_updates: "update_gpr_opnd t c opnd v = Some c' \<Longrightarrow> updates_to v c c'"
  by (auto simp: update_gpr_opnd_def set_updated_updates split: if_splits)

lemma for_range_updates:
  "for_range (\<lambda>i c. set_updated c i v) i n c = Some c' \<Longrightarrow> updates_to v c c'"
proof (induction n arbitrary: i c)
  case (Suc n)
  then show ?case by (auto simp: bind_eq_Some_conv intro: updates_to_trans dest: set_updated_updates)
qed simp

lemma update_ir1_usage_updates:
  "imm_cache_update_ir1_usage t c pir1 v = Some c' \<Longrightarrow> updates_to v c c'"
  unfolding imm_cache_update_ir1_usage_def Let_def
  by (auto simp: bind_eq_Some_conv split: if_splits
      intro: updates_to_trans dest: set_updated_updates update_gpr_opnd_updates for_range_updates;
      meson updates_to_trans set_updated_updates update_gpr_opnd_updates)

section \<open>Every step keeps the run invariant\<close>

lemma finish_run:
  assumes inv: "run_inv t (c, gpr, tmp)"
    and upd: "imm_cache_update_ir1_usage t c pir1 (c_curr_ir1_index c) = Some c'"
    and writes: "\<And>r. gpr' r \<noteq> gpr r \<Longrightarrow>
      0 \<le> r \<and> r < 16 \<and> c_ir1_reg_last_updated_index c' ! nat r = c_curr_ir1_index c"
  shows "run_inv t (c'\<lparr>c_curr_ir1_index := c_curr_ir1_index c' + 1\<rparr>, gpr', tmp)"
proof -
  let ?i = "c_curr_ir1_index c" and ?u' = "c_ir1_reg_last_updated_index c'"
  let ?c' = "c'\<lparr>c_curr_ir1_index := c_curr_ir1_index c' + 1\<rparr>"
  have u: "updates_to ?i c c'" using update_ir1_usage_updates[OF upd] .
  have c': "c' = c\<lparr>c_ir1_reg_last_updated_index := ?u'\<rparr>" using u by (simp add: updates_to_def)
  have len: "length (c_ir1_reg_last_updated_index c) = 16" using inv by (simp add: run_inv_def imm_inv_def)
  have same: "c_bucket c' = c_bucket c" "c_curr_ir1_index c' = ?i" "itemp_stat c' = itemp_stat c"
    "c_free_count c' = c_free_count c" "c_cache_count c' = c_cache_count c" by (subst c', simp)+
  have lu: "last_update ?c' r = ?i \<or> last_update ?c' r = last_update c r" if "r < 16" for r
    using u that len unfolding updates_to_def last_update_def by auto
  have "run_ok ?c' gpr' tmp b" if ok: "run_ok c gpr tmp b" for b
  proof -
    have le: "b_curr_ir1_index b \<le> ?i" and lt: "b_base b < 16" "b_index b < 16" using ok by (auto simp: run_ok_def)
    have unchanged: "gpr' r = gpr r" if "0 \<le> r" "last_update ?c' r < b_curr_ir1_index b" for r
      using writes[of r] le that by (auto simp: last_update_def)
    have "tmp (b_itemp_num b) = imm_addr gpr' (b_base b) (b_index b) (b_scale b) (b_offset b)"
      if nc: "\<not> changed_since ?c' b"
    proof -
      have "\<not> changed_since c b"
        using nc lu[OF lt(1)] lu[OF lt(2)] le unfolding changed_since_def by auto
      moreover have "imm_addr gpr' (b_base b) (b_index b) (b_scale b) off =
          imm_addr gpr (b_base b) (b_index b) (b_scale b) off" for off
        using nc unchanged[of "b_base b"] unchanged[of "b_index b"]
        by (auto simp: imm_addr_def changed_since_def not_le)
      ultimately show ?thesis using ok by (simp add: run_ok_def)
    qed
    then show ?thesis using ok same(2) by (simp add: run_ok_def)
  qed
  moreover have "imm_inv t ?c'"
    using inv same len u by (simp add: run_inv_def imm_inv_def updates_to_def)
  ultimately show ?thesis using inv same(1) by (auto simp: run_inv_def)
qed

lemma run_ok_tmp: "run_ok c gpr tmp b \<Longrightarrow> b_itemp_num b \<noteq> n \<Longrightarrow> run_ok c gpr (tmp(n := v)) b"
  by (simp add: run_ok_def)

lemma take_temp_run:
  assumes "run_inv t (c, gpr, tmp)" "imm_cache_free_itemp t c n = Some c'"
  shows "run_inv t (c', gpr, tmp(n := v))"
  using assms free_itemp_run[of t c n] by (auto simp: run_inv_def same_frame_run_ok intro!: run_ok_tmp)

lemma helper_run:
  assumes "run_inv t (c, gpr, tmp)" "imm_cache_free_all t c = Some c'"
  shows "run_inv t (c', gpr, tmp')"
  using assms free_all_run[of t c] by (auto simp: run_inv_def)

text \<open>Replacing one bucket of the multiset and its temporary.\<close>

lemma run_inv_replace:
  assumes inv: "run_inv t (c, gpr, tmp)" and inv': "imm_inv t c'" and fr: "same_frame c c'"
    and M: "mset (take 4 (c_bucket c)) = add_mset b R" "mset (take 4 (c_bucket c')) = add_mset b' R"
    and live: "\<not> b_free b'" and ok: "run_ok c gpr (tmp(b_itemp_num b' := v)) b'"
  shows "run_inv t (c', gpr, tmp(b_itemp_num b' := v))"
proof -
  have S: "set (take 4 (c_bucket c)) = insert b (set_mset R)" "set (take 4 (c_bucket c')) = insert b' (set_mset R)"
    using M by (metis set_mset_add_mset_insert set_mset_mset)+
  have "run_ok c gpr (tmp(b_itemp_num b' := v)) x" if "x \<in># R" "\<not> b_free x" for x
    using run_ok_tmp[OF _ itemp_of_rest[OF inv' M(2) live that]] inv S(1) that
    by (simp add: run_inv_def)
  then show ?thesis using inv' S(2) ok by (auto simp: run_inv_def same_frame_run_ok[OF fr])
qed

lemma run_inv_itemp_allocated [simp]:
  "run_inv t (c\<lparr>c_itemp_allocated := x\<rparr>, gpr, tmp) = run_inv t (c, gpr, tmp)"
  by (simp add: run_inv_def imm_inv_def run_ok_def changed_since_def last_update_def)

text \<open>After an allocation that finds the address, or fills a bucket and loads its temporary.\<close>

lemma alloc_run:
  assumes inv: "run_inv t (c, gpr, tmp)" and ar: "alloc_result t c base index scale offset c1 res b b' R"
    and regs: "base < 16" "index < 16"
  shows "run_inv t (c1, gpr, tmp(b_itemp_num b' := imm_addr gpr base index scale (b_offset b'))) \<and>
    b_avg_offset b' = 0 \<and> \<not> b_free b' \<and> b_base b' = base \<and> b_index b' = index \<and> b_scale b' = scale \<and>
    (if res_cached res then res_diff res = Some (offset - b_offset b') \<and> \<not> res_pre_cache res \<and>
       res_offset res = Some (b_offset b') \<and> tmp (b_itemp_num b') = imm_addr gpr base index scale (b_offset b')
     else b_offset b' = offset)"
proof -
  note ar = ar[unfolded alloc_result_def]
  have M: "mset (take 4 (c_bucket c)) = add_mset b R" "mset (take 4 (c_bucket c1)) = add_mset b' R"
    and c1: "imm_inv t c1" "same_frame c c1" using ar by auto
  have bin: "b \<in> set (take 4 (c_bucket c))" using M(1) by (metis set_mset_mset union_single_eq_member)
  show ?thesis
  proof (cases "alloc_hit c base index scale offset res b b'")
    case True
    then have b: "\<not> b_free b" "b_base b = base" "b_index b = index" "b_scale b = scale"
      "\<not> changed_since c b" "b' = b\<lparr>b_pre_cache := False, b_use_count := b_use_count b + 1\<rparr>"
      by (auto simp: alloc_hit_def bucket_hits_def)
    have ok: "run_ok c gpr tmp b" using inv bin b(1) by (simp add: run_inv_def)
    then have val: "tmp (b_itemp_num b') = imm_addr gpr base index scale (b_offset b')"
      using b by (simp add: run_ok_def)
    then have tmp: "tmp(b_itemp_num b' := imm_addr gpr base index scale (b_offset b')) = tmp"
      by (metis fun_upd_triv)
    have "run_ok c gpr (tmp(b_itemp_num b' := imm_addr gpr base index scale (b_offset b'))) b'"
      using ok b val unfolding tmp by (simp add: run_ok_def)
    from run_inv_replace[OF inv c1 M _ this] show ?thesis
      using True b ok val by (auto simp: alloc_hit_def run_ok_def criterion_offset_def)
  next
    case False
    then have f: "alloc_fill c base index scale offset res b'" using ar by blast
    then have "run_ok c gpr (tmp(b_itemp_num b' := imm_addr gpr base index scale (b_offset b'))) b'"
      using regs by (simp add: alloc_fill_def fresh_bucket_def run_ok_def)
    from run_inv_replace[OF inv c1 M _ this] show ?thesis
      using f by (auto simp: alloc_fill_def fresh_bucket_def)
  qed
qed

lemma update_by_diff_run:
  assumes inv: "run_inv t (c, gpr, tmp)" and i: "0 \<le> i" "i < 4"
    and b: "c_bucket c ! nat i = b" "\<not> b_free b"
    and val: "tmp (b_itemp_num b) = imm_addr gpr (b_base b) (b_index b) (b_scale b) (b_offset b)"
  shows "\<exists>c'. imm_cache_update_by_diff c i diff = Some c' \<and>
    run_inv t (c', gpr, tmp(b_itemp_num b := tmp (b_itemp_num b) + diff))"
proof -
  let ?b = "b\<lparr>b_offset := b_offset b + diff\<rparr>"
  let ?c' = "c\<lparr>c_bucket := (c_bucket c)[nat i := ?b]\<rparr>"
  have ii: "imm_inv t c" using inv by (simp add: run_inv_def)
  note sp = imm_inv_split[OF ii i]
  have upd: "imm_cache_update_by_diff c i diff = Some ?c'"
    using i sp(6) b(1) by (simp add: imm_cache_update_by_diff_def bucket_upd_in)
  have inv': "imm_inv t ?c'"
    by (rule imm_inv_set_bucket[OF ii i]) (use b bucket_in_use_count[OF ii i] in auto)
  have "b \<in> set (take 4 (c_bucket c))" using sp(3) b(1) by (metis set_mset_mset union_single_eq_member)
  then have "run_ok c gpr tmp b" using inv b(2) by (simp add: run_inv_def)
  then have "run_ok c gpr (tmp(b_itemp_num ?b := tmp (b_itemp_num b) + diff)) ?b"
    using val by (simp add: run_ok_def changed_since_def imm_addr_def)
  from run_inv_replace[OF inv inv' _ sp(3) _ _ this] show ?thesis
    using upd b sp(2)[of ?b] by (simp add: same_frame_def)
qed

context imm_qsort begin

lemma mem_access_run:
  assumes inv: "run_inv t (c, gpr, tmp)" and regs: "base < 16" "index < 16"
  shows "\<exists>c' tmp'. mem_access t qs skip host_off avail c gpr tmp base index scale offset =
      Some (c', tmp', imm_addr gpr base index scale offset) \<and> run_inv t (c', gpr, tmp')"
proof -
  let ?a = "imm_addr gpr base index scale"
  have "imm_inv t c" using inv by (simp add: run_inv_def)
  then obtain c1 res b b' R where al: "imm_cache_allocate t qs skip c base index scale offset = Some (c1, res)"
    and ar: "alloc_result t c base index scale offset c1 res b b' R"
    using allocate_spec[OF _ regs] by blast
  have n: "res_itemp_num res = b_itemp_num b'" and i: "0 \<le> res_cache_id res" "res_cache_id res < 4"
    "c_bucket c1 ! nat (res_cache_id res) = b'" using ar by (auto simp: alloc_result_def)
  note run = alloc_run[OF inv ar regs]
  let ?tmp1 = "tmp(b_itemp_num b' := ?a (b_offset b'))"
  have run1: "run_inv t (c1, gpr, ?tmp1)" using run by blast
  have sum: "?a x + (y - x) = ?a y" for x y by (simp add: imm_addr_def)
  consider (busy) "\<not> avail" | (fill) "avail" "\<not> res_cached res"
    | (off) "avail" "res_cached res" "host_off \<or> offset - b_offset b' = 0"
    | (add) "avail" "res_cached res" "\<not> host_off" "offset - b_offset b' \<noteq> 0" by blast
  then show ?thesis
  proof cases
    case busy
    obtain c2 where c2: "imm_cache_free_itemp t c1 (b_itemp_num b') = Some c2"
      using free_itemp_run[of t c1 "b_itemp_num b'"] run1 by (auto simp: run_inv_def)
    from take_temp_run[OF run1 this, of "tmp (b_itemp_num b')"] show ?thesis
      using busy al n c2 by (simp add: mem_access_def)
  next
    case fill
    then show ?thesis using al n run1 run by (simp add: mem_access_def)
  next
    case off
    then have "tmp = ?tmp1" using run by (metis fun_upd_triv)
    then show ?thesis using off al n run1 run sum[of "b_offset b'" offset] by (auto simp: mem_access_def Let_def)
  next
    case add
    then have tmp: "tmp = ?tmp1" using run by (metis fun_upd_triv)
    obtain c2 where "imm_cache_update_by_diff c1 (res_cache_id res) (offset - b_offset b') = Some c2"
      "run_inv t (c2, gpr, tmp(b_itemp_num b' := tmp (b_itemp_num b') + (offset - b_offset b')))"
      using update_by_diff_run[OF run1[folded tmp] i(1,2) i(3)] run add by auto
    then show ?thesis using add al n run sum[of "b_offset b'" offset] by (simp add: mem_access_def)
  qed
qed

lemma imm_step_run: "imm_step t qs skip s s' \<Longrightarrow> run_inv t s \<Longrightarrow> run_inv t s'"
proof (induction rule: imm_step.induct)
  case (access host_off avail c gpr tmp base index scale offset c' tmp' a)
  then show ?case using mem_access_run[of t c gpr tmp base index skip host_off avail scale offset] by simp
qed (auto intro: take_temp_run helper_run finish_run)

lemma imm_steps_run: "(imm_step t qs skip)\<^sup>*\<^sup>* s s' \<Longrightarrow> run_inv t s \<Longrightarrow> run_inv t s'"
  by (induction rule: rtranclp_induct) (auto intro: imm_step_run)

end

section \<open>The initial state\<close>

lemma init_buckets:
  assumes "i + int n \<le> int (length (c_bucket c))" "0 \<le> i"
  shows "for_range (\<lambda>i c. imm_cache_init_bucket c i) i n c =
    Some (c\<lparr>c_bucket := take (nat i) (c_bucket c) @ replicate n init_bucket @ drop (nat i + n) (c_bucket c)\<rparr>)"
  using assms
proof (induction n arbitrary: i c)
  case (Suc n)
  let ?bs = "(c_bucket c)[nat i := init_bucket]"
  have len: "nat i < length (c_bucket c)" using Suc.prems by linarith
  have n1: "nat (i + 1) = Suc (nat i)" using Suc.prems by simp
  have up: "imm_cache_init_bucket c i = Some (c\<lparr>c_bucket := ?bs\<rparr>)"
    using Suc.prems by (simp add: imm_cache_init_bucket_def bucket_upd_in)
  have "take (Suc (nat i)) ?bs = take (nat i) (c_bucket c) @ [init_bucket]"
    using len by (simp add: take_Suc_conv_app_nth)
  moreover have "drop (Suc (nat i) + n) ?bs = drop (nat i + Suc n) (c_bucket c)" by simp
  ultimately show ?case
    using Suc.IH[of "i + 1" "c\<lparr>c_bucket := ?bs\<rparr>"] Suc.prems up n1 by simp
qed simp

lemma init_run:
  assumes "4 \<le> length (c_bucket c)"
  shows "\<exists>c'. imm_cache_init c CACHE_DEFAULT_CAPACITY = Some c' \<and> run_inv t (c', gpr, tmp)"
  using assms init_buckets[of 0 4 "c\<lparr>c_cache_count := 4, c_free_count := 4, c_curr_imm_index := 0,
           c_curr_ir1_index := 0, c_curr_ir2_index := 0, c_optimized_ir2 := False,
           c_itemp_allocated := False, c_ir1_reg_last_updated_index := replicate 16 (-1),
           itemp_stat := [1, 1, 1, 1]\<rparr>"]
  by (auto simp: imm_cache_init_def Let_def run_inv_def imm_inv_def bs_inv_def itemps_def
      numeral_eq_Suc All_less_Suc2)

end
