(* ===== verification/Imm_Precache.thy ===== *)
theory Imm_Precache
  imports Imm_Cache_Run
begin

text \<open>
  The scan of a block before translation: \<open>imm_cache_precache_put\<close> once per memory operand,
  then \<open>imm_cache_finish_precache\<close>.  The scan keeps every recorded offset within a signed
  12-bit distance of the average offset of its bucket, and ends in a state that satisfies the
  invariant of the translation phase.
\<close>

section \<open>Signed arithmetic\<close>

definition small64 :: "u64 \<Rightarrow> bool" where
  "small64 w \<longleftrightarrow> - (2 ^ 62) \<le> sint w \<and> sint w < 2 ^ 62"

lemma sint_add_small: "small64 a \<Longrightarrow> small64 b \<Longrightarrow> sint (a + b) = sint a + sint b"
  by (simp add: small64_def sint_word_ariths signed_take_bit_int_eq_self)

lemma sint_diff_small: "small64 a \<Longrightarrow> small64 b \<Longrightarrow> sint (a - b) = sint a - sint b"
  by (simp add: small64_def sint_word_ariths signed_take_bit_int_eq_self)

lemma sint_of_int_small: "- (2 ^ 63) \<le> x \<Longrightarrow> x < 2 ^ 63 \<Longrightarrow> sint (word_of_int x :: u64) = x"
  by transfer (simp add: signed_take_bit_int_eq_self)

lemma sint_half_sum:
  assumes "small64 a" "small64 b"
  shows "sint (half_sum a b) = sgn (sint a + sint b) * (\<bar>sint a + sint b\<bar> div 2)"
proof -
  let ?s = "sint a + sint b"
  have "- (2 ^ 63) \<le> sgn ?s * (\<bar>?s\<bar> div 2) \<and> sgn ?s * (\<bar>?s\<bar> div 2) < 2 ^ 63"
    using assms by (auto simp: small64_def sgn_if)
  then show ?thesis
    unfolding half_sum_def Let_def sint_add_small[OF assms] by (intro sint_of_int_small) auto
qed

lemma half_sum_bounds:
  assumes "small64 a" "small64 b" "sint a \<le> sint b"
  shows "sint a \<le> sint (half_sum a b)" "sint (half_sum a b) \<le> sint b"
    "sint (half_sum a b) - sint a \<le> sint b - sint (half_sum a b) + 1" "small64 (half_sum a b)"
proof -
  let ?s = "sint a + sint b" and ?h = "sint (half_sum a b)"
  have h: "?h = sgn ?s * (\<bar>?s\<bar> div 2)" by (rule sint_half_sum[OF assms(1,2)])
  have "2 * ?h - ?s \<in> {-1, 0, 1}" and close: "?s \<ge> 0 \<longrightarrow> 2 * ?h \<le> ?s" "?s \<le> 0 \<longrightarrow> ?s \<le> 2 * ?h"
    unfolding h by (auto simp: sgn_if)
  then have "2 * ?h \<le> ?s + 1" "?s - 1 \<le> 2 * ?h" by auto
  with close assms(3) show "sint a \<le> ?h" "?h \<le> sint b" "?h - sint a \<le> sint b - ?h + 1" by linarith+
  with assms show "small64 (half_sum a b)" by (simp add: small64_def)
qed

section \<open>The scan invariant\<close>

text \<open>Buckets below \<open>c_cache_count - c_free_count\<close> are in use, the others are in their initial
  state.  A bucket in use records an interval of offsets around its average.\<close>

definition window_ok :: "imm_cache_bucket \<Rightarrow> bool" where
  "window_ok b \<longleftrightarrow> \<not> b_free b \<and> 1 \<le> b_use_count b \<and>
     small64 (b_min_offset b) \<and> small64 (b_max_offset b) \<and> sint (b_min_offset b) \<le> sint (b_max_offset b) \<and>
     b_avg_offset b = half_sum (b_min_offset b) (b_max_offset b) \<and>
     sint (b_max_offset b) - sint (b_avg_offset b) \<le> 2047"

definition pre_inv :: "imm_cache \<Rightarrow> bool" where
  "pre_inv c \<longleftrightarrow> 4 \<le> c_cache_count c \<and> c_cache_count c \<le> int (length (c_bucket c)) \<and>
     0 \<le> c_free_count c \<and> c_free_count c \<le> c_cache_count c \<and>
     (\<forall>i. 0 \<le> i \<and> i < c_cache_count c - c_free_count c \<longrightarrow> window_ok (c_bucket c ! nat i)) \<and>
     (\<forall>i. c_cache_count c - c_free_count c \<le> i \<and> i < c_cache_count c \<longrightarrow> c_bucket c ! nat i = init_bucket) \<and>
     itemp_stat c = [1, 1, 1, 1] \<and> length (c_ir1_reg_last_updated_index c) = 16"

text \<open>An offset recorded for given registers lies in the interval of one of their buckets.\<close>

definition in_window :: "int \<times> int \<times> int \<times> u64 \<Rightarrow> imm_cache_bucket \<Rightarrow> bool" where
  "in_window m b = (case m of (base, index, scale, offset) \<Rightarrow>
     b_base b = base \<and> b_index b = index \<and> b_scale b = scale \<and>
     sint (b_min_offset b) \<le> sint offset \<and> sint offset \<le> sint (b_max_offset b))"

definition recorded :: "imm_cache \<Rightarrow> int \<times> int \<times> int \<times> u64 \<Rightarrow> bool" where
  "recorded c m \<longleftrightarrow> (\<exists>i. 0 \<le> i \<and> i < c_cache_count c - c_free_count c \<and> in_window m (c_bucket c ! nat i))"

definition reaches :: "imm_cache_bucket \<Rightarrow> u64 \<Rightarrow> bool" where
  "reaches b offset \<longleftrightarrow> \<not> si12_overflow (offset - b_avg_offset b)"

lemma window_reaches:
  assumes "window_ok b" "in_window (base, index, scale, offset) b"
  shows "reaches b offset"
proof -
  have b: "small64 (b_min_offset b)" "small64 (b_max_offset b)" "sint (b_min_offset b) \<le> sint (b_max_offset b)"
    "b_avg_offset b = half_sum (b_min_offset b) (b_max_offset b)"
    "sint (b_max_offset b) - sint (b_avg_offset b) \<le> 2047"
    using assms(1) by (auto simp: window_ok_def)
  note h = half_sum_bounds[OF b(1,2,3), folded b(4)]
  have o: "sint (b_min_offset b) \<le> sint offset" "sint offset \<le> sint (b_max_offset b)"
    using assms(2) by (auto simp: in_window_def)
  then have "small64 offset" using b(1,2) by (simp add: small64_def)
  then have "sint (offset - b_avg_offset b) = sint offset - sint (b_avg_offset b)"
    using h(4) by (rule sint_diff_small)
  then show ?thesis using o h b(5) unfolding reaches_def si12_overflow_def by simp
qed

text \<open>Widening the interval of a bucket, as both branches of \<open>imm_cache_precache_put\<close> do.\<close>

definition widen :: "imm_cache \<Rightarrow> u64 \<Rightarrow> imm_cache_bucket \<Rightarrow> imm_cache_bucket" where
  "widen c offset b = b\<lparr>b_avg_offset := half_sum (smin offset (b_min_offset b)) (smax offset (b_max_offset b)),
     b_min_offset := smin offset (b_min_offset b), b_max_offset := smax offset (b_max_offset b),
     b_use_count := b_use_count b + 1, b_lifecycle := c_curr_imm_index c\<rparr>"

lemma smin_smax_init:
  assumes "small64 offset"
  shows "smin offset LONG_LONG_MAX = offset" "smax offset LONG_LONG_MIN = offset"
  using assms by (auto simp: smin_def smax_def small64_def LONG_LONG_MAX_def LONG_LONG_MIN_def)

lemma half_sum_same: "small64 a \<Longrightarrow> half_sum a a = a"
  using half_sum_bounds(1,2)[of a a] by (metis order_antisym order_refl signed_word_eqI)

lemma widen_new:
  assumes "small64 offset"
  shows "window_ok (widen c offset (init_bucket\<lparr>b_base := base, b_index := index, b_scale := scale,
      b_offset := offset, b_avg_offset := 0, b_free := False, b_use_count := 0, b_curr_ir1_index := j\<rparr>))"
  using assms by (simp add: widen_def window_ok_def init_bucket_def smin_smax_init half_sum_same)

lemma widen_old:
  assumes b: "window_ok b" and off: "small64 offset"
    and fits: "\<not> si12_overflow (smax offset (b_max_offset b) -
      half_sum (smin offset (b_min_offset b)) (smax offset (b_max_offset b)))"
  shows "window_ok (widen c offset b)"
proof -
  let ?lo = "smin offset (b_min_offset b)" and ?hi = "smax offset (b_max_offset b)"
  have s: "small64 ?lo" "small64 ?hi" "sint ?lo \<le> sint ?hi"
    using b off by (auto simp: window_ok_def smin_def smax_def)
  note h = half_sum_bounds[OF s]
  have "sint ?hi - sint (half_sum ?lo ?hi) \<le> 2047"
    using fits sint_diff_small[OF s(2) h(4)] by (auto simp: si12_overflow_def split: if_splits)
  then show ?thesis using b s by (simp add: window_ok_def widen_def)
qed

lemma in_window_widen:
  "in_window m b \<Longrightarrow> in_window m (widen c offset b)"
  by (auto simp: in_window_def widen_def smin_def smax_def split: prod.splits)

lemma in_window_widen_self:
  "b_base b = base \<Longrightarrow> b_index b = index \<Longrightarrow> b_scale b = scale \<Longrightarrow>
   in_window (base, index, scale, offset) (widen c offset b)"
  by (auto simp: in_window_def widen_def smin_def smax_def)

section \<open>One operand\<close>

lemma pre_inv_set:
  assumes inv: "pre_inv c" and i: "0 \<le> i" "i < c_cache_count c - c_free_count c" and b: "window_ok b"
  shows "pre_inv (c\<lparr>c_bucket := (c_bucket c)[nat i := b], c_curr_imm_index := k\<rparr>)"
  using assms unfolding pre_inv_def by (auto simp: nth_list_update)

lemma pre_inv_new:
  assumes inv: "pre_inv c" and i: "i = c_cache_count c - c_free_count c" "0 < c_free_count c" and b: "window_ok b"
  shows "pre_inv (c\<lparr>c_free_count := c_free_count c - 1, c_bucket := (c_bucket c)[nat i := b], c_curr_imm_index := k\<rparr>)"
proof -
  have range: "0 \<le> i" "nat i < length (c_bucket c)" using inv i by (auto simp: pre_inv_def)
  have "window_ok ((c_bucket c)[nat i := b] ! nat j)"
    if "0 \<le> j" "j < c_cache_count c - (c_free_count c - 1)" for j
    using that inv i range b by (cases "j = i") (auto simp: pre_inv_def nth_list_update)
  moreover have "(c_bucket c)[nat i := b] ! nat j = init_bucket"
    if "c_cache_count c - (c_free_count c - 1) \<le> j" "j < c_cache_count c" for j
    using that inv i range by (auto simp: pre_inv_def nth_list_update)
  ultimately show ?thesis using inv i by (simp add: pre_inv_def)
qed

lemma recorded_set:
  assumes "recorded c m" "nat i < length (c_bucket c)" "\<And>x. in_window m (c_bucket c ! nat i) \<Longrightarrow> in_window m b"
    "c_cache_count c' = c_cache_count c" "c_free_count c' \<le> c_free_count c"
    "c_bucket c' = (c_bucket c)[nat i := b]"
  shows "recorded c' m"
proof -
  obtain j where j: "0 \<le> j" "j < c_cache_count c - c_free_count c" "in_window m (c_bucket c ! nat j)"
    using assms(1) by (auto simp: recorded_def)
  have "in_window m ((c_bucket c)[nat i := b] ! nat j)" using j assms(2,3) by (cases "nat j = nat i") auto
  then show ?thesis using j assms(4-6) unfolding recorded_def by (intro exI[of _ j]) auto
qed

text \<open>The tail of \<open>imm_cache_precache_put\<close>, after the bucket has been chosen.\<close>

definition put_new :: "imm_cache \<Rightarrow> int \<Rightarrow> int \<Rightarrow> int \<Rightarrow> u64 \<Rightarrow> imm_cache" where
  "put_new c base index scale offset =
    (let i = nat (c_cache_count c - c_free_count c) in
     c\<lparr>c_free_count := c_free_count c - 1,
       c_bucket := (c_bucket c)[i := widen c offset (init_bucket\<lparr>b_base := base, b_index := index,
         b_scale := scale, b_offset := offset, b_avg_offset := 0, b_free := False, b_use_count := 0,
         b_curr_ir1_index := c_curr_ir1_index c\<rparr>)],
       c_curr_imm_index := c_curr_imm_index c + 1\<rparr>)"

definition put_old :: "imm_cache \<Rightarrow> int \<Rightarrow> u64 \<Rightarrow> imm_cache" where
  "put_old c i offset = c\<lparr>c_bucket := (c_bucket c)[nat i := widen c offset (c_bucket c ! nat i)],
     c_curr_imm_index := c_curr_imm_index c + 1\<rparr>"

lemma precache_put_cases:
  assumes inv: "pre_inv c" and fc: "0 < c_free_count c"
  shows "imm_cache_precache_put c base index scale offset = Some (put_new c base index scale offset) \<or>
    (\<exists>i. 0 \<le> i \<and> i < c_cache_count c - c_free_count c \<and>
       bucket_hits base index scale offset (c_bucket c ! nat i) \<and>
       \<not> si12_overflow (smax offset (b_max_offset (c_bucket c ! nat i)) -
         half_sum (smin offset (b_min_offset (c_bucket c ! nat i))) (smax offset (b_max_offset (c_bucket c ! nat i)))) \<and>
       imm_cache_precache_put c base index scale offset = Some (put_old c i offset))"
proof -
  let ?hit = "bucket_hits base index scale offset"
  define k where "k = c_cache_count c - c_free_count c"
  have k: "0 \<le> k" "k < int (length (c_bucket c))" "c_bucket c ! nat k = init_bucket" "nat k < length (c_bucket c)"
    using inv fc by (auto simp: pre_inv_def k_def)
  have new: "do { c1 \<leftarrow> imm_cache_fill_bucket c k base index scale offset;
      c3 \<leftarrow> bucket_upd (\<lambda>b. b\<lparr>b_curr_ir1_index := c_curr_ir1_index c1\<rparr>)
        (c1\<lparr>c_free_count := c_free_count c1 - 1\<rparr>) k;
      Some (c3, k) } =
      Some (c\<lparr>c_free_count := c_free_count c - 1, c_bucket := (c_bucket c)[nat k := init_bucket\<lparr>b_base := base,
        b_index := index, b_scale := scale, b_offset := offset, b_avg_offset := 0, b_free := False,
        b_use_count := 0, b_curr_ir1_index := c_curr_ir1_index c\<rparr>]\<rparr>, k)"
    using k by (simp add: imm_cache_fill_bucket_def bucket_upd_in)
  obtain r where r: "get_loop c ?hit 0 (nat (c_cache_count c)) = Some r"
    "r = -1 \<or> 0 \<le> r \<and> r < c_cache_count c \<and> ?hit (c_bucket c ! nat r)"
    using get_loop_spec[of 0 "nat (c_cache_count c)" c ?hit] inv by (auto simp: pre_inv_def)
  have put_new: "imm_cache_precache_put c base index scale offset = Some (put_new c base index scale offset)"
    if "r = -1 \<or> 0 \<le> r \<and> si12_overflow (smax offset (b_max_offset (c_bucket c ! nat r)) -
         half_sum (smin offset (b_min_offset (c_bucket c ! nat r))) (smax offset (b_max_offset (c_bucket c ! nat r)))) \<and>
         r < int (length (c_bucket c))"
    using that r(1) k new
    by (auto simp: imm_cache_precache_put_def imm_cache_get_def Let_def k_def[symmetric] bucket_at_in
        bucket_upd_in put_new_def widen_def)
  show ?thesis
  proof (cases "r = -1")
    case False
    then have hit: "0 \<le> r" "r < c_cache_count c" "?hit (c_bucket c ! nat r)" using r(2) by auto
    have "c_bucket c ! nat r = init_bucket" if "k \<le> r" using that hit inv by (simp add: pre_inv_def k_def)
    then have "r < k" using hit(3) by (cases "k \<le> r") (auto simp: bucket_hits_def)
    moreover have len: "r < int (length (c_bucket c))" using hit inv by (auto simp: pre_inv_def)
    moreover have "imm_cache_precache_put c base index scale offset = Some (put_old c r offset)"
      if "\<not> si12_overflow (smax offset (b_max_offset (c_bucket c ! nat r)) -
         half_sum (smin offset (b_min_offset (c_bucket c ! nat r))) (smax offset (b_max_offset (c_bucket c ! nat r))))"
      using that r(1) hit len
      by (auto simp: imm_cache_precache_put_def imm_cache_get_def Let_def bucket_at_in bucket_upd_in
          put_old_def widen_def)
    ultimately show ?thesis using put_new hit unfolding k_def by blast
  qed (use put_new in blast)
qed

lemma precache_put_spec:
  assumes inv: "pre_inv c" and fc: "0 < c_free_count c" and off: "small64 offset"
  shows "\<exists>c'. imm_cache_precache_put c base index scale offset = Some c' \<and> pre_inv c' \<and>
    c_cache_count c' = c_cache_count c \<and> c_free_count c - 1 \<le> c_free_count c' \<and>
    (\<forall>m. recorded c m \<longrightarrow> recorded c' m) \<and> recorded c' (base, index, scale, offset)"
  using precache_put_cases[OF inv fc, of base index scale offset]
proof (elim disjE exE conjE)
  let ?i = "c_cache_count c - c_free_count c"
  let ?b = "widen c offset (init_bucket\<lparr>b_base := base, b_index := index, b_scale := scale,
      b_offset := offset, b_avg_offset := 0, b_free := False, b_use_count := 0,
      b_curr_ir1_index := c_curr_ir1_index c\<rparr>)"
  assume put: "imm_cache_precache_put c base index scale offset = Some (put_new c base index scale offset)"
  have c': "put_new c base index scale offset = c\<lparr>c_free_count := c_free_count c - 1,
      c_bucket := (c_bucket c)[nat ?i := ?b], c_curr_imm_index := c_curr_imm_index c + 1\<rparr>"
    by (simp add: put_new_def Let_def)
  have len: "0 \<le> ?i" "nat ?i < length (c_bucket c)" using inv fc by (auto simp: pre_inv_def)
  have no: "\<not> (in_window m (c_bucket c ! nat j) \<and> nat j = nat ?i)" if "0 \<le> j" "j < ?i" for m j
    using that by (auto simp: nat_eq_iff)
  have "recorded (put_new c base index scale offset) m" if "recorded c m" for m
    using that len no unfolding recorded_def c' by (fastforce simp: nth_list_update)
  moreover have "in_window (base, index, scale, offset) ?b" by (rule in_window_widen_self) simp_all
  then have "recorded (put_new c base index scale offset) (base, index, scale, offset)"
    unfolding recorded_def c' using len by (intro exI[of _ ?i]) simp
  ultimately show ?thesis using put pre_inv_new[OF inv refl fc widen_new[OF off]]
    by (intro exI[of _ "put_new c base index scale offset"]) (simp add: c')
next
  fix i
  assume i: "0 \<le> i" "i < c_cache_count c - c_free_count c"
    and hit: "bucket_hits base index scale offset (c_bucket c ! nat i)"
    and fits: "\<not> si12_overflow (smax offset (b_max_offset (c_bucket c ! nat i)) -
         half_sum (smin offset (b_min_offset (c_bucket c ! nat i))) (smax offset (b_max_offset (c_bucket c ! nat i))))"
    and put: "imm_cache_precache_put c base index scale offset = Some (put_old c i offset)"
  let ?b = "widen c offset (c_bucket c ! nat i)"
  have len: "nat i < length (c_bucket c)" using inv i by (auto simp: pre_inv_def)
  have "window_ok (c_bucket c ! nat i)" using inv i by (simp add: pre_inv_def)
  note ok = widen_old[OF this off fits, of c]
  have "recorded (put_old c i offset) m" if "recorded c m" for m
    by (rule recorded_set[OF that len, of ?b]) (auto simp: put_old_def intro: in_window_widen)
  moreover have "in_window (base, index, scale, offset) ?b"
    using hit by (intro in_window_widen_self) (simp_all add: bucket_hits_def)
  then have "recorded (put_old c i offset) (base, index, scale, offset)"
    unfolding recorded_def put_old_def using len i by (intro exI[of _ i]) simp
  ultimately show ?thesis using put pre_inv_set[OF inv i ok]
    by (intro exI[of _ "put_old c i offset"]) (simp add: put_old_def)
qed

section \<open>A block\<close>

fun precache_block :: "imm_cache \<Rightarrow> (int \<times> int \<times> int \<times> u64) list \<Rightarrow> imm_cache option" where
  "precache_block c [] = Some c"
| "precache_block c ((base, index, scale, offset) # ms) = do {
     c' \<leftarrow> imm_cache_precache_put c base index scale offset;
     precache_block c' ms
   }"

lemma precache_block_spec:
  assumes "pre_inv c" "int (length ms) \<le> c_free_count c" "\<forall>(base, index, scale, offset) \<in> set ms. small64 offset"
  shows "\<exists>c'. precache_block c ms = Some c' \<and> pre_inv c' \<and> c_cache_count c' = c_cache_count c \<and>
    (\<forall>m. recorded c m \<or> m \<in> set ms \<longrightarrow> recorded c' m)"
  using assms
proof (induction ms arbitrary: c)
  case (Cons m ms)
  obtain base index scale offset where m: "m = (base, index, scale, offset)" by (cases m)
  obtain c1 where c1: "imm_cache_precache_put c base index scale offset = Some c1" "pre_inv c1"
    "c_cache_count c1 = c_cache_count c" "c_free_count c - 1 \<le> c_free_count c1"
    "\<forall>m. recorded c m \<longrightarrow> recorded c1 m" "recorded c1 m"
    using precache_put_spec[OF Cons.prems(1), of offset base index scale] Cons.prems(2,3) m by auto
  have "int (length ms) \<le> c_free_count c1" using Cons.prems(2) c1(4) by simp
  from Cons.IH[OF c1(2) this] Cons.prems(3) obtain c' where
    "precache_block c1 ms = Some c'" "pre_inv c'" "c_cache_count c' = c_cache_count c1"
    "\<forall>m. recorded c1 m \<or> m \<in> set ms \<longrightarrow> recorded c' m" by auto
  then show ?case using c1 m by auto
qed simp

lemma init_pre_inv:
  assumes "4 \<le> cap" "cap \<le> int (length (c_bucket c))"
  shows "\<exists>c'. imm_cache_init c cap = Some c' \<and> pre_inv c' \<and> c_cache_count c' = cap \<and> c_free_count c' = cap"
  using assms init_buckets[of 0 "nat cap" "c\<lparr>c_cache_count := cap, c_free_count := cap, c_curr_imm_index := 0,
           c_curr_ir1_index := 0, c_curr_ir2_index := 0, c_optimized_ir2 := False,
           c_itemp_allocated := False, c_ir1_reg_last_updated_index := replicate 16 (-1),
           itemp_stat := [1, 1, 1, 1]\<rparr>"]
  by (auto simp: imm_cache_init_def Let_def pre_inv_def nth_append)

section \<open>The end of the scan\<close>

definition fin_inv :: "target \<Rightarrow> nat \<Rightarrow> imm_cache \<Rightarrow> bool" where
  "fin_inv t i c \<longleftrightarrow> 4 \<le> length (c_bucket c) \<and> c_cache_count c = 4 \<and>
     length (c_ir1_reg_last_updated_index c) = 16 \<and>
     bs_inv t (itemp_stat c) (c_free_count c + int (4 - i))
       (mset (take i (c_bucket c)) + replicate_mset (4 - i) init_bucket) \<and>
     (\<forall>j<4. b_free (c_bucket c ! j) \<or> window_ok (c_bucket c ! j) \<and> (j < i \<longrightarrow> b_pre_cache (c_bucket c ! j)))"

lemma finish_bucket_spec:
  assumes inv: "fin_inv t i c" and i: "i < 4"
  shows "\<exists>c'. finish_bucket t (int i) c = Some c' \<and> fin_inv t (Suc i) c'"
proof -
  let ?R = "mset (take i (c_bucket c)) + replicate_mset (4 - Suc i) init_bucket"
  have len: "i < length (c_bucket c)" "int i < int (length (c_bucket c))" using inv i by (auto simp: fin_inv_def)
  have four: "4 - i = Suc (4 - Suc i)" using i by simp
  have bs: "bs_inv t (itemp_stat c) (c_free_count c + int (4 - i)) (add_mset init_bucket ?R)"
    using inv by (simp add: fin_inv_def four)
  have tk: "mset (take (Suc i) ((c_bucket c)[i := b])) = add_mset b (mset (take i (c_bucket c)))" for b
    using len by (simp add: take_Suc_conv_app_nth)
  have at: "bucket_at c (int i) = Some (c_bucket c ! i)" using len by (simp add: bucket_at_in)
  show ?thesis
  proof (cases "b_free (c_bucket c ! i) \<or> int i \<ge> 3")
    case True
    let ?c' = "c\<lparr>c_bucket := (c_bucket c)[i := init_bucket], c_free_count := c_free_count c + 1\<rparr>"
    have "finish_bucket t (int i) c = Some ?c'"
      using True at len by (simp add: finish_bucket_def imm_cache_init_bucket_def bucket_upd_in)
    moreover have fc: "c_free_count ?c' + int (4 - Suc i) = c_free_count c + int (4 - i)" using i by simp
    have "bs_inv t (itemp_stat ?c') (c_free_count ?c' + int (4 - Suc i))
        (mset (take (Suc i) (c_bucket ?c')) + replicate_mset (4 - Suc i) init_bucket)"
      unfolding fc using bs tk[of init_bucket] by simp
    then have "fin_inv t (Suc i) ?c'"
      using inv len(1) unfolding fin_inv_def by (auto simp: nth_list_update less_Suc_eq)
    ultimately show ?thesis by blast
  next
    case False
    obtain k where k: "k < 4" "itemp_stat c ! k \<noteq> 0"
      "alloc_itemp t c = (c\<lparr>itemp_stat := (itemp_stat c)[k := 0]\<rparr>, itemp_map t ! k)"
      using alloc_itemp_avail[of c t] bs_inv_avail[OF bs] by auto
    let ?b = "(c_bucket c ! i)\<lparr>b_pre_cache := True, b_itemp_num := itemp_map t ! k\<rparr>"
    let ?c' = "c\<lparr>itemp_stat := (itemp_stat c)[k := 0], c_bucket := (c_bucket c)[i := ?b]\<rparr>"
    have ok: "window_ok (c_bucket c ! i)" using inv False i unfolding fin_inv_def by blast
    have fin: "finish_bucket t (int i) c = Some ?c'"
      using False at len k(3) by (simp add: finish_bucket_def bucket_upd_in)
    have "bs_inv t ((itemp_stat c)[k := 0]) (c_free_count c + int (4 - i) - 1) (add_mset ?b ?R)"
      by (rule bs_inv_fill[OF bs _ k(1,2)]) (use ok in \<open>auto simp: window_ok_def\<close>)
    moreover have fc: "c_free_count c + int (4 - i) - 1 = c_free_count c + int (4 - Suc i)" using i by simp
    ultimately have "bs_inv t ((itemp_stat c)[k := 0]) (c_free_count c + int (4 - Suc i)) (add_mset ?b ?R)"
      by (simp only: fc)
    moreover have "window_ok ?b" using ok by (auto simp: window_ok_def)
    ultimately show ?thesis
      using inv fin tk[of ?b] len(1)
      by (intro exI[of _ ?c']) (auto simp: fin_inv_def nth_list_update less_Suc_eq)
  qed
qed

lemma finish_loop:
  "fin_inv t i c \<Longrightarrow> i \<le> 4 \<Longrightarrow> \<exists>c'. for_range (finish_bucket t) (int i) (4 - i) c = Some c' \<and> fin_inv t 4 c'"
proof (induction "4 - i" arbitrary: i c)
  case (Suc n)
  then have i: "i < 4" "n = 4 - Suc i" by auto
  obtain c1 where c1: "finish_bucket t (int i) c = Some c1" "fin_inv t (Suc i) c1"
    using finish_bucket_spec[OF Suc.prems(1) i(1)] by blast
  obtain c' where "for_range (finish_bucket t) (int (Suc i)) (4 - Suc i) c1 = Some c'" "fin_inv t 4 c'"
    using Suc.hyps(1)[OF i(2) c1(2)] i by auto
  then show ?case using c1 Suc.hyps(2)[symmetric] i(2) by (simp add: add.commute)
qed auto

context imm_qsort begin

lemma finish_precache_spec:
  assumes inv: "pre_inv c"
  shows "\<exists>c'. imm_cache_finish_precache t qs c = Some c' \<and> imm_inv t c' \<and>
    (\<forall>b\<in>set (take 4 (c_bucket c')). \<not> b_free b \<longrightarrow> window_ok b \<and> b_pre_cache b)"
proof -
  let ?n = "nat (c_cache_count c)"
  let ?c1 = "(imm_cache_sort qs c)\<lparr>c_cache_count := 4, c_curr_imm_index := 0, c_curr_ir1_index := 0,
    c_curr_ir2_index := 0, c_optimized_ir2 := False, c_itemp_allocated := False, c_free_count := 0\<rparr>"
  have n: "4 \<le> ?n" "?n \<le> length (c_bucket c)" using inv by (auto simp: pre_inv_def)
  have all: "b_free b \<or> window_ok b" if bin: "b \<in> set (take ?n (c_bucket c))" for b
  proof -
    obtain j where "j < ?n" "b = c_bucket c ! j" using bin n by (auto simp: in_set_conv_nth)
    then show ?thesis using inv unfolding pre_inv_def
      by (cases "int j < c_cache_count c - c_free_count c")
        (auto dest!: spec[of _ "int j"])
  qed
  have set: "set (qs (take ?n (c_bucket c))) = set (take ?n (c_bucket c))" using mset_qs by (metis set_mset_mset)
  have "b_free (c_bucket ?c1 ! j) \<or> window_ok (c_bucket ?c1 ! j)" if "j < 4" for j
  proof -
    have j: "j < length (qs (take ?n (c_bucket c)))" using that n by simp
    then have "c_bucket ?c1 ! j = qs (take ?n (c_bucket c)) ! j"
      by (simp add: imm_cache_sort_def Let_def nth_append)
    then show ?thesis using all set nth_mem[OF j] by metis
  qed
  moreover have "itemp_stat ?c1 = [1, 1, 1, 1]" "length (c_ir1_reg_last_updated_index ?c1) = 16"
    "4 \<le> length (c_bucket ?c1)"
    using inv n by (auto simp: imm_cache_sort_def Let_def pre_inv_def)
  moreover have "itemps {#} = {#}" by (simp add: itemps_def)
  ultimately have "fin_inv t 0 ?c1"
    by (auto simp: fin_inv_def bs_inv_def numeral_eq_Suc All_less_Suc2)
  then obtain c' where c': "for_range (finish_bucket t) 0 4 ?c1 = Some c'" "fin_inv t 4 c'"
    using finish_loop[of t 0 ?c1] by auto
  then have "imm_inv t c'" by (simp add: fin_inv_def imm_inv_def)
  moreover have "\<forall>b\<in>set (take 4 (c_bucket c')). \<not> b_free b \<longrightarrow> window_ok b \<and> b_pre_cache b"
    using c'(2) by (fastforce simp: fin_inv_def in_set_conv_nth)
  ultimately show ?thesis using c'(1) by (simp add: imm_cache_finish_precache_def Let_def)
qed

end

end
