(* ===== verification/Imm_Cache_Properties.thy ===== *)
theory Imm_Cache_Properties
  imports Imm_Precache
begin

text \<open>The properties of the address cache.\<close>

section \<open>A concrete cache\<close>

definition empty_cache :: "nat \<Rightarrow> imm_cache" where
  "empty_cache n = \<lparr>c_bucket = replicate n init_bucket, c_cache_count = 0, c_free_count = 0, c_curr_imm_index = 0,
     c_curr_ir1_index = 0, c_curr_ir2_index = 0, c_optimized_ir2 = False, c_curr_pc = 0,
     c_itemp_allocated = False, c_ir1_reg_last_updated_index = replicate 16 (-1), itemp_stat = [1, 1, 1, 1],
     cache_call = 0, cache_hit = 0, stop_opt = False\<rparr>"




section \<open>Addresses formed through the cache\<close>



section \<open>The scan of a block\<close>

text \<open>C24: scanning a block with at most as many recorded memory operands as the cache has buckets
  succeeds, and every recorded offset is then within a signed 12-bit distance of the average
  offset of a bucket for the same registers; ending the scan succeeds and leaves at most three
  live buckets, with distinct temporaries of the cache's own range and exact counters.\<close>

theorem precache_block_reaches:
  assumes "imm_qsort qs" and "4 \<le> cap" "cap \<le> int (length (c_bucket c0))" "int (length ms) \<le> cap"
    and "\<forall>(base, index, scale, offset) \<in> set ms. - (2 ^ 62) \<le> sint offset \<and> sint offset < 2 ^ 62"
  shows "\<exists>c c1 c2. imm_cache_init c0 cap = Some c \<and> precache_block c ms = Some c1 \<and>
    (\<forall>(base, index, scale, offset) \<in> set ms. \<exists>b \<in> set (c_bucket c1). \<not> b_free b \<and>
       b_base b = base \<and> b_index b = index \<and> b_scale b = scale \<and> \<not> si12_overflow (offset - b_avg_offset b)) \<and>
    imm_cache_finish_precache t qs c1 = Some c2 \<and> imm_inv t c2"
proof -
  obtain c where c: "imm_cache_init c0 cap = Some c" "pre_inv c" "c_free_count c = cap"
    using init_pre_inv[OF assms(2,3)] by blast
  obtain c1 where c1: "precache_block c ms = Some c1" "pre_inv c1" "\<forall>m. recorded c m \<or> m \<in> set ms \<longrightarrow> recorded c1 m"
    using precache_block_spec[OF c(2), of ms] assms(4,5) c(3) by (auto simp: small64_def)
  obtain c2 where c2: "imm_cache_finish_precache t qs c1 = Some c2" "imm_inv t c2"
    using imm_qsort.finish_precache_spec[OF assms(1) c1(2)] by blast
  have "\<exists>b \<in> set (c_bucket c1). \<not> b_free b \<and>
       b_base b = base \<and> b_index b = index \<and> b_scale b = scale \<and> \<not> si12_overflow (offset - b_avg_offset b)"
    if m: "(base, index, scale, offset) \<in> set ms" for base index scale offset
  proof -
    have "recorded c1 (base, index, scale, offset)" using c1(3) m by blast
    then obtain i where i: "0 \<le> i" "i < c_cache_count c1 - c_free_count c1"
      "in_window (base, index, scale, offset) (c_bucket c1 ! nat i)"
      by (auto simp: recorded_def)
    then have ok: "window_ok (c_bucket c1 ! nat i)" and len: "nat i < length (c_bucket c1)"
      using c1(2) by (auto simp: pre_inv_def)
    have "reaches (c_bucket c1 ! nat i) offset" using window_reaches[OF ok i(3)] .
    then show ?thesis using i(3) ok len
      by (intro bexI[of _ "c_bucket c1 ! nat i"]) (auto simp: in_window_def window_ok_def reaches_def)
  qed
  then show ?thesis using c(1) c1(1) c2 by auto
qed

theorem precache_block_reaches_witness:
  "\<exists>c c1 c2. imm_cache_init (empty_cache 5) 5 = Some c \<and>
    precache_block c [(-100, -1, -1, 0x10000), (-100, -1, -1, 0x10100)] = Some c1 \<and>
    imm_cache_finish_precache AMD64 stable_bucket_sort c1 = Some c2 \<and> imm_inv AMD64 c2"
  using precache_block_reaches[OF stable_qs.imm_qsort_axioms, of 5 "empty_cache 5"
      "[(-100, -1, -1, 0x10000), (-100, -1, -1, 0x10100)]" AMD64]
  by (auto simp: empty_cache_def)

section \<open>The scan and address updates\<close>










definition mov_rax :: ir1_inst where
  "mov_rax = \<lparr>i_prefix = [0, 0, 0, 0], i_opcode = [0, 0, 0, 0], i_addr_size = 8, i_rex = 0, i_op_count = 2,
     i_operands = replicate 8 \<lparr>op_type = dt_X86_OP_REG, op_imm = of_nat dt_X86_REG_RAX, op_mem_base = 0,
       op_mem_index = 0, op_mem_scale = 1, op_mem_disp = 0, op_size = 8, op_avx_bcast = 0\<rparr>,
     i_size = 7, i_address = 0, i_bytes = replicate 24 0, i_id = dt_X86_INS_MOV, i_eflag_use = 0, i_eflag_def = 0\<rparr>"





text \<open>C34: xchg and xadd change both of their operands, but only the first is recorded: with two
  different registers the second keeps its old stamp, whatever the instruction index.\<close>

theorem xchg_second_operand_unrecorded:
  assumes "i_id pir1 = dt_X86_INS_XCHG \<or> i_id pir1 = dt_X86_INS_XADD" and "i_op_count pir1 > 0"
    and "imm_cache_update_ir1_usage t c pir1 i = Some c'"
    and "0 \<le> r" "ir1_opnd_is_gpr t (ir1_get_opnd pir1 0) \<longrightarrow> ir1_opnd_base_reg_num t (ir1_get_opnd pir1 0) \<noteq> r"
  shows "c_ir1_reg_last_updated_index c' ! nat r = c_ir1_reg_last_updated_index c ! nat r"
  using assms by (auto simp: imm_cache_update_ir1_usage_def ir1_opcode_def update_gpr_opnd_def set_updated_def
      arr_set_def bind_eq_Some_conv nth_list_update split: if_splits)

definition xchg_rax_rcx :: ir1_inst where
  "xchg_rax_rcx = mov_rax\<lparr>i_id := dt_X86_INS_XCHG, i_operands := (i_operands mov_rax)[1 :=
     (i_operands mov_rax ! 1)\<lparr>op_imm := of_nat dt_X86_REG_RCX\<rparr>]\<rparr>"

theorem xchg_second_operand_unrecorded_witness:
  "ir1_opnd_base_reg_num AMD64 (ir1_get_opnd xchg_rax_rcx 1) = 1 \<and>
   c_ir1_reg_last_updated_index (the (imm_cache_update_ir1_usage AMD64 (empty_cache 4) xchg_rax_rcx 7)) ! nat 1 = -1"
proof -
  have 0: "ir1_opnd_is_gpr AMD64 (ir1_get_opnd xchg_rax_rcx 0)"
    "ir1_opnd_base_reg_num AMD64 (ir1_get_opnd xchg_rax_rcx 0) = 0"
    "ir1_opnd_base_reg_num AMD64 (ir1_get_opnd xchg_rax_rcx 1) = 1"
    by (simp_all add: xchg_rax_rcx_def mov_rax_def ir1_get_opnd_def ir1_opnd_is_gpr_def op_reg_def
        ir1_opnd_base_reg_num_def base_reg_num_gpr_def Let_def)
  obtain c' where c': "imm_cache_update_ir1_usage AMD64 (empty_cache 4) xchg_rax_rcx 7 = Some c'"
    using 0 by (auto simp: imm_cache_update_ir1_usage_def ir1_opcode_def update_gpr_opnd_def set_updated_def
        arr_set_def xchg_rax_rcx_def mov_rax_def empty_cache_def)
  have "c_ir1_reg_last_updated_index c' ! nat 1 = c_ir1_reg_last_updated_index (empty_cache 4) ! nat 1"
    by (rule xchg_second_operand_unrecorded[OF _ _ c']) (use 0 in \<open>simp_all add: xchg_rax_rcx_def mov_rax_def\<close>)
  then show ?thesis using c' 0 by (simp add: empty_cache_def)
qed

end
