(* ===== verification/Ir2_Enums.thy ===== *)
theory Ir2_Enums
  imports Latx_Prelude
begin

text \<open>
  Numbering of the LoongArch opcodes (IR2\_OPCODE).  The enumeration is generated by
  convert.py from the order of inst\_template.json, starting at 128.
\<close>

type_synonym ir2_opcode = nat

abbreviation (input) LISA_INVALID :: ir2_opcode where "LISA_INVALID \<equiv> 128"
abbreviation (input) LISA_LABEL :: ir2_opcode where "LISA_LABEL \<equiv> 129"
abbreviation (input) LISA_X86_INST :: ir2_opcode where "LISA_X86_INST \<equiv> 130"
abbreviation (input) LISA_ACCL :: ir2_opcode where "LISA_ACCL \<equiv> 131"
abbreviation (input) LISA_ALIGN :: ir2_opcode where "LISA_ALIGN \<equiv> 132"
abbreviation (input) LISA_FAR_JUMP :: ir2_opcode where "LISA_FAR_JUMP \<equiv> 133"
abbreviation (input) LISA_MOV64 :: ir2_opcode where "LISA_MOV64 \<equiv> 134"
abbreviation (input) LISA_MOV32_SX :: ir2_opcode where "LISA_MOV32_SX \<equiv> 135"
abbreviation (input) LISA_MOV32_ZX :: ir2_opcode where "LISA_MOV32_ZX \<equiv> 136"
abbreviation (input) LISA_ADD :: ir2_opcode where "LISA_ADD \<equiv> 137"
abbreviation (input) LISA_SUB :: ir2_opcode where "LISA_SUB \<equiv> 138"
abbreviation (input) LISA_ADDI_ADDRX :: ir2_opcode where "LISA_ADDI_ADDRX \<equiv> 139"
abbreviation (input) LISA_LOAD_ADDRX :: ir2_opcode where "LISA_LOAD_ADDRX \<equiv> 140"
abbreviation (input) LISA_STORE_ADDRX :: ir2_opcode where "LISA_STORE_ADDRX \<equiv> 141"
abbreviation (input) LISA_NOP :: ir2_opcode where "LISA_NOP \<equiv> 142"
abbreviation (input) LISA_CODE :: ir2_opcode where "LISA_CODE \<equiv> 143"
abbreviation (input) LISA_DATA_LI :: ir2_opcode where "LISA_DATA_LI \<equiv> 144"
abbreviation (input) LISA_DATA_ADD :: ir2_opcode where "LISA_DATA_ADD \<equiv> 145"
abbreviation (input) LISA_INST_DIFF :: ir2_opcode where "LISA_INST_DIFF \<equiv> 146"
abbreviation (input) LISA_DATA_ST :: ir2_opcode where "LISA_DATA_ST \<equiv> 147"
abbreviation (input) LISA_DATA_ST_REL_TABLE :: ir2_opcode where "LISA_DATA_ST_REL_TABLE \<equiv> 148"
abbreviation (input) LISA_PROFILE :: ir2_opcode where "LISA_PROFILE \<equiv> 149"
abbreviation (input) LISA_PCADDI_RELOCATE :: ir2_opcode where "LISA_PCADDI_RELOCATE \<equiv> 150"
abbreviation (input) LISA_JUMP_EPILOGUE :: ir2_opcode where "LISA_JUMP_EPILOGUE \<equiv> 151"
abbreviation (input) LISA_PSEUDO_END :: ir2_opcode where "LISA_PSEUDO_END \<equiv> 152"
abbreviation (input) LISA_GR2SCR :: ir2_opcode where "LISA_GR2SCR \<equiv> 153"
abbreviation (input) LISA_SCR2GR :: ir2_opcode where "LISA_SCR2GR \<equiv> 154"
abbreviation (input) LISA_CLO_W :: ir2_opcode where "LISA_CLO_W \<equiv> 155"
abbreviation (input) LISA_CLZ_W :: ir2_opcode where "LISA_CLZ_W \<equiv> 156"
abbreviation (input) LISA_CTO_W :: ir2_opcode where "LISA_CTO_W \<equiv> 157"
abbreviation (input) LISA_CTZ_W :: ir2_opcode where "LISA_CTZ_W \<equiv> 158"
abbreviation (input) LISA_CLO_D :: ir2_opcode where "LISA_CLO_D \<equiv> 159"
abbreviation (input) LISA_CLZ_D :: ir2_opcode where "LISA_CLZ_D \<equiv> 160"
abbreviation (input) LISA_CTO_D :: ir2_opcode where "LISA_CTO_D \<equiv> 161"
abbreviation (input) LISA_CTZ_D :: ir2_opcode where "LISA_CTZ_D \<equiv> 162"
abbreviation (input) LISA_REVB_2H :: ir2_opcode where "LISA_REVB_2H \<equiv> 163"
abbreviation (input) LISA_REVB_4H :: ir2_opcode where "LISA_REVB_4H \<equiv> 164"
abbreviation (input) LISA_REVB_2W :: ir2_opcode where "LISA_REVB_2W \<equiv> 165"
abbreviation (input) LISA_REVB_D :: ir2_opcode where "LISA_REVB_D \<equiv> 166"
abbreviation (input) LISA_REVH_2W :: ir2_opcode where "LISA_REVH_2W \<equiv> 167"
abbreviation (input) LISA_REVH_D :: ir2_opcode where "LISA_REVH_D \<equiv> 168"
abbreviation (input) LISA_BITREV_4B :: ir2_opcode where "LISA_BITREV_4B \<equiv> 169"
abbreviation (input) LISA_BITREV_8B :: ir2_opcode where "LISA_BITREV_8B \<equiv> 170"
abbreviation (input) LISA_BITREV_W :: ir2_opcode where "LISA_BITREV_W \<equiv> 171"
abbreviation (input) LISA_BITREV_D :: ir2_opcode where "LISA_BITREV_D \<equiv> 172"
abbreviation (input) LISA_EXT_W_H :: ir2_opcode where "LISA_EXT_W_H \<equiv> 173"
abbreviation (input) LISA_EXT_W_B :: ir2_opcode where "LISA_EXT_W_B \<equiv> 174"
abbreviation (input) LISA_RDTIMEL_W :: ir2_opcode where "LISA_RDTIMEL_W \<equiv> 175"
abbreviation (input) LISA_RDTIMEH_W :: ir2_opcode where "LISA_RDTIMEH_W \<equiv> 176"
abbreviation (input) LISA_RDTIME_D :: ir2_opcode where "LISA_RDTIME_D \<equiv> 177"
abbreviation (input) LISA_CPUCFG :: ir2_opcode where "LISA_CPUCFG \<equiv> 178"
abbreviation (input) LISA_X86MTTOP :: ir2_opcode where "LISA_X86MTTOP \<equiv> 179"
abbreviation (input) LISA_X86MFTOP :: ir2_opcode where "LISA_X86MFTOP \<equiv> 180"
abbreviation (input) LISA_X86LOOPE :: ir2_opcode where "LISA_X86LOOPE \<equiv> 181"
abbreviation (input) LISA_X86LOOPNE :: ir2_opcode where "LISA_X86LOOPNE \<equiv> 182"
abbreviation (input) LISA_X86INC_B :: ir2_opcode where "LISA_X86INC_B \<equiv> 183"
abbreviation (input) LISA_X86INC_H :: ir2_opcode where "LISA_X86INC_H \<equiv> 184"
abbreviation (input) LISA_X86INC_W :: ir2_opcode where "LISA_X86INC_W \<equiv> 185"
abbreviation (input) LISA_X86INC_D :: ir2_opcode where "LISA_X86INC_D \<equiv> 186"
abbreviation (input) LISA_X86DEC_B :: ir2_opcode where "LISA_X86DEC_B \<equiv> 187"
abbreviation (input) LISA_X86DEC_H :: ir2_opcode where "LISA_X86DEC_H \<equiv> 188"
abbreviation (input) LISA_X86DEC_W :: ir2_opcode where "LISA_X86DEC_W \<equiv> 189"
abbreviation (input) LISA_X86DEC_D :: ir2_opcode where "LISA_X86DEC_D \<equiv> 190"
abbreviation (input) LISA_X86SETTM :: ir2_opcode where "LISA_X86SETTM \<equiv> 191"
abbreviation (input) LISA_X86CLRTM :: ir2_opcode where "LISA_X86CLRTM \<equiv> 192"
abbreviation (input) LISA_X86INCTOP :: ir2_opcode where "LISA_X86INCTOP \<equiv> 193"
abbreviation (input) LISA_X86DECTOP :: ir2_opcode where "LISA_X86DECTOP \<equiv> 194"
abbreviation (input) LISA_ASRTLE_D :: ir2_opcode where "LISA_ASRTLE_D \<equiv> 195"
abbreviation (input) LISA_ASRTGT_D :: ir2_opcode where "LISA_ASRTGT_D \<equiv> 196"
abbreviation (input) LISA_ALSL_W :: ir2_opcode where "LISA_ALSL_W \<equiv> 197"
abbreviation (input) LISA_ALSL_WU :: ir2_opcode where "LISA_ALSL_WU \<equiv> 198"
abbreviation (input) LISA_BYTEPICK_W :: ir2_opcode where "LISA_BYTEPICK_W \<equiv> 199"
abbreviation (input) LISA_BYTEPICK_D :: ir2_opcode where "LISA_BYTEPICK_D \<equiv> 200"
abbreviation (input) LISA_ADD_W :: ir2_opcode where "LISA_ADD_W \<equiv> 201"
abbreviation (input) LISA_ADD_D :: ir2_opcode where "LISA_ADD_D \<equiv> 202"
abbreviation (input) LISA_SUB_W :: ir2_opcode where "LISA_SUB_W \<equiv> 203"
abbreviation (input) LISA_SUB_D :: ir2_opcode where "LISA_SUB_D \<equiv> 204"
abbreviation (input) LISA_SLT :: ir2_opcode where "LISA_SLT \<equiv> 205"
abbreviation (input) LISA_SLTU :: ir2_opcode where "LISA_SLTU \<equiv> 206"
abbreviation (input) LISA_MASKEQZ :: ir2_opcode where "LISA_MASKEQZ \<equiv> 207"
abbreviation (input) LISA_MASKNEZ :: ir2_opcode where "LISA_MASKNEZ \<equiv> 208"
abbreviation (input) LISA_NOR :: ir2_opcode where "LISA_NOR \<equiv> 209"
abbreviation (input) LISA_AND :: ir2_opcode where "LISA_AND \<equiv> 210"
abbreviation (input) LISA_OR :: ir2_opcode where "LISA_OR \<equiv> 211"
abbreviation (input) LISA_XOR :: ir2_opcode where "LISA_XOR \<equiv> 212"
abbreviation (input) LISA_ORN :: ir2_opcode where "LISA_ORN \<equiv> 213"
abbreviation (input) LISA_ANDN :: ir2_opcode where "LISA_ANDN \<equiv> 214"
abbreviation (input) LISA_SLL_W :: ir2_opcode where "LISA_SLL_W \<equiv> 215"
abbreviation (input) LISA_SRL_W :: ir2_opcode where "LISA_SRL_W \<equiv> 216"
abbreviation (input) LISA_SRA_W :: ir2_opcode where "LISA_SRA_W \<equiv> 217"
abbreviation (input) LISA_SLL_D :: ir2_opcode where "LISA_SLL_D \<equiv> 218"
abbreviation (input) LISA_SRL_D :: ir2_opcode where "LISA_SRL_D \<equiv> 219"
abbreviation (input) LISA_SRA_D :: ir2_opcode where "LISA_SRA_D \<equiv> 220"
abbreviation (input) LISA_ROTR_B :: ir2_opcode where "LISA_ROTR_B \<equiv> 221"
abbreviation (input) LISA_ROTR_H :: ir2_opcode where "LISA_ROTR_H \<equiv> 222"
abbreviation (input) LISA_ROTR_W :: ir2_opcode where "LISA_ROTR_W \<equiv> 223"
abbreviation (input) LISA_ROTR_D :: ir2_opcode where "LISA_ROTR_D \<equiv> 224"
abbreviation (input) LISA_MUL_W :: ir2_opcode where "LISA_MUL_W \<equiv> 225"
abbreviation (input) LISA_MULH_W :: ir2_opcode where "LISA_MULH_W \<equiv> 226"
abbreviation (input) LISA_MULH_WU :: ir2_opcode where "LISA_MULH_WU \<equiv> 227"
abbreviation (input) LISA_MUL_D :: ir2_opcode where "LISA_MUL_D \<equiv> 228"
abbreviation (input) LISA_MULH_D :: ir2_opcode where "LISA_MULH_D \<equiv> 229"
abbreviation (input) LISA_MULH_DU :: ir2_opcode where "LISA_MULH_DU \<equiv> 230"
abbreviation (input) LISA_MULW_D_W :: ir2_opcode where "LISA_MULW_D_W \<equiv> 231"
abbreviation (input) LISA_MULW_D_WU :: ir2_opcode where "LISA_MULW_D_WU \<equiv> 232"
abbreviation (input) LISA_DIV_W :: ir2_opcode where "LISA_DIV_W \<equiv> 233"
abbreviation (input) LISA_MOD_W :: ir2_opcode where "LISA_MOD_W \<equiv> 234"
abbreviation (input) LISA_DIV_WU :: ir2_opcode where "LISA_DIV_WU \<equiv> 235"
abbreviation (input) LISA_MOD_WU :: ir2_opcode where "LISA_MOD_WU \<equiv> 236"
abbreviation (input) LISA_DIV_D :: ir2_opcode where "LISA_DIV_D \<equiv> 237"
abbreviation (input) LISA_MOD_D :: ir2_opcode where "LISA_MOD_D \<equiv> 238"
abbreviation (input) LISA_DIV_DU :: ir2_opcode where "LISA_DIV_DU \<equiv> 239"
abbreviation (input) LISA_MOD_DU :: ir2_opcode where "LISA_MOD_DU \<equiv> 240"
abbreviation (input) LISA_CRC_W_B_W :: ir2_opcode where "LISA_CRC_W_B_W \<equiv> 241"
abbreviation (input) LISA_CRC_W_H_W :: ir2_opcode where "LISA_CRC_W_H_W \<equiv> 242"
abbreviation (input) LISA_CRC_W_W_W :: ir2_opcode where "LISA_CRC_W_W_W \<equiv> 243"
abbreviation (input) LISA_CRC_W_D_W :: ir2_opcode where "LISA_CRC_W_D_W \<equiv> 244"
abbreviation (input) LISA_CRCC_W_B_W :: ir2_opcode where "LISA_CRCC_W_B_W \<equiv> 245"
abbreviation (input) LISA_CRCC_W_H_W :: ir2_opcode where "LISA_CRCC_W_H_W \<equiv> 246"
abbreviation (input) LISA_CRCC_W_W_W :: ir2_opcode where "LISA_CRCC_W_W_W \<equiv> 247"
abbreviation (input) LISA_CRCC_W_D_W :: ir2_opcode where "LISA_CRCC_W_D_W \<equiv> 248"
abbreviation (input) LISA_ADDU12I_W :: ir2_opcode where "LISA_ADDU12I_W \<equiv> 249"
abbreviation (input) LISA_ADDU12I_D :: ir2_opcode where "LISA_ADDU12I_D \<equiv> 250"
abbreviation (input) LISA_BREAK :: ir2_opcode where "LISA_BREAK \<equiv> 251"
abbreviation (input) LISA_DBGCALL :: ir2_opcode where "LISA_DBGCALL \<equiv> 252"
abbreviation (input) LISA_SYSCALL :: ir2_opcode where "LISA_SYSCALL \<equiv> 253"
abbreviation (input) LISA_HYPCALL :: ir2_opcode where "LISA_HYPCALL \<equiv> 254"
abbreviation (input) LISA_ALSL_D :: ir2_opcode where "LISA_ALSL_D \<equiv> 255"
abbreviation (input) LISA_ADC_B :: ir2_opcode where "LISA_ADC_B \<equiv> 256"
abbreviation (input) LISA_ADC_H :: ir2_opcode where "LISA_ADC_H \<equiv> 257"
abbreviation (input) LISA_ADC_W :: ir2_opcode where "LISA_ADC_W \<equiv> 258"
abbreviation (input) LISA_ADC_D :: ir2_opcode where "LISA_ADC_D \<equiv> 259"
abbreviation (input) LISA_SBC_B :: ir2_opcode where "LISA_SBC_B \<equiv> 260"
abbreviation (input) LISA_SBC_H :: ir2_opcode where "LISA_SBC_H \<equiv> 261"
abbreviation (input) LISA_SBC_W :: ir2_opcode where "LISA_SBC_W \<equiv> 262"
abbreviation (input) LISA_SBC_D :: ir2_opcode where "LISA_SBC_D \<equiv> 263"
abbreviation (input) LISA_RCR_B :: ir2_opcode where "LISA_RCR_B \<equiv> 264"
abbreviation (input) LISA_RCR_H :: ir2_opcode where "LISA_RCR_H \<equiv> 265"
abbreviation (input) LISA_RCR_W :: ir2_opcode where "LISA_RCR_W \<equiv> 266"
abbreviation (input) LISA_RCR_D :: ir2_opcode where "LISA_RCR_D \<equiv> 267"
abbreviation (input) LISA_ARMMOVE :: ir2_opcode where "LISA_ARMMOVE \<equiv> 268"
abbreviation (input) LISA_SETX86J :: ir2_opcode where "LISA_SETX86J \<equiv> 269"
abbreviation (input) LISA_SETARMJ :: ir2_opcode where "LISA_SETARMJ \<equiv> 270"
abbreviation (input) LISA_ARMADD_W :: ir2_opcode where "LISA_ARMADD_W \<equiv> 271"
abbreviation (input) LISA_ARMSUB_W :: ir2_opcode where "LISA_ARMSUB_W \<equiv> 272"
abbreviation (input) LISA_ARMADC_W :: ir2_opcode where "LISA_ARMADC_W \<equiv> 273"
abbreviation (input) LISA_ARMSBC_W :: ir2_opcode where "LISA_ARMSBC_W \<equiv> 274"
abbreviation (input) LISA_ARMAND_W :: ir2_opcode where "LISA_ARMAND_W \<equiv> 275"
abbreviation (input) LISA_ARMOR_W :: ir2_opcode where "LISA_ARMOR_W \<equiv> 276"
abbreviation (input) LISA_ARMXOR_W :: ir2_opcode where "LISA_ARMXOR_W \<equiv> 277"
abbreviation (input) LISA_ARMSLL_W :: ir2_opcode where "LISA_ARMSLL_W \<equiv> 278"
abbreviation (input) LISA_ARMSRL_W :: ir2_opcode where "LISA_ARMSRL_W \<equiv> 279"
abbreviation (input) LISA_ARMSRA_W :: ir2_opcode where "LISA_ARMSRA_W \<equiv> 280"
abbreviation (input) LISA_ARMROTR_W :: ir2_opcode where "LISA_ARMROTR_W \<equiv> 281"
abbreviation (input) LISA_ARMSLLI_W :: ir2_opcode where "LISA_ARMSLLI_W \<equiv> 282"
abbreviation (input) LISA_ARMSRLI_W :: ir2_opcode where "LISA_ARMSRLI_W \<equiv> 283"
abbreviation (input) LISA_ARMSRAI_W :: ir2_opcode where "LISA_ARMSRAI_W \<equiv> 284"
abbreviation (input) LISA_ARMROTRI_W :: ir2_opcode where "LISA_ARMROTRI_W \<equiv> 285"
abbreviation (input) LISA_X86MUL_B :: ir2_opcode where "LISA_X86MUL_B \<equiv> 286"
abbreviation (input) LISA_X86MUL_H :: ir2_opcode where "LISA_X86MUL_H \<equiv> 287"
abbreviation (input) LISA_X86MUL_W :: ir2_opcode where "LISA_X86MUL_W \<equiv> 288"
abbreviation (input) LISA_X86MUL_D :: ir2_opcode where "LISA_X86MUL_D \<equiv> 289"
abbreviation (input) LISA_X86MUL_BU :: ir2_opcode where "LISA_X86MUL_BU \<equiv> 290"
abbreviation (input) LISA_X86MUL_HU :: ir2_opcode where "LISA_X86MUL_HU \<equiv> 291"
abbreviation (input) LISA_X86MUL_WU :: ir2_opcode where "LISA_X86MUL_WU \<equiv> 292"
abbreviation (input) LISA_X86MUL_DU :: ir2_opcode where "LISA_X86MUL_DU \<equiv> 293"
abbreviation (input) LISA_X86ADD_WU :: ir2_opcode where "LISA_X86ADD_WU \<equiv> 294"
abbreviation (input) LISA_X86ADD_DU :: ir2_opcode where "LISA_X86ADD_DU \<equiv> 295"
abbreviation (input) LISA_X86SUB_WU :: ir2_opcode where "LISA_X86SUB_WU \<equiv> 296"
abbreviation (input) LISA_X86SUB_DU :: ir2_opcode where "LISA_X86SUB_DU \<equiv> 297"
abbreviation (input) LISA_X86ADD_B :: ir2_opcode where "LISA_X86ADD_B \<equiv> 298"
abbreviation (input) LISA_X86ADD_H :: ir2_opcode where "LISA_X86ADD_H \<equiv> 299"
abbreviation (input) LISA_X86ADD_W :: ir2_opcode where "LISA_X86ADD_W \<equiv> 300"
abbreviation (input) LISA_X86ADD_D :: ir2_opcode where "LISA_X86ADD_D \<equiv> 301"
abbreviation (input) LISA_X86SUB_B :: ir2_opcode where "LISA_X86SUB_B \<equiv> 302"
abbreviation (input) LISA_X86SUB_H :: ir2_opcode where "LISA_X86SUB_H \<equiv> 303"
abbreviation (input) LISA_X86SUB_W :: ir2_opcode where "LISA_X86SUB_W \<equiv> 304"
abbreviation (input) LISA_X86SUB_D :: ir2_opcode where "LISA_X86SUB_D \<equiv> 305"
abbreviation (input) LISA_X86ADC_B :: ir2_opcode where "LISA_X86ADC_B \<equiv> 306"
abbreviation (input) LISA_X86ADC_H :: ir2_opcode where "LISA_X86ADC_H \<equiv> 307"
abbreviation (input) LISA_X86ADC_W :: ir2_opcode where "LISA_X86ADC_W \<equiv> 308"
abbreviation (input) LISA_X86ADC_D :: ir2_opcode where "LISA_X86ADC_D \<equiv> 309"
abbreviation (input) LISA_X86SBC_B :: ir2_opcode where "LISA_X86SBC_B \<equiv> 310"
abbreviation (input) LISA_X86SBC_H :: ir2_opcode where "LISA_X86SBC_H \<equiv> 311"
abbreviation (input) LISA_X86SBC_W :: ir2_opcode where "LISA_X86SBC_W \<equiv> 312"
abbreviation (input) LISA_X86SBC_D :: ir2_opcode where "LISA_X86SBC_D \<equiv> 313"
abbreviation (input) LISA_X86SLL_B :: ir2_opcode where "LISA_X86SLL_B \<equiv> 314"
abbreviation (input) LISA_X86SLL_H :: ir2_opcode where "LISA_X86SLL_H \<equiv> 315"
abbreviation (input) LISA_X86SLL_W :: ir2_opcode where "LISA_X86SLL_W \<equiv> 316"
abbreviation (input) LISA_X86SLL_D :: ir2_opcode where "LISA_X86SLL_D \<equiv> 317"
abbreviation (input) LISA_X86SRL_B :: ir2_opcode where "LISA_X86SRL_B \<equiv> 318"
abbreviation (input) LISA_X86SRL_H :: ir2_opcode where "LISA_X86SRL_H \<equiv> 319"
abbreviation (input) LISA_X86SRL_W :: ir2_opcode where "LISA_X86SRL_W \<equiv> 320"
abbreviation (input) LISA_X86SRL_D :: ir2_opcode where "LISA_X86SRL_D \<equiv> 321"
abbreviation (input) LISA_X86SRA_B :: ir2_opcode where "LISA_X86SRA_B \<equiv> 322"
abbreviation (input) LISA_X86SRA_H :: ir2_opcode where "LISA_X86SRA_H \<equiv> 323"
abbreviation (input) LISA_X86SRA_W :: ir2_opcode where "LISA_X86SRA_W \<equiv> 324"
abbreviation (input) LISA_X86SRA_D :: ir2_opcode where "LISA_X86SRA_D \<equiv> 325"
abbreviation (input) LISA_X86ROTR_B :: ir2_opcode where "LISA_X86ROTR_B \<equiv> 326"
abbreviation (input) LISA_X86ROTR_H :: ir2_opcode where "LISA_X86ROTR_H \<equiv> 327"
abbreviation (input) LISA_X86ROTR_D :: ir2_opcode where "LISA_X86ROTR_D \<equiv> 328"
abbreviation (input) LISA_X86ROTR_W :: ir2_opcode where "LISA_X86ROTR_W \<equiv> 329"
abbreviation (input) LISA_X86ROTL_B :: ir2_opcode where "LISA_X86ROTL_B \<equiv> 330"
abbreviation (input) LISA_X86ROTL_H :: ir2_opcode where "LISA_X86ROTL_H \<equiv> 331"
abbreviation (input) LISA_X86ROTL_W :: ir2_opcode where "LISA_X86ROTL_W \<equiv> 332"
abbreviation (input) LISA_X86ROTL_D :: ir2_opcode where "LISA_X86ROTL_D \<equiv> 333"
abbreviation (input) LISA_X86RCR_B :: ir2_opcode where "LISA_X86RCR_B \<equiv> 334"
abbreviation (input) LISA_X86RCR_H :: ir2_opcode where "LISA_X86RCR_H \<equiv> 335"
abbreviation (input) LISA_X86RCR_W :: ir2_opcode where "LISA_X86RCR_W \<equiv> 336"
abbreviation (input) LISA_X86RCR_D :: ir2_opcode where "LISA_X86RCR_D \<equiv> 337"
abbreviation (input) LISA_X86RCL_B :: ir2_opcode where "LISA_X86RCL_B \<equiv> 338"
abbreviation (input) LISA_X86RCL_H :: ir2_opcode where "LISA_X86RCL_H \<equiv> 339"
abbreviation (input) LISA_X86RCL_W :: ir2_opcode where "LISA_X86RCL_W \<equiv> 340"
abbreviation (input) LISA_X86RCL_D :: ir2_opcode where "LISA_X86RCL_D \<equiv> 341"
abbreviation (input) LISA_X86AND_B :: ir2_opcode where "LISA_X86AND_B \<equiv> 342"
abbreviation (input) LISA_X86AND_H :: ir2_opcode where "LISA_X86AND_H \<equiv> 343"
abbreviation (input) LISA_X86AND_W :: ir2_opcode where "LISA_X86AND_W \<equiv> 344"
abbreviation (input) LISA_X86AND_D :: ir2_opcode where "LISA_X86AND_D \<equiv> 345"
abbreviation (input) LISA_X86OR_B :: ir2_opcode where "LISA_X86OR_B \<equiv> 346"
abbreviation (input) LISA_X86OR_H :: ir2_opcode where "LISA_X86OR_H \<equiv> 347"
abbreviation (input) LISA_X86OR_W :: ir2_opcode where "LISA_X86OR_W \<equiv> 348"
abbreviation (input) LISA_X86OR_D :: ir2_opcode where "LISA_X86OR_D \<equiv> 349"
abbreviation (input) LISA_X86XOR_B :: ir2_opcode where "LISA_X86XOR_B \<equiv> 350"
abbreviation (input) LISA_X86XOR_H :: ir2_opcode where "LISA_X86XOR_H \<equiv> 351"
abbreviation (input) LISA_X86XOR_W :: ir2_opcode where "LISA_X86XOR_W \<equiv> 352"
abbreviation (input) LISA_X86XOR_D :: ir2_opcode where "LISA_X86XOR_D \<equiv> 353"
abbreviation (input) LISA_ARMNOT_W :: ir2_opcode where "LISA_ARMNOT_W \<equiv> 354"
abbreviation (input) LISA_ARMMOV_W :: ir2_opcode where "LISA_ARMMOV_W \<equiv> 355"
abbreviation (input) LISA_ARMMOV_D :: ir2_opcode where "LISA_ARMMOV_D \<equiv> 356"
abbreviation (input) LISA_ARMRRX_W :: ir2_opcode where "LISA_ARMRRX_W \<equiv> 357"
abbreviation (input) LISA_SLLI_W :: ir2_opcode where "LISA_SLLI_W \<equiv> 358"
abbreviation (input) LISA_SLLI_D :: ir2_opcode where "LISA_SLLI_D \<equiv> 359"
abbreviation (input) LISA_SRLI_W :: ir2_opcode where "LISA_SRLI_W \<equiv> 360"
abbreviation (input) LISA_SRLI_D :: ir2_opcode where "LISA_SRLI_D \<equiv> 361"
abbreviation (input) LISA_SRAI_W :: ir2_opcode where "LISA_SRAI_W \<equiv> 362"
abbreviation (input) LISA_SRAI_D :: ir2_opcode where "LISA_SRAI_D \<equiv> 363"
abbreviation (input) LISA_ROTRI_B :: ir2_opcode where "LISA_ROTRI_B \<equiv> 364"
abbreviation (input) LISA_ROTRI_H :: ir2_opcode where "LISA_ROTRI_H \<equiv> 365"
abbreviation (input) LISA_ROTRI_W :: ir2_opcode where "LISA_ROTRI_W \<equiv> 366"
abbreviation (input) LISA_ROTRI_D :: ir2_opcode where "LISA_ROTRI_D \<equiv> 367"
abbreviation (input) LISA_RCRI_B :: ir2_opcode where "LISA_RCRI_B \<equiv> 368"
abbreviation (input) LISA_RCRI_H :: ir2_opcode where "LISA_RCRI_H \<equiv> 369"
abbreviation (input) LISA_RCRI_W :: ir2_opcode where "LISA_RCRI_W \<equiv> 370"
abbreviation (input) LISA_RCRI_D :: ir2_opcode where "LISA_RCRI_D \<equiv> 371"
abbreviation (input) LISA_X86SLLI_B :: ir2_opcode where "LISA_X86SLLI_B \<equiv> 372"
abbreviation (input) LISA_X86SLLI_H :: ir2_opcode where "LISA_X86SLLI_H \<equiv> 373"
abbreviation (input) LISA_X86SLLI_W :: ir2_opcode where "LISA_X86SLLI_W \<equiv> 374"
abbreviation (input) LISA_X86SLLI_D :: ir2_opcode where "LISA_X86SLLI_D \<equiv> 375"
abbreviation (input) LISA_X86SRLI_B :: ir2_opcode where "LISA_X86SRLI_B \<equiv> 376"
abbreviation (input) LISA_X86SRLI_H :: ir2_opcode where "LISA_X86SRLI_H \<equiv> 377"
abbreviation (input) LISA_X86SRLI_W :: ir2_opcode where "LISA_X86SRLI_W \<equiv> 378"
abbreviation (input) LISA_X86SRLI_D :: ir2_opcode where "LISA_X86SRLI_D \<equiv> 379"
abbreviation (input) LISA_X86SRAI_B :: ir2_opcode where "LISA_X86SRAI_B \<equiv> 380"
abbreviation (input) LISA_X86SRAI_H :: ir2_opcode where "LISA_X86SRAI_H \<equiv> 381"
abbreviation (input) LISA_X86SRAI_W :: ir2_opcode where "LISA_X86SRAI_W \<equiv> 382"
abbreviation (input) LISA_X86SRAI_D :: ir2_opcode where "LISA_X86SRAI_D \<equiv> 383"
abbreviation (input) LISA_X86ROTRI_B :: ir2_opcode where "LISA_X86ROTRI_B \<equiv> 384"
abbreviation (input) LISA_X86ROTRI_H :: ir2_opcode where "LISA_X86ROTRI_H \<equiv> 385"
abbreviation (input) LISA_X86ROTRI_W :: ir2_opcode where "LISA_X86ROTRI_W \<equiv> 386"
abbreviation (input) LISA_X86ROTRI_D :: ir2_opcode where "LISA_X86ROTRI_D \<equiv> 387"
abbreviation (input) LISA_X86RCRI_B :: ir2_opcode where "LISA_X86RCRI_B \<equiv> 388"
abbreviation (input) LISA_X86RCRI_H :: ir2_opcode where "LISA_X86RCRI_H \<equiv> 389"
abbreviation (input) LISA_X86RCRI_W :: ir2_opcode where "LISA_X86RCRI_W \<equiv> 390"
abbreviation (input) LISA_X86RCRI_D :: ir2_opcode where "LISA_X86RCRI_D \<equiv> 391"
abbreviation (input) LISA_X86ROTLI_B :: ir2_opcode where "LISA_X86ROTLI_B \<equiv> 392"
abbreviation (input) LISA_X86ROTLI_H :: ir2_opcode where "LISA_X86ROTLI_H \<equiv> 393"
abbreviation (input) LISA_X86ROTLI_W :: ir2_opcode where "LISA_X86ROTLI_W \<equiv> 394"
abbreviation (input) LISA_X86ROTLI_D :: ir2_opcode where "LISA_X86ROTLI_D \<equiv> 395"
abbreviation (input) LISA_X86RCLI_B :: ir2_opcode where "LISA_X86RCLI_B \<equiv> 396"
abbreviation (input) LISA_X86RCLI_H :: ir2_opcode where "LISA_X86RCLI_H \<equiv> 397"
abbreviation (input) LISA_X86RCLI_W :: ir2_opcode where "LISA_X86RCLI_W \<equiv> 398"
abbreviation (input) LISA_X86RCLI_D :: ir2_opcode where "LISA_X86RCLI_D \<equiv> 399"
abbreviation (input) LISA_X86SETTAG :: ir2_opcode where "LISA_X86SETTAG \<equiv> 400"
abbreviation (input) LISA_X86MFFLAG :: ir2_opcode where "LISA_X86MFFLAG \<equiv> 401"
abbreviation (input) LISA_X86MTFLAG :: ir2_opcode where "LISA_X86MTFLAG \<equiv> 402"
abbreviation (input) LISA_ARMMFFLAG :: ir2_opcode where "LISA_ARMMFFLAG \<equiv> 403"
abbreviation (input) LISA_ARMMTFLAG :: ir2_opcode where "LISA_ARMMTFLAG \<equiv> 404"
abbreviation (input) LISA_BSTRINS_W :: ir2_opcode where "LISA_BSTRINS_W \<equiv> 405"
abbreviation (input) LISA_BSTRPICK_W :: ir2_opcode where "LISA_BSTRPICK_W \<equiv> 406"
abbreviation (input) LISA_BSTRINS_D :: ir2_opcode where "LISA_BSTRINS_D \<equiv> 407"
abbreviation (input) LISA_BSTRPICK_D :: ir2_opcode where "LISA_BSTRPICK_D \<equiv> 408"
abbreviation (input) LISA_SLTI :: ir2_opcode where "LISA_SLTI \<equiv> 409"
abbreviation (input) LISA_SLTUI :: ir2_opcode where "LISA_SLTUI \<equiv> 410"
abbreviation (input) LISA_ADDI_W :: ir2_opcode where "LISA_ADDI_W \<equiv> 411"
abbreviation (input) LISA_ADDI_D :: ir2_opcode where "LISA_ADDI_D \<equiv> 412"
abbreviation (input) LISA_LU52I_D :: ir2_opcode where "LISA_LU52I_D \<equiv> 413"
abbreviation (input) LISA_ANDI :: ir2_opcode where "LISA_ANDI \<equiv> 414"
abbreviation (input) LISA_ORI :: ir2_opcode where "LISA_ORI \<equiv> 415"
abbreviation (input) LISA_XORI :: ir2_opcode where "LISA_XORI \<equiv> 416"
abbreviation (input) LISA_ADDU16I_D :: ir2_opcode where "LISA_ADDU16I_D \<equiv> 417"
abbreviation (input) LISA_LU12I_W :: ir2_opcode where "LISA_LU12I_W \<equiv> 418"
abbreviation (input) LISA_LU32I_D :: ir2_opcode where "LISA_LU32I_D \<equiv> 419"
abbreviation (input) LISA_PCADDI :: ir2_opcode where "LISA_PCADDI \<equiv> 420"
abbreviation (input) LISA_PCALAU12I :: ir2_opcode where "LISA_PCALAU12I \<equiv> 421"
abbreviation (input) LISA_PCADDU12I :: ir2_opcode where "LISA_PCADDU12I \<equiv> 422"
abbreviation (input) LISA_PCADDU18I :: ir2_opcode where "LISA_PCADDU18I \<equiv> 423"
abbreviation (input) LISA_LLACQ_W :: ir2_opcode where "LISA_LLACQ_W \<equiv> 424"
abbreviation (input) LISA_SCREL_W :: ir2_opcode where "LISA_SCREL_W \<equiv> 425"
abbreviation (input) LISA_LLACQ_D :: ir2_opcode where "LISA_LLACQ_D \<equiv> 426"
abbreviation (input) LISA_SCREL_D :: ir2_opcode where "LISA_SCREL_D \<equiv> 427"
abbreviation (input) LISA_LL_W :: ir2_opcode where "LISA_LL_W \<equiv> 428"
abbreviation (input) LISA_SC_W :: ir2_opcode where "LISA_SC_W \<equiv> 429"
abbreviation (input) LISA_LL_D :: ir2_opcode where "LISA_LL_D \<equiv> 430"
abbreviation (input) LISA_SC_D :: ir2_opcode where "LISA_SC_D \<equiv> 431"
abbreviation (input) LISA_SC_Q :: ir2_opcode where "LISA_SC_Q \<equiv> 432"
abbreviation (input) LISA_LDPTR_W :: ir2_opcode where "LISA_LDPTR_W \<equiv> 433"
abbreviation (input) LISA_STPTR_W :: ir2_opcode where "LISA_STPTR_W \<equiv> 434"
abbreviation (input) LISA_LDPTR_D :: ir2_opcode where "LISA_LDPTR_D \<equiv> 435"
abbreviation (input) LISA_STPTR_D :: ir2_opcode where "LISA_STPTR_D \<equiv> 436"
abbreviation (input) LISA_LD_B :: ir2_opcode where "LISA_LD_B \<equiv> 437"
abbreviation (input) LISA_LD_H :: ir2_opcode where "LISA_LD_H \<equiv> 438"
abbreviation (input) LISA_LD_W :: ir2_opcode where "LISA_LD_W \<equiv> 439"
abbreviation (input) LISA_LD_D :: ir2_opcode where "LISA_LD_D \<equiv> 440"
abbreviation (input) LISA_ST_B :: ir2_opcode where "LISA_ST_B \<equiv> 441"
abbreviation (input) LISA_ST_H :: ir2_opcode where "LISA_ST_H \<equiv> 442"
abbreviation (input) LISA_ST_W :: ir2_opcode where "LISA_ST_W \<equiv> 443"
abbreviation (input) LISA_ST_D :: ir2_opcode where "LISA_ST_D \<equiv> 444"
abbreviation (input) LISA_LD_BU :: ir2_opcode where "LISA_LD_BU \<equiv> 445"
abbreviation (input) LISA_LD_HU :: ir2_opcode where "LISA_LD_HU \<equiv> 446"
abbreviation (input) LISA_LD_WU :: ir2_opcode where "LISA_LD_WU \<equiv> 447"
abbreviation (input) LISA_PRELD :: ir2_opcode where "LISA_PRELD \<equiv> 448"
abbreviation (input) LISA_FLD_S :: ir2_opcode where "LISA_FLD_S \<equiv> 449"
abbreviation (input) LISA_FST_S :: ir2_opcode where "LISA_FST_S \<equiv> 450"
abbreviation (input) LISA_FLD_D :: ir2_opcode where "LISA_FLD_D \<equiv> 451"
abbreviation (input) LISA_FST_D :: ir2_opcode where "LISA_FST_D \<equiv> 452"
abbreviation (input) LISA_VLD :: ir2_opcode where "LISA_VLD \<equiv> 453"
abbreviation (input) LISA_VST :: ir2_opcode where "LISA_VST \<equiv> 454"
abbreviation (input) LISA_XVLD :: ir2_opcode where "LISA_XVLD \<equiv> 455"
abbreviation (input) LISA_XVST :: ir2_opcode where "LISA_XVST \<equiv> 456"
abbreviation (input) LISA_LDL_W :: ir2_opcode where "LISA_LDL_W \<equiv> 457"
abbreviation (input) LISA_LDR_W :: ir2_opcode where "LISA_LDR_W \<equiv> 458"
abbreviation (input) LISA_LDL_D :: ir2_opcode where "LISA_LDL_D \<equiv> 459"
abbreviation (input) LISA_LDR_D :: ir2_opcode where "LISA_LDR_D \<equiv> 460"
abbreviation (input) LISA_STL_W :: ir2_opcode where "LISA_STL_W \<equiv> 461"
abbreviation (input) LISA_STR_W :: ir2_opcode where "LISA_STR_W \<equiv> 462"
abbreviation (input) LISA_STL_D :: ir2_opcode where "LISA_STL_D \<equiv> 463"
abbreviation (input) LISA_STR_D :: ir2_opcode where "LISA_STR_D \<equiv> 464"
abbreviation (input) LISA_VLDREPL_D :: ir2_opcode where "LISA_VLDREPL_D \<equiv> 465"
abbreviation (input) LISA_VLDREPL_W :: ir2_opcode where "LISA_VLDREPL_W \<equiv> 466"
abbreviation (input) LISA_VLDREPL_H :: ir2_opcode where "LISA_VLDREPL_H \<equiv> 467"
abbreviation (input) LISA_VLDREPL_B :: ir2_opcode where "LISA_VLDREPL_B \<equiv> 468"
abbreviation (input) LISA_VSTELM_D :: ir2_opcode where "LISA_VSTELM_D \<equiv> 469"
abbreviation (input) LISA_VSTELM_W :: ir2_opcode where "LISA_VSTELM_W \<equiv> 470"
abbreviation (input) LISA_VSTELM_H :: ir2_opcode where "LISA_VSTELM_H \<equiv> 471"
abbreviation (input) LISA_VSTELM_B :: ir2_opcode where "LISA_VSTELM_B \<equiv> 472"
abbreviation (input) LISA_XVLDREPL_D :: ir2_opcode where "LISA_XVLDREPL_D \<equiv> 473"
abbreviation (input) LISA_XVLDREPL_W :: ir2_opcode where "LISA_XVLDREPL_W \<equiv> 474"
abbreviation (input) LISA_XVLDREPL_H :: ir2_opcode where "LISA_XVLDREPL_H \<equiv> 475"
abbreviation (input) LISA_XVLDREPL_B :: ir2_opcode where "LISA_XVLDREPL_B \<equiv> 476"
abbreviation (input) LISA_XVSTELM_D :: ir2_opcode where "LISA_XVSTELM_D \<equiv> 477"
abbreviation (input) LISA_XVSTELM_W :: ir2_opcode where "LISA_XVSTELM_W \<equiv> 478"
abbreviation (input) LISA_XVSTELM_H :: ir2_opcode where "LISA_XVSTELM_H \<equiv> 479"
abbreviation (input) LISA_XVSTELM_B :: ir2_opcode where "LISA_XVSTELM_B \<equiv> 480"
abbreviation (input) LISA_LDX_B :: ir2_opcode where "LISA_LDX_B \<equiv> 481"
abbreviation (input) LISA_LDX_H :: ir2_opcode where "LISA_LDX_H \<equiv> 482"
abbreviation (input) LISA_LDX_W :: ir2_opcode where "LISA_LDX_W \<equiv> 483"
abbreviation (input) LISA_LDX_D :: ir2_opcode where "LISA_LDX_D \<equiv> 484"
abbreviation (input) LISA_STX_B :: ir2_opcode where "LISA_STX_B \<equiv> 485"
abbreviation (input) LISA_STX_H :: ir2_opcode where "LISA_STX_H \<equiv> 486"
abbreviation (input) LISA_STX_W :: ir2_opcode where "LISA_STX_W \<equiv> 487"
abbreviation (input) LISA_STX_D :: ir2_opcode where "LISA_STX_D \<equiv> 488"
abbreviation (input) LISA_LDX_BU :: ir2_opcode where "LISA_LDX_BU \<equiv> 489"
abbreviation (input) LISA_LDX_HU :: ir2_opcode where "LISA_LDX_HU \<equiv> 490"
abbreviation (input) LISA_LDX_WU :: ir2_opcode where "LISA_LDX_WU \<equiv> 491"
abbreviation (input) LISA_PRELDX :: ir2_opcode where "LISA_PRELDX \<equiv> 492"
abbreviation (input) LISA_FLDX_S :: ir2_opcode where "LISA_FLDX_S \<equiv> 493"
abbreviation (input) LISA_FLDX_D :: ir2_opcode where "LISA_FLDX_D \<equiv> 494"
abbreviation (input) LISA_FSTX_S :: ir2_opcode where "LISA_FSTX_S \<equiv> 495"
abbreviation (input) LISA_FSTX_D :: ir2_opcode where "LISA_FSTX_D \<equiv> 496"
abbreviation (input) LISA_VLDX :: ir2_opcode where "LISA_VLDX \<equiv> 497"
abbreviation (input) LISA_VSTX :: ir2_opcode where "LISA_VSTX \<equiv> 498"
abbreviation (input) LISA_XVLDX :: ir2_opcode where "LISA_XVLDX \<equiv> 499"
abbreviation (input) LISA_XVSTX :: ir2_opcode where "LISA_XVSTX \<equiv> 500"
abbreviation (input) LISA_AMCAS_B :: ir2_opcode where "LISA_AMCAS_B \<equiv> 501"
abbreviation (input) LISA_AMCAS_H :: ir2_opcode where "LISA_AMCAS_H \<equiv> 502"
abbreviation (input) LISA_AMCAS_W :: ir2_opcode where "LISA_AMCAS_W \<equiv> 503"
abbreviation (input) LISA_AMCAS_D :: ir2_opcode where "LISA_AMCAS_D \<equiv> 504"
abbreviation (input) LISA_AMCAS_DB_B :: ir2_opcode where "LISA_AMCAS_DB_B \<equiv> 505"
abbreviation (input) LISA_AMCAS_DB_H :: ir2_opcode where "LISA_AMCAS_DB_H \<equiv> 506"
abbreviation (input) LISA_AMCAS_DB_W :: ir2_opcode where "LISA_AMCAS_DB_W \<equiv> 507"
abbreviation (input) LISA_AMCAS_DB_D :: ir2_opcode where "LISA_AMCAS_DB_D \<equiv> 508"
abbreviation (input) LISA_AMSWAP_B :: ir2_opcode where "LISA_AMSWAP_B \<equiv> 509"
abbreviation (input) LISA_AMSWAP_H :: ir2_opcode where "LISA_AMSWAP_H \<equiv> 510"
abbreviation (input) LISA_AMSWAP_W :: ir2_opcode where "LISA_AMSWAP_W \<equiv> 511"
abbreviation (input) LISA_AMSWAP_D :: ir2_opcode where "LISA_AMSWAP_D \<equiv> 512"
abbreviation (input) LISA_AMADD_B :: ir2_opcode where "LISA_AMADD_B \<equiv> 513"
abbreviation (input) LISA_AMADD_H :: ir2_opcode where "LISA_AMADD_H \<equiv> 514"
abbreviation (input) LISA_AMADD_W :: ir2_opcode where "LISA_AMADD_W \<equiv> 515"
abbreviation (input) LISA_AMADD_D :: ir2_opcode where "LISA_AMADD_D \<equiv> 516"
abbreviation (input) LISA_AMAND_W :: ir2_opcode where "LISA_AMAND_W \<equiv> 517"
abbreviation (input) LISA_AMAND_D :: ir2_opcode where "LISA_AMAND_D \<equiv> 518"
abbreviation (input) LISA_AMOR_W :: ir2_opcode where "LISA_AMOR_W \<equiv> 519"
abbreviation (input) LISA_AMOR_D :: ir2_opcode where "LISA_AMOR_D \<equiv> 520"
abbreviation (input) LISA_AMXOR_W :: ir2_opcode where "LISA_AMXOR_W \<equiv> 521"
abbreviation (input) LISA_AMXOR_D :: ir2_opcode where "LISA_AMXOR_D \<equiv> 522"
abbreviation (input) LISA_AMMAX_W :: ir2_opcode where "LISA_AMMAX_W \<equiv> 523"
abbreviation (input) LISA_AMMAX_D :: ir2_opcode where "LISA_AMMAX_D \<equiv> 524"
abbreviation (input) LISA_AMMIN_W :: ir2_opcode where "LISA_AMMIN_W \<equiv> 525"
abbreviation (input) LISA_AMMIN_D :: ir2_opcode where "LISA_AMMIN_D \<equiv> 526"
abbreviation (input) LISA_AMMAX_WU :: ir2_opcode where "LISA_AMMAX_WU \<equiv> 527"
abbreviation (input) LISA_AMMAX_DU :: ir2_opcode where "LISA_AMMAX_DU \<equiv> 528"
abbreviation (input) LISA_AMMIN_WU :: ir2_opcode where "LISA_AMMIN_WU \<equiv> 529"
abbreviation (input) LISA_AMMIN_DU :: ir2_opcode where "LISA_AMMIN_DU \<equiv> 530"
abbreviation (input) LISA_AMSWAP_DB_B :: ir2_opcode where "LISA_AMSWAP_DB_B \<equiv> 531"
abbreviation (input) LISA_AMSWAP_DB_H :: ir2_opcode where "LISA_AMSWAP_DB_H \<equiv> 532"
abbreviation (input) LISA_AMSWAP_DB_W :: ir2_opcode where "LISA_AMSWAP_DB_W \<equiv> 533"
abbreviation (input) LISA_AMSWAP_DB_D :: ir2_opcode where "LISA_AMSWAP_DB_D \<equiv> 534"
abbreviation (input) LISA_AMADD_DB_B :: ir2_opcode where "LISA_AMADD_DB_B \<equiv> 535"
abbreviation (input) LISA_AMADD_DB_H :: ir2_opcode where "LISA_AMADD_DB_H \<equiv> 536"
abbreviation (input) LISA_AMADD_DB_W :: ir2_opcode where "LISA_AMADD_DB_W \<equiv> 537"
abbreviation (input) LISA_AMADD_DB_D :: ir2_opcode where "LISA_AMADD_DB_D \<equiv> 538"
abbreviation (input) LISA_AMAND_DB_W :: ir2_opcode where "LISA_AMAND_DB_W \<equiv> 539"
abbreviation (input) LISA_AMAND_DB_D :: ir2_opcode where "LISA_AMAND_DB_D \<equiv> 540"
abbreviation (input) LISA_AMOR_DB_W :: ir2_opcode where "LISA_AMOR_DB_W \<equiv> 541"
abbreviation (input) LISA_AMOR_DB_D :: ir2_opcode where "LISA_AMOR_DB_D \<equiv> 542"
abbreviation (input) LISA_AMXOR_DB_W :: ir2_opcode where "LISA_AMXOR_DB_W \<equiv> 543"
abbreviation (input) LISA_AMXOR_DB_D :: ir2_opcode where "LISA_AMXOR_DB_D \<equiv> 544"
abbreviation (input) LISA_AMMAX_DB_W :: ir2_opcode where "LISA_AMMAX_DB_W \<equiv> 545"
abbreviation (input) LISA_AMMAX_DB_D :: ir2_opcode where "LISA_AMMAX_DB_D \<equiv> 546"
abbreviation (input) LISA_AMMIN_DB_W :: ir2_opcode where "LISA_AMMIN_DB_W \<equiv> 547"
abbreviation (input) LISA_AMMIN_DB_D :: ir2_opcode where "LISA_AMMIN_DB_D \<equiv> 548"
abbreviation (input) LISA_AMMAX_DB_WU :: ir2_opcode where "LISA_AMMAX_DB_WU \<equiv> 549"
abbreviation (input) LISA_AMMAX_DB_DU :: ir2_opcode where "LISA_AMMAX_DB_DU \<equiv> 550"
abbreviation (input) LISA_AMMIN_DB_WU :: ir2_opcode where "LISA_AMMIN_DB_WU \<equiv> 551"
abbreviation (input) LISA_AMMIN_DB_DU :: ir2_opcode where "LISA_AMMIN_DB_DU \<equiv> 552"
abbreviation (input) LISA_DBAR :: ir2_opcode where "LISA_DBAR \<equiv> 553"
abbreviation (input) LISA_IBAR :: ir2_opcode where "LISA_IBAR \<equiv> 554"
abbreviation (input) LISA_FLDGT_S :: ir2_opcode where "LISA_FLDGT_S \<equiv> 555"
abbreviation (input) LISA_FLDGT_D :: ir2_opcode where "LISA_FLDGT_D \<equiv> 556"
abbreviation (input) LISA_FLDLE_S :: ir2_opcode where "LISA_FLDLE_S \<equiv> 557"
abbreviation (input) LISA_FLDLE_D :: ir2_opcode where "LISA_FLDLE_D \<equiv> 558"
abbreviation (input) LISA_FSTGT_S :: ir2_opcode where "LISA_FSTGT_S \<equiv> 559"
abbreviation (input) LISA_FSTGT_D :: ir2_opcode where "LISA_FSTGT_D \<equiv> 560"
abbreviation (input) LISA_FSTLE_S :: ir2_opcode where "LISA_FSTLE_S \<equiv> 561"
abbreviation (input) LISA_FSTLE_D :: ir2_opcode where "LISA_FSTLE_D \<equiv> 562"
abbreviation (input) LISA_LDGT_B :: ir2_opcode where "LISA_LDGT_B \<equiv> 563"
abbreviation (input) LISA_LDGT_H :: ir2_opcode where "LISA_LDGT_H \<equiv> 564"
abbreviation (input) LISA_LDGT_W :: ir2_opcode where "LISA_LDGT_W \<equiv> 565"
abbreviation (input) LISA_LDGT_D :: ir2_opcode where "LISA_LDGT_D \<equiv> 566"
abbreviation (input) LISA_LDLE_B :: ir2_opcode where "LISA_LDLE_B \<equiv> 567"
abbreviation (input) LISA_LDLE_H :: ir2_opcode where "LISA_LDLE_H \<equiv> 568"
abbreviation (input) LISA_LDLE_W :: ir2_opcode where "LISA_LDLE_W \<equiv> 569"
abbreviation (input) LISA_LDLE_D :: ir2_opcode where "LISA_LDLE_D \<equiv> 570"
abbreviation (input) LISA_STGT_B :: ir2_opcode where "LISA_STGT_B \<equiv> 571"
abbreviation (input) LISA_STGT_H :: ir2_opcode where "LISA_STGT_H \<equiv> 572"
abbreviation (input) LISA_STGT_W :: ir2_opcode where "LISA_STGT_W \<equiv> 573"
abbreviation (input) LISA_STGT_D :: ir2_opcode where "LISA_STGT_D \<equiv> 574"
abbreviation (input) LISA_STLE_B :: ir2_opcode where "LISA_STLE_B \<equiv> 575"
abbreviation (input) LISA_STLE_H :: ir2_opcode where "LISA_STLE_H \<equiv> 576"
abbreviation (input) LISA_STLE_W :: ir2_opcode where "LISA_STLE_W \<equiv> 577"
abbreviation (input) LISA_STLE_D :: ir2_opcode where "LISA_STLE_D \<equiv> 578"
abbreviation (input) LISA_BEQZ :: ir2_opcode where "LISA_BEQZ \<equiv> 579"
abbreviation (input) LISA_BNEZ :: ir2_opcode where "LISA_BNEZ \<equiv> 580"
abbreviation (input) LISA_BCEQZ :: ir2_opcode where "LISA_BCEQZ \<equiv> 581"
abbreviation (input) LISA_BCNEZ :: ir2_opcode where "LISA_BCNEZ \<equiv> 582"
abbreviation (input) LISA_JISCR0 :: ir2_opcode where "LISA_JISCR0 \<equiv> 583"
abbreviation (input) LISA_JISCR1 :: ir2_opcode where "LISA_JISCR1 \<equiv> 584"
abbreviation (input) LISA_JIRL :: ir2_opcode where "LISA_JIRL \<equiv> 585"
abbreviation (input) LISA_B :: ir2_opcode where "LISA_B \<equiv> 586"
abbreviation (input) LISA_BL :: ir2_opcode where "LISA_BL \<equiv> 587"
abbreviation (input) LISA_BEQ :: ir2_opcode where "LISA_BEQ \<equiv> 588"
abbreviation (input) LISA_BNE :: ir2_opcode where "LISA_BNE \<equiv> 589"
abbreviation (input) LISA_BLT :: ir2_opcode where "LISA_BLT \<equiv> 590"
abbreviation (input) LISA_BGE :: ir2_opcode where "LISA_BGE \<equiv> 591"
abbreviation (input) LISA_BLTU :: ir2_opcode where "LISA_BLTU \<equiv> 592"
abbreviation (input) LISA_BGEU :: ir2_opcode where "LISA_BGEU \<equiv> 593"
abbreviation (input) LISA_FADD_S :: ir2_opcode where "LISA_FADD_S \<equiv> 594"
abbreviation (input) LISA_FADD_D :: ir2_opcode where "LISA_FADD_D \<equiv> 595"
abbreviation (input) LISA_FSUB_S :: ir2_opcode where "LISA_FSUB_S \<equiv> 596"
abbreviation (input) LISA_FSUB_D :: ir2_opcode where "LISA_FSUB_D \<equiv> 597"
abbreviation (input) LISA_FMUL_S :: ir2_opcode where "LISA_FMUL_S \<equiv> 598"
abbreviation (input) LISA_FMUL_D :: ir2_opcode where "LISA_FMUL_D \<equiv> 599"
abbreviation (input) LISA_FDIV_S :: ir2_opcode where "LISA_FDIV_S \<equiv> 600"
abbreviation (input) LISA_FDIV_D :: ir2_opcode where "LISA_FDIV_D \<equiv> 601"
abbreviation (input) LISA_FMAX_S :: ir2_opcode where "LISA_FMAX_S \<equiv> 602"
abbreviation (input) LISA_FMAX_D :: ir2_opcode where "LISA_FMAX_D \<equiv> 603"
abbreviation (input) LISA_FMIN_S :: ir2_opcode where "LISA_FMIN_S \<equiv> 604"
abbreviation (input) LISA_FMIN_D :: ir2_opcode where "LISA_FMIN_D \<equiv> 605"
abbreviation (input) LISA_FMAXA_S :: ir2_opcode where "LISA_FMAXA_S \<equiv> 606"
abbreviation (input) LISA_FMAXA_D :: ir2_opcode where "LISA_FMAXA_D \<equiv> 607"
abbreviation (input) LISA_FMINA_S :: ir2_opcode where "LISA_FMINA_S \<equiv> 608"
abbreviation (input) LISA_FMINA_D :: ir2_opcode where "LISA_FMINA_D \<equiv> 609"
abbreviation (input) LISA_FSCALEB_S :: ir2_opcode where "LISA_FSCALEB_S \<equiv> 610"
abbreviation (input) LISA_FSCALEB_D :: ir2_opcode where "LISA_FSCALEB_D \<equiv> 611"
abbreviation (input) LISA_FCOPYSIGN_S :: ir2_opcode where "LISA_FCOPYSIGN_S \<equiv> 612"
abbreviation (input) LISA_FCOPYSIGN_D :: ir2_opcode where "LISA_FCOPYSIGN_D \<equiv> 613"
abbreviation (input) LISA_FABS_S :: ir2_opcode where "LISA_FABS_S \<equiv> 614"
abbreviation (input) LISA_FABS_D :: ir2_opcode where "LISA_FABS_D \<equiv> 615"
abbreviation (input) LISA_FNEG_S :: ir2_opcode where "LISA_FNEG_S \<equiv> 616"
abbreviation (input) LISA_FNEG_D :: ir2_opcode where "LISA_FNEG_D \<equiv> 617"
abbreviation (input) LISA_FLOGB_S :: ir2_opcode where "LISA_FLOGB_S \<equiv> 618"
abbreviation (input) LISA_FLOGB_D :: ir2_opcode where "LISA_FLOGB_D \<equiv> 619"
abbreviation (input) LISA_FCLASS_S :: ir2_opcode where "LISA_FCLASS_S \<equiv> 620"
abbreviation (input) LISA_FCLASS_D :: ir2_opcode where "LISA_FCLASS_D \<equiv> 621"
abbreviation (input) LISA_FSQRT_S :: ir2_opcode where "LISA_FSQRT_S \<equiv> 622"
abbreviation (input) LISA_FSQRT_D :: ir2_opcode where "LISA_FSQRT_D \<equiv> 623"
abbreviation (input) LISA_FRECIP_S :: ir2_opcode where "LISA_FRECIP_S \<equiv> 624"
abbreviation (input) LISA_FRECIP_D :: ir2_opcode where "LISA_FRECIP_D \<equiv> 625"
abbreviation (input) LISA_FRSQRT_S :: ir2_opcode where "LISA_FRSQRT_S \<equiv> 626"
abbreviation (input) LISA_FRSQRT_D :: ir2_opcode where "LISA_FRSQRT_D \<equiv> 627"
abbreviation (input) LISA_FMOV_S :: ir2_opcode where "LISA_FMOV_S \<equiv> 628"
abbreviation (input) LISA_FMOV_D :: ir2_opcode where "LISA_FMOV_D \<equiv> 629"
abbreviation (input) LISA_MOVGR2FR_W :: ir2_opcode where "LISA_MOVGR2FR_W \<equiv> 630"
abbreviation (input) LISA_MOVGR2FR_D :: ir2_opcode where "LISA_MOVGR2FR_D \<equiv> 631"
abbreviation (input) LISA_MOVGR2FRH_W :: ir2_opcode where "LISA_MOVGR2FRH_W \<equiv> 632"
abbreviation (input) LISA_MOVFR2GR_S :: ir2_opcode where "LISA_MOVFR2GR_S \<equiv> 633"
abbreviation (input) LISA_MOVFR2GR_D :: ir2_opcode where "LISA_MOVFR2GR_D \<equiv> 634"
abbreviation (input) LISA_MOVFRH2GR_S :: ir2_opcode where "LISA_MOVFRH2GR_S \<equiv> 635"
abbreviation (input) LISA_MOVGR2FCSR :: ir2_opcode where "LISA_MOVGR2FCSR \<equiv> 636"
abbreviation (input) LISA_MOVFCSR2GR :: ir2_opcode where "LISA_MOVFCSR2GR \<equiv> 637"
abbreviation (input) LISA_MOVFR2CF :: ir2_opcode where "LISA_MOVFR2CF \<equiv> 638"
abbreviation (input) LISA_MOVCF2FR :: ir2_opcode where "LISA_MOVCF2FR \<equiv> 639"
abbreviation (input) LISA_MOVGR2CF :: ir2_opcode where "LISA_MOVGR2CF \<equiv> 640"
abbreviation (input) LISA_MOVCF2GR :: ir2_opcode where "LISA_MOVCF2GR \<equiv> 641"
abbreviation (input) LISA_FCVT_LD_D :: ir2_opcode where "LISA_FCVT_LD_D \<equiv> 642"
abbreviation (input) LISA_FCVT_UD_D :: ir2_opcode where "LISA_FCVT_UD_D \<equiv> 643"
abbreviation (input) LISA_FCVT_D_LD :: ir2_opcode where "LISA_FCVT_D_LD \<equiv> 644"
abbreviation (input) LISA_FCVT_S_D :: ir2_opcode where "LISA_FCVT_S_D \<equiv> 645"
abbreviation (input) LISA_FCVT_D_S :: ir2_opcode where "LISA_FCVT_D_S \<equiv> 646"
abbreviation (input) LISA_FTINTRM_W_S :: ir2_opcode where "LISA_FTINTRM_W_S \<equiv> 647"
abbreviation (input) LISA_FTINTRM_W_D :: ir2_opcode where "LISA_FTINTRM_W_D \<equiv> 648"
abbreviation (input) LISA_FTINTRM_L_S :: ir2_opcode where "LISA_FTINTRM_L_S \<equiv> 649"
abbreviation (input) LISA_FTINTRM_L_D :: ir2_opcode where "LISA_FTINTRM_L_D \<equiv> 650"
abbreviation (input) LISA_FTINTRP_W_S :: ir2_opcode where "LISA_FTINTRP_W_S \<equiv> 651"
abbreviation (input) LISA_FTINTRP_W_D :: ir2_opcode where "LISA_FTINTRP_W_D \<equiv> 652"
abbreviation (input) LISA_FTINTRP_L_S :: ir2_opcode where "LISA_FTINTRP_L_S \<equiv> 653"
abbreviation (input) LISA_FTINTRP_L_D :: ir2_opcode where "LISA_FTINTRP_L_D \<equiv> 654"
abbreviation (input) LISA_FTINTRZ_W_S :: ir2_opcode where "LISA_FTINTRZ_W_S \<equiv> 655"
abbreviation (input) LISA_FTINTRZ_W_D :: ir2_opcode where "LISA_FTINTRZ_W_D \<equiv> 656"
abbreviation (input) LISA_FTINTRZ_L_S :: ir2_opcode where "LISA_FTINTRZ_L_S \<equiv> 657"
abbreviation (input) LISA_FTINTRZ_L_D :: ir2_opcode where "LISA_FTINTRZ_L_D \<equiv> 658"
abbreviation (input) LISA_FTINTRNE_W_S :: ir2_opcode where "LISA_FTINTRNE_W_S \<equiv> 659"
abbreviation (input) LISA_FTINTRNE_W_D :: ir2_opcode where "LISA_FTINTRNE_W_D \<equiv> 660"
abbreviation (input) LISA_FTINTRNE_L_S :: ir2_opcode where "LISA_FTINTRNE_L_S \<equiv> 661"
abbreviation (input) LISA_FTINTRNE_L_D :: ir2_opcode where "LISA_FTINTRNE_L_D \<equiv> 662"
abbreviation (input) LISA_FTINT_W_S :: ir2_opcode where "LISA_FTINT_W_S \<equiv> 663"
abbreviation (input) LISA_FTINT_W_D :: ir2_opcode where "LISA_FTINT_W_D \<equiv> 664"
abbreviation (input) LISA_FTINT_L_S :: ir2_opcode where "LISA_FTINT_L_S \<equiv> 665"
abbreviation (input) LISA_FTINT_L_D :: ir2_opcode where "LISA_FTINT_L_D \<equiv> 666"
abbreviation (input) LISA_FFINT_S_W :: ir2_opcode where "LISA_FFINT_S_W \<equiv> 667"
abbreviation (input) LISA_FFINT_S_L :: ir2_opcode where "LISA_FFINT_S_L \<equiv> 668"
abbreviation (input) LISA_FFINT_D_W :: ir2_opcode where "LISA_FFINT_D_W \<equiv> 669"
abbreviation (input) LISA_FFINT_D_L :: ir2_opcode where "LISA_FFINT_D_L \<equiv> 670"
abbreviation (input) LISA_FRINT_S :: ir2_opcode where "LISA_FRINT_S \<equiv> 671"
abbreviation (input) LISA_FRINT_D :: ir2_opcode where "LISA_FRINT_D \<equiv> 672"
abbreviation (input) LISA_FMADD_S :: ir2_opcode where "LISA_FMADD_S \<equiv> 673"
abbreviation (input) LISA_FMADD_D :: ir2_opcode where "LISA_FMADD_D \<equiv> 674"
abbreviation (input) LISA_FMSUB_S :: ir2_opcode where "LISA_FMSUB_S \<equiv> 675"
abbreviation (input) LISA_FMSUB_D :: ir2_opcode where "LISA_FMSUB_D \<equiv> 676"
abbreviation (input) LISA_FNMADD_S :: ir2_opcode where "LISA_FNMADD_S \<equiv> 677"
abbreviation (input) LISA_FNMADD_D :: ir2_opcode where "LISA_FNMADD_D \<equiv> 678"
abbreviation (input) LISA_FNMSUB_S :: ir2_opcode where "LISA_FNMSUB_S \<equiv> 679"
abbreviation (input) LISA_FNMSUB_D :: ir2_opcode where "LISA_FNMSUB_D \<equiv> 680"
abbreviation (input) LISA_VFMADD_S :: ir2_opcode where "LISA_VFMADD_S \<equiv> 681"
abbreviation (input) LISA_VFMADD_D :: ir2_opcode where "LISA_VFMADD_D \<equiv> 682"
abbreviation (input) LISA_VFMSUB_S :: ir2_opcode where "LISA_VFMSUB_S \<equiv> 683"
abbreviation (input) LISA_VFMSUB_D :: ir2_opcode where "LISA_VFMSUB_D \<equiv> 684"
abbreviation (input) LISA_VFNMADD_S :: ir2_opcode where "LISA_VFNMADD_S \<equiv> 685"
abbreviation (input) LISA_VFNMADD_D :: ir2_opcode where "LISA_VFNMADD_D \<equiv> 686"
abbreviation (input) LISA_VFNMSUB_S :: ir2_opcode where "LISA_VFNMSUB_S \<equiv> 687"
abbreviation (input) LISA_VFNMSUB_D :: ir2_opcode where "LISA_VFNMSUB_D \<equiv> 688"
abbreviation (input) LISA_XVFMADD_S :: ir2_opcode where "LISA_XVFMADD_S \<equiv> 689"
abbreviation (input) LISA_XVFMADD_D :: ir2_opcode where "LISA_XVFMADD_D \<equiv> 690"
abbreviation (input) LISA_XVFMSUB_S :: ir2_opcode where "LISA_XVFMSUB_S \<equiv> 691"
abbreviation (input) LISA_XVFMSUB_D :: ir2_opcode where "LISA_XVFMSUB_D \<equiv> 692"
abbreviation (input) LISA_XVFNMADD_S :: ir2_opcode where "LISA_XVFNMADD_S \<equiv> 693"
abbreviation (input) LISA_XVFNMADD_D :: ir2_opcode where "LISA_XVFNMADD_D \<equiv> 694"
abbreviation (input) LISA_XVFNMSUB_S :: ir2_opcode where "LISA_XVFNMSUB_S \<equiv> 695"
abbreviation (input) LISA_XVFNMSUB_D :: ir2_opcode where "LISA_XVFNMSUB_D \<equiv> 696"
abbreviation (input) LISA_FCMP_COND_S :: ir2_opcode where "LISA_FCMP_COND_S \<equiv> 697"
abbreviation (input) LISA_FCMP_COND_D :: ir2_opcode where "LISA_FCMP_COND_D \<equiv> 698"
abbreviation (input) LISA_VFCMP_COND_S :: ir2_opcode where "LISA_VFCMP_COND_S \<equiv> 699"
abbreviation (input) LISA_VFCMP_COND_D :: ir2_opcode where "LISA_VFCMP_COND_D \<equiv> 700"
abbreviation (input) LISA_XVFCMP_COND_S :: ir2_opcode where "LISA_XVFCMP_COND_S \<equiv> 701"
abbreviation (input) LISA_XVFCMP_COND_D :: ir2_opcode where "LISA_XVFCMP_COND_D \<equiv> 702"
abbreviation (input) LISA_FSEL :: ir2_opcode where "LISA_FSEL \<equiv> 703"
abbreviation (input) LISA_VBITSEL_V :: ir2_opcode where "LISA_VBITSEL_V \<equiv> 704"
abbreviation (input) LISA_XVBITSEL_V :: ir2_opcode where "LISA_XVBITSEL_V \<equiv> 705"
abbreviation (input) LISA_VSHUF_B :: ir2_opcode where "LISA_VSHUF_B \<equiv> 706"
abbreviation (input) LISA_XVSHUF_B :: ir2_opcode where "LISA_XVSHUF_B \<equiv> 707"
abbreviation (input) LISA_VEXTR_V :: ir2_opcode where "LISA_VEXTR_V \<equiv> 708"
abbreviation (input) LISA_XVEXTR_V :: ir2_opcode where "LISA_XVEXTR_V \<equiv> 709"
abbreviation (input) LISA_VFMADDSUB_S :: ir2_opcode where "LISA_VFMADDSUB_S \<equiv> 710"
abbreviation (input) LISA_VFMADDSUB_D :: ir2_opcode where "LISA_VFMADDSUB_D \<equiv> 711"
abbreviation (input) LISA_VFMSUBADD_S :: ir2_opcode where "LISA_VFMSUBADD_S \<equiv> 712"
abbreviation (input) LISA_VFMSUBADD_D :: ir2_opcode where "LISA_VFMSUBADD_D \<equiv> 713"
abbreviation (input) LISA_XVFMADDSUB_S :: ir2_opcode where "LISA_XVFMADDSUB_S \<equiv> 714"
abbreviation (input) LISA_XVFMADDSUB_D :: ir2_opcode where "LISA_XVFMADDSUB_D \<equiv> 715"
abbreviation (input) LISA_XVFMSUBADD_S :: ir2_opcode where "LISA_XVFMSUBADD_S \<equiv> 716"
abbreviation (input) LISA_XVFMSUBADD_D :: ir2_opcode where "LISA_XVFMSUBADD_D \<equiv> 717"
abbreviation (input) LISA_VSEQ_B :: ir2_opcode where "LISA_VSEQ_B \<equiv> 718"
abbreviation (input) LISA_VSEQ_H :: ir2_opcode where "LISA_VSEQ_H \<equiv> 719"
abbreviation (input) LISA_VSEQ_W :: ir2_opcode where "LISA_VSEQ_W \<equiv> 720"
abbreviation (input) LISA_VSEQ_D :: ir2_opcode where "LISA_VSEQ_D \<equiv> 721"
abbreviation (input) LISA_VSLE_B :: ir2_opcode where "LISA_VSLE_B \<equiv> 722"
abbreviation (input) LISA_VSLE_H :: ir2_opcode where "LISA_VSLE_H \<equiv> 723"
abbreviation (input) LISA_VSLE_W :: ir2_opcode where "LISA_VSLE_W \<equiv> 724"
abbreviation (input) LISA_VSLE_D :: ir2_opcode where "LISA_VSLE_D \<equiv> 725"
abbreviation (input) LISA_VSLE_BU :: ir2_opcode where "LISA_VSLE_BU \<equiv> 726"
abbreviation (input) LISA_VSLE_HU :: ir2_opcode where "LISA_VSLE_HU \<equiv> 727"
abbreviation (input) LISA_VSLE_WU :: ir2_opcode where "LISA_VSLE_WU \<equiv> 728"
abbreviation (input) LISA_VSLE_DU :: ir2_opcode where "LISA_VSLE_DU \<equiv> 729"
abbreviation (input) LISA_VSLT_B :: ir2_opcode where "LISA_VSLT_B \<equiv> 730"
abbreviation (input) LISA_VSLT_H :: ir2_opcode where "LISA_VSLT_H \<equiv> 731"
abbreviation (input) LISA_VSLT_W :: ir2_opcode where "LISA_VSLT_W \<equiv> 732"
abbreviation (input) LISA_VSLT_D :: ir2_opcode where "LISA_VSLT_D \<equiv> 733"
abbreviation (input) LISA_VSLT_BU :: ir2_opcode where "LISA_VSLT_BU \<equiv> 734"
abbreviation (input) LISA_VSLT_HU :: ir2_opcode where "LISA_VSLT_HU \<equiv> 735"
abbreviation (input) LISA_VSLT_WU :: ir2_opcode where "LISA_VSLT_WU \<equiv> 736"
abbreviation (input) LISA_VSLT_DU :: ir2_opcode where "LISA_VSLT_DU \<equiv> 737"
abbreviation (input) LISA_VADD_B :: ir2_opcode where "LISA_VADD_B \<equiv> 738"
abbreviation (input) LISA_VADD_H :: ir2_opcode where "LISA_VADD_H \<equiv> 739"
abbreviation (input) LISA_VADD_W :: ir2_opcode where "LISA_VADD_W \<equiv> 740"
abbreviation (input) LISA_VADD_D :: ir2_opcode where "LISA_VADD_D \<equiv> 741"
abbreviation (input) LISA_VSUB_B :: ir2_opcode where "LISA_VSUB_B \<equiv> 742"
abbreviation (input) LISA_VSUB_H :: ir2_opcode where "LISA_VSUB_H \<equiv> 743"
abbreviation (input) LISA_VSUB_W :: ir2_opcode where "LISA_VSUB_W \<equiv> 744"
abbreviation (input) LISA_VSUB_D :: ir2_opcode where "LISA_VSUB_D \<equiv> 745"
abbreviation (input) LISA_VADDW_H_H_B :: ir2_opcode where "LISA_VADDW_H_H_B \<equiv> 746"
abbreviation (input) LISA_VADDW_W_W_H :: ir2_opcode where "LISA_VADDW_W_W_H \<equiv> 747"
abbreviation (input) LISA_VADDW_D_D_W :: ir2_opcode where "LISA_VADDW_D_D_W \<equiv> 748"
abbreviation (input) LISA_VADDW_H_H_BU :: ir2_opcode where "LISA_VADDW_H_H_BU \<equiv> 749"
abbreviation (input) LISA_VADDW_W_W_HU :: ir2_opcode where "LISA_VADDW_W_W_HU \<equiv> 750"
abbreviation (input) LISA_VADDW_D_D_WU :: ir2_opcode where "LISA_VADDW_D_D_WU \<equiv> 751"
abbreviation (input) LISA_VSUBW_H_H_B :: ir2_opcode where "LISA_VSUBW_H_H_B \<equiv> 752"
abbreviation (input) LISA_VSUBW_W_W_H :: ir2_opcode where "LISA_VSUBW_W_W_H \<equiv> 753"
abbreviation (input) LISA_VSUBW_D_D_W :: ir2_opcode where "LISA_VSUBW_D_D_W \<equiv> 754"
abbreviation (input) LISA_VSUBW_H_H_BU :: ir2_opcode where "LISA_VSUBW_H_H_BU \<equiv> 755"
abbreviation (input) LISA_VSUBW_W_W_HU :: ir2_opcode where "LISA_VSUBW_W_W_HU \<equiv> 756"
abbreviation (input) LISA_VSUBW_D_D_WU :: ir2_opcode where "LISA_VSUBW_D_D_WU \<equiv> 757"
abbreviation (input) LISA_VSADDW_H_H_B :: ir2_opcode where "LISA_VSADDW_H_H_B \<equiv> 758"
abbreviation (input) LISA_VSADDW_W_W_H :: ir2_opcode where "LISA_VSADDW_W_W_H \<equiv> 759"
abbreviation (input) LISA_VSADDW_D_D_W :: ir2_opcode where "LISA_VSADDW_D_D_W \<equiv> 760"
abbreviation (input) LISA_VSADDW_HU_HU_BU :: ir2_opcode where "LISA_VSADDW_HU_HU_BU \<equiv> 761"
abbreviation (input) LISA_VSADDW_WU_WU_HU :: ir2_opcode where "LISA_VSADDW_WU_WU_HU \<equiv> 762"
abbreviation (input) LISA_VSADDW_DU_DU_WU :: ir2_opcode where "LISA_VSADDW_DU_DU_WU \<equiv> 763"
abbreviation (input) LISA_VSSUBW_H_H_B :: ir2_opcode where "LISA_VSSUBW_H_H_B \<equiv> 764"
abbreviation (input) LISA_VSSUBW_W_W_H :: ir2_opcode where "LISA_VSSUBW_W_W_H \<equiv> 765"
abbreviation (input) LISA_VSSUBW_D_D_W :: ir2_opcode where "LISA_VSSUBW_D_D_W \<equiv> 766"
abbreviation (input) LISA_VSSUBW_HU_HU_BU :: ir2_opcode where "LISA_VSSUBW_HU_HU_BU \<equiv> 767"
abbreviation (input) LISA_VSSUBW_WU_WU_HU :: ir2_opcode where "LISA_VSSUBW_WU_WU_HU \<equiv> 768"
abbreviation (input) LISA_VSSUBW_DU_DU_WU :: ir2_opcode where "LISA_VSSUBW_DU_DU_WU \<equiv> 769"
abbreviation (input) LISA_VADDWEV_H_B :: ir2_opcode where "LISA_VADDWEV_H_B \<equiv> 770"
abbreviation (input) LISA_VADDWEV_W_H :: ir2_opcode where "LISA_VADDWEV_W_H \<equiv> 771"
abbreviation (input) LISA_VADDWEV_D_W :: ir2_opcode where "LISA_VADDWEV_D_W \<equiv> 772"
abbreviation (input) LISA_VADDWEV_Q_D :: ir2_opcode where "LISA_VADDWEV_Q_D \<equiv> 773"
abbreviation (input) LISA_VSUBWEV_H_B :: ir2_opcode where "LISA_VSUBWEV_H_B \<equiv> 774"
abbreviation (input) LISA_VSUBWEV_W_H :: ir2_opcode where "LISA_VSUBWEV_W_H \<equiv> 775"
abbreviation (input) LISA_VSUBWEV_D_W :: ir2_opcode where "LISA_VSUBWEV_D_W \<equiv> 776"
abbreviation (input) LISA_VSUBWEV_Q_D :: ir2_opcode where "LISA_VSUBWEV_Q_D \<equiv> 777"
abbreviation (input) LISA_VADDWOD_H_B :: ir2_opcode where "LISA_VADDWOD_H_B \<equiv> 778"
abbreviation (input) LISA_VADDWOD_W_H :: ir2_opcode where "LISA_VADDWOD_W_H \<equiv> 779"
abbreviation (input) LISA_VADDWOD_D_W :: ir2_opcode where "LISA_VADDWOD_D_W \<equiv> 780"
abbreviation (input) LISA_VADDWOD_Q_D :: ir2_opcode where "LISA_VADDWOD_Q_D \<equiv> 781"
abbreviation (input) LISA_VSUBWOD_H_B :: ir2_opcode where "LISA_VSUBWOD_H_B \<equiv> 782"
abbreviation (input) LISA_VSUBWOD_W_H :: ir2_opcode where "LISA_VSUBWOD_W_H \<equiv> 783"
abbreviation (input) LISA_VSUBWOD_D_W :: ir2_opcode where "LISA_VSUBWOD_D_W \<equiv> 784"
abbreviation (input) LISA_VSUBWOD_Q_D :: ir2_opcode where "LISA_VSUBWOD_Q_D \<equiv> 785"
abbreviation (input) LISA_VADDWL_H_B :: ir2_opcode where "LISA_VADDWL_H_B \<equiv> 786"
abbreviation (input) LISA_VADDWL_W_H :: ir2_opcode where "LISA_VADDWL_W_H \<equiv> 787"
abbreviation (input) LISA_VADDWL_D_W :: ir2_opcode where "LISA_VADDWL_D_W \<equiv> 788"
abbreviation (input) LISA_VADDWL_Q_D :: ir2_opcode where "LISA_VADDWL_Q_D \<equiv> 789"
abbreviation (input) LISA_VSUBWL_H_B :: ir2_opcode where "LISA_VSUBWL_H_B \<equiv> 790"
abbreviation (input) LISA_VSUBWL_W_H :: ir2_opcode where "LISA_VSUBWL_W_H \<equiv> 791"
abbreviation (input) LISA_VSUBWL_D_W :: ir2_opcode where "LISA_VSUBWL_D_W \<equiv> 792"
abbreviation (input) LISA_VSUBWL_Q_D :: ir2_opcode where "LISA_VSUBWL_Q_D \<equiv> 793"
abbreviation (input) LISA_VADDWH_H_B :: ir2_opcode where "LISA_VADDWH_H_B \<equiv> 794"
abbreviation (input) LISA_VADDWH_W_H :: ir2_opcode where "LISA_VADDWH_W_H \<equiv> 795"
abbreviation (input) LISA_VADDWH_D_W :: ir2_opcode where "LISA_VADDWH_D_W \<equiv> 796"
abbreviation (input) LISA_VADDWH_Q_D :: ir2_opcode where "LISA_VADDWH_Q_D \<equiv> 797"
abbreviation (input) LISA_VSUBWH_H_B :: ir2_opcode where "LISA_VSUBWH_H_B \<equiv> 798"
abbreviation (input) LISA_VSUBWH_W_H :: ir2_opcode where "LISA_VSUBWH_W_H \<equiv> 799"
abbreviation (input) LISA_VSUBWH_D_W :: ir2_opcode where "LISA_VSUBWH_D_W \<equiv> 800"
abbreviation (input) LISA_VSUBWH_Q_D :: ir2_opcode where "LISA_VSUBWH_Q_D \<equiv> 801"
abbreviation (input) LISA_VADDWEV_H_BU :: ir2_opcode where "LISA_VADDWEV_H_BU \<equiv> 802"
abbreviation (input) LISA_VADDWEV_W_HU :: ir2_opcode where "LISA_VADDWEV_W_HU \<equiv> 803"
abbreviation (input) LISA_VADDWEV_D_WU :: ir2_opcode where "LISA_VADDWEV_D_WU \<equiv> 804"
abbreviation (input) LISA_VADDWEV_Q_DU :: ir2_opcode where "LISA_VADDWEV_Q_DU \<equiv> 805"
abbreviation (input) LISA_VSUBWEV_H_BU :: ir2_opcode where "LISA_VSUBWEV_H_BU \<equiv> 806"
abbreviation (input) LISA_VSUBWEV_W_HU :: ir2_opcode where "LISA_VSUBWEV_W_HU \<equiv> 807"
abbreviation (input) LISA_VSUBWEV_D_WU :: ir2_opcode where "LISA_VSUBWEV_D_WU \<equiv> 808"
abbreviation (input) LISA_VSUBWEV_Q_DU :: ir2_opcode where "LISA_VSUBWEV_Q_DU \<equiv> 809"
abbreviation (input) LISA_VADDWOD_H_BU :: ir2_opcode where "LISA_VADDWOD_H_BU \<equiv> 810"
abbreviation (input) LISA_VADDWOD_W_HU :: ir2_opcode where "LISA_VADDWOD_W_HU \<equiv> 811"
abbreviation (input) LISA_VADDWOD_D_WU :: ir2_opcode where "LISA_VADDWOD_D_WU \<equiv> 812"
abbreviation (input) LISA_VADDWOD_Q_DU :: ir2_opcode where "LISA_VADDWOD_Q_DU \<equiv> 813"
abbreviation (input) LISA_VSUBWOD_H_BU :: ir2_opcode where "LISA_VSUBWOD_H_BU \<equiv> 814"
abbreviation (input) LISA_VSUBWOD_W_HU :: ir2_opcode where "LISA_VSUBWOD_W_HU \<equiv> 815"
abbreviation (input) LISA_VSUBWOD_D_WU :: ir2_opcode where "LISA_VSUBWOD_D_WU \<equiv> 816"
abbreviation (input) LISA_VSUBWOD_Q_DU :: ir2_opcode where "LISA_VSUBWOD_Q_DU \<equiv> 817"
abbreviation (input) LISA_VADDWL_H_BU :: ir2_opcode where "LISA_VADDWL_H_BU \<equiv> 818"
abbreviation (input) LISA_VADDWL_W_HU :: ir2_opcode where "LISA_VADDWL_W_HU \<equiv> 819"
abbreviation (input) LISA_VADDWL_D_WU :: ir2_opcode where "LISA_VADDWL_D_WU \<equiv> 820"
abbreviation (input) LISA_VADDWL_Q_DU :: ir2_opcode where "LISA_VADDWL_Q_DU \<equiv> 821"
abbreviation (input) LISA_VSUBWL_H_BU :: ir2_opcode where "LISA_VSUBWL_H_BU \<equiv> 822"
abbreviation (input) LISA_VSUBWL_W_HU :: ir2_opcode where "LISA_VSUBWL_W_HU \<equiv> 823"
abbreviation (input) LISA_VSUBWL_D_WU :: ir2_opcode where "LISA_VSUBWL_D_WU \<equiv> 824"
abbreviation (input) LISA_VSUBWL_Q_DU :: ir2_opcode where "LISA_VSUBWL_Q_DU \<equiv> 825"
abbreviation (input) LISA_VADDWH_H_BU :: ir2_opcode where "LISA_VADDWH_H_BU \<equiv> 826"
abbreviation (input) LISA_VADDWH_W_HU :: ir2_opcode where "LISA_VADDWH_W_HU \<equiv> 827"
abbreviation (input) LISA_VADDWH_D_WU :: ir2_opcode where "LISA_VADDWH_D_WU \<equiv> 828"
abbreviation (input) LISA_VADDWH_Q_DU :: ir2_opcode where "LISA_VADDWH_Q_DU \<equiv> 829"
abbreviation (input) LISA_VSUBWH_H_BU :: ir2_opcode where "LISA_VSUBWH_H_BU \<equiv> 830"
abbreviation (input) LISA_VSUBWH_W_HU :: ir2_opcode where "LISA_VSUBWH_W_HU \<equiv> 831"
abbreviation (input) LISA_VSUBWH_D_WU :: ir2_opcode where "LISA_VSUBWH_D_WU \<equiv> 832"
abbreviation (input) LISA_VSUBWH_Q_DU :: ir2_opcode where "LISA_VSUBWH_Q_DU \<equiv> 833"
abbreviation (input) LISA_VADDWEV_H_BU_B :: ir2_opcode where "LISA_VADDWEV_H_BU_B \<equiv> 834"
abbreviation (input) LISA_VADDWEV_W_HU_H :: ir2_opcode where "LISA_VADDWEV_W_HU_H \<equiv> 835"
abbreviation (input) LISA_VADDWEV_D_WU_W :: ir2_opcode where "LISA_VADDWEV_D_WU_W \<equiv> 836"
abbreviation (input) LISA_VADDWEV_Q_DU_D :: ir2_opcode where "LISA_VADDWEV_Q_DU_D \<equiv> 837"
abbreviation (input) LISA_VADDWOD_H_BU_B :: ir2_opcode where "LISA_VADDWOD_H_BU_B \<equiv> 838"
abbreviation (input) LISA_VADDWOD_W_HU_H :: ir2_opcode where "LISA_VADDWOD_W_HU_H \<equiv> 839"
abbreviation (input) LISA_VADDWOD_D_WU_W :: ir2_opcode where "LISA_VADDWOD_D_WU_W \<equiv> 840"
abbreviation (input) LISA_VADDWOD_Q_DU_D :: ir2_opcode where "LISA_VADDWOD_Q_DU_D \<equiv> 841"
abbreviation (input) LISA_VADDWL_H_BU_B :: ir2_opcode where "LISA_VADDWL_H_BU_B \<equiv> 842"
abbreviation (input) LISA_VADDWL_W_HU_H :: ir2_opcode where "LISA_VADDWL_W_HU_H \<equiv> 843"
abbreviation (input) LISA_VADDWL_D_WU_W :: ir2_opcode where "LISA_VADDWL_D_WU_W \<equiv> 844"
abbreviation (input) LISA_VADDWL_Q_DU_D :: ir2_opcode where "LISA_VADDWL_Q_DU_D \<equiv> 845"
abbreviation (input) LISA_VADDWH_H_BU_B :: ir2_opcode where "LISA_VADDWH_H_BU_B \<equiv> 846"
abbreviation (input) LISA_VADDWH_W_HU_H :: ir2_opcode where "LISA_VADDWH_W_HU_H \<equiv> 847"
abbreviation (input) LISA_VADDWH_D_WU_W :: ir2_opcode where "LISA_VADDWH_D_WU_W \<equiv> 848"
abbreviation (input) LISA_VADDWH_Q_DU_D :: ir2_opcode where "LISA_VADDWH_Q_DU_D \<equiv> 849"
abbreviation (input) LISA_VSADD_B :: ir2_opcode where "LISA_VSADD_B \<equiv> 850"
abbreviation (input) LISA_VSADD_H :: ir2_opcode where "LISA_VSADD_H \<equiv> 851"
abbreviation (input) LISA_VSADD_W :: ir2_opcode where "LISA_VSADD_W \<equiv> 852"
abbreviation (input) LISA_VSADD_D :: ir2_opcode where "LISA_VSADD_D \<equiv> 853"
abbreviation (input) LISA_VSSUB_B :: ir2_opcode where "LISA_VSSUB_B \<equiv> 854"
abbreviation (input) LISA_VSSUB_H :: ir2_opcode where "LISA_VSSUB_H \<equiv> 855"
abbreviation (input) LISA_VSSUB_W :: ir2_opcode where "LISA_VSSUB_W \<equiv> 856"
abbreviation (input) LISA_VSSUB_D :: ir2_opcode where "LISA_VSSUB_D \<equiv> 857"
abbreviation (input) LISA_VSADD_BU :: ir2_opcode where "LISA_VSADD_BU \<equiv> 858"
abbreviation (input) LISA_VSADD_HU :: ir2_opcode where "LISA_VSADD_HU \<equiv> 859"
abbreviation (input) LISA_VSADD_WU :: ir2_opcode where "LISA_VSADD_WU \<equiv> 860"
abbreviation (input) LISA_VSADD_DU :: ir2_opcode where "LISA_VSADD_DU \<equiv> 861"
abbreviation (input) LISA_VSSUB_BU :: ir2_opcode where "LISA_VSSUB_BU \<equiv> 862"
abbreviation (input) LISA_VSSUB_HU :: ir2_opcode where "LISA_VSSUB_HU \<equiv> 863"
abbreviation (input) LISA_VSSUB_WU :: ir2_opcode where "LISA_VSSUB_WU \<equiv> 864"
abbreviation (input) LISA_VSSUB_DU :: ir2_opcode where "LISA_VSSUB_DU \<equiv> 865"
abbreviation (input) LISA_VSSUB_BU_BU_B :: ir2_opcode where "LISA_VSSUB_BU_BU_B \<equiv> 866"
abbreviation (input) LISA_VSSUB_HU_HU_H :: ir2_opcode where "LISA_VSSUB_HU_HU_H \<equiv> 867"
abbreviation (input) LISA_VSSUB_WU_WU_W :: ir2_opcode where "LISA_VSSUB_WU_WU_W \<equiv> 868"
abbreviation (input) LISA_VSSUB_DU_DU_D :: ir2_opcode where "LISA_VSSUB_DU_DU_D \<equiv> 869"
abbreviation (input) LISA_VSSUB_BU_B_BU :: ir2_opcode where "LISA_VSSUB_BU_B_BU \<equiv> 870"
abbreviation (input) LISA_VSSUB_HU_H_HU :: ir2_opcode where "LISA_VSSUB_HU_H_HU \<equiv> 871"
abbreviation (input) LISA_VSSUB_WU_W_WU :: ir2_opcode where "LISA_VSSUB_WU_W_WU \<equiv> 872"
abbreviation (input) LISA_VSSUB_DU_D_DU :: ir2_opcode where "LISA_VSSUB_DU_D_DU \<equiv> 873"
abbreviation (input) LISA_VSSUB_B_BU_BU :: ir2_opcode where "LISA_VSSUB_B_BU_BU \<equiv> 874"
abbreviation (input) LISA_VSSUB_H_HU_HU :: ir2_opcode where "LISA_VSSUB_H_HU_HU \<equiv> 875"
abbreviation (input) LISA_VSSUB_W_WU_WU :: ir2_opcode where "LISA_VSSUB_W_WU_WU \<equiv> 876"
abbreviation (input) LISA_VSSUB_D_DU_DU :: ir2_opcode where "LISA_VSSUB_D_DU_DU \<equiv> 877"
abbreviation (input) LISA_VHADDW_H_B :: ir2_opcode where "LISA_VHADDW_H_B \<equiv> 878"
abbreviation (input) LISA_VHADDW_W_H :: ir2_opcode where "LISA_VHADDW_W_H \<equiv> 879"
abbreviation (input) LISA_VHADDW_D_W :: ir2_opcode where "LISA_VHADDW_D_W \<equiv> 880"
abbreviation (input) LISA_VHADDW_Q_D :: ir2_opcode where "LISA_VHADDW_Q_D \<equiv> 881"
abbreviation (input) LISA_VHSUBW_H_B :: ir2_opcode where "LISA_VHSUBW_H_B \<equiv> 882"
abbreviation (input) LISA_VHSUBW_W_H :: ir2_opcode where "LISA_VHSUBW_W_H \<equiv> 883"
abbreviation (input) LISA_VHSUBW_D_W :: ir2_opcode where "LISA_VHSUBW_D_W \<equiv> 884"
abbreviation (input) LISA_VHSUBW_Q_D :: ir2_opcode where "LISA_VHSUBW_Q_D \<equiv> 885"
abbreviation (input) LISA_VHADDW_HU_BU :: ir2_opcode where "LISA_VHADDW_HU_BU \<equiv> 886"
abbreviation (input) LISA_VHADDW_WU_HU :: ir2_opcode where "LISA_VHADDW_WU_HU \<equiv> 887"
abbreviation (input) LISA_VHADDW_DU_WU :: ir2_opcode where "LISA_VHADDW_DU_WU \<equiv> 888"
abbreviation (input) LISA_VHADDW_QU_DU :: ir2_opcode where "LISA_VHADDW_QU_DU \<equiv> 889"
abbreviation (input) LISA_VHSUBW_HU_BU :: ir2_opcode where "LISA_VHSUBW_HU_BU \<equiv> 890"
abbreviation (input) LISA_VHSUBW_WU_HU :: ir2_opcode where "LISA_VHSUBW_WU_HU \<equiv> 891"
abbreviation (input) LISA_VHSUBW_DU_WU :: ir2_opcode where "LISA_VHSUBW_DU_WU \<equiv> 892"
abbreviation (input) LISA_VHSUBW_QU_DU :: ir2_opcode where "LISA_VHSUBW_QU_DU \<equiv> 893"
abbreviation (input) LISA_VADDA_B :: ir2_opcode where "LISA_VADDA_B \<equiv> 894"
abbreviation (input) LISA_VADDA_H :: ir2_opcode where "LISA_VADDA_H \<equiv> 895"
abbreviation (input) LISA_VADDA_W :: ir2_opcode where "LISA_VADDA_W \<equiv> 896"
abbreviation (input) LISA_VADDA_D :: ir2_opcode where "LISA_VADDA_D \<equiv> 897"
abbreviation (input) LISA_VSADDA_B :: ir2_opcode where "LISA_VSADDA_B \<equiv> 898"
abbreviation (input) LISA_VSADDA_H :: ir2_opcode where "LISA_VSADDA_H \<equiv> 899"
abbreviation (input) LISA_VSADDA_W :: ir2_opcode where "LISA_VSADDA_W \<equiv> 900"
abbreviation (input) LISA_VSADDA_D :: ir2_opcode where "LISA_VSADDA_D \<equiv> 901"
abbreviation (input) LISA_VABSD_B :: ir2_opcode where "LISA_VABSD_B \<equiv> 902"
abbreviation (input) LISA_VABSD_H :: ir2_opcode where "LISA_VABSD_H \<equiv> 903"
abbreviation (input) LISA_VABSD_W :: ir2_opcode where "LISA_VABSD_W \<equiv> 904"
abbreviation (input) LISA_VABSD_D :: ir2_opcode where "LISA_VABSD_D \<equiv> 905"
abbreviation (input) LISA_VABSD_BU :: ir2_opcode where "LISA_VABSD_BU \<equiv> 906"
abbreviation (input) LISA_VABSD_HU :: ir2_opcode where "LISA_VABSD_HU \<equiv> 907"
abbreviation (input) LISA_VABSD_WU :: ir2_opcode where "LISA_VABSD_WU \<equiv> 908"
abbreviation (input) LISA_VABSD_DU :: ir2_opcode where "LISA_VABSD_DU \<equiv> 909"
abbreviation (input) LISA_VAVG_B :: ir2_opcode where "LISA_VAVG_B \<equiv> 910"
abbreviation (input) LISA_VAVG_H :: ir2_opcode where "LISA_VAVG_H \<equiv> 911"
abbreviation (input) LISA_VAVG_W :: ir2_opcode where "LISA_VAVG_W \<equiv> 912"
abbreviation (input) LISA_VAVG_D :: ir2_opcode where "LISA_VAVG_D \<equiv> 913"
abbreviation (input) LISA_VAVG_BU :: ir2_opcode where "LISA_VAVG_BU \<equiv> 914"
abbreviation (input) LISA_VAVG_HU :: ir2_opcode where "LISA_VAVG_HU \<equiv> 915"
abbreviation (input) LISA_VAVG_WU :: ir2_opcode where "LISA_VAVG_WU \<equiv> 916"
abbreviation (input) LISA_VAVG_DU :: ir2_opcode where "LISA_VAVG_DU \<equiv> 917"
abbreviation (input) LISA_VAVGR_B :: ir2_opcode where "LISA_VAVGR_B \<equiv> 918"
abbreviation (input) LISA_VAVGR_H :: ir2_opcode where "LISA_VAVGR_H \<equiv> 919"
abbreviation (input) LISA_VAVGR_W :: ir2_opcode where "LISA_VAVGR_W \<equiv> 920"
abbreviation (input) LISA_VAVGR_D :: ir2_opcode where "LISA_VAVGR_D \<equiv> 921"
abbreviation (input) LISA_VAVGR_BU :: ir2_opcode where "LISA_VAVGR_BU \<equiv> 922"
abbreviation (input) LISA_VAVGR_HU :: ir2_opcode where "LISA_VAVGR_HU \<equiv> 923"
abbreviation (input) LISA_VAVGR_WU :: ir2_opcode where "LISA_VAVGR_WU \<equiv> 924"
abbreviation (input) LISA_VAVGR_DU :: ir2_opcode where "LISA_VAVGR_DU \<equiv> 925"
abbreviation (input) LISA_VHALFD_B :: ir2_opcode where "LISA_VHALFD_B \<equiv> 926"
abbreviation (input) LISA_VHALFD_H :: ir2_opcode where "LISA_VHALFD_H \<equiv> 927"
abbreviation (input) LISA_VHALFD_W :: ir2_opcode where "LISA_VHALFD_W \<equiv> 928"
abbreviation (input) LISA_VHALFD_D :: ir2_opcode where "LISA_VHALFD_D \<equiv> 929"
abbreviation (input) LISA_VHALFD_BU :: ir2_opcode where "LISA_VHALFD_BU \<equiv> 930"
abbreviation (input) LISA_VHALFD_HU :: ir2_opcode where "LISA_VHALFD_HU \<equiv> 931"
abbreviation (input) LISA_VHALFD_WU :: ir2_opcode where "LISA_VHALFD_WU \<equiv> 932"
abbreviation (input) LISA_VHALFD_DU :: ir2_opcode where "LISA_VHALFD_DU \<equiv> 933"
abbreviation (input) LISA_VMAX_B :: ir2_opcode where "LISA_VMAX_B \<equiv> 934"
abbreviation (input) LISA_VMAX_H :: ir2_opcode where "LISA_VMAX_H \<equiv> 935"
abbreviation (input) LISA_VMAX_W :: ir2_opcode where "LISA_VMAX_W \<equiv> 936"
abbreviation (input) LISA_VMAX_D :: ir2_opcode where "LISA_VMAX_D \<equiv> 937"
abbreviation (input) LISA_VMIN_B :: ir2_opcode where "LISA_VMIN_B \<equiv> 938"
abbreviation (input) LISA_VMIN_H :: ir2_opcode where "LISA_VMIN_H \<equiv> 939"
abbreviation (input) LISA_VMIN_W :: ir2_opcode where "LISA_VMIN_W \<equiv> 940"
abbreviation (input) LISA_VMIN_D :: ir2_opcode where "LISA_VMIN_D \<equiv> 941"
abbreviation (input) LISA_VMAX_BU :: ir2_opcode where "LISA_VMAX_BU \<equiv> 942"
abbreviation (input) LISA_VMAX_HU :: ir2_opcode where "LISA_VMAX_HU \<equiv> 943"
abbreviation (input) LISA_VMAX_WU :: ir2_opcode where "LISA_VMAX_WU \<equiv> 944"
abbreviation (input) LISA_VMAX_DU :: ir2_opcode where "LISA_VMAX_DU \<equiv> 945"
abbreviation (input) LISA_VMIN_BU :: ir2_opcode where "LISA_VMIN_BU \<equiv> 946"
abbreviation (input) LISA_VMIN_HU :: ir2_opcode where "LISA_VMIN_HU \<equiv> 947"
abbreviation (input) LISA_VMIN_WU :: ir2_opcode where "LISA_VMIN_WU \<equiv> 948"
abbreviation (input) LISA_VMIN_DU :: ir2_opcode where "LISA_VMIN_DU \<equiv> 949"
abbreviation (input) LISA_VMAXA_B :: ir2_opcode where "LISA_VMAXA_B \<equiv> 950"
abbreviation (input) LISA_VMAXA_H :: ir2_opcode where "LISA_VMAXA_H \<equiv> 951"
abbreviation (input) LISA_VMAXA_W :: ir2_opcode where "LISA_VMAXA_W \<equiv> 952"
abbreviation (input) LISA_VMAXA_D :: ir2_opcode where "LISA_VMAXA_D \<equiv> 953"
abbreviation (input) LISA_VMINA_B :: ir2_opcode where "LISA_VMINA_B \<equiv> 954"
abbreviation (input) LISA_VMINA_H :: ir2_opcode where "LISA_VMINA_H \<equiv> 955"
abbreviation (input) LISA_VMINA_W :: ir2_opcode where "LISA_VMINA_W \<equiv> 956"
abbreviation (input) LISA_VMINA_D :: ir2_opcode where "LISA_VMINA_D \<equiv> 957"
abbreviation (input) LISA_VSADW_H_B :: ir2_opcode where "LISA_VSADW_H_B \<equiv> 958"
abbreviation (input) LISA_VSADW_W_H :: ir2_opcode where "LISA_VSADW_W_H \<equiv> 959"
abbreviation (input) LISA_VSADW_D_W :: ir2_opcode where "LISA_VSADW_D_W \<equiv> 960"
abbreviation (input) LISA_VSADW_H_BU :: ir2_opcode where "LISA_VSADW_H_BU \<equiv> 961"
abbreviation (input) LISA_VSADW_W_HU :: ir2_opcode where "LISA_VSADW_W_HU \<equiv> 962"
abbreviation (input) LISA_VSADW_D_WU :: ir2_opcode where "LISA_VSADW_D_WU \<equiv> 963"
abbreviation (input) LISA_VACCSADW_H_B :: ir2_opcode where "LISA_VACCSADW_H_B \<equiv> 964"
abbreviation (input) LISA_VACCSADW_W_H :: ir2_opcode where "LISA_VACCSADW_W_H \<equiv> 965"
abbreviation (input) LISA_VACCSADW_D_W :: ir2_opcode where "LISA_VACCSADW_D_W \<equiv> 966"
abbreviation (input) LISA_VACCSADW_H_BU :: ir2_opcode where "LISA_VACCSADW_H_BU \<equiv> 967"
abbreviation (input) LISA_VACCSADW_W_HU :: ir2_opcode where "LISA_VACCSADW_W_HU \<equiv> 968"
abbreviation (input) LISA_VACCSADW_D_WU :: ir2_opcode where "LISA_VACCSADW_D_WU \<equiv> 969"
abbreviation (input) LISA_VMUL_B :: ir2_opcode where "LISA_VMUL_B \<equiv> 970"
abbreviation (input) LISA_VMUL_H :: ir2_opcode where "LISA_VMUL_H \<equiv> 971"
abbreviation (input) LISA_VMUL_W :: ir2_opcode where "LISA_VMUL_W \<equiv> 972"
abbreviation (input) LISA_VMUL_D :: ir2_opcode where "LISA_VMUL_D \<equiv> 973"
abbreviation (input) LISA_VMUH_B :: ir2_opcode where "LISA_VMUH_B \<equiv> 974"
abbreviation (input) LISA_VMUH_H :: ir2_opcode where "LISA_VMUH_H \<equiv> 975"
abbreviation (input) LISA_VMUH_W :: ir2_opcode where "LISA_VMUH_W \<equiv> 976"
abbreviation (input) LISA_VMUH_D :: ir2_opcode where "LISA_VMUH_D \<equiv> 977"
abbreviation (input) LISA_VMUH_BU :: ir2_opcode where "LISA_VMUH_BU \<equiv> 978"
abbreviation (input) LISA_VMUH_HU :: ir2_opcode where "LISA_VMUH_HU \<equiv> 979"
abbreviation (input) LISA_VMUH_WU :: ir2_opcode where "LISA_VMUH_WU \<equiv> 980"
abbreviation (input) LISA_VMUH_DU :: ir2_opcode where "LISA_VMUH_DU \<equiv> 981"
abbreviation (input) LISA_VMUH_BU_B :: ir2_opcode where "LISA_VMUH_BU_B \<equiv> 982"
abbreviation (input) LISA_VMUH_HU_H :: ir2_opcode where "LISA_VMUH_HU_H \<equiv> 983"
abbreviation (input) LISA_VMUH_WU_W :: ir2_opcode where "LISA_VMUH_WU_W \<equiv> 984"
abbreviation (input) LISA_VMUH_DU_D :: ir2_opcode where "LISA_VMUH_DU_D \<equiv> 985"
abbreviation (input) LISA_VMULXW_H_B :: ir2_opcode where "LISA_VMULXW_H_B \<equiv> 986"
abbreviation (input) LISA_VMULXW_W_H :: ir2_opcode where "LISA_VMULXW_W_H \<equiv> 987"
abbreviation (input) LISA_VMULXW_D_W :: ir2_opcode where "LISA_VMULXW_D_W \<equiv> 988"
abbreviation (input) LISA_VMULXW_H_BU :: ir2_opcode where "LISA_VMULXW_H_BU \<equiv> 989"
abbreviation (input) LISA_VMULXW_W_HU :: ir2_opcode where "LISA_VMULXW_W_HU \<equiv> 990"
abbreviation (input) LISA_VMULXW_D_WU :: ir2_opcode where "LISA_VMULXW_D_WU \<equiv> 991"
abbreviation (input) LISA_VMULWEV_H_B :: ir2_opcode where "LISA_VMULWEV_H_B \<equiv> 992"
abbreviation (input) LISA_VMULWEV_W_H :: ir2_opcode where "LISA_VMULWEV_W_H \<equiv> 993"
abbreviation (input) LISA_VMULWEV_D_W :: ir2_opcode where "LISA_VMULWEV_D_W \<equiv> 994"
abbreviation (input) LISA_VMULWEV_Q_D :: ir2_opcode where "LISA_VMULWEV_Q_D \<equiv> 995"
abbreviation (input) LISA_VMULWOD_H_B :: ir2_opcode where "LISA_VMULWOD_H_B \<equiv> 996"
abbreviation (input) LISA_VMULWOD_W_H :: ir2_opcode where "LISA_VMULWOD_W_H \<equiv> 997"
abbreviation (input) LISA_VMULWOD_D_W :: ir2_opcode where "LISA_VMULWOD_D_W \<equiv> 998"
abbreviation (input) LISA_VMULWOD_Q_D :: ir2_opcode where "LISA_VMULWOD_Q_D \<equiv> 999"
abbreviation (input) LISA_VMULWL_H_B :: ir2_opcode where "LISA_VMULWL_H_B \<equiv> 1000"
abbreviation (input) LISA_VMULWL_W_H :: ir2_opcode where "LISA_VMULWL_W_H \<equiv> 1001"
abbreviation (input) LISA_VMULWL_D_W :: ir2_opcode where "LISA_VMULWL_D_W \<equiv> 1002"
abbreviation (input) LISA_VMULWL_Q_D :: ir2_opcode where "LISA_VMULWL_Q_D \<equiv> 1003"
abbreviation (input) LISA_VMULWH_H_B :: ir2_opcode where "LISA_VMULWH_H_B \<equiv> 1004"
abbreviation (input) LISA_VMULWH_W_H :: ir2_opcode where "LISA_VMULWH_W_H \<equiv> 1005"
abbreviation (input) LISA_VMULWH_D_W :: ir2_opcode where "LISA_VMULWH_D_W \<equiv> 1006"
abbreviation (input) LISA_VMULWH_Q_D :: ir2_opcode where "LISA_VMULWH_Q_D \<equiv> 1007"
abbreviation (input) LISA_VMULWEV_H_BU :: ir2_opcode where "LISA_VMULWEV_H_BU \<equiv> 1008"
abbreviation (input) LISA_VMULWEV_W_HU :: ir2_opcode where "LISA_VMULWEV_W_HU \<equiv> 1009"
abbreviation (input) LISA_VMULWEV_D_WU :: ir2_opcode where "LISA_VMULWEV_D_WU \<equiv> 1010"
abbreviation (input) LISA_VMULWEV_Q_DU :: ir2_opcode where "LISA_VMULWEV_Q_DU \<equiv> 1011"
abbreviation (input) LISA_VMULWOD_H_BU :: ir2_opcode where "LISA_VMULWOD_H_BU \<equiv> 1012"
abbreviation (input) LISA_VMULWOD_W_HU :: ir2_opcode where "LISA_VMULWOD_W_HU \<equiv> 1013"
abbreviation (input) LISA_VMULWOD_D_WU :: ir2_opcode where "LISA_VMULWOD_D_WU \<equiv> 1014"
abbreviation (input) LISA_VMULWOD_Q_DU :: ir2_opcode where "LISA_VMULWOD_Q_DU \<equiv> 1015"
abbreviation (input) LISA_VMULWL_H_BU :: ir2_opcode where "LISA_VMULWL_H_BU \<equiv> 1016"
abbreviation (input) LISA_VMULWL_W_HU :: ir2_opcode where "LISA_VMULWL_W_HU \<equiv> 1017"
abbreviation (input) LISA_VMULWL_D_WU :: ir2_opcode where "LISA_VMULWL_D_WU \<equiv> 1018"
abbreviation (input) LISA_VMULWL_Q_DU :: ir2_opcode where "LISA_VMULWL_Q_DU \<equiv> 1019"
abbreviation (input) LISA_VMULWH_H_BU :: ir2_opcode where "LISA_VMULWH_H_BU \<equiv> 1020"
abbreviation (input) LISA_VMULWH_W_HU :: ir2_opcode where "LISA_VMULWH_W_HU \<equiv> 1021"
abbreviation (input) LISA_VMULWH_D_WU :: ir2_opcode where "LISA_VMULWH_D_WU \<equiv> 1022"
abbreviation (input) LISA_VMULWH_Q_DU :: ir2_opcode where "LISA_VMULWH_Q_DU \<equiv> 1023"
abbreviation (input) LISA_VMULWEV_H_BU_B :: ir2_opcode where "LISA_VMULWEV_H_BU_B \<equiv> 1024"
abbreviation (input) LISA_VMULWEV_W_HU_H :: ir2_opcode where "LISA_VMULWEV_W_HU_H \<equiv> 1025"
abbreviation (input) LISA_VMULWEV_D_WU_W :: ir2_opcode where "LISA_VMULWEV_D_WU_W \<equiv> 1026"
abbreviation (input) LISA_VMULWEV_Q_DU_D :: ir2_opcode where "LISA_VMULWEV_Q_DU_D \<equiv> 1027"
abbreviation (input) LISA_VMULWOD_H_BU_B :: ir2_opcode where "LISA_VMULWOD_H_BU_B \<equiv> 1028"
abbreviation (input) LISA_VMULWOD_W_HU_H :: ir2_opcode where "LISA_VMULWOD_W_HU_H \<equiv> 1029"
abbreviation (input) LISA_VMULWOD_D_WU_W :: ir2_opcode where "LISA_VMULWOD_D_WU_W \<equiv> 1030"
abbreviation (input) LISA_VMULWOD_Q_DU_D :: ir2_opcode where "LISA_VMULWOD_Q_DU_D \<equiv> 1031"
abbreviation (input) LISA_VMULWL_H_BU_B :: ir2_opcode where "LISA_VMULWL_H_BU_B \<equiv> 1032"
abbreviation (input) LISA_VMULWL_W_HU_H :: ir2_opcode where "LISA_VMULWL_W_HU_H \<equiv> 1033"
abbreviation (input) LISA_VMULWL_D_WU_W :: ir2_opcode where "LISA_VMULWL_D_WU_W \<equiv> 1034"
abbreviation (input) LISA_VMULWL_Q_DU_D :: ir2_opcode where "LISA_VMULWL_Q_DU_D \<equiv> 1035"
abbreviation (input) LISA_VMULWH_H_BU_B :: ir2_opcode where "LISA_VMULWH_H_BU_B \<equiv> 1036"
abbreviation (input) LISA_VMULWH_W_HU_H :: ir2_opcode where "LISA_VMULWH_W_HU_H \<equiv> 1037"
abbreviation (input) LISA_VMULWH_D_WU_W :: ir2_opcode where "LISA_VMULWH_D_WU_W \<equiv> 1038"
abbreviation (input) LISA_VMULWH_Q_DU_D :: ir2_opcode where "LISA_VMULWH_Q_DU_D \<equiv> 1039"
abbreviation (input) LISA_VMADD_B :: ir2_opcode where "LISA_VMADD_B \<equiv> 1040"
abbreviation (input) LISA_VMADD_H :: ir2_opcode where "LISA_VMADD_H \<equiv> 1041"
abbreviation (input) LISA_VMADD_W :: ir2_opcode where "LISA_VMADD_W \<equiv> 1042"
abbreviation (input) LISA_VMADD_D :: ir2_opcode where "LISA_VMADD_D \<equiv> 1043"
abbreviation (input) LISA_VMSUB_B :: ir2_opcode where "LISA_VMSUB_B \<equiv> 1044"
abbreviation (input) LISA_VMSUB_H :: ir2_opcode where "LISA_VMSUB_H \<equiv> 1045"
abbreviation (input) LISA_VMSUB_W :: ir2_opcode where "LISA_VMSUB_W \<equiv> 1046"
abbreviation (input) LISA_VMSUB_D :: ir2_opcode where "LISA_VMSUB_D \<equiv> 1047"
abbreviation (input) LISA_VMADDWEV_H_B :: ir2_opcode where "LISA_VMADDWEV_H_B \<equiv> 1048"
abbreviation (input) LISA_VMADDWEV_W_H :: ir2_opcode where "LISA_VMADDWEV_W_H \<equiv> 1049"
abbreviation (input) LISA_VMADDWEV_D_W :: ir2_opcode where "LISA_VMADDWEV_D_W \<equiv> 1050"
abbreviation (input) LISA_VMADDWEV_Q_D :: ir2_opcode where "LISA_VMADDWEV_Q_D \<equiv> 1051"
abbreviation (input) LISA_VMADDWOD_H_B :: ir2_opcode where "LISA_VMADDWOD_H_B \<equiv> 1052"
abbreviation (input) LISA_VMADDWOD_W_H :: ir2_opcode where "LISA_VMADDWOD_W_H \<equiv> 1053"
abbreviation (input) LISA_VMADDWOD_D_W :: ir2_opcode where "LISA_VMADDWOD_D_W \<equiv> 1054"
abbreviation (input) LISA_VMADDWOD_Q_D :: ir2_opcode where "LISA_VMADDWOD_Q_D \<equiv> 1055"
abbreviation (input) LISA_VMADDWL_H_B :: ir2_opcode where "LISA_VMADDWL_H_B \<equiv> 1056"
abbreviation (input) LISA_VMADDWL_W_H :: ir2_opcode where "LISA_VMADDWL_W_H \<equiv> 1057"
abbreviation (input) LISA_VMADDWL_D_W :: ir2_opcode where "LISA_VMADDWL_D_W \<equiv> 1058"
abbreviation (input) LISA_VMADDWL_Q_D :: ir2_opcode where "LISA_VMADDWL_Q_D \<equiv> 1059"
abbreviation (input) LISA_VMADDWH_H_B :: ir2_opcode where "LISA_VMADDWH_H_B \<equiv> 1060"
abbreviation (input) LISA_VMADDWH_W_H :: ir2_opcode where "LISA_VMADDWH_W_H \<equiv> 1061"
abbreviation (input) LISA_VMADDWH_D_W :: ir2_opcode where "LISA_VMADDWH_D_W \<equiv> 1062"
abbreviation (input) LISA_VMADDWH_Q_D :: ir2_opcode where "LISA_VMADDWH_Q_D \<equiv> 1063"
abbreviation (input) LISA_VMADDWEV_H_BU :: ir2_opcode where "LISA_VMADDWEV_H_BU \<equiv> 1064"
abbreviation (input) LISA_VMADDWEV_W_HU :: ir2_opcode where "LISA_VMADDWEV_W_HU \<equiv> 1065"
abbreviation (input) LISA_VMADDWEV_D_WU :: ir2_opcode where "LISA_VMADDWEV_D_WU \<equiv> 1066"
abbreviation (input) LISA_VMADDWEV_Q_DU :: ir2_opcode where "LISA_VMADDWEV_Q_DU \<equiv> 1067"
abbreviation (input) LISA_VMADDWOD_H_BU :: ir2_opcode where "LISA_VMADDWOD_H_BU \<equiv> 1068"
abbreviation (input) LISA_VMADDWOD_W_HU :: ir2_opcode where "LISA_VMADDWOD_W_HU \<equiv> 1069"
abbreviation (input) LISA_VMADDWOD_D_WU :: ir2_opcode where "LISA_VMADDWOD_D_WU \<equiv> 1070"
abbreviation (input) LISA_VMADDWOD_Q_DU :: ir2_opcode where "LISA_VMADDWOD_Q_DU \<equiv> 1071"
abbreviation (input) LISA_VMADDWL_H_BU :: ir2_opcode where "LISA_VMADDWL_H_BU \<equiv> 1072"
abbreviation (input) LISA_VMADDWL_W_HU :: ir2_opcode where "LISA_VMADDWL_W_HU \<equiv> 1073"
abbreviation (input) LISA_VMADDWL_D_WU :: ir2_opcode where "LISA_VMADDWL_D_WU \<equiv> 1074"
abbreviation (input) LISA_VMADDWL_Q_DU :: ir2_opcode where "LISA_VMADDWL_Q_DU \<equiv> 1075"
abbreviation (input) LISA_VMADDWH_H_BU :: ir2_opcode where "LISA_VMADDWH_H_BU \<equiv> 1076"
abbreviation (input) LISA_VMADDWH_W_HU :: ir2_opcode where "LISA_VMADDWH_W_HU \<equiv> 1077"
abbreviation (input) LISA_VMADDWH_D_WU :: ir2_opcode where "LISA_VMADDWH_D_WU \<equiv> 1078"
abbreviation (input) LISA_VMADDWH_Q_DU :: ir2_opcode where "LISA_VMADDWH_Q_DU \<equiv> 1079"
abbreviation (input) LISA_VMADDWEV_H_BU_B :: ir2_opcode where "LISA_VMADDWEV_H_BU_B \<equiv> 1080"
abbreviation (input) LISA_VMADDWEV_W_HU_H :: ir2_opcode where "LISA_VMADDWEV_W_HU_H \<equiv> 1081"
abbreviation (input) LISA_VMADDWEV_D_WU_W :: ir2_opcode where "LISA_VMADDWEV_D_WU_W \<equiv> 1082"
abbreviation (input) LISA_VMADDWEV_Q_DU_D :: ir2_opcode where "LISA_VMADDWEV_Q_DU_D \<equiv> 1083"
abbreviation (input) LISA_VMADDWOD_H_BU_B :: ir2_opcode where "LISA_VMADDWOD_H_BU_B \<equiv> 1084"
abbreviation (input) LISA_VMADDWOD_W_HU_H :: ir2_opcode where "LISA_VMADDWOD_W_HU_H \<equiv> 1085"
abbreviation (input) LISA_VMADDWOD_D_WU_W :: ir2_opcode where "LISA_VMADDWOD_D_WU_W \<equiv> 1086"
abbreviation (input) LISA_VMADDWOD_Q_DU_D :: ir2_opcode where "LISA_VMADDWOD_Q_DU_D \<equiv> 1087"
abbreviation (input) LISA_VMADDWL_H_BU_B :: ir2_opcode where "LISA_VMADDWL_H_BU_B \<equiv> 1088"
abbreviation (input) LISA_VMADDWL_W_HU_H :: ir2_opcode where "LISA_VMADDWL_W_HU_H \<equiv> 1089"
abbreviation (input) LISA_VMADDWL_D_WU_W :: ir2_opcode where "LISA_VMADDWL_D_WU_W \<equiv> 1090"
abbreviation (input) LISA_VMADDWL_Q_DU_D :: ir2_opcode where "LISA_VMADDWL_Q_DU_D \<equiv> 1091"
abbreviation (input) LISA_VMADDWH_H_BU_B :: ir2_opcode where "LISA_VMADDWH_H_BU_B \<equiv> 1092"
abbreviation (input) LISA_VMADDWH_W_HU_H :: ir2_opcode where "LISA_VMADDWH_W_HU_H \<equiv> 1093"
abbreviation (input) LISA_VMADDWH_D_WU_W :: ir2_opcode where "LISA_VMADDWH_D_WU_W \<equiv> 1094"
abbreviation (input) LISA_VMADDWH_Q_DU_D :: ir2_opcode where "LISA_VMADDWH_Q_DU_D \<equiv> 1095"
abbreviation (input) LISA_VDP2_H_B :: ir2_opcode where "LISA_VDP2_H_B \<equiv> 1096"
abbreviation (input) LISA_VDP2_W_H :: ir2_opcode where "LISA_VDP2_W_H \<equiv> 1097"
abbreviation (input) LISA_VDP2_D_W :: ir2_opcode where "LISA_VDP2_D_W \<equiv> 1098"
abbreviation (input) LISA_VDP2_Q_D :: ir2_opcode where "LISA_VDP2_Q_D \<equiv> 1099"
abbreviation (input) LISA_VDP2_HU_BU :: ir2_opcode where "LISA_VDP2_HU_BU \<equiv> 1100"
abbreviation (input) LISA_VDP2_WU_HU :: ir2_opcode where "LISA_VDP2_WU_HU \<equiv> 1101"
abbreviation (input) LISA_VDP2_DU_WU :: ir2_opcode where "LISA_VDP2_DU_WU \<equiv> 1102"
abbreviation (input) LISA_VDP2_QU_DU :: ir2_opcode where "LISA_VDP2_QU_DU \<equiv> 1103"
abbreviation (input) LISA_VDP2_H_BU_B :: ir2_opcode where "LISA_VDP2_H_BU_B \<equiv> 1104"
abbreviation (input) LISA_VDP2_W_HU_H :: ir2_opcode where "LISA_VDP2_W_HU_H \<equiv> 1105"
abbreviation (input) LISA_VDP2_D_WU_W :: ir2_opcode where "LISA_VDP2_D_WU_W \<equiv> 1106"
abbreviation (input) LISA_VDP2_Q_DU_D :: ir2_opcode where "LISA_VDP2_Q_DU_D \<equiv> 1107"
abbreviation (input) LISA_VDP2ADD_H_B :: ir2_opcode where "LISA_VDP2ADD_H_B \<equiv> 1108"
abbreviation (input) LISA_VDP2ADD_W_H :: ir2_opcode where "LISA_VDP2ADD_W_H \<equiv> 1109"
abbreviation (input) LISA_VDP2ADD_D_W :: ir2_opcode where "LISA_VDP2ADD_D_W \<equiv> 1110"
abbreviation (input) LISA_VDP2ADD_Q_D :: ir2_opcode where "LISA_VDP2ADD_Q_D \<equiv> 1111"
abbreviation (input) LISA_VDP2ADD_H_BU :: ir2_opcode where "LISA_VDP2ADD_H_BU \<equiv> 1112"
abbreviation (input) LISA_VDP2ADD_W_HU :: ir2_opcode where "LISA_VDP2ADD_W_HU \<equiv> 1113"
abbreviation (input) LISA_VDP2ADD_D_WU :: ir2_opcode where "LISA_VDP2ADD_D_WU \<equiv> 1114"
abbreviation (input) LISA_VDP2ADD_Q_DU :: ir2_opcode where "LISA_VDP2ADD_Q_DU \<equiv> 1115"
abbreviation (input) LISA_VDP2ADD_H_BU_B :: ir2_opcode where "LISA_VDP2ADD_H_BU_B \<equiv> 1116"
abbreviation (input) LISA_VDP2ADD_W_HU_H :: ir2_opcode where "LISA_VDP2ADD_W_HU_H \<equiv> 1117"
abbreviation (input) LISA_VDP2ADD_D_WU_W :: ir2_opcode where "LISA_VDP2ADD_D_WU_W \<equiv> 1118"
abbreviation (input) LISA_VDP2ADD_Q_DU_D :: ir2_opcode where "LISA_VDP2ADD_Q_DU_D \<equiv> 1119"
abbreviation (input) LISA_VDP2SUB_H_B :: ir2_opcode where "LISA_VDP2SUB_H_B \<equiv> 1120"
abbreviation (input) LISA_VDP2SUB_W_H :: ir2_opcode where "LISA_VDP2SUB_W_H \<equiv> 1121"
abbreviation (input) LISA_VDP2SUB_D_W :: ir2_opcode where "LISA_VDP2SUB_D_W \<equiv> 1122"
abbreviation (input) LISA_VDP2SUB_Q_D :: ir2_opcode where "LISA_VDP2SUB_Q_D \<equiv> 1123"
abbreviation (input) LISA_VDP2SUB_H_BU :: ir2_opcode where "LISA_VDP2SUB_H_BU \<equiv> 1124"
abbreviation (input) LISA_VDP2SUB_W_HU :: ir2_opcode where "LISA_VDP2SUB_W_HU \<equiv> 1125"
abbreviation (input) LISA_VDP2SUB_D_WU :: ir2_opcode where "LISA_VDP2SUB_D_WU \<equiv> 1126"
abbreviation (input) LISA_VDP2SUB_Q_DU :: ir2_opcode where "LISA_VDP2SUB_Q_DU \<equiv> 1127"
abbreviation (input) LISA_VDP4_W_B :: ir2_opcode where "LISA_VDP4_W_B \<equiv> 1128"
abbreviation (input) LISA_VDP4_D_H :: ir2_opcode where "LISA_VDP4_D_H \<equiv> 1129"
abbreviation (input) LISA_VDP4_Q_W :: ir2_opcode where "LISA_VDP4_Q_W \<equiv> 1130"
abbreviation (input) LISA_VDP4_W_BU :: ir2_opcode where "LISA_VDP4_W_BU \<equiv> 1131"
abbreviation (input) LISA_VDP4_D_HU :: ir2_opcode where "LISA_VDP4_D_HU \<equiv> 1132"
abbreviation (input) LISA_VDP4_Q_WU :: ir2_opcode where "LISA_VDP4_Q_WU \<equiv> 1133"
abbreviation (input) LISA_VDP4_W_BU_B :: ir2_opcode where "LISA_VDP4_W_BU_B \<equiv> 1134"
abbreviation (input) LISA_VDP4_D_HU_H :: ir2_opcode where "LISA_VDP4_D_HU_H \<equiv> 1135"
abbreviation (input) LISA_VDP4_Q_WU_W :: ir2_opcode where "LISA_VDP4_Q_WU_W \<equiv> 1136"
abbreviation (input) LISA_VDP4ADD_W_B :: ir2_opcode where "LISA_VDP4ADD_W_B \<equiv> 1137"
abbreviation (input) LISA_VDP4ADD_D_H :: ir2_opcode where "LISA_VDP4ADD_D_H \<equiv> 1138"
abbreviation (input) LISA_VDP4ADD_Q_W :: ir2_opcode where "LISA_VDP4ADD_Q_W \<equiv> 1139"
abbreviation (input) LISA_VDP4ADD_W_BU :: ir2_opcode where "LISA_VDP4ADD_W_BU \<equiv> 1140"
abbreviation (input) LISA_VDP4ADD_D_HU :: ir2_opcode where "LISA_VDP4ADD_D_HU \<equiv> 1141"
abbreviation (input) LISA_VDP4ADD_Q_WU :: ir2_opcode where "LISA_VDP4ADD_Q_WU \<equiv> 1142"
abbreviation (input) LISA_VDP4ADD_W_BU_B :: ir2_opcode where "LISA_VDP4ADD_W_BU_B \<equiv> 1143"
abbreviation (input) LISA_VDP4ADD_D_HU_H :: ir2_opcode where "LISA_VDP4ADD_D_HU_H \<equiv> 1144"
abbreviation (input) LISA_VDP4ADD_Q_WU_W :: ir2_opcode where "LISA_VDP4ADD_Q_WU_W \<equiv> 1145"
abbreviation (input) LISA_VDIV_B :: ir2_opcode where "LISA_VDIV_B \<equiv> 1146"
abbreviation (input) LISA_VDIV_H :: ir2_opcode where "LISA_VDIV_H \<equiv> 1147"
abbreviation (input) LISA_VDIV_W :: ir2_opcode where "LISA_VDIV_W \<equiv> 1148"
abbreviation (input) LISA_VDIV_D :: ir2_opcode where "LISA_VDIV_D \<equiv> 1149"
abbreviation (input) LISA_VMOD_B :: ir2_opcode where "LISA_VMOD_B \<equiv> 1150"
abbreviation (input) LISA_VMOD_H :: ir2_opcode where "LISA_VMOD_H \<equiv> 1151"
abbreviation (input) LISA_VMOD_W :: ir2_opcode where "LISA_VMOD_W \<equiv> 1152"
abbreviation (input) LISA_VMOD_D :: ir2_opcode where "LISA_VMOD_D \<equiv> 1153"
abbreviation (input) LISA_VDIV_BU :: ir2_opcode where "LISA_VDIV_BU \<equiv> 1154"
abbreviation (input) LISA_VDIV_HU :: ir2_opcode where "LISA_VDIV_HU \<equiv> 1155"
abbreviation (input) LISA_VDIV_WU :: ir2_opcode where "LISA_VDIV_WU \<equiv> 1156"
abbreviation (input) LISA_VDIV_DU :: ir2_opcode where "LISA_VDIV_DU \<equiv> 1157"
abbreviation (input) LISA_VMOD_BU :: ir2_opcode where "LISA_VMOD_BU \<equiv> 1158"
abbreviation (input) LISA_VMOD_HU :: ir2_opcode where "LISA_VMOD_HU \<equiv> 1159"
abbreviation (input) LISA_VMOD_WU :: ir2_opcode where "LISA_VMOD_WU \<equiv> 1160"
abbreviation (input) LISA_VMOD_DU :: ir2_opcode where "LISA_VMOD_DU \<equiv> 1161"
abbreviation (input) LISA_VSLL_B :: ir2_opcode where "LISA_VSLL_B \<equiv> 1162"
abbreviation (input) LISA_VSLL_H :: ir2_opcode where "LISA_VSLL_H \<equiv> 1163"
abbreviation (input) LISA_VSLL_W :: ir2_opcode where "LISA_VSLL_W \<equiv> 1164"
abbreviation (input) LISA_VSLL_D :: ir2_opcode where "LISA_VSLL_D \<equiv> 1165"
abbreviation (input) LISA_VSRL_B :: ir2_opcode where "LISA_VSRL_B \<equiv> 1166"
abbreviation (input) LISA_VSRL_H :: ir2_opcode where "LISA_VSRL_H \<equiv> 1167"
abbreviation (input) LISA_VSRL_W :: ir2_opcode where "LISA_VSRL_W \<equiv> 1168"
abbreviation (input) LISA_VSRL_D :: ir2_opcode where "LISA_VSRL_D \<equiv> 1169"
abbreviation (input) LISA_VSRA_B :: ir2_opcode where "LISA_VSRA_B \<equiv> 1170"
abbreviation (input) LISA_VSRA_H :: ir2_opcode where "LISA_VSRA_H \<equiv> 1171"
abbreviation (input) LISA_VSRA_W :: ir2_opcode where "LISA_VSRA_W \<equiv> 1172"
abbreviation (input) LISA_VSRA_D :: ir2_opcode where "LISA_VSRA_D \<equiv> 1173"
abbreviation (input) LISA_VROTR_B :: ir2_opcode where "LISA_VROTR_B \<equiv> 1174"
abbreviation (input) LISA_VROTR_H :: ir2_opcode where "LISA_VROTR_H \<equiv> 1175"
abbreviation (input) LISA_VROTR_W :: ir2_opcode where "LISA_VROTR_W \<equiv> 1176"
abbreviation (input) LISA_VROTR_D :: ir2_opcode where "LISA_VROTR_D \<equiv> 1177"
abbreviation (input) LISA_VSRLR_B :: ir2_opcode where "LISA_VSRLR_B \<equiv> 1178"
abbreviation (input) LISA_VSRLR_H :: ir2_opcode where "LISA_VSRLR_H \<equiv> 1179"
abbreviation (input) LISA_VSRLR_W :: ir2_opcode where "LISA_VSRLR_W \<equiv> 1180"
abbreviation (input) LISA_VSRLR_D :: ir2_opcode where "LISA_VSRLR_D \<equiv> 1181"
abbreviation (input) LISA_VSRAR_B :: ir2_opcode where "LISA_VSRAR_B \<equiv> 1182"
abbreviation (input) LISA_VSRAR_H :: ir2_opcode where "LISA_VSRAR_H \<equiv> 1183"
abbreviation (input) LISA_VSRAR_W :: ir2_opcode where "LISA_VSRAR_W \<equiv> 1184"
abbreviation (input) LISA_VSRAR_D :: ir2_opcode where "LISA_VSRAR_D \<equiv> 1185"
abbreviation (input) LISA_VSRLN_B_H :: ir2_opcode where "LISA_VSRLN_B_H \<equiv> 1186"
abbreviation (input) LISA_VSRLN_H_W :: ir2_opcode where "LISA_VSRLN_H_W \<equiv> 1187"
abbreviation (input) LISA_VSRLN_W_D :: ir2_opcode where "LISA_VSRLN_W_D \<equiv> 1188"
abbreviation (input) LISA_VSRAN_B_H :: ir2_opcode where "LISA_VSRAN_B_H \<equiv> 1189"
abbreviation (input) LISA_VSRAN_H_W :: ir2_opcode where "LISA_VSRAN_H_W \<equiv> 1190"
abbreviation (input) LISA_VSRAN_W_D :: ir2_opcode where "LISA_VSRAN_W_D \<equiv> 1191"
abbreviation (input) LISA_VSRLRN_B_H :: ir2_opcode where "LISA_VSRLRN_B_H \<equiv> 1192"
abbreviation (input) LISA_VSRLRN_H_W :: ir2_opcode where "LISA_VSRLRN_H_W \<equiv> 1193"
abbreviation (input) LISA_VSRLRN_W_D :: ir2_opcode where "LISA_VSRLRN_W_D \<equiv> 1194"
abbreviation (input) LISA_VSRARN_B_H :: ir2_opcode where "LISA_VSRARN_B_H \<equiv> 1195"
abbreviation (input) LISA_VSRARN_H_W :: ir2_opcode where "LISA_VSRARN_H_W \<equiv> 1196"
abbreviation (input) LISA_VSRARN_W_D :: ir2_opcode where "LISA_VSRARN_W_D \<equiv> 1197"
abbreviation (input) LISA_VSSRLN_B_H :: ir2_opcode where "LISA_VSSRLN_B_H \<equiv> 1198"
abbreviation (input) LISA_VSSRLN_H_W :: ir2_opcode where "LISA_VSSRLN_H_W \<equiv> 1199"
abbreviation (input) LISA_VSSRLN_W_D :: ir2_opcode where "LISA_VSSRLN_W_D \<equiv> 1200"
abbreviation (input) LISA_VSSRAN_B_H :: ir2_opcode where "LISA_VSSRAN_B_H \<equiv> 1201"
abbreviation (input) LISA_VSSRAN_H_W :: ir2_opcode where "LISA_VSSRAN_H_W \<equiv> 1202"
abbreviation (input) LISA_VSSRAN_W_D :: ir2_opcode where "LISA_VSSRAN_W_D \<equiv> 1203"
abbreviation (input) LISA_VSSRLRN_B_H :: ir2_opcode where "LISA_VSSRLRN_B_H \<equiv> 1204"
abbreviation (input) LISA_VSSRLRN_H_W :: ir2_opcode where "LISA_VSSRLRN_H_W \<equiv> 1205"
abbreviation (input) LISA_VSSRLRN_W_D :: ir2_opcode where "LISA_VSSRLRN_W_D \<equiv> 1206"
abbreviation (input) LISA_VSSRARN_B_H :: ir2_opcode where "LISA_VSSRARN_B_H \<equiv> 1207"
abbreviation (input) LISA_VSSRARN_H_W :: ir2_opcode where "LISA_VSSRARN_H_W \<equiv> 1208"
abbreviation (input) LISA_VSSRARN_W_D :: ir2_opcode where "LISA_VSSRARN_W_D \<equiv> 1209"
abbreviation (input) LISA_VSSRLN_BU_H :: ir2_opcode where "LISA_VSSRLN_BU_H \<equiv> 1210"
abbreviation (input) LISA_VSSRLN_HU_W :: ir2_opcode where "LISA_VSSRLN_HU_W \<equiv> 1211"
abbreviation (input) LISA_VSSRLN_WU_D :: ir2_opcode where "LISA_VSSRLN_WU_D \<equiv> 1212"
abbreviation (input) LISA_VSSRAN_BU_H :: ir2_opcode where "LISA_VSSRAN_BU_H \<equiv> 1213"
abbreviation (input) LISA_VSSRAN_HU_W :: ir2_opcode where "LISA_VSSRAN_HU_W \<equiv> 1214"
abbreviation (input) LISA_VSSRAN_WU_D :: ir2_opcode where "LISA_VSSRAN_WU_D \<equiv> 1215"
abbreviation (input) LISA_VSSRLRN_BU_H :: ir2_opcode where "LISA_VSSRLRN_BU_H \<equiv> 1216"
abbreviation (input) LISA_VSSRLRN_HU_W :: ir2_opcode where "LISA_VSSRLRN_HU_W \<equiv> 1217"
abbreviation (input) LISA_VSSRLRN_WU_D :: ir2_opcode where "LISA_VSSRLRN_WU_D \<equiv> 1218"
abbreviation (input) LISA_VSSRARN_BU_H :: ir2_opcode where "LISA_VSSRARN_BU_H \<equiv> 1219"
abbreviation (input) LISA_VSSRARN_HU_W :: ir2_opcode where "LISA_VSSRARN_HU_W \<equiv> 1220"
abbreviation (input) LISA_VSSRARN_WU_D :: ir2_opcode where "LISA_VSSRARN_WU_D \<equiv> 1221"
abbreviation (input) LISA_VBITCLR_B :: ir2_opcode where "LISA_VBITCLR_B \<equiv> 1222"
abbreviation (input) LISA_VBITCLR_H :: ir2_opcode where "LISA_VBITCLR_H \<equiv> 1223"
abbreviation (input) LISA_VBITCLR_W :: ir2_opcode where "LISA_VBITCLR_W \<equiv> 1224"
abbreviation (input) LISA_VBITCLR_D :: ir2_opcode where "LISA_VBITCLR_D \<equiv> 1225"
abbreviation (input) LISA_VBITSET_B :: ir2_opcode where "LISA_VBITSET_B \<equiv> 1226"
abbreviation (input) LISA_VBITSET_H :: ir2_opcode where "LISA_VBITSET_H \<equiv> 1227"
abbreviation (input) LISA_VBITSET_W :: ir2_opcode where "LISA_VBITSET_W \<equiv> 1228"
abbreviation (input) LISA_VBITSET_D :: ir2_opcode where "LISA_VBITSET_D \<equiv> 1229"
abbreviation (input) LISA_VBITREV_B :: ir2_opcode where "LISA_VBITREV_B \<equiv> 1230"
abbreviation (input) LISA_VBITREV_H :: ir2_opcode where "LISA_VBITREV_H \<equiv> 1231"
abbreviation (input) LISA_VBITREV_W :: ir2_opcode where "LISA_VBITREV_W \<equiv> 1232"
abbreviation (input) LISA_VBITREV_D :: ir2_opcode where "LISA_VBITREV_D \<equiv> 1233"
abbreviation (input) LISA_VBSTRC12_B :: ir2_opcode where "LISA_VBSTRC12_B \<equiv> 1234"
abbreviation (input) LISA_VBSTRC12_H :: ir2_opcode where "LISA_VBSTRC12_H \<equiv> 1235"
abbreviation (input) LISA_VBSTRC12_W :: ir2_opcode where "LISA_VBSTRC12_W \<equiv> 1236"
abbreviation (input) LISA_VBSTRC12_D :: ir2_opcode where "LISA_VBSTRC12_D \<equiv> 1237"
abbreviation (input) LISA_VBSTRC21_B :: ir2_opcode where "LISA_VBSTRC21_B \<equiv> 1238"
abbreviation (input) LISA_VBSTRC21_H :: ir2_opcode where "LISA_VBSTRC21_H \<equiv> 1239"
abbreviation (input) LISA_VBSTRC21_W :: ir2_opcode where "LISA_VBSTRC21_W \<equiv> 1240"
abbreviation (input) LISA_VBSTRC21_D :: ir2_opcode where "LISA_VBSTRC21_D \<equiv> 1241"
abbreviation (input) LISA_VPACKEV_B :: ir2_opcode where "LISA_VPACKEV_B \<equiv> 1242"
abbreviation (input) LISA_VPACKEV_H :: ir2_opcode where "LISA_VPACKEV_H \<equiv> 1243"
abbreviation (input) LISA_VPACKEV_W :: ir2_opcode where "LISA_VPACKEV_W \<equiv> 1244"
abbreviation (input) LISA_VPACKEV_D :: ir2_opcode where "LISA_VPACKEV_D \<equiv> 1245"
abbreviation (input) LISA_VPACKOD_B :: ir2_opcode where "LISA_VPACKOD_B \<equiv> 1246"
abbreviation (input) LISA_VPACKOD_H :: ir2_opcode where "LISA_VPACKOD_H \<equiv> 1247"
abbreviation (input) LISA_VPACKOD_W :: ir2_opcode where "LISA_VPACKOD_W \<equiv> 1248"
abbreviation (input) LISA_VPACKOD_D :: ir2_opcode where "LISA_VPACKOD_D \<equiv> 1249"
abbreviation (input) LISA_VILVL_B :: ir2_opcode where "LISA_VILVL_B \<equiv> 1250"
abbreviation (input) LISA_VILVL_H :: ir2_opcode where "LISA_VILVL_H \<equiv> 1251"
abbreviation (input) LISA_VILVL_W :: ir2_opcode where "LISA_VILVL_W \<equiv> 1252"
abbreviation (input) LISA_VILVL_D :: ir2_opcode where "LISA_VILVL_D \<equiv> 1253"
abbreviation (input) LISA_VILVH_B :: ir2_opcode where "LISA_VILVH_B \<equiv> 1254"
abbreviation (input) LISA_VILVH_H :: ir2_opcode where "LISA_VILVH_H \<equiv> 1255"
abbreviation (input) LISA_VILVH_W :: ir2_opcode where "LISA_VILVH_W \<equiv> 1256"
abbreviation (input) LISA_VILVH_D :: ir2_opcode where "LISA_VILVH_D \<equiv> 1257"
abbreviation (input) LISA_VPICKEV_B :: ir2_opcode where "LISA_VPICKEV_B \<equiv> 1258"
abbreviation (input) LISA_VPICKEV_H :: ir2_opcode where "LISA_VPICKEV_H \<equiv> 1259"
abbreviation (input) LISA_VPICKEV_W :: ir2_opcode where "LISA_VPICKEV_W \<equiv> 1260"
abbreviation (input) LISA_VPICKEV_D :: ir2_opcode where "LISA_VPICKEV_D \<equiv> 1261"
abbreviation (input) LISA_VPICKOD_B :: ir2_opcode where "LISA_VPICKOD_B \<equiv> 1262"
abbreviation (input) LISA_VPICKOD_H :: ir2_opcode where "LISA_VPICKOD_H \<equiv> 1263"
abbreviation (input) LISA_VPICKOD_W :: ir2_opcode where "LISA_VPICKOD_W \<equiv> 1264"
abbreviation (input) LISA_VPICKOD_D :: ir2_opcode where "LISA_VPICKOD_D \<equiv> 1265"
abbreviation (input) LISA_VREPLVE_B :: ir2_opcode where "LISA_VREPLVE_B \<equiv> 1266"
abbreviation (input) LISA_VREPLVE_H :: ir2_opcode where "LISA_VREPLVE_H \<equiv> 1267"
abbreviation (input) LISA_VREPLVE_W :: ir2_opcode where "LISA_VREPLVE_W \<equiv> 1268"
abbreviation (input) LISA_VREPLVE_D :: ir2_opcode where "LISA_VREPLVE_D \<equiv> 1269"
abbreviation (input) LISA_VEXTRCOL_B :: ir2_opcode where "LISA_VEXTRCOL_B \<equiv> 1270"
abbreviation (input) LISA_VEXTRCOL_H :: ir2_opcode where "LISA_VEXTRCOL_H \<equiv> 1271"
abbreviation (input) LISA_VEXTRCOL_W :: ir2_opcode where "LISA_VEXTRCOL_W \<equiv> 1272"
abbreviation (input) LISA_VEXTRCOL_D :: ir2_opcode where "LISA_VEXTRCOL_D \<equiv> 1273"
abbreviation (input) LISA_VAND_V :: ir2_opcode where "LISA_VAND_V \<equiv> 1274"
abbreviation (input) LISA_VOR_V :: ir2_opcode where "LISA_VOR_V \<equiv> 1275"
abbreviation (input) LISA_VXOR_V :: ir2_opcode where "LISA_VXOR_V \<equiv> 1276"
abbreviation (input) LISA_VNOR_V :: ir2_opcode where "LISA_VNOR_V \<equiv> 1277"
abbreviation (input) LISA_VANDN_V :: ir2_opcode where "LISA_VANDN_V \<equiv> 1278"
abbreviation (input) LISA_VORN_V :: ir2_opcode where "LISA_VORN_V \<equiv> 1279"
abbreviation (input) LISA_VRANDSIGN_B :: ir2_opcode where "LISA_VRANDSIGN_B \<equiv> 1280"
abbreviation (input) LISA_VRANDSIGN_H :: ir2_opcode where "LISA_VRANDSIGN_H \<equiv> 1281"
abbreviation (input) LISA_VRORSIGN_B :: ir2_opcode where "LISA_VRORSIGN_B \<equiv> 1282"
abbreviation (input) LISA_VRORSIGN_H :: ir2_opcode where "LISA_VRORSIGN_H \<equiv> 1283"
abbreviation (input) LISA_VFRSTP_B :: ir2_opcode where "LISA_VFRSTP_B \<equiv> 1284"
abbreviation (input) LISA_VFRSTP_H :: ir2_opcode where "LISA_VFRSTP_H \<equiv> 1285"
abbreviation (input) LISA_VCLRSTRR_V :: ir2_opcode where "LISA_VCLRSTRR_V \<equiv> 1286"
abbreviation (input) LISA_VCLRSTRV_V :: ir2_opcode where "LISA_VCLRSTRV_V \<equiv> 1287"
abbreviation (input) LISA_VADD_Q :: ir2_opcode where "LISA_VADD_Q \<equiv> 1288"
abbreviation (input) LISA_VSUB_Q :: ir2_opcode where "LISA_VSUB_Q \<equiv> 1289"
abbreviation (input) LISA_VSIGNCOV_B :: ir2_opcode where "LISA_VSIGNCOV_B \<equiv> 1290"
abbreviation (input) LISA_VSIGNCOV_H :: ir2_opcode where "LISA_VSIGNCOV_H \<equiv> 1291"
abbreviation (input) LISA_VSIGNCOV_W :: ir2_opcode where "LISA_VSIGNCOV_W \<equiv> 1292"
abbreviation (input) LISA_VSIGNCOV_D :: ir2_opcode where "LISA_VSIGNCOV_D \<equiv> 1293"
abbreviation (input) LISA_VFADD_S :: ir2_opcode where "LISA_VFADD_S \<equiv> 1294"
abbreviation (input) LISA_VFADD_D :: ir2_opcode where "LISA_VFADD_D \<equiv> 1295"
abbreviation (input) LISA_VFSUB_S :: ir2_opcode where "LISA_VFSUB_S \<equiv> 1296"
abbreviation (input) LISA_VFSUB_D :: ir2_opcode where "LISA_VFSUB_D \<equiv> 1297"
abbreviation (input) LISA_VFADDSUB_S :: ir2_opcode where "LISA_VFADDSUB_S \<equiv> 1298"
abbreviation (input) LISA_VFADDSUB_D :: ir2_opcode where "LISA_VFADDSUB_D \<equiv> 1299"
abbreviation (input) LISA_VFSUBADD_S :: ir2_opcode where "LISA_VFSUBADD_S \<equiv> 1300"
abbreviation (input) LISA_VFSUBADD_D :: ir2_opcode where "LISA_VFSUBADD_D \<equiv> 1301"
abbreviation (input) LISA_VFMUL_S :: ir2_opcode where "LISA_VFMUL_S \<equiv> 1302"
abbreviation (input) LISA_VFMUL_D :: ir2_opcode where "LISA_VFMUL_D \<equiv> 1303"
abbreviation (input) LISA_VFDIV_S :: ir2_opcode where "LISA_VFDIV_S \<equiv> 1304"
abbreviation (input) LISA_VFDIV_D :: ir2_opcode where "LISA_VFDIV_D \<equiv> 1305"
abbreviation (input) LISA_VFMAX_S :: ir2_opcode where "LISA_VFMAX_S \<equiv> 1306"
abbreviation (input) LISA_VFMAX_D :: ir2_opcode where "LISA_VFMAX_D \<equiv> 1307"
abbreviation (input) LISA_VFMIN_S :: ir2_opcode where "LISA_VFMIN_S \<equiv> 1308"
abbreviation (input) LISA_VFMIN_D :: ir2_opcode where "LISA_VFMIN_D \<equiv> 1309"
abbreviation (input) LISA_VFMAXA_S :: ir2_opcode where "LISA_VFMAXA_S \<equiv> 1310"
abbreviation (input) LISA_VFMAXA_D :: ir2_opcode where "LISA_VFMAXA_D \<equiv> 1311"
abbreviation (input) LISA_VFMINA_S :: ir2_opcode where "LISA_VFMINA_S \<equiv> 1312"
abbreviation (input) LISA_VFMINA_D :: ir2_opcode where "LISA_VFMINA_D \<equiv> 1313"
abbreviation (input) LISA_VFSCALEB_S :: ir2_opcode where "LISA_VFSCALEB_S \<equiv> 1314"
abbreviation (input) LISA_VFSCALEB_D :: ir2_opcode where "LISA_VFSCALEB_D \<equiv> 1315"
abbreviation (input) LISA_VFCVT_H_S :: ir2_opcode where "LISA_VFCVT_H_S \<equiv> 1316"
abbreviation (input) LISA_VFCVT_S_D :: ir2_opcode where "LISA_VFCVT_S_D \<equiv> 1317"
abbreviation (input) LISA_VFFINT_S_L :: ir2_opcode where "LISA_VFFINT_S_L \<equiv> 1318"
abbreviation (input) LISA_VFTINT_W_D :: ir2_opcode where "LISA_VFTINT_W_D \<equiv> 1319"
abbreviation (input) LISA_VFTINTRM_W_D :: ir2_opcode where "LISA_VFTINTRM_W_D \<equiv> 1320"
abbreviation (input) LISA_VFTINTRP_W_D :: ir2_opcode where "LISA_VFTINTRP_W_D \<equiv> 1321"
abbreviation (input) LISA_VFTINTRZ_W_D :: ir2_opcode where "LISA_VFTINTRZ_W_D \<equiv> 1322"
abbreviation (input) LISA_VFTINTRNE_W_D :: ir2_opcode where "LISA_VFTINTRNE_W_D \<equiv> 1323"
abbreviation (input) LISA_VHADD4_H_BU :: ir2_opcode where "LISA_VHADD4_H_BU \<equiv> 1324"
abbreviation (input) LISA_VSHUF4_W :: ir2_opcode where "LISA_VSHUF4_W \<equiv> 1325"
abbreviation (input) LISA_VSHUF2_D :: ir2_opcode where "LISA_VSHUF2_D \<equiv> 1326"
abbreviation (input) LISA_AES128_ENC :: ir2_opcode where "LISA_AES128_ENC \<equiv> 1327"
abbreviation (input) LISA_AES128_DEC :: ir2_opcode where "LISA_AES128_DEC \<equiv> 1328"
abbreviation (input) LISA_AES192_ENC :: ir2_opcode where "LISA_AES192_ENC \<equiv> 1329"
abbreviation (input) LISA_AES192_DEC :: ir2_opcode where "LISA_AES192_DEC \<equiv> 1330"
abbreviation (input) LISA_AES256_ENC :: ir2_opcode where "LISA_AES256_ENC \<equiv> 1331"
abbreviation (input) LISA_AES256_DEC :: ir2_opcode where "LISA_AES256_DEC \<equiv> 1332"
abbreviation (input) LISA_AES_KG :: ir2_opcode where "LISA_AES_KG \<equiv> 1333"
abbreviation (input) LISA_AES_FR_ENC :: ir2_opcode where "LISA_AES_FR_ENC \<equiv> 1334"
abbreviation (input) LISA_AES_FR_DEC :: ir2_opcode where "LISA_AES_FR_DEC \<equiv> 1335"
abbreviation (input) LISA_AES_LR_ENC :: ir2_opcode where "LISA_AES_LR_ENC \<equiv> 1336"
abbreviation (input) LISA_AES_LR_DEC :: ir2_opcode where "LISA_AES_LR_DEC \<equiv> 1337"
abbreviation (input) LISA_AES_MC_ENC :: ir2_opcode where "LISA_AES_MC_ENC \<equiv> 1338"
abbreviation (input) LISA_AES_MC_DEC :: ir2_opcode where "LISA_AES_MC_DEC \<equiv> 1339"
abbreviation (input) LISA_AES_SB_ENC :: ir2_opcode where "LISA_AES_SB_ENC \<equiv> 1340"
abbreviation (input) LISA_AES_SB_DEC :: ir2_opcode where "LISA_AES_SB_DEC \<equiv> 1341"
abbreviation (input) LISA_AES_SR_ENC :: ir2_opcode where "LISA_AES_SR_ENC \<equiv> 1342"
abbreviation (input) LISA_AES_SR_DEC :: ir2_opcode where "LISA_AES_SR_DEC \<equiv> 1343"
abbreviation (input) LISA_MD5_MS :: ir2_opcode where "LISA_MD5_MS \<equiv> 1344"
abbreviation (input) LISA_MD5_4R :: ir2_opcode where "LISA_MD5_4R \<equiv> 1345"
abbreviation (input) LISA_SHA1_MS_1 :: ir2_opcode where "LISA_SHA1_MS_1 \<equiv> 1346"
abbreviation (input) LISA_SHA1_MS_2 :: ir2_opcode where "LISA_SHA1_MS_2 \<equiv> 1347"
abbreviation (input) LISA_SHA1_HASH_4R :: ir2_opcode where "LISA_SHA1_HASH_4R \<equiv> 1348"
abbreviation (input) LISA_SHA256_MS_1 :: ir2_opcode where "LISA_SHA256_MS_1 \<equiv> 1349"
abbreviation (input) LISA_SHA256_MS_2 :: ir2_opcode where "LISA_SHA256_MS_2 \<equiv> 1350"
abbreviation (input) LISA_SHA256_HASH_2R :: ir2_opcode where "LISA_SHA256_HASH_2R \<equiv> 1351"
abbreviation (input) LISA_SHA512_MS_1 :: ir2_opcode where "LISA_SHA512_MS_1 \<equiv> 1352"
abbreviation (input) LISA_SHA512_MS_2 :: ir2_opcode where "LISA_SHA512_MS_2 \<equiv> 1353"
abbreviation (input) LISA_SHA512_HASH_R_1 :: ir2_opcode where "LISA_SHA512_HASH_R_1 \<equiv> 1354"
abbreviation (input) LISA_SHA512_HASH_R_2 :: ir2_opcode where "LISA_SHA512_HASH_R_2 \<equiv> 1355"
abbreviation (input) LISA_VPMUL_W :: ir2_opcode where "LISA_VPMUL_W \<equiv> 1356"
abbreviation (input) LISA_VPMUL_D :: ir2_opcode where "LISA_VPMUL_D \<equiv> 1357"
abbreviation (input) LISA_VPMUH_W :: ir2_opcode where "LISA_VPMUH_W \<equiv> 1358"
abbreviation (input) LISA_VPMUH_D :: ir2_opcode where "LISA_VPMUH_D \<equiv> 1359"
abbreviation (input) LISA_VPMULACC_W :: ir2_opcode where "LISA_VPMULACC_W \<equiv> 1360"
abbreviation (input) LISA_VPMULACC_D :: ir2_opcode where "LISA_VPMULACC_D \<equiv> 1361"
abbreviation (input) LISA_VPMUHACC_W :: ir2_opcode where "LISA_VPMUHACC_W \<equiv> 1362"
abbreviation (input) LISA_VPMUHACC_D :: ir2_opcode where "LISA_VPMUHACC_D \<equiv> 1363"
abbreviation (input) LISA_VPMULWL_H_B :: ir2_opcode where "LISA_VPMULWL_H_B \<equiv> 1364"
abbreviation (input) LISA_VPMULWL_W_H :: ir2_opcode where "LISA_VPMULWL_W_H \<equiv> 1365"
abbreviation (input) LISA_VPMULWL_D_W :: ir2_opcode where "LISA_VPMULWL_D_W \<equiv> 1366"
abbreviation (input) LISA_VPMULWL_Q_D :: ir2_opcode where "LISA_VPMULWL_Q_D \<equiv> 1367"
abbreviation (input) LISA_VPMULWH_H_B :: ir2_opcode where "LISA_VPMULWH_H_B \<equiv> 1368"
abbreviation (input) LISA_VPMULWH_W_H :: ir2_opcode where "LISA_VPMULWH_W_H \<equiv> 1369"
abbreviation (input) LISA_VPMULWH_D_W :: ir2_opcode where "LISA_VPMULWH_D_W \<equiv> 1370"
abbreviation (input) LISA_VPMULWH_Q_D :: ir2_opcode where "LISA_VPMULWH_Q_D \<equiv> 1371"
abbreviation (input) LISA_VPMADDWL_H_B :: ir2_opcode where "LISA_VPMADDWL_H_B \<equiv> 1372"
abbreviation (input) LISA_VPMADDWL_W_H :: ir2_opcode where "LISA_VPMADDWL_W_H \<equiv> 1373"
abbreviation (input) LISA_VPMADDWL_D_W :: ir2_opcode where "LISA_VPMADDWL_D_W \<equiv> 1374"
abbreviation (input) LISA_VPMADDWL_Q_D :: ir2_opcode where "LISA_VPMADDWL_Q_D \<equiv> 1375"
abbreviation (input) LISA_VPMADDWH_H_B :: ir2_opcode where "LISA_VPMADDWH_H_B \<equiv> 1376"
abbreviation (input) LISA_VPMADDWH_W_H :: ir2_opcode where "LISA_VPMADDWH_W_H \<equiv> 1377"
abbreviation (input) LISA_VPMADDWH_D_W :: ir2_opcode where "LISA_VPMADDWH_D_W \<equiv> 1378"
abbreviation (input) LISA_VPMADDWH_Q_D :: ir2_opcode where "LISA_VPMADDWH_Q_D \<equiv> 1379"
abbreviation (input) LISA_VPDP2_Q_D :: ir2_opcode where "LISA_VPDP2_Q_D \<equiv> 1380"
abbreviation (input) LISA_VPDP2ADD_Q_D :: ir2_opcode where "LISA_VPDP2ADD_Q_D \<equiv> 1381"
abbreviation (input) LISA_VCDP4_RE_D_H :: ir2_opcode where "LISA_VCDP4_RE_D_H \<equiv> 1382"
abbreviation (input) LISA_VCDP4_IM_D_H :: ir2_opcode where "LISA_VCDP4_IM_D_H \<equiv> 1383"
abbreviation (input) LISA_VCDP4ADD_RE_D_H :: ir2_opcode where "LISA_VCDP4ADD_RE_D_H \<equiv> 1384"
abbreviation (input) LISA_VCDP4ADD_IM_D_H :: ir2_opcode where "LISA_VCDP4ADD_IM_D_H \<equiv> 1385"
abbreviation (input) LISA_VCDP2_RE_Q_W :: ir2_opcode where "LISA_VCDP2_RE_Q_W \<equiv> 1386"
abbreviation (input) LISA_VCDP2_IM_Q_W :: ir2_opcode where "LISA_VCDP2_IM_Q_W \<equiv> 1387"
abbreviation (input) LISA_VCDP2ADD_RE_Q_W :: ir2_opcode where "LISA_VCDP2ADD_RE_Q_W \<equiv> 1388"
abbreviation (input) LISA_VCDP2ADD_IM_Q_W :: ir2_opcode where "LISA_VCDP2ADD_IM_Q_W \<equiv> 1389"
abbreviation (input) LISA_VSIGNSEL_W :: ir2_opcode where "LISA_VSIGNSEL_W \<equiv> 1390"
abbreviation (input) LISA_VSIGNSEL_D :: ir2_opcode where "LISA_VSIGNSEL_D \<equiv> 1391"
abbreviation (input) LISA_VSHUF_H :: ir2_opcode where "LISA_VSHUF_H \<equiv> 1392"
abbreviation (input) LISA_VSHUF_W :: ir2_opcode where "LISA_VSHUF_W \<equiv> 1393"
abbreviation (input) LISA_VSHUF_D :: ir2_opcode where "LISA_VSHUF_D \<equiv> 1394"
abbreviation (input) LISA_VSEQI_B :: ir2_opcode where "LISA_VSEQI_B \<equiv> 1395"
abbreviation (input) LISA_VSEQI_H :: ir2_opcode where "LISA_VSEQI_H \<equiv> 1396"
abbreviation (input) LISA_VSEQI_W :: ir2_opcode where "LISA_VSEQI_W \<equiv> 1397"
abbreviation (input) LISA_VSEQI_D :: ir2_opcode where "LISA_VSEQI_D \<equiv> 1398"
abbreviation (input) LISA_VSLEI_B :: ir2_opcode where "LISA_VSLEI_B \<equiv> 1399"
abbreviation (input) LISA_VSLEI_H :: ir2_opcode where "LISA_VSLEI_H \<equiv> 1400"
abbreviation (input) LISA_VSLEI_W :: ir2_opcode where "LISA_VSLEI_W \<equiv> 1401"
abbreviation (input) LISA_VSLEI_D :: ir2_opcode where "LISA_VSLEI_D \<equiv> 1402"
abbreviation (input) LISA_VSLEI_BU :: ir2_opcode where "LISA_VSLEI_BU \<equiv> 1403"
abbreviation (input) LISA_VSLEI_HU :: ir2_opcode where "LISA_VSLEI_HU \<equiv> 1404"
abbreviation (input) LISA_VSLEI_WU :: ir2_opcode where "LISA_VSLEI_WU \<equiv> 1405"
abbreviation (input) LISA_VSLEI_DU :: ir2_opcode where "LISA_VSLEI_DU \<equiv> 1406"
abbreviation (input) LISA_VSLTI_B :: ir2_opcode where "LISA_VSLTI_B \<equiv> 1407"
abbreviation (input) LISA_VSLTI_H :: ir2_opcode where "LISA_VSLTI_H \<equiv> 1408"
abbreviation (input) LISA_VSLTI_W :: ir2_opcode where "LISA_VSLTI_W \<equiv> 1409"
abbreviation (input) LISA_VSLTI_D :: ir2_opcode where "LISA_VSLTI_D \<equiv> 1410"
abbreviation (input) LISA_VSLTI_BU :: ir2_opcode where "LISA_VSLTI_BU \<equiv> 1411"
abbreviation (input) LISA_VSLTI_HU :: ir2_opcode where "LISA_VSLTI_HU \<equiv> 1412"
abbreviation (input) LISA_VSLTI_WU :: ir2_opcode where "LISA_VSLTI_WU \<equiv> 1413"
abbreviation (input) LISA_VSLTI_DU :: ir2_opcode where "LISA_VSLTI_DU \<equiv> 1414"
abbreviation (input) LISA_VADDI_BU :: ir2_opcode where "LISA_VADDI_BU \<equiv> 1415"
abbreviation (input) LISA_VADDI_HU :: ir2_opcode where "LISA_VADDI_HU \<equiv> 1416"
abbreviation (input) LISA_VADDI_WU :: ir2_opcode where "LISA_VADDI_WU \<equiv> 1417"
abbreviation (input) LISA_VADDI_DU :: ir2_opcode where "LISA_VADDI_DU \<equiv> 1418"
abbreviation (input) LISA_VSUBI_BU :: ir2_opcode where "LISA_VSUBI_BU \<equiv> 1419"
abbreviation (input) LISA_VSUBI_HU :: ir2_opcode where "LISA_VSUBI_HU \<equiv> 1420"
abbreviation (input) LISA_VSUBI_WU :: ir2_opcode where "LISA_VSUBI_WU \<equiv> 1421"
abbreviation (input) LISA_VSUBI_DU :: ir2_opcode where "LISA_VSUBI_DU \<equiv> 1422"
abbreviation (input) LISA_VBSLL_V :: ir2_opcode where "LISA_VBSLL_V \<equiv> 1423"
abbreviation (input) LISA_VBSRL_V :: ir2_opcode where "LISA_VBSRL_V \<equiv> 1424"
abbreviation (input) LISA_VMAXI_B :: ir2_opcode where "LISA_VMAXI_B \<equiv> 1425"
abbreviation (input) LISA_VMAXI_H :: ir2_opcode where "LISA_VMAXI_H \<equiv> 1426"
abbreviation (input) LISA_VMAXI_W :: ir2_opcode where "LISA_VMAXI_W \<equiv> 1427"
abbreviation (input) LISA_VMAXI_D :: ir2_opcode where "LISA_VMAXI_D \<equiv> 1428"
abbreviation (input) LISA_VMINI_B :: ir2_opcode where "LISA_VMINI_B \<equiv> 1429"
abbreviation (input) LISA_VMINI_H :: ir2_opcode where "LISA_VMINI_H \<equiv> 1430"
abbreviation (input) LISA_VMINI_W :: ir2_opcode where "LISA_VMINI_W \<equiv> 1431"
abbreviation (input) LISA_VMINI_D :: ir2_opcode where "LISA_VMINI_D \<equiv> 1432"
abbreviation (input) LISA_VMAXI_BU :: ir2_opcode where "LISA_VMAXI_BU \<equiv> 1433"
abbreviation (input) LISA_VMAXI_HU :: ir2_opcode where "LISA_VMAXI_HU \<equiv> 1434"
abbreviation (input) LISA_VMAXI_WU :: ir2_opcode where "LISA_VMAXI_WU \<equiv> 1435"
abbreviation (input) LISA_VMAXI_DU :: ir2_opcode where "LISA_VMAXI_DU \<equiv> 1436"
abbreviation (input) LISA_VMINI_BU :: ir2_opcode where "LISA_VMINI_BU \<equiv> 1437"
abbreviation (input) LISA_VMINI_HU :: ir2_opcode where "LISA_VMINI_HU \<equiv> 1438"
abbreviation (input) LISA_VMINI_WU :: ir2_opcode where "LISA_VMINI_WU \<equiv> 1439"
abbreviation (input) LISA_VMINI_DU :: ir2_opcode where "LISA_VMINI_DU \<equiv> 1440"
abbreviation (input) LISA_VRANDSIGNI_B :: ir2_opcode where "LISA_VRANDSIGNI_B \<equiv> 1441"
abbreviation (input) LISA_VRANDSIGNI_H :: ir2_opcode where "LISA_VRANDSIGNI_H \<equiv> 1442"
abbreviation (input) LISA_VRORSIGNI_B :: ir2_opcode where "LISA_VRORSIGNI_B \<equiv> 1443"
abbreviation (input) LISA_VRORSIGNI_H :: ir2_opcode where "LISA_VRORSIGNI_H \<equiv> 1444"
abbreviation (input) LISA_VFRSTPI_B :: ir2_opcode where "LISA_VFRSTPI_B \<equiv> 1445"
abbreviation (input) LISA_VFRSTPI_H :: ir2_opcode where "LISA_VFRSTPI_H \<equiv> 1446"
abbreviation (input) LISA_VCLRSTRI_V :: ir2_opcode where "LISA_VCLRSTRI_V \<equiv> 1447"
abbreviation (input) LISA_VMEPATMSK_V :: ir2_opcode where "LISA_VMEPATMSK_V \<equiv> 1448"
abbreviation (input) LISA_VCLO_B :: ir2_opcode where "LISA_VCLO_B \<equiv> 1449"
abbreviation (input) LISA_VCLO_H :: ir2_opcode where "LISA_VCLO_H \<equiv> 1450"
abbreviation (input) LISA_VCLO_W :: ir2_opcode where "LISA_VCLO_W \<equiv> 1451"
abbreviation (input) LISA_VCLO_D :: ir2_opcode where "LISA_VCLO_D \<equiv> 1452"
abbreviation (input) LISA_VCLZ_B :: ir2_opcode where "LISA_VCLZ_B \<equiv> 1453"
abbreviation (input) LISA_VCLZ_H :: ir2_opcode where "LISA_VCLZ_H \<equiv> 1454"
abbreviation (input) LISA_VCLZ_W :: ir2_opcode where "LISA_VCLZ_W \<equiv> 1455"
abbreviation (input) LISA_VCLZ_D :: ir2_opcode where "LISA_VCLZ_D \<equiv> 1456"
abbreviation (input) LISA_VPCNT_B :: ir2_opcode where "LISA_VPCNT_B \<equiv> 1457"
abbreviation (input) LISA_VPCNT_H :: ir2_opcode where "LISA_VPCNT_H \<equiv> 1458"
abbreviation (input) LISA_VPCNT_W :: ir2_opcode where "LISA_VPCNT_W \<equiv> 1459"
abbreviation (input) LISA_VPCNT_D :: ir2_opcode where "LISA_VPCNT_D \<equiv> 1460"
abbreviation (input) LISA_VNEG_B :: ir2_opcode where "LISA_VNEG_B \<equiv> 1461"
abbreviation (input) LISA_VNEG_H :: ir2_opcode where "LISA_VNEG_H \<equiv> 1462"
abbreviation (input) LISA_VNEG_W :: ir2_opcode where "LISA_VNEG_W \<equiv> 1463"
abbreviation (input) LISA_VNEG_D :: ir2_opcode where "LISA_VNEG_D \<equiv> 1464"
abbreviation (input) LISA_VMSKLTZ_B :: ir2_opcode where "LISA_VMSKLTZ_B \<equiv> 1465"
abbreviation (input) LISA_VMSKLTZ_H :: ir2_opcode where "LISA_VMSKLTZ_H \<equiv> 1466"
abbreviation (input) LISA_VMSKLTZ_W :: ir2_opcode where "LISA_VMSKLTZ_W \<equiv> 1467"
abbreviation (input) LISA_VMSKLTZ_D :: ir2_opcode where "LISA_VMSKLTZ_D \<equiv> 1468"
abbreviation (input) LISA_VMSKGEZ_B :: ir2_opcode where "LISA_VMSKGEZ_B \<equiv> 1469"
abbreviation (input) LISA_VMSKNZ_B :: ir2_opcode where "LISA_VMSKNZ_B \<equiv> 1470"
abbreviation (input) LISA_VMSKCOPY_B :: ir2_opcode where "LISA_VMSKCOPY_B \<equiv> 1471"
abbreviation (input) LISA_VMSKFILL_B :: ir2_opcode where "LISA_VMSKFILL_B \<equiv> 1472"
abbreviation (input) LISA_VFRSTM_B :: ir2_opcode where "LISA_VFRSTM_B \<equiv> 1473"
abbreviation (input) LISA_VFRSTM_H :: ir2_opcode where "LISA_VFRSTM_H \<equiv> 1474"
abbreviation (input) LISA_VSETEQZ_V :: ir2_opcode where "LISA_VSETEQZ_V \<equiv> 1475"
abbreviation (input) LISA_VSETNEZ_V :: ir2_opcode where "LISA_VSETNEZ_V \<equiv> 1476"
abbreviation (input) LISA_VSETANYEQZ_B :: ir2_opcode where "LISA_VSETANYEQZ_B \<equiv> 1477"
abbreviation (input) LISA_VSETANYEQZ_H :: ir2_opcode where "LISA_VSETANYEQZ_H \<equiv> 1478"
abbreviation (input) LISA_VSETANYEQZ_W :: ir2_opcode where "LISA_VSETANYEQZ_W \<equiv> 1479"
abbreviation (input) LISA_VSETANYEQZ_D :: ir2_opcode where "LISA_VSETANYEQZ_D \<equiv> 1480"
abbreviation (input) LISA_VSETALLNEZ_B :: ir2_opcode where "LISA_VSETALLNEZ_B \<equiv> 1481"
abbreviation (input) LISA_VSETALLNEZ_H :: ir2_opcode where "LISA_VSETALLNEZ_H \<equiv> 1482"
abbreviation (input) LISA_VSETALLNEZ_W :: ir2_opcode where "LISA_VSETALLNEZ_W \<equiv> 1483"
abbreviation (input) LISA_VSETALLNEZ_D :: ir2_opcode where "LISA_VSETALLNEZ_D \<equiv> 1484"
abbreviation (input) LISA_VFLOGB_S :: ir2_opcode where "LISA_VFLOGB_S \<equiv> 1485"
abbreviation (input) LISA_VFLOGB_D :: ir2_opcode where "LISA_VFLOGB_D \<equiv> 1486"
abbreviation (input) LISA_VFCLASS_S :: ir2_opcode where "LISA_VFCLASS_S \<equiv> 1487"
abbreviation (input) LISA_VFCLASS_D :: ir2_opcode where "LISA_VFCLASS_D \<equiv> 1488"
abbreviation (input) LISA_VFSQRT_S :: ir2_opcode where "LISA_VFSQRT_S \<equiv> 1489"
abbreviation (input) LISA_VFSQRT_D :: ir2_opcode where "LISA_VFSQRT_D \<equiv> 1490"
abbreviation (input) LISA_VFRECIP_S :: ir2_opcode where "LISA_VFRECIP_S \<equiv> 1491"
abbreviation (input) LISA_VFRECIP_D :: ir2_opcode where "LISA_VFRECIP_D \<equiv> 1492"
abbreviation (input) LISA_VFRSQRT_S :: ir2_opcode where "LISA_VFRSQRT_S \<equiv> 1493"
abbreviation (input) LISA_VFRSQRT_D :: ir2_opcode where "LISA_VFRSQRT_D \<equiv> 1494"
abbreviation (input) LISA_VFRINT_S :: ir2_opcode where "LISA_VFRINT_S \<equiv> 1495"
abbreviation (input) LISA_VFRINT_D :: ir2_opcode where "LISA_VFRINT_D \<equiv> 1496"
abbreviation (input) LISA_VFRINTRM_S :: ir2_opcode where "LISA_VFRINTRM_S \<equiv> 1497"
abbreviation (input) LISA_VFRINTRM_D :: ir2_opcode where "LISA_VFRINTRM_D \<equiv> 1498"
abbreviation (input) LISA_VFRINTRP_S :: ir2_opcode where "LISA_VFRINTRP_S \<equiv> 1499"
abbreviation (input) LISA_VFRINTRP_D :: ir2_opcode where "LISA_VFRINTRP_D \<equiv> 1500"
abbreviation (input) LISA_VFRINTRZ_S :: ir2_opcode where "LISA_VFRINTRZ_S \<equiv> 1501"
abbreviation (input) LISA_VFRINTRZ_D :: ir2_opcode where "LISA_VFRINTRZ_D \<equiv> 1502"
abbreviation (input) LISA_VFRINTRNE_S :: ir2_opcode where "LISA_VFRINTRNE_S \<equiv> 1503"
abbreviation (input) LISA_VFRINTRNE_D :: ir2_opcode where "LISA_VFRINTRNE_D \<equiv> 1504"
abbreviation (input) LISA_VEXTL_W_B :: ir2_opcode where "LISA_VEXTL_W_B \<equiv> 1505"
abbreviation (input) LISA_VEXTL_D_B :: ir2_opcode where "LISA_VEXTL_D_B \<equiv> 1506"
abbreviation (input) LISA_VEXTL_D_H :: ir2_opcode where "LISA_VEXTL_D_H \<equiv> 1507"
abbreviation (input) LISA_VEXTL_W_BU :: ir2_opcode where "LISA_VEXTL_W_BU \<equiv> 1508"
abbreviation (input) LISA_VEXTL_D_BU :: ir2_opcode where "LISA_VEXTL_D_BU \<equiv> 1509"
abbreviation (input) LISA_VEXTL_D_HU :: ir2_opcode where "LISA_VEXTL_D_HU \<equiv> 1510"
abbreviation (input) LISA_VHADD8_D_BU :: ir2_opcode where "LISA_VHADD8_D_BU \<equiv> 1511"
abbreviation (input) LISA_VHMINPOS_W_HU :: ir2_opcode where "LISA_VHMINPOS_W_HU \<equiv> 1512"
abbreviation (input) LISA_VHMINPOS_D_HU :: ir2_opcode where "LISA_VHMINPOS_D_HU \<equiv> 1513"
abbreviation (input) LISA_VHMINPOS_Q_HU :: ir2_opcode where "LISA_VHMINPOS_Q_HU \<equiv> 1514"
abbreviation (input) LISA_VCLRTAIL_B :: ir2_opcode where "LISA_VCLRTAIL_B \<equiv> 1515"
abbreviation (input) LISA_VCLRTAIL_H :: ir2_opcode where "LISA_VCLRTAIL_H \<equiv> 1516"
abbreviation (input) LISA_VFCVTL_S_H :: ir2_opcode where "LISA_VFCVTL_S_H \<equiv> 1517"
abbreviation (input) LISA_VFCVTH_S_H :: ir2_opcode where "LISA_VFCVTH_S_H \<equiv> 1518"
abbreviation (input) LISA_VFCVTL_D_S :: ir2_opcode where "LISA_VFCVTL_D_S \<equiv> 1519"
abbreviation (input) LISA_VFCVTH_D_S :: ir2_opcode where "LISA_VFCVTH_D_S \<equiv> 1520"
abbreviation (input) LISA_VFFINT_S_W :: ir2_opcode where "LISA_VFFINT_S_W \<equiv> 1521"
abbreviation (input) LISA_VFFINT_S_WU :: ir2_opcode where "LISA_VFFINT_S_WU \<equiv> 1522"
abbreviation (input) LISA_VFFINT_D_L :: ir2_opcode where "LISA_VFFINT_D_L \<equiv> 1523"
abbreviation (input) LISA_VFFINT_D_LU :: ir2_opcode where "LISA_VFFINT_D_LU \<equiv> 1524"
abbreviation (input) LISA_VFFINTL_D_W :: ir2_opcode where "LISA_VFFINTL_D_W \<equiv> 1525"
abbreviation (input) LISA_VFFINTH_D_W :: ir2_opcode where "LISA_VFFINTH_D_W \<equiv> 1526"
abbreviation (input) LISA_VFTINT_W_S :: ir2_opcode where "LISA_VFTINT_W_S \<equiv> 1527"
abbreviation (input) LISA_VFTINT_L_D :: ir2_opcode where "LISA_VFTINT_L_D \<equiv> 1528"
abbreviation (input) LISA_VFTINTRM_W_S :: ir2_opcode where "LISA_VFTINTRM_W_S \<equiv> 1529"
abbreviation (input) LISA_VFTINTRM_L_D :: ir2_opcode where "LISA_VFTINTRM_L_D \<equiv> 1530"
abbreviation (input) LISA_VFTINTRP_W_S :: ir2_opcode where "LISA_VFTINTRP_W_S \<equiv> 1531"
abbreviation (input) LISA_VFTINTRP_L_D :: ir2_opcode where "LISA_VFTINTRP_L_D \<equiv> 1532"
abbreviation (input) LISA_VFTINTRZ_W_S :: ir2_opcode where "LISA_VFTINTRZ_W_S \<equiv> 1533"
abbreviation (input) LISA_VFTINTRZ_L_D :: ir2_opcode where "LISA_VFTINTRZ_L_D \<equiv> 1534"
abbreviation (input) LISA_VFTINTRNE_W_S :: ir2_opcode where "LISA_VFTINTRNE_W_S \<equiv> 1535"
abbreviation (input) LISA_VFTINTRNE_L_D :: ir2_opcode where "LISA_VFTINTRNE_L_D \<equiv> 1536"
abbreviation (input) LISA_VFTINT_WU_S :: ir2_opcode where "LISA_VFTINT_WU_S \<equiv> 1537"
abbreviation (input) LISA_VFTINT_LU_D :: ir2_opcode where "LISA_VFTINT_LU_D \<equiv> 1538"
abbreviation (input) LISA_VFTINTRZ_WU_S :: ir2_opcode where "LISA_VFTINTRZ_WU_S \<equiv> 1539"
abbreviation (input) LISA_VFTINTRZ_LU_D :: ir2_opcode where "LISA_VFTINTRZ_LU_D \<equiv> 1540"
abbreviation (input) LISA_VFTINTL_L_S :: ir2_opcode where "LISA_VFTINTL_L_S \<equiv> 1541"
abbreviation (input) LISA_VFTINTH_L_S :: ir2_opcode where "LISA_VFTINTH_L_S \<equiv> 1542"
abbreviation (input) LISA_VFTINTRML_L_S :: ir2_opcode where "LISA_VFTINTRML_L_S \<equiv> 1543"
abbreviation (input) LISA_VFTINTRMH_L_S :: ir2_opcode where "LISA_VFTINTRMH_L_S \<equiv> 1544"
abbreviation (input) LISA_VFTINTRPL_L_S :: ir2_opcode where "LISA_VFTINTRPL_L_S \<equiv> 1545"
abbreviation (input) LISA_VFTINTRPH_L_S :: ir2_opcode where "LISA_VFTINTRPH_L_S \<equiv> 1546"
abbreviation (input) LISA_VFTINTRZL_L_S :: ir2_opcode where "LISA_VFTINTRZL_L_S \<equiv> 1547"
abbreviation (input) LISA_VFTINTRZH_L_S :: ir2_opcode where "LISA_VFTINTRZH_L_S \<equiv> 1548"
abbreviation (input) LISA_VFTINTRNEL_L_S :: ir2_opcode where "LISA_VFTINTRNEL_L_S \<equiv> 1549"
abbreviation (input) LISA_VFTINTRNEH_L_S :: ir2_opcode where "LISA_VFTINTRNEH_L_S \<equiv> 1550"
abbreviation (input) LISA_VEXTH_H_B :: ir2_opcode where "LISA_VEXTH_H_B \<equiv> 1551"
abbreviation (input) LISA_VEXTH_W_H :: ir2_opcode where "LISA_VEXTH_W_H \<equiv> 1552"
abbreviation (input) LISA_VEXTH_D_W :: ir2_opcode where "LISA_VEXTH_D_W \<equiv> 1553"
abbreviation (input) LISA_VEXTH_Q_D :: ir2_opcode where "LISA_VEXTH_Q_D \<equiv> 1554"
abbreviation (input) LISA_VEXTH_HU_BU :: ir2_opcode where "LISA_VEXTH_HU_BU \<equiv> 1555"
abbreviation (input) LISA_VEXTH_WU_HU :: ir2_opcode where "LISA_VEXTH_WU_HU \<equiv> 1556"
abbreviation (input) LISA_VEXTH_DU_WU :: ir2_opcode where "LISA_VEXTH_DU_WU \<equiv> 1557"
abbreviation (input) LISA_VEXTH_QU_DU :: ir2_opcode where "LISA_VEXTH_QU_DU \<equiv> 1558"
abbreviation (input) LISA_VREPLGR2VR_B :: ir2_opcode where "LISA_VREPLGR2VR_B \<equiv> 1559"
abbreviation (input) LISA_VREPLGR2VR_H :: ir2_opcode where "LISA_VREPLGR2VR_H \<equiv> 1560"
abbreviation (input) LISA_VREPLGR2VR_W :: ir2_opcode where "LISA_VREPLGR2VR_W \<equiv> 1561"
abbreviation (input) LISA_VREPLGR2VR_D :: ir2_opcode where "LISA_VREPLGR2VR_D \<equiv> 1562"
abbreviation (input) LISA_VROTRI_B :: ir2_opcode where "LISA_VROTRI_B \<equiv> 1563"
abbreviation (input) LISA_VROTRI_H :: ir2_opcode where "LISA_VROTRI_H \<equiv> 1564"
abbreviation (input) LISA_VROTRI_W :: ir2_opcode where "LISA_VROTRI_W \<equiv> 1565"
abbreviation (input) LISA_VROTRI_D :: ir2_opcode where "LISA_VROTRI_D \<equiv> 1566"
abbreviation (input) LISA_VSRLRI_B :: ir2_opcode where "LISA_VSRLRI_B \<equiv> 1567"
abbreviation (input) LISA_VSRLRI_H :: ir2_opcode where "LISA_VSRLRI_H \<equiv> 1568"
abbreviation (input) LISA_VSRLRI_W :: ir2_opcode where "LISA_VSRLRI_W \<equiv> 1569"
abbreviation (input) LISA_VSRLRI_D :: ir2_opcode where "LISA_VSRLRI_D \<equiv> 1570"
abbreviation (input) LISA_VSRARI_B :: ir2_opcode where "LISA_VSRARI_B \<equiv> 1571"
abbreviation (input) LISA_VSRARI_H :: ir2_opcode where "LISA_VSRARI_H \<equiv> 1572"
abbreviation (input) LISA_VSRARI_W :: ir2_opcode where "LISA_VSRARI_W \<equiv> 1573"
abbreviation (input) LISA_VSRARI_D :: ir2_opcode where "LISA_VSRARI_D \<equiv> 1574"
abbreviation (input) LISA_VINSGR2VR_B :: ir2_opcode where "LISA_VINSGR2VR_B \<equiv> 1575"
abbreviation (input) LISA_VINSGR2VR_H :: ir2_opcode where "LISA_VINSGR2VR_H \<equiv> 1576"
abbreviation (input) LISA_VINSGR2VR_W :: ir2_opcode where "LISA_VINSGR2VR_W \<equiv> 1577"
abbreviation (input) LISA_VINSGR2VR_D :: ir2_opcode where "LISA_VINSGR2VR_D \<equiv> 1578"
abbreviation (input) LISA_VPICKVE2GR_B :: ir2_opcode where "LISA_VPICKVE2GR_B \<equiv> 1579"
abbreviation (input) LISA_VPICKVE2GR_H :: ir2_opcode where "LISA_VPICKVE2GR_H \<equiv> 1580"
abbreviation (input) LISA_VPICKVE2GR_W :: ir2_opcode where "LISA_VPICKVE2GR_W \<equiv> 1581"
abbreviation (input) LISA_VPICKVE2GR_D :: ir2_opcode where "LISA_VPICKVE2GR_D \<equiv> 1582"
abbreviation (input) LISA_VPICKVE2GR_BU :: ir2_opcode where "LISA_VPICKVE2GR_BU \<equiv> 1583"
abbreviation (input) LISA_VPICKVE2GR_HU :: ir2_opcode where "LISA_VPICKVE2GR_HU \<equiv> 1584"
abbreviation (input) LISA_VPICKVE2GR_WU :: ir2_opcode where "LISA_VPICKVE2GR_WU \<equiv> 1585"
abbreviation (input) LISA_VPICKVE2GR_DU :: ir2_opcode where "LISA_VPICKVE2GR_DU \<equiv> 1586"
abbreviation (input) LISA_VREPLVEI_B :: ir2_opcode where "LISA_VREPLVEI_B \<equiv> 1587"
abbreviation (input) LISA_VREPLVEI_H :: ir2_opcode where "LISA_VREPLVEI_H \<equiv> 1588"
abbreviation (input) LISA_VREPLVEI_W :: ir2_opcode where "LISA_VREPLVEI_W \<equiv> 1589"
abbreviation (input) LISA_VREPLVEI_D :: ir2_opcode where "LISA_VREPLVEI_D \<equiv> 1590"
abbreviation (input) LISA_VEXTRCOLI_B :: ir2_opcode where "LISA_VEXTRCOLI_B \<equiv> 1591"
abbreviation (input) LISA_VEXTRCOLI_H :: ir2_opcode where "LISA_VEXTRCOLI_H \<equiv> 1592"
abbreviation (input) LISA_VEXTRCOLI_W :: ir2_opcode where "LISA_VEXTRCOLI_W \<equiv> 1593"
abbreviation (input) LISA_VEXTRCOLI_D :: ir2_opcode where "LISA_VEXTRCOLI_D \<equiv> 1594"
abbreviation (input) LISA_VSLLWIL_H_B :: ir2_opcode where "LISA_VSLLWIL_H_B \<equiv> 1595"
abbreviation (input) LISA_VSLLWIL_W_H :: ir2_opcode where "LISA_VSLLWIL_W_H \<equiv> 1596"
abbreviation (input) LISA_VSLLWIL_D_W :: ir2_opcode where "LISA_VSLLWIL_D_W \<equiv> 1597"
abbreviation (input) LISA_VEXTL_Q_D :: ir2_opcode where "LISA_VEXTL_Q_D \<equiv> 1598"
abbreviation (input) LISA_VSLLWIL_HU_BU :: ir2_opcode where "LISA_VSLLWIL_HU_BU \<equiv> 1599"
abbreviation (input) LISA_VSLLWIL_WU_HU :: ir2_opcode where "LISA_VSLLWIL_WU_HU \<equiv> 1600"
abbreviation (input) LISA_VSLLWIL_DU_WU :: ir2_opcode where "LISA_VSLLWIL_DU_WU \<equiv> 1601"
abbreviation (input) LISA_VEXTL_QU_DU :: ir2_opcode where "LISA_VEXTL_QU_DU \<equiv> 1602"
abbreviation (input) LISA_VBITCLRI_B :: ir2_opcode where "LISA_VBITCLRI_B \<equiv> 1603"
abbreviation (input) LISA_VBITCLRI_H :: ir2_opcode where "LISA_VBITCLRI_H \<equiv> 1604"
abbreviation (input) LISA_VBITCLRI_W :: ir2_opcode where "LISA_VBITCLRI_W \<equiv> 1605"
abbreviation (input) LISA_VBITCLRI_D :: ir2_opcode where "LISA_VBITCLRI_D \<equiv> 1606"
abbreviation (input) LISA_VBITSETI_B :: ir2_opcode where "LISA_VBITSETI_B \<equiv> 1607"
abbreviation (input) LISA_VBITSETI_H :: ir2_opcode where "LISA_VBITSETI_H \<equiv> 1608"
abbreviation (input) LISA_VBITSETI_W :: ir2_opcode where "LISA_VBITSETI_W \<equiv> 1609"
abbreviation (input) LISA_VBITSETI_D :: ir2_opcode where "LISA_VBITSETI_D \<equiv> 1610"
abbreviation (input) LISA_VBITREVI_B :: ir2_opcode where "LISA_VBITREVI_B \<equiv> 1611"
abbreviation (input) LISA_VBITREVI_H :: ir2_opcode where "LISA_VBITREVI_H \<equiv> 1612"
abbreviation (input) LISA_VBITREVI_W :: ir2_opcode where "LISA_VBITREVI_W \<equiv> 1613"
abbreviation (input) LISA_VBITREVI_D :: ir2_opcode where "LISA_VBITREVI_D \<equiv> 1614"
abbreviation (input) LISA_VBSTRC12I_B :: ir2_opcode where "LISA_VBSTRC12I_B \<equiv> 1615"
abbreviation (input) LISA_VBSTRC12I_H :: ir2_opcode where "LISA_VBSTRC12I_H \<equiv> 1616"
abbreviation (input) LISA_VBSTRC12I_W :: ir2_opcode where "LISA_VBSTRC12I_W \<equiv> 1617"
abbreviation (input) LISA_VBSTRC12I_D :: ir2_opcode where "LISA_VBSTRC12I_D \<equiv> 1618"
abbreviation (input) LISA_VBSTRC21I_B :: ir2_opcode where "LISA_VBSTRC21I_B \<equiv> 1619"
abbreviation (input) LISA_VBSTRC21I_H :: ir2_opcode where "LISA_VBSTRC21I_H \<equiv> 1620"
abbreviation (input) LISA_VBSTRC21I_W :: ir2_opcode where "LISA_VBSTRC21I_W \<equiv> 1621"
abbreviation (input) LISA_VBSTRC21I_D :: ir2_opcode where "LISA_VBSTRC21I_D \<equiv> 1622"
abbreviation (input) LISA_VSAT_B :: ir2_opcode where "LISA_VSAT_B \<equiv> 1623"
abbreviation (input) LISA_VSAT_H :: ir2_opcode where "LISA_VSAT_H \<equiv> 1624"
abbreviation (input) LISA_VSAT_W :: ir2_opcode where "LISA_VSAT_W \<equiv> 1625"
abbreviation (input) LISA_VSAT_D :: ir2_opcode where "LISA_VSAT_D \<equiv> 1626"
abbreviation (input) LISA_VSAT_BU :: ir2_opcode where "LISA_VSAT_BU \<equiv> 1627"
abbreviation (input) LISA_VSAT_HU :: ir2_opcode where "LISA_VSAT_HU \<equiv> 1628"
abbreviation (input) LISA_VSAT_WU :: ir2_opcode where "LISA_VSAT_WU \<equiv> 1629"
abbreviation (input) LISA_VSAT_DU :: ir2_opcode where "LISA_VSAT_DU \<equiv> 1630"
abbreviation (input) LISA_VSLLI_B :: ir2_opcode where "LISA_VSLLI_B \<equiv> 1631"
abbreviation (input) LISA_VSLLI_H :: ir2_opcode where "LISA_VSLLI_H \<equiv> 1632"
abbreviation (input) LISA_VSLLI_W :: ir2_opcode where "LISA_VSLLI_W \<equiv> 1633"
abbreviation (input) LISA_VSLLI_D :: ir2_opcode where "LISA_VSLLI_D \<equiv> 1634"
abbreviation (input) LISA_VSRLI_B :: ir2_opcode where "LISA_VSRLI_B \<equiv> 1635"
abbreviation (input) LISA_VSRLI_H :: ir2_opcode where "LISA_VSRLI_H \<equiv> 1636"
abbreviation (input) LISA_VSRLI_W :: ir2_opcode where "LISA_VSRLI_W \<equiv> 1637"
abbreviation (input) LISA_VSRLI_D :: ir2_opcode where "LISA_VSRLI_D \<equiv> 1638"
abbreviation (input) LISA_VSRAI_B :: ir2_opcode where "LISA_VSRAI_B \<equiv> 1639"
abbreviation (input) LISA_VSRAI_H :: ir2_opcode where "LISA_VSRAI_H \<equiv> 1640"
abbreviation (input) LISA_VSRAI_W :: ir2_opcode where "LISA_VSRAI_W \<equiv> 1641"
abbreviation (input) LISA_VSRAI_D :: ir2_opcode where "LISA_VSRAI_D \<equiv> 1642"
abbreviation (input) LISA_VSRLRNENI_B_H :: ir2_opcode where "LISA_VSRLRNENI_B_H \<equiv> 1643"
abbreviation (input) LISA_VSRLRNENI_H_W :: ir2_opcode where "LISA_VSRLRNENI_H_W \<equiv> 1644"
abbreviation (input) LISA_VSRLRNENI_W_D :: ir2_opcode where "LISA_VSRLRNENI_W_D \<equiv> 1645"
abbreviation (input) LISA_VSRLRNENI_D_Q :: ir2_opcode where "LISA_VSRLRNENI_D_Q \<equiv> 1646"
abbreviation (input) LISA_VSRARNENI_B_H :: ir2_opcode where "LISA_VSRARNENI_B_H \<equiv> 1647"
abbreviation (input) LISA_VSRARNENI_H_W :: ir2_opcode where "LISA_VSRARNENI_H_W \<equiv> 1648"
abbreviation (input) LISA_VSRARNENI_W_D :: ir2_opcode where "LISA_VSRARNENI_W_D \<equiv> 1649"
abbreviation (input) LISA_VSRARNENI_D_Q :: ir2_opcode where "LISA_VSRARNENI_D_Q \<equiv> 1650"
abbreviation (input) LISA_VSRLNI_B_H :: ir2_opcode where "LISA_VSRLNI_B_H \<equiv> 1651"
abbreviation (input) LISA_VSRLNI_H_W :: ir2_opcode where "LISA_VSRLNI_H_W \<equiv> 1652"
abbreviation (input) LISA_VSRLNI_W_D :: ir2_opcode where "LISA_VSRLNI_W_D \<equiv> 1653"
abbreviation (input) LISA_VSRLNI_D_Q :: ir2_opcode where "LISA_VSRLNI_D_Q \<equiv> 1654"
abbreviation (input) LISA_VSRLRNI_B_H :: ir2_opcode where "LISA_VSRLRNI_B_H \<equiv> 1655"
abbreviation (input) LISA_VSRLRNI_H_W :: ir2_opcode where "LISA_VSRLRNI_H_W \<equiv> 1656"
abbreviation (input) LISA_VSRLRNI_W_D :: ir2_opcode where "LISA_VSRLRNI_W_D \<equiv> 1657"
abbreviation (input) LISA_VSRLRNI_D_Q :: ir2_opcode where "LISA_VSRLRNI_D_Q \<equiv> 1658"
abbreviation (input) LISA_VSSRLNI_B_H :: ir2_opcode where "LISA_VSSRLNI_B_H \<equiv> 1659"
abbreviation (input) LISA_VSSRLNI_H_W :: ir2_opcode where "LISA_VSSRLNI_H_W \<equiv> 1660"
abbreviation (input) LISA_VSSRLNI_W_D :: ir2_opcode where "LISA_VSSRLNI_W_D \<equiv> 1661"
abbreviation (input) LISA_VSSRLNI_D_Q :: ir2_opcode where "LISA_VSSRLNI_D_Q \<equiv> 1662"
abbreviation (input) LISA_VSSRLNI_BU_H :: ir2_opcode where "LISA_VSSRLNI_BU_H \<equiv> 1663"
abbreviation (input) LISA_VSSRLNI_HU_W :: ir2_opcode where "LISA_VSSRLNI_HU_W \<equiv> 1664"
abbreviation (input) LISA_VSSRLNI_WU_D :: ir2_opcode where "LISA_VSSRLNI_WU_D \<equiv> 1665"
abbreviation (input) LISA_VSSRLNI_DU_Q :: ir2_opcode where "LISA_VSSRLNI_DU_Q \<equiv> 1666"
abbreviation (input) LISA_VSSRLRNI_B_H :: ir2_opcode where "LISA_VSSRLRNI_B_H \<equiv> 1667"
abbreviation (input) LISA_VSSRLRNI_H_W :: ir2_opcode where "LISA_VSSRLRNI_H_W \<equiv> 1668"
abbreviation (input) LISA_VSSRLRNI_W_D :: ir2_opcode where "LISA_VSSRLRNI_W_D \<equiv> 1669"
abbreviation (input) LISA_VSSRLRNI_D_Q :: ir2_opcode where "LISA_VSSRLRNI_D_Q \<equiv> 1670"
abbreviation (input) LISA_VSSRLRNI_BU_H :: ir2_opcode where "LISA_VSSRLRNI_BU_H \<equiv> 1671"
abbreviation (input) LISA_VSSRLRNI_HU_W :: ir2_opcode where "LISA_VSSRLRNI_HU_W \<equiv> 1672"
abbreviation (input) LISA_VSSRLRNI_WU_D :: ir2_opcode where "LISA_VSSRLRNI_WU_D \<equiv> 1673"
abbreviation (input) LISA_VSSRLRNI_DU_Q :: ir2_opcode where "LISA_VSSRLRNI_DU_Q \<equiv> 1674"
abbreviation (input) LISA_VSRANI_B_H :: ir2_opcode where "LISA_VSRANI_B_H \<equiv> 1675"
abbreviation (input) LISA_VSRANI_H_W :: ir2_opcode where "LISA_VSRANI_H_W \<equiv> 1676"
abbreviation (input) LISA_VSRANI_W_D :: ir2_opcode where "LISA_VSRANI_W_D \<equiv> 1677"
abbreviation (input) LISA_VSRANI_D_Q :: ir2_opcode where "LISA_VSRANI_D_Q \<equiv> 1678"
abbreviation (input) LISA_VSRARNI_B_H :: ir2_opcode where "LISA_VSRARNI_B_H \<equiv> 1679"
abbreviation (input) LISA_VSRARNI_H_W :: ir2_opcode where "LISA_VSRARNI_H_W \<equiv> 1680"
abbreviation (input) LISA_VSRARNI_W_D :: ir2_opcode where "LISA_VSRARNI_W_D \<equiv> 1681"
abbreviation (input) LISA_VSRARNI_D_Q :: ir2_opcode where "LISA_VSRARNI_D_Q \<equiv> 1682"
abbreviation (input) LISA_VSSRANI_B_H :: ir2_opcode where "LISA_VSSRANI_B_H \<equiv> 1683"
abbreviation (input) LISA_VSSRANI_H_W :: ir2_opcode where "LISA_VSSRANI_H_W \<equiv> 1684"
abbreviation (input) LISA_VSSRANI_W_D :: ir2_opcode where "LISA_VSSRANI_W_D \<equiv> 1685"
abbreviation (input) LISA_VSSRANI_D_Q :: ir2_opcode where "LISA_VSSRANI_D_Q \<equiv> 1686"
abbreviation (input) LISA_VSSRANI_BU_H :: ir2_opcode where "LISA_VSSRANI_BU_H \<equiv> 1687"
abbreviation (input) LISA_VSSRANI_HU_W :: ir2_opcode where "LISA_VSSRANI_HU_W \<equiv> 1688"
abbreviation (input) LISA_VSSRANI_WU_D :: ir2_opcode where "LISA_VSSRANI_WU_D \<equiv> 1689"
abbreviation (input) LISA_VSSRANI_DU_Q :: ir2_opcode where "LISA_VSSRANI_DU_Q \<equiv> 1690"
abbreviation (input) LISA_VSSRARNI_B_H :: ir2_opcode where "LISA_VSSRARNI_B_H \<equiv> 1691"
abbreviation (input) LISA_VSSRARNI_H_W :: ir2_opcode where "LISA_VSSRARNI_H_W \<equiv> 1692"
abbreviation (input) LISA_VSSRARNI_W_D :: ir2_opcode where "LISA_VSSRARNI_W_D \<equiv> 1693"
abbreviation (input) LISA_VSSRARNI_D_Q :: ir2_opcode where "LISA_VSSRARNI_D_Q \<equiv> 1694"
abbreviation (input) LISA_VSSRARNI_BU_H :: ir2_opcode where "LISA_VSSRARNI_BU_H \<equiv> 1695"
abbreviation (input) LISA_VSSRARNI_HU_W :: ir2_opcode where "LISA_VSSRARNI_HU_W \<equiv> 1696"
abbreviation (input) LISA_VSSRARNI_WU_D :: ir2_opcode where "LISA_VSSRARNI_WU_D \<equiv> 1697"
abbreviation (input) LISA_VSSRARNI_DU_Q :: ir2_opcode where "LISA_VSSRARNI_DU_Q \<equiv> 1698"
abbreviation (input) LISA_VSSRLRNENI_B_H :: ir2_opcode where "LISA_VSSRLRNENI_B_H \<equiv> 1699"
abbreviation (input) LISA_VSSRLRNENI_H_W :: ir2_opcode where "LISA_VSSRLRNENI_H_W \<equiv> 1700"
abbreviation (input) LISA_VSSRLRNENI_W_D :: ir2_opcode where "LISA_VSSRLRNENI_W_D \<equiv> 1701"
abbreviation (input) LISA_VSSRLRNENI_D_Q :: ir2_opcode where "LISA_VSSRLRNENI_D_Q \<equiv> 1702"
abbreviation (input) LISA_VSSRLRNENI_BU_H :: ir2_opcode where "LISA_VSSRLRNENI_BU_H \<equiv> 1703"
abbreviation (input) LISA_VSSRLRNENI_HU_W :: ir2_opcode where "LISA_VSSRLRNENI_HU_W \<equiv> 1704"
abbreviation (input) LISA_VSSRLRNENI_WU_D :: ir2_opcode where "LISA_VSSRLRNENI_WU_D \<equiv> 1705"
abbreviation (input) LISA_VSSRLRNENI_DU_Q :: ir2_opcode where "LISA_VSSRLRNENI_DU_Q \<equiv> 1706"
abbreviation (input) LISA_VSSRARNENI_B_H :: ir2_opcode where "LISA_VSSRARNENI_B_H \<equiv> 1707"
abbreviation (input) LISA_VSSRARNENI_H_W :: ir2_opcode where "LISA_VSSRARNENI_H_W \<equiv> 1708"
abbreviation (input) LISA_VSSRARNENI_W_D :: ir2_opcode where "LISA_VSSRARNENI_W_D \<equiv> 1709"
abbreviation (input) LISA_VSSRARNENI_D_Q :: ir2_opcode where "LISA_VSSRARNENI_D_Q \<equiv> 1710"
abbreviation (input) LISA_VSSRARNENI_BU_H :: ir2_opcode where "LISA_VSSRARNENI_BU_H \<equiv> 1711"
abbreviation (input) LISA_VSSRARNENI_HU_W :: ir2_opcode where "LISA_VSSRARNENI_HU_W \<equiv> 1712"
abbreviation (input) LISA_VSSRARNENI_WU_D :: ir2_opcode where "LISA_VSSRARNENI_WU_D \<equiv> 1713"
abbreviation (input) LISA_VSSRARNENI_DU_Q :: ir2_opcode where "LISA_VSSRARNENI_DU_Q \<equiv> 1714"
abbreviation (input) LISA_VEXTRINS_D :: ir2_opcode where "LISA_VEXTRINS_D \<equiv> 1715"
abbreviation (input) LISA_VEXTRINS_W :: ir2_opcode where "LISA_VEXTRINS_W \<equiv> 1716"
abbreviation (input) LISA_VEXTRINS_H :: ir2_opcode where "LISA_VEXTRINS_H \<equiv> 1717"
abbreviation (input) LISA_VEXTRINS_B :: ir2_opcode where "LISA_VEXTRINS_B \<equiv> 1718"
abbreviation (input) LISA_VSHUF4I_B :: ir2_opcode where "LISA_VSHUF4I_B \<equiv> 1719"
abbreviation (input) LISA_VSHUF4I_H :: ir2_opcode where "LISA_VSHUF4I_H \<equiv> 1720"
abbreviation (input) LISA_VSHUF4I_W :: ir2_opcode where "LISA_VSHUF4I_W \<equiv> 1721"
abbreviation (input) LISA_VSHUF4I_D :: ir2_opcode where "LISA_VSHUF4I_D \<equiv> 1722"
abbreviation (input) LISA_VSHUFI1_B :: ir2_opcode where "LISA_VSHUFI1_B \<equiv> 1723"
abbreviation (input) LISA_VSHUFI2_B :: ir2_opcode where "LISA_VSHUFI2_B \<equiv> 1724"
abbreviation (input) LISA_VSHUFI3_B :: ir2_opcode where "LISA_VSHUFI3_B \<equiv> 1725"
abbreviation (input) LISA_VSHUFI4_B :: ir2_opcode where "LISA_VSHUFI4_B \<equiv> 1726"
abbreviation (input) LISA_VSHUFI1_H :: ir2_opcode where "LISA_VSHUFI1_H \<equiv> 1727"
abbreviation (input) LISA_VSHUFI2_H :: ir2_opcode where "LISA_VSHUFI2_H \<equiv> 1728"
abbreviation (input) LISA_VSELI_H :: ir2_opcode where "LISA_VSELI_H \<equiv> 1729"
abbreviation (input) LISA_VSELI_W :: ir2_opcode where "LISA_VSELI_W \<equiv> 1730"
abbreviation (input) LISA_VSELI_D :: ir2_opcode where "LISA_VSELI_D \<equiv> 1731"
abbreviation (input) LISA_VBITSELI_B :: ir2_opcode where "LISA_VBITSELI_B \<equiv> 1732"
abbreviation (input) LISA_VBITMVZI_B :: ir2_opcode where "LISA_VBITMVZI_B \<equiv> 1733"
abbreviation (input) LISA_VBITMVNZI_B :: ir2_opcode where "LISA_VBITMVNZI_B \<equiv> 1734"
abbreviation (input) LISA_VANDI_B :: ir2_opcode where "LISA_VANDI_B \<equiv> 1735"
abbreviation (input) LISA_VORI_B :: ir2_opcode where "LISA_VORI_B \<equiv> 1736"
abbreviation (input) LISA_VXORI_B :: ir2_opcode where "LISA_VXORI_B \<equiv> 1737"
abbreviation (input) LISA_VNORI_B :: ir2_opcode where "LISA_VNORI_B \<equiv> 1738"
abbreviation (input) LISA_VLDI :: ir2_opcode where "LISA_VLDI \<equiv> 1739"
abbreviation (input) LISA_VPERMI_W :: ir2_opcode where "LISA_VPERMI_W \<equiv> 1740"
abbreviation (input) LISA_XVSEQ_B :: ir2_opcode where "LISA_XVSEQ_B \<equiv> 1741"
abbreviation (input) LISA_XVSEQ_H :: ir2_opcode where "LISA_XVSEQ_H \<equiv> 1742"
abbreviation (input) LISA_XVSEQ_W :: ir2_opcode where "LISA_XVSEQ_W \<equiv> 1743"
abbreviation (input) LISA_XVSEQ_D :: ir2_opcode where "LISA_XVSEQ_D \<equiv> 1744"
abbreviation (input) LISA_XVSLE_B :: ir2_opcode where "LISA_XVSLE_B \<equiv> 1745"
abbreviation (input) LISA_XVSLE_H :: ir2_opcode where "LISA_XVSLE_H \<equiv> 1746"
abbreviation (input) LISA_XVSLE_W :: ir2_opcode where "LISA_XVSLE_W \<equiv> 1747"
abbreviation (input) LISA_XVSLE_D :: ir2_opcode where "LISA_XVSLE_D \<equiv> 1748"
abbreviation (input) LISA_XVSLE_BU :: ir2_opcode where "LISA_XVSLE_BU \<equiv> 1749"
abbreviation (input) LISA_XVSLE_HU :: ir2_opcode where "LISA_XVSLE_HU \<equiv> 1750"
abbreviation (input) LISA_XVSLE_WU :: ir2_opcode where "LISA_XVSLE_WU \<equiv> 1751"
abbreviation (input) LISA_XVSLE_DU :: ir2_opcode where "LISA_XVSLE_DU \<equiv> 1752"
abbreviation (input) LISA_XVSLT_B :: ir2_opcode where "LISA_XVSLT_B \<equiv> 1753"
abbreviation (input) LISA_XVSLT_H :: ir2_opcode where "LISA_XVSLT_H \<equiv> 1754"
abbreviation (input) LISA_XVSLT_W :: ir2_opcode where "LISA_XVSLT_W \<equiv> 1755"
abbreviation (input) LISA_XVSLT_D :: ir2_opcode where "LISA_XVSLT_D \<equiv> 1756"
abbreviation (input) LISA_XVSLT_BU :: ir2_opcode where "LISA_XVSLT_BU \<equiv> 1757"
abbreviation (input) LISA_XVSLT_HU :: ir2_opcode where "LISA_XVSLT_HU \<equiv> 1758"
abbreviation (input) LISA_XVSLT_WU :: ir2_opcode where "LISA_XVSLT_WU \<equiv> 1759"
abbreviation (input) LISA_XVSLT_DU :: ir2_opcode where "LISA_XVSLT_DU \<equiv> 1760"
abbreviation (input) LISA_XVADD_B :: ir2_opcode where "LISA_XVADD_B \<equiv> 1761"
abbreviation (input) LISA_XVADD_H :: ir2_opcode where "LISA_XVADD_H \<equiv> 1762"
abbreviation (input) LISA_XVADD_W :: ir2_opcode where "LISA_XVADD_W \<equiv> 1763"
abbreviation (input) LISA_XVADD_D :: ir2_opcode where "LISA_XVADD_D \<equiv> 1764"
abbreviation (input) LISA_XVSUB_B :: ir2_opcode where "LISA_XVSUB_B \<equiv> 1765"
abbreviation (input) LISA_XVSUB_H :: ir2_opcode where "LISA_XVSUB_H \<equiv> 1766"
abbreviation (input) LISA_XVSUB_W :: ir2_opcode where "LISA_XVSUB_W \<equiv> 1767"
abbreviation (input) LISA_XVSUB_D :: ir2_opcode where "LISA_XVSUB_D \<equiv> 1768"
abbreviation (input) LISA_XVADDW_H_H_B :: ir2_opcode where "LISA_XVADDW_H_H_B \<equiv> 1769"
abbreviation (input) LISA_XVADDW_W_W_H :: ir2_opcode where "LISA_XVADDW_W_W_H \<equiv> 1770"
abbreviation (input) LISA_XVADDW_D_D_W :: ir2_opcode where "LISA_XVADDW_D_D_W \<equiv> 1771"
abbreviation (input) LISA_XVADDW_H_H_BU :: ir2_opcode where "LISA_XVADDW_H_H_BU \<equiv> 1772"
abbreviation (input) LISA_XVADDW_W_W_HU :: ir2_opcode where "LISA_XVADDW_W_W_HU \<equiv> 1773"
abbreviation (input) LISA_XVADDW_D_D_WU :: ir2_opcode where "LISA_XVADDW_D_D_WU \<equiv> 1774"
abbreviation (input) LISA_XVSUBW_H_H_B :: ir2_opcode where "LISA_XVSUBW_H_H_B \<equiv> 1775"
abbreviation (input) LISA_XVSUBW_W_W_H :: ir2_opcode where "LISA_XVSUBW_W_W_H \<equiv> 1776"
abbreviation (input) LISA_XVSUBW_D_D_W :: ir2_opcode where "LISA_XVSUBW_D_D_W \<equiv> 1777"
abbreviation (input) LISA_XVSUBW_H_H_BU :: ir2_opcode where "LISA_XVSUBW_H_H_BU \<equiv> 1778"
abbreviation (input) LISA_XVSUBW_W_W_HU :: ir2_opcode where "LISA_XVSUBW_W_W_HU \<equiv> 1779"
abbreviation (input) LISA_XVSUBW_D_D_WU :: ir2_opcode where "LISA_XVSUBW_D_D_WU \<equiv> 1780"
abbreviation (input) LISA_XVSADDW_H_H_B :: ir2_opcode where "LISA_XVSADDW_H_H_B \<equiv> 1781"
abbreviation (input) LISA_XVSADDW_W_W_H :: ir2_opcode where "LISA_XVSADDW_W_W_H \<equiv> 1782"
abbreviation (input) LISA_XVSADDW_D_D_W :: ir2_opcode where "LISA_XVSADDW_D_D_W \<equiv> 1783"
abbreviation (input) LISA_XVSADDW_HU_HU_BU :: ir2_opcode where "LISA_XVSADDW_HU_HU_BU \<equiv> 1784"
abbreviation (input) LISA_XVSADDW_WU_WU_HU :: ir2_opcode where "LISA_XVSADDW_WU_WU_HU \<equiv> 1785"
abbreviation (input) LISA_XVSADDW_DU_DU_WU :: ir2_opcode where "LISA_XVSADDW_DU_DU_WU \<equiv> 1786"
abbreviation (input) LISA_XVSSUBW_H_H_B :: ir2_opcode where "LISA_XVSSUBW_H_H_B \<equiv> 1787"
abbreviation (input) LISA_XVSSUBW_W_W_H :: ir2_opcode where "LISA_XVSSUBW_W_W_H \<equiv> 1788"
abbreviation (input) LISA_XVSSUBW_D_D_W :: ir2_opcode where "LISA_XVSSUBW_D_D_W \<equiv> 1789"
abbreviation (input) LISA_XVSSUBW_HU_HU_BU :: ir2_opcode where "LISA_XVSSUBW_HU_HU_BU \<equiv> 1790"
abbreviation (input) LISA_XVSSUBW_WU_WU_HU :: ir2_opcode where "LISA_XVSSUBW_WU_WU_HU \<equiv> 1791"
abbreviation (input) LISA_XVSSUBW_DU_DU_WU :: ir2_opcode where "LISA_XVSSUBW_DU_DU_WU \<equiv> 1792"
abbreviation (input) LISA_XVADDWEV_H_B :: ir2_opcode where "LISA_XVADDWEV_H_B \<equiv> 1793"
abbreviation (input) LISA_XVADDWEV_W_H :: ir2_opcode where "LISA_XVADDWEV_W_H \<equiv> 1794"
abbreviation (input) LISA_XVADDWEV_D_W :: ir2_opcode where "LISA_XVADDWEV_D_W \<equiv> 1795"
abbreviation (input) LISA_XVADDWEV_Q_D :: ir2_opcode where "LISA_XVADDWEV_Q_D \<equiv> 1796"
abbreviation (input) LISA_XVSUBWEV_H_B :: ir2_opcode where "LISA_XVSUBWEV_H_B \<equiv> 1797"
abbreviation (input) LISA_XVSUBWEV_W_H :: ir2_opcode where "LISA_XVSUBWEV_W_H \<equiv> 1798"
abbreviation (input) LISA_XVSUBWEV_D_W :: ir2_opcode where "LISA_XVSUBWEV_D_W \<equiv> 1799"
abbreviation (input) LISA_XVSUBWEV_Q_D :: ir2_opcode where "LISA_XVSUBWEV_Q_D \<equiv> 1800"
abbreviation (input) LISA_XVADDWOD_H_B :: ir2_opcode where "LISA_XVADDWOD_H_B \<equiv> 1801"
abbreviation (input) LISA_XVADDWOD_W_H :: ir2_opcode where "LISA_XVADDWOD_W_H \<equiv> 1802"
abbreviation (input) LISA_XVADDWOD_D_W :: ir2_opcode where "LISA_XVADDWOD_D_W \<equiv> 1803"
abbreviation (input) LISA_XVADDWOD_Q_D :: ir2_opcode where "LISA_XVADDWOD_Q_D \<equiv> 1804"
abbreviation (input) LISA_XVSUBWOD_H_B :: ir2_opcode where "LISA_XVSUBWOD_H_B \<equiv> 1805"
abbreviation (input) LISA_XVSUBWOD_W_H :: ir2_opcode where "LISA_XVSUBWOD_W_H \<equiv> 1806"
abbreviation (input) LISA_XVSUBWOD_D_W :: ir2_opcode where "LISA_XVSUBWOD_D_W \<equiv> 1807"
abbreviation (input) LISA_XVSUBWOD_Q_D :: ir2_opcode where "LISA_XVSUBWOD_Q_D \<equiv> 1808"
abbreviation (input) LISA_XVADDWL_H_B :: ir2_opcode where "LISA_XVADDWL_H_B \<equiv> 1809"
abbreviation (input) LISA_XVADDWL_W_H :: ir2_opcode where "LISA_XVADDWL_W_H \<equiv> 1810"
abbreviation (input) LISA_XVADDWL_D_W :: ir2_opcode where "LISA_XVADDWL_D_W \<equiv> 1811"
abbreviation (input) LISA_XVADDWL_Q_D :: ir2_opcode where "LISA_XVADDWL_Q_D \<equiv> 1812"
abbreviation (input) LISA_XVSUBWL_H_B :: ir2_opcode where "LISA_XVSUBWL_H_B \<equiv> 1813"
abbreviation (input) LISA_XVSUBWL_W_H :: ir2_opcode where "LISA_XVSUBWL_W_H \<equiv> 1814"
abbreviation (input) LISA_XVSUBWL_D_W :: ir2_opcode where "LISA_XVSUBWL_D_W \<equiv> 1815"
abbreviation (input) LISA_XVSUBWL_Q_D :: ir2_opcode where "LISA_XVSUBWL_Q_D \<equiv> 1816"
abbreviation (input) LISA_XVADDWH_H_B :: ir2_opcode where "LISA_XVADDWH_H_B \<equiv> 1817"
abbreviation (input) LISA_XVADDWH_W_H :: ir2_opcode where "LISA_XVADDWH_W_H \<equiv> 1818"
abbreviation (input) LISA_XVADDWH_D_W :: ir2_opcode where "LISA_XVADDWH_D_W \<equiv> 1819"
abbreviation (input) LISA_XVADDWH_Q_D :: ir2_opcode where "LISA_XVADDWH_Q_D \<equiv> 1820"
abbreviation (input) LISA_XVSUBWH_H_B :: ir2_opcode where "LISA_XVSUBWH_H_B \<equiv> 1821"
abbreviation (input) LISA_XVSUBWH_W_H :: ir2_opcode where "LISA_XVSUBWH_W_H \<equiv> 1822"
abbreviation (input) LISA_XVSUBWH_D_W :: ir2_opcode where "LISA_XVSUBWH_D_W \<equiv> 1823"
abbreviation (input) LISA_XVSUBWH_Q_D :: ir2_opcode where "LISA_XVSUBWH_Q_D \<equiv> 1824"
abbreviation (input) LISA_XVADDWEV_H_BU :: ir2_opcode where "LISA_XVADDWEV_H_BU \<equiv> 1825"
abbreviation (input) LISA_XVADDWEV_W_HU :: ir2_opcode where "LISA_XVADDWEV_W_HU \<equiv> 1826"
abbreviation (input) LISA_XVADDWEV_D_WU :: ir2_opcode where "LISA_XVADDWEV_D_WU \<equiv> 1827"
abbreviation (input) LISA_XVADDWEV_Q_DU :: ir2_opcode where "LISA_XVADDWEV_Q_DU \<equiv> 1828"
abbreviation (input) LISA_XVSUBWEV_H_BU :: ir2_opcode where "LISA_XVSUBWEV_H_BU \<equiv> 1829"
abbreviation (input) LISA_XVSUBWEV_W_HU :: ir2_opcode where "LISA_XVSUBWEV_W_HU \<equiv> 1830"
abbreviation (input) LISA_XVSUBWEV_D_WU :: ir2_opcode where "LISA_XVSUBWEV_D_WU \<equiv> 1831"
abbreviation (input) LISA_XVSUBWEV_Q_DU :: ir2_opcode where "LISA_XVSUBWEV_Q_DU \<equiv> 1832"
abbreviation (input) LISA_XVADDWOD_H_BU :: ir2_opcode where "LISA_XVADDWOD_H_BU \<equiv> 1833"
abbreviation (input) LISA_XVADDWOD_W_HU :: ir2_opcode where "LISA_XVADDWOD_W_HU \<equiv> 1834"
abbreviation (input) LISA_XVADDWOD_D_WU :: ir2_opcode where "LISA_XVADDWOD_D_WU \<equiv> 1835"
abbreviation (input) LISA_XVADDWOD_Q_DU :: ir2_opcode where "LISA_XVADDWOD_Q_DU \<equiv> 1836"
abbreviation (input) LISA_XVSUBWOD_H_BU :: ir2_opcode where "LISA_XVSUBWOD_H_BU \<equiv> 1837"
abbreviation (input) LISA_XVSUBWOD_W_HU :: ir2_opcode where "LISA_XVSUBWOD_W_HU \<equiv> 1838"
abbreviation (input) LISA_XVSUBWOD_D_WU :: ir2_opcode where "LISA_XVSUBWOD_D_WU \<equiv> 1839"
abbreviation (input) LISA_XVSUBWOD_Q_DU :: ir2_opcode where "LISA_XVSUBWOD_Q_DU \<equiv> 1840"
abbreviation (input) LISA_XVADDWL_H_BU :: ir2_opcode where "LISA_XVADDWL_H_BU \<equiv> 1841"
abbreviation (input) LISA_XVADDWL_W_HU :: ir2_opcode where "LISA_XVADDWL_W_HU \<equiv> 1842"
abbreviation (input) LISA_XVADDWL_D_WU :: ir2_opcode where "LISA_XVADDWL_D_WU \<equiv> 1843"
abbreviation (input) LISA_XVADDWL_Q_DU :: ir2_opcode where "LISA_XVADDWL_Q_DU \<equiv> 1844"
abbreviation (input) LISA_XVSUBWL_H_BU :: ir2_opcode where "LISA_XVSUBWL_H_BU \<equiv> 1845"
abbreviation (input) LISA_XVSUBWL_W_HU :: ir2_opcode where "LISA_XVSUBWL_W_HU \<equiv> 1846"
abbreviation (input) LISA_XVSUBWL_D_WU :: ir2_opcode where "LISA_XVSUBWL_D_WU \<equiv> 1847"
abbreviation (input) LISA_XVSUBWL_Q_DU :: ir2_opcode where "LISA_XVSUBWL_Q_DU \<equiv> 1848"
abbreviation (input) LISA_XVADDWH_H_BU :: ir2_opcode where "LISA_XVADDWH_H_BU \<equiv> 1849"
abbreviation (input) LISA_XVADDWH_W_HU :: ir2_opcode where "LISA_XVADDWH_W_HU \<equiv> 1850"
abbreviation (input) LISA_XVADDWH_D_WU :: ir2_opcode where "LISA_XVADDWH_D_WU \<equiv> 1851"
abbreviation (input) LISA_XVADDWH_Q_DU :: ir2_opcode where "LISA_XVADDWH_Q_DU \<equiv> 1852"
abbreviation (input) LISA_XVSUBWH_H_BU :: ir2_opcode where "LISA_XVSUBWH_H_BU \<equiv> 1853"
abbreviation (input) LISA_XVSUBWH_W_HU :: ir2_opcode where "LISA_XVSUBWH_W_HU \<equiv> 1854"
abbreviation (input) LISA_XVSUBWH_D_WU :: ir2_opcode where "LISA_XVSUBWH_D_WU \<equiv> 1855"
abbreviation (input) LISA_XVSUBWH_Q_DU :: ir2_opcode where "LISA_XVSUBWH_Q_DU \<equiv> 1856"
abbreviation (input) LISA_XVADDWEV_H_BU_B :: ir2_opcode where "LISA_XVADDWEV_H_BU_B \<equiv> 1857"
abbreviation (input) LISA_XVADDWEV_W_HU_H :: ir2_opcode where "LISA_XVADDWEV_W_HU_H \<equiv> 1858"
abbreviation (input) LISA_XVADDWEV_D_WU_W :: ir2_opcode where "LISA_XVADDWEV_D_WU_W \<equiv> 1859"
abbreviation (input) LISA_XVADDWEV_Q_DU_D :: ir2_opcode where "LISA_XVADDWEV_Q_DU_D \<equiv> 1860"
abbreviation (input) LISA_XVADDWOD_H_BU_B :: ir2_opcode where "LISA_XVADDWOD_H_BU_B \<equiv> 1861"
abbreviation (input) LISA_XVADDWOD_W_HU_H :: ir2_opcode where "LISA_XVADDWOD_W_HU_H \<equiv> 1862"
abbreviation (input) LISA_XVADDWOD_D_WU_W :: ir2_opcode where "LISA_XVADDWOD_D_WU_W \<equiv> 1863"
abbreviation (input) LISA_XVADDWOD_Q_DU_D :: ir2_opcode where "LISA_XVADDWOD_Q_DU_D \<equiv> 1864"
abbreviation (input) LISA_XVADDWL_H_BU_B :: ir2_opcode where "LISA_XVADDWL_H_BU_B \<equiv> 1865"
abbreviation (input) LISA_XVADDWL_W_HU_H :: ir2_opcode where "LISA_XVADDWL_W_HU_H \<equiv> 1866"
abbreviation (input) LISA_XVADDWL_D_WU_W :: ir2_opcode where "LISA_XVADDWL_D_WU_W \<equiv> 1867"
abbreviation (input) LISA_XVADDWL_Q_DU_D :: ir2_opcode where "LISA_XVADDWL_Q_DU_D \<equiv> 1868"
abbreviation (input) LISA_XVADDWH_H_BU_B :: ir2_opcode where "LISA_XVADDWH_H_BU_B \<equiv> 1869"
abbreviation (input) LISA_XVADDWH_W_HU_H :: ir2_opcode where "LISA_XVADDWH_W_HU_H \<equiv> 1870"
abbreviation (input) LISA_XVADDWH_D_WU_W :: ir2_opcode where "LISA_XVADDWH_D_WU_W \<equiv> 1871"
abbreviation (input) LISA_XVADDWH_Q_DU_D :: ir2_opcode where "LISA_XVADDWH_Q_DU_D \<equiv> 1872"
abbreviation (input) LISA_XVSADD_B :: ir2_opcode where "LISA_XVSADD_B \<equiv> 1873"
abbreviation (input) LISA_XVSADD_H :: ir2_opcode where "LISA_XVSADD_H \<equiv> 1874"
abbreviation (input) LISA_XVSADD_W :: ir2_opcode where "LISA_XVSADD_W \<equiv> 1875"
abbreviation (input) LISA_XVSADD_D :: ir2_opcode where "LISA_XVSADD_D \<equiv> 1876"
abbreviation (input) LISA_XVSSUB_B :: ir2_opcode where "LISA_XVSSUB_B \<equiv> 1877"
abbreviation (input) LISA_XVSSUB_H :: ir2_opcode where "LISA_XVSSUB_H \<equiv> 1878"
abbreviation (input) LISA_XVSSUB_W :: ir2_opcode where "LISA_XVSSUB_W \<equiv> 1879"
abbreviation (input) LISA_XVSSUB_D :: ir2_opcode where "LISA_XVSSUB_D \<equiv> 1880"
abbreviation (input) LISA_XVSADD_BU :: ir2_opcode where "LISA_XVSADD_BU \<equiv> 1881"
abbreviation (input) LISA_XVSADD_HU :: ir2_opcode where "LISA_XVSADD_HU \<equiv> 1882"
abbreviation (input) LISA_XVSADD_WU :: ir2_opcode where "LISA_XVSADD_WU \<equiv> 1883"
abbreviation (input) LISA_XVSADD_DU :: ir2_opcode where "LISA_XVSADD_DU \<equiv> 1884"
abbreviation (input) LISA_XVSSUB_BU :: ir2_opcode where "LISA_XVSSUB_BU \<equiv> 1885"
abbreviation (input) LISA_XVSSUB_HU :: ir2_opcode where "LISA_XVSSUB_HU \<equiv> 1886"
abbreviation (input) LISA_XVSSUB_WU :: ir2_opcode where "LISA_XVSSUB_WU \<equiv> 1887"
abbreviation (input) LISA_XVSSUB_DU :: ir2_opcode where "LISA_XVSSUB_DU \<equiv> 1888"
abbreviation (input) LISA_XVSSUB_BU_BU_B :: ir2_opcode where "LISA_XVSSUB_BU_BU_B \<equiv> 1889"
abbreviation (input) LISA_XVSSUB_HU_HU_H :: ir2_opcode where "LISA_XVSSUB_HU_HU_H \<equiv> 1890"
abbreviation (input) LISA_XVSSUB_WU_WU_W :: ir2_opcode where "LISA_XVSSUB_WU_WU_W \<equiv> 1891"
abbreviation (input) LISA_XVSSUB_DU_DU_D :: ir2_opcode where "LISA_XVSSUB_DU_DU_D \<equiv> 1892"
abbreviation (input) LISA_XVSSUB_BU_B_BU :: ir2_opcode where "LISA_XVSSUB_BU_B_BU \<equiv> 1893"
abbreviation (input) LISA_XVSSUB_HU_H_HU :: ir2_opcode where "LISA_XVSSUB_HU_H_HU \<equiv> 1894"
abbreviation (input) LISA_XVSSUB_WU_W_WU :: ir2_opcode where "LISA_XVSSUB_WU_W_WU \<equiv> 1895"
abbreviation (input) LISA_XVSSUB_DU_D_DU :: ir2_opcode where "LISA_XVSSUB_DU_D_DU \<equiv> 1896"
abbreviation (input) LISA_XVSSUB_B_BU_BU :: ir2_opcode where "LISA_XVSSUB_B_BU_BU \<equiv> 1897"
abbreviation (input) LISA_XVSSUB_H_HU_HU :: ir2_opcode where "LISA_XVSSUB_H_HU_HU \<equiv> 1898"
abbreviation (input) LISA_XVSSUB_W_WU_WU :: ir2_opcode where "LISA_XVSSUB_W_WU_WU \<equiv> 1899"
abbreviation (input) LISA_XVSSUB_D_DU_DU :: ir2_opcode where "LISA_XVSSUB_D_DU_DU \<equiv> 1900"
abbreviation (input) LISA_XVHADDW_H_B :: ir2_opcode where "LISA_XVHADDW_H_B \<equiv> 1901"
abbreviation (input) LISA_XVHADDW_W_H :: ir2_opcode where "LISA_XVHADDW_W_H \<equiv> 1902"
abbreviation (input) LISA_XVHADDW_D_W :: ir2_opcode where "LISA_XVHADDW_D_W \<equiv> 1903"
abbreviation (input) LISA_XVHADDW_Q_D :: ir2_opcode where "LISA_XVHADDW_Q_D \<equiv> 1904"
abbreviation (input) LISA_XVHSUBW_H_B :: ir2_opcode where "LISA_XVHSUBW_H_B \<equiv> 1905"
abbreviation (input) LISA_XVHSUBW_W_H :: ir2_opcode where "LISA_XVHSUBW_W_H \<equiv> 1906"
abbreviation (input) LISA_XVHSUBW_D_W :: ir2_opcode where "LISA_XVHSUBW_D_W \<equiv> 1907"
abbreviation (input) LISA_XVHSUBW_Q_D :: ir2_opcode where "LISA_XVHSUBW_Q_D \<equiv> 1908"
abbreviation (input) LISA_XVHADDW_HU_BU :: ir2_opcode where "LISA_XVHADDW_HU_BU \<equiv> 1909"
abbreviation (input) LISA_XVHADDW_WU_HU :: ir2_opcode where "LISA_XVHADDW_WU_HU \<equiv> 1910"
abbreviation (input) LISA_XVHADDW_DU_WU :: ir2_opcode where "LISA_XVHADDW_DU_WU \<equiv> 1911"
abbreviation (input) LISA_XVHADDW_QU_DU :: ir2_opcode where "LISA_XVHADDW_QU_DU \<equiv> 1912"
abbreviation (input) LISA_XVHSUBW_HU_BU :: ir2_opcode where "LISA_XVHSUBW_HU_BU \<equiv> 1913"
abbreviation (input) LISA_XVHSUBW_WU_HU :: ir2_opcode where "LISA_XVHSUBW_WU_HU \<equiv> 1914"
abbreviation (input) LISA_XVHSUBW_DU_WU :: ir2_opcode where "LISA_XVHSUBW_DU_WU \<equiv> 1915"
abbreviation (input) LISA_XVHSUBW_QU_DU :: ir2_opcode where "LISA_XVHSUBW_QU_DU \<equiv> 1916"
abbreviation (input) LISA_XVADDA_B :: ir2_opcode where "LISA_XVADDA_B \<equiv> 1917"
abbreviation (input) LISA_XVADDA_H :: ir2_opcode where "LISA_XVADDA_H \<equiv> 1918"
abbreviation (input) LISA_XVADDA_W :: ir2_opcode where "LISA_XVADDA_W \<equiv> 1919"
abbreviation (input) LISA_XVADDA_D :: ir2_opcode where "LISA_XVADDA_D \<equiv> 1920"
abbreviation (input) LISA_XVSADDA_B :: ir2_opcode where "LISA_XVSADDA_B \<equiv> 1921"
abbreviation (input) LISA_XVSADDA_H :: ir2_opcode where "LISA_XVSADDA_H \<equiv> 1922"
abbreviation (input) LISA_XVSADDA_W :: ir2_opcode where "LISA_XVSADDA_W \<equiv> 1923"
abbreviation (input) LISA_XVSADDA_D :: ir2_opcode where "LISA_XVSADDA_D \<equiv> 1924"
abbreviation (input) LISA_XVABSD_B :: ir2_opcode where "LISA_XVABSD_B \<equiv> 1925"
abbreviation (input) LISA_XVABSD_H :: ir2_opcode where "LISA_XVABSD_H \<equiv> 1926"
abbreviation (input) LISA_XVABSD_W :: ir2_opcode where "LISA_XVABSD_W \<equiv> 1927"
abbreviation (input) LISA_XVABSD_D :: ir2_opcode where "LISA_XVABSD_D \<equiv> 1928"
abbreviation (input) LISA_XVABSD_BU :: ir2_opcode where "LISA_XVABSD_BU \<equiv> 1929"
abbreviation (input) LISA_XVABSD_HU :: ir2_opcode where "LISA_XVABSD_HU \<equiv> 1930"
abbreviation (input) LISA_XVABSD_WU :: ir2_opcode where "LISA_XVABSD_WU \<equiv> 1931"
abbreviation (input) LISA_XVABSD_DU :: ir2_opcode where "LISA_XVABSD_DU \<equiv> 1932"
abbreviation (input) LISA_XVAVG_B :: ir2_opcode where "LISA_XVAVG_B \<equiv> 1933"
abbreviation (input) LISA_XVAVG_H :: ir2_opcode where "LISA_XVAVG_H \<equiv> 1934"
abbreviation (input) LISA_XVAVG_W :: ir2_opcode where "LISA_XVAVG_W \<equiv> 1935"
abbreviation (input) LISA_XVAVG_D :: ir2_opcode where "LISA_XVAVG_D \<equiv> 1936"
abbreviation (input) LISA_XVAVG_BU :: ir2_opcode where "LISA_XVAVG_BU \<equiv> 1937"
abbreviation (input) LISA_XVAVG_HU :: ir2_opcode where "LISA_XVAVG_HU \<equiv> 1938"
abbreviation (input) LISA_XVAVG_WU :: ir2_opcode where "LISA_XVAVG_WU \<equiv> 1939"
abbreviation (input) LISA_XVAVG_DU :: ir2_opcode where "LISA_XVAVG_DU \<equiv> 1940"
abbreviation (input) LISA_XVAVGR_B :: ir2_opcode where "LISA_XVAVGR_B \<equiv> 1941"
abbreviation (input) LISA_XVAVGR_H :: ir2_opcode where "LISA_XVAVGR_H \<equiv> 1942"
abbreviation (input) LISA_XVAVGR_W :: ir2_opcode where "LISA_XVAVGR_W \<equiv> 1943"
abbreviation (input) LISA_XVAVGR_D :: ir2_opcode where "LISA_XVAVGR_D \<equiv> 1944"
abbreviation (input) LISA_XVAVGR_BU :: ir2_opcode where "LISA_XVAVGR_BU \<equiv> 1945"
abbreviation (input) LISA_XVAVGR_HU :: ir2_opcode where "LISA_XVAVGR_HU \<equiv> 1946"
abbreviation (input) LISA_XVAVGR_WU :: ir2_opcode where "LISA_XVAVGR_WU \<equiv> 1947"
abbreviation (input) LISA_XVAVGR_DU :: ir2_opcode where "LISA_XVAVGR_DU \<equiv> 1948"
abbreviation (input) LISA_XVHALFD_B :: ir2_opcode where "LISA_XVHALFD_B \<equiv> 1949"
abbreviation (input) LISA_XVHALFD_H :: ir2_opcode where "LISA_XVHALFD_H \<equiv> 1950"
abbreviation (input) LISA_XVHALFD_W :: ir2_opcode where "LISA_XVHALFD_W \<equiv> 1951"
abbreviation (input) LISA_XVHALFD_D :: ir2_opcode where "LISA_XVHALFD_D \<equiv> 1952"
abbreviation (input) LISA_XVHALFD_BU :: ir2_opcode where "LISA_XVHALFD_BU \<equiv> 1953"
abbreviation (input) LISA_XVHALFD_HU :: ir2_opcode where "LISA_XVHALFD_HU \<equiv> 1954"
abbreviation (input) LISA_XVHALFD_WU :: ir2_opcode where "LISA_XVHALFD_WU \<equiv> 1955"
abbreviation (input) LISA_XVHALFD_DU :: ir2_opcode where "LISA_XVHALFD_DU \<equiv> 1956"
abbreviation (input) LISA_XVMAX_B :: ir2_opcode where "LISA_XVMAX_B \<equiv> 1957"
abbreviation (input) LISA_XVMAX_H :: ir2_opcode where "LISA_XVMAX_H \<equiv> 1958"
abbreviation (input) LISA_XVMAX_W :: ir2_opcode where "LISA_XVMAX_W \<equiv> 1959"
abbreviation (input) LISA_XVMAX_D :: ir2_opcode where "LISA_XVMAX_D \<equiv> 1960"
abbreviation (input) LISA_XVMIN_B :: ir2_opcode where "LISA_XVMIN_B \<equiv> 1961"
abbreviation (input) LISA_XVMIN_H :: ir2_opcode where "LISA_XVMIN_H \<equiv> 1962"
abbreviation (input) LISA_XVMIN_W :: ir2_opcode where "LISA_XVMIN_W \<equiv> 1963"
abbreviation (input) LISA_XVMIN_D :: ir2_opcode where "LISA_XVMIN_D \<equiv> 1964"
abbreviation (input) LISA_XVMAX_BU :: ir2_opcode where "LISA_XVMAX_BU \<equiv> 1965"
abbreviation (input) LISA_XVMAX_HU :: ir2_opcode where "LISA_XVMAX_HU \<equiv> 1966"
abbreviation (input) LISA_XVMAX_WU :: ir2_opcode where "LISA_XVMAX_WU \<equiv> 1967"
abbreviation (input) LISA_XVMAX_DU :: ir2_opcode where "LISA_XVMAX_DU \<equiv> 1968"
abbreviation (input) LISA_XVMIN_BU :: ir2_opcode where "LISA_XVMIN_BU \<equiv> 1969"
abbreviation (input) LISA_XVMIN_HU :: ir2_opcode where "LISA_XVMIN_HU \<equiv> 1970"
abbreviation (input) LISA_XVMIN_WU :: ir2_opcode where "LISA_XVMIN_WU \<equiv> 1971"
abbreviation (input) LISA_XVMIN_DU :: ir2_opcode where "LISA_XVMIN_DU \<equiv> 1972"
abbreviation (input) LISA_XVMAXA_B :: ir2_opcode where "LISA_XVMAXA_B \<equiv> 1973"
abbreviation (input) LISA_XVMAXA_H :: ir2_opcode where "LISA_XVMAXA_H \<equiv> 1974"
abbreviation (input) LISA_XVMAXA_W :: ir2_opcode where "LISA_XVMAXA_W \<equiv> 1975"
abbreviation (input) LISA_XVMAXA_D :: ir2_opcode where "LISA_XVMAXA_D \<equiv> 1976"
abbreviation (input) LISA_XVMINA_B :: ir2_opcode where "LISA_XVMINA_B \<equiv> 1977"
abbreviation (input) LISA_XVMINA_H :: ir2_opcode where "LISA_XVMINA_H \<equiv> 1978"
abbreviation (input) LISA_XVMINA_W :: ir2_opcode where "LISA_XVMINA_W \<equiv> 1979"
abbreviation (input) LISA_XVMINA_D :: ir2_opcode where "LISA_XVMINA_D \<equiv> 1980"
abbreviation (input) LISA_XVSADW_H_B :: ir2_opcode where "LISA_XVSADW_H_B \<equiv> 1981"
abbreviation (input) LISA_XVSADW_W_H :: ir2_opcode where "LISA_XVSADW_W_H \<equiv> 1982"
abbreviation (input) LISA_XVSADW_D_W :: ir2_opcode where "LISA_XVSADW_D_W \<equiv> 1983"
abbreviation (input) LISA_XVSADW_H_BU :: ir2_opcode where "LISA_XVSADW_H_BU \<equiv> 1984"
abbreviation (input) LISA_XVSADW_W_HU :: ir2_opcode where "LISA_XVSADW_W_HU \<equiv> 1985"
abbreviation (input) LISA_XVSADW_D_WU :: ir2_opcode where "LISA_XVSADW_D_WU \<equiv> 1986"
abbreviation (input) LISA_XVACCSADW_H_B :: ir2_opcode where "LISA_XVACCSADW_H_B \<equiv> 1987"
abbreviation (input) LISA_XVACCSADW_W_H :: ir2_opcode where "LISA_XVACCSADW_W_H \<equiv> 1988"
abbreviation (input) LISA_XVACCSADW_D_W :: ir2_opcode where "LISA_XVACCSADW_D_W \<equiv> 1989"
abbreviation (input) LISA_XVACCSADW_H_BU :: ir2_opcode where "LISA_XVACCSADW_H_BU \<equiv> 1990"
abbreviation (input) LISA_XVACCSADW_W_HU :: ir2_opcode where "LISA_XVACCSADW_W_HU \<equiv> 1991"
abbreviation (input) LISA_XVACCSADW_D_WU :: ir2_opcode where "LISA_XVACCSADW_D_WU \<equiv> 1992"
abbreviation (input) LISA_XVMUL_B :: ir2_opcode where "LISA_XVMUL_B \<equiv> 1993"
abbreviation (input) LISA_XVMUL_H :: ir2_opcode where "LISA_XVMUL_H \<equiv> 1994"
abbreviation (input) LISA_XVMUL_W :: ir2_opcode where "LISA_XVMUL_W \<equiv> 1995"
abbreviation (input) LISA_XVMUL_D :: ir2_opcode where "LISA_XVMUL_D \<equiv> 1996"
abbreviation (input) LISA_XVMUH_B :: ir2_opcode where "LISA_XVMUH_B \<equiv> 1997"
abbreviation (input) LISA_XVMUH_H :: ir2_opcode where "LISA_XVMUH_H \<equiv> 1998"
abbreviation (input) LISA_XVMUH_W :: ir2_opcode where "LISA_XVMUH_W \<equiv> 1999"
abbreviation (input) LISA_XVMUH_D :: ir2_opcode where "LISA_XVMUH_D \<equiv> 2000"
abbreviation (input) LISA_XVMUH_BU :: ir2_opcode where "LISA_XVMUH_BU \<equiv> 2001"
abbreviation (input) LISA_XVMUH_HU :: ir2_opcode where "LISA_XVMUH_HU \<equiv> 2002"
abbreviation (input) LISA_XVMUH_WU :: ir2_opcode where "LISA_XVMUH_WU \<equiv> 2003"
abbreviation (input) LISA_XVMUH_DU :: ir2_opcode where "LISA_XVMUH_DU \<equiv> 2004"
abbreviation (input) LISA_XVMUH_BU_B :: ir2_opcode where "LISA_XVMUH_BU_B \<equiv> 2005"
abbreviation (input) LISA_XVMUH_HU_H :: ir2_opcode where "LISA_XVMUH_HU_H \<equiv> 2006"
abbreviation (input) LISA_XVMUH_WU_W :: ir2_opcode where "LISA_XVMUH_WU_W \<equiv> 2007"
abbreviation (input) LISA_XVMUH_DU_D :: ir2_opcode where "LISA_XVMUH_DU_D \<equiv> 2008"
abbreviation (input) LISA_XVMULXW_H_B :: ir2_opcode where "LISA_XVMULXW_H_B \<equiv> 2009"
abbreviation (input) LISA_XVMULXW_W_H :: ir2_opcode where "LISA_XVMULXW_W_H \<equiv> 2010"
abbreviation (input) LISA_XVMULXW_D_W :: ir2_opcode where "LISA_XVMULXW_D_W \<equiv> 2011"
abbreviation (input) LISA_XVMULXW_H_BU :: ir2_opcode where "LISA_XVMULXW_H_BU \<equiv> 2012"
abbreviation (input) LISA_XVMULXW_W_HU :: ir2_opcode where "LISA_XVMULXW_W_HU \<equiv> 2013"
abbreviation (input) LISA_XVMULXW_D_WU :: ir2_opcode where "LISA_XVMULXW_D_WU \<equiv> 2014"
abbreviation (input) LISA_XVMULWEV_H_B :: ir2_opcode where "LISA_XVMULWEV_H_B \<equiv> 2015"
abbreviation (input) LISA_XVMULWEV_W_H :: ir2_opcode where "LISA_XVMULWEV_W_H \<equiv> 2016"
abbreviation (input) LISA_XVMULWEV_D_W :: ir2_opcode where "LISA_XVMULWEV_D_W \<equiv> 2017"
abbreviation (input) LISA_XVMULWEV_Q_D :: ir2_opcode where "LISA_XVMULWEV_Q_D \<equiv> 2018"
abbreviation (input) LISA_XVMULWOD_H_B :: ir2_opcode where "LISA_XVMULWOD_H_B \<equiv> 2019"
abbreviation (input) LISA_XVMULWOD_W_H :: ir2_opcode where "LISA_XVMULWOD_W_H \<equiv> 2020"
abbreviation (input) LISA_XVMULWOD_D_W :: ir2_opcode where "LISA_XVMULWOD_D_W \<equiv> 2021"
abbreviation (input) LISA_XVMULWOD_Q_D :: ir2_opcode where "LISA_XVMULWOD_Q_D \<equiv> 2022"
abbreviation (input) LISA_XVMULWL_H_B :: ir2_opcode where "LISA_XVMULWL_H_B \<equiv> 2023"
abbreviation (input) LISA_XVMULWL_W_H :: ir2_opcode where "LISA_XVMULWL_W_H \<equiv> 2024"
abbreviation (input) LISA_XVMULWL_D_W :: ir2_opcode where "LISA_XVMULWL_D_W \<equiv> 2025"
abbreviation (input) LISA_XVMULWL_Q_D :: ir2_opcode where "LISA_XVMULWL_Q_D \<equiv> 2026"
abbreviation (input) LISA_XVMULWH_H_B :: ir2_opcode where "LISA_XVMULWH_H_B \<equiv> 2027"
abbreviation (input) LISA_XVMULWH_W_H :: ir2_opcode where "LISA_XVMULWH_W_H \<equiv> 2028"
abbreviation (input) LISA_XVMULWH_D_W :: ir2_opcode where "LISA_XVMULWH_D_W \<equiv> 2029"
abbreviation (input) LISA_XVMULWH_Q_D :: ir2_opcode where "LISA_XVMULWH_Q_D \<equiv> 2030"
abbreviation (input) LISA_XVMULWEV_H_BU :: ir2_opcode where "LISA_XVMULWEV_H_BU \<equiv> 2031"
abbreviation (input) LISA_XVMULWEV_W_HU :: ir2_opcode where "LISA_XVMULWEV_W_HU \<equiv> 2032"
abbreviation (input) LISA_XVMULWEV_D_WU :: ir2_opcode where "LISA_XVMULWEV_D_WU \<equiv> 2033"
abbreviation (input) LISA_XVMULWEV_Q_DU :: ir2_opcode where "LISA_XVMULWEV_Q_DU \<equiv> 2034"
abbreviation (input) LISA_XVMULWOD_H_BU :: ir2_opcode where "LISA_XVMULWOD_H_BU \<equiv> 2035"
abbreviation (input) LISA_XVMULWOD_W_HU :: ir2_opcode where "LISA_XVMULWOD_W_HU \<equiv> 2036"
abbreviation (input) LISA_XVMULWOD_D_WU :: ir2_opcode where "LISA_XVMULWOD_D_WU \<equiv> 2037"
abbreviation (input) LISA_XVMULWOD_Q_DU :: ir2_opcode where "LISA_XVMULWOD_Q_DU \<equiv> 2038"
abbreviation (input) LISA_XVMULWL_H_BU :: ir2_opcode where "LISA_XVMULWL_H_BU \<equiv> 2039"
abbreviation (input) LISA_XVMULWL_W_HU :: ir2_opcode where "LISA_XVMULWL_W_HU \<equiv> 2040"
abbreviation (input) LISA_XVMULWL_D_WU :: ir2_opcode where "LISA_XVMULWL_D_WU \<equiv> 2041"
abbreviation (input) LISA_XVMULWL_Q_DU :: ir2_opcode where "LISA_XVMULWL_Q_DU \<equiv> 2042"
abbreviation (input) LISA_XVMULWH_H_BU :: ir2_opcode where "LISA_XVMULWH_H_BU \<equiv> 2043"
abbreviation (input) LISA_XVMULWH_W_HU :: ir2_opcode where "LISA_XVMULWH_W_HU \<equiv> 2044"
abbreviation (input) LISA_XVMULWH_D_WU :: ir2_opcode where "LISA_XVMULWH_D_WU \<equiv> 2045"
abbreviation (input) LISA_XVMULWH_Q_DU :: ir2_opcode where "LISA_XVMULWH_Q_DU \<equiv> 2046"
abbreviation (input) LISA_XVMULWEV_H_BU_B :: ir2_opcode where "LISA_XVMULWEV_H_BU_B \<equiv> 2047"
abbreviation (input) LISA_XVMULWEV_W_HU_H :: ir2_opcode where "LISA_XVMULWEV_W_HU_H \<equiv> 2048"
abbreviation (input) LISA_XVMULWEV_D_WU_W :: ir2_opcode where "LISA_XVMULWEV_D_WU_W \<equiv> 2049"
abbreviation (input) LISA_XVMULWEV_Q_DU_D :: ir2_opcode where "LISA_XVMULWEV_Q_DU_D \<equiv> 2050"
abbreviation (input) LISA_XVMULWOD_H_BU_B :: ir2_opcode where "LISA_XVMULWOD_H_BU_B \<equiv> 2051"
abbreviation (input) LISA_XVMULWOD_W_HU_H :: ir2_opcode where "LISA_XVMULWOD_W_HU_H \<equiv> 2052"
abbreviation (input) LISA_XVMULWOD_D_WU_W :: ir2_opcode where "LISA_XVMULWOD_D_WU_W \<equiv> 2053"
abbreviation (input) LISA_XVMULWOD_Q_DU_D :: ir2_opcode where "LISA_XVMULWOD_Q_DU_D \<equiv> 2054"
abbreviation (input) LISA_XVMULWL_H_BU_B :: ir2_opcode where "LISA_XVMULWL_H_BU_B \<equiv> 2055"
abbreviation (input) LISA_XVMULWL_W_HU_H :: ir2_opcode where "LISA_XVMULWL_W_HU_H \<equiv> 2056"
abbreviation (input) LISA_XVMULWL_D_WU_W :: ir2_opcode where "LISA_XVMULWL_D_WU_W \<equiv> 2057"
abbreviation (input) LISA_XVMULWL_Q_DU_D :: ir2_opcode where "LISA_XVMULWL_Q_DU_D \<equiv> 2058"
abbreviation (input) LISA_XVMULWH_H_BU_B :: ir2_opcode where "LISA_XVMULWH_H_BU_B \<equiv> 2059"
abbreviation (input) LISA_XVMULWH_W_HU_H :: ir2_opcode where "LISA_XVMULWH_W_HU_H \<equiv> 2060"
abbreviation (input) LISA_XVMULWH_D_WU_W :: ir2_opcode where "LISA_XVMULWH_D_WU_W \<equiv> 2061"
abbreviation (input) LISA_XVMULWH_Q_DU_D :: ir2_opcode where "LISA_XVMULWH_Q_DU_D \<equiv> 2062"
abbreviation (input) LISA_XVMADD_B :: ir2_opcode where "LISA_XVMADD_B \<equiv> 2063"
abbreviation (input) LISA_XVMADD_H :: ir2_opcode where "LISA_XVMADD_H \<equiv> 2064"
abbreviation (input) LISA_XVMADD_W :: ir2_opcode where "LISA_XVMADD_W \<equiv> 2065"
abbreviation (input) LISA_XVMADD_D :: ir2_opcode where "LISA_XVMADD_D \<equiv> 2066"
abbreviation (input) LISA_XVMSUB_B :: ir2_opcode where "LISA_XVMSUB_B \<equiv> 2067"
abbreviation (input) LISA_XVMSUB_H :: ir2_opcode where "LISA_XVMSUB_H \<equiv> 2068"
abbreviation (input) LISA_XVMSUB_W :: ir2_opcode where "LISA_XVMSUB_W \<equiv> 2069"
abbreviation (input) LISA_XVMSUB_D :: ir2_opcode where "LISA_XVMSUB_D \<equiv> 2070"
abbreviation (input) LISA_XVMADDWEV_H_B :: ir2_opcode where "LISA_XVMADDWEV_H_B \<equiv> 2071"
abbreviation (input) LISA_XVMADDWEV_W_H :: ir2_opcode where "LISA_XVMADDWEV_W_H \<equiv> 2072"
abbreviation (input) LISA_XVMADDWEV_D_W :: ir2_opcode where "LISA_XVMADDWEV_D_W \<equiv> 2073"
abbreviation (input) LISA_XVMADDWEV_Q_D :: ir2_opcode where "LISA_XVMADDWEV_Q_D \<equiv> 2074"
abbreviation (input) LISA_XVMADDWOD_H_B :: ir2_opcode where "LISA_XVMADDWOD_H_B \<equiv> 2075"
abbreviation (input) LISA_XVMADDWOD_W_H :: ir2_opcode where "LISA_XVMADDWOD_W_H \<equiv> 2076"
abbreviation (input) LISA_XVMADDWOD_D_W :: ir2_opcode where "LISA_XVMADDWOD_D_W \<equiv> 2077"
abbreviation (input) LISA_XVMADDWOD_Q_D :: ir2_opcode where "LISA_XVMADDWOD_Q_D \<equiv> 2078"
abbreviation (input) LISA_XVMADDWL_H_B :: ir2_opcode where "LISA_XVMADDWL_H_B \<equiv> 2079"
abbreviation (input) LISA_XVMADDWL_W_H :: ir2_opcode where "LISA_XVMADDWL_W_H \<equiv> 2080"
abbreviation (input) LISA_XVMADDWL_D_W :: ir2_opcode where "LISA_XVMADDWL_D_W \<equiv> 2081"
abbreviation (input) LISA_XVMADDWL_Q_D :: ir2_opcode where "LISA_XVMADDWL_Q_D \<equiv> 2082"
abbreviation (input) LISA_XVMADDWH_H_B :: ir2_opcode where "LISA_XVMADDWH_H_B \<equiv> 2083"
abbreviation (input) LISA_XVMADDWH_W_H :: ir2_opcode where "LISA_XVMADDWH_W_H \<equiv> 2084"
abbreviation (input) LISA_XVMADDWH_D_W :: ir2_opcode where "LISA_XVMADDWH_D_W \<equiv> 2085"
abbreviation (input) LISA_XVMADDWH_Q_D :: ir2_opcode where "LISA_XVMADDWH_Q_D \<equiv> 2086"
abbreviation (input) LISA_XVMADDWEV_H_BU :: ir2_opcode where "LISA_XVMADDWEV_H_BU \<equiv> 2087"
abbreviation (input) LISA_XVMADDWEV_W_HU :: ir2_opcode where "LISA_XVMADDWEV_W_HU \<equiv> 2088"
abbreviation (input) LISA_XVMADDWEV_D_WU :: ir2_opcode where "LISA_XVMADDWEV_D_WU \<equiv> 2089"
abbreviation (input) LISA_XVMADDWEV_Q_DU :: ir2_opcode where "LISA_XVMADDWEV_Q_DU \<equiv> 2090"
abbreviation (input) LISA_XVMADDWOD_H_BU :: ir2_opcode where "LISA_XVMADDWOD_H_BU \<equiv> 2091"
abbreviation (input) LISA_XVMADDWOD_W_HU :: ir2_opcode where "LISA_XVMADDWOD_W_HU \<equiv> 2092"
abbreviation (input) LISA_XVMADDWOD_D_WU :: ir2_opcode where "LISA_XVMADDWOD_D_WU \<equiv> 2093"
abbreviation (input) LISA_XVMADDWOD_Q_DU :: ir2_opcode where "LISA_XVMADDWOD_Q_DU \<equiv> 2094"
abbreviation (input) LISA_XVMADDWL_H_BU :: ir2_opcode where "LISA_XVMADDWL_H_BU \<equiv> 2095"
abbreviation (input) LISA_XVMADDWL_W_HU :: ir2_opcode where "LISA_XVMADDWL_W_HU \<equiv> 2096"
abbreviation (input) LISA_XVMADDWL_D_WU :: ir2_opcode where "LISA_XVMADDWL_D_WU \<equiv> 2097"
abbreviation (input) LISA_XVMADDWL_Q_DU :: ir2_opcode where "LISA_XVMADDWL_Q_DU \<equiv> 2098"
abbreviation (input) LISA_XVMADDWH_H_BU :: ir2_opcode where "LISA_XVMADDWH_H_BU \<equiv> 2099"
abbreviation (input) LISA_XVMADDWH_W_HU :: ir2_opcode where "LISA_XVMADDWH_W_HU \<equiv> 2100"
abbreviation (input) LISA_XVMADDWH_D_WU :: ir2_opcode where "LISA_XVMADDWH_D_WU \<equiv> 2101"
abbreviation (input) LISA_XVMADDWH_Q_DU :: ir2_opcode where "LISA_XVMADDWH_Q_DU \<equiv> 2102"
abbreviation (input) LISA_XVMADDWEV_H_BU_B :: ir2_opcode where "LISA_XVMADDWEV_H_BU_B \<equiv> 2103"
abbreviation (input) LISA_XVMADDWEV_W_HU_H :: ir2_opcode where "LISA_XVMADDWEV_W_HU_H \<equiv> 2104"
abbreviation (input) LISA_XVMADDWEV_D_WU_W :: ir2_opcode where "LISA_XVMADDWEV_D_WU_W \<equiv> 2105"
abbreviation (input) LISA_XVMADDWEV_Q_DU_D :: ir2_opcode where "LISA_XVMADDWEV_Q_DU_D \<equiv> 2106"
abbreviation (input) LISA_XVMADDWOD_H_BU_B :: ir2_opcode where "LISA_XVMADDWOD_H_BU_B \<equiv> 2107"
abbreviation (input) LISA_XVMADDWOD_W_HU_H :: ir2_opcode where "LISA_XVMADDWOD_W_HU_H \<equiv> 2108"
abbreviation (input) LISA_XVMADDWOD_D_WU_W :: ir2_opcode where "LISA_XVMADDWOD_D_WU_W \<equiv> 2109"
abbreviation (input) LISA_XVMADDWOD_Q_DU_D :: ir2_opcode where "LISA_XVMADDWOD_Q_DU_D \<equiv> 2110"
abbreviation (input) LISA_XVMADDWL_H_BU_B :: ir2_opcode where "LISA_XVMADDWL_H_BU_B \<equiv> 2111"
abbreviation (input) LISA_XVMADDWL_W_HU_H :: ir2_opcode where "LISA_XVMADDWL_W_HU_H \<equiv> 2112"
abbreviation (input) LISA_XVMADDWL_D_WU_W :: ir2_opcode where "LISA_XVMADDWL_D_WU_W \<equiv> 2113"
abbreviation (input) LISA_XVMADDWL_Q_DU_D :: ir2_opcode where "LISA_XVMADDWL_Q_DU_D \<equiv> 2114"
abbreviation (input) LISA_XVMADDWH_H_BU_B :: ir2_opcode where "LISA_XVMADDWH_H_BU_B \<equiv> 2115"
abbreviation (input) LISA_XVMADDWH_W_HU_H :: ir2_opcode where "LISA_XVMADDWH_W_HU_H \<equiv> 2116"
abbreviation (input) LISA_XVMADDWH_D_WU_W :: ir2_opcode where "LISA_XVMADDWH_D_WU_W \<equiv> 2117"
abbreviation (input) LISA_XVMADDWH_Q_DU_D :: ir2_opcode where "LISA_XVMADDWH_Q_DU_D \<equiv> 2118"
abbreviation (input) LISA_XVDP2_H_B :: ir2_opcode where "LISA_XVDP2_H_B \<equiv> 2119"
abbreviation (input) LISA_XVDP2_W_H :: ir2_opcode where "LISA_XVDP2_W_H \<equiv> 2120"
abbreviation (input) LISA_XVDP2_D_W :: ir2_opcode where "LISA_XVDP2_D_W \<equiv> 2121"
abbreviation (input) LISA_XVDP2_Q_D :: ir2_opcode where "LISA_XVDP2_Q_D \<equiv> 2122"
abbreviation (input) LISA_XVDP2_HU_BU :: ir2_opcode where "LISA_XVDP2_HU_BU \<equiv> 2123"
abbreviation (input) LISA_XVDP2_WU_HU :: ir2_opcode where "LISA_XVDP2_WU_HU \<equiv> 2124"
abbreviation (input) LISA_XVDP2_DU_WU :: ir2_opcode where "LISA_XVDP2_DU_WU \<equiv> 2125"
abbreviation (input) LISA_XVDP2_QU_DU :: ir2_opcode where "LISA_XVDP2_QU_DU \<equiv> 2126"
abbreviation (input) LISA_XVDP2_H_BU_B :: ir2_opcode where "LISA_XVDP2_H_BU_B \<equiv> 2127"
abbreviation (input) LISA_XVDP2_W_HU_H :: ir2_opcode where "LISA_XVDP2_W_HU_H \<equiv> 2128"
abbreviation (input) LISA_XVDP2_D_WU_W :: ir2_opcode where "LISA_XVDP2_D_WU_W \<equiv> 2129"
abbreviation (input) LISA_XVDP2_Q_DU_D :: ir2_opcode where "LISA_XVDP2_Q_DU_D \<equiv> 2130"
abbreviation (input) LISA_XVDP2ADD_H_B :: ir2_opcode where "LISA_XVDP2ADD_H_B \<equiv> 2131"
abbreviation (input) LISA_XVDP2ADD_W_H :: ir2_opcode where "LISA_XVDP2ADD_W_H \<equiv> 2132"
abbreviation (input) LISA_XVDP2ADD_D_W :: ir2_opcode where "LISA_XVDP2ADD_D_W \<equiv> 2133"
abbreviation (input) LISA_XVDP2ADD_Q_D :: ir2_opcode where "LISA_XVDP2ADD_Q_D \<equiv> 2134"
abbreviation (input) LISA_XVDP2ADD_H_BU :: ir2_opcode where "LISA_XVDP2ADD_H_BU \<equiv> 2135"
abbreviation (input) LISA_XVDP2ADD_W_HU :: ir2_opcode where "LISA_XVDP2ADD_W_HU \<equiv> 2136"
abbreviation (input) LISA_XVDP2ADD_D_WU :: ir2_opcode where "LISA_XVDP2ADD_D_WU \<equiv> 2137"
abbreviation (input) LISA_XVDP2ADD_Q_DU :: ir2_opcode where "LISA_XVDP2ADD_Q_DU \<equiv> 2138"
abbreviation (input) LISA_XVDP2ADD_H_BU_B :: ir2_opcode where "LISA_XVDP2ADD_H_BU_B \<equiv> 2139"
abbreviation (input) LISA_XVDP2ADD_W_HU_H :: ir2_opcode where "LISA_XVDP2ADD_W_HU_H \<equiv> 2140"
abbreviation (input) LISA_XVDP2ADD_D_WU_W :: ir2_opcode where "LISA_XVDP2ADD_D_WU_W \<equiv> 2141"
abbreviation (input) LISA_XVDP2ADD_Q_DU_D :: ir2_opcode where "LISA_XVDP2ADD_Q_DU_D \<equiv> 2142"
abbreviation (input) LISA_XVDP2SUB_H_B :: ir2_opcode where "LISA_XVDP2SUB_H_B \<equiv> 2143"
abbreviation (input) LISA_XVDP2SUB_W_H :: ir2_opcode where "LISA_XVDP2SUB_W_H \<equiv> 2144"
abbreviation (input) LISA_XVDP2SUB_D_W :: ir2_opcode where "LISA_XVDP2SUB_D_W \<equiv> 2145"
abbreviation (input) LISA_XVDP2SUB_Q_D :: ir2_opcode where "LISA_XVDP2SUB_Q_D \<equiv> 2146"
abbreviation (input) LISA_XVDP2SUB_H_BU :: ir2_opcode where "LISA_XVDP2SUB_H_BU \<equiv> 2147"
abbreviation (input) LISA_XVDP2SUB_W_HU :: ir2_opcode where "LISA_XVDP2SUB_W_HU \<equiv> 2148"
abbreviation (input) LISA_XVDP2SUB_D_WU :: ir2_opcode where "LISA_XVDP2SUB_D_WU \<equiv> 2149"
abbreviation (input) LISA_XVDP2SUB_Q_DU :: ir2_opcode where "LISA_XVDP2SUB_Q_DU \<equiv> 2150"
abbreviation (input) LISA_XVDP4_W_B :: ir2_opcode where "LISA_XVDP4_W_B \<equiv> 2151"
abbreviation (input) LISA_XVDP4_D_H :: ir2_opcode where "LISA_XVDP4_D_H \<equiv> 2152"
abbreviation (input) LISA_XVDP4_Q_W :: ir2_opcode where "LISA_XVDP4_Q_W \<equiv> 2153"
abbreviation (input) LISA_XVDP4_W_BU :: ir2_opcode where "LISA_XVDP4_W_BU \<equiv> 2154"
abbreviation (input) LISA_XVDP4_D_HU :: ir2_opcode where "LISA_XVDP4_D_HU \<equiv> 2155"
abbreviation (input) LISA_XVDP4_Q_WU :: ir2_opcode where "LISA_XVDP4_Q_WU \<equiv> 2156"
abbreviation (input) LISA_XVDP4_W_BU_B :: ir2_opcode where "LISA_XVDP4_W_BU_B \<equiv> 2157"
abbreviation (input) LISA_XVDP4_D_HU_H :: ir2_opcode where "LISA_XVDP4_D_HU_H \<equiv> 2158"
abbreviation (input) LISA_XVDP4_Q_WU_W :: ir2_opcode where "LISA_XVDP4_Q_WU_W \<equiv> 2159"
abbreviation (input) LISA_XVDP4ADD_W_B :: ir2_opcode where "LISA_XVDP4ADD_W_B \<equiv> 2160"
abbreviation (input) LISA_XVDP4ADD_D_H :: ir2_opcode where "LISA_XVDP4ADD_D_H \<equiv> 2161"
abbreviation (input) LISA_XVDP4ADD_Q_W :: ir2_opcode where "LISA_XVDP4ADD_Q_W \<equiv> 2162"
abbreviation (input) LISA_XVDP4ADD_W_BU :: ir2_opcode where "LISA_XVDP4ADD_W_BU \<equiv> 2163"
abbreviation (input) LISA_XVDP4ADD_D_HU :: ir2_opcode where "LISA_XVDP4ADD_D_HU \<equiv> 2164"
abbreviation (input) LISA_XVDP4ADD_Q_WU :: ir2_opcode where "LISA_XVDP4ADD_Q_WU \<equiv> 2165"
abbreviation (input) LISA_XVDP4ADD_W_BU_B :: ir2_opcode where "LISA_XVDP4ADD_W_BU_B \<equiv> 2166"
abbreviation (input) LISA_XVDP4ADD_D_HU_H :: ir2_opcode where "LISA_XVDP4ADD_D_HU_H \<equiv> 2167"
abbreviation (input) LISA_XVDP4ADD_Q_WU_W :: ir2_opcode where "LISA_XVDP4ADD_Q_WU_W \<equiv> 2168"
abbreviation (input) LISA_XVDIV_B :: ir2_opcode where "LISA_XVDIV_B \<equiv> 2169"
abbreviation (input) LISA_XVDIV_H :: ir2_opcode where "LISA_XVDIV_H \<equiv> 2170"
abbreviation (input) LISA_XVDIV_W :: ir2_opcode where "LISA_XVDIV_W \<equiv> 2171"
abbreviation (input) LISA_XVDIV_D :: ir2_opcode where "LISA_XVDIV_D \<equiv> 2172"
abbreviation (input) LISA_XVMOD_B :: ir2_opcode where "LISA_XVMOD_B \<equiv> 2173"
abbreviation (input) LISA_XVMOD_H :: ir2_opcode where "LISA_XVMOD_H \<equiv> 2174"
abbreviation (input) LISA_XVMOD_W :: ir2_opcode where "LISA_XVMOD_W \<equiv> 2175"
abbreviation (input) LISA_XVMOD_D :: ir2_opcode where "LISA_XVMOD_D \<equiv> 2176"
abbreviation (input) LISA_XVDIV_BU :: ir2_opcode where "LISA_XVDIV_BU \<equiv> 2177"
abbreviation (input) LISA_XVDIV_HU :: ir2_opcode where "LISA_XVDIV_HU \<equiv> 2178"
abbreviation (input) LISA_XVDIV_WU :: ir2_opcode where "LISA_XVDIV_WU \<equiv> 2179"
abbreviation (input) LISA_XVDIV_DU :: ir2_opcode where "LISA_XVDIV_DU \<equiv> 2180"
abbreviation (input) LISA_XVMOD_BU :: ir2_opcode where "LISA_XVMOD_BU \<equiv> 2181"
abbreviation (input) LISA_XVMOD_HU :: ir2_opcode where "LISA_XVMOD_HU \<equiv> 2182"
abbreviation (input) LISA_XVMOD_WU :: ir2_opcode where "LISA_XVMOD_WU \<equiv> 2183"
abbreviation (input) LISA_XVMOD_DU :: ir2_opcode where "LISA_XVMOD_DU \<equiv> 2184"
abbreviation (input) LISA_XVSLL_B :: ir2_opcode where "LISA_XVSLL_B \<equiv> 2185"
abbreviation (input) LISA_XVSLL_H :: ir2_opcode where "LISA_XVSLL_H \<equiv> 2186"
abbreviation (input) LISA_XVSLL_W :: ir2_opcode where "LISA_XVSLL_W \<equiv> 2187"
abbreviation (input) LISA_XVSLL_D :: ir2_opcode where "LISA_XVSLL_D \<equiv> 2188"
abbreviation (input) LISA_XVSRL_B :: ir2_opcode where "LISA_XVSRL_B \<equiv> 2189"
abbreviation (input) LISA_XVSRL_H :: ir2_opcode where "LISA_XVSRL_H \<equiv> 2190"
abbreviation (input) LISA_XVSRL_W :: ir2_opcode where "LISA_XVSRL_W \<equiv> 2191"
abbreviation (input) LISA_XVSRL_D :: ir2_opcode where "LISA_XVSRL_D \<equiv> 2192"
abbreviation (input) LISA_XVSRA_B :: ir2_opcode where "LISA_XVSRA_B \<equiv> 2193"
abbreviation (input) LISA_XVSRA_H :: ir2_opcode where "LISA_XVSRA_H \<equiv> 2194"
abbreviation (input) LISA_XVSRA_W :: ir2_opcode where "LISA_XVSRA_W \<equiv> 2195"
abbreviation (input) LISA_XVSRA_D :: ir2_opcode where "LISA_XVSRA_D \<equiv> 2196"
abbreviation (input) LISA_XVROTR_B :: ir2_opcode where "LISA_XVROTR_B \<equiv> 2197"
abbreviation (input) LISA_XVROTR_H :: ir2_opcode where "LISA_XVROTR_H \<equiv> 2198"
abbreviation (input) LISA_XVROTR_W :: ir2_opcode where "LISA_XVROTR_W \<equiv> 2199"
abbreviation (input) LISA_XVROTR_D :: ir2_opcode where "LISA_XVROTR_D \<equiv> 2200"
abbreviation (input) LISA_XVSRLR_B :: ir2_opcode where "LISA_XVSRLR_B \<equiv> 2201"
abbreviation (input) LISA_XVSRLR_H :: ir2_opcode where "LISA_XVSRLR_H \<equiv> 2202"
abbreviation (input) LISA_XVSRLR_W :: ir2_opcode where "LISA_XVSRLR_W \<equiv> 2203"
abbreviation (input) LISA_XVSRLR_D :: ir2_opcode where "LISA_XVSRLR_D \<equiv> 2204"
abbreviation (input) LISA_XVSRAR_B :: ir2_opcode where "LISA_XVSRAR_B \<equiv> 2205"
abbreviation (input) LISA_XVSRAR_H :: ir2_opcode where "LISA_XVSRAR_H \<equiv> 2206"
abbreviation (input) LISA_XVSRAR_W :: ir2_opcode where "LISA_XVSRAR_W \<equiv> 2207"
abbreviation (input) LISA_XVSRAR_D :: ir2_opcode where "LISA_XVSRAR_D \<equiv> 2208"
abbreviation (input) LISA_XVSRLN_B_H :: ir2_opcode where "LISA_XVSRLN_B_H \<equiv> 2209"
abbreviation (input) LISA_XVSRLN_H_W :: ir2_opcode where "LISA_XVSRLN_H_W \<equiv> 2210"
abbreviation (input) LISA_XVSRLN_W_D :: ir2_opcode where "LISA_XVSRLN_W_D \<equiv> 2211"
abbreviation (input) LISA_XVSRAN_B_H :: ir2_opcode where "LISA_XVSRAN_B_H \<equiv> 2212"
abbreviation (input) LISA_XVSRAN_H_W :: ir2_opcode where "LISA_XVSRAN_H_W \<equiv> 2213"
abbreviation (input) LISA_XVSRAN_W_D :: ir2_opcode where "LISA_XVSRAN_W_D \<equiv> 2214"
abbreviation (input) LISA_XVSRLRN_B_H :: ir2_opcode where "LISA_XVSRLRN_B_H \<equiv> 2215"
abbreviation (input) LISA_XVSRLRN_H_W :: ir2_opcode where "LISA_XVSRLRN_H_W \<equiv> 2216"
abbreviation (input) LISA_XVSRLRN_W_D :: ir2_opcode where "LISA_XVSRLRN_W_D \<equiv> 2217"
abbreviation (input) LISA_XVSRARN_B_H :: ir2_opcode where "LISA_XVSRARN_B_H \<equiv> 2218"
abbreviation (input) LISA_XVSRARN_H_W :: ir2_opcode where "LISA_XVSRARN_H_W \<equiv> 2219"
abbreviation (input) LISA_XVSRARN_W_D :: ir2_opcode where "LISA_XVSRARN_W_D \<equiv> 2220"
abbreviation (input) LISA_XVSSRLN_B_H :: ir2_opcode where "LISA_XVSSRLN_B_H \<equiv> 2221"
abbreviation (input) LISA_XVSSRLN_H_W :: ir2_opcode where "LISA_XVSSRLN_H_W \<equiv> 2222"
abbreviation (input) LISA_XVSSRLN_W_D :: ir2_opcode where "LISA_XVSSRLN_W_D \<equiv> 2223"
abbreviation (input) LISA_XVSSRAN_B_H :: ir2_opcode where "LISA_XVSSRAN_B_H \<equiv> 2224"
abbreviation (input) LISA_XVSSRAN_H_W :: ir2_opcode where "LISA_XVSSRAN_H_W \<equiv> 2225"
abbreviation (input) LISA_XVSSRAN_W_D :: ir2_opcode where "LISA_XVSSRAN_W_D \<equiv> 2226"
abbreviation (input) LISA_XVSSRLRN_B_H :: ir2_opcode where "LISA_XVSSRLRN_B_H \<equiv> 2227"
abbreviation (input) LISA_XVSSRLRN_H_W :: ir2_opcode where "LISA_XVSSRLRN_H_W \<equiv> 2228"
abbreviation (input) LISA_XVSSRLRN_W_D :: ir2_opcode where "LISA_XVSSRLRN_W_D \<equiv> 2229"
abbreviation (input) LISA_XVSSRARN_B_H :: ir2_opcode where "LISA_XVSSRARN_B_H \<equiv> 2230"
abbreviation (input) LISA_XVSSRARN_H_W :: ir2_opcode where "LISA_XVSSRARN_H_W \<equiv> 2231"
abbreviation (input) LISA_XVSSRARN_W_D :: ir2_opcode where "LISA_XVSSRARN_W_D \<equiv> 2232"
abbreviation (input) LISA_XVSSRLN_BU_H :: ir2_opcode where "LISA_XVSSRLN_BU_H \<equiv> 2233"
abbreviation (input) LISA_XVSSRLN_HU_W :: ir2_opcode where "LISA_XVSSRLN_HU_W \<equiv> 2234"
abbreviation (input) LISA_XVSSRLN_WU_D :: ir2_opcode where "LISA_XVSSRLN_WU_D \<equiv> 2235"
abbreviation (input) LISA_XVSSRAN_BU_H :: ir2_opcode where "LISA_XVSSRAN_BU_H \<equiv> 2236"
abbreviation (input) LISA_XVSSRAN_HU_W :: ir2_opcode where "LISA_XVSSRAN_HU_W \<equiv> 2237"
abbreviation (input) LISA_XVSSRAN_WU_D :: ir2_opcode where "LISA_XVSSRAN_WU_D \<equiv> 2238"
abbreviation (input) LISA_XVSSRLRN_BU_H :: ir2_opcode where "LISA_XVSSRLRN_BU_H \<equiv> 2239"
abbreviation (input) LISA_XVSSRLRN_HU_W :: ir2_opcode where "LISA_XVSSRLRN_HU_W \<equiv> 2240"
abbreviation (input) LISA_XVSSRLRN_WU_D :: ir2_opcode where "LISA_XVSSRLRN_WU_D \<equiv> 2241"
abbreviation (input) LISA_XVSSRARN_BU_H :: ir2_opcode where "LISA_XVSSRARN_BU_H \<equiv> 2242"
abbreviation (input) LISA_XVSSRARN_HU_W :: ir2_opcode where "LISA_XVSSRARN_HU_W \<equiv> 2243"
abbreviation (input) LISA_XVSSRARN_WU_D :: ir2_opcode where "LISA_XVSSRARN_WU_D \<equiv> 2244"
abbreviation (input) LISA_XVBITCLR_B :: ir2_opcode where "LISA_XVBITCLR_B \<equiv> 2245"
abbreviation (input) LISA_XVBITCLR_H :: ir2_opcode where "LISA_XVBITCLR_H \<equiv> 2246"
abbreviation (input) LISA_XVBITCLR_W :: ir2_opcode where "LISA_XVBITCLR_W \<equiv> 2247"
abbreviation (input) LISA_XVBITCLR_D :: ir2_opcode where "LISA_XVBITCLR_D \<equiv> 2248"
abbreviation (input) LISA_XVBITSET_B :: ir2_opcode where "LISA_XVBITSET_B \<equiv> 2249"
abbreviation (input) LISA_XVBITSET_H :: ir2_opcode where "LISA_XVBITSET_H \<equiv> 2250"
abbreviation (input) LISA_XVBITSET_W :: ir2_opcode where "LISA_XVBITSET_W \<equiv> 2251"
abbreviation (input) LISA_XVBITSET_D :: ir2_opcode where "LISA_XVBITSET_D \<equiv> 2252"
abbreviation (input) LISA_XVBITREV_B :: ir2_opcode where "LISA_XVBITREV_B \<equiv> 2253"
abbreviation (input) LISA_XVBITREV_H :: ir2_opcode where "LISA_XVBITREV_H \<equiv> 2254"
abbreviation (input) LISA_XVBITREV_W :: ir2_opcode where "LISA_XVBITREV_W \<equiv> 2255"
abbreviation (input) LISA_XVBITREV_D :: ir2_opcode where "LISA_XVBITREV_D \<equiv> 2256"
abbreviation (input) LISA_XVBSTRC12_B :: ir2_opcode where "LISA_XVBSTRC12_B \<equiv> 2257"
abbreviation (input) LISA_XVBSTRC12_H :: ir2_opcode where "LISA_XVBSTRC12_H \<equiv> 2258"
abbreviation (input) LISA_XVBSTRC12_W :: ir2_opcode where "LISA_XVBSTRC12_W \<equiv> 2259"
abbreviation (input) LISA_XVBSTRC12_D :: ir2_opcode where "LISA_XVBSTRC12_D \<equiv> 2260"
abbreviation (input) LISA_XVBSTRC21_B :: ir2_opcode where "LISA_XVBSTRC21_B \<equiv> 2261"
abbreviation (input) LISA_XVBSTRC21_H :: ir2_opcode where "LISA_XVBSTRC21_H \<equiv> 2262"
abbreviation (input) LISA_XVBSTRC21_W :: ir2_opcode where "LISA_XVBSTRC21_W \<equiv> 2263"
abbreviation (input) LISA_XVBSTRC21_D :: ir2_opcode where "LISA_XVBSTRC21_D \<equiv> 2264"
abbreviation (input) LISA_XVPACKEV_B :: ir2_opcode where "LISA_XVPACKEV_B \<equiv> 2265"
abbreviation (input) LISA_XVPACKEV_H :: ir2_opcode where "LISA_XVPACKEV_H \<equiv> 2266"
abbreviation (input) LISA_XVPACKEV_W :: ir2_opcode where "LISA_XVPACKEV_W \<equiv> 2267"
abbreviation (input) LISA_XVPACKEV_D :: ir2_opcode where "LISA_XVPACKEV_D \<equiv> 2268"
abbreviation (input) LISA_XVPACKOD_B :: ir2_opcode where "LISA_XVPACKOD_B \<equiv> 2269"
abbreviation (input) LISA_XVPACKOD_H :: ir2_opcode where "LISA_XVPACKOD_H \<equiv> 2270"
abbreviation (input) LISA_XVPACKOD_W :: ir2_opcode where "LISA_XVPACKOD_W \<equiv> 2271"
abbreviation (input) LISA_XVPACKOD_D :: ir2_opcode where "LISA_XVPACKOD_D \<equiv> 2272"
abbreviation (input) LISA_XVILVL_B :: ir2_opcode where "LISA_XVILVL_B \<equiv> 2273"
abbreviation (input) LISA_XVILVL_H :: ir2_opcode where "LISA_XVILVL_H \<equiv> 2274"
abbreviation (input) LISA_XVILVL_W :: ir2_opcode where "LISA_XVILVL_W \<equiv> 2275"
abbreviation (input) LISA_XVILVL_D :: ir2_opcode where "LISA_XVILVL_D \<equiv> 2276"
abbreviation (input) LISA_XVILVH_B :: ir2_opcode where "LISA_XVILVH_B \<equiv> 2277"
abbreviation (input) LISA_XVILVH_H :: ir2_opcode where "LISA_XVILVH_H \<equiv> 2278"
abbreviation (input) LISA_XVILVH_W :: ir2_opcode where "LISA_XVILVH_W \<equiv> 2279"
abbreviation (input) LISA_XVILVH_D :: ir2_opcode where "LISA_XVILVH_D \<equiv> 2280"
abbreviation (input) LISA_XVPICKEV_B :: ir2_opcode where "LISA_XVPICKEV_B \<equiv> 2281"
abbreviation (input) LISA_XVPICKEV_H :: ir2_opcode where "LISA_XVPICKEV_H \<equiv> 2282"
abbreviation (input) LISA_XVPICKEV_W :: ir2_opcode where "LISA_XVPICKEV_W \<equiv> 2283"
abbreviation (input) LISA_XVPICKEV_D :: ir2_opcode where "LISA_XVPICKEV_D \<equiv> 2284"
abbreviation (input) LISA_XVPICKOD_B :: ir2_opcode where "LISA_XVPICKOD_B \<equiv> 2285"
abbreviation (input) LISA_XVPICKOD_H :: ir2_opcode where "LISA_XVPICKOD_H \<equiv> 2286"
abbreviation (input) LISA_XVPICKOD_W :: ir2_opcode where "LISA_XVPICKOD_W \<equiv> 2287"
abbreviation (input) LISA_XVPICKOD_D :: ir2_opcode where "LISA_XVPICKOD_D \<equiv> 2288"
abbreviation (input) LISA_XVREPLVE_B :: ir2_opcode where "LISA_XVREPLVE_B \<equiv> 2289"
abbreviation (input) LISA_XVREPLVE_H :: ir2_opcode where "LISA_XVREPLVE_H \<equiv> 2290"
abbreviation (input) LISA_XVREPLVE_W :: ir2_opcode where "LISA_XVREPLVE_W \<equiv> 2291"
abbreviation (input) LISA_XVREPLVE_D :: ir2_opcode where "LISA_XVREPLVE_D \<equiv> 2292"
abbreviation (input) LISA_XVEXTRCOL_B :: ir2_opcode where "LISA_XVEXTRCOL_B \<equiv> 2293"
abbreviation (input) LISA_XVEXTRCOL_H :: ir2_opcode where "LISA_XVEXTRCOL_H \<equiv> 2294"
abbreviation (input) LISA_XVEXTRCOL_W :: ir2_opcode where "LISA_XVEXTRCOL_W \<equiv> 2295"
abbreviation (input) LISA_XVEXTRCOL_D :: ir2_opcode where "LISA_XVEXTRCOL_D \<equiv> 2296"
abbreviation (input) LISA_XVAND_V :: ir2_opcode where "LISA_XVAND_V \<equiv> 2297"
abbreviation (input) LISA_XVOR_V :: ir2_opcode where "LISA_XVOR_V \<equiv> 2298"
abbreviation (input) LISA_XVXOR_V :: ir2_opcode where "LISA_XVXOR_V \<equiv> 2299"
abbreviation (input) LISA_XVNOR_V :: ir2_opcode where "LISA_XVNOR_V \<equiv> 2300"
abbreviation (input) LISA_XVANDN_V :: ir2_opcode where "LISA_XVANDN_V \<equiv> 2301"
abbreviation (input) LISA_XVORN_V :: ir2_opcode where "LISA_XVORN_V \<equiv> 2302"
abbreviation (input) LISA_XVRANDSIGN_B :: ir2_opcode where "LISA_XVRANDSIGN_B \<equiv> 2303"
abbreviation (input) LISA_XVRANDSIGN_H :: ir2_opcode where "LISA_XVRANDSIGN_H \<equiv> 2304"
abbreviation (input) LISA_XVRORSIGN_B :: ir2_opcode where "LISA_XVRORSIGN_B \<equiv> 2305"
abbreviation (input) LISA_XVRORSIGN_H :: ir2_opcode where "LISA_XVRORSIGN_H \<equiv> 2306"
abbreviation (input) LISA_XVFRSTP_B :: ir2_opcode where "LISA_XVFRSTP_B \<equiv> 2307"
abbreviation (input) LISA_XVFRSTP_H :: ir2_opcode where "LISA_XVFRSTP_H \<equiv> 2308"
abbreviation (input) LISA_XVCLRSTRR_V :: ir2_opcode where "LISA_XVCLRSTRR_V \<equiv> 2309"
abbreviation (input) LISA_XVCLRSTRV_V :: ir2_opcode where "LISA_XVCLRSTRV_V \<equiv> 2310"
abbreviation (input) LISA_XVADD_Q :: ir2_opcode where "LISA_XVADD_Q \<equiv> 2311"
abbreviation (input) LISA_XVSUB_Q :: ir2_opcode where "LISA_XVSUB_Q \<equiv> 2312"
abbreviation (input) LISA_XVSIGNCOV_B :: ir2_opcode where "LISA_XVSIGNCOV_B \<equiv> 2313"
abbreviation (input) LISA_XVSIGNCOV_H :: ir2_opcode where "LISA_XVSIGNCOV_H \<equiv> 2314"
abbreviation (input) LISA_XVSIGNCOV_W :: ir2_opcode where "LISA_XVSIGNCOV_W \<equiv> 2315"
abbreviation (input) LISA_XVSIGNCOV_D :: ir2_opcode where "LISA_XVSIGNCOV_D \<equiv> 2316"
abbreviation (input) LISA_XVFADD_S :: ir2_opcode where "LISA_XVFADD_S \<equiv> 2317"
abbreviation (input) LISA_XVFADD_D :: ir2_opcode where "LISA_XVFADD_D \<equiv> 2318"
abbreviation (input) LISA_XVFSUB_S :: ir2_opcode where "LISA_XVFSUB_S \<equiv> 2319"
abbreviation (input) LISA_XVFSUB_D :: ir2_opcode where "LISA_XVFSUB_D \<equiv> 2320"
abbreviation (input) LISA_XVFADDSUB_S :: ir2_opcode where "LISA_XVFADDSUB_S \<equiv> 2321"
abbreviation (input) LISA_XVFADDSUB_D :: ir2_opcode where "LISA_XVFADDSUB_D \<equiv> 2322"
abbreviation (input) LISA_XVFSUBADD_S :: ir2_opcode where "LISA_XVFSUBADD_S \<equiv> 2323"
abbreviation (input) LISA_XVFSUBADD_D :: ir2_opcode where "LISA_XVFSUBADD_D \<equiv> 2324"
abbreviation (input) LISA_XVFMUL_S :: ir2_opcode where "LISA_XVFMUL_S \<equiv> 2325"
abbreviation (input) LISA_XVFMUL_D :: ir2_opcode where "LISA_XVFMUL_D \<equiv> 2326"
abbreviation (input) LISA_XVFDIV_S :: ir2_opcode where "LISA_XVFDIV_S \<equiv> 2327"
abbreviation (input) LISA_XVFDIV_D :: ir2_opcode where "LISA_XVFDIV_D \<equiv> 2328"
abbreviation (input) LISA_XVFMAX_S :: ir2_opcode where "LISA_XVFMAX_S \<equiv> 2329"
abbreviation (input) LISA_XVFMAX_D :: ir2_opcode where "LISA_XVFMAX_D \<equiv> 2330"
abbreviation (input) LISA_XVFMIN_S :: ir2_opcode where "LISA_XVFMIN_S \<equiv> 2331"
abbreviation (input) LISA_XVFMIN_D :: ir2_opcode where "LISA_XVFMIN_D \<equiv> 2332"
abbreviation (input) LISA_XVFMAXA_S :: ir2_opcode where "LISA_XVFMAXA_S \<equiv> 2333"
abbreviation (input) LISA_XVFMAXA_D :: ir2_opcode where "LISA_XVFMAXA_D \<equiv> 2334"
abbreviation (input) LISA_XVFMINA_S :: ir2_opcode where "LISA_XVFMINA_S \<equiv> 2335"
abbreviation (input) LISA_XVFMINA_D :: ir2_opcode where "LISA_XVFMINA_D \<equiv> 2336"
abbreviation (input) LISA_XVFSCALEB_S :: ir2_opcode where "LISA_XVFSCALEB_S \<equiv> 2337"
abbreviation (input) LISA_XVFSCALEB_D :: ir2_opcode where "LISA_XVFSCALEB_D \<equiv> 2338"
abbreviation (input) LISA_XVFCVT_H_S :: ir2_opcode where "LISA_XVFCVT_H_S \<equiv> 2339"
abbreviation (input) LISA_XVFCVT_S_D :: ir2_opcode where "LISA_XVFCVT_S_D \<equiv> 2340"
abbreviation (input) LISA_XVFFINT_S_L :: ir2_opcode where "LISA_XVFFINT_S_L \<equiv> 2341"
abbreviation (input) LISA_XVFTINT_W_D :: ir2_opcode where "LISA_XVFTINT_W_D \<equiv> 2342"
abbreviation (input) LISA_XVFTINTRM_W_D :: ir2_opcode where "LISA_XVFTINTRM_W_D \<equiv> 2343"
abbreviation (input) LISA_XVFTINTRP_W_D :: ir2_opcode where "LISA_XVFTINTRP_W_D \<equiv> 2344"
abbreviation (input) LISA_XVFTINTRZ_W_D :: ir2_opcode where "LISA_XVFTINTRZ_W_D \<equiv> 2345"
abbreviation (input) LISA_XVFTINTRNE_W_D :: ir2_opcode where "LISA_XVFTINTRNE_W_D \<equiv> 2346"
abbreviation (input) LISA_XVHADD4_H_BU :: ir2_opcode where "LISA_XVHADD4_H_BU \<equiv> 2347"
abbreviation (input) LISA_XVSHUF4_W :: ir2_opcode where "LISA_XVSHUF4_W \<equiv> 2348"
abbreviation (input) LISA_XVSHUF2_D :: ir2_opcode where "LISA_XVSHUF2_D \<equiv> 2349"
abbreviation (input) LISA_XVPMUL_W :: ir2_opcode where "LISA_XVPMUL_W \<equiv> 2350"
abbreviation (input) LISA_XVPMUL_D :: ir2_opcode where "LISA_XVPMUL_D \<equiv> 2351"
abbreviation (input) LISA_XVPMUH_W :: ir2_opcode where "LISA_XVPMUH_W \<equiv> 2352"
abbreviation (input) LISA_XVPMUH_D :: ir2_opcode where "LISA_XVPMUH_D \<equiv> 2353"
abbreviation (input) LISA_XVPMULACC_W :: ir2_opcode where "LISA_XVPMULACC_W \<equiv> 2354"
abbreviation (input) LISA_XVPMULACC_D :: ir2_opcode where "LISA_XVPMULACC_D \<equiv> 2355"
abbreviation (input) LISA_XVPMUHACC_W :: ir2_opcode where "LISA_XVPMUHACC_W \<equiv> 2356"
abbreviation (input) LISA_XVPMUHACC_D :: ir2_opcode where "LISA_XVPMUHACC_D \<equiv> 2357"
abbreviation (input) LISA_XVPMULWL_H_B :: ir2_opcode where "LISA_XVPMULWL_H_B \<equiv> 2358"
abbreviation (input) LISA_XVPMULWL_W_H :: ir2_opcode where "LISA_XVPMULWL_W_H \<equiv> 2359"
abbreviation (input) LISA_XVPMULWL_D_W :: ir2_opcode where "LISA_XVPMULWL_D_W \<equiv> 2360"
abbreviation (input) LISA_XVPMULWL_Q_D :: ir2_opcode where "LISA_XVPMULWL_Q_D \<equiv> 2361"
abbreviation (input) LISA_XVPMULWH_H_B :: ir2_opcode where "LISA_XVPMULWH_H_B \<equiv> 2362"
abbreviation (input) LISA_XVPMULWH_W_H :: ir2_opcode where "LISA_XVPMULWH_W_H \<equiv> 2363"
abbreviation (input) LISA_XVPMULWH_D_W :: ir2_opcode where "LISA_XVPMULWH_D_W \<equiv> 2364"
abbreviation (input) LISA_XVPMULWH_Q_D :: ir2_opcode where "LISA_XVPMULWH_Q_D \<equiv> 2365"
abbreviation (input) LISA_XVPMADDWL_H_B :: ir2_opcode where "LISA_XVPMADDWL_H_B \<equiv> 2366"
abbreviation (input) LISA_XVPMADDWL_W_H :: ir2_opcode where "LISA_XVPMADDWL_W_H \<equiv> 2367"
abbreviation (input) LISA_XVPMADDWL_D_W :: ir2_opcode where "LISA_XVPMADDWL_D_W \<equiv> 2368"
abbreviation (input) LISA_XVPMADDWL_Q_D :: ir2_opcode where "LISA_XVPMADDWL_Q_D \<equiv> 2369"
abbreviation (input) LISA_XVPMADDWH_H_B :: ir2_opcode where "LISA_XVPMADDWH_H_B \<equiv> 2370"
abbreviation (input) LISA_XVPMADDWH_W_H :: ir2_opcode where "LISA_XVPMADDWH_W_H \<equiv> 2371"
abbreviation (input) LISA_XVPMADDWH_D_W :: ir2_opcode where "LISA_XVPMADDWH_D_W \<equiv> 2372"
abbreviation (input) LISA_XVPMADDWH_Q_D :: ir2_opcode where "LISA_XVPMADDWH_Q_D \<equiv> 2373"
abbreviation (input) LISA_XVPDP2_Q_D :: ir2_opcode where "LISA_XVPDP2_Q_D \<equiv> 2374"
abbreviation (input) LISA_XVPDP2ADD_Q_D :: ir2_opcode where "LISA_XVPDP2ADD_Q_D \<equiv> 2375"
abbreviation (input) LISA_XVCDP4_RE_D_H :: ir2_opcode where "LISA_XVCDP4_RE_D_H \<equiv> 2376"
abbreviation (input) LISA_XVCDP4_IM_D_H :: ir2_opcode where "LISA_XVCDP4_IM_D_H \<equiv> 2377"
abbreviation (input) LISA_XVCDP4ADD_RE_D_H :: ir2_opcode where "LISA_XVCDP4ADD_RE_D_H \<equiv> 2378"
abbreviation (input) LISA_XVCDP4ADD_IM_D_H :: ir2_opcode where "LISA_XVCDP4ADD_IM_D_H \<equiv> 2379"
abbreviation (input) LISA_XVCDP2_RE_Q_W :: ir2_opcode where "LISA_XVCDP2_RE_Q_W \<equiv> 2380"
abbreviation (input) LISA_XVCDP2_IM_Q_W :: ir2_opcode where "LISA_XVCDP2_IM_Q_W \<equiv> 2381"
abbreviation (input) LISA_XVCDP2ADD_RE_Q_W :: ir2_opcode where "LISA_XVCDP2ADD_RE_Q_W \<equiv> 2382"
abbreviation (input) LISA_XVCDP2ADD_IM_Q_W :: ir2_opcode where "LISA_XVCDP2ADD_IM_Q_W \<equiv> 2383"
abbreviation (input) LISA_XVSIGNSEL_W :: ir2_opcode where "LISA_XVSIGNSEL_W \<equiv> 2384"
abbreviation (input) LISA_XVSIGNSEL_D :: ir2_opcode where "LISA_XVSIGNSEL_D \<equiv> 2385"
abbreviation (input) LISA_XVSHUF_H :: ir2_opcode where "LISA_XVSHUF_H \<equiv> 2386"
abbreviation (input) LISA_XVSHUF_W :: ir2_opcode where "LISA_XVSHUF_W \<equiv> 2387"
abbreviation (input) LISA_XVSHUF_D :: ir2_opcode where "LISA_XVSHUF_D \<equiv> 2388"
abbreviation (input) LISA_XVPERM_W :: ir2_opcode where "LISA_XVPERM_W \<equiv> 2389"
abbreviation (input) LISA_XVSEQI_B :: ir2_opcode where "LISA_XVSEQI_B \<equiv> 2390"
abbreviation (input) LISA_XVSEQI_H :: ir2_opcode where "LISA_XVSEQI_H \<equiv> 2391"
abbreviation (input) LISA_XVSEQI_W :: ir2_opcode where "LISA_XVSEQI_W \<equiv> 2392"
abbreviation (input) LISA_XVSEQI_D :: ir2_opcode where "LISA_XVSEQI_D \<equiv> 2393"
abbreviation (input) LISA_XVSLEI_B :: ir2_opcode where "LISA_XVSLEI_B \<equiv> 2394"
abbreviation (input) LISA_XVSLEI_H :: ir2_opcode where "LISA_XVSLEI_H \<equiv> 2395"
abbreviation (input) LISA_XVSLEI_W :: ir2_opcode where "LISA_XVSLEI_W \<equiv> 2396"
abbreviation (input) LISA_XVSLEI_D :: ir2_opcode where "LISA_XVSLEI_D \<equiv> 2397"
abbreviation (input) LISA_XVSLEI_BU :: ir2_opcode where "LISA_XVSLEI_BU \<equiv> 2398"
abbreviation (input) LISA_XVSLEI_HU :: ir2_opcode where "LISA_XVSLEI_HU \<equiv> 2399"
abbreviation (input) LISA_XVSLEI_WU :: ir2_opcode where "LISA_XVSLEI_WU \<equiv> 2400"
abbreviation (input) LISA_XVSLEI_DU :: ir2_opcode where "LISA_XVSLEI_DU \<equiv> 2401"
abbreviation (input) LISA_XVSLTI_B :: ir2_opcode where "LISA_XVSLTI_B \<equiv> 2402"
abbreviation (input) LISA_XVSLTI_H :: ir2_opcode where "LISA_XVSLTI_H \<equiv> 2403"
abbreviation (input) LISA_XVSLTI_W :: ir2_opcode where "LISA_XVSLTI_W \<equiv> 2404"
abbreviation (input) LISA_XVSLTI_D :: ir2_opcode where "LISA_XVSLTI_D \<equiv> 2405"
abbreviation (input) LISA_XVSLTI_BU :: ir2_opcode where "LISA_XVSLTI_BU \<equiv> 2406"
abbreviation (input) LISA_XVSLTI_HU :: ir2_opcode where "LISA_XVSLTI_HU \<equiv> 2407"
abbreviation (input) LISA_XVSLTI_WU :: ir2_opcode where "LISA_XVSLTI_WU \<equiv> 2408"
abbreviation (input) LISA_XVSLTI_DU :: ir2_opcode where "LISA_XVSLTI_DU \<equiv> 2409"
abbreviation (input) LISA_XVADDI_BU :: ir2_opcode where "LISA_XVADDI_BU \<equiv> 2410"
abbreviation (input) LISA_XVADDI_HU :: ir2_opcode where "LISA_XVADDI_HU \<equiv> 2411"
abbreviation (input) LISA_XVADDI_WU :: ir2_opcode where "LISA_XVADDI_WU \<equiv> 2412"
abbreviation (input) LISA_XVADDI_DU :: ir2_opcode where "LISA_XVADDI_DU \<equiv> 2413"
abbreviation (input) LISA_XVSUBI_BU :: ir2_opcode where "LISA_XVSUBI_BU \<equiv> 2414"
abbreviation (input) LISA_XVSUBI_HU :: ir2_opcode where "LISA_XVSUBI_HU \<equiv> 2415"
abbreviation (input) LISA_XVSUBI_WU :: ir2_opcode where "LISA_XVSUBI_WU \<equiv> 2416"
abbreviation (input) LISA_XVSUBI_DU :: ir2_opcode where "LISA_XVSUBI_DU \<equiv> 2417"
abbreviation (input) LISA_XVBSLL_V :: ir2_opcode where "LISA_XVBSLL_V \<equiv> 2418"
abbreviation (input) LISA_XVBSRL_V :: ir2_opcode where "LISA_XVBSRL_V \<equiv> 2419"
abbreviation (input) LISA_XVMAXI_B :: ir2_opcode where "LISA_XVMAXI_B \<equiv> 2420"
abbreviation (input) LISA_XVMAXI_H :: ir2_opcode where "LISA_XVMAXI_H \<equiv> 2421"
abbreviation (input) LISA_XVMAXI_W :: ir2_opcode where "LISA_XVMAXI_W \<equiv> 2422"
abbreviation (input) LISA_XVMAXI_D :: ir2_opcode where "LISA_XVMAXI_D \<equiv> 2423"
abbreviation (input) LISA_XVMINI_B :: ir2_opcode where "LISA_XVMINI_B \<equiv> 2424"
abbreviation (input) LISA_XVMINI_H :: ir2_opcode where "LISA_XVMINI_H \<equiv> 2425"
abbreviation (input) LISA_XVMINI_W :: ir2_opcode where "LISA_XVMINI_W \<equiv> 2426"
abbreviation (input) LISA_XVMINI_D :: ir2_opcode where "LISA_XVMINI_D \<equiv> 2427"
abbreviation (input) LISA_XVMAXI_BU :: ir2_opcode where "LISA_XVMAXI_BU \<equiv> 2428"
abbreviation (input) LISA_XVMAXI_HU :: ir2_opcode where "LISA_XVMAXI_HU \<equiv> 2429"
abbreviation (input) LISA_XVMAXI_WU :: ir2_opcode where "LISA_XVMAXI_WU \<equiv> 2430"
abbreviation (input) LISA_XVMAXI_DU :: ir2_opcode where "LISA_XVMAXI_DU \<equiv> 2431"
abbreviation (input) LISA_XVMINI_BU :: ir2_opcode where "LISA_XVMINI_BU \<equiv> 2432"
abbreviation (input) LISA_XVMINI_HU :: ir2_opcode where "LISA_XVMINI_HU \<equiv> 2433"
abbreviation (input) LISA_XVMINI_WU :: ir2_opcode where "LISA_XVMINI_WU \<equiv> 2434"
abbreviation (input) LISA_XVMINI_DU :: ir2_opcode where "LISA_XVMINI_DU \<equiv> 2435"
abbreviation (input) LISA_XVRANDSIGNI_B :: ir2_opcode where "LISA_XVRANDSIGNI_B \<equiv> 2436"
abbreviation (input) LISA_XVRANDSIGNI_H :: ir2_opcode where "LISA_XVRANDSIGNI_H \<equiv> 2437"
abbreviation (input) LISA_XVRORSIGNI_B :: ir2_opcode where "LISA_XVRORSIGNI_B \<equiv> 2438"
abbreviation (input) LISA_XVRORSIGNI_H :: ir2_opcode where "LISA_XVRORSIGNI_H \<equiv> 2439"
abbreviation (input) LISA_XVFRSTPI_B :: ir2_opcode where "LISA_XVFRSTPI_B \<equiv> 2440"
abbreviation (input) LISA_XVFRSTPI_H :: ir2_opcode where "LISA_XVFRSTPI_H \<equiv> 2441"
abbreviation (input) LISA_XVCLRSTRI_V :: ir2_opcode where "LISA_XVCLRSTRI_V \<equiv> 2442"
abbreviation (input) LISA_XVMEPATMSK_V :: ir2_opcode where "LISA_XVMEPATMSK_V \<equiv> 2443"
abbreviation (input) LISA_XVCLO_B :: ir2_opcode where "LISA_XVCLO_B \<equiv> 2444"
abbreviation (input) LISA_XVCLO_H :: ir2_opcode where "LISA_XVCLO_H \<equiv> 2445"
abbreviation (input) LISA_XVCLO_W :: ir2_opcode where "LISA_XVCLO_W \<equiv> 2446"
abbreviation (input) LISA_XVCLO_D :: ir2_opcode where "LISA_XVCLO_D \<equiv> 2447"
abbreviation (input) LISA_XVCLZ_B :: ir2_opcode where "LISA_XVCLZ_B \<equiv> 2448"
abbreviation (input) LISA_XVCLZ_H :: ir2_opcode where "LISA_XVCLZ_H \<equiv> 2449"
abbreviation (input) LISA_XVCLZ_W :: ir2_opcode where "LISA_XVCLZ_W \<equiv> 2450"
abbreviation (input) LISA_XVCLZ_D :: ir2_opcode where "LISA_XVCLZ_D \<equiv> 2451"
abbreviation (input) LISA_XVPCNT_B :: ir2_opcode where "LISA_XVPCNT_B \<equiv> 2452"
abbreviation (input) LISA_XVPCNT_H :: ir2_opcode where "LISA_XVPCNT_H \<equiv> 2453"
abbreviation (input) LISA_XVPCNT_W :: ir2_opcode where "LISA_XVPCNT_W \<equiv> 2454"
abbreviation (input) LISA_XVPCNT_D :: ir2_opcode where "LISA_XVPCNT_D \<equiv> 2455"
abbreviation (input) LISA_XVNEG_B :: ir2_opcode where "LISA_XVNEG_B \<equiv> 2456"
abbreviation (input) LISA_XVNEG_H :: ir2_opcode where "LISA_XVNEG_H \<equiv> 2457"
abbreviation (input) LISA_XVNEG_W :: ir2_opcode where "LISA_XVNEG_W \<equiv> 2458"
abbreviation (input) LISA_XVNEG_D :: ir2_opcode where "LISA_XVNEG_D \<equiv> 2459"
abbreviation (input) LISA_XVMSKLTZ_B :: ir2_opcode where "LISA_XVMSKLTZ_B \<equiv> 2460"
abbreviation (input) LISA_XVMSKLTZ_H :: ir2_opcode where "LISA_XVMSKLTZ_H \<equiv> 2461"
abbreviation (input) LISA_XVMSKLTZ_W :: ir2_opcode where "LISA_XVMSKLTZ_W \<equiv> 2462"
abbreviation (input) LISA_XVMSKLTZ_D :: ir2_opcode where "LISA_XVMSKLTZ_D \<equiv> 2463"
abbreviation (input) LISA_XVMSKGEZ_B :: ir2_opcode where "LISA_XVMSKGEZ_B \<equiv> 2464"
abbreviation (input) LISA_XVMSKNZ_B :: ir2_opcode where "LISA_XVMSKNZ_B \<equiv> 2465"
abbreviation (input) LISA_XVMSKCOPY_B :: ir2_opcode where "LISA_XVMSKCOPY_B \<equiv> 2466"
abbreviation (input) LISA_XVMSKFILL_B :: ir2_opcode where "LISA_XVMSKFILL_B \<equiv> 2467"
abbreviation (input) LISA_XVFRSTM_B :: ir2_opcode where "LISA_XVFRSTM_B \<equiv> 2468"
abbreviation (input) LISA_XVFRSTM_H :: ir2_opcode where "LISA_XVFRSTM_H \<equiv> 2469"
abbreviation (input) LISA_XVSETEQZ_V :: ir2_opcode where "LISA_XVSETEQZ_V \<equiv> 2470"
abbreviation (input) LISA_XVSETNEZ_V :: ir2_opcode where "LISA_XVSETNEZ_V \<equiv> 2471"
abbreviation (input) LISA_XVSETANYEQZ_B :: ir2_opcode where "LISA_XVSETANYEQZ_B \<equiv> 2472"
abbreviation (input) LISA_XVSETANYEQZ_H :: ir2_opcode where "LISA_XVSETANYEQZ_H \<equiv> 2473"
abbreviation (input) LISA_XVSETANYEQZ_W :: ir2_opcode where "LISA_XVSETANYEQZ_W \<equiv> 2474"
abbreviation (input) LISA_XVSETANYEQZ_D :: ir2_opcode where "LISA_XVSETANYEQZ_D \<equiv> 2475"
abbreviation (input) LISA_XVSETALLNEZ_B :: ir2_opcode where "LISA_XVSETALLNEZ_B \<equiv> 2476"
abbreviation (input) LISA_XVSETALLNEZ_H :: ir2_opcode where "LISA_XVSETALLNEZ_H \<equiv> 2477"
abbreviation (input) LISA_XVSETALLNEZ_W :: ir2_opcode where "LISA_XVSETALLNEZ_W \<equiv> 2478"
abbreviation (input) LISA_XVSETALLNEZ_D :: ir2_opcode where "LISA_XVSETALLNEZ_D \<equiv> 2479"
abbreviation (input) LISA_XVFLOGB_S :: ir2_opcode where "LISA_XVFLOGB_S \<equiv> 2480"
abbreviation (input) LISA_XVFLOGB_D :: ir2_opcode where "LISA_XVFLOGB_D \<equiv> 2481"
abbreviation (input) LISA_XVFCLASS_S :: ir2_opcode where "LISA_XVFCLASS_S \<equiv> 2482"
abbreviation (input) LISA_XVFCLASS_D :: ir2_opcode where "LISA_XVFCLASS_D \<equiv> 2483"
abbreviation (input) LISA_XVFSQRT_S :: ir2_opcode where "LISA_XVFSQRT_S \<equiv> 2484"
abbreviation (input) LISA_XVFSQRT_D :: ir2_opcode where "LISA_XVFSQRT_D \<equiv> 2485"
abbreviation (input) LISA_XVFRECIP_S :: ir2_opcode where "LISA_XVFRECIP_S \<equiv> 2486"
abbreviation (input) LISA_XVFRECIP_D :: ir2_opcode where "LISA_XVFRECIP_D \<equiv> 2487"
abbreviation (input) LISA_XVFRSQRT_S :: ir2_opcode where "LISA_XVFRSQRT_S \<equiv> 2488"
abbreviation (input) LISA_XVFRSQRT_D :: ir2_opcode where "LISA_XVFRSQRT_D \<equiv> 2489"
abbreviation (input) LISA_XVFRINT_S :: ir2_opcode where "LISA_XVFRINT_S \<equiv> 2490"
abbreviation (input) LISA_XVFRINT_D :: ir2_opcode where "LISA_XVFRINT_D \<equiv> 2491"
abbreviation (input) LISA_XVFRINTRM_S :: ir2_opcode where "LISA_XVFRINTRM_S \<equiv> 2492"
abbreviation (input) LISA_XVFRINTRM_D :: ir2_opcode where "LISA_XVFRINTRM_D \<equiv> 2493"
abbreviation (input) LISA_XVFRINTRP_S :: ir2_opcode where "LISA_XVFRINTRP_S \<equiv> 2494"
abbreviation (input) LISA_XVFRINTRP_D :: ir2_opcode where "LISA_XVFRINTRP_D \<equiv> 2495"
abbreviation (input) LISA_XVFRINTRZ_S :: ir2_opcode where "LISA_XVFRINTRZ_S \<equiv> 2496"
abbreviation (input) LISA_XVFRINTRZ_D :: ir2_opcode where "LISA_XVFRINTRZ_D \<equiv> 2497"
abbreviation (input) LISA_XVFRINTRNE_S :: ir2_opcode where "LISA_XVFRINTRNE_S \<equiv> 2498"
abbreviation (input) LISA_XVFRINTRNE_D :: ir2_opcode where "LISA_XVFRINTRNE_D \<equiv> 2499"
abbreviation (input) LISA_XVEXTL_W_B :: ir2_opcode where "LISA_XVEXTL_W_B \<equiv> 2500"
abbreviation (input) LISA_XVEXTL_D_B :: ir2_opcode where "LISA_XVEXTL_D_B \<equiv> 2501"
abbreviation (input) LISA_XVEXTL_D_H :: ir2_opcode where "LISA_XVEXTL_D_H \<equiv> 2502"
abbreviation (input) LISA_XVEXTL_W_BU :: ir2_opcode where "LISA_XVEXTL_W_BU \<equiv> 2503"
abbreviation (input) LISA_XVEXTL_D_BU :: ir2_opcode where "LISA_XVEXTL_D_BU \<equiv> 2504"
abbreviation (input) LISA_XVEXTL_D_HU :: ir2_opcode where "LISA_XVEXTL_D_HU \<equiv> 2505"
abbreviation (input) LISA_XVHADD8_D_BU :: ir2_opcode where "LISA_XVHADD8_D_BU \<equiv> 2506"
abbreviation (input) LISA_XVHMINPOS_W_HU :: ir2_opcode where "LISA_XVHMINPOS_W_HU \<equiv> 2507"
abbreviation (input) LISA_XVHMINPOS_D_HU :: ir2_opcode where "LISA_XVHMINPOS_D_HU \<equiv> 2508"
abbreviation (input) LISA_XVHMINPOS_Q_HU :: ir2_opcode where "LISA_XVHMINPOS_Q_HU \<equiv> 2509"
abbreviation (input) LISA_XVCLRTAIL_B :: ir2_opcode where "LISA_XVCLRTAIL_B \<equiv> 2510"
abbreviation (input) LISA_XVCLRTAIL_H :: ir2_opcode where "LISA_XVCLRTAIL_H \<equiv> 2511"
abbreviation (input) LISA_XVFCVTL_S_H :: ir2_opcode where "LISA_XVFCVTL_S_H \<equiv> 2512"
abbreviation (input) LISA_XVFCVTH_S_H :: ir2_opcode where "LISA_XVFCVTH_S_H \<equiv> 2513"
abbreviation (input) LISA_XVFCVTL_D_S :: ir2_opcode where "LISA_XVFCVTL_D_S \<equiv> 2514"
abbreviation (input) LISA_XVFCVTH_D_S :: ir2_opcode where "LISA_XVFCVTH_D_S \<equiv> 2515"
abbreviation (input) LISA_XVFFINT_S_W :: ir2_opcode where "LISA_XVFFINT_S_W \<equiv> 2516"
abbreviation (input) LISA_XVFFINT_S_WU :: ir2_opcode where "LISA_XVFFINT_S_WU \<equiv> 2517"
abbreviation (input) LISA_XVFFINT_D_L :: ir2_opcode where "LISA_XVFFINT_D_L \<equiv> 2518"
abbreviation (input) LISA_XVFFINT_D_LU :: ir2_opcode where "LISA_XVFFINT_D_LU \<equiv> 2519"
abbreviation (input) LISA_XVFFINTL_D_W :: ir2_opcode where "LISA_XVFFINTL_D_W \<equiv> 2520"
abbreviation (input) LISA_XVFFINTH_D_W :: ir2_opcode where "LISA_XVFFINTH_D_W \<equiv> 2521"
abbreviation (input) LISA_XVFTINT_W_S :: ir2_opcode where "LISA_XVFTINT_W_S \<equiv> 2522"
abbreviation (input) LISA_XVFTINT_L_D :: ir2_opcode where "LISA_XVFTINT_L_D \<equiv> 2523"
abbreviation (input) LISA_XVFTINTRM_W_S :: ir2_opcode where "LISA_XVFTINTRM_W_S \<equiv> 2524"
abbreviation (input) LISA_XVFTINTRM_L_D :: ir2_opcode where "LISA_XVFTINTRM_L_D \<equiv> 2525"
abbreviation (input) LISA_XVFTINTRP_W_S :: ir2_opcode where "LISA_XVFTINTRP_W_S \<equiv> 2526"
abbreviation (input) LISA_XVFTINTRP_L_D :: ir2_opcode where "LISA_XVFTINTRP_L_D \<equiv> 2527"
abbreviation (input) LISA_XVFTINTRZ_W_S :: ir2_opcode where "LISA_XVFTINTRZ_W_S \<equiv> 2528"
abbreviation (input) LISA_XVFTINTRZ_L_D :: ir2_opcode where "LISA_XVFTINTRZ_L_D \<equiv> 2529"
abbreviation (input) LISA_XVFTINTRNE_W_S :: ir2_opcode where "LISA_XVFTINTRNE_W_S \<equiv> 2530"
abbreviation (input) LISA_XVFTINTRNE_L_D :: ir2_opcode where "LISA_XVFTINTRNE_L_D \<equiv> 2531"
abbreviation (input) LISA_XVFTINT_WU_S :: ir2_opcode where "LISA_XVFTINT_WU_S \<equiv> 2532"
abbreviation (input) LISA_XVFTINT_LU_D :: ir2_opcode where "LISA_XVFTINT_LU_D \<equiv> 2533"
abbreviation (input) LISA_XVFTINTRZ_WU_S :: ir2_opcode where "LISA_XVFTINTRZ_WU_S \<equiv> 2534"
abbreviation (input) LISA_XVFTINTRZ_LU_D :: ir2_opcode where "LISA_XVFTINTRZ_LU_D \<equiv> 2535"
abbreviation (input) LISA_XVFTINTL_L_S :: ir2_opcode where "LISA_XVFTINTL_L_S \<equiv> 2536"
abbreviation (input) LISA_XVFTINTH_L_S :: ir2_opcode where "LISA_XVFTINTH_L_S \<equiv> 2537"
abbreviation (input) LISA_XVFTINTRML_L_S :: ir2_opcode where "LISA_XVFTINTRML_L_S \<equiv> 2538"
abbreviation (input) LISA_XVFTINTRMH_L_S :: ir2_opcode where "LISA_XVFTINTRMH_L_S \<equiv> 2539"
abbreviation (input) LISA_XVFTINTRPL_L_S :: ir2_opcode where "LISA_XVFTINTRPL_L_S \<equiv> 2540"
abbreviation (input) LISA_XVFTINTRPH_L_S :: ir2_opcode where "LISA_XVFTINTRPH_L_S \<equiv> 2541"
abbreviation (input) LISA_XVFTINTRZL_L_S :: ir2_opcode where "LISA_XVFTINTRZL_L_S \<equiv> 2542"
abbreviation (input) LISA_XVFTINTRZH_L_S :: ir2_opcode where "LISA_XVFTINTRZH_L_S \<equiv> 2543"
abbreviation (input) LISA_XVFTINTRNEL_L_S :: ir2_opcode where "LISA_XVFTINTRNEL_L_S \<equiv> 2544"
abbreviation (input) LISA_XVFTINTRNEH_L_S :: ir2_opcode where "LISA_XVFTINTRNEH_L_S \<equiv> 2545"
abbreviation (input) LISA_XVEXTH_H_B :: ir2_opcode where "LISA_XVEXTH_H_B \<equiv> 2546"
abbreviation (input) LISA_XVEXTH_W_H :: ir2_opcode where "LISA_XVEXTH_W_H \<equiv> 2547"
abbreviation (input) LISA_XVEXTH_D_W :: ir2_opcode where "LISA_XVEXTH_D_W \<equiv> 2548"
abbreviation (input) LISA_XVEXTH_Q_D :: ir2_opcode where "LISA_XVEXTH_Q_D \<equiv> 2549"
abbreviation (input) LISA_XVEXTH_HU_BU :: ir2_opcode where "LISA_XVEXTH_HU_BU \<equiv> 2550"
abbreviation (input) LISA_XVEXTH_WU_HU :: ir2_opcode where "LISA_XVEXTH_WU_HU \<equiv> 2551"
abbreviation (input) LISA_XVEXTH_DU_WU :: ir2_opcode where "LISA_XVEXTH_DU_WU \<equiv> 2552"
abbreviation (input) LISA_XVEXTH_QU_DU :: ir2_opcode where "LISA_XVEXTH_QU_DU \<equiv> 2553"
abbreviation (input) LISA_XVREPLGR2VR_B :: ir2_opcode where "LISA_XVREPLGR2VR_B \<equiv> 2554"
abbreviation (input) LISA_XVREPLGR2VR_H :: ir2_opcode where "LISA_XVREPLGR2VR_H \<equiv> 2555"
abbreviation (input) LISA_XVREPLGR2VR_W :: ir2_opcode where "LISA_XVREPLGR2VR_W \<equiv> 2556"
abbreviation (input) LISA_XVREPLGR2VR_D :: ir2_opcode where "LISA_XVREPLGR2VR_D \<equiv> 2557"
abbreviation (input) LISA_VEXT2XV_H_B :: ir2_opcode where "LISA_VEXT2XV_H_B \<equiv> 2558"
abbreviation (input) LISA_VEXT2XV_W_B :: ir2_opcode where "LISA_VEXT2XV_W_B \<equiv> 2559"
abbreviation (input) LISA_VEXT2XV_D_B :: ir2_opcode where "LISA_VEXT2XV_D_B \<equiv> 2560"
abbreviation (input) LISA_VEXT2XV_W_H :: ir2_opcode where "LISA_VEXT2XV_W_H \<equiv> 2561"
abbreviation (input) LISA_VEXT2XV_D_H :: ir2_opcode where "LISA_VEXT2XV_D_H \<equiv> 2562"
abbreviation (input) LISA_VEXT2XV_D_W :: ir2_opcode where "LISA_VEXT2XV_D_W \<equiv> 2563"
abbreviation (input) LISA_VEXT2XV_HU_BU :: ir2_opcode where "LISA_VEXT2XV_HU_BU \<equiv> 2564"
abbreviation (input) LISA_VEXT2XV_WU_BU :: ir2_opcode where "LISA_VEXT2XV_WU_BU \<equiv> 2565"
abbreviation (input) LISA_VEXT2XV_DU_BU :: ir2_opcode where "LISA_VEXT2XV_DU_BU \<equiv> 2566"
abbreviation (input) LISA_VEXT2XV_WU_HU :: ir2_opcode where "LISA_VEXT2XV_WU_HU \<equiv> 2567"
abbreviation (input) LISA_VEXT2XV_DU_HU :: ir2_opcode where "LISA_VEXT2XV_DU_HU \<equiv> 2568"
abbreviation (input) LISA_VEXT2XV_DU_WU :: ir2_opcode where "LISA_VEXT2XV_DU_WU \<equiv> 2569"
abbreviation (input) LISA_XVHSELI_D :: ir2_opcode where "LISA_XVHSELI_D \<equiv> 2570"
abbreviation (input) LISA_XVROTRI_B :: ir2_opcode where "LISA_XVROTRI_B \<equiv> 2571"
abbreviation (input) LISA_XVROTRI_H :: ir2_opcode where "LISA_XVROTRI_H \<equiv> 2572"
abbreviation (input) LISA_XVROTRI_W :: ir2_opcode where "LISA_XVROTRI_W \<equiv> 2573"
abbreviation (input) LISA_XVROTRI_D :: ir2_opcode where "LISA_XVROTRI_D \<equiv> 2574"
abbreviation (input) LISA_XVSRLRI_B :: ir2_opcode where "LISA_XVSRLRI_B \<equiv> 2575"
abbreviation (input) LISA_XVSRLRI_H :: ir2_opcode where "LISA_XVSRLRI_H \<equiv> 2576"
abbreviation (input) LISA_XVSRLRI_W :: ir2_opcode where "LISA_XVSRLRI_W \<equiv> 2577"
abbreviation (input) LISA_XVSRLRI_D :: ir2_opcode where "LISA_XVSRLRI_D \<equiv> 2578"
abbreviation (input) LISA_XVSRARI_B :: ir2_opcode where "LISA_XVSRARI_B \<equiv> 2579"
abbreviation (input) LISA_XVSRARI_H :: ir2_opcode where "LISA_XVSRARI_H \<equiv> 2580"
abbreviation (input) LISA_XVSRARI_W :: ir2_opcode where "LISA_XVSRARI_W \<equiv> 2581"
abbreviation (input) LISA_XVSRARI_D :: ir2_opcode where "LISA_XVSRARI_D \<equiv> 2582"
abbreviation (input) LISA_XVINSGR2VR_W :: ir2_opcode where "LISA_XVINSGR2VR_W \<equiv> 2583"
abbreviation (input) LISA_XVINSGR2VR_D :: ir2_opcode where "LISA_XVINSGR2VR_D \<equiv> 2584"
abbreviation (input) LISA_XVPICKVE2GR_W :: ir2_opcode where "LISA_XVPICKVE2GR_W \<equiv> 2585"
abbreviation (input) LISA_XVPICKVE2GR_D :: ir2_opcode where "LISA_XVPICKVE2GR_D \<equiv> 2586"
abbreviation (input) LISA_XVPICKVE2GR_WU :: ir2_opcode where "LISA_XVPICKVE2GR_WU \<equiv> 2587"
abbreviation (input) LISA_XVPICKVE2GR_DU :: ir2_opcode where "LISA_XVPICKVE2GR_DU \<equiv> 2588"
abbreviation (input) LISA_XVREPL128VEI_B :: ir2_opcode where "LISA_XVREPL128VEI_B \<equiv> 2589"
abbreviation (input) LISA_XVREPL128VEI_H :: ir2_opcode where "LISA_XVREPL128VEI_H \<equiv> 2590"
abbreviation (input) LISA_XVREPL128VEI_W :: ir2_opcode where "LISA_XVREPL128VEI_W \<equiv> 2591"
abbreviation (input) LISA_XVREPL128VEI_D :: ir2_opcode where "LISA_XVREPL128VEI_D \<equiv> 2592"
abbreviation (input) LISA_XVEXTRCOLI_B :: ir2_opcode where "LISA_XVEXTRCOLI_B \<equiv> 2593"
abbreviation (input) LISA_XVEXTRCOLI_H :: ir2_opcode where "LISA_XVEXTRCOLI_H \<equiv> 2594"
abbreviation (input) LISA_XVEXTRCOLI_W :: ir2_opcode where "LISA_XVEXTRCOLI_W \<equiv> 2595"
abbreviation (input) LISA_XVEXTRCOLI_D :: ir2_opcode where "LISA_XVEXTRCOLI_D \<equiv> 2596"
abbreviation (input) LISA_XVINSVE0_W :: ir2_opcode where "LISA_XVINSVE0_W \<equiv> 2597"
abbreviation (input) LISA_XVINSVE0_D :: ir2_opcode where "LISA_XVINSVE0_D \<equiv> 2598"
abbreviation (input) LISA_XVPICKVE_W :: ir2_opcode where "LISA_XVPICKVE_W \<equiv> 2599"
abbreviation (input) LISA_XVPICKVE_D :: ir2_opcode where "LISA_XVPICKVE_D \<equiv> 2600"
abbreviation (input) LISA_XVREPLVE0_B :: ir2_opcode where "LISA_XVREPLVE0_B \<equiv> 2601"
abbreviation (input) LISA_XVREPLVE0_H :: ir2_opcode where "LISA_XVREPLVE0_H \<equiv> 2602"
abbreviation (input) LISA_XVREPLVE0_W :: ir2_opcode where "LISA_XVREPLVE0_W \<equiv> 2603"
abbreviation (input) LISA_XVREPLVE0_D :: ir2_opcode where "LISA_XVREPLVE0_D \<equiv> 2604"
abbreviation (input) LISA_XVREPLVE0_Q :: ir2_opcode where "LISA_XVREPLVE0_Q \<equiv> 2605"
abbreviation (input) LISA_XVSLLWIL_H_B :: ir2_opcode where "LISA_XVSLLWIL_H_B \<equiv> 2606"
abbreviation (input) LISA_XVSLLWIL_W_H :: ir2_opcode where "LISA_XVSLLWIL_W_H \<equiv> 2607"
abbreviation (input) LISA_XVSLLWIL_D_W :: ir2_opcode where "LISA_XVSLLWIL_D_W \<equiv> 2608"
abbreviation (input) LISA_XVEXTL_Q_D :: ir2_opcode where "LISA_XVEXTL_Q_D \<equiv> 2609"
abbreviation (input) LISA_XVSLLWIL_HU_BU :: ir2_opcode where "LISA_XVSLLWIL_HU_BU \<equiv> 2610"
abbreviation (input) LISA_XVSLLWIL_WU_HU :: ir2_opcode where "LISA_XVSLLWIL_WU_HU \<equiv> 2611"
abbreviation (input) LISA_XVSLLWIL_DU_WU :: ir2_opcode where "LISA_XVSLLWIL_DU_WU \<equiv> 2612"
abbreviation (input) LISA_XVEXTL_QU_DU :: ir2_opcode where "LISA_XVEXTL_QU_DU \<equiv> 2613"
abbreviation (input) LISA_XVBITCLRI_B :: ir2_opcode where "LISA_XVBITCLRI_B \<equiv> 2614"
abbreviation (input) LISA_XVBITCLRI_H :: ir2_opcode where "LISA_XVBITCLRI_H \<equiv> 2615"
abbreviation (input) LISA_XVBITCLRI_W :: ir2_opcode where "LISA_XVBITCLRI_W \<equiv> 2616"
abbreviation (input) LISA_XVBITCLRI_D :: ir2_opcode where "LISA_XVBITCLRI_D \<equiv> 2617"
abbreviation (input) LISA_XVBITSETI_B :: ir2_opcode where "LISA_XVBITSETI_B \<equiv> 2618"
abbreviation (input) LISA_XVBITSETI_H :: ir2_opcode where "LISA_XVBITSETI_H \<equiv> 2619"
abbreviation (input) LISA_XVBITSETI_W :: ir2_opcode where "LISA_XVBITSETI_W \<equiv> 2620"
abbreviation (input) LISA_XVBITSETI_D :: ir2_opcode where "LISA_XVBITSETI_D \<equiv> 2621"
abbreviation (input) LISA_XVBITREVI_B :: ir2_opcode where "LISA_XVBITREVI_B \<equiv> 2622"
abbreviation (input) LISA_XVBITREVI_H :: ir2_opcode where "LISA_XVBITREVI_H \<equiv> 2623"
abbreviation (input) LISA_XVBITREVI_W :: ir2_opcode where "LISA_XVBITREVI_W \<equiv> 2624"
abbreviation (input) LISA_XVBITREVI_D :: ir2_opcode where "LISA_XVBITREVI_D \<equiv> 2625"
abbreviation (input) LISA_XVBSTRC12I_B :: ir2_opcode where "LISA_XVBSTRC12I_B \<equiv> 2626"
abbreviation (input) LISA_XVBSTRC12I_H :: ir2_opcode where "LISA_XVBSTRC12I_H \<equiv> 2627"
abbreviation (input) LISA_XVBSTRC12I_W :: ir2_opcode where "LISA_XVBSTRC12I_W \<equiv> 2628"
abbreviation (input) LISA_XVBSTRC12I_D :: ir2_opcode where "LISA_XVBSTRC12I_D \<equiv> 2629"
abbreviation (input) LISA_XVBSTRC21I_B :: ir2_opcode where "LISA_XVBSTRC21I_B \<equiv> 2630"
abbreviation (input) LISA_XVBSTRC21I_H :: ir2_opcode where "LISA_XVBSTRC21I_H \<equiv> 2631"
abbreviation (input) LISA_XVBSTRC21I_W :: ir2_opcode where "LISA_XVBSTRC21I_W \<equiv> 2632"
abbreviation (input) LISA_XVBSTRC21I_D :: ir2_opcode where "LISA_XVBSTRC21I_D \<equiv> 2633"
abbreviation (input) LISA_XVSAT_B :: ir2_opcode where "LISA_XVSAT_B \<equiv> 2634"
abbreviation (input) LISA_XVSAT_H :: ir2_opcode where "LISA_XVSAT_H \<equiv> 2635"
abbreviation (input) LISA_XVSAT_W :: ir2_opcode where "LISA_XVSAT_W \<equiv> 2636"
abbreviation (input) LISA_XVSAT_D :: ir2_opcode where "LISA_XVSAT_D \<equiv> 2637"
abbreviation (input) LISA_XVSAT_BU :: ir2_opcode where "LISA_XVSAT_BU \<equiv> 2638"
abbreviation (input) LISA_XVSAT_HU :: ir2_opcode where "LISA_XVSAT_HU \<equiv> 2639"
abbreviation (input) LISA_XVSAT_WU :: ir2_opcode where "LISA_XVSAT_WU \<equiv> 2640"
abbreviation (input) LISA_XVSAT_DU :: ir2_opcode where "LISA_XVSAT_DU \<equiv> 2641"
abbreviation (input) LISA_XVSLLI_B :: ir2_opcode where "LISA_XVSLLI_B \<equiv> 2642"
abbreviation (input) LISA_XVSLLI_H :: ir2_opcode where "LISA_XVSLLI_H \<equiv> 2643"
abbreviation (input) LISA_XVSLLI_W :: ir2_opcode where "LISA_XVSLLI_W \<equiv> 2644"
abbreviation (input) LISA_XVSLLI_D :: ir2_opcode where "LISA_XVSLLI_D \<equiv> 2645"
abbreviation (input) LISA_XVSRLI_B :: ir2_opcode where "LISA_XVSRLI_B \<equiv> 2646"
abbreviation (input) LISA_XVSRLI_H :: ir2_opcode where "LISA_XVSRLI_H \<equiv> 2647"
abbreviation (input) LISA_XVSRLI_W :: ir2_opcode where "LISA_XVSRLI_W \<equiv> 2648"
abbreviation (input) LISA_XVSRLI_D :: ir2_opcode where "LISA_XVSRLI_D \<equiv> 2649"
abbreviation (input) LISA_XVSRAI_B :: ir2_opcode where "LISA_XVSRAI_B \<equiv> 2650"
abbreviation (input) LISA_XVSRAI_H :: ir2_opcode where "LISA_XVSRAI_H \<equiv> 2651"
abbreviation (input) LISA_XVSRAI_W :: ir2_opcode where "LISA_XVSRAI_W \<equiv> 2652"
abbreviation (input) LISA_XVSRAI_D :: ir2_opcode where "LISA_XVSRAI_D \<equiv> 2653"
abbreviation (input) LISA_XVSRLRNENI_B_H :: ir2_opcode where "LISA_XVSRLRNENI_B_H \<equiv> 2654"
abbreviation (input) LISA_XVSRLRNENI_H_W :: ir2_opcode where "LISA_XVSRLRNENI_H_W \<equiv> 2655"
abbreviation (input) LISA_XVSRLRNENI_W_D :: ir2_opcode where "LISA_XVSRLRNENI_W_D \<equiv> 2656"
abbreviation (input) LISA_XVSRLRNENI_D_Q :: ir2_opcode where "LISA_XVSRLRNENI_D_Q \<equiv> 2657"
abbreviation (input) LISA_XVSRARNENI_B_H :: ir2_opcode where "LISA_XVSRARNENI_B_H \<equiv> 2658"
abbreviation (input) LISA_XVSRARNENI_H_W :: ir2_opcode where "LISA_XVSRARNENI_H_W \<equiv> 2659"
abbreviation (input) LISA_XVSRARNENI_W_D :: ir2_opcode where "LISA_XVSRARNENI_W_D \<equiv> 2660"
abbreviation (input) LISA_XVSRARNENI_D_Q :: ir2_opcode where "LISA_XVSRARNENI_D_Q \<equiv> 2661"
abbreviation (input) LISA_XVSRLNI_B_H :: ir2_opcode where "LISA_XVSRLNI_B_H \<equiv> 2662"
abbreviation (input) LISA_XVSRLNI_H_W :: ir2_opcode where "LISA_XVSRLNI_H_W \<equiv> 2663"
abbreviation (input) LISA_XVSRLNI_W_D :: ir2_opcode where "LISA_XVSRLNI_W_D \<equiv> 2664"
abbreviation (input) LISA_XVSRLNI_D_Q :: ir2_opcode where "LISA_XVSRLNI_D_Q \<equiv> 2665"
abbreviation (input) LISA_XVSRLRNI_B_H :: ir2_opcode where "LISA_XVSRLRNI_B_H \<equiv> 2666"
abbreviation (input) LISA_XVSRLRNI_H_W :: ir2_opcode where "LISA_XVSRLRNI_H_W \<equiv> 2667"
abbreviation (input) LISA_XVSRLRNI_W_D :: ir2_opcode where "LISA_XVSRLRNI_W_D \<equiv> 2668"
abbreviation (input) LISA_XVSRLRNI_D_Q :: ir2_opcode where "LISA_XVSRLRNI_D_Q \<equiv> 2669"
abbreviation (input) LISA_XVSSRLNI_B_H :: ir2_opcode where "LISA_XVSSRLNI_B_H \<equiv> 2670"
abbreviation (input) LISA_XVSSRLNI_H_W :: ir2_opcode where "LISA_XVSSRLNI_H_W \<equiv> 2671"
abbreviation (input) LISA_XVSSRLNI_W_D :: ir2_opcode where "LISA_XVSSRLNI_W_D \<equiv> 2672"
abbreviation (input) LISA_XVSSRLNI_D_Q :: ir2_opcode where "LISA_XVSSRLNI_D_Q \<equiv> 2673"
abbreviation (input) LISA_XVSSRLNI_BU_H :: ir2_opcode where "LISA_XVSSRLNI_BU_H \<equiv> 2674"
abbreviation (input) LISA_XVSSRLNI_HU_W :: ir2_opcode where "LISA_XVSSRLNI_HU_W \<equiv> 2675"
abbreviation (input) LISA_XVSSRLNI_WU_D :: ir2_opcode where "LISA_XVSSRLNI_WU_D \<equiv> 2676"
abbreviation (input) LISA_XVSSRLNI_DU_Q :: ir2_opcode where "LISA_XVSSRLNI_DU_Q \<equiv> 2677"
abbreviation (input) LISA_XVSSRLRNI_B_H :: ir2_opcode where "LISA_XVSSRLRNI_B_H \<equiv> 2678"
abbreviation (input) LISA_XVSSRLRNI_H_W :: ir2_opcode where "LISA_XVSSRLRNI_H_W \<equiv> 2679"
abbreviation (input) LISA_XVSSRLRNI_W_D :: ir2_opcode where "LISA_XVSSRLRNI_W_D \<equiv> 2680"
abbreviation (input) LISA_XVSSRLRNI_D_Q :: ir2_opcode where "LISA_XVSSRLRNI_D_Q \<equiv> 2681"
abbreviation (input) LISA_XVSSRLRNI_BU_H :: ir2_opcode where "LISA_XVSSRLRNI_BU_H \<equiv> 2682"
abbreviation (input) LISA_XVSSRLRNI_HU_W :: ir2_opcode where "LISA_XVSSRLRNI_HU_W \<equiv> 2683"
abbreviation (input) LISA_XVSSRLRNI_WU_D :: ir2_opcode where "LISA_XVSSRLRNI_WU_D \<equiv> 2684"
abbreviation (input) LISA_XVSSRLRNI_DU_Q :: ir2_opcode where "LISA_XVSSRLRNI_DU_Q \<equiv> 2685"
abbreviation (input) LISA_XVSRANI_B_H :: ir2_opcode where "LISA_XVSRANI_B_H \<equiv> 2686"
abbreviation (input) LISA_XVSRANI_H_W :: ir2_opcode where "LISA_XVSRANI_H_W \<equiv> 2687"
abbreviation (input) LISA_XVSRANI_W_D :: ir2_opcode where "LISA_XVSRANI_W_D \<equiv> 2688"
abbreviation (input) LISA_XVSRANI_D_Q :: ir2_opcode where "LISA_XVSRANI_D_Q \<equiv> 2689"
abbreviation (input) LISA_XVSRARNI_B_H :: ir2_opcode where "LISA_XVSRARNI_B_H \<equiv> 2690"
abbreviation (input) LISA_XVSRARNI_H_W :: ir2_opcode where "LISA_XVSRARNI_H_W \<equiv> 2691"
abbreviation (input) LISA_XVSRARNI_W_D :: ir2_opcode where "LISA_XVSRARNI_W_D \<equiv> 2692"
abbreviation (input) LISA_XVSRARNI_D_Q :: ir2_opcode where "LISA_XVSRARNI_D_Q \<equiv> 2693"
abbreviation (input) LISA_XVSSRANI_B_H :: ir2_opcode where "LISA_XVSSRANI_B_H \<equiv> 2694"
abbreviation (input) LISA_XVSSRANI_H_W :: ir2_opcode where "LISA_XVSSRANI_H_W \<equiv> 2695"
abbreviation (input) LISA_XVSSRANI_W_D :: ir2_opcode where "LISA_XVSSRANI_W_D \<equiv> 2696"
abbreviation (input) LISA_XVSSRANI_D_Q :: ir2_opcode where "LISA_XVSSRANI_D_Q \<equiv> 2697"
abbreviation (input) LISA_XVSSRANI_BU_H :: ir2_opcode where "LISA_XVSSRANI_BU_H \<equiv> 2698"
abbreviation (input) LISA_XVSSRANI_HU_W :: ir2_opcode where "LISA_XVSSRANI_HU_W \<equiv> 2699"
abbreviation (input) LISA_XVSSRANI_WU_D :: ir2_opcode where "LISA_XVSSRANI_WU_D \<equiv> 2700"
abbreviation (input) LISA_XVSSRANI_DU_Q :: ir2_opcode where "LISA_XVSSRANI_DU_Q \<equiv> 2701"
abbreviation (input) LISA_XVSSRARNI_B_H :: ir2_opcode where "LISA_XVSSRARNI_B_H \<equiv> 2702"
abbreviation (input) LISA_XVSSRARNI_H_W :: ir2_opcode where "LISA_XVSSRARNI_H_W \<equiv> 2703"
abbreviation (input) LISA_XVSSRARNI_W_D :: ir2_opcode where "LISA_XVSSRARNI_W_D \<equiv> 2704"
abbreviation (input) LISA_XVSSRARNI_D_Q :: ir2_opcode where "LISA_XVSSRARNI_D_Q \<equiv> 2705"
abbreviation (input) LISA_XVSSRARNI_BU_H :: ir2_opcode where "LISA_XVSSRARNI_BU_H \<equiv> 2706"
abbreviation (input) LISA_XVSSRARNI_HU_W :: ir2_opcode where "LISA_XVSSRARNI_HU_W \<equiv> 2707"
abbreviation (input) LISA_XVSSRARNI_WU_D :: ir2_opcode where "LISA_XVSSRARNI_WU_D \<equiv> 2708"
abbreviation (input) LISA_XVSSRARNI_DU_Q :: ir2_opcode where "LISA_XVSSRARNI_DU_Q \<equiv> 2709"
abbreviation (input) LISA_XVSSRLRNENI_B_H :: ir2_opcode where "LISA_XVSSRLRNENI_B_H \<equiv> 2710"
abbreviation (input) LISA_XVSSRLRNENI_H_W :: ir2_opcode where "LISA_XVSSRLRNENI_H_W \<equiv> 2711"
abbreviation (input) LISA_XVSSRLRNENI_W_D :: ir2_opcode where "LISA_XVSSRLRNENI_W_D \<equiv> 2712"
abbreviation (input) LISA_XVSSRLRNENI_D_Q :: ir2_opcode where "LISA_XVSSRLRNENI_D_Q \<equiv> 2713"
abbreviation (input) LISA_XVSSRLRNENI_BU_H :: ir2_opcode where "LISA_XVSSRLRNENI_BU_H \<equiv> 2714"
abbreviation (input) LISA_XVSSRLRNENI_HU_W :: ir2_opcode where "LISA_XVSSRLRNENI_HU_W \<equiv> 2715"
abbreviation (input) LISA_XVSSRLRNENI_WU_D :: ir2_opcode where "LISA_XVSSRLRNENI_WU_D \<equiv> 2716"
abbreviation (input) LISA_XVSSRLRNENI_DU_Q :: ir2_opcode where "LISA_XVSSRLRNENI_DU_Q \<equiv> 2717"
abbreviation (input) LISA_XVSSRARNENI_B_H :: ir2_opcode where "LISA_XVSSRARNENI_B_H \<equiv> 2718"
abbreviation (input) LISA_XVSSRARNENI_H_W :: ir2_opcode where "LISA_XVSSRARNENI_H_W \<equiv> 2719"
abbreviation (input) LISA_XVSSRARNENI_W_D :: ir2_opcode where "LISA_XVSSRARNENI_W_D \<equiv> 2720"
abbreviation (input) LISA_XVSSRARNENI_D_Q :: ir2_opcode where "LISA_XVSSRARNENI_D_Q \<equiv> 2721"
abbreviation (input) LISA_XVSSRARNENI_BU_H :: ir2_opcode where "LISA_XVSSRARNENI_BU_H \<equiv> 2722"
abbreviation (input) LISA_XVSSRARNENI_HU_W :: ir2_opcode where "LISA_XVSSRARNENI_HU_W \<equiv> 2723"
abbreviation (input) LISA_XVSSRARNENI_WU_D :: ir2_opcode where "LISA_XVSSRARNENI_WU_D \<equiv> 2724"
abbreviation (input) LISA_XVSSRARNENI_DU_Q :: ir2_opcode where "LISA_XVSSRARNENI_DU_Q \<equiv> 2725"
abbreviation (input) LISA_XVEXTRINS_D :: ir2_opcode where "LISA_XVEXTRINS_D \<equiv> 2726"
abbreviation (input) LISA_XVEXTRINS_W :: ir2_opcode where "LISA_XVEXTRINS_W \<equiv> 2727"
abbreviation (input) LISA_XVEXTRINS_H :: ir2_opcode where "LISA_XVEXTRINS_H \<equiv> 2728"
abbreviation (input) LISA_XVEXTRINS_B :: ir2_opcode where "LISA_XVEXTRINS_B \<equiv> 2729"
abbreviation (input) LISA_XVSHUF4I_B :: ir2_opcode where "LISA_XVSHUF4I_B \<equiv> 2730"
abbreviation (input) LISA_XVSHUF4I_H :: ir2_opcode where "LISA_XVSHUF4I_H \<equiv> 2731"
abbreviation (input) LISA_XVSHUF4I_W :: ir2_opcode where "LISA_XVSHUF4I_W \<equiv> 2732"
abbreviation (input) LISA_XVSHUF4I_D :: ir2_opcode where "LISA_XVSHUF4I_D \<equiv> 2733"
abbreviation (input) LISA_XVSHUFI1_B :: ir2_opcode where "LISA_XVSHUFI1_B \<equiv> 2734"
abbreviation (input) LISA_XVSHUFI2_B :: ir2_opcode where "LISA_XVSHUFI2_B \<equiv> 2735"
abbreviation (input) LISA_XVSHUFI3_B :: ir2_opcode where "LISA_XVSHUFI3_B \<equiv> 2736"
abbreviation (input) LISA_XVSHUFI4_B :: ir2_opcode where "LISA_XVSHUFI4_B \<equiv> 2737"
abbreviation (input) LISA_XVSHUFI1_H :: ir2_opcode where "LISA_XVSHUFI1_H \<equiv> 2738"
abbreviation (input) LISA_XVSHUFI2_H :: ir2_opcode where "LISA_XVSHUFI2_H \<equiv> 2739"
abbreviation (input) LISA_XVSELI_H :: ir2_opcode where "LISA_XVSELI_H \<equiv> 2740"
abbreviation (input) LISA_XVSELI_W :: ir2_opcode where "LISA_XVSELI_W \<equiv> 2741"
abbreviation (input) LISA_XVSELI_D :: ir2_opcode where "LISA_XVSELI_D \<equiv> 2742"
abbreviation (input) LISA_XVBITSELI_B :: ir2_opcode where "LISA_XVBITSELI_B \<equiv> 2743"
abbreviation (input) LISA_XVBITMVZI_B :: ir2_opcode where "LISA_XVBITMVZI_B \<equiv> 2744"
abbreviation (input) LISA_XVBITMVNZI_B :: ir2_opcode where "LISA_XVBITMVNZI_B \<equiv> 2745"
abbreviation (input) LISA_XVANDI_B :: ir2_opcode where "LISA_XVANDI_B \<equiv> 2746"
abbreviation (input) LISA_XVORI_B :: ir2_opcode where "LISA_XVORI_B \<equiv> 2747"
abbreviation (input) LISA_XVXORI_B :: ir2_opcode where "LISA_XVXORI_B \<equiv> 2748"
abbreviation (input) LISA_XVNORI_B :: ir2_opcode where "LISA_XVNORI_B \<equiv> 2749"
abbreviation (input) LISA_XVLDI :: ir2_opcode where "LISA_XVLDI \<equiv> 2750"
abbreviation (input) LISA_XVPERMI_W :: ir2_opcode where "LISA_XVPERMI_W \<equiv> 2751"
abbreviation (input) LISA_XVPERMI_D :: ir2_opcode where "LISA_XVPERMI_D \<equiv> 2752"
abbreviation (input) LISA_XVPERMI_Q :: ir2_opcode where "LISA_XVPERMI_Q \<equiv> 2753"
abbreviation (input) LISA_ILL :: ir2_opcode where "LISA_ILL \<equiv> 2754"
abbreviation (input) LISA_ENDING :: ir2_opcode where "LISA_ENDING \<equiv> 2755"

section \<open>IR2\_OPND\_TYPE\<close>

abbreviation (input) IR2_OPND_NONE :: nat where "IR2_OPND_NONE \<equiv> 80"
abbreviation (input) IR2_OPND_GPR :: nat where "IR2_OPND_GPR \<equiv> 81"
abbreviation (input) IR2_OPND_SCR :: nat where "IR2_OPND_SCR \<equiv> 82"
abbreviation (input) IR2_OPND_FPR :: nat where "IR2_OPND_FPR \<equiv> 83"
abbreviation (input) IR2_OPND_FCSR :: nat where "IR2_OPND_FCSR \<equiv> 84"
abbreviation (input) IR2_OPND_CC :: nat where "IR2_OPND_CC \<equiv> 85"
abbreviation (input) IR2_OPND_IMM :: nat where "IR2_OPND_IMM \<equiv> 86"
abbreviation (input) IR2_OPND_LABEL :: nat where "IR2_OPND_LABEL \<equiv> 87"
abbreviation (input) IR2_OPND_MEM :: nat where "IR2_OPND_MEM \<equiv> 88"
abbreviation (input) IR2_OPND_PSEUDO :: nat where "IR2_OPND_PSEUDO \<equiv> 89"
abbreviation (input) IR2_OPND_DATA :: nat where "IR2_OPND_DATA \<equiv> 90"

end
