(* ===== verification/Ir2.thy ===== *)
theory Ir2
  imports Ir2_Enums Imm_Cache
begin

text \<open>
  The LoongArch instruction as the translator builds it (IR2): the structures of include/ir2.h
  and include/env.h and the accessors and opcode classes of ir2/ir2.c, in the order of that
  file.  The union of register number, immediate and label is one 32-bit word, \<open>o2_val\<close>.  The
  four 16-bit fields of an instruction are integers; every store into them goes through \<open>i16\<close>.
  A pointer to an instruction is the index of its element of ir2\_inst\_array.
\<close>

definition i16 :: "int \<Rightarrow> int" where
  "i16 v = signed_take_bit 15 v"

lemma i16_id: "- (2 ^ 15) \<le> v \<Longrightarrow> v < 2 ^ 15 \<Longrightarrow> i16 v = v"
  by (simp add: i16_def signed_take_bit_int_eq_self)

section \<open>Structures\<close>

record ir2_opnd =
  o2_type :: nat
  o2_val :: u32

record ir2_inst =
  n_opcode :: ir2_opcode
  n_id :: int
  n_prev :: int
  n_next :: int
  n_op_count :: int
  n_opnd :: "ir2_opnd list"

text \<open>\<open>Wild\<close> is a pointer that is neither null nor the address of an element.\<close>

datatype ir2_ptr = Null | At nat | Wild

record tr_data =
  ir2_inst_array :: "ir2_inst list"
  ir2_inst_num_max :: nat
  ir2_inst_num_current :: nat
  real_ir2_inst_num :: int
  first_ir2 :: ir2_ptr
  last_ir2 :: ir2_ptr
  label_num :: int
  data_num :: int
  itemp_status :: u16
  ftemp_status :: u16
  curr_top :: int
  td_imm_cache :: imm_cache

section \<open>Operands\<close>

definition ir2_opnd_new_none :: ir2_opnd where
  "ir2_opnd_new_none = \<lparr>o2_type = IR2_OPND_NONE, o2_val = 0\<rparr>"

definition ra_alloc_label :: "tr_data \<Rightarrow> tr_data \<times> ir2_opnd" where
  "ra_alloc_label t = (t\<lparr>label_num := label_num t + 1\<rparr>,
     \<lparr>o2_type = IR2_OPND_LABEL, o2_val = of_int (label_num t)\<rparr>)"

definition ra_alloc_data :: "tr_data \<Rightarrow> tr_data \<times> ir2_opnd" where
  "ra_alloc_data t = (t\<lparr>data_num := data_num t + 1\<rparr>,
     \<lparr>o2_type = IR2_OPND_DATA, o2_val = of_int (data_num t)\<rparr>)"

definition ir2_opnd_build :: "ir2_opnd \<Rightarrow> nat \<Rightarrow> int \<Rightarrow> ir2_opnd" where
  "ir2_opnd_build opnd ty value =
    (if ty = IR2_OPND_GPR \<or> ty = IR2_OPND_FPR \<or> ty = IR2_OPND_FCSR \<or> ty = IR2_OPND_SCR then
       opnd\<lparr>o2_type := ty, o2_val := of_int value\<rparr>
     else if ty = IR2_OPND_IMM then opnd\<lparr>o2_type := ty, o2_val := of_int value\<rparr>
     else opnd)"

text \<open>The operand of \<open>ir2_opnd_new\<close> starts uninitialised: \<open>junk\<close>.\<close>

definition ir2_opnd_new :: "ir2_opnd \<Rightarrow> nat \<Rightarrow> int \<Rightarrow> ir2_opnd" where
  "ir2_opnd_new junk ty value = ir2_opnd_build junk ty value"

definition ir2_opnd_val :: "ir2_opnd \<Rightarrow> u32" where "ir2_opnd_val opnd = o2_val opnd"
definition ir2_opnd_imm :: "ir2_opnd \<Rightarrow> int" where "ir2_opnd_imm opnd = sint (o2_val opnd)"
definition ir2_opnd_is_ireg :: "ir2_opnd \<Rightarrow> bool" where "ir2_opnd_is_ireg opnd = (o2_type opnd = IR2_OPND_GPR)"
definition ir2_opnd_is_freg :: "ir2_opnd \<Rightarrow> bool" where "ir2_opnd_is_freg opnd = (o2_type opnd = IR2_OPND_FPR)"
definition ir2_opnd_is_creg :: "ir2_opnd \<Rightarrow> bool" where "ir2_opnd_is_creg opnd = (o2_type opnd = IR2_OPND_FCSR)"
definition ir2_opnd_is_none :: "ir2_opnd \<Rightarrow> bool" where "ir2_opnd_is_none opnd = (o2_type opnd = IR2_OPND_NONE)"
definition ir2_opnd_label_id :: "ir2_opnd \<Rightarrow> int" where "ir2_opnd_label_id opnd = sint (o2_val opnd)"
definition ir2_opnd_base_reg_num :: "ir2_opnd \<Rightarrow> int" where "ir2_opnd_base_reg_num opnd = sint (o2_val opnd)"

definition ir2_opnd_is_itemp :: "target \<Rightarrow> ir2_opnd \<Rightarrow> bool option" where
  "ir2_opnd_is_itemp t opnd =
    (if ir2_opnd_is_ireg opnd
     then map_option (\<lambda>v. v \<ge> 0) (arr_get (reg_itemp_reverse_map t) (ir2_opnd_base_reg_num opnd))
     else Some False)"

definition ir2_opnd_is_ftemp :: "ir2_opnd \<Rightarrow> bool option" where
  "ir2_opnd_is_ftemp opnd =
    (if ir2_opnd_is_freg opnd
     then map_option (\<lambda>v. v \<ge> 0) (arr_get reg_ftemp_reverse_map (ir2_opnd_base_reg_num opnd))
     else Some False)"

definition ir2_opnd_is_imm_reg :: "target \<Rightarrow> bool \<Rightarrow> ir2_opnd \<Rightarrow> bool option" where
  "ir2_opnd_is_imm_reg t option_imm_reg opnd =
    (if \<not> option_imm_reg then Some False
     else do {
       itemp_num \<leftarrow> arr_get (reg_itemp_reverse_map t) (ir2_opnd_base_reg_num opnd);
       imm_cache_is_imm_itemp t itemp_num
     })"

definition ir2_opnd_is_mem :: "ir2_opnd \<Rightarrow> bool" where "ir2_opnd_is_mem opnd = (o2_type opnd = IR2_OPND_MEM)"
definition ir2_opnd_is_imm :: "ir2_opnd \<Rightarrow> bool" where "ir2_opnd_is_imm opnd = (o2_type opnd = IR2_OPND_IMM)"
definition ir2_opnd_is_label :: "ir2_opnd \<Rightarrow> bool" where "ir2_opnd_is_label opnd = (o2_type opnd = IR2_OPND_LABEL)"
definition ir2_opnd_is_pseudo :: "ir2_opnd \<Rightarrow> bool" where "ir2_opnd_is_pseudo opnd = (o2_type opnd = IR2_OPND_PSEUDO)"
definition ir2_opnd_is_data :: "ir2_opnd \<Rightarrow> bool" where "ir2_opnd_is_data opnd = (o2_type opnd = IR2_OPND_DATA)"
definition ir2_opnd_type :: "ir2_opnd \<Rightarrow> nat" where "ir2_opnd_type opnd = o2_type opnd"

definition ir2_set_opnd_type :: "nat \<Rightarrow> ir2_opnd \<Rightarrow> ir2_opnd" where
  "ir2_set_opnd_type ty opnd = opnd\<lparr>o2_type := ty\<rparr>"

definition ir2_opnd_cmp :: "ir2_opnd \<Rightarrow> ir2_opnd \<Rightarrow> bool" where
  "ir2_opnd_cmp opnd1 opnd2 \<longleftrightarrow> o2_type opnd1 = o2_type opnd2 \<and> o2_val opnd1 = o2_val opnd2"

definition ir2_opnd_convert_label_to_imm :: "int \<Rightarrow> ir2_opnd \<Rightarrow> ir2_opnd" where
  "ir2_opnd_convert_label_to_imm imm opnd = opnd\<lparr>o2_type := IR2_OPND_IMM, o2_val := of_int imm\<rparr>"

definition create_ir2_opnd :: "nat \<Rightarrow> u32 \<Rightarrow> ir2_opnd" where
  "create_ir2_opnd ty v = \<lparr>o2_type = ty, o2_val = v\<rparr>"

definition create_immh_opnd :: "int \<Rightarrow> ir2_opnd" where
  "create_immh_opnd v = create_ir2_opnd IR2_OPND_IMM (of_int v)"

lemma ir2_opnd_cmp_eq: "ir2_opnd_cmp a b \<longleftrightarrow> a = b" for a b :: ir2_opnd
  by (auto simp: ir2_opnd_cmp_def)

section \<open>Opcode classes\<close>

definition ir2_opcode_is_branch :: "ir2_opcode \<Rightarrow> bool" where
  "ir2_opcode_is_branch opcode \<longleftrightarrow> LISA_BEQZ \<le> opcode \<and> opcode \<le> LISA_BCNEZ \<or>
     LISA_B \<le> opcode \<and> opcode \<le> LISA_BGEU \<or> opcode = LISA_FAR_JUMP"

definition ir2_opcode_is_jirl :: "ir2_opcode \<Rightarrow> bool" where
  "ir2_opcode_is_jirl opcode \<longleftrightarrow> LISA_JISCR0 \<le> opcode \<and> opcode \<le> LISA_JIRL"

definition ir2_opcode_is_branch_with_3opnds :: "ir2_opcode \<Rightarrow> bool" where
  "ir2_opcode_is_branch_with_3opnds opcode = (if opcode \<ge> LISA_BEQ \<and> opcode \<le> LISA_BGEU then True else False)"

definition ir2_opcode_is_branch_with_2opnds :: "ir2_opcode \<Rightarrow> bool" where
  "ir2_opcode_is_branch_with_2opnds opcode \<longleftrightarrow> opcode = LISA_BEQZ \<or> opcode = LISA_BNEZ"

definition ir2_opcode_is_f_branch :: "ir2_opcode \<Rightarrow> bool" where
  "ir2_opcode_is_f_branch opcode \<longleftrightarrow> opcode = LISA_BCEQZ \<or> opcode = LISA_BCNEZ"

definition ir2_opcode_is_convert :: "ir2_opcode \<Rightarrow> bool" where
  "ir2_opcode_is_convert opcode \<longleftrightarrow> opcode \<in> {LISA_FCVT_D_S, LISA_FCVT_S_D, LISA_FFINT_D_W, LISA_FFINT_D_L,
     LISA_FFINT_S_W, LISA_FFINT_S_L, LISA_FTINT_L_D, LISA_FTINT_L_S, LISA_FTINT_W_D, LISA_FTINT_W_S}"

definition ir2_opcode_is_fcmp :: "ir2_opcode \<Rightarrow> bool" where
  "ir2_opcode_is_fcmp opcode \<longleftrightarrow> opcode = LISA_FCMP_COND_S \<or> opcode = LISA_FCMP_COND_D"

definition la_ir2_opcode_is_load :: "ir2_opcode \<Rightarrow> bool" where
  "la_ir2_opcode_is_load opcode =
    (if opcode \<ge> LISA_LD_B \<and> opcode \<le> LISA_LD_D then True
     else if opcode \<ge> LISA_LD_BU \<and> opcode \<le> LISA_LD_WU then True
     else if opcode = LISA_LL_W \<or> opcode = LISA_LL_D then True
     else if opcode = LISA_LDPTR_W \<or> opcode = LISA_LDPTR_D then True
     else if opcode = LISA_FLD_S \<or> opcode = LISA_FLD_D then True
     else if opcode = LISA_VLD \<or> opcode = LISA_XVLD then True
     else if opcode \<ge> LISA_LDL_W \<and> opcode \<le> LISA_LDR_D then True
     else if opcode \<ge> LISA_VLDREPL_D \<and> opcode \<le> LISA_VLDREPL_B then True
     else if opcode \<ge> LISA_XVLDREPL_D \<and> opcode \<le> LISA_XVLDREPL_B then True
     else if opcode = LISA_PRELD then True
     else False)"

definition la_ir2_opcode_is_store :: "ir2_opcode \<Rightarrow> bool" where
  "la_ir2_opcode_is_store opcode =
    (if opcode \<ge> LISA_ST_B \<and> opcode \<le> LISA_ST_D then True
     else if opcode \<ge> LISA_STL_W \<and> opcode \<le> LISA_STR_D then True
     else if opcode = LISA_SC_D \<or> opcode = LISA_SC_W then True
     else if opcode = LISA_STPTR_W \<or> opcode = LISA_STPTR_D then True
     else if opcode = LISA_FST_S \<or> opcode = LISA_FST_D then True
     else if opcode = LISA_XVST \<or> opcode = LISA_VST then True
     else if opcode \<ge> LISA_STX_B \<and> opcode \<le> LISA_STX_D then True
     else if opcode \<ge> LISA_STGT_B \<and> opcode \<le> LISA_STLE_D then True
     else False)"

definition la_ir2_can_patch_imm12 :: "ir2_opcode \<Rightarrow> bool" where
  "la_ir2_can_patch_imm12 opcode =
    (if opcode \<ge> LISA_LD_B \<and> opcode \<le> LISA_LD_WU then True
     else if opcode = LISA_LL_W \<or> opcode = LISA_LL_D \<or> opcode = LISA_LDPTR_W \<or> opcode = LISA_LDPTR_D then True
     else if opcode = LISA_ADDI_D \<or> opcode = LISA_ADDI_W then True
     else False)"

definition la_ir2_opcode_is_x86_inst :: "ir2_opcode \<Rightarrow> bool" where
  "la_ir2_opcode_is_x86_inst opcode = (if opcode = LISA_X86_INST then True else False)"

definition la_ir2_opcode_is_label :: "ir2_opcode \<Rightarrow> bool" where
  "la_ir2_opcode_is_label opcode = (if opcode = LISA_LABEL then True else False)"

definition la_ir2_opcode_is_addi :: "ir2_opcode \<Rightarrow> bool" where
  "la_ir2_opcode_is_addi opcode = (if opcode = LISA_ADDI_D \<or> opcode = LISA_ADDI_W then True else False)"

definition la_ir2_opcode_is_bstrins :: "ir2_opcode \<Rightarrow> bool" where
  "la_ir2_opcode_is_bstrins opcode = (if opcode = LISA_BSTRINS_W \<or> opcode = LISA_BSTRINS_D then True else False)"

section \<open>Instructions\<close>

definition ir2_set_id :: "int \<Rightarrow> ir2_inst \<Rightarrow> ir2_inst" where
  "ir2_set_id i ir2 = ir2\<lparr>n_id := i16 i\<rparr>"

definition ir2_get_id :: "ir2_inst \<Rightarrow> int" where
  "ir2_get_id ir2 = n_id ir2"

definition ir2_opcode_of :: "ir2_inst \<Rightarrow> ir2_opcode" where
  "ir2_opcode_of ir2 = n_opcode ir2"

definition ir2_set_opcode :: "ir2_opcode \<Rightarrow> ir2_inst \<Rightarrow> ir2_inst" where
  "ir2_set_opcode ty ir2 = ir2\<lparr>n_opcode := ty\<rparr>"

definition ir2_build :: "ir2_opcode \<Rightarrow> ir2_opnd \<Rightarrow> ir2_opnd \<Rightarrow> ir2_opnd \<Rightarrow> ir2_inst \<Rightarrow> ir2_inst" where
  "ir2_build opcode opnd0 opnd1 opnd2 ir2 =
     ir2\<lparr>n_opcode := opcode, n_opnd := [opnd0, opnd1, opnd2, ir2_opnd_new_none]\<rparr>"

text \<open>The element \<open>ir2_inst_array + i\<close> for an id read from an instruction.\<close>

definition ptr_of_id :: "tr_data \<Rightarrow> int \<Rightarrow> ir2_ptr" where
  "ptr_of_id t i = (if 0 \<le> i \<and> i < int (length (ir2_inst_array t)) then At (nat i) else Wild)"

definition ir2_prev :: "tr_data \<Rightarrow> ir2_inst \<Rightarrow> ir2_ptr" where
  "ir2_prev t ir2 = (if n_prev ir2 = -1 then Null else ptr_of_id t (n_prev ir2))"

definition ir2_next :: "tr_data \<Rightarrow> ir2_inst \<Rightarrow> ir2_ptr" where
  "ir2_next t ir2 = (if n_next ir2 = -1 then Null else ptr_of_id t (n_next ir2))"

end
