(* ===== verification/Ir2_List.thy ===== *)
theory Ir2_List
  imports Ir2
begin

text \<open>
  The list of generated instructions: a doubly linked list threaded by 16-bit indices through
  a growing array (ir2\_allocate, ir2\_append, ir2\_remove, ir2\_insert\_before and
  ir2\_insert\_after of ir2/ir2.c, tr\_init and tr\_fini of translator/translate.c).  The
  abstraction of a list is the sequence of array indices in program order; \<open>ir2_rep\<close> relates
  it to the structure, and each operation implements the list operation it stands for.
  Dereferencing a pointer that is not an element of the array makes the result \<open>None\<close>.
\<close>

section \<open>Operations\<close>

definition deref :: "ir2_ptr \<Rightarrow> nat option" where
  "deref p = (case p of At i \<Rightarrow> Some i | _ \<Rightarrow> None)"

definition inst_get :: "tr_data \<Rightarrow> nat \<Rightarrow> ir2_inst option" where
  "inst_get t i = (if i < length (ir2_inst_array t) then Some (ir2_inst_array t ! i) else None)"

definition inst_upd :: "(ir2_inst \<Rightarrow> ir2_inst) \<Rightarrow> nat \<Rightarrow> tr_data \<Rightarrow> tr_data option" where
  "inst_upd f i t = (if i < length (ir2_inst_array t)
     then Some (t\<lparr>ir2_inst_array := (ir2_inst_array t)[i := f (ir2_inst_array t ! i)]\<rparr>) else None)"

abbreviation set_prev :: "int \<Rightarrow> ir2_inst \<Rightarrow> ir2_inst" where "set_prev v ir2 \<equiv> ir2\<lparr>n_prev := i16 v\<rparr>"
abbreviation set_next :: "int \<Rightarrow> ir2_inst \<Rightarrow> ir2_inst" where "set_next v ir2 \<equiv> ir2\<lparr>n_next := i16 v\<rparr>"

definition id_at :: "tr_data \<Rightarrow> nat \<Rightarrow> int option" where
  "id_at t i = map_option ir2_get_id (inst_get t i)"

definition ir2_append :: "nat \<Rightarrow> tr_data \<Rightarrow> tr_data option" where
  "ir2_append ir2 t = do {
     t4 \<leftarrow> (if last_ir2 t \<noteq> Null then do {
         former_last \<leftarrow> deref (last_ir2 t);
         lid \<leftarrow> id_at t former_last;
         t1 \<leftarrow> inst_upd (set_prev lid) ir2 t;
         t2 \<leftarrow> inst_upd (set_next (-1)) ir2 t1;
         let t3 = t2\<lparr>last_ir2 := At ir2\<rparr>;
         nid \<leftarrow> id_at t3 ir2;
         inst_upd (set_next nid) former_last t3
       } else do {
         t1 \<leftarrow> inst_upd (set_prev (-1)) ir2 t;
         t2 \<leftarrow> inst_upd (set_next (-1)) ir2 t1;
         Some (t2\<lparr>last_ir2 := At ir2, first_ir2 := At ir2\<rparr>)
       });
     i \<leftarrow> inst_get t4 ir2;
     Some (if ir2_opcode_of i > LISA_PSEUDO_END then t4\<lparr>real_ir2_inst_num := real_ir2_inst_num t4 + 1\<rparr> else t4)
   }"

definition ir2_remove :: "nat \<Rightarrow> tr_data \<Rightarrow> tr_data option" where
  "ir2_remove id0 t = do {
     ir2 \<leftarrow> inst_get t id0;
     let next = ir2_next t ir2;
     let prev = ir2_prev t ir2;
     t' \<leftarrow> (if first_ir2 t = At id0 then
         if last_ir2 t = At id0 then Some (t\<lparr>first_ir2 := Null, last_ir2 := Null\<rparr>)
         else do {
           n \<leftarrow> deref next;
           inst_upd (set_prev (-1)) n (t\<lparr>first_ir2 := next\<rparr>)
         }
       else if last_ir2 t = At id0 then do {
         p \<leftarrow> deref prev;
         inst_upd (set_next (-1)) p (t\<lparr>last_ir2 := prev\<rparr>)
       } else do {
         n \<leftarrow> deref next;
         p \<leftarrow> deref prev;
         nid \<leftarrow> id_at t n;
         t1 \<leftarrow> inst_upd (set_next nid) p t;
         pid \<leftarrow> id_at t1 p;
         inst_upd (set_prev pid) n t1
       });
     inst_upd (ir2_set_opcode LISA_INVALID) id0 t'
   }"

definition ir2_insert_before :: "nat \<Rightarrow> nat \<Rightarrow> tr_data \<Rightarrow> (tr_data \<times> nat) option" where
  "ir2_insert_before ir2 next t = do {
     nid \<leftarrow> id_at t next;
     iid \<leftarrow> id_at t ir2;
     t' \<leftarrow> (if first_ir2 t = At next then do {
         t1 \<leftarrow> inst_upd (set_prev (-1)) ir2 (t\<lparr>first_ir2 := At ir2\<rparr>);
         t2 \<leftarrow> inst_upd (set_next nid) ir2 t1;
         inst_upd (set_prev iid) next t2
       } else do {
         n \<leftarrow> inst_get t next;
         prev \<leftarrow> deref (ir2_prev t n);
         pid \<leftarrow> id_at t prev;
         t1 \<leftarrow> inst_upd (set_prev pid) ir2 t;
         t2 \<leftarrow> inst_upd (set_next iid) prev t1;
         t3 \<leftarrow> inst_upd (set_next nid) ir2 t2;
         inst_upd (set_prev iid) next t3
       });
     Some (t', next)
   }"

definition ir2_insert_after :: "nat \<Rightarrow> nat \<Rightarrow> tr_data \<Rightarrow> tr_data option" where
  "ir2_insert_after ir2 prev t = do {
     pid \<leftarrow> id_at t prev;
     iid \<leftarrow> id_at t ir2;
     if last_ir2 t = At prev then do {
       t1 \<leftarrow> inst_upd (set_next (-1)) ir2 (t\<lparr>last_ir2 := At ir2\<rparr>);
       t2 \<leftarrow> inst_upd (set_prev pid) ir2 t1;
       inst_upd (set_next iid) prev t2
     } else do {
       p \<leftarrow> inst_get t prev;
       next \<leftarrow> deref (ir2_next t p);
       nid \<leftarrow> id_at t next;
       t1 \<leftarrow> inst_upd (set_next nid) ir2 t;
       t2 \<leftarrow> inst_upd (set_prev iid) next t1;
       t3 \<leftarrow> inst_upd (set_prev pid) ir2 t2;
       inst_upd (set_next iid) prev t3
     }
   }"

text \<open>An instruction of a freshly allocated array (calloc).\<close>

definition zero_inst :: ir2_inst where
  "zero_inst = \<lparr>n_opcode = 0, n_id = 0, n_prev = 0, n_next = 0, n_op_count = 0,
     n_opnd = replicate 4 \<lparr>o2_type = 0, o2_val = 0\<rparr>\<rparr>"

definition ra_free_all :: "tr_data \<Rightarrow> tr_data" where
  "ra_free_all t = t\<lparr>itemp_status := 0, ftemp_status := 0\<rparr>"

text \<open>\<open>has_tb\<close>: whether the argument of tr\_init is a block.  The array pointer is null exactly
  while its capacity is 0.\<close>

definition tr_init :: "bool \<Rightarrow> tr_data \<Rightarrow> tr_data" where
  "tr_init has_tb t =
    (let t1 = ra_free_all t;
         t2 = (if ir2_inst_num_max t1 = 0
               then t1\<lparr>ir2_inst_array := replicate 400 zero_inst, ir2_inst_num_max := 400\<rparr> else t1);
         t3 = t2\<lparr>ir2_inst_num_current := 0, real_ir2_inst_num := 0, first_ir2 := Null, last_ir2 := Null,
                 label_num := 0, data_num := 0\<rparr>
     in if \<not> has_tb then t3\<lparr>curr_top := 0\<rparr> else t3)"

definition tr_fini :: "tr_data \<Rightarrow> tr_data" where
  "tr_fini t = t\<lparr>ir2_inst_num_current := 0, real_ir2_inst_num := 0, first_ir2 := Null, last_ir2 := Null,
     label_num := 0, data_num := 0, curr_top := 0\<rparr>"

text \<open>Moving a pointer along with the array: an element keeps its index; the null pointer becomes
  an arbitrary address unless realloc leaves the array in place.\<close>

definition rebase :: "bool \<Rightarrow> ir2_ptr \<Rightarrow> ir2_ptr" where
  "rebase moved p = (case p of Null \<Rightarrow> (if moved then Wild else Null) | At i \<Rightarrow> At i | Wild \<Rightarrow> Wild)"

text \<open>\<open>moved\<close>: whether realloc moves the array; \<open>junk\<close>: what it leaves in the new half.\<close>

definition ir2_allocate :: "bool \<Rightarrow> (nat \<Rightarrow> ir2_inst) \<Rightarrow> tr_data \<Rightarrow> (tr_data \<times> nat) option" where
  "ir2_allocate moved junk t =
    (let t0 = (if ir2_inst_num_max t = 0 then tr_init False t else t);
         t1 = (if ir2_inst_num_current t0 = ir2_inst_num_max t0
               then t0\<lparr>ir2_inst_num_max := ir2_inst_num_max t0 * 2,
                      ir2_inst_array := ir2_inst_array t0 @ map junk [ir2_inst_num_max t0..<ir2_inst_num_max t0 * 2],
                      first_ir2 := rebase moved (first_ir2 t0), last_ir2 := rebase moved (last_ir2 t0)\<rparr>
               else t0);
         p = ir2_inst_num_current t1
     in do {
       t2 \<leftarrow> inst_upd (ir2_set_id (int p)) p t1;
       Some (t2\<lparr>ir2_inst_num_current := p + 1\<rparr>, p)
     })"

section \<open>The representation of a list\<close>

fun dll :: "ir2_inst list \<Rightarrow> int \<Rightarrow> nat list \<Rightarrow> int \<Rightarrow> bool" where
  "dll arr p [] n = True"
| "dll arr p (x # xs) n \<longleftrightarrow> x < length arr \<and> n_prev (arr ! x) = p \<and>
     n_next (arr ! x) = (case xs of [] \<Rightarrow> n | y # _ \<Rightarrow> int y) \<and> dll arr (int x) xs n"

definition ir2_rep :: "tr_data \<Rightarrow> nat list \<Rightarrow> bool" where
  "ir2_rep t xs \<longleftrightarrow> distinct xs \<and> dll (ir2_inst_array t) (-1) xs (-1) \<and>
     set xs \<subseteq> {..<ir2_inst_num_current t} \<and> ir2_inst_num_current t \<le> ir2_inst_num_max t \<and>
     length (ir2_inst_array t) = ir2_inst_num_max t \<and> ir2_inst_num_current t \<le> 2 ^ 15 \<and>
     (\<forall>i<ir2_inst_num_current t. n_id (ir2_inst_array t ! i) = int i) \<and>
     first_ir2 t = (if xs = [] then Null else At (hd xs)) \<and>
     last_ir2 t = (if xs = [] then Null else At (last xs))"

text \<open>What an instruction says, without its links.\<close>

definition inst_body :: "ir2_inst \<Rightarrow> ir2_opcode \<times> int \<times> ir2_opnd list" where
  "inst_body i = (n_opcode i, n_op_count i, n_opnd i)"

definition code_of :: "tr_data \<Rightarrow> nat list \<Rightarrow> (ir2_opcode \<times> int \<times> ir2_opnd list) list" where
  "code_of t xs = map (\<lambda>i. inst_body (ir2_inst_array t ! i)) xs"

lemma dll_append:
  "dll arr p (xs @ ys) n \<longleftrightarrow> dll arr p xs (if ys = [] then n else int (hd ys)) \<and>
     dll arr (if xs = [] then p else int (last xs)) ys n"
proof (induction xs arbitrary: p)
  case (Cons x xs)
  then show ?case by (cases xs; cases ys) auto
qed simp

lemma dll_upd_other: "k \<notin> set xs \<Longrightarrow> dll (arr[k := v]) p xs n = dll arr p xs n"
  by (induction arr p xs n rule: dll.induct) (auto split: list.splits)

lemma dll_bound: "dll arr p xs n \<Longrightarrow> x \<in> set xs \<Longrightarrow> x < length arr"
  by (induction arr p xs n rule: dll.induct) auto

lemma dll_set_prev:
  assumes "dll arr p xs n" "distinct xs" "xs \<noteq> []" "n_next v = n_next (arr ! hd xs)" "n_prev v = q"
  shows "dll (arr[hd xs := v]) q xs n"
  using assms by (cases xs) (auto simp: dll_upd_other split: list.splits)

lemma dll_set_next:
  assumes "dll arr p xs n" "distinct xs" "xs \<noteq> []" "n_prev v = n_prev (arr ! last xs)" "n_next v = m"
  shows "dll (arr[last xs := v]) p xs m"
proof -
  obtain ys x where xs: "xs = ys @ [x]" using assms(3) by (metis append_butlast_last_id)
  then show ?thesis using assms by (auto simp: dll_append dll_upd_other)
qed

section \<open>Each operation implements a list operation\<close>

lemmas list_op_simps = deref_def inst_get_def inst_upd_def id_at_def ir2_get_id_def Let_def

lemma rep_facts:
  assumes "ir2_rep t xs"
  shows "i < ir2_inst_num_current t \<Longrightarrow> i < length (ir2_inst_array t)"
    and "i < ir2_inst_num_current t \<Longrightarrow> n_id (ir2_inst_array t ! i) = int i"
    and "i < ir2_inst_num_current t \<Longrightarrow> i16 (int i) = int i"
    and "i \<in> set xs \<Longrightarrow> i < ir2_inst_num_current t"
  using assms by (auto simp: ir2_rep_def intro!: i16_id)

lemma i16_minus_one [simp]: "i16 (-1) = -1"
  by (simp add: i16_id)

text \<open>Array updates that change links only.\<close>

definition relinked :: "ir2_inst list \<Rightarrow> ir2_inst list \<Rightarrow> bool" where
  "relinked arr arr' \<longleftrightarrow> length arr' = length arr \<and>
     (\<forall>i<length arr. inst_body (arr' ! i) = inst_body (arr ! i) \<and> n_id (arr' ! i) = n_id (arr ! i))"

lemma inst_body_links [simp]:
  "inst_body (x\<lparr>n_prev := a\<rparr>) = inst_body x" "inst_body (x\<lparr>n_next := a\<rparr>) = inst_body x"
  by (simp_all add: inst_body_def)

lemma relinked_refl [simp]: "relinked arr arr"
  by (simp add: relinked_def)

lemma relinked_upd:
  "relinked arr b \<Longrightarrow> inst_body v = inst_body (b ! i) \<Longrightarrow> n_id v = n_id (b ! i) \<Longrightarrow> relinked arr (b[i := v])"
  by (cases "i < length b") (auto simp: relinked_def nth_list_update)

lemma relinked_code: "relinked (ir2_inst_array t) (ir2_inst_array t') \<Longrightarrow>
    set xs \<subseteq> {..<length (ir2_inst_array t)} \<Longrightarrow> code_of t' xs = code_of t xs"
  by (auto simp: relinked_def code_of_def)

lemma rep_update:
  assumes "ir2_rep t xs" "relinked (ir2_inst_array t) arr"
    "dll arr (-1) ys (-1)" "distinct ys" "set ys \<subseteq> {..<ir2_inst_num_current t}"
    "f = (if ys = [] then Null else At (hd ys))" "l = (if ys = [] then Null else At (last ys))"
  shows "ir2_rep (t\<lparr>ir2_inst_array := arr, first_ir2 := f, last_ir2 := l\<rparr>) ys"
  using assms by (auto simp: ir2_rep_def relinked_def)

lemma rep_real_num [simp]: "ir2_rep (t\<lparr>real_ir2_inst_num := r\<rparr>) xs = ir2_rep t xs"
  by (simp add: ir2_rep_def)

lemma append_links:
  assumes rep: "ir2_rep t xs" and k: "k < ir2_inst_num_current t" "k \<notin> set xs" and ne: "xs \<noteq> []"
  defines "arr \<equiv> ir2_inst_array t"
  defines "arr1 \<equiv> arr[k := (arr ! k)\<lparr>n_prev := int (last xs), n_next := -1\<rparr>]"
  shows "dll (arr1[last xs := (arr1 ! last xs)\<lparr>n_next := int k\<rparr>]) (-1) (xs @ [k]) (-1)"
proof -
  have d: "dll arr (-1) xs (-1)" "distinct xs" using rep by (auto simp: ir2_rep_def arr_def)
  have kl: "k \<noteq> last xs" using k(2) ne by auto
  have len: "k < length arr" using rep_facts(1)[OF rep k(1)] by (simp add: arr_def)
  have "dll arr1 (-1) xs (-1)" using d k(2) by (simp add: arr1_def dll_upd_other)
  from dll_set_next[OF this d(2) ne, of "(arr1 ! last xs)\<lparr>n_next := int k\<rparr>"]
  have "dll (arr1[last xs := (arr1 ! last xs)\<lparr>n_next := int k\<rparr>]) (-1) xs (int k)" by simp
  then show ?thesis using ne kl len by (simp add: dll_append arr1_def)
qed

lemma ir2_append_spec:
  assumes rep: "ir2_rep t xs" and k: "k < ir2_inst_num_current t" "k \<notin> set xs"
  shows "\<exists>t'. ir2_append k t = Some t' \<and> ir2_rep t' (xs @ [k]) \<and>
    relinked (ir2_inst_array t) (ir2_inst_array t') \<and>
    ir2_inst_num_current t' = ir2_inst_num_current t \<and>
    real_ir2_inst_num t' = real_ir2_inst_num t +
      (if n_opcode (ir2_inst_array t ! k) > LISA_PSEUDO_END then 1 else 0)"
proof -
  let ?arr = "ir2_inst_array t"
  note F = rep_facts[OF rep]
  have len: "k < length ?arr" and idk: "n_id (?arr ! k) = int k" "i16 (int k) = int k" using F k(1) by auto
  show ?thesis
  proof (cases "xs = []")
    case True
    let ?arr' = "?arr[k := (?arr ! k)\<lparr>n_prev := -1, n_next := -1\<rparr>]"
    let ?t = "t\<lparr>ir2_inst_array := ?arr', first_ir2 := At k, last_ir2 := At k\<rparr>"
    have rl: "relinked ?arr ?arr'" by (intro relinked_upd) auto
    have "ir2_rep ?t [k]" by (rule rep_update[OF rep rl]) (use len k in auto)
    moreover have "last_ir2 t = Null" using rep True by (simp add: ir2_rep_def)
    then have "ir2_append k t = Some (if n_opcode (?arr ! k) > LISA_PSEUDO_END
        then ?t\<lparr>real_ir2_inst_num := real_ir2_inst_num t + 1\<rparr> else ?t)"
      using len by (simp add: ir2_append_def list_op_simps ir2_opcode_of_def)
    ultimately show ?thesis using True rl by auto
  next
    case False
    let ?l = "last xs"
    let ?arr1 = "?arr[k := (?arr ! k)\<lparr>n_prev := int ?l, n_next := -1\<rparr>]"
    let ?arr2 = "?arr1[?l := (?arr1 ! ?l)\<lparr>n_next := int k\<rparr>]"
    have l: "?l < length ?arr" "n_id (?arr ! ?l) = int ?l" "i16 (int ?l) = int ?l" "?l \<noteq> k"
      using F False k(2) by auto
    have hd: "first_ir2 t = At (hd xs)" "last_ir2 t = At ?l" using rep False by (auto simp: ir2_rep_def)
    let ?t = "t\<lparr>ir2_inst_array := ?arr2, first_ir2 := At (hd xs), last_ir2 := At k\<rparr>"
    have rl: "relinked ?arr ?arr2" by (intro relinked_upd) auto
    have r: "ir2_rep ?t (xs @ [k])"
      by (rule rep_update[OF rep rl append_links[OF rep k False]]) (use rep k False in \<open>auto simp: ir2_rep_def\<close>)
    have "ir2_append k t = Some (if n_opcode (?arr ! k) > LISA_PSEUDO_END
        then ?t\<lparr>real_ir2_inst_num := real_ir2_inst_num t + 1\<rparr> else ?t)"
      using len l idk hd by (simp add: ir2_append_def list_op_simps ir2_opcode_of_def)
    then show ?thesis using r rl by auto
  qed
qed

lemma id_ptr: "ir2_rep t xs \<Longrightarrow> i < ir2_inst_num_current t \<Longrightarrow> ptr_of_id t (int i) = At i"
  using rep_facts(1) by (simp add: ptr_of_id_def)

text \<open>The neighbours of an element, read off the list.\<close>

lemma dll_next: "dll arr p (ys @ k # zs) n \<Longrightarrow> n_next (arr ! k) = (if zs = [] then n else int (hd zs))"
  by (cases zs) (auto simp: dll_append)

lemma dll_prev: "dll arr p (ys @ k # zs) n \<Longrightarrow> n_prev (arr ! k) = (if ys = [] then p else int (last ys))"
  by (simp add: dll_append)

text \<open>A segment whose inner links are kept and whose outer links are set anew.\<close>

lemma dll_ends:
  assumes "dll arr p xs n" "distinct xs"
    "\<And>x. x \<in> set xs \<Longrightarrow> x < length arr'"
    "\<And>x. x \<in> set xs \<Longrightarrow> n_prev (arr' ! x) = (if x = hd xs then p' else n_prev (arr ! x))"
    "\<And>x. x \<in> set xs \<Longrightarrow> n_next (arr' ! x) = (if x = last xs then n' else n_next (arr ! x))"
  shows "dll arr' p' xs n'"
  using assms
proof (induction xs arbitrary: p p')
  case (Cons x xs)
  show ?case
  proof (cases xs)
    case Nil
    then show ?thesis using Cons.prems by simp
  next
    case (Cons y ys)
    have d: "dll arr (int x) xs n" "distinct xs" "x \<notin> set xs" using Cons.prems(1,2) by auto
    have py: "n_prev (arr ! y) = int x" using d(1) Cons by simp
    have "dll arr' (int x) xs n'"
    proof (rule Cons.IH[OF d(1,2)])
      fix z assume z: "z \<in> set xs"
      show "z < length arr'" using Cons.prems(3) z by simp
      show "n_prev (arr' ! z) = (if z = hd xs then int x else n_prev (arr ! z))"
        using Cons.prems(4)[of z] z d(3) py Cons by auto
      show "n_next (arr' ! z) = (if z = last xs then n' else n_next (arr ! z))"
        using Cons.prems(5)[of z] z Cons by simp
    qed
    then show ?thesis using Cons.prems(1,3) Cons.prems(4)[of x] Cons.prems(5)[of x] d(3) Cons by auto
  qed
qed simp

text \<open>Splitting the list at an element.\<close>

lemma rep_split:
  assumes rep: "ir2_rep t (ys @ k # zs)"
  shows "dll (ir2_inst_array t) (-1) ys (int k)"
    and "dll (ir2_inst_array t) (int k) zs (-1)"
    and "n_prev (ir2_inst_array t ! k) = (if ys = [] then -1 else int (last ys))"
    and "n_next (ir2_inst_array t ! k) = (if zs = [] then -1 else int (hd zs))"
    and "distinct (ys @ k # zs)"
    and "ir2_prev t (ir2_inst_array t ! k) = (if ys = [] then Null else At (last ys))"
    and "ir2_next t (ir2_inst_array t ! k) = (if zs = [] then Null else At (hd zs))"
    and "first_ir2 t = At (if ys = [] then k else hd ys)"
    and "last_ir2 t = At (if zs = [] then k else last zs)"
proof -
  have d: "dll (ir2_inst_array t) (-1) (ys @ k # zs) (-1)" and dist: "distinct (ys @ k # zs)"
    using rep by (auto simp: ir2_rep_def)
  show "dll (ir2_inst_array t) (-1) ys (int k)" "dll (ir2_inst_array t) (int k) zs (-1)"
    using d by (simp_all add: dll_append)
  show np: "n_prev (ir2_inst_array t ! k) = (if ys = [] then -1 else int (last ys))"
    using d by (rule dll_prev)
  show nn: "n_next (ir2_inst_array t ! k) = (if zs = [] then -1 else int (hd zs))"
    using d by (rule dll_next)
  show "distinct (ys @ k # zs)" by (rule dist)
  show "ir2_prev t (ir2_inst_array t ! k) = (if ys = [] then Null else At (last ys))"
    using np id_ptr[OF rep rep_facts(4)[OF rep]] by (auto simp: ir2_prev_def)
  show "ir2_next t (ir2_inst_array t ! k) = (if zs = [] then Null else At (hd zs))"
    using nn id_ptr[OF rep rep_facts(4)[OF rep]] by (auto simp: ir2_next_def)
  show "first_ir2 t = At (if ys = [] then k else hd ys)" "last_ir2 t = At (if zs = [] then k else last zs)"
    using rep by (auto simp: ir2_rep_def hd_append)
qed

lemma rep_set_opcode:
  assumes "ir2_rep t xs" "k \<notin> set xs"
  shows "ir2_rep (t\<lparr>ir2_inst_array := (ir2_inst_array t)[k := ir2_set_opcode op (ir2_inst_array t ! k)]\<rparr>) xs"
  using assms by (cases "k < length (ir2_inst_array t)")
    (auto simp: ir2_rep_def dll_upd_other nth_list_update ir2_set_opcode_def)

text \<open>Setting one link of one element.\<close>

definition upd_prev :: "nat \<Rightarrow> int \<Rightarrow> ir2_inst list \<Rightarrow> ir2_inst list" where
  "upd_prev i v arr = arr[i := (arr ! i)\<lparr>n_prev := v\<rparr>]"

definition upd_next :: "nat \<Rightarrow> int \<Rightarrow> ir2_inst list \<Rightarrow> ir2_inst list" where
  "upd_next i v arr = arr[i := (arr ! i)\<lparr>n_next := v\<rparr>]"

lemma upd_link_simps [simp]:
  "length (upd_prev i v arr) = length arr" "length (upd_next i v arr) = length arr"
  "n_id (upd_prev i v arr ! j) = n_id (arr ! j)" "n_id (upd_next i v arr ! j) = n_id (arr ! j)"
  "inst_body (upd_prev i v arr ! j) = inst_body (arr ! j)" "inst_body (upd_next i v arr ! j) = inst_body (arr ! j)"
  "n_next (upd_prev i v arr ! j) = n_next (arr ! j)" "n_prev (upd_next i v arr ! j) = n_prev (arr ! j)"
  by (cases "i = j \<and> i < length arr"; auto simp: upd_prev_def upd_next_def list_update_beyond;
      metis list_update_beyond nth_list_update_neq not_less)+

lemma upd_link_at [simp]:
  "i < length arr \<Longrightarrow> n_prev (upd_prev i v arr ! j) = (if j = i then v else n_prev (arr ! j))"
  "i < length arr \<Longrightarrow> n_next (upd_next i v arr ! j) = (if j = i then v else n_next (arr ! j))"
  by (auto simp: upd_prev_def upd_next_def nth_list_update)

lemma relinked_links [simp]:
  "relinked arr (upd_prev i v b) = relinked arr b" "relinked arr (upd_next i v b) = relinked arr b"
  by (auto simp: relinked_def)

lemma inst_upd_links [simp]:
  "i < length (ir2_inst_array t) \<Longrightarrow>
     inst_upd (\<lambda>x. x\<lparr>n_prev := v\<rparr>) i t = Some (t\<lparr>ir2_inst_array := upd_prev i v (ir2_inst_array t)\<rparr>)"
  "i < length (ir2_inst_array t) \<Longrightarrow>
     inst_upd (\<lambda>x. x\<lparr>n_next := v\<rparr>) i t = Some (t\<lparr>ir2_inst_array := upd_next i v (ir2_inst_array t)\<rparr>)"
  by (simp_all add: inst_upd_def upd_prev_def upd_next_def)

lemma dll_hd: "dll arr p xs n \<Longrightarrow> xs \<noteq> [] \<Longrightarrow> n_prev (arr ! hd xs) = p"
  by (cases xs) auto

lemma dll_last: "dll arr p xs n \<Longrightarrow> xs \<noteq> [] \<Longrightarrow> n_next (arr ! last xs) = n"
  by (induction arr p xs n rule: dll.induct) (auto split: list.splits)

text \<open>A segment read in another array with the same inner links.\<close>

lemma dll_moved:
  assumes "dll arr p xs n" "distinct xs" "length arr' = length arr"
    "\<And>x. x \<in> set xs \<Longrightarrow> x \<noteq> hd xs \<Longrightarrow> n_prev (arr' ! x) = n_prev (arr ! x)"
    "\<And>x. x \<in> set xs \<Longrightarrow> x \<noteq> last xs \<Longrightarrow> n_next (arr' ! x) = n_next (arr ! x)"
    "xs \<noteq> [] \<Longrightarrow> n_prev (arr' ! hd xs) = p'" "xs \<noteq> [] \<Longrightarrow> n_next (arr' ! last xs) = n'"
  shows "dll arr' p' xs n'"
proof (cases "xs = []")
  case False
  show ?thesis
    by (rule dll_ends[OF assms(1,2)])
      (use assms(3-5) assms(6,7)[OF False] dll_bound[OF assms(1)] in \<open>auto split: if_splits\<close>)
qed simp

section \<open>Removing an element\<close>

definition unlink :: "nat list \<Rightarrow> nat list \<Rightarrow> ir2_inst list \<Rightarrow> ir2_inst list" where
  "unlink ys zs arr =
    (let a = (if ys = [] then arr else upd_next (last ys) (if zs = [] then -1 else int (hd zs)) arr) in
     if zs = [] then a else upd_prev (hd zs) (if ys = [] then -1 else int (last ys)) a)"

lemma ends_apart:
  assumes "distinct (ys @ k # zs)"
  shows "ys \<noteq> [] \<Longrightarrow> last ys \<noteq> k" "zs \<noteq> [] \<Longrightarrow> hd zs \<noteq> k" "x \<in> set ys \<Longrightarrow> zs \<noteq> [] \<Longrightarrow> x \<noteq> hd zs"
    "x \<in> set zs \<Longrightarrow> ys \<noteq> [] \<Longrightarrow> x \<noteq> last ys" "x \<in> set ys \<Longrightarrow> x \<noteq> k" "x \<in> set zs \<Longrightarrow> x \<noteq> k"
  using assms by (auto dest: hd_in_set last_in_set)

lemma unlink_dll:
  assumes rep: "ir2_rep t (ys @ k # zs)"
  shows "dll (unlink ys zs (ir2_inst_array t)) (-1) (ys @ zs) (-1)"
proof -
  let ?arr = "ir2_inst_array t" and ?arr' = "unlink ys zs (ir2_inst_array t)"
  note sp = rep_split[OF rep] and ap = ends_apart[OF rep_split(5)[OF rep]]
  have dys: "distinct ys" and dzs: "distinct zs" using sp(5) by auto
  have b: "ys \<noteq> [] \<Longrightarrow> last ys < length ?arr" "zs \<noteq> [] \<Longrightarrow> hd zs < length ?arr"
    using dll_bound[OF sp(1)] dll_bound[OF sp(2)] by auto
  have len: "length ?arr' = length ?arr" by (simp add: unlink_def Let_def)
  have "dll ?arr' (-1) ys (if zs = [] then -1 else int (hd zs))"
    by (rule dll_moved[OF sp(1) dys len])
      (use ap b dll_hd[OF sp(1)] in \<open>auto simp: unlink_def Let_def\<close>)
  moreover have "dll ?arr' (if ys = [] then -1 else int (last ys)) zs (-1)"
    by (rule dll_moved[OF sp(2) dzs len])
      (use ap b dll_last[OF sp(2)] in \<open>auto simp: unlink_def Let_def\<close>)
  ultimately show ?thesis by (simp add: dll_append)
qed

lemma ir2_remove_spec:
  assumes rep: "ir2_rep t (ys @ k # zs)"
  shows "\<exists>t'. ir2_remove k t = Some t' \<and> ir2_rep t' (ys @ zs) \<and> code_of t' (ys @ zs) = code_of t (ys @ zs) \<and>
    n_opcode (ir2_inst_array t' ! k) = LISA_INVALID \<and> ir2_inst_num_current t' = ir2_inst_num_current t \<and>
    ir2_inst_num_max t' = ir2_inst_num_max t"
proof -
  let ?arr = "ir2_inst_array t" and ?arr' = "unlink ys zs (ir2_inst_array t)"
  note sp = rep_split[OF rep] and F = rep_facts[OF rep] and ap = ends_apart[OF rep_split(5)[OF rep]]
  have k: "k < length ?arr" using F by simp
  have b: "ys \<noteq> [] \<Longrightarrow> last ys < length ?arr \<and> n_id (?arr ! last ys) = int (last ys) \<and> i16 (int (last ys)) = int (last ys)"
    "zs \<noteq> [] \<Longrightarrow> hd zs < length ?arr \<and> n_id (?arr ! hd zs) = int (hd zs) \<and> i16 (int (hd zs)) = int (hd zs)"
    using F by auto
  let ?t = "t\<lparr>ir2_inst_array := ?arr', first_ir2 := (if ys @ zs = [] then Null else At (hd (ys @ zs))),
    last_ir2 := (if ys @ zs = [] then Null else At (last (ys @ zs)))\<rparr>"
  let ?t' = "?t\<lparr>ir2_inst_array := ?arr'[k := ir2_set_opcode LISA_INVALID (?arr' ! k)]\<rparr>"
  have rl: "relinked ?arr ?arr'" by (simp add: unlink_def Let_def)
  have r1: "ir2_rep ?t (ys @ zs)"
    by (rule rep_update[OF rep rl unlink_dll[OF rep]]) (use rep in \<open>auto simp: ir2_rep_def\<close>)
  have nk: "k \<notin> set (ys @ zs)" using sp(5) by auto
  have r2: "ir2_rep ?t' (ys @ zs)" using rep_set_opcode[OF r1 nk, of LISA_INVALID] by simp
  have "inst_body (?arr'[k := v] ! x) = inst_body (?arr ! x)" if "x \<in> set (ys @ zs)" for x v
    using that ap(5,6)[of x] by (auto simp: unlink_def Let_def)
  then have code: "code_of ?t' (ys @ zs) = code_of t (ys @ zs)"
    unfolding code_of_def by (intro map_cong) simp_all
  have len: "length ?arr' = length ?arr" using rl by (simp add: relinked_def)
  have "\<exists>t1. ir2_remove k t = inst_upd (ir2_set_opcode LISA_INVALID) k t1 \<and> t1 = ?t"
    using sp(8,9) b k ap
    by (cases "ys = []"; cases "zs = []")
      (auto simp: ir2_remove_def inst_get_def sp(6,7) Let_def deref_def id_at_def ir2_get_id_def unlink_def hd_append
        intro!: arg_cong[where f = "inst_upd (ir2_set_opcode LISA_INVALID) k"] tr_data.equality)
  then have "ir2_remove k t = Some ?t'" using k len by (auto simp: inst_upd_def)
  then show ?thesis using r2 code k len by (auto simp: ir2_set_opcode_def)
qed

section \<open>Inserting an element\<close>

definition link_in :: "nat list \<Rightarrow> nat \<Rightarrow> nat list \<Rightarrow> ir2_inst list \<Rightarrow> ir2_inst list \<Rightarrow> bool" where
  "link_in ys j zs arr arr' \<longleftrightarrow> relinked arr arr' \<and>
     (\<forall>x. n_prev (arr' ! x) = (if x = j then (if ys = [] then -1 else int (last ys))
        else if zs \<noteq> [] \<and> x = hd zs then int j else n_prev (arr ! x))) \<and>
     (\<forall>x. n_next (arr' ! x) = (if x = j then (if zs = [] then -1 else int (hd zs))
        else if ys \<noteq> [] \<and> x = last ys then int j else n_next (arr ! x)))"

lemma link_in_rep:
  assumes rep: "ir2_rep t (ys @ zs)" and j: "j < ir2_inst_num_current t" "j \<notin> set (ys @ zs)"
    and l: "link_in ys j zs (ir2_inst_array t) arr'"
  shows "ir2_rep (t\<lparr>ir2_inst_array := arr', first_ir2 := At (if ys = [] then j else hd ys),
    last_ir2 := At (if zs = [] then j else last zs)\<rparr>) (ys @ j # zs)"
proof -
  let ?arr = "ir2_inst_array t"
  have d: "dll ?arr (-1) (ys @ zs) (-1)" and dist: "distinct (ys @ zs)" using rep by (auto simp: ir2_rep_def)
  have rl: "relinked ?arr arr'" and len: "length arr' = length ?arr" using l by (auto simp: link_in_def relinked_def)
  have dy: "dll ?arr (-1) ys (if zs = [] then -1 else int (hd zs))"
    and dz: "dll ?arr (if ys = [] then -1 else int (last ys)) zs (-1)" using d by (simp_all add: dll_append)
  have dist': "distinct ys" "distinct zs" "\<And>x. x \<in> set ys \<Longrightarrow> x \<notin> set zs" using dist by auto
  have ap: "\<And>x. x \<in> set ys \<Longrightarrow> zs \<noteq> [] \<Longrightarrow> x \<noteq> hd zs" "\<And>x. x \<in> set zs \<Longrightarrow> ys \<noteq> [] \<Longrightarrow> x \<noteq> last ys"
    using dist'(3) by (auto dest: hd_in_set last_in_set)
  have "dll arr' (-1) ys (int j)"
    by (rule dll_moved[OF dy dist'(1) len]) (use l j ap dll_hd[OF dy] in \<open>auto simp: link_in_def\<close>)
  moreover have "dll arr' (int j) zs (-1)"
    by (rule dll_moved[OF dz dist'(2) len]) (use l j ap dll_last[OF dz] in \<open>auto simp: link_in_def\<close>)
  moreover have "j < length arr'" using rep_facts(1)[OF rep j(1)] len by simp
  ultimately have "dll arr' (-1) (ys @ j # zs) (-1)"
    using l by (cases zs) (auto simp: dll_append link_in_def)
  then show ?thesis
    by (rule rep_update[OF rep rl]) (use rep j dist in \<open>auto simp: ir2_rep_def hd_append\<close>)
qed

text \<open>An insertion writes the four links in some order; the result is the same.\<close>

lemma link_in_intro:
  assumes "relinked arr arr'"
    "\<And>x. n_prev (arr' ! x) = (if x = j then (if ys = [] then -1 else int (last ys))
        else if zs \<noteq> [] \<and> x = hd zs then int j else n_prev (arr ! x))"
    "\<And>x. n_next (arr' ! x) = (if x = j then (if zs = [] then -1 else int (hd zs))
        else if ys \<noteq> [] \<and> x = last ys then int j else n_next (arr ! x))"
  shows "link_in ys j zs arr arr'"
  using assms by (simp add: link_in_def)

lemma ir2_insert_before_spec:
  assumes rep: "ir2_rep t (ys @ k # zs)" and j: "j < ir2_inst_num_current t" "j \<notin> set (ys @ k # zs)"
  shows "\<exists>t'. ir2_insert_before j k t = Some (t', k) \<and> ir2_rep t' (ys @ j # k # zs) \<and>
    relinked (ir2_inst_array t) (ir2_inst_array t') \<and> ir2_inst_num_current t' = ir2_inst_num_current t"
proof -
  let ?arr = "ir2_inst_array t"
  note sp = rep_split[OF rep] and F = rep_facts[OF rep] and ap = ends_apart[OF rep_split(5)[OF rep]]
  have k: "k < length ?arr" "n_id (?arr ! k) = int k" "i16 (int k) = int k" using F by auto
  have jj: "j < length ?arr" "n_id (?arr ! j) = int j" "i16 (int j) = int j" "j \<noteq> k" using F j by auto
  have b: "ys \<noteq> [] \<Longrightarrow> last ys < length ?arr \<and> n_id (?arr ! last ys) = int (last ys) \<and>
      i16 (int (last ys)) = int (last ys) \<and> last ys \<noteq> j \<and> hd ys \<noteq> k"
    using F j(2) ap by (auto dest: hd_in_set)
  define arr' where "arr' = (if ys = [] then upd_prev k (int j) (upd_next j (int k) (upd_prev j (-1) ?arr))
    else upd_prev k (int j) (upd_next j (int k) (upd_next (last ys) (int j) (upd_prev j (int (last ys)) ?arr))))"
  have "link_in ys j (k # zs) ?arr arr'"
    by (rule link_in_intro) (use k jj b ap in \<open>auto simp: arr'_def\<close>)
  note r = link_in_rep[OF rep j this]
  have "ir2_insert_before j k t = Some (t\<lparr>ir2_inst_array := arr', first_ir2 := At (if ys = [] then j else hd ys),
      last_ir2 := At (if k # zs = [] then j else last (k # zs))\<rparr>, k)"
    using k jj b sp(6,8,9)
    by (cases "ys = []") (auto simp: ir2_insert_before_def inst_get_def id_at_def ir2_get_id_def deref_def arr'_def)
  moreover have "relinked ?arr arr'" by (simp add: arr'_def)
  ultimately show ?thesis using r by auto
qed

lemma ir2_insert_after_spec:
  assumes rep: "ir2_rep t (ys @ k # zs)" and j: "j < ir2_inst_num_current t" "j \<notin> set (ys @ k # zs)"
  shows "\<exists>t'. ir2_insert_after j k t = Some t' \<and> ir2_rep t' (ys @ k # j # zs) \<and>
    relinked (ir2_inst_array t) (ir2_inst_array t') \<and> ir2_inst_num_current t' = ir2_inst_num_current t"
proof -
  let ?arr = "ir2_inst_array t"
  note sp = rep_split[OF rep] and F = rep_facts[OF rep] and ap = ends_apart[OF rep_split(5)[OF rep]]
  have k: "k < length ?arr" "n_id (?arr ! k) = int k" "i16 (int k) = int k" using F by auto
  have jj: "j < length ?arr" "n_id (?arr ! j) = int j" "i16 (int j) = int j" "j \<noteq> k" using F j by auto
  have b: "zs \<noteq> [] \<Longrightarrow> hd zs < length ?arr \<and> n_id (?arr ! hd zs) = int (hd zs) \<and>
      i16 (int (hd zs)) = int (hd zs) \<and> hd zs \<noteq> j \<and> last zs \<noteq> k"
    using F j(2) ap by (auto dest: hd_in_set last_in_set)
  define arr' where "arr' = (if zs = [] then upd_next k (int j) (upd_prev j (int k) (upd_next j (-1) ?arr))
    else upd_next k (int j) (upd_prev j (int k) (upd_prev (hd zs) (int j) (upd_next j (int (hd zs)) ?arr))))"
  have rep': "ir2_rep t ((ys @ [k]) @ zs)" and j2: "j \<notin> set ((ys @ [k]) @ zs)" using rep j(2) by auto
  have "link_in (ys @ [k]) j zs ?arr arr'"
    by (rule link_in_intro) (use k jj b ap in \<open>auto simp: arr'_def\<close>)
  note r = link_in_rep[OF rep' j(1) j2 this]
  have "ir2_insert_after j k t = Some (t\<lparr>ir2_inst_array := arr', first_ir2 := At (if ys @ [k] = [] then j else hd (ys @ [k])),
      last_ir2 := At (if zs = [] then j else last zs)\<rparr>)"
    using k jj b sp(7,8,9)
    by (cases "zs = []") (auto simp: ir2_insert_after_def inst_get_def id_at_def ir2_get_id_def deref_def arr'_def hd_append)
  moreover have "relinked ?arr arr'" by (simp add: arr'_def)
  ultimately show ?thesis using r by auto
qed

section \<open>Allocating an element\<close>

lemma alloc_rep:
  assumes rep: "ir2_rep t xs" and room: "ir2_inst_num_current t < 2 ^ 15"
    and arr': "length arr' = m" "ir2_inst_num_current t < m" "length (ir2_inst_array t) \<le> m"
      "\<And>i. i < ir2_inst_num_current t \<Longrightarrow> arr' ! i = ir2_inst_array t ! i"
      "n_id (arr' ! ir2_inst_num_current t) = int (ir2_inst_num_current t)"
  shows "ir2_rep (t\<lparr>ir2_inst_num_max := m, ir2_inst_array := arr', ir2_inst_num_current := ir2_inst_num_current t + 1\<rparr>) xs"
proof -
  let ?p = "ir2_inst_num_current t"
  have "dll (ir2_inst_array t) p ys n \<Longrightarrow> set ys \<subseteq> {..<?p} \<Longrightarrow> dll arr' p ys n" for p ys n
    using arr' by (induction "ir2_inst_array t" p ys n rule: dll.induct) auto
  then have "dll arr' (-1) xs (-1)" using rep by (simp add: ir2_rep_def)
  moreover have "n_id (arr' ! i) = int i" if "i < ?p + 1" for i
    using that arr'(4,5) rep by (cases "i = ?p") (auto simp: ir2_rep_def)
  ultimately show ?thesis using rep room arr'(1,2) by (auto simp: ir2_rep_def)
qed

lemma ir2_allocate_spec:
  assumes rep: "ir2_rep t xs" and room: "ir2_inst_num_current t < 2 ^ 15" and max: "0 < ir2_inst_num_max t"
    and grow: "ir2_inst_num_current t = ir2_inst_num_max t \<Longrightarrow> xs \<noteq> [] \<or> \<not> moved"
  shows "\<exists>t'. ir2_allocate moved junk t = Some (t', ir2_inst_num_current t) \<and> ir2_rep t' xs \<and>
    ir2_inst_num_current t' = ir2_inst_num_current t + 1 \<and> code_of t' xs = code_of t xs \<and>
    ir2_inst_num_max t \<le> ir2_inst_num_max t'"
proof -
  let ?p = "ir2_inst_num_current t"
  have p: "i16 (int ?p) = int ?p" using room by (intro i16_id) auto
  have code: "code_of t' xs = code_of t xs" if "\<And>i. i < ?p \<Longrightarrow> ir2_inst_array t' ! i = ir2_inst_array t ! i" for t'
    using that rep by (auto simp: code_of_def ir2_rep_def)
  have len: "length (ir2_inst_array t) = ir2_inst_num_max t" using rep by (simp add: ir2_rep_def)
  show ?thesis
  proof (cases "?p = ir2_inst_num_max t")
    case False
    then have lt: "?p < ir2_inst_num_max t" using rep by (auto simp: ir2_rep_def)
    let ?arr' = "(ir2_inst_array t)[?p := ir2_set_id (int ?p) (ir2_inst_array t ! ?p)]"
    let ?t' = "t\<lparr>ir2_inst_num_max := ir2_inst_num_max t, ir2_inst_array := ?arr', ir2_inst_num_current := ?p + 1\<rparr>"
    have "ir2_rep ?t' xs" by (rule alloc_rep[OF rep room]) (use lt len p in \<open>auto simp: ir2_set_id_def\<close>)
    moreover have "ir2_allocate moved junk t = Some (?t', ?p)"
      using max False lt len by (simp add: ir2_allocate_def inst_upd_def Let_def)
    ultimately show ?thesis using code[of ?t'] by simp
  next
    case True
    let ?big = "ir2_inst_array t @ map junk [ir2_inst_num_max t..<ir2_inst_num_max t * 2]"
    let ?arr' = "?big[?p := ir2_set_id (int ?p) (?big ! ?p)]"
    let ?t' = "t\<lparr>ir2_inst_num_max := ir2_inst_num_max t * 2, ir2_inst_array := ?arr', ir2_inst_num_current := ?p + 1\<rparr>"
    have big: "length ?big = ir2_inst_num_max t * 2" "?p < length ?big" using len max True by auto
    have lt: "?big ! i = ir2_inst_array t ! i" if "i < ?p" for i using that len True by (simp add: nth_append)
    have "ir2_rep ?t' xs"
      by (rule alloc_rep[OF rep room]) (use big len lt p in \<open>auto simp: ir2_set_id_def\<close>)
    moreover have "first_ir2 t = rebase moved (first_ir2 t)" "last_ir2 t = rebase moved (last_ir2 t)"
      using rep grow[OF True] by (auto simp: ir2_rep_def rebase_def)
    then have "ir2_allocate moved junk t = Some (?t', ?p)"
      using max True big
      by (auto simp: ir2_allocate_def inst_upd_def Let_def intro!: tr_data.equality)
    ultimately show ?thesis using code[of ?t'] lt by simp
  qed
qed

lemma tr_init_rep:
  assumes "ir2_inst_num_max t = length (ir2_inst_array t)"
  shows "ir2_rep (tr_init b t) [] \<and> 0 < ir2_inst_num_max (tr_init b t) \<and> ir2_inst_num_current (tr_init b t) = 0"
  using assms by (simp add: tr_init_def ra_free_all_def Let_def ir2_rep_def)

end
