(* ===== verification/Ir2_Edits.thy ===== *)
theory Ir2_Edits
  imports Ir2_List
begin

text \<open>
  Sequences of edits of the instruction list, as the translator and its peephole passes make
  them: emit an instruction (the generated la\_ functions), generate one and insert it before
  or after another, remove one.  Abstractly the code is a sequence of instructions with their
  ids.  The array with its links simulates it.
\<close>

type_synonym code_item = "nat \<times> (ir2_opcode \<times> ir2_opnd list)"

definition inst_view :: "ir2_inst \<Rightarrow> ir2_opcode \<times> ir2_opnd list" where
  "inst_view i = (n_opcode i, take (nat (n_op_count i)) (n_opnd i))"

text \<open>The body of a generated constructor generate\_X: an instruction without operands gets one
  operand of type none; operands beyond the last one keep their old content.  The operands are
  already ir2 operands: building them from C integers (create\_immh\_opnd, and the shift by 2 of a
  14-bit immediate) happens before.\<close>

definition generate :: "bool \<Rightarrow> (nat \<Rightarrow> ir2_inst) \<Rightarrow> ir2_opcode \<Rightarrow> ir2_opnd list \<Rightarrow> tr_data \<Rightarrow> (tr_data \<times> nat) option" where
  "generate moved junk opcode opnds t = do {
     (t1, p) \<leftarrow> ir2_allocate moved junk t;
     let ops = (if opnds = [] then [ir2_opnd_new_none] else opnds);
     t2 \<leftarrow> inst_upd (\<lambda>i. i\<lparr>n_opcode := opcode, n_op_count := int (length ops),
        n_opnd := ops @ drop (length ops) (n_opnd i)\<rparr>) p t1;
     Some (t2, p)
   }"

definition la_emit :: "bool \<Rightarrow> (nat \<Rightarrow> ir2_inst) \<Rightarrow> ir2_opcode \<Rightarrow> ir2_opnd list \<Rightarrow> tr_data \<Rightarrow> (tr_data \<times> nat) option" where
  "la_emit moved junk opcode opnds t = do {
     (t1, p) \<leftarrow> generate moved junk opcode opnds t;
     t2 \<leftarrow> ir2_append p t1;
     Some (t2, p)
   }"

datatype edit =
    Emit ir2_opcode "ir2_opnd list"
  | Before ir2_opcode "ir2_opnd list" nat
  | After ir2_opcode "ir2_opnd list" nat
  | Remove nat

fun do_edit :: "bool \<Rightarrow> (nat \<Rightarrow> ir2_inst) \<Rightarrow> edit \<Rightarrow> tr_data \<Rightarrow> tr_data option" where
  "do_edit moved junk (Emit op ops) t = map_option fst (la_emit moved junk op ops t)"
| "do_edit moved junk (Before op ops k) t = do {
     (t1, p) \<leftarrow> generate moved junk op ops t;
     map_option fst (ir2_insert_before p k t1)
   }"
| "do_edit moved junk (After op ops k) t = do {
     (t1, p) \<leftarrow> generate moved junk op ops t;
     ir2_insert_after p k t1
   }"
| "do_edit moved junk (Remove k) t = ir2_remove k t"

fun do_edits :: "bool \<Rightarrow> (nat \<Rightarrow> ir2_inst) \<Rightarrow> edit list \<Rightarrow> tr_data \<Rightarrow> tr_data option" where
  "do_edits moved junk [] t = Some t"
| "do_edits moved junk (e # es) t = do { t' \<leftarrow> do_edit moved junk e t; do_edits moved junk es t' }"

section \<open>The specification\<close>

definition item :: "nat \<Rightarrow> ir2_opcode \<Rightarrow> ir2_opnd list \<Rightarrow> code_item" where
  "item n op ops = (n, op, if ops = [] then [ir2_opnd_new_none] else ops)"

definition before_id :: "nat \<Rightarrow> code_item list \<Rightarrow> code_item list" where
  "before_id k xs = takeWhile (\<lambda>e. fst e \<noteq> k) xs"

definition from_id :: "nat \<Rightarrow> code_item list \<Rightarrow> code_item list" where
  "from_id k xs = dropWhile (\<lambda>e. fst e \<noteq> k) xs"

text \<open>The state is the code and the number of ids given out; an edit needs its target in the code
  and, if it creates an instruction, a free 16-bit id.  The array is not enlarged while the code
  is empty: ir2\_allocate would then turn the null pointers to the first and last instruction
  into wild ones.\<close>

fun spec_edit :: "edit \<Rightarrow> code_item list \<times> nat \<Rightarrow> (code_item list \<times> nat) option" where
  "spec_edit (Emit op ops) (xs, n) = (if n < 2 ^ 15 \<and> (xs \<noteq> [] \<or> n < 400) then Some (xs @ [item n op ops], n + 1) else None)"
| "spec_edit (Before op ops k) (xs, n) = (if n < 2 ^ 15 \<and> k \<in> fst ` set xs
     then Some (before_id k xs @ item n op ops # from_id k xs, n + 1) else None)"
| "spec_edit (After op ops k) (xs, n) = (if n < 2 ^ 15 \<and> k \<in> fst ` set xs
     then Some (before_id k xs @ hd (from_id k xs) # item n op ops # tl (from_id k xs), n + 1) else None)"
| "spec_edit (Remove k) (xs, n) = (if k \<in> fst ` set xs
     then Some (before_id k xs @ tl (from_id k xs), n) else None)"

fun spec_edits :: "edit list \<Rightarrow> code_item list \<times> nat \<Rightarrow> (code_item list \<times> nat) option" where
  "spec_edits [] s = Some s"
| "spec_edits (e # es) s = do { s' \<leftarrow> spec_edit e s; spec_edits es s' }"

definition represents :: "tr_data \<Rightarrow> code_item list \<times> nat \<Rightarrow> bool" where
  "represents t s = (case s of (xs, n) \<Rightarrow> ir2_rep t (map fst xs) \<and> ir2_inst_num_current t = n \<and>
     400 \<le> ir2_inst_num_max t \<and> (\<forall>(k, b) \<in> set xs. inst_view (ir2_inst_array t ! k) = b))"

section \<open>Simulation\<close>

lemma split_at_id:
  assumes "k \<in> fst ` set xs"
  obtains b where "from_id k xs = (k, b) # tl (from_id k xs)" "xs = before_id k xs @ (k, b) # tl (from_id k xs)"
proof -
  have "from_id k xs \<noteq> []" using assms by (auto simp: from_id_def dropWhile_eq_Nil_conv)
  moreover have "fst (hd (from_id k xs)) = k"
    using hd_dropWhile[of "\<lambda>e. fst e \<noteq> k" xs] calculation by (simp add: from_id_def)
  ultimately obtain b where b: "from_id k xs = (k, b) # tl (from_id k xs)"
    by (metis list.collapse prod.collapse)
  moreover have "xs = before_id k xs @ from_id k xs" by (simp add: before_id_def from_id_def)
  ultimately show ?thesis using that by metis
qed

lemma relinked_view:
  "relinked arr arr' \<Longrightarrow> i < length arr \<Longrightarrow> inst_view (arr' ! i) = inst_view (arr ! i)"
  by (auto simp: relinked_def inst_view_def inst_body_def)

lemma generate_spec:
  assumes rep: "represents t (xs, n)" and room: "n < 2 ^ 15" and ok: "xs \<noteq> [] \<or> n < 400"
  obtains t' where "generate moved junk op ops t = Some (t', n)" "represents t' (xs, n + 1)"
    "inst_view (ir2_inst_array t' ! n) = snd (item n op ops)"
proof -
  let ?ops = "if ops = [] then [ir2_opnd_new_none] else ops"
  have r: "ir2_rep t (map fst xs)" and n: "ir2_inst_num_current t = n" and mx: "400 \<le> ir2_inst_num_max t"
    and v: "\<forall>(k, b) \<in> set xs. inst_view (ir2_inst_array t ! k) = b"
    using rep by (auto simp: represents_def)
  obtain t1 where t1: "ir2_allocate moved junk t = Some (t1, n)" "ir2_rep t1 (map fst xs)"
    "ir2_inst_num_current t1 = n + 1" "code_of t1 (map fst xs) = code_of t (map fst xs)"
    "ir2_inst_num_max t \<le> ir2_inst_num_max t1"
    using ir2_allocate_spec[OF r, of moved junk] mx room ok n by auto
  let ?f = "\<lambda>i. i\<lparr>n_opcode := op, n_op_count := int (length ?ops), n_opnd := ?ops @ drop (length ?ops) (n_opnd i)\<rparr>"
  let ?t' = "t1\<lparr>ir2_inst_array := (ir2_inst_array t1)[n := ?f (ir2_inst_array t1 ! n)]\<rparr>"
  have len: "n < length (ir2_inst_array t1)" using rep_facts(1)[OF t1(2), of n] t1(3) by simp
  have nn: "n \<notin> fst ` set xs" using rep_facts(4)[OF r] n by force
  have "ir2_rep ?t' (map fst xs)"
    using t1(2) nn len by (auto simp: ir2_rep_def dll_upd_other nth_list_update)
  moreover have "inst_view (ir2_inst_array ?t' ! k) = b" if kb: "(k, b) \<in> set xs" for k b
  proof -
    have "k \<noteq> n" using nn kb by force
    moreover have "inst_body (ir2_inst_array t1 ! k) = inst_body (ir2_inst_array t ! k)"
      using t1(4) kb by (auto simp: code_of_def)
    ultimately show ?thesis using v kb by (auto simp: inst_view_def inst_body_def)
  qed
  ultimately have "represents ?t' (xs, n + 1)" using t1(3,5) mx by (auto simp: represents_def)
  moreover have "generate moved junk op ops t = Some (?t', n)"
    using t1(1) len by (simp add: generate_def inst_upd_def Let_def)
  moreover have "inst_view (ir2_inst_array ?t' ! n) = snd (item n op ops)"
    using len by (simp add: inst_view_def item_def)
  ultimately show ?thesis using that by blast
qed

text \<open>A relinked array represents any rearrangement of known items.\<close>

lemma represents_relinked:
  assumes rep: "represents t (xs, n)" and new: "\<forall>(k, b) \<in> set ys. inst_view (ir2_inst_array t ! k) = b"
    and t': "ir2_rep t' (map fst ys)" "relinked (ir2_inst_array t) (ir2_inst_array t')" "ir2_inst_num_current t' = n"
  shows "represents t' (ys, n)"
proof -
  have "inst_view (ir2_inst_array t' ! k) = b" if kb: "(k, b) \<in> set ys" for k b
  proof -
    have "k < length (ir2_inst_array t)"
      using rep_facts(1,4)[OF t'(1)] kb t'(2) by (force simp: relinked_def)
    then show ?thesis using relinked_view[OF t'(2)] new kb by auto
  qed
  moreover have "ir2_inst_num_max t' = ir2_inst_num_max t"
    using rep t' by (auto simp: represents_def ir2_rep_def relinked_def)
  ultimately show ?thesis using rep t' by (auto simp: represents_def)
qed

lemma represents_ids:
  assumes "represents t (xs, n)" "e \<in> set xs"
  shows "fst e < n"
  using rep_facts(4)[of t "map fst xs" "fst e"] assms by (auto simp: represents_def)

lemma represents_view:
  assumes "represents t (xs, n)" "(j, c) \<in> set xs"
  shows "inst_view (ir2_inst_array t ! j) = c"
proof -
  have "\<forall>(k, b) \<in> set xs. inst_view (ir2_inst_array t ! k) = b" using assms(1) by (simp add: represents_def)
  from bspec[OF this assms(2)] show ?thesis by simp
qed

lemma generate_view:
  assumes rep: "represents t (xs, n)" and room: "n < 2 ^ 15" and ok: "xs \<noteq> [] \<or> n < 400"
  obtains t1 where "generate moved junk op ops t = Some (t1, n)" "represents t1 (xs, n + 1)"
    "\<forall>(k, b) \<in> set (item n op ops # xs). inst_view (ir2_inst_array t1 ! k) = b"
    "ir2_rep t1 (map fst xs)" "ir2_inst_num_current t1 = n + 1" "n \<notin> set (map fst xs)"
proof -
  obtain t1 where "generate moved junk op ops t = Some (t1, n)" "represents t1 (xs, n + 1)"
    "inst_view (ir2_inst_array t1 ! n) = snd (item n op ops)" using generate_spec[OF rep room ok] .
  moreover have "n \<notin> set (map fst xs)" using represents_ids[OF rep] by force
  ultimately show ?thesis by (intro that[of t1]) (auto simp: represents_def item_def)
qed

lemma emit_refines:
  assumes rep: "represents t (xs, n)" and room: "n < 2 ^ 15" "xs \<noteq> [] \<or> n < 400"
  shows "\<exists>t'. do_edit moved junk (Emit op ops) t = Some t' \<and> represents t' (xs @ [item n op ops], n + 1)"
proof -
  obtain t1 where t1: "generate moved junk op ops t = Some (t1, n)" "represents t1 (xs, n + 1)"
    "\<forall>(k, b) \<in> set (item n op ops # xs). inst_view (ir2_inst_array t1 ! k) = b"
    "ir2_rep t1 (map fst xs)" "ir2_inst_num_current t1 = n + 1" "n \<notin> set (map fst xs)"
    using generate_view[OF rep room] .
  obtain t2 where t2: "ir2_append n t1 = Some t2" "ir2_rep t2 (map fst xs @ [n])"
    "relinked (ir2_inst_array t1) (ir2_inst_array t2)" "ir2_inst_num_current t2 = n + 1"
    using ir2_append_spec[OF t1(4), of n] t1(5,6) by auto
  have "represents t2 (xs @ [item n op ops], n + 1)"
    by (rule represents_relinked[OF t1(2) _ _ t2(3,4)]) (use t1(3) t2(2) in \<open>auto simp: item_def\<close>)
  then show ?thesis using t1(1) t2(1) by (simp add: la_emit_def)
qed

lemma before_refines:
  assumes rep: "represents t (ys @ (k, b) # zs, n)" and room: "n < 2 ^ 15"
  shows "\<exists>t'. do_edit moved junk (Before op ops k) t = Some t' \<and>
    represents t' (ys @ item n op ops # (k, b) # zs, n + 1)"
proof -
  let ?xs = "ys @ (k, b) # zs"
  obtain t1 where t1: "generate moved junk op ops t = Some (t1, n)" "represents t1 (?xs, n + 1)"
    "\<forall>(k, b) \<in> set (item n op ops # ?xs). inst_view (ir2_inst_array t1 ! k) = b"
    "ir2_rep t1 (map fst ?xs)" "ir2_inst_num_current t1 = n + 1" "n \<notin> set (map fst ?xs)"
    using generate_view[OF rep room] by blast
  have r1: "ir2_rep t1 (map fst ys @ k # map fst zs)" using t1(4) by simp
  obtain t2 where t2: "ir2_insert_before n k t1 = Some (t2, k)" "ir2_rep t2 (map fst ys @ n # k # map fst zs)"
    "relinked (ir2_inst_array t1) (ir2_inst_array t2)" "ir2_inst_num_current t2 = n + 1"
    using ir2_insert_before_spec[OF r1, of n] t1(5,6) by auto
  have "represents t2 (ys @ item n op ops # (k, b) # zs, n + 1)"
    by (rule represents_relinked[OF t1(2) _ _ t2(3,4)]) (use t1(3) t2(2) in \<open>auto simp: item_def\<close>)
  then show ?thesis using t1(1) t2(1) by simp
qed

lemma after_refines:
  assumes rep: "represents t (ys @ (k, b) # zs, n)" and room: "n < 2 ^ 15"
  shows "\<exists>t'. do_edit moved junk (After op ops k) t = Some t' \<and>
    represents t' (ys @ (k, b) # item n op ops # zs, n + 1)"
proof -
  let ?xs = "ys @ (k, b) # zs"
  obtain t1 where t1: "generate moved junk op ops t = Some (t1, n)" "represents t1 (?xs, n + 1)"
    "\<forall>(k, b) \<in> set (item n op ops # ?xs). inst_view (ir2_inst_array t1 ! k) = b"
    "ir2_rep t1 (map fst ?xs)" "ir2_inst_num_current t1 = n + 1" "n \<notin> set (map fst ?xs)"
    using generate_view[OF rep room] by blast
  have r1: "ir2_rep t1 (map fst ys @ k # map fst zs)" using t1(4) by simp
  obtain t2 where t2: "ir2_insert_after n k t1 = Some t2" "ir2_rep t2 (map fst ys @ k # n # map fst zs)"
    "relinked (ir2_inst_array t1) (ir2_inst_array t2)" "ir2_inst_num_current t2 = n + 1"
    using ir2_insert_after_spec[OF r1, of n] t1(5,6) by auto
  have "represents t2 (ys @ (k, b) # item n op ops # zs, n + 1)"
    by (rule represents_relinked[OF t1(2) _ _ t2(3,4)]) (use t1(3) t2(2) in \<open>auto simp: item_def\<close>)
  then show ?thesis using t1(1) t2(1) by simp
qed

lemma remove_refines:
  assumes rep: "represents t (ys @ (k, b) # zs, n)"
  shows "\<exists>t'. do_edit moved junk (Remove k) t = Some t' \<and> represents t' (ys @ zs, n)"
proof -
  let ?ids = "map fst ys @ map fst zs"
  have r: "ir2_rep t (map fst ys @ k # map fst zs)" "ir2_inst_num_current t = n"
    using rep by (auto simp: represents_def)
  obtain t2 where t2: "ir2_remove k t = Some t2" "ir2_rep t2 ?ids" "code_of t2 ?ids = code_of t ?ids"
    "ir2_inst_num_current t2 = n" "ir2_inst_num_max t2 = ir2_inst_num_max t"
    using ir2_remove_spec[OF r(1)] r(2) by auto
  have "inst_view (ir2_inst_array t2 ! j) = c" if jc: "(j, c) \<in> set (ys @ zs)" for j c
  proof -
    have "j \<in> set ?ids" using jc by force
    then have "inst_body (ir2_inst_array t2 ! j) = inst_body (ir2_inst_array t ! j)"
      using t2(3) unfolding code_of_def by (metis (no_types, lifting) map_eq_conv)
    then have "inst_view (ir2_inst_array t2 ! j) = inst_view (ir2_inst_array t ! j)"
      by (simp add: inst_view_def inst_body_def)
    moreover have "inst_view (ir2_inst_array t ! j) = c" using represents_view[OF rep] jc by auto
    ultimately show ?thesis by simp
  qed
  then show ?thesis using t2 rep by (auto simp: represents_def)
qed

lemma do_edit_refines:
  assumes rep: "represents t s" and spec: "spec_edit e s = Some s'"
  shows "\<exists>t'. do_edit moved junk e t = Some t' \<and> represents t' s'"
proof -
  obtain xs n where s: "s = (xs, n)" by (cases s)
  note rep = rep[unfolded s] and spec = spec[unfolded s]
  have target: "\<exists>ys b zs. xs = ys @ (k, b) # zs \<and> before_id k xs = ys \<and> from_id k xs = (k, b) # zs"
    if "k \<in> fst ` set xs" for k using split_at_id[OF that] by metis
  show ?thesis
  proof (cases e)
    case (Emit op ops)
    then show ?thesis using emit_refines[OF rep] spec by (auto split: if_splits)
  next
    case (Before op ops k)
    then obtain ys b zs where "xs = ys @ (k, b) # zs" "before_id k xs = ys" "from_id k xs = (k, b) # zs" "n < 2 ^ 15"
      using target[of k] spec by (auto split: if_splits)
    then show ?thesis using before_refines[of t ys k b zs n] rep spec Before by (auto split: if_splits)
  next
    case (After op ops k)
    then obtain ys b zs where "xs = ys @ (k, b) # zs" "before_id k xs = ys" "from_id k xs = (k, b) # zs" "n < 2 ^ 15"
      using target[of k] spec by (auto split: if_splits)
    then show ?thesis using after_refines[of t ys k b zs n] rep spec After by (auto split: if_splits)
  next
    case (Remove k)
    then obtain ys b zs where "xs = ys @ (k, b) # zs" "before_id k xs = ys" "from_id k xs = (k, b) # zs"
      using target[of k] spec by (auto split: if_splits)
    then show ?thesis using remove_refines[of t ys k b zs n] rep spec Remove by (auto split: if_splits)
  qed
qed

lemma do_edits_refines:
  "represents t s \<Longrightarrow> spec_edits es s = Some s' \<Longrightarrow>
   \<exists>t'. do_edits moved junk es t = Some t' \<and> represents t' s'"
proof (induction es arbitrary: t s)
  case (Cons e es)
  then obtain s1 where s1: "spec_edit e s = Some s1" "spec_edits es s1 = Some s'"
    by (auto simp: bind_eq_Some_conv)
  then obtain t1 where "do_edit moved junk e t = Some t1" "represents t1 s1"
    using do_edit_refines[OF Cons.prems(1)] by blast
  then show ?case using Cons.IH s1(2) by simp
qed simp

lemma tr_init_represents:
  assumes "ir2_inst_num_max t = length (ir2_inst_array t)" "ir2_inst_num_max t = 0 \<or> 400 \<le> ir2_inst_num_max t"
  shows "represents (tr_init has_tb t) ([], 0)"
  using tr_init_rep[OF assms(1), of has_tb] assms
  by (auto simp: represents_def tr_init_def ra_free_all_def Let_def)

text \<open>C9: starting from tr\_init, every sequence of edits (emit, insert before or after an instruction,
  remove) that is possible on the abstract code is carried out by the linked array without touching
  memory outside it, and the array then represents the resulting code, each instruction with its
  opcode and operands, whatever realloc does to the array.\<close>

theorem ir2_edits_refine:
  assumes "ir2_inst_num_max t = length (ir2_inst_array t)" "ir2_inst_num_max t = 0 \<or> 400 \<le> ir2_inst_num_max t"
    and "spec_edits es ([], 0) = Some s"
  shows "\<exists>t'. do_edits moved junk es (tr_init has_tb t) = Some t' \<and> represents t' s"
  by (rule do_edits_refines[OF tr_init_represents[OF assms(1,2)] assms(3)])

definition empty_tr_data :: tr_data where
  "empty_tr_data = \<lparr>ir2_inst_array = [], ir2_inst_num_max = 0, ir2_inst_num_current = 0, real_ir2_inst_num = 0,
     first_ir2 = Null, last_ir2 = Null, label_num = 0, data_num = 0, itemp_status = 0, ftemp_status = 0,
     curr_top = 0, td_imm_cache = \<lparr>c_bucket = [], c_cache_count = 0, c_free_count = 0, c_curr_imm_index = 0,
     c_curr_ir1_index = 0, c_curr_ir2_index = 0, c_optimized_ir2 = False, c_curr_pc = 0,
     c_itemp_allocated = False, c_ir1_reg_last_updated_index = [], itemp_stat = [1, 1, 1, 1],
     cache_call = 0, cache_hit = 0, stop_opt = False\<rparr>\<rparr>"

theorem ir2_edits_refine_witness:
  "\<exists>t'. do_edits True (\<lambda>_. zero_inst) [Emit LISA_ADD_D [ir2_opnd_new_none], Before LISA_NOP [] 0,
      After LISA_B [] 0, Remove 0] (tr_init True empty_tr_data) = Some t' \<and>
    represents t' ([(1, LISA_NOP, [ir2_opnd_new_none]), (2, LISA_B, [ir2_opnd_new_none])], 3)"
  by (rule ir2_edits_refine)
    (simp_all add: empty_tr_data_def item_def before_id_def from_id_def)

end
