(* ===== verification/Reg_Alloc.thy ===== *)
theory Reg_Alloc
  imports Ir2_Edits Imm_Cache_Run
begin

text \<open>
  Register allocation of the translator: translator/reg-alloc.c and the macros of
  include/reg-alloc.h.  Guest registers have fixed LoongArch registers; temporaries are handed
  out from two 16-bit masks, the lowest clear bit first.
\<close>

section \<open>Fixed registers\<close>

definition ra_alloc_fixed :: "int list \<Rightarrow> nat \<Rightarrow> int \<Rightarrow> ir2_opnd option" where
  "ra_alloc_fixed reg_map ty index = do {
     r \<leftarrow> arr_get reg_map index;
     Some \<lparr>o2_type = ty, o2_val = of_int r\<rparr>
   }"

definition ra_alloc_gpr :: "target \<Rightarrow> int \<Rightarrow> ir2_opnd option" where
  "ra_alloc_gpr t = ra_alloc_fixed (reg_gpr_map t) IR2_OPND_GPR"

definition ra_alloc_fpr :: "int \<Rightarrow> ir2_opnd option" where
  "ra_alloc_fpr = ra_alloc_fixed reg_fpr_map IR2_OPND_FPR"

definition ra_alloc_mmx :: "int \<Rightarrow> ir2_opnd option" where
  "ra_alloc_mmx = ra_alloc_fixed reg_fpr_map IR2_OPND_FPR"

definition ra_alloc_xmm :: "target \<Rightarrow> int \<Rightarrow> ir2_opnd option" where
  "ra_alloc_xmm t = ra_alloc_fixed (reg_xmm_map t) IR2_OPND_FPR"

definition ra_alloc_statics :: "target \<Rightarrow> int \<Rightarrow> ir2_opnd option" where
  "ra_alloc_statics t = ra_alloc_fixed (reg_statics_map t) IR2_OPND_GPR"

definition ra_alloc_trace :: "int \<Rightarrow> ir2_opnd option" where
  "ra_alloc_trace = ra_alloc_fixed reg_trace_map IR2_OPND_GPR"

definition ra_alloc_scr :: "int \<Rightarrow> ir2_opnd option" where
  "ra_alloc_scr = ra_alloc_fixed reg_scr_map IR2_OPND_SCR"

definition ra_alloc_st :: "int \<Rightarrow> ir2_opnd option" where
  "ra_alloc_st st_num = ra_alloc_fpr st_num"

definition zero_ir2_opnd :: ir2_opnd where
  "zero_ir2_opnd = \<lparr>o2_type = IR2_OPND_GPR, o2_val = of_int la_zero\<rparr>"

definition ra_ir2_opnd :: ir2_opnd where
  "ra_ir2_opnd = \<lparr>o2_type = IR2_OPND_GPR, o2_val = of_int la_ra\<rparr>"

definition ra_alloc_mda :: ir2_opnd where
  "ra_alloc_mda = ra_ir2_opnd"

section \<open>Temporaries\<close>

text \<open>The instruction cto.w: the number of trailing ones of a 32-bit word.\<close>

definition cto_w :: "u32 \<Rightarrow> nat" where
  "cto_w w = length (takeWhile (bit w) [0..<32])"

definition ra_alloc_temp_num :: "int list \<Rightarrow> u16 \<Rightarrow> u16 \<times> int" where
  "ra_alloc_temp_num reg_map status =
    (let cto_num = cto_w (ucast status) in
     if cto_num \<ge> length reg_map then (status, -1)
     else (status OR push_bit cto_num 1, reg_map ! cto_num))"

definition ra_alloc_itemp_num :: "target \<Rightarrow> tr_data \<Rightarrow> tr_data \<times> int" where
  "ra_alloc_itemp_num tg t =
    (let (st, r) = ra_alloc_temp_num (reg_itemp_map tg) (itemp_status t) in (t\<lparr>itemp_status := st\<rparr>, r))"

definition ra_alloc_ftemp_num :: "tr_data \<Rightarrow> tr_data \<times> int" where
  "ra_alloc_ftemp_num t =
    (let (st, r) = ra_alloc_temp_num reg_ftemp_map (ftemp_status t) in (t\<lparr>ftemp_status := st\<rparr>, r))"

text \<open>RA\_FREE\_CODE; shifting by a negative amount is undefined.\<close>

definition ra_free_code :: "int list \<Rightarrow> int \<Rightarrow> u16 \<Rightarrow> u16 option" where
  "ra_free_code reverse_map phy_id status = do {
     virt_id \<leftarrow> arr_get reverse_map phy_id;
     if virt_id < 0 then None else Some (status AND NOT (push_bit (nat virt_id) 1))
   }"

definition ra_free_itemp :: "target \<Rightarrow> int \<Rightarrow> tr_data \<Rightarrow> tr_data option" where
  "ra_free_itemp tg phy_id t =
     map_option (\<lambda>st. t\<lparr>itemp_status := st\<rparr>) (ra_free_code (reg_itemp_reverse_map tg) phy_id (itemp_status t))"

definition ra_free_ftemp :: "int \<Rightarrow> tr_data \<Rightarrow> tr_data option" where
  "ra_free_ftemp phy_id t =
     map_option (\<lambda>st. t\<lparr>ftemp_status := st\<rparr>) (ra_free_code reg_ftemp_reverse_map phy_id (ftemp_status t))"

definition ra_free_temp_auto :: "target \<Rightarrow> ir2_opnd \<Rightarrow> tr_data \<Rightarrow> tr_data option" where
  "ra_free_temp_auto tg opnd t = do {
     it \<leftarrow> ir2_opnd_is_itemp tg opnd;
     if it then ra_free_itemp tg (ir2_opnd_base_reg_num opnd) t
     else do {
       ft \<leftarrow> ir2_opnd_is_ftemp opnd;
       if ft then ra_free_ftemp (ir2_opnd_base_reg_num opnd) t else Some t
     }
   }"

text \<open>Freeing a register that is not a temporary is an assertion of the debug build only.\<close>

definition ra_free_temp :: "target \<Rightarrow> ir2_opnd \<Rightarrow> tr_data \<Rightarrow> tr_data option" where
  "ra_free_temp tg opnd t = ra_free_temp_auto tg opnd t"

section \<open>Temporaries and the address cache\<close>

definition free_imm_reg :: "target \<Rightarrow> int \<Rightarrow> tr_data \<Rightarrow> tr_data option" where
  "free_imm_reg tg itemp_num t =
     map_option (\<lambda>c. t\<lparr>td_imm_cache := c\<rparr>) (imm_cache_free_itemp tg (td_imm_cache t) itemp_num)"

definition free_imm_reg_all :: "target \<Rightarrow> tr_data \<Rightarrow> tr_data option" where
  "free_imm_reg_all tg t =
     map_option (\<lambda>c. t\<lparr>td_imm_cache := c\<rparr>) (imm_cache_free_all tg (td_imm_cache t))"

text \<open>\<open>imm\<close>: CONFIG\_LATX\_IMM\_REG is set and option\_imm\_reg is on.  \<open>junk\<close>: the uninitialised
  operand.\<close>

definition ra_alloc_itemp :: "target \<Rightarrow> bool \<Rightarrow> ir2_opnd \<Rightarrow> tr_data \<Rightarrow> (tr_data \<times> ir2_opnd) option" where
  "ra_alloc_itemp tg imm junk t =
    (let (t1, itemp_reg_num) = ra_alloc_itemp_num tg t in do {
       t2 \<leftarrow> (if imm then do {
           itemp_num \<leftarrow> arr_get (reg_itemp_reverse_map tg) itemp_reg_num;
           is_imm \<leftarrow> imm_cache_is_imm_itemp tg itemp_num;
           if is_imm then free_imm_reg tg itemp_num t1 else Some t1
         } else Some t1);
       Some (t2, ir2_opnd_build junk IR2_OPND_GPR itemp_reg_num)
     })"

definition ra_alloc_ftemp :: "ir2_opnd \<Rightarrow> tr_data \<Rightarrow> tr_data \<times> ir2_opnd" where
  "ra_alloc_ftemp junk t =
    (let (t1, r) = ra_alloc_ftemp_num t in (t1, ir2_opnd_build junk IR2_OPND_FPR r))"

definition itemp_is_free :: "int \<Rightarrow> tr_data \<Rightarrow> bool option" where
  "itemp_is_free itemp_num t =
    (if itemp_num < 0 \<or> itemp_num > 31 then None
     else Some ((ucast (itemp_status t) :: u32) AND push_bit (nat itemp_num) 1 = 0))"

definition ra_alloc_imm_reg :: "target \<Rightarrow> int \<Rightarrow> tr_data \<Rightarrow> ir2_opnd option" where
  "ra_alloc_imm_reg tg itemp_num t = do {
     free \<leftarrow> itemp_is_free itemp_num t;
     if free then do {
       r \<leftarrow> arr_get (reg_itemp_map tg) itemp_num;
       Some (create_ir2_opnd IR2_OPND_GPR (of_int r))
     } else Some ir2_opnd_new_none
   }"

definition imm_cache_free_temp_helper :: "target \<Rightarrow> bool \<Rightarrow> ir2_opnd \<Rightarrow> tr_data \<Rightarrow> tr_data option" where
  "imm_cache_free_temp_helper tg imm dest_op t =
    (if \<not> imm \<or> c_itemp_allocated (td_imm_cache t) = True then ra_free_temp_auto tg dest_op t else Some t)"

definition ra_alloc_num_4095 ::
    "target \<Rightarrow> bool \<Rightarrow> ir2_opnd \<Rightarrow> bool \<Rightarrow> (nat \<Rightarrow> ir2_inst) \<Rightarrow> tr_data \<Rightarrow> (tr_data \<times> ir2_opnd) option" where
  "ra_alloc_num_4095 tg imm junk moved junk2 t = do {
     (t1, num) \<leftarrow> ra_alloc_itemp tg imm junk t;
     (t2, _) \<leftarrow> la_emit moved junk2 LISA_ORI [num, zero_ir2_opnd, create_immh_opnd 0xfff] t1;
     Some (t2, num)
   }"

definition ra_free_num_4095 :: "target \<Rightarrow> ir2_opnd \<Rightarrow> tr_data \<Rightarrow> tr_data option" where
  "ra_free_num_4095 tg opnd t = ra_free_itemp tg (ir2_opnd_base_reg_num opnd) t"

section \<open>The lowest clear bit\<close>

lemma cto_w_le: "cto_w w \<le> 32"
  using length_takeWhile_le[of "bit w" "[0..<32]"] by (simp add: cto_w_def)

lemma cto_w_ones: "i < cto_w w \<Longrightarrow> bit w i"
proof -
  assume i: "i < cto_w w"
  have "takeWhile (bit w) [0..<32] ! i = [0..<32] ! i" using i by (intro takeWhile_nth) (simp add: cto_w_def)
  then have "i \<in> set (takeWhile (bit w) [0..<32])"
    using i cto_w_le[of w] by (metis (no_types) cto_w_def add.left_neutral nth_mem nth_upt order_less_le_trans)
  then show ?thesis by (rule set_takeWhileD[THEN conjunct2])
qed

lemma cto_w_zero: "cto_w w < 32 \<Longrightarrow> \<not> bit w (cto_w w)"
  using nth_length_takeWhile[of "bit w" "[0..<32]"] by (simp add: cto_w_def)

section \<open>Temporaries in use\<close>

definition live_temps :: "int list \<Rightarrow> u16 \<Rightarrow> int set" where
  "live_temps reg_map st = {reg_map ! i | i. i < length reg_map \<and> bit st i}"

lemma live_tempsI: "i < length m \<Longrightarrow> bit st i \<Longrightarrow> m ! i \<in> live_temps m st"
  by (auto simp: live_temps_def)

lemma bit_set_bit: "k < 16 \<Longrightarrow> bit (st OR 2 ^ k :: u16) i \<longleftrightarrow> bit st i \<or> i = k"
  by (auto simp: bit_or_iff bit_exp_iff)

lemma bit_clear_bit: "k < 16 \<Longrightarrow> bit (st AND NOT (2 ^ k) :: u16) i \<longleftrightarrow> bit st i \<and> i \<noteq> k"
  by (auto simp: bit_and_iff bit_not_word bit_exp_iff dest: bit_imp_le_length)

lemma bit_ucast_status: "bit (ucast (st :: u16) :: u32) i \<longleftrightarrow> bit st i"
  by (auto simp: bit_ucast_iff dest: bit_imp_le_length)

lemma temp_num_alloc:
  assumes "distinct m" "length m \<le> 16"
  shows "case ra_alloc_temp_num m st of (st', r) \<Rightarrow>
    if live_temps m st = set m then r = -1 \<and> st' = st
    else \<exists>k<length m. r = m ! k \<and> \<not> bit st k \<and> st' = st OR 2 ^ k \<and>
      r \<in> set m - live_temps m st \<and> live_temps m st' = insert r (live_temps m st)"
proof -
  define k where "k = cto_w (ucast st)"
  have ones: "bit st i" if "i < k" for i using cto_w_ones[of i "ucast st"] that by (simp add: k_def bit_ucast_status)
  have zero: "\<not> bit st k" if "k < 16" using cto_w_zero[of "ucast st"] that by (simp add: k_def bit_ucast_status)
  show ?thesis
  proof (cases "k \<ge> length m")
    case True
    have "live_temps m st = set m" using ones True by (force simp: live_temps_def in_set_conv_nth)
    then show ?thesis using True by (simp add: ra_alloc_temp_num_def k_def[symmetric] Let_def)
  next
    case False
    then have k: "k < length m" "k < 16" using assms(2) by auto
    have out: "m ! k \<notin> live_temps m st"
      using zero[OF k(2)] k(1) assms(1) by (auto simp: live_temps_def nth_eq_iff_index_eq)
    moreover have "m ! k \<in> set m" using k(1) by simp
    moreover have "live_temps m (st OR 2 ^ k) = insert (m ! k) (live_temps m st)"
      using k by (auto simp: live_temps_def bit_set_bit)
    ultimately show ?thesis
      using False k zero[OF k(2)] by (auto simp: ra_alloc_temp_num_def k_def[symmetric] Let_def)
  qed
qed

lemma itemp_map_ok: "distinct (reg_itemp_map tg)" "length (reg_itemp_map tg) \<le> 16" "\<forall>r \<in> set (reg_itemp_map tg). 0 \<le> r \<and> r < 32"
  by (auto simp: reg_itemp_map_def)

lemma ftemp_map_ok: "distinct reg_ftemp_map" "length reg_ftemp_map \<le> 16"
  by (auto simp: reg_ftemp_map_def)

end
