(* ===== verification/Reg_Alloc_Properties.thy ===== *)
theory Reg_Alloc_Properties
  imports Reg_Alloc
begin

text \<open>The properties of register allocation: temporaries are a set, guest registers are never
  handed out, and a temporary never aliases a cached address.\<close>

definition live_itemps :: "target \<Rightarrow> tr_data \<Rightarrow> int set" where
  "live_itemps tg t = live_temps (reg_itemp_map tg) (itemp_status t)"

lemma itemp_num_alloc:
  assumes "ra_alloc_itemp_num tg t = (t', r)" "live_itemps tg t \<noteq> set (reg_itemp_map tg)"
  obtains k where "k < length (reg_itemp_map tg)" "r = reg_itemp_map tg ! k" "\<not> bit (itemp_status t) k"
    "t' = t\<lparr>itemp_status := itemp_status t OR 2 ^ k\<rparr>"
proof -
  obtain st' r' where n: "ra_alloc_temp_num (reg_itemp_map tg) (itemp_status t) = (st', r')" by fastforce
  then have "t' = t\<lparr>itemp_status := st'\<rparr>" "r = r'" using assms(1) by (simp_all add: ra_alloc_itemp_num_def)
  then show ?thesis
    using temp_num_alloc[OF itemp_map_ok(1,2), of tg "itemp_status t"] n assms(2) that
    unfolding live_itemps_def by auto
qed

section \<open>Temporaries as a set\<close>

lemma ra_alloc_itemp_num_lemma:
  "case ra_alloc_itemp_num tg t of (t', r) \<Rightarrow>
    if live_itemps tg t = set (reg_itemp_map tg) then r = -1 \<and> t' = t
    else r \<in> set (reg_itemp_map tg) - live_itemps tg t \<and> live_itemps tg t' = insert r (live_itemps tg t)"
  using temp_num_alloc[OF itemp_map_ok(1,2), of tg "itemp_status t"]
  by (auto simp: ra_alloc_itemp_num_def live_itemps_def split: prod.splits if_splits)

lemma ra_free_alloc_roundtrip:
  assumes "ra_alloc_itemp_num tg t = (t', r)" "r \<noteq> -1"
  shows "ra_free_itemp tg r t' = Some t"
proof -
  have notall: "live_itemps tg t \<noteq> set (reg_itemp_map tg)" using ra_alloc_itemp_num_lemma[of tg t] assms by auto
  obtain k where k: "k < length (reg_itemp_map tg)" "r = reg_itemp_map tg ! k" "\<not> bit (itemp_status t) k"
    "t' = t\<lparr>itemp_status := itemp_status t OR 2 ^ k\<rparr>"
    using itemp_num_alloc[OF assms(1) notall] .
  have k16: "k < 16" using k(1) itemp_map_ok(2)[of tg] by simp
  have "(itemp_status t OR 2 ^ k) AND NOT (2 ^ k) = itemp_status t"
    by (rule bit_eqI) (use k(3) k16 in \<open>auto simp: bit_set_bit bit_clear_bit\<close>)
  then show ?thesis
    using itemp_reverse_inverse[OF k(1)] k by (simp add: ra_free_itemp_def ra_free_code_def)
qed

text \<open>C27: integer temporaries are a set.  Allocating one hands out a register of the temporary map that is
  not in use and adds exactly it to the set of temporaries in use, and freeing it again restores the
  previous state; allocation fails, with -1 and no change, exactly when all of them are in use.\<close>

theorem ra_alloc_itemp_num_set:
  "case ra_alloc_itemp_num tg t of (t', r) \<Rightarrow>
    if live_itemps tg t = set (reg_itemp_map tg) then r = -1 \<and> t' = t
    else r \<in> set (reg_itemp_map tg) - live_itemps tg t \<and> live_itemps tg t' = insert r (live_itemps tg t) \<and>
      ra_free_itemp tg r t' = Some t"
proof -
  obtain t' r where a: "ra_alloc_itemp_num tg t = (t', r)" by fastforce
  have "r \<noteq> -1" if "r \<in> set (reg_itemp_map tg)" using that by (auto simp: reg_itemp_map_def split: if_splits)
  then show ?thesis using ra_alloc_itemp_num_lemma[of tg t] ra_free_alloc_roundtrip[OF a] a by (auto split: if_splits)
qed


section \<open>Temporaries and cached addresses\<close>

lemma is_imm_itemp_defined:
  assumes "k < length (reg_itemp_map tg)"
  shows "imm_cache_is_imm_itemp tg (int k) \<noteq> None"
  using assms by (auto simp: imm_cache_is_imm_itemp_def arr_get_def itemp_reverse_map_def split: if_splits)

lemma not_imm_itemp:
  assumes "imm_cache_is_imm_itemp tg (int k) = Some False"
  shows "int k \<notin> set (itemp_map tg)"
proof
  assume "int k \<in> set (itemp_map tg)"
  then obtain i where "i < 4" "itemp_map tg ! i = int k" by (auto simp: in_set_conv_nth)
  then show False using assms itemp_map_reverse[of i tg] by (simp add: imm_cache_is_imm_itemp_def)
qed

text \<open>C23: with the address cache in use, as long as a temporary is free, ra\_alloc\_itemp succeeds,
  returns one that is not in use, and afterwards no live bucket of the cache keeps its address in it;
  the cache stays consistent.\<close>

theorem ra_alloc_itemp_no_alias:
  assumes inv: "imm_inv tg (td_imm_cache t)" and free: "live_itemps tg t \<noteq> set (reg_itemp_map tg)"
  shows "\<exists>t' r. ra_alloc_itemp tg True junk t = Some (t', junk\<lparr>o2_type := IR2_OPND_GPR, o2_val := of_int r\<rparr>) \<and>
    r \<in> set (reg_itemp_map tg) - live_itemps tg t \<and> live_itemps tg t' = insert r (live_itemps tg t) \<and>
    imm_inv tg (td_imm_cache t') \<and>
    (\<forall>b \<in> set (take 4 (c_bucket (td_imm_cache t'))). \<not> b_free b \<longrightarrow>
       arr_get (reg_itemp_map tg) (b_itemp_num b) \<noteq> Some r)"
proof -
  obtain k where k: "k < length (reg_itemp_map tg)"
    "ra_alloc_itemp_num tg t = (t\<lparr>itemp_status := itemp_status t OR 2 ^ k\<rparr>, reg_itemp_map tg ! k)"
    using itemp_num_alloc[OF surjective_pairing free] by (metis prod.collapse)
  let ?t1 = "t\<lparr>itemp_status := itemp_status t OR 2 ^ k\<rparr>" and ?r = "reg_itemp_map tg ! k"
  have set1: "?r \<in> set (reg_itemp_map tg) - live_itemps tg t" "live_itemps tg ?t1 = insert ?r (live_itemps tg t)"
    using ra_alloc_itemp_num_lemma[of tg t] k(2) free by auto
  have dist: "arr_get (reg_itemp_map tg) n = Some ?r \<Longrightarrow> n = int k" for n
    using itemp_map_ok(1)[of tg] k(1) by (auto simp: arr_get_def nth_eq_iff_index_eq split: if_splits)
  obtain is_imm where is_imm: "imm_cache_is_imm_itemp tg (int k) = Some is_imm"
    using is_imm_itemp_defined[OF k(1)] by blast
  show ?thesis
  proof (cases is_imm)
    case True
    obtain c' where c': "imm_cache_free_itemp tg (td_imm_cache t) (int k) = Some c'" "imm_inv tg c'"
      "\<forall>b\<in>set (take 4 (c_bucket c')). \<not> b_free b \<longrightarrow> b_itemp_num b \<noteq> int k"
      using free_itemp_run[OF inv, of "int k"] by blast
    have "ra_alloc_itemp tg True junk t =
        Some (?t1\<lparr>td_imm_cache := c'\<rparr>, junk\<lparr>o2_type := IR2_OPND_GPR, o2_val := of_int ?r\<rparr>)"
      using k(2) itemp_reverse_inverse[OF k(1)] is_imm True c'(1)
      by (simp add: ra_alloc_itemp_def free_imm_reg_def ir2_opnd_build_def)
    then show ?thesis using set1 c'(2,3) dist by (force simp: live_itemps_def)
  next
    case False
    have "ra_alloc_itemp tg True junk t = Some (?t1, junk\<lparr>o2_type := IR2_OPND_GPR, o2_val := of_int ?r\<rparr>)"
      using k(2) itemp_reverse_inverse[OF k(1)] is_imm False by (simp add: ra_alloc_itemp_def ir2_opnd_build_def)
    moreover have "b_itemp_num b \<noteq> int k" if "b \<in> set (take 4 (c_bucket (td_imm_cache t)))" "\<not> b_free b" for b
      using that inv not_imm_itemp[of tg k] is_imm False
      by (auto simp: imm_inv_def bs_inv_def bucket_ok_def)
    ultimately show ?thesis using set1 inv dist by (intro exI[of _ ?t1] exI[of _ ?r]) (auto simp: live_itemps_def)
  qed
qed

definition fresh_tr_data :: "u16 \<Rightarrow> tr_data" where
  "fresh_tr_data st = empty_tr_data\<lparr>itemp_status := st, td_imm_cache := the (imm_cache_init
     ((td_imm_cache empty_tr_data)\<lparr>c_bucket := replicate 4 init_bucket\<rparr>) CACHE_DEFAULT_CAPACITY)\<rparr>"

lemma fresh_tr_data_inv: "imm_inv tg (td_imm_cache (fresh_tr_data st))"
  using init_run[of "(td_imm_cache empty_tr_data)\<lparr>c_bucket := replicate 4 init_bucket\<rparr>" tg "\<lambda>_. 0" "\<lambda>_. 0"]
  by (auto simp: fresh_tr_data_def run_inv_def)

lemma fresh_live_itemps: "live_itemps tg (fresh_tr_data st) = live_temps (reg_itemp_map tg) st"
  by (simp add: live_itemps_def fresh_tr_data_def)

theorem ra_alloc_itemp_no_alias_witness:
  "\<exists>t' r. ra_alloc_itemp AMD64 True zero_ir2_opnd (fresh_tr_data 0) =
      Some (t', zero_ir2_opnd\<lparr>o2_type := IR2_OPND_GPR, o2_val := of_int r\<rparr>) \<and>
    r \<in> set (reg_itemp_map AMD64) \<and> live_itemps AMD64 t' = {r} \<and> imm_inv AMD64 (td_imm_cache t')"
proof -
  have "live_itemps AMD64 (fresh_tr_data 0) = {}" by (simp add: fresh_live_itemps live_temps_def)
  then show ?thesis
    using ra_alloc_itemp_no_alias[OF fresh_tr_data_inv, of AMD64 0 zero_ir2_opnd]
    by (fastforce simp: reg_itemp_map_def)
qed

text \<open>C31: with the address cache in use and every temporary taken, ra\_alloc\_itemp looks up the
  failure value -1 in reg\_itemp\_reverse\_map, an access before the start of the array.\<close>

theorem ra_alloc_itemp_exhausted:
  assumes "live_itemps tg t = set (reg_itemp_map tg)"
  shows "ra_alloc_itemp tg True junk t = None \<and>
    ra_alloc_itemp tg False junk t = Some (t, junk\<lparr>o2_type := IR2_OPND_GPR, o2_val := -1\<rparr>)"
proof -
  have "ra_alloc_itemp_num tg t = (t, -1)" using ra_alloc_itemp_num_lemma[of tg t] assms by auto
  then show ?thesis by (simp add: ra_alloc_itemp_def arr_get_def ir2_opnd_build_def)
qed

theorem ra_alloc_itemp_exhausted_witness:
  "ra_alloc_itemp AMD64 True zero_ir2_opnd (fresh_tr_data 0xffff) = None \<and>
   ra_alloc_itemp AMD64 False zero_ir2_opnd (fresh_tr_data 0xffff) =
     Some (fresh_tr_data 0xffff, zero_ir2_opnd\<lparr>o2_type := IR2_OPND_GPR, o2_val := -1\<rparr>)"
proof (rule ra_alloc_itemp_exhausted)
  have "bit (0xffff :: u16) i" if "i < 16" for i
  proof -
    have "(0xffff :: u16) = -1" by simp
    then show ?thesis using that by (simp only: bit_minus_1_iff) simp
  qed
  then show "live_itemps AMD64 (fresh_tr_data 0xffff) = set (reg_itemp_map AMD64)"
    using itemp_map_ok(2)[of AMD64] by (force simp: fresh_live_itemps live_temps_def in_set_conv_nth)
qed

end
