(* ===== verification/La_Format.thy ===== *)
theory La_Format
  imports Ir2_Enums
begin

text \<open>
  The tables of the LoongArch assembler and disassembler: GM\_OPERAND\_TYPE of
  include/ir2-la-assemble.h, bit\_field\_table of ir2/ir2-assemble.c, la\_to\_ir2\_type and
  is\_la\_sign\_opnd of ir2/la-disasm.c, and lisa\_format\_table, whose rows convert.py generates
  from inst\_template.json in the order of that file.  A format lists the operand types that
  the template gives; the remaining elements of opnd[4] are OPD\_INVALID.
\<close>

abbreviation (input) OPD_INVALID :: nat where "OPD_INVALID \<equiv> 0"
abbreviation (input) FCC_CA :: nat where "FCC_CA \<equiv> 1"
abbreviation (input) FCC_CD :: nat where "FCC_CD \<equiv> 2"
abbreviation (input) FCC_CJ :: nat where "FCC_CJ \<equiv> 3"
abbreviation (input) IMM_CODE :: nat where "IMM_CODE \<equiv> 4"
abbreviation (input) IMM_CONDF :: nat where "IMM_CONDF \<equiv> 5"
abbreviation (input) IMM_CONDH :: nat where "IMM_CONDH \<equiv> 6"
abbreviation (input) IMM_CONDL :: nat where "IMM_CONDL \<equiv> 7"
abbreviation (input) OPD_CSR :: nat where "OPD_CSR \<equiv> 8"
abbreviation (input) FPR_FA :: nat where "FPR_FA \<equiv> 9"
abbreviation (input) OPD_FCSRH :: nat where "OPD_FCSRH \<equiv> 10"
abbreviation (input) OPD_FCSRL :: nat where "OPD_FCSRL \<equiv> 11"
abbreviation (input) FPR_FD :: nat where "FPR_FD \<equiv> 12"
abbreviation (input) FPR_FJ :: nat where "FPR_FJ \<equiv> 13"
abbreviation (input) FPR_FK :: nat where "FPR_FK \<equiv> 14"
abbreviation (input) IMM_HINTL :: nat where "IMM_HINTL \<equiv> 15"
abbreviation (input) IMM_HINTS :: nat where "IMM_HINTS \<equiv> 16"
abbreviation (input) IMM_I13 :: nat where "IMM_I13 \<equiv> 17"
abbreviation (input) IMM_IDXS :: nat where "IMM_IDXS \<equiv> 18"
abbreviation (input) IMM_IDXM :: nat where "IMM_IDXM \<equiv> 19"
abbreviation (input) IMM_IDXL :: nat where "IMM_IDXL \<equiv> 20"
abbreviation (input) IMM_IDXLL :: nat where "IMM_IDXLL \<equiv> 21"
abbreviation (input) IMM_LEVEL :: nat where "IMM_LEVEL \<equiv> 22"
abbreviation (input) IMM_LSBD :: nat where "IMM_LSBD \<equiv> 23"
abbreviation (input) IMM_LSBW :: nat where "IMM_LSBW \<equiv> 24"
abbreviation (input) IMM_MODE :: nat where "IMM_MODE \<equiv> 25"
abbreviation (input) IMM_MSBD :: nat where "IMM_MSBD \<equiv> 26"
abbreviation (input) IMM_MSBW :: nat where "IMM_MSBW \<equiv> 27"
abbreviation (input) IMM_OFFS :: nat where "IMM_OFFS \<equiv> 28"
abbreviation (input) IMM_OFFL :: nat where "IMM_OFFL \<equiv> 29"
abbreviation (input) IMM_OFFLL :: nat where "IMM_OFFLL \<equiv> 30"
abbreviation (input) OPD_OPCACHE :: nat where "OPD_OPCACHE \<equiv> 31"
abbreviation (input) IMM_OPX86 :: nat where "IMM_OPX86 \<equiv> 32"
abbreviation (input) IMM_PTR :: nat where "IMM_PTR \<equiv> 33"
abbreviation (input) GPR_RD :: nat where "GPR_RD \<equiv> 34"
abbreviation (input) GPR_RJ :: nat where "GPR_RJ \<equiv> 35"
abbreviation (input) GPR_RK :: nat where "GPR_RK \<equiv> 36"
abbreviation (input) IMM_SA2 :: nat where "IMM_SA2 \<equiv> 37"
abbreviation (input) IMM_SA3 :: nat where "IMM_SA3 \<equiv> 38"
abbreviation (input) SCR_SD :: nat where "SCR_SD \<equiv> 39"
abbreviation (input) IMM_SEQ :: nat where "IMM_SEQ \<equiv> 40"
abbreviation (input) IMM_SI10 :: nat where "IMM_SI10 \<equiv> 41"
abbreviation (input) IMM_SI11 :: nat where "IMM_SI11 \<equiv> 42"
abbreviation (input) IMM_SI12 :: nat where "IMM_SI12 \<equiv> 43"
abbreviation (input) IMM_SI14 :: nat where "IMM_SI14 \<equiv> 44"
abbreviation (input) IMM_SI16 :: nat where "IMM_SI16 \<equiv> 45"
abbreviation (input) IMM_SI20 :: nat where "IMM_SI20 \<equiv> 46"
abbreviation (input) IMM_SI5 :: nat where "IMM_SI5 \<equiv> 47"
abbreviation (input) IMM_SI8 :: nat where "IMM_SI8 \<equiv> 48"
abbreviation (input) IMM_SI9 :: nat where "IMM_SI9 \<equiv> 49"
abbreviation (input) SCR_SJ :: nat where "SCR_SJ \<equiv> 50"
abbreviation (input) IMM_UI1 :: nat where "IMM_UI1 \<equiv> 51"
abbreviation (input) IMM_UI12 :: nat where "IMM_UI12 \<equiv> 52"
abbreviation (input) IMM_UI2 :: nat where "IMM_UI2 \<equiv> 53"
abbreviation (input) IMM_UI3 :: nat where "IMM_UI3 \<equiv> 54"
abbreviation (input) IMM_UI4 :: nat where "IMM_UI4 \<equiv> 55"
abbreviation (input) IMM_UI5H :: nat where "IMM_UI5H \<equiv> 56"
abbreviation (input) IMM_UI5L :: nat where "IMM_UI5L \<equiv> 57"
abbreviation (input) IMM_UI6 :: nat where "IMM_UI6 \<equiv> 58"
abbreviation (input) IMM_UI7 :: nat where "IMM_UI7 \<equiv> 59"
abbreviation (input) IMM_UI8 :: nat where "IMM_UI8 \<equiv> 60"
abbreviation (input) FPR_VA :: nat where "FPR_VA \<equiv> 61"
abbreviation (input) FPR_VD :: nat where "FPR_VD \<equiv> 62"
abbreviation (input) FPR_VJ :: nat where "FPR_VJ \<equiv> 63"
abbreviation (input) FPR_VK :: nat where "FPR_VK \<equiv> 64"
abbreviation (input) FPR_XA :: nat where "FPR_XA \<equiv> 65"
abbreviation (input) FPR_XD :: nat where "FPR_XD \<equiv> 66"
abbreviation (input) FPR_XJ :: nat where "FPR_XJ \<equiv> 67"
abbreviation (input) FPR_XK :: nat where "FPR_XK \<equiv> 68"

definition bit_field_table :: "(int \<times> int \<times> int \<times> int) list" where
  "bit_field_table = [
    (-1, -1, -1, -1) \<comment> \<open>OPD_INVALID\<close>,
    (15, 17, -1, -1) \<comment> \<open>FCC_CA\<close>,
    (0, 2, -1, -1) \<comment> \<open>FCC_CD\<close>,
    (5, 7, -1, -1) \<comment> \<open>FCC_CJ\<close>,
    (0, 14, -1, -1) \<comment> \<open>IMM_CODE\<close>,
    (15, 19, -1, -1) \<comment> \<open>IMM_CONDF\<close>,
    (10, 13, -1, -1) \<comment> \<open>IMM_CONDH\<close>,
    (0, 3, -1, -1) \<comment> \<open>IMM_CONDL\<close>,
    (10, 23, -1, -1) \<comment> \<open>OPD_CSR\<close>,
    (15, 19, -1, -1) \<comment> \<open>FPR_FA\<close>,
    (5, 9, -1, -1) \<comment> \<open>OPD_FCSRH\<close>,
    (0, 4, -1, -1) \<comment> \<open>OPD_FCSRL\<close>,
    (0, 4, -1, -1) \<comment> \<open>FPR_FD\<close>,
    (5, 9, -1, -1) \<comment> \<open>FPR_FJ\<close>,
    (10, 14, -1, -1) \<comment> \<open>FPR_FK\<close>,
    (0, 14, -1, -1) \<comment> \<open>IMM_HINTL\<close>,
    (0, 4, -1, -1) \<comment> \<open>IMM_HINTS\<close>,
    (5, 17, -1, -1) \<comment> \<open>IMM_I13\<close>,
    (18, 18, -1, -1) \<comment> \<open>IMM_IDXS\<close>,
    (18, 19, -1, -1) \<comment> \<open>IMM_IDXM\<close>,
    (18, 20, -1, -1) \<comment> \<open>IMM_IDXL\<close>,
    (18, 21, -1, -1) \<comment> \<open>IMM_IDXLL\<close>,
    (10, 17, -1, -1) \<comment> \<open>IMM_LEVEL\<close>,
    (10, 15, -1, -1) \<comment> \<open>IMM_LSBD\<close>,
    (10, 14, -1, -1) \<comment> \<open>IMM_LSBW\<close>,
    (5, 9, -1, -1) \<comment> \<open>IMM_MODE\<close>,
    (16, 21, -1, -1) \<comment> \<open>IMM_MSBD\<close>,
    (16, 20, -1, -1) \<comment> \<open>IMM_MSBW\<close>,
    (10, 25, -1, -1) \<comment> \<open>IMM_OFFS\<close>,
    (10, 25, 0, 4) \<comment> \<open>IMM_OFFL\<close>,
    (10, 25, 0, 9) \<comment> \<open>IMM_OFFLL\<close>,
    (0, 4, -1, -1) \<comment> \<open>OPD_OPCACHE\<close>,
    (5, 9, -1, -1) \<comment> \<open>IMM_OPX86\<close>,
    (5, 7, -1, -1) \<comment> \<open>IMM_PTR\<close>,
    (0, 4, -1, -1) \<comment> \<open>GPR_RD\<close>,
    (5, 9, -1, -1) \<comment> \<open>GPR_RJ\<close>,
    (10, 14, -1, -1) \<comment> \<open>GPR_RK\<close>,
    (15, 16, -1, -1) \<comment> \<open>IMM_SA2\<close>,
    (15, 17, -1, -1) \<comment> \<open>IMM_SA3\<close>,
    (0, 1, -1, -1) \<comment> \<open>SCR_SD\<close>,
    (10, 17, -1, -1) \<comment> \<open>IMM_SEQ\<close>,
    (10, 19, -1, -1) \<comment> \<open>IMM_SI10\<close>,
    (10, 20, -1, -1) \<comment> \<open>IMM_SI11\<close>,
    (10, 21, -1, -1) \<comment> \<open>IMM_SI12\<close>,
    (10, 23, -1, -1) \<comment> \<open>IMM_SI14\<close>,
    (10, 25, -1, -1) \<comment> \<open>IMM_SI16\<close>,
    (5, 24, -1, -1) \<comment> \<open>IMM_SI20\<close>,
    (10, 14, -1, -1) \<comment> \<open>IMM_SI5\<close>,
    (10, 17, -1, -1) \<comment> \<open>IMM_SI8\<close>,
    (10, 18, -1, -1) \<comment> \<open>IMM_SI9\<close>,
    (5, 6, -1, -1) \<comment> \<open>SCR_SJ\<close>,
    (10, 10, -1, -1) \<comment> \<open>IMM_UI1\<close>,
    (10, 21, -1, -1) \<comment> \<open>IMM_UI12\<close>,
    (10, 11, -1, -1) \<comment> \<open>IMM_UI2\<close>,
    (10, 12, -1, -1) \<comment> \<open>IMM_UI3\<close>,
    (10, 13, -1, -1) \<comment> \<open>IMM_UI4\<close>,
    (15, 19, -1, -1) \<comment> \<open>IMM_UI5H\<close>,
    (10, 14, -1, -1) \<comment> \<open>IMM_UI5L\<close>,
    (10, 15, -1, -1) \<comment> \<open>IMM_UI6\<close>,
    (10, 16, -1, -1) \<comment> \<open>IMM_UI7\<close>,
    (10, 17, -1, -1) \<comment> \<open>IMM_UI8\<close>,
    (15, 19, -1, -1) \<comment> \<open>FPR_VA\<close>,
    (0, 4, -1, -1) \<comment> \<open>FPR_VD\<close>,
    (5, 9, -1, -1) \<comment> \<open>FPR_VJ\<close>,
    (10, 14, -1, -1) \<comment> \<open>FPR_VK\<close>,
    (15, 19, -1, -1) \<comment> \<open>FPR_XA\<close>,
    (0, 4, -1, -1) \<comment> \<open>FPR_XD\<close>,
    (5, 9, -1, -1) \<comment> \<open>FPR_XJ\<close>,
    (10, 14, -1, -1) \<comment> \<open>FPR_XK\<close>]"

definition la_to_ir2_type :: "nat list" where
  "la_to_ir2_type = [
    IR2_OPND_NONE, IR2_OPND_CC, IR2_OPND_CC, IR2_OPND_CC, IR2_OPND_IMM, IR2_OPND_IMM,
    IR2_OPND_IMM, IR2_OPND_IMM, IR2_OPND_IMM, IR2_OPND_FPR, IR2_OPND_FCSR, IR2_OPND_FCSR,
    IR2_OPND_FPR, IR2_OPND_FPR, IR2_OPND_FPR, IR2_OPND_IMM, IR2_OPND_IMM, IR2_OPND_IMM,
    IR2_OPND_FPR, IR2_OPND_FPR, IR2_OPND_FPR, IR2_OPND_FPR, IR2_OPND_IMM, IR2_OPND_IMM,
    IR2_OPND_IMM, IR2_OPND_IMM, IR2_OPND_IMM, IR2_OPND_IMM, IR2_OPND_IMM, IR2_OPND_IMM,
    IR2_OPND_IMM, IR2_OPND_IMM, IR2_OPND_IMM, IR2_OPND_IMM, IR2_OPND_GPR, IR2_OPND_GPR,
    IR2_OPND_GPR, IR2_OPND_IMM, IR2_OPND_IMM, IR2_OPND_SCR, IR2_OPND_IMM, IR2_OPND_IMM,
    IR2_OPND_IMM, IR2_OPND_IMM, IR2_OPND_IMM, IR2_OPND_IMM, IR2_OPND_IMM, IR2_OPND_IMM,
    IR2_OPND_IMM, IR2_OPND_IMM, IR2_OPND_SCR, IR2_OPND_IMM, IR2_OPND_IMM, IR2_OPND_IMM,
    IR2_OPND_IMM, IR2_OPND_IMM, IR2_OPND_IMM, IR2_OPND_IMM, IR2_OPND_IMM, IR2_OPND_IMM,
    IR2_OPND_IMM, IR2_OPND_FPR, IR2_OPND_FPR, IR2_OPND_FPR, IR2_OPND_FPR, IR2_OPND_FPR,
    IR2_OPND_FPR, IR2_OPND_FPR, IR2_OPND_FPR]"

definition is_la_sign_opnd :: "bool list" where
  "is_la_sign_opnd = [
    False, False, False, False, False, False, False, False, False, False, False, False, False, False,
    False, False, False, True, False, False, False, False, False, False, False, False, False, False,
    True, True, True, False, False, False, False, False, False, False, False, False, False, True,
    True, True, True, True, True, True, True, True, False, False, False, False, False, False,
    False, False, False, False, False, False, False, False, False, False, False, False, False]"

datatype la_format = Fmt (fmt_type: ir2_opcode) (fmt_opcode: nat) (fmt_opnd: "nat list")

definition lisa_rows_2 :: "la_format list" where
  "lisa_rows_2 = [
    Fmt LISA_INVALID 0x00000000 [OPD_INVALID],
    Fmt LISA_LABEL 0x00000000 [OPD_INVALID],
    Fmt LISA_X86_INST 0x00000000 [OPD_INVALID],
    Fmt LISA_ACCL 0x00000000 [OPD_INVALID],
    Fmt LISA_ALIGN 0x00000000 [OPD_INVALID],
    Fmt LISA_FAR_JUMP 0x00000000 [OPD_INVALID],
    Fmt LISA_MOV64 0x00000000 [OPD_INVALID],
    Fmt LISA_MOV32_SX 0x00000000 [OPD_INVALID],
    Fmt LISA_MOV32_ZX 0x00000000 [OPD_INVALID],
    Fmt LISA_ADD 0x00000000 [OPD_INVALID],
    Fmt LISA_SUB 0x00000000 [OPD_INVALID],
    Fmt LISA_ADDI_ADDRX 0x00000000 [OPD_INVALID],
    Fmt LISA_LOAD_ADDRX 0x00000000 [OPD_INVALID],
    Fmt LISA_STORE_ADDRX 0x00000000 [OPD_INVALID],
    Fmt LISA_NOP 0x00000000 [OPD_INVALID],
    Fmt LISA_CODE 0x00000000 [OPD_INVALID],
    Fmt LISA_DATA_LI 0x00000000 [OPD_INVALID],
    Fmt LISA_DATA_ADD 0x00000000 [OPD_INVALID],
    Fmt LISA_INST_DIFF 0x00000000 [OPD_INVALID],
    Fmt LISA_DATA_ST 0x00000000 [OPD_INVALID],
    Fmt LISA_DATA_ST_REL_TABLE 0x00000000 [OPD_INVALID],
    Fmt LISA_PROFILE 0x00000000 [OPD_INVALID],
    Fmt LISA_PCADDI_RELOCATE 0x00000000 [OPD_INVALID],
    Fmt LISA_JUMP_EPILOGUE 0x00000000 [OPD_INVALID],
    Fmt LISA_PSEUDO_END 0x00000000 [OPD_INVALID],
    Fmt LISA_GR2SCR 0x00000800 [SCR_SD, GPR_RJ],
    Fmt LISA_SCR2GR 0x00000c00 [GPR_RD, SCR_SJ],
    Fmt LISA_CLO_W 0x00001000 [GPR_RD, GPR_RJ],
    Fmt LISA_CLZ_W 0x00001400 [GPR_RD, GPR_RJ],
    Fmt LISA_CTO_W 0x00001800 [GPR_RD, GPR_RJ],
    Fmt LISA_CTZ_W 0x00001c00 [GPR_RD, GPR_RJ],
    Fmt LISA_CLO_D 0x00002000 [GPR_RD, GPR_RJ],
    Fmt LISA_CLZ_D 0x00002400 [GPR_RD, GPR_RJ],
    Fmt LISA_CTO_D 0x00002800 [GPR_RD, GPR_RJ],
    Fmt LISA_CTZ_D 0x00002c00 [GPR_RD, GPR_RJ],
    Fmt LISA_REVB_2H 0x00003000 [GPR_RD, GPR_RJ],
    Fmt LISA_REVB_4H 0x00003400 [GPR_RD, GPR_RJ],
    Fmt LISA_REVB_2W 0x00003800 [GPR_RD, GPR_RJ],
    Fmt LISA_REVB_D 0x00003c00 [GPR_RD, GPR_RJ],
    Fmt LISA_REVH_2W 0x00004000 [GPR_RD, GPR_RJ],
    Fmt LISA_REVH_D 0x00004400 [GPR_RD, GPR_RJ],
    Fmt LISA_BITREV_4B 0x00004800 [GPR_RD, GPR_RJ],
    Fmt LISA_BITREV_8B 0x00004c00 [GPR_RD, GPR_RJ],
    Fmt LISA_BITREV_W 0x00005000 [GPR_RD, GPR_RJ],
    Fmt LISA_BITREV_D 0x00005400 [GPR_RD, GPR_RJ],
    Fmt LISA_EXT_W_H 0x00005800 [GPR_RD, GPR_RJ],
    Fmt LISA_EXT_W_B 0x00005c00 [GPR_RD, GPR_RJ],
    Fmt LISA_RDTIMEL_W 0x00006000 [GPR_RD, GPR_RJ],
    Fmt LISA_RDTIMEH_W 0x00006400 [GPR_RD, GPR_RJ],
    Fmt LISA_RDTIME_D 0x00006800 [GPR_RD, GPR_RJ],
    Fmt LISA_CPUCFG 0x00006c00 [GPR_RD, GPR_RJ],
    Fmt LISA_X86MTTOP 0x00007000 [IMM_PTR],
    Fmt LISA_X86MFTOP 0x00007400 [GPR_RD],
    Fmt LISA_X86LOOPE 0x00007800 [GPR_RD, GPR_RJ],
    Fmt LISA_X86LOOPNE 0x00007c00 [GPR_RD, GPR_RJ],
    Fmt LISA_X86INC_B 0x00008000 [GPR_RJ],
    Fmt LISA_X86INC_H 0x00008001 [GPR_RJ],
    Fmt LISA_X86INC_W 0x00008002 [GPR_RJ],
    Fmt LISA_X86INC_D 0x00008003 [GPR_RJ],
    Fmt LISA_X86DEC_B 0x00008004 [GPR_RJ],
    Fmt LISA_X86DEC_H 0x00008005 [GPR_RJ],
    Fmt LISA_X86DEC_W 0x00008006 [GPR_RJ],
    Fmt LISA_X86DEC_D 0x00008007 [GPR_RJ],
    Fmt LISA_X86SETTM 0x00008008 [],
    Fmt LISA_X86CLRTM 0x00008028 [],
    Fmt LISA_X86INCTOP 0x00008009 [],
    Fmt LISA_X86DECTOP 0x00008029 [],
    Fmt LISA_ASRTLE_D 0x00010000 [GPR_RJ, GPR_RK],
    Fmt LISA_ASRTGT_D 0x00018000 [GPR_RJ, GPR_RK],
    Fmt LISA_ALSL_W 0x00040000 [GPR_RD, GPR_RJ, GPR_RK, IMM_SA2],
    Fmt LISA_ALSL_WU 0x00060000 [GPR_RD, GPR_RJ, GPR_RK, IMM_SA2],
    Fmt LISA_BYTEPICK_W 0x00080000 [GPR_RD, GPR_RJ, GPR_RK, IMM_SA2],
    Fmt LISA_BYTEPICK_D 0x000c0000 [GPR_RD, GPR_RJ, GPR_RK, IMM_SA3],
    Fmt LISA_ADD_W 0x00100000 [GPR_RD, GPR_RJ, GPR_RK],
    Fmt LISA_ADD_D 0x00108000 [GPR_RD, GPR_RJ, GPR_RK],
    Fmt LISA_SUB_W 0x00110000 [GPR_RD, GPR_RJ, GPR_RK],
    Fmt LISA_SUB_D 0x00118000 [GPR_RD, GPR_RJ, GPR_RK],
    Fmt LISA_SLT 0x00120000 [GPR_RD, GPR_RJ, GPR_RK],
    Fmt LISA_SLTU 0x00128000 [GPR_RD, GPR_RJ, GPR_RK],
    Fmt LISA_MASKEQZ 0x00130000 [GPR_RD, GPR_RJ, GPR_RK],
    Fmt LISA_MASKNEZ 0x00138000 [GPR_RD, GPR_RJ, GPR_RK],
    Fmt LISA_NOR 0x00140000 [GPR_RD, GPR_RJ, GPR_RK],
    Fmt LISA_AND 0x00148000 [GPR_RD, GPR_RJ, GPR_RK],
    Fmt LISA_OR 0x00150000 [GPR_RD, GPR_RJ, GPR_RK],
    Fmt LISA_XOR 0x00158000 [GPR_RD, GPR_RJ, GPR_RK],
    Fmt LISA_ORN 0x00160000 [GPR_RD, GPR_RJ, GPR_RK],
    Fmt LISA_ANDN 0x00168000 [GPR_RD, GPR_RJ, GPR_RK],
    Fmt LISA_SLL_W 0x00170000 [GPR_RD, GPR_RJ, GPR_RK],
    Fmt LISA_SRL_W 0x00178000 [GPR_RD, GPR_RJ, GPR_RK],
    Fmt LISA_SRA_W 0x00180000 [GPR_RD, GPR_RJ, GPR_RK],
    Fmt LISA_SLL_D 0x00188000 [GPR_RD, GPR_RJ, GPR_RK],
    Fmt LISA_SRL_D 0x00190000 [GPR_RD, GPR_RJ, GPR_RK],
    Fmt LISA_SRA_D 0x00198000 [GPR_RD, GPR_RJ, GPR_RK],
    Fmt LISA_ROTR_B 0x001a0000 [GPR_RD, GPR_RJ, GPR_RK],
    Fmt LISA_ROTR_H 0x001a8000 [GPR_RD, GPR_RJ, GPR_RK],
    Fmt LISA_ROTR_W 0x001b0000 [GPR_RD, GPR_RJ, GPR_RK],
    Fmt LISA_ROTR_D 0x001b8000 [GPR_RD, GPR_RJ, GPR_RK],
    Fmt LISA_MUL_W 0x001c0000 [GPR_RD, GPR_RJ, GPR_RK],
    Fmt LISA_MULH_W 0x001c8000 [GPR_RD, GPR_RJ, GPR_RK],
    Fmt LISA_MULH_WU 0x001d0000 [GPR_RD, GPR_RJ, GPR_RK],
    Fmt LISA_MUL_D 0x001d8000 [GPR_RD, GPR_RJ, GPR_RK],
    Fmt LISA_MULH_D 0x001e0000 [GPR_RD, GPR_RJ, GPR_RK],
    Fmt LISA_MULH_DU 0x001e8000 [GPR_RD, GPR_RJ, GPR_RK],
    Fmt LISA_MULW_D_W 0x001f0000 [GPR_RD, GPR_RJ, GPR_RK],
    Fmt LISA_MULW_D_WU 0x001f8000 [GPR_RD, GPR_RJ, GPR_RK],
    Fmt LISA_DIV_W 0x00200000 [GPR_RD, GPR_RJ, GPR_RK],
    Fmt LISA_MOD_W 0x00208000 [GPR_RD, GPR_RJ, GPR_RK],
    Fmt LISA_DIV_WU 0x00210000 [GPR_RD, GPR_RJ, GPR_RK],
    Fmt LISA_MOD_WU 0x00218000 [GPR_RD, GPR_RJ, GPR_RK],
    Fmt LISA_DIV_D 0x00220000 [GPR_RD, GPR_RJ, GPR_RK],
    Fmt LISA_MOD_D 0x00228000 [GPR_RD, GPR_RJ, GPR_RK],
    Fmt LISA_DIV_DU 0x00230000 [GPR_RD, GPR_RJ, GPR_RK],
    Fmt LISA_MOD_DU 0x00238000 [GPR_RD, GPR_RJ, GPR_RK],
    Fmt LISA_CRC_W_B_W 0x00240000 [GPR_RD, GPR_RJ, GPR_RK],
    Fmt LISA_CRC_W_H_W 0x00248000 [GPR_RD, GPR_RJ, GPR_RK],
    Fmt LISA_CRC_W_W_W 0x00250000 [GPR_RD, GPR_RJ, GPR_RK],
    Fmt LISA_CRC_W_D_W 0x00258000 [GPR_RD, GPR_RJ, GPR_RK],
    Fmt LISA_CRCC_W_B_W 0x00260000 [GPR_RD, GPR_RJ, GPR_RK],
    Fmt LISA_CRCC_W_H_W 0x00268000 [GPR_RD, GPR_RJ, GPR_RK],
    Fmt LISA_CRCC_W_W_W 0x00270000 [GPR_RD, GPR_RJ, GPR_RK],
    Fmt LISA_CRCC_W_D_W 0x00278000 [GPR_RD, GPR_RJ, GPR_RK],
    Fmt LISA_ADDU12I_W 0x00290000 [GPR_RD, GPR_RJ, IMM_SI5],
    Fmt LISA_ADDU12I_D 0x00298000 [GPR_RD, GPR_RJ, IMM_SI5],
    Fmt LISA_BREAK 0x002a0000 [IMM_CODE],
    Fmt LISA_DBGCALL 0x002a8000 [IMM_CODE],
    Fmt LISA_SYSCALL 0x002b0000 [IMM_CODE],
    Fmt LISA_HYPCALL 0x002b8000 [IMM_CODE],
    Fmt LISA_ALSL_D 0x002c0000 [GPR_RD, GPR_RJ, GPR_RK, IMM_SA2],
    Fmt LISA_ADC_B 0x00300000 [GPR_RD, GPR_RJ, GPR_RK],
    Fmt LISA_ADC_H 0x00308000 [GPR_RD, GPR_RJ, GPR_RK],
    Fmt LISA_ADC_W 0x00310000 [GPR_RD, GPR_RJ, GPR_RK],
    Fmt LISA_ADC_D 0x00318000 [GPR_RD, GPR_RJ, GPR_RK],
    Fmt LISA_SBC_B 0x00320000 [GPR_RD, GPR_RJ, GPR_RK],
    Fmt LISA_SBC_H 0x00328000 [GPR_RD, GPR_RJ, GPR_RK],
    Fmt LISA_SBC_W 0x00330000 [GPR_RD, GPR_RJ, GPR_RK],
    Fmt LISA_SBC_D 0x00338000 [GPR_RD, GPR_RJ, GPR_RK],
    Fmt LISA_RCR_B 0x00340000 [GPR_RD, GPR_RJ, GPR_RK],
    Fmt LISA_RCR_H 0x00348000 [GPR_RD, GPR_RJ, GPR_RK],
    Fmt LISA_RCR_W 0x00350000 [GPR_RD, GPR_RJ, GPR_RK],
    Fmt LISA_RCR_D 0x00358000 [GPR_RD, GPR_RJ, GPR_RK],
    Fmt LISA_ARMMOVE 0x00364000 [GPR_RD, GPR_RJ, IMM_CONDH],
    Fmt LISA_SETX86J 0x00368000 [GPR_RD, IMM_CONDH],
    Fmt LISA_SETARMJ 0x0036c000 [GPR_RD, IMM_CONDH],
    Fmt LISA_ARMADD_W 0x00370010 [GPR_RJ, GPR_RK, IMM_CONDL],
    Fmt LISA_ARMSUB_W 0x00378010 [GPR_RJ, GPR_RK, IMM_CONDL],
    Fmt LISA_ARMADC_W 0x00380010 [GPR_RJ, GPR_RK, IMM_CONDL],
    Fmt LISA_ARMSBC_W 0x00388010 [GPR_RJ, GPR_RK, IMM_CONDL],
    Fmt LISA_ARMAND_W 0x00390010 [GPR_RJ, GPR_RK, IMM_CONDL],
    Fmt LISA_ARMOR_W 0x00398010 [GPR_RJ, GPR_RK, IMM_CONDL],
    Fmt LISA_ARMXOR_W 0x003a0010 [GPR_RJ, GPR_RK, IMM_CONDL],
    Fmt LISA_ARMSLL_W 0x003a8010 [GPR_RJ, GPR_RK, IMM_CONDL],
    Fmt LISA_ARMSRL_W 0x003b0010 [GPR_RJ, GPR_RK, IMM_CONDL],
    Fmt LISA_ARMSRA_W 0x003b8010 [GPR_RJ, GPR_RK, IMM_CONDL],
    Fmt LISA_ARMROTR_W 0x003c0010 [GPR_RJ, GPR_RK, IMM_CONDL],
    Fmt LISA_ARMSLLI_W 0x003c8010 [GPR_RJ, IMM_UI5L, IMM_CONDL],
    Fmt LISA_ARMSRLI_W 0x003d0010 [GPR_RJ, IMM_UI5L, IMM_CONDL],
    Fmt LISA_ARMSRAI_W 0x003d8010 [GPR_RJ, IMM_UI5L, IMM_CONDL],
    Fmt LISA_ARMROTRI_W 0x003e0010 [GPR_RJ, IMM_UI5L, IMM_CONDL],
    Fmt LISA_X86MUL_B 0x003e8000 [GPR_RJ, GPR_RK],
    Fmt LISA_X86MUL_H 0x003e8001 [GPR_RJ, GPR_RK],
    Fmt LISA_X86MUL_W 0x003e8002 [GPR_RJ, GPR_RK],
    Fmt LISA_X86MUL_D 0x003e8003 [GPR_RJ, GPR_RK],
    Fmt LISA_X86MUL_BU 0x003e8004 [GPR_RJ, GPR_RK],
    Fmt LISA_X86MUL_HU 0x003e8005 [GPR_RJ, GPR_RK],
    Fmt LISA_X86MUL_WU 0x003e8006 [GPR_RJ, GPR_RK],
    Fmt LISA_X86MUL_DU 0x003e8007 [GPR_RJ, GPR_RK],
    Fmt LISA_X86ADD_WU 0x003f0000 [GPR_RJ, GPR_RK],
    Fmt LISA_X86ADD_DU 0x003f0001 [GPR_RJ, GPR_RK],
    Fmt LISA_X86SUB_WU 0x003f0002 [GPR_RJ, GPR_RK],
    Fmt LISA_X86SUB_DU 0x003f0003 [GPR_RJ, GPR_RK],
    Fmt LISA_X86ADD_B 0x003f0004 [GPR_RJ, GPR_RK],
    Fmt LISA_X86ADD_H 0x003f0005 [GPR_RJ, GPR_RK],
    Fmt LISA_X86ADD_W 0x003f0006 [GPR_RJ, GPR_RK],
    Fmt LISA_X86ADD_D 0x003f0007 [GPR_RJ, GPR_RK],
    Fmt LISA_X86SUB_B 0x003f0008 [GPR_RJ, GPR_RK],
    Fmt LISA_X86SUB_H 0x003f0009 [GPR_RJ, GPR_RK],
    Fmt LISA_X86SUB_W 0x003f000a [GPR_RJ, GPR_RK],
    Fmt LISA_X86SUB_D 0x003f000b [GPR_RJ, GPR_RK],
    Fmt LISA_X86ADC_B 0x003f000c [GPR_RJ, GPR_RK],
    Fmt LISA_X86ADC_H 0x003f000d [GPR_RJ, GPR_RK],
    Fmt LISA_X86ADC_W 0x003f000e [GPR_RJ, GPR_RK],
    Fmt LISA_X86ADC_D 0x003f000f [GPR_RJ, GPR_RK],
    Fmt LISA_X86SBC_B 0x003f0010 [GPR_RJ, GPR_RK],
    Fmt LISA_X86SBC_H 0x003f0011 [GPR_RJ, GPR_RK],
    Fmt LISA_X86SBC_W 0x003f0012 [GPR_RJ, GPR_RK],
    Fmt LISA_X86SBC_D 0x003f0013 [GPR_RJ, GPR_RK],
    Fmt LISA_X86SLL_B 0x003f0014 [GPR_RJ, GPR_RK],
    Fmt LISA_X86SLL_H 0x003f0015 [GPR_RJ, GPR_RK],
    Fmt LISA_X86SLL_W 0x003f0016 [GPR_RJ, GPR_RK],
    Fmt LISA_X86SLL_D 0x003f0017 [GPR_RJ, GPR_RK],
    Fmt LISA_X86SRL_B 0x003f0018 [GPR_RJ, GPR_RK],
    Fmt LISA_X86SRL_H 0x003f0019 [GPR_RJ, GPR_RK],
    Fmt LISA_X86SRL_W 0x003f001a [GPR_RJ, GPR_RK],
    Fmt LISA_X86SRL_D 0x003f001b [GPR_RJ, GPR_RK],
    Fmt LISA_X86SRA_B 0x003f001c [GPR_RJ, GPR_RK],
    Fmt LISA_X86SRA_H 0x003f001d [GPR_RJ, GPR_RK],
    Fmt LISA_X86SRA_W 0x003f001e [GPR_RJ, GPR_RK],
    Fmt LISA_X86SRA_D 0x003f001f [GPR_RJ, GPR_RK],
    Fmt LISA_X86ROTR_B 0x003f8000 [GPR_RJ, GPR_RK],
    Fmt LISA_X86ROTR_H 0x003f8001 [GPR_RJ, GPR_RK],
    Fmt LISA_X86ROTR_D 0x003f8002 [GPR_RJ, GPR_RK],
    Fmt LISA_X86ROTR_W 0x003f8003 [GPR_RJ, GPR_RK],
    Fmt LISA_X86ROTL_B 0x003f8004 [GPR_RJ, GPR_RK],
    Fmt LISA_X86ROTL_H 0x003f8005 [GPR_RJ, GPR_RK],
    Fmt LISA_X86ROTL_W 0x003f8006 [GPR_RJ, GPR_RK],
    Fmt LISA_X86ROTL_D 0x003f8007 [GPR_RJ, GPR_RK],
    Fmt LISA_X86RCR_B 0x003f8008 [GPR_RJ, GPR_RK],
    Fmt LISA_X86RCR_H 0x003f8009 [GPR_RJ, GPR_RK],
    Fmt LISA_X86RCR_W 0x003f800a [GPR_RJ, GPR_RK],
    Fmt LISA_X86RCR_D 0x003f800b [GPR_RJ, GPR_RK],
    Fmt LISA_X86RCL_B 0x003f800c [GPR_RJ, GPR_RK],
    Fmt LISA_X86RCL_H 0x003f800d [GPR_RJ, GPR_RK],
    Fmt LISA_X86RCL_W 0x003f800e [GPR_RJ, GPR_RK],
    Fmt LISA_X86RCL_D 0x003f800f [GPR_RJ, GPR_RK],
    Fmt LISA_X86AND_B 0x003f8010 [GPR_RJ, GPR_RK],
    Fmt LISA_X86AND_H 0x003f8011 [GPR_RJ, GPR_RK],
    Fmt LISA_X86AND_W 0x003f8012 [GPR_RJ, GPR_RK],
    Fmt LISA_X86AND_D 0x003f8013 [GPR_RJ, GPR_RK],
    Fmt LISA_X86OR_B 0x003f8014 [GPR_RJ, GPR_RK],
    Fmt LISA_X86OR_H 0x003f8015 [GPR_RJ, GPR_RK],
    Fmt LISA_X86OR_W 0x003f8016 [GPR_RJ, GPR_RK],
    Fmt LISA_X86OR_D 0x003f8017 [GPR_RJ, GPR_RK],
    Fmt LISA_X86XOR_B 0x003f8018 [GPR_RJ, GPR_RK],
    Fmt LISA_X86XOR_H 0x003f8019 [GPR_RJ, GPR_RK],
    Fmt LISA_X86XOR_W 0x003f801a [GPR_RJ, GPR_RK],
    Fmt LISA_X86XOR_D 0x003f801b [GPR_RJ, GPR_RK],
    Fmt LISA_ARMNOT_W 0x003fc01c [GPR_RJ, IMM_CONDH],
    Fmt LISA_ARMMOV_W 0x003fc01d [GPR_RJ, IMM_CONDH],
    Fmt LISA_ARMMOV_D 0x003fc01e [GPR_RJ, IMM_CONDH],
    Fmt LISA_ARMRRX_W 0x003fc01f [GPR_RJ, IMM_CONDH],
    Fmt LISA_SLLI_W 0x00408000 [GPR_RD, GPR_RJ, IMM_UI5L],
    Fmt LISA_SLLI_D 0x00410000 [GPR_RD, GPR_RJ, IMM_UI6],
    Fmt LISA_SRLI_W 0x00448000 [GPR_RD, GPR_RJ, IMM_UI5L],
    Fmt LISA_SRLI_D 0x00450000 [GPR_RD, GPR_RJ, IMM_UI6],
    Fmt LISA_SRAI_W 0x00488000 [GPR_RD, GPR_RJ, IMM_UI5L],
    Fmt LISA_SRAI_D 0x00490000 [GPR_RD, GPR_RJ, IMM_UI6],
    Fmt LISA_ROTRI_B 0x004c2000 [GPR_RD, GPR_RJ, IMM_UI3],
    Fmt LISA_ROTRI_H 0x004c4000 [GPR_RD, GPR_RJ, IMM_UI4],
    Fmt LISA_ROTRI_W 0x004c8000 [GPR_RD, GPR_RJ, IMM_UI5L],
    Fmt LISA_ROTRI_D 0x004d0000 [GPR_RD, GPR_RJ, IMM_UI6],
    Fmt LISA_RCRI_B 0x00502000 [GPR_RD, GPR_RJ, IMM_UI3],
    Fmt LISA_RCRI_H 0x00504000 [GPR_RD, GPR_RJ, IMM_UI4],
    Fmt LISA_RCRI_W 0x00508000 [GPR_RD, GPR_RJ, IMM_UI5L],
    Fmt LISA_RCRI_D 0x00510000 [GPR_RD, GPR_RJ, IMM_UI6],
    Fmt LISA_X86SLLI_B 0x00542000 [GPR_RJ, IMM_UI3],
    Fmt LISA_X86SLLI_H 0x00544001 [GPR_RJ, IMM_UI4],
    Fmt LISA_X86SLLI_W 0x00548002 [GPR_RJ, IMM_UI5L]]"

definition lisa_rows_1799 :: "la_format list" where
  "lisa_rows_1799 = [
    Fmt LISA_X86SLLI_D 0x00550003 [GPR_RJ, IMM_UI6],
    Fmt LISA_X86SRLI_B 0x00542004 [GPR_RJ, IMM_UI3],
    Fmt LISA_X86SRLI_H 0x00544005 [GPR_RJ, IMM_UI4],
    Fmt LISA_X86SRLI_W 0x00548006 [GPR_RJ, IMM_UI5L],
    Fmt LISA_X86SRLI_D 0x00550007 [GPR_RJ, IMM_UI6],
    Fmt LISA_X86SRAI_B 0x00542008 [GPR_RJ, IMM_UI3],
    Fmt LISA_X86SRAI_H 0x00544009 [GPR_RJ, IMM_UI4],
    Fmt LISA_X86SRAI_W 0x0054800a [GPR_RJ, IMM_UI5L],
    Fmt LISA_X86SRAI_D 0x0055000b [GPR_RJ, IMM_UI6],
    Fmt LISA_X86ROTRI_B 0x0054200c [GPR_RJ, IMM_UI3],
    Fmt LISA_X86ROTRI_H 0x0054400d [GPR_RJ, IMM_UI4],
    Fmt LISA_X86ROTRI_W 0x0054800e [GPR_RJ, IMM_UI5L],
    Fmt LISA_X86ROTRI_D 0x0055000f [GPR_RJ, IMM_UI6],
    Fmt LISA_X86RCRI_B 0x00542010 [GPR_RJ, IMM_UI3],
    Fmt LISA_X86RCRI_H 0x00544011 [GPR_RJ, IMM_UI4],
    Fmt LISA_X86RCRI_W 0x00548012 [GPR_RJ, IMM_UI5L],
    Fmt LISA_X86RCRI_D 0x00550013 [GPR_RJ, IMM_UI6],
    Fmt LISA_X86ROTLI_B 0x00542014 [GPR_RJ, IMM_UI3],
    Fmt LISA_X86ROTLI_H 0x00544015 [GPR_RJ, IMM_UI4],
    Fmt LISA_X86ROTLI_W 0x00548016 [GPR_RJ, IMM_UI5L],
    Fmt LISA_X86ROTLI_D 0x00550017 [GPR_RJ, IMM_UI6],
    Fmt LISA_X86RCLI_B 0x00542018 [GPR_RJ, IMM_UI3],
    Fmt LISA_X86RCLI_H 0x00544019 [GPR_RJ, IMM_UI4],
    Fmt LISA_X86RCLI_W 0x0054801a [GPR_RJ, IMM_UI5L],
    Fmt LISA_X86RCLI_D 0x0055001b [GPR_RJ, IMM_UI6],
    Fmt LISA_X86SETTAG 0x00580000 [GPR_RD, IMM_OPX86, IMM_UI8],
    Fmt LISA_X86MFFLAG 0x005c0000 [GPR_RD, IMM_UI8],
    Fmt LISA_X86MTFLAG 0x005c0020 [GPR_RD, IMM_UI8],
    Fmt LISA_ARMMFFLAG 0x005c0040 [GPR_RD, IMM_UI8],
    Fmt LISA_ARMMTFLAG 0x005c0060 [GPR_RD, IMM_UI8],
    Fmt LISA_BSTRINS_W 0x00600000 [GPR_RD, GPR_RJ, IMM_MSBW, IMM_LSBW],
    Fmt LISA_BSTRPICK_W 0x00608000 [GPR_RD, GPR_RJ, IMM_MSBW, IMM_LSBW],
    Fmt LISA_BSTRINS_D 0x00800000 [GPR_RD, GPR_RJ, IMM_MSBD, IMM_LSBD],
    Fmt LISA_BSTRPICK_D 0x00c00000 [GPR_RD, GPR_RJ, IMM_MSBD, IMM_LSBD],
    Fmt LISA_SLTI 0x02000000 [GPR_RD, GPR_RJ, IMM_SI12],
    Fmt LISA_SLTUI 0x02400000 [GPR_RD, GPR_RJ, IMM_SI12],
    Fmt LISA_ADDI_W 0x02800000 [GPR_RD, GPR_RJ, IMM_SI12],
    Fmt LISA_ADDI_D 0x02c00000 [GPR_RD, GPR_RJ, IMM_SI12],
    Fmt LISA_LU52I_D 0x03000000 [GPR_RD, GPR_RJ, IMM_SI12],
    Fmt LISA_ANDI 0x03400000 [GPR_RD, GPR_RJ, IMM_UI12],
    Fmt LISA_ORI 0x03800000 [GPR_RD, GPR_RJ, IMM_UI12],
    Fmt LISA_XORI 0x03c00000 [GPR_RD, GPR_RJ, IMM_UI12],
    Fmt LISA_ADDU16I_D 0x10000000 [GPR_RD, GPR_RJ, IMM_SI16],
    Fmt LISA_LU12I_W 0x14000000 [GPR_RD, IMM_SI20],
    Fmt LISA_LU32I_D 0x16000000 [GPR_RD, IMM_SI20],
    Fmt LISA_PCADDI 0x18000000 [GPR_RD, IMM_SI20],
    Fmt LISA_PCALAU12I 0x1a000000 [GPR_RD, IMM_SI20],
    Fmt LISA_PCADDU12I 0x1c000000 [GPR_RD, IMM_SI20],
    Fmt LISA_PCADDU18I 0x1e000000 [GPR_RD, IMM_SI20],
    Fmt LISA_LLACQ_W 0x38578000 [GPR_RD, GPR_RJ],
    Fmt LISA_SCREL_W 0x38578400 [GPR_RD, GPR_RJ],
    Fmt LISA_LLACQ_D 0x38578800 [GPR_RD, GPR_RJ],
    Fmt LISA_SCREL_D 0x38578c00 [GPR_RD, GPR_RJ],
    Fmt LISA_LL_W 0x20000000 [GPR_RD, GPR_RJ, IMM_SI14],
    Fmt LISA_SC_W 0x21000000 [GPR_RD, GPR_RJ, IMM_SI14],
    Fmt LISA_LL_D 0x22000000 [GPR_RD, GPR_RJ, IMM_SI14],
    Fmt LISA_SC_D 0x23000000 [GPR_RD, GPR_RJ, IMM_SI14],
    Fmt LISA_SC_Q 0x38570000 [GPR_RD, GPR_RK, GPR_RJ],
    Fmt LISA_LDPTR_W 0x24000000 [GPR_RD, GPR_RJ, IMM_SI14],
    Fmt LISA_STPTR_W 0x25000000 [GPR_RD, GPR_RJ, IMM_SI14],
    Fmt LISA_LDPTR_D 0x26000000 [GPR_RD, GPR_RJ, IMM_SI14],
    Fmt LISA_STPTR_D 0x27000000 [GPR_RD, GPR_RJ, IMM_SI14],
    Fmt LISA_LD_B 0x28000000 [GPR_RD, GPR_RJ, IMM_SI12],
    Fmt LISA_LD_H 0x28400000 [GPR_RD, GPR_RJ, IMM_SI12],
    Fmt LISA_LD_W 0x28800000 [GPR_RD, GPR_RJ, IMM_SI12],
    Fmt LISA_LD_D 0x28c00000 [GPR_RD, GPR_RJ, IMM_SI12],
    Fmt LISA_ST_B 0x29000000 [GPR_RD, GPR_RJ, IMM_SI12],
    Fmt LISA_ST_H 0x29400000 [GPR_RD, GPR_RJ, IMM_SI12],
    Fmt LISA_ST_W 0x29800000 [GPR_RD, GPR_RJ, IMM_SI12],
    Fmt LISA_ST_D 0x29c00000 [GPR_RD, GPR_RJ, IMM_SI12],
    Fmt LISA_LD_BU 0x2a000000 [GPR_RD, GPR_RJ, IMM_SI12],
    Fmt LISA_LD_HU 0x2a400000 [GPR_RD, GPR_RJ, IMM_SI12],
    Fmt LISA_LD_WU 0x2a800000 [GPR_RD, GPR_RJ, IMM_SI12],
    Fmt LISA_PRELD 0x2ac00000 [IMM_HINTS, GPR_RJ, IMM_SI12],
    Fmt LISA_FLD_S 0x2b000000 [FPR_FD, GPR_RJ, IMM_SI12],
    Fmt LISA_FST_S 0x2b400000 [FPR_FD, GPR_RJ, IMM_SI12],
    Fmt LISA_FLD_D 0x2b800000 [FPR_FD, GPR_RJ, IMM_SI12],
    Fmt LISA_FST_D 0x2bc00000 [FPR_FD, GPR_RJ, IMM_SI12],
    Fmt LISA_VLD 0x2c000000 [FPR_VD, GPR_RJ, IMM_SI12],
    Fmt LISA_VST 0x2c400000 [FPR_VD, GPR_RJ, IMM_SI12],
    Fmt LISA_XVLD 0x2c800000 [FPR_XD, GPR_RJ, IMM_SI12],
    Fmt LISA_XVST 0x2cc00000 [FPR_XD, GPR_RJ, IMM_SI12],
    Fmt LISA_LDL_W 0x2e000000 [GPR_RD, GPR_RJ, IMM_SI12],
    Fmt LISA_LDR_W 0x2e400000 [GPR_RD, GPR_RJ, IMM_SI12],
    Fmt LISA_LDL_D 0x2e800000 [GPR_RD, GPR_RJ, IMM_SI12],
    Fmt LISA_LDR_D 0x2ec00000 [GPR_RD, GPR_RJ, IMM_SI12],
    Fmt LISA_STL_W 0x2f000000 [GPR_RD, GPR_RJ, IMM_SI12],
    Fmt LISA_STR_W 0x2f400000 [GPR_RD, GPR_RJ, IMM_SI12],
    Fmt LISA_STL_D 0x2f800000 [GPR_RD, GPR_RJ, IMM_SI12],
    Fmt LISA_STR_D 0x2fc00000 [GPR_RD, GPR_RJ, IMM_SI12],
    Fmt LISA_VLDREPL_D 0x30100000 [FPR_VD, GPR_RJ, IMM_SI9],
    Fmt LISA_VLDREPL_W 0x30200000 [FPR_VD, GPR_RJ, IMM_SI10],
    Fmt LISA_VLDREPL_H 0x30400000 [FPR_VD, GPR_RJ, IMM_SI11],
    Fmt LISA_VLDREPL_B 0x30800000 [FPR_VD, GPR_RJ, IMM_SI12],
    Fmt LISA_VSTELM_D 0x31100000 [FPR_VD, GPR_RJ, IMM_SI8, IMM_IDXS],
    Fmt LISA_VSTELM_W 0x31200000 [FPR_VD, GPR_RJ, IMM_SI8, IMM_IDXM],
    Fmt LISA_VSTELM_H 0x31400000 [FPR_VD, GPR_RJ, IMM_SI8, IMM_IDXL],
    Fmt LISA_VSTELM_B 0x31800000 [FPR_VD, GPR_RJ, IMM_SI8, IMM_IDXLL],
    Fmt LISA_XVLDREPL_D 0x32100000 [FPR_XD, GPR_RJ, IMM_SI9],
    Fmt LISA_XVLDREPL_W 0x32200000 [FPR_XD, GPR_RJ, IMM_SI10],
    Fmt LISA_XVLDREPL_H 0x32400000 [FPR_XD, GPR_RJ, IMM_SI11],
    Fmt LISA_XVLDREPL_B 0x32800000 [FPR_XD, GPR_RJ, IMM_SI12],
    Fmt LISA_XVSTELM_D 0x33100000 [FPR_XD, GPR_RJ, IMM_SI8, IMM_IDXS],
    Fmt LISA_XVSTELM_W 0x33200000 [FPR_XD, GPR_RJ, IMM_SI8, IMM_IDXM],
    Fmt LISA_XVSTELM_H 0x33400000 [FPR_XD, GPR_RJ, IMM_SI8, IMM_IDXL],
    Fmt LISA_XVSTELM_B 0x33800000 [FPR_XD, GPR_RJ, IMM_SI8, IMM_IDXLL],
    Fmt LISA_LDX_B 0x38000000 [GPR_RD, GPR_RJ, GPR_RK],
    Fmt LISA_LDX_H 0x38040000 [GPR_RD, GPR_RJ, GPR_RK],
    Fmt LISA_LDX_W 0x38080000 [GPR_RD, GPR_RJ, GPR_RK],
    Fmt LISA_LDX_D 0x380c0000 [GPR_RD, GPR_RJ, GPR_RK],
    Fmt LISA_STX_B 0x38100000 [GPR_RD, GPR_RJ, GPR_RK],
    Fmt LISA_STX_H 0x38140000 [GPR_RD, GPR_RJ, GPR_RK],
    Fmt LISA_STX_W 0x38180000 [GPR_RD, GPR_RJ, GPR_RK],
    Fmt LISA_STX_D 0x381c0000 [GPR_RD, GPR_RJ, GPR_RK],
    Fmt LISA_LDX_BU 0x38200000 [GPR_RD, GPR_RJ, GPR_RK],
    Fmt LISA_LDX_HU 0x38240000 [GPR_RD, GPR_RJ, GPR_RK],
    Fmt LISA_LDX_WU 0x38280000 [GPR_RD, GPR_RJ, GPR_RK],
    Fmt LISA_PRELDX 0x382c0000 [IMM_HINTS, GPR_RJ, GPR_RK],
    Fmt LISA_FLDX_S 0x38300000 [FPR_FD, GPR_RJ, GPR_RK],
    Fmt LISA_FLDX_D 0x38340000 [FPR_FD, GPR_RJ, GPR_RK],
    Fmt LISA_FSTX_S 0x38380000 [FPR_FD, GPR_RJ, GPR_RK],
    Fmt LISA_FSTX_D 0x383c0000 [FPR_FD, GPR_RJ, GPR_RK],
    Fmt LISA_VLDX 0x38400000 [FPR_VD, GPR_RJ, GPR_RK],
    Fmt LISA_VSTX 0x38440000 [FPR_VD, GPR_RJ, GPR_RK],
    Fmt LISA_XVLDX 0x38480000 [FPR_XD, GPR_RJ, GPR_RK],
    Fmt LISA_XVSTX 0x384c0000 [FPR_XD, GPR_RJ, GPR_RK],
    Fmt LISA_AMCAS_B 0x38580000 [GPR_RD, GPR_RK, GPR_RJ],
    Fmt LISA_AMCAS_H 0x38588000 [GPR_RD, GPR_RK, GPR_RJ],
    Fmt LISA_AMCAS_W 0x38590000 [GPR_RD, GPR_RK, GPR_RJ],
    Fmt LISA_AMCAS_D 0x38598000 [GPR_RD, GPR_RK, GPR_RJ],
    Fmt LISA_AMCAS_DB_B 0x385a0000 [GPR_RD, GPR_RK, GPR_RJ],
    Fmt LISA_AMCAS_DB_H 0x385a8000 [GPR_RD, GPR_RK, GPR_RJ],
    Fmt LISA_AMCAS_DB_W 0x385b0000 [GPR_RD, GPR_RK, GPR_RJ],
    Fmt LISA_AMCAS_DB_D 0x385b8000 [GPR_RD, GPR_RK, GPR_RJ],
    Fmt LISA_AMSWAP_B 0x385c0000 [GPR_RD, GPR_RK, GPR_RJ],
    Fmt LISA_AMSWAP_H 0x385c8000 [GPR_RD, GPR_RK, GPR_RJ],
    Fmt LISA_AMSWAP_W 0x38600000 [GPR_RD, GPR_RK, GPR_RJ],
    Fmt LISA_AMSWAP_D 0x38608000 [GPR_RD, GPR_RK, GPR_RJ],
    Fmt LISA_AMADD_B 0x385d0000 [GPR_RD, GPR_RK, GPR_RJ],
    Fmt LISA_AMADD_H 0x385d8000 [GPR_RD, GPR_RK, GPR_RJ],
    Fmt LISA_AMADD_W 0x38610000 [GPR_RD, GPR_RK, GPR_RJ],
    Fmt LISA_AMADD_D 0x38618000 [GPR_RD, GPR_RK, GPR_RJ],
    Fmt LISA_AMAND_W 0x38620000 [GPR_RD, GPR_RK, GPR_RJ],
    Fmt LISA_AMAND_D 0x38628000 [GPR_RD, GPR_RK, GPR_RJ],
    Fmt LISA_AMOR_W 0x38630000 [GPR_RD, GPR_RK, GPR_RJ],
    Fmt LISA_AMOR_D 0x38638000 [GPR_RD, GPR_RK, GPR_RJ],
    Fmt LISA_AMXOR_W 0x38640000 [GPR_RD, GPR_RK, GPR_RJ],
    Fmt LISA_AMXOR_D 0x38648000 [GPR_RD, GPR_RK, GPR_RJ],
    Fmt LISA_AMMAX_W 0x38650000 [GPR_RD, GPR_RK, GPR_RJ],
    Fmt LISA_AMMAX_D 0x38658000 [GPR_RD, GPR_RK, GPR_RJ],
    Fmt LISA_AMMIN_W 0x38660000 [GPR_RD, GPR_RK, GPR_RJ],
    Fmt LISA_AMMIN_D 0x38668000 [GPR_RD, GPR_RK, GPR_RJ],
    Fmt LISA_AMMAX_WU 0x38670000 [GPR_RD, GPR_RK, GPR_RJ],
    Fmt LISA_AMMAX_DU 0x38678000 [GPR_RD, GPR_RK, GPR_RJ],
    Fmt LISA_AMMIN_WU 0x38680000 [GPR_RD, GPR_RK, GPR_RJ],
    Fmt LISA_AMMIN_DU 0x38688000 [GPR_RD, GPR_RK, GPR_RJ],
    Fmt LISA_AMSWAP_DB_B 0x385e0000 [GPR_RD, GPR_RK, GPR_RJ],
    Fmt LISA_AMSWAP_DB_H 0x385e8000 [GPR_RD, GPR_RK, GPR_RJ],
    Fmt LISA_AMSWAP_DB_W 0x38690000 [GPR_RD, GPR_RK, GPR_RJ],
    Fmt LISA_AMSWAP_DB_D 0x38698000 [GPR_RD, GPR_RK, GPR_RJ],
    Fmt LISA_AMADD_DB_B 0x385f0000 [GPR_RD, GPR_RK, GPR_RJ],
    Fmt LISA_AMADD_DB_H 0x385f8000 [GPR_RD, GPR_RK, GPR_RJ],
    Fmt LISA_AMADD_DB_W 0x386a0000 [GPR_RD, GPR_RK, GPR_RJ],
    Fmt LISA_AMADD_DB_D 0x386a8000 [GPR_RD, GPR_RK, GPR_RJ],
    Fmt LISA_AMAND_DB_W 0x386b0000 [GPR_RD, GPR_RK, GPR_RJ],
    Fmt LISA_AMAND_DB_D 0x386b8000 [GPR_RD, GPR_RK, GPR_RJ],
    Fmt LISA_AMOR_DB_W 0x386c0000 [GPR_RD, GPR_RK, GPR_RJ],
    Fmt LISA_AMOR_DB_D 0x386c8000 [GPR_RD, GPR_RK, GPR_RJ],
    Fmt LISA_AMXOR_DB_W 0x386d0000 [GPR_RD, GPR_RK, GPR_RJ],
    Fmt LISA_AMXOR_DB_D 0x386d8000 [GPR_RD, GPR_RK, GPR_RJ],
    Fmt LISA_AMMAX_DB_W 0x386e0000 [GPR_RD, GPR_RK, GPR_RJ],
    Fmt LISA_AMMAX_DB_D 0x386e8000 [GPR_RD, GPR_RK, GPR_RJ],
    Fmt LISA_AMMIN_DB_W 0x386f0000 [GPR_RD, GPR_RK, GPR_RJ],
    Fmt LISA_AMMIN_DB_D 0x386f8000 [GPR_RD, GPR_RK, GPR_RJ],
    Fmt LISA_AMMAX_DB_WU 0x38700000 [GPR_RD, GPR_RK, GPR_RJ],
    Fmt LISA_AMMAX_DB_DU 0x38708000 [GPR_RD, GPR_RK, GPR_RJ],
    Fmt LISA_AMMIN_DB_WU 0x38710000 [GPR_RD, GPR_RK, GPR_RJ],
    Fmt LISA_AMMIN_DB_DU 0x38718000 [GPR_RD, GPR_RK, GPR_RJ],
    Fmt LISA_DBAR 0x38720000 [IMM_HINTL],
    Fmt LISA_IBAR 0x38728000 [IMM_HINTL],
    Fmt LISA_FLDGT_S 0x38740000 [FPR_FD, GPR_RJ, GPR_RK],
    Fmt LISA_FLDGT_D 0x38748000 [FPR_FD, GPR_RJ, GPR_RK],
    Fmt LISA_FLDLE_S 0x38750000 [FPR_FD, GPR_RJ, GPR_RK],
    Fmt LISA_FLDLE_D 0x38758000 [FPR_FD, GPR_RJ, GPR_RK],
    Fmt LISA_FSTGT_S 0x38760000 [FPR_FD, GPR_RJ, GPR_RK],
    Fmt LISA_FSTGT_D 0x38768000 [FPR_FD, GPR_RJ, GPR_RK],
    Fmt LISA_FSTLE_S 0x38770000 [FPR_FD, GPR_RJ, GPR_RK],
    Fmt LISA_FSTLE_D 0x38778000 [FPR_FD, GPR_RJ, GPR_RK],
    Fmt LISA_LDGT_B 0x38780000 [GPR_RD, GPR_RJ, GPR_RK],
    Fmt LISA_LDGT_H 0x38788000 [GPR_RD, GPR_RJ, GPR_RK],
    Fmt LISA_LDGT_W 0x38790000 [GPR_RD, GPR_RJ, GPR_RK],
    Fmt LISA_LDGT_D 0x38798000 [GPR_RD, GPR_RJ, GPR_RK],
    Fmt LISA_LDLE_B 0x387a0000 [GPR_RD, GPR_RJ, GPR_RK],
    Fmt LISA_LDLE_H 0x387a8000 [GPR_RD, GPR_RJ, GPR_RK],
    Fmt LISA_LDLE_W 0x387b0000 [GPR_RD, GPR_RJ, GPR_RK],
    Fmt LISA_LDLE_D 0x387b8000 [GPR_RD, GPR_RJ, GPR_RK],
    Fmt LISA_STGT_B 0x387c0000 [GPR_RD, GPR_RJ, GPR_RK],
    Fmt LISA_STGT_H 0x387c8000 [GPR_RD, GPR_RJ, GPR_RK],
    Fmt LISA_STGT_W 0x387d0000 [GPR_RD, GPR_RJ, GPR_RK],
    Fmt LISA_STGT_D 0x387d8000 [GPR_RD, GPR_RJ, GPR_RK],
    Fmt LISA_STLE_B 0x387e0000 [GPR_RD, GPR_RJ, GPR_RK],
    Fmt LISA_STLE_H 0x387e8000 [GPR_RD, GPR_RJ, GPR_RK],
    Fmt LISA_STLE_W 0x387f0000 [GPR_RD, GPR_RJ, GPR_RK],
    Fmt LISA_STLE_D 0x387f8000 [GPR_RD, GPR_RJ, GPR_RK],
    Fmt LISA_BEQZ 0x40000000 [GPR_RJ, IMM_OFFL],
    Fmt LISA_BNEZ 0x44000000 [GPR_RJ, IMM_OFFL],
    Fmt LISA_BCEQZ 0x48000000 [FCC_CJ, IMM_OFFL],
    Fmt LISA_BCNEZ 0x48000100 [FCC_CJ, IMM_OFFL],
    Fmt LISA_JISCR0 0x48000200 [IMM_OFFL],
    Fmt LISA_JISCR1 0x48000300 [IMM_OFFL],
    Fmt LISA_JIRL 0x4c000000 [GPR_RD, GPR_RJ, IMM_OFFS],
    Fmt LISA_B 0x50000000 [IMM_OFFLL],
    Fmt LISA_BL 0x54000000 [IMM_OFFLL],
    Fmt LISA_BEQ 0x58000000 [GPR_RJ, GPR_RD, IMM_OFFS],
    Fmt LISA_BNE 0x5c000000 [GPR_RJ, GPR_RD, IMM_OFFS],
    Fmt LISA_BLT 0x60000000 [GPR_RJ, GPR_RD, IMM_OFFS],
    Fmt LISA_BGE 0x64000000 [GPR_RJ, GPR_RD, IMM_OFFS],
    Fmt LISA_BLTU 0x68000000 [GPR_RJ, GPR_RD, IMM_OFFS],
    Fmt LISA_BGEU 0x6c000000 [GPR_RJ, GPR_RD, IMM_OFFS],
    Fmt LISA_FADD_S 0x01008000 [FPR_FD, FPR_FJ, FPR_FK],
    Fmt LISA_FADD_D 0x01010000 [FPR_FD, FPR_FJ, FPR_FK],
    Fmt LISA_FSUB_S 0x01028000 [FPR_FD, FPR_FJ, FPR_FK],
    Fmt LISA_FSUB_D 0x01030000 [FPR_FD, FPR_FJ, FPR_FK],
    Fmt LISA_FMUL_S 0x01048000 [FPR_FD, FPR_FJ, FPR_FK],
    Fmt LISA_FMUL_D 0x01050000 [FPR_FD, FPR_FJ, FPR_FK],
    Fmt LISA_FDIV_S 0x01068000 [FPR_FD, FPR_FJ, FPR_FK],
    Fmt LISA_FDIV_D 0x01070000 [FPR_FD, FPR_FJ, FPR_FK],
    Fmt LISA_FMAX_S 0x01088000 [FPR_FD, FPR_FJ, FPR_FK],
    Fmt LISA_FMAX_D 0x01090000 [FPR_FD, FPR_FJ, FPR_FK],
    Fmt LISA_FMIN_S 0x010a8000 [FPR_FD, FPR_FJ, FPR_FK]]"

definition lisa_rows_3596 :: "la_format list" where
  "lisa_rows_3596 = [
    Fmt LISA_FMIN_D 0x010b0000 [FPR_FD, FPR_FJ, FPR_FK],
    Fmt LISA_FMAXA_S 0x010c8000 [FPR_FD, FPR_FJ, FPR_FK],
    Fmt LISA_FMAXA_D 0x010d0000 [FPR_FD, FPR_FJ, FPR_FK],
    Fmt LISA_FMINA_S 0x010e8000 [FPR_FD, FPR_FJ, FPR_FK],
    Fmt LISA_FMINA_D 0x010f0000 [FPR_FD, FPR_FJ, FPR_FK],
    Fmt LISA_FSCALEB_S 0x01108000 [FPR_FD, FPR_FJ, FPR_FK],
    Fmt LISA_FSCALEB_D 0x01110000 [FPR_FD, FPR_FJ, FPR_FK],
    Fmt LISA_FCOPYSIGN_S 0x01128000 [FPR_FD, FPR_FJ, FPR_FK],
    Fmt LISA_FCOPYSIGN_D 0x01130000 [FPR_FD, FPR_FJ, FPR_FK],
    Fmt LISA_FABS_S 0x01140400 [FPR_FD, FPR_FJ],
    Fmt LISA_FABS_D 0x01140800 [FPR_FD, FPR_FJ],
    Fmt LISA_FNEG_S 0x01141400 [FPR_FD, FPR_FJ],
    Fmt LISA_FNEG_D 0x01141800 [FPR_FD, FPR_FJ],
    Fmt LISA_FLOGB_S 0x01142400 [FPR_FD, FPR_FJ],
    Fmt LISA_FLOGB_D 0x01142800 [FPR_FD, FPR_FJ],
    Fmt LISA_FCLASS_S 0x01143400 [FPR_FD, FPR_FJ],
    Fmt LISA_FCLASS_D 0x01143800 [FPR_FD, FPR_FJ],
    Fmt LISA_FSQRT_S 0x01144400 [FPR_FD, FPR_FJ],
    Fmt LISA_FSQRT_D 0x01144800 [FPR_FD, FPR_FJ],
    Fmt LISA_FRECIP_S 0x01145400 [FPR_FD, FPR_FJ],
    Fmt LISA_FRECIP_D 0x01145800 [FPR_FD, FPR_FJ],
    Fmt LISA_FRSQRT_S 0x01146400 [FPR_FD, FPR_FJ],
    Fmt LISA_FRSQRT_D 0x01146800 [FPR_FD, FPR_FJ],
    Fmt LISA_FMOV_S 0x01149400 [FPR_FD, FPR_FJ],
    Fmt LISA_FMOV_D 0x01149800 [FPR_FD, FPR_FJ],
    Fmt LISA_MOVGR2FR_W 0x0114a400 [FPR_FD, GPR_RJ],
    Fmt LISA_MOVGR2FR_D 0x0114a800 [FPR_FD, GPR_RJ],
    Fmt LISA_MOVGR2FRH_W 0x0114ac00 [FPR_FD, GPR_RJ],
    Fmt LISA_MOVFR2GR_S 0x0114b400 [GPR_RD, FPR_FJ],
    Fmt LISA_MOVFR2GR_D 0x0114b800 [GPR_RD, FPR_FJ],
    Fmt LISA_MOVFRH2GR_S 0x0114bc00 [GPR_RD, FPR_FJ],
    Fmt LISA_MOVGR2FCSR 0x0114c000 [OPD_FCSRL, GPR_RJ],
    Fmt LISA_MOVFCSR2GR 0x0114c800 [GPR_RD, OPD_FCSRH],
    Fmt LISA_MOVFR2CF 0x0114d000 [FCC_CD, FPR_FJ],
    Fmt LISA_MOVCF2FR 0x0114d400 [FPR_FD, FCC_CJ],
    Fmt LISA_MOVGR2CF 0x0114d800 [FCC_CD, GPR_RJ],
    Fmt LISA_MOVCF2GR 0x0114dc00 [GPR_RD, FCC_CJ],
    Fmt LISA_FCVT_LD_D 0x0114e000 [FPR_FD, FPR_FJ],
    Fmt LISA_FCVT_UD_D 0x0114e400 [FPR_FD, FPR_FJ],
    Fmt LISA_FCVT_D_LD 0x01150000 [FPR_FD, FPR_FJ, FPR_FK],
    Fmt LISA_FCVT_S_D 0x01191800 [FPR_FD, FPR_FJ],
    Fmt LISA_FCVT_D_S 0x01192400 [FPR_FD, FPR_FJ],
    Fmt LISA_FTINTRM_W_S 0x011a0400 [FPR_FD, FPR_FJ],
    Fmt LISA_FTINTRM_W_D 0x011a0800 [FPR_FD, FPR_FJ],
    Fmt LISA_FTINTRM_L_S 0x011a2400 [FPR_FD, FPR_FJ],
    Fmt LISA_FTINTRM_L_D 0x011a2800 [FPR_FD, FPR_FJ],
    Fmt LISA_FTINTRP_W_S 0x011a4400 [FPR_FD, FPR_FJ],
    Fmt LISA_FTINTRP_W_D 0x011a4800 [FPR_FD, FPR_FJ],
    Fmt LISA_FTINTRP_L_S 0x011a6400 [FPR_FD, FPR_FJ],
    Fmt LISA_FTINTRP_L_D 0x011a6800 [FPR_FD, FPR_FJ],
    Fmt LISA_FTINTRZ_W_S 0x011a8400 [FPR_FD, FPR_FJ],
    Fmt LISA_FTINTRZ_W_D 0x011a8800 [FPR_FD, FPR_FJ],
    Fmt LISA_FTINTRZ_L_S 0x011aa400 [FPR_FD, FPR_FJ],
    Fmt LISA_FTINTRZ_L_D 0x011aa800 [FPR_FD, FPR_FJ],
    Fmt LISA_FTINTRNE_W_S 0x011ac400 [FPR_FD, FPR_FJ],
    Fmt LISA_FTINTRNE_W_D 0x011ac800 [FPR_FD, FPR_FJ],
    Fmt LISA_FTINTRNE_L_S 0x011ae400 [FPR_FD, FPR_FJ],
    Fmt LISA_FTINTRNE_L_D 0x011ae800 [FPR_FD, FPR_FJ],
    Fmt LISA_FTINT_W_S 0x011b0400 [FPR_FD, FPR_FJ],
    Fmt LISA_FTINT_W_D 0x011b0800 [FPR_FD, FPR_FJ],
    Fmt LISA_FTINT_L_S 0x011b2400 [FPR_FD, FPR_FJ],
    Fmt LISA_FTINT_L_D 0x011b2800 [FPR_FD, FPR_FJ],
    Fmt LISA_FFINT_S_W 0x011d1000 [FPR_FD, FPR_FJ],
    Fmt LISA_FFINT_S_L 0x011d1800 [FPR_FD, FPR_FJ],
    Fmt LISA_FFINT_D_W 0x011d2000 [FPR_FD, FPR_FJ],
    Fmt LISA_FFINT_D_L 0x011d2800 [FPR_FD, FPR_FJ],
    Fmt LISA_FRINT_S 0x011e4400 [FPR_FD, FPR_FJ],
    Fmt LISA_FRINT_D 0x011e4800 [FPR_FD, FPR_FJ],
    Fmt LISA_FMADD_S 0x08100000 [FPR_FD, FPR_FJ, FPR_FK, FPR_FA],
    Fmt LISA_FMADD_D 0x08200000 [FPR_FD, FPR_FJ, FPR_FK, FPR_FA],
    Fmt LISA_FMSUB_S 0x08500000 [FPR_FD, FPR_FJ, FPR_FK, FPR_FA],
    Fmt LISA_FMSUB_D 0x08600000 [FPR_FD, FPR_FJ, FPR_FK, FPR_FA],
    Fmt LISA_FNMADD_S 0x08900000 [FPR_FD, FPR_FJ, FPR_FK, FPR_FA],
    Fmt LISA_FNMADD_D 0x08a00000 [FPR_FD, FPR_FJ, FPR_FK, FPR_FA],
    Fmt LISA_FNMSUB_S 0x08d00000 [FPR_FD, FPR_FJ, FPR_FK, FPR_FA],
    Fmt LISA_FNMSUB_D 0x08e00000 [FPR_FD, FPR_FJ, FPR_FK, FPR_FA],
    Fmt LISA_VFMADD_S 0x09100000 [FPR_VD, FPR_VJ, FPR_VK, FPR_VA],
    Fmt LISA_VFMADD_D 0x09200000 [FPR_VD, FPR_VJ, FPR_VK, FPR_VA],
    Fmt LISA_VFMSUB_S 0x09500000 [FPR_VD, FPR_VJ, FPR_VK, FPR_VA],
    Fmt LISA_VFMSUB_D 0x09600000 [FPR_VD, FPR_VJ, FPR_VK, FPR_VA],
    Fmt LISA_VFNMADD_S 0x09900000 [FPR_VD, FPR_VJ, FPR_VK, FPR_VA],
    Fmt LISA_VFNMADD_D 0x09a00000 [FPR_VD, FPR_VJ, FPR_VK, FPR_VA],
    Fmt LISA_VFNMSUB_S 0x09d00000 [FPR_VD, FPR_VJ, FPR_VK, FPR_VA],
    Fmt LISA_VFNMSUB_D 0x09e00000 [FPR_VD, FPR_VJ, FPR_VK, FPR_VA],
    Fmt LISA_XVFMADD_S 0x0a100000 [FPR_XD, FPR_XJ, FPR_XK, FPR_XA],
    Fmt LISA_XVFMADD_D 0x0a200000 [FPR_XD, FPR_XJ, FPR_XK, FPR_XA],
    Fmt LISA_XVFMSUB_S 0x0a500000 [FPR_XD, FPR_XJ, FPR_XK, FPR_XA],
    Fmt LISA_XVFMSUB_D 0x0a600000 [FPR_XD, FPR_XJ, FPR_XK, FPR_XA],
    Fmt LISA_XVFNMADD_S 0x0a900000 [FPR_XD, FPR_XJ, FPR_XK, FPR_XA],
    Fmt LISA_XVFNMADD_D 0x0aa00000 [FPR_XD, FPR_XJ, FPR_XK, FPR_XA],
    Fmt LISA_XVFNMSUB_S 0x0ad00000 [FPR_XD, FPR_XJ, FPR_XK, FPR_XA],
    Fmt LISA_XVFNMSUB_D 0x0ae00000 [FPR_XD, FPR_XJ, FPR_XK, FPR_XA],
    Fmt LISA_FCMP_COND_S 0x0c100000 [FCC_CD, FPR_FJ, FPR_FK, IMM_CONDF],
    Fmt LISA_FCMP_COND_D 0x0c200000 [FCC_CD, FPR_FJ, FPR_FK, IMM_CONDF],
    Fmt LISA_VFCMP_COND_S 0x0c500000 [FPR_VD, FPR_VJ, FPR_VK, IMM_CONDF],
    Fmt LISA_VFCMP_COND_D 0x0c600000 [FPR_VD, FPR_VJ, FPR_VK, IMM_CONDF],
    Fmt LISA_XVFCMP_COND_S 0x0c900000 [FPR_XD, FPR_XJ, FPR_XK, IMM_CONDF],
    Fmt LISA_XVFCMP_COND_D 0x0ca00000 [FPR_XD, FPR_XJ, FPR_XK, IMM_CONDF],
    Fmt LISA_FSEL 0x0d000000 [FPR_FD, FPR_FJ, FPR_FK, FCC_CA],
    Fmt LISA_VBITSEL_V 0x0d100000 [FPR_VD, FPR_VJ, FPR_VK, FPR_VA],
    Fmt LISA_XVBITSEL_V 0x0d200000 [FPR_XD, FPR_XJ, FPR_XK, FPR_XA],
    Fmt LISA_VSHUF_B 0x0d500000 [FPR_VD, FPR_VJ, FPR_VK, FPR_VA],
    Fmt LISA_XVSHUF_B 0x0d600000 [FPR_XD, FPR_XJ, FPR_XK, FPR_XA],
    Fmt LISA_VEXTR_V 0x0d900000 [FPR_VD, FPR_VJ, FPR_VK, IMM_UI5H],
    Fmt LISA_XVEXTR_V 0x0da00000 [FPR_XD, FPR_XJ, FPR_XK, IMM_UI5H],
    Fmt LISA_VFMADDSUB_S 0x0e900000 [FPR_VD, FPR_VJ, FPR_VK, FPR_VA],
    Fmt LISA_VFMADDSUB_D 0x0ea00000 [FPR_VD, FPR_VJ, FPR_VK, FPR_VA],
    Fmt LISA_VFMSUBADD_S 0x0ed00000 [FPR_VD, FPR_VJ, FPR_VK, FPR_VA],
    Fmt LISA_VFMSUBADD_D 0x0ee00000 [FPR_VD, FPR_VJ, FPR_VK, FPR_VA],
    Fmt LISA_XVFMADDSUB_S 0x0f100000 [FPR_XD, FPR_XJ, FPR_XK, FPR_XA],
    Fmt LISA_XVFMADDSUB_D 0x0f200000 [FPR_XD, FPR_XJ, FPR_XK, FPR_XA],
    Fmt LISA_XVFMSUBADD_S 0x0f500000 [FPR_XD, FPR_XJ, FPR_XK, FPR_XA],
    Fmt LISA_XVFMSUBADD_D 0x0f600000 [FPR_XD, FPR_XJ, FPR_XK, FPR_XA],
    Fmt LISA_VSEQ_B 0x70000000 [FPR_VD, FPR_VJ, FPR_VK],
    Fmt LISA_VSEQ_H 0x70008000 [FPR_VD, FPR_VJ, FPR_VK],
    Fmt LISA_VSEQ_W 0x70010000 [FPR_VD, FPR_VJ, FPR_VK],
    Fmt LISA_VSEQ_D 0x70018000 [FPR_VD, FPR_VJ, FPR_VK],
    Fmt LISA_VSLE_B 0x70020000 [FPR_VD, FPR_VJ, FPR_VK],
    Fmt LISA_VSLE_H 0x70028000 [FPR_VD, FPR_VJ, FPR_VK],
    Fmt LISA_VSLE_W 0x70030000 [FPR_VD, FPR_VJ, FPR_VK],
    Fmt LISA_VSLE_D 0x70038000 [FPR_VD, FPR_VJ, FPR_VK],
    Fmt LISA_VSLE_BU 0x70040000 [FPR_VD, FPR_VJ, FPR_VK],
    Fmt LISA_VSLE_HU 0x70048000 [FPR_VD, FPR_VJ, FPR_VK],
    Fmt LISA_VSLE_WU 0x70050000 [FPR_VD, FPR_VJ, FPR_VK],
    Fmt LISA_VSLE_DU 0x70058000 [FPR_VD, FPR_VJ, FPR_VK],
    Fmt LISA_VSLT_B 0x70060000 [FPR_VD, FPR_VJ, FPR_VK],
    Fmt LISA_VSLT_H 0x70068000 [FPR_VD, FPR_VJ, FPR_VK],
    Fmt LISA_VSLT_W 0x70070000 [FPR_VD, FPR_VJ, FPR_VK],
    Fmt LISA_VSLT_D 0x70078000 [FPR_VD, FPR_VJ, FPR_VK],
    Fmt LISA_VSLT_BU 0x70080000 [FPR_VD, FPR_VJ, FPR_VK],
    Fmt LISA_VSLT_HU 0x70088000 [FPR_VD, FPR_VJ, FPR_VK],
    Fmt LISA_VSLT_WU 0x70090000 [FPR_VD, FPR_VJ, FPR_VK],
    Fmt LISA_VSLT_DU 0x70098000 [FPR_VD, FPR_VJ, FPR_VK],
    Fmt LISA_VADD_B 0x700a0000 [FPR_VD, FPR_VJ, FPR_VK],
    Fmt LISA_VADD_H 0x700a8000 [FPR_VD, FPR_VJ, FPR_VK],
    Fmt LISA_VADD_W 0x700b0000 [FPR_VD, FPR_VJ, FPR_VK],
    Fmt LISA_VADD_D 0x700b8000 [FPR_VD, FPR_VJ, FPR_VK],
    Fmt LISA_VSUB_B 0x700c0000 [FPR_VD, FPR_VJ, FPR_VK],
    Fmt LISA_VSUB_H 0x700c8000 [FPR_VD, FPR_VJ, FPR_VK],
    Fmt LISA_VSUB_W 0x700d0000 [FPR_VD, FPR_VJ, FPR_VK],
    Fmt LISA_VSUB_D 0x700d8000 [FPR_VD, FPR_VJ, FPR_VK],
    Fmt LISA_VADDW_H_H_B 0x700e0000 [FPR_VD, FPR_VJ, FPR_VK],
    Fmt LISA_VADDW_W_W_H 0x700e8000 [FPR_VD, FPR_VJ, FPR_VK],
    Fmt LISA_VADDW_D_D_W 0x700f0000 [FPR_VD, FPR_VJ, FPR_VK],
    Fmt LISA_VADDW_H_H_BU 0x70100000 [FPR_VD, FPR_VJ, FPR_VK],
    Fmt LISA_VADDW_W_W_HU 0x70108000 [FPR_VD, FPR_VJ, FPR_VK],
    Fmt LISA_VADDW_D_D_WU 0x70110000 [FPR_VD, FPR_VJ, FPR_VK],
    Fmt LISA_VSUBW_H_H_B 0x70120000 [FPR_VD, FPR_VJ, FPR_VK],
    Fmt LISA_VSUBW_W_W_H 0x70128000 [FPR_VD, FPR_VJ, FPR_VK],
    Fmt LISA_VSUBW_D_D_W 0x70130000 [FPR_VD, FPR_VJ, FPR_VK],
    Fmt LISA_VSUBW_H_H_BU 0x70140000 [FPR_VD, FPR_VJ, FPR_VK],
    Fmt LISA_VSUBW_W_W_HU 0x70148000 [FPR_VD, FPR_VJ, FPR_VK],
    Fmt LISA_VSUBW_D_D_WU 0x70150000 [FPR_VD, FPR_VJ, FPR_VK],
    Fmt LISA_VSADDW_H_H_B 0x70160000 [FPR_VD, FPR_VJ, FPR_VK],
    Fmt LISA_VSADDW_W_W_H 0x70168000 [FPR_VD, FPR_VJ, FPR_VK],
    Fmt LISA_VSADDW_D_D_W 0x70170000 [FPR_VD, FPR_VJ, FPR_VK],
    Fmt LISA_VSADDW_HU_HU_BU 0x70180000 [FPR_VD, FPR_VJ, FPR_VK],
    Fmt LISA_VSADDW_WU_WU_HU 0x70188000 [FPR_VD, FPR_VJ, FPR_VK],
    Fmt LISA_VSADDW_DU_DU_WU 0x70190000 [FPR_VD, FPR_VJ, FPR_VK],
    Fmt LISA_VSSUBW_H_H_B 0x701a0000 [FPR_VD, FPR_VJ, FPR_VK],
    Fmt LISA_VSSUBW_W_W_H 0x701a8000 [FPR_VD, FPR_VJ, FPR_VK],
    Fmt LISA_VSSUBW_D_D_W 0x701b0000 [FPR_VD, FPR_VJ, FPR_VK],
    Fmt LISA_VSSUBW_HU_HU_BU 0x701c0000 [FPR_VD, FPR_VJ, FPR_VK],
    Fmt LISA_VSSUBW_WU_WU_HU 0x701c8000 [FPR_VD, FPR_VJ, FPR_VK],
    Fmt LISA_VSSUBW_DU_DU_WU 0x701d0000 [FPR_VD, FPR_VJ, FPR_VK],
    Fmt LISA_VADDWEV_H_B 0x701e0000 [FPR_VD, FPR_VJ, FPR_VK],
    Fmt LISA_VADDWEV_W_H 0x701e8000 [FPR_VD, FPR_VJ, FPR_VK],
    Fmt LISA_VADDWEV_D_W 0x701f0000 [FPR_VD, FPR_VJ, FPR_VK],
    Fmt LISA_VADDWEV_Q_D 0x701f8000 [FPR_VD, FPR_VJ, FPR_VK],
    Fmt LISA_VSUBWEV_H_B 0x70200000 [FPR_VD, FPR_VJ, FPR_VK],
    Fmt LISA_VSUBWEV_W_H 0x70208000 [FPR_VD, FPR_VJ, FPR_VK],
    Fmt LISA_VSUBWEV_D_W 0x70210000 [FPR_VD, FPR_VJ, FPR_VK],
    Fmt LISA_VSUBWEV_Q_D 0x70218000 [FPR_VD, FPR_VJ, FPR_VK],
    Fmt LISA_VADDWOD_H_B 0x70220000 [FPR_VD, FPR_VJ, FPR_VK],
    Fmt LISA_VADDWOD_W_H 0x70228000 [FPR_VD, FPR_VJ, FPR_VK],
    Fmt LISA_VADDWOD_D_W 0x70230000 [FPR_VD, FPR_VJ, FPR_VK],
    Fmt LISA_VADDWOD_Q_D 0x70238000 [FPR_VD, FPR_VJ, FPR_VK],
    Fmt LISA_VSUBWOD_H_B 0x70240000 [FPR_VD, FPR_VJ, FPR_VK],
    Fmt LISA_VSUBWOD_W_H 0x70248000 [FPR_VD, FPR_VJ, FPR_VK],
    Fmt LISA_VSUBWOD_D_W 0x70250000 [FPR_VD, FPR_VJ, FPR_VK],
    Fmt LISA_VSUBWOD_Q_D 0x70258000 [FPR_VD, FPR_VJ, FPR_VK],
    Fmt LISA_VADDWL_H_B 0x70260000 [FPR_VD, FPR_VJ, FPR_VK],
    Fmt LISA_VADDWL_W_H 0x70268000 [FPR_VD, FPR_VJ, FPR_VK],
    Fmt LISA_VADDWL_D_W 0x70270000 [FPR_VD, FPR_VJ, FPR_VK],
    Fmt LISA_VADDWL_Q_D 0x70278000 [FPR_VD, FPR_VJ, FPR_VK],
    Fmt LISA_VSUBWL_H_B 0x70280000 [FPR_VD, FPR_VJ, FPR_VK],
    Fmt LISA_VSUBWL_W_H 0x70288000 [FPR_VD, FPR_VJ, FPR_VK],
    Fmt LISA_VSUBWL_D_W 0x70290000 [FPR_VD, FPR_VJ, FPR_VK],
    Fmt LISA_VSUBWL_Q_D 0x70298000 [FPR_VD, FPR_VJ, FPR_VK],
    Fmt LISA_VADDWH_H_B 0x702a0000 [FPR_VD, FPR_VJ, FPR_VK],
    Fmt LISA_VADDWH_W_H 0x702a8000 [FPR_VD, FPR_VJ, FPR_VK],
    Fmt LISA_VADDWH_D_W 0x702b0000 [FPR_VD, FPR_VJ, FPR_VK],
    Fmt LISA_VADDWH_Q_D 0x702b8000 [FPR_VD, FPR_VJ, FPR_VK],
    Fmt LISA_VSUBWH_H_B 0x702c0000 [FPR_VD, FPR_VJ, FPR_VK],
    Fmt LISA_VSUBWH_W_H 0x702c8000 [FPR_VD, FPR_VJ, FPR_VK],
    Fmt LISA_VSUBWH_D_W 0x702d0000 [FPR_VD, FPR_VJ, FPR_VK],
    Fmt LISA_VSUBWH_Q_D 0x702d8000 [FPR_VD, FPR_VJ, FPR_VK],
    Fmt LISA_VADDWEV_H_BU 0x702e0000 [FPR_VD, FPR_VJ, FPR_VK],
    Fmt LISA_VADDWEV_W_HU 0x702e8000 [FPR_VD, FPR_VJ, FPR_VK],
    Fmt LISA_VADDWEV_D_WU 0x702f0000 [FPR_VD, FPR_VJ, FPR_VK],
    Fmt LISA_VADDWEV_Q_DU 0x702f8000 [FPR_VD, FPR_VJ, FPR_VK],
    Fmt LISA_VSUBWEV_H_BU 0x70300000 [FPR_VD, FPR_VJ, FPR_VK],
    Fmt LISA_VSUBWEV_W_HU 0x70308000 [FPR_VD, FPR_VJ, FPR_VK],
    Fmt LISA_VSUBWEV_D_WU 0x70310000 [FPR_VD, FPR_VJ, FPR_VK],
    Fmt LISA_VSUBWEV_Q_DU 0x70318000 [FPR_VD, FPR_VJ, FPR_VK],
    Fmt LISA_VADDWOD_H_BU 0x70320000 [FPR_VD, FPR_VJ, FPR_VK],
    Fmt LISA_VADDWOD_W_HU 0x70328000 [FPR_VD, FPR_VJ, FPR_VK],
    Fmt LISA_VADDWOD_D_WU 0x70330000 [FPR_VD, FPR_VJ, FPR_VK],
    Fmt LISA_VADDWOD_Q_DU 0x70338000 [FPR_VD, FPR_VJ, FPR_VK],
    Fmt LISA_VSUBWOD_H_BU 0x70340000 [FPR_VD, FPR_VJ, FPR_VK],
    Fmt LISA_VSUBWOD_W_HU 0x70348000 [FPR_VD, FPR_VJ, FPR_VK],
    Fmt LISA_VSUBWOD_D_WU 0x70350000 [FPR_VD, FPR_VJ, FPR_VK],
    Fmt LISA_VSUBWOD_Q_DU 0x70358000 [FPR_VD, FPR_VJ, FPR_VK],
    Fmt LISA_VADDWL_H_BU 0x70360000 [FPR_VD, FPR_VJ, FPR_VK],
    Fmt LISA_VADDWL_W_HU 0x70368000 [FPR_VD, FPR_VJ, FPR_VK],
    Fmt LISA_VADDWL_D_WU 0x70370000 [FPR_VD, FPR_VJ, FPR_VK],
    Fmt LISA_VADDWL_Q_DU 0x70378000 [FPR_VD, FPR_VJ, FPR_VK],
    Fmt LISA_VSUBWL_H_BU 0x70380000 [FPR_VD, FPR_VJ, FPR_VK],
    Fmt LISA_VSUBWL_W_HU 0x70388000 [FPR_VD, FPR_VJ, FPR_VK],
    Fmt LISA_VSUBWL_D_WU 0x70390000 [FPR_VD, FPR_VJ, FPR_VK],
    Fmt LISA_VSUBWL_Q_DU 0x70398000 [FPR_VD, FPR_VJ, FPR_VK],
    Fmt LISA_VADDWH_H_BU 0x703a0000 [FPR_VD, FPR_VJ, FPR_VK],
    Fmt LISA_VADDWH_W_HU 0x703a8000 [FPR_VD, FPR_VJ, FPR_VK],
    Fmt LISA_VADDWH_D_WU 0x703b0000 [FPR_VD, FPR_VJ, FPR_VK],
    Fmt LISA_VADDWH_Q_DU 0x703b8000 [FPR_VD, FPR_VJ, FPR_VK],
    Fmt LISA_VSUBWH_H_BU 0x703c0000 [FPR_VD, FPR_VJ, FPR_VK]]"

definition lisa_rows_5391 :: "la_format list" where
  "lisa_rows_5391 = [
    Fmt LISA_VSUBWH_W_HU 0x703c8000 [FPR_VD, FPR_VJ, FPR_VK],
    Fmt LISA_VSUBWH_D_WU 0x703d0000 [FPR_VD, FPR_VJ, FPR_VK],
    Fmt LISA_VSUBWH_Q_DU 0x703d8000 [FPR_VD, FPR_VJ, FPR_VK],
    Fmt LISA_VADDWEV_H_BU_B 0x703e0000 [FPR_VD, FPR_VJ, FPR_VK],
    Fmt LISA_VADDWEV_W_HU_H 0x703e8000 [FPR_VD, FPR_VJ, FPR_VK],
    Fmt LISA_VADDWEV_D_WU_W 0x703f0000 [FPR_VD, FPR_VJ, FPR_VK],
    Fmt LISA_VADDWEV_Q_DU_D 0x703f8000 [FPR_VD, FPR_VJ, FPR_VK],
    Fmt LISA_VADDWOD_H_BU_B 0x70400000 [FPR_VD, FPR_VJ, FPR_VK],
    Fmt LISA_VADDWOD_W_HU_H 0x70408000 [FPR_VD, FPR_VJ, FPR_VK],
    Fmt LISA_VADDWOD_D_WU_W 0x70410000 [FPR_VD, FPR_VJ, FPR_VK],
    Fmt LISA_VADDWOD_Q_DU_D 0x70418000 [FPR_VD, FPR_VJ, FPR_VK],
    Fmt LISA_VADDWL_H_BU_B 0x70420000 [FPR_VD, FPR_VJ, FPR_VK],
    Fmt LISA_VADDWL_W_HU_H 0x70428000 [FPR_VD, FPR_VJ, FPR_VK],
    Fmt LISA_VADDWL_D_WU_W 0x70430000 [FPR_VD, FPR_VJ, FPR_VK],
    Fmt LISA_VADDWL_Q_DU_D 0x70438000 [FPR_VD, FPR_VJ, FPR_VK],
    Fmt LISA_VADDWH_H_BU_B 0x70440000 [FPR_VD, FPR_VJ, FPR_VK],
    Fmt LISA_VADDWH_W_HU_H 0x70448000 [FPR_VD, FPR_VJ, FPR_VK],
    Fmt LISA_VADDWH_D_WU_W 0x70450000 [FPR_VD, FPR_VJ, FPR_VK],
    Fmt LISA_VADDWH_Q_DU_D 0x70458000 [FPR_VD, FPR_VJ, FPR_VK],
    Fmt LISA_VSADD_B 0x70460000 [FPR_VD, FPR_VJ, FPR_VK],
    Fmt LISA_VSADD_H 0x70468000 [FPR_VD, FPR_VJ, FPR_VK],
    Fmt LISA_VSADD_W 0x70470000 [FPR_VD, FPR_VJ, FPR_VK],
    Fmt LISA_VSADD_D 0x70478000 [FPR_VD, FPR_VJ, FPR_VK],
    Fmt LISA_VSSUB_B 0x70480000 [FPR_VD, FPR_VJ, FPR_VK],
    Fmt LISA_VSSUB_H 0x70488000 [FPR_VD, FPR_VJ, FPR_VK],
    Fmt LISA_VSSUB_W 0x70490000 [FPR_VD, FPR_VJ, FPR_VK],
    Fmt LISA_VSSUB_D 0x70498000 [FPR_VD, FPR_VJ, FPR_VK],
    Fmt LISA_VSADD_BU 0x704a0000 [FPR_VD, FPR_VJ, FPR_VK],
    Fmt LISA_VSADD_HU 0x704a8000 [FPR_VD, FPR_VJ, FPR_VK],
    Fmt LISA_VSADD_WU 0x704b0000 [FPR_VD, FPR_VJ, FPR_VK],
    Fmt LISA_VSADD_DU 0x704b8000 [FPR_VD, FPR_VJ, FPR_VK],
    Fmt LISA_VSSUB_BU 0x704c0000 [FPR_VD, FPR_VJ, FPR_VK],
    Fmt LISA_VSSUB_HU 0x704c8000 [FPR_VD, FPR_VJ, FPR_VK],
    Fmt LISA_VSSUB_WU 0x704d0000 [FPR_VD, FPR_VJ, FPR_VK],
    Fmt LISA_VSSUB_DU 0x704d8000 [FPR_VD, FPR_VJ, FPR_VK],
    Fmt LISA_VSSUB_BU_BU_B 0x704e0000 [FPR_VD, FPR_VJ, FPR_VK],
    Fmt LISA_VSSUB_HU_HU_H 0x704e8000 [FPR_VD, FPR_VJ, FPR_VK],
    Fmt LISA_VSSUB_WU_WU_W 0x704f0000 [FPR_VD, FPR_VJ, FPR_VK],
    Fmt LISA_VSSUB_DU_DU_D 0x704f8000 [FPR_VD, FPR_VJ, FPR_VK],
    Fmt LISA_VSSUB_BU_B_BU 0x70500000 [FPR_VD, FPR_VJ, FPR_VK],
    Fmt LISA_VSSUB_HU_H_HU 0x70508000 [FPR_VD, FPR_VJ, FPR_VK],
    Fmt LISA_VSSUB_WU_W_WU 0x70510000 [FPR_VD, FPR_VJ, FPR_VK],
    Fmt LISA_VSSUB_DU_D_DU 0x70518000 [FPR_VD, FPR_VJ, FPR_VK],
    Fmt LISA_VSSUB_B_BU_BU 0x70520000 [FPR_VD, FPR_VJ, FPR_VK],
    Fmt LISA_VSSUB_H_HU_HU 0x70528000 [FPR_VD, FPR_VJ, FPR_VK],
    Fmt LISA_VSSUB_W_WU_WU 0x70530000 [FPR_VD, FPR_VJ, FPR_VK],
    Fmt LISA_VSSUB_D_DU_DU 0x70538000 [FPR_VD, FPR_VJ, FPR_VK],
    Fmt LISA_VHADDW_H_B 0x70540000 [FPR_VD, FPR_VJ, FPR_VK],
    Fmt LISA_VHADDW_W_H 0x70548000 [FPR_VD, FPR_VJ, FPR_VK],
    Fmt LISA_VHADDW_D_W 0x70550000 [FPR_VD, FPR_VJ, FPR_VK],
    Fmt LISA_VHADDW_Q_D 0x70558000 [FPR_VD, FPR_VJ, FPR_VK],
    Fmt LISA_VHSUBW_H_B 0x70560000 [FPR_VD, FPR_VJ, FPR_VK],
    Fmt LISA_VHSUBW_W_H 0x70568000 [FPR_VD, FPR_VJ, FPR_VK],
    Fmt LISA_VHSUBW_D_W 0x70570000 [FPR_VD, FPR_VJ, FPR_VK],
    Fmt LISA_VHSUBW_Q_D 0x70578000 [FPR_VD, FPR_VJ, FPR_VK],
    Fmt LISA_VHADDW_HU_BU 0x70580000 [FPR_VD, FPR_VJ, FPR_VK],
    Fmt LISA_VHADDW_WU_HU 0x70588000 [FPR_VD, FPR_VJ, FPR_VK],
    Fmt LISA_VHADDW_DU_WU 0x70590000 [FPR_VD, FPR_VJ, FPR_VK],
    Fmt LISA_VHADDW_QU_DU 0x70598000 [FPR_VD, FPR_VJ, FPR_VK],
    Fmt LISA_VHSUBW_HU_BU 0x705a0000 [FPR_VD, FPR_VJ, FPR_VK],
    Fmt LISA_VHSUBW_WU_HU 0x705a8000 [FPR_VD, FPR_VJ, FPR_VK],
    Fmt LISA_VHSUBW_DU_WU 0x705b0000 [FPR_VD, FPR_VJ, FPR_VK],
    Fmt LISA_VHSUBW_QU_DU 0x705b8000 [FPR_VD, FPR_VJ, FPR_VK],
    Fmt LISA_VADDA_B 0x705c0000 [FPR_VD, FPR_VJ, FPR_VK],
    Fmt LISA_VADDA_H 0x705c8000 [FPR_VD, FPR_VJ, FPR_VK],
    Fmt LISA_VADDA_W 0x705d0000 [FPR_VD, FPR_VJ, FPR_VK],
    Fmt LISA_VADDA_D 0x705d8000 [FPR_VD, FPR_VJ, FPR_VK],
    Fmt LISA_VSADDA_B 0x705e0000 [FPR_VD, FPR_VJ, FPR_VK],
    Fmt LISA_VSADDA_H 0x705e8000 [FPR_VD, FPR_VJ, FPR_VK],
    Fmt LISA_VSADDA_W 0x705f0000 [FPR_VD, FPR_VJ, FPR_VK],
    Fmt LISA_VSADDA_D 0x705f8000 [FPR_VD, FPR_VJ, FPR_VK],
    Fmt LISA_VABSD_B 0x70600000 [FPR_VD, FPR_VJ, FPR_VK],
    Fmt LISA_VABSD_H 0x70608000 [FPR_VD, FPR_VJ, FPR_VK],
    Fmt LISA_VABSD_W 0x70610000 [FPR_VD, FPR_VJ, FPR_VK],
    Fmt LISA_VABSD_D 0x70618000 [FPR_VD, FPR_VJ, FPR_VK],
    Fmt LISA_VABSD_BU 0x70620000 [FPR_VD, FPR_VJ, FPR_VK],
    Fmt LISA_VABSD_HU 0x70628000 [FPR_VD, FPR_VJ, FPR_VK],
    Fmt LISA_VABSD_WU 0x70630000 [FPR_VD, FPR_VJ, FPR_VK],
    Fmt LISA_VABSD_DU 0x70638000 [FPR_VD, FPR_VJ, FPR_VK],
    Fmt LISA_VAVG_B 0x70640000 [FPR_VD, FPR_VJ, FPR_VK],
    Fmt LISA_VAVG_H 0x70648000 [FPR_VD, FPR_VJ, FPR_VK],
    Fmt LISA_VAVG_W 0x70650000 [FPR_VD, FPR_VJ, FPR_VK],
    Fmt LISA_VAVG_D 0x70658000 [FPR_VD, FPR_VJ, FPR_VK],
    Fmt LISA_VAVG_BU 0x70660000 [FPR_VD, FPR_VJ, FPR_VK],
    Fmt LISA_VAVG_HU 0x70668000 [FPR_VD, FPR_VJ, FPR_VK],
    Fmt LISA_VAVG_WU 0x70670000 [FPR_VD, FPR_VJ, FPR_VK],
    Fmt LISA_VAVG_DU 0x70678000 [FPR_VD, FPR_VJ, FPR_VK],
    Fmt LISA_VAVGR_B 0x70680000 [FPR_VD, FPR_VJ, FPR_VK],
    Fmt LISA_VAVGR_H 0x70688000 [FPR_VD, FPR_VJ, FPR_VK],
    Fmt LISA_VAVGR_W 0x70690000 [FPR_VD, FPR_VJ, FPR_VK],
    Fmt LISA_VAVGR_D 0x70698000 [FPR_VD, FPR_VJ, FPR_VK],
    Fmt LISA_VAVGR_BU 0x706a0000 [FPR_VD, FPR_VJ, FPR_VK],
    Fmt LISA_VAVGR_HU 0x706a8000 [FPR_VD, FPR_VJ, FPR_VK],
    Fmt LISA_VAVGR_WU 0x706b0000 [FPR_VD, FPR_VJ, FPR_VK],
    Fmt LISA_VAVGR_DU 0x706b8000 [FPR_VD, FPR_VJ, FPR_VK],
    Fmt LISA_VHALFD_B 0x706c0000 [FPR_VD, FPR_VJ, FPR_VK],
    Fmt LISA_VHALFD_H 0x706c8000 [FPR_VD, FPR_VJ, FPR_VK],
    Fmt LISA_VHALFD_W 0x706d0000 [FPR_VD, FPR_VJ, FPR_VK],
    Fmt LISA_VHALFD_D 0x706d8000 [FPR_VD, FPR_VJ, FPR_VK],
    Fmt LISA_VHALFD_BU 0x706e0000 [FPR_VD, FPR_VJ, FPR_VK],
    Fmt LISA_VHALFD_HU 0x706e8000 [FPR_VD, FPR_VJ, FPR_VK],
    Fmt LISA_VHALFD_WU 0x706f0000 [FPR_VD, FPR_VJ, FPR_VK],
    Fmt LISA_VHALFD_DU 0x706f8000 [FPR_VD, FPR_VJ, FPR_VK],
    Fmt LISA_VMAX_B 0x70700000 [FPR_VD, FPR_VJ, FPR_VK],
    Fmt LISA_VMAX_H 0x70708000 [FPR_VD, FPR_VJ, FPR_VK],
    Fmt LISA_VMAX_W 0x70710000 [FPR_VD, FPR_VJ, FPR_VK],
    Fmt LISA_VMAX_D 0x70718000 [FPR_VD, FPR_VJ, FPR_VK],
    Fmt LISA_VMIN_B 0x70720000 [FPR_VD, FPR_VJ, FPR_VK],
    Fmt LISA_VMIN_H 0x70728000 [FPR_VD, FPR_VJ, FPR_VK],
    Fmt LISA_VMIN_W 0x70730000 [FPR_VD, FPR_VJ, FPR_VK],
    Fmt LISA_VMIN_D 0x70738000 [FPR_VD, FPR_VJ, FPR_VK],
    Fmt LISA_VMAX_BU 0x70740000 [FPR_VD, FPR_VJ, FPR_VK],
    Fmt LISA_VMAX_HU 0x70748000 [FPR_VD, FPR_VJ, FPR_VK],
    Fmt LISA_VMAX_WU 0x70750000 [FPR_VD, FPR_VJ, FPR_VK],
    Fmt LISA_VMAX_DU 0x70758000 [FPR_VD, FPR_VJ, FPR_VK],
    Fmt LISA_VMIN_BU 0x70760000 [FPR_VD, FPR_VJ, FPR_VK],
    Fmt LISA_VMIN_HU 0x70768000 [FPR_VD, FPR_VJ, FPR_VK],
    Fmt LISA_VMIN_WU 0x70770000 [FPR_VD, FPR_VJ, FPR_VK],
    Fmt LISA_VMIN_DU 0x70778000 [FPR_VD, FPR_VJ, FPR_VK],
    Fmt LISA_VMAXA_B 0x70780000 [FPR_VD, FPR_VJ, FPR_VK],
    Fmt LISA_VMAXA_H 0x70788000 [FPR_VD, FPR_VJ, FPR_VK],
    Fmt LISA_VMAXA_W 0x70790000 [FPR_VD, FPR_VJ, FPR_VK],
    Fmt LISA_VMAXA_D 0x70798000 [FPR_VD, FPR_VJ, FPR_VK],
    Fmt LISA_VMINA_B 0x707a0000 [FPR_VD, FPR_VJ, FPR_VK],
    Fmt LISA_VMINA_H 0x707a8000 [FPR_VD, FPR_VJ, FPR_VK],
    Fmt LISA_VMINA_W 0x707b0000 [FPR_VD, FPR_VJ, FPR_VK],
    Fmt LISA_VMINA_D 0x707b8000 [FPR_VD, FPR_VJ, FPR_VK],
    Fmt LISA_VSADW_H_B 0x707c0000 [FPR_VD, FPR_VJ, FPR_VK],
    Fmt LISA_VSADW_W_H 0x707c8000 [FPR_VD, FPR_VJ, FPR_VK],
    Fmt LISA_VSADW_D_W 0x707d0000 [FPR_VD, FPR_VJ, FPR_VK],
    Fmt LISA_VSADW_H_BU 0x707e0000 [FPR_VD, FPR_VJ, FPR_VK],
    Fmt LISA_VSADW_W_HU 0x707e8000 [FPR_VD, FPR_VJ, FPR_VK],
    Fmt LISA_VSADW_D_WU 0x707f0000 [FPR_VD, FPR_VJ, FPR_VK],
    Fmt LISA_VACCSADW_H_B 0x70800000 [FPR_VD, FPR_VJ, FPR_VK],
    Fmt LISA_VACCSADW_W_H 0x70808000 [FPR_VD, FPR_VJ, FPR_VK],
    Fmt LISA_VACCSADW_D_W 0x70810000 [FPR_VD, FPR_VJ, FPR_VK],
    Fmt LISA_VACCSADW_H_BU 0x70820000 [FPR_VD, FPR_VJ, FPR_VK],
    Fmt LISA_VACCSADW_W_HU 0x70828000 [FPR_VD, FPR_VJ, FPR_VK],
    Fmt LISA_VACCSADW_D_WU 0x70830000 [FPR_VD, FPR_VJ, FPR_VK],
    Fmt LISA_VMUL_B 0x70840000 [FPR_VD, FPR_VJ, FPR_VK],
    Fmt LISA_VMUL_H 0x70848000 [FPR_VD, FPR_VJ, FPR_VK],
    Fmt LISA_VMUL_W 0x70850000 [FPR_VD, FPR_VJ, FPR_VK],
    Fmt LISA_VMUL_D 0x70858000 [FPR_VD, FPR_VJ, FPR_VK],
    Fmt LISA_VMUH_B 0x70860000 [FPR_VD, FPR_VJ, FPR_VK],
    Fmt LISA_VMUH_H 0x70868000 [FPR_VD, FPR_VJ, FPR_VK],
    Fmt LISA_VMUH_W 0x70870000 [FPR_VD, FPR_VJ, FPR_VK],
    Fmt LISA_VMUH_D 0x70878000 [FPR_VD, FPR_VJ, FPR_VK],
    Fmt LISA_VMUH_BU 0x70880000 [FPR_VD, FPR_VJ, FPR_VK],
    Fmt LISA_VMUH_HU 0x70888000 [FPR_VD, FPR_VJ, FPR_VK],
    Fmt LISA_VMUH_WU 0x70890000 [FPR_VD, FPR_VJ, FPR_VK],
    Fmt LISA_VMUH_DU 0x70898000 [FPR_VD, FPR_VJ, FPR_VK],
    Fmt LISA_VMUH_BU_B 0x708a0000 [FPR_VD, FPR_VJ, FPR_VK],
    Fmt LISA_VMUH_HU_H 0x708a8000 [FPR_VD, FPR_VJ, FPR_VK],
    Fmt LISA_VMUH_WU_W 0x708b0000 [FPR_VD, FPR_VJ, FPR_VK],
    Fmt LISA_VMUH_DU_D 0x708b8000 [FPR_VD, FPR_VJ, FPR_VK],
    Fmt LISA_VMULXW_H_B 0x708c0000 [FPR_VD, FPR_VJ, FPR_VK],
    Fmt LISA_VMULXW_W_H 0x708c8000 [FPR_VD, FPR_VJ, FPR_VK],
    Fmt LISA_VMULXW_D_W 0x708d0000 [FPR_VD, FPR_VJ, FPR_VK],
    Fmt LISA_VMULXW_H_BU 0x708e0000 [FPR_VD, FPR_VJ, FPR_VK],
    Fmt LISA_VMULXW_W_HU 0x708e8000 [FPR_VD, FPR_VJ, FPR_VK],
    Fmt LISA_VMULXW_D_WU 0x708f0000 [FPR_VD, FPR_VJ, FPR_VK],
    Fmt LISA_VMULWEV_H_B 0x70900000 [FPR_VD, FPR_VJ, FPR_VK],
    Fmt LISA_VMULWEV_W_H 0x70908000 [FPR_VD, FPR_VJ, FPR_VK],
    Fmt LISA_VMULWEV_D_W 0x70910000 [FPR_VD, FPR_VJ, FPR_VK],
    Fmt LISA_VMULWEV_Q_D 0x70918000 [FPR_VD, FPR_VJ, FPR_VK],
    Fmt LISA_VMULWOD_H_B 0x70920000 [FPR_VD, FPR_VJ, FPR_VK],
    Fmt LISA_VMULWOD_W_H 0x70928000 [FPR_VD, FPR_VJ, FPR_VK],
    Fmt LISA_VMULWOD_D_W 0x70930000 [FPR_VD, FPR_VJ, FPR_VK],
    Fmt LISA_VMULWOD_Q_D 0x70938000 [FPR_VD, FPR_VJ, FPR_VK],
    Fmt LISA_VMULWL_H_B 0x70940000 [FPR_VD, FPR_VJ, FPR_VK],
    Fmt LISA_VMULWL_W_H 0x70948000 [FPR_VD, FPR_VJ, FPR_VK],
    Fmt LISA_VMULWL_D_W 0x70950000 [FPR_VD, FPR_VJ, FPR_VK],
    Fmt LISA_VMULWL_Q_D 0x70958000 [FPR_VD, FPR_VJ, FPR_VK],
    Fmt LISA_VMULWH_H_B 0x70960000 [FPR_VD, FPR_VJ, FPR_VK],
    Fmt LISA_VMULWH_W_H 0x70968000 [FPR_VD, FPR_VJ, FPR_VK],
    Fmt LISA_VMULWH_D_W 0x70970000 [FPR_VD, FPR_VJ, FPR_VK],
    Fmt LISA_VMULWH_Q_D 0x70978000 [FPR_VD, FPR_VJ, FPR_VK],
    Fmt LISA_VMULWEV_H_BU 0x70980000 [FPR_VD, FPR_VJ, FPR_VK],
    Fmt LISA_VMULWEV_W_HU 0x70988000 [FPR_VD, FPR_VJ, FPR_VK],
    Fmt LISA_VMULWEV_D_WU 0x70990000 [FPR_VD, FPR_VJ, FPR_VK],
    Fmt LISA_VMULWEV_Q_DU 0x70998000 [FPR_VD, FPR_VJ, FPR_VK],
    Fmt LISA_VMULWOD_H_BU 0x709a0000 [FPR_VD, FPR_VJ, FPR_VK],
    Fmt LISA_VMULWOD_W_HU 0x709a8000 [FPR_VD, FPR_VJ, FPR_VK],
    Fmt LISA_VMULWOD_D_WU 0x709b0000 [FPR_VD, FPR_VJ, FPR_VK],
    Fmt LISA_VMULWOD_Q_DU 0x709b8000 [FPR_VD, FPR_VJ, FPR_VK],
    Fmt LISA_VMULWL_H_BU 0x709c0000 [FPR_VD, FPR_VJ, FPR_VK],
    Fmt LISA_VMULWL_W_HU 0x709c8000 [FPR_VD, FPR_VJ, FPR_VK],
    Fmt LISA_VMULWL_D_WU 0x709d0000 [FPR_VD, FPR_VJ, FPR_VK],
    Fmt LISA_VMULWL_Q_DU 0x709d8000 [FPR_VD, FPR_VJ, FPR_VK],
    Fmt LISA_VMULWH_H_BU 0x709e0000 [FPR_VD, FPR_VJ, FPR_VK],
    Fmt LISA_VMULWH_W_HU 0x709e8000 [FPR_VD, FPR_VJ, FPR_VK],
    Fmt LISA_VMULWH_D_WU 0x709f0000 [FPR_VD, FPR_VJ, FPR_VK],
    Fmt LISA_VMULWH_Q_DU 0x709f8000 [FPR_VD, FPR_VJ, FPR_VK],
    Fmt LISA_VMULWEV_H_BU_B 0x70a00000 [FPR_VD, FPR_VJ, FPR_VK],
    Fmt LISA_VMULWEV_W_HU_H 0x70a08000 [FPR_VD, FPR_VJ, FPR_VK],
    Fmt LISA_VMULWEV_D_WU_W 0x70a10000 [FPR_VD, FPR_VJ, FPR_VK],
    Fmt LISA_VMULWEV_Q_DU_D 0x70a18000 [FPR_VD, FPR_VJ, FPR_VK],
    Fmt LISA_VMULWOD_H_BU_B 0x70a20000 [FPR_VD, FPR_VJ, FPR_VK],
    Fmt LISA_VMULWOD_W_HU_H 0x70a28000 [FPR_VD, FPR_VJ, FPR_VK],
    Fmt LISA_VMULWOD_D_WU_W 0x70a30000 [FPR_VD, FPR_VJ, FPR_VK],
    Fmt LISA_VMULWOD_Q_DU_D 0x70a38000 [FPR_VD, FPR_VJ, FPR_VK],
    Fmt LISA_VMULWL_H_BU_B 0x70a40000 [FPR_VD, FPR_VJ, FPR_VK],
    Fmt LISA_VMULWL_W_HU_H 0x70a48000 [FPR_VD, FPR_VJ, FPR_VK],
    Fmt LISA_VMULWL_D_WU_W 0x70a50000 [FPR_VD, FPR_VJ, FPR_VK],
    Fmt LISA_VMULWL_Q_DU_D 0x70a58000 [FPR_VD, FPR_VJ, FPR_VK],
    Fmt LISA_VMULWH_H_BU_B 0x70a60000 [FPR_VD, FPR_VJ, FPR_VK],
    Fmt LISA_VMULWH_W_HU_H 0x70a68000 [FPR_VD, FPR_VJ, FPR_VK],
    Fmt LISA_VMULWH_D_WU_W 0x70a70000 [FPR_VD, FPR_VJ, FPR_VK],
    Fmt LISA_VMULWH_Q_DU_D 0x70a78000 [FPR_VD, FPR_VJ, FPR_VK],
    Fmt LISA_VMADD_B 0x70a80000 [FPR_VD, FPR_VJ, FPR_VK],
    Fmt LISA_VMADD_H 0x70a88000 [FPR_VD, FPR_VJ, FPR_VK],
    Fmt LISA_VMADD_W 0x70a90000 [FPR_VD, FPR_VJ, FPR_VK],
    Fmt LISA_VMADD_D 0x70a98000 [FPR_VD, FPR_VJ, FPR_VK],
    Fmt LISA_VMSUB_B 0x70aa0000 [FPR_VD, FPR_VJ, FPR_VK],
    Fmt LISA_VMSUB_H 0x70aa8000 [FPR_VD, FPR_VJ, FPR_VK],
    Fmt LISA_VMSUB_W 0x70ab0000 [FPR_VD, FPR_VJ, FPR_VK],
    Fmt LISA_VMSUB_D 0x70ab8000 [FPR_VD, FPR_VJ, FPR_VK],
    Fmt LISA_VMADDWEV_H_B 0x70ac0000 [FPR_VD, FPR_VJ, FPR_VK],
    Fmt LISA_VMADDWEV_W_H 0x70ac8000 [FPR_VD, FPR_VJ, FPR_VK],
    Fmt LISA_VMADDWEV_D_W 0x70ad0000 [FPR_VD, FPR_VJ, FPR_VK],
    Fmt LISA_VMADDWEV_Q_D 0x70ad8000 [FPR_VD, FPR_VJ, FPR_VK],
    Fmt LISA_VMADDWOD_H_B 0x70ae0000 [FPR_VD, FPR_VJ, FPR_VK],
    Fmt LISA_VMADDWOD_W_H 0x70ae8000 [FPR_VD, FPR_VJ, FPR_VK],
    Fmt LISA_VMADDWOD_D_W 0x70af0000 [FPR_VD, FPR_VJ, FPR_VK],
    Fmt LISA_VMADDWOD_Q_D 0x70af8000 [FPR_VD, FPR_VJ, FPR_VK]]"

definition lisa_rows_7191 :: "la_format list" where
  "lisa_rows_7191 = [
    Fmt LISA_VMADDWL_H_B 0x70b00000 [FPR_VD, FPR_VJ, FPR_VK],
    Fmt LISA_VMADDWL_W_H 0x70b08000 [FPR_VD, FPR_VJ, FPR_VK],
    Fmt LISA_VMADDWL_D_W 0x70b10000 [FPR_VD, FPR_VJ, FPR_VK],
    Fmt LISA_VMADDWL_Q_D 0x70b18000 [FPR_VD, FPR_VJ, FPR_VK],
    Fmt LISA_VMADDWH_H_B 0x70b20000 [FPR_VD, FPR_VJ, FPR_VK],
    Fmt LISA_VMADDWH_W_H 0x70b28000 [FPR_VD, FPR_VJ, FPR_VK],
    Fmt LISA_VMADDWH_D_W 0x70b30000 [FPR_VD, FPR_VJ, FPR_VK],
    Fmt LISA_VMADDWH_Q_D 0x70b38000 [FPR_VD, FPR_VJ, FPR_VK],
    Fmt LISA_VMADDWEV_H_BU 0x70b40000 [FPR_VD, FPR_VJ, FPR_VK],
    Fmt LISA_VMADDWEV_W_HU 0x70b48000 [FPR_VD, FPR_VJ, FPR_VK],
    Fmt LISA_VMADDWEV_D_WU 0x70b50000 [FPR_VD, FPR_VJ, FPR_VK],
    Fmt LISA_VMADDWEV_Q_DU 0x70b58000 [FPR_VD, FPR_VJ, FPR_VK],
    Fmt LISA_VMADDWOD_H_BU 0x70b60000 [FPR_VD, FPR_VJ, FPR_VK],
    Fmt LISA_VMADDWOD_W_HU 0x70b68000 [FPR_VD, FPR_VJ, FPR_VK],
    Fmt LISA_VMADDWOD_D_WU 0x70b70000 [FPR_VD, FPR_VJ, FPR_VK],
    Fmt LISA_VMADDWOD_Q_DU 0x70b78000 [FPR_VD, FPR_VJ, FPR_VK],
    Fmt LISA_VMADDWL_H_BU 0x70b80000 [FPR_VD, FPR_VJ, FPR_VK],
    Fmt LISA_VMADDWL_W_HU 0x70b88000 [FPR_VD, FPR_VJ, FPR_VK],
    Fmt LISA_VMADDWL_D_WU 0x70b90000 [FPR_VD, FPR_VJ, FPR_VK],
    Fmt LISA_VMADDWL_Q_DU 0x70b98000 [FPR_VD, FPR_VJ, FPR_VK],
    Fmt LISA_VMADDWH_H_BU 0x70ba0000 [FPR_VD, FPR_VJ, FPR_VK],
    Fmt LISA_VMADDWH_W_HU 0x70ba8000 [FPR_VD, FPR_VJ, FPR_VK],
    Fmt LISA_VMADDWH_D_WU 0x70bb0000 [FPR_VD, FPR_VJ, FPR_VK],
    Fmt LISA_VMADDWH_Q_DU 0x70bb8000 [FPR_VD, FPR_VJ, FPR_VK],
    Fmt LISA_VMADDWEV_H_BU_B 0x70bc0000 [FPR_VD, FPR_VJ, FPR_VK],
    Fmt LISA_VMADDWEV_W_HU_H 0x70bc8000 [FPR_VD, FPR_VJ, FPR_VK],
    Fmt LISA_VMADDWEV_D_WU_W 0x70bd0000 [FPR_VD, FPR_VJ, FPR_VK],
    Fmt LISA_VMADDWEV_Q_DU_D 0x70bd8000 [FPR_VD, FPR_VJ, FPR_VK],
    Fmt LISA_VMADDWOD_H_BU_B 0x70be0000 [FPR_VD, FPR_VJ, FPR_VK],
    Fmt LISA_VMADDWOD_W_HU_H 0x70be8000 [FPR_VD, FPR_VJ, FPR_VK],
    Fmt LISA_VMADDWOD_D_WU_W 0x70bf0000 [FPR_VD, FPR_VJ, FPR_VK],
    Fmt LISA_VMADDWOD_Q_DU_D 0x70bf8000 [FPR_VD, FPR_VJ, FPR_VK],
    Fmt LISA_VMADDWL_H_BU_B 0x70c00000 [FPR_VD, FPR_VJ, FPR_VK],
    Fmt LISA_VMADDWL_W_HU_H 0x70c08000 [FPR_VD, FPR_VJ, FPR_VK],
    Fmt LISA_VMADDWL_D_WU_W 0x70c10000 [FPR_VD, FPR_VJ, FPR_VK],
    Fmt LISA_VMADDWL_Q_DU_D 0x70c18000 [FPR_VD, FPR_VJ, FPR_VK],
    Fmt LISA_VMADDWH_H_BU_B 0x70c20000 [FPR_VD, FPR_VJ, FPR_VK],
    Fmt LISA_VMADDWH_W_HU_H 0x70c28000 [FPR_VD, FPR_VJ, FPR_VK],
    Fmt LISA_VMADDWH_D_WU_W 0x70c30000 [FPR_VD, FPR_VJ, FPR_VK],
    Fmt LISA_VMADDWH_Q_DU_D 0x70c38000 [FPR_VD, FPR_VJ, FPR_VK],
    Fmt LISA_VDP2_H_B 0x70c40000 [FPR_VD, FPR_VJ, FPR_VK],
    Fmt LISA_VDP2_W_H 0x70c48000 [FPR_VD, FPR_VJ, FPR_VK],
    Fmt LISA_VDP2_D_W 0x70c50000 [FPR_VD, FPR_VJ, FPR_VK],
    Fmt LISA_VDP2_Q_D 0x70c58000 [FPR_VD, FPR_VJ, FPR_VK],
    Fmt LISA_VDP2_HU_BU 0x70c60000 [FPR_VD, FPR_VJ, FPR_VK],
    Fmt LISA_VDP2_WU_HU 0x70c68000 [FPR_VD, FPR_VJ, FPR_VK],
    Fmt LISA_VDP2_DU_WU 0x70c70000 [FPR_VD, FPR_VJ, FPR_VK],
    Fmt LISA_VDP2_QU_DU 0x70c78000 [FPR_VD, FPR_VJ, FPR_VK],
    Fmt LISA_VDP2_H_BU_B 0x70c80000 [FPR_VD, FPR_VJ, FPR_VK],
    Fmt LISA_VDP2_W_HU_H 0x70c88000 [FPR_VD, FPR_VJ, FPR_VK],
    Fmt LISA_VDP2_D_WU_W 0x70c90000 [FPR_VD, FPR_VJ, FPR_VK],
    Fmt LISA_VDP2_Q_DU_D 0x70c98000 [FPR_VD, FPR_VJ, FPR_VK],
    Fmt LISA_VDP2ADD_H_B 0x70ca0000 [FPR_VD, FPR_VJ, FPR_VK],
    Fmt LISA_VDP2ADD_W_H 0x70ca8000 [FPR_VD, FPR_VJ, FPR_VK],
    Fmt LISA_VDP2ADD_D_W 0x70cb0000 [FPR_VD, FPR_VJ, FPR_VK],
    Fmt LISA_VDP2ADD_Q_D 0x70cb8000 [FPR_VD, FPR_VJ, FPR_VK],
    Fmt LISA_VDP2ADD_H_BU 0x70cc0000 [FPR_VD, FPR_VJ, FPR_VK],
    Fmt LISA_VDP2ADD_W_HU 0x70cc8000 [FPR_VD, FPR_VJ, FPR_VK],
    Fmt LISA_VDP2ADD_D_WU 0x70cd0000 [FPR_VD, FPR_VJ, FPR_VK],
    Fmt LISA_VDP2ADD_Q_DU 0x70cd8000 [FPR_VD, FPR_VJ, FPR_VK],
    Fmt LISA_VDP2ADD_H_BU_B 0x70ce0000 [FPR_VD, FPR_VJ, FPR_VK],
    Fmt LISA_VDP2ADD_W_HU_H 0x70ce8000 [FPR_VD, FPR_VJ, FPR_VK],
    Fmt LISA_VDP2ADD_D_WU_W 0x70cf0000 [FPR_VD, FPR_VJ, FPR_VK],
    Fmt LISA_VDP2ADD_Q_DU_D 0x70cf8000 [FPR_VD, FPR_VJ, FPR_VK],
    Fmt LISA_VDP2SUB_H_B 0x70d00000 [FPR_VD, FPR_VJ, FPR_VK],
    Fmt LISA_VDP2SUB_W_H 0x70d08000 [FPR_VD, FPR_VJ, FPR_VK],
    Fmt LISA_VDP2SUB_D_W 0x70d10000 [FPR_VD, FPR_VJ, FPR_VK],
    Fmt LISA_VDP2SUB_Q_D 0x70d18000 [FPR_VD, FPR_VJ, FPR_VK],
    Fmt LISA_VDP2SUB_H_BU 0x70d20000 [FPR_VD, FPR_VJ, FPR_VK],
    Fmt LISA_VDP2SUB_W_HU 0x70d28000 [FPR_VD, FPR_VJ, FPR_VK],
    Fmt LISA_VDP2SUB_D_WU 0x70d30000 [FPR_VD, FPR_VJ, FPR_VK],
    Fmt LISA_VDP2SUB_Q_DU 0x70d38000 [FPR_VD, FPR_VJ, FPR_VK],
    Fmt LISA_VDP4_W_B 0x70d40000 [FPR_VD, FPR_VJ, FPR_VK],
    Fmt LISA_VDP4_D_H 0x70d48000 [FPR_VD, FPR_VJ, FPR_VK],
    Fmt LISA_VDP4_Q_W 0x70d50000 [FPR_VD, FPR_VJ, FPR_VK],
    Fmt LISA_VDP4_W_BU 0x70d60000 [FPR_VD, FPR_VJ, FPR_VK],
    Fmt LISA_VDP4_D_HU 0x70d68000 [FPR_VD, FPR_VJ, FPR_VK],
    Fmt LISA_VDP4_Q_WU 0x70d70000 [FPR_VD, FPR_VJ, FPR_VK],
    Fmt LISA_VDP4_W_BU_B 0x70d80000 [FPR_VD, FPR_VJ, FPR_VK],
    Fmt LISA_VDP4_D_HU_H 0x70d88000 [FPR_VD, FPR_VJ, FPR_VK],
    Fmt LISA_VDP4_Q_WU_W 0x70d90000 [FPR_VD, FPR_VJ, FPR_VK],
    Fmt LISA_VDP4ADD_W_B 0x70da0000 [FPR_VD, FPR_VJ, FPR_VK],
    Fmt LISA_VDP4ADD_D_H 0x70da8000 [FPR_VD, FPR_VJ, FPR_VK],
    Fmt LISA_VDP4ADD_Q_W 0x70db0000 [FPR_VD, FPR_VJ, FPR_VK],
    Fmt LISA_VDP4ADD_W_BU 0x70dc0000 [FPR_VD, FPR_VJ, FPR_VK],
    Fmt LISA_VDP4ADD_D_HU 0x70dc8000 [FPR_VD, FPR_VJ, FPR_VK],
    Fmt LISA_VDP4ADD_Q_WU 0x70dd0000 [FPR_VD, FPR_VJ, FPR_VK],
    Fmt LISA_VDP4ADD_W_BU_B 0x70de0000 [FPR_VD, FPR_VJ, FPR_VK],
    Fmt LISA_VDP4ADD_D_HU_H 0x70de8000 [FPR_VD, FPR_VJ, FPR_VK],
    Fmt LISA_VDP4ADD_Q_WU_W 0x70df0000 [FPR_VD, FPR_VJ, FPR_VK],
    Fmt LISA_VDIV_B 0x70e00000 [FPR_VD, FPR_VJ, FPR_VK],
    Fmt LISA_VDIV_H 0x70e08000 [FPR_VD, FPR_VJ, FPR_VK],
    Fmt LISA_VDIV_W 0x70e10000 [FPR_VD, FPR_VJ, FPR_VK],
    Fmt LISA_VDIV_D 0x70e18000 [FPR_VD, FPR_VJ, FPR_VK],
    Fmt LISA_VMOD_B 0x70e20000 [FPR_VD, FPR_VJ, FPR_VK],
    Fmt LISA_VMOD_H 0x70e28000 [FPR_VD, FPR_VJ, FPR_VK],
    Fmt LISA_VMOD_W 0x70e30000 [FPR_VD, FPR_VJ, FPR_VK],
    Fmt LISA_VMOD_D 0x70e38000 [FPR_VD, FPR_VJ, FPR_VK],
    Fmt LISA_VDIV_BU 0x70e40000 [FPR_VD, FPR_VJ, FPR_VK],
    Fmt LISA_VDIV_HU 0x70e48000 [FPR_VD, FPR_VJ, FPR_VK],
    Fmt LISA_VDIV_WU 0x70e50000 [FPR_VD, FPR_VJ, FPR_VK],
    Fmt LISA_VDIV_DU 0x70e58000 [FPR_VD, FPR_VJ, FPR_VK],
    Fmt LISA_VMOD_BU 0x70e60000 [FPR_VD, FPR_VJ, FPR_VK],
    Fmt LISA_VMOD_HU 0x70e68000 [FPR_VD, FPR_VJ, FPR_VK],
    Fmt LISA_VMOD_WU 0x70e70000 [FPR_VD, FPR_VJ, FPR_VK],
    Fmt LISA_VMOD_DU 0x70e78000 [FPR_VD, FPR_VJ, FPR_VK],
    Fmt LISA_VSLL_B 0x70e80000 [FPR_VD, FPR_VJ, FPR_VK],
    Fmt LISA_VSLL_H 0x70e88000 [FPR_VD, FPR_VJ, FPR_VK],
    Fmt LISA_VSLL_W 0x70e90000 [FPR_VD, FPR_VJ, FPR_VK],
    Fmt LISA_VSLL_D 0x70e98000 [FPR_VD, FPR_VJ, FPR_VK],
    Fmt LISA_VSRL_B 0x70ea0000 [FPR_VD, FPR_VJ, FPR_VK],
    Fmt LISA_VSRL_H 0x70ea8000 [FPR_VD, FPR_VJ, FPR_VK],
    Fmt LISA_VSRL_W 0x70eb0000 [FPR_VD, FPR_VJ, FPR_VK],
    Fmt LISA_VSRL_D 0x70eb8000 [FPR_VD, FPR_VJ, FPR_VK],
    Fmt LISA_VSRA_B 0x70ec0000 [FPR_VD, FPR_VJ, FPR_VK],
    Fmt LISA_VSRA_H 0x70ec8000 [FPR_VD, FPR_VJ, FPR_VK],
    Fmt LISA_VSRA_W 0x70ed0000 [FPR_VD, FPR_VJ, FPR_VK],
    Fmt LISA_VSRA_D 0x70ed8000 [FPR_VD, FPR_VJ, FPR_VK],
    Fmt LISA_VROTR_B 0x70ee0000 [FPR_VD, FPR_VJ, FPR_VK],
    Fmt LISA_VROTR_H 0x70ee8000 [FPR_VD, FPR_VJ, FPR_VK],
    Fmt LISA_VROTR_W 0x70ef0000 [FPR_VD, FPR_VJ, FPR_VK],
    Fmt LISA_VROTR_D 0x70ef8000 [FPR_VD, FPR_VJ, FPR_VK],
    Fmt LISA_VSRLR_B 0x70f00000 [FPR_VD, FPR_VJ, FPR_VK],
    Fmt LISA_VSRLR_H 0x70f08000 [FPR_VD, FPR_VJ, FPR_VK],
    Fmt LISA_VSRLR_W 0x70f10000 [FPR_VD, FPR_VJ, FPR_VK],
    Fmt LISA_VSRLR_D 0x70f18000 [FPR_VD, FPR_VJ, FPR_VK],
    Fmt LISA_VSRAR_B 0x70f20000 [FPR_VD, FPR_VJ, FPR_VK],
    Fmt LISA_VSRAR_H 0x70f28000 [FPR_VD, FPR_VJ, FPR_VK],
    Fmt LISA_VSRAR_W 0x70f30000 [FPR_VD, FPR_VJ, FPR_VK],
    Fmt LISA_VSRAR_D 0x70f38000 [FPR_VD, FPR_VJ, FPR_VK],
    Fmt LISA_VSRLN_B_H 0x70f48000 [FPR_VD, FPR_VJ, FPR_VK],
    Fmt LISA_VSRLN_H_W 0x70f50000 [FPR_VD, FPR_VJ, FPR_VK],
    Fmt LISA_VSRLN_W_D 0x70f58000 [FPR_VD, FPR_VJ, FPR_VK],
    Fmt LISA_VSRAN_B_H 0x70f68000 [FPR_VD, FPR_VJ, FPR_VK],
    Fmt LISA_VSRAN_H_W 0x70f70000 [FPR_VD, FPR_VJ, FPR_VK],
    Fmt LISA_VSRAN_W_D 0x70f78000 [FPR_VD, FPR_VJ, FPR_VK],
    Fmt LISA_VSRLRN_B_H 0x70f88000 [FPR_VD, FPR_VJ, FPR_VK],
    Fmt LISA_VSRLRN_H_W 0x70f90000 [FPR_VD, FPR_VJ, FPR_VK],
    Fmt LISA_VSRLRN_W_D 0x70f98000 [FPR_VD, FPR_VJ, FPR_VK],
    Fmt LISA_VSRARN_B_H 0x70fa8000 [FPR_VD, FPR_VJ, FPR_VK],
    Fmt LISA_VSRARN_H_W 0x70fb0000 [FPR_VD, FPR_VJ, FPR_VK],
    Fmt LISA_VSRARN_W_D 0x70fb8000 [FPR_VD, FPR_VJ, FPR_VK],
    Fmt LISA_VSSRLN_B_H 0x70fc8000 [FPR_VD, FPR_VJ, FPR_VK],
    Fmt LISA_VSSRLN_H_W 0x70fd0000 [FPR_VD, FPR_VJ, FPR_VK],
    Fmt LISA_VSSRLN_W_D 0x70fd8000 [FPR_VD, FPR_VJ, FPR_VK],
    Fmt LISA_VSSRAN_B_H 0x70fe8000 [FPR_VD, FPR_VJ, FPR_VK],
    Fmt LISA_VSSRAN_H_W 0x70ff0000 [FPR_VD, FPR_VJ, FPR_VK],
    Fmt LISA_VSSRAN_W_D 0x70ff8000 [FPR_VD, FPR_VJ, FPR_VK],
    Fmt LISA_VSSRLRN_B_H 0x71008000 [FPR_VD, FPR_VJ, FPR_VK],
    Fmt LISA_VSSRLRN_H_W 0x71010000 [FPR_VD, FPR_VJ, FPR_VK],
    Fmt LISA_VSSRLRN_W_D 0x71018000 [FPR_VD, FPR_VJ, FPR_VK],
    Fmt LISA_VSSRARN_B_H 0x71028000 [FPR_VD, FPR_VJ, FPR_VK],
    Fmt LISA_VSSRARN_H_W 0x71030000 [FPR_VD, FPR_VJ, FPR_VK],
    Fmt LISA_VSSRARN_W_D 0x71038000 [FPR_VD, FPR_VJ, FPR_VK],
    Fmt LISA_VSSRLN_BU_H 0x71048000 [FPR_VD, FPR_VJ, FPR_VK],
    Fmt LISA_VSSRLN_HU_W 0x71050000 [FPR_VD, FPR_VJ, FPR_VK],
    Fmt LISA_VSSRLN_WU_D 0x71058000 [FPR_VD, FPR_VJ, FPR_VK],
    Fmt LISA_VSSRAN_BU_H 0x71068000 [FPR_VD, FPR_VJ, FPR_VK],
    Fmt LISA_VSSRAN_HU_W 0x71070000 [FPR_VD, FPR_VJ, FPR_VK],
    Fmt LISA_VSSRAN_WU_D 0x71078000 [FPR_VD, FPR_VJ, FPR_VK],
    Fmt LISA_VSSRLRN_BU_H 0x71088000 [FPR_VD, FPR_VJ, FPR_VK],
    Fmt LISA_VSSRLRN_HU_W 0x71090000 [FPR_VD, FPR_VJ, FPR_VK],
    Fmt LISA_VSSRLRN_WU_D 0x71098000 [FPR_VD, FPR_VJ, FPR_VK],
    Fmt LISA_VSSRARN_BU_H 0x710a8000 [FPR_VD, FPR_VJ, FPR_VK],
    Fmt LISA_VSSRARN_HU_W 0x710b0000 [FPR_VD, FPR_VJ, FPR_VK],
    Fmt LISA_VSSRARN_WU_D 0x710b8000 [FPR_VD, FPR_VJ, FPR_VK],
    Fmt LISA_VBITCLR_B 0x710c0000 [FPR_VD, FPR_VJ, FPR_VK],
    Fmt LISA_VBITCLR_H 0x710c8000 [FPR_VD, FPR_VJ, FPR_VK],
    Fmt LISA_VBITCLR_W 0x710d0000 [FPR_VD, FPR_VJ, FPR_VK],
    Fmt LISA_VBITCLR_D 0x710d8000 [FPR_VD, FPR_VJ, FPR_VK],
    Fmt LISA_VBITSET_B 0x710e0000 [FPR_VD, FPR_VJ, FPR_VK],
    Fmt LISA_VBITSET_H 0x710e8000 [FPR_VD, FPR_VJ, FPR_VK],
    Fmt LISA_VBITSET_W 0x710f0000 [FPR_VD, FPR_VJ, FPR_VK],
    Fmt LISA_VBITSET_D 0x710f8000 [FPR_VD, FPR_VJ, FPR_VK],
    Fmt LISA_VBITREV_B 0x71100000 [FPR_VD, FPR_VJ, FPR_VK],
    Fmt LISA_VBITREV_H 0x71108000 [FPR_VD, FPR_VJ, FPR_VK],
    Fmt LISA_VBITREV_W 0x71110000 [FPR_VD, FPR_VJ, FPR_VK],
    Fmt LISA_VBITREV_D 0x71118000 [FPR_VD, FPR_VJ, FPR_VK],
    Fmt LISA_VBSTRC12_B 0x71120000 [FPR_VD, FPR_VJ, FPR_VK],
    Fmt LISA_VBSTRC12_H 0x71128000 [FPR_VD, FPR_VJ, FPR_VK],
    Fmt LISA_VBSTRC12_W 0x71130000 [FPR_VD, FPR_VJ, FPR_VK],
    Fmt LISA_VBSTRC12_D 0x71138000 [FPR_VD, FPR_VJ, FPR_VK],
    Fmt LISA_VBSTRC21_B 0x71140000 [FPR_VD, FPR_VJ, FPR_VK],
    Fmt LISA_VBSTRC21_H 0x71148000 [FPR_VD, FPR_VJ, FPR_VK],
    Fmt LISA_VBSTRC21_W 0x71150000 [FPR_VD, FPR_VJ, FPR_VK],
    Fmt LISA_VBSTRC21_D 0x71158000 [FPR_VD, FPR_VJ, FPR_VK],
    Fmt LISA_VPACKEV_B 0x71160000 [FPR_VD, FPR_VJ, FPR_VK],
    Fmt LISA_VPACKEV_H 0x71168000 [FPR_VD, FPR_VJ, FPR_VK],
    Fmt LISA_VPACKEV_W 0x71170000 [FPR_VD, FPR_VJ, FPR_VK],
    Fmt LISA_VPACKEV_D 0x71178000 [FPR_VD, FPR_VJ, FPR_VK],
    Fmt LISA_VPACKOD_B 0x71180000 [FPR_VD, FPR_VJ, FPR_VK],
    Fmt LISA_VPACKOD_H 0x71188000 [FPR_VD, FPR_VJ, FPR_VK],
    Fmt LISA_VPACKOD_W 0x71190000 [FPR_VD, FPR_VJ, FPR_VK],
    Fmt LISA_VPACKOD_D 0x71198000 [FPR_VD, FPR_VJ, FPR_VK],
    Fmt LISA_VILVL_B 0x711a0000 [FPR_VD, FPR_VJ, FPR_VK],
    Fmt LISA_VILVL_H 0x711a8000 [FPR_VD, FPR_VJ, FPR_VK],
    Fmt LISA_VILVL_W 0x711b0000 [FPR_VD, FPR_VJ, FPR_VK],
    Fmt LISA_VILVL_D 0x711b8000 [FPR_VD, FPR_VJ, FPR_VK],
    Fmt LISA_VILVH_B 0x711c0000 [FPR_VD, FPR_VJ, FPR_VK],
    Fmt LISA_VILVH_H 0x711c8000 [FPR_VD, FPR_VJ, FPR_VK],
    Fmt LISA_VILVH_W 0x711d0000 [FPR_VD, FPR_VJ, FPR_VK],
    Fmt LISA_VILVH_D 0x711d8000 [FPR_VD, FPR_VJ, FPR_VK],
    Fmt LISA_VPICKEV_B 0x711e0000 [FPR_VD, FPR_VJ, FPR_VK],
    Fmt LISA_VPICKEV_H 0x711e8000 [FPR_VD, FPR_VJ, FPR_VK],
    Fmt LISA_VPICKEV_W 0x711f0000 [FPR_VD, FPR_VJ, FPR_VK],
    Fmt LISA_VPICKEV_D 0x711f8000 [FPR_VD, FPR_VJ, FPR_VK],
    Fmt LISA_VPICKOD_B 0x71200000 [FPR_VD, FPR_VJ, FPR_VK],
    Fmt LISA_VPICKOD_H 0x71208000 [FPR_VD, FPR_VJ, FPR_VK],
    Fmt LISA_VPICKOD_W 0x71210000 [FPR_VD, FPR_VJ, FPR_VK],
    Fmt LISA_VPICKOD_D 0x71218000 [FPR_VD, FPR_VJ, FPR_VK],
    Fmt LISA_VREPLVE_B 0x71220000 [FPR_VD, FPR_VJ, GPR_RK],
    Fmt LISA_VREPLVE_H 0x71228000 [FPR_VD, FPR_VJ, GPR_RK],
    Fmt LISA_VREPLVE_W 0x71230000 [FPR_VD, FPR_VJ, GPR_RK],
    Fmt LISA_VREPLVE_D 0x71238000 [FPR_VD, FPR_VJ, GPR_RK],
    Fmt LISA_VEXTRCOL_B 0x71240000 [FPR_VD, FPR_VJ, GPR_RK],
    Fmt LISA_VEXTRCOL_H 0x71248000 [FPR_VD, FPR_VJ, GPR_RK],
    Fmt LISA_VEXTRCOL_W 0x71250000 [FPR_VD, FPR_VJ, GPR_RK],
    Fmt LISA_VEXTRCOL_D 0x71258000 [FPR_VD, FPR_VJ, GPR_RK],
    Fmt LISA_VAND_V 0x71260000 [FPR_VD, FPR_VJ, FPR_VK],
    Fmt LISA_VOR_V 0x71268000 [FPR_VD, FPR_VJ, FPR_VK],
    Fmt LISA_VXOR_V 0x71270000 [FPR_VD, FPR_VJ, FPR_VK],
    Fmt LISA_VNOR_V 0x71278000 [FPR_VD, FPR_VJ, FPR_VK],
    Fmt LISA_VANDN_V 0x71280000 [FPR_VD, FPR_VJ, FPR_VK],
    Fmt LISA_VORN_V 0x71288000 [FPR_VD, FPR_VJ, FPR_VK],
    Fmt LISA_VRANDSIGN_B 0x71290000 [FPR_VD, FPR_VJ, FPR_VK]]"

definition lisa_rows_8991 :: "la_format list" where
  "lisa_rows_8991 = [
    Fmt LISA_VRANDSIGN_H 0x71298000 [FPR_VD, FPR_VJ, FPR_VK],
    Fmt LISA_VRORSIGN_B 0x712a0000 [FPR_VD, FPR_VJ, FPR_VK],
    Fmt LISA_VRORSIGN_H 0x712a8000 [FPR_VD, FPR_VJ, FPR_VK],
    Fmt LISA_VFRSTP_B 0x712b0000 [FPR_VD, FPR_VJ, FPR_VK],
    Fmt LISA_VFRSTP_H 0x712b8000 [FPR_VD, FPR_VJ, FPR_VK],
    Fmt LISA_VCLRSTRR_V 0x712c0000 [FPR_VD, FPR_VJ, GPR_RK],
    Fmt LISA_VCLRSTRV_V 0x712c8000 [FPR_VD, FPR_VJ, FPR_VK],
    Fmt LISA_VADD_Q 0x712d0000 [FPR_VD, FPR_VJ, FPR_VK],
    Fmt LISA_VSUB_Q 0x712d8000 [FPR_VD, FPR_VJ, FPR_VK],
    Fmt LISA_VSIGNCOV_B 0x712e0000 [FPR_VD, FPR_VJ, FPR_VK],
    Fmt LISA_VSIGNCOV_H 0x712e8000 [FPR_VD, FPR_VJ, FPR_VK],
    Fmt LISA_VSIGNCOV_W 0x712f0000 [FPR_VD, FPR_VJ, FPR_VK],
    Fmt LISA_VSIGNCOV_D 0x712f8000 [FPR_VD, FPR_VJ, FPR_VK],
    Fmt LISA_VFADD_S 0x71308000 [FPR_VD, FPR_VJ, FPR_VK],
    Fmt LISA_VFADD_D 0x71310000 [FPR_VD, FPR_VJ, FPR_VK],
    Fmt LISA_VFSUB_S 0x71328000 [FPR_VD, FPR_VJ, FPR_VK],
    Fmt LISA_VFSUB_D 0x71330000 [FPR_VD, FPR_VJ, FPR_VK],
    Fmt LISA_VFADDSUB_S 0x71348000 [FPR_VD, FPR_VJ, FPR_VK],
    Fmt LISA_VFADDSUB_D 0x71350000 [FPR_VD, FPR_VJ, FPR_VK],
    Fmt LISA_VFSUBADD_S 0x71368000 [FPR_VD, FPR_VJ, FPR_VK],
    Fmt LISA_VFSUBADD_D 0x71370000 [FPR_VD, FPR_VJ, FPR_VK],
    Fmt LISA_VFMUL_S 0x71388000 [FPR_VD, FPR_VJ, FPR_VK],
    Fmt LISA_VFMUL_D 0x71390000 [FPR_VD, FPR_VJ, FPR_VK],
    Fmt LISA_VFDIV_S 0x713a8000 [FPR_VD, FPR_VJ, FPR_VK],
    Fmt LISA_VFDIV_D 0x713b0000 [FPR_VD, FPR_VJ, FPR_VK],
    Fmt LISA_VFMAX_S 0x713c8000 [FPR_VD, FPR_VJ, FPR_VK],
    Fmt LISA_VFMAX_D 0x713d0000 [FPR_VD, FPR_VJ, FPR_VK],
    Fmt LISA_VFMIN_S 0x713e8000 [FPR_VD, FPR_VJ, FPR_VK],
    Fmt LISA_VFMIN_D 0x713f0000 [FPR_VD, FPR_VJ, FPR_VK],
    Fmt LISA_VFMAXA_S 0x71408000 [FPR_VD, FPR_VJ, FPR_VK],
    Fmt LISA_VFMAXA_D 0x71410000 [FPR_VD, FPR_VJ, FPR_VK],
    Fmt LISA_VFMINA_S 0x71428000 [FPR_VD, FPR_VJ, FPR_VK],
    Fmt LISA_VFMINA_D 0x71430000 [FPR_VD, FPR_VJ, FPR_VK],
    Fmt LISA_VFSCALEB_S 0x71448000 [FPR_VD, FPR_VJ, FPR_VK],
    Fmt LISA_VFSCALEB_D 0x71450000 [FPR_VD, FPR_VJ, FPR_VK],
    Fmt LISA_VFCVT_H_S 0x71460000 [FPR_VD, FPR_VJ, FPR_VK],
    Fmt LISA_VFCVT_S_D 0x71468000 [FPR_VD, FPR_VJ, FPR_VK],
    Fmt LISA_VFFINT_S_L 0x71480000 [FPR_VD, FPR_VJ, FPR_VK],
    Fmt LISA_VFTINT_W_D 0x71498000 [FPR_VD, FPR_VJ, FPR_VK],
    Fmt LISA_VFTINTRM_W_D 0x714a0000 [FPR_VD, FPR_VJ, FPR_VK],
    Fmt LISA_VFTINTRP_W_D 0x714a8000 [FPR_VD, FPR_VJ, FPR_VK],
    Fmt LISA_VFTINTRZ_W_D 0x714b0000 [FPR_VD, FPR_VJ, FPR_VK],
    Fmt LISA_VFTINTRNE_W_D 0x714b8000 [FPR_VD, FPR_VJ, FPR_VK],
    Fmt LISA_VHADD4_H_BU 0x714e8000 [FPR_VD, FPR_VJ, FPR_VK],
    Fmt LISA_VSHUF4_W 0x714f0000 [FPR_VD, FPR_VJ, FPR_VK],
    Fmt LISA_VSHUF2_D 0x714f8000 [FPR_VD, FPR_VJ, FPR_VK],
    Fmt LISA_AES128_ENC 0x71500000 [FPR_VD, FPR_VJ, FPR_VK],
    Fmt LISA_AES128_DEC 0x71508000 [FPR_VD, FPR_VJ, FPR_VK],
    Fmt LISA_AES192_ENC 0x71510000 [FPR_VD, FPR_VJ, FPR_VK],
    Fmt LISA_AES192_DEC 0x71518000 [FPR_VD, FPR_VJ, FPR_VK],
    Fmt LISA_AES256_ENC 0x71520000 [FPR_VD, FPR_VJ, FPR_VK],
    Fmt LISA_AES256_DEC 0x71528000 [FPR_VD, FPR_VJ, FPR_VK],
    Fmt LISA_AES_KG 0x71530000 [FPR_VD, FPR_VJ, FPR_VK],
    Fmt LISA_AES_FR_ENC 0x71538000 [FPR_VD, FPR_VJ, FPR_VK],
    Fmt LISA_AES_FR_DEC 0x71540000 [FPR_VD, FPR_VJ, FPR_VK],
    Fmt LISA_AES_LR_ENC 0x71548000 [FPR_VD, FPR_VJ, FPR_VK],
    Fmt LISA_AES_LR_DEC 0x71550000 [FPR_VD, FPR_VJ, FPR_VK],
    Fmt LISA_AES_MC_ENC 0x71558000 [FPR_VD, FPR_VJ],
    Fmt LISA_AES_MC_DEC 0x71560000 [FPR_VD, FPR_VJ],
    Fmt LISA_AES_SB_ENC 0x71568000 [FPR_VD, FPR_VJ],
    Fmt LISA_AES_SB_DEC 0x71570000 [FPR_VD, FPR_VJ],
    Fmt LISA_AES_SR_ENC 0x71578000 [FPR_VD, FPR_VJ],
    Fmt LISA_AES_SR_DEC 0x71580000 [FPR_VD, FPR_VJ],
    Fmt LISA_MD5_MS 0x71588000 [FPR_VD, FPR_VJ, FPR_VK],
    Fmt LISA_MD5_4R 0x71590000 [FPR_VD, FPR_VJ, FPR_VK],
    Fmt LISA_SHA1_MS_1 0x71598000 [FPR_VD, FPR_VJ, FPR_VK],
    Fmt LISA_SHA1_MS_2 0x715a0000 [FPR_VD, FPR_VJ, FPR_VK],
    Fmt LISA_SHA1_HASH_4R 0x715a8000 [FPR_VD, FPR_VJ, FPR_VK],
    Fmt LISA_SHA256_MS_1 0x715b0000 [FPR_VD, FPR_VJ, FPR_VK],
    Fmt LISA_SHA256_MS_2 0x715b8000 [FPR_VD, FPR_VJ, FPR_VK],
    Fmt LISA_SHA256_HASH_2R 0x715c0000 [FPR_VD, FPR_VJ, FPR_VK],
    Fmt LISA_SHA512_MS_1 0x715c8000 [FPR_VD, FPR_VJ, FPR_VK],
    Fmt LISA_SHA512_MS_2 0x715d0000 [FPR_VD, FPR_VJ, FPR_VK],
    Fmt LISA_SHA512_HASH_R_1 0x715d8000 [FPR_VD, FPR_VJ, FPR_VK],
    Fmt LISA_SHA512_HASH_R_2 0x715e0000 [FPR_VD, FPR_VJ, FPR_VK],
    Fmt LISA_VPMUL_W 0x71600000 [FPR_VD, FPR_VJ, FPR_VK],
    Fmt LISA_VPMUL_D 0x71608000 [FPR_VD, FPR_VJ, FPR_VK],
    Fmt LISA_VPMUH_W 0x71610000 [FPR_VD, FPR_VJ, FPR_VK],
    Fmt LISA_VPMUH_D 0x71618000 [FPR_VD, FPR_VJ, FPR_VK],
    Fmt LISA_VPMULACC_W 0x71620000 [FPR_VD, FPR_VJ, FPR_VK],
    Fmt LISA_VPMULACC_D 0x71628000 [FPR_VD, FPR_VJ, FPR_VK],
    Fmt LISA_VPMUHACC_W 0x71630000 [FPR_VD, FPR_VJ, FPR_VK],
    Fmt LISA_VPMUHACC_D 0x71638000 [FPR_VD, FPR_VJ, FPR_VK],
    Fmt LISA_VPMULWL_H_B 0x71640000 [FPR_VD, FPR_VJ, FPR_VK],
    Fmt LISA_VPMULWL_W_H 0x71648000 [FPR_VD, FPR_VJ, FPR_VK],
    Fmt LISA_VPMULWL_D_W 0x71650000 [FPR_VD, FPR_VJ, FPR_VK],
    Fmt LISA_VPMULWL_Q_D 0x71658000 [FPR_VD, FPR_VJ, FPR_VK],
    Fmt LISA_VPMULWH_H_B 0x71660000 [FPR_VD, FPR_VJ, FPR_VK],
    Fmt LISA_VPMULWH_W_H 0x71668000 [FPR_VD, FPR_VJ, FPR_VK],
    Fmt LISA_VPMULWH_D_W 0x71670000 [FPR_VD, FPR_VJ, FPR_VK],
    Fmt LISA_VPMULWH_Q_D 0x71678000 [FPR_VD, FPR_VJ, FPR_VK],
    Fmt LISA_VPMADDWL_H_B 0x71680000 [FPR_VD, FPR_VJ, FPR_VK],
    Fmt LISA_VPMADDWL_W_H 0x71688000 [FPR_VD, FPR_VJ, FPR_VK],
    Fmt LISA_VPMADDWL_D_W 0x71690000 [FPR_VD, FPR_VJ, FPR_VK],
    Fmt LISA_VPMADDWL_Q_D 0x71698000 [FPR_VD, FPR_VJ, FPR_VK],
    Fmt LISA_VPMADDWH_H_B 0x716a0000 [FPR_VD, FPR_VJ, FPR_VK],
    Fmt LISA_VPMADDWH_W_H 0x716a8000 [FPR_VD, FPR_VJ, FPR_VK],
    Fmt LISA_VPMADDWH_D_W 0x716b0000 [FPR_VD, FPR_VJ, FPR_VK],
    Fmt LISA_VPMADDWH_Q_D 0x716b8000 [FPR_VD, FPR_VJ, FPR_VK],
    Fmt LISA_VPDP2_Q_D 0x716c0000 [FPR_VD, FPR_VJ, FPR_VK],
    Fmt LISA_VPDP2ADD_Q_D 0x716c8000 [FPR_VD, FPR_VJ, FPR_VK],
    Fmt LISA_VCDP4_RE_D_H 0x71700000 [FPR_VD, FPR_VJ, FPR_VK],
    Fmt LISA_VCDP4_IM_D_H 0x71708000 [FPR_VD, FPR_VJ, FPR_VK],
    Fmt LISA_VCDP4ADD_RE_D_H 0x71710000 [FPR_VD, FPR_VJ, FPR_VK],
    Fmt LISA_VCDP4ADD_IM_D_H 0x71718000 [FPR_VD, FPR_VJ, FPR_VK],
    Fmt LISA_VCDP2_RE_Q_W 0x71720000 [FPR_VD, FPR_VJ, FPR_VK],
    Fmt LISA_VCDP2_IM_Q_W 0x71728000 [FPR_VD, FPR_VJ, FPR_VK],
    Fmt LISA_VCDP2ADD_RE_Q_W 0x71730000 [FPR_VD, FPR_VJ, FPR_VK],
    Fmt LISA_VCDP2ADD_IM_Q_W 0x71738000 [FPR_VD, FPR_VJ, FPR_VK],
    Fmt LISA_VSIGNSEL_W 0x71790000 [FPR_VD, FPR_VJ, FPR_VK],
    Fmt LISA_VSIGNSEL_D 0x71798000 [FPR_VD, FPR_VJ, FPR_VK],
    Fmt LISA_VSHUF_H 0x717a8000 [FPR_VD, FPR_VJ, FPR_VK],
    Fmt LISA_VSHUF_W 0x717b0000 [FPR_VD, FPR_VJ, FPR_VK],
    Fmt LISA_VSHUF_D 0x717b8000 [FPR_VD, FPR_VJ, FPR_VK],
    Fmt LISA_VSEQI_B 0x72800000 [FPR_VD, FPR_VJ, IMM_SI5],
    Fmt LISA_VSEQI_H 0x72808000 [FPR_VD, FPR_VJ, IMM_SI5],
    Fmt LISA_VSEQI_W 0x72810000 [FPR_VD, FPR_VJ, IMM_SI5],
    Fmt LISA_VSEQI_D 0x72818000 [FPR_VD, FPR_VJ, IMM_SI5],
    Fmt LISA_VSLEI_B 0x72820000 [FPR_VD, FPR_VJ, IMM_SI5],
    Fmt LISA_VSLEI_H 0x72828000 [FPR_VD, FPR_VJ, IMM_SI5],
    Fmt LISA_VSLEI_W 0x72830000 [FPR_VD, FPR_VJ, IMM_SI5],
    Fmt LISA_VSLEI_D 0x72838000 [FPR_VD, FPR_VJ, IMM_SI5],
    Fmt LISA_VSLEI_BU 0x72840000 [FPR_VD, FPR_VJ, IMM_UI5L],
    Fmt LISA_VSLEI_HU 0x72848000 [FPR_VD, FPR_VJ, IMM_UI5L],
    Fmt LISA_VSLEI_WU 0x72850000 [FPR_VD, FPR_VJ, IMM_UI5L],
    Fmt LISA_VSLEI_DU 0x72858000 [FPR_VD, FPR_VJ, IMM_UI5L],
    Fmt LISA_VSLTI_B 0x72860000 [FPR_VD, FPR_VJ, IMM_SI5],
    Fmt LISA_VSLTI_H 0x72868000 [FPR_VD, FPR_VJ, IMM_SI5],
    Fmt LISA_VSLTI_W 0x72870000 [FPR_VD, FPR_VJ, IMM_SI5],
    Fmt LISA_VSLTI_D 0x72878000 [FPR_VD, FPR_VJ, IMM_SI5],
    Fmt LISA_VSLTI_BU 0x72880000 [FPR_VD, FPR_VJ, IMM_UI5L],
    Fmt LISA_VSLTI_HU 0x72888000 [FPR_VD, FPR_VJ, IMM_UI5L],
    Fmt LISA_VSLTI_WU 0x72890000 [FPR_VD, FPR_VJ, IMM_UI5L],
    Fmt LISA_VSLTI_DU 0x72898000 [FPR_VD, FPR_VJ, IMM_UI5L],
    Fmt LISA_VADDI_BU 0x728a0000 [FPR_VD, FPR_VJ, IMM_UI5L],
    Fmt LISA_VADDI_HU 0x728a8000 [FPR_VD, FPR_VJ, IMM_UI5L],
    Fmt LISA_VADDI_WU 0x728b0000 [FPR_VD, FPR_VJ, IMM_UI5L],
    Fmt LISA_VADDI_DU 0x728b8000 [FPR_VD, FPR_VJ, IMM_UI5L],
    Fmt LISA_VSUBI_BU 0x728c0000 [FPR_VD, FPR_VJ, IMM_UI5L],
    Fmt LISA_VSUBI_HU 0x728c8000 [FPR_VD, FPR_VJ, IMM_UI5L],
    Fmt LISA_VSUBI_WU 0x728d0000 [FPR_VD, FPR_VJ, IMM_UI5L],
    Fmt LISA_VSUBI_DU 0x728d8000 [FPR_VD, FPR_VJ, IMM_UI5L],
    Fmt LISA_VBSLL_V 0x728e0000 [FPR_VD, FPR_VJ, IMM_UI5L],
    Fmt LISA_VBSRL_V 0x728e8000 [FPR_VD, FPR_VJ, IMM_UI5L],
    Fmt LISA_VMAXI_B 0x72900000 [FPR_VD, FPR_VJ, IMM_SI5],
    Fmt LISA_VMAXI_H 0x72908000 [FPR_VD, FPR_VJ, IMM_SI5],
    Fmt LISA_VMAXI_W 0x72910000 [FPR_VD, FPR_VJ, IMM_SI5],
    Fmt LISA_VMAXI_D 0x72918000 [FPR_VD, FPR_VJ, IMM_SI5],
    Fmt LISA_VMINI_B 0x72920000 [FPR_VD, FPR_VJ, IMM_SI5],
    Fmt LISA_VMINI_H 0x72928000 [FPR_VD, FPR_VJ, IMM_SI5],
    Fmt LISA_VMINI_W 0x72930000 [FPR_VD, FPR_VJ, IMM_SI5],
    Fmt LISA_VMINI_D 0x72938000 [FPR_VD, FPR_VJ, IMM_SI5],
    Fmt LISA_VMAXI_BU 0x72940000 [FPR_VD, FPR_VJ, IMM_UI5L],
    Fmt LISA_VMAXI_HU 0x72948000 [FPR_VD, FPR_VJ, IMM_UI5L],
    Fmt LISA_VMAXI_WU 0x72950000 [FPR_VD, FPR_VJ, IMM_UI5L],
    Fmt LISA_VMAXI_DU 0x72958000 [FPR_VD, FPR_VJ, IMM_UI5L],
    Fmt LISA_VMINI_BU 0x72960000 [FPR_VD, FPR_VJ, IMM_UI5L],
    Fmt LISA_VMINI_HU 0x72968000 [FPR_VD, FPR_VJ, IMM_UI5L],
    Fmt LISA_VMINI_WU 0x72970000 [FPR_VD, FPR_VJ, IMM_UI5L],
    Fmt LISA_VMINI_DU 0x72978000 [FPR_VD, FPR_VJ, IMM_UI5L],
    Fmt LISA_VRANDSIGNI_B 0x72980000 [FPR_VD, FPR_VJ, IMM_UI5L],
    Fmt LISA_VRANDSIGNI_H 0x72988000 [FPR_VD, FPR_VJ, IMM_UI5L],
    Fmt LISA_VRORSIGNI_B 0x72990000 [FPR_VD, FPR_VJ, IMM_UI5L],
    Fmt LISA_VRORSIGNI_H 0x72998000 [FPR_VD, FPR_VJ, IMM_UI5L],
    Fmt LISA_VFRSTPI_B 0x729a0000 [FPR_VD, FPR_VJ, IMM_UI5L],
    Fmt LISA_VFRSTPI_H 0x729a8000 [FPR_VD, FPR_VJ, IMM_UI5L],
    Fmt LISA_VCLRSTRI_V 0x729b0000 [FPR_VD, FPR_VJ, IMM_UI5L],
    Fmt LISA_VMEPATMSK_V 0x729b8000 [FPR_VD, IMM_MODE, IMM_UI5L],
    Fmt LISA_VCLO_B 0x729c0000 [FPR_VD, FPR_VJ],
    Fmt LISA_VCLO_H 0x729c0400 [FPR_VD, FPR_VJ],
    Fmt LISA_VCLO_W 0x729c0800 [FPR_VD, FPR_VJ],
    Fmt LISA_VCLO_D 0x729c0c00 [FPR_VD, FPR_VJ],
    Fmt LISA_VCLZ_B 0x729c1000 [FPR_VD, FPR_VJ],
    Fmt LISA_VCLZ_H 0x729c1400 [FPR_VD, FPR_VJ],
    Fmt LISA_VCLZ_W 0x729c1800 [FPR_VD, FPR_VJ],
    Fmt LISA_VCLZ_D 0x729c1c00 [FPR_VD, FPR_VJ],
    Fmt LISA_VPCNT_B 0x729c2000 [FPR_VD, FPR_VJ],
    Fmt LISA_VPCNT_H 0x729c2400 [FPR_VD, FPR_VJ],
    Fmt LISA_VPCNT_W 0x729c2800 [FPR_VD, FPR_VJ],
    Fmt LISA_VPCNT_D 0x729c2c00 [FPR_VD, FPR_VJ],
    Fmt LISA_VNEG_B 0x729c3000 [FPR_VD, FPR_VJ],
    Fmt LISA_VNEG_H 0x729c3400 [FPR_VD, FPR_VJ],
    Fmt LISA_VNEG_W 0x729c3800 [FPR_VD, FPR_VJ],
    Fmt LISA_VNEG_D 0x729c3c00 [FPR_VD, FPR_VJ],
    Fmt LISA_VMSKLTZ_B 0x729c4000 [FPR_VD, FPR_VJ],
    Fmt LISA_VMSKLTZ_H 0x729c4400 [FPR_VD, FPR_VJ],
    Fmt LISA_VMSKLTZ_W 0x729c4800 [FPR_VD, FPR_VJ],
    Fmt LISA_VMSKLTZ_D 0x729c4c00 [FPR_VD, FPR_VJ],
    Fmt LISA_VMSKGEZ_B 0x729c5000 [FPR_VD, FPR_VJ],
    Fmt LISA_VMSKNZ_B 0x729c6000 [FPR_VD, FPR_VJ],
    Fmt LISA_VMSKCOPY_B 0x729c7000 [FPR_VD, FPR_VJ],
    Fmt LISA_VMSKFILL_B 0x729c8000 [FPR_VD, FPR_VJ],
    Fmt LISA_VFRSTM_B 0x729c9000 [FPR_VD, FPR_VJ],
    Fmt LISA_VFRSTM_H 0x729c9400 [FPR_VD, FPR_VJ],
    Fmt LISA_VSETEQZ_V 0x729c9800 [FCC_CD, FPR_VJ],
    Fmt LISA_VSETNEZ_V 0x729c9c00 [FCC_CD, FPR_VJ],
    Fmt LISA_VSETANYEQZ_B 0x729ca000 [FCC_CD, FPR_VJ],
    Fmt LISA_VSETANYEQZ_H 0x729ca400 [FCC_CD, FPR_VJ],
    Fmt LISA_VSETANYEQZ_W 0x729ca800 [FCC_CD, FPR_VJ],
    Fmt LISA_VSETANYEQZ_D 0x729cac00 [FCC_CD, FPR_VJ],
    Fmt LISA_VSETALLNEZ_B 0x729cb000 [FCC_CD, FPR_VJ],
    Fmt LISA_VSETALLNEZ_H 0x729cb400 [FCC_CD, FPR_VJ],
    Fmt LISA_VSETALLNEZ_W 0x729cb800 [FCC_CD, FPR_VJ],
    Fmt LISA_VSETALLNEZ_D 0x729cbc00 [FCC_CD, FPR_VJ],
    Fmt LISA_VFLOGB_S 0x729cc400 [FPR_VD, FPR_VJ],
    Fmt LISA_VFLOGB_D 0x729cc800 [FPR_VD, FPR_VJ],
    Fmt LISA_VFCLASS_S 0x729cd400 [FPR_VD, FPR_VJ],
    Fmt LISA_VFCLASS_D 0x729cd800 [FPR_VD, FPR_VJ],
    Fmt LISA_VFSQRT_S 0x729ce400 [FPR_VD, FPR_VJ],
    Fmt LISA_VFSQRT_D 0x729ce800 [FPR_VD, FPR_VJ],
    Fmt LISA_VFRECIP_S 0x729cf400 [FPR_VD, FPR_VJ],
    Fmt LISA_VFRECIP_D 0x729cf800 [FPR_VD, FPR_VJ],
    Fmt LISA_VFRSQRT_S 0x729d0400 [FPR_VD, FPR_VJ],
    Fmt LISA_VFRSQRT_D 0x729d0800 [FPR_VD, FPR_VJ],
    Fmt LISA_VFRINT_S 0x729d3400 [FPR_VD, FPR_VJ],
    Fmt LISA_VFRINT_D 0x729d3800 [FPR_VD, FPR_VJ],
    Fmt LISA_VFRINTRM_S 0x729d4400 [FPR_VD, FPR_VJ],
    Fmt LISA_VFRINTRM_D 0x729d4800 [FPR_VD, FPR_VJ],
    Fmt LISA_VFRINTRP_S 0x729d5400 [FPR_VD, FPR_VJ],
    Fmt LISA_VFRINTRP_D 0x729d5800 [FPR_VD, FPR_VJ],
    Fmt LISA_VFRINTRZ_S 0x729d6400 [FPR_VD, FPR_VJ],
    Fmt LISA_VFRINTRZ_D 0x729d6800 [FPR_VD, FPR_VJ],
    Fmt LISA_VFRINTRNE_S 0x729d7400 [FPR_VD, FPR_VJ],
    Fmt LISA_VFRINTRNE_D 0x729d7800 [FPR_VD, FPR_VJ],
    Fmt LISA_VEXTL_W_B 0x729d8400 [FPR_VD, FPR_VJ],
    Fmt LISA_VEXTL_D_B 0x729d8800 [FPR_VD, FPR_VJ],
    Fmt LISA_VEXTL_D_H 0x729d9400 [FPR_VD, FPR_VJ],
    Fmt LISA_VEXTL_W_BU 0x729dac00 [FPR_VD, FPR_VJ],
    Fmt LISA_VEXTL_D_BU 0x729db000 [FPR_VD, FPR_VJ],
    Fmt LISA_VEXTL_D_HU 0x729dbc00 [FPR_VD, FPR_VJ],
    Fmt LISA_VHADD8_D_BU 0x729dd000 [FPR_VD, FPR_VJ],
    Fmt LISA_VHMINPOS_W_HU 0x729dd400 [FPR_VD, FPR_VJ],
    Fmt LISA_VHMINPOS_D_HU 0x729dd800 [FPR_VD, FPR_VJ],
    Fmt LISA_VHMINPOS_Q_HU 0x729ddc00 [FPR_VD, FPR_VJ]]"

definition lisa_rows_10791 :: "la_format list" where
  "lisa_rows_10791 = [
    Fmt LISA_VCLRTAIL_B 0x729de000 [FPR_VD, FPR_VJ],
    Fmt LISA_VCLRTAIL_H 0x729de400 [FPR_VD, FPR_VJ],
    Fmt LISA_VFCVTL_S_H 0x729de800 [FPR_VD, FPR_VJ],
    Fmt LISA_VFCVTH_S_H 0x729dec00 [FPR_VD, FPR_VJ],
    Fmt LISA_VFCVTL_D_S 0x729df000 [FPR_VD, FPR_VJ],
    Fmt LISA_VFCVTH_D_S 0x729df400 [FPR_VD, FPR_VJ],
    Fmt LISA_VFFINT_S_W 0x729e0000 [FPR_VD, FPR_VJ],
    Fmt LISA_VFFINT_S_WU 0x729e0400 [FPR_VD, FPR_VJ],
    Fmt LISA_VFFINT_D_L 0x729e0800 [FPR_VD, FPR_VJ],
    Fmt LISA_VFFINT_D_LU 0x729e0c00 [FPR_VD, FPR_VJ],
    Fmt LISA_VFFINTL_D_W 0x729e1000 [FPR_VD, FPR_VJ],
    Fmt LISA_VFFINTH_D_W 0x729e1400 [FPR_VD, FPR_VJ],
    Fmt LISA_VFTINT_W_S 0x729e3000 [FPR_VD, FPR_VJ],
    Fmt LISA_VFTINT_L_D 0x729e3400 [FPR_VD, FPR_VJ],
    Fmt LISA_VFTINTRM_W_S 0x729e3800 [FPR_VD, FPR_VJ],
    Fmt LISA_VFTINTRM_L_D 0x729e3c00 [FPR_VD, FPR_VJ],
    Fmt LISA_VFTINTRP_W_S 0x729e4000 [FPR_VD, FPR_VJ],
    Fmt LISA_VFTINTRP_L_D 0x729e4400 [FPR_VD, FPR_VJ],
    Fmt LISA_VFTINTRZ_W_S 0x729e4800 [FPR_VD, FPR_VJ],
    Fmt LISA_VFTINTRZ_L_D 0x729e4c00 [FPR_VD, FPR_VJ],
    Fmt LISA_VFTINTRNE_W_S 0x729e5000 [FPR_VD, FPR_VJ],
    Fmt LISA_VFTINTRNE_L_D 0x729e5400 [FPR_VD, FPR_VJ],
    Fmt LISA_VFTINT_WU_S 0x729e5800 [FPR_VD, FPR_VJ],
    Fmt LISA_VFTINT_LU_D 0x729e5c00 [FPR_VD, FPR_VJ],
    Fmt LISA_VFTINTRZ_WU_S 0x729e7000 [FPR_VD, FPR_VJ],
    Fmt LISA_VFTINTRZ_LU_D 0x729e7400 [FPR_VD, FPR_VJ],
    Fmt LISA_VFTINTL_L_S 0x729e8000 [FPR_VD, FPR_VJ],
    Fmt LISA_VFTINTH_L_S 0x729e8400 [FPR_VD, FPR_VJ],
    Fmt LISA_VFTINTRML_L_S 0x729e8800 [FPR_VD, FPR_VJ],
    Fmt LISA_VFTINTRMH_L_S 0x729e8c00 [FPR_VD, FPR_VJ],
    Fmt LISA_VFTINTRPL_L_S 0x729e9000 [FPR_VD, FPR_VJ],
    Fmt LISA_VFTINTRPH_L_S 0x729e9400 [FPR_VD, FPR_VJ],
    Fmt LISA_VFTINTRZL_L_S 0x729e9800 [FPR_VD, FPR_VJ],
    Fmt LISA_VFTINTRZH_L_S 0x729e9c00 [FPR_VD, FPR_VJ],
    Fmt LISA_VFTINTRNEL_L_S 0x729ea000 [FPR_VD, FPR_VJ],
    Fmt LISA_VFTINTRNEH_L_S 0x729ea400 [FPR_VD, FPR_VJ],
    Fmt LISA_VEXTH_H_B 0x729ee000 [FPR_VD, FPR_VJ],
    Fmt LISA_VEXTH_W_H 0x729ee400 [FPR_VD, FPR_VJ],
    Fmt LISA_VEXTH_D_W 0x729ee800 [FPR_VD, FPR_VJ],
    Fmt LISA_VEXTH_Q_D 0x729eec00 [FPR_VD, FPR_VJ],
    Fmt LISA_VEXTH_HU_BU 0x729ef000 [FPR_VD, FPR_VJ],
    Fmt LISA_VEXTH_WU_HU 0x729ef400 [FPR_VD, FPR_VJ],
    Fmt LISA_VEXTH_DU_WU 0x729ef800 [FPR_VD, FPR_VJ],
    Fmt LISA_VEXTH_QU_DU 0x729efc00 [FPR_VD, FPR_VJ],
    Fmt LISA_VREPLGR2VR_B 0x729f0000 [FPR_VD, GPR_RJ],
    Fmt LISA_VREPLGR2VR_H 0x729f0400 [FPR_VD, GPR_RJ],
    Fmt LISA_VREPLGR2VR_W 0x729f0800 [FPR_VD, GPR_RJ],
    Fmt LISA_VREPLGR2VR_D 0x729f0c00 [FPR_VD, GPR_RJ],
    Fmt LISA_VROTRI_B 0x72a02000 [FPR_VD, FPR_VJ, IMM_UI3],
    Fmt LISA_VROTRI_H 0x72a04000 [FPR_VD, FPR_VJ, IMM_UI4],
    Fmt LISA_VROTRI_W 0x72a08000 [FPR_VD, FPR_VJ, IMM_UI5L],
    Fmt LISA_VROTRI_D 0x72a10000 [FPR_VD, FPR_VJ, IMM_UI6],
    Fmt LISA_VSRLRI_B 0x72a42000 [FPR_VD, FPR_VJ, IMM_UI3],
    Fmt LISA_VSRLRI_H 0x72a44000 [FPR_VD, FPR_VJ, IMM_UI4],
    Fmt LISA_VSRLRI_W 0x72a48000 [FPR_VD, FPR_VJ, IMM_UI5L],
    Fmt LISA_VSRLRI_D 0x72a50000 [FPR_VD, FPR_VJ, IMM_UI6],
    Fmt LISA_VSRARI_B 0x72a82000 [FPR_VD, FPR_VJ, IMM_UI3],
    Fmt LISA_VSRARI_H 0x72a84000 [FPR_VD, FPR_VJ, IMM_UI4],
    Fmt LISA_VSRARI_W 0x72a88000 [FPR_VD, FPR_VJ, IMM_UI5L],
    Fmt LISA_VSRARI_D 0x72a90000 [FPR_VD, FPR_VJ, IMM_UI6],
    Fmt LISA_VINSGR2VR_B 0x72eb8000 [FPR_VD, GPR_RJ, IMM_UI4],
    Fmt LISA_VINSGR2VR_H 0x72ebc000 [FPR_VD, GPR_RJ, IMM_UI3],
    Fmt LISA_VINSGR2VR_W 0x72ebe000 [FPR_VD, GPR_RJ, IMM_UI2],
    Fmt LISA_VINSGR2VR_D 0x72ebf000 [FPR_VD, GPR_RJ, IMM_UI1],
    Fmt LISA_VPICKVE2GR_B 0x72ef8000 [GPR_RD, FPR_VJ, IMM_UI4],
    Fmt LISA_VPICKVE2GR_H 0x72efc000 [GPR_RD, FPR_VJ, IMM_UI3],
    Fmt LISA_VPICKVE2GR_W 0x72efe000 [GPR_RD, FPR_VJ, IMM_UI2],
    Fmt LISA_VPICKVE2GR_D 0x72eff000 [GPR_RD, FPR_VJ, IMM_UI1],
    Fmt LISA_VPICKVE2GR_BU 0x72f38000 [GPR_RD, FPR_VJ, IMM_UI4],
    Fmt LISA_VPICKVE2GR_HU 0x72f3c000 [GPR_RD, FPR_VJ, IMM_UI3],
    Fmt LISA_VPICKVE2GR_WU 0x72f3e000 [GPR_RD, FPR_VJ, IMM_UI2],
    Fmt LISA_VPICKVE2GR_DU 0x72f3f000 [GPR_RD, FPR_VJ, IMM_UI1],
    Fmt LISA_VREPLVEI_B 0x72f78000 [FPR_VD, FPR_VJ, IMM_UI4],
    Fmt LISA_VREPLVEI_H 0x72f7c000 [FPR_VD, FPR_VJ, IMM_UI3],
    Fmt LISA_VREPLVEI_W 0x72f7e000 [FPR_VD, FPR_VJ, IMM_UI2],
    Fmt LISA_VREPLVEI_D 0x72f7f000 [FPR_VD, FPR_VJ, IMM_UI1],
    Fmt LISA_VEXTRCOLI_B 0x72fb8000 [FPR_VD, FPR_VJ, IMM_UI4],
    Fmt LISA_VEXTRCOLI_H 0x72fbc000 [FPR_VD, FPR_VJ, IMM_UI3],
    Fmt LISA_VEXTRCOLI_W 0x72fbe000 [FPR_VD, FPR_VJ, IMM_UI2],
    Fmt LISA_VEXTRCOLI_D 0x72fbf000 [FPR_VD, FPR_VJ, IMM_UI1],
    Fmt LISA_VSLLWIL_H_B 0x73082000 [FPR_VD, FPR_VJ, IMM_UI3],
    Fmt LISA_VSLLWIL_W_H 0x73084000 [FPR_VD, FPR_VJ, IMM_UI4],
    Fmt LISA_VSLLWIL_D_W 0x73088000 [FPR_VD, FPR_VJ, IMM_UI5L],
    Fmt LISA_VEXTL_Q_D 0x73090000 [FPR_VD, FPR_VJ],
    Fmt LISA_VSLLWIL_HU_BU 0x730c2000 [FPR_VD, FPR_VJ, IMM_UI3],
    Fmt LISA_VSLLWIL_WU_HU 0x730c4000 [FPR_VD, FPR_VJ, IMM_UI4],
    Fmt LISA_VSLLWIL_DU_WU 0x730c8000 [FPR_VD, FPR_VJ, IMM_UI5L],
    Fmt LISA_VEXTL_QU_DU 0x730d0000 [FPR_VD, FPR_VJ],
    Fmt LISA_VBITCLRI_B 0x73102000 [FPR_VD, FPR_VJ, IMM_UI3],
    Fmt LISA_VBITCLRI_H 0x73104000 [FPR_VD, FPR_VJ, IMM_UI4],
    Fmt LISA_VBITCLRI_W 0x73108000 [FPR_VD, FPR_VJ, IMM_UI5L],
    Fmt LISA_VBITCLRI_D 0x73110000 [FPR_VD, FPR_VJ, IMM_UI6],
    Fmt LISA_VBITSETI_B 0x73142000 [FPR_VD, FPR_VJ, IMM_UI3],
    Fmt LISA_VBITSETI_H 0x73144000 [FPR_VD, FPR_VJ, IMM_UI4],
    Fmt LISA_VBITSETI_W 0x73148000 [FPR_VD, FPR_VJ, IMM_UI5L],
    Fmt LISA_VBITSETI_D 0x73150000 [FPR_VD, FPR_VJ, IMM_UI6],
    Fmt LISA_VBITREVI_B 0x73182000 [FPR_VD, FPR_VJ, IMM_UI3],
    Fmt LISA_VBITREVI_H 0x73184000 [FPR_VD, FPR_VJ, IMM_UI4],
    Fmt LISA_VBITREVI_W 0x73188000 [FPR_VD, FPR_VJ, IMM_UI5L],
    Fmt LISA_VBITREVI_D 0x73190000 [FPR_VD, FPR_VJ, IMM_UI6],
    Fmt LISA_VBSTRC12I_B 0x731c2000 [FPR_VD, FPR_VJ, IMM_UI3],
    Fmt LISA_VBSTRC12I_H 0x731c4000 [FPR_VD, FPR_VJ, IMM_UI4],
    Fmt LISA_VBSTRC12I_W 0x731c8000 [FPR_VD, FPR_VJ, IMM_UI5L],
    Fmt LISA_VBSTRC12I_D 0x731d0000 [FPR_VD, FPR_VJ, IMM_UI6],
    Fmt LISA_VBSTRC21I_B 0x73202000 [FPR_VD, FPR_VJ, IMM_UI3],
    Fmt LISA_VBSTRC21I_H 0x73204000 [FPR_VD, FPR_VJ, IMM_UI4],
    Fmt LISA_VBSTRC21I_W 0x73208000 [FPR_VD, FPR_VJ, IMM_UI5L],
    Fmt LISA_VBSTRC21I_D 0x73210000 [FPR_VD, FPR_VJ, IMM_UI6],
    Fmt LISA_VSAT_B 0x73242000 [FPR_VD, FPR_VJ, IMM_UI3],
    Fmt LISA_VSAT_H 0x73244000 [FPR_VD, FPR_VJ, IMM_UI4],
    Fmt LISA_VSAT_W 0x73248000 [FPR_VD, FPR_VJ, IMM_UI5L],
    Fmt LISA_VSAT_D 0x73250000 [FPR_VD, FPR_VJ, IMM_UI6],
    Fmt LISA_VSAT_BU 0x73282000 [FPR_VD, FPR_VJ, IMM_UI3],
    Fmt LISA_VSAT_HU 0x73284000 [FPR_VD, FPR_VJ, IMM_UI4],
    Fmt LISA_VSAT_WU 0x73288000 [FPR_VD, FPR_VJ, IMM_UI5L],
    Fmt LISA_VSAT_DU 0x73290000 [FPR_VD, FPR_VJ, IMM_UI6],
    Fmt LISA_VSLLI_B 0x732c2000 [FPR_VD, FPR_VJ, IMM_UI3],
    Fmt LISA_VSLLI_H 0x732c4000 [FPR_VD, FPR_VJ, IMM_UI4],
    Fmt LISA_VSLLI_W 0x732c8000 [FPR_VD, FPR_VJ, IMM_UI5L],
    Fmt LISA_VSLLI_D 0x732d0000 [FPR_VD, FPR_VJ, IMM_UI6],
    Fmt LISA_VSRLI_B 0x73302000 [FPR_VD, FPR_VJ, IMM_UI3],
    Fmt LISA_VSRLI_H 0x73304000 [FPR_VD, FPR_VJ, IMM_UI4],
    Fmt LISA_VSRLI_W 0x73308000 [FPR_VD, FPR_VJ, IMM_UI5L],
    Fmt LISA_VSRLI_D 0x73310000 [FPR_VD, FPR_VJ, IMM_UI6],
    Fmt LISA_VSRAI_B 0x73342000 [FPR_VD, FPR_VJ, IMM_UI3],
    Fmt LISA_VSRAI_H 0x73344000 [FPR_VD, FPR_VJ, IMM_UI4],
    Fmt LISA_VSRAI_W 0x73348000 [FPR_VD, FPR_VJ, IMM_UI5L],
    Fmt LISA_VSRAI_D 0x73350000 [FPR_VD, FPR_VJ, IMM_UI6],
    Fmt LISA_VSRLRNENI_B_H 0x73384000 [FPR_VD, FPR_VJ, IMM_UI4],
    Fmt LISA_VSRLRNENI_H_W 0x73388000 [FPR_VD, FPR_VJ, IMM_UI5L],
    Fmt LISA_VSRLRNENI_W_D 0x73390000 [FPR_VD, FPR_VJ, IMM_UI6],
    Fmt LISA_VSRLRNENI_D_Q 0x733a0000 [FPR_VD, FPR_VJ, IMM_UI7],
    Fmt LISA_VSRARNENI_B_H 0x733c4000 [FPR_VD, FPR_VJ, IMM_UI4],
    Fmt LISA_VSRARNENI_H_W 0x733c8000 [FPR_VD, FPR_VJ, IMM_UI5L],
    Fmt LISA_VSRARNENI_W_D 0x733d0000 [FPR_VD, FPR_VJ, IMM_UI6],
    Fmt LISA_VSRARNENI_D_Q 0x733e0000 [FPR_VD, FPR_VJ, IMM_UI7],
    Fmt LISA_VSRLNI_B_H 0x73404000 [FPR_VD, FPR_VJ, IMM_UI4],
    Fmt LISA_VSRLNI_H_W 0x73408000 [FPR_VD, FPR_VJ, IMM_UI5L],
    Fmt LISA_VSRLNI_W_D 0x73410000 [FPR_VD, FPR_VJ, IMM_UI6],
    Fmt LISA_VSRLNI_D_Q 0x73420000 [FPR_VD, FPR_VJ, IMM_UI7],
    Fmt LISA_VSRLRNI_B_H 0x73444000 [FPR_VD, FPR_VJ, IMM_UI4],
    Fmt LISA_VSRLRNI_H_W 0x73448000 [FPR_VD, FPR_VJ, IMM_UI5L],
    Fmt LISA_VSRLRNI_W_D 0x73450000 [FPR_VD, FPR_VJ, IMM_UI6],
    Fmt LISA_VSRLRNI_D_Q 0x73460000 [FPR_VD, FPR_VJ, IMM_UI7],
    Fmt LISA_VSSRLNI_B_H 0x73484000 [FPR_VD, FPR_VJ, IMM_UI4],
    Fmt LISA_VSSRLNI_H_W 0x73488000 [FPR_VD, FPR_VJ, IMM_UI5L],
    Fmt LISA_VSSRLNI_W_D 0x73490000 [FPR_VD, FPR_VJ, IMM_UI6],
    Fmt LISA_VSSRLNI_D_Q 0x734a0000 [FPR_VD, FPR_VJ, IMM_UI7],
    Fmt LISA_VSSRLNI_BU_H 0x734c4000 [FPR_VD, FPR_VJ, IMM_UI4],
    Fmt LISA_VSSRLNI_HU_W 0x734c8000 [FPR_VD, FPR_VJ, IMM_UI5L],
    Fmt LISA_VSSRLNI_WU_D 0x734d0000 [FPR_VD, FPR_VJ, IMM_UI6],
    Fmt LISA_VSSRLNI_DU_Q 0x734e0000 [FPR_VD, FPR_VJ, IMM_UI7],
    Fmt LISA_VSSRLRNI_B_H 0x73504000 [FPR_VD, FPR_VJ, IMM_UI4],
    Fmt LISA_VSSRLRNI_H_W 0x73508000 [FPR_VD, FPR_VJ, IMM_UI5L],
    Fmt LISA_VSSRLRNI_W_D 0x73510000 [FPR_VD, FPR_VJ, IMM_UI6],
    Fmt LISA_VSSRLRNI_D_Q 0x73520000 [FPR_VD, FPR_VJ, IMM_UI7],
    Fmt LISA_VSSRLRNI_BU_H 0x73544000 [FPR_VD, FPR_VJ, IMM_UI4],
    Fmt LISA_VSSRLRNI_HU_W 0x73548000 [FPR_VD, FPR_VJ, IMM_UI5L],
    Fmt LISA_VSSRLRNI_WU_D 0x73550000 [FPR_VD, FPR_VJ, IMM_UI6],
    Fmt LISA_VSSRLRNI_DU_Q 0x73560000 [FPR_VD, FPR_VJ, IMM_UI7],
    Fmt LISA_VSRANI_B_H 0x73584000 [FPR_VD, FPR_VJ, IMM_UI4],
    Fmt LISA_VSRANI_H_W 0x73588000 [FPR_VD, FPR_VJ, IMM_UI5L],
    Fmt LISA_VSRANI_W_D 0x73590000 [FPR_VD, FPR_VJ, IMM_UI6],
    Fmt LISA_VSRANI_D_Q 0x735a0000 [FPR_VD, FPR_VJ, IMM_UI7],
    Fmt LISA_VSRARNI_B_H 0x735c4000 [FPR_VD, FPR_VJ, IMM_UI4],
    Fmt LISA_VSRARNI_H_W 0x735c8000 [FPR_VD, FPR_VJ, IMM_UI5L],
    Fmt LISA_VSRARNI_W_D 0x735d0000 [FPR_VD, FPR_VJ, IMM_UI6],
    Fmt LISA_VSRARNI_D_Q 0x735e0000 [FPR_VD, FPR_VJ, IMM_UI7],
    Fmt LISA_VSSRANI_B_H 0x73604000 [FPR_VD, FPR_VJ, IMM_UI4],
    Fmt LISA_VSSRANI_H_W 0x73608000 [FPR_VD, FPR_VJ, IMM_UI5L],
    Fmt LISA_VSSRANI_W_D 0x73610000 [FPR_VD, FPR_VJ, IMM_UI6],
    Fmt LISA_VSSRANI_D_Q 0x73620000 [FPR_VD, FPR_VJ, IMM_UI7],
    Fmt LISA_VSSRANI_BU_H 0x73644000 [FPR_VD, FPR_VJ, IMM_UI4],
    Fmt LISA_VSSRANI_HU_W 0x73648000 [FPR_VD, FPR_VJ, IMM_UI5L],
    Fmt LISA_VSSRANI_WU_D 0x73650000 [FPR_VD, FPR_VJ, IMM_UI6],
    Fmt LISA_VSSRANI_DU_Q 0x73660000 [FPR_VD, FPR_VJ, IMM_UI7],
    Fmt LISA_VSSRARNI_B_H 0x73684000 [FPR_VD, FPR_VJ, IMM_UI4],
    Fmt LISA_VSSRARNI_H_W 0x73688000 [FPR_VD, FPR_VJ, IMM_UI5L],
    Fmt LISA_VSSRARNI_W_D 0x73690000 [FPR_VD, FPR_VJ, IMM_UI6],
    Fmt LISA_VSSRARNI_D_Q 0x736a0000 [FPR_VD, FPR_VJ, IMM_UI7],
    Fmt LISA_VSSRARNI_BU_H 0x736c4000 [FPR_VD, FPR_VJ, IMM_UI4],
    Fmt LISA_VSSRARNI_HU_W 0x736c8000 [FPR_VD, FPR_VJ, IMM_UI5L],
    Fmt LISA_VSSRARNI_WU_D 0x736d0000 [FPR_VD, FPR_VJ, IMM_UI6],
    Fmt LISA_VSSRARNI_DU_Q 0x736e0000 [FPR_VD, FPR_VJ, IMM_UI7],
    Fmt LISA_VSSRLRNENI_B_H 0x73704000 [FPR_VD, FPR_VJ, IMM_UI4],
    Fmt LISA_VSSRLRNENI_H_W 0x73708000 [FPR_VD, FPR_VJ, IMM_UI5L],
    Fmt LISA_VSSRLRNENI_W_D 0x73710000 [FPR_VD, FPR_VJ, IMM_UI6],
    Fmt LISA_VSSRLRNENI_D_Q 0x73720000 [FPR_VD, FPR_VJ, IMM_UI7],
    Fmt LISA_VSSRLRNENI_BU_H 0x73744000 [FPR_VD, FPR_VJ, IMM_UI4],
    Fmt LISA_VSSRLRNENI_HU_W 0x73748000 [FPR_VD, FPR_VJ, IMM_UI5L],
    Fmt LISA_VSSRLRNENI_WU_D 0x73750000 [FPR_VD, FPR_VJ, IMM_UI6],
    Fmt LISA_VSSRLRNENI_DU_Q 0x73760000 [FPR_VD, FPR_VJ, IMM_UI7],
    Fmt LISA_VSSRARNENI_B_H 0x73784000 [FPR_VD, FPR_VJ, IMM_UI4],
    Fmt LISA_VSSRARNENI_H_W 0x73788000 [FPR_VD, FPR_VJ, IMM_UI5L],
    Fmt LISA_VSSRARNENI_W_D 0x73790000 [FPR_VD, FPR_VJ, IMM_UI6],
    Fmt LISA_VSSRARNENI_D_Q 0x737a0000 [FPR_VD, FPR_VJ, IMM_UI7],
    Fmt LISA_VSSRARNENI_BU_H 0x737c4000 [FPR_VD, FPR_VJ, IMM_UI4],
    Fmt LISA_VSSRARNENI_HU_W 0x737c8000 [FPR_VD, FPR_VJ, IMM_UI5L],
    Fmt LISA_VSSRARNENI_WU_D 0x737d0000 [FPR_VD, FPR_VJ, IMM_UI6],
    Fmt LISA_VSSRARNENI_DU_Q 0x737e0000 [FPR_VD, FPR_VJ, IMM_UI7],
    Fmt LISA_VEXTRINS_D 0x73800000 [FPR_VD, FPR_VJ, IMM_UI8],
    Fmt LISA_VEXTRINS_W 0x73840000 [FPR_VD, FPR_VJ, IMM_UI8],
    Fmt LISA_VEXTRINS_H 0x73880000 [FPR_VD, FPR_VJ, IMM_UI8],
    Fmt LISA_VEXTRINS_B 0x738c0000 [FPR_VD, FPR_VJ, IMM_UI8],
    Fmt LISA_VSHUF4I_B 0x73900000 [FPR_VD, FPR_VJ, IMM_UI8],
    Fmt LISA_VSHUF4I_H 0x73940000 [FPR_VD, FPR_VJ, IMM_UI8],
    Fmt LISA_VSHUF4I_W 0x73980000 [FPR_VD, FPR_VJ, IMM_UI8],
    Fmt LISA_VSHUF4I_D 0x739c0000 [FPR_VD, FPR_VJ, IMM_UI8],
    Fmt LISA_VSHUFI1_B 0x73a00000 [FPR_VD, FPR_VJ, IMM_UI8],
    Fmt LISA_VSHUFI2_B 0x73a40000 [FPR_VD, FPR_VJ, IMM_UI8],
    Fmt LISA_VSHUFI3_B 0x73a80000 [FPR_VD, FPR_VJ, IMM_UI8],
    Fmt LISA_VSHUFI4_B 0x73ac0000 [FPR_VD, FPR_VJ, IMM_UI8],
    Fmt LISA_VSHUFI1_H 0x73b00000 [FPR_VD, FPR_VJ, IMM_UI8],
    Fmt LISA_VSHUFI2_H 0x73b40000 [FPR_VD, FPR_VJ, IMM_UI8],
    Fmt LISA_VSELI_H 0x73b80000 [FPR_VD, FPR_VJ, IMM_UI8],
    Fmt LISA_VSELI_W 0x73bc0000 [FPR_VD, FPR_VJ, IMM_UI8],
    Fmt LISA_VSELI_D 0x73c00000 [FPR_VD, FPR_VJ, IMM_UI8],
    Fmt LISA_VBITSELI_B 0x73c40000 [FPR_VD, FPR_VJ, IMM_UI8],
    Fmt LISA_VBITMVZI_B 0x73c80000 [FPR_VD, FPR_VJ, IMM_UI8],
    Fmt LISA_VBITMVNZI_B 0x73cc0000 [FPR_VD, FPR_VJ, IMM_UI8],
    Fmt LISA_VANDI_B 0x73d00000 [FPR_VD, FPR_VJ, IMM_UI8],
    Fmt LISA_VORI_B 0x73d40000 [FPR_VD, FPR_VJ, IMM_UI8],
    Fmt LISA_VXORI_B 0x73d80000 [FPR_VD, FPR_VJ, IMM_UI8],
    Fmt LISA_VNORI_B 0x73dc0000 [FPR_VD, FPR_VJ, IMM_UI8],
    Fmt LISA_VLDI 0x73e00000 [FPR_VD, IMM_I13],
    Fmt LISA_VPERMI_W 0x73e40000 [FPR_VD, FPR_VJ, IMM_UI8],
    Fmt LISA_XVSEQ_B 0x74000000 [FPR_XD, FPR_XJ, FPR_XK],
    Fmt LISA_XVSEQ_H 0x74008000 [FPR_XD, FPR_XJ, FPR_XK],
    Fmt LISA_XVSEQ_W 0x74010000 [FPR_XD, FPR_XJ, FPR_XK],
    Fmt LISA_XVSEQ_D 0x74018000 [FPR_XD, FPR_XJ, FPR_XK],
    Fmt LISA_XVSLE_B 0x74020000 [FPR_XD, FPR_XJ, FPR_XK]]"

definition lisa_rows_12588 :: "la_format list" where
  "lisa_rows_12588 = [
    Fmt LISA_XVSLE_H 0x74028000 [FPR_XD, FPR_XJ, FPR_XK],
    Fmt LISA_XVSLE_W 0x74030000 [FPR_XD, FPR_XJ, FPR_XK],
    Fmt LISA_XVSLE_D 0x74038000 [FPR_XD, FPR_XJ, FPR_XK],
    Fmt LISA_XVSLE_BU 0x74040000 [FPR_XD, FPR_XJ, FPR_XK],
    Fmt LISA_XVSLE_HU 0x74048000 [FPR_XD, FPR_XJ, FPR_XK],
    Fmt LISA_XVSLE_WU 0x74050000 [FPR_XD, FPR_XJ, FPR_XK],
    Fmt LISA_XVSLE_DU 0x74058000 [FPR_XD, FPR_XJ, FPR_XK],
    Fmt LISA_XVSLT_B 0x74060000 [FPR_XD, FPR_XJ, FPR_XK],
    Fmt LISA_XVSLT_H 0x74068000 [FPR_XD, FPR_XJ, FPR_XK],
    Fmt LISA_XVSLT_W 0x74070000 [FPR_XD, FPR_XJ, FPR_XK],
    Fmt LISA_XVSLT_D 0x74078000 [FPR_XD, FPR_XJ, FPR_XK],
    Fmt LISA_XVSLT_BU 0x74080000 [FPR_XD, FPR_XJ, FPR_XK],
    Fmt LISA_XVSLT_HU 0x74088000 [FPR_XD, FPR_XJ, FPR_XK],
    Fmt LISA_XVSLT_WU 0x74090000 [FPR_XD, FPR_XJ, FPR_XK],
    Fmt LISA_XVSLT_DU 0x74098000 [FPR_XD, FPR_XJ, FPR_XK],
    Fmt LISA_XVADD_B 0x740a0000 [FPR_XD, FPR_XJ, FPR_XK],
    Fmt LISA_XVADD_H 0x740a8000 [FPR_XD, FPR_XJ, FPR_XK],
    Fmt LISA_XVADD_W 0x740b0000 [FPR_XD, FPR_XJ, FPR_XK],
    Fmt LISA_XVADD_D 0x740b8000 [FPR_XD, FPR_XJ, FPR_XK],
    Fmt LISA_XVSUB_B 0x740c0000 [FPR_XD, FPR_XJ, FPR_XK],
    Fmt LISA_XVSUB_H 0x740c8000 [FPR_XD, FPR_XJ, FPR_XK],
    Fmt LISA_XVSUB_W 0x740d0000 [FPR_XD, FPR_XJ, FPR_XK],
    Fmt LISA_XVSUB_D 0x740d8000 [FPR_XD, FPR_XJ, FPR_XK],
    Fmt LISA_XVADDW_H_H_B 0x740e0000 [FPR_XD, FPR_XJ, FPR_XK],
    Fmt LISA_XVADDW_W_W_H 0x740e8000 [FPR_XD, FPR_XJ, FPR_XK],
    Fmt LISA_XVADDW_D_D_W 0x740f0000 [FPR_XD, FPR_XJ, FPR_XK],
    Fmt LISA_XVADDW_H_H_BU 0x74100000 [FPR_XD, FPR_XJ, FPR_XK],
    Fmt LISA_XVADDW_W_W_HU 0x74108000 [FPR_XD, FPR_XJ, FPR_XK],
    Fmt LISA_XVADDW_D_D_WU 0x74110000 [FPR_XD, FPR_XJ, FPR_XK],
    Fmt LISA_XVSUBW_H_H_B 0x74120000 [FPR_XD, FPR_XJ, FPR_XK],
    Fmt LISA_XVSUBW_W_W_H 0x74128000 [FPR_XD, FPR_XJ, FPR_XK],
    Fmt LISA_XVSUBW_D_D_W 0x74130000 [FPR_XD, FPR_XJ, FPR_XK],
    Fmt LISA_XVSUBW_H_H_BU 0x74140000 [FPR_XD, FPR_XJ, FPR_XK],
    Fmt LISA_XVSUBW_W_W_HU 0x74148000 [FPR_XD, FPR_XJ, FPR_XK],
    Fmt LISA_XVSUBW_D_D_WU 0x74150000 [FPR_XD, FPR_XJ, FPR_XK],
    Fmt LISA_XVSADDW_H_H_B 0x74160000 [FPR_XD, FPR_XJ, FPR_XK],
    Fmt LISA_XVSADDW_W_W_H 0x74168000 [FPR_XD, FPR_XJ, FPR_XK],
    Fmt LISA_XVSADDW_D_D_W 0x74170000 [FPR_XD, FPR_XJ, FPR_XK],
    Fmt LISA_XVSADDW_HU_HU_BU 0x74180000 [FPR_XD, FPR_XJ, FPR_XK],
    Fmt LISA_XVSADDW_WU_WU_HU 0x74188000 [FPR_XD, FPR_XJ, FPR_XK],
    Fmt LISA_XVSADDW_DU_DU_WU 0x74190000 [FPR_XD, FPR_XJ, FPR_XK],
    Fmt LISA_XVSSUBW_H_H_B 0x741a0000 [FPR_XD, FPR_XJ, FPR_XK],
    Fmt LISA_XVSSUBW_W_W_H 0x741a8000 [FPR_XD, FPR_XJ, FPR_XK],
    Fmt LISA_XVSSUBW_D_D_W 0x741b0000 [FPR_XD, FPR_XJ, FPR_XK],
    Fmt LISA_XVSSUBW_HU_HU_BU 0x741c0000 [FPR_XD, FPR_XJ, FPR_XK],
    Fmt LISA_XVSSUBW_WU_WU_HU 0x741c8000 [FPR_XD, FPR_XJ, FPR_XK],
    Fmt LISA_XVSSUBW_DU_DU_WU 0x741d0000 [FPR_XD, FPR_XJ, FPR_XK],
    Fmt LISA_XVADDWEV_H_B 0x741e0000 [FPR_XD, FPR_XJ, FPR_XK],
    Fmt LISA_XVADDWEV_W_H 0x741e8000 [FPR_XD, FPR_XJ, FPR_XK],
    Fmt LISA_XVADDWEV_D_W 0x741f0000 [FPR_XD, FPR_XJ, FPR_XK],
    Fmt LISA_XVADDWEV_Q_D 0x741f8000 [FPR_XD, FPR_XJ, FPR_XK],
    Fmt LISA_XVSUBWEV_H_B 0x74200000 [FPR_XD, FPR_XJ, FPR_XK],
    Fmt LISA_XVSUBWEV_W_H 0x74208000 [FPR_XD, FPR_XJ, FPR_XK],
    Fmt LISA_XVSUBWEV_D_W 0x74210000 [FPR_XD, FPR_XJ, FPR_XK],
    Fmt LISA_XVSUBWEV_Q_D 0x74218000 [FPR_XD, FPR_XJ, FPR_XK],
    Fmt LISA_XVADDWOD_H_B 0x74220000 [FPR_XD, FPR_XJ, FPR_XK],
    Fmt LISA_XVADDWOD_W_H 0x74228000 [FPR_XD, FPR_XJ, FPR_XK],
    Fmt LISA_XVADDWOD_D_W 0x74230000 [FPR_XD, FPR_XJ, FPR_XK],
    Fmt LISA_XVADDWOD_Q_D 0x74238000 [FPR_XD, FPR_XJ, FPR_XK],
    Fmt LISA_XVSUBWOD_H_B 0x74240000 [FPR_XD, FPR_XJ, FPR_XK],
    Fmt LISA_XVSUBWOD_W_H 0x74248000 [FPR_XD, FPR_XJ, FPR_XK],
    Fmt LISA_XVSUBWOD_D_W 0x74250000 [FPR_XD, FPR_XJ, FPR_XK],
    Fmt LISA_XVSUBWOD_Q_D 0x74258000 [FPR_XD, FPR_XJ, FPR_XK],
    Fmt LISA_XVADDWL_H_B 0x74260000 [FPR_XD, FPR_XJ, FPR_XK],
    Fmt LISA_XVADDWL_W_H 0x74268000 [FPR_XD, FPR_XJ, FPR_XK],
    Fmt LISA_XVADDWL_D_W 0x74270000 [FPR_XD, FPR_XJ, FPR_XK],
    Fmt LISA_XVADDWL_Q_D 0x74278000 [FPR_XD, FPR_XJ, FPR_XK],
    Fmt LISA_XVSUBWL_H_B 0x74280000 [FPR_XD, FPR_XJ, FPR_XK],
    Fmt LISA_XVSUBWL_W_H 0x74288000 [FPR_XD, FPR_XJ, FPR_XK],
    Fmt LISA_XVSUBWL_D_W 0x74290000 [FPR_XD, FPR_XJ, FPR_XK],
    Fmt LISA_XVSUBWL_Q_D 0x74298000 [FPR_XD, FPR_XJ, FPR_XK],
    Fmt LISA_XVADDWH_H_B 0x742a0000 [FPR_XD, FPR_XJ, FPR_XK],
    Fmt LISA_XVADDWH_W_H 0x742a8000 [FPR_XD, FPR_XJ, FPR_XK],
    Fmt LISA_XVADDWH_D_W 0x742b0000 [FPR_XD, FPR_XJ, FPR_XK],
    Fmt LISA_XVADDWH_Q_D 0x742b8000 [FPR_XD, FPR_XJ, FPR_XK],
    Fmt LISA_XVSUBWH_H_B 0x742c0000 [FPR_XD, FPR_XJ, FPR_XK],
    Fmt LISA_XVSUBWH_W_H 0x742c8000 [FPR_XD, FPR_XJ, FPR_XK],
    Fmt LISA_XVSUBWH_D_W 0x742d0000 [FPR_XD, FPR_XJ, FPR_XK],
    Fmt LISA_XVSUBWH_Q_D 0x742d8000 [FPR_XD, FPR_XJ, FPR_XK],
    Fmt LISA_XVADDWEV_H_BU 0x742e0000 [FPR_XD, FPR_XJ, FPR_XK],
    Fmt LISA_XVADDWEV_W_HU 0x742e8000 [FPR_XD, FPR_XJ, FPR_XK],
    Fmt LISA_XVADDWEV_D_WU 0x742f0000 [FPR_XD, FPR_XJ, FPR_XK],
    Fmt LISA_XVADDWEV_Q_DU 0x742f8000 [FPR_XD, FPR_XJ, FPR_XK],
    Fmt LISA_XVSUBWEV_H_BU 0x74300000 [FPR_XD, FPR_XJ, FPR_XK],
    Fmt LISA_XVSUBWEV_W_HU 0x74308000 [FPR_XD, FPR_XJ, FPR_XK],
    Fmt LISA_XVSUBWEV_D_WU 0x74310000 [FPR_XD, FPR_XJ, FPR_XK],
    Fmt LISA_XVSUBWEV_Q_DU 0x74318000 [FPR_XD, FPR_XJ, FPR_XK],
    Fmt LISA_XVADDWOD_H_BU 0x74320000 [FPR_XD, FPR_XJ, FPR_XK],
    Fmt LISA_XVADDWOD_W_HU 0x74328000 [FPR_XD, FPR_XJ, FPR_XK],
    Fmt LISA_XVADDWOD_D_WU 0x74330000 [FPR_XD, FPR_XJ, FPR_XK],
    Fmt LISA_XVADDWOD_Q_DU 0x74338000 [FPR_XD, FPR_XJ, FPR_XK],
    Fmt LISA_XVSUBWOD_H_BU 0x74340000 [FPR_XD, FPR_XJ, FPR_XK],
    Fmt LISA_XVSUBWOD_W_HU 0x74348000 [FPR_XD, FPR_XJ, FPR_XK],
    Fmt LISA_XVSUBWOD_D_WU 0x74350000 [FPR_XD, FPR_XJ, FPR_XK],
    Fmt LISA_XVSUBWOD_Q_DU 0x74358000 [FPR_XD, FPR_XJ, FPR_XK],
    Fmt LISA_XVADDWL_H_BU 0x74360000 [FPR_XD, FPR_XJ, FPR_XK],
    Fmt LISA_XVADDWL_W_HU 0x74368000 [FPR_XD, FPR_XJ, FPR_XK],
    Fmt LISA_XVADDWL_D_WU 0x74370000 [FPR_XD, FPR_XJ, FPR_XK],
    Fmt LISA_XVADDWL_Q_DU 0x74378000 [FPR_XD, FPR_XJ, FPR_XK],
    Fmt LISA_XVSUBWL_H_BU 0x74380000 [FPR_XD, FPR_XJ, FPR_XK],
    Fmt LISA_XVSUBWL_W_HU 0x74388000 [FPR_XD, FPR_XJ, FPR_XK],
    Fmt LISA_XVSUBWL_D_WU 0x74390000 [FPR_XD, FPR_XJ, FPR_XK],
    Fmt LISA_XVSUBWL_Q_DU 0x74398000 [FPR_XD, FPR_XJ, FPR_XK],
    Fmt LISA_XVADDWH_H_BU 0x743a0000 [FPR_XD, FPR_XJ, FPR_XK],
    Fmt LISA_XVADDWH_W_HU 0x743a8000 [FPR_XD, FPR_XJ, FPR_XK],
    Fmt LISA_XVADDWH_D_WU 0x743b0000 [FPR_XD, FPR_XJ, FPR_XK],
    Fmt LISA_XVADDWH_Q_DU 0x743b8000 [FPR_XD, FPR_XJ, FPR_XK],
    Fmt LISA_XVSUBWH_H_BU 0x743c0000 [FPR_XD, FPR_XJ, FPR_XK],
    Fmt LISA_XVSUBWH_W_HU 0x743c8000 [FPR_XD, FPR_XJ, FPR_XK],
    Fmt LISA_XVSUBWH_D_WU 0x743d0000 [FPR_XD, FPR_XJ, FPR_XK],
    Fmt LISA_XVSUBWH_Q_DU 0x743d8000 [FPR_XD, FPR_XJ, FPR_XK],
    Fmt LISA_XVADDWEV_H_BU_B 0x743e0000 [FPR_XD, FPR_XJ, FPR_XK],
    Fmt LISA_XVADDWEV_W_HU_H 0x743e8000 [FPR_XD, FPR_XJ, FPR_XK],
    Fmt LISA_XVADDWEV_D_WU_W 0x743f0000 [FPR_XD, FPR_XJ, FPR_XK],
    Fmt LISA_XVADDWEV_Q_DU_D 0x743f8000 [FPR_XD, FPR_XJ, FPR_XK],
    Fmt LISA_XVADDWOD_H_BU_B 0x74400000 [FPR_XD, FPR_XJ, FPR_XK],
    Fmt LISA_XVADDWOD_W_HU_H 0x74408000 [FPR_XD, FPR_XJ, FPR_XK],
    Fmt LISA_XVADDWOD_D_WU_W 0x74410000 [FPR_XD, FPR_XJ, FPR_XK],
    Fmt LISA_XVADDWOD_Q_DU_D 0x74418000 [FPR_XD, FPR_XJ, FPR_XK],
    Fmt LISA_XVADDWL_H_BU_B 0x74420000 [FPR_XD, FPR_XJ, FPR_XK],
    Fmt LISA_XVADDWL_W_HU_H 0x74428000 [FPR_XD, FPR_XJ, FPR_XK],
    Fmt LISA_XVADDWL_D_WU_W 0x74430000 [FPR_XD, FPR_XJ, FPR_XK],
    Fmt LISA_XVADDWL_Q_DU_D 0x74438000 [FPR_XD, FPR_XJ, FPR_XK],
    Fmt LISA_XVADDWH_H_BU_B 0x74440000 [FPR_XD, FPR_XJ, FPR_XK],
    Fmt LISA_XVADDWH_W_HU_H 0x74448000 [FPR_XD, FPR_XJ, FPR_XK],
    Fmt LISA_XVADDWH_D_WU_W 0x74450000 [FPR_XD, FPR_XJ, FPR_XK],
    Fmt LISA_XVADDWH_Q_DU_D 0x74458000 [FPR_XD, FPR_XJ, FPR_XK],
    Fmt LISA_XVSADD_B 0x74460000 [FPR_XD, FPR_XJ, FPR_XK],
    Fmt LISA_XVSADD_H 0x74468000 [FPR_XD, FPR_XJ, FPR_XK],
    Fmt LISA_XVSADD_W 0x74470000 [FPR_XD, FPR_XJ, FPR_XK],
    Fmt LISA_XVSADD_D 0x74478000 [FPR_XD, FPR_XJ, FPR_XK],
    Fmt LISA_XVSSUB_B 0x74480000 [FPR_XD, FPR_XJ, FPR_XK],
    Fmt LISA_XVSSUB_H 0x74488000 [FPR_XD, FPR_XJ, FPR_XK],
    Fmt LISA_XVSSUB_W 0x74490000 [FPR_XD, FPR_XJ, FPR_XK],
    Fmt LISA_XVSSUB_D 0x74498000 [FPR_XD, FPR_XJ, FPR_XK],
    Fmt LISA_XVSADD_BU 0x744a0000 [FPR_XD, FPR_XJ, FPR_XK],
    Fmt LISA_XVSADD_HU 0x744a8000 [FPR_XD, FPR_XJ, FPR_XK],
    Fmt LISA_XVSADD_WU 0x744b0000 [FPR_XD, FPR_XJ, FPR_XK],
    Fmt LISA_XVSADD_DU 0x744b8000 [FPR_XD, FPR_XJ, FPR_XK],
    Fmt LISA_XVSSUB_BU 0x744c0000 [FPR_XD, FPR_XJ, FPR_XK],
    Fmt LISA_XVSSUB_HU 0x744c8000 [FPR_XD, FPR_XJ, FPR_XK],
    Fmt LISA_XVSSUB_WU 0x744d0000 [FPR_XD, FPR_XJ, FPR_XK],
    Fmt LISA_XVSSUB_DU 0x744d8000 [FPR_XD, FPR_XJ, FPR_XK],
    Fmt LISA_XVSSUB_BU_BU_B 0x744e0000 [FPR_XD, FPR_XJ, FPR_XK],
    Fmt LISA_XVSSUB_HU_HU_H 0x744e8000 [FPR_XD, FPR_XJ, FPR_XK],
    Fmt LISA_XVSSUB_WU_WU_W 0x744f0000 [FPR_XD, FPR_XJ, FPR_XK],
    Fmt LISA_XVSSUB_DU_DU_D 0x744f8000 [FPR_XD, FPR_XJ, FPR_XK],
    Fmt LISA_XVSSUB_BU_B_BU 0x74500000 [FPR_XD, FPR_XJ, FPR_XK],
    Fmt LISA_XVSSUB_HU_H_HU 0x74508000 [FPR_XD, FPR_XJ, FPR_XK],
    Fmt LISA_XVSSUB_WU_W_WU 0x74510000 [FPR_XD, FPR_XJ, FPR_XK],
    Fmt LISA_XVSSUB_DU_D_DU 0x74518000 [FPR_XD, FPR_XJ, FPR_XK],
    Fmt LISA_XVSSUB_B_BU_BU 0x74520000 [FPR_XD, FPR_XJ, FPR_XK],
    Fmt LISA_XVSSUB_H_HU_HU 0x74528000 [FPR_XD, FPR_XJ, FPR_XK],
    Fmt LISA_XVSSUB_W_WU_WU 0x74530000 [FPR_XD, FPR_XJ, FPR_XK],
    Fmt LISA_XVSSUB_D_DU_DU 0x74538000 [FPR_XD, FPR_XJ, FPR_XK],
    Fmt LISA_XVHADDW_H_B 0x74540000 [FPR_XD, FPR_XJ, FPR_XK],
    Fmt LISA_XVHADDW_W_H 0x74548000 [FPR_XD, FPR_XJ, FPR_XK],
    Fmt LISA_XVHADDW_D_W 0x74550000 [FPR_XD, FPR_XJ, FPR_XK],
    Fmt LISA_XVHADDW_Q_D 0x74558000 [FPR_XD, FPR_XJ, FPR_XK],
    Fmt LISA_XVHSUBW_H_B 0x74560000 [FPR_XD, FPR_XJ, FPR_XK],
    Fmt LISA_XVHSUBW_W_H 0x74568000 [FPR_XD, FPR_XJ, FPR_XK],
    Fmt LISA_XVHSUBW_D_W 0x74570000 [FPR_XD, FPR_XJ, FPR_XK],
    Fmt LISA_XVHSUBW_Q_D 0x74578000 [FPR_XD, FPR_XJ, FPR_XK],
    Fmt LISA_XVHADDW_HU_BU 0x74580000 [FPR_XD, FPR_XJ, FPR_XK],
    Fmt LISA_XVHADDW_WU_HU 0x74588000 [FPR_XD, FPR_XJ, FPR_XK],
    Fmt LISA_XVHADDW_DU_WU 0x74590000 [FPR_XD, FPR_XJ, FPR_XK],
    Fmt LISA_XVHADDW_QU_DU 0x74598000 [FPR_XD, FPR_XJ, FPR_XK],
    Fmt LISA_XVHSUBW_HU_BU 0x745a0000 [FPR_XD, FPR_XJ, FPR_XK],
    Fmt LISA_XVHSUBW_WU_HU 0x745a8000 [FPR_XD, FPR_XJ, FPR_XK],
    Fmt LISA_XVHSUBW_DU_WU 0x745b0000 [FPR_XD, FPR_XJ, FPR_XK],
    Fmt LISA_XVHSUBW_QU_DU 0x745b8000 [FPR_XD, FPR_XJ, FPR_XK],
    Fmt LISA_XVADDA_B 0x745c0000 [FPR_XD, FPR_XJ, FPR_XK],
    Fmt LISA_XVADDA_H 0x745c8000 [FPR_XD, FPR_XJ, FPR_XK],
    Fmt LISA_XVADDA_W 0x745d0000 [FPR_XD, FPR_XJ, FPR_XK],
    Fmt LISA_XVADDA_D 0x745d8000 [FPR_XD, FPR_XJ, FPR_XK],
    Fmt LISA_XVSADDA_B 0x745e0000 [FPR_XD, FPR_XJ, FPR_XK],
    Fmt LISA_XVSADDA_H 0x745e8000 [FPR_XD, FPR_XJ, FPR_XK],
    Fmt LISA_XVSADDA_W 0x745f0000 [FPR_XD, FPR_XJ, FPR_XK],
    Fmt LISA_XVSADDA_D 0x745f8000 [FPR_XD, FPR_XJ, FPR_XK],
    Fmt LISA_XVABSD_B 0x74600000 [FPR_XD, FPR_XJ, FPR_XK],
    Fmt LISA_XVABSD_H 0x74608000 [FPR_XD, FPR_XJ, FPR_XK],
    Fmt LISA_XVABSD_W 0x74610000 [FPR_XD, FPR_XJ, FPR_XK],
    Fmt LISA_XVABSD_D 0x74618000 [FPR_XD, FPR_XJ, FPR_XK],
    Fmt LISA_XVABSD_BU 0x74620000 [FPR_XD, FPR_XJ, FPR_XK],
    Fmt LISA_XVABSD_HU 0x74628000 [FPR_XD, FPR_XJ, FPR_XK],
    Fmt LISA_XVABSD_WU 0x74630000 [FPR_XD, FPR_XJ, FPR_XK],
    Fmt LISA_XVABSD_DU 0x74638000 [FPR_XD, FPR_XJ, FPR_XK],
    Fmt LISA_XVAVG_B 0x74640000 [FPR_XD, FPR_XJ, FPR_XK],
    Fmt LISA_XVAVG_H 0x74648000 [FPR_XD, FPR_XJ, FPR_XK],
    Fmt LISA_XVAVG_W 0x74650000 [FPR_XD, FPR_XJ, FPR_XK],
    Fmt LISA_XVAVG_D 0x74658000 [FPR_XD, FPR_XJ, FPR_XK],
    Fmt LISA_XVAVG_BU 0x74660000 [FPR_XD, FPR_XJ, FPR_XK],
    Fmt LISA_XVAVG_HU 0x74668000 [FPR_XD, FPR_XJ, FPR_XK],
    Fmt LISA_XVAVG_WU 0x74670000 [FPR_XD, FPR_XJ, FPR_XK],
    Fmt LISA_XVAVG_DU 0x74678000 [FPR_XD, FPR_XJ, FPR_XK],
    Fmt LISA_XVAVGR_B 0x74680000 [FPR_XD, FPR_XJ, FPR_XK],
    Fmt LISA_XVAVGR_H 0x74688000 [FPR_XD, FPR_XJ, FPR_XK],
    Fmt LISA_XVAVGR_W 0x74690000 [FPR_XD, FPR_XJ, FPR_XK],
    Fmt LISA_XVAVGR_D 0x74698000 [FPR_XD, FPR_XJ, FPR_XK],
    Fmt LISA_XVAVGR_BU 0x746a0000 [FPR_XD, FPR_XJ, FPR_XK],
    Fmt LISA_XVAVGR_HU 0x746a8000 [FPR_XD, FPR_XJ, FPR_XK],
    Fmt LISA_XVAVGR_WU 0x746b0000 [FPR_XD, FPR_XJ, FPR_XK],
    Fmt LISA_XVAVGR_DU 0x746b8000 [FPR_XD, FPR_XJ, FPR_XK],
    Fmt LISA_XVHALFD_B 0x746c0000 [FPR_XD, FPR_XJ, FPR_XK],
    Fmt LISA_XVHALFD_H 0x746c8000 [FPR_XD, FPR_XJ, FPR_XK],
    Fmt LISA_XVHALFD_W 0x746d0000 [FPR_XD, FPR_XJ, FPR_XK],
    Fmt LISA_XVHALFD_D 0x746d8000 [FPR_XD, FPR_XJ, FPR_XK],
    Fmt LISA_XVHALFD_BU 0x746e0000 [FPR_XD, FPR_XJ, FPR_XK],
    Fmt LISA_XVHALFD_HU 0x746e8000 [FPR_XD, FPR_XJ, FPR_XK],
    Fmt LISA_XVHALFD_WU 0x746f0000 [FPR_XD, FPR_XJ, FPR_XK],
    Fmt LISA_XVHALFD_DU 0x746f8000 [FPR_XD, FPR_XJ, FPR_XK],
    Fmt LISA_XVMAX_B 0x74700000 [FPR_XD, FPR_XJ, FPR_XK],
    Fmt LISA_XVMAX_H 0x74708000 [FPR_XD, FPR_XJ, FPR_XK],
    Fmt LISA_XVMAX_W 0x74710000 [FPR_XD, FPR_XJ, FPR_XK],
    Fmt LISA_XVMAX_D 0x74718000 [FPR_XD, FPR_XJ, FPR_XK],
    Fmt LISA_XVMIN_B 0x74720000 [FPR_XD, FPR_XJ, FPR_XK],
    Fmt LISA_XVMIN_H 0x74728000 [FPR_XD, FPR_XJ, FPR_XK],
    Fmt LISA_XVMIN_W 0x74730000 [FPR_XD, FPR_XJ, FPR_XK],
    Fmt LISA_XVMIN_D 0x74738000 [FPR_XD, FPR_XJ, FPR_XK],
    Fmt LISA_XVMAX_BU 0x74740000 [FPR_XD, FPR_XJ, FPR_XK],
    Fmt LISA_XVMAX_HU 0x74748000 [FPR_XD, FPR_XJ, FPR_XK],
    Fmt LISA_XVMAX_WU 0x74750000 [FPR_XD, FPR_XJ, FPR_XK],
    Fmt LISA_XVMAX_DU 0x74758000 [FPR_XD, FPR_XJ, FPR_XK],
    Fmt LISA_XVMIN_BU 0x74760000 [FPR_XD, FPR_XJ, FPR_XK],
    Fmt LISA_XVMIN_HU 0x74768000 [FPR_XD, FPR_XJ, FPR_XK]]"

definition lisa_rows_14388 :: "la_format list" where
  "lisa_rows_14388 = [
    Fmt LISA_XVMIN_WU 0x74770000 [FPR_XD, FPR_XJ, FPR_XK],
    Fmt LISA_XVMIN_DU 0x74778000 [FPR_XD, FPR_XJ, FPR_XK],
    Fmt LISA_XVMAXA_B 0x74780000 [FPR_XD, FPR_XJ, FPR_XK],
    Fmt LISA_XVMAXA_H 0x74788000 [FPR_XD, FPR_XJ, FPR_XK],
    Fmt LISA_XVMAXA_W 0x74790000 [FPR_XD, FPR_XJ, FPR_XK],
    Fmt LISA_XVMAXA_D 0x74798000 [FPR_XD, FPR_XJ, FPR_XK],
    Fmt LISA_XVMINA_B 0x747a0000 [FPR_XD, FPR_XJ, FPR_XK],
    Fmt LISA_XVMINA_H 0x747a8000 [FPR_XD, FPR_XJ, FPR_XK],
    Fmt LISA_XVMINA_W 0x747b0000 [FPR_XD, FPR_XJ, FPR_XK],
    Fmt LISA_XVMINA_D 0x747b8000 [FPR_XD, FPR_XJ, FPR_XK],
    Fmt LISA_XVSADW_H_B 0x747c0000 [FPR_XD, FPR_XJ, FPR_XK],
    Fmt LISA_XVSADW_W_H 0x747c8000 [FPR_XD, FPR_XJ, FPR_XK],
    Fmt LISA_XVSADW_D_W 0x747d0000 [FPR_XD, FPR_XJ, FPR_XK],
    Fmt LISA_XVSADW_H_BU 0x747e0000 [FPR_XD, FPR_XJ, FPR_XK],
    Fmt LISA_XVSADW_W_HU 0x747e8000 [FPR_XD, FPR_XJ, FPR_XK],
    Fmt LISA_XVSADW_D_WU 0x747f0000 [FPR_XD, FPR_XJ, FPR_XK],
    Fmt LISA_XVACCSADW_H_B 0x74800000 [FPR_XD, FPR_XJ, FPR_XK],
    Fmt LISA_XVACCSADW_W_H 0x74808000 [FPR_XD, FPR_XJ, FPR_XK],
    Fmt LISA_XVACCSADW_D_W 0x74810000 [FPR_XD, FPR_XJ, FPR_XK],
    Fmt LISA_XVACCSADW_H_BU 0x74820000 [FPR_XD, FPR_XJ, FPR_XK],
    Fmt LISA_XVACCSADW_W_HU 0x74828000 [FPR_XD, FPR_XJ, FPR_XK],
    Fmt LISA_XVACCSADW_D_WU 0x74830000 [FPR_XD, FPR_XJ, FPR_XK],
    Fmt LISA_XVMUL_B 0x74840000 [FPR_XD, FPR_XJ, FPR_XK],
    Fmt LISA_XVMUL_H 0x74848000 [FPR_XD, FPR_XJ, FPR_XK],
    Fmt LISA_XVMUL_W 0x74850000 [FPR_XD, FPR_XJ, FPR_XK],
    Fmt LISA_XVMUL_D 0x74858000 [FPR_XD, FPR_XJ, FPR_XK],
    Fmt LISA_XVMUH_B 0x74860000 [FPR_XD, FPR_XJ, FPR_XK],
    Fmt LISA_XVMUH_H 0x74868000 [FPR_XD, FPR_XJ, FPR_XK],
    Fmt LISA_XVMUH_W 0x74870000 [FPR_XD, FPR_XJ, FPR_XK],
    Fmt LISA_XVMUH_D 0x74878000 [FPR_XD, FPR_XJ, FPR_XK],
    Fmt LISA_XVMUH_BU 0x74880000 [FPR_XD, FPR_XJ, FPR_XK],
    Fmt LISA_XVMUH_HU 0x74888000 [FPR_XD, FPR_XJ, FPR_XK],
    Fmt LISA_XVMUH_WU 0x74890000 [FPR_XD, FPR_XJ, FPR_XK],
    Fmt LISA_XVMUH_DU 0x74898000 [FPR_XD, FPR_XJ, FPR_XK],
    Fmt LISA_XVMUH_BU_B 0x748a0000 [FPR_XD, FPR_XJ, FPR_XK],
    Fmt LISA_XVMUH_HU_H 0x748a8000 [FPR_XD, FPR_XJ, FPR_XK],
    Fmt LISA_XVMUH_WU_W 0x748b0000 [FPR_XD, FPR_XJ, FPR_XK],
    Fmt LISA_XVMUH_DU_D 0x748b8000 [FPR_XD, FPR_XJ, FPR_XK],
    Fmt LISA_XVMULXW_H_B 0x748c0000 [FPR_XD, FPR_XJ, FPR_XK],
    Fmt LISA_XVMULXW_W_H 0x748c8000 [FPR_XD, FPR_XJ, FPR_XK],
    Fmt LISA_XVMULXW_D_W 0x748d0000 [FPR_XD, FPR_XJ, FPR_XK],
    Fmt LISA_XVMULXW_H_BU 0x748e0000 [FPR_XD, FPR_XJ, FPR_XK],
    Fmt LISA_XVMULXW_W_HU 0x748e8000 [FPR_XD, FPR_XJ, FPR_XK],
    Fmt LISA_XVMULXW_D_WU 0x748f0000 [FPR_XD, FPR_XJ, FPR_XK],
    Fmt LISA_XVMULWEV_H_B 0x74900000 [FPR_XD, FPR_XJ, FPR_XK],
    Fmt LISA_XVMULWEV_W_H 0x74908000 [FPR_XD, FPR_XJ, FPR_XK],
    Fmt LISA_XVMULWEV_D_W 0x74910000 [FPR_XD, FPR_XJ, FPR_XK],
    Fmt LISA_XVMULWEV_Q_D 0x74918000 [FPR_XD, FPR_XJ, FPR_XK],
    Fmt LISA_XVMULWOD_H_B 0x74920000 [FPR_XD, FPR_XJ, FPR_XK],
    Fmt LISA_XVMULWOD_W_H 0x74928000 [FPR_XD, FPR_XJ, FPR_XK],
    Fmt LISA_XVMULWOD_D_W 0x74930000 [FPR_XD, FPR_XJ, FPR_XK],
    Fmt LISA_XVMULWOD_Q_D 0x74938000 [FPR_XD, FPR_XJ, FPR_XK],
    Fmt LISA_XVMULWL_H_B 0x74940000 [FPR_XD, FPR_XJ, FPR_XK],
    Fmt LISA_XVMULWL_W_H 0x74948000 [FPR_XD, FPR_XJ, FPR_XK],
    Fmt LISA_XVMULWL_D_W 0x74950000 [FPR_XD, FPR_XJ, FPR_XK],
    Fmt LISA_XVMULWL_Q_D 0x74958000 [FPR_XD, FPR_XJ, FPR_XK],
    Fmt LISA_XVMULWH_H_B 0x74960000 [FPR_XD, FPR_XJ, FPR_XK],
    Fmt LISA_XVMULWH_W_H 0x74968000 [FPR_XD, FPR_XJ, FPR_XK],
    Fmt LISA_XVMULWH_D_W 0x74970000 [FPR_XD, FPR_XJ, FPR_XK],
    Fmt LISA_XVMULWH_Q_D 0x74978000 [FPR_XD, FPR_XJ, FPR_XK],
    Fmt LISA_XVMULWEV_H_BU 0x74980000 [FPR_XD, FPR_XJ, FPR_XK],
    Fmt LISA_XVMULWEV_W_HU 0x74988000 [FPR_XD, FPR_XJ, FPR_XK],
    Fmt LISA_XVMULWEV_D_WU 0x74990000 [FPR_XD, FPR_XJ, FPR_XK],
    Fmt LISA_XVMULWEV_Q_DU 0x74998000 [FPR_XD, FPR_XJ, FPR_XK],
    Fmt LISA_XVMULWOD_H_BU 0x749a0000 [FPR_XD, FPR_XJ, FPR_XK],
    Fmt LISA_XVMULWOD_W_HU 0x749a8000 [FPR_XD, FPR_XJ, FPR_XK],
    Fmt LISA_XVMULWOD_D_WU 0x749b0000 [FPR_XD, FPR_XJ, FPR_XK],
    Fmt LISA_XVMULWOD_Q_DU 0x749b8000 [FPR_XD, FPR_XJ, FPR_XK],
    Fmt LISA_XVMULWL_H_BU 0x749c0000 [FPR_XD, FPR_XJ, FPR_XK],
    Fmt LISA_XVMULWL_W_HU 0x749c8000 [FPR_XD, FPR_XJ, FPR_XK],
    Fmt LISA_XVMULWL_D_WU 0x749d0000 [FPR_XD, FPR_XJ, FPR_XK],
    Fmt LISA_XVMULWL_Q_DU 0x749d8000 [FPR_XD, FPR_XJ, FPR_XK],
    Fmt LISA_XVMULWH_H_BU 0x749e0000 [FPR_XD, FPR_XJ, FPR_XK],
    Fmt LISA_XVMULWH_W_HU 0x749e8000 [FPR_XD, FPR_XJ, FPR_XK],
    Fmt LISA_XVMULWH_D_WU 0x749f0000 [FPR_XD, FPR_XJ, FPR_XK],
    Fmt LISA_XVMULWH_Q_DU 0x749f8000 [FPR_XD, FPR_XJ, FPR_XK],
    Fmt LISA_XVMULWEV_H_BU_B 0x74a00000 [FPR_XD, FPR_XJ, FPR_XK],
    Fmt LISA_XVMULWEV_W_HU_H 0x74a08000 [FPR_XD, FPR_XJ, FPR_XK],
    Fmt LISA_XVMULWEV_D_WU_W 0x74a10000 [FPR_XD, FPR_XJ, FPR_XK],
    Fmt LISA_XVMULWEV_Q_DU_D 0x74a18000 [FPR_XD, FPR_XJ, FPR_XK],
    Fmt LISA_XVMULWOD_H_BU_B 0x74a20000 [FPR_XD, FPR_XJ, FPR_XK],
    Fmt LISA_XVMULWOD_W_HU_H 0x74a28000 [FPR_XD, FPR_XJ, FPR_XK],
    Fmt LISA_XVMULWOD_D_WU_W 0x74a30000 [FPR_XD, FPR_XJ, FPR_XK],
    Fmt LISA_XVMULWOD_Q_DU_D 0x74a38000 [FPR_XD, FPR_XJ, FPR_XK],
    Fmt LISA_XVMULWL_H_BU_B 0x74a40000 [FPR_XD, FPR_XJ, FPR_XK],
    Fmt LISA_XVMULWL_W_HU_H 0x74a48000 [FPR_XD, FPR_XJ, FPR_XK],
    Fmt LISA_XVMULWL_D_WU_W 0x74a50000 [FPR_XD, FPR_XJ, FPR_XK],
    Fmt LISA_XVMULWL_Q_DU_D 0x74a58000 [FPR_XD, FPR_XJ, FPR_XK],
    Fmt LISA_XVMULWH_H_BU_B 0x74a60000 [FPR_XD, FPR_XJ, FPR_XK],
    Fmt LISA_XVMULWH_W_HU_H 0x74a68000 [FPR_XD, FPR_XJ, FPR_XK],
    Fmt LISA_XVMULWH_D_WU_W 0x74a70000 [FPR_XD, FPR_XJ, FPR_XK],
    Fmt LISA_XVMULWH_Q_DU_D 0x74a78000 [FPR_XD, FPR_XJ, FPR_XK],
    Fmt LISA_XVMADD_B 0x74a80000 [FPR_XD, FPR_XJ, FPR_XK],
    Fmt LISA_XVMADD_H 0x74a88000 [FPR_XD, FPR_XJ, FPR_XK],
    Fmt LISA_XVMADD_W 0x74a90000 [FPR_XD, FPR_XJ, FPR_XK],
    Fmt LISA_XVMADD_D 0x74a98000 [FPR_XD, FPR_XJ, FPR_XK],
    Fmt LISA_XVMSUB_B 0x74aa0000 [FPR_XD, FPR_XJ, FPR_XK],
    Fmt LISA_XVMSUB_H 0x74aa8000 [FPR_XD, FPR_XJ, FPR_XK],
    Fmt LISA_XVMSUB_W 0x74ab0000 [FPR_XD, FPR_XJ, FPR_XK],
    Fmt LISA_XVMSUB_D 0x74ab8000 [FPR_XD, FPR_XJ, FPR_XK],
    Fmt LISA_XVMADDWEV_H_B 0x74ac0000 [FPR_XD, FPR_XJ, FPR_XK],
    Fmt LISA_XVMADDWEV_W_H 0x74ac8000 [FPR_XD, FPR_XJ, FPR_XK],
    Fmt LISA_XVMADDWEV_D_W 0x74ad0000 [FPR_XD, FPR_XJ, FPR_XK],
    Fmt LISA_XVMADDWEV_Q_D 0x74ad8000 [FPR_XD, FPR_XJ, FPR_XK],
    Fmt LISA_XVMADDWOD_H_B 0x74ae0000 [FPR_XD, FPR_XJ, FPR_XK],
    Fmt LISA_XVMADDWOD_W_H 0x74ae8000 [FPR_XD, FPR_XJ, FPR_XK],
    Fmt LISA_XVMADDWOD_D_W 0x74af0000 [FPR_XD, FPR_XJ, FPR_XK],
    Fmt LISA_XVMADDWOD_Q_D 0x74af8000 [FPR_XD, FPR_XJ, FPR_XK],
    Fmt LISA_XVMADDWL_H_B 0x74b00000 [FPR_XD, FPR_XJ, FPR_XK],
    Fmt LISA_XVMADDWL_W_H 0x74b08000 [FPR_XD, FPR_XJ, FPR_XK],
    Fmt LISA_XVMADDWL_D_W 0x74b10000 [FPR_XD, FPR_XJ, FPR_XK],
    Fmt LISA_XVMADDWL_Q_D 0x74b18000 [FPR_XD, FPR_XJ, FPR_XK],
    Fmt LISA_XVMADDWH_H_B 0x74b20000 [FPR_XD, FPR_XJ, FPR_XK],
    Fmt LISA_XVMADDWH_W_H 0x74b28000 [FPR_XD, FPR_XJ, FPR_XK],
    Fmt LISA_XVMADDWH_D_W 0x74b30000 [FPR_XD, FPR_XJ, FPR_XK],
    Fmt LISA_XVMADDWH_Q_D 0x74b38000 [FPR_XD, FPR_XJ, FPR_XK],
    Fmt LISA_XVMADDWEV_H_BU 0x74b40000 [FPR_XD, FPR_XJ, FPR_XK],
    Fmt LISA_XVMADDWEV_W_HU 0x74b48000 [FPR_XD, FPR_XJ, FPR_XK],
    Fmt LISA_XVMADDWEV_D_WU 0x74b50000 [FPR_XD, FPR_XJ, FPR_XK],
    Fmt LISA_XVMADDWEV_Q_DU 0x74b58000 [FPR_XD, FPR_XJ, FPR_XK],
    Fmt LISA_XVMADDWOD_H_BU 0x74b60000 [FPR_XD, FPR_XJ, FPR_XK],
    Fmt LISA_XVMADDWOD_W_HU 0x74b68000 [FPR_XD, FPR_XJ, FPR_XK],
    Fmt LISA_XVMADDWOD_D_WU 0x74b70000 [FPR_XD, FPR_XJ, FPR_XK],
    Fmt LISA_XVMADDWOD_Q_DU 0x74b78000 [FPR_XD, FPR_XJ, FPR_XK],
    Fmt LISA_XVMADDWL_H_BU 0x74b80000 [FPR_XD, FPR_XJ, FPR_XK],
    Fmt LISA_XVMADDWL_W_HU 0x74b88000 [FPR_XD, FPR_XJ, FPR_XK],
    Fmt LISA_XVMADDWL_D_WU 0x74b90000 [FPR_XD, FPR_XJ, FPR_XK],
    Fmt LISA_XVMADDWL_Q_DU 0x74b98000 [FPR_XD, FPR_XJ, FPR_XK],
    Fmt LISA_XVMADDWH_H_BU 0x74ba0000 [FPR_XD, FPR_XJ, FPR_XK],
    Fmt LISA_XVMADDWH_W_HU 0x74ba8000 [FPR_XD, FPR_XJ, FPR_XK],
    Fmt LISA_XVMADDWH_D_WU 0x74bb0000 [FPR_XD, FPR_XJ, FPR_XK],
    Fmt LISA_XVMADDWH_Q_DU 0x74bb8000 [FPR_XD, FPR_XJ, FPR_XK],
    Fmt LISA_XVMADDWEV_H_BU_B 0x74bc0000 [FPR_XD, FPR_XJ, FPR_XK],
    Fmt LISA_XVMADDWEV_W_HU_H 0x74bc8000 [FPR_XD, FPR_XJ, FPR_XK],
    Fmt LISA_XVMADDWEV_D_WU_W 0x74bd0000 [FPR_XD, FPR_XJ, FPR_XK],
    Fmt LISA_XVMADDWEV_Q_DU_D 0x74bd8000 [FPR_XD, FPR_XJ, FPR_XK],
    Fmt LISA_XVMADDWOD_H_BU_B 0x74be0000 [FPR_XD, FPR_XJ, FPR_XK],
    Fmt LISA_XVMADDWOD_W_HU_H 0x74be8000 [FPR_XD, FPR_XJ, FPR_XK],
    Fmt LISA_XVMADDWOD_D_WU_W 0x74bf0000 [FPR_XD, FPR_XJ, FPR_XK],
    Fmt LISA_XVMADDWOD_Q_DU_D 0x74bf8000 [FPR_XD, FPR_XJ, FPR_XK],
    Fmt LISA_XVMADDWL_H_BU_B 0x74c00000 [FPR_XD, FPR_XJ, FPR_XK],
    Fmt LISA_XVMADDWL_W_HU_H 0x74c08000 [FPR_XD, FPR_XJ, FPR_XK],
    Fmt LISA_XVMADDWL_D_WU_W 0x74c10000 [FPR_XD, FPR_XJ, FPR_XK],
    Fmt LISA_XVMADDWL_Q_DU_D 0x74c18000 [FPR_XD, FPR_XJ, FPR_XK],
    Fmt LISA_XVMADDWH_H_BU_B 0x74c20000 [FPR_XD, FPR_XJ, FPR_XK],
    Fmt LISA_XVMADDWH_W_HU_H 0x74c28000 [FPR_XD, FPR_XJ, FPR_XK],
    Fmt LISA_XVMADDWH_D_WU_W 0x74c30000 [FPR_XD, FPR_XJ, FPR_XK],
    Fmt LISA_XVMADDWH_Q_DU_D 0x74c38000 [FPR_XD, FPR_XJ, FPR_XK],
    Fmt LISA_XVDP2_H_B 0x74c40000 [FPR_XD, FPR_XJ, FPR_XK],
    Fmt LISA_XVDP2_W_H 0x74c48000 [FPR_XD, FPR_XJ, FPR_XK],
    Fmt LISA_XVDP2_D_W 0x74c50000 [FPR_XD, FPR_XJ, FPR_XK],
    Fmt LISA_XVDP2_Q_D 0x74c58000 [FPR_XD, FPR_XJ, FPR_XK],
    Fmt LISA_XVDP2_HU_BU 0x74c60000 [FPR_XD, FPR_XJ, FPR_XK],
    Fmt LISA_XVDP2_WU_HU 0x74c68000 [FPR_XD, FPR_XJ, FPR_XK],
    Fmt LISA_XVDP2_DU_WU 0x74c70000 [FPR_XD, FPR_XJ, FPR_XK],
    Fmt LISA_XVDP2_QU_DU 0x74c78000 [FPR_XD, FPR_XJ, FPR_XK],
    Fmt LISA_XVDP2_H_BU_B 0x74c80000 [FPR_XD, FPR_XJ, FPR_XK],
    Fmt LISA_XVDP2_W_HU_H 0x74c88000 [FPR_XD, FPR_XJ, FPR_XK],
    Fmt LISA_XVDP2_D_WU_W 0x74c90000 [FPR_XD, FPR_XJ, FPR_XK],
    Fmt LISA_XVDP2_Q_DU_D 0x74c98000 [FPR_XD, FPR_XJ, FPR_XK],
    Fmt LISA_XVDP2ADD_H_B 0x74ca0000 [FPR_XD, FPR_XJ, FPR_XK],
    Fmt LISA_XVDP2ADD_W_H 0x74ca8000 [FPR_XD, FPR_XJ, FPR_XK],
    Fmt LISA_XVDP2ADD_D_W 0x74cb0000 [FPR_XD, FPR_XJ, FPR_XK],
    Fmt LISA_XVDP2ADD_Q_D 0x74cb8000 [FPR_XD, FPR_XJ, FPR_XK],
    Fmt LISA_XVDP2ADD_H_BU 0x74cc0000 [FPR_XD, FPR_XJ, FPR_XK],
    Fmt LISA_XVDP2ADD_W_HU 0x74cc8000 [FPR_XD, FPR_XJ, FPR_XK],
    Fmt LISA_XVDP2ADD_D_WU 0x74cd0000 [FPR_XD, FPR_XJ, FPR_XK],
    Fmt LISA_XVDP2ADD_Q_DU 0x74cd8000 [FPR_XD, FPR_XJ, FPR_XK],
    Fmt LISA_XVDP2ADD_H_BU_B 0x74ce0000 [FPR_XD, FPR_XJ, FPR_XK],
    Fmt LISA_XVDP2ADD_W_HU_H 0x74ce8000 [FPR_XD, FPR_XJ, FPR_XK],
    Fmt LISA_XVDP2ADD_D_WU_W 0x74cf0000 [FPR_XD, FPR_XJ, FPR_XK],
    Fmt LISA_XVDP2ADD_Q_DU_D 0x74cf8000 [FPR_XD, FPR_XJ, FPR_XK],
    Fmt LISA_XVDP2SUB_H_B 0x74d00000 [FPR_XD, FPR_XJ, FPR_XK],
    Fmt LISA_XVDP2SUB_W_H 0x74d08000 [FPR_XD, FPR_XJ, FPR_XK],
    Fmt LISA_XVDP2SUB_D_W 0x74d10000 [FPR_XD, FPR_XJ, FPR_XK],
    Fmt LISA_XVDP2SUB_Q_D 0x74d18000 [FPR_XD, FPR_XJ, FPR_XK],
    Fmt LISA_XVDP2SUB_H_BU 0x74d20000 [FPR_XD, FPR_XJ, FPR_XK],
    Fmt LISA_XVDP2SUB_W_HU 0x74d28000 [FPR_XD, FPR_XJ, FPR_XK],
    Fmt LISA_XVDP2SUB_D_WU 0x74d30000 [FPR_XD, FPR_XJ, FPR_XK],
    Fmt LISA_XVDP2SUB_Q_DU 0x74d38000 [FPR_XD, FPR_XJ, FPR_XK],
    Fmt LISA_XVDP4_W_B 0x74d40000 [FPR_XD, FPR_XJ, FPR_XK],
    Fmt LISA_XVDP4_D_H 0x74d48000 [FPR_XD, FPR_XJ, FPR_XK],
    Fmt LISA_XVDP4_Q_W 0x74d50000 [FPR_XD, FPR_XJ, FPR_XK],
    Fmt LISA_XVDP4_W_BU 0x74d60000 [FPR_XD, FPR_XJ, FPR_XK],
    Fmt LISA_XVDP4_D_HU 0x74d68000 [FPR_XD, FPR_XJ, FPR_XK],
    Fmt LISA_XVDP4_Q_WU 0x74d70000 [FPR_XD, FPR_XJ, FPR_XK],
    Fmt LISA_XVDP4_W_BU_B 0x74d80000 [FPR_XD, FPR_XJ, FPR_XK],
    Fmt LISA_XVDP4_D_HU_H 0x74d88000 [FPR_XD, FPR_XJ, FPR_XK],
    Fmt LISA_XVDP4_Q_WU_W 0x74d90000 [FPR_XD, FPR_XJ, FPR_XK],
    Fmt LISA_XVDP4ADD_W_B 0x74da0000 [FPR_XD, FPR_XJ, FPR_XK],
    Fmt LISA_XVDP4ADD_D_H 0x74da8000 [FPR_XD, FPR_XJ, FPR_XK],
    Fmt LISA_XVDP4ADD_Q_W 0x74db0000 [FPR_XD, FPR_XJ, FPR_XK],
    Fmt LISA_XVDP4ADD_W_BU 0x74dc0000 [FPR_XD, FPR_XJ, FPR_XK],
    Fmt LISA_XVDP4ADD_D_HU 0x74dc8000 [FPR_XD, FPR_XJ, FPR_XK],
    Fmt LISA_XVDP4ADD_Q_WU 0x74dd0000 [FPR_XD, FPR_XJ, FPR_XK],
    Fmt LISA_XVDP4ADD_W_BU_B 0x74de0000 [FPR_XD, FPR_XJ, FPR_XK],
    Fmt LISA_XVDP4ADD_D_HU_H 0x74de8000 [FPR_XD, FPR_XJ, FPR_XK],
    Fmt LISA_XVDP4ADD_Q_WU_W 0x74df0000 [FPR_XD, FPR_XJ, FPR_XK],
    Fmt LISA_XVDIV_B 0x74e00000 [FPR_XD, FPR_XJ, FPR_XK],
    Fmt LISA_XVDIV_H 0x74e08000 [FPR_XD, FPR_XJ, FPR_XK],
    Fmt LISA_XVDIV_W 0x74e10000 [FPR_XD, FPR_XJ, FPR_XK],
    Fmt LISA_XVDIV_D 0x74e18000 [FPR_XD, FPR_XJ, FPR_XK],
    Fmt LISA_XVMOD_B 0x74e20000 [FPR_XD, FPR_XJ, FPR_XK],
    Fmt LISA_XVMOD_H 0x74e28000 [FPR_XD, FPR_XJ, FPR_XK],
    Fmt LISA_XVMOD_W 0x74e30000 [FPR_XD, FPR_XJ, FPR_XK],
    Fmt LISA_XVMOD_D 0x74e38000 [FPR_XD, FPR_XJ, FPR_XK],
    Fmt LISA_XVDIV_BU 0x74e40000 [FPR_XD, FPR_XJ, FPR_XK],
    Fmt LISA_XVDIV_HU 0x74e48000 [FPR_XD, FPR_XJ, FPR_XK],
    Fmt LISA_XVDIV_WU 0x74e50000 [FPR_XD, FPR_XJ, FPR_XK],
    Fmt LISA_XVDIV_DU 0x74e58000 [FPR_XD, FPR_XJ, FPR_XK],
    Fmt LISA_XVMOD_BU 0x74e60000 [FPR_XD, FPR_XJ, FPR_XK],
    Fmt LISA_XVMOD_HU 0x74e68000 [FPR_XD, FPR_XJ, FPR_XK],
    Fmt LISA_XVMOD_WU 0x74e70000 [FPR_XD, FPR_XJ, FPR_XK],
    Fmt LISA_XVMOD_DU 0x74e78000 [FPR_XD, FPR_XJ, FPR_XK],
    Fmt LISA_XVSLL_B 0x74e80000 [FPR_XD, FPR_XJ, FPR_XK],
    Fmt LISA_XVSLL_H 0x74e88000 [FPR_XD, FPR_XJ, FPR_XK],
    Fmt LISA_XVSLL_W 0x74e90000 [FPR_XD, FPR_XJ, FPR_XK],
    Fmt LISA_XVSLL_D 0x74e98000 [FPR_XD, FPR_XJ, FPR_XK],
    Fmt LISA_XVSRL_B 0x74ea0000 [FPR_XD, FPR_XJ, FPR_XK],
    Fmt LISA_XVSRL_H 0x74ea8000 [FPR_XD, FPR_XJ, FPR_XK],
    Fmt LISA_XVSRL_W 0x74eb0000 [FPR_XD, FPR_XJ, FPR_XK],
    Fmt LISA_XVSRL_D 0x74eb8000 [FPR_XD, FPR_XJ, FPR_XK],
    Fmt LISA_XVSRA_B 0x74ec0000 [FPR_XD, FPR_XJ, FPR_XK],
    Fmt LISA_XVSRA_H 0x74ec8000 [FPR_XD, FPR_XJ, FPR_XK],
    Fmt LISA_XVSRA_W 0x74ed0000 [FPR_XD, FPR_XJ, FPR_XK]]"

definition lisa_rows_16188 :: "la_format list" where
  "lisa_rows_16188 = [
    Fmt LISA_XVSRA_D 0x74ed8000 [FPR_XD, FPR_XJ, FPR_XK],
    Fmt LISA_XVROTR_B 0x74ee0000 [FPR_XD, FPR_XJ, FPR_XK],
    Fmt LISA_XVROTR_H 0x74ee8000 [FPR_XD, FPR_XJ, FPR_XK],
    Fmt LISA_XVROTR_W 0x74ef0000 [FPR_XD, FPR_XJ, FPR_XK],
    Fmt LISA_XVROTR_D 0x74ef8000 [FPR_XD, FPR_XJ, FPR_XK],
    Fmt LISA_XVSRLR_B 0x74f00000 [FPR_XD, FPR_XJ, FPR_XK],
    Fmt LISA_XVSRLR_H 0x74f08000 [FPR_XD, FPR_XJ, FPR_XK],
    Fmt LISA_XVSRLR_W 0x74f10000 [FPR_XD, FPR_XJ, FPR_XK],
    Fmt LISA_XVSRLR_D 0x74f18000 [FPR_XD, FPR_XJ, FPR_XK],
    Fmt LISA_XVSRAR_B 0x74f20000 [FPR_XD, FPR_XJ, FPR_XK],
    Fmt LISA_XVSRAR_H 0x74f28000 [FPR_XD, FPR_XJ, FPR_XK],
    Fmt LISA_XVSRAR_W 0x74f30000 [FPR_XD, FPR_XJ, FPR_XK],
    Fmt LISA_XVSRAR_D 0x74f38000 [FPR_XD, FPR_XJ, FPR_XK],
    Fmt LISA_XVSRLN_B_H 0x74f48000 [FPR_XD, FPR_XJ, FPR_XK],
    Fmt LISA_XVSRLN_H_W 0x74f50000 [FPR_XD, FPR_XJ, FPR_XK],
    Fmt LISA_XVSRLN_W_D 0x74f58000 [FPR_XD, FPR_XJ, FPR_XK],
    Fmt LISA_XVSRAN_B_H 0x74f68000 [FPR_XD, FPR_XJ, FPR_XK],
    Fmt LISA_XVSRAN_H_W 0x74f70000 [FPR_XD, FPR_XJ, FPR_XK],
    Fmt LISA_XVSRAN_W_D 0x74f78000 [FPR_XD, FPR_XJ, FPR_XK],
    Fmt LISA_XVSRLRN_B_H 0x74f88000 [FPR_XD, FPR_XJ, FPR_XK],
    Fmt LISA_XVSRLRN_H_W 0x74f90000 [FPR_XD, FPR_XJ, FPR_XK],
    Fmt LISA_XVSRLRN_W_D 0x74f98000 [FPR_XD, FPR_XJ, FPR_XK],
    Fmt LISA_XVSRARN_B_H 0x74fa8000 [FPR_XD, FPR_XJ, FPR_XK],
    Fmt LISA_XVSRARN_H_W 0x74fb0000 [FPR_XD, FPR_XJ, FPR_XK],
    Fmt LISA_XVSRARN_W_D 0x74fb8000 [FPR_XD, FPR_XJ, FPR_XK],
    Fmt LISA_XVSSRLN_B_H 0x74fc8000 [FPR_XD, FPR_XJ, FPR_XK],
    Fmt LISA_XVSSRLN_H_W 0x74fd0000 [FPR_XD, FPR_XJ, FPR_XK],
    Fmt LISA_XVSSRLN_W_D 0x74fd8000 [FPR_XD, FPR_XJ, FPR_XK],
    Fmt LISA_XVSSRAN_B_H 0x74fe8000 [FPR_XD, FPR_XJ, FPR_XK],
    Fmt LISA_XVSSRAN_H_W 0x74ff0000 [FPR_XD, FPR_XJ, FPR_XK],
    Fmt LISA_XVSSRAN_W_D 0x74ff8000 [FPR_XD, FPR_XJ, FPR_XK],
    Fmt LISA_XVSSRLRN_B_H 0x75008000 [FPR_XD, FPR_XJ, FPR_XK],
    Fmt LISA_XVSSRLRN_H_W 0x75010000 [FPR_XD, FPR_XJ, FPR_XK],
    Fmt LISA_XVSSRLRN_W_D 0x75018000 [FPR_XD, FPR_XJ, FPR_XK],
    Fmt LISA_XVSSRARN_B_H 0x75028000 [FPR_XD, FPR_XJ, FPR_XK],
    Fmt LISA_XVSSRARN_H_W 0x75030000 [FPR_XD, FPR_XJ, FPR_XK],
    Fmt LISA_XVSSRARN_W_D 0x75038000 [FPR_XD, FPR_XJ, FPR_XK],
    Fmt LISA_XVSSRLN_BU_H 0x75048000 [FPR_XD, FPR_XJ, FPR_XK],
    Fmt LISA_XVSSRLN_HU_W 0x75050000 [FPR_XD, FPR_XJ, FPR_XK],
    Fmt LISA_XVSSRLN_WU_D 0x75058000 [FPR_XD, FPR_XJ, FPR_XK],
    Fmt LISA_XVSSRAN_BU_H 0x75068000 [FPR_XD, FPR_XJ, FPR_XK],
    Fmt LISA_XVSSRAN_HU_W 0x75070000 [FPR_XD, FPR_XJ, FPR_XK],
    Fmt LISA_XVSSRAN_WU_D 0x75078000 [FPR_XD, FPR_XJ, FPR_XK],
    Fmt LISA_XVSSRLRN_BU_H 0x75088000 [FPR_XD, FPR_XJ, FPR_XK],
    Fmt LISA_XVSSRLRN_HU_W 0x75090000 [FPR_XD, FPR_XJ, FPR_XK],
    Fmt LISA_XVSSRLRN_WU_D 0x75098000 [FPR_XD, FPR_XJ, FPR_XK],
    Fmt LISA_XVSSRARN_BU_H 0x750a8000 [FPR_XD, FPR_XJ, FPR_XK],
    Fmt LISA_XVSSRARN_HU_W 0x750b0000 [FPR_XD, FPR_XJ, FPR_XK],
    Fmt LISA_XVSSRARN_WU_D 0x750b8000 [FPR_XD, FPR_XJ, FPR_XK],
    Fmt LISA_XVBITCLR_B 0x750c0000 [FPR_XD, FPR_XJ, FPR_XK],
    Fmt LISA_XVBITCLR_H 0x750c8000 [FPR_XD, FPR_XJ, FPR_XK],
    Fmt LISA_XVBITCLR_W 0x750d0000 [FPR_XD, FPR_XJ, FPR_XK],
    Fmt LISA_XVBITCLR_D 0x750d8000 [FPR_XD, FPR_XJ, FPR_XK],
    Fmt LISA_XVBITSET_B 0x750e0000 [FPR_XD, FPR_XJ, FPR_XK],
    Fmt LISA_XVBITSET_H 0x750e8000 [FPR_XD, FPR_XJ, FPR_XK],
    Fmt LISA_XVBITSET_W 0x750f0000 [FPR_XD, FPR_XJ, FPR_XK],
    Fmt LISA_XVBITSET_D 0x750f8000 [FPR_XD, FPR_XJ, FPR_XK],
    Fmt LISA_XVBITREV_B 0x75100000 [FPR_XD, FPR_XJ, FPR_XK],
    Fmt LISA_XVBITREV_H 0x75108000 [FPR_XD, FPR_XJ, FPR_XK],
    Fmt LISA_XVBITREV_W 0x75110000 [FPR_XD, FPR_XJ, FPR_XK],
    Fmt LISA_XVBITREV_D 0x75118000 [FPR_XD, FPR_XJ, FPR_XK],
    Fmt LISA_XVBSTRC12_B 0x75120000 [FPR_XD, FPR_XJ, FPR_XK],
    Fmt LISA_XVBSTRC12_H 0x75128000 [FPR_XD, FPR_XJ, FPR_XK],
    Fmt LISA_XVBSTRC12_W 0x75130000 [FPR_XD, FPR_XJ, FPR_XK],
    Fmt LISA_XVBSTRC12_D 0x75138000 [FPR_XD, FPR_XJ, FPR_XK],
    Fmt LISA_XVBSTRC21_B 0x75140000 [FPR_XD, FPR_XJ, FPR_XK],
    Fmt LISA_XVBSTRC21_H 0x75148000 [FPR_XD, FPR_XJ, FPR_XK],
    Fmt LISA_XVBSTRC21_W 0x75150000 [FPR_XD, FPR_XJ, FPR_XK],
    Fmt LISA_XVBSTRC21_D 0x75158000 [FPR_XD, FPR_XJ, FPR_XK],
    Fmt LISA_XVPACKEV_B 0x75160000 [FPR_XD, FPR_XJ, FPR_XK],
    Fmt LISA_XVPACKEV_H 0x75168000 [FPR_XD, FPR_XJ, FPR_XK],
    Fmt LISA_XVPACKEV_W 0x75170000 [FPR_XD, FPR_XJ, FPR_XK],
    Fmt LISA_XVPACKEV_D 0x75178000 [FPR_XD, FPR_XJ, FPR_XK],
    Fmt LISA_XVPACKOD_B 0x75180000 [FPR_XD, FPR_XJ, FPR_XK],
    Fmt LISA_XVPACKOD_H 0x75188000 [FPR_XD, FPR_XJ, FPR_XK],
    Fmt LISA_XVPACKOD_W 0x75190000 [FPR_XD, FPR_XJ, FPR_XK],
    Fmt LISA_XVPACKOD_D 0x75198000 [FPR_XD, FPR_XJ, FPR_XK],
    Fmt LISA_XVILVL_B 0x751a0000 [FPR_XD, FPR_XJ, FPR_XK],
    Fmt LISA_XVILVL_H 0x751a8000 [FPR_XD, FPR_XJ, FPR_XK],
    Fmt LISA_XVILVL_W 0x751b0000 [FPR_XD, FPR_XJ, FPR_XK],
    Fmt LISA_XVILVL_D 0x751b8000 [FPR_XD, FPR_XJ, FPR_XK],
    Fmt LISA_XVILVH_B 0x751c0000 [FPR_XD, FPR_XJ, FPR_XK],
    Fmt LISA_XVILVH_H 0x751c8000 [FPR_XD, FPR_XJ, FPR_XK],
    Fmt LISA_XVILVH_W 0x751d0000 [FPR_XD, FPR_XJ, FPR_XK],
    Fmt LISA_XVILVH_D 0x751d8000 [FPR_XD, FPR_XJ, FPR_XK],
    Fmt LISA_XVPICKEV_B 0x751e0000 [FPR_XD, FPR_XJ, FPR_XK],
    Fmt LISA_XVPICKEV_H 0x751e8000 [FPR_XD, FPR_XJ, FPR_XK],
    Fmt LISA_XVPICKEV_W 0x751f0000 [FPR_XD, FPR_XJ, FPR_XK],
    Fmt LISA_XVPICKEV_D 0x751f8000 [FPR_XD, FPR_XJ, FPR_XK],
    Fmt LISA_XVPICKOD_B 0x75200000 [FPR_XD, FPR_XJ, FPR_XK],
    Fmt LISA_XVPICKOD_H 0x75208000 [FPR_XD, FPR_XJ, FPR_XK],
    Fmt LISA_XVPICKOD_W 0x75210000 [FPR_XD, FPR_XJ, FPR_XK],
    Fmt LISA_XVPICKOD_D 0x75218000 [FPR_XD, FPR_XJ, FPR_XK],
    Fmt LISA_XVREPLVE_B 0x75220000 [FPR_XD, FPR_XJ, GPR_RK],
    Fmt LISA_XVREPLVE_H 0x75228000 [FPR_XD, FPR_XJ, GPR_RK],
    Fmt LISA_XVREPLVE_W 0x75230000 [FPR_XD, FPR_XJ, GPR_RK],
    Fmt LISA_XVREPLVE_D 0x75238000 [FPR_XD, FPR_XJ, GPR_RK],
    Fmt LISA_XVEXTRCOL_B 0x75240000 [FPR_XD, FPR_XJ, GPR_RK],
    Fmt LISA_XVEXTRCOL_H 0x75248000 [FPR_XD, FPR_XJ, GPR_RK],
    Fmt LISA_XVEXTRCOL_W 0x75250000 [FPR_XD, FPR_XJ, GPR_RK],
    Fmt LISA_XVEXTRCOL_D 0x75258000 [FPR_XD, FPR_XJ, GPR_RK],
    Fmt LISA_XVAND_V 0x75260000 [FPR_XD, FPR_XJ, FPR_XK],
    Fmt LISA_XVOR_V 0x75268000 [FPR_XD, FPR_XJ, FPR_XK],
    Fmt LISA_XVXOR_V 0x75270000 [FPR_XD, FPR_XJ, FPR_XK],
    Fmt LISA_XVNOR_V 0x75278000 [FPR_XD, FPR_XJ, FPR_XK],
    Fmt LISA_XVANDN_V 0x75280000 [FPR_XD, FPR_XJ, FPR_XK],
    Fmt LISA_XVORN_V 0x75288000 [FPR_XD, FPR_XJ, FPR_XK],
    Fmt LISA_XVRANDSIGN_B 0x75290000 [FPR_XD, FPR_XJ, FPR_XK],
    Fmt LISA_XVRANDSIGN_H 0x75298000 [FPR_XD, FPR_XJ, FPR_XK],
    Fmt LISA_XVRORSIGN_B 0x752a0000 [FPR_XD, FPR_XJ, FPR_XK],
    Fmt LISA_XVRORSIGN_H 0x752a8000 [FPR_XD, FPR_XJ, FPR_XK],
    Fmt LISA_XVFRSTP_B 0x752b0000 [FPR_XD, FPR_XJ, FPR_XK],
    Fmt LISA_XVFRSTP_H 0x752b8000 [FPR_XD, FPR_XJ, FPR_XK],
    Fmt LISA_XVCLRSTRR_V 0x752c0000 [FPR_XD, FPR_XJ, GPR_RK],
    Fmt LISA_XVCLRSTRV_V 0x752c8000 [FPR_XD, FPR_XJ, FPR_XK],
    Fmt LISA_XVADD_Q 0x752d0000 [FPR_XD, FPR_XJ, FPR_XK],
    Fmt LISA_XVSUB_Q 0x752d8000 [FPR_XD, FPR_XJ, FPR_XK],
    Fmt LISA_XVSIGNCOV_B 0x752e0000 [FPR_XD, FPR_XJ, FPR_XK],
    Fmt LISA_XVSIGNCOV_H 0x752e8000 [FPR_XD, FPR_XJ, FPR_XK],
    Fmt LISA_XVSIGNCOV_W 0x752f0000 [FPR_XD, FPR_XJ, FPR_XK],
    Fmt LISA_XVSIGNCOV_D 0x752f8000 [FPR_XD, FPR_XJ, FPR_XK],
    Fmt LISA_XVFADD_S 0x75308000 [FPR_XD, FPR_XJ, FPR_XK],
    Fmt LISA_XVFADD_D 0x75310000 [FPR_XD, FPR_XJ, FPR_XK],
    Fmt LISA_XVFSUB_S 0x75328000 [FPR_XD, FPR_XJ, FPR_XK],
    Fmt LISA_XVFSUB_D 0x75330000 [FPR_XD, FPR_XJ, FPR_XK],
    Fmt LISA_XVFADDSUB_S 0x75348000 [FPR_XD, FPR_XJ, FPR_XK],
    Fmt LISA_XVFADDSUB_D 0x75350000 [FPR_XD, FPR_XJ, FPR_XK],
    Fmt LISA_XVFSUBADD_S 0x75368000 [FPR_XD, FPR_XJ, FPR_XK],
    Fmt LISA_XVFSUBADD_D 0x75370000 [FPR_XD, FPR_XJ, FPR_XK],
    Fmt LISA_XVFMUL_S 0x75388000 [FPR_XD, FPR_XJ, FPR_XK],
    Fmt LISA_XVFMUL_D 0x75390000 [FPR_XD, FPR_XJ, FPR_XK],
    Fmt LISA_XVFDIV_S 0x753a8000 [FPR_XD, FPR_XJ, FPR_XK],
    Fmt LISA_XVFDIV_D 0x753b0000 [FPR_XD, FPR_XJ, FPR_XK],
    Fmt LISA_XVFMAX_S 0x753c8000 [FPR_XD, FPR_XJ, FPR_XK],
    Fmt LISA_XVFMAX_D 0x753d0000 [FPR_XD, FPR_XJ, FPR_XK],
    Fmt LISA_XVFMIN_S 0x753e8000 [FPR_XD, FPR_XJ, FPR_XK],
    Fmt LISA_XVFMIN_D 0x753f0000 [FPR_XD, FPR_XJ, FPR_XK],
    Fmt LISA_XVFMAXA_S 0x75408000 [FPR_XD, FPR_XJ, FPR_XK],
    Fmt LISA_XVFMAXA_D 0x75410000 [FPR_XD, FPR_XJ, FPR_XK],
    Fmt LISA_XVFMINA_S 0x75428000 [FPR_XD, FPR_XJ, FPR_XK],
    Fmt LISA_XVFMINA_D 0x75430000 [FPR_XD, FPR_XJ, FPR_XK],
    Fmt LISA_XVFSCALEB_S 0x75448000 [FPR_XD, FPR_XJ, FPR_XK],
    Fmt LISA_XVFSCALEB_D 0x75450000 [FPR_XD, FPR_XJ, FPR_XK],
    Fmt LISA_XVFCVT_H_S 0x75460000 [FPR_XD, FPR_XJ, FPR_XK],
    Fmt LISA_XVFCVT_S_D 0x75468000 [FPR_XD, FPR_XJ, FPR_XK],
    Fmt LISA_XVFFINT_S_L 0x75480000 [FPR_XD, FPR_XJ, FPR_XK],
    Fmt LISA_XVFTINT_W_D 0x75498000 [FPR_XD, FPR_XJ, FPR_XK],
    Fmt LISA_XVFTINTRM_W_D 0x754a0000 [FPR_XD, FPR_XJ, FPR_XK],
    Fmt LISA_XVFTINTRP_W_D 0x754a8000 [FPR_XD, FPR_XJ, FPR_XK],
    Fmt LISA_XVFTINTRZ_W_D 0x754b0000 [FPR_XD, FPR_XJ, FPR_XK],
    Fmt LISA_XVFTINTRNE_W_D 0x754b8000 [FPR_XD, FPR_XJ, FPR_XK],
    Fmt LISA_XVHADD4_H_BU 0x754e8000 [FPR_XD, FPR_XJ, FPR_XK],
    Fmt LISA_XVSHUF4_W 0x754f0000 [FPR_XD, FPR_XJ, FPR_XK],
    Fmt LISA_XVSHUF2_D 0x754f8000 [FPR_XD, FPR_XJ, FPR_XK],
    Fmt LISA_XVPMUL_W 0x75600000 [FPR_XD, FPR_XJ, FPR_XK],
    Fmt LISA_XVPMUL_D 0x75608000 [FPR_XD, FPR_XJ, FPR_XK],
    Fmt LISA_XVPMUH_W 0x75610000 [FPR_XD, FPR_XJ, FPR_XK],
    Fmt LISA_XVPMUH_D 0x75618000 [FPR_XD, FPR_XJ, FPR_XK],
    Fmt LISA_XVPMULACC_W 0x75620000 [FPR_XD, FPR_XJ, FPR_XK],
    Fmt LISA_XVPMULACC_D 0x75628000 [FPR_XD, FPR_XJ, FPR_XK],
    Fmt LISA_XVPMUHACC_W 0x75630000 [FPR_XD, FPR_XJ, FPR_XK],
    Fmt LISA_XVPMUHACC_D 0x75638000 [FPR_XD, FPR_XJ, FPR_XK],
    Fmt LISA_XVPMULWL_H_B 0x75640000 [FPR_XD, FPR_XJ, FPR_XK],
    Fmt LISA_XVPMULWL_W_H 0x75648000 [FPR_XD, FPR_XJ, FPR_XK],
    Fmt LISA_XVPMULWL_D_W 0x75650000 [FPR_XD, FPR_XJ, FPR_XK],
    Fmt LISA_XVPMULWL_Q_D 0x75658000 [FPR_XD, FPR_XJ, FPR_XK],
    Fmt LISA_XVPMULWH_H_B 0x75660000 [FPR_XD, FPR_XJ, FPR_XK],
    Fmt LISA_XVPMULWH_W_H 0x75668000 [FPR_XD, FPR_XJ, FPR_XK],
    Fmt LISA_XVPMULWH_D_W 0x75670000 [FPR_XD, FPR_XJ, FPR_XK],
    Fmt LISA_XVPMULWH_Q_D 0x75678000 [FPR_XD, FPR_XJ, FPR_XK],
    Fmt LISA_XVPMADDWL_H_B 0x75680000 [FPR_XD, FPR_XJ, FPR_XK],
    Fmt LISA_XVPMADDWL_W_H 0x75688000 [FPR_XD, FPR_XJ, FPR_XK],
    Fmt LISA_XVPMADDWL_D_W 0x75690000 [FPR_XD, FPR_XJ, FPR_XK],
    Fmt LISA_XVPMADDWL_Q_D 0x75698000 [FPR_XD, FPR_XJ, FPR_XK],
    Fmt LISA_XVPMADDWH_H_B 0x756a0000 [FPR_XD, FPR_XJ, FPR_XK],
    Fmt LISA_XVPMADDWH_W_H 0x756a8000 [FPR_XD, FPR_XJ, FPR_XK],
    Fmt LISA_XVPMADDWH_D_W 0x756b0000 [FPR_XD, FPR_XJ, FPR_XK],
    Fmt LISA_XVPMADDWH_Q_D 0x756b8000 [FPR_XD, FPR_XJ, FPR_XK],
    Fmt LISA_XVPDP2_Q_D 0x756c0000 [FPR_XD, FPR_XJ, FPR_XK],
    Fmt LISA_XVPDP2ADD_Q_D 0x756c8000 [FPR_XD, FPR_XJ, FPR_XK],
    Fmt LISA_XVCDP4_RE_D_H 0x75700000 [FPR_XD, FPR_XJ, FPR_XK],
    Fmt LISA_XVCDP4_IM_D_H 0x75708000 [FPR_XD, FPR_XJ, FPR_XK],
    Fmt LISA_XVCDP4ADD_RE_D_H 0x75710000 [FPR_XD, FPR_XJ, FPR_XK],
    Fmt LISA_XVCDP4ADD_IM_D_H 0x75718000 [FPR_XD, FPR_XJ, FPR_XK],
    Fmt LISA_XVCDP2_RE_Q_W 0x75720000 [FPR_XD, FPR_XJ, FPR_XK],
    Fmt LISA_XVCDP2_IM_Q_W 0x75728000 [FPR_XD, FPR_XJ, FPR_XK],
    Fmt LISA_XVCDP2ADD_RE_Q_W 0x75730000 [FPR_XD, FPR_XJ, FPR_XK],
    Fmt LISA_XVCDP2ADD_IM_Q_W 0x75738000 [FPR_XD, FPR_XJ, FPR_XK],
    Fmt LISA_XVSIGNSEL_W 0x75790000 [FPR_XD, FPR_XJ, FPR_XK],
    Fmt LISA_XVSIGNSEL_D 0x75798000 [FPR_XD, FPR_XJ, FPR_XK],
    Fmt LISA_XVSHUF_H 0x757a8000 [FPR_XD, FPR_XJ, FPR_XK],
    Fmt LISA_XVSHUF_W 0x757b0000 [FPR_XD, FPR_XJ, FPR_XK],
    Fmt LISA_XVSHUF_D 0x757b8000 [FPR_XD, FPR_XJ, FPR_XK],
    Fmt LISA_XVPERM_W 0x757d0000 [FPR_XD, FPR_XJ, FPR_XK],
    Fmt LISA_XVSEQI_B 0x76800000 [FPR_XD, FPR_XJ, IMM_SI5],
    Fmt LISA_XVSEQI_H 0x76808000 [FPR_XD, FPR_XJ, IMM_SI5],
    Fmt LISA_XVSEQI_W 0x76810000 [FPR_XD, FPR_XJ, IMM_SI5],
    Fmt LISA_XVSEQI_D 0x76818000 [FPR_XD, FPR_XJ, IMM_SI5],
    Fmt LISA_XVSLEI_B 0x76820000 [FPR_XD, FPR_XJ, IMM_SI5],
    Fmt LISA_XVSLEI_H 0x76828000 [FPR_XD, FPR_XJ, IMM_SI5],
    Fmt LISA_XVSLEI_W 0x76830000 [FPR_XD, FPR_XJ, IMM_SI5],
    Fmt LISA_XVSLEI_D 0x76838000 [FPR_XD, FPR_XJ, IMM_SI5],
    Fmt LISA_XVSLEI_BU 0x76840000 [FPR_XD, FPR_XJ, IMM_UI5L],
    Fmt LISA_XVSLEI_HU 0x76848000 [FPR_XD, FPR_XJ, IMM_UI5L],
    Fmt LISA_XVSLEI_WU 0x76850000 [FPR_XD, FPR_XJ, IMM_UI5L],
    Fmt LISA_XVSLEI_DU 0x76858000 [FPR_XD, FPR_XJ, IMM_UI5L],
    Fmt LISA_XVSLTI_B 0x76860000 [FPR_XD, FPR_XJ, IMM_SI5],
    Fmt LISA_XVSLTI_H 0x76868000 [FPR_XD, FPR_XJ, IMM_SI5],
    Fmt LISA_XVSLTI_W 0x76870000 [FPR_XD, FPR_XJ, IMM_SI5],
    Fmt LISA_XVSLTI_D 0x76878000 [FPR_XD, FPR_XJ, IMM_SI5],
    Fmt LISA_XVSLTI_BU 0x76880000 [FPR_XD, FPR_XJ, IMM_UI5L],
    Fmt LISA_XVSLTI_HU 0x76888000 [FPR_XD, FPR_XJ, IMM_UI5L],
    Fmt LISA_XVSLTI_WU 0x76890000 [FPR_XD, FPR_XJ, IMM_UI5L],
    Fmt LISA_XVSLTI_DU 0x76898000 [FPR_XD, FPR_XJ, IMM_UI5L],
    Fmt LISA_XVADDI_BU 0x768a0000 [FPR_XD, FPR_XJ, IMM_UI5L],
    Fmt LISA_XVADDI_HU 0x768a8000 [FPR_XD, FPR_XJ, IMM_UI5L],
    Fmt LISA_XVADDI_WU 0x768b0000 [FPR_XD, FPR_XJ, IMM_UI5L],
    Fmt LISA_XVADDI_DU 0x768b8000 [FPR_XD, FPR_XJ, IMM_UI5L],
    Fmt LISA_XVSUBI_BU 0x768c0000 [FPR_XD, FPR_XJ, IMM_UI5L],
    Fmt LISA_XVSUBI_HU 0x768c8000 [FPR_XD, FPR_XJ, IMM_UI5L],
    Fmt LISA_XVSUBI_WU 0x768d0000 [FPR_XD, FPR_XJ, IMM_UI5L],
    Fmt LISA_XVSUBI_DU 0x768d8000 [FPR_XD, FPR_XJ, IMM_UI5L],
    Fmt LISA_XVBSLL_V 0x768e0000 [FPR_XD, FPR_XJ, IMM_UI5L],
    Fmt LISA_XVBSRL_V 0x768e8000 [FPR_XD, FPR_XJ, IMM_UI5L],
    Fmt LISA_XVMAXI_B 0x76900000 [FPR_XD, FPR_XJ, IMM_SI5]]"

definition lisa_rows_17988 :: "la_format list" where
  "lisa_rows_17988 = [
    Fmt LISA_XVMAXI_H 0x76908000 [FPR_XD, FPR_XJ, IMM_SI5],
    Fmt LISA_XVMAXI_W 0x76910000 [FPR_XD, FPR_XJ, IMM_SI5],
    Fmt LISA_XVMAXI_D 0x76918000 [FPR_XD, FPR_XJ, IMM_SI5],
    Fmt LISA_XVMINI_B 0x76920000 [FPR_XD, FPR_XJ, IMM_SI5],
    Fmt LISA_XVMINI_H 0x76928000 [FPR_XD, FPR_XJ, IMM_SI5],
    Fmt LISA_XVMINI_W 0x76930000 [FPR_XD, FPR_XJ, IMM_SI5],
    Fmt LISA_XVMINI_D 0x76938000 [FPR_XD, FPR_XJ, IMM_SI5],
    Fmt LISA_XVMAXI_BU 0x76940000 [FPR_XD, FPR_XJ, IMM_UI5L],
    Fmt LISA_XVMAXI_HU 0x76948000 [FPR_XD, FPR_XJ, IMM_UI5L],
    Fmt LISA_XVMAXI_WU 0x76950000 [FPR_XD, FPR_XJ, IMM_UI5L],
    Fmt LISA_XVMAXI_DU 0x76958000 [FPR_XD, FPR_XJ, IMM_UI5L],
    Fmt LISA_XVMINI_BU 0x76960000 [FPR_XD, FPR_XJ, IMM_UI5L],
    Fmt LISA_XVMINI_HU 0x76968000 [FPR_XD, FPR_XJ, IMM_UI5L],
    Fmt LISA_XVMINI_WU 0x76970000 [FPR_XD, FPR_XJ, IMM_UI5L],
    Fmt LISA_XVMINI_DU 0x76978000 [FPR_XD, FPR_XJ, IMM_UI5L],
    Fmt LISA_XVRANDSIGNI_B 0x76980000 [FPR_XD, FPR_XJ, IMM_UI5L],
    Fmt LISA_XVRANDSIGNI_H 0x76988000 [FPR_XD, FPR_XJ, IMM_UI5L],
    Fmt LISA_XVRORSIGNI_B 0x76990000 [FPR_XD, FPR_XJ, IMM_UI5L],
    Fmt LISA_XVRORSIGNI_H 0x76998000 [FPR_XD, FPR_XJ, IMM_UI5L],
    Fmt LISA_XVFRSTPI_B 0x769a0000 [FPR_XD, FPR_XJ, IMM_UI5L],
    Fmt LISA_XVFRSTPI_H 0x769a8000 [FPR_XD, FPR_XJ, IMM_UI5L],
    Fmt LISA_XVCLRSTRI_V 0x769b0000 [FPR_XD, FPR_XJ, IMM_UI5L],
    Fmt LISA_XVMEPATMSK_V 0x769b8000 [FPR_XD, IMM_MODE, IMM_UI5L],
    Fmt LISA_XVCLO_B 0x769c0000 [FPR_XD, FPR_XJ],
    Fmt LISA_XVCLO_H 0x769c0400 [FPR_XD, FPR_XJ],
    Fmt LISA_XVCLO_W 0x769c0800 [FPR_XD, FPR_XJ],
    Fmt LISA_XVCLO_D 0x769c0c00 [FPR_XD, FPR_XJ],
    Fmt LISA_XVCLZ_B 0x769c1000 [FPR_XD, FPR_XJ],
    Fmt LISA_XVCLZ_H 0x769c1400 [FPR_XD, FPR_XJ],
    Fmt LISA_XVCLZ_W 0x769c1800 [FPR_XD, FPR_XJ],
    Fmt LISA_XVCLZ_D 0x769c1c00 [FPR_XD, FPR_XJ],
    Fmt LISA_XVPCNT_B 0x769c2000 [FPR_XD, FPR_XJ],
    Fmt LISA_XVPCNT_H 0x769c2400 [FPR_XD, FPR_XJ],
    Fmt LISA_XVPCNT_W 0x769c2800 [FPR_XD, FPR_XJ],
    Fmt LISA_XVPCNT_D 0x769c2c00 [FPR_XD, FPR_XJ],
    Fmt LISA_XVNEG_B 0x769c3000 [FPR_XD, FPR_XJ],
    Fmt LISA_XVNEG_H 0x769c3400 [FPR_XD, FPR_XJ],
    Fmt LISA_XVNEG_W 0x769c3800 [FPR_XD, FPR_XJ],
    Fmt LISA_XVNEG_D 0x769c3c00 [FPR_XD, FPR_XJ],
    Fmt LISA_XVMSKLTZ_B 0x769c4000 [FPR_XD, FPR_XJ],
    Fmt LISA_XVMSKLTZ_H 0x769c4400 [FPR_XD, FPR_XJ],
    Fmt LISA_XVMSKLTZ_W 0x769c4800 [FPR_XD, FPR_XJ],
    Fmt LISA_XVMSKLTZ_D 0x769c4c00 [FPR_XD, FPR_XJ],
    Fmt LISA_XVMSKGEZ_B 0x769c5000 [FPR_XD, FPR_XJ],
    Fmt LISA_XVMSKNZ_B 0x769c6000 [FPR_XD, FPR_XJ],
    Fmt LISA_XVMSKCOPY_B 0x769c7000 [FPR_XD, FPR_XJ],
    Fmt LISA_XVMSKFILL_B 0x769c8000 [FPR_XD, FPR_XJ],
    Fmt LISA_XVFRSTM_B 0x769c9000 [FPR_XD, FPR_XJ],
    Fmt LISA_XVFRSTM_H 0x769c9400 [FPR_XD, FPR_XJ],
    Fmt LISA_XVSETEQZ_V 0x769c9800 [FCC_CD, FPR_XJ],
    Fmt LISA_XVSETNEZ_V 0x769c9c00 [FCC_CD, FPR_XJ],
    Fmt LISA_XVSETANYEQZ_B 0x769ca000 [FCC_CD, FPR_XJ],
    Fmt LISA_XVSETANYEQZ_H 0x769ca400 [FCC_CD, FPR_XJ],
    Fmt LISA_XVSETANYEQZ_W 0x769ca800 [FCC_CD, FPR_XJ],
    Fmt LISA_XVSETANYEQZ_D 0x769cac00 [FCC_CD, FPR_XJ],
    Fmt LISA_XVSETALLNEZ_B 0x769cb000 [FCC_CD, FPR_XJ],
    Fmt LISA_XVSETALLNEZ_H 0x769cb400 [FCC_CD, FPR_XJ],
    Fmt LISA_XVSETALLNEZ_W 0x769cb800 [FCC_CD, FPR_XJ],
    Fmt LISA_XVSETALLNEZ_D 0x769cbc00 [FCC_CD, FPR_XJ],
    Fmt LISA_XVFLOGB_S 0x769cc400 [FPR_XD, FPR_XJ],
    Fmt LISA_XVFLOGB_D 0x769cc800 [FPR_XD, FPR_XJ],
    Fmt LISA_XVFCLASS_S 0x769cd400 [FPR_XD, FPR_XJ],
    Fmt LISA_XVFCLASS_D 0x769cd800 [FPR_XD, FPR_XJ],
    Fmt LISA_XVFSQRT_S 0x769ce400 [FPR_XD, FPR_XJ],
    Fmt LISA_XVFSQRT_D 0x769ce800 [FPR_XD, FPR_XJ],
    Fmt LISA_XVFRECIP_S 0x769cf400 [FPR_XD, FPR_XJ],
    Fmt LISA_XVFRECIP_D 0x769cf800 [FPR_XD, FPR_XJ],
    Fmt LISA_XVFRSQRT_S 0x769d0400 [FPR_XD, FPR_XJ],
    Fmt LISA_XVFRSQRT_D 0x769d0800 [FPR_XD, FPR_XJ],
    Fmt LISA_XVFRINT_S 0x769d3400 [FPR_XD, FPR_XJ],
    Fmt LISA_XVFRINT_D 0x769d3800 [FPR_XD, FPR_XJ],
    Fmt LISA_XVFRINTRM_S 0x769d4400 [FPR_XD, FPR_XJ],
    Fmt LISA_XVFRINTRM_D 0x769d4800 [FPR_XD, FPR_XJ],
    Fmt LISA_XVFRINTRP_S 0x769d5400 [FPR_XD, FPR_XJ],
    Fmt LISA_XVFRINTRP_D 0x769d5800 [FPR_XD, FPR_XJ],
    Fmt LISA_XVFRINTRZ_S 0x769d6400 [FPR_XD, FPR_XJ],
    Fmt LISA_XVFRINTRZ_D 0x769d6800 [FPR_XD, FPR_XJ],
    Fmt LISA_XVFRINTRNE_S 0x769d7400 [FPR_XD, FPR_XJ],
    Fmt LISA_XVFRINTRNE_D 0x769d7800 [FPR_XD, FPR_XJ],
    Fmt LISA_XVEXTL_W_B 0x769d8400 [FPR_XD, FPR_XJ],
    Fmt LISA_XVEXTL_D_B 0x769d8800 [FPR_XD, FPR_XJ],
    Fmt LISA_XVEXTL_D_H 0x769d9400 [FPR_XD, FPR_XJ],
    Fmt LISA_XVEXTL_W_BU 0x769dac00 [FPR_XD, FPR_XJ],
    Fmt LISA_XVEXTL_D_BU 0x769db000 [FPR_XD, FPR_XJ],
    Fmt LISA_XVEXTL_D_HU 0x769dbc00 [FPR_XD, FPR_XJ],
    Fmt LISA_XVHADD8_D_BU 0x769dd000 [FPR_XD, FPR_XJ],
    Fmt LISA_XVHMINPOS_W_HU 0x769dd400 [FPR_XD, FPR_XJ],
    Fmt LISA_XVHMINPOS_D_HU 0x769dd800 [FPR_XD, FPR_XJ],
    Fmt LISA_XVHMINPOS_Q_HU 0x769ddc00 [FPR_XD, FPR_XJ],
    Fmt LISA_XVCLRTAIL_B 0x769de000 [FPR_XD, FPR_XJ],
    Fmt LISA_XVCLRTAIL_H 0x769de400 [FPR_XD, FPR_XJ],
    Fmt LISA_XVFCVTL_S_H 0x769de800 [FPR_XD, FPR_XJ],
    Fmt LISA_XVFCVTH_S_H 0x769dec00 [FPR_XD, FPR_XJ],
    Fmt LISA_XVFCVTL_D_S 0x769df000 [FPR_XD, FPR_XJ],
    Fmt LISA_XVFCVTH_D_S 0x769df400 [FPR_XD, FPR_XJ],
    Fmt LISA_XVFFINT_S_W 0x769e0000 [FPR_XD, FPR_XJ],
    Fmt LISA_XVFFINT_S_WU 0x769e0400 [FPR_XD, FPR_XJ],
    Fmt LISA_XVFFINT_D_L 0x769e0800 [FPR_XD, FPR_XJ],
    Fmt LISA_XVFFINT_D_LU 0x769e0c00 [FPR_XD, FPR_XJ],
    Fmt LISA_XVFFINTL_D_W 0x769e1000 [FPR_XD, FPR_XJ],
    Fmt LISA_XVFFINTH_D_W 0x769e1400 [FPR_XD, FPR_XJ],
    Fmt LISA_XVFTINT_W_S 0x769e3000 [FPR_XD, FPR_XJ],
    Fmt LISA_XVFTINT_L_D 0x769e3400 [FPR_XD, FPR_XJ],
    Fmt LISA_XVFTINTRM_W_S 0x769e3800 [FPR_XD, FPR_XJ],
    Fmt LISA_XVFTINTRM_L_D 0x769e3c00 [FPR_XD, FPR_XJ],
    Fmt LISA_XVFTINTRP_W_S 0x769e4000 [FPR_XD, FPR_XJ],
    Fmt LISA_XVFTINTRP_L_D 0x769e4400 [FPR_XD, FPR_XJ],
    Fmt LISA_XVFTINTRZ_W_S 0x769e4800 [FPR_XD, FPR_XJ],
    Fmt LISA_XVFTINTRZ_L_D 0x769e4c00 [FPR_XD, FPR_XJ],
    Fmt LISA_XVFTINTRNE_W_S 0x769e5000 [FPR_XD, FPR_XJ],
    Fmt LISA_XVFTINTRNE_L_D 0x769e5400 [FPR_XD, FPR_XJ],
    Fmt LISA_XVFTINT_WU_S 0x769e5800 [FPR_XD, FPR_XJ],
    Fmt LISA_XVFTINT_LU_D 0x769e5c00 [FPR_XD, FPR_XJ],
    Fmt LISA_XVFTINTRZ_WU_S 0x769e7000 [FPR_XD, FPR_XJ],
    Fmt LISA_XVFTINTRZ_LU_D 0x769e7400 [FPR_XD, FPR_XJ],
    Fmt LISA_XVFTINTL_L_S 0x769e8000 [FPR_XD, FPR_XJ],
    Fmt LISA_XVFTINTH_L_S 0x769e8400 [FPR_XD, FPR_XJ],
    Fmt LISA_XVFTINTRML_L_S 0x769e8800 [FPR_XD, FPR_XJ],
    Fmt LISA_XVFTINTRMH_L_S 0x769e8c00 [FPR_XD, FPR_XJ],
    Fmt LISA_XVFTINTRPL_L_S 0x769e9000 [FPR_XD, FPR_XJ],
    Fmt LISA_XVFTINTRPH_L_S 0x769e9400 [FPR_XD, FPR_XJ],
    Fmt LISA_XVFTINTRZL_L_S 0x769e9800 [FPR_XD, FPR_XJ],
    Fmt LISA_XVFTINTRZH_L_S 0x769e9c00 [FPR_XD, FPR_XJ],
    Fmt LISA_XVFTINTRNEL_L_S 0x769ea000 [FPR_XD, FPR_XJ],
    Fmt LISA_XVFTINTRNEH_L_S 0x769ea400 [FPR_XD, FPR_XJ],
    Fmt LISA_XVEXTH_H_B 0x769ee000 [FPR_XD, FPR_XJ],
    Fmt LISA_XVEXTH_W_H 0x769ee400 [FPR_XD, FPR_XJ],
    Fmt LISA_XVEXTH_D_W 0x769ee800 [FPR_XD, FPR_XJ],
    Fmt LISA_XVEXTH_Q_D 0x769eec00 [FPR_XD, FPR_XJ],
    Fmt LISA_XVEXTH_HU_BU 0x769ef000 [FPR_XD, FPR_XJ],
    Fmt LISA_XVEXTH_WU_HU 0x769ef400 [FPR_XD, FPR_XJ],
    Fmt LISA_XVEXTH_DU_WU 0x769ef800 [FPR_XD, FPR_XJ],
    Fmt LISA_XVEXTH_QU_DU 0x769efc00 [FPR_XD, FPR_XJ],
    Fmt LISA_XVREPLGR2VR_B 0x769f0000 [FPR_XD, GPR_RJ],
    Fmt LISA_XVREPLGR2VR_H 0x769f0400 [FPR_XD, GPR_RJ],
    Fmt LISA_XVREPLGR2VR_W 0x769f0800 [FPR_XD, GPR_RJ],
    Fmt LISA_XVREPLGR2VR_D 0x769f0c00 [FPR_XD, GPR_RJ],
    Fmt LISA_VEXT2XV_H_B 0x769f1000 [FPR_XD, FPR_XJ],
    Fmt LISA_VEXT2XV_W_B 0x769f1400 [FPR_XD, FPR_XJ],
    Fmt LISA_VEXT2XV_D_B 0x769f1800 [FPR_XD, FPR_XJ],
    Fmt LISA_VEXT2XV_W_H 0x769f1c00 [FPR_XD, FPR_XJ],
    Fmt LISA_VEXT2XV_D_H 0x769f2000 [FPR_XD, FPR_XJ],
    Fmt LISA_VEXT2XV_D_W 0x769f2400 [FPR_XD, FPR_XJ],
    Fmt LISA_VEXT2XV_HU_BU 0x769f2800 [FPR_XD, FPR_XJ],
    Fmt LISA_VEXT2XV_WU_BU 0x769f2c00 [FPR_XD, FPR_XJ],
    Fmt LISA_VEXT2XV_DU_BU 0x769f3000 [FPR_XD, FPR_XJ],
    Fmt LISA_VEXT2XV_WU_HU 0x769f3400 [FPR_XD, FPR_XJ],
    Fmt LISA_VEXT2XV_DU_HU 0x769f3800 [FPR_XD, FPR_XJ],
    Fmt LISA_VEXT2XV_DU_WU 0x769f3c00 [FPR_XD, FPR_XJ],
    Fmt LISA_XVHSELI_D 0x769f8000 [FPR_XD, FPR_XJ, IMM_UI5L],
    Fmt LISA_XVROTRI_B 0x76a02000 [FPR_XD, FPR_XJ, IMM_UI3],
    Fmt LISA_XVROTRI_H 0x76a04000 [FPR_XD, FPR_XJ, IMM_UI4],
    Fmt LISA_XVROTRI_W 0x76a08000 [FPR_XD, FPR_XJ, IMM_UI5L],
    Fmt LISA_XVROTRI_D 0x76a10000 [FPR_XD, FPR_XJ, IMM_UI6],
    Fmt LISA_XVSRLRI_B 0x76a42000 [FPR_XD, FPR_XJ, IMM_UI3],
    Fmt LISA_XVSRLRI_H 0x76a44000 [FPR_XD, FPR_XJ, IMM_UI4],
    Fmt LISA_XVSRLRI_W 0x76a48000 [FPR_XD, FPR_XJ, IMM_UI5L],
    Fmt LISA_XVSRLRI_D 0x76a50000 [FPR_XD, FPR_XJ, IMM_UI6],
    Fmt LISA_XVSRARI_B 0x76a82000 [FPR_XD, FPR_XJ, IMM_UI3],
    Fmt LISA_XVSRARI_H 0x76a84000 [FPR_XD, FPR_XJ, IMM_UI4],
    Fmt LISA_XVSRARI_W 0x76a88000 [FPR_XD, FPR_XJ, IMM_UI5L],
    Fmt LISA_XVSRARI_D 0x76a90000 [FPR_XD, FPR_XJ, IMM_UI6],
    Fmt LISA_XVINSGR2VR_W 0x76ebc000 [FPR_XD, GPR_RJ, IMM_UI3],
    Fmt LISA_XVINSGR2VR_D 0x76ebe000 [FPR_XD, GPR_RJ, IMM_UI2],
    Fmt LISA_XVPICKVE2GR_W 0x76efc000 [GPR_RD, FPR_XJ, IMM_UI3],
    Fmt LISA_XVPICKVE2GR_D 0x76efe000 [GPR_RD, FPR_XJ, IMM_UI2],
    Fmt LISA_XVPICKVE2GR_WU 0x76f3c000 [GPR_RD, FPR_XJ, IMM_UI3],
    Fmt LISA_XVPICKVE2GR_DU 0x76f3e000 [GPR_RD, FPR_XJ, IMM_UI2],
    Fmt LISA_XVREPL128VEI_B 0x76f78000 [FPR_XD, FPR_XJ, IMM_UI4],
    Fmt LISA_XVREPL128VEI_H 0x76f7c000 [FPR_XD, FPR_XJ, IMM_UI3],
    Fmt LISA_XVREPL128VEI_W 0x76f7e000 [FPR_XD, FPR_XJ, IMM_UI2],
    Fmt LISA_XVREPL128VEI_D 0x76f7f000 [FPR_XD, FPR_XJ, IMM_UI1],
    Fmt LISA_XVEXTRCOLI_B 0x76fb8000 [FPR_XD, FPR_XJ, IMM_UI4],
    Fmt LISA_XVEXTRCOLI_H 0x76fbc000 [FPR_XD, FPR_XJ, IMM_UI3],
    Fmt LISA_XVEXTRCOLI_W 0x76fbe000 [FPR_XD, FPR_XJ, IMM_UI2],
    Fmt LISA_XVEXTRCOLI_D 0x76fbf000 [FPR_XD, FPR_XJ, IMM_UI1],
    Fmt LISA_XVINSVE0_W 0x76ffc000 [FPR_XD, FPR_XJ, IMM_UI3],
    Fmt LISA_XVINSVE0_D 0x76ffe000 [FPR_XD, FPR_XJ, IMM_UI2],
    Fmt LISA_XVPICKVE_W 0x7703c000 [FPR_XD, FPR_XJ, IMM_UI3],
    Fmt LISA_XVPICKVE_D 0x7703e000 [FPR_XD, FPR_XJ, IMM_UI2],
    Fmt LISA_XVREPLVE0_B 0x77070000 [FPR_XD, FPR_XJ],
    Fmt LISA_XVREPLVE0_H 0x77078000 [FPR_XD, FPR_XJ],
    Fmt LISA_XVREPLVE0_W 0x7707c000 [FPR_XD, FPR_XJ],
    Fmt LISA_XVREPLVE0_D 0x7707e000 [FPR_XD, FPR_XJ],
    Fmt LISA_XVREPLVE0_Q 0x7707f000 [FPR_XD, FPR_XJ],
    Fmt LISA_XVSLLWIL_H_B 0x77082000 [FPR_XD, FPR_XJ, IMM_UI3],
    Fmt LISA_XVSLLWIL_W_H 0x77084000 [FPR_XD, FPR_XJ, IMM_UI4],
    Fmt LISA_XVSLLWIL_D_W 0x77088000 [FPR_XD, FPR_XJ, IMM_UI5L],
    Fmt LISA_XVEXTL_Q_D 0x77090000 [FPR_XD, FPR_XJ],
    Fmt LISA_XVSLLWIL_HU_BU 0x770c2000 [FPR_XD, FPR_XJ, IMM_UI3],
    Fmt LISA_XVSLLWIL_WU_HU 0x770c4000 [FPR_XD, FPR_XJ, IMM_UI4],
    Fmt LISA_XVSLLWIL_DU_WU 0x770c8000 [FPR_XD, FPR_XJ, IMM_UI5L],
    Fmt LISA_XVEXTL_QU_DU 0x770d0000 [FPR_XD, FPR_XJ],
    Fmt LISA_XVBITCLRI_B 0x77102000 [FPR_XD, FPR_XJ, IMM_UI3],
    Fmt LISA_XVBITCLRI_H 0x77104000 [FPR_XD, FPR_XJ, IMM_UI4],
    Fmt LISA_XVBITCLRI_W 0x77108000 [FPR_XD, FPR_XJ, IMM_UI5L],
    Fmt LISA_XVBITCLRI_D 0x77110000 [FPR_XD, FPR_XJ, IMM_UI6],
    Fmt LISA_XVBITSETI_B 0x77142000 [FPR_XD, FPR_XJ, IMM_UI3],
    Fmt LISA_XVBITSETI_H 0x77144000 [FPR_XD, FPR_XJ, IMM_UI4],
    Fmt LISA_XVBITSETI_W 0x77148000 [FPR_XD, FPR_XJ, IMM_UI5L],
    Fmt LISA_XVBITSETI_D 0x77150000 [FPR_XD, FPR_XJ, IMM_UI6],
    Fmt LISA_XVBITREVI_B 0x77182000 [FPR_XD, FPR_XJ, IMM_UI3],
    Fmt LISA_XVBITREVI_H 0x77184000 [FPR_XD, FPR_XJ, IMM_UI4],
    Fmt LISA_XVBITREVI_W 0x77188000 [FPR_XD, FPR_XJ, IMM_UI5L],
    Fmt LISA_XVBITREVI_D 0x77190000 [FPR_XD, FPR_XJ, IMM_UI6],
    Fmt LISA_XVBSTRC12I_B 0x771c2000 [FPR_XD, FPR_XJ, IMM_UI3],
    Fmt LISA_XVBSTRC12I_H 0x771c4000 [FPR_XD, FPR_XJ, IMM_UI4],
    Fmt LISA_XVBSTRC12I_W 0x771c8000 [FPR_XD, FPR_XJ, IMM_UI5L],
    Fmt LISA_XVBSTRC12I_D 0x771d0000 [FPR_XD, FPR_XJ, IMM_UI6],
    Fmt LISA_XVBSTRC21I_B 0x77202000 [FPR_XD, FPR_XJ, IMM_UI3],
    Fmt LISA_XVBSTRC21I_H 0x77204000 [FPR_XD, FPR_XJ, IMM_UI4],
    Fmt LISA_XVBSTRC21I_W 0x77208000 [FPR_XD, FPR_XJ, IMM_UI5L],
    Fmt LISA_XVBSTRC21I_D 0x77210000 [FPR_XD, FPR_XJ, IMM_UI6],
    Fmt LISA_XVSAT_B 0x77242000 [FPR_XD, FPR_XJ, IMM_UI3],
    Fmt LISA_XVSAT_H 0x77244000 [FPR_XD, FPR_XJ, IMM_UI4],
    Fmt LISA_XVSAT_W 0x77248000 [FPR_XD, FPR_XJ, IMM_UI5L],
    Fmt LISA_XVSAT_D 0x77250000 [FPR_XD, FPR_XJ, IMM_UI6],
    Fmt LISA_XVSAT_BU 0x77282000 [FPR_XD, FPR_XJ, IMM_UI3],
    Fmt LISA_XVSAT_HU 0x77284000 [FPR_XD, FPR_XJ, IMM_UI4],
    Fmt LISA_XVSAT_WU 0x77288000 [FPR_XD, FPR_XJ, IMM_UI5L],
    Fmt LISA_XVSAT_DU 0x77290000 [FPR_XD, FPR_XJ, IMM_UI6],
    Fmt LISA_XVSLLI_B 0x772c2000 [FPR_XD, FPR_XJ, IMM_UI3],
    Fmt LISA_XVSLLI_H 0x772c4000 [FPR_XD, FPR_XJ, IMM_UI4],
    Fmt LISA_XVSLLI_W 0x772c8000 [FPR_XD, FPR_XJ, IMM_UI5L],
    Fmt LISA_XVSLLI_D 0x772d0000 [FPR_XD, FPR_XJ, IMM_UI6],
    Fmt LISA_XVSRLI_B 0x77302000 [FPR_XD, FPR_XJ, IMM_UI3],
    Fmt LISA_XVSRLI_H 0x77304000 [FPR_XD, FPR_XJ, IMM_UI4],
    Fmt LISA_XVSRLI_W 0x77308000 [FPR_XD, FPR_XJ, IMM_UI5L],
    Fmt LISA_XVSRLI_D 0x77310000 [FPR_XD, FPR_XJ, IMM_UI6],
    Fmt LISA_XVSRAI_B 0x77342000 [FPR_XD, FPR_XJ, IMM_UI3],
    Fmt LISA_XVSRAI_H 0x77344000 [FPR_XD, FPR_XJ, IMM_UI4],
    Fmt LISA_XVSRAI_W 0x77348000 [FPR_XD, FPR_XJ, IMM_UI5L],
    Fmt LISA_XVSRAI_D 0x77350000 [FPR_XD, FPR_XJ, IMM_UI6],
    Fmt LISA_XVSRLRNENI_B_H 0x77384000 [FPR_XD, FPR_XJ, IMM_UI4],
    Fmt LISA_XVSRLRNENI_H_W 0x77388000 [FPR_XD, FPR_XJ, IMM_UI5L],
    Fmt LISA_XVSRLRNENI_W_D 0x77390000 [FPR_XD, FPR_XJ, IMM_UI6],
    Fmt LISA_XVSRLRNENI_D_Q 0x773a0000 [FPR_XD, FPR_XJ, IMM_UI7],
    Fmt LISA_XVSRARNENI_B_H 0x773c4000 [FPR_XD, FPR_XJ, IMM_UI4],
    Fmt LISA_XVSRARNENI_H_W 0x773c8000 [FPR_XD, FPR_XJ, IMM_UI5L],
    Fmt LISA_XVSRARNENI_W_D 0x773d0000 [FPR_XD, FPR_XJ, IMM_UI6],
    Fmt LISA_XVSRARNENI_D_Q 0x773e0000 [FPR_XD, FPR_XJ, IMM_UI7]]"

definition lisa_rows_19783 :: "la_format list" where
  "lisa_rows_19783 = [
    Fmt LISA_XVSRLNI_B_H 0x77404000 [FPR_XD, FPR_XJ, IMM_UI4],
    Fmt LISA_XVSRLNI_H_W 0x77408000 [FPR_XD, FPR_XJ, IMM_UI5L],
    Fmt LISA_XVSRLNI_W_D 0x77410000 [FPR_XD, FPR_XJ, IMM_UI6],
    Fmt LISA_XVSRLNI_D_Q 0x77420000 [FPR_XD, FPR_XJ, IMM_UI7],
    Fmt LISA_XVSRLRNI_B_H 0x77444000 [FPR_XD, FPR_XJ, IMM_UI4],
    Fmt LISA_XVSRLRNI_H_W 0x77448000 [FPR_XD, FPR_XJ, IMM_UI5L],
    Fmt LISA_XVSRLRNI_W_D 0x77450000 [FPR_XD, FPR_XJ, IMM_UI6],
    Fmt LISA_XVSRLRNI_D_Q 0x77460000 [FPR_XD, FPR_XJ, IMM_UI7],
    Fmt LISA_XVSSRLNI_B_H 0x77484000 [FPR_XD, FPR_XJ, IMM_UI4],
    Fmt LISA_XVSSRLNI_H_W 0x77488000 [FPR_XD, FPR_XJ, IMM_UI5L],
    Fmt LISA_XVSSRLNI_W_D 0x77490000 [FPR_XD, FPR_XJ, IMM_UI6],
    Fmt LISA_XVSSRLNI_D_Q 0x774a0000 [FPR_XD, FPR_XJ, IMM_UI7],
    Fmt LISA_XVSSRLNI_BU_H 0x774c4000 [FPR_XD, FPR_XJ, IMM_UI4],
    Fmt LISA_XVSSRLNI_HU_W 0x774c8000 [FPR_XD, FPR_XJ, IMM_UI5L],
    Fmt LISA_XVSSRLNI_WU_D 0x774d0000 [FPR_XD, FPR_XJ, IMM_UI6],
    Fmt LISA_XVSSRLNI_DU_Q 0x774e0000 [FPR_XD, FPR_XJ, IMM_UI7],
    Fmt LISA_XVSSRLRNI_B_H 0x77504000 [FPR_XD, FPR_XJ, IMM_UI4],
    Fmt LISA_XVSSRLRNI_H_W 0x77508000 [FPR_XD, FPR_XJ, IMM_UI5L],
    Fmt LISA_XVSSRLRNI_W_D 0x77510000 [FPR_XD, FPR_XJ, IMM_UI6],
    Fmt LISA_XVSSRLRNI_D_Q 0x77520000 [FPR_XD, FPR_XJ, IMM_UI7],
    Fmt LISA_XVSSRLRNI_BU_H 0x77544000 [FPR_XD, FPR_XJ, IMM_UI4],
    Fmt LISA_XVSSRLRNI_HU_W 0x77548000 [FPR_XD, FPR_XJ, IMM_UI5L],
    Fmt LISA_XVSSRLRNI_WU_D 0x77550000 [FPR_XD, FPR_XJ, IMM_UI6],
    Fmt LISA_XVSSRLRNI_DU_Q 0x77560000 [FPR_XD, FPR_XJ, IMM_UI7],
    Fmt LISA_XVSRANI_B_H 0x77584000 [FPR_XD, FPR_XJ, IMM_UI4],
    Fmt LISA_XVSRANI_H_W 0x77588000 [FPR_XD, FPR_XJ, IMM_UI5L],
    Fmt LISA_XVSRANI_W_D 0x77590000 [FPR_XD, FPR_XJ, IMM_UI6],
    Fmt LISA_XVSRANI_D_Q 0x775a0000 [FPR_XD, FPR_XJ, IMM_UI7],
    Fmt LISA_XVSRARNI_B_H 0x775c4000 [FPR_XD, FPR_XJ, IMM_UI4],
    Fmt LISA_XVSRARNI_H_W 0x775c8000 [FPR_XD, FPR_XJ, IMM_UI5L],
    Fmt LISA_XVSRARNI_W_D 0x775d0000 [FPR_XD, FPR_XJ, IMM_UI6],
    Fmt LISA_XVSRARNI_D_Q 0x775e0000 [FPR_XD, FPR_XJ, IMM_UI7],
    Fmt LISA_XVSSRANI_B_H 0x77604000 [FPR_XD, FPR_XJ, IMM_UI4],
    Fmt LISA_XVSSRANI_H_W 0x77608000 [FPR_XD, FPR_XJ, IMM_UI5L],
    Fmt LISA_XVSSRANI_W_D 0x77610000 [FPR_XD, FPR_XJ, IMM_UI6],
    Fmt LISA_XVSSRANI_D_Q 0x77620000 [FPR_XD, FPR_XJ, IMM_UI7],
    Fmt LISA_XVSSRANI_BU_H 0x77644000 [FPR_XD, FPR_XJ, IMM_UI4],
    Fmt LISA_XVSSRANI_HU_W 0x77648000 [FPR_XD, FPR_XJ, IMM_UI5L],
    Fmt LISA_XVSSRANI_WU_D 0x77650000 [FPR_XD, FPR_XJ, IMM_UI6],
    Fmt LISA_XVSSRANI_DU_Q 0x77660000 [FPR_XD, FPR_XJ, IMM_UI7],
    Fmt LISA_XVSSRARNI_B_H 0x77684000 [FPR_XD, FPR_XJ, IMM_UI4],
    Fmt LISA_XVSSRARNI_H_W 0x77688000 [FPR_XD, FPR_XJ, IMM_UI5L],
    Fmt LISA_XVSSRARNI_W_D 0x77690000 [FPR_XD, FPR_XJ, IMM_UI6],
    Fmt LISA_XVSSRARNI_D_Q 0x776a0000 [FPR_XD, FPR_XJ, IMM_UI7],
    Fmt LISA_XVSSRARNI_BU_H 0x776c4000 [FPR_XD, FPR_XJ, IMM_UI4],
    Fmt LISA_XVSSRARNI_HU_W 0x776c8000 [FPR_XD, FPR_XJ, IMM_UI5L],
    Fmt LISA_XVSSRARNI_WU_D 0x776d0000 [FPR_XD, FPR_XJ, IMM_UI6],
    Fmt LISA_XVSSRARNI_DU_Q 0x776e0000 [FPR_XD, FPR_XJ, IMM_UI7],
    Fmt LISA_XVSSRLRNENI_B_H 0x77704000 [FPR_XD, FPR_XJ, IMM_UI4],
    Fmt LISA_XVSSRLRNENI_H_W 0x77708000 [FPR_XD, FPR_XJ, IMM_UI5L],
    Fmt LISA_XVSSRLRNENI_W_D 0x77710000 [FPR_XD, FPR_XJ, IMM_UI6],
    Fmt LISA_XVSSRLRNENI_D_Q 0x77720000 [FPR_XD, FPR_XJ, IMM_UI7],
    Fmt LISA_XVSSRLRNENI_BU_H 0x77744000 [FPR_XD, FPR_XJ, IMM_UI4],
    Fmt LISA_XVSSRLRNENI_HU_W 0x77748000 [FPR_XD, FPR_XJ, IMM_UI5L],
    Fmt LISA_XVSSRLRNENI_WU_D 0x77750000 [FPR_XD, FPR_XJ, IMM_UI6],
    Fmt LISA_XVSSRLRNENI_DU_Q 0x77760000 [FPR_XD, FPR_XJ, IMM_UI7],
    Fmt LISA_XVSSRARNENI_B_H 0x77784000 [FPR_XD, FPR_XJ, IMM_UI4],
    Fmt LISA_XVSSRARNENI_H_W 0x77788000 [FPR_XD, FPR_XJ, IMM_UI5L],
    Fmt LISA_XVSSRARNENI_W_D 0x77790000 [FPR_XD, FPR_XJ, IMM_UI6],
    Fmt LISA_XVSSRARNENI_D_Q 0x777a0000 [FPR_XD, FPR_XJ, IMM_UI7],
    Fmt LISA_XVSSRARNENI_BU_H 0x777c4000 [FPR_XD, FPR_XJ, IMM_UI4],
    Fmt LISA_XVSSRARNENI_HU_W 0x777c8000 [FPR_XD, FPR_XJ, IMM_UI5L],
    Fmt LISA_XVSSRARNENI_WU_D 0x777d0000 [FPR_XD, FPR_XJ, IMM_UI6],
    Fmt LISA_XVSSRARNENI_DU_Q 0x777e0000 [FPR_XD, FPR_XJ, IMM_UI7],
    Fmt LISA_XVEXTRINS_D 0x77800000 [FPR_XD, FPR_XJ, IMM_UI8],
    Fmt LISA_XVEXTRINS_W 0x77840000 [FPR_XD, FPR_XJ, IMM_UI8],
    Fmt LISA_XVEXTRINS_H 0x77880000 [FPR_XD, FPR_XJ, IMM_UI8],
    Fmt LISA_XVEXTRINS_B 0x778c0000 [FPR_XD, FPR_XJ, IMM_UI8],
    Fmt LISA_XVSHUF4I_B 0x77900000 [FPR_XD, FPR_XJ, IMM_UI8],
    Fmt LISA_XVSHUF4I_H 0x77940000 [FPR_XD, FPR_XJ, IMM_UI8],
    Fmt LISA_XVSHUF4I_W 0x77980000 [FPR_XD, FPR_XJ, IMM_UI8],
    Fmt LISA_XVSHUF4I_D 0x779c0000 [FPR_XD, FPR_XJ, IMM_UI8],
    Fmt LISA_XVSHUFI1_B 0x77a00000 [FPR_XD, FPR_XJ, IMM_UI8],
    Fmt LISA_XVSHUFI2_B 0x77a40000 [FPR_XD, FPR_XJ, IMM_UI8],
    Fmt LISA_XVSHUFI3_B 0x77a80000 [FPR_XD, FPR_XJ, IMM_UI8],
    Fmt LISA_XVSHUFI4_B 0x77ac0000 [FPR_XD, FPR_XJ, IMM_UI8],
    Fmt LISA_XVSHUFI1_H 0x77b00000 [FPR_XD, FPR_XJ, IMM_UI8],
    Fmt LISA_XVSHUFI2_H 0x77b40000 [FPR_XD, FPR_XJ, IMM_UI8],
    Fmt LISA_XVSELI_H 0x77b80000 [FPR_XD, FPR_XJ, IMM_UI8],
    Fmt LISA_XVSELI_W 0x77bc0000 [FPR_XD, FPR_XJ, IMM_UI8],
    Fmt LISA_XVSELI_D 0x77c00000 [FPR_XD, FPR_XJ, IMM_UI8],
    Fmt LISA_XVBITSELI_B 0x77c40000 [FPR_XD, FPR_XJ, IMM_UI8],
    Fmt LISA_XVBITMVZI_B 0x77c80000 [FPR_XD, FPR_XJ, IMM_UI8],
    Fmt LISA_XVBITMVNZI_B 0x77cc0000 [FPR_XD, FPR_XJ, IMM_UI8],
    Fmt LISA_XVANDI_B 0x77d00000 [FPR_XD, FPR_XJ, IMM_UI8],
    Fmt LISA_XVORI_B 0x77d40000 [FPR_XD, FPR_XJ, IMM_UI8],
    Fmt LISA_XVXORI_B 0x77d80000 [FPR_XD, FPR_XJ, IMM_UI8],
    Fmt LISA_XVNORI_B 0x77dc0000 [FPR_XD, FPR_XJ, IMM_UI8],
    Fmt LISA_XVLDI 0x77e00000 [FPR_XD, IMM_I13],
    Fmt LISA_XVPERMI_W 0x77e40000 [FPR_XD, FPR_XJ, IMM_UI8],
    Fmt LISA_XVPERMI_D 0x77e80000 [FPR_XD, FPR_XJ, IMM_UI8],
    Fmt LISA_XVPERMI_Q 0x77ec0000 [FPR_XD, FPR_XJ, IMM_UI8],
    Fmt LISA_ILL 0xffffffff [OPD_INVALID],
    Fmt LISA_ENDING 0x00000000 []]"

definition lisa_format_table :: "la_format list" where
  "lisa_format_table =
    lisa_rows_2 @ lisa_rows_1799 @ lisa_rows_3596 @ lisa_rows_5391 @ lisa_rows_7191 @
    lisa_rows_8991 @ lisa_rows_10791 @ lisa_rows_12588 @ lisa_rows_14388 @ lisa_rows_16188 @
    lisa_rows_17988 @ lisa_rows_19783"

end
