(* ===== verification/Decision_Tree.thy ===== *)
theory Decision_Tree
  imports Latx_Prelude
begin

text \<open>
  Decoding functions that are nothing but nested \<open>switch\<close> and \<open>if\<close> statements on bits of one
  word, as ir2/la-decode.c is.  The statements are data: \<open>Return r\<close> is \<open>return r\<close>,
  \<open>Switch s m cs rest\<close> is \<open>switch ((insn >> s) & m)\<close> with the cases \<open>cs\<close> (each of which
  returns) followed by the statement \<open>rest\<close>, and \<open>If m v a rest\<close> is
  \<open>if ((insn & m) == v) { a }\<close> followed by \<open>rest\<close>.  \<open>dtree_run\<close> executes them;
  \<open>dtree_walk\<close> also collects the bits of the word that were looked at.
\<close>

datatype dtree =
    Return nat
  | Switch nat nat "(nat \<times> dtree) list" dtree
  | If nat nat dtree dtree

primrec dtree_run :: "dtree \<Rightarrow> nat \<Rightarrow> nat" where
  "dtree_run (Return r) w = r"
| "dtree_run (Switch s m cs rest) w =
    (case map_of (map (map_prod id dtree_run) cs) (drop_bit s w AND m) of
       Some f \<Rightarrow> f w
     | None \<Rightarrow> dtree_run rest w)"
| "dtree_run (If m v a rest) w = (if w AND m = v then dtree_run a w else dtree_run rest w)"

primrec dtree_walk :: "dtree \<Rightarrow> nat \<Rightarrow> nat \<Rightarrow> nat \<times> nat" where
  "dtree_walk (Return r) w seen = (r, seen)"
| "dtree_walk (Switch s m cs rest) w seen =
    (case map_of (map (map_prod id dtree_walk) cs) (drop_bit s w AND m) of
       Some f \<Rightarrow> f w (seen OR push_bit s m)
     | None \<Rightarrow> dtree_walk rest w (seen OR push_bit s m))"
| "dtree_walk (If m v a rest) w seen =
    (if w AND m = v then dtree_walk a w (seen OR m) else dtree_walk rest w (seen OR m))"

lemma map_of_map_prod: "map_of (map (map_prod id f) cs) k = map_option f (map_of cs k)"
  by (induction cs) auto

lemma dtree_run_Switch:
  "dtree_run (Switch s m cs rest) w =
    (case map_of cs (drop_bit s w AND m) of Some t \<Rightarrow> dtree_run t w | None \<Rightarrow> dtree_run rest w)"
  by (auto simp: map_of_map_prod split: option.splits)

lemma dtree_walk_Switch:
  "dtree_walk (Switch s m cs rest) w seen =
    (case map_of cs (drop_bit s w AND m) of
       Some t \<Rightarrow> dtree_walk t w (seen OR push_bit s m)
     | None \<Rightarrow> dtree_walk rest w (seen OR push_bit s m))"
  by (auto simp: map_of_map_prod split: option.splits)

text \<open>Bits that were looked at stay looked at, and the result depends on no other bit.\<close>

lemma key_cong:
  fixes w w' :: nat
  assumes "\<And>i. bit (push_bit s m) i \<Longrightarrow> bit w' i = bit w i"
  shows "drop_bit s w' AND m = drop_bit s w AND m"
proof (rule bit_eqI)
  fix i
  show "bit (drop_bit s w' AND m) i = bit (drop_bit s w AND m) i"
    using assms[of "s + i"] by (auto simp: bit_and_iff bit_drop_bit_eq bit_push_bit_iff)
qed

lemma dtree_walk_seen: "bit seen i \<Longrightarrow> bit (snd (dtree_walk t w seen)) i"
proof (induction t arbitrary: seen)
  case (Switch s m cs rest)
  have "bit (snd (dtree_walk t w (seen OR push_bit s m))) i" if "(k, t) \<in> set cs" for k t
    using Switch.IH(1)[OF that] Switch.prems by (simp add: bit_or_iff)
  then show ?case
    using Switch.IH(2)[of "seen OR push_bit s m"] Switch.prems
    by (auto simp: dtree_walk_Switch bit_or_iff simp del: dtree_walk.simps split: option.splits dest: map_of_SomeD)
next
  case (If m v a rest)
  then show ?case by (simp add: bit_or_iff)
qed simp

lemma dtree_walk_run:
  assumes "\<And>i. bit (snd (dtree_walk t w seen)) i \<Longrightarrow> bit w' i = bit w i"
  shows "dtree_run t w' = fst (dtree_walk t w seen)"
  using assms
proof (induction t arbitrary: seen)
  case (Switch s m cs rest)
  let ?seen = "seen OR push_bit s m"
  let ?next = "case map_of cs (drop_bit s w AND m) of Some t \<Rightarrow> t | None \<Rightarrow> rest"
  have walk: "dtree_walk (Switch s m cs rest) w seen = dtree_walk ?next w ?seen"
    unfolding dtree_walk_Switch by (simp split: option.splits)
  have key: "drop_bit s w' AND m = drop_bit s w AND m"
    by (rule key_cong) (use Switch.prems dtree_walk_seen[of ?seen _ ?next w] walk in \<open>auto simp: bit_or_iff\<close>)
  have run: "dtree_run (Switch s m cs rest) w' = dtree_run ?next w'"
    unfolding dtree_run_Switch key by (simp split: option.splits)
  have "dtree_run ?next w' = fst (dtree_walk ?next w ?seen)"
  proof (cases "map_of cs (drop_bit s w AND m)")
    case None
    then show ?thesis using Switch.IH(2)[of ?seen] Switch.prems walk by simp
  next
    case (Some t)
    then have "(drop_bit s w AND m, t) \<in> set cs" by (rule map_of_SomeD)
    then show ?thesis using Switch.IH(1)[of "(drop_bit s w AND m, t)" t ?seen] Switch.prems walk Some by simp
  qed
  then show ?case using run walk by simp
next
  case (If m v a rest)
  have "w' AND m = w AND m"
  proof (rule bit_eqI)
    fix i
    have "bit m i \<Longrightarrow> bit (snd (dtree_walk (If m v a rest) w seen)) i"
      using dtree_walk_seen[of "seen OR m" i] by (simp add: bit_or_iff)
    then show "bit (w' AND m) i = bit (w AND m) i" using If.prems[of i] by (auto simp: bit_and_iff)
  qed
  then show ?case using If by simp
qed simp

end
