(* ===== verification/La_Decode_Tree.thy ===== *)
theory La_Decode_Tree
  imports Decision_Tree Ir2_Enums
begin

text \<open>
  The switch statements of la\_decode (ir2/la-decode.c), one definition per inner switch; the
  number in a name is the source line of the switch or of its first case.  The opcodes that the
  file defines as LISA\_INVALID appear as that.
\<close>

definition la_tree_570 :: dtree where
  "la_tree_570 = Switch 10 0x1f [(0x2, Switch 2 0x7 [(0x0, Return LISA_GR2SCR)] (Return LISA_INVALID)),
    (0x3, Switch 7 0x7 [(0x0, Return LISA_SCR2GR)] (Return LISA_INVALID)),
    (0x4, Return LISA_CLO_W),
    (0x5, Return LISA_CLZ_W),
    (0x6, Return LISA_CTO_W),
    (0x7, Return LISA_CTZ_W),
    (0x8, Return LISA_CLO_D),
    (0x9, Return LISA_CLZ_D),
    (0xa, Return LISA_CTO_D),
    (0xb, Return LISA_CTZ_D),
    (0xc, Return LISA_REVB_2H),
    (0xd, Return LISA_REVB_4H),
    (0xe, Return LISA_REVB_2W),
    (0xf, Return LISA_REVB_D),
    (0x10, Return LISA_REVH_2W),
    (0x11, Return LISA_REVH_D),
    (0x12, Return LISA_BITREV_4B),
    (0x13, Return LISA_BITREV_8B),
    (0x14, Return LISA_BITREV_W),
    (0x15, Return LISA_BITREV_D),
    (0x16, Return LISA_EXT_W_H),
    (0x17, Return LISA_EXT_W_B),
    (0x18, Return LISA_RDTIMEL_W),
    (0x19, Return LISA_RDTIMEH_W),
    (0x1a, Return LISA_RDTIME_D),
    (0x1b, Return LISA_CPUCFG),
    (0x1c, Switch 0 0x31f [(0x0, Return LISA_X86MTTOP)] (Return LISA_INVALID)),
    (0x1d, Switch 5 0x1f [(0x0, Return LISA_X86MFTOP)] (Return LISA_INVALID)),
    (0x1e, Return LISA_X86LOOPE),
    (0x1f, Return LISA_X86LOOPNE)] (Return LISA_INVALID)"

definition la_tree_567 :: dtree where
  "la_tree_567 = Switch 15 0x7 [
    (0x0, la_tree_570),
    (0x1, Switch 0 0x7c1f [(0x0, Return LISA_X86INC_B),
        (0x1, Return LISA_X86INC_H),
        (0x2, Return LISA_X86INC_W),
        (0x3, Return LISA_X86INC_D),
        (0x4, Return LISA_X86DEC_B),
        (0x5, Return LISA_X86DEC_H),
        (0x6, Return LISA_X86DEC_W),
        (0x7, Return LISA_X86DEC_D),
        (0x8, Switch 5 0x1f [(0x0, Return LISA_X86SETTM),
          (0x1, Return LISA_X86CLRTM)] (Return LISA_INVALID)),
        (0x9, Switch 5 0x1f [(0x0, Return LISA_X86INCTOP),
          (0x1, Return LISA_X86DECTOP)] (Return LISA_INVALID))] (Return LISA_INVALID)),
    (0x2, Switch 0 0x1f [(0x0, Return LISA_ASRTLE_D)] (Return LISA_INVALID)),
    (0x3, Switch 0 0x1f [(0x0, Return LISA_ASRTGT_D)] (Return LISA_INVALID))] (Return LISA_INVALID)"

definition la_tree_1486 :: dtree where
  "la_tree_1486 = Switch 0 0xf [(0x0, Return LISA_X86AND_B),
    (0x1, Return LISA_X86AND_H),
    (0x2, Return LISA_X86AND_W),
    (0x3, Return LISA_X86AND_D),
    (0x4, Return LISA_X86OR_B),
    (0x5, Return LISA_X86OR_H),
    (0x6, Return LISA_X86OR_W),
    (0x7, Return LISA_X86OR_D),
    (0x8, Return LISA_X86XOR_B),
    (0x9, Return LISA_X86XOR_H),
    (0xa, Return LISA_X86XOR_W),
    (0xb, Return LISA_X86XOR_D),
    (0xc, Switch 14 0x1 [(0x1, Return LISA_ARMNOT_W)] (Return LISA_INVALID)),
    (0xd, Switch 14 0x1 [(0x1, Return LISA_ARMMOV_W)] (Return LISA_INVALID)),
    (0xe, Switch 14 0x1 [(0x1, Return LISA_ARMMOV_D)] (Return LISA_INVALID)),
    (0xf, Switch 14 0x1 [(0x1, Return LISA_ARMRRX_W)] (Return LISA_INVALID))] (Return LISA_INVALID)"

definition la_cases_1220 :: "(nat \<times> dtree) list" where
  "la_cases_1220 = [
    (0x10, Return LISA_ARMROTR_W),
    (0x8010, Return LISA_ARMSLLI_W),
    (0x10010, Return LISA_ARMSRLI_W),
    (0x18010, Return LISA_ARMSRAI_W),
    (0x20010, Return LISA_ARMROTRI_W),
    (0x28000, Switch 0 0xf [(0x0, Return LISA_X86MUL_B),
        (0x1, Return LISA_X86MUL_H),
        (0x2, Return LISA_X86MUL_W),
        (0x3, Return LISA_X86MUL_D),
        (0x4, Return LISA_X86MUL_BU),
        (0x5, Return LISA_X86MUL_HU),
        (0x6, Return LISA_X86MUL_WU),
        (0x7, Return LISA_X86MUL_DU)] (Return LISA_INVALID)),
    (0x30000, Switch 0 0xf [(0x0, Return LISA_X86ADD_WU),
        (0x1, Return LISA_X86ADD_DU),
        (0x2, Return LISA_X86SUB_WU),
        (0x3, Return LISA_X86SUB_DU),
        (0x4, Return LISA_X86ADD_B),
        (0x5, Return LISA_X86ADD_H),
        (0x6, Return LISA_X86ADD_W),
        (0x7, Return LISA_X86ADD_D),
        (0x8, Return LISA_X86SUB_B),
        (0x9, Return LISA_X86SUB_H),
        (0xa, Return LISA_X86SUB_W),
        (0xb, Return LISA_X86SUB_D),
        (0xc, Return LISA_X86ADC_B),
        (0xd, Return LISA_X86ADC_H),
        (0xe, Return LISA_X86ADC_W),
        (0xf, Return LISA_X86ADC_D)] (Return LISA_INVALID))]"

definition la_cases_1346 :: "(nat \<times> dtree) list" where
  "la_cases_1346 = [
    (0x30010, Switch 0 0xf [(0x0, Return LISA_X86SBC_B),
        (0x1, Return LISA_X86SBC_H),
        (0x2, Return LISA_X86SBC_W),
        (0x3, Return LISA_X86SBC_D),
        (0x4, Return LISA_X86SLL_B),
        (0x5, Return LISA_X86SLL_H),
        (0x6, Return LISA_X86SLL_W),
        (0x7, Return LISA_X86SLL_D),
        (0x8, Return LISA_X86SRL_B),
        (0x9, Return LISA_X86SRL_H),
        (0xa, Return LISA_X86SRL_W),
        (0xb, Return LISA_X86SRL_D),
        (0xc, Return LISA_X86SRA_B),
        (0xd, Return LISA_X86SRA_H),
        (0xe, Return LISA_X86SRA_W),
        (0xf, Return LISA_X86SRA_D)] (Return LISA_INVALID)),
    (0x38000, Switch 0 0xf [(0x0, Return LISA_X86ROTR_B),
        (0x1, Return LISA_X86ROTR_H),
        (0x2, Return LISA_X86ROTR_D),
        (0x3, Return LISA_X86ROTR_W),
        (0x4, Return LISA_X86ROTL_B),
        (0x5, Return LISA_X86ROTL_H),
        (0x6, Return LISA_X86ROTL_W),
        (0x7, Return LISA_X86ROTL_D),
        (0x8, Return LISA_X86RCR_B),
        (0x9, Return LISA_X86RCR_H),
        (0xa, Return LISA_X86RCR_W),
        (0xb, Return LISA_X86RCR_D),
        (0xc, Return LISA_X86RCL_B),
        (0xd, Return LISA_X86RCL_H),
        (0xe, Return LISA_X86RCL_W),
        (0xf, Return LISA_X86RCL_D)] (Return LISA_INVALID)),
    (0x38010, la_tree_1486)]"

definition la_tree_1219 :: dtree where
  "la_tree_1219 = Switch 0 0x38010 (la_cases_1220 @ la_cases_1346) (Return LISA_INVALID)"

definition la_cases_565 :: "(nat \<times> dtree) list" where
  "la_cases_565 = [
    (0x0, la_tree_567),
    (0x1, Switch 17 0x1 [(0x0, Return LISA_ALSL_W),
        (0x1, Return LISA_ALSL_WU)] (Return LISA_INVALID)),
    (0x2, Switch 17 0x1 [(0x0, Return LISA_BYTEPICK_W)] (Return LISA_INVALID)),
    (0x3, Return LISA_BYTEPICK_D),
    (0x4, Switch 15 0x7 [(0x0, Return LISA_ADD_W),
        (0x1, Return LISA_ADD_D),
        (0x2, Return LISA_SUB_W),
        (0x3, Return LISA_SUB_D),
        (0x4, Return LISA_SLT),
        (0x5, Return LISA_SLTU),
        (0x6, Return LISA_MASKEQZ),
        (0x7, Return LISA_MASKNEZ)] (Return LISA_INVALID)),
    (0x5, Switch 15 0x7 [(0x0, Return LISA_NOR),
        (0x1, Return LISA_AND),
        (0x2, Return LISA_OR),
        (0x3, Return LISA_XOR),
        (0x4, Return LISA_ORN),
        (0x5, Return LISA_ANDN),
        (0x6, Return LISA_SLL_W),
        (0x7, Return LISA_SRL_W)] (Return LISA_INVALID)),
    (0x6, Switch 15 0x7 [(0x0, Return LISA_SRA_W),
        (0x1, Return LISA_SLL_D),
        (0x2, Return LISA_SRL_D),
        (0x3, Return LISA_SRA_D),
        (0x4, Return LISA_ROTR_B),
        (0x5, Return LISA_ROTR_H),
        (0x6, Return LISA_ROTR_W),
        (0x7, Return LISA_ROTR_D)] (Return LISA_INVALID))]"

definition la_cases_933 :: "(nat \<times> dtree) list" where
  "la_cases_933 = [
    (0x7, Switch 15 0x7 [(0x0, Return LISA_MUL_W),
        (0x1, Return LISA_MULH_W),
        (0x2, Return LISA_MULH_WU),
        (0x3, Return LISA_MUL_D),
        (0x4, Return LISA_MULH_D),
        (0x5, Return LISA_MULH_DU),
        (0x6, Return LISA_MULW_D_W),
        (0x7, Return LISA_MULW_D_WU)] (Return LISA_INVALID)),
    (0x8, Switch 15 0x7 [(0x0, Return LISA_DIV_W),
        (0x1, Return LISA_MOD_W),
        (0x2, Return LISA_DIV_WU),
        (0x3, Return LISA_MOD_WU),
        (0x4, Return LISA_DIV_D),
        (0x5, Return LISA_MOD_D),
        (0x6, Return LISA_DIV_DU),
        (0x7, Return LISA_MOD_DU)] (Return LISA_INVALID)),
    (0x9, Switch 15 0x7 [(0x0, Return LISA_CRC_W_B_W),
        (0x1, Return LISA_CRC_W_H_W),
        (0x2, Return LISA_CRC_W_W_W),
        (0x3, Return LISA_CRC_W_D_W),
        (0x4, Return LISA_CRCC_W_B_W),
        (0x5, Return LISA_CRCC_W_H_W),
        (0x6, Return LISA_CRCC_W_W_W),
        (0x7, Return LISA_CRCC_W_D_W)] (Return LISA_INVALID)),
    (0xa, Switch 15 0x7 [(0x2, Return LISA_ADDU12I_W),
        (0x3, Return LISA_ADDU12I_D),
        (0x4, Return LISA_BREAK),
        (0x5, Return LISA_DBGCALL),
        (0x6, Return LISA_SYSCALL),
        (0x7, Return LISA_HYPCALL)] (Return LISA_INVALID))]"

definition la_cases_1073 :: "(nat \<times> dtree) list" where
  "la_cases_1073 = [
    (0xb, Switch 17 0x1 [(0x0, Return LISA_ALSL_D)] (Return LISA_INVALID)),
    (0xc, Switch 15 0x7 [(0x0, Return LISA_ADC_B),
        (0x1, Return LISA_ADC_H),
        (0x2, Return LISA_ADC_W),
        (0x3, Return LISA_ADC_D),
        (0x4, Return LISA_SBC_B),
        (0x5, Return LISA_SBC_H),
        (0x6, Return LISA_SBC_W),
        (0x7, Return LISA_SBC_D)] (Return LISA_INVALID)),
    (0xd, Switch 15 0x7 [(0x0, Return LISA_RCR_B),
        (0x1, Return LISA_RCR_H),
        (0x2, Return LISA_RCR_W),
        (0x3, Return LISA_RCR_D),
        (0x4, Switch 14 0x1 [(0x1, Return LISA_ARMMOVE)] (Return LISA_INVALID)),
        (0x5, Switch 0 0x43e0 [(0x0, Return LISA_SETX86J),
          (0x4000, Return LISA_SETARMJ)] (Return LISA_INVALID)),
        (0x6, Switch 4 0x1 [(0x1, Return LISA_ARMADD_W)] (Return LISA_INVALID)),
        (0x7, Switch 4 0x1 [(0x1, Return LISA_ARMSUB_W)] (Return LISA_INVALID))] (Return LISA_INVALID)),
    (0xe, Switch 0 0x38010 [(0x10, Return LISA_ARMADC_W),
        (0x8010, Return LISA_ARMSBC_W),
        (0x10010, Return LISA_ARMAND_W),
        (0x18010, Return LISA_ARMOR_W),
        (0x20010, Return LISA_ARMXOR_W),
        (0x28010, Return LISA_ARMSLL_W),
        (0x30010, Return LISA_ARMSRL_W),
        (0x38010, Return LISA_ARMSRA_W)] (Return LISA_INVALID)),
    (0xf, la_tree_1219)]"

definition la_tree_564 :: dtree where
  "la_tree_564 = Switch 18 0xf (la_cases_565 @ la_cases_933 @ la_cases_1073) (Return LISA_INVALID)"

definition la_cases_1712 :: "(nat \<times> dtree) list" where
  "la_cases_1712 = [
    (0x0, Switch 13 0x7 [(0x1, Return LISA_X86SLLI_B)] (Return LISA_INVALID)),
    (0x1, Switch 14 0x3 [(0x1, Return LISA_X86SLLI_H)] (Return LISA_INVALID)),
    (0x2, Switch 15 0x1 [(0x1, Return LISA_X86SLLI_W)] (Return LISA_INVALID)),
    (0x4, Switch 13 0x7 [(0x1, Return LISA_X86SRLI_B)] (Return LISA_INVALID)),
    (0x5, Switch 14 0x3 [(0x1, Return LISA_X86SRLI_H)] (Return LISA_INVALID)),
    (0x6, Switch 15 0x1 [(0x1, Return LISA_X86SRLI_W)] (Return LISA_INVALID)),
    (0x8, Switch 13 0x7 [(0x1, Return LISA_X86SRAI_B)] (Return LISA_INVALID)),
    (0x9, Switch 14 0x3 [(0x1, Return LISA_X86SRAI_H)] (Return LISA_INVALID)),
    (0xa, Switch 15 0x1 [(0x1, Return LISA_X86SRAI_W)] (Return LISA_INVALID)),
    (0xc, Switch 13 0x7 [(0x1, Return LISA_X86ROTRI_B)] (Return LISA_INVALID)),
    (0xd, Switch 14 0x3 [(0x1, Return LISA_X86ROTRI_H)] (Return LISA_INVALID)),
    (0xe, Switch 15 0x1 [(0x1, Return LISA_X86ROTRI_W)] (Return LISA_INVALID)),
    (0x10, Switch 13 0x7 [(0x1, Return LISA_X86RCRI_B)] (Return LISA_INVALID)),
    (0x11, Switch 14 0x3 [(0x1, Return LISA_X86RCRI_H)] (Return LISA_INVALID)),
    (0x12, Switch 15 0x1 [(0x1, Return LISA_X86RCRI_W)] (Return LISA_INVALID)),
    (0x14, Switch 13 0x7 [(0x1, Return LISA_X86ROTLI_B)] (Return LISA_INVALID))]"

definition la_cases_1856 :: "(nat \<times> dtree) list" where
  "la_cases_1856 = [
    (0x15, Switch 14 0x3 [(0x1, Return LISA_X86ROTLI_H)] (Return LISA_INVALID)),
    (0x16, Switch 15 0x1 [(0x1, Return LISA_X86ROTLI_W)] (Return LISA_INVALID)),
    (0x18, Switch 13 0x7 [(0x1, Return LISA_X86RCLI_B)] (Return LISA_INVALID)),
    (0x19, Switch 14 0x3 [(0x1, Return LISA_X86RCLI_H)] (Return LISA_INVALID)),
    (0x1a, Switch 15 0x1 [(0x1, Return LISA_X86RCLI_W)] (Return LISA_INVALID)),
    (0x10003, Return LISA_X86SLLI_D),
    (0x10007, Return LISA_X86SRLI_D),
    (0x1000b, Return LISA_X86SRAI_D),
    (0x1000f, Return LISA_X86ROTRI_D),
    (0x10013, Return LISA_X86RCRI_D),
    (0x10017, Return LISA_X86ROTLI_D),
    (0x1001b, Return LISA_X86RCLI_D)]"

definition la_tree_1711 :: dtree where
  "la_tree_1711 = Switch 0 0x3001f (la_cases_1712 @ la_cases_1856) (Return LISA_INVALID)"

definition la_cases_1583 :: "(nat \<times> dtree) list" where
  "la_cases_1583 = [
    (0x0, Switch 16 0x3 [(0x0, Switch 15 0x1 [(0x1, Return LISA_SLLI_W)] (Return LISA_INVALID)),
        (0x1, Return LISA_SLLI_D)] (Return LISA_INVALID)),
    (0x1, Switch 16 0x3 [(0x0, Switch 15 0x1 [(0x1, Return LISA_SRLI_W)] (Return LISA_INVALID)),
        (0x1, Return LISA_SRLI_D)] (Return LISA_INVALID)),
    (0x2, Switch 16 0x3 [(0x0, Switch 15 0x1 [(0x1, Return LISA_SRAI_W)] (Return LISA_INVALID)),
        (0x1, Return LISA_SRAI_D)] (Return LISA_INVALID)),
    (0x3, Switch 16 0x3 [(0x0, Switch 15 0x1 [(0x0, Switch 14 0x1 [(0x0, Switch 13 0x1 [(0x1, Return LISA_ROTRI_B)] (Return LISA_INVALID)),
            (0x1, Return LISA_ROTRI_H)] (Return LISA_INVALID)),
          (0x1, Return LISA_ROTRI_W)] (Return LISA_INVALID)),
        (0x1, Return LISA_ROTRI_D)] (Return LISA_INVALID)),
    (0x4, Switch 16 0x3 [(0x0, Switch 15 0x1 [(0x0, Switch 14 0x1 [(0x0, Switch 13 0x1 [(0x1, Return LISA_RCRI_B)] (Return LISA_INVALID)),
            (0x1, Return LISA_RCRI_H)] (Return LISA_INVALID)),
          (0x1, Return LISA_RCRI_W)] (Return LISA_INVALID)),
        (0x1, Return LISA_RCRI_D)] (Return LISA_INVALID)),
    (0x5, la_tree_1711),
    (0x6, Return LISA_X86SETTAG)]"

definition la_cases_1935 :: "(nat \<times> dtree) list" where
  "la_cases_1935 = [
    (0x7, Switch 5 0x1f [(0x0, Return LISA_X86MFFLAG),
        (0x1, Return LISA_X86MTFLAG),
        (0x2, Return LISA_ARMMFFLAG),
        (0x3, Return LISA_ARMMTFLAG)] (Return LISA_INVALID))]"

definition la_tree_1582 :: dtree where
  "la_tree_1582 = Switch 18 0x7 (la_cases_1583 @ la_cases_1935) (Return LISA_INVALID)"

definition la_tree_1579 :: dtree where
  "la_tree_1579 = Switch 21 0x1 [
    (0x0, la_tree_1582),
    (0x1, Switch 15 0x1 [(0x0, Return LISA_BSTRINS_W),
        (0x1, Return LISA_BSTRPICK_W)] (Return LISA_INVALID))] (Return LISA_INVALID)"

definition la_tree_2106 :: dtree where
  "la_tree_2106 = Switch 10 0x1f [(0x0, Return LISA_INVALID),
    (0x1, Return LISA_FABS_S),
    (0x2, Return LISA_FABS_D),
    (0x4, Return LISA_INVALID),
    (0x5, Return LISA_FNEG_S),
    (0x6, Return LISA_FNEG_D),
    (0x8, Return LISA_INVALID),
    (0x9, Return LISA_FLOGB_S),
    (0xa, Return LISA_FLOGB_D),
    (0xc, Return LISA_INVALID),
    (0xd, Return LISA_FCLASS_S),
    (0xe, Return LISA_FCLASS_D),
    (0x10, Return LISA_INVALID),
    (0x11, Return LISA_FSQRT_S),
    (0x12, Return LISA_FSQRT_D),
    (0x14, Return LISA_INVALID),
    (0x15, Return LISA_FRECIP_S),
    (0x16, Return LISA_FRECIP_D),
    (0x18, Return LISA_INVALID),
    (0x19, Return LISA_FRSQRT_S),
    (0x1a, Return LISA_FRSQRT_D),
    (0x1c, Return LISA_INVALID),
    (0x1d, Return LISA_INVALID),
    (0x1e, Return LISA_INVALID)] (Return LISA_INVALID)"

definition la_tree_2207 :: dtree where
  "la_tree_2207 = Switch 10 0x1f [(0x0, Return LISA_INVALID),
    (0x1, Return LISA_INVALID),
    (0x2, Return LISA_INVALID),
    (0x4, Return LISA_INVALID),
    (0x5, Return LISA_FMOV_S),
    (0x6, Return LISA_FMOV_D),
    (0x8, Return LISA_INVALID),
    (0x9, Return LISA_MOVGR2FR_W),
    (0xa, Return LISA_MOVGR2FR_D),
    (0xb, Return LISA_MOVGR2FRH_W),
    (0xc, Return LISA_INVALID),
    (0xd, Return LISA_MOVFR2GR_S),
    (0xe, Return LISA_MOVFR2GR_D),
    (0xf, Return LISA_MOVFRH2GR_S),
    (0x10, Return LISA_MOVGR2FCSR),
    (0x12, Return LISA_MOVFCSR2GR),
    (0x14, Switch 3 0x3 [(0x0, Return LISA_MOVFR2CF)] (Return LISA_INVALID)),
    (0x15, Switch 8 0x3 [(0x0, Return LISA_MOVCF2FR)] (Return LISA_INVALID)),
    (0x16, Switch 3 0x3 [(0x0, Return LISA_MOVGR2CF)] (Return LISA_INVALID)),
    (0x17, Switch 8 0x3 [(0x0, Return LISA_MOVCF2GR)] (Return LISA_INVALID)),
    (0x18, Return LISA_FCVT_LD_D),
    (0x19, Return LISA_FCVT_UD_D)] (Return LISA_INVALID)"

definition la_tree_2324 :: dtree where
  "la_tree_2324 = Switch 10 0x1f [(0x1, Return LISA_INVALID),
    (0x2, Return LISA_INVALID),
    (0x3, Return LISA_INVALID),
    (0x4, Return LISA_INVALID),
    (0x6, Return LISA_INVALID),
    (0x7, Return LISA_INVALID),
    (0x8, Return LISA_INVALID),
    (0x9, Return LISA_INVALID),
    (0xb, Return LISA_INVALID),
    (0xc, Return LISA_INVALID),
    (0xd, Return LISA_INVALID),
    (0xe, Return LISA_INVALID),
    (0x11, Return LISA_INVALID),
    (0x12, Return LISA_INVALID),
    (0x13, Return LISA_INVALID),
    (0x14, Return LISA_INVALID),
    (0x16, Return LISA_INVALID),
    (0x17, Return LISA_INVALID),
    (0x18, Return LISA_INVALID),
    (0x19, Return LISA_INVALID),
    (0x1b, Return LISA_INVALID),
    (0x1c, Return LISA_INVALID),
    (0x1d, Return LISA_INVALID),
    (0x1e, Return LISA_INVALID)] (Return LISA_INVALID)"

definition la_tree_2425 :: dtree where
  "la_tree_2425 = Switch 10 0x1f [(0x1, Return LISA_INVALID),
    (0x2, Return LISA_INVALID),
    (0x3, Return LISA_INVALID),
    (0x4, Return LISA_INVALID),
    (0x6, Return LISA_INVALID),
    (0x7, Return LISA_INVALID),
    (0x8, Return LISA_INVALID),
    (0x9, Return LISA_INVALID),
    (0xb, Return LISA_INVALID),
    (0xc, Return LISA_INVALID),
    (0xd, Return LISA_INVALID),
    (0xe, Return LISA_INVALID),
    (0x11, Return LISA_INVALID),
    (0x12, Return LISA_INVALID),
    (0x13, Return LISA_INVALID),
    (0x14, Return LISA_INVALID),
    (0x16, Return LISA_INVALID),
    (0x17, Return LISA_INVALID),
    (0x18, Return LISA_INVALID),
    (0x19, Return LISA_INVALID),
    (0x1b, Return LISA_INVALID),
    (0x1c, Return LISA_INVALID),
    (0x1d, Return LISA_INVALID),
    (0x1e, Return LISA_INVALID)] (Return LISA_INVALID)"

definition la_tree_2579 :: dtree where
  "la_tree_2579 = Switch 10 0x1f [(0x0, Return LISA_INVALID),
    (0x1, Return LISA_FTINTRM_W_S),
    (0x2, Return LISA_FTINTRM_W_D),
    (0x3, Return LISA_INVALID),
    (0x4, Return LISA_INVALID),
    (0x5, Return LISA_INVALID),
    (0x6, Return LISA_INVALID),
    (0x7, Return LISA_INVALID),
    (0x8, Return LISA_INVALID),
    (0x9, Return LISA_FTINTRM_L_S),
    (0xa, Return LISA_FTINTRM_L_D),
    (0xb, Return LISA_INVALID),
    (0xc, Return LISA_INVALID),
    (0xd, Return LISA_INVALID),
    (0xe, Return LISA_INVALID),
    (0xf, Return LISA_INVALID),
    (0x10, Return LISA_INVALID),
    (0x11, Return LISA_FTINTRP_W_S),
    (0x12, Return LISA_FTINTRP_W_D),
    (0x13, Return LISA_INVALID),
    (0x14, Return LISA_INVALID),
    (0x15, Return LISA_INVALID),
    (0x16, Return LISA_INVALID),
    (0x17, Return LISA_INVALID),
    (0x18, Return LISA_INVALID),
    (0x19, Return LISA_FTINTRP_L_S),
    (0x1a, Return LISA_FTINTRP_L_D),
    (0x1b, Return LISA_INVALID),
    (0x1c, Return LISA_INVALID),
    (0x1d, Return LISA_INVALID),
    (0x1e, Return LISA_INVALID),
    (0x1f, Return LISA_INVALID)] (Return LISA_INVALID)"

definition la_tree_2712 :: dtree where
  "la_tree_2712 = Switch 10 0x1f [(0x0, Return LISA_INVALID),
    (0x1, Return LISA_FTINTRZ_W_S),
    (0x2, Return LISA_FTINTRZ_W_D),
    (0x3, Return LISA_INVALID),
    (0x4, Return LISA_INVALID),
    (0x5, Return LISA_INVALID),
    (0x6, Return LISA_INVALID),
    (0x7, Return LISA_INVALID),
    (0x8, Return LISA_INVALID),
    (0x9, Return LISA_FTINTRZ_L_S),
    (0xa, Return LISA_FTINTRZ_L_D),
    (0xb, Return LISA_INVALID),
    (0xc, Return LISA_INVALID),
    (0xd, Return LISA_INVALID),
    (0xe, Return LISA_INVALID),
    (0xf, Return LISA_INVALID),
    (0x10, Return LISA_INVALID),
    (0x11, Return LISA_FTINTRNE_W_S),
    (0x12, Return LISA_FTINTRNE_W_D),
    (0x13, Return LISA_INVALID),
    (0x14, Return LISA_INVALID),
    (0x15, Return LISA_INVALID),
    (0x16, Return LISA_INVALID),
    (0x17, Return LISA_INVALID),
    (0x18, Return LISA_INVALID),
    (0x19, Return LISA_FTINTRNE_L_S),
    (0x1a, Return LISA_FTINTRNE_L_D),
    (0x1b, Return LISA_INVALID),
    (0x1c, Return LISA_INVALID),
    (0x1d, Return LISA_INVALID),
    (0x1e, Return LISA_INVALID),
    (0x1f, Return LISA_INVALID)] (Return LISA_INVALID)"

definition la_tree_2914 :: dtree where
  "la_tree_2914 = Switch 10 0x1f [(0x0, Return LISA_INVALID),
    (0x1, Return LISA_INVALID),
    (0x2, Return LISA_INVALID),
    (0x3, Return LISA_INVALID),
    (0x4, Return LISA_INVALID),
    (0x5, Return LISA_INVALID),
    (0x6, Return LISA_INVALID),
    (0x7, Return LISA_INVALID),
    (0x8, Return LISA_INVALID),
    (0x9, Return LISA_INVALID),
    (0xa, Return LISA_INVALID),
    (0xb, Return LISA_INVALID),
    (0xc, Return LISA_INVALID),
    (0xd, Return LISA_INVALID),
    (0xe, Return LISA_INVALID),
    (0xf, Return LISA_INVALID),
    (0x10, Return LISA_INVALID),
    (0x11, Return LISA_INVALID),
    (0x12, Return LISA_INVALID),
    (0x13, Return LISA_INVALID),
    (0x14, Return LISA_INVALID),
    (0x15, Return LISA_INVALID),
    (0x16, Return LISA_INVALID),
    (0x17, Return LISA_INVALID),
    (0x18, Return LISA_INVALID),
    (0x19, Return LISA_INVALID),
    (0x1a, Return LISA_INVALID),
    (0x1b, Return LISA_INVALID),
    (0x1c, Return LISA_INVALID),
    (0x1d, Return LISA_INVALID),
    (0x1e, Return LISA_INVALID),
    (0x1f, Return LISA_INVALID)] (Return LISA_INVALID)"

definition la_tree_3047 :: dtree where
  "la_tree_3047 = Switch 10 0x1f [(0x0, Return LISA_INVALID),
    (0x1, Return LISA_INVALID),
    (0x2, Return LISA_INVALID),
    (0x3, Return LISA_INVALID),
    (0x4, Return LISA_INVALID),
    (0x5, Return LISA_INVALID),
    (0x6, Return LISA_INVALID),
    (0x7, Return LISA_INVALID),
    (0x8, Return LISA_INVALID),
    (0x9, Return LISA_INVALID),
    (0xa, Return LISA_INVALID),
    (0xb, Return LISA_INVALID),
    (0xc, Return LISA_INVALID),
    (0xd, Return LISA_INVALID),
    (0xe, Return LISA_INVALID),
    (0xf, Return LISA_INVALID),
    (0x10, Return LISA_INVALID),
    (0x11, Return LISA_INVALID),
    (0x12, Return LISA_INVALID),
    (0x13, Return LISA_INVALID),
    (0x14, Return LISA_INVALID),
    (0x15, Return LISA_INVALID),
    (0x16, Return LISA_INVALID),
    (0x17, Return LISA_INVALID),
    (0x18, Return LISA_INVALID),
    (0x19, Return LISA_INVALID),
    (0x1a, Return LISA_INVALID),
    (0x1b, Return LISA_INVALID),
    (0x1c, Return LISA_INVALID),
    (0x1d, Return LISA_INVALID),
    (0x1e, Return LISA_INVALID),
    (0x1f, Return LISA_INVALID)] (Return LISA_INVALID)"

definition la_tree_3249 :: dtree where
  "la_tree_3249 = Switch 10 0x1f [(0x0, Return LISA_INVALID),
    (0x1, Return LISA_INVALID),
    (0x2, Return LISA_INVALID),
    (0x3, Return LISA_INVALID),
    (0x4, Return LISA_INVALID),
    (0x5, Return LISA_INVALID),
    (0x6, Return LISA_INVALID),
    (0x7, Return LISA_INVALID),
    (0x8, Return LISA_INVALID),
    (0x9, Return LISA_INVALID),
    (0xa, Return LISA_INVALID),
    (0xb, Return LISA_INVALID),
    (0xc, Return LISA_INVALID),
    (0xd, Return LISA_INVALID),
    (0xe, Return LISA_INVALID),
    (0xf, Return LISA_INVALID),
    (0x10, Return LISA_INVALID),
    (0x11, Return LISA_FRINT_S),
    (0x12, Return LISA_FRINT_D),
    (0x13, Return LISA_INVALID)] (Return LISA_INVALID)"

definition la_cases_1984 :: "(nat \<times> dtree) list" where
  "la_cases_1984 = [
    (0x0, Return LISA_INVALID),
    (0x1, Return LISA_FADD_S),
    (0x2, Return LISA_FADD_D),
    (0x4, Return LISA_INVALID),
    (0x5, Return LISA_FSUB_S),
    (0x6, Return LISA_FSUB_D),
    (0x8, Return LISA_INVALID),
    (0x9, Return LISA_FMUL_S),
    (0xa, Return LISA_FMUL_D),
    (0xc, Return LISA_INVALID),
    (0xd, Return LISA_FDIV_S),
    (0xe, Return LISA_FDIV_D),
    (0x10, Return LISA_INVALID),
    (0x11, Return LISA_FMAX_S),
    (0x12, Return LISA_FMAX_D),
    (0x14, Return LISA_INVALID),
    (0x15, Return LISA_FMIN_S),
    (0x16, Return LISA_FMIN_D),
    (0x18, Return LISA_INVALID),
    (0x19, Return LISA_FMAXA_S),
    (0x1a, Return LISA_FMAXA_D),
    (0x1c, Return LISA_INVALID),
    (0x1d, Return LISA_FMINA_S),
    (0x1e, Return LISA_FMINA_D),
    (0x20, Return LISA_INVALID),
    (0x21, Return LISA_FSCALEB_S),
    (0x22, Return LISA_FSCALEB_D),
    (0x24, Return LISA_INVALID),
    (0x25, Return LISA_FCOPYSIGN_S),
    (0x26, Return LISA_FCOPYSIGN_D),
    (0x28, la_tree_2106),
    (0x29, la_tree_2207),
    (0x2a, Return LISA_FCVT_D_LD),
    (0x30, la_tree_2324),
    (0x31, la_tree_2425)]"

definition la_cases_2524 :: "(nat \<times> dtree) list" where
  "la_cases_2524 = [
    (0x32, Switch 10 0x1f [(0x1, Return LISA_INVALID),
        (0x2, Return LISA_INVALID),
        (0x3, Return LISA_INVALID),
        (0x4, Return LISA_INVALID),
        (0x6, Return LISA_FCVT_S_D),
        (0x7, Return LISA_INVALID),
        (0x8, Return LISA_INVALID),
        (0x9, Return LISA_FCVT_D_S),
        (0xb, Return LISA_INVALID),
        (0xc, Return LISA_INVALID),
        (0xd, Return LISA_INVALID),
        (0xe, Return LISA_INVALID)] (Return LISA_INVALID)),
    (0x34, la_tree_2579),
    (0x35, la_tree_2712),
    (0x36, Switch 10 0x1f [(0x0, Return LISA_INVALID),
        (0x1, Return LISA_FTINT_W_S),
        (0x2, Return LISA_FTINT_W_D),
        (0x3, Return LISA_INVALID),
        (0x4, Return LISA_INVALID),
        (0x5, Return LISA_INVALID),
        (0x6, Return LISA_INVALID),
        (0x7, Return LISA_INVALID),
        (0x8, Return LISA_INVALID),
        (0x9, Return LISA_FTINT_L_S),
        (0xa, Return LISA_FTINT_L_D),
        (0xb, Return LISA_INVALID),
        (0xc, Return LISA_INVALID),
        (0xd, Return LISA_INVALID),
        (0xe, Return LISA_INVALID),
        (0xf, Return LISA_INVALID)] (Return LISA_INVALID)),
    (0x38, la_tree_2914),
    (0x39, la_tree_3047)]"

definition la_cases_3178 :: "(nat \<times> dtree) list" where
  "la_cases_3178 = [
    (0x3a, Switch 10 0x1f [(0x0, Return LISA_INVALID),
        (0x1, Return LISA_INVALID),
        (0x2, Return LISA_INVALID),
        (0x3, Return LISA_INVALID),
        (0x4, Return LISA_FFINT_S_W),
        (0x5, Return LISA_INVALID),
        (0x6, Return LISA_FFINT_S_L),
        (0x7, Return LISA_INVALID),
        (0x8, Return LISA_FFINT_D_W),
        (0x9, Return LISA_INVALID),
        (0xa, Return LISA_FFINT_D_L),
        (0xb, Return LISA_INVALID),
        (0xc, Return LISA_INVALID),
        (0xd, Return LISA_INVALID),
        (0xe, Return LISA_INVALID),
        (0xf, Return LISA_INVALID)] (Return LISA_INVALID)),
    (0x3c, la_tree_3249)]"

definition la_tree_1983 :: dtree where
  "la_tree_1983 = Switch 15 0x7f (la_cases_1984 @ la_cases_2524 @ la_cases_3178) (Return LISA_INVALID)"

definition la_tree_561 :: dtree where
  "la_tree_561 = Switch 22 0xf [
    (0x0, la_tree_564),
    (0x1, la_tree_1579),
    (0x2, Return LISA_BSTRINS_D),
    (0x3, Return LISA_BSTRPICK_D),
    (0x4, la_tree_1983),
    (0x8, Return LISA_SLTI),
    (0x9, Return LISA_SLTUI),
    (0xa, Return LISA_ADDI_W),
    (0xb, Return LISA_ADDI_D),
    (0xc, Return LISA_LU52I_D),
    (0xd, Return LISA_ANDI),
    (0xe, Return LISA_ORI),
    (0xf, Return LISA_XORI)] (Return LISA_INVALID)"

definition la_tree_3424 :: dtree where
  "la_tree_3424 = Switch 15 0x7 [(0x0, Switch 10 0x1f [(0x0, Return LISA_INVALID),
      (0x1, Return LISA_INVALID),
      (0x2, Return LISA_INVALID),
      (0x3, Return LISA_INVALID),
      (0x4, Return LISA_INVALID),
      (0x5, Return LISA_INVALID),
      (0x6, Return LISA_INVALID),
      (0x7, Return LISA_INVALID),
      (0x8, Switch 0 0x3ff [(0x0, Return LISA_INVALID),
        (0x1, Return LISA_INVALID)] (Return LISA_INVALID)),
      (0x9, Switch 0 0x3ff [(0x0, Return LISA_INVALID),
        (0x1, Return LISA_INVALID)] (Return LISA_INVALID)),
      (0xa, Switch 0 0x3ff [(0x0, Return LISA_INVALID),
        (0x1, Return LISA_INVALID)] (Return LISA_INVALID)),
      (0xb, Switch 0 0x3ff [(0x0, Return LISA_INVALID),
        (0x1, Return LISA_INVALID)] (Return LISA_INVALID)),
      (0xc, Switch 0 0x3ff [(0x0, Return LISA_INVALID),
        (0x1, Return LISA_INVALID)] (Return LISA_INVALID)),
      (0xd, Switch 0 0x3ff [(0x0, Return LISA_INVALID),
        (0x1, Return LISA_INVALID)] (Return LISA_INVALID)),
      (0xe, Switch 0 0x3ff [(0x0, Return LISA_INVALID)] (Return LISA_INVALID)),
      (0xf, Switch 0 0x3ff [(0x0, Return LISA_INVALID)] (Return LISA_INVALID))] (Return LISA_INVALID)),
    (0x1, Return LISA_INVALID)] (Return LISA_INVALID)"

definition la_tree_3408 :: dtree where
  "la_tree_3408 = Switch 18 0xf [
    (0x0, Return LISA_INVALID),
    (0x1, Switch 0 0x1f [(0x0, Return LISA_INVALID)] (Return LISA_INVALID)),
    (0x2, la_tree_3424)] (Return LISA_INVALID)"

definition la_tree_3401 :: dtree where
  "la_tree_3401 = Switch 22 0x3 [
    (0x0, Return LISA_INVALID),
    (0x1, la_tree_3408)] (Return LISA_INVALID)"

definition la_tree_3370 :: dtree where
  "la_tree_3370 = Switch 24 0x3 [
    (0x0, If 0x3e0 0x0 (Return LISA_INVALID) (If 0x3e0 0x20 (Return LISA_INVALID) (Return LISA_INVALID))),
    (0x1, If 0x3e0 0x0 (Return LISA_INVALID) (If 0x3e0 0x20 (Return LISA_INVALID) (Return LISA_INVALID))),
    (0x2, la_tree_3401)] (Return LISA_INVALID)"

definition la_tree_3579 :: dtree where
  "la_tree_3579 = Switch 15 0x1f [(0x0, Return LISA_INVALID),
    (0x1, Return LISA_INVALID),
    (0x2, Return LISA_INVALID),
    (0x3, Return LISA_INVALID),
    (0x4, Return LISA_INVALID),
    (0x5, Return LISA_INVALID),
    (0x6, Return LISA_INVALID),
    (0x7, Return LISA_INVALID),
    (0x8, Return LISA_INVALID),
    (0x9, Return LISA_INVALID),
    (0xa, Return LISA_INVALID),
    (0xb, Return LISA_INVALID),
    (0xc, Return LISA_INVALID),
    (0xd, Return LISA_INVALID),
    (0xe, Return LISA_INVALID),
    (0xf, Return LISA_INVALID),
    (0x10, Return LISA_INVALID),
    (0x11, Return LISA_INVALID),
    (0x14, Return LISA_INVALID),
    (0x15, Return LISA_INVALID),
    (0x18, Return LISA_INVALID),
    (0x19, Return LISA_INVALID)] (Return LISA_INVALID)"

definition la_tree_3672 :: dtree where
  "la_tree_3672 = Switch 15 0x1f [(0x0, Return LISA_INVALID),
    (0x1, Return LISA_INVALID),
    (0x2, Return LISA_INVALID),
    (0x3, Return LISA_INVALID),
    (0x4, Return LISA_INVALID),
    (0x5, Return LISA_INVALID),
    (0x6, Return LISA_INVALID),
    (0x7, Return LISA_INVALID),
    (0x8, Return LISA_INVALID),
    (0x9, Return LISA_INVALID),
    (0xa, Return LISA_INVALID),
    (0xb, Return LISA_INVALID),
    (0xc, Return LISA_INVALID),
    (0xd, Return LISA_INVALID),
    (0xe, Return LISA_INVALID),
    (0xf, Return LISA_INVALID),
    (0x10, Return LISA_INVALID),
    (0x11, Return LISA_INVALID),
    (0x14, Return LISA_INVALID),
    (0x15, Return LISA_INVALID),
    (0x18, Return LISA_INVALID),
    (0x19, Return LISA_INVALID)] (Return LISA_INVALID)"

definition la_tree_3572 :: dtree where
  "la_tree_3572 = Switch 0 0x3f00018 [
    (0x0, Return LISA_INVALID),
    (0x100000, la_tree_3579),
    (0x200000, la_tree_3672)] (Return LISA_INVALID)"

definition la_tree_3974 :: dtree where
  "la_tree_3974 = Switch 23 0x7 [(0x0, Switch 21 0x3 [(0x0, Switch 19 0x3 [(0x2, Return LISA_VLDREPL_D)] (Return LISA_INVALID)),
      (0x1, Switch 20 0x1 [(0x0, Return LISA_VLDREPL_W)] (Return LISA_INVALID)),
      (0x2, Return LISA_VLDREPL_H)] (Return LISA_INVALID)),
    (0x1, Switch 22 0x1 [(0x0, Return LISA_VLDREPL_B)] (Return LISA_INVALID)),
    (0x2, Switch 21 0x3 [(0x0, Switch 19 0x3 [(0x2, Return LISA_VSTELM_D)] (Return LISA_INVALID)),
      (0x1, Switch 20 0x1 [(0x0, Return LISA_VSTELM_W)] (Return LISA_INVALID)),
      (0x2, Return LISA_VSTELM_H)] (Return LISA_INVALID)),
    (0x3, Switch 22 0x1 [(0x0, Return LISA_VSTELM_B)] (Return LISA_INVALID)),
    (0x4, Switch 21 0x3 [(0x0, Switch 19 0x3 [(0x2, Return LISA_XVLDREPL_D)] (Return LISA_INVALID)),
      (0x1, Switch 20 0x1 [(0x0, Return LISA_XVLDREPL_W)] (Return LISA_INVALID)),
      (0x2, Return LISA_XVLDREPL_H)] (Return LISA_INVALID)),
    (0x5, Switch 22 0x1 [(0x0, Return LISA_XVLDREPL_B)] (Return LISA_INVALID)),
    (0x6, Switch 22 0x1 [(0x0, Switch 21 0x1 [(0x0, Switch 20 0x1 [(0x1, Return LISA_XVSTELM_D)] (Return LISA_INVALID)),
        (0x1, Return LISA_XVSTELM_W)] (Return LISA_INVALID)),
      (0x1, Return LISA_XVSTELM_H)] (Return LISA_INVALID)),
    (0x7, Return LISA_XVSTELM_B)] (Return LISA_INVALID)"

definition la_cases_4119 :: "(nat \<times> dtree) list" where
  "la_cases_4119 = [
    (0x0, Return LISA_LDX_B),
    (0x8, Return LISA_LDX_H),
    (0x10, Return LISA_LDX_W),
    (0x18, Return LISA_LDX_D),
    (0x20, Return LISA_STX_B),
    (0x28, Return LISA_STX_H),
    (0x30, Return LISA_STX_W),
    (0x38, Return LISA_STX_D),
    (0x40, Return LISA_LDX_BU),
    (0x48, Return LISA_LDX_HU),
    (0x50, Return LISA_LDX_WU),
    (0x58, Return LISA_PRELDX),
    (0x60, Return LISA_FLDX_S),
    (0x68, Return LISA_FLDX_D),
    (0x70, Return LISA_FSTX_S),
    (0x78, Return LISA_FSTX_D),
    (0x80, Return LISA_VLDX),
    (0x88, Return LISA_VSTX),
    (0x90, Return LISA_XVLDX),
    (0x98, Return LISA_XVSTX),
    (0xc0, Return LISA_AMSWAP_W),
    (0xc1, Return LISA_AMSWAP_D),
    (0xc2, Return LISA_AMADD_W),
    (0xc3, Return LISA_AMADD_D),
    (0xc4, Return LISA_AMAND_W),
    (0xc5, Return LISA_AMAND_D),
    (0xc6, Return LISA_AMOR_W),
    (0xc7, Return LISA_AMOR_D),
    (0xc8, Return LISA_AMXOR_W),
    (0xc9, Return LISA_AMXOR_D),
    (0xca, Return LISA_AMMAX_W),
    (0xcb, Return LISA_AMMAX_D),
    (0xcc, Return LISA_AMMIN_W),
    (0xcd, Return LISA_AMMIN_D),
    (0xce, Return LISA_AMMAX_WU),
    (0xcf, Return LISA_AMMAX_DU),
    (0xd0, Return LISA_AMMIN_WU)]"

definition la_cases_4267 :: "(nat \<times> dtree) list" where
  "la_cases_4267 = [
    (0xd1, Return LISA_AMMIN_DU),
    (0xd2, Return LISA_AMSWAP_DB_W),
    (0xd3, Return LISA_AMSWAP_DB_D),
    (0xd4, Return LISA_AMADD_DB_W),
    (0xd5, Return LISA_AMADD_DB_D),
    (0xd6, Return LISA_AMAND_DB_W),
    (0xd7, Return LISA_AMAND_DB_D),
    (0xd8, Return LISA_AMOR_DB_W),
    (0xd9, Return LISA_AMOR_DB_D),
    (0xda, Return LISA_AMXOR_DB_W),
    (0xdb, Return LISA_AMXOR_DB_D),
    (0xdc, Return LISA_AMMAX_DB_W),
    (0xdd, Return LISA_AMMAX_DB_D),
    (0xde, Return LISA_AMMIN_DB_W),
    (0xdf, Return LISA_AMMIN_DB_D),
    (0xe0, Return LISA_AMMAX_DB_WU),
    (0xe1, Return LISA_AMMAX_DB_DU),
    (0xe2, Return LISA_AMMIN_DB_WU),
    (0xe3, Return LISA_AMMIN_DB_DU),
    (0xe4, Return LISA_DBAR),
    (0xe5, Return LISA_IBAR),
    (0xe8, Return LISA_FLDGT_S),
    (0xe9, Return LISA_FLDGT_D),
    (0xea, Return LISA_FLDLE_S),
    (0xeb, Return LISA_FLDLE_D),
    (0xec, Return LISA_FSTGT_S),
    (0xed, Return LISA_FSTGT_D),
    (0xee, Return LISA_FSTLE_S),
    (0xef, Return LISA_FSTLE_D),
    (0xf0, Return LISA_LDGT_B),
    (0xf1, Return LISA_LDGT_H),
    (0xf2, Return LISA_LDGT_W),
    (0xf3, Return LISA_LDGT_D),
    (0xf4, Return LISA_LDLE_B),
    (0xf5, Return LISA_LDLE_H),
    (0xf6, Return LISA_LDLE_W),
    (0xf7, Return LISA_LDLE_D)]"

definition la_cases_4415 :: "(nat \<times> dtree) list" where
  "la_cases_4415 = [
    (0xf8, Return LISA_STGT_B),
    (0xf9, Return LISA_STGT_H),
    (0xfa, Return LISA_STGT_W),
    (0xfb, Return LISA_STGT_D),
    (0xfc, Return LISA_STLE_B),
    (0xfd, Return LISA_STLE_H),
    (0xfe, Return LISA_STLE_W),
    (0xff, Return LISA_STLE_D)]"

definition la_tree_4118 :: dtree where
  "la_tree_4118 = Switch 15 0x7ff (la_cases_4119 @ la_cases_4267 @ la_cases_4415) (Return LISA_INVALID)"

definition la_cases_8145 :: "(nat \<times> dtree) list" where
  "la_cases_8145 = [
    (0x0, Return LISA_VCLO_B),
    (0x1, Return LISA_VCLO_H),
    (0x2, Return LISA_VCLO_W),
    (0x3, Return LISA_VCLO_D),
    (0x4, Return LISA_VCLZ_B),
    (0x5, Return LISA_VCLZ_H),
    (0x6, Return LISA_VCLZ_W),
    (0x7, Return LISA_VCLZ_D),
    (0x8, Return LISA_VPCNT_B),
    (0x9, Return LISA_VPCNT_H),
    (0xa, Return LISA_VPCNT_W),
    (0xb, Return LISA_VPCNT_D),
    (0xc, Return LISA_VNEG_B),
    (0xd, Return LISA_VNEG_H),
    (0xe, Return LISA_VNEG_W),
    (0xf, Return LISA_VNEG_D),
    (0x10, Return LISA_VMSKLTZ_B),
    (0x11, Return LISA_VMSKLTZ_H),
    (0x12, Return LISA_VMSKLTZ_W),
    (0x13, Return LISA_VMSKLTZ_D),
    (0x14, Return LISA_VMSKGEZ_B),
    (0x15, Return LISA_INVALID),
    (0x16, Return LISA_INVALID),
    (0x17, Return LISA_INVALID),
    (0x18, Return LISA_VMSKNZ_B),
    (0x19, Return LISA_INVALID),
    (0x1a, Return LISA_INVALID),
    (0x1b, Return LISA_INVALID),
    (0x1c, Return LISA_VMSKCOPY_B),
    (0x1d, Return LISA_INVALID),
    (0x1e, Return LISA_INVALID),
    (0x1f, Return LISA_INVALID),
    (0x20, Return LISA_VMSKFILL_B),
    (0x21, Return LISA_INVALID),
    (0x22, Return LISA_INVALID),
    (0x23, Return LISA_INVALID),
    (0x24, Return LISA_VFRSTM_B)]"

definition la_cases_8293 :: "(nat \<times> dtree) list" where
  "la_cases_8293 = [
    (0x25, Return LISA_VFRSTM_H),
    (0x26, Switch 3 0x3 [(0x0, Return LISA_VSETEQZ_V)] (Return LISA_INVALID)),
    (0x27, Switch 3 0x3 [(0x0, Return LISA_VSETNEZ_V)] (Return LISA_INVALID)),
    (0x28, Switch 3 0x3 [(0x0, Return LISA_VSETANYEQZ_B)] (Return LISA_INVALID)),
    (0x29, Switch 3 0x3 [(0x0, Return LISA_VSETANYEQZ_H)] (Return LISA_INVALID)),
    (0x2a, Switch 3 0x3 [(0x0, Return LISA_VSETANYEQZ_W)] (Return LISA_INVALID)),
    (0x2b, Switch 3 0x3 [(0x0, Return LISA_VSETANYEQZ_D)] (Return LISA_INVALID)),
    (0x2c, Switch 3 0x3 [(0x0, Return LISA_VSETALLNEZ_B)] (Return LISA_INVALID)),
    (0x2d, Switch 3 0x3 [(0x0, Return LISA_VSETALLNEZ_H)] (Return LISA_INVALID)),
    (0x2e, Switch 3 0x3 [(0x0, Return LISA_VSETALLNEZ_W)] (Return LISA_INVALID)),
    (0x2f, Switch 3 0x3 [(0x0, Return LISA_VSETALLNEZ_D)] (Return LISA_INVALID)),
    (0x30, Return LISA_INVALID),
    (0x31, Return LISA_VFLOGB_S),
    (0x32, Return LISA_VFLOGB_D),
    (0x33, Return LISA_INVALID),
    (0x34, Return LISA_INVALID),
    (0x35, Return LISA_VFCLASS_S),
    (0x36, Return LISA_VFCLASS_D),
    (0x37, Return LISA_INVALID),
    (0x38, Return LISA_INVALID),
    (0x39, Return LISA_VFSQRT_S),
    (0x3a, Return LISA_VFSQRT_D),
    (0x3b, Return LISA_INVALID),
    (0x3c, Return LISA_INVALID)]"

definition la_cases_8439 :: "(nat \<times> dtree) list" where
  "la_cases_8439 = [
    (0x3d, Return LISA_VFRECIP_S),
    (0x3e, Return LISA_VFRECIP_D),
    (0x3f, Return LISA_INVALID),
    (0x40, Return LISA_INVALID),
    (0x41, Return LISA_VFRSQRT_S),
    (0x42, Return LISA_VFRSQRT_D),
    (0x43, Return LISA_INVALID),
    (0x44, Return LISA_INVALID),
    (0x45, Return LISA_INVALID),
    (0x46, Return LISA_INVALID),
    (0x47, Return LISA_INVALID),
    (0x48, Return LISA_INVALID),
    (0x49, Return LISA_INVALID),
    (0x4a, Return LISA_INVALID),
    (0x4b, Return LISA_INVALID),
    (0x4c, Return LISA_INVALID),
    (0x4d, Return LISA_VFRINT_S),
    (0x4e, Return LISA_VFRINT_D),
    (0x4f, Return LISA_INVALID),
    (0x50, Return LISA_INVALID),
    (0x51, Return LISA_VFRINTRM_S),
    (0x52, Return LISA_VFRINTRM_D),
    (0x53, Return LISA_INVALID),
    (0x54, Return LISA_INVALID),
    (0x55, Return LISA_VFRINTRP_S),
    (0x56, Return LISA_VFRINTRP_D),
    (0x57, Return LISA_INVALID),
    (0x58, Return LISA_INVALID),
    (0x59, Return LISA_VFRINTRZ_S),
    (0x5a, Return LISA_VFRINTRZ_D),
    (0x5b, Return LISA_INVALID),
    (0x5c, Return LISA_INVALID),
    (0x5d, Return LISA_VFRINTRNE_S),
    (0x5e, Return LISA_VFRINTRNE_D),
    (0x5f, Return LISA_INVALID),
    (0x61, Return LISA_VEXTL_W_B),
    (0x62, Return LISA_VEXTL_D_B)]"

definition la_cases_8587 :: "(nat \<times> dtree) list" where
  "la_cases_8587 = [
    (0x63, Return LISA_INVALID),
    (0x65, Return LISA_VEXTL_D_H),
    (0x66, Return LISA_INVALID),
    (0x68, Return LISA_INVALID),
    (0x6b, Return LISA_VEXTL_W_BU),
    (0x6c, Return LISA_VEXTL_D_BU),
    (0x6d, Return LISA_INVALID),
    (0x6f, Return LISA_VEXTL_D_HU),
    (0x70, Return LISA_INVALID),
    (0x72, Return LISA_INVALID),
    (0x74, Return LISA_VHADD8_D_BU),
    (0x75, Return LISA_VHMINPOS_W_HU),
    (0x76, Return LISA_VHMINPOS_D_HU),
    (0x77, Return LISA_VHMINPOS_Q_HU),
    (0x78, Return LISA_VCLRTAIL_B),
    (0x79, Return LISA_VCLRTAIL_H),
    (0x7a, Return LISA_VFCVTL_S_H),
    (0x7b, Return LISA_VFCVTH_S_H),
    (0x7c, Return LISA_VFCVTL_D_S),
    (0x7d, Return LISA_VFCVTH_D_S),
    (0x7e, Return LISA_INVALID),
    (0x7f, Return LISA_INVALID),
    (0x80, Return LISA_VFFINT_S_W),
    (0x81, Return LISA_VFFINT_S_WU),
    (0x82, Return LISA_VFFINT_D_L),
    (0x83, Return LISA_VFFINT_D_LU),
    (0x84, Return LISA_VFFINTL_D_W),
    (0x85, Return LISA_VFFINTH_D_W),
    (0x86, Return LISA_INVALID),
    (0x87, Return LISA_INVALID),
    (0x88, Return LISA_INVALID),
    (0x89, Return LISA_INVALID),
    (0x8a, Return LISA_INVALID),
    (0x8b, Return LISA_INVALID),
    (0x8c, Return LISA_VFTINT_W_S),
    (0x8d, Return LISA_VFTINT_L_D),
    (0x8e, Return LISA_VFTINTRM_W_S)]"

definition la_cases_8735 :: "(nat \<times> dtree) list" where
  "la_cases_8735 = [
    (0x8f, Return LISA_VFTINTRM_L_D),
    (0x90, Return LISA_VFTINTRP_W_S),
    (0x91, Return LISA_VFTINTRP_L_D),
    (0x92, Return LISA_VFTINTRZ_W_S),
    (0x93, Return LISA_VFTINTRZ_L_D),
    (0x94, Return LISA_VFTINTRNE_W_S),
    (0x95, Return LISA_VFTINTRNE_L_D),
    (0x96, Return LISA_VFTINT_WU_S),
    (0x97, Return LISA_VFTINT_LU_D),
    (0x98, Return LISA_INVALID),
    (0x99, Return LISA_INVALID),
    (0x9a, Return LISA_INVALID),
    (0x9b, Return LISA_INVALID),
    (0x9c, Return LISA_VFTINTRZ_WU_S),
    (0x9d, Return LISA_VFTINTRZ_LU_D),
    (0x9e, Return LISA_INVALID),
    (0x9f, Return LISA_INVALID),
    (0xa0, Return LISA_VFTINTL_L_S),
    (0xa1, Return LISA_VFTINTH_L_S),
    (0xa2, Return LISA_VFTINTRML_L_S),
    (0xa3, Return LISA_VFTINTRMH_L_S),
    (0xa4, Return LISA_VFTINTRPL_L_S),
    (0xa5, Return LISA_VFTINTRPH_L_S),
    (0xa6, Return LISA_VFTINTRZL_L_S),
    (0xa7, Return LISA_VFTINTRZH_L_S),
    (0xa8, Return LISA_VFTINTRNEL_L_S),
    (0xa9, Return LISA_VFTINTRNEH_L_S),
    (0xaa, Return LISA_INVALID),
    (0xab, Return LISA_INVALID),
    (0xac, Return LISA_INVALID),
    (0xad, Return LISA_INVALID),
    (0xae, Return LISA_INVALID),
    (0xaf, Return LISA_INVALID),
    (0xb0, Return LISA_INVALID),
    (0xb1, Return LISA_INVALID),
    (0xb2, Return LISA_INVALID),
    (0xb3, Return LISA_INVALID)]"

definition la_cases_8883 :: "(nat \<times> dtree) list" where
  "la_cases_8883 = [
    (0xb8, Return LISA_VEXTH_H_B),
    (0xb9, Return LISA_VEXTH_W_H),
    (0xba, Return LISA_VEXTH_D_W),
    (0xbb, Return LISA_VEXTH_Q_D),
    (0xbc, Return LISA_VEXTH_HU_BU),
    (0xbd, Return LISA_VEXTH_WU_HU),
    (0xbe, Return LISA_VEXTH_DU_WU),
    (0xbf, Return LISA_VEXTH_QU_DU),
    (0xc0, Return LISA_VREPLGR2VR_B),
    (0xc1, Return LISA_VREPLGR2VR_H),
    (0xc2, Return LISA_VREPLGR2VR_W),
    (0xc3, Return LISA_VREPLGR2VR_D)]"

definition la_tree_8144 :: dtree where
  "la_tree_8144 = Switch 10 0xff (la_cases_8145 @ la_cases_8293 @ la_cases_8439 @ la_cases_8587 @ la_cases_8735 @ la_cases_8883) (Return LISA_INVALID)"

definition la_cases_4527 :: "(nat \<times> dtree) list" where
  "la_cases_4527 = [
    (0x0, Switch 15 0x7 [(0x0, Return LISA_VSEQ_B),
        (0x1, Return LISA_VSEQ_H),
        (0x2, Return LISA_VSEQ_W),
        (0x3, Return LISA_VSEQ_D),
        (0x4, Return LISA_VSLE_B),
        (0x5, Return LISA_VSLE_H),
        (0x6, Return LISA_VSLE_W),
        (0x7, Return LISA_VSLE_D)] (Return LISA_INVALID)),
    (0x1, Switch 15 0x7 [(0x0, Return LISA_VSLE_BU),
        (0x1, Return LISA_VSLE_HU),
        (0x2, Return LISA_VSLE_WU),
        (0x3, Return LISA_VSLE_DU),
        (0x4, Return LISA_VSLT_B),
        (0x5, Return LISA_VSLT_H),
        (0x6, Return LISA_VSLT_W),
        (0x7, Return LISA_VSLT_D)] (Return LISA_INVALID)),
    (0x2, Switch 15 0x7 [(0x0, Return LISA_VSLT_BU),
        (0x1, Return LISA_VSLT_HU),
        (0x2, Return LISA_VSLT_WU),
        (0x3, Return LISA_VSLT_DU),
        (0x4, Return LISA_VADD_B),
        (0x5, Return LISA_VADD_H),
        (0x6, Return LISA_VADD_W),
        (0x7, Return LISA_VADD_D)] (Return LISA_INVALID)),
    (0x3, Switch 15 0x7 [(0x0, Return LISA_VSUB_B),
        (0x1, Return LISA_VSUB_H),
        (0x2, Return LISA_VSUB_W),
        (0x3, Return LISA_VSUB_D),
        (0x4, Return LISA_VADDW_H_H_B),
        (0x5, Return LISA_VADDW_W_W_H),
        (0x6, Return LISA_VADDW_D_D_W),
        (0x7, Return LISA_INVALID)] (Return LISA_INVALID))]"

definition la_cases_4675 :: "(nat \<times> dtree) list" where
  "la_cases_4675 = [
    (0x4, Switch 15 0x7 [(0x0, Return LISA_VADDW_H_H_BU),
        (0x1, Return LISA_VADDW_W_W_HU),
        (0x2, Return LISA_VADDW_D_D_WU),
        (0x3, Return LISA_INVALID),
        (0x4, Return LISA_VSUBW_H_H_B),
        (0x5, Return LISA_VSUBW_W_W_H),
        (0x6, Return LISA_VSUBW_D_D_W),
        (0x7, Return LISA_INVALID)] (Return LISA_INVALID)),
    (0x5, Switch 15 0x7 [(0x0, Return LISA_VSUBW_H_H_BU),
        (0x1, Return LISA_VSUBW_W_W_HU),
        (0x2, Return LISA_VSUBW_D_D_WU),
        (0x3, Return LISA_INVALID),
        (0x4, Return LISA_VSADDW_H_H_B),
        (0x5, Return LISA_VSADDW_W_W_H),
        (0x6, Return LISA_VSADDW_D_D_W),
        (0x7, Return LISA_INVALID)] (Return LISA_INVALID)),
    (0x6, Switch 15 0x7 [(0x0, Return LISA_VSADDW_HU_HU_BU),
        (0x1, Return LISA_VSADDW_WU_WU_HU),
        (0x2, Return LISA_VSADDW_DU_DU_WU),
        (0x3, Return LISA_INVALID),
        (0x4, Return LISA_VSSUBW_H_H_B),
        (0x5, Return LISA_VSSUBW_W_W_H),
        (0x6, Return LISA_VSSUBW_D_D_W),
        (0x7, Return LISA_INVALID)] (Return LISA_INVALID)),
    (0x7, Switch 15 0x7 [(0x0, Return LISA_VSSUBW_HU_HU_BU),
        (0x1, Return LISA_VSSUBW_WU_WU_HU),
        (0x2, Return LISA_VSSUBW_DU_DU_WU),
        (0x3, Return LISA_INVALID),
        (0x4, Return LISA_VADDWEV_H_B),
        (0x5, Return LISA_VADDWEV_W_H),
        (0x6, Return LISA_VADDWEV_D_W),
        (0x7, Return LISA_VADDWEV_Q_D)] (Return LISA_INVALID))]"

definition la_cases_4823 :: "(nat \<times> dtree) list" where
  "la_cases_4823 = [
    (0x8, Switch 15 0x7 [(0x0, Return LISA_VSUBWEV_H_B),
        (0x1, Return LISA_VSUBWEV_W_H),
        (0x2, Return LISA_VSUBWEV_D_W),
        (0x3, Return LISA_VSUBWEV_Q_D),
        (0x4, Return LISA_VADDWOD_H_B),
        (0x5, Return LISA_VADDWOD_W_H),
        (0x6, Return LISA_VADDWOD_D_W),
        (0x7, Return LISA_VADDWOD_Q_D)] (Return LISA_INVALID)),
    (0x9, Switch 15 0x7 [(0x0, Return LISA_VSUBWOD_H_B),
        (0x1, Return LISA_VSUBWOD_W_H),
        (0x2, Return LISA_VSUBWOD_D_W),
        (0x3, Return LISA_VSUBWOD_Q_D),
        (0x4, Return LISA_VADDWL_H_B),
        (0x5, Return LISA_VADDWL_W_H),
        (0x6, Return LISA_VADDWL_D_W),
        (0x7, Return LISA_VADDWL_Q_D)] (Return LISA_INVALID)),
    (0xa, Switch 15 0x7 [(0x0, Return LISA_VSUBWL_H_B),
        (0x1, Return LISA_VSUBWL_W_H),
        (0x2, Return LISA_VSUBWL_D_W),
        (0x3, Return LISA_VSUBWL_Q_D),
        (0x4, Return LISA_VADDWH_H_B),
        (0x5, Return LISA_VADDWH_W_H),
        (0x6, Return LISA_VADDWH_D_W),
        (0x7, Return LISA_VADDWH_Q_D)] (Return LISA_INVALID)),
    (0xb, Switch 15 0x7 [(0x0, Return LISA_VSUBWH_H_B),
        (0x1, Return LISA_VSUBWH_W_H),
        (0x2, Return LISA_VSUBWH_D_W),
        (0x3, Return LISA_VSUBWH_Q_D),
        (0x4, Return LISA_VADDWEV_H_BU),
        (0x5, Return LISA_VADDWEV_W_HU),
        (0x6, Return LISA_VADDWEV_D_WU),
        (0x7, Return LISA_VADDWEV_Q_DU)] (Return LISA_INVALID))]"

definition la_cases_4971 :: "(nat \<times> dtree) list" where
  "la_cases_4971 = [
    (0xc, Switch 15 0x7 [(0x0, Return LISA_VSUBWEV_H_BU),
        (0x1, Return LISA_VSUBWEV_W_HU),
        (0x2, Return LISA_VSUBWEV_D_WU),
        (0x3, Return LISA_VSUBWEV_Q_DU),
        (0x4, Return LISA_VADDWOD_H_BU),
        (0x5, Return LISA_VADDWOD_W_HU),
        (0x6, Return LISA_VADDWOD_D_WU),
        (0x7, Return LISA_VADDWOD_Q_DU)] (Return LISA_INVALID)),
    (0xd, Switch 15 0x7 [(0x0, Return LISA_VSUBWOD_H_BU),
        (0x1, Return LISA_VSUBWOD_W_HU),
        (0x2, Return LISA_VSUBWOD_D_WU),
        (0x3, Return LISA_VSUBWOD_Q_DU),
        (0x4, Return LISA_VADDWL_H_BU),
        (0x5, Return LISA_VADDWL_W_HU),
        (0x6, Return LISA_VADDWL_D_WU),
        (0x7, Return LISA_VADDWL_Q_DU)] (Return LISA_INVALID)),
    (0xe, Switch 15 0x7 [(0x0, Return LISA_VSUBWL_H_BU),
        (0x1, Return LISA_VSUBWL_W_HU),
        (0x2, Return LISA_VSUBWL_D_WU),
        (0x3, Return LISA_VSUBWL_Q_DU),
        (0x4, Return LISA_VADDWH_H_BU),
        (0x5, Return LISA_VADDWH_W_HU),
        (0x6, Return LISA_VADDWH_D_WU),
        (0x7, Return LISA_VADDWH_Q_DU)] (Return LISA_INVALID)),
    (0xf, Switch 15 0x7 [(0x0, Return LISA_VSUBWH_H_BU),
        (0x1, Return LISA_VSUBWH_W_HU),
        (0x2, Return LISA_VSUBWH_D_WU),
        (0x3, Return LISA_VSUBWH_Q_DU),
        (0x4, Return LISA_VADDWEV_H_BU_B),
        (0x5, Return LISA_VADDWEV_W_HU_H),
        (0x6, Return LISA_VADDWEV_D_WU_W),
        (0x7, Return LISA_VADDWEV_Q_DU_D)] (Return LISA_INVALID))]"

definition la_cases_5119 :: "(nat \<times> dtree) list" where
  "la_cases_5119 = [
    (0x10, Switch 15 0x7 [(0x0, Return LISA_VADDWOD_H_BU_B),
        (0x1, Return LISA_VADDWOD_W_HU_H),
        (0x2, Return LISA_VADDWOD_D_WU_W),
        (0x3, Return LISA_VADDWOD_Q_DU_D),
        (0x4, Return LISA_VADDWL_H_BU_B),
        (0x5, Return LISA_VADDWL_W_HU_H),
        (0x6, Return LISA_VADDWL_D_WU_W),
        (0x7, Return LISA_VADDWL_Q_DU_D)] (Return LISA_INVALID)),
    (0x11, Switch 15 0x7 [(0x0, Return LISA_VADDWH_H_BU_B),
        (0x1, Return LISA_VADDWH_W_HU_H),
        (0x2, Return LISA_VADDWH_D_WU_W),
        (0x3, Return LISA_VADDWH_Q_DU_D),
        (0x4, Return LISA_VSADD_B),
        (0x5, Return LISA_VSADD_H),
        (0x6, Return LISA_VSADD_W),
        (0x7, Return LISA_VSADD_D)] (Return LISA_INVALID)),
    (0x12, Switch 15 0x7 [(0x0, Return LISA_VSSUB_B),
        (0x1, Return LISA_VSSUB_H),
        (0x2, Return LISA_VSSUB_W),
        (0x3, Return LISA_VSSUB_D),
        (0x4, Return LISA_VSADD_BU),
        (0x5, Return LISA_VSADD_HU),
        (0x6, Return LISA_VSADD_WU),
        (0x7, Return LISA_VSADD_DU)] (Return LISA_INVALID)),
    (0x13, Switch 15 0x7 [(0x0, Return LISA_VSSUB_BU),
        (0x1, Return LISA_VSSUB_HU),
        (0x2, Return LISA_VSSUB_WU),
        (0x3, Return LISA_VSSUB_DU),
        (0x4, Return LISA_VSSUB_BU_BU_B),
        (0x5, Return LISA_VSSUB_HU_HU_H),
        (0x6, Return LISA_VSSUB_WU_WU_W),
        (0x7, Return LISA_VSSUB_DU_DU_D)] (Return LISA_INVALID))]"

definition la_cases_5267 :: "(nat \<times> dtree) list" where
  "la_cases_5267 = [
    (0x14, Switch 15 0x7 [(0x0, Return LISA_VSSUB_BU_B_BU),
        (0x1, Return LISA_VSSUB_HU_H_HU),
        (0x2, Return LISA_VSSUB_WU_W_WU),
        (0x3, Return LISA_VSSUB_DU_D_DU),
        (0x4, Return LISA_VSSUB_B_BU_BU),
        (0x5, Return LISA_VSSUB_H_HU_HU),
        (0x6, Return LISA_VSSUB_W_WU_WU),
        (0x7, Return LISA_VSSUB_D_DU_DU)] (Return LISA_INVALID)),
    (0x15, Switch 15 0x7 [(0x0, Return LISA_VHADDW_H_B),
        (0x1, Return LISA_VHADDW_W_H),
        (0x2, Return LISA_VHADDW_D_W),
        (0x3, Return LISA_VHADDW_Q_D),
        (0x4, Return LISA_VHSUBW_H_B),
        (0x5, Return LISA_VHSUBW_W_H),
        (0x6, Return LISA_VHSUBW_D_W),
        (0x7, Return LISA_VHSUBW_Q_D)] (Return LISA_INVALID)),
    (0x16, Switch 15 0x7 [(0x0, Return LISA_VHADDW_HU_BU),
        (0x1, Return LISA_VHADDW_WU_HU),
        (0x2, Return LISA_VHADDW_DU_WU),
        (0x3, Return LISA_VHADDW_QU_DU),
        (0x4, Return LISA_VHSUBW_HU_BU),
        (0x5, Return LISA_VHSUBW_WU_HU),
        (0x6, Return LISA_VHSUBW_DU_WU),
        (0x7, Return LISA_VHSUBW_QU_DU)] (Return LISA_INVALID)),
    (0x17, Switch 15 0x7 [(0x0, Return LISA_VADDA_B),
        (0x1, Return LISA_VADDA_H),
        (0x2, Return LISA_VADDA_W),
        (0x3, Return LISA_VADDA_D),
        (0x4, Return LISA_VSADDA_B),
        (0x5, Return LISA_VSADDA_H),
        (0x6, Return LISA_VSADDA_W),
        (0x7, Return LISA_VSADDA_D)] (Return LISA_INVALID))]"

definition la_cases_5415 :: "(nat \<times> dtree) list" where
  "la_cases_5415 = [
    (0x18, Switch 15 0x7 [(0x0, Return LISA_VABSD_B),
        (0x1, Return LISA_VABSD_H),
        (0x2, Return LISA_VABSD_W),
        (0x3, Return LISA_VABSD_D),
        (0x4, Return LISA_VABSD_BU),
        (0x5, Return LISA_VABSD_HU),
        (0x6, Return LISA_VABSD_WU),
        (0x7, Return LISA_VABSD_DU)] (Return LISA_INVALID)),
    (0x19, Switch 15 0x7 [(0x0, Return LISA_VAVG_B),
        (0x1, Return LISA_VAVG_H),
        (0x2, Return LISA_VAVG_W),
        (0x3, Return LISA_VAVG_D),
        (0x4, Return LISA_VAVG_BU),
        (0x5, Return LISA_VAVG_HU),
        (0x6, Return LISA_VAVG_WU),
        (0x7, Return LISA_VAVG_DU)] (Return LISA_INVALID)),
    (0x1a, Switch 15 0x7 [(0x0, Return LISA_VAVGR_B),
        (0x1, Return LISA_VAVGR_H),
        (0x2, Return LISA_VAVGR_W),
        (0x3, Return LISA_VAVGR_D),
        (0x4, Return LISA_VAVGR_BU),
        (0x5, Return LISA_VAVGR_HU),
        (0x6, Return LISA_VAVGR_WU),
        (0x7, Return LISA_VAVGR_DU)] (Return LISA_INVALID)),
    (0x1b, Switch 15 0x7 [(0x0, Return LISA_VHALFD_B),
        (0x1, Return LISA_VHALFD_H),
        (0x2, Return LISA_VHALFD_W),
        (0x3, Return LISA_VHALFD_D),
        (0x4, Return LISA_VHALFD_BU),
        (0x5, Return LISA_VHALFD_HU),
        (0x6, Return LISA_VHALFD_WU),
        (0x7, Return LISA_VHALFD_DU)] (Return LISA_INVALID))]"

definition la_cases_5563 :: "(nat \<times> dtree) list" where
  "la_cases_5563 = [
    (0x1c, Switch 15 0x7 [(0x0, Return LISA_VMAX_B),
        (0x1, Return LISA_VMAX_H),
        (0x2, Return LISA_VMAX_W),
        (0x3, Return LISA_VMAX_D),
        (0x4, Return LISA_VMIN_B),
        (0x5, Return LISA_VMIN_H),
        (0x6, Return LISA_VMIN_W),
        (0x7, Return LISA_VMIN_D)] (Return LISA_INVALID)),
    (0x1d, Switch 15 0x7 [(0x0, Return LISA_VMAX_BU),
        (0x1, Return LISA_VMAX_HU),
        (0x2, Return LISA_VMAX_WU),
        (0x3, Return LISA_VMAX_DU),
        (0x4, Return LISA_VMIN_BU),
        (0x5, Return LISA_VMIN_HU),
        (0x6, Return LISA_VMIN_WU),
        (0x7, Return LISA_VMIN_DU)] (Return LISA_INVALID)),
    (0x1e, Switch 15 0x7 [(0x0, Return LISA_VMAXA_B),
        (0x1, Return LISA_VMAXA_H),
        (0x2, Return LISA_VMAXA_W),
        (0x3, Return LISA_VMAXA_D),
        (0x4, Return LISA_VMINA_B),
        (0x5, Return LISA_VMINA_H),
        (0x6, Return LISA_VMINA_W),
        (0x7, Return LISA_VMINA_D)] (Return LISA_INVALID)),
    (0x1f, Switch 15 0x7 [(0x0, Return LISA_VSADW_H_B),
        (0x1, Return LISA_VSADW_W_H),
        (0x2, Return LISA_VSADW_D_W),
        (0x4, Return LISA_VSADW_H_BU),
        (0x5, Return LISA_VSADW_W_HU),
        (0x6, Return LISA_VSADW_D_WU)] (Return LISA_INVALID))]"

definition la_cases_5703 :: "(nat \<times> dtree) list" where
  "la_cases_5703 = [
    (0x20, Switch 15 0x7 [(0x0, Return LISA_VACCSADW_H_B),
        (0x1, Return LISA_VACCSADW_W_H),
        (0x2, Return LISA_VACCSADW_D_W),
        (0x4, Return LISA_VACCSADW_H_BU),
        (0x5, Return LISA_VACCSADW_W_HU),
        (0x6, Return LISA_VACCSADW_D_WU)] (Return LISA_INVALID)),
    (0x21, Switch 15 0x7 [(0x0, Return LISA_VMUL_B),
        (0x1, Return LISA_VMUL_H),
        (0x2, Return LISA_VMUL_W),
        (0x3, Return LISA_VMUL_D),
        (0x4, Return LISA_VMUH_B),
        (0x5, Return LISA_VMUH_H),
        (0x6, Return LISA_VMUH_W),
        (0x7, Return LISA_VMUH_D)] (Return LISA_INVALID)),
    (0x22, Switch 15 0x7 [(0x0, Return LISA_VMUH_BU),
        (0x1, Return LISA_VMUH_HU),
        (0x2, Return LISA_VMUH_WU),
        (0x3, Return LISA_VMUH_DU),
        (0x4, Return LISA_VMUH_BU_B),
        (0x5, Return LISA_VMUH_HU_H),
        (0x6, Return LISA_VMUH_WU_W),
        (0x7, Return LISA_VMUH_DU_D)] (Return LISA_INVALID)),
    (0x23, Switch 15 0x7 [(0x0, Return LISA_VMULXW_H_B),
        (0x1, Return LISA_VMULXW_W_H),
        (0x2, Return LISA_VMULXW_D_W),
        (0x4, Return LISA_VMULXW_H_BU),
        (0x5, Return LISA_VMULXW_W_HU),
        (0x6, Return LISA_VMULXW_D_WU)] (Return LISA_INVALID))]"

definition la_cases_5835 :: "(nat \<times> dtree) list" where
  "la_cases_5835 = [
    (0x24, Switch 15 0x7 [(0x0, Return LISA_VMULWEV_H_B),
        (0x1, Return LISA_VMULWEV_W_H),
        (0x2, Return LISA_VMULWEV_D_W),
        (0x3, Return LISA_VMULWEV_Q_D),
        (0x4, Return LISA_VMULWOD_H_B),
        (0x5, Return LISA_VMULWOD_W_H),
        (0x6, Return LISA_VMULWOD_D_W),
        (0x7, Return LISA_VMULWOD_Q_D)] (Return LISA_INVALID)),
    (0x25, Switch 15 0x7 [(0x0, Return LISA_VMULWL_H_B),
        (0x1, Return LISA_VMULWL_W_H),
        (0x2, Return LISA_VMULWL_D_W),
        (0x3, Return LISA_VMULWL_Q_D),
        (0x4, Return LISA_VMULWH_H_B),
        (0x5, Return LISA_VMULWH_W_H),
        (0x6, Return LISA_VMULWH_D_W),
        (0x7, Return LISA_VMULWH_Q_D)] (Return LISA_INVALID)),
    (0x26, Switch 15 0x7 [(0x0, Return LISA_VMULWEV_H_BU),
        (0x1, Return LISA_VMULWEV_W_HU),
        (0x2, Return LISA_VMULWEV_D_WU),
        (0x3, Return LISA_VMULWEV_Q_DU),
        (0x4, Return LISA_VMULWOD_H_BU),
        (0x5, Return LISA_VMULWOD_W_HU),
        (0x6, Return LISA_VMULWOD_D_WU),
        (0x7, Return LISA_VMULWOD_Q_DU)] (Return LISA_INVALID)),
    (0x27, Switch 15 0x7 [(0x0, Return LISA_VMULWL_H_BU),
        (0x1, Return LISA_VMULWL_W_HU),
        (0x2, Return LISA_VMULWL_D_WU),
        (0x3, Return LISA_VMULWL_Q_DU),
        (0x4, Return LISA_VMULWH_H_BU),
        (0x5, Return LISA_VMULWH_W_HU),
        (0x6, Return LISA_VMULWH_D_WU),
        (0x7, Return LISA_VMULWH_Q_DU)] (Return LISA_INVALID))]"

definition la_cases_5983 :: "(nat \<times> dtree) list" where
  "la_cases_5983 = [
    (0x28, Switch 15 0x7 [(0x0, Return LISA_VMULWEV_H_BU_B),
        (0x1, Return LISA_VMULWEV_W_HU_H),
        (0x2, Return LISA_VMULWEV_D_WU_W),
        (0x3, Return LISA_VMULWEV_Q_DU_D),
        (0x4, Return LISA_VMULWOD_H_BU_B),
        (0x5, Return LISA_VMULWOD_W_HU_H),
        (0x6, Return LISA_VMULWOD_D_WU_W),
        (0x7, Return LISA_VMULWOD_Q_DU_D)] (Return LISA_INVALID)),
    (0x29, Switch 15 0x7 [(0x0, Return LISA_VMULWL_H_BU_B),
        (0x1, Return LISA_VMULWL_W_HU_H),
        (0x2, Return LISA_VMULWL_D_WU_W),
        (0x3, Return LISA_VMULWL_Q_DU_D),
        (0x4, Return LISA_VMULWH_H_BU_B),
        (0x5, Return LISA_VMULWH_W_HU_H),
        (0x6, Return LISA_VMULWH_D_WU_W),
        (0x7, Return LISA_VMULWH_Q_DU_D)] (Return LISA_INVALID)),
    (0x2a, Switch 15 0x7 [(0x0, Return LISA_VMADD_B),
        (0x1, Return LISA_VMADD_H),
        (0x2, Return LISA_VMADD_W),
        (0x3, Return LISA_VMADD_D),
        (0x4, Return LISA_VMSUB_B),
        (0x5, Return LISA_VMSUB_H),
        (0x6, Return LISA_VMSUB_W),
        (0x7, Return LISA_VMSUB_D)] (Return LISA_INVALID)),
    (0x2b, Switch 15 0x7 [(0x0, Return LISA_VMADDWEV_H_B),
        (0x1, Return LISA_VMADDWEV_W_H),
        (0x2, Return LISA_VMADDWEV_D_W),
        (0x3, Return LISA_VMADDWEV_Q_D),
        (0x4, Return LISA_VMADDWOD_H_B),
        (0x5, Return LISA_VMADDWOD_W_H),
        (0x6, Return LISA_VMADDWOD_D_W),
        (0x7, Return LISA_VMADDWOD_Q_D)] (Return LISA_INVALID))]"

definition la_cases_6131 :: "(nat \<times> dtree) list" where
  "la_cases_6131 = [
    (0x2c, Switch 15 0x7 [(0x0, Return LISA_VMADDWL_H_B),
        (0x1, Return LISA_VMADDWL_W_H),
        (0x2, Return LISA_VMADDWL_D_W),
        (0x3, Return LISA_VMADDWL_Q_D),
        (0x4, Return LISA_VMADDWH_H_B),
        (0x5, Return LISA_VMADDWH_W_H),
        (0x6, Return LISA_VMADDWH_D_W),
        (0x7, Return LISA_VMADDWH_Q_D)] (Return LISA_INVALID)),
    (0x2d, Switch 15 0x7 [(0x0, Return LISA_VMADDWEV_H_BU),
        (0x1, Return LISA_VMADDWEV_W_HU),
        (0x2, Return LISA_VMADDWEV_D_WU),
        (0x3, Return LISA_VMADDWEV_Q_DU),
        (0x4, Return LISA_VMADDWOD_H_BU),
        (0x5, Return LISA_VMADDWOD_W_HU),
        (0x6, Return LISA_VMADDWOD_D_WU),
        (0x7, Return LISA_VMADDWOD_Q_DU)] (Return LISA_INVALID)),
    (0x2e, Switch 15 0x7 [(0x0, Return LISA_VMADDWL_H_BU),
        (0x1, Return LISA_VMADDWL_W_HU),
        (0x2, Return LISA_VMADDWL_D_WU),
        (0x3, Return LISA_VMADDWL_Q_DU),
        (0x4, Return LISA_VMADDWH_H_BU),
        (0x5, Return LISA_VMADDWH_W_HU),
        (0x6, Return LISA_VMADDWH_D_WU),
        (0x7, Return LISA_VMADDWH_Q_DU)] (Return LISA_INVALID)),
    (0x2f, Switch 15 0x7 [(0x0, Return LISA_VMADDWEV_H_BU_B),
        (0x1, Return LISA_VMADDWEV_W_HU_H),
        (0x2, Return LISA_VMADDWEV_D_WU_W),
        (0x3, Return LISA_VMADDWEV_Q_DU_D),
        (0x4, Return LISA_VMADDWOD_H_BU_B),
        (0x5, Return LISA_VMADDWOD_W_HU_H),
        (0x6, Return LISA_VMADDWOD_D_WU_W),
        (0x7, Return LISA_VMADDWOD_Q_DU_D)] (Return LISA_INVALID))]"

definition la_cases_6279 :: "(nat \<times> dtree) list" where
  "la_cases_6279 = [
    (0x30, Switch 15 0x7 [(0x0, Return LISA_VMADDWL_H_BU_B),
        (0x1, Return LISA_VMADDWL_W_HU_H),
        (0x2, Return LISA_VMADDWL_D_WU_W),
        (0x3, Return LISA_VMADDWL_Q_DU_D),
        (0x4, Return LISA_VMADDWH_H_BU_B),
        (0x5, Return LISA_VMADDWH_W_HU_H),
        (0x6, Return LISA_VMADDWH_D_WU_W),
        (0x7, Return LISA_VMADDWH_Q_DU_D)] (Return LISA_INVALID)),
    (0x31, Switch 15 0x7 [(0x0, Return LISA_VDP2_H_B),
        (0x1, Return LISA_VDP2_W_H),
        (0x2, Return LISA_VDP2_D_W),
        (0x3, Return LISA_VDP2_Q_D),
        (0x4, Return LISA_VDP2_HU_BU),
        (0x5, Return LISA_VDP2_WU_HU),
        (0x6, Return LISA_VDP2_DU_WU),
        (0x7, Return LISA_VDP2_QU_DU)] (Return LISA_INVALID)),
    (0x32, Switch 15 0x7 [(0x0, Return LISA_VDP2_H_BU_B),
        (0x1, Return LISA_VDP2_W_HU_H),
        (0x2, Return LISA_VDP2_D_WU_W),
        (0x3, Return LISA_VDP2_Q_DU_D),
        (0x4, Return LISA_VDP2ADD_H_B),
        (0x5, Return LISA_VDP2ADD_W_H),
        (0x6, Return LISA_VDP2ADD_D_W),
        (0x7, Return LISA_VDP2ADD_Q_D)] (Return LISA_INVALID)),
    (0x33, Switch 15 0x7 [(0x0, Return LISA_VDP2ADD_H_BU),
        (0x1, Return LISA_VDP2ADD_W_HU),
        (0x2, Return LISA_VDP2ADD_D_WU),
        (0x3, Return LISA_VDP2ADD_Q_DU),
        (0x4, Return LISA_VDP2ADD_H_BU_B),
        (0x5, Return LISA_VDP2ADD_W_HU_H),
        (0x6, Return LISA_VDP2ADD_D_WU_W),
        (0x7, Return LISA_VDP2ADD_Q_DU_D)] (Return LISA_INVALID))]"

definition la_cases_6427 :: "(nat \<times> dtree) list" where
  "la_cases_6427 = [
    (0x34, Switch 15 0x7 [(0x0, Return LISA_VDP2SUB_H_B),
        (0x1, Return LISA_VDP2SUB_W_H),
        (0x2, Return LISA_VDP2SUB_D_W),
        (0x3, Return LISA_VDP2SUB_Q_D),
        (0x4, Return LISA_VDP2SUB_H_BU),
        (0x5, Return LISA_VDP2SUB_W_HU),
        (0x6, Return LISA_VDP2SUB_D_WU),
        (0x7, Return LISA_VDP2SUB_Q_DU)] (Return LISA_INVALID)),
    (0x35, Switch 15 0x7 [(0x0, Return LISA_VDP4_W_B),
        (0x1, Return LISA_VDP4_D_H),
        (0x2, Return LISA_VDP4_Q_W),
        (0x4, Return LISA_VDP4_W_BU),
        (0x5, Return LISA_VDP4_D_HU),
        (0x6, Return LISA_VDP4_Q_WU)] (Return LISA_INVALID)),
    (0x36, Switch 15 0x7 [(0x0, Return LISA_VDP4_W_BU_B),
        (0x1, Return LISA_VDP4_D_HU_H),
        (0x2, Return LISA_VDP4_Q_WU_W),
        (0x4, Return LISA_VDP4ADD_W_B),
        (0x5, Return LISA_VDP4ADD_D_H),
        (0x6, Return LISA_VDP4ADD_Q_W)] (Return LISA_INVALID)),
    (0x37, Switch 15 0x7 [(0x0, Return LISA_VDP4ADD_W_BU),
        (0x1, Return LISA_VDP4ADD_D_HU),
        (0x2, Return LISA_VDP4ADD_Q_WU),
        (0x4, Return LISA_VDP4ADD_W_BU_B),
        (0x5, Return LISA_VDP4ADD_D_HU_H),
        (0x6, Return LISA_VDP4ADD_Q_WU_W)] (Return LISA_INVALID))]"

definition la_cases_6551 :: "(nat \<times> dtree) list" where
  "la_cases_6551 = [
    (0x38, Switch 15 0x7 [(0x0, Return LISA_VDIV_B),
        (0x1, Return LISA_VDIV_H),
        (0x2, Return LISA_VDIV_W),
        (0x3, Return LISA_VDIV_D),
        (0x4, Return LISA_VMOD_B),
        (0x5, Return LISA_VMOD_H),
        (0x6, Return LISA_VMOD_W),
        (0x7, Return LISA_VMOD_D)] (Return LISA_INVALID)),
    (0x39, Switch 15 0x7 [(0x0, Return LISA_VDIV_BU),
        (0x1, Return LISA_VDIV_HU),
        (0x2, Return LISA_VDIV_WU),
        (0x3, Return LISA_VDIV_DU),
        (0x4, Return LISA_VMOD_BU),
        (0x5, Return LISA_VMOD_HU),
        (0x6, Return LISA_VMOD_WU),
        (0x7, Return LISA_VMOD_DU)] (Return LISA_INVALID)),
    (0x3a, Switch 15 0x7 [(0x0, Return LISA_VSLL_B),
        (0x1, Return LISA_VSLL_H),
        (0x2, Return LISA_VSLL_W),
        (0x3, Return LISA_VSLL_D),
        (0x4, Return LISA_VSRL_B),
        (0x5, Return LISA_VSRL_H),
        (0x6, Return LISA_VSRL_W),
        (0x7, Return LISA_VSRL_D)] (Return LISA_INVALID)),
    (0x3b, Switch 15 0x7 [(0x0, Return LISA_VSRA_B),
        (0x1, Return LISA_VSRA_H),
        (0x2, Return LISA_VSRA_W),
        (0x3, Return LISA_VSRA_D),
        (0x4, Return LISA_VROTR_B),
        (0x5, Return LISA_VROTR_H),
        (0x6, Return LISA_VROTR_W),
        (0x7, Return LISA_VROTR_D)] (Return LISA_INVALID))]"

definition la_cases_6699 :: "(nat \<times> dtree) list" where
  "la_cases_6699 = [
    (0x3c, Switch 15 0x7 [(0x0, Return LISA_VSRLR_B),
        (0x1, Return LISA_VSRLR_H),
        (0x2, Return LISA_VSRLR_W),
        (0x3, Return LISA_VSRLR_D),
        (0x4, Return LISA_VSRAR_B),
        (0x5, Return LISA_VSRAR_H),
        (0x6, Return LISA_VSRAR_W),
        (0x7, Return LISA_VSRAR_D)] (Return LISA_INVALID)),
    (0x3d, Switch 15 0x7 [(0x1, Return LISA_VSRLN_B_H),
        (0x2, Return LISA_VSRLN_H_W),
        (0x3, Return LISA_VSRLN_W_D),
        (0x5, Return LISA_VSRAN_B_H),
        (0x6, Return LISA_VSRAN_H_W),
        (0x7, Return LISA_VSRAN_W_D)] (Return LISA_INVALID)),
    (0x3e, Switch 15 0x7 [(0x1, Return LISA_VSRLRN_B_H),
        (0x2, Return LISA_VSRLRN_H_W),
        (0x3, Return LISA_VSRLRN_W_D),
        (0x5, Return LISA_VSRARN_B_H),
        (0x6, Return LISA_VSRARN_H_W),
        (0x7, Return LISA_VSRARN_W_D)] (Return LISA_INVALID)),
    (0x3f, Switch 15 0x7 [(0x1, Return LISA_VSSRLN_B_H),
        (0x2, Return LISA_VSSRLN_H_W),
        (0x3, Return LISA_VSSRLN_W_D),
        (0x5, Return LISA_VSSRAN_B_H),
        (0x6, Return LISA_VSSRAN_H_W),
        (0x7, Return LISA_VSSRAN_W_D)] (Return LISA_INVALID))]"

definition la_cases_6823 :: "(nat \<times> dtree) list" where
  "la_cases_6823 = [
    (0x40, Switch 15 0x7 [(0x1, Return LISA_VSSRLRN_B_H),
        (0x2, Return LISA_VSSRLRN_H_W),
        (0x3, Return LISA_VSSRLRN_W_D),
        (0x5, Return LISA_VSSRARN_B_H),
        (0x6, Return LISA_VSSRARN_H_W),
        (0x7, Return LISA_VSSRARN_W_D)] (Return LISA_INVALID)),
    (0x41, Switch 15 0x7 [(0x1, Return LISA_VSSRLN_BU_H),
        (0x2, Return LISA_VSSRLN_HU_W),
        (0x3, Return LISA_VSSRLN_WU_D),
        (0x5, Return LISA_VSSRAN_BU_H),
        (0x6, Return LISA_VSSRAN_HU_W),
        (0x7, Return LISA_VSSRAN_WU_D)] (Return LISA_INVALID)),
    (0x42, Switch 15 0x7 [(0x1, Return LISA_VSSRLRN_BU_H),
        (0x2, Return LISA_VSSRLRN_HU_W),
        (0x3, Return LISA_VSSRLRN_WU_D),
        (0x5, Return LISA_VSSRARN_BU_H),
        (0x6, Return LISA_VSSRARN_HU_W),
        (0x7, Return LISA_VSSRARN_WU_D)] (Return LISA_INVALID)),
    (0x43, Switch 15 0x7 [(0x0, Return LISA_VBITCLR_B),
        (0x1, Return LISA_VBITCLR_H),
        (0x2, Return LISA_VBITCLR_W),
        (0x3, Return LISA_VBITCLR_D),
        (0x4, Return LISA_VBITSET_B),
        (0x5, Return LISA_VBITSET_H),
        (0x6, Return LISA_VBITSET_W),
        (0x7, Return LISA_VBITSET_D)] (Return LISA_INVALID))]"

definition la_cases_6947 :: "(nat \<times> dtree) list" where
  "la_cases_6947 = [
    (0x44, Switch 15 0x7 [(0x0, Return LISA_VBITREV_B),
        (0x1, Return LISA_VBITREV_H),
        (0x2, Return LISA_VBITREV_W),
        (0x3, Return LISA_VBITREV_D),
        (0x4, Return LISA_VBSTRC12_B),
        (0x5, Return LISA_VBSTRC12_H),
        (0x6, Return LISA_VBSTRC12_W),
        (0x7, Return LISA_VBSTRC12_D)] (Return LISA_INVALID)),
    (0x45, Switch 15 0x7 [(0x0, Return LISA_VBSTRC21_B),
        (0x1, Return LISA_VBSTRC21_H),
        (0x2, Return LISA_VBSTRC21_W),
        (0x3, Return LISA_VBSTRC21_D),
        (0x4, Return LISA_VPACKEV_B),
        (0x5, Return LISA_VPACKEV_H),
        (0x6, Return LISA_VPACKEV_W),
        (0x7, Return LISA_VPACKEV_D)] (Return LISA_INVALID)),
    (0x46, Switch 15 0x7 [(0x0, Return LISA_VPACKOD_B),
        (0x1, Return LISA_VPACKOD_H),
        (0x2, Return LISA_VPACKOD_W),
        (0x3, Return LISA_VPACKOD_D),
        (0x4, Return LISA_VILVL_B),
        (0x5, Return LISA_VILVL_H),
        (0x6, Return LISA_VILVL_W),
        (0x7, Return LISA_VILVL_D)] (Return LISA_INVALID)),
    (0x47, Switch 15 0x7 [(0x0, Return LISA_VILVH_B),
        (0x1, Return LISA_VILVH_H),
        (0x2, Return LISA_VILVH_W),
        (0x3, Return LISA_VILVH_D),
        (0x4, Return LISA_VPICKEV_B),
        (0x5, Return LISA_VPICKEV_H),
        (0x6, Return LISA_VPICKEV_W),
        (0x7, Return LISA_VPICKEV_D)] (Return LISA_INVALID))]"

definition la_cases_7095 :: "(nat \<times> dtree) list" where
  "la_cases_7095 = [
    (0x48, Switch 15 0x7 [(0x0, Return LISA_VPICKOD_B),
        (0x1, Return LISA_VPICKOD_H),
        (0x2, Return LISA_VPICKOD_W),
        (0x3, Return LISA_VPICKOD_D),
        (0x4, Return LISA_VREPLVE_B),
        (0x5, Return LISA_VREPLVE_H),
        (0x6, Return LISA_VREPLVE_W),
        (0x7, Return LISA_VREPLVE_D)] (Return LISA_INVALID)),
    (0x49, Switch 15 0x7 [(0x0, Return LISA_VEXTRCOL_B),
        (0x1, Return LISA_VEXTRCOL_H),
        (0x2, Return LISA_VEXTRCOL_W),
        (0x3, Return LISA_VEXTRCOL_D),
        (0x4, Return LISA_VAND_V),
        (0x5, Return LISA_VOR_V),
        (0x6, Return LISA_VXOR_V),
        (0x7, Return LISA_VNOR_V)] (Return LISA_INVALID)),
    (0x4a, Switch 15 0x7 [(0x0, Return LISA_VANDN_V),
        (0x1, Return LISA_VORN_V),
        (0x2, Return LISA_VRANDSIGN_B),
        (0x3, Return LISA_VRANDSIGN_H),
        (0x4, Return LISA_VRORSIGN_B),
        (0x5, Return LISA_VRORSIGN_H),
        (0x6, Return LISA_VFRSTP_B),
        (0x7, Return LISA_VFRSTP_H)] (Return LISA_INVALID)),
    (0x4b, Switch 15 0x7 [(0x0, Return LISA_VCLRSTRR_V),
        (0x1, Return LISA_VCLRSTRV_V),
        (0x2, Return LISA_VADD_Q),
        (0x3, Return LISA_VSUB_Q),
        (0x4, Return LISA_VSIGNCOV_B),
        (0x5, Return LISA_VSIGNCOV_H),
        (0x6, Return LISA_VSIGNCOV_W),
        (0x7, Return LISA_VSIGNCOV_D)] (Return LISA_INVALID))]"

definition la_cases_7243 :: "(nat \<times> dtree) list" where
  "la_cases_7243 = [
    (0x4c, Switch 15 0x7 [(0x0, Return LISA_INVALID),
        (0x1, Return LISA_VFADD_S),
        (0x2, Return LISA_VFADD_D),
        (0x3, Return LISA_INVALID),
        (0x4, Return LISA_INVALID),
        (0x5, Return LISA_VFSUB_S),
        (0x6, Return LISA_VFSUB_D),
        (0x7, Return LISA_INVALID)] (Return LISA_INVALID)),
    (0x4d, Switch 15 0x7 [(0x0, Return LISA_INVALID),
        (0x1, Return LISA_VFADDSUB_S),
        (0x2, Return LISA_VFADDSUB_D),
        (0x3, Return LISA_INVALID),
        (0x4, Return LISA_INVALID),
        (0x5, Return LISA_VFSUBADD_S),
        (0x6, Return LISA_VFSUBADD_D),
        (0x7, Return LISA_INVALID)] (Return LISA_INVALID)),
    (0x4e, Switch 15 0x7 [(0x0, Return LISA_INVALID),
        (0x1, Return LISA_VFMUL_S),
        (0x2, Return LISA_VFMUL_D),
        (0x3, Return LISA_INVALID),
        (0x4, Return LISA_INVALID),
        (0x5, Return LISA_VFDIV_S),
        (0x6, Return LISA_VFDIV_D),
        (0x7, Return LISA_INVALID)] (Return LISA_INVALID)),
    (0x4f, Switch 15 0x7 [(0x0, Return LISA_INVALID),
        (0x1, Return LISA_VFMAX_S),
        (0x2, Return LISA_VFMAX_D),
        (0x3, Return LISA_INVALID),
        (0x4, Return LISA_INVALID),
        (0x5, Return LISA_VFMIN_S),
        (0x6, Return LISA_VFMIN_D),
        (0x7, Return LISA_INVALID)] (Return LISA_INVALID))]"

definition la_cases_7391 :: "(nat \<times> dtree) list" where
  "la_cases_7391 = [
    (0x50, Switch 15 0x7 [(0x0, Return LISA_INVALID),
        (0x1, Return LISA_VFMAXA_S),
        (0x2, Return LISA_VFMAXA_D),
        (0x3, Return LISA_INVALID),
        (0x4, Return LISA_INVALID),
        (0x5, Return LISA_VFMINA_S),
        (0x6, Return LISA_VFMINA_D),
        (0x7, Return LISA_INVALID)] (Return LISA_INVALID)),
    (0x51, Switch 15 0x7 [(0x0, Return LISA_INVALID),
        (0x1, Return LISA_VFSCALEB_S),
        (0x2, Return LISA_VFSCALEB_D),
        (0x3, Return LISA_INVALID),
        (0x4, Return LISA_VFCVT_H_S),
        (0x5, Return LISA_VFCVT_S_D),
        (0x6, Return LISA_INVALID),
        (0x7, Return LISA_INVALID)] (Return LISA_INVALID)),
    (0x52, Switch 15 0x7 [(0x0, Return LISA_VFFINT_S_L),
        (0x1, Return LISA_INVALID),
        (0x2, Return LISA_INVALID),
        (0x3, Return LISA_VFTINT_W_D),
        (0x4, Return LISA_VFTINTRM_W_D),
        (0x5, Return LISA_VFTINTRP_W_D),
        (0x6, Return LISA_VFTINTRZ_W_D),
        (0x7, Return LISA_VFTINTRNE_W_D)] (Return LISA_INVALID)),
    (0x53, Switch 15 0x7 [(0x0, Return LISA_INVALID),
        (0x1, Return LISA_INVALID),
        (0x2, Return LISA_INVALID),
        (0x3, Return LISA_INVALID),
        (0x4, Return LISA_INVALID),
        (0x5, Return LISA_VHADD4_H_BU),
        (0x6, Return LISA_VSHUF4_W),
        (0x7, Return LISA_VSHUF2_D)] (Return LISA_INVALID))]"

definition la_cases_7539 :: "(nat \<times> dtree) list" where
  "la_cases_7539 = [
    (0x54, Switch 15 0x7 [(0x0, Return LISA_AES128_ENC),
        (0x1, Return LISA_AES128_DEC),
        (0x2, Return LISA_AES192_ENC),
        (0x3, Return LISA_AES192_DEC),
        (0x4, Return LISA_AES256_ENC),
        (0x5, Return LISA_AES256_DEC),
        (0x6, Return LISA_AES_KG),
        (0x7, Return LISA_AES_FR_ENC)] (Return LISA_INVALID)),
    (0x55, Switch 15 0x7 [(0x0, Return LISA_AES_FR_DEC),
        (0x1, Return LISA_AES_LR_ENC),
        (0x2, Return LISA_AES_LR_DEC),
        (0x3, Switch 10 0x1f [(0x0, Return LISA_AES_MC_ENC)] (Return LISA_INVALID)),
        (0x4, Switch 10 0x1f [(0x0, Return LISA_AES_MC_DEC)] (Return LISA_INVALID)),
        (0x5, Switch 10 0x1f [(0x0, Return LISA_AES_SB_ENC)] (Return LISA_INVALID)),
        (0x6, Switch 10 0x1f [(0x0, Return LISA_AES_SB_DEC)] (Return LISA_INVALID)),
        (0x7, Switch 10 0x1f [(0x0, Return LISA_AES_SR_ENC)] (Return LISA_INVALID))] (Return LISA_INVALID)),
    (0x56, Switch 15 0x7 [(0x0, Switch 10 0x1f [(0x0, Return LISA_AES_SR_DEC)] (Return LISA_INVALID)),
        (0x1, Return LISA_MD5_MS),
        (0x2, Return LISA_MD5_4R),
        (0x3, Return LISA_SHA1_MS_1),
        (0x4, Return LISA_SHA1_MS_2),
        (0x5, Return LISA_SHA1_HASH_4R),
        (0x6, Return LISA_SHA256_MS_1),
        (0x7, Return LISA_SHA256_MS_2)] (Return LISA_INVALID))]"

definition la_cases_7680 :: "(nat \<times> dtree) list" where
  "la_cases_7680 = [
    (0x57, Switch 15 0x7 [(0x0, Return LISA_SHA256_HASH_2R),
        (0x1, Return LISA_SHA512_MS_1),
        (0x2, Return LISA_SHA512_MS_2),
        (0x3, Return LISA_SHA512_HASH_R_1),
        (0x4, Return LISA_SHA512_HASH_R_2)] (Return LISA_INVALID)),
    (0x58, Switch 15 0x7 [(0x0, Return LISA_VPMUL_W),
        (0x1, Return LISA_VPMUL_D),
        (0x2, Return LISA_VPMUH_W),
        (0x3, Return LISA_VPMUH_D),
        (0x4, Return LISA_VPMULACC_W),
        (0x5, Return LISA_VPMULACC_D),
        (0x6, Return LISA_VPMUHACC_W),
        (0x7, Return LISA_VPMUHACC_D)] (Return LISA_INVALID)),
    (0x59, Switch 15 0x7 [(0x0, Return LISA_VPMULWL_H_B),
        (0x1, Return LISA_VPMULWL_W_H),
        (0x2, Return LISA_VPMULWL_D_W),
        (0x3, Return LISA_VPMULWL_Q_D),
        (0x4, Return LISA_VPMULWH_H_B),
        (0x5, Return LISA_VPMULWH_W_H),
        (0x6, Return LISA_VPMULWH_D_W),
        (0x7, Return LISA_VPMULWH_Q_D)] (Return LISA_INVALID)),
    (0x5a, Switch 15 0x7 [(0x0, Return LISA_VPMADDWL_H_B),
        (0x1, Return LISA_VPMADDWL_W_H),
        (0x2, Return LISA_VPMADDWL_D_W),
        (0x3, Return LISA_VPMADDWL_Q_D),
        (0x4, Return LISA_VPMADDWH_H_B),
        (0x5, Return LISA_VPMADDWH_W_H),
        (0x6, Return LISA_VPMADDWH_D_W),
        (0x7, Return LISA_VPMADDWH_Q_D)] (Return LISA_INVALID))]"

definition la_cases_7816 :: "(nat \<times> dtree) list" where
  "la_cases_7816 = [
    (0x5b, Switch 15 0x7 [(0x0, Return LISA_VPDP2_Q_D),
        (0x1, Return LISA_VPDP2ADD_Q_D)] (Return LISA_INVALID)),
    (0x5c, Switch 15 0x7 [(0x0, Return LISA_VCDP4_RE_D_H),
        (0x1, Return LISA_VCDP4_IM_D_H),
        (0x2, Return LISA_VCDP4ADD_RE_D_H),
        (0x3, Return LISA_VCDP4ADD_IM_D_H),
        (0x4, Return LISA_VCDP2_RE_Q_W),
        (0x5, Return LISA_VCDP2_IM_Q_W),
        (0x6, Return LISA_VCDP2ADD_RE_Q_W),
        (0x7, Return LISA_VCDP2ADD_IM_Q_W)] (Return LISA_INVALID)),
    (0x5e, Switch 15 0x7 [(0x2, Return LISA_VSIGNSEL_W),
        (0x3, Return LISA_VSIGNSEL_D),
        (0x5, Return LISA_VSHUF_H),
        (0x6, Return LISA_VSHUF_W),
        (0x7, Return LISA_VSHUF_D)] (Return LISA_INVALID)),
    (0xa0, Switch 15 0x7 [(0x0, Return LISA_VSEQI_B),
        (0x1, Return LISA_VSEQI_H),
        (0x2, Return LISA_VSEQI_W),
        (0x3, Return LISA_VSEQI_D),
        (0x4, Return LISA_VSLEI_B),
        (0x5, Return LISA_VSLEI_H),
        (0x6, Return LISA_VSLEI_W),
        (0x7, Return LISA_VSLEI_D)] (Return LISA_INVALID))]"

definition la_cases_7928 :: "(nat \<times> dtree) list" where
  "la_cases_7928 = [
    (0xa1, Switch 15 0x7 [(0x0, Return LISA_VSLEI_BU),
        (0x1, Return LISA_VSLEI_HU),
        (0x2, Return LISA_VSLEI_WU),
        (0x3, Return LISA_VSLEI_DU),
        (0x4, Return LISA_VSLTI_B),
        (0x5, Return LISA_VSLTI_H),
        (0x6, Return LISA_VSLTI_W),
        (0x7, Return LISA_VSLTI_D)] (Return LISA_INVALID)),
    (0xa2, Switch 15 0x7 [(0x0, Return LISA_VSLTI_BU),
        (0x1, Return LISA_VSLTI_HU),
        (0x2, Return LISA_VSLTI_WU),
        (0x3, Return LISA_VSLTI_DU),
        (0x4, Return LISA_VADDI_BU),
        (0x5, Return LISA_VADDI_HU),
        (0x6, Return LISA_VADDI_WU),
        (0x7, Return LISA_VADDI_DU)] (Return LISA_INVALID)),
    (0xa3, Switch 15 0x7 [(0x0, Return LISA_VSUBI_BU),
        (0x1, Return LISA_VSUBI_HU),
        (0x2, Return LISA_VSUBI_WU),
        (0x3, Return LISA_VSUBI_DU),
        (0x4, Return LISA_VBSLL_V),
        (0x5, Return LISA_VBSRL_V)] (Return LISA_INVALID)),
    (0xa4, Switch 15 0x7 [(0x0, Return LISA_VMAXI_B),
        (0x1, Return LISA_VMAXI_H),
        (0x2, Return LISA_VMAXI_W),
        (0x3, Return LISA_VMAXI_D),
        (0x4, Return LISA_VMINI_B),
        (0x5, Return LISA_VMINI_H),
        (0x6, Return LISA_VMINI_W),
        (0x7, Return LISA_VMINI_D)] (Return LISA_INVALID))]"

definition la_cases_8068 :: "(nat \<times> dtree) list" where
  "la_cases_8068 = [
    (0xa5, Switch 15 0x7 [(0x0, Return LISA_VMAXI_BU),
        (0x1, Return LISA_VMAXI_HU),
        (0x2, Return LISA_VMAXI_WU),
        (0x3, Return LISA_VMAXI_DU),
        (0x4, Return LISA_VMINI_BU),
        (0x5, Return LISA_VMINI_HU),
        (0x6, Return LISA_VMINI_WU),
        (0x7, Return LISA_VMINI_DU)] (Return LISA_INVALID)),
    (0xa6, Switch 15 0x7 [(0x0, Return LISA_VRANDSIGNI_B),
        (0x1, Return LISA_VRANDSIGNI_H),
        (0x2, Return LISA_VRORSIGNI_B),
        (0x3, Return LISA_VRORSIGNI_H),
        (0x4, Return LISA_VFRSTPI_B),
        (0x5, Return LISA_VFRSTPI_H),
        (0x6, Return LISA_VCLRSTRI_V),
        (0x7, Return LISA_VMEPATMSK_V)] (Return LISA_INVALID)),
    (0xa7, la_tree_8144),
    (0xa8, Switch 16 0x3 [(0x0, Switch 15 0x1 [(0x0, Switch 14 0x1 [(0x0, Switch 13 0x1 [(0x1, Return LISA_VROTRI_B)] (Return LISA_INVALID)),
            (0x1, Return LISA_VROTRI_H)] (Return LISA_INVALID)),
          (0x1, Return LISA_VROTRI_W)] (Return LISA_INVALID)),
        (0x1, Return LISA_VROTRI_D)] (Return LISA_INVALID)),
    (0xa9, Switch 16 0x3 [(0x0, Switch 15 0x1 [(0x0, Switch 14 0x1 [(0x0, Switch 13 0x1 [(0x1, Return LISA_VSRLRI_B)] (Return LISA_INVALID)),
            (0x1, Return LISA_VSRLRI_H)] (Return LISA_INVALID)),
          (0x1, Return LISA_VSRLRI_W)] (Return LISA_INVALID)),
        (0x1, Return LISA_VSRLRI_D)] (Return LISA_INVALID))]"

definition la_cases_9005 :: "(nat \<times> dtree) list" where
  "la_cases_9005 = [
    (0xaa, Switch 16 0x3 [(0x0, Switch 15 0x1 [(0x0, Switch 14 0x1 [(0x0, Switch 13 0x1 [(0x1, Return LISA_VSRARI_B)] (Return LISA_INVALID)),
            (0x1, Return LISA_VSRARI_H)] (Return LISA_INVALID)),
          (0x1, Return LISA_VSRARI_W)] (Return LISA_INVALID)),
        (0x1, Return LISA_VSRARI_D)] (Return LISA_INVALID)),
    (0xba, Switch 14 0xf [(0xe, Return LISA_VINSGR2VR_B),
        (0xf, Switch 13 0x1 [(0x0, Return LISA_VINSGR2VR_H),
          (0x1, Switch 12 0x1 [(0x0, Return LISA_VINSGR2VR_W),
            (0x1, Switch 11 0x1 [(0x0, Return LISA_VINSGR2VR_D)] (Return LISA_INVALID))] (Return LISA_INVALID))] (Return LISA_INVALID))] (Return LISA_INVALID)),
    (0xbb, Switch 14 0xf [(0xe, Return LISA_VPICKVE2GR_B),
        (0xf, Switch 13 0x1 [(0x0, Return LISA_VPICKVE2GR_H),
          (0x1, Switch 12 0x1 [(0x0, Return LISA_VPICKVE2GR_W),
            (0x1, Switch 11 0x1 [(0x0, Return LISA_VPICKVE2GR_D)] (Return LISA_INVALID))] (Return LISA_INVALID))] (Return LISA_INVALID))] (Return LISA_INVALID)),
    (0xbc, Switch 14 0xf [(0xe, Return LISA_VPICKVE2GR_BU),
        (0xf, Switch 13 0x1 [(0x0, Return LISA_VPICKVE2GR_HU),
          (0x1, Switch 12 0x1 [(0x0, Return LISA_VPICKVE2GR_WU),
            (0x1, Switch 11 0x1 [(0x0, Return LISA_VPICKVE2GR_DU)] (Return LISA_INVALID))] (Return LISA_INVALID))] (Return LISA_INVALID))] (Return LISA_INVALID))]"

definition la_cases_9149 :: "(nat \<times> dtree) list" where
  "la_cases_9149 = [
    (0xbd, Switch 14 0xf [(0xe, Return LISA_VREPLVEI_B),
        (0xf, Switch 13 0x1 [(0x0, Return LISA_VREPLVEI_H),
          (0x1, Switch 12 0x1 [(0x0, Return LISA_VREPLVEI_W),
            (0x1, Switch 11 0x1 [(0x0, Return LISA_VREPLVEI_D)] (Return LISA_INVALID))] (Return LISA_INVALID))] (Return LISA_INVALID))] (Return LISA_INVALID)),
    (0xbe, Switch 14 0xf [(0xe, Return LISA_VEXTRCOLI_B),
        (0xf, Switch 13 0x1 [(0x0, Return LISA_VEXTRCOLI_H),
          (0x1, Switch 12 0x1 [(0x0, Return LISA_VEXTRCOLI_W),
            (0x1, Switch 11 0x1 [(0x0, Return LISA_VEXTRCOLI_D)] (Return LISA_INVALID))] (Return LISA_INVALID))] (Return LISA_INVALID))] (Return LISA_INVALID)),
    (0xc2, Switch 16 0x3 [(0x0, Switch 15 0x1 [(0x0, Switch 14 0x1 [(0x0, Switch 13 0x1 [(0x1, Return LISA_VSLLWIL_H_B)] (Return LISA_INVALID)),
            (0x1, Return LISA_VSLLWIL_W_H)] (Return LISA_INVALID)),
          (0x1, Return LISA_VSLLWIL_D_W)] (Return LISA_INVALID)),
        (0x1, If 0xfc00 0x0 (Return LISA_VEXTL_Q_D) (Return LISA_INVALID))] (Return LISA_INVALID))]"

definition la_cases_9262 :: "(nat \<times> dtree) list" where
  "la_cases_9262 = [
    (0xc3, Switch 16 0x3 [(0x0, Switch 15 0x1 [(0x0, Switch 14 0x1 [(0x0, Switch 13 0x1 [(0x1, Return LISA_VSLLWIL_HU_BU)] (Return LISA_INVALID)),
            (0x1, Return LISA_VSLLWIL_WU_HU)] (Return LISA_INVALID)),
          (0x1, Return LISA_VSLLWIL_DU_WU)] (Return LISA_INVALID)),
        (0x1, If 0xfc00 0x0 (Return LISA_VEXTL_QU_DU) (Return LISA_INVALID))] (Return LISA_INVALID)),
    (0xc4, Switch 16 0x3 [(0x0, Switch 15 0x1 [(0x0, Switch 14 0x1 [(0x0, Switch 13 0x1 [(0x1, Return LISA_VBITCLRI_B)] (Return LISA_INVALID)),
            (0x1, Return LISA_VBITCLRI_H)] (Return LISA_INVALID)),
          (0x1, Return LISA_VBITCLRI_W)] (Return LISA_INVALID)),
        (0x1, Return LISA_VBITCLRI_D)] (Return LISA_INVALID)),
    (0xc5, Switch 16 0x3 [(0x0, Switch 15 0x1 [(0x0, Switch 14 0x1 [(0x0, Switch 13 0x1 [(0x1, Return LISA_VBITSETI_B)] (Return LISA_INVALID)),
            (0x1, Return LISA_VBITSETI_H)] (Return LISA_INVALID)),
          (0x1, Return LISA_VBITSETI_W)] (Return LISA_INVALID)),
        (0x1, Return LISA_VBITSETI_D)] (Return LISA_INVALID))]"

definition la_cases_9375 :: "(nat \<times> dtree) list" where
  "la_cases_9375 = [
    (0xc6, Switch 16 0x3 [(0x0, Switch 15 0x1 [(0x0, Switch 14 0x1 [(0x0, Switch 13 0x1 [(0x1, Return LISA_VBITREVI_B)] (Return LISA_INVALID)),
            (0x1, Return LISA_VBITREVI_H)] (Return LISA_INVALID)),
          (0x1, Return LISA_VBITREVI_W)] (Return LISA_INVALID)),
        (0x1, Return LISA_VBITREVI_D)] (Return LISA_INVALID)),
    (0xc7, Switch 16 0x3 [(0x0, Switch 15 0x1 [(0x0, Switch 14 0x1 [(0x0, Switch 13 0x1 [(0x1, Return LISA_VBSTRC12I_B)] (Return LISA_INVALID)),
            (0x1, Return LISA_VBSTRC12I_H)] (Return LISA_INVALID)),
          (0x1, Return LISA_VBSTRC12I_W)] (Return LISA_INVALID)),
        (0x1, Return LISA_VBSTRC12I_D)] (Return LISA_INVALID)),
    (0xc8, Switch 16 0x3 [(0x0, Switch 15 0x1 [(0x0, Switch 14 0x1 [(0x0, Switch 13 0x1 [(0x1, Return LISA_VBSTRC21I_B)] (Return LISA_INVALID)),
            (0x1, Return LISA_VBSTRC21I_H)] (Return LISA_INVALID)),
          (0x1, Return LISA_VBSTRC21I_W)] (Return LISA_INVALID)),
        (0x1, Return LISA_VBSTRC21I_D)] (Return LISA_INVALID)),
    (0xc9, Switch 16 0x3 [(0x0, Switch 15 0x1 [(0x0, Switch 14 0x1 [(0x0, Switch 13 0x1 [(0x1, Return LISA_VSAT_B)] (Return LISA_INVALID)),
            (0x1, Return LISA_VSAT_H)] (Return LISA_INVALID)),
          (0x1, Return LISA_VSAT_W)] (Return LISA_INVALID)),
        (0x1, Return LISA_VSAT_D)] (Return LISA_INVALID))]"

definition la_cases_9519 :: "(nat \<times> dtree) list" where
  "la_cases_9519 = [
    (0xca, Switch 16 0x3 [(0x0, Switch 15 0x1 [(0x0, Switch 14 0x1 [(0x0, Switch 13 0x1 [(0x1, Return LISA_VSAT_BU)] (Return LISA_INVALID)),
            (0x1, Return LISA_VSAT_HU)] (Return LISA_INVALID)),
          (0x1, Return LISA_VSAT_WU)] (Return LISA_INVALID)),
        (0x1, Return LISA_VSAT_DU)] (Return LISA_INVALID)),
    (0xcb, Switch 16 0x3 [(0x0, Switch 15 0x1 [(0x0, Switch 14 0x1 [(0x0, Switch 13 0x1 [(0x1, Return LISA_VSLLI_B)] (Return LISA_INVALID)),
            (0x1, Return LISA_VSLLI_H)] (Return LISA_INVALID)),
          (0x1, Return LISA_VSLLI_W)] (Return LISA_INVALID)),
        (0x1, Return LISA_VSLLI_D)] (Return LISA_INVALID)),
    (0xcc, Switch 16 0x3 [(0x0, Switch 15 0x1 [(0x0, Switch 14 0x1 [(0x0, Switch 13 0x1 [(0x1, Return LISA_VSRLI_B)] (Return LISA_INVALID)),
            (0x1, Return LISA_VSRLI_H)] (Return LISA_INVALID)),
          (0x1, Return LISA_VSRLI_W)] (Return LISA_INVALID)),
        (0x1, Return LISA_VSRLI_D)] (Return LISA_INVALID)),
    (0xcd, Switch 16 0x3 [(0x0, Switch 15 0x1 [(0x0, Switch 14 0x1 [(0x0, Switch 13 0x1 [(0x1, Return LISA_VSRAI_B)] (Return LISA_INVALID)),
            (0x1, Return LISA_VSRAI_H)] (Return LISA_INVALID)),
          (0x1, Return LISA_VSRAI_W)] (Return LISA_INVALID)),
        (0x1, Return LISA_VSRAI_D)] (Return LISA_INVALID))]"

definition la_cases_9663 :: "(nat \<times> dtree) list" where
  "la_cases_9663 = [
    (0xce, Switch 17 0x1 [(0x0, Switch 16 0x1 [(0x0, Switch 15 0x1 [(0x0, Switch 14 0x1 [(0x1, Return LISA_VSRLRNENI_B_H)] (Return LISA_INVALID)),
            (0x1, Return LISA_VSRLRNENI_H_W)] (Return LISA_INVALID)),
          (0x1, Return LISA_VSRLRNENI_W_D)] (Return LISA_INVALID)),
        (0x1, Return LISA_VSRLRNENI_D_Q)] (Return LISA_INVALID)),
    (0xcf, Switch 17 0x1 [(0x0, Switch 16 0x1 [(0x0, Switch 15 0x1 [(0x0, Switch 14 0x1 [(0x1, Return LISA_VSRARNENI_B_H)] (Return LISA_INVALID)),
            (0x1, Return LISA_VSRARNENI_H_W)] (Return LISA_INVALID)),
          (0x1, Return LISA_VSRARNENI_W_D)] (Return LISA_INVALID)),
        (0x1, Return LISA_VSRARNENI_D_Q)] (Return LISA_INVALID)),
    (0xd0, Switch 17 0x1 [(0x0, Switch 16 0x1 [(0x0, Switch 15 0x1 [(0x0, Switch 14 0x1 [(0x1, Return LISA_VSRLNI_B_H)] (Return LISA_INVALID)),
            (0x1, Return LISA_VSRLNI_H_W)] (Return LISA_INVALID)),
          (0x1, Return LISA_VSRLNI_W_D)] (Return LISA_INVALID)),
        (0x1, Return LISA_VSRLNI_D_Q)] (Return LISA_INVALID)),
    (0xd1, Switch 17 0x1 [(0x0, Switch 16 0x1 [(0x0, Switch 15 0x1 [(0x0, Switch 14 0x1 [(0x1, Return LISA_VSRLRNI_B_H)] (Return LISA_INVALID)),
            (0x1, Return LISA_VSRLRNI_H_W)] (Return LISA_INVALID)),
          (0x1, Return LISA_VSRLRNI_W_D)] (Return LISA_INVALID)),
        (0x1, Return LISA_VSRLRNI_D_Q)] (Return LISA_INVALID))]"

definition la_cases_9807 :: "(nat \<times> dtree) list" where
  "la_cases_9807 = [
    (0xd2, Switch 17 0x1 [(0x0, Switch 16 0x1 [(0x0, Switch 15 0x1 [(0x0, Switch 14 0x1 [(0x1, Return LISA_VSSRLNI_B_H)] (Return LISA_INVALID)),
            (0x1, Return LISA_VSSRLNI_H_W)] (Return LISA_INVALID)),
          (0x1, Return LISA_VSSRLNI_W_D)] (Return LISA_INVALID)),
        (0x1, Return LISA_VSSRLNI_D_Q)] (Return LISA_INVALID)),
    (0xd3, Switch 17 0x1 [(0x0, Switch 16 0x1 [(0x0, Switch 15 0x1 [(0x0, Switch 14 0x1 [(0x1, Return LISA_VSSRLNI_BU_H)] (Return LISA_INVALID)),
            (0x1, Return LISA_VSSRLNI_HU_W)] (Return LISA_INVALID)),
          (0x1, Return LISA_VSSRLNI_WU_D)] (Return LISA_INVALID)),
        (0x1, Return LISA_VSSRLNI_DU_Q)] (Return LISA_INVALID)),
    (0xd4, Switch 17 0x1 [(0x0, Switch 16 0x1 [(0x0, Switch 15 0x1 [(0x0, Switch 14 0x1 [(0x1, Return LISA_VSSRLRNI_B_H)] (Return LISA_INVALID)),
            (0x1, Return LISA_VSSRLRNI_H_W)] (Return LISA_INVALID)),
          (0x1, Return LISA_VSSRLRNI_W_D)] (Return LISA_INVALID)),
        (0x1, Return LISA_VSSRLRNI_D_Q)] (Return LISA_INVALID)),
    (0xd5, Switch 17 0x1 [(0x0, Switch 16 0x1 [(0x0, Switch 15 0x1 [(0x0, Switch 14 0x1 [(0x1, Return LISA_VSSRLRNI_BU_H)] (Return LISA_INVALID)),
            (0x1, Return LISA_VSSRLRNI_HU_W)] (Return LISA_INVALID)),
          (0x1, Return LISA_VSSRLRNI_WU_D)] (Return LISA_INVALID)),
        (0x1, Return LISA_VSSRLRNI_DU_Q)] (Return LISA_INVALID))]"

definition la_cases_9951 :: "(nat \<times> dtree) list" where
  "la_cases_9951 = [
    (0xd6, Switch 17 0x1 [(0x0, Switch 16 0x1 [(0x0, Switch 15 0x1 [(0x0, Switch 14 0x1 [(0x1, Return LISA_VSRANI_B_H)] (Return LISA_INVALID)),
            (0x1, Return LISA_VSRANI_H_W)] (Return LISA_INVALID)),
          (0x1, Return LISA_VSRANI_W_D)] (Return LISA_INVALID)),
        (0x1, Return LISA_VSRANI_D_Q)] (Return LISA_INVALID)),
    (0xd7, Switch 17 0x1 [(0x0, Switch 16 0x1 [(0x0, Switch 15 0x1 [(0x0, Switch 14 0x1 [(0x1, Return LISA_VSRARNI_B_H)] (Return LISA_INVALID)),
            (0x1, Return LISA_VSRARNI_H_W)] (Return LISA_INVALID)),
          (0x1, Return LISA_VSRARNI_W_D)] (Return LISA_INVALID)),
        (0x1, Return LISA_VSRARNI_D_Q)] (Return LISA_INVALID)),
    (0xd8, Switch 17 0x1 [(0x0, Switch 16 0x1 [(0x0, Switch 15 0x1 [(0x0, Switch 14 0x1 [(0x1, Return LISA_VSSRANI_B_H)] (Return LISA_INVALID)),
            (0x1, Return LISA_VSSRANI_H_W)] (Return LISA_INVALID)),
          (0x1, Return LISA_VSSRANI_W_D)] (Return LISA_INVALID)),
        (0x1, Return LISA_VSSRANI_D_Q)] (Return LISA_INVALID)),
    (0xd9, Switch 17 0x1 [(0x0, Switch 16 0x1 [(0x0, Switch 15 0x1 [(0x0, Switch 14 0x1 [(0x1, Return LISA_VSSRANI_BU_H)] (Return LISA_INVALID)),
            (0x1, Return LISA_VSSRANI_HU_W)] (Return LISA_INVALID)),
          (0x1, Return LISA_VSSRANI_WU_D)] (Return LISA_INVALID)),
        (0x1, Return LISA_VSSRANI_DU_Q)] (Return LISA_INVALID))]"

definition la_cases_10095 :: "(nat \<times> dtree) list" where
  "la_cases_10095 = [
    (0xda, Switch 17 0x1 [(0x0, Switch 16 0x1 [(0x0, Switch 15 0x1 [(0x0, Switch 14 0x1 [(0x1, Return LISA_VSSRARNI_B_H)] (Return LISA_INVALID)),
            (0x1, Return LISA_VSSRARNI_H_W)] (Return LISA_INVALID)),
          (0x1, Return LISA_VSSRARNI_W_D)] (Return LISA_INVALID)),
        (0x1, Return LISA_VSSRARNI_D_Q)] (Return LISA_INVALID)),
    (0xdb, Switch 17 0x1 [(0x0, Switch 16 0x1 [(0x0, Switch 15 0x1 [(0x0, Switch 14 0x1 [(0x1, Return LISA_VSSRARNI_BU_H)] (Return LISA_INVALID)),
            (0x1, Return LISA_VSSRARNI_HU_W)] (Return LISA_INVALID)),
          (0x1, Return LISA_VSSRARNI_WU_D)] (Return LISA_INVALID)),
        (0x1, Return LISA_VSSRARNI_DU_Q)] (Return LISA_INVALID)),
    (0xdc, Switch 17 0x1 [(0x0, Switch 16 0x1 [(0x0, Switch 15 0x1 [(0x0, Switch 14 0x1 [(0x1, Return LISA_VSSRLRNENI_B_H)] (Return LISA_INVALID)),
            (0x1, Return LISA_VSSRLRNENI_H_W)] (Return LISA_INVALID)),
          (0x1, Return LISA_VSSRLRNENI_W_D)] (Return LISA_INVALID)),
        (0x1, Return LISA_VSSRLRNENI_D_Q)] (Return LISA_INVALID)),
    (0xdd, Switch 17 0x1 [(0x0, Switch 16 0x1 [(0x0, Switch 15 0x1 [(0x0, Switch 14 0x1 [(0x1, Return LISA_VSSRLRNENI_BU_H)] (Return LISA_INVALID)),
            (0x1, Return LISA_VSSRLRNENI_HU_W)] (Return LISA_INVALID)),
          (0x1, Return LISA_VSSRLRNENI_WU_D)] (Return LISA_INVALID)),
        (0x1, Return LISA_VSSRLRNENI_DU_Q)] (Return LISA_INVALID))]"

definition la_cases_10239 :: "(nat \<times> dtree) list" where
  "la_cases_10239 = [
    (0xde, Switch 17 0x1 [(0x0, Switch 16 0x1 [(0x0, Switch 15 0x1 [(0x0, Switch 14 0x1 [(0x1, Return LISA_VSSRARNENI_B_H)] (Return LISA_INVALID)),
            (0x1, Return LISA_VSSRARNENI_H_W)] (Return LISA_INVALID)),
          (0x1, Return LISA_VSSRARNENI_W_D)] (Return LISA_INVALID)),
        (0x1, Return LISA_VSSRARNENI_D_Q)] (Return LISA_INVALID)),
    (0xdf, Switch 17 0x1 [(0x0, Switch 16 0x1 [(0x0, Switch 15 0x1 [(0x0, Switch 14 0x1 [(0x1, Return LISA_VSSRARNENI_BU_H)] (Return LISA_INVALID)),
            (0x1, Return LISA_VSSRARNENI_HU_W)] (Return LISA_INVALID)),
          (0x1, Return LISA_VSSRARNENI_WU_D)] (Return LISA_INVALID)),
        (0x1, Return LISA_VSSRARNENI_DU_Q)] (Return LISA_INVALID)),
    (0xe0, Return LISA_VEXTRINS_D),
    (0xe1, Return LISA_VEXTRINS_W),
    (0xe2, Return LISA_VEXTRINS_H),
    (0xe3, Return LISA_VEXTRINS_B),
    (0xe4, Return LISA_VSHUF4I_B),
    (0xe5, Return LISA_VSHUF4I_H),
    (0xe6, Return LISA_VSHUF4I_W),
    (0xe7, Return LISA_VSHUF4I_D),
    (0xe8, Return LISA_VSHUFI1_B),
    (0xe9, Return LISA_VSHUFI2_B),
    (0xea, Return LISA_VSHUFI3_B),
    (0xeb, Return LISA_VSHUFI4_B),
    (0xec, Return LISA_VSHUFI1_H),
    (0xed, Return LISA_VSHUFI2_H),
    (0xee, Return LISA_VSELI_H),
    (0xef, Return LISA_VSELI_W),
    (0xf0, Return LISA_VSELI_D),
    (0xf1, Return LISA_VBITSELI_B),
    (0xf2, Return LISA_VBITMVZI_B)]"

definition la_cases_10387 :: "(nat \<times> dtree) list" where
  "la_cases_10387 = [
    (0xf3, Return LISA_VBITMVNZI_B),
    (0xf4, Return LISA_VANDI_B),
    (0xf5, Return LISA_VORI_B),
    (0xf6, Return LISA_VXORI_B),
    (0xf7, Return LISA_VNORI_B),
    (0xf8, Return LISA_VLDI),
    (0xf9, Return LISA_VPERMI_W)]"

definition la_tree_4526 :: dtree where
  "la_tree_4526 = Switch 18 0xff (la_cases_4527 @ la_cases_4675 @ la_cases_4823 @ la_cases_4971 @ la_cases_5119 @ la_cases_5267 @ la_cases_5415 @ la_cases_5563 @ la_cases_5703 @ la_cases_5835 @ la_cases_5983 @ la_cases_6131 @ la_cases_6279 @ la_cases_6427 @ la_cases_6551 @ la_cases_6699 @ la_cases_6823 @ la_cases_6947 @ la_cases_7095 @ la_cases_7243 @ la_cases_7391 @ la_cases_7539 @ la_cases_7680 @ la_cases_7816 @ la_cases_7928 @ la_cases_8068 @ la_cases_9005 @ la_cases_9149 @ la_cases_9262 @ la_cases_9375 @ la_cases_9519 @ la_cases_9663 @ la_cases_9807 @ la_cases_9951 @ la_cases_10095 @ la_cases_10239 @ la_cases_10387) (Return LISA_INVALID)"

definition la_tree_13883 :: dtree where
  "la_tree_13883 = Switch 10 0x1f [(0x0, Return LISA_XVCLO_B),
    (0x1, Return LISA_XVCLO_H),
    (0x2, Return LISA_XVCLO_W),
    (0x3, Return LISA_XVCLO_D),
    (0x4, Return LISA_XVCLZ_B),
    (0x5, Return LISA_XVCLZ_H),
    (0x6, Return LISA_XVCLZ_W),
    (0x7, Return LISA_XVCLZ_D),
    (0x8, Return LISA_XVPCNT_B),
    (0x9, Return LISA_XVPCNT_H),
    (0xa, Return LISA_XVPCNT_W),
    (0xb, Return LISA_XVPCNT_D),
    (0xc, Return LISA_XVNEG_B),
    (0xd, Return LISA_XVNEG_H),
    (0xe, Return LISA_XVNEG_W),
    (0xf, Return LISA_XVNEG_D),
    (0x10, Return LISA_XVMSKLTZ_B),
    (0x11, Return LISA_XVMSKLTZ_H),
    (0x12, Return LISA_XVMSKLTZ_W),
    (0x13, Return LISA_XVMSKLTZ_D),
    (0x14, Return LISA_XVMSKGEZ_B),
    (0x15, Return LISA_INVALID),
    (0x16, Return LISA_INVALID),
    (0x17, Return LISA_INVALID),
    (0x18, Return LISA_XVMSKNZ_B),
    (0x19, Return LISA_INVALID),
    (0x1a, Return LISA_INVALID),
    (0x1b, Return LISA_INVALID),
    (0x1c, Return LISA_XVMSKCOPY_B),
    (0x1d, Return LISA_INVALID),
    (0x1e, Return LISA_INVALID),
    (0x1f, Return LISA_INVALID)] (Return LISA_INVALID)"

definition la_cases_14017 :: "(nat \<times> dtree) list" where
  "la_cases_14017 = [
    (0x0, Return LISA_XVMSKFILL_B),
    (0x1, Return LISA_INVALID),
    (0x2, Return LISA_INVALID),
    (0x3, Return LISA_INVALID),
    (0x4, Return LISA_XVFRSTM_B),
    (0x5, Return LISA_XVFRSTM_H),
    (0x6, Switch 3 0x3 [(0x0, Return LISA_XVSETEQZ_V)] (Return LISA_INVALID)),
    (0x7, Switch 3 0x3 [(0x0, Return LISA_XVSETNEZ_V)] (Return LISA_INVALID)),
    (0x8, Switch 3 0x3 [(0x0, Return LISA_XVSETANYEQZ_B)] (Return LISA_INVALID)),
    (0x9, Switch 3 0x3 [(0x0, Return LISA_XVSETANYEQZ_H)] (Return LISA_INVALID)),
    (0xa, Switch 3 0x3 [(0x0, Return LISA_XVSETANYEQZ_W)] (Return LISA_INVALID)),
    (0xb, Switch 3 0x3 [(0x0, Return LISA_XVSETANYEQZ_D)] (Return LISA_INVALID)),
    (0xc, Switch 3 0x3 [(0x0, Return LISA_XVSETALLNEZ_B)] (Return LISA_INVALID)),
    (0xd, Switch 3 0x3 [(0x0, Return LISA_XVSETALLNEZ_H)] (Return LISA_INVALID)),
    (0xe, Switch 3 0x3 [(0x0, Return LISA_XVSETALLNEZ_W)] (Return LISA_INVALID)),
    (0xf, Switch 3 0x3 [(0x0, Return LISA_XVSETALLNEZ_D)] (Return LISA_INVALID)),
    (0x10, Return LISA_INVALID),
    (0x11, Return LISA_XVFLOGB_S),
    (0x12, Return LISA_XVFLOGB_D),
    (0x13, Return LISA_INVALID),
    (0x14, Return LISA_INVALID),
    (0x15, Return LISA_XVFCLASS_S),
    (0x16, Return LISA_XVFCLASS_D),
    (0x17, Return LISA_INVALID)]"

definition la_cases_14163 :: "(nat \<times> dtree) list" where
  "la_cases_14163 = [
    (0x18, Return LISA_INVALID),
    (0x19, Return LISA_XVFSQRT_S),
    (0x1a, Return LISA_XVFSQRT_D),
    (0x1b, Return LISA_INVALID),
    (0x1c, Return LISA_INVALID),
    (0x1d, Return LISA_XVFRECIP_S),
    (0x1e, Return LISA_XVFRECIP_D),
    (0x1f, Return LISA_INVALID)]"

definition la_tree_14016 :: dtree where
  "la_tree_14016 = Switch 10 0x1f (la_cases_14017 @ la_cases_14163) (Return LISA_INVALID)"

definition la_tree_14199 :: dtree where
  "la_tree_14199 = Switch 10 0x1f [(0x0, Return LISA_INVALID),
    (0x1, Return LISA_XVFRSQRT_S),
    (0x2, Return LISA_XVFRSQRT_D),
    (0x3, Return LISA_INVALID),
    (0x4, Return LISA_INVALID),
    (0x5, Return LISA_INVALID),
    (0x6, Return LISA_INVALID),
    (0x7, Return LISA_INVALID),
    (0x8, Return LISA_INVALID),
    (0x9, Return LISA_INVALID),
    (0xa, Return LISA_INVALID),
    (0xb, Return LISA_INVALID),
    (0xc, Return LISA_INVALID),
    (0xd, Return LISA_XVFRINT_S),
    (0xe, Return LISA_XVFRINT_D),
    (0xf, Return LISA_INVALID),
    (0x10, Return LISA_INVALID),
    (0x11, Return LISA_XVFRINTRM_S),
    (0x12, Return LISA_XVFRINTRM_D),
    (0x13, Return LISA_INVALID),
    (0x14, Return LISA_INVALID),
    (0x15, Return LISA_XVFRINTRP_S),
    (0x16, Return LISA_XVFRINTRP_D),
    (0x17, Return LISA_INVALID),
    (0x18, Return LISA_INVALID),
    (0x19, Return LISA_XVFRINTRZ_S),
    (0x1a, Return LISA_XVFRINTRZ_D),
    (0x1b, Return LISA_INVALID),
    (0x1c, Return LISA_INVALID),
    (0x1d, Return LISA_XVFRINTRNE_S),
    (0x1e, Return LISA_XVFRINTRNE_D),
    (0x1f, Return LISA_INVALID)] (Return LISA_INVALID)"

definition la_tree_14332 :: dtree where
  "la_tree_14332 = Switch 10 0x1f [(0x1, Return LISA_XVEXTL_W_B),
    (0x2, Return LISA_XVEXTL_D_B),
    (0x3, Return LISA_INVALID),
    (0x5, Return LISA_XVEXTL_D_H),
    (0x6, Return LISA_INVALID),
    (0x8, Return LISA_INVALID),
    (0xb, Return LISA_XVEXTL_W_BU),
    (0xc, Return LISA_XVEXTL_D_BU),
    (0xd, Return LISA_INVALID),
    (0xf, Return LISA_XVEXTL_D_HU),
    (0x10, Return LISA_INVALID),
    (0x12, Return LISA_INVALID),
    (0x14, Return LISA_XVHADD8_D_BU),
    (0x15, Return LISA_XVHMINPOS_W_HU),
    (0x16, Return LISA_XVHMINPOS_D_HU),
    (0x17, Return LISA_XVHMINPOS_Q_HU),
    (0x18, Return LISA_XVCLRTAIL_B),
    (0x19, Return LISA_XVCLRTAIL_H),
    (0x1a, Return LISA_XVFCVTL_S_H),
    (0x1b, Return LISA_XVFCVTH_S_H),
    (0x1c, Return LISA_XVFCVTL_D_S),
    (0x1d, Return LISA_XVFCVTH_D_S),
    (0x1e, Return LISA_INVALID),
    (0x1f, Return LISA_INVALID)] (Return LISA_INVALID)"

definition la_tree_14433 :: dtree where
  "la_tree_14433 = Switch 10 0x1f [(0x0, Return LISA_XVFFINT_S_W),
    (0x1, Return LISA_XVFFINT_S_WU),
    (0x2, Return LISA_XVFFINT_D_L),
    (0x3, Return LISA_XVFFINT_D_LU),
    (0x4, Return LISA_XVFFINTL_D_W),
    (0x5, Return LISA_XVFFINTH_D_W),
    (0x6, Return LISA_INVALID),
    (0x7, Return LISA_INVALID),
    (0x8, Return LISA_INVALID),
    (0x9, Return LISA_INVALID),
    (0xa, Return LISA_INVALID),
    (0xb, Return LISA_INVALID),
    (0xc, Return LISA_XVFTINT_W_S),
    (0xd, Return LISA_XVFTINT_L_D),
    (0xe, Return LISA_XVFTINTRM_W_S),
    (0xf, Return LISA_XVFTINTRM_L_D),
    (0x10, Return LISA_XVFTINTRP_W_S),
    (0x11, Return LISA_XVFTINTRP_L_D),
    (0x12, Return LISA_XVFTINTRZ_W_S),
    (0x13, Return LISA_XVFTINTRZ_L_D),
    (0x14, Return LISA_XVFTINTRNE_W_S),
    (0x15, Return LISA_XVFTINTRNE_L_D),
    (0x16, Return LISA_XVFTINT_WU_S),
    (0x17, Return LISA_XVFTINT_LU_D),
    (0x18, Return LISA_INVALID),
    (0x19, Return LISA_INVALID),
    (0x1a, Return LISA_INVALID),
    (0x1b, Return LISA_INVALID),
    (0x1c, Return LISA_XVFTINTRZ_WU_S),
    (0x1d, Return LISA_XVFTINTRZ_LU_D),
    (0x1e, Return LISA_INVALID),
    (0x1f, Return LISA_INVALID)] (Return LISA_INVALID)"

definition la_tree_14566 :: dtree where
  "la_tree_14566 = Switch 10 0x1f [(0x0, Return LISA_XVFTINTL_L_S),
    (0x1, Return LISA_XVFTINTH_L_S),
    (0x2, Return LISA_XVFTINTRML_L_S),
    (0x3, Return LISA_XVFTINTRMH_L_S),
    (0x4, Return LISA_XVFTINTRPL_L_S),
    (0x5, Return LISA_XVFTINTRPH_L_S),
    (0x6, Return LISA_XVFTINTRZL_L_S),
    (0x7, Return LISA_XVFTINTRZH_L_S),
    (0x8, Return LISA_XVFTINTRNEL_L_S),
    (0x9, Return LISA_XVFTINTRNEH_L_S),
    (0xa, Return LISA_INVALID),
    (0xb, Return LISA_INVALID),
    (0xc, Return LISA_INVALID),
    (0xd, Return LISA_INVALID),
    (0xe, Return LISA_INVALID),
    (0xf, Return LISA_INVALID),
    (0x10, Return LISA_INVALID),
    (0x11, Return LISA_INVALID),
    (0x12, Return LISA_INVALID),
    (0x13, Return LISA_INVALID),
    (0x18, Return LISA_XVEXTH_H_B),
    (0x19, Return LISA_XVEXTH_W_H),
    (0x1a, Return LISA_XVEXTH_D_W),
    (0x1b, Return LISA_XVEXTH_Q_D),
    (0x1c, Return LISA_XVEXTH_HU_BU),
    (0x1d, Return LISA_XVEXTH_WU_HU),
    (0x1e, Return LISA_XVEXTH_DU_WU),
    (0x1f, Return LISA_XVEXTH_QU_DU)] (Return LISA_INVALID)"

definition la_tree_13880 :: dtree where
  "la_tree_13880 = Switch 15 0x7 [
    (0x0, la_tree_13883),
    (0x1, la_tree_14016),
    (0x2, la_tree_14199),
    (0x3, la_tree_14332),
    (0x4, la_tree_14433),
    (0x5, la_tree_14566),
    (0x6, Switch 10 0x1f [(0x0, Return LISA_XVREPLGR2VR_B),
        (0x1, Return LISA_XVREPLGR2VR_H),
        (0x2, Return LISA_XVREPLGR2VR_W),
        (0x3, Return LISA_XVREPLGR2VR_D),
        (0x4, Return LISA_VEXT2XV_H_B),
        (0x5, Return LISA_VEXT2XV_W_B),
        (0x6, Return LISA_VEXT2XV_D_B),
        (0x7, Return LISA_VEXT2XV_W_H),
        (0x8, Return LISA_VEXT2XV_D_H),
        (0x9, Return LISA_VEXT2XV_D_W),
        (0xa, Return LISA_VEXT2XV_HU_BU),
        (0xb, Return LISA_VEXT2XV_WU_BU),
        (0xc, Return LISA_VEXT2XV_DU_BU),
        (0xd, Return LISA_VEXT2XV_WU_HU),
        (0xe, Return LISA_VEXT2XV_DU_HU),
        (0xf, Return LISA_VEXT2XV_DU_WU)] (Return LISA_INVALID)),
    (0x7, Return LISA_XVHSELI_D)] (Return LISA_INVALID)"

definition la_cases_10420 :: "(nat \<times> dtree) list" where
  "la_cases_10420 = [
    (0x0, Switch 15 0x7 [(0x0, Return LISA_XVSEQ_B),
        (0x1, Return LISA_XVSEQ_H),
        (0x2, Return LISA_XVSEQ_W),
        (0x3, Return LISA_XVSEQ_D),
        (0x4, Return LISA_XVSLE_B),
        (0x5, Return LISA_XVSLE_H),
        (0x6, Return LISA_XVSLE_W),
        (0x7, Return LISA_XVSLE_D)] (Return LISA_INVALID)),
    (0x1, Switch 15 0x7 [(0x0, Return LISA_XVSLE_BU),
        (0x1, Return LISA_XVSLE_HU),
        (0x2, Return LISA_XVSLE_WU),
        (0x3, Return LISA_XVSLE_DU),
        (0x4, Return LISA_XVSLT_B),
        (0x5, Return LISA_XVSLT_H),
        (0x6, Return LISA_XVSLT_W),
        (0x7, Return LISA_XVSLT_D)] (Return LISA_INVALID)),
    (0x2, Switch 15 0x7 [(0x0, Return LISA_XVSLT_BU),
        (0x1, Return LISA_XVSLT_HU),
        (0x2, Return LISA_XVSLT_WU),
        (0x3, Return LISA_XVSLT_DU),
        (0x4, Return LISA_XVADD_B),
        (0x5, Return LISA_XVADD_H),
        (0x6, Return LISA_XVADD_W),
        (0x7, Return LISA_XVADD_D)] (Return LISA_INVALID)),
    (0x3, Switch 15 0x7 [(0x0, Return LISA_XVSUB_B),
        (0x1, Return LISA_XVSUB_H),
        (0x2, Return LISA_XVSUB_W),
        (0x3, Return LISA_XVSUB_D),
        (0x4, Return LISA_XVADDW_H_H_B),
        (0x5, Return LISA_XVADDW_W_W_H),
        (0x6, Return LISA_XVADDW_D_D_W),
        (0x7, Return LISA_INVALID)] (Return LISA_INVALID))]"

definition la_cases_10568 :: "(nat \<times> dtree) list" where
  "la_cases_10568 = [
    (0x4, Switch 15 0x7 [(0x0, Return LISA_XVADDW_H_H_BU),
        (0x1, Return LISA_XVADDW_W_W_HU),
        (0x2, Return LISA_XVADDW_D_D_WU),
        (0x3, Return LISA_INVALID),
        (0x4, Return LISA_XVSUBW_H_H_B),
        (0x5, Return LISA_XVSUBW_W_W_H),
        (0x6, Return LISA_XVSUBW_D_D_W),
        (0x7, Return LISA_INVALID)] (Return LISA_INVALID)),
    (0x5, Switch 15 0x7 [(0x0, Return LISA_XVSUBW_H_H_BU),
        (0x1, Return LISA_XVSUBW_W_W_HU),
        (0x2, Return LISA_XVSUBW_D_D_WU),
        (0x3, Return LISA_INVALID),
        (0x4, Return LISA_XVSADDW_H_H_B),
        (0x5, Return LISA_XVSADDW_W_W_H),
        (0x6, Return LISA_XVSADDW_D_D_W),
        (0x7, Return LISA_INVALID)] (Return LISA_INVALID)),
    (0x6, Switch 15 0x7 [(0x0, Return LISA_XVSADDW_HU_HU_BU),
        (0x1, Return LISA_XVSADDW_WU_WU_HU),
        (0x2, Return LISA_XVSADDW_DU_DU_WU),
        (0x3, Return LISA_INVALID),
        (0x4, Return LISA_XVSSUBW_H_H_B),
        (0x5, Return LISA_XVSSUBW_W_W_H),
        (0x6, Return LISA_XVSSUBW_D_D_W),
        (0x7, Return LISA_INVALID)] (Return LISA_INVALID)),
    (0x7, Switch 15 0x7 [(0x0, Return LISA_XVSSUBW_HU_HU_BU),
        (0x1, Return LISA_XVSSUBW_WU_WU_HU),
        (0x2, Return LISA_XVSSUBW_DU_DU_WU),
        (0x3, Return LISA_INVALID),
        (0x4, Return LISA_XVADDWEV_H_B),
        (0x5, Return LISA_XVADDWEV_W_H),
        (0x6, Return LISA_XVADDWEV_D_W),
        (0x7, Return LISA_XVADDWEV_Q_D)] (Return LISA_INVALID))]"

definition la_cases_10716 :: "(nat \<times> dtree) list" where
  "la_cases_10716 = [
    (0x8, Switch 15 0x7 [(0x0, Return LISA_XVSUBWEV_H_B),
        (0x1, Return LISA_XVSUBWEV_W_H),
        (0x2, Return LISA_XVSUBWEV_D_W),
        (0x3, Return LISA_XVSUBWEV_Q_D),
        (0x4, Return LISA_XVADDWOD_H_B),
        (0x5, Return LISA_XVADDWOD_W_H),
        (0x6, Return LISA_XVADDWOD_D_W),
        (0x7, Return LISA_XVADDWOD_Q_D)] (Return LISA_INVALID)),
    (0x9, Switch 15 0x7 [(0x0, Return LISA_XVSUBWOD_H_B),
        (0x1, Return LISA_XVSUBWOD_W_H),
        (0x2, Return LISA_XVSUBWOD_D_W),
        (0x3, Return LISA_XVSUBWOD_Q_D),
        (0x4, Return LISA_XVADDWL_H_B),
        (0x5, Return LISA_XVADDWL_W_H),
        (0x6, Return LISA_XVADDWL_D_W),
        (0x7, Return LISA_XVADDWL_Q_D)] (Return LISA_INVALID)),
    (0xa, Switch 15 0x7 [(0x0, Return LISA_XVSUBWL_H_B),
        (0x1, Return LISA_XVSUBWL_W_H),
        (0x2, Return LISA_XVSUBWL_D_W),
        (0x3, Return LISA_XVSUBWL_Q_D),
        (0x4, Return LISA_XVADDWH_H_B),
        (0x5, Return LISA_XVADDWH_W_H),
        (0x6, Return LISA_XVADDWH_D_W),
        (0x7, Return LISA_XVADDWH_Q_D)] (Return LISA_INVALID)),
    (0xb, Switch 15 0x7 [(0x0, Return LISA_XVSUBWH_H_B),
        (0x1, Return LISA_XVSUBWH_W_H),
        (0x2, Return LISA_XVSUBWH_D_W),
        (0x3, Return LISA_XVSUBWH_Q_D),
        (0x4, Return LISA_XVADDWEV_H_BU),
        (0x5, Return LISA_XVADDWEV_W_HU),
        (0x6, Return LISA_XVADDWEV_D_WU),
        (0x7, Return LISA_XVADDWEV_Q_DU)] (Return LISA_INVALID))]"

definition la_cases_10864 :: "(nat \<times> dtree) list" where
  "la_cases_10864 = [
    (0xc, Switch 15 0x7 [(0x0, Return LISA_XVSUBWEV_H_BU),
        (0x1, Return LISA_XVSUBWEV_W_HU),
        (0x2, Return LISA_XVSUBWEV_D_WU),
        (0x3, Return LISA_XVSUBWEV_Q_DU),
        (0x4, Return LISA_XVADDWOD_H_BU),
        (0x5, Return LISA_XVADDWOD_W_HU),
        (0x6, Return LISA_XVADDWOD_D_WU),
        (0x7, Return LISA_XVADDWOD_Q_DU)] (Return LISA_INVALID)),
    (0xd, Switch 15 0x7 [(0x0, Return LISA_XVSUBWOD_H_BU),
        (0x1, Return LISA_XVSUBWOD_W_HU),
        (0x2, Return LISA_XVSUBWOD_D_WU),
        (0x3, Return LISA_XVSUBWOD_Q_DU),
        (0x4, Return LISA_XVADDWL_H_BU),
        (0x5, Return LISA_XVADDWL_W_HU),
        (0x6, Return LISA_XVADDWL_D_WU),
        (0x7, Return LISA_XVADDWL_Q_DU)] (Return LISA_INVALID)),
    (0xe, Switch 15 0x7 [(0x0, Return LISA_XVSUBWL_H_BU),
        (0x1, Return LISA_XVSUBWL_W_HU),
        (0x2, Return LISA_XVSUBWL_D_WU),
        (0x3, Return LISA_XVSUBWL_Q_DU),
        (0x4, Return LISA_XVADDWH_H_BU),
        (0x5, Return LISA_XVADDWH_W_HU),
        (0x6, Return LISA_XVADDWH_D_WU),
        (0x7, Return LISA_XVADDWH_Q_DU)] (Return LISA_INVALID)),
    (0xf, Switch 15 0x7 [(0x0, Return LISA_XVSUBWH_H_BU),
        (0x1, Return LISA_XVSUBWH_W_HU),
        (0x2, Return LISA_XVSUBWH_D_WU),
        (0x3, Return LISA_XVSUBWH_Q_DU),
        (0x4, Return LISA_XVADDWEV_H_BU_B),
        (0x5, Return LISA_XVADDWEV_W_HU_H),
        (0x6, Return LISA_XVADDWEV_D_WU_W),
        (0x7, Return LISA_XVADDWEV_Q_DU_D)] (Return LISA_INVALID))]"

definition la_cases_11012 :: "(nat \<times> dtree) list" where
  "la_cases_11012 = [
    (0x10, Switch 15 0x7 [(0x0, Return LISA_XVADDWOD_H_BU_B),
        (0x1, Return LISA_XVADDWOD_W_HU_H),
        (0x2, Return LISA_XVADDWOD_D_WU_W),
        (0x3, Return LISA_XVADDWOD_Q_DU_D),
        (0x4, Return LISA_XVADDWL_H_BU_B),
        (0x5, Return LISA_XVADDWL_W_HU_H),
        (0x6, Return LISA_XVADDWL_D_WU_W),
        (0x7, Return LISA_XVADDWL_Q_DU_D)] (Return LISA_INVALID)),
    (0x11, Switch 15 0x7 [(0x0, Return LISA_XVADDWH_H_BU_B),
        (0x1, Return LISA_XVADDWH_W_HU_H),
        (0x2, Return LISA_XVADDWH_D_WU_W),
        (0x3, Return LISA_XVADDWH_Q_DU_D),
        (0x4, Return LISA_XVSADD_B),
        (0x5, Return LISA_XVSADD_H),
        (0x6, Return LISA_XVSADD_W),
        (0x7, Return LISA_XVSADD_D)] (Return LISA_INVALID)),
    (0x12, Switch 15 0x7 [(0x0, Return LISA_XVSSUB_B),
        (0x1, Return LISA_XVSSUB_H),
        (0x2, Return LISA_XVSSUB_W),
        (0x3, Return LISA_XVSSUB_D),
        (0x4, Return LISA_XVSADD_BU),
        (0x5, Return LISA_XVSADD_HU),
        (0x6, Return LISA_XVSADD_WU),
        (0x7, Return LISA_XVSADD_DU)] (Return LISA_INVALID)),
    (0x13, Switch 15 0x7 [(0x0, Return LISA_XVSSUB_BU),
        (0x1, Return LISA_XVSSUB_HU),
        (0x2, Return LISA_XVSSUB_WU),
        (0x3, Return LISA_XVSSUB_DU),
        (0x4, Return LISA_XVSSUB_BU_BU_B),
        (0x5, Return LISA_XVSSUB_HU_HU_H),
        (0x6, Return LISA_XVSSUB_WU_WU_W),
        (0x7, Return LISA_XVSSUB_DU_DU_D)] (Return LISA_INVALID))]"

definition la_cases_11160 :: "(nat \<times> dtree) list" where
  "la_cases_11160 = [
    (0x14, Switch 15 0x7 [(0x0, Return LISA_XVSSUB_BU_B_BU),
        (0x1, Return LISA_XVSSUB_HU_H_HU),
        (0x2, Return LISA_XVSSUB_WU_W_WU),
        (0x3, Return LISA_XVSSUB_DU_D_DU),
        (0x4, Return LISA_XVSSUB_B_BU_BU),
        (0x5, Return LISA_XVSSUB_H_HU_HU),
        (0x6, Return LISA_XVSSUB_W_WU_WU),
        (0x7, Return LISA_XVSSUB_D_DU_DU)] (Return LISA_INVALID)),
    (0x15, Switch 15 0x7 [(0x0, Return LISA_XVHADDW_H_B),
        (0x1, Return LISA_XVHADDW_W_H),
        (0x2, Return LISA_XVHADDW_D_W),
        (0x3, Return LISA_XVHADDW_Q_D),
        (0x4, Return LISA_XVHSUBW_H_B),
        (0x5, Return LISA_XVHSUBW_W_H),
        (0x6, Return LISA_XVHSUBW_D_W),
        (0x7, Return LISA_XVHSUBW_Q_D)] (Return LISA_INVALID)),
    (0x16, Switch 15 0x7 [(0x0, Return LISA_XVHADDW_HU_BU),
        (0x1, Return LISA_XVHADDW_WU_HU),
        (0x2, Return LISA_XVHADDW_DU_WU),
        (0x3, Return LISA_XVHADDW_QU_DU),
        (0x4, Return LISA_XVHSUBW_HU_BU),
        (0x5, Return LISA_XVHSUBW_WU_HU),
        (0x6, Return LISA_XVHSUBW_DU_WU),
        (0x7, Return LISA_XVHSUBW_QU_DU)] (Return LISA_INVALID)),
    (0x17, Switch 15 0x7 [(0x0, Return LISA_XVADDA_B),
        (0x1, Return LISA_XVADDA_H),
        (0x2, Return LISA_XVADDA_W),
        (0x3, Return LISA_XVADDA_D),
        (0x4, Return LISA_XVSADDA_B),
        (0x5, Return LISA_XVSADDA_H),
        (0x6, Return LISA_XVSADDA_W),
        (0x7, Return LISA_XVSADDA_D)] (Return LISA_INVALID))]"

definition la_cases_11308 :: "(nat \<times> dtree) list" where
  "la_cases_11308 = [
    (0x18, Switch 15 0x7 [(0x0, Return LISA_XVABSD_B),
        (0x1, Return LISA_XVABSD_H),
        (0x2, Return LISA_XVABSD_W),
        (0x3, Return LISA_XVABSD_D),
        (0x4, Return LISA_XVABSD_BU),
        (0x5, Return LISA_XVABSD_HU),
        (0x6, Return LISA_XVABSD_WU),
        (0x7, Return LISA_XVABSD_DU)] (Return LISA_INVALID)),
    (0x19, Switch 15 0x7 [(0x0, Return LISA_XVAVG_B),
        (0x1, Return LISA_XVAVG_H),
        (0x2, Return LISA_XVAVG_W),
        (0x3, Return LISA_XVAVG_D),
        (0x4, Return LISA_XVAVG_BU),
        (0x5, Return LISA_XVAVG_HU),
        (0x6, Return LISA_XVAVG_WU),
        (0x7, Return LISA_XVAVG_DU)] (Return LISA_INVALID)),
    (0x1a, Switch 15 0x7 [(0x0, Return LISA_XVAVGR_B),
        (0x1, Return LISA_XVAVGR_H),
        (0x2, Return LISA_XVAVGR_W),
        (0x3, Return LISA_XVAVGR_D),
        (0x4, Return LISA_XVAVGR_BU),
        (0x5, Return LISA_XVAVGR_HU),
        (0x6, Return LISA_XVAVGR_WU),
        (0x7, Return LISA_XVAVGR_DU)] (Return LISA_INVALID)),
    (0x1b, Switch 15 0x7 [(0x0, Return LISA_XVHALFD_B),
        (0x1, Return LISA_XVHALFD_H),
        (0x2, Return LISA_XVHALFD_W),
        (0x3, Return LISA_XVHALFD_D),
        (0x4, Return LISA_XVHALFD_BU),
        (0x5, Return LISA_XVHALFD_HU),
        (0x6, Return LISA_XVHALFD_WU),
        (0x7, Return LISA_XVHALFD_DU)] (Return LISA_INVALID))]"

definition la_cases_11456 :: "(nat \<times> dtree) list" where
  "la_cases_11456 = [
    (0x1c, Switch 15 0x7 [(0x0, Return LISA_XVMAX_B),
        (0x1, Return LISA_XVMAX_H),
        (0x2, Return LISA_XVMAX_W),
        (0x3, Return LISA_XVMAX_D),
        (0x4, Return LISA_XVMIN_B),
        (0x5, Return LISA_XVMIN_H),
        (0x6, Return LISA_XVMIN_W),
        (0x7, Return LISA_XVMIN_D)] (Return LISA_INVALID)),
    (0x1d, Switch 15 0x7 [(0x0, Return LISA_XVMAX_BU),
        (0x1, Return LISA_XVMAX_HU),
        (0x2, Return LISA_XVMAX_WU),
        (0x3, Return LISA_XVMAX_DU),
        (0x4, Return LISA_XVMIN_BU),
        (0x5, Return LISA_XVMIN_HU),
        (0x6, Return LISA_XVMIN_WU),
        (0x7, Return LISA_XVMIN_DU)] (Return LISA_INVALID)),
    (0x1e, Switch 15 0x7 [(0x0, Return LISA_XVMAXA_B),
        (0x1, Return LISA_XVMAXA_H),
        (0x2, Return LISA_XVMAXA_W),
        (0x3, Return LISA_XVMAXA_D),
        (0x4, Return LISA_XVMINA_B),
        (0x5, Return LISA_XVMINA_H),
        (0x6, Return LISA_XVMINA_W),
        (0x7, Return LISA_XVMINA_D)] (Return LISA_INVALID)),
    (0x1f, Switch 15 0x7 [(0x0, Return LISA_XVSADW_H_B),
        (0x1, Return LISA_XVSADW_W_H),
        (0x2, Return LISA_XVSADW_D_W),
        (0x4, Return LISA_XVSADW_H_BU),
        (0x5, Return LISA_XVSADW_W_HU),
        (0x6, Return LISA_XVSADW_D_WU)] (Return LISA_INVALID))]"

definition la_cases_11596 :: "(nat \<times> dtree) list" where
  "la_cases_11596 = [
    (0x20, Switch 15 0x7 [(0x0, Return LISA_XVACCSADW_H_B),
        (0x1, Return LISA_XVACCSADW_W_H),
        (0x2, Return LISA_XVACCSADW_D_W),
        (0x4, Return LISA_XVACCSADW_H_BU),
        (0x5, Return LISA_XVACCSADW_W_HU),
        (0x6, Return LISA_XVACCSADW_D_WU)] (Return LISA_INVALID)),
    (0x21, Switch 15 0x7 [(0x0, Return LISA_XVMUL_B),
        (0x1, Return LISA_XVMUL_H),
        (0x2, Return LISA_XVMUL_W),
        (0x3, Return LISA_XVMUL_D),
        (0x4, Return LISA_XVMUH_B),
        (0x5, Return LISA_XVMUH_H),
        (0x6, Return LISA_XVMUH_W),
        (0x7, Return LISA_XVMUH_D)] (Return LISA_INVALID)),
    (0x22, Switch 15 0x7 [(0x0, Return LISA_XVMUH_BU),
        (0x1, Return LISA_XVMUH_HU),
        (0x2, Return LISA_XVMUH_WU),
        (0x3, Return LISA_XVMUH_DU),
        (0x4, Return LISA_XVMUH_BU_B),
        (0x5, Return LISA_XVMUH_HU_H),
        (0x6, Return LISA_XVMUH_WU_W),
        (0x7, Return LISA_XVMUH_DU_D)] (Return LISA_INVALID)),
    (0x23, Switch 15 0x7 [(0x0, Return LISA_XVMULXW_H_B),
        (0x1, Return LISA_XVMULXW_W_H),
        (0x2, Return LISA_XVMULXW_D_W),
        (0x4, Return LISA_XVMULXW_H_BU),
        (0x5, Return LISA_XVMULXW_W_HU),
        (0x6, Return LISA_XVMULXW_D_WU)] (Return LISA_INVALID))]"

definition la_cases_11728 :: "(nat \<times> dtree) list" where
  "la_cases_11728 = [
    (0x24, Switch 15 0x7 [(0x0, Return LISA_XVMULWEV_H_B),
        (0x1, Return LISA_XVMULWEV_W_H),
        (0x2, Return LISA_XVMULWEV_D_W),
        (0x3, Return LISA_XVMULWEV_Q_D),
        (0x4, Return LISA_XVMULWOD_H_B),
        (0x5, Return LISA_XVMULWOD_W_H),
        (0x6, Return LISA_XVMULWOD_D_W),
        (0x7, Return LISA_XVMULWOD_Q_D)] (Return LISA_INVALID)),
    (0x25, Switch 15 0x7 [(0x0, Return LISA_XVMULWL_H_B),
        (0x1, Return LISA_XVMULWL_W_H),
        (0x2, Return LISA_XVMULWL_D_W),
        (0x3, Return LISA_XVMULWL_Q_D),
        (0x4, Return LISA_XVMULWH_H_B),
        (0x5, Return LISA_XVMULWH_W_H),
        (0x6, Return LISA_XVMULWH_D_W),
        (0x7, Return LISA_XVMULWH_Q_D)] (Return LISA_INVALID)),
    (0x26, Switch 15 0x7 [(0x0, Return LISA_XVMULWEV_H_BU),
        (0x1, Return LISA_XVMULWEV_W_HU),
        (0x2, Return LISA_XVMULWEV_D_WU),
        (0x3, Return LISA_XVMULWEV_Q_DU),
        (0x4, Return LISA_XVMULWOD_H_BU),
        (0x5, Return LISA_XVMULWOD_W_HU),
        (0x6, Return LISA_XVMULWOD_D_WU),
        (0x7, Return LISA_XVMULWOD_Q_DU)] (Return LISA_INVALID)),
    (0x27, Switch 15 0x7 [(0x0, Return LISA_XVMULWL_H_BU),
        (0x1, Return LISA_XVMULWL_W_HU),
        (0x2, Return LISA_XVMULWL_D_WU),
        (0x3, Return LISA_XVMULWL_Q_DU),
        (0x4, Return LISA_XVMULWH_H_BU),
        (0x5, Return LISA_XVMULWH_W_HU),
        (0x6, Return LISA_XVMULWH_D_WU),
        (0x7, Return LISA_XVMULWH_Q_DU)] (Return LISA_INVALID))]"

definition la_cases_11876 :: "(nat \<times> dtree) list" where
  "la_cases_11876 = [
    (0x28, Switch 15 0x7 [(0x0, Return LISA_XVMULWEV_H_BU_B),
        (0x1, Return LISA_XVMULWEV_W_HU_H),
        (0x2, Return LISA_XVMULWEV_D_WU_W),
        (0x3, Return LISA_XVMULWEV_Q_DU_D),
        (0x4, Return LISA_XVMULWOD_H_BU_B),
        (0x5, Return LISA_XVMULWOD_W_HU_H),
        (0x6, Return LISA_XVMULWOD_D_WU_W),
        (0x7, Return LISA_XVMULWOD_Q_DU_D)] (Return LISA_INVALID)),
    (0x29, Switch 15 0x7 [(0x0, Return LISA_XVMULWL_H_BU_B),
        (0x1, Return LISA_XVMULWL_W_HU_H),
        (0x2, Return LISA_XVMULWL_D_WU_W),
        (0x3, Return LISA_XVMULWL_Q_DU_D),
        (0x4, Return LISA_XVMULWH_H_BU_B),
        (0x5, Return LISA_XVMULWH_W_HU_H),
        (0x6, Return LISA_XVMULWH_D_WU_W),
        (0x7, Return LISA_XVMULWH_Q_DU_D)] (Return LISA_INVALID)),
    (0x2a, Switch 15 0x7 [(0x0, Return LISA_XVMADD_B),
        (0x1, Return LISA_XVMADD_H),
        (0x2, Return LISA_XVMADD_W),
        (0x3, Return LISA_XVMADD_D),
        (0x4, Return LISA_XVMSUB_B),
        (0x5, Return LISA_XVMSUB_H),
        (0x6, Return LISA_XVMSUB_W),
        (0x7, Return LISA_XVMSUB_D)] (Return LISA_INVALID)),
    (0x2b, Switch 15 0x7 [(0x0, Return LISA_XVMADDWEV_H_B),
        (0x1, Return LISA_XVMADDWEV_W_H),
        (0x2, Return LISA_XVMADDWEV_D_W),
        (0x3, Return LISA_XVMADDWEV_Q_D),
        (0x4, Return LISA_XVMADDWOD_H_B),
        (0x5, Return LISA_XVMADDWOD_W_H),
        (0x6, Return LISA_XVMADDWOD_D_W),
        (0x7, Return LISA_XVMADDWOD_Q_D)] (Return LISA_INVALID))]"

definition la_cases_12024 :: "(nat \<times> dtree) list" where
  "la_cases_12024 = [
    (0x2c, Switch 15 0x7 [(0x0, Return LISA_XVMADDWL_H_B),
        (0x1, Return LISA_XVMADDWL_W_H),
        (0x2, Return LISA_XVMADDWL_D_W),
        (0x3, Return LISA_XVMADDWL_Q_D),
        (0x4, Return LISA_XVMADDWH_H_B),
        (0x5, Return LISA_XVMADDWH_W_H),
        (0x6, Return LISA_XVMADDWH_D_W),
        (0x7, Return LISA_XVMADDWH_Q_D)] (Return LISA_INVALID)),
    (0x2d, Switch 15 0x7 [(0x0, Return LISA_XVMADDWEV_H_BU),
        (0x1, Return LISA_XVMADDWEV_W_HU),
        (0x2, Return LISA_XVMADDWEV_D_WU),
        (0x3, Return LISA_XVMADDWEV_Q_DU),
        (0x4, Return LISA_XVMADDWOD_H_BU),
        (0x5, Return LISA_XVMADDWOD_W_HU),
        (0x6, Return LISA_XVMADDWOD_D_WU),
        (0x7, Return LISA_XVMADDWOD_Q_DU)] (Return LISA_INVALID)),
    (0x2e, Switch 15 0x7 [(0x0, Return LISA_XVMADDWL_H_BU),
        (0x1, Return LISA_XVMADDWL_W_HU),
        (0x2, Return LISA_XVMADDWL_D_WU),
        (0x3, Return LISA_XVMADDWL_Q_DU),
        (0x4, Return LISA_XVMADDWH_H_BU),
        (0x5, Return LISA_XVMADDWH_W_HU),
        (0x6, Return LISA_XVMADDWH_D_WU),
        (0x7, Return LISA_XVMADDWH_Q_DU)] (Return LISA_INVALID)),
    (0x2f, Switch 15 0x7 [(0x0, Return LISA_XVMADDWEV_H_BU_B),
        (0x1, Return LISA_XVMADDWEV_W_HU_H),
        (0x2, Return LISA_XVMADDWEV_D_WU_W),
        (0x3, Return LISA_XVMADDWEV_Q_DU_D),
        (0x4, Return LISA_XVMADDWOD_H_BU_B),
        (0x5, Return LISA_XVMADDWOD_W_HU_H),
        (0x6, Return LISA_XVMADDWOD_D_WU_W),
        (0x7, Return LISA_XVMADDWOD_Q_DU_D)] (Return LISA_INVALID))]"

definition la_cases_12172 :: "(nat \<times> dtree) list" where
  "la_cases_12172 = [
    (0x30, Switch 15 0x7 [(0x0, Return LISA_XVMADDWL_H_BU_B),
        (0x1, Return LISA_XVMADDWL_W_HU_H),
        (0x2, Return LISA_XVMADDWL_D_WU_W),
        (0x3, Return LISA_XVMADDWL_Q_DU_D),
        (0x4, Return LISA_XVMADDWH_H_BU_B),
        (0x5, Return LISA_XVMADDWH_W_HU_H),
        (0x6, Return LISA_XVMADDWH_D_WU_W),
        (0x7, Return LISA_XVMADDWH_Q_DU_D)] (Return LISA_INVALID)),
    (0x31, Switch 15 0x7 [(0x0, Return LISA_XVDP2_H_B),
        (0x1, Return LISA_XVDP2_W_H),
        (0x2, Return LISA_XVDP2_D_W),
        (0x3, Return LISA_XVDP2_Q_D),
        (0x4, Return LISA_XVDP2_HU_BU),
        (0x5, Return LISA_XVDP2_WU_HU),
        (0x6, Return LISA_XVDP2_DU_WU),
        (0x7, Return LISA_XVDP2_QU_DU)] (Return LISA_INVALID)),
    (0x32, Switch 15 0x7 [(0x0, Return LISA_XVDP2_H_BU_B),
        (0x1, Return LISA_XVDP2_W_HU_H),
        (0x2, Return LISA_XVDP2_D_WU_W),
        (0x3, Return LISA_XVDP2_Q_DU_D),
        (0x4, Return LISA_XVDP2ADD_H_B),
        (0x5, Return LISA_XVDP2ADD_W_H),
        (0x6, Return LISA_XVDP2ADD_D_W),
        (0x7, Return LISA_XVDP2ADD_Q_D)] (Return LISA_INVALID)),
    (0x33, Switch 15 0x7 [(0x0, Return LISA_XVDP2ADD_H_BU),
        (0x1, Return LISA_XVDP2ADD_W_HU),
        (0x2, Return LISA_XVDP2ADD_D_WU),
        (0x3, Return LISA_XVDP2ADD_Q_DU),
        (0x4, Return LISA_XVDP2ADD_H_BU_B),
        (0x5, Return LISA_XVDP2ADD_W_HU_H),
        (0x6, Return LISA_XVDP2ADD_D_WU_W),
        (0x7, Return LISA_XVDP2ADD_Q_DU_D)] (Return LISA_INVALID))]"

definition la_cases_12320 :: "(nat \<times> dtree) list" where
  "la_cases_12320 = [
    (0x34, Switch 15 0x7 [(0x0, Return LISA_XVDP2SUB_H_B),
        (0x1, Return LISA_XVDP2SUB_W_H),
        (0x2, Return LISA_XVDP2SUB_D_W),
        (0x3, Return LISA_XVDP2SUB_Q_D),
        (0x4, Return LISA_XVDP2SUB_H_BU),
        (0x5, Return LISA_XVDP2SUB_W_HU),
        (0x6, Return LISA_XVDP2SUB_D_WU),
        (0x7, Return LISA_XVDP2SUB_Q_DU)] (Return LISA_INVALID)),
    (0x35, Switch 15 0x7 [(0x0, Return LISA_XVDP4_W_B),
        (0x1, Return LISA_XVDP4_D_H),
        (0x2, Return LISA_XVDP4_Q_W),
        (0x4, Return LISA_XVDP4_W_BU),
        (0x5, Return LISA_XVDP4_D_HU),
        (0x6, Return LISA_XVDP4_Q_WU)] (Return LISA_INVALID)),
    (0x36, Switch 15 0x7 [(0x0, Return LISA_XVDP4_W_BU_B),
        (0x1, Return LISA_XVDP4_D_HU_H),
        (0x2, Return LISA_XVDP4_Q_WU_W),
        (0x4, Return LISA_XVDP4ADD_W_B),
        (0x5, Return LISA_XVDP4ADD_D_H),
        (0x6, Return LISA_XVDP4ADD_Q_W)] (Return LISA_INVALID)),
    (0x37, Switch 15 0x7 [(0x0, Return LISA_XVDP4ADD_W_BU),
        (0x1, Return LISA_XVDP4ADD_D_HU),
        (0x2, Return LISA_XVDP4ADD_Q_WU),
        (0x4, Return LISA_XVDP4ADD_W_BU_B),
        (0x5, Return LISA_XVDP4ADD_D_HU_H),
        (0x6, Return LISA_XVDP4ADD_Q_WU_W)] (Return LISA_INVALID))]"

definition la_cases_12444 :: "(nat \<times> dtree) list" where
  "la_cases_12444 = [
    (0x38, Switch 15 0x7 [(0x0, Return LISA_XVDIV_B),
        (0x1, Return LISA_XVDIV_H),
        (0x2, Return LISA_XVDIV_W),
        (0x3, Return LISA_XVDIV_D),
        (0x4, Return LISA_XVMOD_B),
        (0x5, Return LISA_XVMOD_H),
        (0x6, Return LISA_XVMOD_W),
        (0x7, Return LISA_XVMOD_D)] (Return LISA_INVALID)),
    (0x39, Switch 15 0x7 [(0x0, Return LISA_XVDIV_BU),
        (0x1, Return LISA_XVDIV_HU),
        (0x2, Return LISA_XVDIV_WU),
        (0x3, Return LISA_XVDIV_DU),
        (0x4, Return LISA_XVMOD_BU),
        (0x5, Return LISA_XVMOD_HU),
        (0x6, Return LISA_XVMOD_WU),
        (0x7, Return LISA_XVMOD_DU)] (Return LISA_INVALID)),
    (0x3a, Switch 15 0x7 [(0x0, Return LISA_XVSLL_B),
        (0x1, Return LISA_XVSLL_H),
        (0x2, Return LISA_XVSLL_W),
        (0x3, Return LISA_XVSLL_D),
        (0x4, Return LISA_XVSRL_B),
        (0x5, Return LISA_XVSRL_H),
        (0x6, Return LISA_XVSRL_W),
        (0x7, Return LISA_XVSRL_D)] (Return LISA_INVALID)),
    (0x3b, Switch 15 0x7 [(0x0, Return LISA_XVSRA_B),
        (0x1, Return LISA_XVSRA_H),
        (0x2, Return LISA_XVSRA_W),
        (0x3, Return LISA_XVSRA_D),
        (0x4, Return LISA_XVROTR_B),
        (0x5, Return LISA_XVROTR_H),
        (0x6, Return LISA_XVROTR_W),
        (0x7, Return LISA_XVROTR_D)] (Return LISA_INVALID))]"

definition la_cases_12592 :: "(nat \<times> dtree) list" where
  "la_cases_12592 = [
    (0x3c, Switch 15 0x7 [(0x0, Return LISA_XVSRLR_B),
        (0x1, Return LISA_XVSRLR_H),
        (0x2, Return LISA_XVSRLR_W),
        (0x3, Return LISA_XVSRLR_D),
        (0x4, Return LISA_XVSRAR_B),
        (0x5, Return LISA_XVSRAR_H),
        (0x6, Return LISA_XVSRAR_W),
        (0x7, Return LISA_XVSRAR_D)] (Return LISA_INVALID)),
    (0x3d, Switch 15 0x7 [(0x1, Return LISA_XVSRLN_B_H),
        (0x2, Return LISA_XVSRLN_H_W),
        (0x3, Return LISA_XVSRLN_W_D),
        (0x5, Return LISA_XVSRAN_B_H),
        (0x6, Return LISA_XVSRAN_H_W),
        (0x7, Return LISA_XVSRAN_W_D)] (Return LISA_INVALID)),
    (0x3e, Switch 15 0x7 [(0x1, Return LISA_XVSRLRN_B_H),
        (0x2, Return LISA_XVSRLRN_H_W),
        (0x3, Return LISA_XVSRLRN_W_D),
        (0x5, Return LISA_XVSRARN_B_H),
        (0x6, Return LISA_XVSRARN_H_W),
        (0x7, Return LISA_XVSRARN_W_D)] (Return LISA_INVALID)),
    (0x3f, Switch 15 0x7 [(0x1, Return LISA_XVSSRLN_B_H),
        (0x2, Return LISA_XVSSRLN_H_W),
        (0x3, Return LISA_XVSSRLN_W_D),
        (0x5, Return LISA_XVSSRAN_B_H),
        (0x6, Return LISA_XVSSRAN_H_W),
        (0x7, Return LISA_XVSSRAN_W_D)] (Return LISA_INVALID))]"

definition la_cases_12716 :: "(nat \<times> dtree) list" where
  "la_cases_12716 = [
    (0x40, Switch 15 0x7 [(0x1, Return LISA_XVSSRLRN_B_H),
        (0x2, Return LISA_XVSSRLRN_H_W),
        (0x3, Return LISA_XVSSRLRN_W_D),
        (0x5, Return LISA_XVSSRARN_B_H),
        (0x6, Return LISA_XVSSRARN_H_W),
        (0x7, Return LISA_XVSSRARN_W_D)] (Return LISA_INVALID)),
    (0x41, Switch 15 0x7 [(0x1, Return LISA_XVSSRLN_BU_H),
        (0x2, Return LISA_XVSSRLN_HU_W),
        (0x3, Return LISA_XVSSRLN_WU_D),
        (0x5, Return LISA_XVSSRAN_BU_H),
        (0x6, Return LISA_XVSSRAN_HU_W),
        (0x7, Return LISA_XVSSRAN_WU_D)] (Return LISA_INVALID)),
    (0x42, Switch 15 0x7 [(0x1, Return LISA_XVSSRLRN_BU_H),
        (0x2, Return LISA_XVSSRLRN_HU_W),
        (0x3, Return LISA_XVSSRLRN_WU_D),
        (0x5, Return LISA_XVSSRARN_BU_H),
        (0x6, Return LISA_XVSSRARN_HU_W),
        (0x7, Return LISA_XVSSRARN_WU_D)] (Return LISA_INVALID)),
    (0x43, Switch 15 0x7 [(0x0, Return LISA_XVBITCLR_B),
        (0x1, Return LISA_XVBITCLR_H),
        (0x2, Return LISA_XVBITCLR_W),
        (0x3, Return LISA_XVBITCLR_D),
        (0x4, Return LISA_XVBITSET_B),
        (0x5, Return LISA_XVBITSET_H),
        (0x6, Return LISA_XVBITSET_W),
        (0x7, Return LISA_XVBITSET_D)] (Return LISA_INVALID))]"

definition la_cases_12840 :: "(nat \<times> dtree) list" where
  "la_cases_12840 = [
    (0x44, Switch 15 0x7 [(0x0, Return LISA_XVBITREV_B),
        (0x1, Return LISA_XVBITREV_H),
        (0x2, Return LISA_XVBITREV_W),
        (0x3, Return LISA_XVBITREV_D),
        (0x4, Return LISA_XVBSTRC12_B),
        (0x5, Return LISA_XVBSTRC12_H),
        (0x6, Return LISA_XVBSTRC12_W),
        (0x7, Return LISA_XVBSTRC12_D)] (Return LISA_INVALID)),
    (0x45, Switch 15 0x7 [(0x0, Return LISA_XVBSTRC21_B),
        (0x1, Return LISA_XVBSTRC21_H),
        (0x2, Return LISA_XVBSTRC21_W),
        (0x3, Return LISA_XVBSTRC21_D),
        (0x4, Return LISA_XVPACKEV_B),
        (0x5, Return LISA_XVPACKEV_H),
        (0x6, Return LISA_XVPACKEV_W),
        (0x7, Return LISA_XVPACKEV_D)] (Return LISA_INVALID)),
    (0x46, Switch 15 0x7 [(0x0, Return LISA_XVPACKOD_B),
        (0x1, Return LISA_XVPACKOD_H),
        (0x2, Return LISA_XVPACKOD_W),
        (0x3, Return LISA_XVPACKOD_D),
        (0x4, Return LISA_XVILVL_B),
        (0x5, Return LISA_XVILVL_H),
        (0x6, Return LISA_XVILVL_W),
        (0x7, Return LISA_XVILVL_D)] (Return LISA_INVALID)),
    (0x47, Switch 15 0x7 [(0x0, Return LISA_XVILVH_B),
        (0x1, Return LISA_XVILVH_H),
        (0x2, Return LISA_XVILVH_W),
        (0x3, Return LISA_XVILVH_D),
        (0x4, Return LISA_XVPICKEV_B),
        (0x5, Return LISA_XVPICKEV_H),
        (0x6, Return LISA_XVPICKEV_W),
        (0x7, Return LISA_XVPICKEV_D)] (Return LISA_INVALID))]"

definition la_cases_12988 :: "(nat \<times> dtree) list" where
  "la_cases_12988 = [
    (0x48, Switch 15 0x7 [(0x0, Return LISA_XVPICKOD_B),
        (0x1, Return LISA_XVPICKOD_H),
        (0x2, Return LISA_XVPICKOD_W),
        (0x3, Return LISA_XVPICKOD_D),
        (0x4, Return LISA_XVREPLVE_B),
        (0x5, Return LISA_XVREPLVE_H),
        (0x6, Return LISA_XVREPLVE_W),
        (0x7, Return LISA_XVREPLVE_D)] (Return LISA_INVALID)),
    (0x49, Switch 15 0x7 [(0x0, Return LISA_XVEXTRCOL_B),
        (0x1, Return LISA_XVEXTRCOL_H),
        (0x2, Return LISA_XVEXTRCOL_W),
        (0x3, Return LISA_XVEXTRCOL_D),
        (0x4, Return LISA_XVAND_V),
        (0x5, Return LISA_XVOR_V),
        (0x6, Return LISA_XVXOR_V),
        (0x7, Return LISA_XVNOR_V)] (Return LISA_INVALID)),
    (0x4a, Switch 15 0x7 [(0x0, Return LISA_XVANDN_V),
        (0x1, Return LISA_XVORN_V),
        (0x2, Return LISA_XVRANDSIGN_B),
        (0x3, Return LISA_XVRANDSIGN_H),
        (0x4, Return LISA_XVRORSIGN_B),
        (0x5, Return LISA_XVRORSIGN_H),
        (0x6, Return LISA_XVFRSTP_B),
        (0x7, Return LISA_XVFRSTP_H)] (Return LISA_INVALID)),
    (0x4b, Switch 15 0x7 [(0x0, Return LISA_XVCLRSTRR_V),
        (0x1, Return LISA_XVCLRSTRV_V),
        (0x2, Return LISA_XVADD_Q),
        (0x3, Return LISA_XVSUB_Q),
        (0x4, Return LISA_XVSIGNCOV_B),
        (0x5, Return LISA_XVSIGNCOV_H),
        (0x6, Return LISA_XVSIGNCOV_W),
        (0x7, Return LISA_XVSIGNCOV_D)] (Return LISA_INVALID))]"

definition la_cases_13136 :: "(nat \<times> dtree) list" where
  "la_cases_13136 = [
    (0x4c, Switch 15 0x7 [(0x0, Return LISA_INVALID),
        (0x1, Return LISA_XVFADD_S),
        (0x2, Return LISA_XVFADD_D),
        (0x3, Return LISA_INVALID),
        (0x4, Return LISA_INVALID),
        (0x5, Return LISA_XVFSUB_S),
        (0x6, Return LISA_XVFSUB_D),
        (0x7, Return LISA_INVALID)] (Return LISA_INVALID)),
    (0x4d, Switch 15 0x7 [(0x0, Return LISA_INVALID),
        (0x1, Return LISA_XVFADDSUB_S),
        (0x2, Return LISA_XVFADDSUB_D),
        (0x3, Return LISA_INVALID),
        (0x4, Return LISA_INVALID),
        (0x5, Return LISA_XVFSUBADD_S),
        (0x6, Return LISA_XVFSUBADD_D),
        (0x7, Return LISA_INVALID)] (Return LISA_INVALID)),
    (0x4e, Switch 15 0x7 [(0x0, Return LISA_INVALID),
        (0x1, Return LISA_XVFMUL_S),
        (0x2, Return LISA_XVFMUL_D),
        (0x3, Return LISA_INVALID),
        (0x4, Return LISA_INVALID),
        (0x5, Return LISA_XVFDIV_S),
        (0x6, Return LISA_XVFDIV_D),
        (0x7, Return LISA_INVALID)] (Return LISA_INVALID)),
    (0x4f, Switch 15 0x7 [(0x0, Return LISA_INVALID),
        (0x1, Return LISA_XVFMAX_S),
        (0x2, Return LISA_XVFMAX_D),
        (0x3, Return LISA_INVALID),
        (0x4, Return LISA_INVALID),
        (0x5, Return LISA_XVFMIN_S),
        (0x6, Return LISA_XVFMIN_D),
        (0x7, Return LISA_INVALID)] (Return LISA_INVALID))]"

definition la_cases_13284 :: "(nat \<times> dtree) list" where
  "la_cases_13284 = [
    (0x50, Switch 15 0x7 [(0x0, Return LISA_INVALID),
        (0x1, Return LISA_XVFMAXA_S),
        (0x2, Return LISA_XVFMAXA_D),
        (0x3, Return LISA_INVALID),
        (0x4, Return LISA_INVALID),
        (0x5, Return LISA_XVFMINA_S),
        (0x6, Return LISA_XVFMINA_D),
        (0x7, Return LISA_INVALID)] (Return LISA_INVALID)),
    (0x51, Switch 15 0x7 [(0x0, Return LISA_INVALID),
        (0x1, Return LISA_XVFSCALEB_S),
        (0x2, Return LISA_XVFSCALEB_D),
        (0x3, Return LISA_INVALID),
        (0x4, Return LISA_XVFCVT_H_S),
        (0x5, Return LISA_XVFCVT_S_D),
        (0x6, Return LISA_INVALID),
        (0x7, Return LISA_INVALID)] (Return LISA_INVALID)),
    (0x52, Switch 15 0x7 [(0x0, Return LISA_XVFFINT_S_L),
        (0x1, Return LISA_INVALID),
        (0x2, Return LISA_INVALID),
        (0x3, Return LISA_XVFTINT_W_D),
        (0x4, Return LISA_XVFTINTRM_W_D),
        (0x5, Return LISA_XVFTINTRP_W_D),
        (0x6, Return LISA_XVFTINTRZ_W_D),
        (0x7, Return LISA_XVFTINTRNE_W_D)] (Return LISA_INVALID)),
    (0x53, Switch 15 0x7 [(0x0, Return LISA_INVALID),
        (0x1, Return LISA_INVALID),
        (0x2, Return LISA_INVALID),
        (0x3, Return LISA_INVALID),
        (0x4, Return LISA_INVALID),
        (0x5, Return LISA_XVHADD4_H_BU),
        (0x6, Return LISA_XVSHUF4_W),
        (0x7, Return LISA_XVSHUF2_D)] (Return LISA_INVALID))]"

definition la_cases_13432 :: "(nat \<times> dtree) list" where
  "la_cases_13432 = [
    (0x58, Switch 15 0x7 [(0x0, Return LISA_XVPMUL_W),
        (0x1, Return LISA_XVPMUL_D),
        (0x2, Return LISA_XVPMUH_W),
        (0x3, Return LISA_XVPMUH_D),
        (0x4, Return LISA_XVPMULACC_W),
        (0x5, Return LISA_XVPMULACC_D),
        (0x6, Return LISA_XVPMUHACC_W),
        (0x7, Return LISA_XVPMUHACC_D)] (Return LISA_INVALID)),
    (0x59, Switch 15 0x7 [(0x0, Return LISA_XVPMULWL_H_B),
        (0x1, Return LISA_XVPMULWL_W_H),
        (0x2, Return LISA_XVPMULWL_D_W),
        (0x3, Return LISA_XVPMULWL_Q_D),
        (0x4, Return LISA_XVPMULWH_H_B),
        (0x5, Return LISA_XVPMULWH_W_H),
        (0x6, Return LISA_XVPMULWH_D_W),
        (0x7, Return LISA_XVPMULWH_Q_D)] (Return LISA_INVALID)),
    (0x5a, Switch 15 0x7 [(0x0, Return LISA_XVPMADDWL_H_B),
        (0x1, Return LISA_XVPMADDWL_W_H),
        (0x2, Return LISA_XVPMADDWL_D_W),
        (0x3, Return LISA_XVPMADDWL_Q_D),
        (0x4, Return LISA_XVPMADDWH_H_B),
        (0x5, Return LISA_XVPMADDWH_W_H),
        (0x6, Return LISA_XVPMADDWH_D_W),
        (0x7, Return LISA_XVPMADDWH_Q_D)] (Return LISA_INVALID)),
    (0x5b, Switch 15 0x7 [(0x0, Return LISA_XVPDP2_Q_D),
        (0x1, Return LISA_XVPDP2ADD_Q_D)] (Return LISA_INVALID))]"

definition la_cases_13556 :: "(nat \<times> dtree) list" where
  "la_cases_13556 = [
    (0x5c, Switch 15 0x7 [(0x0, Return LISA_XVCDP4_RE_D_H),
        (0x1, Return LISA_XVCDP4_IM_D_H),
        (0x2, Return LISA_XVCDP4ADD_RE_D_H),
        (0x3, Return LISA_XVCDP4ADD_IM_D_H),
        (0x4, Return LISA_XVCDP2_RE_Q_W),
        (0x5, Return LISA_XVCDP2_IM_Q_W),
        (0x6, Return LISA_XVCDP2ADD_RE_Q_W),
        (0x7, Return LISA_XVCDP2ADD_IM_Q_W)] (Return LISA_INVALID)),
    (0x5e, Switch 15 0x7 [(0x2, Return LISA_XVSIGNSEL_W),
        (0x3, Return LISA_XVSIGNSEL_D),
        (0x5, Return LISA_XVSHUF_H),
        (0x6, Return LISA_XVSHUF_W),
        (0x7, Return LISA_XVSHUF_D)] (Return LISA_INVALID)),
    (0x5f, Switch 15 0x7 [(0x2, Return LISA_XVPERM_W)] (Return LISA_INVALID)),
    (0xa0, Switch 15 0x7 [(0x0, Return LISA_XVSEQI_B),
        (0x1, Return LISA_XVSEQI_H),
        (0x2, Return LISA_XVSEQI_W),
        (0x3, Return LISA_XVSEQI_D),
        (0x4, Return LISA_XVSLEI_B),
        (0x5, Return LISA_XVSLEI_H),
        (0x6, Return LISA_XVSLEI_W),
        (0x7, Return LISA_XVSLEI_D)] (Return LISA_INVALID)),
    (0xa1, Switch 15 0x7 [(0x0, Return LISA_XVSLEI_BU),
        (0x1, Return LISA_XVSLEI_HU),
        (0x2, Return LISA_XVSLEI_WU),
        (0x3, Return LISA_XVSLEI_DU),
        (0x4, Return LISA_XVSLTI_B),
        (0x5, Return LISA_XVSLTI_H),
        (0x6, Return LISA_XVSLTI_W),
        (0x7, Return LISA_XVSLTI_D)] (Return LISA_INVALID))]"

definition la_cases_13701 :: "(nat \<times> dtree) list" where
  "la_cases_13701 = [
    (0xa2, Switch 15 0x7 [(0x0, Return LISA_XVSLTI_BU),
        (0x1, Return LISA_XVSLTI_HU),
        (0x2, Return LISA_XVSLTI_WU),
        (0x3, Return LISA_XVSLTI_DU),
        (0x4, Return LISA_XVADDI_BU),
        (0x5, Return LISA_XVADDI_HU),
        (0x6, Return LISA_XVADDI_WU),
        (0x7, Return LISA_XVADDI_DU)] (Return LISA_INVALID)),
    (0xa3, Switch 15 0x7 [(0x0, Return LISA_XVSUBI_BU),
        (0x1, Return LISA_XVSUBI_HU),
        (0x2, Return LISA_XVSUBI_WU),
        (0x3, Return LISA_XVSUBI_DU),
        (0x4, Return LISA_XVBSLL_V),
        (0x5, Return LISA_XVBSRL_V)] (Return LISA_INVALID)),
    (0xa4, Switch 15 0x7 [(0x0, Return LISA_XVMAXI_B),
        (0x1, Return LISA_XVMAXI_H),
        (0x2, Return LISA_XVMAXI_W),
        (0x3, Return LISA_XVMAXI_D),
        (0x4, Return LISA_XVMINI_B),
        (0x5, Return LISA_XVMINI_H),
        (0x6, Return LISA_XVMINI_W),
        (0x7, Return LISA_XVMINI_D)] (Return LISA_INVALID)),
    (0xa5, Switch 15 0x7 [(0x0, Return LISA_XVMAXI_BU),
        (0x1, Return LISA_XVMAXI_HU),
        (0x2, Return LISA_XVMAXI_WU),
        (0x3, Return LISA_XVMAXI_DU),
        (0x4, Return LISA_XVMINI_BU),
        (0x5, Return LISA_XVMINI_HU),
        (0x6, Return LISA_XVMINI_WU),
        (0x7, Return LISA_XVMINI_DU)] (Return LISA_INVALID))]"

definition la_cases_13841 :: "(nat \<times> dtree) list" where
  "la_cases_13841 = [
    (0xa6, Switch 15 0x7 [(0x0, Return LISA_XVRANDSIGNI_B),
        (0x1, Return LISA_XVRANDSIGNI_H),
        (0x2, Return LISA_XVRORSIGNI_B),
        (0x3, Return LISA_XVRORSIGNI_H),
        (0x4, Return LISA_XVFRSTPI_B),
        (0x5, Return LISA_XVFRSTPI_H),
        (0x6, Return LISA_XVCLRSTRI_V),
        (0x7, Return LISA_XVMEPATMSK_V)] (Return LISA_INVALID)),
    (0xa7, la_tree_13880),
    (0xa8, Switch 16 0x3 [(0x0, Switch 15 0x1 [(0x0, Switch 14 0x1 [(0x0, Switch 13 0x1 [(0x1, Return LISA_XVROTRI_B)] (Return LISA_INVALID)),
            (0x1, Return LISA_XVROTRI_H)] (Return LISA_INVALID)),
          (0x1, Return LISA_XVROTRI_W)] (Return LISA_INVALID)),
        (0x1, Return LISA_XVROTRI_D)] (Return LISA_INVALID)),
    (0xa9, Switch 16 0x3 [(0x0, Switch 15 0x1 [(0x0, Switch 14 0x1 [(0x0, Switch 13 0x1 [(0x1, Return LISA_XVSRLRI_B)] (Return LISA_INVALID)),
            (0x1, Return LISA_XVSRLRI_H)] (Return LISA_INVALID)),
          (0x1, Return LISA_XVSRLRI_W)] (Return LISA_INVALID)),
        (0x1, Return LISA_XVSRLRI_D)] (Return LISA_INVALID)),
    (0xaa, Switch 16 0x3 [(0x0, Switch 15 0x1 [(0x0, Switch 14 0x1 [(0x0, Switch 13 0x1 [(0x1, Return LISA_XVSRARI_B)] (Return LISA_INVALID)),
            (0x1, Return LISA_XVSRARI_H)] (Return LISA_INVALID)),
          (0x1, Return LISA_XVSRARI_W)] (Return LISA_INVALID)),
        (0x1, Return LISA_XVSRARI_D)] (Return LISA_INVALID))]"

definition la_cases_14864 :: "(nat \<times> dtree) list" where
  "la_cases_14864 = [
    (0xba, Switch 15 0x7 [(0x6, Return LISA_INVALID),
        (0x7, Switch 14 0x1 [(0x0, Return LISA_INVALID),
          (0x1, Switch 13 0x1 [(0x0, Return LISA_XVINSGR2VR_W),
            (0x1, Switch 12 0x1 [(0x0, Return LISA_XVINSGR2VR_D)] (Return LISA_INVALID))] (Return LISA_INVALID))] (Return LISA_INVALID))] (Return LISA_INVALID)),
    (0xbb, Switch 15 0x7 [(0x6, Return LISA_INVALID),
        (0x7, Switch 14 0x1 [(0x0, Return LISA_INVALID),
          (0x1, Switch 13 0x1 [(0x0, Return LISA_XVPICKVE2GR_W),
            (0x1, Switch 12 0x1 [(0x0, Return LISA_XVPICKVE2GR_D)] (Return LISA_INVALID))] (Return LISA_INVALID))] (Return LISA_INVALID))] (Return LISA_INVALID)),
    (0xbc, Switch 15 0x7 [(0x6, Return LISA_INVALID),
        (0x7, Switch 14 0x1 [(0x0, Return LISA_INVALID),
          (0x1, Switch 13 0x1 [(0x0, Return LISA_XVPICKVE2GR_WU),
            (0x1, Switch 12 0x1 [(0x0, Return LISA_XVPICKVE2GR_DU)] (Return LISA_INVALID))] (Return LISA_INVALID))] (Return LISA_INVALID))] (Return LISA_INVALID)),
    (0xbd, Switch 14 0xf [(0xe, Return LISA_XVREPL128VEI_B),
        (0xf, Switch 13 0x1 [(0x0, Return LISA_XVREPL128VEI_H),
          (0x1, Switch 12 0x1 [(0x0, Return LISA_XVREPL128VEI_W),
            (0x1, Switch 11 0x1 [(0x0, Return LISA_XVREPL128VEI_D)] (Return LISA_INVALID))] (Return LISA_INVALID))] (Return LISA_INVALID))] (Return LISA_INVALID))]"

definition la_cases_15008 :: "(nat \<times> dtree) list" where
  "la_cases_15008 = [
    (0xbe, Switch 14 0xf [(0xe, Return LISA_XVEXTRCOLI_B),
        (0xf, Switch 13 0x1 [(0x0, Return LISA_XVEXTRCOLI_H),
          (0x1, Switch 12 0x1 [(0x0, Return LISA_XVEXTRCOLI_W),
            (0x1, Switch 11 0x1 [(0x0, Return LISA_XVEXTRCOLI_D)] (Return LISA_INVALID))] (Return LISA_INVALID))] (Return LISA_INVALID))] (Return LISA_INVALID)),
    (0xbf, Switch 15 0x7 [(0x6, Return LISA_INVALID),
        (0x7, Switch 14 0x1 [(0x0, Return LISA_INVALID),
          (0x1, Switch 13 0x1 [(0x0, Return LISA_XVINSVE0_W),
            (0x1, Switch 12 0x1 [(0x0, Return LISA_XVINSVE0_D)] (Return LISA_INVALID))] (Return LISA_INVALID))] (Return LISA_INVALID))] (Return LISA_INVALID)),
    (0xc0, Switch 15 0x7 [(0x6, Return LISA_INVALID),
        (0x7, Switch 14 0x1 [(0x0, Return LISA_INVALID),
          (0x1, Switch 13 0x1 [(0x0, Return LISA_XVPICKVE_W),
            (0x1, Switch 12 0x1 [(0x0, Return LISA_XVPICKVE_D)] (Return LISA_INVALID))] (Return LISA_INVALID))] (Return LISA_INVALID))] (Return LISA_INVALID)),
    (0xc1, Switch 10 0xff [(0xc0, Return LISA_XVREPLVE0_B),
        (0xe0, Return LISA_XVREPLVE0_H),
        (0xf0, Return LISA_XVREPLVE0_W),
        (0xf8, Return LISA_XVREPLVE0_D),
        (0xfc, Return LISA_XVREPLVE0_Q)] (Return LISA_INVALID))]"

definition la_cases_15141 :: "(nat \<times> dtree) list" where
  "la_cases_15141 = [
    (0xc2, Switch 16 0x3 [(0x0, Switch 15 0x1 [(0x0, Switch 14 0x1 [(0x0, Switch 13 0x1 [(0x1, Return LISA_XVSLLWIL_H_B)] (Return LISA_INVALID)),
            (0x1, Return LISA_XVSLLWIL_W_H)] (Return LISA_INVALID)),
          (0x1, Return LISA_XVSLLWIL_D_W)] (Return LISA_INVALID)),
        (0x1, If 0xfc00 0x0 (Return LISA_XVEXTL_Q_D) (Return LISA_INVALID))] (Return LISA_INVALID)),
    (0xc3, Switch 16 0x3 [(0x0, Switch 15 0x1 [(0x0, Switch 14 0x1 [(0x0, Switch 13 0x1 [(0x1, Return LISA_XVSLLWIL_HU_BU)] (Return LISA_INVALID)),
            (0x1, Return LISA_XVSLLWIL_WU_HU)] (Return LISA_INVALID)),
          (0x1, Return LISA_XVSLLWIL_DU_WU)] (Return LISA_INVALID)),
        (0x1, If 0xfc00 0x0 (Return LISA_XVEXTL_QU_DU) (Return LISA_INVALID))] (Return LISA_INVALID)),
    (0xc4, Switch 16 0x3 [(0x0, Switch 15 0x1 [(0x0, Switch 14 0x1 [(0x0, Switch 13 0x1 [(0x1, Return LISA_XVBITCLRI_B)] (Return LISA_INVALID)),
            (0x1, Return LISA_XVBITCLRI_H)] (Return LISA_INVALID)),
          (0x1, Return LISA_XVBITCLRI_W)] (Return LISA_INVALID)),
        (0x1, Return LISA_XVBITCLRI_D)] (Return LISA_INVALID))]"

definition la_cases_15259 :: "(nat \<times> dtree) list" where
  "la_cases_15259 = [
    (0xc5, Switch 16 0x3 [(0x0, Switch 15 0x1 [(0x0, Switch 14 0x1 [(0x0, Switch 13 0x1 [(0x1, Return LISA_XVBITSETI_B)] (Return LISA_INVALID)),
            (0x1, Return LISA_XVBITSETI_H)] (Return LISA_INVALID)),
          (0x1, Return LISA_XVBITSETI_W)] (Return LISA_INVALID)),
        (0x1, Return LISA_XVBITSETI_D)] (Return LISA_INVALID)),
    (0xc6, Switch 16 0x3 [(0x0, Switch 15 0x1 [(0x0, Switch 14 0x1 [(0x0, Switch 13 0x1 [(0x1, Return LISA_XVBITREVI_B)] (Return LISA_INVALID)),
            (0x1, Return LISA_XVBITREVI_H)] (Return LISA_INVALID)),
          (0x1, Return LISA_XVBITREVI_W)] (Return LISA_INVALID)),
        (0x1, Return LISA_XVBITREVI_D)] (Return LISA_INVALID)),
    (0xc7, Switch 16 0x3 [(0x0, Switch 15 0x1 [(0x0, Switch 14 0x1 [(0x0, Switch 13 0x1 [(0x1, Return LISA_XVBSTRC12I_B)] (Return LISA_INVALID)),
            (0x1, Return LISA_XVBSTRC12I_H)] (Return LISA_INVALID)),
          (0x1, Return LISA_XVBSTRC12I_W)] (Return LISA_INVALID)),
        (0x1, Return LISA_XVBSTRC12I_D)] (Return LISA_INVALID)),
    (0xc8, Switch 16 0x3 [(0x0, Switch 15 0x1 [(0x0, Switch 14 0x1 [(0x0, Switch 13 0x1 [(0x1, Return LISA_XVBSTRC21I_B)] (Return LISA_INVALID)),
            (0x1, Return LISA_XVBSTRC21I_H)] (Return LISA_INVALID)),
          (0x1, Return LISA_XVBSTRC21I_W)] (Return LISA_INVALID)),
        (0x1, Return LISA_XVBSTRC21I_D)] (Return LISA_INVALID))]"

definition la_cases_15403 :: "(nat \<times> dtree) list" where
  "la_cases_15403 = [
    (0xc9, Switch 16 0x3 [(0x0, Switch 15 0x1 [(0x0, Switch 14 0x1 [(0x0, Switch 13 0x1 [(0x1, Return LISA_XVSAT_B)] (Return LISA_INVALID)),
            (0x1, Return LISA_XVSAT_H)] (Return LISA_INVALID)),
          (0x1, Return LISA_XVSAT_W)] (Return LISA_INVALID)),
        (0x1, Return LISA_XVSAT_D)] (Return LISA_INVALID)),
    (0xca, Switch 16 0x3 [(0x0, Switch 15 0x1 [(0x0, Switch 14 0x1 [(0x0, Switch 13 0x1 [(0x1, Return LISA_XVSAT_BU)] (Return LISA_INVALID)),
            (0x1, Return LISA_XVSAT_HU)] (Return LISA_INVALID)),
          (0x1, Return LISA_XVSAT_WU)] (Return LISA_INVALID)),
        (0x1, Return LISA_XVSAT_DU)] (Return LISA_INVALID)),
    (0xcb, Switch 16 0x3 [(0x0, Switch 15 0x1 [(0x0, Switch 14 0x1 [(0x0, Switch 13 0x1 [(0x1, Return LISA_XVSLLI_B)] (Return LISA_INVALID)),
            (0x1, Return LISA_XVSLLI_H)] (Return LISA_INVALID)),
          (0x1, Return LISA_XVSLLI_W)] (Return LISA_INVALID)),
        (0x1, Return LISA_XVSLLI_D)] (Return LISA_INVALID)),
    (0xcc, Switch 16 0x3 [(0x0, Switch 15 0x1 [(0x0, Switch 14 0x1 [(0x0, Switch 13 0x1 [(0x1, Return LISA_XVSRLI_B)] (Return LISA_INVALID)),
            (0x1, Return LISA_XVSRLI_H)] (Return LISA_INVALID)),
          (0x1, Return LISA_XVSRLI_W)] (Return LISA_INVALID)),
        (0x1, Return LISA_XVSRLI_D)] (Return LISA_INVALID))]"

definition la_cases_15547 :: "(nat \<times> dtree) list" where
  "la_cases_15547 = [
    (0xcd, Switch 16 0x3 [(0x0, Switch 15 0x1 [(0x0, Switch 14 0x1 [(0x0, Switch 13 0x1 [(0x1, Return LISA_XVSRAI_B)] (Return LISA_INVALID)),
            (0x1, Return LISA_XVSRAI_H)] (Return LISA_INVALID)),
          (0x1, Return LISA_XVSRAI_W)] (Return LISA_INVALID)),
        (0x1, Return LISA_XVSRAI_D)] (Return LISA_INVALID)),
    (0xce, Switch 17 0x1 [(0x0, Switch 16 0x1 [(0x0, Switch 15 0x1 [(0x0, Switch 14 0x1 [(0x1, Return LISA_XVSRLRNENI_B_H)] (Return LISA_INVALID)),
            (0x1, Return LISA_XVSRLRNENI_H_W)] (Return LISA_INVALID)),
          (0x1, Return LISA_XVSRLRNENI_W_D)] (Return LISA_INVALID)),
        (0x1, Return LISA_XVSRLRNENI_D_Q)] (Return LISA_INVALID)),
    (0xcf, Switch 17 0x1 [(0x0, Switch 16 0x1 [(0x0, Switch 15 0x1 [(0x0, Switch 14 0x1 [(0x1, Return LISA_XVSRARNENI_B_H)] (Return LISA_INVALID)),
            (0x1, Return LISA_XVSRARNENI_H_W)] (Return LISA_INVALID)),
          (0x1, Return LISA_XVSRARNENI_W_D)] (Return LISA_INVALID)),
        (0x1, Return LISA_XVSRARNENI_D_Q)] (Return LISA_INVALID)),
    (0xd0, Switch 17 0x1 [(0x0, Switch 16 0x1 [(0x0, Switch 15 0x1 [(0x0, Switch 14 0x1 [(0x1, Return LISA_XVSRLNI_B_H)] (Return LISA_INVALID)),
            (0x1, Return LISA_XVSRLNI_H_W)] (Return LISA_INVALID)),
          (0x1, Return LISA_XVSRLNI_W_D)] (Return LISA_INVALID)),
        (0x1, Return LISA_XVSRLNI_D_Q)] (Return LISA_INVALID))]"

definition la_cases_15691 :: "(nat \<times> dtree) list" where
  "la_cases_15691 = [
    (0xd1, Switch 17 0x1 [(0x0, Switch 16 0x1 [(0x0, Switch 15 0x1 [(0x0, Switch 14 0x1 [(0x1, Return LISA_XVSRLRNI_B_H)] (Return LISA_INVALID)),
            (0x1, Return LISA_XVSRLRNI_H_W)] (Return LISA_INVALID)),
          (0x1, Return LISA_XVSRLRNI_W_D)] (Return LISA_INVALID)),
        (0x1, Return LISA_XVSRLRNI_D_Q)] (Return LISA_INVALID)),
    (0xd2, Switch 17 0x1 [(0x0, Switch 16 0x1 [(0x0, Switch 15 0x1 [(0x0, Switch 14 0x1 [(0x1, Return LISA_XVSSRLNI_B_H)] (Return LISA_INVALID)),
            (0x1, Return LISA_XVSSRLNI_H_W)] (Return LISA_INVALID)),
          (0x1, Return LISA_XVSSRLNI_W_D)] (Return LISA_INVALID)),
        (0x1, Return LISA_XVSSRLNI_D_Q)] (Return LISA_INVALID)),
    (0xd3, Switch 17 0x1 [(0x0, Switch 16 0x1 [(0x0, Switch 15 0x1 [(0x0, Switch 14 0x1 [(0x1, Return LISA_XVSSRLNI_BU_H)] (Return LISA_INVALID)),
            (0x1, Return LISA_XVSSRLNI_HU_W)] (Return LISA_INVALID)),
          (0x1, Return LISA_XVSSRLNI_WU_D)] (Return LISA_INVALID)),
        (0x1, Return LISA_XVSSRLNI_DU_Q)] (Return LISA_INVALID)),
    (0xd4, Switch 17 0x1 [(0x0, Switch 16 0x1 [(0x0, Switch 15 0x1 [(0x0, Switch 14 0x1 [(0x1, Return LISA_XVSSRLRNI_B_H)] (Return LISA_INVALID)),
            (0x1, Return LISA_XVSSRLRNI_H_W)] (Return LISA_INVALID)),
          (0x1, Return LISA_XVSSRLRNI_W_D)] (Return LISA_INVALID)),
        (0x1, Return LISA_XVSSRLRNI_D_Q)] (Return LISA_INVALID))]"

definition la_cases_15835 :: "(nat \<times> dtree) list" where
  "la_cases_15835 = [
    (0xd5, Switch 17 0x1 [(0x0, Switch 16 0x1 [(0x0, Switch 15 0x1 [(0x0, Switch 14 0x1 [(0x1, Return LISA_XVSSRLRNI_BU_H)] (Return LISA_INVALID)),
            (0x1, Return LISA_XVSSRLRNI_HU_W)] (Return LISA_INVALID)),
          (0x1, Return LISA_XVSSRLRNI_WU_D)] (Return LISA_INVALID)),
        (0x1, Return LISA_XVSSRLRNI_DU_Q)] (Return LISA_INVALID)),
    (0xd6, Switch 17 0x1 [(0x0, Switch 16 0x1 [(0x0, Switch 15 0x1 [(0x0, Switch 14 0x1 [(0x1, Return LISA_XVSRANI_B_H)] (Return LISA_INVALID)),
            (0x1, Return LISA_XVSRANI_H_W)] (Return LISA_INVALID)),
          (0x1, Return LISA_XVSRANI_W_D)] (Return LISA_INVALID)),
        (0x1, Return LISA_XVSRANI_D_Q)] (Return LISA_INVALID)),
    (0xd7, Switch 17 0x1 [(0x0, Switch 16 0x1 [(0x0, Switch 15 0x1 [(0x0, Switch 14 0x1 [(0x1, Return LISA_XVSRARNI_B_H)] (Return LISA_INVALID)),
            (0x1, Return LISA_XVSRARNI_H_W)] (Return LISA_INVALID)),
          (0x1, Return LISA_XVSRARNI_W_D)] (Return LISA_INVALID)),
        (0x1, Return LISA_XVSRARNI_D_Q)] (Return LISA_INVALID)),
    (0xd8, Switch 17 0x1 [(0x0, Switch 16 0x1 [(0x0, Switch 15 0x1 [(0x0, Switch 14 0x1 [(0x1, Return LISA_XVSSRANI_B_H)] (Return LISA_INVALID)),
            (0x1, Return LISA_XVSSRANI_H_W)] (Return LISA_INVALID)),
          (0x1, Return LISA_XVSSRANI_W_D)] (Return LISA_INVALID)),
        (0x1, Return LISA_XVSSRANI_D_Q)] (Return LISA_INVALID))]"

definition la_cases_15979 :: "(nat \<times> dtree) list" where
  "la_cases_15979 = [
    (0xd9, Switch 17 0x1 [(0x0, Switch 16 0x1 [(0x0, Switch 15 0x1 [(0x0, Switch 14 0x1 [(0x1, Return LISA_XVSSRANI_BU_H)] (Return LISA_INVALID)),
            (0x1, Return LISA_XVSSRANI_HU_W)] (Return LISA_INVALID)),
          (0x1, Return LISA_XVSSRANI_WU_D)] (Return LISA_INVALID)),
        (0x1, Return LISA_XVSSRANI_DU_Q)] (Return LISA_INVALID)),
    (0xda, Switch 17 0x1 [(0x0, Switch 16 0x1 [(0x0, Switch 15 0x1 [(0x0, Switch 14 0x1 [(0x1, Return LISA_XVSSRARNI_B_H)] (Return LISA_INVALID)),
            (0x1, Return LISA_XVSSRARNI_H_W)] (Return LISA_INVALID)),
          (0x1, Return LISA_XVSSRARNI_W_D)] (Return LISA_INVALID)),
        (0x1, Return LISA_XVSSRARNI_D_Q)] (Return LISA_INVALID)),
    (0xdb, Switch 17 0x1 [(0x0, Switch 16 0x1 [(0x0, Switch 15 0x1 [(0x0, Switch 14 0x1 [(0x1, Return LISA_XVSSRARNI_BU_H)] (Return LISA_INVALID)),
            (0x1, Return LISA_XVSSRARNI_HU_W)] (Return LISA_INVALID)),
          (0x1, Return LISA_XVSSRARNI_WU_D)] (Return LISA_INVALID)),
        (0x1, Return LISA_XVSSRARNI_DU_Q)] (Return LISA_INVALID)),
    (0xdc, Switch 17 0x1 [(0x0, Switch 16 0x1 [(0x0, Switch 15 0x1 [(0x0, Switch 14 0x1 [(0x1, Return LISA_XVSSRLRNENI_B_H)] (Return LISA_INVALID)),
            (0x1, Return LISA_XVSSRLRNENI_H_W)] (Return LISA_INVALID)),
          (0x1, Return LISA_XVSSRLRNENI_W_D)] (Return LISA_INVALID)),
        (0x1, Return LISA_XVSSRLRNENI_D_Q)] (Return LISA_INVALID))]"

definition la_cases_16123 :: "(nat \<times> dtree) list" where
  "la_cases_16123 = [
    (0xdd, Switch 17 0x1 [(0x0, Switch 16 0x1 [(0x0, Switch 15 0x1 [(0x0, Switch 14 0x1 [(0x1, Return LISA_XVSSRLRNENI_BU_H)] (Return LISA_INVALID)),
            (0x1, Return LISA_XVSSRLRNENI_HU_W)] (Return LISA_INVALID)),
          (0x1, Return LISA_XVSSRLRNENI_WU_D)] (Return LISA_INVALID)),
        (0x1, Return LISA_XVSSRLRNENI_DU_Q)] (Return LISA_INVALID)),
    (0xde, Switch 17 0x1 [(0x0, Switch 16 0x1 [(0x0, Switch 15 0x1 [(0x0, Switch 14 0x1 [(0x1, Return LISA_XVSSRARNENI_B_H)] (Return LISA_INVALID)),
            (0x1, Return LISA_XVSSRARNENI_H_W)] (Return LISA_INVALID)),
          (0x1, Return LISA_XVSSRARNENI_W_D)] (Return LISA_INVALID)),
        (0x1, Return LISA_XVSSRARNENI_D_Q)] (Return LISA_INVALID)),
    (0xdf, Switch 17 0x1 [(0x0, Switch 16 0x1 [(0x0, Switch 15 0x1 [(0x0, Switch 14 0x1 [(0x1, Return LISA_XVSSRARNENI_BU_H)] (Return LISA_INVALID)),
            (0x1, Return LISA_XVSSRARNENI_HU_W)] (Return LISA_INVALID)),
          (0x1, Return LISA_XVSSRARNENI_WU_D)] (Return LISA_INVALID)),
        (0x1, Return LISA_XVSSRARNENI_DU_Q)] (Return LISA_INVALID)),
    (0xe0, Return LISA_XVEXTRINS_D),
    (0xe1, Return LISA_XVEXTRINS_W),
    (0xe2, Return LISA_XVEXTRINS_H),
    (0xe3, Return LISA_XVEXTRINS_B),
    (0xe4, Return LISA_XVSHUF4I_B),
    (0xe5, Return LISA_XVSHUF4I_H),
    (0xe6, Return LISA_XVSHUF4I_W),
    (0xe7, Return LISA_XVSHUF4I_D),
    (0xe8, Return LISA_XVSHUFI1_B),
    (0xe9, Return LISA_XVSHUFI2_B)]"

definition la_cases_16271 :: "(nat \<times> dtree) list" where
  "la_cases_16271 = [
    (0xea, Return LISA_XVSHUFI3_B),
    (0xeb, Return LISA_XVSHUFI4_B),
    (0xec, Return LISA_XVSHUFI1_H),
    (0xed, Return LISA_XVSHUFI2_H),
    (0xee, Return LISA_XVSELI_H),
    (0xef, Return LISA_XVSELI_W),
    (0xf0, Return LISA_XVSELI_D),
    (0xf1, Return LISA_XVBITSELI_B),
    (0xf2, Return LISA_XVBITMVZI_B),
    (0xf3, Return LISA_XVBITMVNZI_B),
    (0xf4, Return LISA_XVANDI_B),
    (0xf5, Return LISA_XVORI_B),
    (0xf6, Return LISA_XVXORI_B),
    (0xf7, Return LISA_XVNORI_B),
    (0xf8, Return LISA_XVLDI),
    (0xf9, Return LISA_XVPERMI_W),
    (0xfa, Return LISA_XVPERMI_D),
    (0xfb, Return LISA_XVPERMI_Q)]"

definition la_tree_10419 :: dtree where
  "la_tree_10419 = Switch 18 0xff (la_cases_10420 @ la_cases_10568 @ la_cases_10716 @ la_cases_10864 @ la_cases_11012 @ la_cases_11160 @ la_cases_11308 @ la_cases_11456 @ la_cases_11596 @ la_cases_11728 @ la_cases_11876 @ la_cases_12024 @ la_cases_12172 @ la_cases_12320 @ la_cases_12444 @ la_cases_12592 @ la_cases_12716 @ la_cases_12840 @ la_cases_12988 @ la_cases_13136 @ la_cases_13284 @ la_cases_13432 @ la_cases_13556 @ la_cases_13701 @ la_cases_13841 @ la_cases_14864 @ la_cases_15008 @ la_cases_15141 @ la_cases_15259 @ la_cases_15403 @ la_cases_15547 @ la_cases_15691 @ la_cases_15835 @ la_cases_15979 @ la_cases_16123 @ la_cases_16271) (Return LISA_INVALID)"

definition la_cases_559 :: "(nat \<times> dtree) list" where
  "la_cases_559 = [
    (0x0, la_tree_561),
    (0x1, la_tree_3370),
    (0x3, la_tree_3572),
    (0x4, Return LISA_ADDU16I_D),
    (0x5, Switch 25 0x1 [(0x0, Return LISA_LU12I_W),
        (0x1, Return LISA_LU32I_D)] (Return LISA_INVALID)),
    (0x6, Switch 25 0x1 [(0x0, Return LISA_PCADDI),
        (0x1, Return LISA_PCALAU12I)] (Return LISA_INVALID)),
    (0x7, Switch 25 0x1 [(0x0, Return LISA_PCADDU12I),
        (0x1, Return LISA_PCADDU18I)] (Return LISA_INVALID)),
    (0x8, Switch 24 0x3 [(0x0, Return LISA_LL_W),
        (0x1, Return LISA_SC_W),
        (0x2, Return LISA_LL_D),
        (0x3, Return LISA_SC_D)] (Return LISA_INVALID)),
    (0x9, Switch 24 0x3 [(0x0, Return LISA_LDPTR_W),
        (0x1, Return LISA_STPTR_W),
        (0x2, Return LISA_LDPTR_D),
        (0x3, Return LISA_STPTR_D)] (Return LISA_INVALID))]"

definition la_cases_3850 :: "(nat \<times> dtree) list" where
  "la_cases_3850 = [
    (0xa, Switch 22 0xf [(0x0, Return LISA_LD_B),
        (0x1, Return LISA_LD_H),
        (0x2, Return LISA_LD_W),
        (0x3, Return LISA_LD_D),
        (0x4, Return LISA_ST_B),
        (0x5, Return LISA_ST_H),
        (0x6, Return LISA_ST_W),
        (0x7, Return LISA_ST_D),
        (0x8, Return LISA_LD_BU),
        (0x9, Return LISA_LD_HU),
        (0xa, Return LISA_LD_WU),
        (0xb, Return LISA_PRELD),
        (0xc, Return LISA_FLD_S),
        (0xd, Return LISA_FST_S),
        (0xe, Return LISA_FLD_D),
        (0xf, Return LISA_FST_D)] (Return LISA_INVALID)),
    (0xb, Switch 22 0xf [(0x0, Return LISA_VLD),
        (0x1, Return LISA_VST),
        (0x2, Return LISA_XVLD),
        (0x3, Return LISA_XVST),
        (0x8, Return LISA_LDL_W),
        (0x9, Return LISA_LDR_W),
        (0xa, Return LISA_LDL_D),
        (0xb, Return LISA_LDR_D),
        (0xc, Return LISA_STL_W),
        (0xd, Return LISA_STR_W),
        (0xe, Return LISA_STL_D),
        (0xf, Return LISA_STR_D)] (Return LISA_INVALID)),
    (0xc, la_tree_3974),
    (0xe, la_tree_4118),
    (0x10, Return LISA_BEQZ),
    (0x11, Return LISA_BNEZ)]"

definition la_cases_4457 :: "(nat \<times> dtree) list" where
  "la_cases_4457 = [
    (0x12, Switch 8 0x3 [(0x0, Return LISA_BCEQZ),
        (0x1, Return LISA_BCNEZ),
        (0x2, Switch 5 0x7 [(0x0, Return LISA_JISCR0)] (Return LISA_INVALID)),
        (0x3, Switch 5 0x7 [(0x0, Return LISA_JISCR1)] (Return LISA_INVALID))] (Return LISA_INVALID)),
    (0x13, Return LISA_JIRL),
    (0x14, Return LISA_B),
    (0x15, Return LISA_BL),
    (0x16, Return LISA_BEQ),
    (0x17, Return LISA_BNE),
    (0x18, Return LISA_BLT),
    (0x19, Return LISA_BGE),
    (0x1a, Return LISA_BLTU),
    (0x1b, Return LISA_BGEU),
    (0x1c, la_tree_4526),
    (0x1d, la_tree_10419)]"

definition la_tree_558 :: dtree where
  "la_tree_558 = Switch 26 0x3f (la_cases_559 @ la_cases_3850 @ la_cases_4457) (Return LISA_INVALID)"

lemmas la_tree_lists = la_cases_1220_def la_cases_1346_def la_cases_565_def la_cases_933_def la_cases_1073_def la_cases_1712_def la_cases_1856_def la_cases_1583_def la_cases_1935_def la_cases_1984_def la_cases_2524_def la_cases_3178_def la_cases_4119_def la_cases_4267_def la_cases_4415_def la_cases_8145_def la_cases_8293_def la_cases_8439_def la_cases_8587_def la_cases_8735_def la_cases_8883_def la_cases_4527_def la_cases_4675_def la_cases_4823_def la_cases_4971_def la_cases_5119_def la_cases_5267_def la_cases_5415_def la_cases_5563_def la_cases_5703_def la_cases_5835_def la_cases_5983_def la_cases_6131_def la_cases_6279_def la_cases_6427_def la_cases_6551_def la_cases_6699_def la_cases_6823_def la_cases_6947_def la_cases_7095_def la_cases_7243_def la_cases_7391_def la_cases_7539_def la_cases_7680_def la_cases_7816_def la_cases_7928_def la_cases_8068_def la_cases_9005_def la_cases_9149_def la_cases_9262_def la_cases_9375_def la_cases_9519_def la_cases_9663_def la_cases_9807_def la_cases_9951_def la_cases_10095_def la_cases_10239_def la_cases_10387_def la_cases_14017_def la_cases_14163_def la_cases_10420_def la_cases_10568_def la_cases_10716_def la_cases_10864_def la_cases_11012_def la_cases_11160_def la_cases_11308_def la_cases_11456_def la_cases_11596_def la_cases_11728_def la_cases_11876_def la_cases_12024_def la_cases_12172_def la_cases_12320_def la_cases_12444_def la_cases_12592_def la_cases_12716_def la_cases_12840_def la_cases_12988_def la_cases_13136_def la_cases_13284_def la_cases_13432_def la_cases_13556_def la_cases_13701_def la_cases_13841_def la_cases_14864_def la_cases_15008_def la_cases_15141_def la_cases_15259_def la_cases_15403_def la_cases_15547_def la_cases_15691_def la_cases_15835_def la_cases_15979_def la_cases_16123_def la_cases_16271_def la_cases_559_def la_cases_3850_def la_cases_4457_def

end
