(* ===== verification/Ir2_Assemble.thy ===== *)
theory Ir2_Assemble
  imports La_Format La_Decode_Tree Ir2
begin

text \<open>
  The LoongArch assembler (ir2/ir2-assemble.c) and disassembler (ir2/la-decode.c,
  ir2/la-disasm.c).  Operand values and instructions are 32-bit words; the right shift of a C
  \<open>int\<close> is \<open>signed_drop_bit\<close>.  Operand types come from the rows of the format table and are
  always valid indices of the field tables.
\<close>

section \<open>Assembler\<close>

definition put_opnd :: "nat \<Rightarrow> u32 \<Rightarrow> u32 \<Rightarrow> u32" where
  "put_opnd opnd_type val ins =
    (case bit_field_table ! opnd_type of (start0, end0, start1, end1) \<Rightarrow>
       let bit_len = nat (end0 - start0 + 1);
           ins1 = ins OR push_bit (nat start0) (val AND (push_bit bit_len 1 - 1))
       in if start1 \<ge> 0 then
            let val1 = signed_drop_bit bit_len val;
                bit_len1 = nat (end1 - start1 + 1)
            in ins1 OR push_bit (nat start1) (val1 AND (push_bit bit_len1 1 - 1))
          else ins1)"

fun put_opnds :: "nat list \<Rightarrow> ir2_opnd list \<Rightarrow> u32 \<Rightarrow> u32" where
  "put_opnds (ty # tys) (opnd # opnds) ins =
    (if ty = OPD_INVALID then ins else put_opnds tys opnds (put_opnd ty (o2_val opnd) ins))"
| "put_opnds _ _ ins = ins"

text \<open>The element opnd[i] of a format beyond the listed ones is OPD\_INVALID.\<close>

definition lisa_format :: "ir2_opcode \<Rightarrow> la_format option" where
  "lisa_format opcode = arr_get lisa_format_table (int opcode - int LISA_INVALID)"

definition ir2_assemble :: "ir2_inst \<Rightarrow> u32 option" where
  "ir2_assemble ir2 =
    (if ir2_opcode_of ir2 = LISA_CODE then map_option o2_val (arr_get (n_opnd ir2) 0)
     else do {
       format \<leftarrow> lisa_format (ir2_opcode_of ir2);
       Some (put_opnds (take 4 (fmt_opnd format)) (n_opnd ir2) (of_nat (fmt_opcode format)))
     })"

section \<open>Disassembler\<close>

definition la_decode :: "u32 \<Rightarrow> ir2_opcode" where
  "la_decode insn = dtree_run la_tree_558 (unat insn)"

definition la_get_opnd_val :: "nat \<Rightarrow> u32 \<Rightarrow> u32" where
  "la_get_opnd_val type insn =
    (case bit_field_table ! type of (bit_start0, bit_end0, bit_start, bit_end) \<Rightarrow>
       let bit_len = nat (bit_end0 - bit_start0 + 1);
           val0 = signed_drop_bit (nat bit_start0) insn AND (push_bit bit_len 1 - 1);
           val1 = (if bit_start \<ge> 0 \<and> bit_end \<ge> 0 then
                     let field1_val = signed_drop_bit (nat (31 - bit_end + bit_start)) (push_bit (nat (31 - bit_end)) insn)
                     in val0 OR push_bit bit_len field1_val
                   else val0)
       in if is_la_sign_opnd ! type then
            let bit_len1 = (if bit_end \<ge> 0 then bit_len + nat (bit_end - bit_start + 1) else bit_len)
            in signed_drop_bit (32 - bit_len1) (push_bit (32 - bit_len1) val1)
          else val1)"

fun get_opnds :: "nat list \<Rightarrow> u32 \<Rightarrow> ir2_opnd list" where
  "get_opnds [] insn = []"
| "get_opnds (ty # tys) insn =
    (if ty = OPD_INVALID then []
     else create_ir2_opnd (la_to_ir2_type ! ty) (la_get_opnd_val ty insn) # get_opnds tys insn)"

text \<open>The instruction that \<open>la_disasm\<close> builds and prints: its opcode and its operands.\<close>

definition la_disasm :: "u32 \<Rightarrow> (ir2_opcode \<times> ir2_opnd list) option" where
  "la_disasm insn = do {
     format \<leftarrow> lisa_format (la_decode insn);
     Some (la_decode insn, get_opnds (take 4 (fmt_opnd format)) insn)
   }"

section \<open>Fields\<close>

text \<open>\<open>field_mask ty\<close>: the bits of an instruction that hold an operand of type \<open>ty\<close>.
  \<open>opnd_fits ty v\<close>: the value is representable there, as a signed or as an unsigned number.\<close>

definition field_len :: "nat \<Rightarrow> nat" where
  "field_len ty = (case bit_field_table ! ty of (s0, e0, s1, e1) \<Rightarrow>
     nat (e0 - s0 + 1) + (if s1 \<ge> 0 then nat (e1 - s1 + 1) else 0))"

definition field_mask :: "nat \<Rightarrow> nat" where
  "field_mask ty = (case bit_field_table ! ty of (s0, e0, s1, e1) \<Rightarrow>
     push_bit (nat s0) (mask (nat (e0 - s0 + 1))) OR (if s1 \<ge> 0 then push_bit (nat s1) (mask (nat (e1 - s1 + 1))) else 0))"

definition opnd_fits :: "nat \<Rightarrow> u32 \<Rightarrow> bool" where
  "opnd_fits ty v \<longleftrightarrow>
    (if is_la_sign_opnd ! ty then - (2 ^ (field_len ty - 1)) \<le> sint v \<and> sint v < 2 ^ (field_len ty - 1)
     else uint v < 2 ^ field_len ty)"

text \<open>The range of a valid row of \<open>bit_field_table\<close>: fields inside the word, a second range only
  beside a first one that does not overlap it, and only for signed operands.\<close>

definition field_ok :: "nat \<Rightarrow> bool" where
  "field_ok ty = (ty < 69 \<and> ty \<noteq> OPD_INVALID \<and> (case bit_field_table ! ty of (s0, e0, s1, e1) \<Rightarrow>
     0 \<le> s0 \<and> s0 \<le> e0 \<and> e0 \<le> 31 \<and>
     (if s1 \<ge> 0 then s1 \<le> e1 \<and> e1 < s0 \<and> is_la_sign_opnd ! ty \<and> e0 - s0 + e1 - s1 + 2 \<le> 32 else e1 < 0)))"

definition carries :: "nat \<Rightarrow> u32 \<Rightarrow> u32 \<Rightarrow> bool" where
  "carries ty v w = (case bit_field_table ! ty of (s0, e0, s1, e1) \<Rightarrow>
     (\<forall>i < nat (e0 - s0 + 1). bit w (nat s0 + i) = bit v i) \<and>
     (s1 \<ge> 0 \<longrightarrow> (\<forall>i < nat (e1 - s1 + 1). bit w (nat s1 + i) = bit v (nat (e0 - s0 + 1) + i))))"

lemma bit_low_mask: "bit (2 ^ n - 1 :: u32) i \<longleftrightarrow> i < n \<and> i < 32"
  using bit_mask_iff[where 'a = u32, of n i] by (auto simp: mask_eq_exp_minus_1)

lemma bit_sdrop: "n < 32 \<Longrightarrow> bit (signed_drop_bit m (w :: u32)) n \<longleftrightarrow> bit w (if n + m < 32 then n + m else 31)"
proof -
  assume n: "n < 32"
  have len: "LENGTH(32) = 32" "32 - 1 = (31 :: nat)" by simp_all
  show ?thesis unfolding bit_signed_drop_bit_iff len
    by (rule arg_cong[where f = "bit w"]) (use n in auto)
qed
lemma bit_field_mask:
  assumes "bit_field_table ! ty = (s0, e0, s1, e1)"
  shows "bit (field_mask ty) i \<longleftrightarrow> nat s0 \<le> i \<and> i - nat s0 < nat (e0 - s0 + 1) \<or>
    s1 \<ge> 0 \<and> nat s1 \<le> i \<and> i - nat s1 < nat (e1 - s1 + 1)"
  using assms by (auto simp: field_mask_def bit_or_iff bit_push_bit_iff bit_mask_iff)

lemma bit_put_opnd:
  assumes "bit_field_table ! ty = (s0, e0, s1, e1)" "i < 32"
  shows "bit (put_opnd ty v ins) i \<longleftrightarrow> bit ins i \<or>
    nat s0 \<le> i \<and> i - nat s0 < nat (e0 - s0 + 1) \<and> bit v (i - nat s0) \<or>
    s1 \<ge> 0 \<and> nat s1 \<le> i \<and> i - nat s1 < nat (e1 - s1 + 1) \<and> bit (signed_drop_bit (nat (e0 - s0 + 1)) v) (i - nat s1)"
  using assms
  by (auto simp: put_opnd_def Let_def bit_or_iff bit_push_bit_iff bit_and_iff bit_low_mask)

lemma put_opnd_outside:
  assumes "\<not> bit (field_mask ty) i" "i < 32"
  shows "bit (put_opnd ty v ins) i \<longleftrightarrow> bit ins i"
proof -
  obtain s0 e0 s1 e1 where f: "bit_field_table ! ty = (s0, e0, s1, e1)" by (metis prod_cases4)
  show ?thesis using assms by (auto simp: bit_put_opnd[OF f] bit_field_mask[OF f])
qed

lemma put_opnd_carries:
  assumes "field_ok ty" "\<And>i. bit (field_mask ty) i \<Longrightarrow> \<not> bit ins i"
  shows "carries ty v (put_opnd ty v ins)"
proof -
  obtain s0 e0 s1 e1 where f: "bit_field_table ! ty = (s0, e0, s1, e1)" by (metis prod_cases4)
  have ok: "0 \<le> s0" "s0 \<le> e0" "e0 \<le> 31" "s1 \<ge> 0 \<Longrightarrow> s1 \<le> e1 \<and> e1 < s0 \<and> e0 - s0 + e1 - s1 + 2 \<le> 32"
    using assms(1) f by (auto simp: field_ok_def split: if_splits)
  have "bit (put_opnd ty v ins) (nat s0 + i) = bit v i" if i: "i < nat (e0 - s0 + 1)" for i
  proof -
    have "nat s0 + i < 32" using i ok by auto
    moreover have "\<not> bit ins (nat s0 + i)" using i by (intro assms(2)) (simp add: bit_field_mask[OF f])
    moreover have "\<not> (s1 \<ge> 0 \<and> nat s0 + i - nat s1 < nat (e1 - s1 + 1))" using ok by auto
    ultimately show ?thesis using i by (auto simp: bit_put_opnd[OF f])
  qed
  moreover have "bit (put_opnd ty v ins) (nat s1 + i) = bit v (nat (e0 - s0 + 1) + i)"
    if s1: "s1 \<ge> 0" and i: "i < nat (e1 - s1 + 1)" for i
  proof -
    have lt: "nat s1 + i < nat s0" "nat s1 + i < 32" "nat (e0 - s0 + 1) + i < 32" using i ok s1 by auto
    moreover have "\<not> bit ins (nat s1 + i)" using i s1 by (intro assms(2)) (simp add: bit_field_mask[OF f])
    ultimately show ?thesis using i s1 by (auto simp: bit_put_opnd[OF f] bit_sdrop ac_simps)
  qed
  ultimately show ?thesis using f by (simp add: carries_def)
qed

lemma fits_signed_bits:
  assumes "- (2 ^ n) \<le> sint (v :: u32)" "sint v < 2 ^ n" "n \<le> i" "i < 32"
  shows "bit v i = bit v n"
proof -
  have "signed_take_bit n (sint v) = sint v" using assms(1,2) by (rule signed_take_bit_int_eq_self)
  then have "bit (sint v) i = bit (signed_take_bit n (sint v)) i" by (simp only:)
  also have "\<dots> = bit (sint v) n" using assms(3) by (simp add: bit_signed_take_bit_iff min_def)
  finally show ?thesis using assms(3,4) by (simp add: bit_sint_iff)
qed

lemma fits_unsigned_bits:
  assumes "uint (v :: u32) < 2 ^ n" "n \<le> i"
  shows "\<not> bit v i"
proof -
  have "take_bit n (uint v) = uint v" using assms(1) by (simp add: take_bit_int_eq_self)
  then have "bit (uint v) i = bit (take_bit n (uint v)) i" by (simp only:)
  then show ?thesis using assms(2) by (auto simp: bit_take_bit_iff bit_uint_iff dest: bit_imp_le_length)
qed

lemma field1_bit:
  assumes "0 \<le> s1" "s1 \<le> e1" "e1 \<le> 31" "j < nat (e1 - s1 + 1)"
  shows "bit (signed_drop_bit (nat (31 - e1 + s1)) (push_bit (nat (31 - e1)) (w :: u32))) j = bit w (nat s1 + j)"
proof -
  obtain s where s: "s1 = int s" using assms(1) by (rule nonneg_int_cases)
  moreover obtain e where "e1 = int e" using assms(1,2) by (metis nonneg_int_cases order_trans)
  ultimately have se: "s1 = int s" "e1 = int e" by auto
  then have n: "nat (31 - e1 + s1) = 31 - e + s" "nat (31 - e1) = 31 - e" "nat s1 = s" and
      lt: "s \<le> e" "e \<le> 31" "j < e - s + 1" using assms by (auto simp: nat_diff_distrib nat_add_distrib)
  have "j < 32" "j + (31 - e + s) < 32" "31 - e \<le> j + (31 - e + s)" "j + (31 - e + s) - (31 - e) = s + j"
    using lt by auto
  then show ?thesis unfolding n by (simp only: bit_sdrop bit_push_bit_iff) (simp add: add.commute)
qed

lemma sext_bit:
  assumes "0 < l" "l \<le> 32" "i < 32"
  shows "bit (signed_drop_bit (32 - l) (push_bit (32 - l) (w :: u32))) i = bit w (if i < l then i else l - 1)"
proof (cases "i < l")
  case True
  then have "i + (32 - l) < 32" "32 - l \<le> i + (32 - l)" "i + (32 - l) - (32 - l) = i" using assms by auto
  then show ?thesis using True assms(3) by (simp only: bit_sdrop bit_push_bit_iff) simp
next
  case False
  then have "\<not> i + (32 - l) < 32" "32 - l \<le> 31" "31 - (32 - l) = l - 1" using assms by auto
  then show ?thesis using False assms(3) by (simp only: bit_sdrop bit_push_bit_iff) simp
qed

lemma carries_get:
  assumes "field_ok ty" "carries ty v w" "opnd_fits ty v"
  shows "la_get_opnd_val ty w = v"
proof -
  obtain s0 e0 s1 e1 where f: "bit_field_table ! ty = (s0, e0, s1, e1)" by (metis prod_cases4)
  define l0 l1 where "l0 = nat (e0 - s0 + 1)" and "l1 = nat (e1 - s1 + 1)"
  have ok: "0 \<le> s0" "s0 \<le> e0" "e0 \<le> 31" "s1 \<ge> 0 \<Longrightarrow> s1 \<le> e1 \<and> e1 < s0 \<and> is_la_sign_opnd ! ty \<and> l0 + l1 \<le> 32"
      "\<not> s1 \<ge> 0 \<Longrightarrow> e1 < 0"
    using assms(1) f by (auto simp: field_ok_def l0_def l1_def split: if_splits)
  have c0: "bit w (nat s0 + i) = bit v i" if "i < l0" for i
    using assms(2) f that by (simp add: carries_def l0_def)
  have c1: "bit w (nat s1 + i) = bit v (l0 + i)" if "s1 \<ge> 0" "i < l1" for i
    using assms(2) f that by (simp add: carries_def l0_def l1_def)
  have l0: "nat s0 + l0 \<le> 32" using ok by (simp add: l0_def)
  define val1 where "val1 = (if s1 \<ge> 0 \<and> e1 \<ge> 0 then
      (signed_drop_bit (nat s0) w AND (push_bit l0 1 - 1)) OR
        push_bit l0 (signed_drop_bit (nat (31 - e1 + s1)) (push_bit (nat (31 - e1)) w))
    else signed_drop_bit (nat s0) w AND (push_bit l0 1 - 1))"
  have len: "field_len ty = l0 + (if s1 \<ge> 0 then l1 else 0)" using f by (simp add: field_len_def l0_def l1_def)
  have low0: "bit val1 i = bit v i" if i: "i < l0" for i
  proof -
    have lt: "i < 32" "i + nat s0 < 32" using i l0 by auto
    have "bit (signed_drop_bit (nat s0) w) i = bit v i"
      using c0[OF i] lt by (simp only: bit_sdrop) (simp add: add.commute)
    then show ?thesis using i lt by (simp add: val1_def bit_or_iff bit_and_iff bit_low_mask bit_push_bit_iff)
  qed
  have low1: "bit val1 i = bit v i" if s1: "s1 \<ge> 0" and i: "l0 \<le> i" "i < l0 + l1" for i
  proof -
    have e1: "e1 \<ge> 0" "i < 32" "s1 \<le> e1" "e1 \<le> 31" using s1 ok i by auto
    have j: "i - l0 < l1" "l0 + (i - l0) = i" using i by auto
    have "bit (signed_drop_bit (nat (31 - e1 + s1)) (push_bit (nat (31 - e1)) w)) (i - l0) = bit v i"
      using field1_bit[OF s1 e1(3,4) j(1)[unfolded l1_def], of w] c1[OF s1 j(1)] j(2) by simp
    then show ?thesis using s1 i e1
      by (simp add: val1_def bit_or_iff bit_and_iff bit_low_mask bit_push_bit_iff)
  qed
  have low: "bit val1 i = bit v i" if "i < field_len ty" for i
    using that low0 low1 len by (cases "i < l0") (auto split: if_splits)
  have get: "la_get_opnd_val ty w = (if is_la_sign_opnd ! ty
      then signed_drop_bit (32 - field_len ty) (push_bit (32 - field_len ty) val1) else val1)"
    using f len ok by (auto simp: la_get_opnd_val_def Let_def val1_def l0_def l1_def)
  have pos: "0 < field_len ty" "field_len ty \<le> 32" using len ok l0 by (auto simp: l0_def split: if_splits)
  show ?thesis
  proof (cases "is_la_sign_opnd ! ty")
    case True
    let ?n = "field_len ty - 1"
    have hi: "bit v i = bit v ?n" if "?n \<le> i" "i < 32" for i
      using fits_signed_bits[of ?n v i] assms(3) True that by (simp add: opnd_fits_def)
    have "bit (la_get_opnd_val ty w) i = bit v i" if i: "i < 32" for i
    proof -
      have "bit (la_get_opnd_val ty w) i = bit val1 (if i < field_len ty then i else ?n)"
        using get True sext_bit[OF pos i, of val1] by simp
      then show ?thesis using low[of i] low[of ?n] hi[of i] i pos by (simp split: if_splits)
    qed
    then show ?thesis by (intro bit_word_eqI) simp
  next
    case False
    then have s1: "\<not> s1 \<ge> 0" using ok by blast
    have "bit val1 i = bit v i" if "i < 32" for i
    proof (cases "i < l0")
      case False
      then have "\<not> bit v i" using fits_unsigned_bits[of v l0 i] assms(3) \<open>\<not> is_la_sign_opnd ! ty\<close> len s1
        by (simp add: opnd_fits_def)
      then show ?thesis using False s1 by (simp add: val1_def bit_and_iff bit_low_mask)
    qed (rule low0)
    then show ?thesis using get False by (intro bit_word_eqI) simp
  qed
qed

end
