(* ===== verification/Ir2_Assemble_Loop.thy ===== *)
theory Ir2_Assemble_Loop
  imports Ir2_Assemble
begin

text \<open>
  Assembling and disassembling with one row of the format table.  \<open>row_ok\<close> is a check of a row
  that involves no operand values: its fields are valid and do not overlap each other, the
  opcode bits or the bits that \<open>la_decode\<close> looks at.  It is enough for the round trip.
\<close>

definition opnds_of :: "nat list \<Rightarrow> nat list" where
  "opnds_of tys = takeWhile (\<lambda>ty. ty \<noteq> OPD_INVALID) (take 4 tys)"

primrec fields_mask :: "nat list \<Rightarrow> nat" where
  "fields_mask [] = 0"
| "fields_mask (ty # tys) = field_mask ty OR fields_mask tys"

primrec fields_ok :: "nat list \<Rightarrow> bool" where
  "fields_ok [] = True"
| "fields_ok (ty # tys) = (field_ok ty \<and> field_mask ty AND fields_mask tys = 0 \<and> fields_ok tys)"

definition row_ok :: "ir2_opcode \<Rightarrow> la_format \<Rightarrow> bool" where
  "row_ok opcode fmt = (case fmt of Fmt ty b tys \<Rightarrow>
     let m = fields_mask (opnds_of tys); (r, seen) = dtree_walk la_tree_558 b 0
     in ty = opcode \<and> b < 2 ^ 32 \<and> fields_ok (opnds_of tys) \<and> b AND m = 0 \<and> seen AND m = 0 \<and> r = opcode)"

text \<open>The row of an instruction that is decoded as invalid when all of its operands are 0.\<close>

definition row_lost :: "ir2_opcode \<Rightarrow> la_format \<Rightarrow> bool" where
  "row_lost opcode fmt = (case fmt of Fmt ty b tys \<Rightarrow>
     ty = opcode \<and> b < 2 ^ 32 \<and> fst (dtree_walk la_tree_558 b 0) = LISA_INVALID)"

section \<open>The operand loops\<close>

lemma and_zero_bit: "a AND b = 0 \<Longrightarrow> bit a i \<Longrightarrow> \<not> bit b i" for a b :: nat
  by (metis bit_and_iff bit_0_eq bot_apply bot_bool_def)

lemma put_opnds_takeWhile:
  "put_opnds tys opnds ins = put_opnds (takeWhile (\<lambda>ty. ty \<noteq> OPD_INVALID) tys) opnds ins"
  by (induction tys opnds ins rule: put_opnds.induct) auto

lemma get_opnds_map:
  "get_opnds tys insn = map (\<lambda>ty. create_ir2_opnd (la_to_ir2_type ! ty) (la_get_opnd_val ty insn))
     (takeWhile (\<lambda>ty. ty \<noteq> OPD_INVALID) tys)"
  by (induction tys) auto

lemma carries_cong:
  assumes "\<And>i. bit (field_mask ty) i \<Longrightarrow> bit w' i = bit w i" "carries ty v w"
  shows "carries ty v w'"
proof -
  obtain s0 e0 s1 e1 where f: "bit_field_table ! ty = (s0, e0, s1, e1)" by (metis prod_cases4)
  show ?thesis using assms f by (auto simp: carries_def bit_field_mask[OF f])
qed

lemma put_opnds_spec:
  assumes "fields_ok tys" "\<And>i. bit (fields_mask tys) i \<Longrightarrow> \<not> bit ins i" "length tys \<le> length opnds"
  shows "(\<forall>i<32. \<not> bit (fields_mask tys) i \<longrightarrow> bit (put_opnds tys opnds ins) i = bit ins i) \<and>
    (\<forall>j<length tys. carries (tys ! j) (o2_val (opnds ! j)) (put_opnds tys opnds ins))"
  using assms
proof (induction tys arbitrary: opnds ins)
  case (Cons ty tys)
  obtain opnd rest where opnds: "opnds = opnd # rest" using Cons.prems(3) by (cases opnds) auto
  have ok: "field_ok ty" "fields_ok tys" "field_mask ty AND fields_mask tys = 0" "ty \<noteq> OPD_INVALID"
    using Cons.prems(1) by (auto simp: field_ok_def)
  let ?ins = "put_opnd ty (o2_val opnd) ins" and ?w = "put_opnds tys rest (put_opnd ty (o2_val opnd) ins)"
  have ins: "\<not> bit ?ins i" if "bit (fields_mask tys) i" for i
    using put_opnd_outside[of ty i "o2_val opnd" ins] that and_zero_bit[OF ok(3)] Cons.prems(2)[of i]
    by (cases "i < 32") (auto simp: bit_or_iff dest: bit_imp_le_length)
  have IH: "\<And>i. i < 32 \<Longrightarrow> \<not> bit (fields_mask tys) i \<Longrightarrow> bit ?w i = bit ?ins i"
    "\<And>j. j < length tys \<Longrightarrow> carries (tys ! j) (o2_val (rest ! j)) ?w"
    using Cons.IH[OF ok(2) ins] Cons.prems(3) opnds by auto
  have "carries ty (o2_val opnd) ?w"
  proof (rule carries_cong)
    show "carries ty (o2_val opnd) ?ins"
      using Cons.prems(2) by (intro put_opnd_carries ok) (simp add: bit_or_iff)
    show "bit ?w i = bit ?ins i" if "bit (field_mask ty) i" for i
      using IH(1)[of i] and_zero_bit[OF ok(3) that] by (cases "i < 32") (auto dest: bit_imp_le_length)
  qed
  moreover have "bit ?w i = bit ins i" if "i < 32" "\<not> bit (fields_mask (ty # tys)) i" for i
    using IH(1)[of i] put_opnd_outside[of ty i] that by (simp add: bit_or_iff)
  ultimately show ?case
    using IH(2) opnds ok(4) by (auto simp: nth_Cons split: nat.splits)
qed simp

section \<open>One row\<close>

lemma bit_unat32: "bit (unat (w :: u32)) i = bit w i"
  by (simp add: bit_unsigned_iff)

lemma row_assemble:
  assumes "row_ok opcode format" "lisa_format opcode = Some format" "opcode \<noteq> LISA_CODE"
    "ir2_opcode_of ir2 = opcode" "length (n_opnd ir2) = 4"
  defines "tys \<equiv> opnds_of (fmt_opnd format)"
  shows "\<exists>w. ir2_assemble ir2 = Some w \<and> la_decode w = opcode \<and>
    (\<forall>j<length tys. field_ok (tys ! j) \<and> carries (tys ! j) (o2_val (n_opnd ir2 ! j)) w)"
proof -
  obtain ty b ops where fmt: "format = Fmt ty b ops" by (cases format)
  let ?m = "fields_mask tys"
  obtain r seen where walk: "dtree_walk la_tree_558 b 0 = (r, seen)" by fastforce
  have ok: "b < 2 ^ 32" "fields_ok tys" "b AND ?m = 0" "seen AND ?m = 0" "r = opcode"
    using assms(1) fmt walk by (auto simp: row_ok_def tys_def Let_def)
  have base: "bit (of_nat b :: u32) i \<longleftrightarrow> i < 32 \<and> bit b i" for i
    by (simp add: bit_of_nat_iff)
  have len: "length tys \<le> 4" unfolding tys_def opnds_of_def
    by (rule order_trans[OF length_takeWhile_le]) simp
  define w where "w = put_opnds tys (n_opnd ir2) (of_nat b)"
  have asm: "ir2_assemble ir2 = Some w"
    using assms(2-4) fmt put_opnds_takeWhile[of "take 4 ops"]
    by (simp add: ir2_assemble_def w_def tys_def opnds_of_def)
  have spec: "\<And>i. i < 32 \<Longrightarrow> \<not> bit ?m i \<Longrightarrow> bit w i = bit (of_nat b :: u32) i"
    "\<And>j. j < length tys \<Longrightarrow> carries (tys ! j) (o2_val (n_opnd ir2 ! j)) w"
    using put_opnds_spec[OF ok(2), of "of_nat b" "n_opnd ir2"] and_zero_bit[OF ok(3)] len assms(5)
    by (auto simp: w_def base)
  have "la_decode w = fst (dtree_walk la_tree_558 b 0)" unfolding la_decode_def
  proof (rule dtree_walk_run)
    fix i assume "bit (snd (dtree_walk la_tree_558 b 0)) i"
    then have "\<not> bit ?m i" using and_zero_bit[OF ok(4)] walk by simp
    moreover have "i < 32" if "bit b i"
      using that ok(1) by (metis bit_take_bit_iff take_bit_nat_eq_self)
    ultimately show "bit (unat w) i = bit b i"
      using spec(1)[of i] by (cases "i < 32") (auto simp: bit_unat32 base dest: bit_imp_le_length)
  qed
  moreover have "field_ok (tys ! j)" if "j < length tys" for j
    using ok(2) that by (induction tys arbitrary: j) (auto simp: nth_Cons split: nat.splits)
  ultimately show ?thesis using asm spec(2) walk ok(5) by auto
qed

lemma row_roundtrip:
  assumes "row_ok opcode format" "lisa_format opcode = Some format" "opcode \<noteq> LISA_CODE"
    "ir2_opcode_of ir2 = opcode" "length (n_opnd ir2) = 4"
  defines "tys \<equiv> opnds_of (fmt_opnd format)"
  assumes fits: "\<And>j. j < length tys \<Longrightarrow> opnd_fits (tys ! j) (o2_val (n_opnd ir2 ! j))"
  shows "\<exists>w. ir2_assemble ir2 = Some w \<and> la_disasm w =
    Some (opcode, map2 (\<lambda>ty opnd. create_ir2_opnd (la_to_ir2_type ! ty) (o2_val opnd)) tys (n_opnd ir2))"
proof -
  obtain w where w: "ir2_assemble ir2 = Some w" "la_decode w = opcode"
    "\<And>j. j < length tys \<Longrightarrow> field_ok (tys ! j) \<and> carries (tys ! j) (o2_val (n_opnd ir2 ! j)) w"
    using row_assemble[OF assms(1-5)] unfolding tys_def by blast
  have len: "length tys \<le> 4" unfolding tys_def opnds_of_def
    by (rule order_trans[OF length_takeWhile_le]) simp
  have val: "la_get_opnd_val (tys ! j) w = o2_val (n_opnd ir2 ! j)" if "j < length tys" for j
    using w(3)[OF that] fits[OF that] by (auto intro: carries_get)
  have "get_opnds (take 4 (fmt_opnd format)) w =
      map (\<lambda>ty. create_ir2_opnd (la_to_ir2_type ! ty) (la_get_opnd_val ty w)) tys"
    unfolding get_opnds_map tys_def opnds_of_def ..
  also have "\<dots> = map2 (\<lambda>ty opnd. create_ir2_opnd (la_to_ir2_type ! ty) (o2_val opnd)) tys (n_opnd ir2)"
    using val len assms(5) by (intro nth_equalityI) auto
  finally show ?thesis using w assms(2) by (auto simp: la_disasm_def)
qed

section \<open>Checking rows\<close>

text \<open>\<open>rows_check n rs\<close>: the opcodes of the rows, numbered from n, that decode as invalid; None if a
  row is malformed or decodes as another instruction.\<close>

fun rows_check :: "nat \<Rightarrow> la_format list \<Rightarrow> nat list option" where
  "rows_check n [] = Some []"
| "rows_check n (Fmt ty b tys # rs) =
    (case dtree_walk la_tree_558 b 0 of (r, seen) \<Rightarrow> case (opnds_of tys, fields_mask (opnds_of tys)) of (os, m) \<Rightarrow>
       if ty = n \<and> b < 2 ^ 32 then
         if r = n \<and> fields_ok os \<and> b AND m = 0 \<and> seen AND m = 0 then rows_check (n + 1) rs
         else if r = LISA_INVALID then map_option ((#) n) (rows_check (n + 1) rs) else None
       else None)"

lemma rows_check_Cons:
  assumes "rows_check n (f # rs) = Some lost"
  shows "\<exists>lost'. rows_check (n + 1) rs = Some lost' \<and>
    (row_ok n f \<and> lost = lost' \<or> row_lost n f \<and> lost = n # lost')"
proof -
  obtain ty b tys where f: "f = Fmt ty b tys" by (cases f)
  obtain r seen where walk: "dtree_walk la_tree_558 b 0 = (r, seen)" by fastforce
  show ?thesis using assms f walk by (auto simp: row_ok_def row_lost_def Let_def split: if_splits)
qed

lemma rows_check_ge: "rows_check n rs = Some lost \<Longrightarrow> m \<in> set lost \<Longrightarrow> n \<le> m"
proof (induction rs arbitrary: n lost)
  case (Cons f rs)
  then show ?case using rows_check_Cons[OF Cons.prems(1)] by force
qed simp

lemma rows_check_sound:
  assumes "rows_check n rs = Some lost" "k < length rs"
  shows "if n + k \<in> set lost then row_lost (n + k) (rs ! k) else row_ok (n + k) (rs ! k)"
  using assms
proof (induction rs arbitrary: n k lost)
  case (Cons f rs)
  obtain lost' where r: "rows_check (n + 1) rs = Some lost'"
    "row_ok n f \<and> lost = lost' \<or> row_lost n f \<and> lost = n # lost'" using rows_check_Cons[OF Cons.prems(1)] by blast
  have n: "n \<notin> set lost'" using rows_check_ge[OF r(1)] by fastforce
  show ?case
  proof (cases k)
    case 0
    then show ?thesis using r(2) n by auto
  next
    case (Suc j)
    then show ?thesis using Cons.IH[OF r(1), of j] Cons.prems(2) r(2) by (auto split: if_splits)
  qed
qed simp

lemma rows_check_append:
  "rows_check n (xs @ ys) = (case rows_check n xs of
     None \<Rightarrow> None | Some a \<Rightarrow> map_option ((@) a) (rows_check (n + length xs) ys))"
proof (induction xs arbitrary: n)
  case Nil
  show ?case by (cases "rows_check n ys") simp_all
next
  case (Cons f xs)
  obtain ty b tys where f: "f = Fmt ty b tys" by (cases f)
  have app: "(@) (m # z) = (\<lambda>x. m # z @ x)" for m :: nat and z by (rule ext) simp
  show ?case using Cons[of "n + 1"]
    by (auto simp: f app option.map_comp comp_def split: prod.splits option.splits if_splits)
qed

end
