(* ===== verification/La_Format_Check.thy ===== *)
theory La_Format_Check
  imports Ir2_Assemble_Loop
begin

text \<open>
  Every row of the format table passes the check of \<open>rows_check\<close>: one lemma per group of
  rows, by evaluation of the decision tree on the opcode bits.  The rows whose opcode bits
  decode as invalid are listed.
\<close>

section \<open>Evaluation\<close>

lemma walk_unfold: "t = t' \<Longrightarrow> dtree_walk t w m = dtree_walk t' w m" by simp

lemma cases_unfold: "cs = cs' \<Longrightarrow> map_of cs k = map_of cs' k" by simp

lemma map_of_append_case: "map_of (xs @ ys) k = (case map_of xs k of None \<Rightarrow> map_of ys k | Some t \<Rightarrow> Some t)"
  by (auto simp: map_add_def split: option.splits)

lemma map_of_eval:
  "map_of [] k = None"
  "map_of ((v, t) # cs) k = (if k = v then Some t else map_of cs k)"
  by simp_all

lemma dtree_walk_eval:
  "dtree_walk (Return r) w seen = (r, seen)"
  "dtree_walk (If m v a rest) w seen =
    (if w AND m = v then dtree_walk a w (seen OR m) else dtree_walk rest w (seen OR m))"
  by simp_all

lemma walk_cong: "w = w' \<Longrightarrow> m = m' \<Longrightarrow> dtree_walk t w m = dtree_walk t w' m'" by simp

lemma map_of_weak_cong: "k = k' \<Longrightarrow> map_of cs k = map_of cs k'" by simp

lemma rows_check_cong: "n = n' \<Longrightarrow> rows_check n rs = rows_check n' rs" by simp

lemmas walk_trees =
  walk_unfold[OF la_tree_570_def]
  walk_unfold[OF la_tree_567_def]
  walk_unfold[OF la_tree_1486_def]
  walk_unfold[OF la_tree_1219_def]
  walk_unfold[OF la_tree_564_def]
  walk_unfold[OF la_tree_1711_def]
  walk_unfold[OF la_tree_1582_def]
  walk_unfold[OF la_tree_1579_def]
  walk_unfold[OF la_tree_2106_def]
  walk_unfold[OF la_tree_2207_def]
  walk_unfold[OF la_tree_2324_def]
  walk_unfold[OF la_tree_2425_def]
  walk_unfold[OF la_tree_2579_def]
  walk_unfold[OF la_tree_2712_def]
  walk_unfold[OF la_tree_2914_def]
  walk_unfold[OF la_tree_3047_def]
  walk_unfold[OF la_tree_3249_def]
  walk_unfold[OF la_tree_1983_def]
  walk_unfold[OF la_tree_561_def]
  walk_unfold[OF la_tree_3424_def]
  walk_unfold[OF la_tree_3408_def]
  walk_unfold[OF la_tree_3401_def]
  walk_unfold[OF la_tree_3370_def]
  walk_unfold[OF la_tree_3579_def]
  walk_unfold[OF la_tree_3672_def]
  walk_unfold[OF la_tree_3572_def]
  walk_unfold[OF la_tree_3974_def]
  walk_unfold[OF la_tree_4118_def]
  walk_unfold[OF la_tree_8144_def]
  walk_unfold[OF la_tree_4526_def]
  walk_unfold[OF la_tree_13883_def]
  walk_unfold[OF la_tree_14016_def]
  walk_unfold[OF la_tree_14199_def]
  walk_unfold[OF la_tree_14332_def]
  walk_unfold[OF la_tree_14433_def]
  walk_unfold[OF la_tree_14566_def]
  walk_unfold[OF la_tree_13880_def]
  walk_unfold[OF la_tree_10419_def]
  walk_unfold[OF la_tree_558_def]

lemmas walk_cases =
  cases_unfold[OF la_cases_1220_def]
  cases_unfold[OF la_cases_1346_def]
  cases_unfold[OF la_cases_565_def]
  cases_unfold[OF la_cases_933_def]
  cases_unfold[OF la_cases_1073_def]
  cases_unfold[OF la_cases_1712_def]
  cases_unfold[OF la_cases_1856_def]
  cases_unfold[OF la_cases_1583_def]
  cases_unfold[OF la_cases_1935_def]
  cases_unfold[OF la_cases_1984_def]
  cases_unfold[OF la_cases_2524_def]
  cases_unfold[OF la_cases_3178_def]
  cases_unfold[OF la_cases_4119_def]
  cases_unfold[OF la_cases_4267_def]
  cases_unfold[OF la_cases_4415_def]
  cases_unfold[OF la_cases_8145_def]
  cases_unfold[OF la_cases_8293_def]
  cases_unfold[OF la_cases_8439_def]
  cases_unfold[OF la_cases_8587_def]
  cases_unfold[OF la_cases_8735_def]
  cases_unfold[OF la_cases_8883_def]
  cases_unfold[OF la_cases_4527_def]
  cases_unfold[OF la_cases_4675_def]
  cases_unfold[OF la_cases_4823_def]
  cases_unfold[OF la_cases_4971_def]
  cases_unfold[OF la_cases_5119_def]
  cases_unfold[OF la_cases_5267_def]
  cases_unfold[OF la_cases_5415_def]
  cases_unfold[OF la_cases_5563_def]
  cases_unfold[OF la_cases_5703_def]
  cases_unfold[OF la_cases_5835_def]
  cases_unfold[OF la_cases_5983_def]
  cases_unfold[OF la_cases_6131_def]
  cases_unfold[OF la_cases_6279_def]
  cases_unfold[OF la_cases_6427_def]
  cases_unfold[OF la_cases_6551_def]
  cases_unfold[OF la_cases_6699_def]
  cases_unfold[OF la_cases_6823_def]
  cases_unfold[OF la_cases_6947_def]
  cases_unfold[OF la_cases_7095_def]
  cases_unfold[OF la_cases_7243_def]
  cases_unfold[OF la_cases_7391_def]
  cases_unfold[OF la_cases_7539_def]
  cases_unfold[OF la_cases_7680_def]
  cases_unfold[OF la_cases_7816_def]
  cases_unfold[OF la_cases_7928_def]
  cases_unfold[OF la_cases_8068_def]
  cases_unfold[OF la_cases_9005_def]
  cases_unfold[OF la_cases_9149_def]
  cases_unfold[OF la_cases_9262_def]
  cases_unfold[OF la_cases_9375_def]
  cases_unfold[OF la_cases_9519_def]
  cases_unfold[OF la_cases_9663_def]
  cases_unfold[OF la_cases_9807_def]
  cases_unfold[OF la_cases_9951_def]
  cases_unfold[OF la_cases_10095_def]
  cases_unfold[OF la_cases_10239_def]
  cases_unfold[OF la_cases_10387_def]
  cases_unfold[OF la_cases_14017_def]
  cases_unfold[OF la_cases_14163_def]
  cases_unfold[OF la_cases_10420_def]
  cases_unfold[OF la_cases_10568_def]
  cases_unfold[OF la_cases_10716_def]
  cases_unfold[OF la_cases_10864_def]
  cases_unfold[OF la_cases_11012_def]
  cases_unfold[OF la_cases_11160_def]
  cases_unfold[OF la_cases_11308_def]
  cases_unfold[OF la_cases_11456_def]
  cases_unfold[OF la_cases_11596_def]
  cases_unfold[OF la_cases_11728_def]
  cases_unfold[OF la_cases_11876_def]
  cases_unfold[OF la_cases_12024_def]
  cases_unfold[OF la_cases_12172_def]
  cases_unfold[OF la_cases_12320_def]
  cases_unfold[OF la_cases_12444_def]
  cases_unfold[OF la_cases_12592_def]
  cases_unfold[OF la_cases_12716_def]
  cases_unfold[OF la_cases_12840_def]
  cases_unfold[OF la_cases_12988_def]
  cases_unfold[OF la_cases_13136_def]
  cases_unfold[OF la_cases_13284_def]
  cases_unfold[OF la_cases_13432_def]
  cases_unfold[OF la_cases_13556_def]
  cases_unfold[OF la_cases_13701_def]
  cases_unfold[OF la_cases_13841_def]
  cases_unfold[OF la_cases_14864_def]
  cases_unfold[OF la_cases_15008_def]
  cases_unfold[OF la_cases_15141_def]
  cases_unfold[OF la_cases_15259_def]
  cases_unfold[OF la_cases_15403_def]
  cases_unfold[OF la_cases_15547_def]
  cases_unfold[OF la_cases_15691_def]
  cases_unfold[OF la_cases_15835_def]
  cases_unfold[OF la_cases_15979_def]
  cases_unfold[OF la_cases_16123_def]
  cases_unfold[OF la_cases_16271_def]
  cases_unfold[OF la_cases_559_def]
  cases_unfold[OF la_cases_3850_def]
  cases_unfold[OF la_cases_4457_def]

lemma opnds_of_eval:
  "opnds_of [0] = []" "0 < a \<Longrightarrow> opnds_of [a] = [a]" "0 < a \<Longrightarrow> 0 < b \<Longrightarrow> opnds_of [a, b] = [a, b]"
  "0 < a \<Longrightarrow> 0 < b \<Longrightarrow> 0 < c \<Longrightarrow> opnds_of [a, b, c] = [a, b, c]"
  "0 < a \<Longrightarrow> 0 < b \<Longrightarrow> 0 < c \<Longrightarrow> 0 < d \<Longrightarrow> opnds_of [a, b, c, d] = [a, b, c, d]" "opnds_of [] = []"
  by (auto simp: opnds_of_def)

lemma field_mask_eval:
  "field_mask FCC_CA = 0x38000"
  "field_mask FCC_CD = 0x7"
  "field_mask FCC_CJ = 0xe0"
  "field_mask IMM_CODE = 0x7fff"
  "field_mask IMM_CONDF = 0xf8000"
  "field_mask IMM_CONDH = 0x3c00"
  "field_mask IMM_CONDL = 0xf"
  "field_mask OPD_CSR = 0xfffc00"
  "field_mask FPR_FA = 0xf8000"
  "field_mask OPD_FCSRH = 0x3e0"
  "field_mask OPD_FCSRL = 0x1f"
  "field_mask FPR_FD = 0x1f"
  "field_mask FPR_FJ = 0x3e0"
  "field_mask FPR_FK = 0x7c00"
  "field_mask IMM_HINTL = 0x7fff"
  "field_mask IMM_HINTS = 0x1f"
  "field_mask IMM_I13 = 0x3ffe0"
  "field_mask IMM_IDXS = 0x40000"
  "field_mask IMM_IDXM = 0xc0000"
  "field_mask IMM_IDXL = 0x1c0000"
  "field_mask IMM_IDXLL = 0x3c0000"
  "field_mask IMM_LEVEL = 0x3fc00"
  "field_mask IMM_LSBD = 0xfc00"
  "field_mask IMM_LSBW = 0x7c00"
  "field_mask IMM_MODE = 0x3e0"
  "field_mask IMM_MSBD = 0x3f0000"
  "field_mask IMM_MSBW = 0x1f0000"
  "field_mask IMM_OFFS = 0x3fffc00"
  "field_mask IMM_OFFL = 0x3fffc1f"
  "field_mask IMM_OFFLL = 0x3ffffff"
  "field_mask OPD_OPCACHE = 0x1f"
  "field_mask IMM_OPX86 = 0x3e0"
  "field_mask IMM_PTR = 0xe0"
  "field_mask GPR_RD = 0x1f"
  "field_mask GPR_RJ = 0x3e0"
  "field_mask GPR_RK = 0x7c00"
  "field_mask IMM_SA2 = 0x18000"
  "field_mask IMM_SA3 = 0x38000"
  "field_mask SCR_SD = 0x3"
  "field_mask IMM_SEQ = 0x3fc00"
  "field_mask IMM_SI10 = 0xffc00"
  "field_mask IMM_SI11 = 0x1ffc00"
  "field_mask IMM_SI12 = 0x3ffc00"
  "field_mask IMM_SI14 = 0xfffc00"
  "field_mask IMM_SI16 = 0x3fffc00"
  "field_mask IMM_SI20 = 0x1ffffe0"
  "field_mask IMM_SI5 = 0x7c00"
  "field_mask IMM_SI8 = 0x3fc00"
  "field_mask IMM_SI9 = 0x7fc00"
  "field_mask SCR_SJ = 0x60"
  "field_mask IMM_UI1 = 0x400"
  "field_mask IMM_UI12 = 0x3ffc00"
  "field_mask IMM_UI2 = 0xc00"
  "field_mask IMM_UI3 = 0x1c00"
  "field_mask IMM_UI4 = 0x3c00"
  "field_mask IMM_UI5H = 0xf8000"
  "field_mask IMM_UI5L = 0x7c00"
  "field_mask IMM_UI6 = 0xfc00"
  "field_mask IMM_UI7 = 0x1fc00"
  "field_mask IMM_UI8 = 0x3fc00"
  "field_mask FPR_VA = 0xf8000"
  "field_mask FPR_VD = 0x1f"
  "field_mask FPR_VJ = 0x3e0"
  "field_mask FPR_VK = 0x7c00"
  "field_mask FPR_XA = 0xf8000"
  "field_mask FPR_XD = 0x1f"
  "field_mask FPR_XJ = 0x3e0"
  "field_mask FPR_XK = 0x7c00"
  by (simp_all add: field_mask_def bit_field_table_def mask_eq_exp_minus_1)

lemma field_ok_eval:
  "field_ok FCC_CA"
  "field_ok FCC_CD"
  "field_ok FCC_CJ"
  "field_ok IMM_CODE"
  "field_ok IMM_CONDF"
  "field_ok IMM_CONDH"
  "field_ok IMM_CONDL"
  "field_ok OPD_CSR"
  "field_ok FPR_FA"
  "field_ok OPD_FCSRH"
  "field_ok OPD_FCSRL"
  "field_ok FPR_FD"
  "field_ok FPR_FJ"
  "field_ok FPR_FK"
  "field_ok IMM_HINTL"
  "field_ok IMM_HINTS"
  "field_ok IMM_I13"
  "field_ok IMM_IDXS"
  "field_ok IMM_IDXM"
  "field_ok IMM_IDXL"
  "field_ok IMM_IDXLL"
  "field_ok IMM_LEVEL"
  "field_ok IMM_LSBD"
  "field_ok IMM_LSBW"
  "field_ok IMM_MODE"
  "field_ok IMM_MSBD"
  "field_ok IMM_MSBW"
  "field_ok IMM_OFFS"
  "field_ok IMM_OFFL"
  "field_ok IMM_OFFLL"
  "field_ok OPD_OPCACHE"
  "field_ok IMM_OPX86"
  "field_ok IMM_PTR"
  "field_ok GPR_RD"
  "field_ok GPR_RJ"
  "field_ok GPR_RK"
  "field_ok IMM_SA2"
  "field_ok IMM_SA3"
  "field_ok SCR_SD"
  "field_ok IMM_SEQ"
  "field_ok IMM_SI10"
  "field_ok IMM_SI11"
  "field_ok IMM_SI12"
  "field_ok IMM_SI14"
  "field_ok IMM_SI16"
  "field_ok IMM_SI20"
  "field_ok IMM_SI5"
  "field_ok IMM_SI8"
  "field_ok IMM_SI9"
  "field_ok SCR_SJ"
  "field_ok IMM_UI1"
  "field_ok IMM_UI12"
  "field_ok IMM_UI2"
  "field_ok IMM_UI3"
  "field_ok IMM_UI4"
  "field_ok IMM_UI5H"
  "field_ok IMM_UI5L"
  "field_ok IMM_UI6"
  "field_ok IMM_UI7"
  "field_ok IMM_UI8"
  "field_ok FPR_VA"
  "field_ok FPR_VD"
  "field_ok FPR_VJ"
  "field_ok FPR_VK"
  "field_ok FPR_XA"
  "field_ok FPR_XD"
  "field_ok FPR_XJ"
  "field_ok FPR_XK"
  by (simp_all add: field_ok_def bit_field_table_def is_la_sign_opnd_def)

lemmas rows_eval = rows_check.simps walk_trees walk_cases dtree_walk_eval dtree_walk_Switch map_of_eval map_of_append_case
  opnds_of_eval field_mask_eval field_ok_eval

section \<open>The rows\<close>

lemma check_rows_2:
  "rows_check 128 lisa_rows_2 = Some [
    LISA_LABEL, LISA_X86_INST, LISA_ACCL, LISA_ALIGN, LISA_FAR_JUMP, LISA_MOV64, LISA_MOV32_SX,
    LISA_MOV32_ZX, LISA_ADD, LISA_SUB, LISA_ADDI_ADDRX, LISA_LOAD_ADDRX, LISA_STORE_ADDRX, LISA_NOP,
    LISA_CODE, LISA_DATA_LI, LISA_DATA_ADD, LISA_INST_DIFF, LISA_DATA_ST, LISA_DATA_ST_REL_TABLE,
    LISA_PROFILE, LISA_PCADDI_RELOCATE, LISA_JUMP_EPILOGUE, LISA_PSEUDO_END]"
  "length lisa_rows_2 = 247"
  unfolding lisa_rows_2_def
  by (simp_all add: rows_eval del: dtree_walk.simps(2) map_of.simps map_of_append cong: walk_cong map_of_weak_cong)

lemma check_rows_1799:
  "rows_check 375 lisa_rows_1799 = Some [
    LISA_LLACQ_W, LISA_SCREL_W, LISA_LLACQ_D, LISA_SCREL_D, LISA_SC_Q, LISA_AMCAS_B, LISA_AMCAS_H,
    LISA_AMCAS_W, LISA_AMCAS_D, LISA_AMCAS_DB_B, LISA_AMCAS_DB_H, LISA_AMCAS_DB_W, LISA_AMCAS_DB_D,
    LISA_AMSWAP_B, LISA_AMSWAP_H, LISA_AMADD_B, LISA_AMADD_H, LISA_AMSWAP_DB_B, LISA_AMSWAP_DB_H,
    LISA_AMADD_DB_B, LISA_AMADD_DB_H]"
  "length lisa_rows_1799 = 230"
  unfolding lisa_rows_1799_def
  by (simp_all add: rows_eval del: dtree_walk.simps(2) map_of.simps map_of_append cong: walk_cong map_of_weak_cong)

lemma check_rows_3596:
  "rows_check 605 lisa_rows_3596 = Some [
    LISA_FMADD_S, LISA_FMADD_D, LISA_FMSUB_S, LISA_FMSUB_D, LISA_FNMADD_S, LISA_FNMADD_D, LISA_FNMSUB_S,
    LISA_FNMSUB_D, LISA_VFMADD_S, LISA_VFMADD_D, LISA_VFMSUB_S, LISA_VFMSUB_D, LISA_VFNMADD_S,
    LISA_VFNMADD_D, LISA_VFNMSUB_S, LISA_VFNMSUB_D, LISA_XVFMADD_S, LISA_XVFMADD_D, LISA_XVFMSUB_S,
    LISA_XVFMSUB_D, LISA_XVFNMADD_S, LISA_XVFNMADD_D, LISA_XVFNMSUB_S, LISA_XVFNMSUB_D, LISA_FCMP_COND_S,
    LISA_FCMP_COND_D, LISA_VFCMP_COND_S, LISA_VFCMP_COND_D, LISA_XVFCMP_COND_S, LISA_XVFCMP_COND_D,
    LISA_FSEL, LISA_VBITSEL_V, LISA_XVBITSEL_V, LISA_VSHUF_B, LISA_XVSHUF_B, LISA_VEXTR_V, LISA_XVEXTR_V,
    LISA_VFMADDSUB_S, LISA_VFMADDSUB_D, LISA_VFMSUBADD_S, LISA_VFMSUBADD_D, LISA_XVFMADDSUB_S,
    LISA_XVFMADDSUB_D, LISA_XVFMSUBADD_S, LISA_XVFMSUBADD_D]"
  "length lisa_rows_3596 = 226"
  unfolding lisa_rows_3596_def
  by (simp_all add: rows_eval del: dtree_walk.simps(2) map_of.simps map_of_append cong: walk_cong map_of_weak_cong)

lemma check_rows_5391:
  "rows_check 831 lisa_rows_5391 = Some []"
  "length lisa_rows_5391 = 225"
  unfolding lisa_rows_5391_def
  by (simp_all add: rows_eval del: dtree_walk.simps(2) map_of.simps map_of_append cong: walk_cong map_of_weak_cong)

lemma check_rows_7191:
  "rows_check 1056 lisa_rows_7191 = Some []"
  "length lisa_rows_7191 = 225"
  unfolding lisa_rows_7191_def
  by (simp_all add: rows_eval del: dtree_walk.simps(2) map_of.simps map_of_append cong: walk_cong map_of_weak_cong)

lemma check_rows_8991:
  "rows_check 1281 lisa_rows_8991 = Some []"
  "length lisa_rows_8991 = 234"
  unfolding lisa_rows_8991_def
  by (simp_all add: rows_eval del: dtree_walk.simps(2) map_of.simps map_of_append cong: walk_cong map_of_weak_cong)

lemma check_rows_10791:
  "rows_check 1515 lisa_rows_10791 = Some []"
  "length lisa_rows_10791 = 231"
  unfolding lisa_rows_10791_def
  by (simp_all add: rows_eval del: dtree_walk.simps(2) map_of.simps map_of_append cong: walk_cong map_of_weak_cong)

lemma check_rows_12588:
  "rows_check 1746 lisa_rows_12588 = Some []"
  "length lisa_rows_12588 = 225"
  unfolding lisa_rows_12588_def
  by (simp_all add: rows_eval del: dtree_walk.simps(2) map_of.simps map_of_append cong: walk_cong map_of_weak_cong)

lemma check_rows_14388:
  "rows_check 1971 lisa_rows_14388 = Some []"
  "length lisa_rows_14388 = 225"
  unfolding lisa_rows_14388_def
  by (simp_all add: rows_eval del: dtree_walk.simps(2) map_of.simps map_of_append cong: walk_cong map_of_weak_cong)

lemma check_rows_16188:
  "rows_check 2196 lisa_rows_16188 = Some []"
  "length lisa_rows_16188 = 225"
  unfolding lisa_rows_16188_def
  by (simp_all add: rows_eval del: dtree_walk.simps(2) map_of.simps map_of_append cong: walk_cong map_of_weak_cong)

lemma check_rows_17988:
  "rows_check 2421 lisa_rows_17988 = Some []"
  "length lisa_rows_17988 = 241"
  unfolding lisa_rows_17988_def
  by (simp_all add: rows_eval del: dtree_walk.simps(2) map_of.simps map_of_append cong: walk_cong map_of_weak_cong)

lemma check_rows_19783:
  "rows_check 2662 lisa_rows_19783 = Some [
    LISA_ILL, LISA_ENDING]"
  "length lisa_rows_19783 = 94"
  unfolding lisa_rows_19783_def
  by (simp_all add: rows_eval del: dtree_walk.simps(2) map_of.simps map_of_append cong: walk_cong map_of_weak_cong)

lemmas check_rows =
  check_rows_2
  check_rows_1799
  check_rows_3596
  check_rows_5391
  check_rows_7191
  check_rows_8991
  check_rows_10791
  check_rows_12588
  check_rows_14388
  check_rows_16188
  check_rows_17988
  check_rows_19783

text \<open>The opcodes whose rows decode as invalid: the pseudo instructions, and the instructions that
  la\_decode does not know.\<close>

definition lost_opcodes :: "ir2_opcode list" where
  "lost_opcodes = [
    LISA_LABEL, LISA_X86_INST, LISA_ACCL, LISA_ALIGN, LISA_FAR_JUMP, LISA_MOV64, LISA_MOV32_SX,
    LISA_MOV32_ZX, LISA_ADD, LISA_SUB, LISA_ADDI_ADDRX, LISA_LOAD_ADDRX, LISA_STORE_ADDRX, LISA_NOP,
    LISA_CODE, LISA_DATA_LI, LISA_DATA_ADD, LISA_INST_DIFF, LISA_DATA_ST, LISA_DATA_ST_REL_TABLE,
    LISA_PROFILE, LISA_PCADDI_RELOCATE, LISA_JUMP_EPILOGUE, LISA_PSEUDO_END, LISA_LLACQ_W, LISA_SCREL_W,
    LISA_LLACQ_D, LISA_SCREL_D, LISA_SC_Q, LISA_AMCAS_B, LISA_AMCAS_H, LISA_AMCAS_W, LISA_AMCAS_D,
    LISA_AMCAS_DB_B, LISA_AMCAS_DB_H, LISA_AMCAS_DB_W, LISA_AMCAS_DB_D, LISA_AMSWAP_B, LISA_AMSWAP_H,
    LISA_AMADD_B, LISA_AMADD_H, LISA_AMSWAP_DB_B, LISA_AMSWAP_DB_H, LISA_AMADD_DB_B, LISA_AMADD_DB_H,
    LISA_FMADD_S, LISA_FMADD_D, LISA_FMSUB_S, LISA_FMSUB_D, LISA_FNMADD_S, LISA_FNMADD_D, LISA_FNMSUB_S,
    LISA_FNMSUB_D, LISA_VFMADD_S, LISA_VFMADD_D, LISA_VFMSUB_S, LISA_VFMSUB_D, LISA_VFNMADD_S,
    LISA_VFNMADD_D, LISA_VFNMSUB_S, LISA_VFNMSUB_D, LISA_XVFMADD_S, LISA_XVFMADD_D, LISA_XVFMSUB_S,
    LISA_XVFMSUB_D, LISA_XVFNMADD_S, LISA_XVFNMADD_D, LISA_XVFNMSUB_S, LISA_XVFNMSUB_D, LISA_FCMP_COND_S,
    LISA_FCMP_COND_D, LISA_VFCMP_COND_S, LISA_VFCMP_COND_D, LISA_XVFCMP_COND_S, LISA_XVFCMP_COND_D,
    LISA_FSEL, LISA_VBITSEL_V, LISA_XVBITSEL_V, LISA_VSHUF_B, LISA_XVSHUF_B, LISA_VEXTR_V, LISA_XVEXTR_V,
    LISA_VFMADDSUB_S, LISA_VFMADDSUB_D, LISA_VFMSUBADD_S, LISA_VFMSUBADD_D, LISA_XVFMADDSUB_S,
    LISA_XVFMADDSUB_D, LISA_XVFMSUBADD_S, LISA_XVFMSUBADD_D, LISA_ILL, LISA_ENDING]"

lemma lisa_format_table_check:
  "rows_check LISA_INVALID lisa_format_table = Some lost_opcodes"
  "length lisa_format_table = 2628"
  unfolding lisa_format_table_def lost_opcodes_def
  by (simp_all add: rows_check_append check_rows del: rows_check.simps(2))

end
