(* ===== verification/Ir2_Assemble_Properties.thy ===== *)
theory Ir2_Assemble_Properties
  imports La_Format_Check
begin


lemma lisa_format_row:
  assumes "lisa_format opcode = Some format"
  shows "if opcode \<in> set lost_opcodes then row_lost opcode format else row_ok opcode format"
proof -
  obtain k where k: "opcode = LISA_INVALID + k" "k < length lisa_format_table" "format = lisa_format_table ! k"
  proof -
    have "0 \<le> int opcode - 128" "int opcode - 128 < int (length lisa_format_table)"
      "format = lisa_format_table ! nat (int opcode - 128)"
      using assms by (auto simp: lisa_format_def arr_get_def split: if_splits)
    moreover have "nat (int opcode - 128) = opcode - 128" by arith
    ultimately show thesis by (intro that[of "opcode - 128"]) auto
  qed
  show ?thesis using rows_check_sound[OF lisa_format_table_check(1) k(2)] k(1,3) by simp
qed

lemma LISA_CODE_lost: "LISA_CODE \<in> set lost_opcodes"
  by (simp add: lost_opcodes_def)

text \<open>C10: assembling and disassembling are inverse.  For every instruction of the format table outside
  \<open>lost_opcodes\<close> and all operand values that fit their fields (signed or unsigned, as the
  disassembler reads them), the disassembler finds in the assembled word the same opcode and the
  same operand values.\<close>

theorem la_disasm_ir2_assemble:
  assumes "lisa_format (ir2_opcode_of ir2) = Some format" "ir2_opcode_of ir2 \<notin> set lost_opcodes"
    and "length (n_opnd ir2) = 4"
    and "\<forall>j < length (opnds_of (fmt_opnd format)).
      opnd_fits (opnds_of (fmt_opnd format) ! j) (o2_val (n_opnd ir2 ! j))"
  shows "\<exists>w. ir2_assemble ir2 = Some w \<and> la_disasm w = Some (ir2_opcode_of ir2,
    map2 (\<lambda>ty opnd. create_ir2_opnd (la_to_ir2_type ! ty) (o2_val opnd)) (opnds_of (fmt_opnd format)) (n_opnd ir2))"
  using row_roundtrip[of "ir2_opcode_of ir2" format ir2] lisa_format_row[OF assms(1)] assms LISA_CODE_lost
  by fastforce

definition addi_d_example :: ir2_inst where
  "addi_d_example = \<lparr>n_opcode = LISA_ADDI_D, n_id = 0, n_prev = -1, n_next = -1, n_op_count = 3,
     n_opnd = [create_ir2_opnd IR2_OPND_GPR 12, create_ir2_opnd IR2_OPND_GPR 13, create_ir2_opnd IR2_OPND_IMM (-5),
       ir2_opnd_new_none]\<rparr>"

lemma nth_skip: "length xs = l \<Longrightarrow> l \<le> n \<Longrightarrow> (xs @ ys) ! n = ys ! (n - l)"
  by (simp add: nth_append)

lemma nth_here: "length xs = l \<Longrightarrow> n < l \<Longrightarrow> (xs @ ys) ! n = xs ! n"
  by (simp add: nth_append)

lemma lisa_format_ADDI_D: "lisa_format LISA_ADDI_D = Some (Fmt LISA_ADDI_D 0x02c00000 [GPR_RD, GPR_RJ, IMM_SI12])"
proof -
  have "lisa_format_table ! (LISA_ADDI_D - LISA_INVALID) = Fmt LISA_ADDI_D 0x02c00000 [GPR_RD, GPR_RJ, IMM_SI12]"
    unfolding lisa_format_table_def
    by (simp add: nth_skip[OF check_rows_2(2)] nth_here[OF check_rows_1799(2)] lisa_rows_1799_def del: nth_append)
  then show ?thesis by (simp add: lisa_format_def arr_get_def lisa_format_table_check)
qed

theorem la_disasm_ir2_assemble_witness:
  "\<exists>w. ir2_assemble addi_d_example = Some w \<and> la_disasm w = Some (LISA_ADDI_D,
     [create_ir2_opnd IR2_OPND_GPR 12, create_ir2_opnd IR2_OPND_GPR 13, create_ir2_opnd IR2_OPND_IMM (-5)])"
  using la_disasm_ir2_assemble[of addi_d_example "Fmt LISA_ADDI_D 0x02c00000 [GPR_RD, GPR_RJ, IMM_SI12]"]
  by (simp add: addi_d_example_def ir2_opcode_of_def lisa_format_ADDI_D lost_opcodes_def opnds_of_eval
      create_ir2_opnd_def opnd_fits_def field_len_def bit_field_table_def is_la_sign_opnd_def la_to_ir2_type_def All_less_Suc2)



end
