(* ===== verification/La_Isa.thy ===== *)
theory La_Isa
  imports Ir2 "HOL-Library.State_Monad"
begin

text \<open>
  Integer instructions of the LoongArch architecture, as far as the modelled translations emit
  them, on the 64-bit general registers and byte-addressed memory: the effect that the LoongArch
  reference manual gives for an instruction with the fields the assembler encodes.  Register 0
  reads as 0 and ignores writes.  An immediate operand is the 32-bit value in the ir2 operand;
  only the bits of its field reach the machine.  Code is a list of instructions without branches.
\<close>

type_synonym la_ins = "ir2_opcode \<times> ir2_opnd list"
type_synonym memory = "u64 \<Rightarrow> u8"

record la_mach =
  m_reg :: "nat \<Rightarrow> u64"
  m_mem :: memory

definition reg_num :: "ir2_opnd \<Rightarrow> nat" where "reg_num opnd = unat (o2_val opnd)"

definition reg_read :: "la_mach \<Rightarrow> ir2_opnd \<Rightarrow> u64" where
  "reg_read M opnd = (if reg_num opnd = 0 then 0 else m_reg M (reg_num opnd))"

definition reg_write :: "ir2_opnd \<Rightarrow> u64 \<Rightarrow> la_mach \<Rightarrow> la_mach" where
  "reg_write opnd v M = (if reg_num opnd = 0 then M else M\<lparr>m_reg := (m_reg M)(reg_num opnd := v)\<rparr>)"

text \<open>Memory is little endian.\<close>

primrec load_le :: "nat \<Rightarrow> memory \<Rightarrow> u64 \<Rightarrow> u64" where
  "load_le 0 mem a = 0"
| "load_le (Suc n) mem a = ucast (mem a) OR push_bit 8 (load_le n mem (a + 1))"

primrec store_le :: "nat \<Rightarrow> u64 \<Rightarrow> u64 \<Rightarrow> memory \<Rightarrow> memory" where
  "store_le 0 v a mem = mem"
| "store_le (Suc n) v a mem = store_le n (drop_bit 8 v) (a + 1) (mem(a := ucast v))"

text \<open>Immediate fields: unsigned of n bits, signed of n bits.\<close>

definition ui :: "nat \<Rightarrow> ir2_opnd \<Rightarrow> u64" where "ui n opnd = take_bit n (ucast (o2_val opnd))"
definition si :: "nat \<Rightarrow> ir2_opnd \<Rightarrow> u64" where "si n opnd = signed_take_bit (n - 1) (ucast (o2_val opnd))"

text \<open>The sign extension of the low 32 bits, which the .w instructions apply to their result.\<close>

definition sx32 :: "u64 \<Rightarrow> u64" where "sx32 v = signed_take_bit 31 v"

text \<open>Insert the low bits of \<open>v\<close> at positions lsb to msb of \<open>old\<close>.\<close>

definition bstrins :: "nat \<Rightarrow> nat \<Rightarrow> u64 \<Rightarrow> u64 \<Rightarrow> u64" where
  "bstrins msb lsb old v = (old AND NOT (push_bit lsb (mask (msb - lsb + 1)))) OR push_bit lsb (take_bit (msb - lsb + 1) v)"

definition bstrpick :: "nat \<Rightarrow> nat \<Rightarrow> u64 \<Rightarrow> u64" where
  "bstrpick msb lsb v = take_bit (msb - lsb + 1) (drop_bit lsb v)"

text \<open>Loads: the number of bytes and whether the value is sign extended.\<close>

definition la_load :: "ir2_opcode \<Rightarrow> memory \<Rightarrow> u64 \<Rightarrow> u64 option" where
  "la_load opc mem a =
    (if opc = LISA_LD_B \<or> opc = LISA_LDX_B then Some (signed_take_bit 7 (load_le 1 mem a))
     else if opc = LISA_LD_H \<or> opc = LISA_LDX_H then Some (signed_take_bit 15 (load_le 2 mem a))
     else if opc = LISA_LD_W \<or> opc = LISA_LDX_W then Some (signed_take_bit 31 (load_le 4 mem a))
     else if opc = LISA_LD_D \<or> opc = LISA_LDX_D then Some (load_le 8 mem a)
     else if opc = LISA_LD_BU \<or> opc = LISA_LDX_BU then Some (load_le 1 mem a)
     else if opc = LISA_LD_HU \<or> opc = LISA_LDX_HU then Some (load_le 2 mem a)
     else if opc = LISA_LD_WU \<or> opc = LISA_LDX_WU then Some (load_le 4 mem a)
     else None)"

definition la_store_bytes :: "ir2_opcode \<Rightarrow> nat option" where
  "la_store_bytes opc =
    (if opc = LISA_ST_B \<or> opc = LISA_STX_B then Some 1
     else if opc = LISA_ST_H \<or> opc = LISA_STX_H then Some 2
     else if opc = LISA_ST_W \<or> opc = LISA_STX_W then Some 4
     else if opc = LISA_ST_D \<or> opc = LISA_STX_D then Some 8
     else None)"

text \<open>The address of a load or store: base and index register, or base and 12-bit offset.\<close>

definition la_address :: "ir2_opcode \<Rightarrow> la_mach \<Rightarrow> ir2_opnd \<Rightarrow> ir2_opnd \<Rightarrow> u64" where
  "la_address opc M rj b =
    (if opc \<in> {LISA_LDX_B, LISA_LDX_H, LISA_LDX_W, LISA_LDX_D, LISA_LDX_BU, LISA_LDX_HU, LISA_LDX_WU,
        LISA_STX_B, LISA_STX_H, LISA_STX_W, LISA_STX_D}
     then reg_read M rj + reg_read M b else reg_read M rj + si 12 b)"

fun la_value :: "ir2_opcode \<Rightarrow> ir2_opnd list \<Rightarrow> la_mach \<Rightarrow> u64 option" where
  "la_value opc [rd, a] M =
    (if opc = LISA_LU12I_W then Some (sx32 (push_bit 12 (si 20 a)))
     else if opc = LISA_LU32I_D then Some (take_bit 32 (reg_read M rd) OR push_bit 32 (si 20 a))
     else if opc = LISA_EXT_W_B then Some (signed_take_bit 7 (reg_read M a))
     else if opc = LISA_EXT_W_H then Some (signed_take_bit 15 (reg_read M a))
     else None)"
| "la_value opc [rd, rj, b] M =
    (if opc = LISA_LU52I_D then Some (take_bit 52 (reg_read M rj) OR push_bit 52 (si 12 b))
     else if opc = LISA_ORI then Some (reg_read M rj OR ui 12 b)
     else if opc = LISA_ANDI then Some (reg_read M rj AND ui 12 b)
     else if opc = LISA_XORI then Some (reg_read M rj XOR ui 12 b)
     else if opc = LISA_ADDI_W then Some (sx32 (reg_read M rj + si 12 b))
     else if opc = LISA_ADDI_D then Some (reg_read M rj + si 12 b)
     else if opc = LISA_OR then Some (reg_read M rj OR reg_read M b)
     else if opc = LISA_AND then Some (reg_read M rj AND reg_read M b)
     else if opc = LISA_XOR then Some (reg_read M rj XOR reg_read M b)
     else if opc = LISA_ADD_D then Some (reg_read M rj + reg_read M b)
     else if opc = LISA_ADD_W then Some (sx32 (reg_read M rj + reg_read M b))
     else if opc = LISA_SUB_D then Some (reg_read M rj - reg_read M b)
     else if opc = LISA_SUB_W then Some (sx32 (reg_read M rj - reg_read M b))
     else if opc = LISA_SLLI_W then Some (sx32 (push_bit (unat (ui 5 b)) (reg_read M rj)))
     else if opc = LISA_SRLI_W then Some (sx32 (drop_bit (unat (ui 5 b)) (take_bit 32 (reg_read M rj))))
     else if opc = LISA_SLLI_D then Some (push_bit (unat (ui 6 b)) (reg_read M rj))
     else if opc = LISA_SRLI_D then Some (drop_bit (unat (ui 6 b)) (reg_read M rj))
     else if opc = LISA_SRAI_D then Some (signed_drop_bit (unat (ui 6 b)) (reg_read M rj))
     else if opc = LISA_SRAI_W then Some (signed_drop_bit (unat (ui 5 b)) (sx32 (reg_read M rj)))
     else la_load opc (m_mem M) (la_address opc M rj b))"
| "la_value opc [rd, rj, b, c] M =
    (if opc = LISA_BSTRPICK_D then Some (bstrpick (unat (ui 6 b)) (unat (ui 6 c)) (reg_read M rj))
     else if opc = LISA_BSTRPICK_W then Some (sx32 (bstrpick (unat (ui 5 b)) (unat (ui 5 c)) (reg_read M rj)))
     else if opc = LISA_BSTRINS_D then
       Some (bstrins (unat (ui 6 b)) (unat (ui 6 c)) (reg_read M rd) (reg_read M rj))
     else if opc = LISA_BSTRINS_W then
       Some (sx32 (bstrins (unat (ui 5 b)) (unat (ui 5 c)) (reg_read M rd) (reg_read M rj)))
     else if opc = LISA_ALSL_D then Some (push_bit (unat (ui 2 c) + 1) (reg_read M rj) + reg_read M b)
     else if opc = LISA_ALSL_WU then
       Some (take_bit 32 (push_bit (unat (ui 2 c) + 1) (reg_read M rj) + reg_read M b))
     else None)"
| "la_value opc _ M = None"

text \<open>A store writes memory; any other instruction writes its first operand.\<close>

fun la_store :: "ir2_opcode \<Rightarrow> ir2_opnd list \<Rightarrow> la_mach \<Rightarrow> la_mach option" where
  "la_store opc [rd, rj, b] M =
     map_option (\<lambda>n. M\<lparr>m_mem := store_le n (reg_read M rd) (la_address opc M rj b) (m_mem M)\<rparr>) (la_store_bytes opc)"
| "la_store opc _ M = None"

definition la_exec :: "la_ins \<Rightarrow> la_mach \<Rightarrow> la_mach option" where
  "la_exec ins M = (case ins of (opc, opnds) \<Rightarrow>
     (case la_store opc opnds M of Some M' \<Rightarrow> Some M'
      | None \<Rightarrow> map_option (\<lambda>v. reg_write (hd opnds) v M) (la_value opc opnds M)))"

fun la_run :: "la_ins list \<Rightarrow> la_mach \<Rightarrow> la_mach option" where
  "la_run [] M = Some M"
| "la_run (ins # code) M = do { M1 \<leftarrow> la_exec ins M; la_run code M1 }"

lemma la_run_append: "la_run (xs @ ys) M = la_run xs M \<bind> la_run ys"
proof (induction xs arbitrary: M)
  case (Cons ins xs)
  then show ?case by (cases "la_exec ins M") simp_all
qed simp

lemma la_store_none [simp]: "la_store_bytes opc = None \<Longrightarrow> la_store opc opnds M = None"
  by (cases "(opc, opnds, M)" rule: la_store.cases) auto

section \<open>Registers\<close>

lemma reg_read_write [simp]:
  "reg_read (reg_write o1 v M) o2 = (if reg_num o2 = reg_num o1 \<and> reg_num o1 \<noteq> 0 then v else reg_read M o2)"
  by (auto simp: reg_read_def reg_write_def)

lemma reg_write_write [simp]: "reg_write opnd v (reg_write opnd u M) = reg_write opnd v M"
  by (simp add: reg_write_def)

lemma m_mem_write [simp]: "m_mem (reg_write opnd v M) = m_mem M"
  by (simp add: reg_write_def)

lemma m_reg_write [simp]: "m_reg (reg_write opnd v M) r = (if r = reg_num opnd \<and> r \<noteq> 0 then v else m_reg M r)"
  by (simp add: reg_write_def)

section \<open>Bits\<close>

lemma bit_stb64: "bit (signed_take_bit n (w :: u64)) i \<longleftrightarrow> i < 64 \<and> bit w (min i n)"
  by (auto simp: bit_signed_take_bit_iff min.commute)

lemma bit_bstrins:
  "bit (bstrins m l old v) i \<longleftrightarrow> i < 64 \<and> (if l \<le> i \<and> i \<le> l + (m - l) then bit v (i - l) else bit old i)"
  by (auto simp: bstrins_def bit_or_iff bit_and_iff bit_not_word bit_push_bit_iff bit_mask_iff bit_take_bit_iff
      dest: bit_imp_le_length)

lemma bit_bstrpick: "bit (bstrpick m l v) i \<longleftrightarrow> i \<le> m - l \<and> bit v (l + i)"
  by (auto simp: bstrpick_def bit_take_bit_iff bit_drop_bit_eq)

lemma bit_ucast64: "bit (ucast (w :: u32) :: u64) i \<longleftrightarrow> bit w i"
  by (auto simp: bit_ucast_iff dest: bit_imp_le_length)

lemma bit_si: "0 < n \<Longrightarrow> bit (si n opnd) i \<longleftrightarrow> i < 64 \<and> bit (o2_val opnd) (min i (n - 1))"
  by (simp add: si_def bit_stb64 bit_ucast64)

lemma bit_ui: "bit (ui n opnd) i \<longleftrightarrow> i < n \<and> bit (o2_val opnd) i"
  by (simp add: ui_def bit_take_bit_iff bit_ucast64)

lemma bit_sx32: "bit (sx32 v) i \<longleftrightarrow> i < 64 \<and> bit v (min i 31)"
  by (simp add: sx32_def bit_stb64)

lemmas la_bits = bit_bstrins bit_bstrpick bit_si bit_ui bit_sx32 bit_stb64

section \<open>Memory\<close>

lemma store_le_other: "n \<le> unat (x - a) \<Longrightarrow> store_le n v a mem x = mem x" for x a :: u64
proof (induction n arbitrary: v a mem)
  case (Suc n)
  have ne: "x \<noteq> a" using Suc.prems by auto
  have "unat (x - (a + 1)) = unat (x - a) - 1"
    using ne unat_minus_one[of "x - a"] by (simp add: diff_diff_eq)
  then show ?case using Suc ne by simp
qed simp

lemma load_le_cong: "(\<And>j. j < n \<Longrightarrow> m1 (a + of_nat j) = m2 (a + of_nat j)) \<Longrightarrow> load_le n m1 a = load_le n m2 a"
proof (induction n arbitrary: a)
  case (Suc n)
  have "load_le n m1 (a + 1) = load_le n m2 (a + 1)"
    by (rule Suc.IH) (use Suc.prems[of "Suc _"] in \<open>simp add: add.assoc\<close>)
  then show ?case using Suc.prems[of 0] by simp
qed simp

lemma load_store_le: "n \<le> 8 \<Longrightarrow> load_le n (store_le n v a mem) a = take_bit (8 * n) v"
proof (induction n arbitrary: v a mem)
  case (Suc n)
  have "store_le n (drop_bit 8 v) (a + 1) (mem(a := ucast v)) a = ucast v"
    using store_le_other[of n a "a + 1" "drop_bit 8 v" "mem(a := ucast v)"] Suc.prems by (simp add: unsigned_minus_1_eq_mask mask_eq_exp_minus_1)
  moreover have "ucast (ucast v :: u8) OR push_bit 8 (take_bit (8 * n) (drop_bit 8 v)) = take_bit (8 * Suc n) v"
    by (rule bit_eqI) (auto simp: bit_or_iff bit_push_bit_iff bit_take_bit_iff bit_drop_bit_eq bit_ucast_iff)
  ultimately show ?case using Suc by simp
qed simp

end
