(* ===== verification/Tr_Emit.thy ===== *)
theory Tr_Emit
  imports La_Isa Reg_Alloc
begin

text \<open>
  The state that the instruction translators of translator/tr-*.c thread through their calls,
  as a state monad: the code emitted so far, the two masks of temporaries and the label counter
  of TRANSLATION\_DATA.  \<open>tc_ok\<close> becomes false when the C code runs into an assertion that is
  always compiled in or into an access outside an array.  The address cache is off
  (option\_imm\_reg is 0).  \<open>emit_code_refines\<close> relates the emitted code to the linked instruction
  array, and \<open>em_does\<close> is the reasoning principle for the actions.
\<close>

record tr_ctx =
  tc_code :: "la_ins list"
  tc_itemp :: u16
  tc_ftemp :: u16
  tc_label :: int
  tc_ok :: bool

type_synonym 'a em = "(tr_ctx, 'a) state"

abbreviation em_return :: "'a \<Rightarrow> 'a em" where "em_return \<equiv> State_Monad.return"
abbreviation em_skip :: "unit em" where "em_skip \<equiv> State_Monad.return ()"

definition em_fail :: "'a \<Rightarrow> 'a em" where
  "em_fail x = State (\<lambda>s. (x, s\<lparr>tc_ok := False\<rparr>))"

definition emit :: "ir2_opcode \<Rightarrow> ir2_opnd list \<Rightarrow> unit em" where
  "emit opcode opnds = State (\<lambda>s. ((), s\<lparr>tc_code := tc_code s @ [(opcode, opnds)]\<rparr>))"

lemma run_emit [simp]: "run_state (emit opc opnds) s = ((), s\<lparr>tc_code := tc_code s @ [(opc, opnds)]\<rparr>)"
  by (simp add: emit_def)

lemma run_em_fail [simp]: "run_state (em_fail x) s = (x, s\<lparr>tc_ok := False\<rparr>)"
  by (simp add: em_fail_def)

section \<open>Generated constructors\<close>

text \<open>la\_X with register operands only, with an immediate, and with two.\<close>

abbreviation la_rr :: "ir2_opcode \<Rightarrow> ir2_opnd \<Rightarrow> ir2_opnd \<Rightarrow> unit em" where
  "la_rr opc rd rj \<equiv> emit opc [rd, rj]"
abbreviation la_rrr :: "ir2_opcode \<Rightarrow> ir2_opnd \<Rightarrow> ir2_opnd \<Rightarrow> ir2_opnd \<Rightarrow> unit em" where
  "la_rrr opc rd rj rk \<equiv> emit opc [rd, rj, rk]"
abbreviation la_ri :: "ir2_opcode \<Rightarrow> ir2_opnd \<Rightarrow> int \<Rightarrow> unit em" where
  "la_ri opc rd imm \<equiv> emit opc [rd, create_immh_opnd imm]"
abbreviation la_rri :: "ir2_opcode \<Rightarrow> ir2_opnd \<Rightarrow> ir2_opnd \<Rightarrow> int \<Rightarrow> unit em" where
  "la_rri opc rd rj imm \<equiv> emit opc [rd, rj, create_immh_opnd imm]"
abbreviation la_rrii :: "ir2_opcode \<Rightarrow> ir2_opnd \<Rightarrow> ir2_opnd \<Rightarrow> int \<Rightarrow> int \<Rightarrow> unit em" where
  "la_rrii opc rd rj msb lsb \<equiv> emit opc [rd, rj, create_immh_opnd msb, create_immh_opnd lsb]"

definition la_mov64 :: "ir2_opnd \<Rightarrow> ir2_opnd \<Rightarrow> unit em" where
  "la_mov64 dest src = (if ir2_opnd_cmp dest src then em_skip else la_rrr LISA_OR dest src zero_ir2_opnd)"

definition la_mov32_sx :: "ir2_opnd \<Rightarrow> ir2_opnd \<Rightarrow> unit em" where
  "la_mov32_sx dest src = la_rri LISA_SLLI_W dest src 0"

definition la_mov32_zx :: "ir2_opnd \<Rightarrow> ir2_opnd \<Rightarrow> unit em" where
  "la_mov32_zx dest src = la_rrii LISA_BSTRPICK_D dest src 31 0"

section \<open>Registers\<close>

text \<open>The allocation functions of \<open>Reg_Alloc\<close> in the monad.\<close>

definition em_gpr :: "target \<Rightarrow> int \<Rightarrow> ir2_opnd em" where
  "em_gpr tg index = (case ra_alloc_gpr tg index of Some opnd \<Rightarrow> em_return opnd | None \<Rightarrow> em_fail ir2_opnd_new_none)"

definition em_alloc_itemp :: "target \<Rightarrow> ir2_opnd em" where
  "em_alloc_itemp tg = State (\<lambda>s.
     let (st, r) = ra_alloc_temp_num (reg_itemp_map tg) (tc_itemp s)
     in (create_ir2_opnd IR2_OPND_GPR (of_int r), s\<lparr>tc_itemp := st\<rparr>))"

definition em_free_temp :: "target \<Rightarrow> ir2_opnd \<Rightarrow> unit em" where
  "em_free_temp tg opnd = State (\<lambda>s.
     case do {
       it \<leftarrow> ir2_opnd_is_itemp tg opnd;
       if it then map_option (\<lambda>st. s\<lparr>tc_itemp := st\<rparr>)
           (ra_free_code (reg_itemp_reverse_map tg) (ir2_opnd_base_reg_num opnd) (tc_itemp s))
       else do {
         ft \<leftarrow> ir2_opnd_is_ftemp opnd;
         if ft then map_option (\<lambda>st. s\<lparr>tc_ftemp := st\<rparr>)
             (ra_free_code reg_ftemp_reverse_map (ir2_opnd_base_reg_num opnd) (tc_ftemp s))
         else Some s
       }
     } of Some s' \<Rightarrow> ((), s') | None \<Rightarrow> ((), s\<lparr>tc_ok := False\<rparr>))"

definition em_opt :: "'a \<Rightarrow> 'a option \<Rightarrow> 'a em" where
  "em_opt junk r = (case r of Some x \<Rightarrow> em_return x | None \<Rightarrow> em_fail junk)"

definition em_res :: "'a \<Rightarrow> 'a result \<Rightarrow> 'a em" where
  "em_res junk r = (case r of Inr x \<Rightarrow> em_return x | Inl _ \<Rightarrow> em_fail junk)"

section \<open>The emitted code in the instruction array\<close>

fun emit_code :: "bool \<Rightarrow> (nat \<Rightarrow> ir2_inst) \<Rightarrow> la_ins list \<Rightarrow> tr_data \<Rightarrow> tr_data option" where
  "emit_code moved junk [] t = Some t"
| "emit_code moved junk ((opcode, opnds) # code) t = do {
     (t1, _) \<leftarrow> la_emit moved junk opcode opnds t;
     emit_code moved junk code t1
   }"

fun items :: "nat \<Rightarrow> la_ins list \<Rightarrow> (nat \<times> ir2_opcode \<times> ir2_opnd list) list" where
  "items n [] = []"
| "items n ((opcode, opnds) # code) = item n opcode opnds # items (n + 1) code"

lemma emit_code_refines:
  assumes "represents t (xs, n)" "n + length code \<le> 2 ^ 15" "xs \<noteq> [] \<or> n < 400"
  shows "\<exists>t'. emit_code moved junk code t = Some t' \<and> represents t' (xs @ items n code, n + length code)"
  using assms
proof (induction code arbitrary: t xs n)
  case (Cons ins code)
  obtain opcode opnds where ins: "ins = (opcode, opnds)" by force
  obtain t1 where t1: "do_edit moved junk (Emit opcode opnds) t = Some t1" "represents t1 (xs @ [item n opcode opnds], n + 1)"
    using emit_refines[of t xs n moved junk opcode opnds] Cons.prems by auto
  obtain t' where "emit_code moved junk code t1 = Some t'"
    "represents t' ((xs @ [item n opcode opnds]) @ items (n + 1) code, n + 1 + length code)"
    using Cons.IH[OF t1(2)] Cons.prems(2) by auto
  then show ?case using t1(1) by (force simp: ins)
qed simp

section \<open>Reasoning about actions\<close>

text \<open>\<open>em_does tg m B M Q\<close>: run with the temporaries \<open>B\<close> in use, \<open>m\<close> reaches no failure and
  appends code that runs from \<open>M\<close>; \<open>Q\<close> holds of its result, the temporaries then in use and the
  machine state after the code.\<close>

definition em_does :: "target \<Rightarrow> 'a em \<Rightarrow> int set \<Rightarrow> la_mach \<Rightarrow> ('a \<Rightarrow> int set \<Rightarrow> la_mach \<Rightarrow> bool) \<Rightarrow> bool" where
  "em_does tg m B M Q \<longleftrightarrow>
    (\<forall>s. tc_ok s \<and> live_temps (reg_itemp_map tg) (tc_itemp s) = B \<longrightarrow>
      (case run_state m s of (x, s') \<Rightarrow> \<exists>code M'.
         s' = s\<lparr>tc_code := tc_code s @ code, tc_itemp := tc_itemp s'\<rparr> \<and> la_run code M = Some M' \<and>
         Q x (live_temps (reg_itemp_map tg) (tc_itemp s')) M'))"

lemma em_doesI:
  assumes "\<And>s. tc_ok s \<Longrightarrow> live_temps (reg_itemp_map tg) (tc_itemp s) = B \<Longrightarrow>
    \<exists>x code st M'. run_state m s = (x, s\<lparr>tc_code := tc_code s @ code, tc_itemp := st\<rparr>) \<and> la_run code M = Some M' \<and>
      Q x (live_temps (reg_itemp_map tg) st) M'"
  shows "em_does tg m B M Q"
  unfolding em_does_def using assms by fastforce

lemma em_doesE:
  assumes "em_does tg m B M Q" "tc_ok s" "live_temps (reg_itemp_map tg) (tc_itemp s) = B"
  obtains x code st M' where "run_state m s = (x, s\<lparr>tc_code := tc_code s @ code, tc_itemp := st\<rparr>)"
    "la_run code M = Some M'" "Q x (live_temps (reg_itemp_map tg) st) M'"
proof -
  obtain x s' where r: "run_state m s = (x, s')" by fastforce
  then obtain code M' where "s' = s\<lparr>tc_code := tc_code s @ code, tc_itemp := tc_itemp s'\<rparr>" "la_run code M = Some M'"
    "Q x (live_temps (reg_itemp_map tg) (tc_itemp s')) M'"
    using assms unfolding em_does_def by fastforce
  then show ?thesis using that r by metis
qed

lemma does_bind:
  assumes m: "em_does tg m B M (\<lambda>x B1 M1. em_does tg (f x) B1 M1 Q)"
  shows "em_does tg (m \<bind> f) B M Q"
proof (rule em_doesI)
  fix s :: tr_ctx assume s: "tc_ok s" "live_temps (reg_itemp_map tg) (tc_itemp s) = B"
  obtain x c1 st1 M1 where 1: "run_state m s = (x, s\<lparr>tc_code := tc_code s @ c1, tc_itemp := st1\<rparr>)"
    "la_run c1 M = Some M1" "em_does tg (f x) (live_temps (reg_itemp_map tg) st1) M1 Q"
    using em_doesE[OF m s] by metis
  let ?s1 = "s\<lparr>tc_code := tc_code s @ c1, tc_itemp := st1\<rparr>"
  obtain y c2 st2 M2 where 2: "run_state (f x) ?s1 = (y, ?s1\<lparr>tc_code := tc_code ?s1 @ c2, tc_itemp := st2\<rparr>)"
    "la_run c2 M1 = Some M2" "Q y (live_temps (reg_itemp_map tg) st2) M2"
    by (rule em_doesE[OF 1(3), of ?s1]) (use s(1) in simp_all)
  show "\<exists>x code st M'. run_state (m \<bind> f) s = (x, s\<lparr>tc_code := tc_code s @ code, tc_itemp := st\<rparr>) \<and>
      la_run code M = Some M' \<and> Q x (live_temps (reg_itemp_map tg) st) M'"
    using 1 2 by (intro exI[of _ y] exI[of _ "c1 @ c2"] exI[of _ st2] exI[of _ M2]) (simp add: la_run_append)
qed

lemma does_emits:
  assumes "\<And>s. run_state m s = (x, s\<lparr>tc_code := tc_code s @ code\<rparr>)" "la_run code M = Some M'" "Q x B M'"
  shows "em_does tg m B M Q"
proof (rule em_doesI)
  fix s :: tr_ctx assume s: "live_temps (reg_itemp_map tg) (tc_itemp s) = B"
  have "s\<lparr>tc_code := c\<rparr> = s\<lparr>tc_code := c, tc_itemp := tc_itemp s\<rparr>" for c by (cases s) simp
  then show "\<exists>x code st M'. run_state m s = (x, s\<lparr>tc_code := tc_code s @ code, tc_itemp := st\<rparr>) \<and>
      la_run code M = Some M' \<and> Q x (live_temps (reg_itemp_map tg) st) M'"
    using assms s by metis
qed

lemma does_return: "Q x B M \<Longrightarrow> em_does tg (em_return x) B M Q"
  by (rule does_emits[where code = "[]"]) simp_all

lemma does_emit:
  assumes "la_exec (opc, opnds) M = Some M'" "Q () B M'"
  shows "em_does tg (emit opc opnds) B M Q"
  by (rule does_emits[where code = "[(opc, opnds)]"]) (use assms in simp_all)

lemma does_conseq:
  assumes "em_does tg m B M P" "\<And>x B' M'. P x B' M' \<Longrightarrow> Q x B' M'"
  shows "em_does tg m B M Q"
proof (rule em_doesI)
  fix s :: tr_ctx assume "tc_ok s" "live_temps (reg_itemp_map tg) (tc_itemp s) = B"
  from em_doesE[OF assms(1) this] show "\<exists>x code st M'. run_state m s = (x, s\<lparr>tc_code := tc_code s @ code, tc_itemp := st\<rparr>) \<and>
      la_run code M = Some M' \<and> Q x (live_temps (reg_itemp_map tg) st) M'"
    using assms(2) by metis
qed

text \<open>A value instruction: it is not a store, and its value exists.\<close>

lemma does_value:
  assumes "la_store_bytes opc = None" "la_value opc opnds M = Some v" "Q () B (reg_write (hd opnds) v M)"
  shows "em_does tg (emit opc opnds) B M Q"
  by (rule does_emit[where Q = Q and M' = "reg_write (hd opnds) v M"]) (use assms in \<open>simp_all add: la_exec_def\<close>)

text \<open>Temporaries and guest registers as operands.\<close>

definition greg :: "int \<Rightarrow> ir2_opnd" where "greg r = create_ir2_opnd IR2_OPND_GPR (of_int r)"

definition temps :: "target \<Rightarrow> int set" where "temps tg = set (reg_itemp_map tg)"

lemma reg_num_greg: "0 \<le> r \<Longrightarrow> r < 32 \<Longrightarrow> reg_num (greg r) = nat r"
  by (simp add: reg_num_def greg_def create_ir2_opnd_def unat_eq_nat_uint unsigned_of_int take_bit_int_eq_self)

lemma temps_range: "r \<in> temps tg \<Longrightarrow> 0 < r \<and> r < 32"
  by (auto simp: temps_def reg_itemp_map_def split: if_splits)

lemma reg_num_temp: "r \<in> temps tg \<Longrightarrow> reg_num (greg r) = nat r \<and> reg_num (greg r) \<noteq> 0"
  using temps_range[of r tg] by (simp add: reg_num_greg)

lemma temp_rules: "r \<in> temps tg \<Longrightarrow> 0 \<le> r" "r \<in> temps tg \<Longrightarrow> r < 32" "r \<in> temps tg \<Longrightarrow> 0 < reg_num (greg r)"
  using temps_range[of r tg] by (simp_all add: reg_num_greg)

lemma does_alloc:
  assumes "B \<noteq> temps tg" "\<And>r. r \<in> temps tg \<Longrightarrow> r \<notin> B \<Longrightarrow> Q (greg r) (insert r B) M"
  shows "em_does tg (em_alloc_itemp tg) B M Q"
proof (rule em_doesI)
  fix s :: tr_ctx assume s: "live_temps (reg_itemp_map tg) (tc_itemp s) = B"
  obtain st r where r: "ra_alloc_temp_num (reg_itemp_map tg) (tc_itemp s) = (st, r)" by fastforce
  have "r \<in> temps tg - B \<and> live_temps (reg_itemp_map tg) st = insert r B"
    using temp_num_alloc[OF itemp_map_ok(1,2), of tg "tc_itemp s"] assms(1) s r by (auto simp: temps_def)
  then show "\<exists>x code st M'. run_state (em_alloc_itemp tg) s = (x, s\<lparr>tc_code := tc_code s @ code, tc_itemp := st\<rparr>) \<and>
      la_run code M = Some M' \<and> Q x (live_temps (reg_itemp_map tg) st) M'"
    using assms(2)[of r] r
    by (intro exI[of _ "greg r"] exI[of _ "[]"] exI[of _ st] exI[of _ M]) (simp add: em_alloc_itemp_def greg_def)
qed

lemma greg_val: "0 \<le> r \<Longrightarrow> r < 32 \<Longrightarrow> ir2_opnd_base_reg_num (greg r) = r"
  by (simp add: ir2_opnd_base_reg_num_def greg_def create_ir2_opnd_def signed_of_int signed_take_bit_int_eq_self)

lemma greg_simps [simp]: "o2_type (greg r) = IR2_OPND_GPR" "ir2_opnd_is_ireg (greg r)" "\<not> ir2_opnd_is_freg (greg r)"
  by (simp_all add: greg_def create_ir2_opnd_def ir2_opnd_is_ireg_def ir2_opnd_is_freg_def)

lemma zero_greg: "zero_ir2_opnd = greg 0"
  by (simp add: zero_ir2_opnd_def greg_def create_ir2_opnd_def)

lemma reg_num_zero [simp]: "reg_num zero_ir2_opnd = 0"
  by (simp add: zero_ir2_opnd_def reg_num_def)

lemma reg_read_zero [simp]: "reg_read M zero_ir2_opnd = 0"
  by (simp add: reg_read_def)

lemma greg_eq: "0 \<le> r \<Longrightarrow> r < 32 \<Longrightarrow> 0 \<le> q \<Longrightarrow> q < 32 \<Longrightarrow> greg r = greg q \<longleftrightarrow> r = q"
  using greg_val by metis

lemma temps_index:
  assumes "0 \<le> r" "r < 32"
  shows "\<exists>v. arr_get (reg_itemp_reverse_map tg) r = Some v \<and> (0 \<le> v \<longleftrightarrow> r \<in> temps tg) \<and>
    (r \<in> temps tg \<longrightarrow> nat v < length (reg_itemp_map tg) \<and> reg_itemp_map tg ! nat v = r)"
proof -
  obtain v where v: "arr_get (reg_itemp_reverse_map tg) r = Some v" using assms by (simp add: arr_get_def)
  have 1: "nat v < length (reg_itemp_map tg) \<and> reg_itemp_map tg ! nat v = r" if "0 \<le> v"
    by (rule itemp_map_of_reverse[OF v that])
  have 2: "0 \<le> v" if "r \<in> temps tg"
    using that itemp_reverse_inverse[of _ tg] v by (force simp: temps_def in_set_conv_nth)
  show ?thesis using v 1 2 by (auto simp: temps_def)
qed

lemma is_itemp_greg: "0 \<le> r \<Longrightarrow> r < 32 \<Longrightarrow> ir2_opnd_is_itemp tg (greg r) = Some (r \<in> temps tg)"
  using temps_index[of r tg] by (auto simp: ir2_opnd_is_itemp_def greg_val)

lemma does_free:
  assumes r: "0 \<le> r" "r < 32" and Q: "Q () (if r \<in> temps tg then B - {r} else B) M"
  shows "em_does tg (em_free_temp tg (greg r)) B M Q"
proof (cases "r \<in> temps tg")
  case False
  then have "run_state (em_free_temp tg (greg r)) s = ((), s\<lparr>tc_code := tc_code s @ []\<rparr>)" for s
    using is_itemp_greg[OF r] by (simp add: em_free_temp_def ir2_opnd_is_ftemp_def)
  then show ?thesis using Q False by (intro does_emits[where code = "[]"]) simp_all
next
  case True
  then obtain v where v: "arr_get (reg_itemp_reverse_map tg) r = Some v" "0 \<le> v" "nat v < length (reg_itemp_map tg)"
    "reg_itemp_map tg ! nat v = r" using temps_index[OF r, of tg] by auto
  have k: "nat v < 16" using v(3) itemp_map_ok(2)[of tg] by simp
  show ?thesis
  proof (rule em_doesI)
    fix s :: tr_ctx assume s: "live_temps (reg_itemp_map tg) (tc_itemp s) = B"
    let ?st = "tc_itemp s AND NOT (push_bit (nat v) 1)"
    have "live_temps (reg_itemp_map tg) ?st = B - {r}"
      using v k itemp_map_ok(1)[of tg] by (auto simp: live_temps_def bit_clear_bit nth_eq_iff_index_eq simp flip: s)
    moreover have "run_state (em_free_temp tg (greg r)) s = ((), s\<lparr>tc_code := tc_code s @ [], tc_itemp := ?st\<rparr>)"
      using v True is_itemp_greg[OF r] by (simp add: em_free_temp_def ra_free_code_def greg_val[OF r])
    ultimately show "\<exists>x code st M'. run_state (em_free_temp tg (greg r)) s =
        (x, s\<lparr>tc_code := tc_code s @ code, tc_itemp := st\<rparr>) \<and> la_run code M = Some M' \<and>
        Q x (live_temps (reg_itemp_map tg) st) M'"
      using Q True by (intro exI[of _ "()"] exI[of _ "[]"] exI[of _ ?st] exI[of _ M]) simp
  qed
qed

lemma does_opt: "r = Some x \<Longrightarrow> Q x B M \<Longrightarrow> em_does tg (em_opt junk r) B M Q"
  by (simp add: em_opt_def does_return)

lemma does_res: "r = Inr x \<Longrightarrow> Q x B M \<Longrightarrow> em_does tg (em_res junk r) B M Q"
  by (simp add: em_res_def does_return)

section \<open>Guest registers\<close>

definition gpr_index :: "target \<Rightarrow> int \<Rightarrow> bool" where
  "gpr_index tg i \<longleftrightarrow> 0 \<le> i \<and> i < (if TARGET_X86_64 tg then 16 else 8)"

definition home :: "target \<Rightarrow> int \<Rightarrow> int" where
  "home tg i = reg_gpr_map tg ! nat i"

lemma gpr_indexE:
  assumes "gpr_index tg i"
  obtains n where "i = int n" "n < (if TARGET_X86_64 tg then 16 else 8)"
  using assms that[of "nat i"] by (auto simp: gpr_index_def split: if_splits)

lemma home_all:
  "\<forall>n < (if TARGET_X86_64 tg then 16 else 8). 0 < home tg (int n) \<and> home tg (int n) < 32 \<and> home tg (int n) \<notin> temps tg"
  by (cases "TARGET_X86_64 tg")
    (simp_all add: home_def reg_gpr_map_def temps_def reg_itemp_map_def All_less_Suc2 numeral_eq_Suc)

lemma home_range: "gpr_index tg i \<Longrightarrow> 0 < home tg i \<and> home tg i < 32 \<and> home tg i \<notin> temps tg"
  using home_all[of tg] by (auto elim!: gpr_indexE)

lemma home_inj:
  assumes "gpr_index tg i" "gpr_index tg j"
  shows "home tg i = home tg j \<longleftrightarrow> i = j"
proof -
  have d: "distinct (reg_gpr_map tg)" by (cases "TARGET_X86_64 tg") (simp_all add: reg_gpr_map_def)
  have "nat i < length (reg_gpr_map tg)" "nat j < length (reg_gpr_map tg)"
    using assms by (auto simp: gpr_index_def reg_gpr_map_def split: if_splits)
  then have "home tg i = home tg j \<longleftrightarrow> nat i = nat j" unfolding home_def by (rule nth_eq_iff_index_eq[OF d])
  then show ?thesis using assms by (auto simp: gpr_index_def)
qed

lemma reg_num_home: "gpr_index tg i \<Longrightarrow> reg_num (greg (home tg i)) = nat (home tg i) \<and> reg_num (greg (home tg i)) \<noteq> 0"
  using home_range[of tg i] by (simp add: reg_num_greg)

lemma em_gpr_home:
  assumes "gpr_index tg i"
  shows "em_gpr tg i = em_return (greg (home tg i))"
proof -
  have "ra_alloc_gpr tg i = Some (greg (home tg i))"
    using assms by (auto simp: ra_alloc_gpr_def ra_alloc_fixed_def arr_get_def home_def greg_def create_ir2_opnd_def
        gpr_index_def reg_gpr_map_def split: if_splits)
  then show ?thesis by (simp add: em_gpr_def)
qed

lemma does_gpr: "gpr_index tg i \<Longrightarrow> Q (greg (home tg i)) B M \<Longrightarrow> em_does tg (em_gpr tg i) B M Q"
  by (simp add: em_gpr_home does_return)

lemmas does_intros = does_return does_bind does_gpr does_free does_alloc does_opt does_res

text \<open>\<open>clob D M N\<close>: the states differ at most in the registers \<open>D\<close>.\<close>

definition clob :: "int set \<Rightarrow> la_mach \<Rightarrow> la_mach \<Rightarrow> bool" where
  "clob D M N \<longleftrightarrow> m_mem N = m_mem M \<and> (\<forall>r. int r \<notin> D \<longrightarrow> m_reg N r = m_reg M r)"

lemma clob_refl [simp]: "clob D M M"
  by (simp add: clob_def)

lemma clob_trans: "clob D A B \<Longrightarrow> clob D B C \<Longrightarrow> clob D A C"
  by (simp add: clob_def)

lemma clob_mono: "clob D A B \<Longrightarrow> D \<subseteq> E \<Longrightarrow> clob E A B"
  by (auto simp: clob_def)

lemma clob_write: "r \<in> D \<Longrightarrow> 0 \<le> r \<Longrightarrow> r < 32 \<Longrightarrow> clob D M (reg_write (greg r) v M)"
  by (auto simp: clob_def reg_num_greg)

lemma clob_read: "clob D M N \<Longrightarrow> r \<notin> D \<Longrightarrow> 0 \<le> r \<Longrightarrow> r < 32 \<Longrightarrow> reg_read N (greg r) = reg_read M (greg r)"
  by (simp add: clob_def reg_read_def reg_num_greg)

lemma clob_mem: "clob D M N \<Longrightarrow> m_mem N = m_mem M"
  by (simp add: clob_def)

end
