(* ===== verification/Macro_Helper.thy ===== *)
theory Macro_Helper
  imports Tr_Emit
begin

text \<open>
  Loading constants: imm\_helper, li\_d, li\_w and li\_wu of translator/macro-helper.c, and the
  fixed-length loads of addresses of translator/tr-opnd-process.c.  The bitmaps are C chars
  with values below 16; \<open>uint x\<close> passes an unsigned value as a C int operand.
\<close>

definition bitmap4 :: "bool \<Rightarrow> bool \<Rightarrow> bool \<Rightarrow> bool \<Rightarrow> int" where
  "bitmap4 b3 b2 b1 b0 = push_bit 3 (of_bool b3) OR push_bit 2 (of_bool b2) OR push_bit 1 (of_bool b1) OR of_bool b0"

definition imm_helper :: "ir2_opnd \<Rightarrow> u32 \<Rightarrow> u32 \<Rightarrow> unit em" where
  "imm_helper opnd2 hi32 lo32 =
    (let sign_bitmap = bitmap4 (hi32 AND 0x80000000 \<noteq> 0) (hi32 AND 0x00080000 \<noteq> 0)
           (lo32 AND 0x80000000 \<noteq> 0) (lo32 AND 0x00000800 \<noteq> 0);
         all0_bitmap = bitmap4 (hi32 AND 0xfff00000 = 0) (hi32 AND 0x000fffff = 0)
           (lo32 AND 0xfffff000 = 0) (lo32 AND 0x00000fff = 0);
         allf_bitmap = bitmap4 (hi32 AND 0xfff00000 = 0xfff00000) (hi32 AND 0x000fffff = 0x000fffff)
           (lo32 AND 0xfffff000 = 0xfffff000) (lo32 AND 0x00000fff = 0x00000fff);
         sign_extension_by_previous = (all0_bitmap XOR allf_bitmap) AND (all0_bitmap XOR push_bit 1 sign_bitmap);
         extension_by_previous_lo = sign_extension_by_previous AND 0x3;
         extension_by_previous_hi = drop_bit 2 sign_extension_by_previous
     in if sign_extension_by_previous = 0x7 then
          la_rri LISA_LU52I_D opnd2 zero_ir2_opnd (uint (drop_bit 20 hi32))
        else do {
          (if extension_by_previous_lo = 0x0 then
             if all0_bitmap AND 0x3 = 0x2 then la_rri LISA_ORI opnd2 zero_ir2_opnd (uint (lo32 AND 0xfff))
             else do {
               la_ri LISA_LU12I_W opnd2 (uint (drop_bit 12 lo32));
               la_rri LISA_ORI opnd2 opnd2 (uint (lo32 AND 0xfff))
             }
           else if extension_by_previous_lo = 0x1 then la_ri LISA_LU12I_W opnd2 (uint (drop_bit 12 lo32))
           else if extension_by_previous_lo = 0x2 then la_rri LISA_ADDI_W opnd2 zero_ir2_opnd (uint lo32)
           else if extension_by_previous_lo = 0x3 then la_rrr LISA_OR opnd2 zero_ir2_opnd zero_ir2_opnd
           else em_skip);
          (if extension_by_previous_hi = 0x0 then do {
             la_ri LISA_LU32I_D opnd2 (uint (hi32 AND 0xfffff));
             la_rri LISA_LU52I_D opnd2 opnd2 (uint (drop_bit 20 hi32))
           }
           else if extension_by_previous_hi = 0x1 then la_rri LISA_LU52I_D opnd2 opnd2 (uint (drop_bit 20 hi32))
           else if extension_by_previous_hi = 0x2 then la_ri LISA_LU32I_D opnd2 (uint (hi32 AND 0xfffff))
           else em_skip)
        })"

definition li_d :: "ir2_opnd \<Rightarrow> u64 \<Rightarrow> unit em" where
  "li_d opnd2 value = imm_helper opnd2 (ucast (drop_bit 32 value)) (ucast (value AND 0xffffffff))"

definition li_w :: "ir2_opnd \<Rightarrow> u32 \<Rightarrow> unit em" where
  "li_w opnd2 lo32 = imm_helper opnd2 (if lo32 AND 0x80000000 \<noteq> 0 then 0xffffffff else 0) lo32"

definition li_wu :: "ir2_opnd \<Rightarrow> u32 \<Rightarrow> unit em" where
  "li_wu opnd2 lo32 = imm_helper opnd2 0 lo32"

section \<open>Emitted code\<close>

text \<open>\<open>emits m code\<close>: the action appends exactly \<open>code\<close> and changes nothing else.\<close>

definition emits :: "unit em \<Rightarrow> la_ins list \<Rightarrow> bool" where
  "emits m code = (\<forall>s. run_state m s = ((), s\<lparr>tc_code := tc_code s @ code\<rparr>))"

lemma emits_emit [simp, intro]: "emits (emit opc opnds) [(opc, opnds)]"
  by (simp add: emits_def)

lemma emits_skip [simp, intro]: "emits em_skip []"
  by (simp add: emits_def)

lemma emits_bind [intro]: "emits m xs \<Longrightarrow> emits n ys \<Longrightarrow> emits (m \<bind> (\<lambda>_. n)) (xs @ ys)"
  by (simp add: emits_def)

text \<open>A part of the constant is skipped when it repeats the sign bit of the part below it.\<close>

definition ext0 :: "u32 \<Rightarrow> bool" where "ext0 lo32 = (lo32 AND 0xfff = 0)"
definition ext1 :: "u32 \<Rightarrow> bool" where
  "ext1 lo32 = (if lo32 AND 0x800 \<noteq> 0 then lo32 AND 0xfffff000 = 0xfffff000 else lo32 AND 0xfffff000 = 0)"
definition ext2 :: "u32 \<Rightarrow> u32 \<Rightarrow> bool" where
  "ext2 hi32 lo32 = (if lo32 AND 0x80000000 \<noteq> 0 then hi32 AND 0xfffff = 0xfffff else hi32 AND 0xfffff = 0)"
definition ext3 :: "u32 \<Rightarrow> bool" where
  "ext3 hi32 = (if hi32 AND 0x80000 \<noteq> 0 then hi32 AND 0xfff00000 = 0xfff00000 else hi32 AND 0xfff00000 = 0)"

definition lo_code :: "ir2_opnd \<Rightarrow> u32 \<Rightarrow> la_ins list" where
  "lo_code opnd2 lo32 =
    (if \<not> ext0 lo32 \<and> \<not> ext1 lo32 then
       if lo32 AND 0xfffff000 = 0 then [(LISA_ORI, [opnd2, zero_ir2_opnd, create_immh_opnd (uint (lo32 AND 0xfff))])]
       else [(LISA_LU12I_W, [opnd2, create_immh_opnd (uint (drop_bit 12 lo32))]),
             (LISA_ORI, [opnd2, opnd2, create_immh_opnd (uint (lo32 AND 0xfff))])]
     else if \<not> ext1 lo32 then [(LISA_LU12I_W, [opnd2, create_immh_opnd (uint (drop_bit 12 lo32))])]
     else if \<not> ext0 lo32 then [(LISA_ADDI_W, [opnd2, zero_ir2_opnd, create_immh_opnd (uint lo32)])]
     else [(LISA_OR, [opnd2, zero_ir2_opnd, zero_ir2_opnd])])"

definition hi_code :: "ir2_opnd \<Rightarrow> u32 \<Rightarrow> u32 \<Rightarrow> la_ins list" where
  "hi_code opnd2 hi32 lo32 =
     (if ext2 hi32 lo32 then [] else [(LISA_LU32I_D, [opnd2, create_immh_opnd (uint (hi32 AND 0xfffff))])]) @
     (if ext3 hi32 then [] else [(LISA_LU52I_D, [opnd2, opnd2, create_immh_opnd (uint (drop_bit 20 hi32))])])"

definition imm_code :: "ir2_opnd \<Rightarrow> u32 \<Rightarrow> u32 \<Rightarrow> la_ins list" where
  "imm_code opnd2 hi32 lo32 =
    (if ext0 lo32 \<and> ext1 lo32 \<and> ext2 hi32 lo32 \<and> \<not> ext3 hi32
     then [(LISA_LU52I_D, [opnd2, zero_ir2_opnd, create_immh_opnd (uint (drop_bit 20 hi32))])]
     else lo_code opnd2 lo32 @ hi_code opnd2 hi32 lo32)"

lemma bit_bitmap4:
  "bit (bitmap4 b3 b2 b1 b0) i \<longleftrightarrow> i = 3 \<and> b3 \<or> i = 2 \<and> b2 \<or> i = 1 \<and> b1 \<or> i = 0 \<and> b0"
  unfolding bitmap4_def bit_or_iff bit_push_bit_iff bit_of_bool_iff by auto

lemma bitmap_ext:
  "(bitmap4 a3 a2 a1 a0 XOR bitmap4 f3 f2 f1 f0) AND (bitmap4 a3 a2 a1 a0 XOR push_bit 1 (bitmap4 s3 s2 s1 s0)) =
   bitmap4 (a3 \<noteq> f3 \<and> a3 \<noteq> s2) (a2 \<noteq> f2 \<and> a2 \<noteq> s1) (a1 \<noteq> f1 \<and> a1 \<noteq> s0) (a0 \<noteq> f0 \<and> a0)"
proof (rule bit_eqI)
  fix i :: nat
  consider "i = 0" | "i = 1" | "i = 2" | "i = 3" | "3 < i" by linarith
  then show "bit ((bitmap4 a3 a2 a1 a0 XOR bitmap4 f3 f2 f1 f0) AND
      (bitmap4 a3 a2 a1 a0 XOR push_bit 1 (bitmap4 s3 s2 s1 s0))) i =
    bit (bitmap4 (a3 \<noteq> f3 \<and> a3 \<noteq> s2) (a2 \<noteq> f2 \<and> a2 \<noteq> s1) (a1 \<noteq> f1 \<and> a1 \<noteq> s0) (a0 \<noteq> f0 \<and> a0)) i"
    unfolding bit_and_iff bit_xor_iff bit_push_bit_iff bit_bitmap4 by cases simp_all
qed

lemma bitmap_parts:
  "bitmap4 b3 b2 b1 b0 AND 0x3 = push_bit 1 (of_bool b1) OR of_bool b0"
  "drop_bit 2 (bitmap4 b3 b2 b1 b0) = push_bit 1 (of_bool b3) OR of_bool b2"
  "bitmap4 b3 b2 b1 b0 = 7 \<longleftrightarrow> \<not> b3 \<and> b2 \<and> b1 \<and> b0"
  by (cases b3; cases b2; cases b1; cases b0; simp add: bitmap4_def)+

text \<open>The bitmaps compute the four conditions.\<close>

lemma ext_bitmap:
  "ext3 hi32 = ((hi32 AND 0xfff00000 = 0) \<noteq> (hi32 AND 0xfff00000 = 0xfff00000) \<and>
     (hi32 AND 0xfff00000 = 0) \<noteq> (hi32 AND 0x80000 \<noteq> 0))"
  "ext2 hi32 lo32 = ((hi32 AND 0xfffff = 0) \<noteq> (hi32 AND 0xfffff = 0xfffff) \<and>
     (hi32 AND 0xfffff = 0) \<noteq> (lo32 AND 0x80000000 \<noteq> 0))"
  "ext1 lo32 = ((lo32 AND 0xfffff000 = 0) \<noteq> (lo32 AND 0xfffff000 = 0xfffff000) \<and>
     (lo32 AND 0xfffff000 = 0) \<noteq> (lo32 AND 0x800 \<noteq> 0))"
  "ext0 lo32 = ((lo32 AND 0xfff = 0) \<noteq> (lo32 AND 0xfff = 0xfff) \<and> lo32 AND 0xfff = 0)"
  by (auto simp: ext0_def ext1_def ext2_def ext3_def)

lemma imm_helper_emits: "emits (imm_helper opnd2 hi32 lo32) (imm_code opnd2 hi32 lo32)"
proof -
  have a1: "lo32 AND 0xfffff000 = 0 \<Longrightarrow> lo32 AND 0xfff = 0 \<Longrightarrow> ext0 lo32" by (simp add: ext0_def)
  show ?thesis
    unfolding imm_helper_def Let_def bitmap_ext bitmap_parts ext_bitmap[symmetric]
    by (cases "ext0 lo32"; cases "ext1 lo32"; cases "ext2 hi32 lo32"; cases "ext3 hi32")
      (auto simp: emits_def imm_code_def lo_code_def hi_code_def a1 ext0_def)
qed

section \<open>Effect of the code\<close>

lemma and_zero_bits: "w AND m = 0 \<longleftrightarrow> (\<forall>i. bit m i \<longrightarrow> \<not> bit w i)" for w m :: u32
  using bit_imp_le_length[of m] by (auto simp: bit_eq_iff bit_and_iff)

lemma and_full_bits: "w AND m = m \<longleftrightarrow> (\<forall>i. bit m i \<longrightarrow> bit w i)" for w m :: u32
  using bit_imp_le_length[of m] by (auto simp: bit_eq_iff bit_and_iff)

lemma masks:
  "(0xfff :: u32) = mask 12" "(0xfffff000 :: u32) = push_bit 12 (mask 20)" "(0xfffff :: u32) = mask 20"
  "(0xfff00000 :: u32) = push_bit 20 (mask 12)" "(0x800 :: u32) = 2 ^ 11" "(0x80000000 :: u32) = 2 ^ 31"
  "(0x80000 :: u32) = 2 ^ 19"
  by (simp_all add: mask_eq_exp_minus_1)

lemma mask_bits:
  "bit (mask 12 :: u32) i \<longleftrightarrow> i < 12" "bit (push_bit 12 (mask 20) :: u32) i \<longleftrightarrow> 12 \<le> i \<and> i < 32"
  "bit (mask 20 :: u32) i \<longleftrightarrow> i < 20" "bit (push_bit 20 (mask 12) :: u32) i \<longleftrightarrow> 20 \<le> i \<and> i < 32"
  unfolding bit_push_bit_iff bit_mask_iff by auto

lemma single_bit: "w AND 2 ^ k \<noteq> 0 \<longleftrightarrow> bit w k" for w :: u32
  unfolding and_zero_bits bit_exp_iff by (auto dest: bit_imp_le_length)

lemma ext_bits:
  "ext0 lo32 \<longleftrightarrow> (\<forall>i<12. \<not> bit lo32 i)"
  "ext1 lo32 \<longleftrightarrow> (\<forall>i. 12 \<le> i \<and> i < 32 \<longrightarrow> bit lo32 i = bit lo32 11)"
  "ext2 hi32 lo32 \<longleftrightarrow> (\<forall>i<20. bit hi32 i = bit lo32 31)"
  "ext3 hi32 \<longleftrightarrow> (\<forall>i. 20 \<le> i \<and> i < 32 \<longrightarrow> bit hi32 i = bit hi32 19)"
  unfolding ext0_def ext1_def ext2_def ext3_def masks single_bit
  unfolding and_zero_bits and_full_bits mask_bits by auto

lemma imm_val [simp]: "o2_val (create_immh_opnd (uint x)) = x" for x :: u32
  by (simp add: create_immh_opnd_def create_ir2_opnd_def)

text \<open>The bits that each instruction of the sequences produces.\<close>

lemma bit_lu12i:
  "bit (sx32 (push_bit 12 (si 20 (create_immh_opnd (uint (drop_bit 12 lo32)))))) i \<longleftrightarrow> i < 64 \<and> 12 \<le> i \<and> bit lo32 (min i 31)"
  for lo32 :: u32
proof -
  have "12 + min (min i 31 - 12) 19 = min i 31" if "12 \<le> i" using that by (auto simp: min_def)
  then show ?thesis unfolding bit_sx32 bit_push_bit_iff bit_si[of 20, simplified] imm_val bit_drop_bit_eq by auto
qed

lemma bit_ori12: "bit (ui 12 (create_immh_opnd (uint (lo32 AND 0xfff)))) i \<longleftrightarrow> i < 12 \<and> bit lo32 i" for lo32 :: u32
  unfolding bit_ui imm_val bit_and_iff masks mask_bits by auto

lemma bit_lu32i:
  "bit (take_bit 32 v OR push_bit 32 (si 20 (create_immh_opnd (uint (hi32 AND 0xfffff))))) i \<longleftrightarrow>
    i < 64 \<and> (if i < 32 then bit v i else bit hi32 (min (i - 32) 19))" for v :: u64 and hi32 :: u32
  unfolding bit_or_iff bit_take_bit_iff bit_push_bit_iff bit_si[of 20, simplified] imm_val bit_and_iff masks mask_bits
  by (auto dest: bit_imp_le_length)

lemma bit_lu52i:
  "bit (take_bit 52 v OR push_bit 52 (si 12 (create_immh_opnd (uint (drop_bit 20 hi32))))) i \<longleftrightarrow>
    i < 64 \<and> (if i < 52 then bit v i else bit hi32 (i - 32))" for v :: u64 and hi32 :: u32
proof -
  have "min (i - 52) 11 = i - 52" "20 + (i - 52) = i - 32" if "52 \<le> i" "i < 64" using that by auto
  then show ?thesis
    unfolding bit_or_iff bit_take_bit_iff bit_push_bit_iff bit_si[of 12, simplified] imm_val bit_drop_bit_eq
    by (auto dest: bit_imp_le_length)
qed

lemma bit_addi12: "bit (sx32 (si 12 (create_immh_opnd (uint lo32)))) i \<longleftrightarrow> i < 64 \<and> bit lo32 (min i 11)" for lo32 :: u32
proof -
  have "min (min i 31) 11 = min i 11" by auto
  then show ?thesis unfolding bit_sx32 bit_si[of 12, simplified] imm_val by auto
qed

lemma bit_sx32_ucast: "bit (sx32 (ucast lo32)) i \<longleftrightarrow> i < 64 \<and> bit lo32 (min i 31)" for lo32 :: u32
  by (simp add: bit_sx32 bit_ucast64)

lemma lo_ori:
  fixes lo32 :: u32
  assumes z: "lo32 AND 0xfffff000 = 0"
  shows "ui 12 (create_immh_opnd (uint (lo32 AND 0xfff))) = sx32 (ucast lo32)"
proof (rule bit_word_eqI)
  fix i :: nat
  have "bit lo32 (min i 31) \<Longrightarrow> i < 12" using z unfolding masks(2) and_zero_bits mask_bits
    by (cases "i < 12") (auto simp: min_def)
  then show "bit (ui 12 (create_immh_opnd (uint (lo32 AND 0xfff)))) i = bit (sx32 (ucast lo32)) i"
    unfolding bit_ori12 bit_sx32_ucast by (auto simp: min_def)
qed

lemma lo_lu12i_ori:
  fixes lo32 :: u32
  shows "sx32 (push_bit 12 (si 20 (create_immh_opnd (uint (drop_bit 12 lo32))))) OR
    ui 12 (create_immh_opnd (uint (lo32 AND 0xfff))) = sx32 (ucast lo32)"
  by (rule bit_word_eqI) (auto simp: bit_or_iff bit_lu12i bit_ori12 bit_sx32_ucast min_def)

lemma lo_lu12i:
  assumes ext0: "ext0 lo32"
  shows "sx32 (push_bit 12 (si 20 (create_immh_opnd (uint (drop_bit 12 lo32))))) = sx32 (ucast lo32)"
proof (rule bit_word_eqI)
  fix i :: nat
  have "bit lo32 (min i 31) \<Longrightarrow> 12 \<le> i" using ext0 unfolding ext_bits(1) by (cases "i < 12") (auto simp: min_def)
  then show "bit (sx32 (push_bit 12 (si 20 (create_immh_opnd (uint (drop_bit 12 lo32)))))) i = bit (sx32 (ucast lo32)) i"
    unfolding bit_lu12i bit_sx32_ucast by blast
qed

lemma ext1_bit:
  assumes "ext1 lo32"
  shows "bit lo32 (min i 31) = bit lo32 (min i 11)"
proof (cases "i \<le> 11")
  case True
  then show ?thesis by (simp add: min_absorb1)
next
  case False
  then have ge: "12 \<le> min i 31 \<and> min i 31 < 32" and m: "min i 11 = 11" by auto
  have "bit lo32 (min i 31) = bit lo32 11"
    by (rule mp[OF spec[OF assms[unfolded ext_bits(2)]] ge])
  then show ?thesis unfolding m .
qed

lemma lo_addi:
  assumes ext1: "ext1 lo32"
  shows "sx32 (si 12 (create_immh_opnd (uint lo32))) = sx32 (ucast lo32)"
  by (rule bit_word_eqI) (simp only: bit_addi12 bit_sx32_ucast ext1_bit[OF ext1])

lemma lo_zero:
  assumes ext: "ext0 lo32" "ext1 lo32"
  shows "sx32 (ucast lo32) = 0"
proof (rule bit_word_eqI)
  fix i :: nat
  have "\<not> bit lo32 (min i 11)" using ext(1) unfolding ext_bits(1) by simp
  then show "bit (sx32 (ucast lo32)) i = bit 0 i"
    unfolding bit_sx32_ucast ext1_bit[OF ext(2)] by simp
qed

lemma lo_run:
  assumes "reg_num opnd2 \<noteq> 0"
  shows "la_run (lo_code opnd2 lo32) rf = Some (reg_write opnd2 (sx32 (ucast lo32)) rf)"
  using assms by (simp add: lo_code_def la_exec_def la_store_bytes_def lo_ori lo_lu12i_ori lo_lu12i lo_addi lo_zero)

text \<open>\<open>imm64\<close>: the constant with the two halves.\<close>

definition imm64 :: "u32 \<Rightarrow> u32 \<Rightarrow> u64" where
  "imm64 hi32 lo32 = push_bit 32 (ucast hi32) OR ucast lo32"

lemma bit_imm64: "bit (imm64 hi32 lo32) i \<longleftrightarrow> i < 64 \<and> (if i < 32 then bit lo32 i else bit hi32 (i - 32))"
  unfolding imm64_def bit_or_iff bit_push_bit_iff bit_ucast64 by (auto dest: bit_imp_le_length)

lemma hi_run:
  assumes "reg_num opnd2 \<noteq> 0"
  shows "la_run (hi_code opnd2 hi32 lo32) (reg_write opnd2 (sx32 (ucast lo32)) rf) =
    Some (reg_write opnd2 (imm64 hi32 lo32) rf)"
proof -
  have hi: "bit hi32 (min i 19) = bit lo32 31" if "ext2 hi32 lo32" for i using that by (simp add: ext_bits)
  have top: "bit hi32 (i - 32) = bit hi32 19" if "ext3 hi32" "51 \<le> i" "i < 64" for i
  proof (cases "i = 51")
    case False
    then have ge: "20 \<le> i - 32 \<and> i - 32 < 32" using that by auto
    show ?thesis by (rule mp[OF spec[OF that(1)[unfolded ext_bits(4)]] ge])
  qed simp
  let ?w = "reg_write opnd2"
  define mid where "mid = (if ext2 hi32 lo32 then sx32 (ucast lo32)
    else take_bit 32 (sx32 (ucast lo32)) OR push_bit 32 (si 20 (create_immh_opnd (uint (hi32 AND 0xfffff)))))"
  have mid: "bit mid i \<longleftrightarrow> i < 64 \<and> (if i < 32 then bit lo32 i else bit hi32 (min (i - 32) 19))" for i
    using hi[of "i - 32"] by (auto simp: mid_def bit_sx32_ucast bit_lu32i min_def)
  have fin: "imm64 hi32 lo32 = (if ext3 hi32 then mid
      else take_bit 52 mid OR push_bit 52 (si 12 (create_immh_opnd (uint (drop_bit 20 hi32)))))"
  proof (rule bit_word_eqI)
    fix i :: nat assume "i < LENGTH(64)"
    then have i: "i < 64" by simp
    have m: "min (i - 32) 19 = (if i < 52 then i - 32 else 19)" by auto
    show "bit (imm64 hi32 lo32) i = bit (if ext3 hi32 then mid
      else take_bit 52 mid OR push_bit 52 (si 12 (create_immh_opnd (uint (drop_bit 20 hi32))))) i"
      using i top[of i] by (auto simp: bit_imm64 mid bit_lu52i m)
  qed
  show ?thesis using assms unfolding fin mid_def by (simp add: hi_code_def la_exec_def la_store_bytes_def)
qed

lemma imm_run:
  assumes "reg_num opnd2 \<noteq> 0"
  shows "la_run (imm_code opnd2 hi32 lo32) rf = Some (reg_write opnd2 (imm64 hi32 lo32) rf)"
proof (cases "ext0 lo32 \<and> ext1 lo32 \<and> ext2 hi32 lo32 \<and> \<not> ext3 hi32")
  case True
  have "la_run (hi_code opnd2 hi32 lo32) (reg_write opnd2 (sx32 (ucast lo32)) rf) =
      Some (reg_write opnd2 (imm64 hi32 lo32) rf)" using hi_run[OF assms] .
  then show ?thesis using True assms lo_zero[of lo32] by (simp add: imm_code_def hi_code_def la_exec_def la_store_bytes_def)
next
  case False
  show ?thesis unfolding imm_code_def if_not_P[OF False] la_run_append using lo_run[OF assms] hi_run[OF assms] by simp
qed

section \<open>The three macro instructions\<close>

lemma imm64_parts:
  "imm64 (ucast (drop_bit 32 imm)) (ucast (imm AND 0xffffffff)) = imm" for imm :: u64
proof -
  have m: "(0xffffffff :: u64) = mask 32" by (simp add: mask_eq_exp_minus_1)
  show ?thesis unfolding m
    by (rule bit_word_eqI) (auto simp: bit_imm64 bit_ucast_iff bit_and_iff bit_mask_iff bit_drop_bit_eq)
qed

lemma imm64_sext: "imm64 (if lo32 AND 0x80000000 \<noteq> 0 then 0xffffffff else 0) lo32 = scast lo32" for lo32 :: u32
proof -
  have f: "(0xffffffff :: u32) = mask 32" by (simp add: mask_eq_exp_minus_1)
  have "bit (imm64 (if bit lo32 31 then mask 32 else 0) lo32) i = bit (scast lo32 :: u64) i" for i
  proof -
    consider "i < 31" | "i = 31" | "31 < i" by linarith
    then show ?thesis
      by cases (auto simp: bit_imm64 bit_signed_iff bit_mask_iff min_def dest: bit_imp_le_length)
  qed
  then show ?thesis unfolding f masks(6) single_bit by (intro bit_word_eqI) simp
qed

lemma imm64_zext: "imm64 0 lo32 = ucast lo32"
  by (rule bit_word_eqI) (auto simp: bit_imm64 bit_ucast64 dest: bit_imp_le_length)

lemma imm_code_length: "length (imm_code opnd2 hi32 lo32) \<le> 4"
  by (simp add: imm_code_def lo_code_def hi_code_def)

lemma imm_helper_loads:
  assumes "reg_num opnd2 \<noteq> 0"
  shows "\<exists>code. run_state (imm_helper opnd2 hi32 lo32) s = ((), s\<lparr>tc_code := tc_code s @ code\<rparr>) \<and> length code \<le> 4 \<and>
    la_run code M = Some (reg_write opnd2 (imm64 hi32 lo32) M)"
  using imm_helper_emits[of opnd2 hi32 lo32] imm_run[OF assms] imm_code_length[of opnd2 hi32 lo32]
  unfolding emits_def by (intro exI[of _ "imm_code opnd2 hi32 lo32"]) blast

lemma does_imm_helper:
  assumes "reg_num opnd2 \<noteq> 0" "Q () B (reg_write opnd2 (imm64 hi32 lo32) M)"
  shows "em_does tg (imm_helper opnd2 hi32 lo32) B M Q"
  by (rule does_emits[where code = "imm_code opnd2 hi32 lo32" and M' = "reg_write opnd2 (imm64 hi32 lo32) M"])
    (use assms imm_run[OF assms(1)] imm_helper_emits[of opnd2 hi32 lo32] in \<open>auto simp: emits_def\<close>)

lemma does_li_d:
  assumes "reg_num opnd2 \<noteq> 0" "Q () B (reg_write opnd2 imm M)"
  shows "em_does tg (li_d opnd2 imm) B M Q"
  unfolding li_d_def by (rule does_imm_helper) (use assms in \<open>simp_all only: imm64_parts not_False_eq_True\<close>)

lemma does_li_wu:
  assumes "reg_num opnd2 \<noteq> 0" "Q () B (reg_write opnd2 (ucast lo32) M)"
  shows "em_does tg (li_wu opnd2 lo32) B M Q"
  unfolding li_wu_def by (rule does_imm_helper) (use assms in \<open>simp_all add: imm64_zext\<close>)

text \<open>C15: the macro instructions load exactly their constant: whatever the code so far, li\_d, li\_w
  and li\_wu append at most four instructions which, run from any machine state, put the 64-bit value,
  the sign extended and the zero extended 32-bit value into the destination register and change
  nothing else.\<close>

theorem li_loads_constant:
  fixes imm :: u64 and lo32 :: u32
  assumes "reg_num opnd2 \<noteq> 0"
    and "(m, v) \<in> {(li_d opnd2 imm, imm), (li_w opnd2 lo32, scast lo32), (li_wu opnd2 lo32, ucast lo32)}"
  shows "\<exists>code. run_state m s = ((), s\<lparr>tc_code := tc_code s @ code\<rparr>) \<and> length code \<le> 4 \<and>
    la_run code M = Some (reg_write opnd2 v M)"
proof -
  note loads = imm_helper_loads[OF assms(1), of _ _ s M]
  consider "(m, v) = (li_d opnd2 imm, imm)" | "(m, v) = (li_w opnd2 lo32, scast lo32)" | "(m, v) = (li_wu opnd2 lo32, ucast lo32)"
    using assms(2) by blast
  then show ?thesis
  proof cases
    case 1
    then show ?thesis using loads[of "ucast (drop_bit 32 imm)" "ucast (imm AND 0xffffffff)"]
      by (simp only: li_d_def imm64_parts prod.inject)
  next
    case 2
    then show ?thesis using loads[of "if lo32 AND 0x80000000 \<noteq> 0 then 0xffffffff else 0" lo32]
      by (simp only: li_w_def imm64_sext prod.inject)
  next
    case 3
    then show ?thesis using loads[of 0 lo32] by (simp only: li_wu_def imm64_zext prod.inject)
  qed
qed

theorem li_loads_constant_witness:
  "\<exists>code. run_state (li_w (greg la_t0) 0xfffff800) \<lparr>tc_code = [], tc_itemp = 1, tc_ftemp = 0, tc_label = 1, tc_ok = True\<rparr> =
      ((), \<lparr>tc_code = code, tc_itemp = 1, tc_ftemp = 0, tc_label = 1, tc_ok = True\<rparr>) \<and> length code \<le> 4 \<and>
    la_run code \<lparr>m_reg = \<lambda>_. 7, m_mem = \<lambda>_. 0\<rparr> =
      Some \<lparr>m_reg = (\<lambda>_. 7)(12 := 0xfffffffffffff800), m_mem = \<lambda>_. 0\<rparr>"
proof -
  have r: "reg_num (greg la_t0) = 12" by (simp add: reg_num_greg)
  have v: "(scast (0xfffff800 :: u32) :: u64) = 0xfffffffffffff800" by simp
  show ?thesis
    using li_loads_constant[of "greg la_t0" "li_w (greg la_t0) 0xfffff800" "0xfffffffffffff800" 0 "0xfffff800"
      "\<lparr>tc_code = [], tc_itemp = 1, tc_ftemp = 0, tc_label = 1, tc_ok = True\<rparr>" "\<lparr>m_reg = \<lambda>_. 7, m_mem = \<lambda>_. 0\<rparr>"]
    by (simp add: r v reg_write_def)
qed

end
