(* ===== verification/Mem_Interface.thy ===== *)
theory Mem_Interface
  imports Macro_Helper
begin

text \<open>
  Addresses of memory operands: translator/mem-interface.c, in the order of that file, with the
  pseudo instructions of convert.py it uses.  The address cache is off (option\_imm\_reg is 0) and
  no ahead-of-time translation is running, so that aot\_load\_guest\_addr is li\_guest\_addr.  The
  parameter \<open>seg_base_off\<close> is offsetof(CPUX86State, segs[i].base).
\<close>

section \<open>Pseudo instructions\<close>

definition la_add :: "target \<Rightarrow> ir2_opnd \<Rightarrow> ir2_opnd \<Rightarrow> ir2_opnd \<Rightarrow> unit em" where
  "la_add tg op0 op1 op2 =
    (if \<not> TARGET_X86_64 tg then la_rrr LISA_ADD_W op0 op1 op2
     else if CODEIS64 tg then la_rrr LISA_ADD_D op0 op1 op2 else la_rrr LISA_ADD_W op0 op1 op2)"

definition la_addi_addrx :: "target \<Rightarrow> ir2_opnd \<Rightarrow> ir2_opnd \<Rightarrow> int \<Rightarrow> unit em" where
  "la_addi_addrx tg op0 op1 imm =
    (if \<not> TARGET_X86_64 tg then la_rri LISA_ADDI_W op0 op1 imm
     else if CODEIS64 tg then la_rri LISA_ADDI_D op0 op1 imm else la_rri LISA_ADDI_W op0 op1 imm)"

definition la_load_addrx :: "target \<Rightarrow> ir2_opnd \<Rightarrow> ir2_opnd \<Rightarrow> int \<Rightarrow> unit em" where
  "la_load_addrx tg op0 op1 imm =
    (if \<not> TARGET_X86_64 tg then la_rri LISA_LD_WU op0 op1 imm
     else if CODEIS64 tg then la_rri LISA_LD_D op0 op1 imm else la_rri LISA_LD_WU op0 op1 imm)"

definition li_guest_addr :: "target \<Rightarrow> ir2_opnd \<Rightarrow> u64 \<Rightarrow> unit em" where
  "li_guest_addr tg opnd2 imm = (if TARGET_X86_64 tg then li_d opnd2 imm else li_wu opnd2 (ucast imm))"

definition env_ir2_opnd :: "target \<Rightarrow> ir2_opnd" where
  "env_ir2_opnd tg = create_ir2_opnd IR2_OPND_GPR (of_int (reg_statics_map tg ! 3))"

definition ir1_opnd_base_reg :: "ir1_opnd \<Rightarrow> dt_x86_reg" where "ir1_opnd_base_reg opnd = op_mem_base opnd"
definition ir1_opnd_scale :: "ir1_opnd \<Rightarrow> int" where "ir1_opnd_scale opnd = op_mem_scale opnd"

section \<open>Parts of the address\<close>

definition add_offset :: "target \<Rightarrow> ir2_opnd \<Rightarrow> ir2_opnd \<Rightarrow> u64 \<Rightarrow> unit em" where
  "add_offset tg dest src offset =
    (if si12_overflow offset then do {
       temp \<leftarrow> em_alloc_itemp tg;
       li_guest_addr tg temp offset;
       la_add tg dest src temp;
       em_free_temp tg temp
     } else la_rri LISA_ADDI_D dest src (sint offset))"

definition index_add_base :: "target \<Rightarrow> ir2_opnd \<Rightarrow> ir2_opnd \<Rightarrow> ir2_opnd \<Rightarrow> int \<Rightarrow> unit em" where
  "index_add_base tg dest base index scale =
    (let la_alsl = (\<lambda>rd rj rk sa2. emit (if TARGET_X86_64 tg \<and> CODEIS64 tg then LISA_ALSL_D else LISA_ALSL_WU)
           [rd, rj, rk, create_immh_opnd sa2])
     in if scale = 1 then la_add tg dest base index
        else if scale = 2 then la_alsl dest index base 0
        else if scale = 4 then la_alsl dest index base 1
        else if scale = 8 then la_alsl dest index base 2
        else em_skip)"

definition adjust_dest :: "target \<Rightarrow> ir2_opnd \<Rightarrow> ir2_opnd option \<Rightarrow> int \<Rightarrow> int \<Rightarrow> ir2_opnd em" where
  "adjust_dest tg dest_op arg_dest_op dest_size addr_size =
    (if dest_size = 0 \<and> addr_size = 64 then em_return dest_op
     else do {
       ret_dest_op \<leftarrow> (case arg_dest_op of
           Some d \<Rightarrow> em_return d
         | None \<Rightarrow> do {
             it \<leftarrow> em_opt False (ir2_opnd_is_itemp tg dest_op);
             if \<not> it then em_alloc_itemp tg else em_return dest_op
           });
       let narrow = do { la_rrii LISA_BSTRPICK_D ret_dest_op dest_op 31 0; em_return ret_dest_op };
       if dest_size = 64 then do {
         (if addr_size = 32 then la_rrii LISA_BSTRPICK_D ret_dest_op dest_op 31 0
          else if \<not> ir2_opnd_cmp ret_dest_op dest_op then la_rrr LISA_OR ret_dest_op dest_op zero_ir2_opnd
          else em_skip);
         em_return ret_dest_op
       }
       else if dest_size = 32 then
         if addr_size = 16 then do {
           la_rrii LISA_BSTRINS_D ret_dest_op dest_op 15 0;
           la_rrii LISA_BSTRPICK_D ret_dest_op ret_dest_op 31 0;
           em_return ret_dest_op
         }
         else narrow
       else if dest_size = 16 then do {
         la_rrii LISA_BSTRINS_D ret_dest_op dest_op 15 0;
         (if TARGET_X86_64 tg then em_skip else la_rrii LISA_BSTRPICK_D ret_dest_op ret_dest_op 31 0);
         em_return ret_dest_op
       }
       else narrow
     })"

section \<open>The address\<close>

text \<open>The switch over the parts present: 1 is an offset, 2 an index, 4 a base.\<close>

definition convert_mem_switch ::
    "target \<Rightarrow> ir1_opnd \<Rightarrow> int \<Rightarrow> bool \<Rightarrow> bool \<Rightarrow> ir2_opnd \<Rightarrow> ir2_opnd \<Rightarrow> ir2_opnd \<Rightarrow> u64 \<Rightarrow> ir2_opnd em" where
  "convert_mem_switch tg opnd1 bitmap host_off itemp_allocated dest_op base_op index_op offset =
    (if bitmap = 0 then do {
       em_free_temp tg dest_op;
       em_return zero_ir2_opnd
     }
     else if bitmap = 1 then do {
       li_guest_addr tg dest_op offset;
       em_return dest_op
     }
     else if bitmap = 2 then do {
       index_add_base tg dest_op zero_ir2_opnd index_op (ir1_opnd_scale opnd1);
       em_return dest_op
     }
     else if bitmap = 3 then do {
       it \<leftarrow> em_opt False (ir2_opnd_is_itemp tg dest_op);
       (if it then do {
          li_guest_addr tg dest_op offset;
          index_add_base tg dest_op dest_op index_op (ir1_opnd_scale opnd1)
        } else do {
          temp_op \<leftarrow> em_alloc_itemp tg;
          li_guest_addr tg temp_op offset;
          index_add_base tg dest_op temp_op index_op (ir1_opnd_scale opnd1);
          em_free_temp tg temp_op
        });
       em_return dest_op
     }
     else if bitmap = 4 then
       if \<not> host_off \<and> \<not> itemp_allocated then do {
         la_rrr LISA_OR dest_op zero_ir2_opnd base_op;
         em_return dest_op
       } else do {
         em_free_temp tg dest_op;
         em_return base_op
       }
     else if bitmap = 5 then do {
       add_offset tg dest_op base_op offset;
       em_return dest_op
     }
     else if bitmap = 6 then do {
       index_add_base tg dest_op base_op index_op (ir1_opnd_scale opnd1);
       em_return dest_op
     }
     else if bitmap = 7 then do {
       index_add_base tg dest_op base_op index_op (ir1_opnd_scale opnd1);
       add_offset tg dest_op dest_op offset;
       em_return dest_op
     }
     else em_return dest_op)"

definition convert_mem_seg :: "target \<Rightarrow> (int \<Rightarrow> int) \<Rightarrow> ir1_opnd \<Rightarrow> int \<Rightarrow> ir2_opnd \<Rightarrow> ir2_opnd em" where
  "convert_mem_seg tg seg_base_off opnd1 bitmap dest_op =
    (if ir1_opnd_has_seg opnd1 then do {
       seg_op \<leftarrow> em_alloc_itemp tg;
       index \<leftarrow> em_res 0 (ir1_opnd_get_seg_index opnd1);
       la_load_addrx tg seg_op (env_ir2_opnd tg) (seg_base_off index);
       em_free_temp tg dest_op;
       (if bitmap \<noteq> 0 then la_add tg seg_op seg_op dest_op else em_skip);
       em_return seg_op
     } else em_return dest_op)"

text \<open>The result is the register and the value stored through host\_off, 0 when it is null.\<close>

definition convert_mem_helper ::
    "target \<Rightarrow> (int \<Rightarrow> int) \<Rightarrow> ir1_inst \<Rightarrow> ir1_opnd \<Rightarrow> ir2_opnd option \<Rightarrow> int \<Rightarrow> bool \<Rightarrow> (ir2_opnd \<times> int) em" where
  "convert_mem_helper tg seg_base_off pir1 opnd1 arg_dest_op dest_size host_off = do {
     dest_need_itmp \<leftarrow> (case arg_dest_op of
         None \<Rightarrow> em_return True
       | Some d \<Rightarrow> do {
           it \<leftarrow> em_opt False (ir2_opnd_is_itemp tg d);
           em_return (\<not> it \<and> dest_size < 32)
         });
     offset0 \<leftarrow> em_res 0 (ir1_opnd_simm tg opnd1);
     let alloc_dest = (if dest_need_itmp then em_alloc_itemp tg
         else em_return (case arg_dest_op of Some d \<Rightarrow> d | None \<Rightarrow> ir2_opnd_new_none));
     if TARGET_X86_64 tg \<and> CODEIS64 tg \<and> ir1_opnd_base_reg opnd1 = dt_X86_REG_RIP then do {
       dest_op \<leftarrow> alloc_dest;
       li_guest_addr tg dest_op (offset0 + ir1_addr_next tg pir1);
       em_return (dest_op, 0)
     } else do {
       let has_seg = ir1_opnd_has_seg opnd1;
       let has_index = ir1_opnd_has_index opnd1;
       let has_base = ir1_opnd_has_base opnd1;
       let split_off = host_off \<and> \<not> si12_overflow offset0;
       let off = (if split_off then sint offset0 else 0);
       let offset = (if split_off then 0 else offset0);
       let bitmap = (if offset \<noteq> 0 then 1 else 0) + (if has_index then 2 else 0) + (if has_base then 4 else 0);
       base_op \<leftarrow> (if has_base then em_gpr tg (ir1_opnd_base_reg_num tg opnd1) else em_return ir2_opnd_new_none);
       index_op \<leftarrow> (if has_index then em_gpr tg (ir1_opnd_index_reg_num tg opnd1) else em_return ir2_opnd_new_none);
       dest_op \<leftarrow> alloc_dest;
       dest_op \<leftarrow> convert_mem_switch tg opnd1 bitmap host_off dest_need_itmp dest_op base_op index_op offset;
       if bitmap = 0 \<and> \<not> has_seg then em_return (dest_op, off)
       else do {
         dest_op \<leftarrow> convert_mem_seg tg seg_base_off opnd1 bitmap dest_op;
         dest_op \<leftarrow> adjust_dest tg dest_op arg_dest_op dest_size (ir1_addr_size pir1);
         em_return (dest_op, off)
       }
     }
   }"

definition convert_mem_to_specific_gpr ::
    "target \<Rightarrow> (int \<Rightarrow> int) \<Rightarrow> ir1_inst \<Rightarrow> ir1_opnd \<Rightarrow> ir2_opnd \<Rightarrow> int \<Rightarrow> unit em" where
  "convert_mem_to_specific_gpr tg seg_base_off pir1 opnd dest dest_size = do {
     _ \<leftarrow> convert_mem_helper tg seg_base_off pir1 opnd (Some dest) dest_size False;
     em_skip
   }"

definition convert_mem_no_offset :: "target \<Rightarrow> (int \<Rightarrow> int) \<Rightarrow> ir1_inst \<Rightarrow> ir1_opnd \<Rightarrow> ir2_opnd em" where
  "convert_mem_no_offset tg seg_base_off pir1 opnd1 = do {
     (d, _) \<leftarrow> convert_mem_helper tg seg_base_off pir1 opnd1 None 0 False;
     em_return d
   }"

definition convert_mem :: "target \<Rightarrow> (int \<Rightarrow> int) \<Rightarrow> ir1_inst \<Rightarrow> ir1_opnd \<Rightarrow> (ir2_opnd \<times> int) em" where
  "convert_mem tg seg_base_off pir1 opnd1 = convert_mem_helper tg seg_base_off pir1 opnd1 None 0 True"

text \<open>The new operand and the new offset.\<close>

definition mem_imm_add_disp :: "target \<Rightarrow> ir2_opnd \<Rightarrow> int \<Rightarrow> int \<Rightarrow> (ir2_opnd \<times> int) em" where
  "mem_imm_add_disp tg mem_op old_imm disp =
    (let new_imm = old_imm + disp in
     if si12_overflow (of_int new_imm) then do {
       new_mem_op \<leftarrow> em_alloc_itemp tg;
       la_rri LISA_ADDI_D new_mem_op mem_op old_imm;
       it \<leftarrow> em_opt False (ir2_opnd_is_itemp tg mem_op);
       (if it then em_free_temp tg mem_op else em_skip);
       em_return (new_mem_op, disp)
     } else em_return (mem_op, new_imm))"

end
