(* ===== verification/Mem_Address.thy ===== *)
theory Mem_Address
  imports Mem_Interface
begin

text \<open>
  The code of \<open>Mem_Interface\<close> computes the x86 address.  Outside 64-bit code only the low 32
  bits of an address are meaningful: \<open>norm\<close>.
\<close>

definition norm :: "target \<Rightarrow> u64 \<Rightarrow> u64" where
  "norm tg a = (if CODEIS64 tg then a else take_bit 32 a)"

lemma take_bit_32_add: "take_bit 32 (take_bit 32 a + take_bit 32 b) = take_bit 32 (a + b)" for a b :: u64
  by transfer (simp add: take_bit_eq_mod mod_simps mod_mod_cancel)

lemma take_bit_32_mult: "take_bit 32 (k * take_bit 32 a) = take_bit 32 (k * a)" for a k :: u64
  by transfer (simp add: take_bit_eq_mod mod_simps mod_mod_cancel)

lemma norm_cong_add:
  assumes "norm tg a = norm tg c" "norm tg b = norm tg d"
  shows "norm tg (a + b) = norm tg (c + d)"
  using assms take_bit_32_add[of a b] take_bit_32_add[of c d] by (simp add: norm_def split: if_splits)

lemma norm_cong_mult:
  assumes "norm tg a = norm tg c"
  shows "norm tg (k * a) = norm tg (k * c)"
  using assms take_bit_32_mult[of k a] take_bit_32_mult[of k c] by (simp add: norm_def split: if_splits)

lemma norm_idem [simp]: "norm tg (norm tg a) = norm tg a"
  by (simp add: norm_def)

lemma take_bit_sx32 [simp]: "take_bit 32 (sx32 a) = take_bit 32 a"
  by (rule bit_word_eqI) (auto simp: bit_take_bit_iff bit_sx32 min_def)

lemma take_bit_64 [simp]: "take_bit 64 w = w" for w :: u64
  by (rule bit_word_eqI) (simp add: bit_take_bit_iff)

lemma norm_narrow: "\<not> CODEIS64 tg \<Longrightarrow> norm tg (sx32 a) = norm tg a" "\<not> CODEIS64 tg \<Longrightarrow> norm tg (take_bit 32 a) = norm tg a"
  by (simp_all add: norm_def)

section \<open>Pseudo instructions\<close>

lemma no_stores [simp]: "la_store_bytes LISA_ADD_W = None" "la_store_bytes LISA_ADD_D = None"
  "la_store_bytes LISA_ADDI_W = None" "la_store_bytes LISA_ADDI_D = None" "la_store_bytes LISA_ALSL_D = None"
  "la_store_bytes LISA_ALSL_WU = None" "la_store_bytes LISA_LD_WU = None" "la_store_bytes LISA_LD_D = None"
  "la_store_bytes LISA_OR = None" "la_store_bytes LISA_BSTRPICK_D = None" "la_store_bytes LISA_BSTRINS_D = None"
  "la_store_bytes LISA_BSTRPICK_W = None" "la_store_bytes LISA_ORI = None" "la_store_bytes LISA_ANDI = None"
  "la_store_bytes LISA_SLLI_W = None" "la_store_bytes LISA_SRLI_W = None" "la_store_bytes LISA_EXT_W_B = None"
  "la_store_bytes LISA_EXT_W_H = None" "la_store_bytes LISA_LD_B = None" "la_store_bytes LISA_LD_BU = None"
  "la_store_bytes LISA_LD_H = None" "la_store_bytes LISA_LD_HU = None" "la_store_bytes LISA_LD_W = None"
  by (simp_all add: la_store_bytes_def)

lemma does_la_add:
  assumes "\<And>v. norm tg v = norm tg (reg_read M a + reg_read M b) \<Longrightarrow> Q () B (reg_write dest v M)"
  shows "em_does tg (la_add tg dest a b) B M Q"
  unfolding la_add_def using assms[of "reg_read M a + reg_read M b"] assms[of "sx32 (reg_read M a + reg_read M b)"]
  by (cases tg) (auto intro!: does_value simp: norm_narrow)

lemma does_li_guest_addr:
  assumes "reg_num dest \<noteq> 0" "\<And>v. norm tg v = norm tg imm \<Longrightarrow> Q () B (reg_write dest v M)"
  shows "em_does tg (li_guest_addr tg dest imm) B M Q"
proof -
  have "zext32 (trunc32 imm) = take_bit 32 imm" by (rule bit_word_eqI) (auto simp: bit_ucast_iff bit_take_bit_iff)
  then show ?thesis unfolding li_guest_addr_def using assms(2)[of imm] assms(2)[of "take_bit 32 imm"]
    by (cases tg) (auto intro!: does_li_d does_li_wu assms(1) simp: norm_narrow)
qed

lemma ui_imm: "ui n (create_immh_opnd k) = of_int (take_bit (min n 32) k)"
  by (rule bit_word_eqI)
    (auto simp: bit_ui create_immh_opnd_def create_ir2_opnd_def bit_of_int_iff bit_word_of_int_iff bit_take_bit_iff)

lemma does_alsl:
  assumes "k \<in> {0, 1, 2}"
    and "\<And>v. norm tg v = norm tg (reg_read M base + 2 ^ (nat k + 1) * reg_read M index) \<Longrightarrow> Q () B (reg_write dest v M)"
  shows "em_does tg (emit (if TARGET_X86_64 tg \<and> CODEIS64 tg then LISA_ALSL_D else LISA_ALSL_WU)
    [dest, index, base, create_immh_opnd k]) B M Q"
proof -
  let ?v = "reg_read M base + 2 ^ (nat k + 1) * reg_read M index"
  have "unat (ui 2 (create_immh_opnd k)) = nat k" using assms(1) by (auto simp: ui_imm)
  then have v: "push_bit (unat (ui 2 (create_immh_opnd k)) + 1) (reg_read M index) + reg_read M base = ?v"
    unfolding push_bit_eq_mult by (simp only: add.commute mult.commute)
  show ?thesis
  proof (cases "CODEIS64 tg")
    case True
    then have "TARGET_X86_64 tg" by (cases tg) simp_all
    then show ?thesis
      by (intro does_value[where v = ?v]) (use True v assms(2) in simp_all)
  next
    case False
    then show ?thesis
      by (intro does_value[where v = "take_bit 32 ?v"]) (use v assms(2) in \<open>simp_all add: norm_narrow add.commute\<close>)
  qed
qed

lemma index_add_base_alsl:
  "index_add_base tg dest base index 2 = emit (if TARGET_X86_64 tg \<and> CODEIS64 tg then LISA_ALSL_D else LISA_ALSL_WU)
    [dest, index, base, create_immh_opnd 0]"
  "index_add_base tg dest base index 4 = emit (if TARGET_X86_64 tg \<and> CODEIS64 tg then LISA_ALSL_D else LISA_ALSL_WU)
    [dest, index, base, create_immh_opnd 1]"
  "index_add_base tg dest base index 8 = emit (if TARGET_X86_64 tg \<and> CODEIS64 tg then LISA_ALSL_D else LISA_ALSL_WU)
    [dest, index, base, create_immh_opnd 2]"
  by (simp_all add: index_add_base_def)

lemma does_index_add_base:
  assumes "scale \<in> {1, 2, 4, 8}"
    and Q: "\<And>v. norm tg v = norm tg (reg_read M base + of_int scale * reg_read M index) \<Longrightarrow> Q () B (reg_write dest v M)"
  shows "em_does tg (index_add_base tg dest base index scale) B M Q"
proof -
  consider "scale = 1" | "scale = 2" | "scale = 4" | "scale = 8" using assms(1) by blast
  then show ?thesis
  proof cases
    case 1
    show ?thesis unfolding index_add_base_def Let_def 1 using does_la_add Q[unfolded 1] by simp
  next
    case 2
    show ?thesis unfolding 2 index_add_base_alsl by (rule does_alsl) (use Q[unfolded 2] in simp_all)
  next
    case 3
    show ?thesis unfolding 3 index_add_base_alsl by (rule does_alsl) (use Q[unfolded 3] in simp_all)
  next
    case 4
    have "(2 :: u64) ^ (nat 2 + 1) = 8" by simp
    then show ?thesis unfolding 4 index_add_base_alsl by (intro does_alsl) (use Q[unfolded 4] in simp_all)
  qed
qed

section \<open>Offsets\<close>

lemma si12_imm:
  assumes "-2048 \<le> k" "k \<le> 2047"
  shows "si 12 (create_immh_opnd k) = of_int k"
proof (rule bit_word_eqI)
  fix i :: nat assume "i < LENGTH(64)"
  then have i: "i < 64" by simp
  have k: "signed_take_bit 11 k = k" using assms by (simp add: signed_take_bit_int_eq_self)
  have "bit k (min i 11) = bit k i" using bit_signed_take_bit_iff[of 11 k i] unfolding k by (simp add: min.commute)
  moreover have "min i 11 < 32" by (simp add: min_def)
  ultimately show "bit (si 12 (create_immh_opnd k)) i = bit (of_int k :: u64) i"
    using i by (simp add: bit_si create_immh_opnd_def create_ir2_opnd_def bit_word_of_int_iff)
qed

lemma si12_offset:
  assumes "\<not> si12_overflow off"
  shows "si 12 (create_immh_opnd (sint off)) = off"
  using si12_imm[of "sint off"] assms by (simp add: si12_overflow_def split: if_splits)

lemma does_addi_d:
  assumes "-2048 \<le> k" "k \<le> 2047" "Q () B (reg_write dest (reg_read M src + of_int k) M)"
  shows "em_does tg (la_rri LISA_ADDI_D dest src k) B M Q"
  by (rule does_value[where v = "reg_read M src + of_int k"]) (use assms in \<open>simp_all add: si12_imm\<close>)

lemma does_add_offset:
  assumes d: "0 < d" "d < 32" "d \<notin> temps tg - B" and r: "0 \<le> r" "r < 32" "r \<notin> temps tg - B"
    and B: "B \<noteq> temps tg"
    and Q: "\<And>v M'. norm tg v = norm tg (reg_read M (greg r) + offset) \<Longrightarrow> clob (temps tg - B) M M' \<Longrightarrow>
      Q () B (reg_write (greg d) v M')"
  shows "em_does tg (add_offset tg (greg d) (greg r) offset) B M Q"
proof (cases "si12_overflow offset")
  case True
  show ?thesis unfolding add_offset_def if_P[OF True]
  proof (rule does_bind, rule does_alloc[OF B])
    fix t assume t: "t \<in> temps tg" "t \<notin> B"
    note tr = temps_range[OF t(1)]
    have "r \<noteq> t" using t r by auto
    then have rt: "nat r \<noteq> nat t" using r(1) tr by (simp add: eq_nat_nat_iff)
    show "em_does tg (do { li_guest_addr tg (greg t) offset; la_add tg (greg d) (greg r) (greg t);
        em_free_temp tg (greg t) }) (insert t B) M Q"
    proof (rule does_bind, rule does_li_guest_addr)
      fix w assume w: "norm tg w = norm tg offset"
      let ?M = "reg_write (greg t) w M"
      show "em_does tg (do { la_add tg (greg d) (greg r) (greg t); em_free_temp tg (greg t) }) (insert t B) ?M Q"
      proof (rule does_bind, rule does_la_add, rule does_free)
        fix v assume v: "norm tg v = norm tg (reg_read ?M (greg r) + reg_read ?M (greg t))"
        have "norm tg v = norm tg (reg_read M (greg r) + offset)"
          using v tr r rt norm_cong_add[OF refl w] by (simp add: reg_num_greg)
        then have "Q () B (reg_write (greg d) v ?M)" by (rule Q) (use t tr in \<open>simp add: clob_write\<close>)
        then show "Q () (if t \<in> temps tg then insert t B - {t} else insert t B) (reg_write (greg d) v ?M)"
          using t by simp
      qed (use tr in auto)
    qed (use tr in \<open>simp add: reg_num_greg\<close>)
  qed
next
  case False
  have "Q () B (reg_write (greg d) (reg_read M (greg r) + offset) M)" by (rule Q) simp_all
  then show ?thesis unfolding add_offset_def if_not_P[OF False]
    by (intro does_value) (simp_all add: si12_offset[OF False])
qed

section \<open>Base, index and offset\<close>

text \<open>What the switch achieves with destination \<open>d\<close>: the register \<open>r\<close> holds the value \<open>V\<close>; the
  destination was released if it is not used; nothing but \<open>d\<close> and free temporaries changed.\<close>

definition switch_post :: "target \<Rightarrow> int set \<Rightarrow> la_mach \<Rightarrow> int \<Rightarrow> u64 \<Rightarrow> ir2_opnd \<Rightarrow> int set \<Rightarrow> la_mach \<Rightarrow> bool" where
  "switch_post tg B M d V d' B' M' \<longleftrightarrow> (\<exists>r. d' = greg r \<and> 0 \<le> r \<and> r < 32 \<and>
     norm tg (reg_read M' (greg r)) = norm tg V \<and> clob (temps tg - B \<union> {d}) M M' \<and>
     (r = d \<and> B' = B \<or> r \<notin> temps tg \<and> B' = B - {d}))"

lemma switch_postI:
  assumes "0 < d" "d < 32" "norm tg v = norm tg V" "clob (temps tg - B) M M1"
  shows "switch_post tg B M d V (greg d) B (reg_write (greg d) v M1)"
  unfolding switch_post_def
proof (intro exI[of _ d] conjI)
  show "clob (temps tg - B \<union> {d}) M (reg_write (greg d) v M1)"
    using assms by (intro clob_trans[OF clob_mono[OF assms(4)] clob_write]) auto
qed (use assms in \<open>simp_all add: reg_num_greg\<close>)

lemma switch_return:
  assumes "em_does tg m B M (\<lambda>_ B' M'. switch_post tg B0 M0 d V (greg d) B' M')"
  shows "em_does tg (do { m; em_return (greg d) }) B M (switch_post tg B0 M0 d V)"
  by (rule does_bind, rule does_conseq[OF assms], rule does_return)

lemma switch_offset:
  assumes "0 < d" "d < 32" "norm tg offset = norm tg V"
  shows "em_does tg (do { li_guest_addr tg (greg d) offset; em_return (greg d) }) B M (switch_post tg B M d V)"
  by (intro switch_return does_li_guest_addr switch_postI) (use assms in \<open>simp_all add: reg_num_greg\<close>)

lemma switch_index:
  assumes "0 < d" "d < 32" "scale \<in> {1, 2, 4, 8}" "norm tg (reg_read M b + of_int scale * reg_read M i) = norm tg V"
  shows "em_does tg (do { index_add_base tg (greg d) b i scale; em_return (greg d) }) B M (switch_post tg B M d V)"
  by (intro switch_return does_index_add_base switch_postI) (use assms in simp_all)

lemma switch_base_offset:
  assumes "0 < d" "d < 32" "d \<notin> temps tg - B" "B \<noteq> temps tg" "0 \<le> r" "r < 32" "r \<notin> temps tg - B" "norm tg (reg_read M (greg r) + offset) = norm tg V"
  shows "em_does tg (do { add_offset tg (greg d) (greg r) offset; em_return (greg d) }) B M (switch_post tg B M d V)"
  by (intro switch_return does_add_offset switch_postI) (use assms in simp_all)

lemma switch_release:
  assumes "0 < d" "d < 32" "B \<subseteq> temps tg" "0 \<le> r" "r < 32" "r \<notin> temps tg" "norm tg (reg_read M (greg r)) = norm tg V"
  shows "em_does tg (do { em_free_temp tg (greg d); em_return (greg r) }) B M (switch_post tg B M d V)"
proof (rule does_bind, rule does_free, goal_cases)
  case 3
  have "(if d \<in> temps tg then B - {d} else B) = B - {d}" using assms(3) by auto
  then have "switch_post tg B M d V (greg r) (if d \<in> temps tg then B - {d} else B) M"
    unfolding switch_post_def using assms by (intro exI[of _ r]) simp
  then show ?case by (rule does_return)
qed (use assms in simp_all)

lemma switch_index_offset:
  assumes "0 < d" "d < 32" "d \<notin> temps tg - B" "B \<noteq> temps tg"
    and i: "0 \<le> i" "i < 32" "i \<notin> temps tg" and scale: "scale \<in> {1, 2, 4, 8}"
    and V: "norm tg (offset + of_int scale * reg_read M (greg i)) = norm tg V"
  shows "em_does tg (do {
      it \<leftarrow> em_opt False (ir2_opnd_is_itemp tg (greg d));
      (if it then do {
         li_guest_addr tg (greg d) offset;
         index_add_base tg (greg d) (greg d) (greg i) scale
       } else do {
         temp_op \<leftarrow> em_alloc_itemp tg;
         li_guest_addr tg temp_op offset;
         index_add_base tg (greg d) temp_op (greg i) scale;
         em_free_temp tg temp_op
       });
      em_return (greg d)
    }) B M (switch_post tg B M d V)" (is "em_does tg ?m B M ?Q")
proof -
  let ?P = "\<lambda>_ B' M'. switch_post tg B M d V (greg d) B' M'"
  have val: "norm tg (w + of_int scale * reg_read M (greg i)) = norm tg V" if "norm tg w = norm tg offset" for w
    using norm_cong_add[OF that refl] V by simp
  have "em_does tg (do { li_guest_addr tg (greg d) offset; index_add_base tg (greg d) (greg d) (greg i) scale }) B M ?P"
    if "d \<in> temps tg"
  proof (intro does_bind does_li_guest_addr does_index_add_base scale)
    fix w v assume w: "norm tg w = norm tg offset"
      and v: "norm tg v = norm tg (reg_read (reg_write (greg d) w M) (greg d) +
        of_int scale * reg_read (reg_write (greg d) w M) (greg i))"
    have "nat i \<noteq> nat d" using i that assms(1) by (auto simp: nat_eq_iff2)
    then have "norm tg v = norm tg V" using v val[OF w] assms(1,2) i by (simp add: reg_num_greg)
    then show "?P () B (reg_write (greg d) v (reg_write (greg d) w M))"
      using switch_postI[of d tg v V B M M] assms by simp
  qed (use assms in \<open>simp add: reg_num_greg\<close>)
  moreover have "em_does tg (do { temp_op \<leftarrow> em_alloc_itemp tg; li_guest_addr tg temp_op offset;
      index_add_base tg (greg d) temp_op (greg i) scale; em_free_temp tg temp_op }) B M ?P"
  proof (intro does_bind does_alloc does_li_guest_addr does_index_add_base scale does_free)
    fix t w v assume t: "t \<in> temps tg" "t \<notin> B" and w: "norm tg w = norm tg offset"
      and v: "norm tg v = norm tg (reg_read (reg_write (greg t) w M) (greg t) +
        of_int scale * reg_read (reg_write (greg t) w M) (greg i))"
    note tr = temps_range[OF t(1)]
    have "nat i \<noteq> nat t" using i t tr by (auto simp: nat_eq_iff2)
    then have "norm tg v = norm tg V" using v val[OF w] tr i by (simp add: reg_num_greg)
    then show "?P () (if t \<in> temps tg then insert t B - {t} else insert t B) (reg_write (greg d) v (reg_write (greg t) w M))"
      using switch_postI[of d tg v V B M "reg_write (greg t) w M"] clob_write[of t "temps tg - B" M w] assms(1,2) t tr by simp
  qed (simp_all add: assms(4) temp_rules)
  ultimately show ?thesis
    using is_itemp_greg[of d tg] assms(1,2)
    by (intro does_bind[of tg "em_opt False (ir2_opnd_is_itemp tg (greg d))"] does_opt[of _ "d \<in> temps tg"] switch_return) simp_all
qed

text \<open>The whole switch.\<close>

lemma does_switch:
  fixes offset :: u64
  assumes d: "0 < d" "d < 32" "d \<notin> temps tg - B" and B: "B \<noteq> temps tg" "B \<subseteq> temps tg"
    and b: "hb \<Longrightarrow> base_op = greg b \<and> 0 \<le> b \<and> b < 32 \<and> b \<notin> temps tg"
    and i: "hi \<Longrightarrow> index_op = greg i \<and> 0 \<le> i \<and> i < 32 \<and> i \<notin> temps tg \<and> ir1_opnd_scale opnd1 \<in> {1, 2, 4, 8}"
    and bitmap: "bitmap = (if offset \<noteq> 0 then 1 else 0) + (if hi then 2 else 0) + (if hb then 4 else 0)"
    and V: "V = (if hb then reg_read M (greg b) else 0) +
      (if hi then of_int (ir1_opnd_scale opnd1) * reg_read M (greg i) else 0) + offset"
  shows "em_does tg (convert_mem_switch tg opnd1 bitmap host_off itemp_allocated (greg d) base_op index_op offset) B M
    (switch_post tg B M d V)"
proof -
  note sw = convert_mem_switch_def
  note base = switch_base_offset[OF d B(1)] switch_release[OF d(1,2) B(2)]
  have z: "norm tg (reg_read M (greg 0)) = norm tg 0" unfolding zero_greg[symmetric] by simp
  show ?thesis
  proof (cases hb)
    case True
    note b = b[OF True]
    show ?thesis
    proof (cases hi)
      case hi: True
      note i = i[OF hi]
      show ?thesis
      proof (cases "offset = 0")
        case z: True
        show ?thesis unfolding sw bitmap using switch_index[OF d(1,2), of _ tg M base_op index_op V B] True hi z b i V by simp
      next
        case False
        let ?W = "reg_read M (greg b) + of_int (ir1_opnd_scale opnd1) * reg_read M (greg i)"
        have "em_does tg (do { add_offset tg (greg d) (greg d) offset; em_return (greg d) }) B (reg_write (greg d) v M)
            (switch_post tg B M d V)" if v: "norm tg v = norm tg ?W" for v
        proof -
          have "norm tg (reg_read (reg_write (greg d) v M) (greg d) + offset) = norm tg V"
            using norm_cong_add[OF v refl] True hi V d by (simp add: reg_num_greg)
          then have "em_does tg (do { add_offset tg (greg d) (greg d) offset; em_return (greg d) }) B (reg_write (greg d) v M)
              (switch_post tg B (reg_write (greg d) v M) d V)" using d by (intro base) auto
          moreover have "clob (temps tg - B \<union> {d}) M (reg_write (greg d) v M)" using d by (intro clob_write) auto
          ultimately show ?thesis
            by (elim does_conseq) (auto simp: switch_post_def intro: clob_trans)
        qed
        then show ?thesis unfolding sw bitmap using True hi False b i
          by (simp add: does_bind does_index_add_base)
      qed
    next
      case False
      show ?thesis unfolding sw bitmap using True False b V base(1)[of b M offset V] base(2)[of b M V]
        does_value[of LISA_OR "[greg d, zero_ir2_opnd, greg b]" M "reg_read M (greg b)"
          "\<lambda>_ B' M'. switch_post tg B M d V (greg d) B' M'" B tg] switch_return[of tg _ B M B M d V]
        switch_postI[OF d(1,2), of tg "reg_read M (greg b)" V B M M]
        by (cases "offset = 0") auto
    qed
  next
    case False
    show ?thesis
    proof (cases hi)
      case True
      note i = i[OF True]
      show ?thesis unfolding sw bitmap conjunct1[OF i]
        using False True i V switch_index[OF d(1,2), of _ tg M zero_ir2_opnd index_op V B]
          switch_index_offset[OF d B(1), of i "ir1_opnd_scale opnd1" offset M V]
        by (cases "offset = 0") (simp_all add: add.commute)
    next
      case hi: False
      show ?thesis unfolding sw bitmap using False hi V switch_offset[OF d(1,2), of tg offset V B M]
          base(2)[of 0 M V] z by (cases "offset = 0") (auto simp: zero_greg dest: temps_range)
    qed
  qed
qed

section \<open>The x86 address\<close>

text \<open>A guest register as the program sees it: outside 64-bit code the upper half of the LoongArch
  register carries no meaning.\<close>

definition guest_gpr :: "target \<Rightarrow> la_mach \<Rightarrow> int \<Rightarrow> u64" where
  "guest_gpr tg M i = norm tg (reg_read M (greg (home tg i)))"

definition rip_relative :: "target \<Rightarrow> ir1_opnd \<Rightarrow> bool" where
  "rip_relative tg opnd \<longleftrightarrow> CODEIS64 tg \<and> op_mem_base opnd = dt_X86_REG_RIP"

text \<open>Base, index times scale and displacement, cut to the address size, plus the segment base.\<close>

definition x86_offset :: "target \<Rightarrow> ir1_inst \<Rightarrow> ir1_opnd \<Rightarrow> (int \<Rightarrow> u64) \<Rightarrow> u64" where
  "x86_offset tg pir1 opnd gpr =
    (if rip_relative tg opnd then ir1_addr_next tg pir1
     else if ir1_opnd_has_base opnd then gpr (ir1_opnd_base_reg_num tg opnd) else 0) +
    (if ir1_opnd_has_index opnd \<and> \<not> rip_relative tg opnd
     then of_int (op_mem_scale opnd) * gpr (ir1_opnd_index_reg_num tg opnd) else 0) +
    op_mem_disp opnd"

definition x86_address :: "target \<Rightarrow> ir1_inst \<Rightarrow> ir1_opnd \<Rightarrow> (int \<Rightarrow> u64) \<Rightarrow> u64 \<Rightarrow> u64" where
  "x86_address tg pir1 opnd gpr seg_base =
     norm tg (take_bit (nat (ir1_addr_size pir1)) (x86_offset tg pir1 opnd gpr) +
       (if ir1_opnd_has_seg opnd then seg_base else 0))"

text \<open>The base of the segment register, as CPUX86State holds it.\<close>

definition x86_seg_base :: "target \<Rightarrow> (int \<Rightarrow> int) \<Rightarrow> ir1_opnd \<Rightarrow> la_mach \<Rightarrow> u64" where
  "x86_seg_base tg seg_base_off opnd M =
    (case ir1_opnd_get_seg_index opnd of
       Inr k \<Rightarrow> load_le (if CODEIS64 tg then 8 else 4) (m_mem M) (reg_read M (env_ir2_opnd tg) + of_int (seg_base_off k))
     | Inl _ \<Rightarrow> 0)"

text \<open>The address of an operand in a machine state.\<close>

definition guest_address :: "target \<Rightarrow> (int \<Rightarrow> int) \<Rightarrow> ir1_inst \<Rightarrow> ir1_opnd \<Rightarrow> la_mach \<Rightarrow> u64" where
  "guest_address tg seg_base_off pir1 opnd M =
     x86_address tg pir1 opnd (guest_gpr tg M) (x86_seg_base tg seg_base_off opnd M)"

text \<open>The operands in question: a memory operand with general registers as base and index, a scale
  that can be encoded, a segment register the tables know, an offset of its base that a load can
  take, and an address size of 64 bits, or of 32 bits without a segment in 64-bit code.\<close>

definition mem_opnd_ok :: "target \<Rightarrow> (int \<Rightarrow> int) \<Rightarrow> ir1_inst \<Rightarrow> ir1_opnd \<Rightarrow> bool" where
  "mem_opnd_ok tg seg_base_off pir1 opnd \<longleftrightarrow>
     op_type opnd = dt_X86_OP_MEM \<and>
     (rip_relative tg opnd \<longrightarrow> \<not> ir1_opnd_has_seg opnd \<and> ir1_addr_size pir1 = 64) \<and>
     (ir1_opnd_has_base opnd \<and> \<not> rip_relative tg opnd \<longrightarrow> gpr_index tg (ir1_opnd_base_reg_num tg opnd)) \<and>
     (ir1_opnd_has_index opnd \<longrightarrow> gpr_index tg (ir1_opnd_index_reg_num tg opnd) \<and> op_mem_scale opnd \<in> {1, 2, 4, 8}) \<and>
     (ir1_opnd_has_seg opnd \<longrightarrow> (\<exists>k. ir1_opnd_get_seg_index opnd = Inr k \<and>
        -2048 \<le> seg_base_off k \<and> seg_base_off k \<le> 2047)) \<and>
     (ir1_addr_size pir1 = 64 \<and> CODEIS64 tg \<or> ir1_addr_size pir1 = 32 \<and> (CODEIS64 tg \<longrightarrow> \<not> ir1_opnd_has_seg opnd))"

section \<open>Segment and address size\<close>

lemma env_greg: "env_ir2_opnd tg = greg 31"
  by (simp add: env_ir2_opnd_def greg_def reg_statics_map_def)

lemma env_not_temp: "31 \<notin> temps tg"
  by (auto simp: temps_def reg_itemp_map_def split: if_splits)

lemma does_load_addrx:
  assumes "-2048 \<le> k" "k \<le> 2047"
    and "Q () B (reg_write dest (load_le (if CODEIS64 tg then 8 else 4) (m_mem M) (reg_read M src + of_int k)) M)"
  shows "em_does tg (la_load_addrx tg dest src k) B M Q"
  unfolding la_load_addrx_def using assms
  by (cases tg) (auto intro!: does_value simp: la_load_def la_address_def si12_imm)

lemma does_seg:
  assumes r: "0 \<le> r" "r < 32" "r \<notin> temps tg - B" and B: "B \<subseteq> temps tg" "B \<noteq> temps tg"
    and V: "norm tg (reg_read M (greg r)) = norm tg V" "bitmap = 0 \<Longrightarrow> V = 0"
    and k: "ir1_opnd_has_seg opnd1 \<Longrightarrow> ir1_opnd_get_seg_index opnd1 = Inr k \<and> -2048 \<le> seg_base_off k \<and> seg_base_off k \<le> 2047"
    and keep: "\<not> ir1_opnd_has_seg opnd1 \<Longrightarrow> Q (greg r) B M"
    and seg: "\<And>t v M'. ir1_opnd_has_seg opnd1 \<Longrightarrow> t \<in> temps tg \<Longrightarrow> t \<notin> B \<Longrightarrow> clob (temps tg - B) M M' \<Longrightarrow>
      norm tg (reg_read M' (greg t)) = norm tg (V + x86_seg_base tg seg_base_off opnd1 M) \<Longrightarrow> Q (greg t) (insert t (B - {r})) M'"
  shows "em_does tg (convert_mem_seg tg seg_base_off opnd1 bitmap (greg r)) B M Q"
proof (cases "ir1_opnd_has_seg opnd1")
  case True
  note k = k[OF True]
  let ?S = "x86_seg_base tg seg_base_off opnd1 M"
  have S: "load_le (if CODEIS64 tg then 8 else 4) (m_mem M) (reg_read M (env_ir2_opnd tg) + of_int (seg_base_off k)) = ?S"
    using k by (simp add: x86_seg_base_def)
  show ?thesis unfolding convert_mem_seg_def if_P[OF True]
  proof (rule does_bind, rule does_alloc[OF B(2)])
    fix t assume t: "t \<in> temps tg" "t \<notin> B"
    note tr = temps_range[OF t(1)]
    have "r \<noteq> t" using t r by auto
    then have rt: "nat r \<noteq> nat t" using r(1) tr by (simp add: eq_nat_nat_iff)
    have fr: "(if r \<in> temps tg then insert t B - {r} else insert t B) = insert t (B - {r})"
      using \<open>r \<noteq> t\<close> B(1) by auto
    have fin: "Q (greg t) (insert t (B - {r})) (reg_write (greg t) v M)" if "norm tg v = norm tg (V + ?S)" for v
      by (rule seg[OF True t]) (use that t tr in \<open>simp_all add: clob_write reg_num_greg\<close>)
    have "em_does tg (do { (if bitmap \<noteq> 0 then la_add tg (greg t) (greg t) (greg r) else em_skip); em_return (greg t) })
        (insert t (B - {r})) (reg_write (greg t) ?S M) Q"
    proof (cases "bitmap = 0")
      case True
      then show ?thesis using fin[of ?S] V(2) by (simp add: does_bind does_return)
    next
      case False
      have "em_does tg (do { la_add tg (greg t) (greg t) (greg r); em_return (greg t) })
        (insert t (B - {r})) (reg_write (greg t) ?S M) Q"
      proof (rule does_bind, rule does_la_add, rule does_return)
        fix v assume v: "norm tg v = norm tg (reg_read (reg_write (greg t) ?S M) (greg t) + reg_read (reg_write (greg t) ?S M) (greg r))"
        have "norm tg v = norm tg (V + ?S)"
          using v rt tr r norm_cong_add[OF refl V(1), of ?S] by (simp add: reg_num_greg add.commute)
        then show "Q (greg t) (insert t (B - {r})) (reg_write (greg t) v (reg_write (greg t) ?S M))" using fin by simp
      qed
      then show ?thesis using False by simp
    qed
    then show "em_does tg (do {
        index \<leftarrow> em_res 0 (ir1_opnd_get_seg_index opnd1);
        la_load_addrx tg (greg t) (env_ir2_opnd tg) (seg_base_off index);
        em_free_temp tg (greg r);
        (if bitmap \<noteq> 0 then la_add tg (greg t) (greg t) (greg r) else em_skip);
        em_return (greg t) }) (insert t B) M Q"
      using k r by (intro does_bind[of tg "em_res 0 (ir1_opnd_get_seg_index opnd1)"]
          does_bind[of tg "la_load_addrx tg (greg t) (env_ir2_opnd tg) (seg_base_off k)"]
          does_bind[of tg "em_free_temp tg (greg r)"] does_res[of _ k] does_load_addrx does_free) (simp_all add: S fr)
  qed
next
  case False
  then show ?thesis using keep by (simp add: convert_mem_seg_def does_return)
qed

lemma bstrpick_low: "bstrpick m 0 v = take_bit (m + 1) v"
  by (simp add: bstrpick_def)

lemma ui6 [simp]: "unat (ui 6 (create_immh_opnd 0)) = 0" "unat (ui 6 (create_immh_opnd 7)) = 7"
  "unat (ui 6 (create_immh_opnd 8)) = 8" "unat (ui 6 (create_immh_opnd 15)) = 15" "unat (ui 6 (create_immh_opnd 31)) = 31"
  by (simp_all add: ui_imm)

lemma does_narrow:
  assumes "Q () B (reg_write dest (take_bit 32 (reg_read M src)) M)"
  shows "em_does tg (la_rrii LISA_BSTRPICK_D dest src 31 0) B M Q"
  by (rule does_value[where v = "take_bit 32 (reg_read M src)"]) (use assms in \<open>simp_all add: bstrpick_low\<close>)

text \<open>Without a given destination: the address in a register, cut to 32 bits unless the address size
  is 64.\<close>

lemma does_adjust_dest:
  assumes r: "0 \<le> r" "r < 32" "r \<notin> temps tg - B" and B: "B \<noteq> temps tg"
    and keep: "addr_size = 64 \<Longrightarrow> Q (greg r) B M"
    and narrow: "\<And>t. addr_size \<noteq> 64 \<Longrightarrow> t \<in> temps tg \<Longrightarrow> (if r \<in> temps tg then t = r else t \<notin> B) \<Longrightarrow>
      Q (greg t) (insert t B) (reg_write (greg t) (take_bit 32 (reg_read M (greg r))) M)"
  shows "em_does tg (adjust_dest tg (greg r) None 0 addr_size) B M Q"
proof (cases "addr_size = 64")
  case True
  then show ?thesis using keep by (simp add: adjust_dest_def does_return)
next
  case False
  have n: "em_does tg (do { la_rrii LISA_BSTRPICK_D (greg t) (greg r) 31 0; em_return (greg t) }) (insert t B) M Q"
    if "t \<in> temps tg" "if r \<in> temps tg then t = r else t \<notin> B" for t
    by (intro does_bind does_narrow does_return narrow[OF False that])
  have "em_does tg (do { ret \<leftarrow> (if r \<notin> temps tg then em_alloc_itemp tg else em_return (greg r));
      la_rrii LISA_BSTRPICK_D ret (greg r) 31 0; em_return ret }) B M Q"
  proof (cases "r \<in> temps tg")
    case True
    then have "insert r B = B" using r(3) by auto
    then show ?thesis using n[of r] True by (simp add: does_bind does_return)
  next
    case False
    then show ?thesis using n by (simp add: does_bind does_alloc[OF B])
  qed
  then show ?thesis using False is_itemp_greg[OF r(1,2), of tg]
    by (simp add: adjust_dest_def Let_def em_opt_def)
qed

section \<open>convert\_mem\<close>

text \<open>Where a value is: in a temporary that was free and is now in use, or in a register that is no
  temporary.\<close>

definition loc :: "target \<Rightarrow> int set \<Rightarrow> int \<Rightarrow> int set \<Rightarrow> bool" where
  "loc tg B r B' \<longleftrightarrow> 0 \<le> r \<and> r < 32 \<and> (r \<in> temps tg - B \<and> B' = insert r B \<or> r \<notin> temps tg \<and> B' = B)"

text \<open>Two temporaries are free.\<close>

definition room :: "target \<Rightarrow> int set \<Rightarrow> bool" where
  "room tg B \<longleftrightarrow> B \<subseteq> temps tg \<and> 2 \<le> card (temps tg - B)"

lemma roomD:
  assumes "room tg B"
  shows "B \<subseteq> temps tg" "B \<noteq> temps tg" "insert t B \<noteq> temps tg"
proof -
  show "B \<subseteq> temps tg" "B \<noteq> temps tg" using assms by (auto simp: room_def)
  show "insert t B \<noteq> temps tg"
  proof
    assume "insert t B = temps tg"
    then have "card (temps tg - B) \<le> card {t}" by (intro card_mono) auto
    then show False using assms by (simp add: room_def)
  qed
qed

lemma loc_room: "room tg B \<Longrightarrow> loc tg B r B' \<Longrightarrow> B' \<subseteq> temps tg \<and> B' \<noteq> temps tg \<and> r \<notin> temps tg - B'"
  using roomD(1,2)[of tg B] roomD(3)[of tg B r] by (auto simp: loc_def)

lemma loc_clob: "loc tg B r B' \<Longrightarrow> clob (temps tg - B') M N \<Longrightarrow> clob (temps tg - B) M N"
  by (erule clob_mono) (auto simp: loc_def)

text \<open>The register and the offset returned: \<open>split_off\<close> tells whether a displacement that fits is
  left to the access itself.\<close>

definition split_off :: "target \<Rightarrow> ir1_opnd \<Rightarrow> bool \<Rightarrow> bool" where
  "split_off tg opnd host_off \<longleftrightarrow>
     host_off \<and> \<not> rip_relative tg opnd \<and> \<not> si12_overflow (to_longx tg (op_mem_disp opnd))"

definition mem_off :: "target \<Rightarrow> ir1_opnd \<Rightarrow> bool \<Rightarrow> int" where
  "mem_off tg opnd host_off = (if split_off tg opnd host_off then sint (to_longx tg (op_mem_disp opnd)) else 0)"

definition mem_disp :: "target \<Rightarrow> ir1_opnd \<Rightarrow> bool \<Rightarrow> u64" where
  "mem_disp tg opnd host_off = (if split_off tg opnd host_off then 0 else to_longx tg (op_mem_disp opnd))"

definition base_index :: "target \<Rightarrow> ir1_opnd \<Rightarrow> la_mach \<Rightarrow> u64" where
  "base_index tg opnd M =
    (if ir1_opnd_has_base opnd then reg_read M (greg (home tg (ir1_opnd_base_reg_num tg opnd))) else 0) +
    (if ir1_opnd_has_index opnd then of_int (op_mem_scale opnd) * reg_read M (greg (home tg (ir1_opnd_index_reg_num tg opnd))) else 0)"

definition mem_sum :: "target \<Rightarrow> (int \<Rightarrow> int) \<Rightarrow> ir1_opnd \<Rightarrow> bool \<Rightarrow> la_mach \<Rightarrow> u64" where
  "mem_sum tg seg_base_off opnd host_off M = base_index tg opnd M + mem_disp tg opnd host_off +
     (if ir1_opnd_has_seg opnd then x86_seg_base tg seg_base_off opnd M else 0)"

definition mem_reg :: "target \<Rightarrow> (int \<Rightarrow> int) \<Rightarrow> ir1_inst \<Rightarrow> ir1_opnd \<Rightarrow> bool \<Rightarrow> la_mach \<Rightarrow> u64" where
  "mem_reg tg seg_base_off pir1 opnd host_off M =
    (if rip_relative tg opnd then op_mem_disp opnd + ir1_addr_next tg pir1
     else if ir1_addr_size pir1 = 64 then mem_sum tg seg_base_off opnd host_off M
     else take_bit 32 (mem_sum tg seg_base_off opnd host_off M))"

definition mem_post ::
    "target \<Rightarrow> (int \<Rightarrow> int) \<Rightarrow> ir1_inst \<Rightarrow> ir1_opnd \<Rightarrow> bool \<Rightarrow> int set \<Rightarrow> la_mach \<Rightarrow> ir2_opnd \<times> int \<Rightarrow> int set \<Rightarrow> la_mach \<Rightarrow> bool" where
  "mem_post tg seg_base_off pir1 opnd host_off B M x B' M' \<longleftrightarrow>
    (\<exists>r. x = (greg r, mem_off tg opnd host_off) \<and> loc tg B r B' \<and> clob (temps tg - B) M M' \<and>
      reg_read M' (greg r) = mem_reg tg seg_base_off pir1 opnd host_off M)"

lemma x86_offset_norm:
  assumes "\<not> rip_relative tg opnd"
  shows "norm tg (x86_offset tg pir1 opnd (guest_gpr tg M)) =
    norm tg ((if ir1_opnd_has_base opnd then reg_read M (greg (home tg (ir1_opnd_base_reg_num tg opnd))) else 0) +
      (if ir1_opnd_has_index opnd then of_int (op_mem_scale opnd) * reg_read M (greg (home tg (ir1_opnd_index_reg_num tg opnd))) else 0) +
      op_mem_disp opnd)"
  using assms unfolding x86_offset_def by (auto simp: guest_gpr_def intro!: norm_cong_add norm_cong_mult)

lemma to_longx_norm: "norm tg (to_longx tg w) = norm tg w"
proof -
  have "take_bit 32 (sext32 (trunc32 w)) = take_bit 32 w"
    by (rule bit_word_eqI) (auto simp: bit_take_bit_iff bit_signed_iff bit_ucast_iff)
  then show ?thesis by (simp add: to_longx_def norm_def TARGET_X86_64_def CODEIS64_def)
qed

lemma does_tail:
  assumes room: "room tg B" and r: "loc tg B r B1" and V: "norm tg (reg_read M (greg r)) = norm tg V" "bitmap = 0 \<Longrightarrow> V = 0"
    and k: "ir1_opnd_has_seg opnd1 \<Longrightarrow> ir1_opnd_get_seg_index opnd1 = Inr k \<and> -2048 \<le> seg_base_off k \<and> seg_base_off k \<le> 2047"
    and T: "T = V + (if ir1_opnd_has_seg opnd1 then x86_seg_base tg seg_base_off opnd1 M else 0)"
    and Q: "\<And>q B' M' w. loc tg B q B' \<Longrightarrow> clob (temps tg - B) M M' \<Longrightarrow> norm tg w = norm tg T \<Longrightarrow>
      reg_read M' (greg q) = (if addr_size = 64 then w else take_bit 32 w) \<Longrightarrow> Q (greg q) B' M'"
  shows "em_does tg (convert_mem_seg tg seg_base_off opnd1 bitmap (greg r)) B1 M
    (\<lambda>x B2 N. em_does tg (adjust_dest tg x None 0 addr_size) B2 N Q)"
proof -
  have adj: "em_does tg (adjust_dest tg (greg q) None 0 addr_size) B2 N Q"
    if q: "loc tg B q B2" and N: "clob (temps tg - B) M N" and w: "norm tg (reg_read N (greg q)) = norm tg T" for q B2 N
  proof (rule does_adjust_dest)
    show "Q (greg q) B2 N" if "addr_size = 64" by (rule Q[OF q N w]) (simp add: that)
    fix t assume t: "addr_size \<noteq> 64" "t \<in> temps tg" "if q \<in> temps tg then t = q else t \<notin> B2"
    have l: "loc tg B t (insert t B2)" "t \<in> temps tg - B" using t(2,3) q temps_range[OF t(2)] by (auto simp: loc_def split: if_splits)
    let ?N = "reg_write (greg t) (take_bit 32 (reg_read N (greg q))) N"
    show "Q (greg t) (insert t B2) ?N"
    proof (rule Q[OF l(1)])
      show "clob (temps tg - B) M ?N" using clob_trans[OF N clob_write[OF l(2)]] temps_range[OF t(2)] by simp
    qed (use w t temps_range[OF t(2)] in \<open>simp_all add: reg_num_greg\<close>)
  qed (use loc_room[OF room q] q in \<open>auto simp: loc_def\<close>)
  note rm = loc_room[OF room r]
  show ?thesis
  proof (rule does_seg[where V = V and k = k])
    fix t M' assume t: "ir1_opnd_has_seg opnd1" "t \<in> temps tg" "t \<notin> B1" "clob (temps tg - B1) M M'"
      "norm tg (reg_read M' (greg t)) = norm tg (V + x86_seg_base tg seg_base_off opnd1 M)"
    have "loc tg B t (insert t (B1 - {r}))" using t r rm temps_range[OF t(2)] by (auto simp: loc_def)
    then show "em_does tg (adjust_dest tg (greg t) None 0 addr_size) (insert t (B1 - {r})) M' Q"
      by (rule adj[OF _ loc_clob[OF r t(4)]]) (use t(1,5) T in simp)
  qed (use rm r V T k adj[OF r clob_refl] in \<open>auto simp: loc_def\<close>)
qed

lemma seg_base_clob:
  assumes "clob (temps tg - B) M N"
  shows "x86_seg_base tg seg_base_off opnd N = x86_seg_base tg seg_base_off opnd M"
proof -
  have e: "reg_read N (env_ir2_opnd tg) = reg_read M (env_ir2_opnd tg)"
    unfolding env_greg by (rule clob_read[OF assms]) (use env_not_temp[of tg] in auto)
  show ?thesis unfolding x86_seg_base_def e clob_mem[OF assms] ..
qed

lemma switch_post_loc:
  assumes "switch_post tg (insert t B) M t V d B1 M1" "t \<in> temps tg" "t \<notin> B"
  obtains r where "d = greg r" "loc tg B r B1" "norm tg (reg_read M1 (greg r)) = norm tg V" "clob (temps tg - B) M M1"
proof -
  obtain r where r: "d = greg r" "0 \<le> r" "r < 32" "norm tg (reg_read M1 (greg r)) = norm tg V"
    "clob (temps tg - insert t B \<union> {t}) M M1" "r = t \<and> B1 = insert t B \<or> r \<notin> temps tg \<and> B1 = insert t B - {t}"
    using assms(1) unfolding switch_post_def by blast
  have "temps tg - insert t B \<union> {t} = temps tg - B" "insert t B - {t} = B" using assms(2,3) by auto
  then show ?thesis using r that[of r] assms(2,3) by (auto simp: loc_def)
qed

lemma does_free_return:
  assumes "em_does tg (k x) B M Q" "t \<in> temps tg" "t \<notin> B"
  shows "em_does tg (do { em_free_temp tg (greg t); em_return x } \<bind> k) (insert t B) M Q"
proof -
  have "(if t \<in> temps tg then insert t B - {t} else insert t B) = B" using assms(2,3) by auto
  then show ?thesis using temp_rules[OF assms(2)] assms(1) by (intro does_bind does_free does_return) simp_all
qed

lemma does_tail_off:
  assumes "em_does tg (convert_mem_seg tg seg_base_off opnd1 bitmap d) B1 M
    (\<lambda>x B2 N. em_does tg (adjust_dest tg x None 0 addr_size) B2 N (\<lambda>y B3 N'. Q (y, off) B3 N'))"
  shows "em_does tg (do {
      d \<leftarrow> convert_mem_seg tg seg_base_off opnd1 bitmap d;
      d \<leftarrow> adjust_dest tg d None 0 addr_size;
      em_return (d, off) }) B1 M Q"
  by (intro does_bind[OF does_conseq[OF assms]] does_bind) (erule does_conseq, rule does_return)

lemma mem_split:
  "mem_disp tg opnd host_off + of_int (mem_off tg opnd host_off) = to_longx tg (op_mem_disp opnd)"
  "-2048 \<le> mem_off tg opnd host_off" "mem_off tg opnd host_off \<le> 2047"
  by (auto simp: mem_disp_def mem_off_def split_off_def si12_overflow_def split: if_splits)

text \<open>Register and offset together are the x86 address; for an address size of 32 bits, modulo
  \<open>2 ^ 32\<close>.\<close>

lemma address_correct:
  fixes host_off :: bool and M :: la_mach
  assumes ok: "mem_opnd_ok tg seg_base_off pir1 opnd"
  defines "v \<equiv> mem_reg tg seg_base_off pir1 opnd host_off M" and "off \<equiv> mem_off tg opnd host_off"
  shows "if ir1_addr_size pir1 = 64 then v + of_int off = guest_address tg seg_base_off pir1 opnd M
    else take_bit 32 (v + of_int off) = guest_address tg seg_base_off pir1 opnd M"
proof (cases "rip_relative tg opnd")
  case True
  then show ?thesis using ok
    by (auto simp: v_def off_def mem_reg_def mem_off_def split_off_def guest_address_def x86_address_def x86_offset_def norm_def mem_opnd_ok_def
        rip_relative_def)
next
  case rip: False
  let ?X = "x86_offset tg pir1 opnd (guest_gpr tg M)" and ?S = "if ir1_opnd_has_seg opnd then x86_seg_base tg seg_base_off opnd M else 0"
  let ?T = "mem_sum tg seg_base_off opnd host_off M"
  have "norm tg (base_index tg opnd M + to_longx tg (op_mem_disp opnd)) = norm tg ?X"
    unfolding x86_offset_norm[OF rip] base_index_def by (intro norm_cong_add refl to_longx_norm)
  then have "norm tg (base_index tg opnd M + (mem_disp tg opnd host_off + of_int off) + ?S) = norm tg (?X + ?S)"
    unfolding off_def mem_split by (rule norm_cong_add) simp
  then have main: "norm tg (?T + of_int off) = norm tg (?X + ?S)" by (simp add: mem_sum_def ac_simps)
  have t: "take_bit 32 (take_bit 32 ?T + of_int off) = take_bit 32 (?T + of_int off)"
    using take_bit_32_add[of "take_bit 32 ?T" "of_int off"] take_bit_32_add[of ?T "of_int off"] by simp
  have u: "take_bit 32 (take_bit 32 ?X + ?S) = take_bit 32 (?X + ?S)"
    using take_bit_32_add[of "take_bit 32 ?X" ?S] take_bit_32_add[of ?X ?S] by simp
  have "ir1_addr_size pir1 = 64 \<and> CODEIS64 tg \<or> ir1_addr_size pir1 = 32 \<and> (CODEIS64 tg \<longrightarrow> \<not> ir1_opnd_has_seg opnd)"
    using ok by (simp add: mem_opnd_ok_def)
  then show ?thesis
    using main t u rip by (auto simp: v_def mem_reg_def guest_address_def x86_address_def norm_def split: if_splits)
qed

section \<open>The translation of a memory operand\<close>

lemma simm_mem: "op_type opnd = dt_X86_OP_MEM \<Longrightarrow> ir1_opnd_simm tg opnd = Inr (to_longx tg (op_mem_disp opnd))"
  by (simp add: ir1_opnd_simm_def ir1_opnd_is_imm_def ir1_opnd_is_mem_def)

lemma does_convert_mem_rip:
  assumes ok: "mem_opnd_ok tg seg_base_off pir1 opnd" and room: "room tg B" and rip: "rip_relative tg opnd"
  shows "em_does tg (convert_mem_helper tg seg_base_off pir1 opnd None 0 host_off) B M
    (mem_post tg seg_base_off pir1 opnd host_off B M)" (is "em_does tg _ B M ?Q")
proof -
  have tg: "CODEIS64 tg" "TARGET_X86_64 tg" "ir1_opnd_base_reg opnd = dt_X86_REG_RIP"
    using rip by (auto simp: rip_relative_def ir1_opnd_base_reg_def CODEIS64_def)
  have simm: "ir1_opnd_simm tg opnd = Inr (op_mem_disp opnd)"
    using simm_mem[of opnd tg] ok tg(2) by (simp add: mem_opnd_ok_def to_longx_def)
  have off: "mem_off tg opnd host_off = 0" using rip by (simp add: mem_off_def split_off_def)
  have "em_does tg (do { d \<leftarrow> em_alloc_itemp tg; li_guest_addr tg d (op_mem_disp opnd + ir1_addr_next tg pir1); em_return (d, 0) }) B M ?Q"
  proof (intro does_bind does_alloc does_li_guest_addr does_return)
    fix t v assume t: "t \<in> temps tg" "t \<notin> B" and v: "norm tg v = norm tg (op_mem_disp opnd + ir1_addr_next tg pir1)"
    note tr = temps_range[OF t(1)]
    have "v = mem_reg tg seg_base_off pir1 opnd host_off M" using v rip tg by (simp add: mem_reg_def norm_def)
    moreover have "loc tg B t (insert t B)" using t tr by (simp add: loc_def)
    ultimately show "?Q (greg t, 0) (insert t B) (reg_write (greg t) v M)"
      unfolding mem_post_def off using t tr by (intro exI[of _ t]) (simp add: clob_write reg_num_greg)
  qed (use roomD[OF room] in \<open>simp_all add: temp_rules\<close>)
  then show ?thesis using tg simm unfolding convert_mem_helper_def by (simp add: em_res_def)
qed

text \<open>From the switch on, the destination \<open>t\<close> being allocated.\<close>

definition mem_bitmap :: "target \<Rightarrow> ir1_opnd \<Rightarrow> bool \<Rightarrow> int" where
  "mem_bitmap tg opnd host_off = (if mem_disp tg opnd host_off \<noteq> 0 then 1 else 0) +
     (if ir1_opnd_has_index opnd then 2 else 0) + (if ir1_opnd_has_base opnd then 4 else 0)"

definition mem_finish :: "target \<Rightarrow> (int \<Rightarrow> int) \<Rightarrow> ir1_inst \<Rightarrow> ir1_opnd \<Rightarrow> bool \<Rightarrow> ir2_opnd \<Rightarrow> (ir2_opnd \<times> int) em" where
  "mem_finish tg seg_base_off pir1 opnd host_off d =
    (if mem_bitmap tg opnd host_off = 0 \<and> \<not> ir1_opnd_has_seg opnd then em_return (d, mem_off tg opnd host_off)
     else do {
       d \<leftarrow> convert_mem_seg tg seg_base_off opnd (mem_bitmap tg opnd host_off) d;
       d \<leftarrow> adjust_dest tg d None 0 (ir1_addr_size pir1);
       em_return (d, mem_off tg opnd host_off)
     })"

lemma mem_bitmap_zero:
  assumes "mem_bitmap tg opnd host_off = 0"
  shows "base_index tg opnd M = 0" "mem_disp tg opnd host_off = 0"
  using assms by (auto simp: mem_bitmap_def base_index_def split: if_splits)

lemma mem_postI:
  assumes "mem_opnd_ok tg seg_base_off pir1 opnd" "\<not> rip_relative tg opnd" "loc tg B q B'" "clob (temps tg - B) M M'"
    and w: "norm tg w = norm tg (mem_sum tg seg_base_off opnd host_off M)"
    and "reg_read M' (greg q) = (if ir1_addr_size pir1 = 64 then w else take_bit 32 w)"
  shows "mem_post tg seg_base_off pir1 opnd host_off B M (greg q, mem_off tg opnd host_off) B' M'"
proof -
  have "ir1_addr_size pir1 = 64 \<longrightarrow> CODEIS64 tg" using assms(1) by (auto simp: mem_opnd_ok_def)
  then have "reg_read M' (greg q) = mem_reg tg seg_base_off pir1 opnd host_off M"
    using assms(2,6) w by (auto simp: mem_reg_def norm_def split: if_splits)
  then show ?thesis using assms(3,4) by (auto simp: mem_post_def)
qed

lemma does_mem_finish:
  assumes ok: "mem_opnd_ok tg seg_base_off pir1 opnd" and rip: "\<not> rip_relative tg opnd" and room: "room tg B"
    and r: "loc tg B r B1" and c: "clob (temps tg - B) M M1"
    and V: "norm tg (reg_read M1 (greg r)) = norm tg (base_index tg opnd M + mem_disp tg opnd host_off)"
    and z: "mem_bitmap tg opnd host_off = 0 \<Longrightarrow> reg_read M1 (greg r) = 0"
  shows "em_does tg (mem_finish tg seg_base_off pir1 opnd host_off (greg r)) B1 M1
    (mem_post tg seg_base_off pir1 opnd host_off B M)"
proof (cases "mem_bitmap tg opnd host_off = 0 \<and> \<not> ir1_opnd_has_seg opnd")
  case True
  have "mem_post tg seg_base_off pir1 opnd host_off B M (greg r, mem_off tg opnd host_off) B1 M1"
    by (rule mem_postI[OF ok rip r c, where w = 0]) (use True z mem_bitmap_zero(1)[of tg opnd host_off M] mem_bitmap_zero(2)[of tg opnd host_off] in \<open>simp_all add: mem_sum_def\<close>)
  then show ?thesis unfolding mem_finish_def if_P[OF True] by (rule does_return)
next
  case False
  obtain k where k: "ir1_opnd_has_seg opnd \<Longrightarrow>
      ir1_opnd_get_seg_index opnd = Inr k \<and> -2048 \<le> seg_base_off k \<and> seg_base_off k \<le> 2047"
    using ok by (cases "ir1_opnd_has_seg opnd") (auto simp: mem_opnd_ok_def)
  have "em_does tg (convert_mem_seg tg seg_base_off opnd (mem_bitmap tg opnd host_off) (greg r)) B1 M1
      (\<lambda>x B2 N. em_does tg (adjust_dest tg x None 0 (ir1_addr_size pir1)) B2 N
        (\<lambda>y B3 N'. mem_post tg seg_base_off pir1 opnd host_off B M (y, mem_off tg opnd host_off) B3 N'))"
  proof (rule does_tail[OF room r V])
    show "mem_sum tg seg_base_off opnd host_off M = base_index tg opnd M + mem_disp tg opnd host_off +
        (if ir1_opnd_has_seg opnd then x86_seg_base tg seg_base_off opnd M1 else 0)"
      by (simp add: mem_sum_def seg_base_clob[OF c])
  qed (use k mem_bitmap_zero(1)[of tg opnd host_off M] mem_bitmap_zero(2)[of tg opnd host_off] mem_postI[OF ok rip _ clob_trans[OF c]] in auto)
  then show ?thesis unfolding mem_finish_def if_not_P[OF False] by (rule does_tail_off)
qed

lemma does_mem_rest:
  assumes ok: "mem_opnd_ok tg seg_base_off pir1 opnd" and rip: "\<not> rip_relative tg opnd" and room: "room tg B"
    and t: "t \<in> temps tg" "t \<notin> B"
    and bop: "ir1_opnd_has_base opnd \<longrightarrow> bop = greg (home tg (ir1_opnd_base_reg_num tg opnd))"
    and iop: "ir1_opnd_has_index opnd \<longrightarrow> iop = greg (home tg (ir1_opnd_index_reg_num tg opnd))"
  shows "em_does tg (do {
      d \<leftarrow> convert_mem_switch tg opnd (mem_bitmap tg opnd host_off) host_off True (greg t) bop iop (mem_disp tg opnd host_off);
      mem_finish tg seg_base_off pir1 opnd host_off d }) (insert t B) M (mem_post tg seg_base_off pir1 opnd host_off B M)"
    (is "em_does tg (?sw \<bind> ?k) _ M ?Q")
proof (cases "mem_bitmap tg opnd host_off = 0")
  case True
  have "em_does tg (?k (greg 0)) B M ?Q"
    by (rule does_mem_finish[OF ok rip room])
      (use mem_bitmap_zero[OF True] in \<open>auto simp: loc_def zero_greg[symmetric] dest: temps_range\<close>)
  moreover have "?sw = do { em_free_temp tg (greg t); em_return (greg 0) }"
    unfolding convert_mem_switch_def True by (simp add: zero_greg)
  ultimately show ?thesis using does_free_return[where k = ?k and x = "greg 0", OF _ t] by (simp only:)
next
  case False
  let ?b = "home tg (ir1_opnd_base_reg_num tg opnd)" and ?i = "home tg (ir1_opnd_index_reg_num tg opnd)"
  have hb: "ir1_opnd_has_base opnd \<Longrightarrow> 0 \<le> ?b \<and> ?b < 32 \<and> ?b \<notin> temps tg"
    using home_range[of tg "ir1_opnd_base_reg_num tg opnd"] ok rip by (simp add: mem_opnd_ok_def)
  have hi: "ir1_opnd_has_index opnd \<Longrightarrow> 0 \<le> ?i \<and> ?i < 32 \<and> ?i \<notin> temps tg \<and> op_mem_scale opnd \<in> {1, 2, 4, 8}"
    using home_range[of tg "ir1_opnd_index_reg_num tg opnd"] ok by (simp add: mem_opnd_ok_def)
  have sw: "em_does tg ?sw (insert t B) M (switch_post tg (insert t B) M t (base_index tg opnd M + mem_disp tg opnd host_off))"
    by (rule does_switch[where b = ?b and i = ?i and hb = "ir1_opnd_has_base opnd" and hi = "ir1_opnd_has_index opnd"])
      (use t temps_range[OF t(1)] roomD(1)[OF room] roomD(3)[OF room, of t] bop iop hb hi in
        \<open>simp_all add: ir1_opnd_scale_def base_index_def mem_bitmap_def\<close>)
  show ?thesis
    by (rule does_bind[OF does_conseq[OF sw]])
      (erule switch_post_loc[OF _ t], use False does_mem_finish[OF ok rip room] in blast)
qed

lemma does_convert_mem:
  assumes ok: "mem_opnd_ok tg seg_base_off pir1 opnd" and room: "room tg B"
  shows "em_does tg (convert_mem_helper tg seg_base_off pir1 opnd None 0 host_off) B M
    (mem_post tg seg_base_off pir1 opnd host_off B M)" (is "em_does tg _ B M ?Q")
proof (cases "rip_relative tg opnd")
  case True
  then show ?thesis by (rule does_convert_mem_rip[OF ok room])
next
  case rip: False
  let ?mb = "if ir1_opnd_has_base opnd then em_gpr tg (ir1_opnd_base_reg_num tg opnd) else em_return ir2_opnd_new_none"
  let ?mi = "if ir1_opnd_has_index opnd then em_gpr tg (ir1_opnd_index_reg_num tg opnd) else em_return ir2_opnd_new_none"
  have base: "em_does tg ?mb B M (\<lambda>x B1 M1.
      (ir1_opnd_has_base opnd \<longrightarrow> x = greg (home tg (ir1_opnd_base_reg_num tg opnd))) \<and> B1 = B \<and> M1 = M)"
    using ok rip by (auto simp: mem_opnd_ok_def intro: does_gpr does_return)
  have index: "em_does tg ?mi B M (\<lambda>x B1 M1.
      (ir1_opnd_has_index opnd \<longrightarrow> x = greg (home tg (ir1_opnd_index_reg_num tg opnd))) \<and> B1 = B \<and> M1 = M)"
    using ok by (auto simp: mem_opnd_ok_def intro: does_gpr does_return)
  have all: "em_does tg (do { bop \<leftarrow> ?mb; iop \<leftarrow> ?mi; t \<leftarrow> em_alloc_itemp tg;
      d \<leftarrow> convert_mem_switch tg opnd (mem_bitmap tg opnd host_off) host_off True t bop iop (mem_disp tg opnd host_off);
      mem_finish tg seg_base_off pir1 opnd host_off d }) B M ?Q"
    by (rule does_bind[OF does_conseq[OF base]], elim conjE, hypsubst,
        rule does_bind[OF does_conseq[OF index]], elim conjE, hypsubst,
        rule does_bind, rule does_alloc[OF roomD(2)[OF room]], rule does_mem_rest[OF ok rip room])
  have norip: "\<not> (TARGET_X86_64 tg \<and> CODEIS64 tg \<and> ir1_opnd_base_reg opnd = dt_X86_REG_RIP)"
    using rip by (auto simp: rip_relative_def ir1_opnd_base_reg_def)
  have simm: "ir1_opnd_simm tg opnd = Inr (to_longx tg (op_mem_disp opnd))"
    using simm_mem[of opnd tg] ok by (simp add: mem_opnd_ok_def)
  have raw: "mem_disp tg opnd host_off = (if host_off \<and> \<not> si12_overflow (to_longx tg (op_mem_disp opnd)) then 0
      else to_longx tg (op_mem_disp opnd))"
    "mem_off tg opnd host_off = (if host_off \<and> \<not> si12_overflow (to_longx tg (op_mem_disp opnd))
      then sint (to_longx tg (op_mem_disp opnd)) else 0)"
    using rip by (simp_all add: mem_disp_def mem_off_def split_off_def)
  show ?thesis
    using all unfolding convert_mem_helper_def Let_def em_res_def simm norip[THEN if_not_P] mem_finish_def mem_bitmap_def raw
    by (simp only: option.case sum.case bind_left_identity if_True)
qed

end
