(* ===== verification/Opnd_Process.thy ===== *)
theory Opnd_Process
  imports Mem_Address
begin

text \<open>
  Operands between x86 and LoongArch: translator/tr-opnd-process.c, lines 21 to 823, in the order
  of that file.  option\_mem\_test is 0, so that gen\_test\_page\_flag emits nothing.  Returning an
  operand that was never assigned is a failure.
\<close>

abbreviation (input) UNKNOWN_EXTENSION :: nat where "UNKNOWN_EXTENSION \<equiv> 96"
abbreviation (input) SIGN_EXTENSION :: nat where "SIGN_EXTENSION \<equiv> 97"
abbreviation (input) ZERO_EXTENSION :: nat where "ZERO_EXTENSION \<equiv> 98"

abbreviation (input) HF_ADDSEG_MASK :: u32 where "HF_ADDSEG_MASK \<equiv> 0x40"
abbreviation (input) HF_CS32_MASK :: u32 where "HF_CS32_MASK \<equiv> 0x10"
abbreviation (input) HF_SS32_MASK :: u32 where "HF_SS32_MASK \<equiv> 0x20"
abbreviation (input) HF_CS64_MASK :: u32 where "HF_CS64_MASK \<equiv> 0x8000"

text \<open>Offsets of the fields of CPUX86State that the generated code accesses; the compiler lays out
  the structure.\<close>

record env_layout =
  seg_base_of :: "int \<Rightarrow> int"
  seg_selector_of :: "int \<Rightarrow> int"
  seg_limit_of :: "int \<Rightarrow> int"
  seg_flags_of :: "int \<Rightarrow> int"
  gdt_base_of :: int
  ldt_base_of :: int
  codemode_of :: int
  hflags_of :: int

definition em_alloc_label :: "ir2_opnd em" where
  "em_alloc_label = State (\<lambda>s. (\<lparr>o2_type = IR2_OPND_LABEL, o2_val = of_int (tc_label s)\<rparr>, s\<lparr>tc_label := tc_label s + 1\<rparr>))"

definition la_label :: "ir2_opnd \<Rightarrow> unit em" where
  "la_label label = emit LISA_LABEL [label]"

section \<open>Reading registers\<close>

definition convert_gpr_opnd :: "target \<Rightarrow> ir1_opnd \<Rightarrow> nat \<Rightarrow> ir2_opnd em" where
  "convert_gpr_opnd tg opnd1 em = do {
     gpr_opnd \<leftarrow> em_gpr tg (ir1_opnd_base_reg_num tg opnd1);
     if ir1_opnd_size opnd1 = 32 then
       if em = SIGN_EXTENSION then do {
         ret_opnd \<leftarrow> em_alloc_itemp tg;
         la_mov32_sx ret_opnd gpr_opnd;
         em_return ret_opnd
       }
       else if em = ZERO_EXTENSION then do {
         ret_opnd \<leftarrow> em_alloc_itemp tg;
         la_mov32_zx ret_opnd gpr_opnd;
         em_return ret_opnd
       }
       else em_return gpr_opnd
     else if ir1_opnd_size opnd1 = 64 then em_return gpr_opnd
     else if ir1_opnd_size opnd1 = 16 then
       if em = SIGN_EXTENSION then do {
         ret_opnd \<leftarrow> em_alloc_itemp tg;
         la_rr LISA_EXT_W_H ret_opnd gpr_opnd;
         em_return ret_opnd
       }
       else if em = ZERO_EXTENSION then do {
         ret_opnd \<leftarrow> em_alloc_itemp tg;
         la_rrii LISA_BSTRPICK_D ret_opnd gpr_opnd 15 0;
         em_return ret_opnd
       }
       else em_return gpr_opnd
     else if ir1_opnd_is_8h opnd1 then do {
       ret_opnd \<leftarrow> em_alloc_itemp tg;
       if em = SIGN_EXTENSION then do {
         la_rri LISA_SRLI_W ret_opnd gpr_opnd 8;
         la_rr LISA_EXT_W_B ret_opnd ret_opnd;
         em_return ret_opnd
       }
       else do {
         la_rrii LISA_BSTRPICK_D ret_opnd gpr_opnd 15 8;
         em_return ret_opnd
       }
     }
     else
       if em = SIGN_EXTENSION then do {
         ret_opnd \<leftarrow> em_alloc_itemp tg;
         la_rr LISA_EXT_W_B ret_opnd gpr_opnd;
         em_return ret_opnd
       }
       else if em = ZERO_EXTENSION then do {
         ret_opnd \<leftarrow> em_alloc_itemp tg;
         la_rri LISA_ANDI ret_opnd gpr_opnd 0xff;
         em_return ret_opnd
       }
       else em_return gpr_opnd
   }"

section \<open>Loading addresses for relocation\<close>

text \<open>Shifts and masks of the C int lo32 are signed; only the low 20 bits reach the instruction.\<close>

definition load_ireg_from_host_addr :: "ir2_opnd \<Rightarrow> u64 \<Rightarrow> unit em" where
  "load_ireg_from_host_addr opnd2 addr =
    (let hi32 = trunc32 (drop_bit 32 addr); lo32 = trunc32 addr in do {
       la_ri LISA_LU12I_W opnd2 (sint (signed_drop_bit 12 lo32));
       la_rri LISA_ORI opnd2 opnd2 (sint (lo32 AND 0xfff));
       la_ri LISA_LU32I_D opnd2 (sint (hi32 AND 0xfffff))
     })"

definition load_ireg_from_guest_addr :: "ir2_opnd \<Rightarrow> u64 \<Rightarrow> unit em" where
  "load_ireg_from_guest_addr opnd2 addr =
    (let hi32 = trunc32 (drop_bit 32 addr); lo32 = trunc32 addr in do {
       la_ri LISA_LU12I_W opnd2 (sint (signed_drop_bit 12 lo32));
       la_rri LISA_ORI opnd2 opnd2 (sint (lo32 AND 0xfff));
       (if hi32 \<noteq> 0 \<or> lo32 AND 0x80000000 \<noteq> 0 then la_ri LISA_LU32I_D opnd2 (sint (hi32 AND 0xfffff)) else em_skip)
     })"

section \<open>Loading operands\<close>

definition load_ireg_from_ir1_imm :: "target \<Rightarrow> ir2_opnd \<Rightarrow> ir1_opnd \<Rightarrow> nat \<Rightarrow> unit em" where
  "load_ireg_from_ir1_imm tg opnd2 opnd1 em =
    (if em = ZERO_EXTENSION then do {
       imm \<leftarrow> em_res 0 (ir1_opnd_uimm tg opnd1);
       li_d opnd2 imm
     } else do {
       imm \<leftarrow> em_res 0 (ir1_opnd_simm tg opnd1);
       li_d opnd2 imm
     })"

text \<open>The load instructions by size and extension, with a register index and with an offset; other
  sizes emit nothing.\<close>

definition ldx_by_size :: "int \<Rightarrow> nat \<Rightarrow> ir2_opnd \<Rightarrow> ir2_opnd \<Rightarrow> ir2_opnd \<Rightarrow> unit em" where
  "ldx_by_size sz em opnd2 base index =
    (if sz = 32 then
       if em = ZERO_EXTENSION then la_rrr LISA_LDX_WU opnd2 base index else la_rrr LISA_LDX_W opnd2 base index
     else if sz = 64 \<or> sz = 128 then la_rrr LISA_LDX_D opnd2 base index
     else if sz = 8 then
       if em = ZERO_EXTENSION then la_rrr LISA_LDX_BU opnd2 base index else la_rrr LISA_LDX_B opnd2 base index
     else if sz = 16 then
       if em = ZERO_EXTENSION then la_rrr LISA_LDX_HU opnd2 base index else la_rrr LISA_LDX_H opnd2 base index
     else em_skip)"

definition ld_by_size :: "int \<Rightarrow> nat \<Rightarrow> bool \<Rightarrow> ir2_opnd \<Rightarrow> ir2_opnd \<Rightarrow> int \<Rightarrow> unit em" where
  "ld_by_size sz em with128 opnd2 mem_opnd mem_imm =
    (if sz = 32 then
       if em = ZERO_EXTENSION then la_rri LISA_LD_WU opnd2 mem_opnd mem_imm else la_rri LISA_LD_W opnd2 mem_opnd mem_imm
     else if sz = 64 \<or> with128 \<and> sz = 128 then la_rri LISA_LD_D opnd2 mem_opnd mem_imm
     else if sz = 8 then
       if em = ZERO_EXTENSION then la_rri LISA_LD_BU opnd2 mem_opnd mem_imm else la_rri LISA_LD_B opnd2 mem_opnd mem_imm
     else if sz = 16 then
       if em = ZERO_EXTENSION then la_rri LISA_LD_HU opnd2 mem_opnd mem_imm else la_rri LISA_LD_H opnd2 mem_opnd mem_imm
     else em_skip)"

text \<open>The test whether an offset is the marker of a register pair, and freeing the address register
  afterwards (no register is an imm\_reg when option\_imm\_reg is 0).\<close>

definition is_pair_imm :: "int \<Rightarrow> bool" where
  "is_pair_imm mem_imm = ((of_int mem_imm :: u32) AND 0xffff0000 = 0xdead0000)"

definition pair_base :: "int \<Rightarrow> ir2_opnd" where
  "pair_base mem_imm = create_ir2_opnd IR2_OPND_GPR (drop_bit 8 ((of_int mem_imm :: u32) AND 0xff00))"

definition pair_index :: "int \<Rightarrow> ir2_opnd" where
  "pair_index mem_imm = create_ir2_opnd IR2_OPND_GPR ((of_int mem_imm :: u32) AND 0xff)"

definition free_mem_opnd :: "target \<Rightarrow> ir2_opnd \<Rightarrow> unit em" where
  "free_mem_opnd tg mem_opnd = do {
     it \<leftarrow> em_opt False (ir2_opnd_is_itemp tg mem_opnd);
     if it then em_free_temp tg mem_opnd else em_skip
   }"

definition load_ireg_from_ir1_mem ::
    "target \<Rightarrow> env_layout \<Rightarrow> ir1_inst \<Rightarrow> ir2_opnd \<Rightarrow> ir1_opnd \<Rightarrow> nat \<Rightarrow> bool \<Rightarrow> unit em" where
  "load_ireg_from_ir1_mem tg lay pir1 opnd2 opnd1 em is_xmm_hi = do {
     (mem_opnd, mem_imm) \<leftarrow> convert_mem tg (seg_base_of lay) pir1 opnd1;
     (mem_opnd, mem_imm) \<leftarrow> (if is_xmm_hi then mem_imm_add_disp tg mem_opnd mem_imm 8 else em_return (mem_opnd, mem_imm));
     (if is_pair_imm mem_imm then ldx_by_size (ir1_opnd_size opnd1) em opnd2 (pair_base mem_imm) (pair_index mem_imm)
      else ld_by_size (ir1_opnd_size opnd1) em True opnd2 mem_opnd mem_imm);
     free_mem_opnd tg mem_opnd
   }"

definition load_ireg_from_ir2_mem_2 :: "target \<Rightarrow> ir2_opnd \<Rightarrow> ir2_opnd \<Rightarrow> int \<Rightarrow> int \<Rightarrow> nat \<Rightarrow> unit em" where
  "load_ireg_from_ir2_mem_2 tg opnd2 mem_opnd mem_imm mem_size em = do {
     (if \<not> TARGET_X86_64 tg \<or> \<not> CODEIS64 tg then la_mov32_zx mem_opnd mem_opnd else em_skip);
     ld_by_size mem_size em False opnd2 mem_opnd mem_imm
   }"

definition load_ireg_from_ir2_mem :: "target \<Rightarrow> ir2_opnd \<Rightarrow> int \<Rightarrow> int \<Rightarrow> nat \<Rightarrow> ir2_opnd em" where
  "load_ireg_from_ir2_mem tg mem_opnd mem_imm mem_size em = do {
     opnd2 \<leftarrow> em_alloc_itemp tg;
     (if \<not> TARGET_X86_64 tg \<or> \<not> CODEIS64 tg then la_mov32_zx mem_opnd mem_opnd else em_skip);
     ld_by_size mem_size em False opnd2 mem_opnd mem_imm;
     em_return opnd2
   }"

definition load_ireg_from_ir1_gpr :: "target \<Rightarrow> ir2_opnd \<Rightarrow> ir1_opnd \<Rightarrow> nat \<Rightarrow> unit em" where
  "load_ireg_from_ir1_gpr tg opnd2 opnd1 em = do {
     gpr_opnd \<leftarrow> em_gpr tg (ir1_opnd_base_reg_num tg opnd1);
     if ir1_opnd_size opnd1 = 32 then
       if em = SIGN_EXTENSION then la_mov32_sx opnd2 gpr_opnd
       else if em = ZERO_EXTENSION then la_mov32_zx opnd2 gpr_opnd
       else la_mov64 opnd2 gpr_opnd
     else if ir1_opnd_size opnd1 = 64 then la_mov64 opnd2 gpr_opnd
     else if ir1_opnd_size opnd1 = 16 then
       if em = SIGN_EXTENSION then la_rr LISA_EXT_W_H opnd2 gpr_opnd
       else la_rrii LISA_BSTRPICK_D opnd2 gpr_opnd 15 0
     else if ir1_opnd_is_8h opnd1 then
       if em = SIGN_EXTENSION then do {
         la_rri LISA_SRLI_W opnd2 gpr_opnd 8;
         la_rr LISA_EXT_W_B opnd2 opnd2
       }
       else la_rrii LISA_BSTRPICK_D opnd2 gpr_opnd 15 8
     else
       if em = SIGN_EXTENSION then la_rr LISA_EXT_W_B opnd2 gpr_opnd
       else la_rri LISA_ANDI opnd2 gpr_opnd 0xff
   }"

definition load_ireg_from_ir1_mmx :: "target \<Rightarrow> ir2_opnd \<Rightarrow> ir1_opnd \<Rightarrow> nat \<Rightarrow> unit em" where
  "load_ireg_from_ir1_mmx tg opnd2 opnd1 em = do {
     mmx_opnd \<leftarrow> em_opt ir2_opnd_new_none (ra_alloc_mmx (ir1_opnd_base_reg_num tg opnd1));
     if em = SIGN_EXTENSION then la_rr LISA_MOVFR2GR_S opnd2 mmx_opnd
     else if em = ZERO_EXTENSION then do {
       la_rr LISA_MOVFR2GR_D opnd2 mmx_opnd;
       la_mov32_zx opnd2 opnd2
     }
     else la_rr LISA_MOVFR2GR_D opnd2 mmx_opnd
   }"

definition load_ireg_from_ir1 :: "target \<Rightarrow> env_layout \<Rightarrow> ir1_inst \<Rightarrow> ir1_opnd \<Rightarrow> nat \<Rightarrow> bool \<Rightarrow> ir2_opnd em" where
  "load_ireg_from_ir1 tg lay pir1 opnd1 em is_xmm_hi =
    (if op_type opnd1 = dt_X86_OP_IMM then do {
       imm \<leftarrow> em_res 0 (ir1_opnd_simm tg opnd1);
       if imm = 0 then em_return zero_ir2_opnd
       else do {
         ret_opnd \<leftarrow> em_alloc_itemp tg;
         load_ireg_from_ir1_imm tg ret_opnd opnd1 em;
         em_return ret_opnd
       }
     }
     else if op_type opnd1 = dt_X86_OP_REG then
       if ir1_opnd_is_gpr tg opnd1 then convert_gpr_opnd tg opnd1 em
       else if ir1_opnd_is_mmx opnd1 then do {
         ret_opnd \<leftarrow> em_alloc_itemp tg;
         load_ireg_from_ir1_mmx tg ret_opnd opnd1 em;
         em_return ret_opnd
       }
       else if ir1_opnd_is_seg opnd1 then do {
         ret_opnd \<leftarrow> em_alloc_itemp tg;
         la_rri LISA_LD_WU ret_opnd (env_ir2_opnd tg) (seg_selector_of lay (ir1_opnd_base_reg_num tg opnd1));
         em_return ret_opnd
       }
       else em_fail ir2_opnd_new_none
     else if op_type opnd1 = dt_X86_OP_MEM then do {
       ret_opnd \<leftarrow> em_alloc_itemp tg;
       load_ireg_from_ir1_mem tg lay pir1 ret_opnd opnd1 em is_xmm_hi;
       em_return ret_opnd
     }
     else em_fail ir2_opnd_new_none)"

definition load_ireg_from_ir1_2 :: "target \<Rightarrow> env_layout \<Rightarrow> ir1_inst \<Rightarrow> ir2_opnd \<Rightarrow> ir1_opnd \<Rightarrow> nat \<Rightarrow> bool \<Rightarrow> unit em" where
  "load_ireg_from_ir1_2 tg lay pir1 opnd2 opnd1 em is_xmm_hi =
    (if op_type opnd1 = dt_X86_OP_IMM then load_ireg_from_ir1_imm tg opnd2 opnd1 em
     else if op_type opnd1 = dt_X86_OP_REG then
       if ir1_opnd_is_gpr tg opnd1 then load_ireg_from_ir1_gpr tg opnd2 opnd1 em
       else if ir1_opnd_is_mmx opnd1 then load_ireg_from_ir1_mmx tg opnd2 opnd1 em
       else if ir1_opnd_is_seg opnd1 then
         la_rri LISA_LD_WU opnd2 (env_ir2_opnd tg) (seg_selector_of lay (ir1_opnd_base_reg_num tg opnd1))
       else em_skip
     else if op_type opnd1 = dt_X86_OP_MEM then load_ireg_from_ir1_mem tg lay pir1 opnd2 opnd1 em is_xmm_hi
     else em_skip)"

definition load_ireg_from_cf_opnd :: "ir2_opnd \<Rightarrow> unit em" where
  "load_ireg_from_cf_opnd opnd2 = la_ri LISA_X86MFFLAG opnd2 0x1"

section \<open>Storing operands\<close>

definition store_ireg_to_ir1_gpr :: "target \<Rightarrow> ir2_opnd \<Rightarrow> ir1_opnd \<Rightarrow> unit em" where
  "store_ireg_to_ir1_gpr tg opnd2 opnd1 = do {
     gpr_opnd \<leftarrow> em_gpr tg (ir1_opnd_base_reg_num tg opnd1);
     if ir1_opnd_size opnd1 = 32 then la_mov32_zx gpr_opnd opnd2
     else if ir1_opnd_size opnd1 = 64 then
       if \<not> ir2_opnd_cmp opnd2 gpr_opnd then la_mov64 gpr_opnd opnd2 else em_skip
     else if ir1_opnd_size opnd1 = 16 then
       if ir2_opnd_base_reg_num opnd2 \<noteq> ir2_opnd_base_reg_num gpr_opnd
       then la_rrii LISA_BSTRINS_D gpr_opnd opnd2 15 0 else em_skip
     else if ir1_opnd_is_8h opnd1 then la_rrii LISA_BSTRINS_D gpr_opnd opnd2 15 8
     else
       if ir2_opnd_base_reg_num opnd2 \<noteq> ir2_opnd_base_reg_num gpr_opnd
       then la_rrii LISA_BSTRINS_D gpr_opnd opnd2 7 0 else em_skip
   }"

definition stx_by_size :: "int \<Rightarrow> ir2_opnd \<Rightarrow> ir2_opnd \<Rightarrow> ir2_opnd \<Rightarrow> unit em" where
  "stx_by_size sz value_opnd base index =
    (if sz = 32 then la_rrr LISA_STX_W value_opnd base index
     else if sz = 64 \<or> sz = 128 then la_rrr LISA_STX_D value_opnd base index
     else if sz = 8 then la_rrr LISA_STX_B value_opnd base index
     else if sz = 16 then la_rrr LISA_STX_H value_opnd base index
     else em_skip)"

definition st_by_size :: "int \<Rightarrow> bool \<Rightarrow> ir2_opnd \<Rightarrow> ir2_opnd \<Rightarrow> int \<Rightarrow> unit em" where
  "st_by_size sz with128 value_opnd mem_opnd mem_imm =
    (if sz = 32 then la_rri LISA_ST_W value_opnd mem_opnd mem_imm
     else if sz = 64 \<or> with128 \<and> sz = 128 then la_rri LISA_ST_D value_opnd mem_opnd mem_imm
     else if sz = 8 then la_rri LISA_ST_B value_opnd mem_opnd mem_imm
     else if sz = 16 then la_rri LISA_ST_H value_opnd mem_opnd mem_imm
     else em_skip)"

definition store_ireg_to_ir1_mem :: "target \<Rightarrow> env_layout \<Rightarrow> ir1_inst \<Rightarrow> ir2_opnd \<Rightarrow> ir1_opnd \<Rightarrow> bool \<Rightarrow> unit em" where
  "store_ireg_to_ir1_mem tg lay pir1 value_opnd opnd1 is_xmm_hi = do {
     (mem_opnd, mem_imm) \<leftarrow> convert_mem tg (seg_base_of lay) pir1 opnd1;
     (mem_opnd, mem_imm) \<leftarrow> (if is_xmm_hi then mem_imm_add_disp tg mem_opnd mem_imm 8 else em_return (mem_opnd, mem_imm));
     (if is_pair_imm mem_imm then stx_by_size (ir1_opnd_size opnd1) value_opnd (pair_base mem_imm) (pair_index mem_imm)
      else st_by_size (ir1_opnd_size opnd1) True value_opnd mem_opnd mem_imm);
     free_mem_opnd tg mem_opnd
   }"

text \<open>Loading a segment register: the selector, the mode flags for cs, and the descriptor cache.\<close>

definition store_seg_cs :: "target \<Rightarrow> env_layout \<Rightarrow> ir2_opnd \<Rightarrow> unit em" where
  "store_seg_cs tg lay seg_value_opnd = (let env = env_ir2_opnd tg in do {
     ir2_tmp \<leftarrow> em_alloc_itemp tg;
     mask_tmp \<leftarrow> em_alloc_itemp tg;
     label_x64 \<leftarrow> em_alloc_label;
     label_csend \<leftarrow> em_alloc_label;
     li_d ir2_tmp 0x23;
     emit LISA_BNE [seg_value_opnd, ir2_tmp, label_x64];
     la_rri LISA_ST_W zero_ir2_opnd env (codemode_of lay);
     li_w mask_tmp (NOT HF_CS64_MASK);
     la_rri LISA_LD_W ir2_tmp env (hflags_of lay);
     la_rrr LISA_AND ir2_tmp ir2_tmp mask_tmp;
     li_w mask_tmp HF_CS32_MASK;
     la_rrr LISA_OR ir2_tmp ir2_tmp mask_tmp;
     la_rri LISA_ST_W ir2_tmp env (hflags_of lay);
     emit LISA_B [label_csend];
     la_label label_x64;
     li_d ir2_tmp 1;
     la_rri LISA_ST_W ir2_tmp env (codemode_of lay);
     li_w mask_tmp (HF_CS32_MASK OR HF_SS32_MASK OR HF_CS64_MASK);
     la_rri LISA_LD_W ir2_tmp env (hflags_of lay);
     la_rrr LISA_OR ir2_tmp ir2_tmp mask_tmp;
     li_w mask_tmp (NOT HF_ADDSEG_MASK);
     la_rrr LISA_AND ir2_tmp ir2_tmp mask_tmp;
     la_rri LISA_ST_W ir2_tmp env (hflags_of lay);
     la_label label_csend;
     em_free_temp tg ir2_tmp;
     em_free_temp tg mask_tmp
   })"

definition store_seg_cache :: "target \<Rightarrow> env_layout \<Rightarrow> ir2_opnd \<Rightarrow> int \<Rightarrow> unit em" where
  "store_seg_cache tg lay seg_value_opnd seg_num = (let env = env_ir2_opnd tg in do {
     label_ldt \<leftarrow> em_alloc_label;
     label_base_end \<leftarrow> em_alloc_label;
     is_ldt \<leftarrow> em_alloc_itemp tg;
     dt_opnd \<leftarrow> em_alloc_itemp tg;
     la_rri LISA_ANDI is_ldt seg_value_opnd 0x4;
     emit LISA_BNE [is_ldt, zero_ir2_opnd, label_ldt];
     em_free_temp tg is_ldt;
     la_rri LISA_LD_D dt_opnd env (gdt_base_of lay);
     emit LISA_B [label_base_end];
     la_label label_ldt;
     la_rri LISA_LD_D dt_opnd env (ldt_base_of lay);
     la_label label_base_end;
     offset_gdt \<leftarrow> em_alloc_itemp tg;
     la_rrii LISA_BSTRPICK_D offset_gdt seg_value_opnd 15 3;
     la_rri LISA_SLLI_W offset_gdt offset_gdt 3;
     la_rrr LISA_ADD_D dt_opnd dt_opnd offset_gdt;
     em_free_temp tg offset_gdt;
     gdt_entry \<leftarrow> em_alloc_itemp tg;
     (if \<not> TARGET_X86_64 tg then la_rrii LISA_BSTRPICK_D dt_opnd dt_opnd 31 0 else em_skip);
     la_rri LISA_LD_D gdt_entry dt_opnd 0;
     em_free_temp tg dt_opnd;
     seg_limit \<leftarrow> em_alloc_itemp tg;
     seg_base \<leftarrow> em_alloc_itemp tg;
     seg_flags \<leftarrow> em_alloc_itemp tg;
     tmp \<leftarrow> em_alloc_itemp tg;
     la_rrii LISA_BSTRPICK_D seg_base gdt_entry 39 16;
     la_rrii LISA_BSTRPICK_D tmp gdt_entry 63 56;
     la_rrii LISA_BSTRINS_D seg_base tmp 31 24;
     li_wu seg_limit (-1);
     la_rrii LISA_BSTRPICK_D seg_flags gdt_entry 55 40;
     la_rri LISA_ORI seg_flags seg_flags 1;
     la_rri LISA_SLLI_W seg_flags seg_flags 8;
     em_free_temp tg tmp;
     em_free_temp tg gdt_entry;
     la_rri LISA_ST_D seg_base env (seg_base_of lay seg_num);
     la_rri LISA_ST_W seg_limit env (seg_limit_of lay seg_num);
     la_rri LISA_ST_W seg_flags env (seg_flags_of lay seg_num);
     em_free_temp tg seg_limit;
     em_free_temp tg seg_base;
     em_free_temp tg seg_flags
   })"

definition store_ireg_to_ir1_seg :: "target \<Rightarrow> env_layout \<Rightarrow> ir2_opnd \<Rightarrow> ir1_opnd \<Rightarrow> unit em" where
  "store_ireg_to_ir1_seg tg lay seg_value_opnd opnd1 = (let seg_num = ir1_opnd_base_reg_num tg opnd1 in do {
     la_rri LISA_ST_W seg_value_opnd (env_ir2_opnd tg) (seg_selector_of lay seg_num);
     (if TARGET_X86_64 tg \<and> seg_num = cs_index then store_seg_cs tg lay seg_value_opnd else em_skip);
     store_seg_cache tg lay seg_value_opnd seg_num
   })"

text \<open>A register of another class is marked in the block for the translation unit; no code.\<close>

definition store_ireg_to_ir1 :: "target \<Rightarrow> env_layout \<Rightarrow> ir1_inst \<Rightarrow> ir2_opnd \<Rightarrow> ir1_opnd \<Rightarrow> bool \<Rightarrow> unit em" where
  "store_ireg_to_ir1 tg lay pir1 opnd2 opnd1 is_xmm_hi =
    (if op_type opnd1 = dt_X86_OP_REG then
       if ir1_opnd_is_gpr tg opnd1 then store_ireg_to_ir1_gpr tg opnd2 opnd1
       else if ir1_opnd_is_mmx opnd1 then do {
         mmx_opnd \<leftarrow> em_opt ir2_opnd_new_none (ra_alloc_mmx (ir1_opnd_base_reg_num tg opnd1));
         la_rr LISA_MOVGR2FR_D mmx_opnd opnd2
       }
       else if ir1_opnd_is_seg opnd1 then store_ireg_to_ir1_seg tg lay opnd2 opnd1
       else em_skip
     else if op_type opnd1 = dt_X86_OP_MEM then store_ireg_to_ir1_mem tg lay pir1 opnd2 opnd1 is_xmm_hi
     else em_skip)"

definition store_ireg_to_ir2_mem :: "target \<Rightarrow> ir2_opnd \<Rightarrow> ir2_opnd \<Rightarrow> int \<Rightarrow> int \<Rightarrow> unit em" where
  "store_ireg_to_ir2_mem tg value_opnd mem_opnd mem_imm mem_size = do {
     (if \<not> TARGET_X86_64 tg \<or> \<not> CODEIS64 tg then la_rrii LISA_BSTRPICK_D mem_opnd mem_opnd 31 0 else em_skip);
     st_by_size mem_size False value_opnd mem_opnd mem_imm
   }"

end
