(* ===== verification/Opnd_Correct.thy ===== *)
theory Opnd_Correct
  imports Opnd_Process
begin

text \<open>
  The code that \<open>Opnd_Process\<close> emits reads and writes x86 operands as the x86 architecture
  defines them.
\<close>

section \<open>x86 registers\<close>

definition x86_read_reg :: "int \<Rightarrow> bool \<Rightarrow> u64 \<Rightarrow> u64" where
  "x86_read_reg sz high w = (if high then take_bit 8 (drop_bit 8 w) else take_bit (nat sz) w)"

definition x86_write_reg :: "int \<Rightarrow> bool \<Rightarrow> u64 \<Rightarrow> u64 \<Rightarrow> u64" where
  "x86_write_reg sz high old v =
    (if sz = 64 then v
     else if sz = 32 then take_bit 32 v
     else if sz = 16 then (old AND NOT (mask 16)) OR take_bit 16 v
     else if high then (old AND NOT (push_bit 8 (mask 8))) OR push_bit 8 (take_bit 8 v)
     else (old AND NOT (mask 8)) OR take_bit 8 v)"

definition size_ok :: "target \<Rightarrow> int \<Rightarrow> bool" where
  "size_ok tg sz \<longleftrightarrow> sz \<in> {8, 16, 32} \<or> sz = 64 \<and> CODEIS64 tg"

definition ext_value :: "nat \<Rightarrow> int \<Rightarrow> u64 \<Rightarrow> u64" where
  "ext_value em sz v = (if em = SIGN_EXTENSION then signed_take_bit (nat sz - 1) v else v)"

lemma bstrins_write:
  "bstrins 15 0 old v = x86_write_reg 16 high old v" "bstrins 15 8 old v = x86_write_reg 8 True old v"
  "bstrins 7 0 old v = x86_write_reg 8 False old v"
  by (simp_all add: bstrins_def x86_write_reg_def)

lemma write_same: "x86_write_reg 16 high w w = w" "x86_write_reg 8 False w w = w"
  by (rule bit_word_eqI, auto simp: x86_write_reg_def bit_or_iff bit_and_iff bit_not_word bit_mask_iff bit_take_bit_iff)+

text \<open>A register operand in a machine state.\<close>

definition reg_operand :: "target \<Rightarrow> ir1_opnd \<Rightarrow> la_mach \<Rightarrow> u64" where
  "reg_operand tg opnd M = x86_read_reg (ir1_opnd_size opnd) (ir1_opnd_is_8h opnd)
     (reg_read M (greg (home tg (ir1_opnd_base_reg_num tg opnd))))"

lemma high_size: "ir1_opnd_is_8h opnd \<Longrightarrow> ir1_opnd_size opnd = 8"
  by (simp add: ir1_opnd_is_8h_def ir1_opnd_size_def)

section \<open>Values in registers\<close>

text \<open>The result is a register with a value that satisfies \<open>P\<close>; only free temporaries changed.\<close>

definition val_post :: "target \<Rightarrow> int set \<Rightarrow> la_mach \<Rightarrow> (u64 \<Rightarrow> bool) \<Rightarrow> ir2_opnd \<Rightarrow> int set \<Rightarrow> la_mach \<Rightarrow> bool" where
  "val_post tg B M P x B' M' \<longleftrightarrow> (\<exists>r. x = greg r \<and> loc tg B r B' \<and> clob (temps tg - B) M M' \<and> P (reg_read M' (greg r)))"

lemma val_post_temp:
  assumes "t \<in> temps tg" "t \<notin> B" "P v" "clob (temps tg - B) M M1"
  shows "val_post tg B M P (greg t) (insert t B) (reg_write (greg t) v M1)"
  using assms temps_range[OF assms(1)] clob_trans[OF assms(4) clob_write[of t "temps tg - B" M1 v]]
  by (auto simp: val_post_def loc_def reg_num_greg intro!: exI[of _ t])

lemma val_post_home:
  assumes "gpr_index tg i" "P (reg_read M (greg (home tg i)))"
  shows "val_post tg B M P (greg (home tg i)) B M"
  using assms(2) home_range[OF assms(1)] by (auto simp: val_post_def loc_def intro!: exI[of _ "home tg i"])

lemma does_home:
  assumes "gpr_index tg i" "P (reg_read M (greg (home tg i)))"
  shows "em_does tg (em_return (greg (home tg i))) B M (val_post tg B M P)"
  by (rule does_return) (rule val_post_home[where P = P, OF assms])

lemma does_last:
  assumes "la_store_bytes opc = None" "la_value opc (greg t # ops) M1 = Some v" "P v"
    and "t \<in> temps tg" "t \<notin> B" "clob (temps tg - B) M M1"
  shows "em_does tg (do { emit opc (greg t # ops); em_return (greg t) }) (insert t B) M1 (val_post tg B M P)"
  by (intro does_bind does_value[OF assms(1,2)] does_return)
    (simp add: val_post_temp[where P = P and v = v, OF assms(4,5,3,6)])

lemma does_into_temp:
  assumes "B \<noteq> temps tg" "la_store_bytes opc = None" "P v"
    and "\<And>t. t \<in> temps tg \<Longrightarrow> t \<notin> B \<Longrightarrow> la_value opc (greg t # ops) M = Some v"
  shows "em_does tg (do { ret \<leftarrow> em_alloc_itemp tg; emit opc (ret # ops); em_return ret }) B M (val_post tg B M P)"
proof (rule does_bind, rule does_alloc[OF assms(1)])
  fix t assume t: "t \<in> temps tg" "t \<notin> B"
  show "em_does tg (do { emit opc (greg t # ops); em_return (greg t) }) (insert t B) M (val_post tg B M P)"
    by (rule does_last[where P = P, OF assms(2) assms(4)[OF t] assms(3) t]) simp
qed

lemma ui_consts [simp]: "ui 5 (create_immh_opnd 0) = 0" "ui 5 (create_immh_opnd 8) = 8" "ui 12 (create_immh_opnd 0xff) = 0xff"
  by (simp_all add: ui_imm)

lemma byte_values:
  "signed_take_bit 7 (sx32 (drop_bit 8 (take_bit 32 w))) = signed_take_bit 7 (take_bit 8 (drop_bit 8 w))"
  "bstrpick 15 8 w = take_bit 8 (drop_bit 8 w)" "w AND 0xff = take_bit 8 w"
  "signed_take_bit 7 w = signed_take_bit 7 (take_bit 8 w)" "signed_take_bit 15 w = signed_take_bit 15 (take_bit 16 w)"
  "sx32 w = signed_take_bit 31 (take_bit 32 w)" for w :: u64
proof -
  have m: "(0xff :: u64) = mask 8" by (simp add: mask_eq_exp_minus_1)
  show "w AND 0xff = take_bit 8 w" unfolding m by (simp add: take_bit_eq_mask)
  show "signed_take_bit 7 (sx32 (drop_bit 8 (take_bit 32 w))) = signed_take_bit 7 (take_bit 8 (drop_bit 8 w))"
    by (rule bit_word_eqI) (auto simp: bit_stb64 bit_sx32 bit_drop_bit_eq bit_take_bit_iff min_def)
qed (auto simp: bstrpick_def sx32_def intro!: bit_word_eqI simp: bit_stb64 bit_take_bit_iff)

text \<open>What holds of the register that represents the operand value \<open>v\<close>.\<close>

definition represents_value :: "nat \<Rightarrow> int \<Rightarrow> u64 \<Rightarrow> u64 \<Rightarrow> bool" where
  "represents_value em sz v w \<longleftrightarrow> take_bit (nat sz) w = v \<and> (em \<in> {SIGN_EXTENSION, ZERO_EXTENSION} \<longrightarrow> w = ext_value em sz v)"

lemma take_signed: "0 < n \<Longrightarrow> n \<le> 64 \<Longrightarrow> take_bit n (signed_take_bit (n - 1) (take_bit n w)) = take_bit n w" for w :: u64
  by (rule bit_word_eqI) (auto simp: bit_take_bit_iff bit_stb64 min_def)

lemma signed_full [simp]: "signed_take_bit 63 w = w" for w :: u64
  by (rule bit_word_eqI) (simp add: bit_stb64 min_def)

text \<open>The low part of a register, extended by one instruction.\<close>

lemma does_low:
  fixes n :: nat
  assumes B: "B \<noteq> temps tg" and i: "gpr_index tg (ir1_opnd_base_reg_num tg opnd)"
    and n: "ir1_opnd_size opnd = int n" "n \<in> {8, 16, 32}" "\<not> ir1_opnd_is_8h opnd"
  defines "h \<equiv> greg (home tg (ir1_opnd_base_reg_num tg opnd))"
  assumes S: "la_store_bytes so = None" "\<And>t. la_value so (t # sops) M = Some (signed_take_bit (n - 1) (take_bit n (reg_read M h)))"
    and Z: "la_store_bytes zo = None" "\<And>t. la_value zo (t # zops) M = Some (take_bit n (reg_read M h))"
  shows "em_does tg
    (if em = SIGN_EXTENSION then do { ret \<leftarrow> em_alloc_itemp tg; emit so (ret # sops); em_return ret }
     else if em = ZERO_EXTENSION then do { ret \<leftarrow> em_alloc_itemp tg; emit zo (ret # zops); em_return ret }
     else em_return h) B M (val_post tg B M (represents_value em (ir1_opnd_size opnd) (reg_operand tg opnd M)))"
proof -
  let ?P = "represents_value em (ir1_opnd_size opnd) (reg_operand tg opnd M)"
  have v: "reg_operand tg opnd M = take_bit n (reg_read M h)" using n by (simp add: reg_operand_def x86_read_reg_def h_def)
  have "?P (signed_take_bit (n - 1) (take_bit n (reg_read M h)))" if "em = SIGN_EXTENSION"
    using that take_signed[of n "reg_read M h"] n unfolding v by (auto simp: represents_value_def ext_value_def)
  moreover have "?P (take_bit n (reg_read M h))" if "em = ZERO_EXTENSION"
    using that n unfolding v by (auto simp: represents_value_def ext_value_def)
  moreover have "?P (reg_read M h)" if "em \<noteq> SIGN_EXTENSION" "em \<noteq> ZERO_EXTENSION"
    using that n unfolding v by (auto simp: represents_value_def)
  ultimately show ?thesis
    using does_into_temp[OF B S(1), of ?P _ sops M] does_into_temp[OF B Z(1), of ?P _ zops M] S(2) Z(2)
      does_home[OF i, of ?P M B] by (auto simp: h_def)
qed

lemma does_high:
  assumes B: "B \<noteq> temps tg" and high: "ir1_opnd_is_8h opnd"
  defines "h \<equiv> greg (home tg (ir1_opnd_base_reg_num tg opnd))"
  shows "em_does tg (do {
      ret \<leftarrow> em_alloc_itemp tg;
      if em = SIGN_EXTENSION then do { la_rri LISA_SRLI_W ret h 8; la_rr LISA_EXT_W_B ret ret; em_return ret }
      else do { la_rrii LISA_BSTRPICK_D ret h 15 8; em_return ret } }) B M
    (val_post tg B M (represents_value em (ir1_opnd_size opnd) (reg_operand tg opnd M)))"
proof (rule does_bind, rule does_alloc[OF B])
  fix t assume t: "t \<in> temps tg" "t \<notin> B"
  note tr = temp_rules[OF t(1)]
  let ?P = "represents_value em (ir1_opnd_size opnd) (reg_operand tg opnd M)" and ?w = "reg_read M h"
  have v: "reg_operand tg opnd M = take_bit 8 (drop_bit 8 ?w)" using high by (simp add: reg_operand_def x86_read_reg_def h_def)
  have P: "?P (signed_take_bit 7 (take_bit 8 (drop_bit 8 ?w)))" if "em = SIGN_EXTENSION"
    using that take_signed[of 8 "drop_bit 8 ?w"] high_size[OF high] unfolding v by (auto simp: represents_value_def ext_value_def)
  have "?P (take_bit 8 (drop_bit 8 ?w))" if "em \<noteq> SIGN_EXTENSION"
    using that high_size[OF high] unfolding v by (auto simp: represents_value_def ext_value_def)
  then have "em_does tg (do { la_rrii LISA_BSTRPICK_D (greg t) h 15 8; em_return (greg t) }) (insert t B) M (val_post tg B M ?P)"
    if "em \<noteq> SIGN_EXTENSION"
    using that t by (intro does_last) (simp_all add: byte_values(2))
  moreover have "em_does tg (do { la_rri LISA_SRLI_W (greg t) h 8; la_rr LISA_EXT_W_B (greg t) (greg t); em_return (greg t) })
      (insert t B) M (val_post tg B M ?P)" if "em = SIGN_EXTENSION"
    by (rule does_bind, rule does_value, simp, simp, rule does_last) (use P[OF that] tr t in \<open>simp_all add: byte_values(1) clob_write\<close>)
  ultimately show "em_does tg (if em = SIGN_EXTENSION then do { la_rri LISA_SRLI_W (greg t) h 8; la_rr LISA_EXT_W_B (greg t) (greg t); em_return (greg t) }
      else do { la_rrii LISA_BSTRPICK_D (greg t) h 15 8; em_return (greg t) }) (insert t B) M (val_post tg B M ?P)" by simp
qed

lemma does_convert_gpr_opnd:
  assumes i: "gpr_index tg (ir1_opnd_base_reg_num tg opnd)" and sz: "size_ok tg (ir1_opnd_size opnd)" and B: "B \<noteq> temps tg"
  shows "em_does tg (convert_gpr_opnd tg opnd em) B M
    (val_post tg B M (represents_value em (ir1_opnd_size opnd) (reg_operand tg opnd M)))"
  unfolding convert_gpr_opnd_def
proof (rule does_bind, rule does_gpr[OF i])
  let ?h = "greg (home tg (ir1_opnd_base_reg_num tg opnd))"
  note low = does_low[OF B i] and nh = high_size[of opnd]
  consider "ir1_opnd_is_8h opnd" | "ir1_opnd_size opnd = 8" "\<not> ir1_opnd_is_8h opnd" | "ir1_opnd_size opnd = 16" "\<not> ir1_opnd_is_8h opnd"
    | "ir1_opnd_size opnd = 32" "\<not> ir1_opnd_is_8h opnd" | "ir1_opnd_size opnd = 64" "\<not> ir1_opnd_is_8h opnd"
    using sz nh by (cases "ir1_opnd_is_8h opnd") (auto simp: size_ok_def)
  then show "em_does tg (if ir1_opnd_size opnd = 32 then
       if em = SIGN_EXTENSION then do { ret_opnd \<leftarrow> em_alloc_itemp tg; la_mov32_sx ret_opnd ?h; em_return ret_opnd }
       else if em = ZERO_EXTENSION then do { ret_opnd \<leftarrow> em_alloc_itemp tg; la_mov32_zx ret_opnd ?h; em_return ret_opnd }
       else em_return ?h
     else if ir1_opnd_size opnd = 64 then em_return ?h
     else if ir1_opnd_size opnd = 16 then
       if em = SIGN_EXTENSION then do { ret_opnd \<leftarrow> em_alloc_itemp tg; la_rr LISA_EXT_W_H ret_opnd ?h; em_return ret_opnd }
       else if em = ZERO_EXTENSION then do { ret_opnd \<leftarrow> em_alloc_itemp tg; la_rrii LISA_BSTRPICK_D ret_opnd ?h 15 0; em_return ret_opnd }
       else em_return ?h
     else if ir1_opnd_is_8h opnd then do {
       ret_opnd \<leftarrow> em_alloc_itemp tg;
       if em = SIGN_EXTENSION then do { la_rri LISA_SRLI_W ret_opnd ?h 8; la_rr LISA_EXT_W_B ret_opnd ret_opnd; em_return ret_opnd }
       else do { la_rrii LISA_BSTRPICK_D ret_opnd ?h 15 8; em_return ret_opnd } }
     else
       if em = SIGN_EXTENSION then do { ret_opnd \<leftarrow> em_alloc_itemp tg; la_rr LISA_EXT_W_B ret_opnd ?h; em_return ret_opnd }
       else if em = ZERO_EXTENSION then do { ret_opnd \<leftarrow> em_alloc_itemp tg; la_rri LISA_ANDI ret_opnd ?h 0xff; em_return ret_opnd }
       else em_return ?h) B M (val_post tg B M (represents_value em (ir1_opnd_size opnd) (reg_operand tg opnd M)))"
      (is "em_does tg ?m B M ?Q")
  proof cases
    case 1
    show ?thesis using does_high[OF B 1, of em M] 1 nh by simp
  next
    case 2
    have "em_does tg (if em = SIGN_EXTENSION then do { ret_opnd \<leftarrow> em_alloc_itemp tg; la_rr LISA_EXT_W_B ret_opnd ?h; em_return ret_opnd }
       else if em = ZERO_EXTENSION then do { ret_opnd \<leftarrow> em_alloc_itemp tg; la_rri LISA_ANDI ret_opnd ?h 0xff; em_return ret_opnd }
       else em_return ?h) B M ?Q"
      by (rule low[of 8]) (use 2 in \<open>simp_all add: byte_values(3) byte_values(4)[symmetric]\<close>)
    then show ?thesis using 2 by (simp del: if_split)
  next
    case 3
    have "em_does tg (if em = SIGN_EXTENSION then do { ret_opnd \<leftarrow> em_alloc_itemp tg; la_rr LISA_EXT_W_H ret_opnd ?h; em_return ret_opnd }
       else if em = ZERO_EXTENSION then do { ret_opnd \<leftarrow> em_alloc_itemp tg; la_rrii LISA_BSTRPICK_D ret_opnd ?h 15 0; em_return ret_opnd }
       else em_return ?h) B M ?Q"
      by (rule low[of 16]) (use 3 in \<open>simp_all add: bstrpick_low byte_values(5)[symmetric]\<close>)
    then show ?thesis using 3 by (simp del: if_split)
  next
    case 4
    have "em_does tg (if em = SIGN_EXTENSION then do { ret_opnd \<leftarrow> em_alloc_itemp tg; la_mov32_sx ret_opnd ?h; em_return ret_opnd }
       else if em = ZERO_EXTENSION then do { ret_opnd \<leftarrow> em_alloc_itemp tg; la_mov32_zx ret_opnd ?h; em_return ret_opnd }
       else em_return ?h) B M ?Q" unfolding la_mov32_sx_def la_mov32_zx_def
      by (rule low[of 32]) (use 4 in \<open>simp_all add: bstrpick_low byte_values(6)[symmetric]\<close>)
    then show ?thesis using 4 by (simp del: if_split)
  next
    case 5
    then show ?thesis using does_home[OF i, of _ M B]
      by (simp add: represents_value_def reg_operand_def x86_read_reg_def ext_value_def)
  qed
qed

end
