(* ===== verification/Opnd_Memory.thy ===== *)
theory Opnd_Memory
  imports Opnd_Correct
begin

text \<open>
  Loads from and stores to memory operands, and writes of register operands, by the code that
  \<open>Opnd_Process\<close> emits.
\<close>

section \<open>Bytes in memory\<close>

lemma ucast_byte_take: "ucast (v :: u64) = (ucast (take_bit 8 v) :: u8)"
  by (rule bit_word_eqI) (simp add: bit_ucast_iff bit_take_bit_iff)

lemma bit_load_le: "bit (load_le n mem a) i \<longleftrightarrow> i < 64 \<and> i < 8 * n \<and> bit (mem (a + of_nat (i div 8))) (i mod 8)"
proof (induction n arbitrary: a i)
  case (Suc n)
  show ?case
  proof (cases "i < 8")
    case True
    then show ?thesis by (simp add: bit_or_iff bit_ucast_iff bit_push_bit_iff)
  next
    case False
    then have d: "i div 8 = Suc ((i - 8) div 8)" "i mod 8 = (i - 8) mod 8" by (simp_all add: le_div_geq le_mod_geq)
    have "\<not> bit (mem a) i" using False by (auto dest: bit_imp_le_length)
    then show ?thesis using False Suc.IH[of "a + 1" "i - 8"] unfolding d
      by (auto simp: bit_or_iff bit_ucast_iff bit_push_bit_iff ac_simps)
  qed
qed simp

lemma take_load_le: "8 * n \<le> k \<Longrightarrow> take_bit k (load_le n mem a) = load_le n mem a"
  by (rule bit_word_eqI) (auto simp: bit_take_bit_iff bit_load_le)

section \<open>Loads and stores by size\<close>

text \<open>The value that a load leaves in its register.\<close>

definition loaded :: "nat \<Rightarrow> int \<Rightarrow> u64 \<Rightarrow> u64" where
  "loaded em sz v = (if em = ZERO_EXTENSION then v else signed_take_bit (nat sz - 1) v)"

lemma loaded_represents:
  assumes "sz \<in> {8, 16, 32, 64}" "take_bit (nat sz) v = v"
  shows "represents_value em sz v (loaded em sz v)"
  using assms take_signed[of "nat sz" v] by (auto simp: represents_value_def loaded_def ext_value_def)

lemma does_ld_by_size:
  assumes sz: "sz \<in> {8, 16, 32, 64}" and k: "-2048 \<le> k" "k \<le> 2047"
    and Q: "Q () B (reg_write d (loaded em sz (load_le (nat sz div 8) (m_mem M) (reg_read M r + of_int k))) M)"
  shows "em_does tg (ld_by_size sz em w128 d r k) B M Q"
proof -
  have "em_does tg (ld_by_size sz em w128 d r k) B M Q" if "em = ZERO_EXTENSION"
    using sz Q k that unfolding ld_by_size_def
    by (auto simp: si12_imm la_load_def la_address_def loaded_def intro!: does_value[where Q = Q])
  moreover have "em_does tg (ld_by_size sz em w128 d r k) B M Q" if "em \<noteq> ZERO_EXTENSION"
    using sz Q k that unfolding ld_by_size_def
    by (auto simp: si12_imm la_load_def la_address_def loaded_def intro!: does_value[where Q = Q])
  ultimately show ?thesis by blast
qed

lemma does_store:
  assumes "la_store_bytes opc = Some n" "Q () B (M\<lparr>m_mem := store_le n (reg_read M rd) (la_address opc M rj b) (m_mem M)\<rparr>)"
  shows "em_does tg (emit opc [rd, rj, b]) B M Q"
  by (rule does_emit) (use assms in \<open>simp_all add: la_exec_def\<close>)

lemma does_st_by_size:
  assumes sz: "sz \<in> {8, 16, 32, 64}" and k: "-2048 \<le> k" "k \<le> 2047"
    and Q: "Q () B (M\<lparr>m_mem := store_le (nat sz div 8) (reg_read M d) (reg_read M r + of_int k) (m_mem M)\<rparr>)"
  shows "em_does tg (st_by_size sz w128 d r k) B M Q"
  using sz Q k unfolding st_by_size_def
  by (auto simp: si12_imm la_store_bytes_def la_address_def intro!: does_store[where Q = Q])

text \<open>An offset of 12 bits is no marker of a register pair: its bits 31 and 29 are equal.\<close>

lemma no_pair_imm:
  assumes "-2048 \<le> k" "k \<le> 2047"
  shows "\<not> is_pair_imm k"
proof
  assume p: "is_pair_imm k"
  have k: "signed_take_bit 11 k = k" using assms by (simp add: signed_take_bit_int_eq_self)
  have b: "bit k i = bit k 11" if "11 \<le> i" for i
    using bit_signed_take_bit_iff[of 11 k i] that unfolding k by (simp add: min_def)
  have "bit ((of_int k :: u32) AND 0xffff0000) i = bit (0xdead0000 :: u32) i" for i
    using p by (simp add: is_pair_imm_def)
  from this[of 31] this[of 29] show False
    by (simp add: bit_and_iff bit_word_of_int_iff b[of 31] b[of 29])
qed

lemma does_free_mem:
  assumes "loc tg B r B1" "Q () B M"
  shows "em_does tg (free_mem_opnd tg (greg r)) B1 M Q"
proof -
  have r: "0 \<le> r" "r < 32" using assms(1) by (auto simp: loc_def)
  have "em_does tg (if x then em_free_temp tg (greg r) else em_skip) B1 M Q" if "x = (r \<in> temps tg)" for x
    using assms r that by (auto simp: loc_def intro!: does_free does_return)
  then show ?thesis unfolding free_mem_opnd_def
    by (intro does_bind does_opt[OF is_itemp_greg[OF r]]) simp
qed

section \<open>Memory operands\<close>

text \<open>The address the host accesses, and when it is the address of the operand.\<close>

definition host_address :: "target \<Rightarrow> (int \<Rightarrow> int) \<Rightarrow> ir1_inst \<Rightarrow> ir1_opnd \<Rightarrow> la_mach \<Rightarrow> u64" where
  "host_address tg seg_base_off pir1 opnd M = mem_reg tg seg_base_off pir1 opnd True M + of_int (mem_off tg opnd True)"

definition mem_exact :: "target \<Rightarrow> (int \<Rightarrow> int) \<Rightarrow> ir1_inst \<Rightarrow> ir1_opnd \<Rightarrow> la_mach \<Rightarrow> bool" where
  "mem_exact tg seg_base_off pir1 opnd M \<longleftrightarrow>
     host_address tg seg_base_off pir1 opnd M = guest_address tg seg_base_off pir1 opnd M"

lemma mem_exact_iff:
  assumes "mem_opnd_ok tg seg_base_off pir1 opnd"
  shows "mem_exact tg seg_base_off pir1 opnd M \<longleftrightarrow>
    ir1_addr_size pir1 = 64 \<or> take_bit 32 (host_address tg seg_base_off pir1 opnd M) = host_address tg seg_base_off pir1 opnd M"
  using address_correct[OF assms, where host_off = True and M = M] unfolding mem_exact_def host_address_def
  by (auto split: if_splits)

definition mem_operand :: "target \<Rightarrow> (int \<Rightarrow> int) \<Rightarrow> ir1_inst \<Rightarrow> ir1_opnd \<Rightarrow> la_mach \<Rightarrow> u64" where
  "mem_operand tg seg_base_off pir1 opnd M =
     load_le (nat (ir1_opnd_size opnd) div 8) (m_mem M) (guest_address tg seg_base_off pir1 opnd M)"

definition opnd_bytes :: "int \<Rightarrow> bool" where "opnd_bytes sz \<longleftrightarrow> sz \<in> {8, 16, 32, 64}"

lemma take_mem_operand: "take_bit (nat (ir1_opnd_size opnd)) (mem_operand tg seg_base_off pir1 opnd M) = mem_operand tg seg_base_off pir1 opnd M"
  unfolding mem_operand_def by (rule take_load_le) simp

lemma does_access:
  assumes ok: "mem_opnd_ok tg (seg_base_of lay) pir1 opnd" and room: "room tg B" and ex: "mem_exact tg (seg_base_of lay) pir1 opnd M"
    and access: "\<And>r k B1 M1. loc tg B r B1 \<Longrightarrow> clob (temps tg - B) M M1 \<Longrightarrow> -2048 \<le> k \<Longrightarrow> k \<le> 2047 \<Longrightarrow>
      reg_read M1 (greg r) + of_int k = guest_address tg (seg_base_of lay) pir1 opnd M \<Longrightarrow>
      em_does tg (at (greg r) k) B1 M1 (\<lambda>_ B2 M2. B2 = B1 \<and> Q () B M2)"
  shows "em_does tg (do {
      (mem_opnd, mem_imm) \<leftarrow> convert_mem tg (seg_base_of lay) pir1 opnd;
      (mem_opnd, mem_imm) \<leftarrow> em_return (mem_opnd, mem_imm);
      (if is_pair_imm mem_imm then pair mem_imm else at mem_opnd mem_imm);
      free_mem_opnd tg mem_opnd }) B M Q"
proof -
  let ?k = "mem_off tg opnd True"
  note k = mem_split(2,3)[of tg opnd True]
  have "em_does tg (do { (if is_pair_imm ?k then pair ?k else at (greg r) ?k); free_mem_opnd tg (greg r) }) B1 M1 Q"
    if r: "loc tg B r B1" and M1: "clob (temps tg - B) M M1"
      "reg_read M1 (greg r) = mem_reg tg (seg_base_of lay) pir1 opnd True M" for r B1 M1
  proof -
    have "em_does tg (at (greg r) ?k) B1 M1 (\<lambda>_ B2 M2. B2 = B1 \<and> Q () B M2)"
      by (rule access[OF r M1(1) k]) (use M1(2) ex in \<open>simp add: mem_exact_def host_address_def\<close>)
    then show ?thesis unfolding if_not_P[OF no_pair_imm[OF k]]
      by (intro does_bind) (erule does_conseq, use does_free_mem[OF r, of Q] in blast)
  qed
  then show ?thesis unfolding convert_mem_def
    by (intro does_bind[OF does_conseq[OF does_convert_mem[OF ok room]]]) (auto simp: mem_post_def)
qed

lemma does_load_mem:
  assumes ok: "mem_opnd_ok tg (seg_base_of lay) pir1 opnd" and room: "room tg B" and ex: "mem_exact tg (seg_base_of lay) pir1 opnd M"
    and sz: "opnd_bytes (ir1_opnd_size opnd)"
    and Q: "\<And>M'. clob (temps tg - B) M M' \<Longrightarrow>
      Q () B (reg_write d (loaded em (ir1_opnd_size opnd) (mem_operand tg (seg_base_of lay) pir1 opnd M)) M')"
  shows "em_does tg (load_ireg_from_ir1_mem tg lay pir1 d opnd em False) B M Q"
  unfolding load_ireg_from_ir1_mem_def if_False
proof (rule does_access[OF ok room ex])
  fix r k B1 M1 assume a: "clob (temps tg - B) M M1" "-2048 \<le> k" "k \<le> 2047"
    "reg_read M1 (greg r) + of_int k = guest_address tg (seg_base_of lay) pir1 opnd M"
  show "em_does tg (ld_by_size (ir1_opnd_size opnd) em True d (greg r) k) B1 M1 (\<lambda>_ B2 M2. B2 = B1 \<and> Q () B M2)"
    by (rule does_ld_by_size[OF _ a(2,3)]) (use sz Q[OF a(1)] a(4) clob_mem[OF a(1)] in \<open>simp_all add: opnd_bytes_def mem_operand_def\<close>)
qed

lemma does_store_mem:
  assumes ok: "mem_opnd_ok tg (seg_base_of lay) pir1 opnd" and room: "room tg B" and ex: "mem_exact tg (seg_base_of lay) pir1 opnd M"
    and sz: "opnd_bytes (ir1_opnd_size opnd)" and r: "0 \<le> r" "r < 32" "r \<notin> temps tg - B"
    and Q: "\<And>M'. clob (temps tg - B) (M\<lparr>m_mem := store_le (nat (ir1_opnd_size opnd) div 8) (reg_read M (greg r))
      (guest_address tg (seg_base_of lay) pir1 opnd M) (m_mem M)\<rparr>) M' \<Longrightarrow> Q () B M'"
  shows "em_does tg (store_ireg_to_ir1_mem tg lay pir1 (greg r) opnd False) B M Q"
  unfolding store_ireg_to_ir1_mem_def if_False
proof (rule does_access[OF ok room ex])
  fix q k B1 M1 assume a: "clob (temps tg - B) M M1" "-2048 \<le> k" "k \<le> 2047"
    "reg_read M1 (greg q) + of_int k = guest_address tg (seg_base_of lay) pir1 opnd M"
  let ?mem = "store_le (nat (ir1_opnd_size opnd) div 8) (reg_read M (greg r)) (guest_address tg (seg_base_of lay) pir1 opnd M) (m_mem M)"
  have "reg_read M1 (greg r) = reg_read M (greg r)" by (rule clob_read[OF a(1) r(3,1,2)])
  moreover have "Q () B (M1\<lparr>m_mem := ?mem\<rparr>)" by (rule Q) (use a(1) in \<open>simp add: clob_def\<close>)
  ultimately show "em_does tg (st_by_size (ir1_opnd_size opnd) True (greg r) (greg q) k) B1 M1 (\<lambda>_ B2 M2. B2 = B1 \<and> Q () B M2)"
    by (intro does_st_by_size[OF _ a(2,3)]) (use sz a(4) clob_mem[OF a(1)] in \<open>simp_all add: opnd_bytes_def\<close>)
qed

section \<open>Register operands\<close>

lemma reg_write_idem: "reg_write opnd (reg_read M opnd) M = M"
  by (simp add: reg_write_def reg_read_def)

lemma does_mov64:
  assumes "Q () B (reg_write d (reg_read M r) M)"
  shows "em_does tg (la_mov64 d r) B M Q"
proof (cases "d = r")
  case True
  then show ?thesis using assms by (simp add: la_mov64_def ir2_opnd_cmp_eq reg_write_idem does_return)
next
  case False
  then show ?thesis using assms by (auto simp: la_mov64_def ir2_opnd_cmp_eq intro!: does_value[where Q = Q])
qed

lemma does_mov32_zx:
  assumes "Q () B (reg_write d (take_bit 32 (reg_read M r)) M)"
  shows "em_does tg (la_mov32_zx d r) B M Q"
  unfolding la_mov32_zx_def by (rule does_value) (use assms in \<open>simp_all add: bstrpick_low\<close>)

lemma ui6_consts: "unat (ui 6 (create_immh_opnd 15)) = 15" "unat (ui 6 (create_immh_opnd 8)) = 8"
  by (simp_all add: ui_imm)

lemma does_bstrins:
  assumes "Q () B (reg_write d (x86_write_reg 16 high (reg_read M d) (reg_read M r)) M)"
  shows "em_does tg (la_rrii LISA_BSTRINS_D d r 15 0) B M Q"
  by (rule does_value) (use assms in \<open>simp_all add: ui6_consts bstrins_write(1)[of _ _ high]\<close>)

lemma does_bstrins_8:
  assumes "Q () B (reg_write d (x86_write_reg 8 high (reg_read M d) (reg_read M r)) M)"
  shows "em_does tg (la_rrii LISA_BSTRINS_D d r (if high then 15 else 7) (if high then 8 else 0)) B M Q"
  by (rule does_value) (use assms in \<open>simp_all add: ui6_consts bstrins_write(2,3)\<close>)

text \<open>A register write is a write to the register that holds the operand.\<close>

lemma does_store_gpr:
  fixes tg :: target and opnd :: ir1_opnd
  defines "h \<equiv> greg (home tg (ir1_opnd_base_reg_num tg opnd))"
  assumes i: "gpr_index tg (ir1_opnd_base_reg_num tg opnd)" and sz: "opnd_bytes (ir1_opnd_size opnd)"
    and r: "0 \<le> r" "r < 32"
    and Q: "Q () B (reg_write h (x86_write_reg (ir1_opnd_size opnd) (ir1_opnd_is_8h opnd) (reg_read M h) (reg_read M (greg r))) M)"
  shows "em_does tg (store_ireg_to_ir1_gpr tg (greg r) opnd) B M Q"
  unfolding store_ireg_to_ir1_gpr_def
proof (rule does_bind, rule does_gpr[OF i], fold h_def)
  have h: "0 \<le> home tg (ir1_opnd_base_reg_num tg opnd)" "home tg (ir1_opnd_base_reg_num tg opnd) < 32"
    using home_range[OF i] by auto
  have same: "ir2_opnd_base_reg_num (greg r) = ir2_opnd_base_reg_num h \<longleftrightarrow> greg r = h"
    unfolding h_def greg_val[OF r] greg_val[OF h] greg_eq[OF r h] ..
  let ?skip = "\<lambda>m. if greg r \<noteq> h then la_rrii LISA_BSTRINS_D h (greg r) m 0 else em_skip"
  have c16: "em_does tg (?skip 15) B M Q" if "ir1_opnd_size opnd = 16"
    using Q that does_bstrins[where Q = Q] by (auto simp: write_same reg_write_idem intro: does_return)
  have c8: "em_does tg (?skip 7) B M Q" if "ir1_opnd_size opnd = 8" "\<not> ir1_opnd_is_8h opnd"
    using Q that does_bstrins_8[where Q = Q and high = False] by (auto simp: write_same reg_write_idem intro: does_return)
  have hi: "em_does tg (la_rrii LISA_BSTRINS_D h (greg r) 15 8) B M Q" if "ir1_opnd_is_8h opnd"
    using Q that high_size[OF that] does_bstrins_8[where Q = Q and high = True] by auto
  have c64: "em_does tg (if \<not> ir2_opnd_cmp (greg r) h then la_mov64 h (greg r) else em_skip) B M Q" if "ir1_opnd_size opnd = 64"
    using Q that does_mov64[where Q = Q] by (auto simp: ir2_opnd_cmp_eq x86_write_reg_def reg_write_idem intro: does_return)
  have c32: "em_does tg (la_mov32_zx h (greg r)) B M Q" if "ir1_opnd_size opnd = 32"
    using Q that by (auto simp: x86_write_reg_def intro: does_mov32_zx)
  show "em_does tg (if ir1_opnd_size opnd = 32 then la_mov32_zx h (greg r)
     else if ir1_opnd_size opnd = 64 then if \<not> ir2_opnd_cmp (greg r) h then la_mov64 h (greg r) else em_skip
     else if ir1_opnd_size opnd = 16 then
       if ir2_opnd_base_reg_num (greg r) \<noteq> ir2_opnd_base_reg_num h then la_rrii LISA_BSTRINS_D h (greg r) 15 0 else em_skip
     else if ir1_opnd_is_8h opnd then la_rrii LISA_BSTRINS_D h (greg r) 15 8
     else if ir2_opnd_base_reg_num (greg r) \<noteq> ir2_opnd_base_reg_num h then la_rrii LISA_BSTRINS_D h (greg r) 7 0 else em_skip) B M Q"
    unfolding same using c16 c8 hi c64 c32 sz by (auto simp: opnd_bytes_def simp del: split_paired_All)
qed

end
