(* ===== verification/X86_Step.thy ===== *)
theory X86_Step
  imports Opnd_Memory
begin

text \<open>
  The x86 state behind a host state, and reading and writing x86 operands: the code that
  load\_ireg\_from\_ir1 and store\_ireg\_to\_ir1 emit does on the host what an operand access does
  on the x86 state.
\<close>

section \<open>x86 operands\<close>

record x86_state =
  x_gpr :: "int \<Rightarrow> u64"
  x_mem :: memory

text \<open>Bases of segments are those of the state before the instruction.\<close>

definition x86_get :: "target \<Rightarrow> ir1_inst \<Rightarrow> (ir1_opnd \<Rightarrow> u64) \<Rightarrow> ir1_opnd \<Rightarrow> x86_state \<Rightarrow> u64" where
  "x86_get tg pir1 seg opnd S =
    (if op_type opnd = dt_X86_OP_IMM then take_bit (nat (ir1_opnd_size opnd)) (op_imm opnd)
     else if op_type opnd = dt_X86_OP_MEM then
       load_le (nat (ir1_opnd_size opnd) div 8) (x_mem S) (x86_address tg pir1 opnd (x_gpr S) (seg opnd))
     else x86_read_reg (ir1_opnd_size opnd) (ir1_opnd_is_8h opnd) (x_gpr S (ir1_opnd_base_reg_num tg opnd)))"

definition x86_set_gpr :: "target \<Rightarrow> ir1_opnd \<Rightarrow> u64 \<Rightarrow> x86_state \<Rightarrow> x86_state" where
  "x86_set_gpr tg opnd v S = (let i = ir1_opnd_base_reg_num tg opnd in
     S\<lparr>x_gpr := (x_gpr S)(i := norm tg (x86_write_reg (ir1_opnd_size opnd) (ir1_opnd_is_8h opnd) (x_gpr S i) v))\<rparr>)"

definition x86_set :: "target \<Rightarrow> ir1_inst \<Rightarrow> (ir1_opnd \<Rightarrow> u64) \<Rightarrow> ir1_opnd \<Rightarrow> u64 \<Rightarrow> x86_state \<Rightarrow> x86_state" where
  "x86_set tg pir1 seg opnd v S =
    (if op_type opnd = dt_X86_OP_MEM then
       S\<lparr>x_mem := store_le (nat (ir1_opnd_size opnd) div 8) v (x86_address tg pir1 opnd (x_gpr S) (seg opnd)) (x_mem S)\<rparr>
     else x86_set_gpr tg opnd v S)"

text \<open>The x86 state that a host state represents, and what translated code leaves alone: every
  register that is neither a temporary nor the home of a guest register.\<close>

definition x86_of :: "target \<Rightarrow> la_mach \<Rightarrow> x86_state" where
  "x86_of tg M = \<lparr>x_gpr = (\<lambda>i. if gpr_index tg i then guest_gpr tg M i else 0), x_mem = m_mem M\<rparr>"

definition homes :: "target \<Rightarrow> int set" where "homes tg = home tg ` {i. gpr_index tg i}"

definition reaches :: "target \<Rightarrow> la_mach \<Rightarrow> x86_state \<Rightarrow> la_mach \<Rightarrow> bool" where
  "reaches tg M S M' \<longleftrightarrow> x86_of tg M' = S \<and> (\<forall>r. int r \<notin> temps tg \<union> homes tg \<longrightarrow> m_reg M' r = m_reg M r)"

definition seg_bases :: "target \<Rightarrow> env_layout \<Rightarrow> la_mach \<Rightarrow> ir1_opnd \<Rightarrow> u64" where
  "seg_bases tg lay M opnd = x86_seg_base tg (seg_base_of lay) opnd M"

section \<open>The operands in question\<close>

definition gpr_opnd_ok :: "target \<Rightarrow> ir1_opnd \<Rightarrow> bool" where
  "gpr_opnd_ok tg opnd \<longleftrightarrow> ir1_opnd_is_gpr tg opnd \<and> gpr_index tg (ir1_opnd_base_reg_num tg opnd) \<and>
     size_ok tg (ir1_opnd_size opnd) \<and> (ir1_opnd_size opnd = 8 \<longrightarrow> ir1_opnd_is_8l tg opnd \<noteq> ir1_opnd_is_8h opnd) \<and>
     (ir1_opnd_size opnd = 16 \<longrightarrow> ir1_opnd_is_16bit tg opnd)"

definition memory_ok :: "target \<Rightarrow> env_layout \<Rightarrow> ir1_inst \<Rightarrow> ir1_opnd \<Rightarrow> la_mach \<Rightarrow> bool" where
  "memory_ok tg lay pir1 opnd M \<longleftrightarrow> mem_opnd_ok tg (seg_base_of lay) pir1 opnd \<and> size_ok tg (ir1_opnd_size opnd) \<and>
     mem_exact tg (seg_base_of lay) pir1 opnd M"

definition imm_ok :: "target \<Rightarrow> ir1_opnd \<Rightarrow> bool" where
  "imm_ok tg opnd \<longleftrightarrow> op_type opnd = dt_X86_OP_IMM \<and> size_ok tg (ir1_opnd_size opnd)"

definition dst_ok :: "target \<Rightarrow> env_layout \<Rightarrow> ir1_inst \<Rightarrow> ir1_opnd \<Rightarrow> la_mach \<Rightarrow> bool" where
  "dst_ok tg lay pir1 opnd M \<longleftrightarrow> gpr_opnd_ok tg opnd \<or> memory_ok tg lay pir1 opnd M"

definition src_ok :: "target \<Rightarrow> env_layout \<Rightarrow> ir1_inst \<Rightarrow> ir1_opnd \<Rightarrow> la_mach \<Rightarrow> bool" where
  "src_ok tg lay pir1 opnd M \<longleftrightarrow> dst_ok tg lay pir1 opnd M \<or> imm_ok tg opnd"

lemma size_okD: "size_ok tg sz \<Longrightarrow> opnd_bytes sz" "size_ok tg sz \<Longrightarrow> CODEIS64 tg \<or> sz \<le> 32"
  by (auto simp: size_ok_def opnd_bytes_def)

lemma is_16bit_size: "ir1_opnd_is_16bit tg opnd \<Longrightarrow> ir1_opnd_size opnd = 16"
  unfolding ir1_opnd_is_16bit_def by (simp add: ir1_opnd_size_def split: if_splits)

lemma gpr_opnd_okD:
  assumes "gpr_opnd_ok tg opnd"
  shows "ir1_opnd_is_gpr tg opnd" "op_type opnd = dt_X86_OP_REG" "gpr_index tg (ir1_opnd_base_reg_num tg opnd)"
    "size_ok tg (ir1_opnd_size opnd)" "ir1_opnd_size opnd = 8 \<Longrightarrow> ir1_opnd_is_8l tg opnd \<longleftrightarrow> \<not> ir1_opnd_is_8h opnd"
    "ir1_opnd_is_16bit tg opnd \<longleftrightarrow> ir1_opnd_size opnd = 16"
  using assms is_16bit_size by (auto simp: gpr_opnd_ok_def ir1_opnd_is_gpr_def)

lemma memory_okD:
  assumes "memory_ok tg lay pir1 opnd M"
  shows "mem_opnd_ok tg (seg_base_of lay) pir1 opnd" "op_type opnd = dt_X86_OP_MEM" "size_ok tg (ir1_opnd_size opnd)"
    "mem_exact tg (seg_base_of lay) pir1 opnd M"
  using assms by (auto simp: memory_ok_def mem_opnd_ok_def)

section \<open>States that differ in temporaries\<close>

lemma guest_gpr_clob: "clob (temps tg) M N \<Longrightarrow> gpr_index tg i \<Longrightarrow> reg_read N (greg (home tg i)) = reg_read M (greg (home tg i))"
  using home_range[of tg i] by (auto intro: clob_read)

lemma x86_of_clob: "clob (temps tg) M N \<Longrightarrow> x86_of tg N = x86_of tg M"
  by (auto simp: x86_of_def fun_eq_iff guest_gpr_def guest_gpr_clob clob_mem)

lemma x_mem_of: "x_mem (x86_of tg M) = m_mem M"
  by (simp add: x86_of_def)

lemma clob_sub: "clob (temps tg - B) M N \<Longrightarrow> clob (temps tg) M N"
  by (erule clob_mono) auto

lemma x86_offset_cong:
  assumes "mem_opnd_ok tg sb pir1 opnd" "\<And>i. gpr_index tg i \<Longrightarrow> g i = h i"
  shows "x86_offset tg pir1 opnd g = x86_offset tg pir1 opnd h"
  using assms by (auto simp: x86_offset_def mem_opnd_ok_def)

lemma guest_address_of:
  assumes "mem_opnd_ok tg (seg_base_of lay) pir1 opnd"
  shows "x86_address tg pir1 opnd (x_gpr (x86_of tg M)) (seg_bases tg lay M opnd) = guest_address tg (seg_base_of lay) pir1 opnd M"
  using x86_offset_cong[OF assms, of "x_gpr (x86_of tg M)" "guest_gpr tg M"]
  by (simp add: guest_address_def x86_address_def seg_bases_def x86_of_def)

lemma seg_bases_clob: "clob (temps tg) M N \<Longrightarrow> seg_bases tg lay N = seg_bases tg lay M"
  using seg_base_clob[of tg "{}" M N] by (simp add: seg_bases_def fun_eq_iff)

lemma guest_address_clob:
  fixes lay :: env_layout
  assumes "mem_opnd_ok tg (seg_base_of lay) pir1 opnd" "clob (temps tg) M N"
  shows "guest_address tg (seg_base_of lay) pir1 opnd N = guest_address tg (seg_base_of lay) pir1 opnd M"
  unfolding guest_address_of[OF assms(1), symmetric] x86_of_clob[OF assms(2)] seg_bases_clob[OF assms(2)] ..

lemma host_address_clob:
  assumes ok: "mem_opnd_ok tg sb pir1 opnd" and c: "clob (temps tg) M N"
  shows "host_address tg sb pir1 opnd N = host_address tg sb pir1 opnd M"
proof -
  have s: "x86_seg_base tg sb opnd N = x86_seg_base tg sb opnd M" by (rule seg_base_clob[of tg "{}"]) (simp add: c)
  have "base_index tg opnd N = base_index tg opnd M" if "\<not> rip_relative tg opnd"
    using ok that guest_gpr_clob[OF c] by (auto simp: base_index_def mem_opnd_ok_def)
  then show ?thesis unfolding host_address_def mem_reg_def mem_sum_def s by simp
qed

lemma memory_ok_clob:
  assumes "memory_ok tg lay pir1 opnd M" "clob (temps tg) M N"
  shows "memory_ok tg lay pir1 opnd N"
  using assms guest_address_clob[OF memory_okD(1)[OF assms(1)] assms(2)] host_address_clob[OF memory_okD(1)[OF assms(1)] assms(2)]
  by (simp add: memory_ok_def mem_exact_def)

lemma temps_card: "5 \<le> card (temps tg)"
  by (cases "TARGET_X86_64 tg") (simp_all add: temps_def reg_itemp_map_def)

lemma room_few: "B \<subseteq> temps tg \<Longrightarrow> card B \<le> 3 \<Longrightarrow> room tg B"
  using temps_card[of tg] finite_subset[of B "temps tg"] by (auto simp: room_def temps_def card_Diff_subset)

section \<open>Reading operands\<close>

lemma imm_values:
  assumes "imm_ok tg opnd"
  shows "ir1_opnd_uimm tg opnd = Inr (take_bit (nat (ir1_opnd_size opnd)) (op_imm opnd))"
    "ir1_opnd_simm tg opnd = Inr (signed_take_bit (nat (ir1_opnd_size opnd) - 1) (op_imm opnd))"
proof -
  have z: "zext8 (trunc8 w) = take_bit 8 w" "zext16 (trunc16 w) = take_bit 16 w" "zext32 (trunc32 w) = take_bit 32 w"
    "zext32 (trunc32 (take_bit 8 w)) = take_bit 8 w" "zext32 (trunc32 (take_bit 16 w)) = take_bit 16 w"
    "zext32 (trunc32 (take_bit 32 w)) = take_bit 32 w" for w :: u64
    by (rule bit_word_eqI, auto simp: bit_ucast_iff bit_take_bit_iff)+
  have s: "sext8 (trunc8 w) = signed_take_bit 7 w" "sext16 (trunc16 w) = signed_take_bit 15 w" "sext32 (trunc32 w) = signed_take_bit 31 w"
    "sext32 (trunc32 (signed_take_bit 7 w)) = signed_take_bit 7 w" "sext32 (trunc32 (signed_take_bit 15 w)) = signed_take_bit 15 w"
    "sext32 (trunc32 (signed_take_bit 31 w)) = signed_take_bit 31 w" for w :: u64
    by (rule bit_word_eqI, auto simp: bit_simps bit_stb64 min_def)+
  have t: "ir1_opnd_is_imm opnd" using assms by (simp add: imm_ok_def ir1_opnd_is_imm_def)
  have "ir1_opnd_size opnd \<in> {8, 16, 32} \<or> ir1_opnd_size opnd = 64 \<and> TARGET_X86_64 tg"
    using assms by (auto simp: imm_ok_def size_ok_def CODEIS64_def TARGET_X86_64_def)
  then show "ir1_opnd_uimm tg opnd = Inr (take_bit (nat (ir1_opnd_size opnd)) (op_imm opnd))"
    "ir1_opnd_simm tg opnd = Inr (signed_take_bit (nat (ir1_opnd_size opnd) - 1) (op_imm opnd))"
    using t by (auto simp: ir1_opnd_uimm_def ir1_opnd_simm_def to_ulongx_def to_longx_def z s)
qed

lemma signed_zero: "0 < n \<Longrightarrow> n \<le> 64 \<Longrightarrow> signed_take_bit (n - 1) w = 0 \<longleftrightarrow> take_bit n w = 0" for w :: u64
  by (auto simp: bit_eq_iff bit_stb64 bit_take_bit_iff min_def)

lemma represents_imm:
  assumes "imm_ok tg opnd"
  shows "represents_value em (ir1_opnd_size opnd) (take_bit (nat (ir1_opnd_size opnd)) (op_imm opnd))
    (if em = ZERO_EXTENSION then take_bit (nat (ir1_opnd_size opnd)) (op_imm opnd)
     else signed_take_bit (nat (ir1_opnd_size opnd) - 1) (op_imm opnd))"
proof -
  let ?n = "nat (ir1_opnd_size opnd)"
  have n: "0 < ?n" "?n \<le> 64" using assms by (auto simp: imm_ok_def size_ok_def)
  have "signed_take_bit (?n - 1) (take_bit ?n (op_imm opnd)) = signed_take_bit (?n - 1) (op_imm opnd)"
    using n by (auto simp: bit_eq_iff bit_stb64 bit_take_bit_iff)
  then show ?thesis using take_signed[OF n, of "op_imm opnd"] by (auto simp: represents_value_def ext_value_def)
qed

lemma does_get_imm:
  assumes ok: "imm_ok tg opnd" and B: "B \<noteq> temps tg"
  shows "em_does tg (load_ireg_from_ir1 tg lay pir1 opnd em False) B M
    (val_post tg B M (represents_value em (ir1_opnd_size opnd) (x86_get tg pir1 seg opnd S)))"
proof -
  let ?n = "nat (ir1_opnd_size opnd)" and ?P = "represents_value em (ir1_opnd_size opnd) (x86_get tg pir1 seg opnd S)"
  let ?w = "if em = ZERO_EXTENSION then take_bit ?n (op_imm opnd) else signed_take_bit (?n - 1) (op_imm opnd)"
  have ty: "op_type opnd = dt_X86_OP_IMM" and n: "0 < ?n" "?n \<le> 64" using ok by (auto simp: imm_ok_def size_ok_def)
  have P: "?P ?w" using represents_imm[OF ok, of em] ty by (simp add: x86_get_def)
  note iv = imm_values[OF ok]
  show ?thesis
  proof (cases "signed_take_bit (?n - 1) (op_imm opnd) = 0")
    case True
    then have "?P (reg_read M (greg 0))" using P signed_zero[OF n, of "op_imm opnd"] by (auto simp: zero_greg[symmetric] split: if_splits)
    then have "val_post tg B M ?P (greg 0) B M" using temps_range[of 0 tg] by (auto simp: val_post_def loc_def)
    then show ?thesis using ty iv True by (simp add: load_ireg_from_ir1_def em_res_def does_return zero_greg)
  next
    case False
    have "em_does tg (do { ret_opnd \<leftarrow> em_alloc_itemp tg; load_ireg_from_ir1_imm tg ret_opnd opnd em; em_return ret_opnd }) B M (val_post tg B M ?P)"
    proof (rule does_bind, rule does_alloc[OF B])
      fix t assume t: "t \<in> temps tg" "t \<notin> B"
      have "val_post tg B M ?P (greg t) (insert t B) (reg_write (greg t) ?w M)" by (rule val_post_temp[where P = ?P, OF t P]) simp
      then show "em_does tg (do { load_ireg_from_ir1_imm tg (greg t) opnd em; em_return (greg t) }) (insert t B) M (val_post tg B M ?P)"
        unfolding load_ireg_from_ir1_imm_def using iv temp_rules(3)[OF t(1)]
        by (intro does_bind) (auto simp: em_res_def intro!: does_li_d does_return)
    qed
    then show ?thesis using ty iv False by (simp add: load_ireg_from_ir1_def em_res_def)
  qed
qed

lemma norm_read: "size_ok tg sz \<Longrightarrow> (high \<Longrightarrow> sz = 8) \<Longrightarrow> x86_read_reg sz high (norm tg w) = x86_read_reg sz high w"
  unfolding x86_read_reg_def norm_def size_ok_def
  by (auto simp: take_bit_take_bit) (auto simp: bit_eq_iff bit_take_bit_iff bit_drop_bit_eq)

lemma does_get_gpr:
  assumes ok: "gpr_opnd_ok tg opnd" and B: "B \<noteq> temps tg"
  shows "em_does tg (load_ireg_from_ir1 tg lay pir1 opnd em False) B M
    (val_post tg B M (represents_value em (ir1_opnd_size opnd) (x86_get tg pir1 seg opnd (x86_of tg M))))"
proof -
  note d = gpr_opnd_okD[OF ok]
  have "x86_get tg pir1 seg opnd (x86_of tg M) = reg_operand tg opnd M"
    using d norm_read[OF d(4) high_size] by (simp add: x86_get_def reg_operand_def x86_of_def guest_gpr_def)
  then show ?thesis using does_convert_gpr_opnd[OF d(3,4) B] d by (simp add: load_ireg_from_ir1_def)
qed

lemma does_get_mem:
  assumes ok: "memory_ok tg lay pir1 opnd M" and B: "\<And>t. t \<in> temps tg \<Longrightarrow> room tg (insert t B)" "B \<noteq> temps tg"
  shows "em_does tg (load_ireg_from_ir1 tg lay pir1 opnd em False) B M
    (val_post tg B M (represents_value em (ir1_opnd_size opnd) (x86_get tg pir1 (seg_bases tg lay M) opnd (x86_of tg M))))"
    (is "em_does tg _ B M ?Q")
proof -
  note d = memory_okD[OF ok]
  let ?v = "mem_operand tg (seg_base_of lay) pir1 opnd M"
  let ?P = "represents_value em (ir1_opnd_size opnd) (x86_get tg pir1 (seg_bases tg lay M) opnd (x86_of tg M))"
  have v: "x86_get tg pir1 (seg_bases tg lay M) opnd (x86_of tg M) = ?v"
    unfolding x86_get_def guest_address_of[OF d(1)] mem_operand_def using d(2) by (simp add: x86_of_def)
  have P: "?P (loaded em (ir1_opnd_size opnd) ?v)"
    unfolding v by (rule loaded_represents) (use size_okD(1)[OF d(3)] take_mem_operand in \<open>auto simp: opnd_bytes_def\<close>)
  have "em_does tg (do { ret_opnd \<leftarrow> em_alloc_itemp tg; load_ireg_from_ir1_mem tg lay pir1 ret_opnd opnd em False; em_return ret_opnd }) B M ?Q"
  proof (rule does_bind, rule does_alloc[OF B(2)])
    fix t assume t: "t \<in> temps tg" "t \<notin> B"
    have c: "clob (temps tg - B) M M'" if "clob (temps tg - insert t B) M M'" for M' using that by (rule clob_mono) auto
    show "em_does tg (do { load_ireg_from_ir1_mem tg lay pir1 (greg t) opnd em False; em_return (greg t) }) (insert t B) M ?Q"
      by (rule does_bind, rule does_load_mem[OF d(1) B(1)[OF t(1)] d(4) size_okD(1)[OF d(3)]], rule does_return,
          rule val_post_temp[where P = ?P, OF t P], erule c)
  qed
  then show ?thesis using d(2) by (simp add: load_ireg_from_ir1_def)
qed

lemma does_get:
  assumes "src_ok tg lay pir1 opnd M" "B \<subseteq> temps tg" "card B \<le> 2"
  shows "em_does tg (load_ireg_from_ir1 tg lay pir1 opnd em False) B M
    (val_post tg B M (represents_value em (ir1_opnd_size opnd) (x86_get tg pir1 (seg_bases tg lay M) opnd (x86_of tg M))))"
proof -
  have fin: "finite B" using assms(2) finite_subset[of B "temps tg"] by (simp add: temps_def)
  have "card (insert t B) \<le> 3" for t using assms(3) card_insert_le_m1[of 3 B t] by simp
  then have room: "room tg (insert t B)" if "t \<in> temps tg" for t using that assms(2) by (intro room_few) auto
  have B: "B \<noteq> temps tg" using assms(3) temps_card[of tg] by auto
  show ?thesis using assms(1) does_get_imm[OF _ B] does_get_gpr[OF _ B] does_get_mem[OF _ room B]
    unfolding src_ok_def dst_ok_def by blast
qed

section \<open>Writing operands\<close>

lemma write_reg_take:
  assumes "opnd_bytes sz" "high \<Longrightarrow> sz = 8" "take_bit (nat sz) w = take_bit (nat sz) v"
  shows "x86_write_reg sz high old w = x86_write_reg sz high old v"
  using assms by (auto simp: x86_write_reg_def opnd_bytes_def)

lemma norm_write:
  assumes "size_ok tg sz" "high \<Longrightarrow> sz = 8"
  shows "norm tg (x86_write_reg sz high old v) = norm tg (x86_write_reg sz high (norm tg old) v)"
proof (cases "CODEIS64 tg")
  case False
  then show ?thesis using assms
    by (auto simp: size_ok_def norm_def x86_write_reg_def take_bit_or take_bit_and)
qed (simp add: norm_def)

lemma store_le_take: "8 * n \<le> k \<Longrightarrow> take_bit k w = take_bit k v \<Longrightarrow> store_le n w a mem = store_le n v a mem"
proof (induction n arbitrary: k w v a mem)
  case (Suc n)
  have "take_bit 8 w = take_bit 8 v" using arg_cong[OF Suc.prems(2), of "take_bit 8"] Suc.prems(1) by (simp add: take_bit_take_bit)
  then have b: "(ucast w :: u8) = ucast v" using ucast_byte_take[of w] ucast_byte_take[of v] by simp
  have "take_bit (k - 8) (drop_bit 8 w) = take_bit (k - 8) (drop_bit 8 v)"
    using arg_cong[OF Suc.prems(2), of "drop_bit 8"] by (simp add: drop_bit_take_bit)
  then have "store_le n (drop_bit 8 w) (a + 1) m = store_le n (drop_bit 8 v) (a + 1) m" for m
    by (rule Suc.IH[rotated]) (use Suc.prems(1) in simp)
  then show ?case by (simp only: store_le.simps b)
qed simp

text \<open>Writing the home of a guest register, after changes of temporaries.\<close>

lemma x86_of_write:
  assumes c: "clob (temps tg) M N" and i: "gpr_index tg i"
  shows "reaches tg M ((x86_of tg M)\<lparr>x_gpr := (x_gpr (x86_of tg M))(i := norm tg w)\<rparr>) (reg_write (greg (home tg i)) w N)"
proof -
  let ?N = "reg_write (greg (home tg i)) w N"
  have "guest_gpr tg ?N j = (if j = i then norm tg w else guest_gpr tg N j)" if j: "gpr_index tg j" for j
    using home_inj[OF j i] reg_num_home[OF i] reg_num_home[OF j] home_range[OF i] home_range[OF j]
    by (auto simp: guest_gpr_def eq_nat_nat_iff)
  then have "x86_of tg ?N = (x86_of tg N)\<lparr>x_gpr := (x_gpr (x86_of tg N))(i := norm tg w)\<rparr>"
    using i by (auto simp: x86_of_def fun_eq_iff)
  moreover have "m_reg ?N r = m_reg M r" if "int r \<notin> temps tg \<union> homes tg" for r
    using that c i home_range[OF i] reg_num_home[OF i] by (auto simp: clob_def homes_def)
  ultimately show ?thesis using x86_of_clob[OF c] by (simp add: reaches_def)
qed

lemma reaches_gpr:
  assumes ok: "gpr_opnd_ok tg opnd" and c: "clob (temps tg) M N"
    and w: "take_bit (nat (ir1_opnd_size opnd)) w = take_bit (nat (ir1_opnd_size opnd)) v"
  defines "h \<equiv> greg (home tg (ir1_opnd_base_reg_num tg opnd))"
  shows "reaches tg M (x86_set_gpr tg opnd v (x86_of tg M))
    (reg_write h (x86_write_reg (ir1_opnd_size opnd) (ir1_opnd_is_8h opnd) (reg_read N h) w) N)"
proof -
  note d = gpr_opnd_okD[OF ok]
  have "x_gpr (x86_of tg M) (ir1_opnd_base_reg_num tg opnd) = norm tg (reg_read N h)"
    using d(3) guest_gpr_clob[OF c d(3)] by (simp add: x86_of_def guest_gpr_def h_def)
  moreover have "norm tg (x86_write_reg (ir1_opnd_size opnd) (ir1_opnd_is_8h opnd) (norm tg (reg_read N h)) v) =
      norm tg (x86_write_reg (ir1_opnd_size opnd) (ir1_opnd_is_8h opnd) (reg_read N h) w)"
    by (simp only: write_reg_take[OF size_okD(1)[OF d(4)] high_size w] norm_write[OF d(4) high_size, symmetric])
  ultimately show ?thesis using x86_of_write[OF c d(3)] by (simp only: x86_set_gpr_def Let_def h_def)
qed

lemma does_set:
  assumes ok: "dst_ok tg lay pir1 opnd M" and c: "clob (temps tg) M N" and B: "room tg B"
    and r: "0 \<le> r" "r < 32" "r \<notin> temps tg - B"
    and w: "take_bit (nat (ir1_opnd_size opnd)) (reg_read N (greg r)) = take_bit (nat (ir1_opnd_size opnd)) v"
  shows "em_does tg (store_ireg_to_ir1 tg lay pir1 (greg r) opnd False) B N
    (\<lambda>_ B' M'. B' = B \<and> reaches tg M (x86_set tg pir1 (seg_bases tg lay M) opnd v (x86_of tg M)) M')"
proof (cases "gpr_opnd_ok tg opnd")
  case True
  note d = gpr_opnd_okD[OF True]
  show ?thesis using d reaches_gpr[OF True c w]
    by (auto simp: store_ireg_to_ir1_def x86_set_def intro!: does_store_gpr[OF d(3) size_okD(1)[OF d(4)] r(1,2)])
next
  case False
  then have ok: "memory_ok tg lay pir1 opnd M" using ok by (simp add: dst_ok_def)
  note d = memory_okD[OF memory_ok_clob[OF ok c]]
  let ?mem = "store_le (nat (ir1_opnd_size opnd) div 8) v (guest_address tg (seg_base_of lay) pir1 opnd M) (m_mem M)"
  have st: "store_le (nat (ir1_opnd_size opnd) div 8) (reg_read N (greg r)) (guest_address tg (seg_base_of lay) pir1 opnd N) (m_mem N) = ?mem"
    unfolding guest_address_clob[OF d(1) c] clob_mem[OF c] by (rule store_le_take[OF _ w]) simp
  have "reaches tg M (x86_set tg pir1 (seg_bases tg lay M) opnd v (x86_of tg M)) M'" if M': "clob (temps tg - B) (N\<lparr>m_mem := ?mem\<rparr>) M'" for M'
  proof -
    have c': "clob (temps tg) (M\<lparr>m_mem := ?mem\<rparr>) M'" using c clob_sub[OF M'] by (simp add: clob_def)
    then have "m_reg M' r = m_reg M r" if "int r \<notin> temps tg" for r using that by (simp add: clob_def)
    moreover have "x86_of tg (M\<lparr>m_mem := ?mem\<rparr>) = (x86_of tg M)\<lparr>x_mem := ?mem\<rparr>"
      by (auto simp: x86_of_def fun_eq_iff guest_gpr_def reg_read_def)
    ultimately show ?thesis unfolding x86_set_def guest_address_of[OF d(1)] using d(2)
      by (auto simp: reaches_def x86_of_clob[OF c'] x_mem_of)
  qed
  then show ?thesis using d(2) unfolding st[symmetric]
    by (simp add: store_ireg_to_ir1_def does_store_mem[OF d(1) B d(4) size_okD(1)[OF d(3)] r])
qed

end
