(* ===== verification/Tr_Mov.thy ===== *)
theory Tr_Mov
  imports Opnd_Process
begin

text \<open>
  Data movement: translator/tr-mov.c, translate\_pop to translate\_movsxd (lines 9 to 574),
  translate\_lea, and pusha and popa (lines 2049 to 2125), in the order of that file.  Stores need no check for modified code
  (CONFIG\_LATX\_SMC\_OPT off), and GHBR\_ON is 0 (CONFIG\_LATX\_HBR off).  A C variable of type IR1\_OPND that build\_mem fills in part is an
  argument \<open>mem_ir1_opnd\<close>: its former contents.
\<close>

abbreviation (input) esp :: int where "esp \<equiv> esp_index"

text \<open>pop and push move the stack pointer by this many bytes.\<close>

definition stack_step :: "target \<Rightarrow> ir1_opnd \<Rightarrow> int" where
  "stack_step tg opnd =
    (if ir1_opnd_size opnd = 16 \<and> ir1_opnd_is_seg opnd then if CODEIS64 tg then 8 else 4
     else ir1_opnd_size opnd div 8)"

definition add_disp :: "int \<Rightarrow> ir1_opnd \<Rightarrow> ir1_opnd" where
  "add_disp k opnd = opnd\<lparr>op_mem_disp := op_mem_disp opnd + of_int k\<rparr>"

text \<open>The value goes through a register; the pointer is moved at the end.\<close>

definition pop_through :: "target \<Rightarrow> env_layout \<Rightarrow> ir1_inst \<Rightarrow> ir1_opnd \<Rightarrow> nat \<Rightarrow> unit em" where
  "pop_through tg lay pir1 mem_ir1_opnd em = (let dest = ir1_get_opnd pir1 0; step = stack_step tg dest in do {
     esp_opnd \<leftarrow> em_gpr tg esp;
     value_opnd \<leftarrow> load_ireg_from_ir1 tg lay pir1 mem_ir1_opnd em False;
     store_ireg_to_ir1 tg lay pir1 value_opnd (if ir1_opnd_is_gpr_used tg dest 4 then add_disp step dest else dest) False;
     la_addi_addrx tg esp_opnd esp_opnd step
   })"

text \<open>The value goes straight to a general register.\<close>

definition pop_to_gpr :: "target \<Rightarrow> env_layout \<Rightarrow> ir1_inst \<Rightarrow> ir1_opnd \<Rightarrow> nat \<Rightarrow> unit em" where
  "pop_to_gpr tg lay pir1 mem_ir1_opnd em = (let dest = ir1_get_opnd pir1 0 in do {
     esp_opnd \<leftarrow> em_gpr tg esp;
     dest_opnd \<leftarrow> load_ireg_from_ir1 tg lay pir1 dest UNKNOWN_EXTENSION False;
     load_ireg_from_ir1_2 tg lay pir1 dest_opnd mem_ir1_opnd em False;
     (if \<not> ir1_opnd_is_gpr_used tg dest 4 then la_addi_addrx tg esp_opnd esp_opnd (stack_step tg dest) else em_skip)
   })"

definition translate_pop :: "target \<Rightarrow> env_layout \<Rightarrow> ir1_opnd \<Rightarrow> ir1_inst \<Rightarrow> bool em" where
  "translate_pop tg lay mem_ir1_opnd pir1 = (let dest = ir1_get_opnd pir1 0; sz = ir1_opnd_size dest in do {
     (if sz = 16 then pop_through tg lay pir1 (ir1_opnd_build_mem 16 dt_X86_REG_ESP 0 mem_ir1_opnd) ZERO_EXTENSION
      else if CODEIS64 tg \<and> sz = 64 then
        if ir1_opnd_is_gpr tg dest
        then pop_to_gpr tg lay pir1 (ir1_opnd_build_mem 64 dt_X86_REG_RSP 0 mem_ir1_opnd) UNKNOWN_EXTENSION
        else pop_through tg lay pir1 (ir1_opnd_build_mem 64 dt_X86_REG_RSP 0 mem_ir1_opnd) SIGN_EXTENSION
      else if ir1_opnd_is_gpr tg dest
        then pop_to_gpr tg lay pir1 (ir1_opnd_build_mem 32 dt_X86_REG_ESP 0 mem_ir1_opnd) SIGN_EXTENSION
        else pop_through tg lay pir1 (ir1_opnd_build_mem 32 dt_X86_REG_ESP 0 mem_ir1_opnd) SIGN_EXTENSION);
     em_return True
   })"

definition translate_push :: "target \<Rightarrow> env_layout \<Rightarrow> ir1_opnd \<Rightarrow> ir1_inst \<Rightarrow> bool em" where
  "translate_push tg lay mem_ir1_opnd pir1 =
    (let opnd = ir1_get_opnd pir1 0;
         step = stack_step tg opnd;
         mem_opnd = ir1_opnd_build_mem (8 * step) (if CODEIS64 tg then dt_X86_REG_RSP else dt_X86_REG_ESP) (of_int (- step)) mem_ir1_opnd
     in do {
       esp_opnd \<leftarrow> em_gpr tg esp;
       value_opnd \<leftarrow> load_ireg_from_ir1 tg lay pir1 opnd UNKNOWN_EXTENSION False;
       store_ireg_to_ir1 tg lay pir1 value_opnd mem_opnd False;
       la_addi_addrx tg esp_opnd esp_opnd (- step);
       em_return True
     })"

section \<open>mov\<close>

definition translate_mov_imm_to_gpr :: "target \<Rightarrow> env_layout \<Rightarrow> ir1_inst \<Rightarrow> ir1_opnd \<Rightarrow> ir1_opnd \<Rightarrow> unit em" where
  "translate_mov_imm_to_gpr tg lay pir1 opnd0 opnd1 = do {
     imm \<leftarrow> em_res 0 (ir1_opnd_uimm tg opnd1);
     if imm = 0 then store_ireg_to_ir1 tg lay pir1 zero_ir2_opnd opnd0 False
     else do {
       dest \<leftarrow> em_gpr tg (ir1_opnd_base_reg_num tg opnd0);
       temp \<leftarrow> em_alloc_itemp tg;
       (if ir1_opnd_size opnd0 = 8 then
          if ir1_opnd_is_8l tg opnd0 then do {
            la_rri LISA_ORI temp zero_ir2_opnd (uint (imm AND 0xff));
            la_rrii LISA_BSTRINS_D dest temp 7 0
          } else do {
            la_rri LISA_ORI temp zero_ir2_opnd (uint (imm AND 0xff));
            la_rrii LISA_BSTRINS_D dest temp 15 8
          }
        else if ir1_opnd_size opnd0 = 16 then do {
          li_wu temp (ucast (trunc16 imm));
          la_rrii LISA_BSTRINS_D dest temp 15 0
        }
        else if ir1_opnd_size opnd0 = 32 then li_wu dest (trunc32 imm)
        else if ir1_opnd_size opnd0 = 64 then li_d dest imm
        else em_fail ());
       em_free_temp tg temp
     }
   }"

definition translate_mov_from_gpr :: "target \<Rightarrow> env_layout \<Rightarrow> ir1_inst \<Rightarrow> ir1_opnd \<Rightarrow> ir1_opnd \<Rightarrow> unit em" where
  "translate_mov_from_gpr tg lay pir1 opnd0 opnd1 = do {
     src \<leftarrow> em_gpr tg (ir1_opnd_base_reg_num tg opnd1);
     if ir1_opnd_is_gpr tg opnd0 then do {
       dest \<leftarrow> em_gpr tg (ir1_opnd_base_reg_num tg opnd0);
       if ir1_opnd_size opnd1 = 8 then
         if ir1_opnd_is_8l tg opnd1 then
           if ir1_opnd_is_8l tg opnd0 then la_rrii LISA_BSTRINS_D dest src 7 0
           else la_rrii LISA_BSTRINS_D dest src 15 8
         else do {
           temp \<leftarrow> em_alloc_itemp tg;
           la_rrii LISA_BSTRPICK_D temp src 15 8;
           (if ir1_opnd_is_8l tg opnd0 then la_rrii LISA_BSTRINS_D dest temp 7 0
            else la_rrii LISA_BSTRINS_D dest temp 15 8);
           em_free_temp tg temp
         }
       else if ir1_opnd_size opnd1 = 16 then la_rrii LISA_BSTRINS_D dest src 15 0
       else if ir1_opnd_size opnd1 = 32 then la_mov32_zx dest src
       else if ir1_opnd_size opnd1 = 64 then la_mov64 dest src
       else em_fail ()
     }
     else if ir1_opnd_is_8h opnd1 then do {
       temp \<leftarrow> em_alloc_itemp tg;
       la_rrii LISA_BSTRPICK_D temp src 15 8;
       store_ireg_to_ir1 tg lay pir1 temp opnd0 False;
       em_free_temp tg temp
     }
     else store_ireg_to_ir1 tg lay pir1 src opnd0 False
   }"

definition translate_mov_from_mem :: "target \<Rightarrow> env_layout \<Rightarrow> ir1_inst \<Rightarrow> ir1_opnd \<Rightarrow> ir1_opnd \<Rightarrow> unit em" where
  "translate_mov_from_mem tg lay pir1 opnd0 opnd1 = do {
     dest \<leftarrow> em_gpr tg (ir1_opnd_base_reg_num tg opnd0);
     temp \<leftarrow> em_alloc_itemp tg;
     (if ir1_opnd_size opnd0 = 8 then do {
        load_ireg_from_ir1_mem tg lay pir1 temp opnd1 UNKNOWN_EXTENSION False;
        if ir1_opnd_is_8l tg opnd0 then la_rrii LISA_BSTRINS_D dest temp 7 0
        else la_rrii LISA_BSTRINS_D dest temp 15 8
      }
      else if ir1_opnd_size opnd0 = 16 then do {
        load_ireg_from_ir1_mem tg lay pir1 temp opnd1 UNKNOWN_EXTENSION False;
        if ir1_opnd_is_gpr tg opnd0 then la_rrii LISA_BSTRINS_D dest temp 15 0
        else store_ireg_to_ir1 tg lay pir1 temp opnd0 False
      }
      else if ir1_opnd_size opnd0 = 32 then load_ireg_from_ir1_mem tg lay pir1 dest opnd1 ZERO_EXTENSION False
      else if ir1_opnd_size opnd0 = 64 then load_ireg_from_ir1_mem tg lay pir1 dest opnd1 UNKNOWN_EXTENSION False
      else em_fail ());
     em_free_temp tg temp
   }"

definition translate_mov :: "target \<Rightarrow> env_layout \<Rightarrow> ir1_inst \<Rightarrow> bool em" where
  "translate_mov tg lay pir1 = (let opnd0 = ir1_get_opnd pir1 0; opnd1 = ir1_get_opnd pir1 1 in
     if op_type opnd1 = dt_X86_OP_IMM \<and> ir1_opnd_is_gpr tg opnd0 then do {
       translate_mov_imm_to_gpr tg lay pir1 opnd0 opnd1;
       em_return True
     }
     else if op_type opnd1 = dt_X86_OP_REG \<and> ir1_opnd_is_gpr tg opnd1 then do {
       translate_mov_from_gpr tg lay pir1 opnd0 opnd1;
       em_return True
     }
     else if op_type opnd1 = dt_X86_OP_MEM then do {
       translate_mov_from_mem tg lay pir1 opnd0 opnd1;
       em_return True
     }
     else do {
       src_opnd \<leftarrow> load_ireg_from_ir1 tg lay pir1 opnd1 UNKNOWN_EXTENSION False;
       store_ireg_to_ir1 tg lay pir1 src_opnd opnd0 False;
       em_return True
     })"

section \<open>mov with extension\<close>

text \<open>Outside 64-bit code a memory source without base and segment gets the segment ds.\<close>

definition movzx_source :: "target \<Rightarrow> ir1_opnd \<Rightarrow> ir1_opnd" where
  "movzx_source tg opnd =
    (if \<not> CODEIS64 tg \<and> op_type opnd = dt_X86_OP_MEM \<and> op_mem_segment opnd = dt_X86_REG_INVALID \<and>
        op_mem_base opnd = dt_X86_REG_INVALID
     then opnd\<lparr>op_imm := set_low32 dt_X86_REG_DS (op_imm opnd)\<rparr> else opnd)"

definition translate_movzx :: "target \<Rightarrow> env_layout \<Rightarrow> ir1_inst \<Rightarrow> bool em" where
  "translate_movzx tg lay pir1 = (let source_ir1 = ir1_get_opnd pir1 1; dest_ir1 = ir1_get_opnd pir1 0;
       dest_base = ir1_opnd_base_reg_num tg dest_ir1 in do {
     dest_opnd \<leftarrow> em_gpr tg dest_base;
     if ir1_opnd_is_gpr tg source_ir1 then do {
       let source_base = ir1_opnd_base_reg_num tg source_ir1;
       src_opnd \<leftarrow> em_gpr tg source_base;
       (if ir1_opnd_is_8h source_ir1 then
          if ir1_opnd_is_16bit tg dest_ir1 then do {
            tmp_opnd \<leftarrow> em_alloc_itemp tg;
            la_rrii LISA_BSTRPICK_W tmp_opnd src_opnd 15 8;
            la_rrii LISA_BSTRINS_D dest_opnd tmp_opnd 15 0;
            em_free_temp tg tmp_opnd
          }
          else la_rrii LISA_BSTRPICK_W dest_opnd src_opnd 15 8
        else if ir1_opnd_is_16bit tg dest_ir1 then
          if source_base = dest_base then la_rrii LISA_BSTRINS_D dest_opnd zero_ir2_opnd 15 8
          else do {
            tmp_opnd \<leftarrow> em_alloc_itemp tg;
            la_rrii LISA_BSTRPICK_W tmp_opnd src_opnd 7 0;
            la_rrii LISA_BSTRINS_D dest_opnd tmp_opnd 15 0;
            em_free_temp tg tmp_opnd
          }
        else la_rrii LISA_BSTRPICK_W dest_opnd src_opnd (ir1_opnd_size source_ir1 - 1) 0);
       em_return True
     }
     else do {
       let source_ir1 = movzx_source tg source_ir1;
       (if 32 \<le> ir1_opnd_size dest_ir1 then load_ireg_from_ir1_mem tg lay pir1 dest_opnd source_ir1 ZERO_EXTENSION False
        else do {
          source_opnd \<leftarrow> load_ireg_from_ir1 tg lay pir1 source_ir1 ZERO_EXTENSION False;
          store_ireg_to_ir1 tg lay pir1 source_opnd dest_ir1 False
        });
       em_return True
     }
   })"

definition translate_movsx :: "target \<Rightarrow> env_layout \<Rightarrow> ir1_inst \<Rightarrow> bool em" where
  "translate_movsx tg lay pir1 = do {
     source_opnd \<leftarrow> load_ireg_from_ir1 tg lay pir1 (ir1_get_opnd pir1 1) SIGN_EXTENSION False;
     store_ireg_to_ir1 tg lay pir1 source_opnd (ir1_get_opnd pir1 0) False;
     em_return True
   }"

definition translate_movsxd :: "target \<Rightarrow> env_layout \<Rightarrow> ir1_inst \<Rightarrow> bool em" where
  "translate_movsxd tg lay pir1 = do {
     gpr_opnd \<leftarrow> em_gpr tg (ir1_opnd_base_reg_num tg (ir1_get_opnd pir1 0));
     load_ireg_from_ir1_2 tg lay pir1 gpr_opnd (ir1_get_opnd pir1 1) SIGN_EXTENSION False;
     (if TARGET_X86_64 tg \<and> CODEIS64 tg \<and> ir1_opnd_size (ir1_get_opnd pir1 0) = 32
      then la_rrii LISA_BSTRPICK_D gpr_opnd gpr_opnd 31 0 else em_skip);
     em_return True
   }"

section \<open>lea\<close>

definition translate_lea :: "target \<Rightarrow> env_layout \<Rightarrow> ir1_inst \<Rightarrow> bool em" where
  "translate_lea tg lay pir1 = (let op0 = ir1_get_opnd pir1 0; op1 = ir1_get_opnd pir1 1 in do {
     dest_op \<leftarrow> em_gpr tg (ir1_opnd_base_reg_num tg op0);
     convert_mem_to_specific_gpr tg (seg_base_of lay) pir1 op1 dest_op (ir1_opnd_size op0);
     em_return True
   })"

section \<open>pusha and popa\<close>

fun em_for :: "int list \<Rightarrow> (int \<Rightarrow> unit em) \<Rightarrow> unit em" where
  "em_for [] f = em_skip"
| "em_for (i # is) f = do { f i; em_for is f }"

text \<open>The bodies of the loops differ only in the width in bytes.\<close>

definition pusha_step :: "target \<Rightarrow> env_layout \<Rightarrow> ir1_opnd \<Rightarrow> ir1_inst \<Rightarrow> int \<Rightarrow> int \<Rightarrow> unit em" where
  "pusha_step tg lay mem_ir1_opnd pir1 n i = do {
     src_opnd \<leftarrow> em_gpr tg i;
     store_ireg_to_ir1 tg lay pir1 src_opnd (ir1_opnd_build_mem (8 * n) dt_X86_REG_ESP (of_int (- n * (i + 1))) mem_ir1_opnd) False
   }"

definition popa_step :: "target \<Rightarrow> env_layout \<Rightarrow> ir1_opnd \<Rightarrow> ir1_inst \<Rightarrow> int \<Rightarrow> int \<Rightarrow> unit em" where
  "popa_step tg lay mem_ir1_opnd pir1 n i = (if i = esp then em_skip else do {
     dst_opnd \<leftarrow> em_gpr tg i;
     load_ireg_from_ir1_2 tg lay pir1 dst_opnd (ir1_opnd_build_mem (8 * n) dt_X86_REG_ESP (of_int (n * (7 - i))) mem_ir1_opnd)
       UNKNOWN_EXTENSION False
   })"

definition translate_pushaw :: "target \<Rightarrow> env_layout \<Rightarrow> ir1_opnd \<Rightarrow> ir1_inst \<Rightarrow> bool em" where
  "translate_pushaw tg lay mem_ir1_opnd pir1 = do {
     esp_opnd \<leftarrow> em_gpr tg esp;
     em_for [0..7] (pusha_step tg lay mem_ir1_opnd pir1 2);
     la_addi_addrx tg esp_opnd esp_opnd (- 16);
     em_return True
   }"

definition translate_pushal :: "target \<Rightarrow> env_layout \<Rightarrow> ir1_opnd \<Rightarrow> ir1_inst \<Rightarrow> bool em" where
  "translate_pushal tg lay mem_ir1_opnd pir1 = do {
     esp_opnd \<leftarrow> em_gpr tg esp;
     em_for [0..7] (pusha_step tg lay mem_ir1_opnd pir1 4);
     la_addi_addrx tg esp_opnd esp_opnd (- 32);
     em_return True
   }"

definition translate_popaw :: "target \<Rightarrow> env_layout \<Rightarrow> ir1_opnd \<Rightarrow> ir1_inst \<Rightarrow> bool em" where
  "translate_popaw tg lay mem_ir1_opnd pir1 = do {
     esp_opnd \<leftarrow> em_gpr tg esp;
     em_for (rev [0..7]) (popa_step tg lay mem_ir1_opnd pir1 2);
     la_addi_addrx tg esp_opnd esp_opnd 16;
     em_return True
   }"

definition translate_popal :: "target \<Rightarrow> env_layout \<Rightarrow> ir1_opnd \<Rightarrow> ir1_inst \<Rightarrow> bool em" where
  "translate_popal tg lay mem_ir1_opnd pir1 = do {
     esp_opnd \<leftarrow> em_gpr tg esp;
     em_for (rev [0..7]) (popa_step tg lay mem_ir1_opnd pir1 4);
     la_addi_addrx tg esp_opnd esp_opnd 32;
     em_return True
   }"

end
