(* ===== verification/Tr_Mov_Correct.thy ===== *)
theory Tr_Mov_Correct
  imports X86_Step Tr_Mov
begin

text \<open>
  The translations of \<open>Tr_Mov\<close> are correct: the code they emit takes a host state that represents
  an x86 state to one that represents the state after the x86 instruction.
\<close>

section \<open>Correct translations\<close>

text \<open>A translation begins with no temporary in use, since ra\_free\_all ends the one before.  It
  appends code to what is there and may leave temporaries in use.\<close>

definition implements :: "target \<Rightarrow> bool em \<Rightarrow> la_mach \<Rightarrow> x86_state \<Rightarrow> bool" where
  "implements tg tr M S \<longleftrightarrow> (\<forall>s. tc_ok s \<and> live_temps (reg_itemp_map tg) (tc_itemp s) = {} \<longrightarrow>
     (\<exists>code st M'. run_state tr s = (True, s\<lparr>tc_code := tc_code s @ code, tc_itemp := st\<rparr>) \<and>
       la_run code M = Some M' \<and> reaches tg M S M'))"

lemma implementsI:
  assumes "em_does tg tr {} M (\<lambda>x B' M'. x \<and> reaches tg M S M')"
  shows "implements tg tr M S"
  unfolding implements_def by (intro allI impI, elim conjE, rule em_doesE[OF assms]) auto

text \<open>Most translations end with \<open>return true\<close>.\<close>

lemma implements_true:
  assumes "em_does tg m {} M (\<lambda>_ B' M'. reaches tg M S M')"
  shows "implements tg (do { m; em_return True }) M S"
  by (rule implementsI, rule does_bind, rule does_conseq[OF assms], rule does_return) simp

lemma reaches_trans: "reaches tg M S M1 \<Longrightarrow> reaches tg M1 T M2 \<Longrightarrow> reaches tg M T M2"
  by (auto simp: reaches_def)

lemma reaches_gprI:
  assumes "gpr_opnd_ok tg opnd" "clob (temps tg) M N"
    and "take_bit (nat (ir1_opnd_size opnd)) w = take_bit (nat (ir1_opnd_size opnd)) v"
    and "h = greg (home tg (ir1_opnd_base_reg_num tg opnd))"
    and "u = x86_write_reg (ir1_opnd_size opnd) (ir1_opnd_is_8h opnd) (reg_read N h) w"
  shows "reaches tg M (x86_set_gpr tg opnd v (x86_of tg M)) (reg_write h u N)"
  using reaches_gpr[OF assms(1-3)] assms(4,5) by simp

text \<open>The same when the register was written more than once; outside 64-bit code its upper half does
  not matter.\<close>

lemma reaches_clob:
  fixes tg :: target and opnd :: ir1_opnd
  defines "h \<equiv> greg (home tg (ir1_opnd_base_reg_num tg opnd))"
  assumes ok: "gpr_opnd_ok tg opnd" and c: "clob (temps tg \<union> {home tg (ir1_opnd_base_reg_num tg opnd)}) M M'"
    and u: "norm tg (reg_read M' h) = norm tg (x86_write_reg (ir1_opnd_size opnd) (ir1_opnd_is_8h opnd) (reg_read M h) v)"
  shows "reaches tg M (x86_set_gpr tg opnd v (x86_of tg M)) M'"
proof -
  note d = gpr_opnd_okD[OF ok]
  let ?N = "reg_write h (reg_read M h) M'" and ?i = "ir1_opnd_base_reg_num tg opnd"
  have h: "reg_num h = nat (home tg ?i)" "reg_num h \<noteq> 0" "0 < home tg ?i"
    using reg_num_home[OF d(3)] home_range[OF d(3)] by (simp_all add: h_def)
  have "clob (temps tg) M ?N" using c h unfolding clob_def by (auto simp: reg_read_def)
  then have "reaches tg M ((x86_of tg M)\<lparr>x_gpr := (x_gpr (x86_of tg M))(?i := norm tg (reg_read M' h))\<rparr>) (reg_write h (reg_read M' h) ?N)"
    unfolding h_def by (rule x86_of_write[OF _ d(3)])
  moreover have "norm tg (reg_read M' h) = norm tg (x86_write_reg (ir1_opnd_size opnd) (ir1_opnd_is_8h opnd) (x_gpr (x86_of tg M) ?i) v)"
    unfolding u using d(3) by (subst norm_write[OF d(4) high_size]) (simp_all add: x86_of_def guest_gpr_def h_def)
  ultimately show ?thesis by (simp add: x86_set_gpr_def Let_def reg_write_idem)
qed

lemma x86_set_reg: "gpr_opnd_ok tg opnd \<Longrightarrow> x86_set tg pir1 seg opnd v S = x86_set_gpr tg opnd v S"
  by (simp add: x86_set_def gpr_opnd_okD)

lemma room_empty: "room tg {}" "t \<in> temps tg \<Longrightarrow> room tg {t}" "{} \<noteq> temps tg"
  using room_few[of "{}" tg] room_few[of "{t}" tg] roomD(2)[of tg "{}"] by auto

lemma clob_temp: "t \<in> temps tg \<Longrightarrow> clob (temps tg) M (reg_write (greg t) v M)"
  using clob_write[of t "temps tg"] temp_rules[of t tg] by simp

text \<open>A translation that uses one temporary and frees it.\<close>

lemma does_with_temp:
  assumes "\<And>t. t \<in> temps tg \<Longrightarrow> em_does tg (f (greg t)) {t} M (\<lambda>_ B' M'. Q M')"
  shows "em_does tg (do { temp \<leftarrow> em_alloc_itemp tg; f temp; em_free_temp tg temp }) {} M (\<lambda>_ B' M'. Q M')"
proof (rule does_bind, rule does_alloc[OF room_empty(3)])
  fix t assume t: "t \<in> temps tg"
  show "em_does tg (do { f (greg t); em_free_temp tg (greg t) }) {t} M (\<lambda>_ B' M'. Q M')"
    by (rule does_bind, rule does_conseq[OF assms[OF t]], rule does_free) (use temp_rules[OF t] in simp_all)
qed

lemma does_op:
  assumes "la_store_bytes opc = None" "la_value opc (rd # ops) M = Some v" "Q () B (reg_write rd v M)"
  shows "em_does tg (emit opc (rd # ops)) B M Q"
  by (rule does_value[OF assms(1,2)]) (simp add: assms(3))

text \<open>Inserting the low bits of a register into the destination, of 16 or 8 bits.\<close>

lemma does_insert:
  fixes tg :: target and opnd :: ir1_opnd
  defines "h \<equiv> greg (home tg (ir1_opnd_base_reg_num tg opnd))"
  assumes ok: "gpr_opnd_ok tg opnd" and c: "clob (temps tg) M N"
    and w: "take_bit (nat (ir1_opnd_size opnd)) (reg_read N r) = take_bit (nat (ir1_opnd_size opnd)) v"
  shows "ir1_opnd_size opnd = 16 \<Longrightarrow> em_does tg (la_rrii LISA_BSTRINS_D h r 15 0) B N
      (\<lambda>_ B' M'. reaches tg M (x86_set_gpr tg opnd v (x86_of tg M)) M')"
    "ir1_opnd_size opnd = 8 \<Longrightarrow> em_does tg (if ir1_opnd_is_8l tg opnd then la_rrii LISA_BSTRINS_D h r 7 0 else la_rrii LISA_BSTRINS_D h r 15 8) B N
      (\<lambda>_ B' M'. reaches tg M (x86_set_gpr tg opnd v (x86_of tg M)) M')"
proof -
  note r = reaches_gpr[OF ok c w, folded h_def]
  show "em_does tg (la_rrii LISA_BSTRINS_D h r 15 0) B N (\<lambda>_ B' M'. reaches tg M (x86_set_gpr tg opnd v (x86_of tg M)) M')"
    if "ir1_opnd_size opnd = 16"
    by (rule does_bstrins[where high = "ir1_opnd_is_8h opnd"]) (use r that in simp)
  have "em_does tg (la_rrii LISA_BSTRINS_D h r (if ir1_opnd_is_8h opnd then 15 else 7) (if ir1_opnd_is_8h opnd then 8 else 0)) B N
      (\<lambda>_ B' M'. reaches tg M (x86_set_gpr tg opnd v (x86_of tg M)) M')" if "ir1_opnd_size opnd = 8"
    by (rule does_bstrins_8) (use r that in simp)
  then show "em_does tg (if ir1_opnd_is_8l tg opnd then la_rrii LISA_BSTRINS_D h r 7 0 else la_rrii LISA_BSTRINS_D h r 15 8) B N
      (\<lambda>_ B' M'. reaches tg M (x86_set_gpr tg opnd v (x86_of tg M)) M')" if "ir1_opnd_size opnd = 8"
    using that gpr_opnd_okD(5)[OF ok] by (cases "ir1_opnd_is_8h opnd") simp_all
qed

section \<open>mov\<close>

definition x86_mov :: "target \<Rightarrow> ir1_inst \<Rightarrow> (ir1_opnd \<Rightarrow> u64) \<Rightarrow> x86_state \<Rightarrow> x86_state" where
  "x86_mov tg pir1 seg S = x86_set tg pir1 seg (ir1_get_opnd pir1 0) (x86_get tg pir1 seg (ir1_get_opnd pir1 1) S) S"

text \<open>The instruction: the operands have the same size, and at most one is in memory.\<close>

definition mov_ok :: "target \<Rightarrow> env_layout \<Rightarrow> ir1_inst \<Rightarrow> la_mach \<Rightarrow> bool" where
  "mov_ok tg lay pir1 M \<longleftrightarrow> (let opnd0 = ir1_get_opnd pir1 0; opnd1 = ir1_get_opnd pir1 1 in
     ir1_opnd_size opnd0 = ir1_opnd_size opnd1 \<and>
     (gpr_opnd_ok tg opnd0 \<and> src_ok tg lay pir1 opnd1 M \<or>
      memory_ok tg lay pir1 opnd0 M \<and> (gpr_opnd_ok tg opnd1 \<or> imm_ok tg opnd1)))"

lemma ori_imm: "ui 12 (create_immh_opnd (uint (w AND 0xff))) = take_bit 8 w" for w :: u64
proof -
  have "w AND 0xff = take_bit 8 w" by (rule byte_values(3))
  then show ?thesis by (simp add: ui_imm take_bit_eq_mask) (auto simp: bit_eq_iff bit_simps)
qed

lemma byte16: "take_bit 16 (ucast (ucast (ucast (w :: u64) :: 16 word) :: u32) :: u64) = take_bit 16 w"
  and word32: "zext32 (trunc32 w) = take_bit 32 w"
  by (rule bit_word_eqI, auto simp: bit_simps)+

lemma does_mov_imm:
  assumes ok: "gpr_opnd_ok tg opnd0" "imm_ok tg opnd1" "ir1_opnd_size opnd0 = ir1_opnd_size opnd1"
  shows "em_does tg (translate_mov_imm_to_gpr tg lay pir1 opnd0 opnd1) {} M
    (\<lambda>_ B' M'. reaches tg M (x86_set_gpr tg opnd0 (x86_get tg pir1 seg opnd1 (x86_of tg M)) (x86_of tg M)) M')"
    (is "em_does tg _ {} M ?Q")
proof -
  note d = gpr_opnd_okD[OF ok(1)]
  let ?v = "x86_get tg pir1 seg opnd1 (x86_of tg M)" and ?h = "greg (home tg (ir1_opnd_base_reg_num tg opnd0))"
  have v: "?v = take_bit (nat (ir1_opnd_size opnd0)) (op_imm opnd1)"
    using ok(2,3) by (simp add: x86_get_def imm_ok_def)
  have u: "ir1_opnd_uimm tg opnd1 = Inr ?v" unfolding v ok(3) by (rule imm_values(1)[OF ok(2)])
  show ?thesis
  proof (cases "?v = 0")
    case True
    have "em_does tg (store_ireg_to_ir1 tg lay pir1 (greg 0) opnd0 False) {} M ?Q"
      by (rule does_conseq[OF does_set[where M = M and v = ?v, OF _ clob_refl room_empty(1)]])
        (use ok(1) True temps_range[of 0 tg] in \<open>auto simp: dst_ok_def x86_set_reg zero_greg[symmetric]\<close>)
    then show ?thesis using True u unfolding translate_mov_imm_to_gpr_def by (simp add: em_res_def zero_greg)
  next
    case False
    let ?sz = "ir1_opnd_size opnd0"
    let ?body = "\<lambda>temp. if ?sz = 8 then
          if ir1_opnd_is_8l tg opnd0 then do {
            la_rri LISA_ORI temp zero_ir2_opnd (uint (?v AND 0xff)); la_rrii LISA_BSTRINS_D ?h temp 7 0
          } else do {
            la_rri LISA_ORI temp zero_ir2_opnd (uint (?v AND 0xff)); la_rrii LISA_BSTRINS_D ?h temp 15 8
          }
        else if ?sz = 16 then do { li_wu temp (ucast (trunc16 ?v)); la_rrii LISA_BSTRINS_D ?h temp 15 0 }
        else if ?sz = 32 then li_wu ?h (trunc32 ?v)
        else if ?sz = 64 then li_d ?h ?v
        else em_fail ()"
    have "em_does tg (?body (greg t)) {t} M ?Q" if t: "t \<in> temps tg" for t
    proof -
      have tr: "reg_num (greg t) \<noteq> 0" using temp_rules[OF t] by simp
      have hr: "reg_num ?h \<noteq> 0" using reg_num_home[OF d(3)] by blast
      note ins = does_insert[OF ok(1) clob_temp[OF t], where v = ?v]
      have c8: "em_does tg (do { la_rri LISA_ORI (greg t) zero_ir2_opnd (uint (?v AND 0xff));
          if ir1_opnd_is_8l tg opnd0 then la_rrii LISA_BSTRINS_D ?h (greg t) 7 0 else la_rrii LISA_BSTRINS_D ?h (greg t) 15 8 }) {t} M ?Q"
        if "?sz = 8" by (rule does_bind, rule does_op, simp, simp, rule ins(2)) (use that tr in \<open>simp_all add: ori_imm\<close>)
      have c16: "em_does tg (do { li_wu (greg t) (ucast (trunc16 ?v)); la_rrii LISA_BSTRINS_D ?h (greg t) 15 0 }) {t} M ?Q"
        if "?sz = 16" by (rule does_bind, rule does_li_wu[OF tr], rule ins(1)) (use that tr in \<open>simp_all add: byte16\<close>)
      have c32: "em_does tg (li_wu ?h (trunc32 ?v)) {t} M ?Q" if "?sz = 32"
        by (rule does_li_wu[OF hr], rule reaches_gprI[OF ok(1) clob_refl refl refl]) (use that in \<open>simp add: x86_write_reg_def word32\<close>)
      have c64: "em_does tg (li_d ?h ?v) {t} M ?Q" if "?sz = 64"
        by (rule does_li_d[OF hr], rule reaches_gprI[OF ok(1) clob_refl refl refl]) (use that in \<open>simp add: x86_write_reg_def\<close>)
      show ?thesis using c8 c16 c32 c64 size_okD(1)[OF d(4)] by (auto simp: opnd_bytes_def split: if_splits)
    qed
    then show ?thesis using False u unfolding translate_mov_imm_to_gpr_def
      by (auto simp: em_res_def intro!: does_bind[where m = "em_gpr _ _"] does_gpr[OF d(3)] does_with_temp)
  qed
qed

text \<open>The value of a register operand, and the register that holds it.\<close>

lemma gpr_value:
  fixes tg :: target and opnd :: ir1_opnd and M :: la_mach
  assumes ok: "gpr_opnd_ok tg opnd"
  defines "w \<equiv> reg_read M (greg (home tg (ir1_opnd_base_reg_num tg opnd)))"
  shows "ir1_opnd_is_8h opnd \<Longrightarrow> x86_get tg ins seg opnd (x86_of tg M) = bstrpick 15 8 w"
    "\<not> ir1_opnd_is_8h opnd \<Longrightarrow> x86_get tg ins seg opnd (x86_of tg M) = take_bit (nat (ir1_opnd_size opnd)) w"
proof -
  note d = gpr_opnd_okD[OF ok]
  have "x86_get tg ins seg opnd (x86_of tg M) = x86_read_reg (ir1_opnd_size opnd) (ir1_opnd_is_8h opnd) w"
    using d norm_read[OF d(4) high_size] by (simp add: x86_get_def x86_of_def guest_gpr_def w_def)
  then show "ir1_opnd_is_8h opnd \<Longrightarrow> x86_get tg ins seg opnd (x86_of tg M) = bstrpick 15 8 w"
    "\<not> ir1_opnd_is_8h opnd \<Longrightarrow> x86_get tg ins seg opnd (x86_of tg M) = take_bit (nat (ir1_opnd_size opnd)) w"
    by (simp_all add: x86_read_reg_def byte_values(2))
qed

lemma does_mov_reg_reg:
  assumes ok: "gpr_opnd_ok tg opnd0" "gpr_opnd_ok tg opnd1" "ir1_opnd_size opnd0 = ir1_opnd_size opnd1"
  shows "em_does tg (translate_mov_from_gpr tg lay pir1 opnd0 opnd1) {} M
    (\<lambda>_ B' M'. reaches tg M (x86_set_gpr tg opnd0 (x86_get tg pir1 seg opnd1 (x86_of tg M)) (x86_of tg M)) M')"
    (is "em_does tg _ {} M ?Q")
proof -
  note d0 = gpr_opnd_okD[OF ok(1)] and d = gpr_opnd_okD[OF ok(2)]
  let ?v = "x86_get tg pir1 seg opnd1 (x86_of tg M)" and ?src = "greg (home tg (ir1_opnd_base_reg_num tg opnd1))"
  let ?h = "greg (home tg (ir1_opnd_base_reg_num tg opnd0))"
  note val = gpr_value[OF ok(2), where ins = pir1 and seg = seg and M = M]
  have val2: "?v = take_bit (nat (ir1_opnd_size opnd1)) (reg_read M ?src)" if "ir1_opnd_size opnd1 \<noteq> 8"
    using val(2) high_size that by blast
  let ?ins = "\<lambda>r. if ir1_opnd_is_8l tg opnd0 then la_rrii LISA_BSTRINS_D ?h r 7 0 else la_rrii LISA_BSTRINS_D ?h r 15 8"
  have low: "em_does tg (?ins ?src) {} M ?Q" if "ir1_opnd_size opnd1 = 8" "\<not> ir1_opnd_is_8h opnd1"
    by (rule does_insert(2)[OF ok(1) clob_refl]) (use that ok(3) val(2) in simp_all)
  have high: "em_does tg (do { temp \<leftarrow> em_alloc_itemp tg; do { la_rrii LISA_BSTRPICK_D temp ?src 15 8; ?ins temp }; em_free_temp tg temp }) {} M ?Q"
    if "ir1_opnd_is_8h opnd1"
  proof (rule does_with_temp)
    fix t assume t: "t \<in> temps tg"
    show "em_does tg (do { la_rrii LISA_BSTRPICK_D (greg t) ?src 15 8; ?ins (greg t) }) {t} M ?Q"
      by (rule does_bind, rule does_op, simp, simp, rule does_insert(2)[OF ok(1) clob_temp[OF t]])
        (use that ok(3) high_size[OF that] val(1) temp_rules[OF t] in \<open>simp_all add: ui6_consts\<close>)
  qed
  have c16: "em_does tg (la_rrii LISA_BSTRINS_D ?h ?src 15 0) {} M ?Q" if "ir1_opnd_size opnd1 = 16"
    by (rule does_insert(1)[OF ok(1) clob_refl]) (use that ok(3) val2 in simp_all)
  have c32: "em_does tg (la_mov32_zx ?h ?src) {} M ?Q" if "ir1_opnd_size opnd1 = 32"
    by (rule does_mov32_zx, rule reaches_gprI[OF ok(1) clob_refl _ refl, where w = ?v])
      (use that ok(3) val2 in \<open>simp_all add: x86_write_reg_def\<close>)
  have c64: "em_does tg (la_mov64 ?h ?src) {} M ?Q" if "ir1_opnd_size opnd1 = 64"
    by (rule does_mov64, rule reaches_gprI[OF ok(1) clob_refl _ refl, where w = ?v])
      (use that ok(3) val2 in \<open>simp_all add: x86_write_reg_def\<close>)
  show ?thesis unfolding translate_mov_from_gpr_def
    by (rule does_bind, rule does_gpr[OF d(3)])
      (use low high c16 c32 c64 d(5) d0(1) size_okD(1)[OF d(4)] in
        \<open>auto simp: opnd_bytes_def intro!: does_bind[where m = "em_gpr _ _"] does_gpr[OF d0(3)] split: if_splits\<close>)
qed

lemma does_mov_reg_mem:
  assumes ok: "memory_ok tg lay pir1 opnd0 M" "gpr_opnd_ok tg opnd1" "ir1_opnd_size opnd0 = ir1_opnd_size opnd1"
  shows "em_does tg (translate_mov_from_gpr tg lay pir1 opnd0 opnd1) {} M
    (\<lambda>_ B' M'. reaches tg M (x86_set tg pir1 (seg_bases tg lay M) opnd0 (x86_get tg pir1 seg opnd1 (x86_of tg M)) (x86_of tg M)) M')"
    (is "em_does tg _ {} M ?Q")
proof -
  note d = gpr_opnd_okD[OF ok(2)]
  let ?i = "home tg (ir1_opnd_base_reg_num tg opnd1)"
  let ?v = "x86_get tg pir1 seg opnd1 (x86_of tg M)"
  note val = gpr_value[OF ok(2), where ins = pir1 and seg = seg and M = M]
  have dst: "dst_ok tg lay pir1 opnd0 M" using ok(1) by (simp add: dst_ok_def)
  have mem: "\<not> ir1_opnd_is_gpr tg opnd0" using memory_okD(2)[OF ok(1)] by (simp add: ir1_opnd_is_gpr_def)
  have low: "em_does tg (store_ireg_to_ir1 tg lay pir1 (greg ?i) opnd0 False) {} M ?Q" if "\<not> ir1_opnd_is_8h opnd1"
    by (rule does_conseq[OF does_set[OF dst clob_refl room_empty(1), where v = ?v]])
      (use that home_range[OF d(3)] val(2) ok(3) in auto)
  have high: "em_does tg (do { temp \<leftarrow> em_alloc_itemp tg; do { la_rrii LISA_BSTRPICK_D temp (greg ?i) 15 8; store_ireg_to_ir1 tg lay pir1 temp opnd0 False };
      em_free_temp tg temp }) {} M ?Q" if "ir1_opnd_is_8h opnd1"
  proof (rule does_with_temp)
    fix t assume t: "t \<in> temps tg"
    show "em_does tg (do { la_rrii LISA_BSTRPICK_D (greg t) (greg ?i) 15 8; store_ireg_to_ir1 tg lay pir1 (greg t) opnd0 False }) {t} M ?Q"
      by (rule does_bind, rule does_op, simp, simp, rule does_conseq[OF does_set[OF dst clob_temp[OF t] room_empty(2)[OF t], where v = ?v]])
        (use that val(1) temp_rules[OF t] in \<open>simp_all add: ui6_consts\<close>)
  qed
  show ?thesis unfolding translate_mov_from_gpr_def
    by (rule does_bind, rule does_gpr[OF d(3)]) (use low high mem in simp)
qed

lemma mem_operand_get:
  assumes "memory_ok tg lay pir1 opnd M"
  shows "mem_operand tg (seg_base_of lay) pir1 opnd M = x86_get tg pir1 (seg_bases tg lay M) opnd (x86_of tg M)"
  unfolding x86_get_def guest_address_of[OF memory_okD(1)[OF assms]] mem_operand_def
  using memory_okD(2)[OF assms] by (simp add: x86_of_def)

lemma does_mov_from_mem:
  assumes ok: "gpr_opnd_ok tg opnd0" "memory_ok tg lay pir1 opnd1 M" "ir1_opnd_size opnd0 = ir1_opnd_size opnd1"
  shows "em_does tg (translate_mov_from_mem tg lay pir1 opnd0 opnd1) {} M
    (\<lambda>_ B' M'. reaches tg M (x86_set_gpr tg opnd0 (x86_get tg pir1 (seg_bases tg lay M) opnd1 (x86_of tg M)) (x86_of tg M)) M')"
    (is "em_does tg _ {} M ?Q")
proof -
  note d0 = gpr_opnd_okD[OF ok(1)] and d = memory_okD[OF ok(2)]
  let ?v = "x86_get tg pir1 (seg_bases tg lay M) opnd1 (x86_of tg M)" and ?h = "greg (home tg (ir1_opnd_base_reg_num tg opnd0))"
  have v: "mem_operand tg (seg_base_of lay) pir1 opnd1 M = ?v" by (rule mem_operand_get[OF ok(2)])
  have lv: "take_bit (nat (ir1_opnd_size opnd1)) (loaded em (ir1_opnd_size opnd1) ?v) = take_bit (nat (ir1_opnd_size opnd1)) ?v" for em
    using loaded_represents[of "ir1_opnd_size opnd1" ?v em] take_mem_operand[of opnd1 tg "seg_base_of lay" pir1 M] size_okD(1)[OF d(3)]
    by (simp add: v represents_value_def opnd_bytes_def)
  have tv: "take_bit (nat (ir1_opnd_size opnd1)) ?v = ?v" using take_mem_operand[of opnd1 tg "seg_base_of lay" pir1 M] by (simp add: v)
  note ld = does_load_mem[OF d(1) room_empty(2) d(4) size_okD(1)[OF d(3)], unfolded v]
  let ?body = "\<lambda>temp. if ir1_opnd_size opnd0 = 8 then do {
        load_ireg_from_ir1_mem tg lay pir1 temp opnd1 UNKNOWN_EXTENSION False;
        if ir1_opnd_is_8l tg opnd0 then la_rrii LISA_BSTRINS_D ?h temp 7 0 else la_rrii LISA_BSTRINS_D ?h temp 15 8
      }
      else if ir1_opnd_size opnd0 = 16 then do {
        load_ireg_from_ir1_mem tg lay pir1 temp opnd1 UNKNOWN_EXTENSION False;
        if ir1_opnd_is_gpr tg opnd0 then la_rrii LISA_BSTRINS_D ?h temp 15 0 else store_ireg_to_ir1 tg lay pir1 temp opnd0 False
      }
      else if ir1_opnd_size opnd0 = 32 then load_ireg_from_ir1_mem tg lay pir1 ?h opnd1 ZERO_EXTENSION False
      else if ir1_opnd_size opnd0 = 64 then load_ireg_from_ir1_mem tg lay pir1 ?h opnd1 UNKNOWN_EXTENSION False
      else em_fail ()"
  have "em_does tg (?body (greg t)) {t} M ?Q" if t: "t \<in> temps tg" for t
  proof -
    have c: "clob (temps tg) M (reg_write (greg t) u M')" if "clob (temps tg - {t}) M M'" for u M'
      by (rule clob_trans[OF clob_sub[OF that] clob_temp[OF t]])
    have c8: "em_does tg (do { load_ireg_from_ir1_mem tg lay pir1 (greg t) opnd1 UNKNOWN_EXTENSION False;
        if ir1_opnd_is_8l tg opnd0 then la_rrii LISA_BSTRINS_D ?h (greg t) 7 0 else la_rrii LISA_BSTRINS_D ?h (greg t) 15 8 }) {t} M ?Q"
      if "ir1_opnd_size opnd0 = 8"
      by (rule does_bind, rule ld[OF t], rule does_insert(2)[OF ok(1) c]) (use that temp_rules[OF t] lv ok(3) in simp_all)
    have c16: "em_does tg (do { load_ireg_from_ir1_mem tg lay pir1 (greg t) opnd1 UNKNOWN_EXTENSION False; la_rrii LISA_BSTRINS_D ?h (greg t) 15 0 }) {t} M ?Q"
      if "ir1_opnd_size opnd0 = 16"
      by (rule does_bind, rule ld[OF t], rule does_insert(1)[OF ok(1) c]) (use that temp_rules[OF t] lv ok(3) in simp_all)
    have c32: "em_does tg (load_ireg_from_ir1_mem tg lay pir1 ?h opnd1 ZERO_EXTENSION False) {t} M ?Q" if "ir1_opnd_size opnd0 = 32"
      by (rule ld[OF t], rule reaches_gprI[OF ok(1) _ refl refl], erule clob_sub)
        (use that tv ok(3) in \<open>simp add: x86_write_reg_def loaded_def\<close>)
    have c64: "em_does tg (load_ireg_from_ir1_mem tg lay pir1 ?h opnd1 UNKNOWN_EXTENSION False) {t} M ?Q" if "ir1_opnd_size opnd0 = 64"
      by (rule ld[OF t], rule reaches_gprI[OF ok(1) _ refl refl], erule clob_sub)
        (use that ok(3) in \<open>simp add: x86_write_reg_def loaded_def\<close>)
    show ?thesis using c8 c16 c32 c64 d0(1) size_okD(1)[OF d0(4)] by (auto simp: opnd_bytes_def split: if_splits)
  qed
  then show ?thesis unfolding translate_mov_from_mem_def
    by (intro does_bind[where m = "em_gpr _ _"] does_gpr[OF d0(3)] does_with_temp)
qed

lemma represents_take: "represents_value em sz v w \<Longrightarrow> take_bit (nat sz) w = take_bit (nat sz) v"
  by (auto simp: represents_value_def)

text \<open>Reading one operand and writing its value to another.\<close>

lemma does_get_set:
  assumes ok: "src_ok tg lay pir1 opnd1 M" "dst_ok tg lay pir1 opnd0 M"
    and v: "\<And>w. represents_value em (ir1_opnd_size opnd1) (x86_get tg pir1 (seg_bases tg lay M) opnd1 (x86_of tg M)) w \<Longrightarrow>
      take_bit (nat (ir1_opnd_size opnd0)) w = take_bit (nat (ir1_opnd_size opnd0)) v"
  shows "em_does tg (do { x \<leftarrow> load_ireg_from_ir1 tg lay pir1 opnd1 em False; store_ireg_to_ir1 tg lay pir1 x opnd0 False }) {} M
    (\<lambda>_ B' M'. reaches tg M (x86_set tg pir1 (seg_bases tg lay M) opnd0 v (x86_of tg M)) M')"
proof (rule does_bind, rule does_conseq[OF does_get[OF ok(1)]])
  fix x B1 M1
  let ?P = "represents_value em (ir1_opnd_size opnd1) (x86_get tg pir1 (seg_bases tg lay M) opnd1 (x86_of tg M))"
  assume "val_post tg {} M ?P x B1 M1"
  then obtain r where r: "x = greg r" "loc tg {} r B1" "clob (temps tg) M M1" "?P (reg_read M1 (greg r))"
    by (auto simp: val_post_def)
  have "B1 = {} \<or> B1 = {r} \<and> r \<in> temps tg" using r(2) by (auto simp: loc_def)
  then have room: "room tg B1" using room_empty by auto
  show "em_does tg (store_ireg_to_ir1 tg lay pir1 x opnd0 False) B1 M1
      (\<lambda>_ B' M'. reaches tg M (x86_set tg pir1 (seg_bases tg lay M) opnd0 v (x86_of tg M)) M')"
    unfolding r(1) by (rule does_conseq[OF does_set[OF ok(2) r(3) room]]) (use r(2) v[OF r(4)] in \<open>auto simp: loc_def\<close>)
qed simp_all

lemma implements_get_set:
  assumes "src_ok tg lay pir1 opnd1 M" "dst_ok tg lay pir1 opnd0 M"
    and "\<And>w. represents_value em (ir1_opnd_size opnd1) (x86_get tg pir1 (seg_bases tg lay M) opnd1 (x86_of tg M)) w \<Longrightarrow>
      take_bit (nat (ir1_opnd_size opnd0)) w = take_bit (nat (ir1_opnd_size opnd0)) v"
  shows "implements tg (do { x \<leftarrow> load_ireg_from_ir1 tg lay pir1 opnd1 em False; store_ireg_to_ir1 tg lay pir1 x opnd0 False; em_return True }) M
    (x86_set tg pir1 (seg_bases tg lay M) opnd0 v (x86_of tg M))"
  using implements_true[OF does_get_set[OF assms]] by simp

lemma translate_mov_step:
  assumes "mov_ok tg lay pir1 M"
  shows "implements tg (translate_mov tg lay pir1) M (x86_mov tg pir1 (seg_bases tg lay M) (x86_of tg M))"
proof -
  let ?o0 = "ir1_get_opnd pir1 0" and ?o1 = "ir1_get_opnd pir1 1"
  have sz: "ir1_opnd_size ?o0 = ir1_opnd_size ?o1" using assms by (simp add: mov_ok_def Let_def)
  consider (imm) "gpr_opnd_ok tg ?o0" "imm_ok tg ?o1" | (rr) "gpr_opnd_ok tg ?o0" "gpr_opnd_ok tg ?o1"
    | (rm) "gpr_opnd_ok tg ?o0" "memory_ok tg lay pir1 ?o1 M" | (mr) "memory_ok tg lay pir1 ?o0 M" "gpr_opnd_ok tg ?o1"
    | (mi) "memory_ok tg lay pir1 ?o0 M" "imm_ok tg ?o1"
    using assms unfolding mov_ok_def src_ok_def dst_ok_def Let_def by blast
  then show ?thesis
  proof cases
    case imm
    then show ?thesis using implements_true[OF does_mov_imm[OF imm sz]] gpr_opnd_okD(1)[OF imm(1)]
      by (simp add: x86_mov_def translate_mov_def imm_ok_def x86_set_reg)
  next
    case rr
    then show ?thesis using implements_true[OF does_mov_reg_reg[OF rr sz]] gpr_opnd_okD[OF rr(2)]
      by (simp add: x86_mov_def translate_mov_def x86_set_reg)
  next
    case rm
    then show ?thesis using implements_true[OF does_mov_from_mem[OF rm sz]] memory_okD(2)[OF rm(2)]
      by (simp add: x86_mov_def translate_mov_def x86_set_reg)
  next
    case mr
    then show ?thesis using implements_true[OF does_mov_reg_mem[OF mr sz]] gpr_opnd_okD[OF mr(2)]
      by (simp add: x86_mov_def translate_mov_def)
  next
    case mi
    have "\<not> ir1_opnd_is_gpr tg ?o0" using memory_okD(2)[OF mi(1)] by (simp add: ir1_opnd_is_gpr_def)
    moreover have "implements tg (do { x \<leftarrow> load_ireg_from_ir1 tg lay pir1 ?o1 UNKNOWN_EXTENSION False;
        store_ireg_to_ir1 tg lay pir1 x ?o0 False; em_return True }) M (x86_mov tg pir1 (seg_bases tg lay M) (x86_of tg M))"
      unfolding x86_mov_def
      by (rule implements_get_set) (use mi sz represents_take in \<open>auto simp: src_ok_def dst_ok_def\<close>)
    ultimately show ?thesis using mi(2) by (simp add: translate_mov_def imm_ok_def)
  qed
qed

text \<open>C11: translate\_mov is correct.  For a mov of 8, 16, 32 or (in 64-bit code) 64 bits between
  registers, a register and memory, or from an immediate, the code emitted for it runs to a state
  that represents the x86 state after the mov: the destination, high byte registers included, has
  the value of the source, a 32-bit destination register is zero extended, the other bits, registers
  and bytes of memory are as before, and so are the host registers that are neither temporaries nor
  guest registers.  Addresses of 32 bits are required not to leave their range
  when the access adds its offset.\<close>

theorem translate_mov_correct:
  assumes "mov_ok tg lay pir1 M"
  shows "implements tg (translate_mov tg lay pir1) M (x86_mov tg pir1 (seg_bases tg lay M) (x86_of tg M))"
  using assms by (rule translate_mov_step)

section \<open>mov with extension\<close>

definition x86_movzx :: "target \<Rightarrow> ir1_inst \<Rightarrow> (ir1_opnd \<Rightarrow> u64) \<Rightarrow> x86_state \<Rightarrow> x86_state" where
  "x86_movzx tg pir1 seg S = x86_set_gpr tg (ir1_get_opnd pir1 0) (x86_get tg pir1 seg (ir1_get_opnd pir1 1) S) S"

definition x86_movsx :: "target \<Rightarrow> ir1_inst \<Rightarrow> (ir1_opnd \<Rightarrow> u64) \<Rightarrow> x86_state \<Rightarrow> x86_state" where
  "x86_movsx tg pir1 seg S = (let source = ir1_get_opnd pir1 1 in
     x86_set_gpr tg (ir1_get_opnd pir1 0) (signed_take_bit (nat (ir1_opnd_size source) - 1) (x86_get tg pir1 seg source S)) S)"

text \<open>The source is 8 or 16 bits wide and narrower than the destination; where the translation adds
  the segment ds, the base of ds is 0.\<close>

definition movzx_ok :: "target \<Rightarrow> env_layout \<Rightarrow> ir1_inst \<Rightarrow> la_mach \<Rightarrow> bool" where
  "movzx_ok tg lay pir1 M \<longleftrightarrow> (let dest = ir1_get_opnd pir1 0; source = ir1_get_opnd pir1 1 in
     gpr_opnd_ok tg dest \<and> ir1_opnd_size source \<in> {8, 16} \<and> ir1_opnd_size source < ir1_opnd_size dest \<and>
     (gpr_opnd_ok tg source \<or> memory_ok tg lay pir1 (movzx_source tg source) M \<and>
       (movzx_source tg source \<noteq> source \<longrightarrow> seg_bases tg lay M (movzx_source tg source) = 0)))"

lemma sx32_small: "n \<le> 31 \<Longrightarrow> sx32 (take_bit n w) = take_bit n w"
  by (rule bit_word_eqI) (auto simp: bit_sx32 bit_take_bit_iff min_def)

lemma bstrpick_w: "unat (ui 5 (create_immh_opnd 15)) = 15" "unat (ui 5 (create_immh_opnd 8)) = 8" "unat (ui 5 (create_immh_opnd 7)) = 7"
  "unat (ui 5 (create_immh_opnd 0)) = 0" "sx32 (bstrpick 15 8 w) = bstrpick 15 8 w" "sx32 (bstrpick 7 0 w) = take_bit 8 w"
  "sx32 (bstrpick 15 0 w) = take_bit 16 w"
  by (simp_all add: ui_imm bstrpick_def sx32_small)

lemma does_movzx_reg:
  assumes ok: "gpr_opnd_ok tg opnd0" "gpr_opnd_ok tg opnd1" "ir1_opnd_size opnd1 \<in> {8, 16}" "ir1_opnd_size opnd1 < ir1_opnd_size opnd0"
  defines "h \<equiv> greg (home tg (ir1_opnd_base_reg_num tg opnd0))" and "src \<equiv> greg (home tg (ir1_opnd_base_reg_num tg opnd1))"
  shows "em_does tg (if ir1_opnd_is_8h opnd1 then
          if ir1_opnd_is_16bit tg opnd0 then do {
            tmp_opnd \<leftarrow> em_alloc_itemp tg;
            la_rrii LISA_BSTRPICK_W tmp_opnd src 15 8;
            la_rrii LISA_BSTRINS_D h tmp_opnd 15 0;
            em_free_temp tg tmp_opnd
          }
          else la_rrii LISA_BSTRPICK_W h src 15 8
        else if ir1_opnd_is_16bit tg opnd0 then
          if ir1_opnd_base_reg_num tg opnd1 = ir1_opnd_base_reg_num tg opnd0 then la_rrii LISA_BSTRINS_D h zero_ir2_opnd 15 8
          else do {
            tmp_opnd \<leftarrow> em_alloc_itemp tg;
            la_rrii LISA_BSTRPICK_W tmp_opnd src 7 0;
            la_rrii LISA_BSTRINS_D h tmp_opnd 15 0;
            em_free_temp tg tmp_opnd
          }
        else la_rrii LISA_BSTRPICK_W h src (ir1_opnd_size opnd1 - 1) 0) {} M
    (\<lambda>_ B' M'. reaches tg M (x86_set_gpr tg opnd0 (x86_get tg pir1 seg opnd1 (x86_of tg M)) (x86_of tg M)) M')"
    (is "em_does tg _ {} M ?Q")
proof -
  note d0 = gpr_opnd_okD[OF ok(1)] and d = gpr_opnd_okD[OF ok(2)]
  let ?v = "x86_get tg pir1 seg opnd1 (x86_of tg M)"
  note val = gpr_value[OF ok(2), where ins = pir1 and seg = seg and M = M, folded src_def]
  have via: "em_does tg (do { tmp \<leftarrow> em_alloc_itemp tg; do { la_rrii LISA_BSTRPICK_W tmp src m l; la_rrii LISA_BSTRINS_D h tmp 15 0 };
      em_free_temp tg tmp }) {} M ?Q"
    if v: "\<And>t. la_value LISA_BSTRPICK_W [greg t, src, create_immh_opnd m, create_immh_opnd l] M = Some ?v" "ir1_opnd_size opnd0 = 16" for m l
  proof (rule does_with_temp)
    fix t assume t: "t \<in> temps tg"
    show "em_does tg (do { la_rrii LISA_BSTRPICK_W (greg t) src m l; la_rrii LISA_BSTRINS_D h (greg t) 15 0 }) {t} M ?Q"
      unfolding h_def by (rule does_bind, rule does_op[OF _ v(1)], simp, rule does_insert(1)[OF ok(1) clob_temp[OF t]])
        (use that temp_rules[OF t] in simp_all)
  qed
  have tv: "take_bit 32 ?v = ?v" using val ok(3) by (cases "ir1_opnd_is_8h opnd1") (auto simp: bstrpick_def)
  have direct: "em_does tg (la_rrii LISA_BSTRPICK_W h src m l) {} M ?Q"
    if v: "la_value LISA_BSTRPICK_W [h, src, create_immh_opnd m, create_immh_opnd l] M = Some ?v" "ir1_opnd_size opnd0 \<noteq> 16" for m l
    by (rule does_op[OF _ v(1)], simp, rule reaches_gprI[OF ok(1) clob_refl refl])
      (use ok(3,4) v(2) size_okD(1)[OF d0(4)] tv in \<open>auto simp: h_def x86_write_reg_def opnd_bytes_def\<close>)
  have same: "em_does tg (la_rrii LISA_BSTRINS_D h zero_ir2_opnd 15 8) {} M ?Q"
    if s: "\<not> ir1_opnd_is_8h opnd1" "ir1_opnd_size opnd0 = 16" "ir1_opnd_base_reg_num tg opnd1 = ir1_opnd_base_reg_num tg opnd0"
  proof -
    have "?v = take_bit 8 (reg_read M h)" using val(2)[OF s(1)] ok(3,4) s(2,3) by (auto simp: h_def src_def)
    then have "bstrins 15 8 (reg_read M h) 0 = x86_write_reg 16 high (reg_read M h) ?v" for high
      unfolding bstrins_write(1)[symmetric] by (intro bit_word_eqI) (auto simp: bit_bstrins bit_take_bit_iff)
    then show ?thesis by (intro does_op[where v = "bstrins 15 8 (reg_read M h) 0"] reaches_gprI[OF ok(1) clob_refl refl])
      (use s in \<open>simp_all add: h_def\<close>)
  qed
  show ?thesis using via[of 15 8] via[of 7 0] direct[of 15 8] direct[of 7 0] direct[of 15 0] same val ok(3,4) d0(6)
    by (auto simp: bstrpick_w)
qed

lemma does_movzx_mem:
  assumes ok: "gpr_opnd_ok tg opnd0" "memory_ok tg lay pir1 opnd1 M" "ir1_opnd_size opnd1 \<in> {8, 16}" "ir1_opnd_size opnd1 < ir1_opnd_size opnd0"
  defines "h \<equiv> greg (home tg (ir1_opnd_base_reg_num tg opnd0))"
  shows "em_does tg (if 32 \<le> ir1_opnd_size opnd0 then load_ireg_from_ir1_mem tg lay pir1 h opnd1 ZERO_EXTENSION False
        else do {
          source_opnd \<leftarrow> load_ireg_from_ir1 tg lay pir1 opnd1 ZERO_EXTENSION False;
          store_ireg_to_ir1 tg lay pir1 source_opnd opnd0 False
        }) {} M
    (\<lambda>_ B' M'. reaches tg M (x86_set_gpr tg opnd0 (x86_get tg pir1 (seg_bases tg lay M) opnd1 (x86_of tg M)) (x86_of tg M)) M')"
    (is "em_does tg _ {} M ?Q")
proof -
  note d0 = gpr_opnd_okD[OF ok(1)] and d = memory_okD[OF ok(2)]
  let ?v = "x86_get tg pir1 (seg_bases tg lay M) opnd1 (x86_of tg M)"
  have v: "mem_operand tg (seg_base_of lay) pir1 opnd1 M = ?v" by (rule mem_operand_get[OF ok(2)])
  have tv: "take_bit 32 ?v = ?v" unfolding v[symmetric] mem_operand_def by (rule take_load_le) (use ok(3) in auto)
  note ld = does_load_mem[OF d(1) room_empty(1) d(4) size_okD(1)[OF d(3)], unfolded v]
  have "em_does tg (load_ireg_from_ir1_mem tg lay pir1 h opnd1 ZERO_EXTENSION False) {} M ?Q" if "32 \<le> ir1_opnd_size opnd0"
    unfolding h_def by (rule ld, rule reaches_gprI[OF ok(1) _ refl refl], erule clob_sub)
      (use that tv size_okD(1)[OF d0(4)] in \<open>auto simp: x86_write_reg_def loaded_def opnd_bytes_def\<close>)
  moreover have "em_does tg (do { x \<leftarrow> load_ireg_from_ir1 tg lay pir1 opnd1 ZERO_EXTENSION False; store_ireg_to_ir1 tg lay pir1 x opnd0 False }) {} M ?Q"
    using does_get_set[where v = ?v and em = ZERO_EXTENSION, of tg lay pir1 opnd1 M opnd0] ok(1,2)
    by (simp add: src_ok_def dst_ok_def x86_set_reg represents_value_def ext_value_def)
  ultimately show ?thesis by simp
qed

lemma movzx_source_get:
  assumes "movzx_source tg opnd \<noteq> opnd \<Longrightarrow> seg (movzx_source tg opnd) = 0"
  shows "x86_get tg pir1 seg (movzx_source tg opnd) S = x86_get tg pir1 seg opnd S"
proof (cases "movzx_source tg opnd = opnd")
  case False
  let ?d = "opnd\<lparr>op_imm := set_low32 dt_X86_REG_DS (op_imm opnd)\<rparr>"
  have c: "\<not> CODEIS64 tg" "op_type opnd = dt_X86_OP_MEM" "op_mem_segment opnd = dt_X86_REG_INVALID" "op_mem_base opnd = dt_X86_REG_INVALID"
    and d: "movzx_source tg opnd = ?d" using False by (auto simp: movzx_source_def split: if_splits)
  have "x86_offset tg pir1 ?d (x_gpr S) = x86_offset tg pir1 opnd (x_gpr S)"
    using c by (simp add: x86_offset_def rip_relative_def ir1_opnd_has_base_def ir1_opnd_has_index_def ir1_opnd_index_reg_num_def)
  then show ?thesis using assms[OF False] c unfolding d
    by (simp add: x86_get_def x86_address_def ir1_opnd_size_def ir1_opnd_has_seg_def)
qed simp

lemma translate_movzx_step:
  assumes "movzx_ok tg lay pir1 M"
  shows "implements tg (translate_movzx tg lay pir1) M (x86_movzx tg pir1 (seg_bases tg lay M) (x86_of tg M))"
proof -
  let ?d = "ir1_get_opnd pir1 0" and ?s = "ir1_get_opnd pir1 1"
  let ?Q = "\<lambda>x B' M'. x \<and> reaches tg M (x86_movzx tg pir1 (seg_bases tg lay M) (x86_of tg M)) M'"
  have ok: "gpr_opnd_ok tg ?d" "ir1_opnd_size ?s \<in> {8, 16}" "ir1_opnd_size ?s < ir1_opnd_size ?d"
    using assms by (auto simp: movzx_ok_def Let_def)
  have ret: "em_does tg (do { m; em_return True }) {} M ?Q"
    if "em_does tg m {} M (\<lambda>_ B' M'. reaches tg M (x86_movzx tg pir1 (seg_bases tg lay M) (x86_of tg M)) M')" for m
    by (rule does_bind, rule does_conseq[OF that], rule does_return) simp
  show ?thesis
  proof (cases "gpr_opnd_ok tg ?s")
    case True
    note d = gpr_opnd_okD[OF True]
    show ?thesis unfolding translate_movzx_def Let_def if_P[OF d(1)]
      by (intro implementsI does_bind[where m = "em_gpr _ _"] does_gpr[OF gpr_opnd_okD(3)[OF ok(1)]] does_gpr[OF d(3)] ret)
        (unfold x86_movzx_def, rule does_movzx_reg[OF ok(1) True ok(2,3)])
  next
    case False
    let ?m = "movzx_source tg ?s"
    have mem: "memory_ok tg lay pir1 ?m M" "?m \<noteq> ?s \<Longrightarrow> seg_bases tg lay M ?m = 0"
      using assms False by (auto simp: movzx_ok_def Let_def)
    have sz: "ir1_opnd_size ?m = ir1_opnd_size ?s" "op_type ?m = op_type ?s" by (simp_all add: movzx_source_def ir1_opnd_size_def)
    have nr: "\<not> ir1_opnd_is_gpr tg ?s" using memory_okD(2)[OF mem(1)] sz(2) by (simp add: ir1_opnd_is_gpr_def)
    have e: "x86_movzx tg pir1 (seg_bases tg lay M) S =
        x86_set_gpr tg ?d (x86_get tg pir1 (seg_bases tg lay M) ?m S) S" for S
      unfolding x86_movzx_def by (subst movzx_source_get[where seg = "seg_bases tg lay M"]) (rule mem(2), assumption, rule refl)
    show ?thesis unfolding translate_movzx_def Let_def if_not_P[OF nr]
      by (intro implementsI does_bind[where m = "em_gpr _ _"] does_gpr[OF gpr_opnd_okD(3)[OF ok(1)]] ret)
        (unfold e, rule does_movzx_mem[OF ok(1) mem(1)], use ok sz in simp_all)
  qed
qed

text \<open>C16: translate\_movzx is correct: for a source of 8 or 16 bits, in a register or in memory, and a
  wider destination register, the code emitted for the instruction runs to a state that represents
  the x86 state in which the destination has the zero extended source.\<close>

theorem translate_movzx_correct:
  assumes "movzx_ok tg lay pir1 M"
  shows "implements tg (translate_movzx tg lay pir1) M (x86_movzx tg pir1 (seg_bases tg lay M) (x86_of tg M))"
  using assms by (rule translate_movzx_step)

definition movsx_ok :: "target \<Rightarrow> env_layout \<Rightarrow> ir1_inst \<Rightarrow> la_mach \<Rightarrow> bool" where
  "movsx_ok tg lay pir1 M \<longleftrightarrow> gpr_opnd_ok tg (ir1_get_opnd pir1 0) \<and> dst_ok tg lay pir1 (ir1_get_opnd pir1 1) M"

definition movsxd_ok :: "target \<Rightarrow> env_layout \<Rightarrow> ir1_inst \<Rightarrow> la_mach \<Rightarrow> bool" where
  "movsxd_ok tg lay pir1 M \<longleftrightarrow> movsx_ok tg lay pir1 M \<and> CODEIS64 tg \<and> ir1_opnd_size (ir1_get_opnd pir1 1) = 32 \<and>
     ir1_opnd_size (ir1_get_opnd pir1 0) \<in> {32, 64}"

lemma translate_movsx_step:
  assumes "movsx_ok tg lay pir1 M"
  shows "implements tg (translate_movsx tg lay pir1) M (x86_movsx tg pir1 (seg_bases tg lay M) (x86_of tg M))"
proof -
  have ok: "gpr_opnd_ok tg (ir1_get_opnd pir1 0)" "dst_ok tg lay pir1 (ir1_get_opnd pir1 1) M" using assms by (simp_all add: movsx_ok_def)
  show ?thesis unfolding translate_movsx_def x86_movsx_def Let_def x86_set_reg[OF ok(1), of pir1 "seg_bases tg lay M", symmetric]
    by (rule implements_get_set) (use ok in \<open>auto simp: src_ok_def dst_ok_def represents_value_def ext_value_def\<close>)
qed

lemma does_sign_32:
  assumes ok: "dst_ok tg lay pir1 opnd M" "ir1_opnd_size opnd = 32"
    and Q: "\<And>M'. clob (temps tg) M M' \<Longrightarrow>
      Q () {} (reg_write h (signed_take_bit 31 (x86_get tg pir1 (seg_bases tg lay M) opnd (x86_of tg M))) M')"
  shows "em_does tg (load_ireg_from_ir1_2 tg lay pir1 h opnd SIGN_EXTENSION False) {} M Q"
proof (cases "gpr_opnd_ok tg opnd")
  case True
  note d = gpr_opnd_okD[OF True] and val = gpr_value(2)[OF True, where ins = pir1 and seg = "seg_bases tg lay M" and M = M]
  have v: "x86_get tg pir1 (seg_bases tg lay M) opnd (x86_of tg M) = take_bit 32 (reg_read M (greg (home tg (ir1_opnd_base_reg_num tg opnd))))"
    using val high_size[of opnd] ok(2) by fastforce
  have "em_does tg (load_ireg_from_ir1_gpr tg h opnd SIGN_EXTENSION) {} M Q"
    unfolding load_ireg_from_ir1_gpr_def la_mov32_sx_def
    by (rule does_bind, rule does_gpr[OF d(3)], simp add: ok(2), rule does_op, simp, simp)
      (use Q[OF clob_refl] in \<open>simp add: v byte_values(6)[symmetric]\<close>)
  then show ?thesis using d by (simp add: load_ireg_from_ir1_2_def)
next
  case False
  then have mem: "memory_ok tg lay pir1 opnd M" using ok(1) by (simp add: dst_ok_def)
  note d = memory_okD[OF mem]
  have "em_does tg (load_ireg_from_ir1_mem tg lay pir1 h opnd SIGN_EXTENSION False) {} M Q"
    by (rule does_load_mem[OF d(1) room_empty(1) d(4) size_okD(1)[OF d(3)]])
      (use Q ok(2) in \<open>simp add: loaded_def mem_operand_get[OF mem]\<close>)
  then show ?thesis using d(2) by (simp add: load_ireg_from_ir1_2_def)
qed

lemma translate_movsxd_step:
  assumes "movsxd_ok tg lay pir1 M"
  shows "implements tg (translate_movsxd tg lay pir1) M (x86_movsx tg pir1 (seg_bases tg lay M) (x86_of tg M))"
proof -
  let ?d = "ir1_get_opnd pir1 0" and ?s = "ir1_get_opnd pir1 1"
  have ok: "gpr_opnd_ok tg ?d" "dst_ok tg lay pir1 ?s M" "CODEIS64 tg" "ir1_opnd_size ?s = 32" "ir1_opnd_size ?d \<in> {32, 64}"
    using assms by (auto simp: movsxd_ok_def movsx_ok_def)
  let ?h = "greg (home tg (ir1_opnd_base_reg_num tg ?d))"
  let ?w = "signed_take_bit 31 (x86_get tg pir1 (seg_bases tg lay M) ?s (x86_of tg M))"
  let ?R = "\<lambda>x B' M'. x \<and> reaches tg M (x86_movsx tg pir1 (seg_bases tg lay M) (x86_of tg M)) M'"
  note d = gpr_opnd_okD[OF ok(1)]
  have hr: "reg_num ?h \<noteq> 0" using reg_num_home[OF d(3)] by blast
  have "em_does tg (do { (if TARGET_X86_64 tg \<and> CODEIS64 tg \<and> ir1_opnd_size ?d = 32 then la_rrii LISA_BSTRPICK_D ?h ?h 31 0 else em_skip); em_return True })
      {} (reg_write ?h ?w N) ?R" if N: "clob (temps tg) M N" for N
  proof -
    let ?u = "x86_write_reg (ir1_opnd_size ?d) (ir1_opnd_is_8h ?d) (reg_read N ?h) ?w"
    have r: "?R True B (reg_write ?h ?u N)" for B
      using reaches_gprI[OF ok(1) N refl refl refl] by (simp add: x86_movsx_def Let_def ok(4)[unfolded One_nat_def])
    show ?thesis using ok(3,5) r hr
      by (auto simp: x86_write_reg_def CODEIS64_def TARGET_X86_64_def intro!: does_bind does_narrow does_return)
  qed
  then show ?thesis unfolding translate_movsxd_def
    by (intro implementsI does_bind[where m = "em_gpr _ _"] does_gpr[OF d(3)]
        does_bind[where m = "load_ireg_from_ir1_2 _ _ _ _ _ _ _"] does_sign_32[OF ok(2,4)])
qed

text \<open>C17: translate\_movsx and translate\_movsxd are correct: the destination register gets the sign
  extended source, from a register or from memory; for movsxd, in 64-bit code, the source has 32 bits
  and the destination 32 or 64, the upper half being zero in the first case.\<close>

theorem translate_movsx_correct:
  "(movsx_ok tg lay pir1 M \<longrightarrow> implements tg (translate_movsx tg lay pir1) M (x86_movsx tg pir1 (seg_bases tg lay M) (x86_of tg M))) \<and>
   (movsxd_ok tg lay pir1 M \<longrightarrow> implements tg (translate_movsxd tg lay pir1) M (x86_movsx tg pir1 (seg_bases tg lay M) (x86_of tg M)))"
  using translate_movsx_step translate_movsxd_step by blast

end
