(* ===== verification/Tr_Stack.thy ===== *)
theory Tr_Stack
  imports Tr_Mov_Correct
begin

text \<open>
  push, pop, pusha and popa: the code of \<open>Tr_Mov\<close> for them moves data to and from the stack of the
  x86 state.
\<close>

section \<open>Stack operands\<close>

text \<open>The address size of the instruction is that of the stack, and outside 64-bit code the access at
  distance \<open>k\<close> from the stack pointer does not wrap around.\<close>

definition sp_reg :: "target \<Rightarrow> dt_x86_reg \<Rightarrow> bool" where
  "sp_reg tg r \<longleftrightarrow> r = dt_X86_REG_ESP \<or> CODEIS64 tg \<and> r = dt_X86_REG_RSP"

definition stack_ok :: "target \<Rightarrow> ir1_inst \<Rightarrow> int \<Rightarrow> la_mach \<Rightarrow> bool" where
  "stack_ok tg pir1 k M \<longleftrightarrow> -2048 \<le> k \<and> k \<le> 2047 \<and> ir1_addr_size pir1 = (if CODEIS64 tg then 64 else 32) \<and>
     (CODEIS64 tg \<or> 0 \<le> uint (guest_gpr tg M esp) + k \<and> uint (guest_gpr tg M esp) + k < 2 ^ 32)"

lemma esp_index_ok [simp]: "gpr_index tg esp"
  by (simp add: gpr_index_def)

lemma sp_reg_num: "sp_reg tg r \<Longrightarrow> base_reg_num_gpr tg r = Some esp"
  unfolding sp_reg_def by (elim disjE conjE) (simp_all add: base_reg_num_gpr_def CODEIS64_def TARGET_X86_64_def)

lemma stack_opnd:
  fixes junk :: ir1_opnd and k :: int
  assumes r: "sp_reg tg r" and sz: "sz \<in> {16, 32, 64}"
  defines "opnd \<equiv> ir1_opnd_build_mem sz r (of_int k) junk"
  shows "op_type opnd = dt_X86_OP_MEM" "ir1_opnd_size opnd = sz" "ir1_opnd_has_base opnd" "\<not> ir1_opnd_has_index opnd"
    "\<not> ir1_opnd_has_seg opnd" "ir1_opnd_base_reg_num tg opnd = esp" "op_mem_disp opnd = of_int k" "\<not> rip_relative tg opnd"
proof -
  have nz: "r \<noteq> dt_X86_REG_INVALID" "r \<noteq> dt_X86_REG_RIP" using r by (auto simp: sp_reg_def)
  show "ir1_opnd_size opnd = sz" using sz by (auto simp: opnd_def ir1_opnd_build_mem_def ir1_opnd_size_def)
  have m: "(0xffffffff00000000 :: u64) = push_bit 32 (mask 32)" by (simp add: mask_eq_exp_minus_1 push_bit_eq_mult)
  have "trunc32 (set_low32 0 w) = 0" for w
    unfolding set_low32_def m by (rule bit_word_eqI) (simp add: bit_simps)
  then show "\<not> ir1_opnd_has_seg opnd" by (simp add: opnd_def ir1_opnd_build_mem_def ir1_opnd_has_seg_def op_mem_segment_def)
  show "ir1_opnd_base_reg_num tg opnd = esp" using nz sp_reg_num[OF r]
    by (simp add: opnd_def ir1_opnd_build_mem_def ir1_opnd_base_reg_num_def)
  show "ir1_opnd_has_base opnd" "\<not> rip_relative tg opnd" using nz
    by (simp_all add: opnd_def ir1_opnd_build_mem_def ir1_opnd_has_base_def rip_relative_def)
qed (simp_all add: opnd_def ir1_opnd_build_mem_def ir1_opnd_has_index_def)

lemma to_longx_small:
  assumes "-2048 \<le> k" "k \<le> 2047"
  shows "to_longx tg (of_int k) = of_int k" "sint (of_int k :: u64) = k" "\<not> si12_overflow (of_int k)"
proof -
  show s: "sint (of_int k :: u64) = k" using assms by (simp add: signed_of_int signed_take_bit_int_eq_self)
  show "\<not> si12_overflow (of_int k)" using assms by (simp add: si12_overflow_def s)
  have k: "signed_take_bit 31 k = k" using assms by (simp add: signed_take_bit_int_eq_self)
  have b: "bit k (min n 31) = bit k n" for n using bit_signed_take_bit_iff[of 31 k n] unfolding k by (simp add: min.commute)
  have "sext32 (trunc32 (of_int k)) = of_int k"
  proof (rule bit_word_eqI)
    fix n :: nat assume "n < LENGTH(64)"
    moreover have "min n 31 < 32" by (simp add: min_def)
    ultimately have "bit (sext32 (trunc32 (of_int k))) n \<longleftrightarrow> bit k (min n 31)"
      by (simp add: bit_signed_iff bit_ucast_iff bit_word_of_int_iff min.commute)
    then show "bit (sext32 (trunc32 (of_int k))) n = bit (of_int k :: u64) n"
      unfolding b using \<open>n < LENGTH(64)\<close> by (simp add: bit_word_of_int_iff)
  qed
  then show "to_longx tg (of_int k) = of_int k" by (simp add: to_longx_def)
qed

lemma take_bit_add_small:
  fixes w :: u64
  assumes "0 \<le> uint w + k" "uint w + k < 2 ^ 32"
  shows "take_bit 32 (w + of_int k) = w + of_int k"
proof -
  have "w + of_int k = of_int (uint w + k)" by simp
  then have "uint (w + of_int k) = uint w + k" using assms by (simp only: uint_word_of_int) (simp add: mod_pos_pos_trivial)
  then show ?thesis using assms by (simp add: word_uint_eq_iff unsigned_take_bit_eq take_bit_int_eq_self)
qed

lemma stack_memory:
  fixes junk :: ir1_opnd and k :: int and lay :: env_layout
  assumes r: "sp_reg tg r" and sz: "sz \<in> {16, 32, 64}" "size_ok tg sz" and st: "stack_ok tg pir1 k M"
  defines "opnd \<equiv> ir1_opnd_build_mem sz r (of_int k) junk"
  shows "memory_ok tg lay pir1 opnd M" "guest_address tg (seg_base_of lay) pir1 opnd M = norm tg (guest_gpr tg M esp + of_int k)"
proof -
  note o = stack_opnd[OF r sz(1), of k junk, folded opnd_def]
  have k: "-2048 \<le> k" "k \<le> 2047" and as: "ir1_addr_size pir1 = (if CODEIS64 tg then 64 else 32)" using st by (auto simp: stack_ok_def)
  have ok: "mem_opnd_ok tg (seg_base_of lay) pir1 opnd" using o as by (simp add: mem_opnd_ok_def)
  have "take_bit 32 (host_address tg (seg_base_of lay) pir1 opnd M) = host_address tg (seg_base_of lay) pir1 opnd M" if "\<not> CODEIS64 tg"
  proof -
    have "host_address tg (seg_base_of lay) pir1 opnd M = guest_gpr tg M esp + of_int k"
      using o as that by (simp add: host_address_def mem_reg_def mem_sum_def base_index_def mem_disp_def mem_off_def split_off_def
          to_longx_small[OF k] guest_gpr_def norm_def)
    then show ?thesis using take_bit_add_small[of "guest_gpr tg M esp" k] st that by (simp add: stack_ok_def)
  qed
  then have "mem_exact tg (seg_base_of lay) pir1 opnd M" unfolding mem_exact_iff[OF ok] using as by auto
  then show "memory_ok tg lay pir1 opnd M" using ok sz(2) o(2) by (simp add: memory_ok_def)
  show "guest_address tg (seg_base_of lay) pir1 opnd M = norm tg (guest_gpr tg M esp + of_int k)"
    using o as by (simp add: guest_address_def x86_address_def x86_offset_def norm_def)
qed

section \<open>The stack pointer\<close>

definition x86_add_sp :: "target \<Rightarrow> int \<Rightarrow> x86_state \<Rightarrow> x86_state" where
  "x86_add_sp tg k S = S\<lparr>x_gpr := (x_gpr S)(esp := norm tg (x_gpr S esp + of_int k))\<rparr>"

lemma does_add_sp:
  assumes M: "reaches tg M S N" and k: "-2048 \<le> k" "k \<le> 2047"
  shows "em_does tg (la_addi_addrx tg (greg (home tg esp)) (greg (home tg esp)) k) B N
    (\<lambda>_ B' M'. reaches tg M (x86_add_sp tg k S) M')"
proof -
  let ?h = "greg (home tg esp)"
  have w: "reaches tg M (x86_add_sp tg k S) (reg_write ?h u N)" if "norm tg u = norm tg (reg_read N ?h + of_int k)" for u
  proof -
    have S: "x86_of tg N = S" using M by (simp add: reaches_def)
    have "norm tg u = norm tg (x_gpr S esp + of_int k)"
      using that norm_cong_add[of tg "x_gpr S esp" "reg_read N ?h"] unfolding S[symmetric] by (simp add: x86_of_def guest_gpr_def)
    then show ?thesis using reaches_trans[OF M x86_of_write[OF clob_refl esp_index_ok, of tg N u]] by (simp add: x86_add_sp_def S)
  qed
  have "em_does tg (la_rri LISA_ADDI_D ?h ?h k) B N (\<lambda>_ B' M'. reaches tg M (x86_add_sp tg k S) M')"
    by (rule does_op, simp, simp, rule w) (simp add: si12_imm[OF k])
  moreover have "em_does tg (la_rri LISA_ADDI_W ?h ?h k) B N (\<lambda>_ B' M'. reaches tg M (x86_add_sp tg k S) M')" if "\<not> CODEIS64 tg"
    by (rule does_op, simp, simp, rule w) (simp add: si12_imm[OF k] norm_narrow(1)[OF that])
  ultimately show ?thesis by (auto simp: la_addi_addrx_def CODEIS64_def TARGET_X86_64_def)
qed

section \<open>push\<close>

definition x86_push :: "target \<Rightarrow> ir1_inst \<Rightarrow> (ir1_opnd \<Rightarrow> u64) \<Rightarrow> x86_state \<Rightarrow> x86_state" where
  "x86_push tg pir1 seg S =
    (let opnd = ir1_get_opnd pir1 0;
         n = ir1_opnd_size opnd div 8;
         sp = norm tg (x_gpr S esp - of_int n)
     in S\<lparr>x_gpr := (x_gpr S)(esp := sp), x_mem := store_le (nat n) (x86_get tg pir1 seg opnd S) sp (x_mem S)\<rparr>)"

definition stack_size :: "target \<Rightarrow> int \<Rightarrow> bool" where
  "stack_size tg sz \<longleftrightarrow> sz = 16 \<or> sz = (if CODEIS64 tg then 64 else 32)"

definition push_ok :: "target \<Rightarrow> env_layout \<Rightarrow> ir1_inst \<Rightarrow> la_mach \<Rightarrow> bool" where
  "push_ok tg lay pir1 M \<longleftrightarrow> (let opnd = ir1_get_opnd pir1 0 in
     src_ok tg lay pir1 opnd M \<and> \<not> ir1_opnd_is_seg opnd \<and> stack_size tg (ir1_opnd_size opnd) \<and> stack_ok tg pir1 (- (ir1_opnd_size opnd div 8)) M)"

lemma stack_size_ok: "stack_size tg sz \<Longrightarrow> sz \<in> {16, 32, 64}" "stack_size tg sz \<Longrightarrow> size_ok tg sz"
  "stack_size tg sz \<Longrightarrow> 8 * (sz div 8) = sz" "stack_size tg sz \<Longrightarrow> sz div 8 \<in> {2, 4, 8}" "stack_size tg sz \<Longrightarrow> nat sz div 8 = nat (sz div 8)"
  by (auto simp: stack_size_def size_ok_def split: if_splits)

text \<open>A write to a stack slot, as a change of memory.\<close>

lemma x86_set_stack:
  assumes r: "sp_reg tg r" and sz: "stack_size tg sz" and st: "stack_ok tg pir1 k M"
  shows "x86_set tg pir1 (seg_bases tg lay M) (ir1_opnd_build_mem sz r (of_int k) junk) v (x86_of tg M) =
    (x86_of tg M)\<lparr>x_mem := store_le (nat (sz div 8)) v (norm tg (x_gpr (x86_of tg M) esp + of_int k)) (x_mem (x86_of tg M))\<rparr>"
    "x86_get tg pir1 (seg_bases tg lay M) (ir1_opnd_build_mem sz r (of_int k) junk) (x86_of tg M) =
    load_le (nat (sz div 8)) (x_mem (x86_of tg M)) (norm tg (x_gpr (x86_of tg M) esp + of_int k))"
proof -
  note z = stack_size_ok[OF sz]
  note o = stack_opnd[OF r z(1), of k junk] and m = stack_memory[OF r z(1,2) st, of lay junk]
  have a: "x86_address tg pir1 (ir1_opnd_build_mem sz r (of_int k) junk) (x_gpr (x86_of tg M))
      (seg_bases tg lay M (ir1_opnd_build_mem sz r (of_int k) junk)) = norm tg (x_gpr (x86_of tg M) esp + of_int k)"
    unfolding guest_address_of[OF memory_okD(1)[OF m(1)]] m(2) by (simp add: x86_of_def)
  show "x86_set tg pir1 (seg_bases tg lay M) (ir1_opnd_build_mem sz r (of_int k) junk) v (x86_of tg M) =
    (x86_of tg M)\<lparr>x_mem := store_le (nat (sz div 8)) v (norm tg (x_gpr (x86_of tg M) esp + of_int k)) (x_mem (x86_of tg M))\<rparr>"
    unfolding x86_set_def a by (simp add: o z(5))
  show "x86_get tg pir1 (seg_bases tg lay M) (ir1_opnd_build_mem sz r (of_int k) junk) (x86_of tg M) =
    load_le (nat (sz div 8)) (x_mem (x86_of tg M)) (norm tg (x_gpr (x86_of tg M) esp + of_int k))"
    unfolding x86_get_def a by (simp add: o z(5))
qed

lemma translate_push_step:
  assumes "push_ok tg lay pir1 M"
  shows "implements tg (translate_push tg lay junk pir1) M (x86_push tg pir1 (seg_bases tg lay M) (x86_of tg M))"
proof -
  let ?o = "ir1_get_opnd pir1 0" and ?sb = "seg_bases tg lay M" and ?S = "x86_of tg M"
  let ?n = "ir1_opnd_size ?o div 8"
  let ?m = "ir1_opnd_build_mem (8 * ?n) (if CODEIS64 tg then dt_X86_REG_RSP else dt_X86_REG_ESP) (of_int (- ?n)) junk"
  have ok: "src_ok tg lay pir1 ?o M" "\<not> ir1_opnd_is_seg ?o" "stack_size tg (ir1_opnd_size ?o)" "stack_ok tg pir1 (- ?n) M"
    using assms by (auto simp: push_ok_def Let_def)
  have sp: "sp_reg tg (if CODEIS64 tg then dt_X86_REG_RSP else dt_X86_REG_ESP)" by (simp add: sp_reg_def)
  note sz = stack_size_ok[OF ok(3)]
  have "dst_ok tg lay pir1 ?m M" "ir1_opnd_size ?m = ir1_opnd_size ?o"
    using stack_memory(1)[OF sp sz(1,2) ok(4), of lay junk] stack_opnd(2)[OF sp sz(1), of "- ?n" junk] unfolding sz(3) dst_ok_def by blast+
  then have set: "em_does tg (do { x \<leftarrow> load_ireg_from_ir1 tg lay pir1 ?o UNKNOWN_EXTENSION False; store_ireg_to_ir1 tg lay pir1 x ?m False }) {} M
      (\<lambda>_ B' M'. reaches tg M (x86_set tg pir1 ?sb ?m (x86_get tg pir1 ?sb ?o ?S) ?S) M')"
    by (intro does_get_set[OF ok(1)]) (simp_all add: represents_take)
  have "x86_add_sp tg (- ?n) (x86_set tg pir1 ?sb ?m (x86_get tg pir1 ?sb ?o ?S) ?S) = x86_push tg pir1 ?sb ?S"
    unfolding sz(3) x86_set_stack[OF sp ok(3,4)] by (simp add: x86_add_sp_def x86_push_def Let_def)
  then have "em_does tg (do { x \<leftarrow> load_ireg_from_ir1 tg lay pir1 ?o UNKNOWN_EXTENSION False; store_ireg_to_ir1 tg lay pir1 x ?m False } \<bind>
      (\<lambda>_. la_addi_addrx tg (greg (home tg esp)) (greg (home tg esp)) (- ?n))) {} M (\<lambda>_ B' M'. reaches tg M (x86_push tg pir1 ?sb ?S) M')"
    using sz(4) by (intro does_bind[OF does_conseq[OF set]]) (drule does_add_sp[where k = "- ?n"], auto)
  from implements_true[OF this] show ?thesis using ok(2)
    by (simp add: translate_push_def em_gpr_home stack_step_def Let_def split del: if_split)
qed

text \<open>C12: translate\_push is correct: for a register, a memory operand or an immediate of 16 bits or
  of the width of the stack, the code emitted runs to a state that represents the x86 state after the
  push: the value of the operand, computed before the stack pointer moves, is in the slot below the
  old top of the stack, and the stack pointer has its address.\<close>

theorem translate_push_correct:
  assumes "push_ok tg lay pir1 M"
  shows "implements tg (translate_push tg lay junk pir1) M (x86_push tg pir1 (seg_bases tg lay M) (x86_of tg M))"
  using assms by (rule translate_push_step)

section \<open>pop\<close>

definition x86_pop :: "target \<Rightarrow> ir1_inst \<Rightarrow> (ir1_opnd \<Rightarrow> u64) \<Rightarrow> x86_state \<Rightarrow> x86_state" where
  "x86_pop tg pir1 seg S =
    (let opnd = ir1_get_opnd pir1 0; n = ir1_opnd_size opnd div 8
     in x86_set tg pir1 seg opnd (load_le (nat n) (x_mem S) (norm tg (x_gpr S esp))) (x86_add_sp tg n S))"

text \<open>The destination as the translation addresses it before the stack pointer moves.\<close>

definition pop_dest :: "target \<Rightarrow> ir1_opnd \<Rightarrow> ir1_opnd" where
  "pop_dest tg opnd = (if ir1_opnd_is_gpr_used tg opnd 4 then add_disp (ir1_opnd_size opnd div 8) opnd else opnd)"

text \<open>A register destination, or a memory operand in which the stack pointer is at most the base; the
  stack pointer itself only as a whole.\<close>

definition pop_ok :: "target \<Rightarrow> env_layout \<Rightarrow> ir1_inst \<Rightarrow> la_mach \<Rightarrow> bool" where
  "pop_ok tg lay pir1 M \<longleftrightarrow> (let opnd = ir1_get_opnd pir1 0 in
     stack_size tg (ir1_opnd_size opnd) \<and> \<not> ir1_opnd_is_seg opnd \<and> stack_ok tg pir1 0 M \<and>
     (gpr_opnd_ok tg opnd \<and> (ir1_opnd_size opnd = 16 \<longrightarrow> ir1_opnd_base_reg_num tg opnd \<noteq> esp) \<or>
      memory_ok tg lay pir1 (pop_dest tg opnd) M \<and> \<not> rip_relative tg opnd \<and>
       (ir1_opnd_has_index opnd \<longrightarrow> ir1_opnd_index_reg_num tg opnd \<noteq> esp)))"

lemma does_pop_through:
  assumes ok: "dst_ok tg lay pir1 (pop_dest tg (ir1_get_opnd pir1 0)) M" "\<not> ir1_opnd_is_seg (ir1_get_opnd pir1 0)"
    and sz: "stack_size tg (ir1_opnd_size (ir1_get_opnd pir1 0))" and r: "sp_reg tg r" and st: "stack_ok tg pir1 0 M"
  defines "opnd \<equiv> ir1_get_opnd pir1 0" and "S \<equiv> x86_of tg M"
  defines "n \<equiv> ir1_opnd_size opnd div 8"
  shows "em_does tg (pop_through tg lay pir1 (ir1_opnd_build_mem (ir1_opnd_size opnd) r 0 junk) em) {} M
    (\<lambda>_ B' M'. reaches tg M (x86_add_sp tg n (x86_set tg pir1 (seg_bases tg lay M) (pop_dest tg opnd)
      (load_le (nat n) (x_mem S) (norm tg (x_gpr S esp))) S)) M')"
proof -
  note z = stack_size_ok[OF sz]
  let ?m = "ir1_opnd_build_mem (ir1_opnd_size opnd) r 0 junk" and ?v = "load_le (nat n) (x_mem S) (norm tg (x_gpr S esp))"
  have m: "src_ok tg lay pir1 ?m M" "ir1_opnd_size ?m = ir1_opnd_size opnd"
    using stack_memory(1)[OF r z(1,2) st, of lay junk] stack_opnd(2)[OF r z(1), of 0 junk] by (simp_all add: src_ok_def dst_ok_def opnd_def)
  have v: "x86_get tg pir1 (seg_bases tg lay M) ?m S = ?v"
    using x86_set_stack(2)[OF r sz st, of lay junk] by (simp add: opnd_def S_def n_def)
  have ps: "ir1_opnd_size (pop_dest tg opnd) = ir1_opnd_size opnd" by (simp add: pop_dest_def add_disp_def ir1_opnd_size_def)
  have set: "em_does tg (do { x \<leftarrow> load_ireg_from_ir1 tg lay pir1 ?m em False; store_ireg_to_ir1 tg lay pir1 x (pop_dest tg opnd) False }) {} M
      (\<lambda>_ B' M'. reaches tg M (x86_set tg pir1 (seg_bases tg lay M) (pop_dest tg opnd) ?v S) M')"
    unfolding S_def by (rule does_get_set[OF m(1) ok(1)[folded opnd_def]]) (use represents_take v[unfolded S_def] in \<open>simp add: ps m(2)\<close>)
  have "em_does tg (do { x \<leftarrow> load_ireg_from_ir1 tg lay pir1 ?m em False; store_ireg_to_ir1 tg lay pir1 x (pop_dest tg opnd) False } \<bind>
      (\<lambda>_. la_addi_addrx tg (greg (home tg esp)) (greg (home tg esp)) n)) {} M
      (\<lambda>_ B' M'. reaches tg M (x86_add_sp tg n (x86_set tg pir1 (seg_bases tg lay M) (pop_dest tg opnd) ?v S)) M')"
    using z(4) by (intro does_bind[OF does_conseq[OF set]]) (drule does_add_sp[where k = n], auto simp: n_def opnd_def)
  moreover have "stack_step tg opnd = n" using ok(2) by (simp add: stack_step_def n_def opnd_def)
  ultimately show ?thesis
    by (simp add: pop_through_def em_gpr_home pop_dest_def Let_def opnd_def n_def split del: if_split cong: if_cong)
qed

lemma does_pop_to_gpr:
  assumes ok: "gpr_opnd_ok tg (ir1_get_opnd pir1 0)" "\<not> ir1_opnd_is_seg (ir1_get_opnd pir1 0)"
    and sz: "ir1_opnd_size (ir1_get_opnd pir1 0) = (if CODEIS64 tg then 64 else 32)" and r: "sp_reg tg r" and st: "stack_ok tg pir1 0 M"
    and em: "em = (if CODEIS64 tg then UNKNOWN_EXTENSION else SIGN_EXTENSION)"
  defines "opnd \<equiv> ir1_get_opnd pir1 0" and "S \<equiv> x86_of tg M"
  defines "n \<equiv> ir1_opnd_size opnd div 8"
  defines "T \<equiv> x86_set_gpr tg opnd (load_le (nat n) (x_mem S) (norm tg (x_gpr S esp))) S"
  shows "em_does tg (pop_to_gpr tg lay pir1 (ir1_opnd_build_mem (ir1_opnd_size opnd) r 0 junk) em) {} M
    (\<lambda>_ B' M'. reaches tg M (if ir1_opnd_base_reg_num tg opnd = esp then T else x86_add_sp tg n T) M')"
proof -
  note d = gpr_opnd_okD[OF ok(1)]
  have ss: "stack_size tg (ir1_opnd_size opnd)" using sz by (simp add: stack_size_def opnd_def)
  note z = stack_size_ok[OF ss]
  let ?m = "ir1_opnd_build_mem (ir1_opnd_size opnd) r 0 junk" and ?v = "load_le (nat n) (x_mem S) (norm tg (x_gpr S esp))"
  let ?h = "greg (home tg (ir1_opnd_base_reg_num tg opnd))"
  have mem: "memory_ok tg lay pir1 ?m M" using stack_memory(1)[OF r z(1,2) st, of lay junk] by simp
  note md = memory_okD[OF mem]
  have ms: "ir1_opnd_size ?m = ir1_opnd_size opnd" using stack_opnd(2)[OF r z(1), of 0 junk] by simp
  have v: "mem_operand tg (seg_base_of lay) pir1 ?m M = ?v"
    unfolding mem_operand_get[OF mem] using x86_set_stack(2)[OF r ss st, of lay junk] by (simp add: S_def n_def)
  have "em_does tg (load_ireg_from_ir1_mem tg lay pir1 ?h ?m em False) {} M (\<lambda>_ B' M'. reaches tg M T M')"
  proof (rule does_load_mem[OF md(1) room_empty(1) md(4) size_okD(1)[OF md(3)]])
    fix M' assume c: "clob (temps tg - {}) M M'"
    have u: "norm tg (loaded em (ir1_opnd_size opnd) ?v) = norm tg (x86_write_reg (ir1_opnd_size opnd) (ir1_opnd_is_8h opnd) (reg_read M ?h) ?v)"
      using norm_narrow(1)[of tg ?v] sz em
      by (cases "CODEIS64 tg") (simp_all add: opnd_def loaded_def x86_write_reg_def sx32_def norm_narrow(2))
    have i: "0 < home tg (ir1_opnd_base_reg_num tg opnd)" "home tg (ir1_opnd_base_reg_num tg opnd) < 32" "reg_num ?h \<noteq> 0"
      using home_range[OF d(3)] reg_num_home[OF d(3)] by (simp_all add: opnd_def)
    have "clob (temps tg \<union> {home tg (ir1_opnd_base_reg_num tg opnd)}) M (reg_write ?h (loaded em (ir1_opnd_size opnd) ?v) M')"
      by (rule clob_trans[OF clob_mono[OF clob_sub[OF c]] clob_write]) (use i in auto)
    then have "reaches tg M (x86_set_gpr tg opnd ?v (x86_of tg M)) (reg_write ?h (loaded em (ir1_opnd_size opnd) ?v) M')"
      using reaches_clob[OF ok(1)[folded opnd_def]] u i(3) by simp
    then show "reaches tg M T (reg_write ?h (loaded em (ir1_opnd_size ?m) (mem_operand tg (seg_base_of lay) pir1 ?m M)) M')"
      unfolding v ms T_def by (simp only: S_def)
  qed
  then have ld: "em_does tg (do { load_ireg_from_ir1_mem tg lay pir1 ?h ?m em False;
      (if ir1_opnd_base_reg_num tg opnd \<noteq> esp then la_addi_addrx tg (greg (home tg esp)) (greg (home tg esp)) n else em_skip) }) {} M
    (\<lambda>_ B' M'. reaches tg M (if ir1_opnd_base_reg_num tg opnd = esp then T else x86_add_sp tg n T) M')"
    by (intro does_bind) (erule does_conseq, use does_add_sp[where k = n] z(4) in \<open>auto simp: n_def intro: does_return\<close>)
  have "stack_step tg opnd = n" using ok(2) by (simp add: stack_step_def n_def opnd_def)
  moreover have "ir1_opnd_is_gpr_used tg opnd 4 \<longleftrightarrow> ir1_opnd_base_reg_num tg opnd = esp" using d(1) by (simp add: ir1_opnd_is_gpr_used_def opnd_def)
  moreover have "load_ireg_from_ir1 tg lay pir1 opnd UNKNOWN_EXTENSION False = em_return ?h"
    using d sz by (auto simp: load_ireg_from_ir1_def convert_gpr_opnd_def em_gpr_home opnd_def split: if_splits)
  ultimately show ?thesis using ld md(2) by (simp add: pop_to_gpr_def em_gpr_home load_ireg_from_ir1_2_def Let_def opnd_def split del: if_split cong: if_cong)
qed

text \<open>The address of the destination does not depend on when the stack pointer moves.\<close>

lemma rip_num: "op_type opnd = dt_X86_OP_MEM \<Longrightarrow> op_mem_base opnd = dt_X86_REG_RIP \<Longrightarrow> ir1_opnd_base_reg_num tg opnd \<noteq> esp"
  by (simp add: ir1_opnd_base_reg_num_def base_reg_num_gpr_def base_reg_num_other_def)

lemma pop_address:
  assumes ok: "mem_opnd_ok tg (seg_base_of lay) pir1 (pop_dest tg opnd)" "\<not> rip_relative tg opnd"
    and ix: "ir1_opnd_has_index opnd \<Longrightarrow> ir1_opnd_index_reg_num tg opnd \<noteq> esp"
  defines "n \<equiv> ir1_opnd_size opnd div 8"
  shows "x86_address tg pir1 (pop_dest tg opnd) (x_gpr S) seg = x86_address tg pir1 opnd (x_gpr (x86_add_sp tg n S)) seg"
proof -
  let ?d = "pop_dest tg opnd" and ?g = "x_gpr S" and ?g' = "x_gpr (x86_add_sp tg n S)"
  have same: "op_type ?d = op_type opnd" "op_mem_base ?d = op_mem_base opnd" "op_mem_index ?d = op_mem_index opnd"
    "op_mem_scale ?d = op_mem_scale opnd" "op_imm ?d = op_imm opnd" by (simp_all add: pop_dest_def add_disp_def)
  have parts: "ir1_opnd_has_base ?d = ir1_opnd_has_base opnd" "ir1_opnd_has_index ?d = ir1_opnd_has_index opnd"
    "ir1_opnd_has_seg ?d = ir1_opnd_has_seg opnd" "ir1_opnd_base_reg_num tg ?d = ir1_opnd_base_reg_num tg opnd"
    "ir1_opnd_index_reg_num tg ?d = ir1_opnd_index_reg_num tg opnd" "rip_relative tg ?d = rip_relative tg opnd"
    using same by (simp_all add: ir1_opnd_has_base_def ir1_opnd_has_index_def ir1_opnd_has_seg_def op_mem_segment_def
        ir1_opnd_base_reg_num_def ir1_opnd_index_reg_num_def rip_relative_def op_reg_def)
  have mem: "op_type opnd = dt_X86_OP_MEM" using ok(1) same(1) by (simp add: mem_opnd_ok_def)
  have used: "ir1_opnd_is_gpr_used tg opnd 4 \<longleftrightarrow> ir1_opnd_has_base opnd \<and> ir1_opnd_base_reg_num tg opnd = esp"
    using mem ix rip_num[OF mem] by (auto simp: ir1_opnd_is_gpr_used_def ir1_opnd_is_gpr_def ir1_opnd_is_mem_def)
  have idx: "ir1_opnd_has_index opnd \<Longrightarrow> ?g' (ir1_opnd_index_reg_num tg opnd) = ?g (ir1_opnd_index_reg_num tg opnd)"
    using ix by (simp add: x86_add_sp_def)
  have "norm tg (x86_offset tg pir1 ?d ?g) = norm tg (x86_offset tg pir1 opnd ?g')"
  proof (cases "ir1_opnd_is_gpr_used tg opnd 4")
    case True
    let ?i = "if ir1_opnd_has_index opnd then of_int (op_mem_scale opnd) * ?g (ir1_opnd_index_reg_num tg opnd) else 0"
    have "x86_offset tg pir1 ?d ?g = (?g esp + of_int n) + (?i + op_mem_disp opnd)"
      using True used parts same ok(2) by (simp add: x86_offset_def pop_dest_def add_disp_def n_def)
    moreover have "x86_offset tg pir1 opnd ?g' = norm tg (?g esp + of_int n) + (?i + op_mem_disp opnd)"
      using True used idx ok(2) by (simp add: x86_offset_def x86_add_sp_def)
    ultimately show ?thesis by (simp only:) (intro norm_cong_add refl norm_idem[symmetric])
  next
    case False
    then have "x86_offset tg pir1 ?d ?g = x86_offset tg pir1 opnd ?g'"
      using used idx ok(2) by (auto simp: x86_offset_def pop_dest_def x86_add_sp_def)
    then show ?thesis by simp
  qed
  moreover have "CODEIS64 tg \<or> ir1_addr_size pir1 = 32" using ok(1) by (auto simp: mem_opnd_ok_def)
  ultimately show ?thesis using parts(3) by (auto simp: x86_address_def norm_def split: if_splits)
qed

lemma sp_regs: "sp_reg tg dt_X86_REG_ESP" "CODEIS64 tg \<Longrightarrow> sp_reg tg dt_X86_REG_RSP"
  by (simp_all add: sp_reg_def)

lemma gpr_disp: "gpr_opnd_ok tg (add_disp k opnd) = gpr_opnd_ok tg opnd"
  "gpr_opnd_ok tg opnd \<Longrightarrow> x86_set_gpr tg (add_disp k opnd) v S = x86_set_gpr tg opnd v S"
proof -
  have e: "op_type (add_disp k opnd) = op_type opnd" "op_size (add_disp k opnd) = op_size opnd" "op_reg (add_disp k opnd) = op_reg opnd"
    "op_mem_base (add_disp k opnd) = op_mem_base opnd" by (simp_all add: add_disp_def op_reg_def)
  then have f: "ir1_opnd_size (add_disp k opnd) = ir1_opnd_size opnd" "ir1_opnd_is_8h (add_disp k opnd) = ir1_opnd_is_8h opnd"
    "ir1_opnd_base_reg_num tg (add_disp k opnd) = ir1_opnd_base_reg_num tg opnd"
    by (simp_all add: ir1_opnd_size_def ir1_opnd_is_8h_def ir1_opnd_base_reg_num_def)
  moreover have "ir1_opnd_is_gpr tg (add_disp k opnd) = ir1_opnd_is_gpr tg opnd" unfolding ir1_opnd_is_gpr_def e ..
  moreover have "ir1_opnd_is_8l tg (add_disp k opnd) = ir1_opnd_is_8l tg opnd" unfolding ir1_opnd_is_8l_def e ..
  moreover have "ir1_opnd_is_16bit tg (add_disp k opnd) = ir1_opnd_is_16bit tg opnd" unfolding ir1_opnd_is_16bit_def e ..
  ultimately show "gpr_opnd_ok tg (add_disp k opnd) = gpr_opnd_ok tg opnd" by (simp add: gpr_opnd_ok_def)
  show "x86_set_gpr tg (add_disp k opnd) v S = x86_set_gpr tg opnd v S" by (simp add: x86_set_gpr_def f)
qed

text \<open>A register of 16 bits.\<close>

lemma does_pop_16:
  assumes ok: "gpr_opnd_ok tg (ir1_get_opnd pir1 0)" "\<not> ir1_opnd_is_seg (ir1_get_opnd pir1 0)"
    and sz: "ir1_opnd_size (ir1_get_opnd pir1 0) = 16" and st: "stack_ok tg pir1 0 M"
  defines "S \<equiv> x86_of tg M"
  shows "implements tg (translate_pop tg lay junk pir1) M
    (x86_add_sp tg 2 (x86_set_gpr tg (ir1_get_opnd pir1 0) (load_le 2 (x_mem S) (norm tg (x_gpr S esp))) S))"
proof -
  let ?d = "ir1_get_opnd pir1 0"
  have g: "gpr_opnd_ok tg (pop_dest tg ?d)" using ok(1) by (simp add: pop_dest_def gpr_disp)
  have set: "x86_set tg pir1 seg (pop_dest tg ?d) v S = x86_set_gpr tg ?d v S" for seg v
    unfolding x86_set_reg[OF g] using ok(1) by (simp add: pop_dest_def gpr_disp)
  have "em_does tg (pop_through tg lay pir1 (ir1_opnd_build_mem 16 dt_X86_REG_ESP 0 junk) ZERO_EXTENSION) {} M (\<lambda>_ B' M'. reaches tg M
      (x86_add_sp tg 2 (x86_set_gpr tg ?d (load_le 2 (x_mem S) (norm tg (x_gpr S esp))) S)) M')"
    using does_pop_through[where em = ZERO_EXTENSION, OF _ ok(2) _ sp_regs(1) st, of lay junk] g
    by (simp add: dst_ok_def sz stack_size_def set[unfolded S_def] S_def)
  from implements_true[OF this] show ?thesis by (simp add: translate_pop_def sz)
qed

lemma translate_pop_step:
  assumes "pop_ok tg lay pir1 M"
  shows "implements tg (translate_pop tg lay junk pir1) M (x86_pop tg pir1 (seg_bases tg lay M) (x86_of tg M))"
proof -
  let ?d = "ir1_get_opnd pir1 0" and ?sb = "seg_bases tg lay M" and ?S = "x86_of tg M"
  let ?n = "ir1_opnd_size ?d div 8"
  let ?v = "load_le (nat ?n) (x_mem ?S) (norm tg (x_gpr ?S esp))"
  have ok: "stack_size tg (ir1_opnd_size ?d)" "\<not> ir1_opnd_is_seg ?d" "stack_ok tg pir1 0 M" using assms by (auto simp: pop_ok_def Let_def)
  have pop: "x86_pop tg pir1 ?sb ?S = x86_set tg pir1 ?sb ?d ?v (x86_add_sp tg ?n ?S)" by (simp add: x86_pop_def Let_def)
  show ?thesis
  proof (cases "gpr_opnd_ok tg ?d")
    case g: True
    let ?T = "x86_set_gpr tg ?d ?v ?S"
    have other: "x86_add_sp tg ?n ?T = x86_pop tg pir1 ?sb ?S" if "ir1_opnd_base_reg_num tg ?d \<noteq> esp"
      unfolding pop x86_set_reg[OF g] using that by (simp add: x86_add_sp_def x86_set_gpr_def Let_def fun_upd_twist)
    have self: "?T = x86_pop tg pir1 ?sb ?S" if "ir1_opnd_base_reg_num tg ?d = esp" "ir1_opnd_size ?d \<noteq> 16"
      unfolding pop x86_set_reg[OF g] using that ok(1)
      by (auto simp: x86_add_sp_def x86_set_gpr_def Let_def x86_write_reg_def stack_size_def split: if_splits)
    show ?thesis
    proof (cases "ir1_opnd_size ?d = 16")
      case True
      have "op_type (pop_dest tg ?d) = op_type ?d" by (simp add: pop_dest_def add_disp_def)
      then have "\<not> memory_ok tg lay pir1 (pop_dest tg ?d) M" using memory_okD(2)[of tg lay pir1 "pop_dest tg ?d" M] gpr_opnd_okD(2)[OF g] by auto
      then have "ir1_opnd_base_reg_num tg ?d \<noteq> esp" using assms True by (simp add: pop_ok_def Let_def)
      then show ?thesis using does_pop_16[OF g ok(2) True ok(3), of lay junk] other True by simp
    next
      case False
      then have sz: "ir1_opnd_size ?d = (if CODEIS64 tg then 64 else 32)" using ok(1) by (simp add: stack_size_def)
      have "em_does tg (pop_to_gpr tg lay pir1 (ir1_opnd_build_mem (ir1_opnd_size ?d) r 0 junk) (if CODEIS64 tg then UNKNOWN_EXTENSION else SIGN_EXTENSION)) {} M
          (\<lambda>_ B' M'. reaches tg M (x86_pop tg pir1 ?sb ?S) M')" if "sp_reg tg r" for r
        using does_pop_to_gpr[OF g ok(2) sz that ok(3) refl, of lay junk] other self False by (simp split: if_splits)
      from implements_true[OF this] show ?thesis
        using sp_regs[of tg] gpr_opnd_okD(1)[OF g] sz by (cases "CODEIS64 tg") (simp_all add: translate_pop_def Let_def)
    qed
  next
    case False
    have mem: "memory_ok tg lay pir1 (pop_dest tg ?d) M" "\<not> rip_relative tg ?d"
      "ir1_opnd_has_index ?d \<Longrightarrow> ir1_opnd_index_reg_num tg ?d \<noteq> esp" using assms False by (auto simp: pop_ok_def Let_def)
    have seg: "?sb (pop_dest tg ?d) = ?sb ?d"
      by (simp add: seg_bases_def x86_seg_base_def ir1_opnd_get_seg_index_def op_mem_segment_def pop_dest_def add_disp_def)
    have ty: "op_type (pop_dest tg ?d) = op_type ?d" "ir1_opnd_size (pop_dest tg ?d) = ir1_opnd_size ?d"
      by (simp_all add: pop_dest_def add_disp_def ir1_opnd_size_def)
    have addr: "x86_address tg pir1 (pop_dest tg ?d) (x_gpr ?S) sg = x86_address tg pir1 ?d (x_gpr (x86_add_sp tg ?n ?S)) sg" for sg
      by (rule pop_address[OF memory_okD(1)[OF mem(1)] mem(2)]) (rule mem(3))
    have "x86_add_sp tg ?n (x86_set tg pir1 ?sb (pop_dest tg ?d) ?v ?S) = x86_pop tg pir1 ?sb ?S"
      unfolding pop x86_set_def seg addr using memory_okD(2)[OF mem(1)] ty
      by (simp add: x86_add_sp_def)
    then have "em_does tg (pop_through tg lay pir1 (ir1_opnd_build_mem (ir1_opnd_size ?d) r 0 junk) em) {} M
        (\<lambda>_ B' M'. reaches tg M (x86_pop tg pir1 ?sb ?S) M')" if "sp_reg tg r" for r em
      using does_pop_through[OF _ ok(2,1) that ok(3), of lay junk em] mem(1) by (simp add: dst_ok_def)
    from implements_true[OF this] show ?thesis
      using sp_regs[of tg] ok(1) memory_okD(2)[OF mem(1)] ty(1)
      by (auto simp: translate_pop_def Let_def ir1_opnd_is_gpr_def stack_size_def split: if_splits)
  qed
qed

text \<open>C13: translate\_pop is correct: for a register or a memory operand of 16 bits or of the width of
  the stack, the code emitted runs to a state that represents the x86 state after the pop: the
  destination has the value on the top of the stack, and the stack pointer is moved before the address
  of the destination is formed and before the destination is written, so that pop of the stack
  pointer itself leaves the popped value.\<close>

theorem translate_pop_correct:
  assumes "pop_ok tg lay pir1 M"
  shows "implements tg (translate_pop tg lay junk pir1) M (x86_pop tg pir1 (seg_bases tg lay M) (x86_of tg M))"
  using assms by (rule translate_pop_step)

text \<open>C37: pop into the 16-bit stack pointer (pop sp) is off by two: the code writes the popped word
  to the low half of the stack pointer and adds 2 afterwards, where the x86 instruction moves the
  stack pointer first, so that sp is the popped word.\<close>

theorem translate_pop_sp:
  assumes "gpr_opnd_ok tg (ir1_get_opnd pir1 0)" "ir1_opnd_size (ir1_get_opnd pir1 0) = 16"
    "ir1_opnd_base_reg_num tg (ir1_get_opnd pir1 0) = esp" "\<not> ir1_opnd_is_seg (ir1_get_opnd pir1 0)" "stack_ok tg pir1 0 M"
  defines "S \<equiv> x86_of tg M"
  shows "\<exists>T. implements tg (translate_pop tg lay junk pir1) M T \<and>
      take_bit 16 (x_gpr T esp) = take_bit 16 (load_le 2 (x_mem S) (norm tg (x_gpr S esp)) + 2) \<and>
      take_bit 16 (x_gpr (x86_pop tg pir1 seg S) esp) = load_le 2 (x_mem S) (norm tg (x_gpr S esp))"
proof -
  let ?d = "ir1_get_opnd pir1 0" and ?v = "load_le 2 (x_mem S) (norm tg (x_gpr S esp))"
  have n: "take_bit 16 (norm tg w) = take_bit 16 w" for w by (simp add: norm_def)
  have h: "\<not> ir1_opnd_is_8h ?d" using high_size assms(2) by auto
  have w: "take_bit 16 (x86_write_reg 16 False old v) = take_bit 16 v" for old v
    by (simp add: x86_write_reg_def take_bit_or take_bit_and take_bit_not_mask_eq_0)
  have a: "take_bit 16 (take_bit 16 x + 2) = take_bit 16 (x + 2)" for x :: u64
    by transfer (simp add: take_bit_eq_mod mod_simps mod_mod_cancel)
  have g: "take_bit 16 (x_gpr (x86_set_gpr tg ?d v T) esp) = take_bit 16 v" for v T
    using assms(2,3) h by (simp add: x86_set_gpr_def Let_def n w)
  have "take_bit 16 (x_gpr (x86_add_sp tg 2 (x86_set_gpr tg ?d ?v S)) esp) = take_bit 16 (?v + 2)"
    using a[of "x_gpr (x86_set_gpr tg ?d ?v S) esp"] a[of ?v] by (simp add: x86_add_sp_def n g)
  moreover have "take_bit 16 (x_gpr (x86_pop tg pir1 seg S) esp) = ?v"
    using g[of ?v] take_load_le[of 2 16] assms(2) by (simp add: x86_pop_def x86_set_reg[OF assms(1)])
  ultimately show ?thesis using does_pop_16[OF assms(1,4,2,5), of lay junk] unfolding S_def by blast
qed

end
