(* ===== verification/Tr_Popa.thy ===== *)
theory Tr_Popa
  imports Tr_Stack
begin

text \<open>
  popa and pusha: the eight registers from and to the stack.
\<close>

section \<open>The loop\<close>

definition popa_slot :: "target \<Rightarrow> int \<Rightarrow> x86_state \<Rightarrow> int \<Rightarrow> u64" where
  "popa_slot tg n S i = load_le (nat n) (x_mem S) (norm tg (x_gpr S esp + of_int (n * (7 - i))))"

text \<open>What the loads leave in the registers: the slots, sign extended.\<close>

definition popa_load :: "target \<Rightarrow> int \<Rightarrow> int set \<Rightarrow> x86_state \<Rightarrow> x86_state" where
  "popa_load tg n I S = S\<lparr>x_gpr := (\<lambda>i. if i \<in> I \<and> i \<noteq> esp then norm tg (signed_take_bit (nat (8 * n) - 1) (popa_slot tg n S i)) else x_gpr S i)\<rparr>"

lemma popa_load_empty [simp]: "popa_load tg n {} S = S"
  by (simp add: popa_load_def)

lemma stack_ok_cong: "x_gpr (x86_of tg N) esp = x_gpr (x86_of tg M) esp \<Longrightarrow> stack_ok tg pir1 k N = stack_ok tg pir1 k M"
  by (simp add: stack_ok_def x86_of_def)

lemma stack_ok_between:
  assumes "stack_ok tg pir1 0 M" "stack_ok tg pir1 m M" "0 \<le> k" "k \<le> m"
  shows "stack_ok tg pir1 k M"
  using assms by (auto simp: stack_ok_def)

lemma does_popa_step:
  assumes M: "reaches tg M S N" and n: "n \<in> {2, 4}" and i: "0 \<le> i" "i \<le> 7" "i \<noteq> esp" and tg: "\<not> CODEIS64 tg"
    and st: "stack_ok tg pir1 0 N" "stack_ok tg pir1 (7 * n) N"
  shows "em_does tg (popa_step tg lay junk pir1 n i) {} N (\<lambda>_ B' M'. B' = {} \<and> reaches tg M (popa_load tg n {i} S) M')"
proof -
  let ?m = "ir1_opnd_build_mem (8 * n) dt_X86_REG_ESP (of_int (n * (7 - i))) junk" and ?h = "greg (home tg i)"
  have S: "x86_of tg N = S" using M by (simp add: reaches_def)
  have gi: "gpr_index tg i" using i by (simp add: gpr_index_def)
  have sz: "stack_size tg (8 * n)" using n tg by (auto simp: stack_size_def)
  note z = stack_size_ok[OF sz]
  have k: "stack_ok tg pir1 (n * (7 - i)) N" by (rule stack_ok_between[OF st]) (use n i in auto)
  have mem: "memory_ok tg lay pir1 ?m N" by (rule stack_memory(1)[OF sp_regs(1) z(1,2) k])
  note md = memory_okD[OF mem]
  have v: "mem_operand tg (seg_base_of lay) pir1 ?m N = popa_slot tg n S i"
    using x86_set_stack(2)[OF sp_regs(1) sz k, of lay junk] unfolding mem_operand_get[OF mem] by (simp add: popa_slot_def S)
  have ms: "ir1_opnd_size ?m = 8 * n" by (rule stack_opnd(2)[OF sp_regs(1) z(1)])
  have "em_does tg (load_ireg_from_ir1_mem tg lay pir1 ?h ?m UNKNOWN_EXTENSION False) {} N
      (\<lambda>_ B' M'. B' = {} \<and> reaches tg M (popa_load tg n {i} S) M')"
  proof (rule does_load_mem[OF md(1) room_empty(1) md(4) size_okD(1)[OF md(3)]], rule conjI[OF refl])
    fix M' assume "clob (temps tg - {}) N M'"
    from x86_of_write[OF clob_sub[OF this] gi, of "loaded UNKNOWN_EXTENSION (8 * n) (popa_slot tg n S i)"]
    have "reaches tg N (S\<lparr>x_gpr := (x_gpr S)(i := norm tg (loaded UNKNOWN_EXTENSION (8 * n) (popa_slot tg n S i)))\<rparr>)
        (reg_write ?h (loaded UNKNOWN_EXTENSION (8 * n) (popa_slot tg n S i)) M')" unfolding S .
    moreover have "S\<lparr>x_gpr := (x_gpr S)(i := norm tg (loaded UNKNOWN_EXTENSION (8 * n) (popa_slot tg n S i)))\<rparr> = popa_load tg n {i} S"
      using i(3) by (auto simp: popa_load_def loaded_def fun_eq_iff)
    ultimately show "reaches tg M (popa_load tg n {i} S)
        (reg_write ?h (loaded UNKNOWN_EXTENSION (ir1_opnd_size ?m) (mem_operand tg (seg_base_of lay) pir1 ?m N)) M')"
      unfolding ms v using reaches_trans[OF M] by simp
  qed
  then show ?thesis using i(3) md(2) gi by (simp add: popa_step_def em_gpr_home load_ireg_from_ir1_2_def)
qed

lemma popa_load_twice:
  assumes "i \<noteq> esp"
  shows "popa_load tg n I (popa_load tg n {i} S) = popa_load tg n (insert i I) S"
proof -
  have "popa_slot tg n (popa_load tg n {i} S) j = popa_slot tg n S j" for j using assms by (simp add: popa_slot_def popa_load_def)
  then show ?thesis by (auto simp: popa_load_def fun_eq_iff)
qed

lemma does_popa_loop:
  assumes "reaches tg M S N" "n \<in> {2, 4}" "set js \<subseteq> {0..7}" "\<not> CODEIS64 tg" "stack_ok tg pir1 0 N" "stack_ok tg pir1 (7 * n) N"
  shows "em_does tg (em_for js (popa_step tg lay junk pir1 n)) {} N (\<lambda>_ B' M'. reaches tg M (popa_load tg n (set js) S) M')"
  using assms
proof (induction js arbitrary: S N)
  case (Cons i js)
  show ?case
  proof (cases "i = esp")
    case True
    then have "(j \<in> set (i # js) \<and> j \<noteq> esp) = (j \<in> set js \<and> j \<noteq> esp)" for j by auto
    then have "popa_load tg n (set (i # js)) S = popa_load tg n (set js) S" by (simp only: popa_load_def)
    moreover have "em_does tg (em_for js (popa_step tg lay junk pir1 n)) {} N (\<lambda>_ B' M'. reaches tg M (popa_load tg n (set js) S) M')"
      by (rule Cons.IH[OF Cons.prems(1,2) _ Cons.prems(4-6)]) (use Cons.prems(3) in simp)
    moreover have "popa_step tg lay junk pir1 n i = em_skip" using True by (simp add: popa_step_def)
    ultimately show ?thesis by (simp only: em_for.simps bind_left_identity)
  next
    case False
    have "em_does tg (popa_step tg lay junk pir1 n i) {} N (\<lambda>_ B' M'. B' = {} \<and> reaches tg M (popa_load tg n {i} S) M')"
      by (rule does_popa_step) (use Cons.prems False in auto)
    moreover have "em_does tg (em_for js (popa_step tg lay junk pir1 n)) {} N' (\<lambda>_ B' M'. reaches tg M (popa_load tg n (set (i # js)) S) M')"
      if N': "reaches tg M (popa_load tg n {i} S) N'" for N'
    proof -
      have "x_gpr (x86_of tg N') esp = x_gpr (x86_of tg N) esp"
        using N' Cons.prems(1) by (simp add: reaches_def popa_load_def)
      then have "stack_ok tg pir1 0 N'" "stack_ok tg pir1 (7 * n) N'" using Cons.prems(5,6) stack_ok_cong by blast+
      then show ?thesis using Cons.IH[OF N' Cons.prems(2) _ Cons.prems(4)] Cons.prems(3) popa_load_twice[OF False] by simp
    qed
    ultimately show ?thesis by (simp only: em_for.simps) (erule does_bind[OF does_conseq], auto)
  qed
qed (simp add: does_return)

section \<open>popa\<close>

definition x86_popa :: "target \<Rightarrow> int \<Rightarrow> x86_state \<Rightarrow> x86_state" where
  "x86_popa tg n S = x86_add_sp tg (8 * n) (S\<lparr>x_gpr := (\<lambda>i.
     if 0 \<le> i \<and> i \<le> 7 \<and> i \<noteq> esp then norm tg (x86_write_reg (8 * n) False (x_gpr S i) (popa_slot tg n S i)) else x_gpr S i)\<rparr>)"

definition popa_ok :: "target \<Rightarrow> ir1_inst \<Rightarrow> int \<Rightarrow> la_mach \<Rightarrow> bool" where
  "popa_ok tg pir1 n M \<longleftrightarrow> \<not> CODEIS64 tg \<and> stack_ok tg pir1 0 M \<and> stack_ok tg pir1 (7 * n) M"

lemma implements_popa:
  assumes ok: "popa_ok tg pir1 n M" and n: "n \<in> {2, 4}"
  shows "implements tg (do {
     esp_opnd \<leftarrow> em_gpr tg esp;
     em_for (rev [0..7]) (popa_step tg lay junk pir1 n);
     la_addi_addrx tg esp_opnd esp_opnd (8 * n);
     em_return True }) M (x86_add_sp tg (8 * n) (popa_load tg n {0..7} (x86_of tg M)))"
proof -
  have "reaches tg M (x86_of tg M) M" by (simp add: reaches_def)
  then have loop: "em_does tg (em_for (rev [0..7]) (popa_step tg lay junk pir1 n)) {} M
      (\<lambda>_ B' M'. reaches tg M (popa_load tg n {0..7} (x86_of tg M)) M')"
    using does_popa_loop[of tg M "x86_of tg M" M n "rev [0..7]" pir1 lay junk] ok n by (simp add: popa_ok_def)
  have "em_does tg (do { em_for (rev [0..7]) (popa_step tg lay junk pir1 n); la_addi_addrx tg (greg (home tg esp)) (greg (home tg esp)) (8 * n) }) {} M
      (\<lambda>_ B' M'. reaches tg M (x86_add_sp tg (8 * n) (popa_load tg n {0..7} (x86_of tg M))) M')"
    by (rule does_bind[OF does_conseq[OF loop]], rule does_add_sp) (use n in auto)
  from implements_true[OF this] show ?thesis by (simp add: em_gpr_home)
qed

lemma translate_popal_step:
  assumes "popa_ok tg pir1 4 M"
  shows "implements tg (translate_popal tg lay junk pir1) M (x86_popa tg 4 (x86_of tg M))"
proof -
  have tg: "\<not> CODEIS64 tg" using assms by (simp add: popa_ok_def)
  have "norm tg (signed_take_bit 31 v) = norm tg (x86_write_reg 32 False old v)" for old v
    using norm_narrow[OF tg, of v] by (simp add: x86_write_reg_def sx32_def)
  then have "popa_load tg 4 {0..7} (x86_of tg M) = (x86_of tg M)\<lparr>x_gpr := (\<lambda>i.
     if 0 \<le> i \<and> i \<le> 7 \<and> i \<noteq> esp then norm tg (x86_write_reg 32 False (x_gpr (x86_of tg M) i) (popa_slot tg 4 (x86_of tg M) i))
     else x_gpr (x86_of tg M) i)\<rparr>"
    by (auto simp: popa_load_def fun_eq_iff)
  then show ?thesis using implements_popa[OF assms, of lay junk] by (simp add: translate_popal_def x86_popa_def cong: if_cong)
qed

text \<open>C19: translate\_popal is correct: outside 64-bit code, when the eight slots do not wrap around the
  end of the address space, the code emitted for popa runs to a state that represents the x86 state in
  which the seven registers have their slots, the slot of the stack pointer is skipped, and the stack
  pointer is moved by 32.\<close>

theorem translate_popal_correct:
  assumes "popa_ok tg pir1 4 M"
  shows "implements tg (translate_popal tg lay junk pir1) M (x86_popa tg 4 (x86_of tg M))"
  using assms by (rule translate_popal_step)

text \<open>C38: translate\_popaw destroys the upper halves of the registers: the code for the 16-bit popa
  replaces the whole of each register by the sign extended slot, where the x86 instruction writes only
  the low 16 bits.  A register whose upper half is not the sign of the popped word ends up wrong.\<close>

theorem translate_popaw_upper_half:
  assumes "popa_ok tg pir1 2 M"
  defines "S \<equiv> x86_of tg M"
  shows "\<exists>T. implements tg (translate_popaw tg lay junk pir1) M T \<and>
    (\<forall>i. 0 \<le> i \<and> i \<le> 7 \<and> i \<noteq> esp \<longrightarrow>
      x_gpr T i = take_bit 32 (signed_take_bit 15 (popa_slot tg 2 S i)) \<and>
      x_gpr (x86_popa tg 2 S) i = take_bit 32 (x_gpr S i AND NOT (mask 16) OR take_bit 16 (popa_slot tg 2 S i)))"
proof (intro exI conjI allI impI)
  show "implements tg (translate_popaw tg lay junk pir1) M (x86_add_sp tg 16 (popa_load tg 2 {0..7} S))"
    using implements_popa[OF assms(1), of lay junk] by (simp add: translate_popaw_def S_def)
  have tg: "\<not> CODEIS64 tg" using assms by (simp add: popa_ok_def)
  fix i assume i: "0 \<le> i \<and> i \<le> 7 \<and> i \<noteq> esp"
  show "x_gpr (x86_add_sp tg 16 (popa_load tg 2 {0..7} S)) i = take_bit 32 (signed_take_bit 15 (popa_slot tg 2 S i))"
    using i tg by (simp add: x86_add_sp_def popa_load_def norm_def)
  show "x_gpr (x86_popa tg 2 S) i = take_bit 32 (x_gpr S i AND NOT (mask 16) OR take_bit 16 (popa_slot tg 2 S i))"
    using i tg by (simp add: x86_add_sp_def x86_popa_def norm_def x86_write_reg_def)
qed

section \<open>pusha\<close>

definition x86_pusha_slot :: "target \<Rightarrow> int \<Rightarrow> int \<Rightarrow> x86_state \<Rightarrow> x86_state" where
  "x86_pusha_slot tg n i S = S\<lparr>x_mem := store_le (nat n) (x_gpr S i) (norm tg (x_gpr S esp + of_int (- n * (i + 1)))) (x_mem S)\<rparr>"

definition x86_pusha :: "target \<Rightarrow> int \<Rightarrow> x86_state \<Rightarrow> x86_state" where
  "x86_pusha tg n S = x86_add_sp tg (- 8 * n) (fold (x86_pusha_slot tg n) [0..7] S)"

definition pusha_ok :: "target \<Rightarrow> ir1_inst \<Rightarrow> int \<Rightarrow> la_mach \<Rightarrow> bool" where
  "pusha_ok tg pir1 n M \<longleftrightarrow> \<not> CODEIS64 tg \<and> stack_ok tg pir1 0 M \<and> stack_ok tg pir1 (- 8 * n) M"

lemma does_pusha_step:
  assumes M: "reaches tg M S N" and n: "n \<in> {2, 4}" and i: "0 \<le> i" "i \<le> 7" and ok: "pusha_ok tg pir1 n N"
  shows "em_does tg (pusha_step tg lay junk pir1 n i) {} N (\<lambda>_ B' M'. B' = {} \<and> reaches tg M (x86_pusha_slot tg n i S) M')"
proof -
  let ?k = "- n * (i + 1)"
  let ?m = "ir1_opnd_build_mem (8 * n) dt_X86_REG_ESP (of_int ?k) junk"
  have S: "x86_of tg N = S" using M by (simp add: reaches_def)
  have gi: "gpr_index tg i" using i by (simp add: gpr_index_def)
  have tg: "\<not> CODEIS64 tg" and sz: "stack_size tg (8 * n)" using n ok by (auto simp: stack_size_def pusha_ok_def)
  note z = stack_size_ok[OF sz]
  have k: "stack_ok tg pir1 ?k N" using n i ok by (auto simp: pusha_ok_def stack_ok_def)
  have mem: "dst_ok tg lay pir1 ?m N" using stack_memory(1)[OF sp_regs(1) z(1,2) k, of lay junk] by (simp add: dst_ok_def)
  have ms: "ir1_opnd_size ?m = 8 * n" by (rule stack_opnd(2)[OF sp_regs(1) z(1)])
  have "take_bit (nat (8 * n)) (reg_read N (greg (home tg i))) = take_bit (nat (8 * n)) (x_gpr S i)"
    unfolding S[symmetric] using n gi tg by (auto simp: x86_of_def guest_gpr_def norm_def)
  then have "em_does tg (store_ireg_to_ir1 tg lay pir1 (greg (home tg i)) ?m False) {} N
      (\<lambda>_ B' M'. B' = {} \<and> reaches tg N (x86_set tg pir1 (seg_bases tg lay N) ?m (x_gpr S i) (x86_of tg N)) M')"
    using home_range[OF gi] by (intro does_set[OF mem clob_refl room_empty(1)]) (unfold ms, auto)
  moreover have "x86_set tg pir1 (seg_bases tg lay N) ?m (x_gpr S i) (x86_of tg N) = x86_pusha_slot tg n i S"
    using x86_set_stack(1)[OF sp_regs(1) sz k, of lay junk "x_gpr S i"] by (simp add: x86_pusha_slot_def S)
  ultimately show ?thesis unfolding pusha_step_def em_gpr_home[OF gi] bind_left_identity
    by (elim does_conseq) (use reaches_trans[OF M] in auto)
qed

lemma does_pusha_loop:
  assumes "reaches tg M S N" "n \<in> {2, 4}" "set js \<subseteq> {0..7}" "pusha_ok tg pir1 n N"
  shows "em_does tg (em_for js (pusha_step tg lay junk pir1 n)) {} N (\<lambda>_ B' M'. reaches tg M (fold (x86_pusha_slot tg n) js S) M')"
  using assms
proof (induction js arbitrary: S N)
  case (Cons i js)
  have "em_does tg (pusha_step tg lay junk pir1 n i) {} N (\<lambda>_ B' M'. B' = {} \<and> reaches tg M (x86_pusha_slot tg n i S) M')"
    by (rule does_pusha_step) (use Cons.prems in auto)
  moreover have "em_does tg (em_for js (pusha_step tg lay junk pir1 n)) {} N' (\<lambda>_ B' M'. reaches tg M (fold (x86_pusha_slot tg n) (i # js) S) M')"
    if N': "reaches tg M (x86_pusha_slot tg n i S) N'" for N'
  proof -
    have "x_gpr (x86_of tg N') esp = x_gpr (x86_of tg N) esp"
      using N' Cons.prems(1) by (simp add: reaches_def x86_pusha_slot_def)
    then have "pusha_ok tg pir1 n N'" using Cons.prems(4) stack_ok_cong unfolding pusha_ok_def by blast
    then show ?thesis using Cons.IH[OF N' Cons.prems(2)] Cons.prems(3) by simp
  qed
  ultimately show ?case by (simp only: em_for.simps) (erule does_bind[OF does_conseq], auto)
qed (simp add: does_return)

lemma translate_pusha_step:
  "(pusha_ok tg pir1 2 M \<longrightarrow> implements tg (translate_pushaw tg lay junk pir1) M (x86_pusha tg 2 (x86_of tg M))) \<and>
   (pusha_ok tg pir1 4 M \<longrightarrow> implements tg (translate_pushal tg lay junk pir1) M (x86_pusha tg 4 (x86_of tg M)))"
proof -
  have "implements tg (do { esp_opnd \<leftarrow> em_gpr tg esp; em_for [0..7] (pusha_step tg lay junk pir1 n);
      la_addi_addrx tg esp_opnd esp_opnd (- 8 * n); em_return True }) M (x86_pusha tg n (x86_of tg M))"
    if ok: "pusha_ok tg pir1 n M" and n: "n \<in> {2, 4}" for n
  proof -
    have "reaches tg M (x86_of tg M) M" by (simp add: reaches_def)
    then have loop: "em_does tg (em_for [0..7] (pusha_step tg lay junk pir1 n)) {} M
        (\<lambda>_ B' M'. reaches tg M (fold (x86_pusha_slot tg n) [0..7] (x86_of tg M)) M')"
      using does_pusha_loop[of tg M "x86_of tg M" M n "[0..7]" pir1 lay junk] ok n by (simp del: upto_rec_numeral)
    have "em_does tg (do { em_for [0..7] (pusha_step tg lay junk pir1 n); la_addi_addrx tg (greg (home tg esp)) (greg (home tg esp)) (- 8 * n) }) {} M
        (\<lambda>_ B' M'. reaches tg M (x86_pusha tg n (x86_of tg M)) M')"
      unfolding x86_pusha_def by (rule does_bind[OF does_conseq[OF loop]], rule does_add_sp) (use n in auto)
    from implements_true[OF this] show ?thesis by (simp add: em_gpr_home del: upto_rec_numeral)
  qed
  from this[of 2] this[of 4] show ?thesis by (simp add: translate_pushaw_def translate_pushal_def del: upto_rec_numeral)
qed

text \<open>C20: translate\_pushaw and translate\_pushal are correct: outside 64-bit code, when the eight slots
  do not wrap around, the code emitted stores the eight registers below the top of the stack in the
  order of their numbers, the stack pointer with its value before the instruction, and then moves the
  stack pointer.\<close>

theorem translate_pusha_correct:
  "(pusha_ok tg pir1 2 M \<longrightarrow> implements tg (translate_pushaw tg lay junk pir1) M (x86_pusha tg 2 (x86_of tg M))) \<and>
   (pusha_ok tg pir1 4 M \<longrightarrow> implements tg (translate_pushal tg lay junk pir1) M (x86_pusha tg 4 (x86_of tg M)))"
  by (rule translate_pusha_step)

end
