(* ===== verification/Tr_Lea.thy ===== *)
theory Tr_Lea
  imports Tr_Mov_Correct
begin

text \<open>
  translate\_lea: the address of a memory operand in a given register, by the other way through
  convert\_mem\_helper.
\<close>

section \<open>The address in a given register\<close>

lemma offset_norm:
  assumes "\<not> rip_relative tg opnd"
  shows "norm tg (base_index tg opnd M + to_longx tg (op_mem_disp opnd)) = norm tg (x86_offset tg pir1 opnd (guest_gpr tg M))"
  unfolding x86_offset_norm[OF assms] base_index_def by (intro norm_cong_add refl to_longx_norm)

lemma norm_take32: "norm tg a = norm tg b \<Longrightarrow> take_bit 32 a = take_bit 32 b"
  by (auto simp: norm_def split: if_splits)

text \<open>The last step, into the destination \<open>d\<close> of the instruction; a value of 16 bits is inserted.\<close>

lemma does_adjust_to:
  assumes d: "0 < d" "d < 32" and sz: "sz \<in> {16, 32, 64}" "addr_size \<in> {32, 64}" "sz = 64 \<Longrightarrow> CODEIS64 tg"
    and old: "sz = 16 \<Longrightarrow> reg_read M1 (greg d) = old" and v: "norm tg (reg_read M1 (greg r)) = norm tg V"
    and c: "clob (temps tg \<union> {d}) M M1"
  shows "em_does tg (adjust_dest tg (greg r) (Some (greg d)) sz addr_size) B M1 (\<lambda>_ B' M'. clob (temps tg \<union> {d}) M M' \<and>
    norm tg (reg_read M' (greg d)) = norm tg (x86_write_reg sz False old (take_bit (nat addr_size) V)))"
    (is "em_does tg _ B M1 ?Q")
proof -
  have dr: "reg_num (greg d) \<noteq> 0" using d by (simp add: reg_num_greg)
  have w: "?Q x B (reg_write (greg d) u M1)" if "norm tg u = norm tg (x86_write_reg sz False old (take_bit (nat addr_size) V))" for x u
    using clob_trans[OF c clob_write[of d "temps tg \<union> {d}" M1 u]] d dr that by simp
  note t = norm_take32[OF v]
  have narrow: "em_does tg (do { la_rrii LISA_BSTRPICK_D (greg d) (greg r) 31 0; em_return (greg d) }) B M1 ?Q"
    if "sz = 32 \<or> sz = 64 \<and> addr_size = 32"
  proof (rule does_bind, rule does_narrow, rule does_return, rule w)
    have "take_bit 32 (take_bit (nat addr_size) V) = take_bit 32 V" using sz(2) by auto
    then show "norm tg (take_bit 32 (reg_read M1 (greg r))) = norm tg (x86_write_reg sz False old (take_bit (nat addr_size) V))"
      using that t by (elim disjE conjE) (simp_all add: x86_write_reg_def)
  qed
  have same: "?Q (greg d) B M1" if "sz = 64" "addr_size = 64" "greg r = greg d"
    using that v c sz(3) by (simp add: x86_write_reg_def)
  have move: "em_does tg (do { la_rrr LISA_OR (greg d) (greg r) zero_ir2_opnd; em_return (greg d) }) B M1 ?Q" if "sz = 64" "addr_size = 64"
    by (rule does_bind, rule does_op, simp, simp, rule does_return, rule w) (use that v in \<open>simp add: x86_write_reg_def\<close>)
  have ins: "em_does tg (do { la_rrii LISA_BSTRINS_D (greg d) (greg r) 15 0;
      (if TARGET_X86_64 tg then em_skip else la_rrii LISA_BSTRPICK_D (greg d) (greg d) 31 0); em_return (greg d) }) B M1 ?Q" if s: "sz = 16"
  proof (rule does_bind, rule does_bstrins[where high = False])
    let ?u = "x86_write_reg 16 False (reg_read M1 (greg d)) (reg_read M1 (greg r))"
    have "take_bit 16 (reg_read M1 (greg r)) = take_bit 16 (take_bit (nat addr_size) V)"
      using arg_cong[OF t, of "take_bit 16"] sz(2) by auto
    then have u: "?u = x86_write_reg sz False old (take_bit (nat addr_size) V)" using s old[OF s] by (simp add: x86_write_reg_def)
    have n: "norm tg (take_bit 32 w) = norm tg w" if "\<not> TARGET_X86_64 tg" for w
      using that by (simp add: norm_def TARGET_X86_64_def CODEIS64_def)
    have "em_does tg (do { la_rrii LISA_BSTRPICK_D (greg d) (greg d) 31 0; em_return (greg d) }) B (reg_write (greg d) ?u M1) ?Q"
      if "\<not> TARGET_X86_64 tg"
      by (rule does_bind, rule does_narrow, rule does_return, unfold reg_write_write, rule w) (use dr n[OF that] u in simp)
    moreover have "em_does tg (em_return (greg d)) B (reg_write (greg d) ?u M1) ?Q" by (rule does_return, rule w) (simp only: u)
    ultimately show "em_does tg (do { (if TARGET_X86_64 tg then em_skip else la_rrii LISA_BSTRPICK_D (greg d) (greg d) 31 0); em_return (greg d) })
        B (reg_write (greg d) ?u M1) ?Q" by simp
  qed
  consider "sz = 16" | "sz = 32" | "sz = 64" "addr_size = 32" | "sz = 64" "addr_size = 64" using sz(1,2) by auto
  then show ?thesis
  proof cases
    case 1
    show ?thesis using ins[OF 1] 1 by (simp add: adjust_dest_def Let_def)
  next
    case 2
    have "addr_size \<noteq> 16" using sz(2) by auto
    then show ?thesis using narrow 2 by (simp add: adjust_dest_def Let_def)
  next
    case 3
    show ?thesis using narrow 3 by (simp add: adjust_dest_def Let_def)
  next
    case 4
    show ?thesis using move[OF 4] does_return[where Q = ?Q, OF same[OF 4]] 4
      by (cases "greg r = greg d") (simp_all add: adjust_dest_def Let_def ir2_opnd_cmp_eq)
  qed
qed

section \<open>lea\<close>

definition x86_lea :: "target \<Rightarrow> ir1_inst \<Rightarrow> x86_state \<Rightarrow> x86_state" where
  "x86_lea tg pir1 S = x86_set_gpr tg (ir1_get_opnd pir1 0)
     (take_bit (nat (ir1_addr_size pir1)) (x86_offset tg pir1 (ir1_get_opnd pir1 1) (x_gpr S))) S"

text \<open>Some part of the address is present, there is no segment override, and an address relative to
  the instruction goes to a register of 64 bits.\<close>

definition lea_ok :: "target \<Rightarrow> env_layout \<Rightarrow> ir1_inst \<Rightarrow> bool" where
  "lea_ok tg lay pir1 \<longleftrightarrow> (let op0 = ir1_get_opnd pir1 0; op1 = ir1_get_opnd pir1 1 in
     gpr_opnd_ok tg op0 \<and> ir1_opnd_size op0 \<noteq> 8 \<and> mem_opnd_ok tg (seg_base_of lay) pir1 op1 \<and> \<not> ir1_opnd_has_seg op1 \<and>
     (ir1_opnd_has_base op1 \<or> ir1_opnd_has_index op1 \<or> to_longx tg (op_mem_disp op1) \<noteq> 0) \<and>
     (rip_relative tg op1 \<longrightarrow> ir1_opnd_size op0 = 64))"

text \<open>The switch and the last step, when \<open>d\<close> is the destination of the switch and \<open>h\<close> that of the
  instruction.\<close>

lemma does_lea_rest:
  assumes ok: "mem_opnd_ok tg sb pir1 opnd" "\<not> rip_relative tg opnd"
    and h: "0 < h" "h < 32" "h \<notin> temps tg" and sz: "sz \<in> {16, 32, 64}" "sz = 64 \<Longrightarrow> CODEIS64 tg"
    and d: "sz = 16 \<and> d \<in> temps tg \<and> B = {d} \<or> sz \<noteq> 16 \<and> d = h \<and> B = {}"
    and bop: "ir1_opnd_has_base opnd \<longrightarrow> bop = greg (home tg (ir1_opnd_base_reg_num tg opnd))"
    and iop: "ir1_opnd_has_index opnd \<longrightarrow> iop = greg (home tg (ir1_opnd_index_reg_num tg opnd))"
  shows "em_does tg (do {
      d \<leftarrow> convert_mem_switch tg opnd (mem_bitmap tg opnd False) False need (greg d) bop iop (mem_disp tg opnd False);
      adjust_dest tg d (Some (greg h)) sz (ir1_addr_size pir1) }) B M (\<lambda>_ B' M'. clob (temps tg \<union> {h}) M M' \<and>
    norm tg (reg_read M' (greg h)) = norm tg (x86_write_reg sz False (reg_read M (greg h))
      (take_bit (nat (ir1_addr_size pir1)) (x86_offset tg pir1 opnd (guest_gpr tg M)))))"
    (is "em_does tg (?sw \<bind> ?k) B M ?Q")
proof -
  let ?V = "base_index tg opnd M + mem_disp tg opnd False"
  let ?b = "home tg (ir1_opnd_base_reg_num tg opnd)" and ?i = "home tg (ir1_opnd_index_reg_num tg opnd)"
  have V: "norm tg ?V = norm tg (x86_offset tg pir1 opnd (guest_gpr tg M))"
    using offset_norm[OF ok(2)] by (simp add: mem_disp_def split_off_def)
  have hb: "ir1_opnd_has_base opnd \<Longrightarrow> 0 \<le> ?b \<and> ?b < 32 \<and> ?b \<notin> temps tg"
    using home_range[of tg "ir1_opnd_base_reg_num tg opnd"] ok by (simp add: mem_opnd_ok_def)
  have hi: "ir1_opnd_has_index opnd \<Longrightarrow> 0 \<le> ?i \<and> ?i < 32 \<and> ?i \<notin> temps tg \<and> op_mem_scale opnd \<in> {1, 2, 4, 8}"
    using home_range[of tg "ir1_opnd_index_reg_num tg opnd"] ok by (simp add: mem_opnd_ok_def)
  have B: "B \<noteq> temps tg" "B \<subseteq> temps tg" "0 < d" "d < 32" "d \<notin> temps tg - B"
    using d room_empty(3) roomD(2)[OF room_empty(2)] h temps_range[of d tg] by auto
  have sw: "em_does tg ?sw B M (switch_post tg B M d ?V)"
    by (rule does_switch[where b = ?b and i = ?i and hb = "ir1_opnd_has_base opnd" and hi = "ir1_opnd_has_index opnd"])
      (use B bop iop hb hi in \<open>simp_all add: ir1_opnd_scale_def base_index_def mem_bitmap_def\<close>)
  have as: "ir1_addr_size pir1 \<in> {32, 64}" using ok(1) by (auto simp: mem_opnd_ok_def)
  show ?thesis
  proof (rule does_bind, rule does_conseq[OF sw])
    fix x B1 M1 assume "switch_post tg B M d ?V x B1 M1"
    then obtain r where r: "x = greg r" "norm tg (reg_read M1 (greg r)) = norm tg ?V" "clob (temps tg - B \<union> {d}) M M1"
      unfolding switch_post_def by blast
    have c: "clob (temps tg \<union> {h}) M M1" by (rule clob_mono[OF r(3)]) (use d in auto)
    have old: "reg_read M1 (greg h) = reg_read M (greg h)" if "sz = 16"
      by (rule clob_read[OF r(3)]) (use d h that in auto)
    show "em_does tg (?k x) B1 M1 ?Q" unfolding r(1)
      by (rule does_adjust_to[OF h(1,2) sz(1) as sz(2) old _ c]) (use r(2) V in simp_all)
  qed
qed

text \<open>Through convert\_mem\_helper: without a segment, and with some part of the address present.\<close>

lemma does_lea_plain:
  assumes ok: "mem_opnd_ok tg sb pir1 opnd" "\<not> rip_relative tg opnd" "\<not> ir1_opnd_has_seg opnd" "mem_bitmap tg opnd False \<noteq> 0"
    and h: "0 < h" "h < 32" "h \<notin> temps tg" and sz: "sz \<in> {16, 32, 64}" "sz = 64 \<Longrightarrow> CODEIS64 tg"
  shows "em_does tg (convert_mem_helper tg sb pir1 opnd (Some (greg h)) sz False) {} M (\<lambda>_ B' M'. clob (temps tg \<union> {h}) M M' \<and>
    norm tg (reg_read M' (greg h)) = norm tg (x86_write_reg sz False (reg_read M (greg h))
      (take_bit (nat (ir1_addr_size pir1)) (x86_offset tg pir1 opnd (guest_gpr tg M)))))"
    (is "em_does tg _ {} M (\<lambda>_ B' M'. ?R M')")
proof -
  let ?mb = "if ir1_opnd_has_base opnd then em_gpr tg (ir1_opnd_base_reg_num tg opnd) else em_return ir2_opnd_new_none"
  let ?mi = "if ir1_opnd_has_index opnd then em_gpr tg (ir1_opnd_index_reg_num tg opnd) else em_return ir2_opnd_new_none"
  have base: "em_does tg ?mb {} M (\<lambda>x B1 M1.
      (ir1_opnd_has_base opnd \<longrightarrow> x = greg (home tg (ir1_opnd_base_reg_num tg opnd))) \<and> B1 = {} \<and> M1 = M)"
    using ok by (auto simp: mem_opnd_ok_def intro: does_gpr does_return)
  have index: "em_does tg ?mi {} M (\<lambda>x B1 M1.
      (ir1_opnd_has_index opnd \<longrightarrow> x = greg (home tg (ir1_opnd_index_reg_num tg opnd))) \<and> B1 = {} \<and> M1 = M)"
    using ok by (auto simp: mem_opnd_ok_def intro: does_gpr does_return)
  let ?alloc = "if sz < 32 then em_alloc_itemp tg else em_return (greg h)"
  have rest: "em_does tg (do { t \<leftarrow> ?alloc;
      d \<leftarrow> convert_mem_switch tg opnd (mem_bitmap tg opnd False) False (sz < 32) t bop iop (mem_disp tg opnd False);
      d \<leftarrow> adjust_dest tg d (Some (greg h)) sz (ir1_addr_size pir1);
      em_return (d, off) }) {} M (\<lambda>_ B' M'. ?R M')"
    if "ir1_opnd_has_base opnd \<longrightarrow> bop = greg (home tg (ir1_opnd_base_reg_num tg opnd))"
      "ir1_opnd_has_index opnd \<longrightarrow> iop = greg (home tg (ir1_opnd_index_reg_num tg opnd))" for bop iop off
  proof -
    let ?sw = "\<lambda>t. convert_mem_switch tg opnd (mem_bitmap tg opnd False) False (sz < 32) t bop iop (mem_disp tg opnd False)"
    let ?adj = "\<lambda>d. adjust_dest tg d (Some (greg h)) sz (ir1_addr_size pir1)"
    have ret: "em_does tg (do { d \<leftarrow> m; em_return (d, off) }) B M (\<lambda>_ B' M'. ?R M')" if "em_does tg m B M (\<lambda>_ B' M'. ?R M')" for m :: "ir2_opnd em" and B
      by (rule does_bind, rule does_conseq[OF that], rule does_return) simp
    have k: "em_does tg (do { d \<leftarrow> ?sw (greg t) \<bind> ?adj; em_return (d, off) }) B M (\<lambda>_ B' M'. ?R M')"
      if "sz = 16 \<and> t \<in> temps tg \<and> B = {t} \<or> sz \<noteq> 16 \<and> t = h \<and> B = {}" for t B
      by (rule ret, rule does_lea_rest[OF ok(1,2) h sz]) (use that \<open>ir1_opnd_has_base opnd \<longrightarrow> _\<close> \<open>ir1_opnd_has_index opnd \<longrightarrow> _\<close> in auto)
    have "em_does tg (do { t \<leftarrow> ?alloc; d \<leftarrow> ?sw t \<bind> ?adj; em_return (d, off) }) {} M (\<lambda>_ B' M'. ?R M')"
    proof (cases "sz = 16")
      case True
      then show ?thesis using k by (auto intro!: does_bind[where m = "em_alloc_itemp _"] does_alloc[OF room_empty(3)])
    next
      case False
      then have "\<not> sz < 32" using sz(1) by auto
      then show ?thesis using k[of h "{}"] False by simp
    qed
    then show ?thesis by (simp only: bind_assoc)
  qed
  have all: "em_does tg (do { bop \<leftarrow> ?mb; iop \<leftarrow> ?mi; t \<leftarrow> ?alloc;
      d \<leftarrow> convert_mem_switch tg opnd (mem_bitmap tg opnd False) False (sz < 32) t bop iop (mem_disp tg opnd False);
      d \<leftarrow> adjust_dest tg d (Some (greg h)) sz (ir1_addr_size pir1);
      em_return (d, off) }) {} M (\<lambda>_ B' M'. ?R M')" for off
    by (rule does_bind[OF does_conseq[OF base]], elim conjE, hypsubst,
        rule does_bind[OF does_conseq[OF index]], elim conjE, hypsubst, rule rest)
  have norip: "\<not> (TARGET_X86_64 tg \<and> CODEIS64 tg \<and> ir1_opnd_base_reg opnd = dt_X86_REG_RIP)"
    using ok(2) by (auto simp: rip_relative_def ir1_opnd_base_reg_def)
  have simm: "ir1_opnd_simm tg opnd = Inr (to_longx tg (op_mem_disp opnd))"
    using simm_mem[of opnd tg] ok(1) by (simp add: mem_opnd_ok_def)
  have it: "ir2_opnd_is_itemp tg (greg h) = Some False" using is_itemp_greg[of h tg] h by simp
  have disp: "mem_disp tg opnd False = to_longx tg (op_mem_disp opnd)" by (simp add: mem_disp_def split_off_def)
  have seg: "convert_mem_seg tg sb opnd bm d = em_return d" for bm d using ok(3) by (simp add: convert_mem_seg_def)
  show ?thesis using all ok(3,4) norip
    unfolding convert_mem_helper_def Let_def em_res_def em_opt_def option.case simm it norip[THEN if_not_P] mem_bitmap_def disp seg
    by (simp add: it split del: if_split)
qed

lemma does_lea_rip:
  assumes "rip_relative tg opnd" "op_type opnd = dt_X86_OP_MEM" "0 < h" "h < 32" "h \<notin> temps tg"
  shows "em_does tg (convert_mem_helper tg sb pir1 opnd (Some (greg h)) 64 False) {} M
    (\<lambda>_ B' M'. M' = reg_write (greg h) (op_mem_disp opnd + ir1_addr_next tg pir1) M)"
proof -
  have tg: "CODEIS64 tg" "TARGET_X86_64 tg" "ir1_opnd_base_reg opnd = dt_X86_REG_RIP"
    using assms(1) by (auto simp: rip_relative_def ir1_opnd_base_reg_def CODEIS64_def)
  have simm: "ir1_opnd_simm tg opnd = Inr (op_mem_disp opnd)" using simm_mem[OF assms(2)] tg(2) by (simp add: to_longx_def)
  have it: "ir2_opnd_is_itemp tg (greg h) = Some False" using is_itemp_greg[of h tg] assms by simp
  have "em_does tg (do { li_guest_addr tg (greg h) (op_mem_disp opnd + ir1_addr_next tg pir1); em_return (greg h, 0) }) {} M
      (\<lambda>_ B' M'. M' = reg_write (greg h) (op_mem_disp opnd + ir1_addr_next tg pir1) M)"
    by (rule does_bind, rule does_li_guest_addr) (use assms tg in \<open>auto simp: norm_def reg_num_greg intro!: does_return\<close>)
  then show ?thesis using tg simm it by (simp add: convert_mem_helper_def em_res_def em_opt_def)
qed

lemma translate_lea_step:
  assumes ok: "lea_ok tg lay pir1"
  shows "implements tg (translate_lea tg lay pir1) M (x86_lea tg pir1 (x86_of tg M))"
proof -
  let ?op0 = "ir1_get_opnd pir1 0" and ?op1 = "ir1_get_opnd pir1 1"
  let ?h = "home tg (ir1_opnd_base_reg_num tg ?op0)" and ?sz = "ir1_opnd_size ?op0"
  have g: "gpr_opnd_ok tg ?op0" "?sz \<noteq> 8" and m: "mem_opnd_ok tg (seg_base_of lay) pir1 ?op1" "\<not> ir1_opnd_has_seg ?op1"
    and parts: "ir1_opnd_has_base ?op1 \<or> ir1_opnd_has_index ?op1 \<or> to_longx tg (op_mem_disp ?op1) \<noteq> 0"
    and rip: "rip_relative tg ?op1 \<Longrightarrow> ?sz = 64" using ok by (auto simp: lea_ok_def Let_def)
  note d = gpr_opnd_okD[OF g(1)]
  have sz: "?sz \<in> {16, 32, 64}" "?sz = 64 \<Longrightarrow> CODEIS64 tg" and h: "0 < ?h" "?h < 32" "?h \<notin> temps tg"
    using d(4) g(2) home_range[OF d(3)] by (auto simp: size_ok_def)
  have hi: "\<not> ir1_opnd_is_8h ?op0" using high_size g(2) by blast
  have off: "x86_offset tg pir1 ?op1 (x_gpr (x86_of tg M)) = x86_offset tg pir1 ?op1 (guest_gpr tg M)"
    by (rule x86_offset_cong[OF m(1)]) (simp add: x86_of_def)
  have "em_does tg (convert_mem_helper tg (seg_base_of lay) pir1 ?op1 (Some (greg ?h)) ?sz False) {} M (\<lambda>_ B' M'. clob (temps tg \<union> {?h}) M M' \<and>
      norm tg (reg_read M' (greg ?h)) = norm tg (x86_write_reg ?sz False (reg_read M (greg ?h))
        (take_bit (nat (ir1_addr_size pir1)) (x86_offset tg pir1 ?op1 (guest_gpr tg M)))))"
  proof (cases "rip_relative tg ?op1")
    case True
    have "op_type ?op1 = dt_X86_OP_MEM" "ir1_addr_size pir1 = 64" using m(1) True by (auto simp: mem_opnd_ok_def)
    then show ?thesis unfolding rip[OF True]
      by (intro does_conseq[OF does_lea_rip[OF True _ h]])
        (use h True in \<open>auto simp: x86_write_reg_def x86_offset_def reg_num_greg clob_write ac_simps\<close>)
  next
    case False
    have "mem_bitmap tg ?op1 False \<noteq> 0" using parts by (auto simp: mem_bitmap_def mem_disp_def split_off_def)
    then show ?thesis by (rule does_lea_plain[OF m(1) False m(2) _ h sz])
  qed
  then have "em_does tg (convert_mem_to_specific_gpr tg (seg_base_of lay) pir1 ?op1 (greg ?h) ?sz) {} M
      (\<lambda>_ B' M'. reaches tg M (x86_lea tg pir1 (x86_of tg M)) M')"
    unfolding convert_mem_to_specific_gpr_def x86_lea_def off
    by (intro does_bind) (erule does_conseq, intro does_return reaches_clob[OF g(1)], use hi in simp_all)
  then show ?thesis unfolding translate_lea_def Let_def
    by (intro implementsI does_bind[where m = "em_gpr _ _"] does_gpr[OF d(3)] does_bind[where m = "convert_mem_to_specific_gpr _ _ _ _ _ _"])
      (erule does_conseq, rule does_return, simp)
qed

text \<open>C18: translate\_lea is correct: for a destination of 16, 32 or 64 bits and an address with at
  least one part, no segment override and, if it is relative to the instruction, a destination of 64
  bits, the code emitted runs to a state that represents the x86 state in which the destination has
  the offset, cut to the address size; nothing else changes.\<close>

theorem translate_lea_correct:
  assumes ok: "lea_ok tg lay pir1"
  shows "implements tg (translate_lea tg lay pir1) M (x86_lea tg pir1 (x86_of tg M))"
  using assms by (rule translate_lea_step)

end
