(* ===== verification/Tr_Misc.thy ===== *)
theory Tr_Misc
  imports Tr_Popa Tr_Lea Pc_Thunk
begin

text \<open>
  Instructions of translator/tr-misc.c that touch neither flags nor control flow, in the order of
  that file: nop (option\_anonym off), endbr, prefetch, leave, cwd, cdq, cqo, cbw, cwde, cdqe,
  and the two translations of a direct call that stay in the block, translate\_callnext and
  translate\_callthunk, with the recognition of thunks at the end of get\_ir1\_list (translate.c).
  No ahead-of-time translation is running, and GHBR\_ON is 0 (CONFIG\_LATX\_HBR off).  The operands of fixed registers are partly initialised
  C variables: \<open>junk\<close> is their former contents.
\<close>

definition ir1_opnd_new_static_reg :: "int \<Rightarrow> dt_x86_reg \<Rightarrow> ir1_opnd \<Rightarrow> ir1_opnd" where
  "ir1_opnd_new_static_reg sz reg junk = junk\<lparr>op_type := dt_X86_OP_REG, op_size := of_int (sz div 8),
     op_imm := set_low32 reg (op_imm junk), op_avx_bcast := dt_X86_AVX_BCAST_INVALID\<rparr>"

abbreviation dx_ir1_opnd :: "ir1_opnd \<Rightarrow> ir1_opnd" where "dx_ir1_opnd \<equiv> ir1_opnd_new_static_reg 16 dt_X86_REG_DX"
abbreviation edx_ir1_opnd :: "ir1_opnd \<Rightarrow> ir1_opnd" where "edx_ir1_opnd \<equiv> ir1_opnd_new_static_reg 32 dt_X86_REG_EDX"

section \<open>Instructions without effect\<close>

definition translate_nop :: "ir1_inst \<Rightarrow> bool em" where
  "translate_nop pir1 = do {
     la_rri LISA_ANDI zero_ir2_opnd zero_ir2_opnd 0;
     em_return True
   }"

definition translate_endbr32 :: "ir1_inst \<Rightarrow> bool em" where "translate_endbr32 pir1 = em_return True"
definition translate_endbr64 :: "ir1_inst \<Rightarrow> bool em" where "translate_endbr64 pir1 = em_return True"
definition translate_prefetch :: "ir1_inst \<Rightarrow> bool em" where "translate_prefetch pir1 = em_return True"
definition translate_prefetchnta :: "ir1_inst \<Rightarrow> bool em" where "translate_prefetchnta pir1 = em_return True"
definition translate_prefetcht1 :: "ir1_inst \<Rightarrow> bool em" where "translate_prefetcht1 pir1 = em_return True"
definition translate_prefetcht2 :: "ir1_inst \<Rightarrow> bool em" where "translate_prefetcht2 pir1 = em_return True"

section \<open>Calls that stay in the block\<close>

text \<open>A call of the next instruction pushes its address.\<close>

definition translate_callnext :: "target \<Rightarrow> ir1_inst \<Rightarrow> bool em" where
  "translate_callnext tg pir1 = do {
     next_addr \<leftarrow> em_alloc_itemp tg;
     li_guest_addr tg next_addr (ir1_addr_next tg pir1);
     esp_opnd \<leftarrow> em_gpr tg esp;
     let opnd_size = ir1_get_opnd_size tg pir1 div 8;
     (if \<not> CODEIS64 tg then la_rrii LISA_BSTRPICK_D esp_opnd esp_opnd 31 0 else em_skip);
     (if opnd_size = 8 then la_rri LISA_ST_D next_addr esp_opnd (- opnd_size)
      else if opnd_size = 4 then la_rri LISA_ST_W next_addr esp_opnd (- opnd_size)
      else la_rri LISA_ST_H next_addr esp_opnd (- opnd_size));
     la_addi_addrx tg esp_opnd esp_opnd (- opnd_size);
     em_free_temp tg next_addr;
     em_return True
   }"

text \<open>A call of a thunk, a block that moves the return address to a register and returns.
  \<open>thunk\<close> is the lookup in the table of thunks, \<open>ht_pc_thunk_lookup\<close>.\<close>

definition translate_callthunk :: "target \<Rightarrow> (u32 \<Rightarrow> 32 word) \<Rightarrow> ir1_inst \<Rightarrow> bool em" where
  "translate_callthunk tg thunk pir1 = do {
     a \<leftarrow> em_res 0 (ir1_target_addr tg pir1);
     dest \<leftarrow> em_gpr tg (sint (thunk (ucast a)));
     li_guest_addr tg dest (ir1_addr_next tg pir1);
     em_return True
   }"

text \<open>The entry that get\_ir1\_list makes for a block that it takes for a thunk: the register.\<close>

definition pc_thunk_of :: "target \<Rightarrow> ir1_inst list \<Rightarrow> int option" where
  "pc_thunk_of tg ir1_list =
    (if length ir1_list = 2 \<and> ir1_is_return (ir1_list ! 1) \<and> ir1_opcode (ir1_list ! 0) = dt_X86_INS_MOV then
       let opnd1 = ir1_get_opnd (ir1_list ! 0) 1
       in if op_type opnd1 = dt_X86_OP_MEM \<and> ir1_opnd_base_reg opnd1 = dt_X86_REG_ESP \<and> ir1_opnd_simm tg opnd1 = Inr 0
          then Some (ir1_opnd_base_reg_num tg (ir1_get_opnd (ir1_list ! 0) 0)) else None
     else None)"

section \<open>leave\<close>

definition translate_leave :: "target \<Rightarrow> ir1_inst \<Rightarrow> bool em" where
  "translate_leave tg pir1 = do {
     rsp_opnd \<leftarrow> em_gpr tg esp;
     rbp_opnd \<leftarrow> em_gpr tg ebp_index;
     (if CODEIS64 tg then la_rrr LISA_OR rsp_opnd rbp_opnd zero_ir2_opnd
      else la_rrii LISA_BSTRPICK_D rsp_opnd rbp_opnd 31 0);
     let opnd_size = ir1_get_opnd_size tg pir1 div 8;
     (if opnd_size = 2 then do {
        ebp_temp_opnd \<leftarrow> em_alloc_itemp tg;
        la_rri LISA_LD_HU ebp_temp_opnd rsp_opnd 0;
        la_rrii LISA_BSTRINS_W rbp_opnd ebp_temp_opnd 16 0
      }
      else la_load_addrx tg rbp_opnd rsp_opnd 0);
     la_addi_addrx tg rsp_opnd rsp_opnd opnd_size;
     em_return True
   }"

section \<open>Sign extension of the accumulator\<close>

definition translate_cwd :: "target \<Rightarrow> env_layout \<Rightarrow> ir1_opnd \<Rightarrow> ir1_inst \<Rightarrow> bool em" where
  "translate_cwd tg lay junk pir1 = do {
     ax \<leftarrow> em_gpr tg eax_index;
     dx \<leftarrow> em_alloc_itemp tg;
     la_rr LISA_EXT_W_H dx ax;
     la_rri LISA_SRAI_W dx dx 16;
     store_ireg_to_ir1 tg lay pir1 dx (dx_ir1_opnd junk) False;
     em_free_temp tg dx;
     em_return True
   }"

definition translate_cdq :: "target \<Rightarrow> env_layout \<Rightarrow> ir1_opnd \<Rightarrow> ir1_inst \<Rightarrow> bool em" where
  "translate_cdq tg lay junk pir1 = do {
     eax \<leftarrow> em_gpr tg eax_index;
     edx \<leftarrow> em_alloc_itemp tg;
     la_rri LISA_SRAI_W edx eax 31;
     store_ireg_to_ir1 tg lay pir1 edx (edx_ir1_opnd junk) False;
     em_free_temp tg edx;
     em_return True
   }"

definition translate_cqo :: "target \<Rightarrow> ir1_inst \<Rightarrow> bool em" where
  "translate_cqo tg pir1 =
    (if \<not> TARGET_X86_64 tg then em_return False else do {
       rax \<leftarrow> em_gpr tg eax_index;
       rdx \<leftarrow> em_gpr tg edx_index;
       la_rri LISA_SRAI_D rdx rax 63;
       em_return True
     })"

definition translate_cbw :: "target \<Rightarrow> ir1_inst \<Rightarrow> bool em" where
  "translate_cbw tg pir1 = do {
     temp \<leftarrow> em_alloc_itemp tg;
     eax_opnd \<leftarrow> em_gpr tg eax_index;
     la_rr LISA_EXT_W_B temp eax_opnd;
     la_rrii LISA_BSTRINS_D eax_opnd temp 15 0;
     em_return True
   }"

definition translate_cwde :: "target \<Rightarrow> ir1_inst \<Rightarrow> bool em" where
  "translate_cwde tg pir1 = do {
     eax_opnd \<leftarrow> em_gpr tg eax_index;
     la_rr LISA_EXT_W_H eax_opnd eax_opnd;
     (if CODEIS64 tg then la_mov32_zx eax_opnd eax_opnd else em_skip);
     em_return True
   }"

definition translate_cdqe :: "target \<Rightarrow> ir1_inst \<Rightarrow> bool em" where
  "translate_cdqe tg pir1 =
    (if \<not> TARGET_X86_64 tg then em_return False else do {
       rax_opnd \<leftarrow> em_gpr tg eax_index;
       la_rri LISA_SLLI_W rax_opnd rax_opnd 0;
       em_return True
     })"

end
