(* ===== verification/Tr_Block.thy ===== *)
theory Tr_Block
  imports Tr_Misc
begin

text \<open>
  From instructions to a block: ir1\_translate and tr\_ir2\_generate of translator/translate.c, with
  the rows of translate\_functions whose functions are modelled.  Options and configuration:
  option\_softfpu is 0, option\_lative or option\_enable\_lasx is off (no upper halves of ymm
  registers to keep), option\_imm\_reg and option\_monitor\_shared\_mem are off, and there is no
  instruction pattern, no profile and no debug code.
\<close>

abbreviation (input) dt_X86_INS_CDQ :: dt_x86_insn where "dt_X86_INS_CDQ \<equiv> 145"
abbreviation (input) dt_X86_INS_CDQE :: dt_x86_insn where "dt_X86_INS_CDQE \<equiv> 146"
abbreviation (input) dt_X86_INS_CLI :: dt_x86_insn where "dt_X86_INS_CLI \<equiv> 153"
abbreviation (input) dt_X86_INS_CQO :: dt_x86_insn where "dt_X86_INS_CQO \<equiv> 183"
abbreviation (input) dt_X86_INS_CWDE :: dt_x86_insn where "dt_X86_INS_CWDE \<equiv> 202"
abbreviation (input) dt_X86_INS_INT1 :: dt_x86_insn where "dt_X86_INS_INT1 \<equiv> 249"
abbreviation (input) dt_X86_INS_MOVSXD :: dt_x86_insn where "dt_X86_INS_MOVSXD \<equiv> 499"
abbreviation (input) dt_X86_INS_PREFETCH :: dt_x86_insn where "dt_X86_INS_PREFETCH \<equiv> 591"
abbreviation (input) dt_X86_INS_PREFETCHNTA :: dt_x86_insn where "dt_X86_INS_PREFETCHNTA \<equiv> 592"
abbreviation (input) dt_X86_INS_PREFETCHT1 :: dt_x86_insn where "dt_X86_INS_PREFETCHT1 \<equiv> 594"
abbreviation (input) dt_X86_INS_PREFETCHT2 :: dt_x86_insn where "dt_X86_INS_PREFETCHT2 \<equiv> 595"
abbreviation (input) dt_X86_INS_ENDBR32 :: dt_x86_insn where "dt_X86_INS_ENDBR32 \<equiv> 1501"
abbreviation (input) dt_X86_INS_ENDBR64 :: dt_x86_insn where "dt_X86_INS_ENDBR64 \<equiv> 1502"

text \<open>What the translation of a block depends on: the layout of CPUX86State, the former contents of
  operand variables, the table of thunks, the configuration (CONFIG\_LATX\_TU, CONFIG\_LATX\_TS), and
  the functions for instructions that are not modelled.\<close>

record tr_conf =
  cf_lay :: env_layout
  cf_opnd :: ir1_opnd
  cf_thunk :: "u32 \<Rightarrow> 32 word"
  cf_tu :: bool
  cf_ts :: bool
  cf_functions :: "dt_x86_insn \<Rightarrow> (ir1_inst \<Rightarrow> bool em) option"
  cf_movs :: "ir1_inst \<Rightarrow> bool em"
  cf_movsd :: "ir1_inst \<Rightarrow> bool em"
  cf_cmps :: "ir1_inst \<Rightarrow> bool em"
  cf_cmpsd :: "ir1_inst \<Rightarrow> bool em"

text \<open>Instructions that the table maps to translate\_nop.\<close>

definition nop_rows :: "dt_x86_insn list" where
  "nop_rows = [dt_X86_INS_NOP, dt_X86_INS_LCALL, dt_X86_INS_LDS, dt_X86_INS_LES, dt_X86_INS_OUTSB, dt_X86_INS_CLI, dt_X86_INS_STI,
     dt_X86_INS_INSB, dt_X86_INS_INT1, dt_X86_INS_OUTSD, dt_X86_INS_SLDT, dt_X86_INS_ARPL, dt_X86_INS_SIDT, dt_X86_INS_BNDMOV]"

definition translate_functions :: "target \<Rightarrow> tr_conf \<Rightarrow> dt_x86_insn \<Rightarrow> (ir1_inst \<Rightarrow> bool em) option" where
  "translate_functions tg cf op =
    (if op = dt_X86_INS_CBW then Some (translate_cbw tg)
     else if op = dt_X86_INS_CDQ then Some (translate_cdq tg (cf_lay cf) (cf_opnd cf))
     else if op = dt_X86_INS_CDQE then Some (translate_cdqe tg)
     else if op = dt_X86_INS_CQO then Some (translate_cqo tg)
     else if op = dt_X86_INS_CWD then Some (translate_cwd tg (cf_lay cf) (cf_opnd cf))
     else if op = dt_X86_INS_CWDE then Some (translate_cwde tg)
     else if op = dt_X86_INS_LEA then Some (translate_lea tg (cf_lay cf))
     else if op = dt_X86_INS_LEAVE then Some (translate_leave tg)
     else if op = dt_X86_INS_MOV \<or> op = dt_X86_INS_MOVABS then Some (translate_mov tg (cf_lay cf))
     else if op = dt_X86_INS_MOVSX then Some (translate_movsx tg (cf_lay cf))
     else if op = dt_X86_INS_MOVSXD then Some (translate_movsxd tg (cf_lay cf))
     else if op = dt_X86_INS_MOVZX then Some (translate_movzx tg (cf_lay cf))
     else if op = dt_X86_INS_POP then Some (translate_pop tg (cf_lay cf) (cf_opnd cf))
     else if op = dt_X86_INS_POPAW then Some (translate_popaw tg (cf_lay cf) (cf_opnd cf))
     else if op = dt_X86_INS_POPAL then Some (translate_popal tg (cf_lay cf) (cf_opnd cf))
     else if op = dt_X86_INS_PREFETCH then Some translate_prefetch
     else if op = dt_X86_INS_PREFETCHNTA then Some translate_prefetchnta
     else if op = dt_X86_INS_PREFETCHT1 then Some translate_prefetcht1
     else if op = dt_X86_INS_PREFETCHT2 then Some translate_prefetcht2
     else if op = dt_X86_INS_PUSH then Some (translate_push tg (cf_lay cf) (cf_opnd cf))
     else if op = dt_X86_INS_PUSHAL then Some (translate_pushal tg (cf_lay cf) (cf_opnd cf))
     else if op = dt_X86_INS_PUSHAW then Some (translate_pushaw tg (cf_lay cf) (cf_opnd cf))
     else if op = dt_X86_INS_ENDBR32 then Some translate_endbr32
     else if op = dt_X86_INS_ENDBR64 then Some translate_endbr64
     else if op \<in> set nop_rows then Some translate_nop
     else cf_functions cf op)"

definition em_free_all :: "unit em" where
  "em_free_all = State (\<lambda>s. ((), s\<lparr>tc_itemp := 0, tc_ftemp := 0\<rparr>))"

text \<open>Direct calls that are not branches: to the next instruction, or to a thunk.\<close>

definition call_in_block :: "target \<Rightarrow> tr_conf \<Rightarrow> ir1_inst \<Rightarrow> bool em option" where
  "call_in_block tg cf ir1 =
    (if ir1_opcode ir1 = dt_X86_INS_CALL \<and> \<not> ir1_is_indirect_call ir1 then
       (case ir1_target_addr tg ir1 of
          Inl _ \<Rightarrow> Some (em_fail False)
        | Inr a \<Rightarrow>
          if ir1_addr_next tg ir1 = a then Some (translate_callnext tg ir1)
          else if 0 \<le> sint (cf_thunk cf (ucast a)) then Some (translate_callthunk tg (cf_thunk cf) ir1)
          else None)
     else None)"

text \<open>The function for an instruction; movsd and cmpsd are a string and an SSE2 instruction each.\<close>

definition function_of :: "target \<Rightarrow> tr_conf \<Rightarrow> ir1_inst \<Rightarrow> (ir1_inst \<Rightarrow> bool em) option" where
  "function_of tg cf ir1 =
    (if ir1_opcode ir1 = dt_X86_INS_MOVSD then
       if i_opcode ir1 ! 0 = 0xa5 then Some (cf_movs cf)
       else if i_opcode ir1 ! 0 = 0x0f then Some (cf_movsd cf)
       else Some (\<lambda>_. em_return False)
     else if ir1_opcode ir1 = dt_X86_INS_CMPSD then
       if i_opcode ir1 ! 0 = 0x0f then Some (cf_cmpsd cf)
       else if i_opcode ir1 ! 0 = 0xa7 then Some (cf_cmps cf)
       else Some (\<lambda>_. em_return False)
     else translate_functions tg cf (ir1_opcode ir1))"

definition ir1_translate :: "target \<Rightarrow> tr_conf \<Rightarrow> ir1_inst \<Rightarrow> bool em" where
  "ir1_translate tg cf ir1 =
    (case call_in_block tg cf ir1 of
       Some tr \<Rightarrow> tr
     | None \<Rightarrow>
       (case function_of tg cf ir1 of
          None \<Rightarrow> if cf_tu cf \<or> cf_ts cf then em_return False else do { em_free_all; em_return False }
        | Some tr \<Rightarrow> do { translation_success \<leftarrow> tr ir1; em_free_all; em_return translation_success }))"

text \<open>A mark with the x86 address, of which the operand holds 32 bits.\<close>

definition ins_mark :: "target \<Rightarrow> ir1_inst \<Rightarrow> la_ins" where
  "ins_mark tg pir1 = (LISA_X86_INST, [ir2_opnd_build ir2_opnd_new_none IR2_OPND_IMM (uint (ir1_addr tg pir1))])"

definition tr_init_for_each_ir1_in_tb :: "target \<Rightarrow> ir1_inst \<Rightarrow> unit em" where
  "tr_init_for_each_ir1_in_tb tg pir1 = emit (fst (ins_mark tg pir1)) (snd (ins_mark tg pir1))"

abbreviation (input) TCG_MAX_INSNS :: nat where "TCG_MAX_INSNS \<equiv> 255"

text \<open>The loop of tr\_ir2\_generate: the addresses it stores in gen\_insn\_data, an array of
  \<open>TCG_MAX_INSNS\<close> rows, and whether some translation failed.\<close>

fun generate_loop :: "target \<Rightarrow> (ir1_inst \<Rightarrow> bool em) \<Rightarrow> nat \<Rightarrow> ir1_inst list \<Rightarrow> (u64 list \<times> bool) em" where
  "generate_loop tg translate i [] = em_return ([], False)"
| "generate_loop tg translate i (pir1 # pirs) = do {
     (if i < TCG_MAX_INSNS then em_skip else em_fail ());
     tr_init_for_each_ir1_in_tb tg pir1;
     translation_success \<leftarrow> translate pir1;
     rest \<leftarrow> generate_loop tg translate (i + 1) pirs;
     em_return (ir1_addr tg pir1 # fst rest, \<not> translation_success \<or> snd rest)
   }"

text \<open>The result is 1; with CONFIG\_LATX\_TU a failure makes the block a BAD\_TB.\<close>

definition tr_ir2_generate :: "target \<Rightarrow> tr_conf \<Rightarrow> ir1_inst list \<Rightarrow> (int \<times> u64 list \<times> bool) em" where
  "tr_ir2_generate tg cf pirs = do {
     r \<leftarrow> generate_loop tg (ir1_translate tg cf) 0 pirs;
     em_return (1, fst r, cf_tu cf \<and> snd r)
   }"

end
