(* ===== verification/Tr_Misc_Correct.thy ===== *)
theory Tr_Misc_Correct
  imports Tr_Misc
begin

text \<open>
  The instructions of \<open>Tr_Misc\<close> on the x86 state: sign extension of the accumulator, leave,
  and the calls that stay in the block.
\<close>

section \<open>Writing a part of a register\<close>

definition x86_set_low :: "target \<Rightarrow> int \<Rightarrow> int \<Rightarrow> u64 \<Rightarrow> x86_state \<Rightarrow> x86_state" where
  "x86_set_low tg i sz v S = S\<lparr>x_gpr := (x_gpr S)(i := norm tg (x86_write_reg sz False (x_gpr S i) v))\<rparr>"

lemma low_index [simp]: "0 \<le> i \<Longrightarrow> i < 8 \<Longrightarrow> gpr_index tg i"
  by (auto simp: gpr_index_def)

lemma reaches_low:
  assumes i: "gpr_index tg i" and sz: "size_ok tg sz" and c: "clob (temps tg) M N"
    and w: "norm tg w = norm tg (x86_write_reg sz False (reg_read N (greg (home tg i))) v)"
  shows "reaches tg M (x86_set_low tg i sz v (x86_of tg M)) (reg_write (greg (home tg i)) w N)"
proof -
  have "x_gpr (x86_of tg M) i = norm tg (reg_read N (greg (home tg i)))"
    using i guest_gpr_clob[OF c i] by (simp add: x86_of_def guest_gpr_def)
  moreover have "norm tg (x86_write_reg sz False (norm tg (reg_read N (greg (home tg i)))) v) = norm tg w"
    using norm_write[OF sz, of False "reg_read N (greg (home tg i))" v] w by simp
  ultimately show ?thesis using x86_of_write[OF c i, of w] by (simp add: x86_set_low_def)
qed

lemma trunc_set_low32: "trunc32 (set_low32 r w) = of_nat r"
proof -
  have m: "(0xffffffff00000000 :: u64) = NOT (mask 32)" by (simp add: mask_eq_exp_minus_1)
  show ?thesis unfolding set_low32_def m by (rule bit_word_eqI) (simp add: bit_simps)
qed

lemma static_reg:
  assumes "sz \<in> {8, 16, 32, 64}" "r < 2 ^ 32"
  shows "op_type (ir1_opnd_new_static_reg sz r junk) = dt_X86_OP_REG" "ir1_opnd_size (ir1_opnd_new_static_reg sz r junk) = sz"
    "op_reg (ir1_opnd_new_static_reg sz r junk) = r"
proof -
  show "ir1_opnd_size (ir1_opnd_new_static_reg sz r junk) = sz"
    using assms by (auto simp: ir1_opnd_new_static_reg_def ir1_opnd_size_def)
  show "op_reg (ir1_opnd_new_static_reg sz r junk) = r"
    using assms(2) by (simp add: ir1_opnd_new_static_reg_def op_reg_def trunc_set_low32 unsigned_of_nat take_bit_nat_eq_self)
qed (simp add: ir1_opnd_new_static_reg_def)

lemma op_size_static: "op_size (ir1_opnd_new_static_reg sz r junk) = of_int (sz div 8)"
  by (simp add: ir1_opnd_new_static_reg_def)

lemma static_opnds:
  "gpr_opnd_ok tg (dx_ir1_opnd junk)" "gpr_opnd_ok tg (edx_ir1_opnd junk)"
  "ir1_opnd_base_reg_num tg (dx_ir1_opnd junk) = edx_index" "ir1_opnd_base_reg_num tg (edx_ir1_opnd junk) = edx_index"
  "\<not> ir1_opnd_is_8h (dx_ir1_opnd junk)" "\<not> ir1_opnd_is_8h (edx_ir1_opnd junk)"
  by (simp_all add: gpr_opnd_ok_def ir1_opnd_is_gpr_def gpr_index_def ir1_opnd_base_reg_num_def base_reg_num_gpr_def size_ok_def
      ir1_opnd_is_8l_def ir1_opnd_is_8h_def ir1_opnd_is_16bit_def static_reg op_size_static)

lemma set_static:
  assumes "gpr_opnd_ok tg opnd" "\<not> ir1_opnd_is_8h opnd"
  shows "x86_set tg pir1 seg opnd v S = x86_set_low tg (ir1_opnd_base_reg_num tg opnd) (ir1_opnd_size opnd) v S"
  using assms(2) unfolding x86_set_reg[OF assms(1)] by (simp add: x86_set_gpr_def x86_set_low_def Let_def)

section \<open>Sign extension of the accumulator\<close>

definition x86_cbw :: "target \<Rightarrow> x86_state \<Rightarrow> x86_state" where
  "x86_cbw tg S = x86_set_low tg eax_index 16 (signed_take_bit 7 (x_gpr S eax_index)) S"

definition x86_cwde :: "target \<Rightarrow> x86_state \<Rightarrow> x86_state" where
  "x86_cwde tg S = x86_set_low tg eax_index 32 (signed_take_bit 15 (x_gpr S eax_index)) S"

definition x86_cdqe :: "target \<Rightarrow> x86_state \<Rightarrow> x86_state" where
  "x86_cdqe tg S = x86_set_low tg eax_index 64 (signed_take_bit 31 (x_gpr S eax_index)) S"

text \<open>cwd, cdq and cqo: the sign of the accumulator of \<open>sz\<close> bits in all bits of edx.\<close>

definition x86_sign :: "target \<Rightarrow> int \<Rightarrow> x86_state \<Rightarrow> x86_state" where
  "x86_sign tg sz S = x86_set_low tg edx_index sz (if bit (x_gpr S eax_index) (nat sz - 1) then -1 else 0) S"

lemma norm_signed: "n < 32 \<Longrightarrow> signed_take_bit n (norm tg w) = signed_take_bit n w"
  by (rule bit_word_eqI) (auto simp: norm_def bit_stb64 bit_take_bit_iff)

lemma norm_bit: "n < 32 \<Longrightarrow> bit (norm tg w) n = bit w n"
  by (auto simp: norm_def bit_take_bit_iff)

lemma x_gpr_low: "gpr_index tg i \<Longrightarrow> x_gpr (x86_of tg M) i = norm tg (reg_read M (greg (home tg i)))"
  by (simp add: x86_of_def guest_gpr_def)

lemma acc_low: "x_gpr (x86_of tg M) eax_index = norm tg (reg_read M (greg (home tg eax_index)))"
  by (simp add: x_gpr_low)

lemma translate_cbw_step: "implements tg (translate_cbw tg pir1) M (x86_cbw tg (x86_of tg M))"
proof -
  let ?h = "greg (home tg eax_index)"
  have "em_does tg (do { la_rr LISA_EXT_W_B (greg t) ?h; la_rrii LISA_BSTRINS_D ?h (greg t) 15 0; em_return True }) {t} M
      (\<lambda>x B' M'. x \<and> reaches tg M (x86_cbw tg (x86_of tg M)) M')" if t: "t \<in> temps tg" for t
  proof (rule does_bind, rule does_op)
    let ?v = "signed_take_bit 7 (reg_read M ?h)" let ?N = "reg_write (greg t) ?v M"
    have r: "reg_read ?N (greg t) = ?v" using temp_rules[OF t] by simp
    have "reaches tg M (x86_cbw tg (x86_of tg M)) (reg_write ?h (x86_write_reg 16 False (reg_read ?N ?h) ?v) ?N)"
      unfolding x86_cbw_def acc_low
      by (rule reaches_low[OF _ _ clob_temp[OF t]]) (simp_all add: size_ok_def norm_signed)
    then show "em_does tg (do { la_rrii LISA_BSTRINS_D ?h (greg t) 15 0; em_return True }) {t} ?N
        (\<lambda>x B' M'. x \<and> reaches tg M (x86_cbw tg (x86_of tg M)) M')"
      by (intro does_bind does_bstrins[where high = False] does_return) (simp only: r)
  qed simp_all
  then show ?thesis unfolding translate_cbw_def
    by (intro implementsI) (rule does_bind, rule does_alloc[OF room_empty(3)], simp add: em_gpr_home)
qed

lemma misc_values [simp]: "la_store_bytes LISA_SRAI_W = None" "la_store_bytes LISA_SRAI_D = None" "la_store_bytes LISA_BSTRINS_W = None"
  by (simp_all add: la_store_bytes_def)

lemma home_num: "reg_num (greg (home tg eax_index)) \<noteq> 0" "reg_num (greg (home tg edx_index)) \<noteq> 0"
    "reg_num (greg (home tg ebx_index)) \<noteq> 0" "reg_num (greg (home tg esp)) \<noteq> 0" "reg_num (greg (home tg ebp_index)) \<noteq> 0"
  using conjunct2[OF reg_num_home] low_index by simp_all

lemma low_homes: "em_gpr tg eax_index = em_return (greg (home tg eax_index))" "em_gpr tg edx_index = em_return (greg (home tg edx_index))"
    "em_gpr tg ebx_index = em_return (greg (home tg ebx_index))" "em_gpr tg esp = em_return (greg (home tg esp))"
    "em_gpr tg ebp_index = em_return (greg (home tg ebp_index))"
  by (simp_all add: em_gpr_home)

lemma translate_cwde_step: "implements tg (translate_cwde tg pir1) M (x86_cwde tg (x86_of tg M))"
proof -
  let ?h = "greg (home tg eax_index)" and ?v = "signed_take_bit 15 (reg_read M (greg (home tg eax_index)))"
  have R: "reaches tg M (x86_cwde tg (x86_of tg M)) (reg_write ?h w M)" if "norm tg w = norm tg (take_bit 32 ?v)" for w
    unfolding x86_cwde_def acc_low by (rule reaches_low[OF _ _ clob_refl]) (use that in \<open>simp_all add: size_ok_def norm_signed x86_write_reg_def\<close>)
  have "em_does tg (do { la_rr LISA_EXT_W_H ?h ?h; (if CODEIS64 tg then la_mov32_zx ?h ?h else em_skip) }) {} M
      (\<lambda>_ B' M'. reaches tg M (x86_cwde tg (x86_of tg M)) M')"
  proof (rule does_bind, rule does_op)
    show "em_does tg (if CODEIS64 tg then la_mov32_zx ?h ?h else em_skip) {} (reg_write ?h ?v M) (\<lambda>_ B' M'. reaches tg M (x86_cwde tg (x86_of tg M)) M')"
      using R home_num(1)[of tg] by (auto simp: norm_def intro!: does_mov32_zx does_return)
  qed simp_all
  from implements_true[OF this] show ?thesis by (simp add: translate_cwde_def low_homes)
qed

lemma translate_cdqe_step:
  assumes "CODEIS64 tg"
  shows "implements tg (translate_cdqe tg pir1) M (x86_cdqe tg (x86_of tg M))"
proof -
  let ?h = "greg (home tg eax_index)"
  have "reaches tg M (x86_cdqe tg (x86_of tg M)) (reg_write ?h (signed_take_bit 31 (reg_read M ?h)) M)"
    unfolding x86_cdqe_def acc_low by (rule reaches_low[OF _ _ clob_refl])
      (use assms in \<open>simp_all add: size_ok_def norm_signed x86_write_reg_def\<close>)
  then have "em_does tg (la_rri LISA_SLLI_W ?h ?h 0) {} M (\<lambda>_ B' M'. reaches tg M (x86_cdqe tg (x86_of tg M)) M')"
    by (intro does_op) (simp_all add: sx32_def)
  from implements_true[OF this] show ?thesis using assms
    by (simp add: translate_cdqe_def low_homes) (simp add: CODEIS64_def TARGET_X86_64_def)
qed

text \<open>An arithmetic shift leaves copies of the sign.\<close>

lemma shifted_signs:
  "signed_drop_bit 16 (sx32 (signed_take_bit 15 w)) = (if bit w 15 then -1 else 0)"
  "signed_drop_bit 31 (sx32 w) = (if bit w 31 then -1 else 0)" for w :: u64
  by (rule bit_word_eqI, auto simp: bit_signed_drop_bit_iff bit_sx32 bit_stb64 min_def)+

lemma shifted_sign_64: "signed_drop_bit 63 w = (if bit w 63 then -1 else 0)" for w :: u64
proof (rule bit_word_eqI)
  fix i assume "i < LENGTH(64)"
  then show "bit (signed_drop_bit 63 w) i = bit (if bit w 63 then -1 else 0 :: u64) i"
    by (cases i) (simp_all add: bit_signed_drop_bit_iff)
qed

lemma ui_shifts: "ui 5 (create_immh_opnd 16) = 16" "ui 5 (create_immh_opnd 31) = 31" "ui 6 (create_immh_opnd 63) = 63"
  "ui 5 (create_immh_opnd 0) = 0"
  by (simp_all add: ui_imm take_bit_eq_mod)

lemma translate_cqo_step:
  assumes "CODEIS64 tg"
  shows "implements tg (translate_cqo tg pir1) M (x86_sign tg 64 (x86_of tg M))"
proof -
  let ?h = "greg (home tg eax_index)" and ?d = "greg (home tg edx_index)"
  have "reaches tg M (x86_sign tg 64 (x86_of tg M)) (reg_write ?d (if bit (reg_read M ?h) 63 then -1 else 0) M)"
    unfolding x86_sign_def acc_low by (rule reaches_low[OF _ _ clob_refl])
      (use assms in \<open>simp_all add: size_ok_def norm_def x86_write_reg_def\<close>)
  then have "em_does tg (la_rri LISA_SRAI_D ?d ?h 63) {} M (\<lambda>_ B' M'. reaches tg M (x86_sign tg 64 (x86_of tg M)) M')"
    by (intro does_op) (simp_all add: ui_shifts shifted_sign_64)
  from implements_true[OF this] show ?thesis using assms
    by (simp add: translate_cqo_def low_homes) (simp add: CODEIS64_def TARGET_X86_64_def)
qed

text \<open>Storing a computed value to a fixed register.\<close>

lemma does_set_static:
  assumes t: "t \<in> temps tg" and ok: "gpr_opnd_ok tg opnd" "\<not> ir1_opnd_is_8h opnd" and c: "clob (temps tg) M N"
    and v: "reg_read N (greg t) = v"
  shows "em_does tg (store_ireg_to_ir1 tg lay pir1 (greg t) opnd False) {t} N
    (\<lambda>_ B' M'. reaches tg M (x86_set_low tg (ir1_opnd_base_reg_num tg opnd) (ir1_opnd_size opnd) v (x86_of tg M)) M')"
proof -
  have "dst_ok tg lay pir1 opnd M" using ok(1) by (simp add: dst_ok_def)
  from does_set[OF this c room_empty(2)[OF t], of t v] temp_rules[OF t] v
  show ?thesis unfolding set_static[OF ok] by (auto elim: does_conseq)
qed

lemma translate_cwd_step: "implements tg (translate_cwd tg lay junk pir1) M (x86_sign tg 16 (x86_of tg M))"
proof -
  let ?h = "greg (home tg eax_index)" and ?R = "\<lambda>_ B' M'. reaches tg M (x86_sign tg 16 (x86_of tg M)) M'"
  let ?v = "if bit (reg_read M ?h) 15 then -1 else 0"
  have "em_does tg (do { la_rr LISA_EXT_W_H (greg t) ?h; la_rri LISA_SRAI_W (greg t) (greg t) 16;
      store_ireg_to_ir1 tg lay pir1 (greg t) (dx_ir1_opnd junk) False }) {t} M ?R" if t: "t \<in> temps tg" for t
  proof (rule does_bind, rule does_op, simp, simp, rule does_bind, rule does_op, simp)
    let ?N = "reg_write (greg t) (signed_take_bit 15 (reg_read M ?h)) M"
    show "la_value LISA_SRAI_W [greg t, greg t, create_immh_opnd 16] ?N = Some ?v"
      using temp_rules[OF t] by (simp add: ui_shifts shifted_signs)
    show "em_does tg (store_ireg_to_ir1 tg lay pir1 (greg t) (dx_ir1_opnd junk) False) {t} (reg_write (greg t) ?v ?N) ?R"
      using does_set_static[OF t static_opnds(1,5) clob_temp[OF t], where v = ?v and M = M] temp_rules[OF t]
      by (simp add: static_opnds static_reg x86_sign_def acc_low norm_bit)
  qed
  from implements_true[OF does_with_temp[OF this]] show ?thesis
    by (simp add: translate_cwd_def low_homes)
qed

lemma translate_cdq_step: "implements tg (translate_cdq tg lay junk pir1) M (x86_sign tg 32 (x86_of tg M))"
proof -
  let ?h = "greg (home tg eax_index)" and ?R = "\<lambda>_ B' M'. reaches tg M (x86_sign tg 32 (x86_of tg M)) M'"
  let ?v = "if bit (reg_read M ?h) 31 then -1 else 0"
  have "em_does tg (do { la_rri LISA_SRAI_W (greg t) ?h 31; store_ireg_to_ir1 tg lay pir1 (greg t) (edx_ir1_opnd junk) False }) {t} M ?R"
    if t: "t \<in> temps tg" for t
  proof (rule does_bind, rule does_op, simp)
    show "la_value LISA_SRAI_W [greg t, ?h, create_immh_opnd 31] M = Some ?v" by (simp add: ui_shifts shifted_signs)
    show "em_does tg (store_ireg_to_ir1 tg lay pir1 (greg t) (edx_ir1_opnd junk) False) {t} (reg_write (greg t) ?v M) ?R"
      using does_set_static[OF t static_opnds(2,6) clob_temp[OF t], where v = ?v and M = M] temp_rules[OF t]
      by (simp add: static_opnds static_reg x86_sign_def acc_low norm_bit)
  qed
  from implements_true[OF does_with_temp[OF this]] show ?thesis
    by (simp add: translate_cdq_def low_homes)
qed

section \<open>leave\<close>

definition x86_leave :: "target \<Rightarrow> int \<Rightarrow> x86_state \<Rightarrow> x86_state" where
  "x86_leave tg n S = (let fp = x_gpr S ebp_index in
     x86_add_sp tg n (x86_set_low tg ebp_index (8 * n) (load_le (nat n) (x_mem S) fp) (S\<lparr>x_gpr := (x_gpr S)(esp := fp)\<rparr>)))"

text \<open>The state that the translation of a 16-bit leave reaches: 17 bits of the frame pointer change.\<close>

definition leave16_state :: "target \<Rightarrow> x86_state \<Rightarrow> x86_state" where
  "leave16_state tg S = (let T = x86_leave tg 2 S in T\<lparr>x_gpr := (x_gpr T)(ebp_index := x_gpr T ebp_index AND NOT (push_bit 16 1))\<rparr>)"

lemma reaches_home:
  assumes M: "reaches tg M S N" and i: "gpr_index tg i"
  shows "reaches tg M (S\<lparr>x_gpr := (x_gpr S)(i := norm tg w)\<rparr>) (reg_write (greg (home tg i)) w N)"
  using reaches_trans[OF M x86_of_write[OF clob_refl i, of N w]] M by (simp add: reaches_def)

lemma home_neq: "home tg esp \<noteq> home tg ebp_index" "reg_num (greg (home tg esp)) \<noteq> reg_num (greg (home tg ebp_index))"
proof -
  show "home tg esp \<noteq> home tg ebp_index" using home_inj[of tg esp ebp_index] by simp
  then show "reg_num (greg (home tg esp)) \<noteq> reg_num (greg (home tg ebp_index))"
    using reg_num_home[of tg esp] reg_num_home[of tg ebp_index] home_range[of tg esp] home_range[of tg ebp_index] by auto
qed

lemma reaches_temps: "reaches tg M S N \<Longrightarrow> clob (temps tg) N N1 \<Longrightarrow> reaches tg M S N1"
  using x86_of_clob[of tg N N1] by (auto simp: reaches_def clob_def)

text \<open>The frame pointer goes to the stack pointer, with the upper half clear outside 64-bit code.\<close>

lemma does_leave_sp:
  fixes tg :: target and M :: la_mach
  defines "N \<equiv> reg_write (greg (home tg esp)) (norm tg (reg_read M (greg (home tg ebp_index)))) M"
  assumes "Q () {} N"
  shows "em_does tg (if CODEIS64 tg then la_rrr LISA_OR (greg (home tg esp)) (greg (home tg ebp_index)) zero_ir2_opnd
      else la_rrii LISA_BSTRPICK_D (greg (home tg esp)) (greg (home tg ebp_index)) 31 0) {} M Q"
  using assms(2) unfolding N_def by (auto simp: norm_def intro!: does_narrow does_op)

lemma x_gpr_fp: "x_gpr (x86_of tg M) ebp_index = norm tg (reg_read M (greg (home tg ebp_index)))"
  by (simp add: x_gpr_low)

text \<open>A 16-bit leave writes bits 0 to 16 of the frame pointer.\<close>

lemma leave16_value:
  assumes "\<not> CODEIS64 tg" "take_bit 16 v = v"
  shows "norm tg (sx32 (bstrins 16 0 old v)) = norm tg (x86_write_reg 16 False (norm tg old) v) AND NOT (push_bit 16 1)"
proof (rule bit_word_eqI)
  fix i
  have "bit v i \<Longrightarrow> i < 16" using assms(2) by (metis bit_take_bit_iff)
  moreover have "bit (NOT (push_bit 16 1) :: u64) i \<longleftrightarrow> i < 64 \<and> i \<noteq> 16"
    by (simp only: bit_not_word bit_push_bit_iff bit_1_iff) auto
  moreover have "bit (norm tg (x86_write_reg 16 False (norm tg old) v)) i \<longleftrightarrow> i < 32 \<and> (if i < 16 then bit v i else bit old i)"
    using assms(1) by (auto simp: norm_def bit_take_bit_iff x86_write_reg_def bit_or_iff bit_and_iff bit_not_word bit_mask_iff)
  moreover have "bit (norm tg (sx32 (bstrins 16 0 old v))) i \<longleftrightarrow> i < 32 \<and> (if i \<le> 16 then bit v i else bit old i)"
    using assms(1) by (auto simp: norm_def bit_take_bit_iff bit_sx32 bit_bstrins min_def)
  ultimately show "bit (norm tg (sx32 (bstrins 16 0 old v))) i = bit (norm tg (x86_write_reg 16 False (norm tg old) v) AND NOT (push_bit 16 1)) i"
    unfolding bit_and_iff by auto
qed

text \<open>The pop of the frame pointer, from a state \<open>N\<close> whose stack pointer is the old frame pointer.\<close>

lemma does_leave_pop:
  assumes N: "reaches tg M S N" "reg_read N (greg (home tg esp)) = x_gpr S esp" and n: "n = (if CODEIS64 tg then 8 else 4)"
  shows "em_does tg (la_load_addrx tg (greg (home tg ebp_index)) (greg (home tg esp)) 0) {} N
    (\<lambda>_ B' M'. reaches tg M (x86_set_low tg ebp_index (8 * n) (load_le (nat n) (x_mem S) (x_gpr S esp)) S) M')"
proof (rule does_load_addrx)
  let ?v = "load_le (nat n) (x_mem S) (x_gpr S esp)"
  have "load_le (if CODEIS64 tg then 8 else 4) (m_mem N) (reg_read N (greg (home tg esp)) + of_int 0) = ?v"
    using N(1) unfolding N(2) n by (auto simp: reaches_def x86_of_def)
  moreover have "norm tg (x86_write_reg (8 * n) False old ?v) = norm tg ?v" for old using n by (auto simp: x86_write_reg_def norm_def)
  ultimately show "reaches tg M (x86_set_low tg ebp_index (8 * n) ?v S) (reg_write (greg (home tg ebp_index))
      (load_le (if CODEIS64 tg then 8 else 4) (m_mem N) (reg_read N (greg (home tg esp)) + of_int 0)) N)"
    using reaches_home[OF N(1), of ebp_index ?v] by (simp only: x86_set_low_def) simp
qed simp_all

lemma does_leave16_pop:
  assumes N: "reaches tg M S N" "reg_read N (greg (home tg esp)) = x_gpr S esp" and cd: "\<not> CODEIS64 tg"
  defines "v \<equiv> load_le 2 (x_mem S) (x_gpr S esp)"
  shows "em_does tg (do {
        ebp_temp_opnd \<leftarrow> em_alloc_itemp tg;
        la_rri LISA_LD_HU ebp_temp_opnd (greg (home tg esp)) 0;
        la_rrii LISA_BSTRINS_W (greg (home tg ebp_index)) ebp_temp_opnd 16 0
      }) {} N
    (\<lambda>_ B' M'. reaches tg M (S\<lparr>x_gpr := (x_gpr S)(ebp_index := norm tg (x86_write_reg 16 False (x_gpr S ebp_index) v) AND NOT (push_bit 16 1))\<rparr>) M')"
proof (rule does_bind, rule does_alloc[OF room_empty(3)], rule does_bind, rule does_op)
  let ?b = "greg (home tg ebp_index)" let ?w = "sx32 (bstrins 16 0 (reg_read N ?b) v)"
  fix t assume t: "t \<in> temps tg"
  let ?N1 = "reg_write (greg t) v N"
  show "la_value LISA_LD_HU [greg t, greg (home tg esp), create_immh_opnd 0] N = Some v"
    using N by (auto simp: la_load_def la_address_def si12_imm v_def reaches_def x86_of_def)
  have "x_gpr S ebp_index = norm tg (reg_read N ?b)" using N(1) x_gpr_fp[of tg N] by (simp add: reaches_def)
  moreover have "reg_read ?N1 (greg t) = v" "reg_read ?N1 ?b = reg_read N ?b"
    using temp_rules[OF t] guest_gpr_clob[OF clob_temp[OF t, of N v], of ebp_index] by simp_all
  ultimately show "em_does tg (la_rrii LISA_BSTRINS_W ?b (greg t) 16 0) {t} ?N1 (\<lambda>_ B' M'. reaches tg M
      (S\<lparr>x_gpr := (x_gpr S)(ebp_index := norm tg (x86_write_reg 16 False (x_gpr S ebp_index) v) AND NOT (push_bit 16 1))\<rparr>) M')"
    using reaches_home[OF reaches_temps[OF N(1) clob_temp[OF t, of N v]], of ebp_index ?w] leave16_value[OF cd, of v "reg_read N ?b"]
    by (intro does_op[where v = ?w]) (simp_all add: ui_shifts v_def take_load_le)
qed simp

lemma implements_leave:
  assumes n: "n = ir1_get_opnd_size tg pir1 div 8" "n = 2 \<and> \<not> CODEIS64 tg \<or> n = (if CODEIS64 tg then 8 else 4)"
  shows "implements tg (translate_leave tg pir1) M
    (if n = 2 then leave16_state tg (x86_of tg M) else x86_leave tg n (x86_of tg M))" (is "implements tg _ M ?T")
proof -
  let ?s = "greg (home tg esp)" and ?b = "greg (home tg ebp_index)" and ?S = "x86_of tg M"
  let ?N = "reg_write ?s (norm tg (reg_read M ?b)) M" and ?S1 = "?S\<lparr>x_gpr := (x_gpr ?S)(esp := x_gpr ?S ebp_index)\<rparr>"
  let ?pop = "if n = 2 then do {
        ebp_temp_opnd \<leftarrow> em_alloc_itemp tg;
        la_rri LISA_LD_HU ebp_temp_opnd ?s 0;
        la_rrii LISA_BSTRINS_W ?b ebp_temp_opnd 16 0
      } else la_load_addrx tg ?b ?s 0"
  have N: "reaches tg M ?S1 ?N" "reg_read ?N ?s = x_gpr ?S1 esp"
    using x86_of_write[OF clob_refl esp_index_ok, of tg M "norm tg (reg_read M ?b)"] home_num(4)[of tg] by (simp_all add: x_gpr_fp)
  have add: "em_does tg (la_addi_addrx tg ?s ?s n) B N' (\<lambda>_ B' M'. reaches tg M ?T M')"
    if N': "reaches tg M U N'" "x86_add_sp tg n U = ?T" for B U N'
    using does_add_sp[OF N'(1), of n] n(2) N'(2) by (auto split: if_splits)
  have "em_does tg (do { ?pop; la_addi_addrx tg ?s ?s n }) {} ?N (\<lambda>_ B' M'. reaches tg M ?T M')"
  proof (cases "n = 2")
    case True
    let ?U = "?S1\<lparr>x_gpr := (x_gpr ?S1)(ebp_index := norm tg (x86_write_reg 16 False (x_gpr ?S1 ebp_index)
      (load_le 2 (x_mem ?S1) (x_gpr ?S1 esp))) AND NOT (push_bit 16 1))\<rparr>"
    have "x86_add_sp tg n ?U = ?T" using True
      by (simp add: leave16_state_def x86_leave_def x86_set_low_def x86_add_sp_def Let_def fun_upd_twist)
    then have "em_does tg (la_addi_addrx tg ?s ?s n) B N' (\<lambda>_ B' M'. reaches tg M ?T M')" if "reaches tg M ?U N'" for B N'
      using add that by blast
    then show ?thesis using does_conseq[OF does_leave16_pop[OF N]] True n(2) by (intro does_bind) auto
  next
    case False
    let ?U = "x86_set_low tg ebp_index (8 * n) (load_le (nat n) (x_mem ?S1) (x_gpr ?S1 esp)) ?S1"
    have "x86_add_sp tg n ?U = ?T" using False by (simp add: x86_leave_def Let_def)
    then have "em_does tg (la_addi_addrx tg ?s ?s n) B N' (\<lambda>_ B' M'. reaches tg M ?T M')" if "reaches tg M ?U N'" for B N'
      using add that by blast
    then show ?thesis using does_conseq[OF does_leave_pop[OF N, of n]] False n(2) by (intro does_bind) auto
  qed
  then have "em_does tg (do { (if CODEIS64 tg then la_rrr LISA_OR ?s ?b zero_ir2_opnd else la_rrii LISA_BSTRPICK_D ?s ?b 31 0);
      ?pop; la_addi_addrx tg ?s ?s n }) {} M (\<lambda>_ B' M'. reaches tg M ?T M')"
    by (intro does_bind[where m = "if CODEIS64 tg then _ else _"] does_leave_sp)
  from implements_true[OF this] show ?thesis by (simp add: translate_leave_def low_homes Let_def n(1) split del: if_split)
qed

lemma call_size:
  assumes "ir1_opcode pir1 \<in> {dt_X86_INS_CALL, dt_X86_INS_LEAVE}"
  shows "ir1_get_opnd_size tg pir1 div 8 \<in> (if CODEIS64 tg then {8} else {2, 4})"
  using assms by (auto simp: ir1_get_opnd_size_def CODEIS64_def TARGET_X86_64_def)

text \<open>The state that a translation implements is determined.\<close>

lemma implements_unique:
  assumes "implements tg tr M S" "implements tg tr M T"
  shows "S = T"
proof -
  let ?s = "\<lparr>tc_code = [], tc_itemp = 0, tc_ftemp = 0, tc_label = 0, tc_ok = True\<rparr>"
  have "live_temps (reg_itemp_map tg) (tc_itemp ?s) = {}" "tc_ok ?s" by (simp_all add: live_temps_def)
  then obtain code st N code' st' N' where
    "run_state tr ?s = (True, ?s\<lparr>tc_code := tc_code ?s @ code, tc_itemp := st\<rparr>)" "la_run code M = Some N" "x86_of tg N = S"
    "run_state tr ?s = (True, ?s\<lparr>tc_code := tc_code ?s @ code', tc_itemp := st'\<rparr>)" "la_run code' M = Some N'" "x86_of tg N' = T"
    using assms unfolding implements_def reaches_def by meson
  then show ?thesis by auto
qed

lemma upd_gpr_idem: "S\<lparr>x_gpr := (x_gpr S)(i := v)\<rparr> = S \<longleftrightarrow> v = x_gpr S i"
  by (cases S) (auto simp: fun_upd_idem_iff)

lemma leave16_iff:
  assumes "\<not> CODEIS64 tg" "x_gpr S ebp_index = norm tg w"
  shows "leave16_state tg S = x86_leave tg 2 S \<longleftrightarrow> \<not> bit (x_gpr S ebp_index) 16"
proof -
  let ?T = "x86_leave tg 2 S" and ?m = "NOT (push_bit 16 1) :: u64"
  have m: "bit ?m i \<longleftrightarrow> i < 64 \<and> i \<noteq> 16" for i by (simp only: bit_not_word bit_push_bit_iff bit_1_iff) auto
  have "x AND ?m = x \<longleftrightarrow> \<not> bit x 16" for x :: u64
    unfolding bit_eq_iff[of "x AND ?m"] bit_and_iff m using bit_imp_le_length[of x] by auto
  moreover have "bit (x_gpr ?T ebp_index) 16 = bit (x_gpr S ebp_index) 16"
    using assms by (simp add: x86_leave_def x86_add_sp_def x86_set_low_def Let_def x86_write_reg_def norm_def bit_take_bit_iff bit_or_iff
        bit_and_iff bit_not_word bit_mask_iff)
  moreover have "leave16_state tg S = ?T \<longleftrightarrow> x_gpr ?T ebp_index AND ?m = x_gpr ?T ebp_index"
    unfolding leave16_state_def Let_def by (rule upd_gpr_idem)
  ultimately show ?thesis by simp
qed

text \<open>C39: leave.  For an operand size of 32 or 64 bits the translation moves the frame pointer to the
  stack pointer and pops the frame pointer.  For 16 bits it writes 17 bits of the frame pointer, so
  that it is right exactly when bit 16 of ebp was clear.\<close>

theorem translate_leave_correct_iff:
  assumes "ir1_opcode pir1 = dt_X86_INS_LEAVE"
  shows "let n = ir1_get_opnd_size tg pir1 div 8 in
    implements tg (translate_leave tg pir1) M (x86_leave tg n (x86_of tg M)) \<longleftrightarrow> (n = 2 \<longrightarrow> \<not> bit (x_gpr (x86_of tg M) ebp_index) 16)"
proof -
  let ?n = "ir1_get_opnd_size tg pir1 div 8" and ?S = "x86_of tg M"
  have n: "?n \<in> (if CODEIS64 tg then {8} else {2, 4})" by (rule call_size) (simp add: assms)
  then have "implements tg (translate_leave tg pir1) M (if ?n = 2 then leave16_state tg ?S else x86_leave tg ?n ?S)"
    by (intro implements_leave[OF refl]) (auto split: if_splits)
  then have "implements tg (translate_leave tg pir1) M T \<longleftrightarrow> T = (if ?n = 2 then leave16_state tg ?S else x86_leave tg ?n ?S)" for T
    using implements_unique by blast
  moreover have "leave16_state tg ?S = x86_leave tg 2 ?S \<longleftrightarrow> \<not> bit (x_gpr ?S ebp_index) 16" if "?n = 2"
    using n that leave16_iff[OF _ x_gpr_fp[of tg M]] by (auto split: if_splits)
  ultimately show ?thesis unfolding Let_def by auto
qed

section \<open>Calls that stay in the block\<close>

definition x86_callnext :: "target \<Rightarrow> ir1_inst \<Rightarrow> x86_state \<Rightarrow> x86_state" where
  "x86_callnext tg pir1 S = (let n = ir1_get_opnd_size tg pir1 div 8 in
     x86_add_sp tg (- n) (S\<lparr>x_mem := store_le (nat n) (ir1_addr_next tg pir1) (norm tg (x_gpr S esp - of_int n)) (x_mem S)\<rparr>))"

text \<open>The push does not wrap around outside 64-bit code.\<close>

definition callnext_ok :: "target \<Rightarrow> ir1_inst \<Rightarrow> la_mach \<Rightarrow> bool" where
  "callnext_ok tg pir1 M \<longleftrightarrow> ir1_opcode pir1 = dt_X86_INS_CALL \<and>
     (CODEIS64 tg \<or> ir1_get_opnd_size tg pir1 div 8 \<le> uint (guest_gpr tg M esp))"

lemma does_clear_home:
  assumes "Q () B (reg_write h (norm tg (reg_read N h)) N)"
  shows "em_does tg (if \<not> CODEIS64 tg then la_rrii LISA_BSTRPICK_D h h 31 0 else em_skip) B N Q"
  using assms by (auto simp: norm_def reg_write_idem intro!: does_narrow does_return)

lemma reaches_clear:
  assumes "reaches tg M S N" "gpr_index tg i"
  shows "reaches tg M S (reg_write (greg (home tg i)) (norm tg (reg_read N (greg (home tg i)))) N)"
proof -
  have "norm tg (reg_read N (greg (home tg i))) = x_gpr S i" using assms x_gpr_low[of tg i N] by (auto simp: reaches_def)
  then have "S\<lparr>x_gpr := (x_gpr S)(i := norm tg (norm tg (reg_read N (greg (home tg i)))))\<rparr> = S" 
    by (subst norm_idem) simp
  then show ?thesis using reaches_home[OF assms, of "norm tg (reg_read N (greg (home tg i)))"] by simp
qed

lemma reaches_mem: "reaches tg M S N \<Longrightarrow> reaches tg M (S\<lparr>x_mem := m\<rparr>) (N\<lparr>m_mem := m\<rparr>)"
  by (auto simp: reaches_def x86_of_def fun_eq_iff guest_gpr_def reg_read_def)

lemma norm_store:
  assumes "norm tg v = norm tg w" "n \<in> (if CODEIS64 tg then {8} else {2, 4})"
  shows "store_le (nat n) v a m = store_le (nat n) w a m"
  by (rule store_le_take[of _ "if CODEIS64 tg then 64 else 32"]) (use assms in \<open>auto simp: norm_def split: if_splits\<close>)

lemma norm_less: "\<not> CODEIS64 tg \<Longrightarrow> uint (norm tg w) < 2 ^ 32"
  using take_bit_int_less_exp[of 32 "uint w"] by (simp add: norm_def unsigned_take_bit_eq)

lemma addi_keeps: "em_does tg (la_addi_addrx tg d r k) B N Q \<Longrightarrow> em_does tg (la_addi_addrx tg d r k) B N (\<lambda>x B' M'. B' = B \<and> Q x B' M')"
  by (simp add: em_does_def la_addi_addrx_def split: if_splits)

lemma does_callnext:
  assumes ok: "callnext_ok tg pir1 M"
  shows "em_does tg (translate_callnext tg pir1) {} M (\<lambda>x B' M'. x \<and> B' = {} \<and> reaches tg M (x86_callnext tg pir1 (x86_of tg M)) M')"
proof -
  let ?n = "ir1_get_opnd_size tg pir1 div 8" and ?h = "greg (home tg esp)" and ?S = "x86_of tg M" and ?next = "ir1_addr_next tg pir1"
  let ?Q = "\<lambda>x B' M'. x \<and> B' = {} \<and> reaches tg M (x86_callnext tg pir1 ?S) M'"
  have n: "?n \<in> (if CODEIS64 tg then {8} else {2, 4})" by (rule call_size) (use ok in \<open>simp add: callnext_ok_def\<close>)
  have g: "x_gpr ?S esp = guest_gpr tg M esp" by (simp add: x86_of_def)
  have sp: "norm tg (x_gpr ?S esp - of_int ?n) = x_gpr ?S esp + of_int (- ?n)"
  proof (cases "CODEIS64 tg")
    case False
    then have "take_bit 32 (x_gpr ?S esp + of_int (- ?n)) = x_gpr ?S esp + of_int (- ?n)"
      using ok n norm_less[of tg "reg_read M ?h"] unfolding g by (intro take_bit_add_small) (auto simp: callnext_ok_def guest_gpr_def)
    then show ?thesis using False by (simp add: norm_def)
  qed (simp add: norm_def)
  have "em_does tg (do {
       li_guest_addr tg (greg t) ?next;
       (if \<not> CODEIS64 tg then la_rrii LISA_BSTRPICK_D ?h ?h 31 0 else em_skip);
       (if ?n = 8 then la_rri LISA_ST_D (greg t) ?h (- ?n)
        else if ?n = 4 then la_rri LISA_ST_W (greg t) ?h (- ?n)
        else la_rri LISA_ST_H (greg t) ?h (- ?n));
       la_addi_addrx tg ?h ?h (- ?n);
       em_free_temp tg (greg t);
       em_return True }) {t} M ?Q" if t: "t \<in> temps tg" for t
  proof (rule does_bind, rule does_li_guest_addr, use temp_rules[OF t] in simp, rule does_bind, rule does_clear_home)
    fix v assume v: "norm tg v = norm tg ?next"
    let ?N1 = "reg_write (greg t) v M" let ?N = "reg_write ?h (norm tg (reg_read ?N1 ?h)) ?N1"
    let ?m = "store_le (nat ?n) ?next (norm tg (x_gpr ?S esp - of_int ?n)) (x_mem ?S)"
    have N1: "reaches tg M ?S ?N1" by (rule reaches_temps[OF _ clob_temp[OF t]]) (simp add: reaches_def)
    have "reg_num ?h \<noteq> reg_num (greg t)"
      using reg_num_home[of tg esp] home_range[of tg esp] temp_rules[OF t] t reg_num_temp[OF t] eq_nat_nat_iff[of "home tg esp" t] by auto
    then have rd: "reg_read ?N (greg t) = v" "reg_read ?N ?h = x_gpr ?S esp"
      using home_num(4)[of tg] temp_rules[OF t] by (auto simp: x_gpr_low)
    have "reaches tg M (?S\<lparr>x_mem := ?m\<rparr>) (?N\<lparr>m_mem := store_le (nat ?n) (reg_read ?N (greg t)) (reg_read ?N ?h + of_int (- ?n)) (m_mem ?N)\<rparr>)"
      unfolding rd using reaches_mem[OF reaches_clear[OF N1 esp_index_ok], of ?m] norm_store[OF v n]
      by (simp add: sp x_mem_of)
    then have "em_does tg (if ?n = 8 then la_rri LISA_ST_D (greg t) ?h (- ?n) else if ?n = 4 then la_rri LISA_ST_W (greg t) ?h (- ?n)
        else la_rri LISA_ST_H (greg t) ?h (- ?n)) {t} ?N (\<lambda>_ B' M'. B' = {t} \<and> reaches tg M (?S\<lparr>x_mem := ?m\<rparr>) M')"
      using n by (auto simp: la_store_bytes_def la_address_def si12_imm intro!: does_store split: if_splits)
    moreover have "em_does tg (do { la_addi_addrx tg ?h ?h (- ?n); em_free_temp tg (greg t); em_return True }) {t} N' ?Q"
      if N': "reaches tg M (?S\<lparr>x_mem := ?m\<rparr>) N'" for N'
    proof (rule does_bind, rule does_conseq, rule addi_keeps, rule does_add_sp[OF N'])
      show "-2048 \<le> - ?n" "- ?n \<le> 2047" using n by (auto split: if_splits)
      show "em_does tg (do { em_free_temp tg (greg t); em_return True }) B' M' ?Q"
        if "B' = {t} \<and> reaches tg M (x86_add_sp tg (- ?n) (?S\<lparr>x_mem := ?m\<rparr>)) M'" for B' M'
        using that temp_rules[OF t] t by (auto simp: x86_callnext_def Let_def intro!: does_bind does_free does_return)
    qed
    ultimately show "em_does tg (do { (if ?n = 8 then la_rri LISA_ST_D (greg t) ?h (- ?n) else if ?n = 4 then la_rri LISA_ST_W (greg t) ?h (- ?n)
        else la_rri LISA_ST_H (greg t) ?h (- ?n)); la_addi_addrx tg ?h ?h (- ?n); em_free_temp tg (greg t); em_return True }) {t} ?N ?Q"
      by (intro does_bind) (auto elim!: does_conseq)
  qed
  then show ?thesis unfolding translate_callnext_def low_homes Let_def
    by (intro does_bind[where m = "em_alloc_itemp _"] does_alloc[OF room_empty(3)]) simp
qed

section \<open>Calls of thunks\<close>










end
