(* ===== verification/Tr_Properties.thy ===== *)
theory Tr_Properties
  imports Tr_Popa Tr_Lea
begin

text \<open>
  Addresses of memory operands, an lea without effect, and instances of the correctness theorems of
  the translations at concrete instructions.
\<close>

section \<open>Addresses\<close>

lemma take_bit_add_iff:
  fixes v :: u64
  assumes "take_bit 32 v = v" "-2048 \<le> k" "k \<le> 2047"
  shows "take_bit 32 (v + of_int k) = v + of_int k \<longleftrightarrow> 0 \<le> uint v + k \<and> uint v + k < 2 ^ 32"
proof -
  have v: "uint v < 2 ^ 32" using assms(1) take_bit_int_less_exp[of 32 "uint v"] by (metis unsigned_take_bit_eq)
  have v0: "0 \<le> uint v" and p: "(2 :: int) ^ 64 = 18446744073709551616" "(2 :: int) ^ 32 = 4294967296" by simp_all
  have small: "uint (take_bit 32 (v + of_int k)) < 2 ^ 32" unfolding unsigned_take_bit_eq by (rule take_bit_int_less_exp)
  have m: "uint (v + of_int k) = (uint v + k) mod 2 ^ 64" using uint_word_of_int[of "uint v + k", where ?'a = 64] by simp
  have "2 ^ 32 \<le> uint (v + of_int k)" if out: "\<not> (0 \<le> uint v + k \<and> uint v + k < 2 ^ 32)"
  proof (cases "uint v + k < 0")
    case True
    have "(uint v + k) mod 2 ^ 64 = (uint v + k + 2 ^ 64) mod 2 ^ 64" by simp
    also have "\<dots> = uint v + k + 2 ^ 64" unfolding p by (rule mod_pos_pos_trivial) (use True assms(2) v0 in linarith)+
    finally have "uint (v + of_int k) = uint v + k + 2 ^ 64" unfolding m .
    then show ?thesis using assms(2) v0 unfolding p by linarith
  next
    case False
    then have "(uint v + k) mod 2 ^ 64 = uint v + k" using v assms(3) by (intro mod_pos_pos_trivial) auto
    then show ?thesis using False out unfolding m by simp
  qed
  then show ?thesis using small take_bit_add_small[of v k] by fastforce
qed

text \<open>C14: convert\_mem addresses the operand.  With two temporaries free it returns a register and an
  offset of 12 bits, and the code it emits changes nothing but free temporaries.  For an address size
  of 64 bits, register plus offset is the x86 address of the operand: base, scaled index,
  displacement, segment base.  For 32 bits it is the address up to multiples of 2 to the 32, and equal
  to it exactly when adding the offset does not leave the 32-bit range: an operand such as -4(ecx)
  with ecx = 0 is accessed at an address above 2 to the 32 or below 0.\<close>

theorem convert_mem_address:
  assumes ok: "mem_opnd_ok tg seg_base_off pir1 opnd" and s: "tc_ok s" "room tg (live_temps (reg_itemp_map tg) (tc_itemp s))"
  shows "\<exists>r off code st M'. run_state (convert_mem tg seg_base_off pir1 opnd) s =
      ((greg r, off), s\<lparr>tc_code := tc_code s @ code, tc_itemp := st\<rparr>) \<and>
    la_run code M = Some M' \<and> clob (temps tg - live_temps (reg_itemp_map tg) (tc_itemp s)) M M' \<and> -2048 \<le> off \<and> off \<le> 2047 \<and>
    (let a = reg_read M' (greg r); x = guest_address tg seg_base_off pir1 opnd M in
     if ir1_addr_size pir1 = 64 then a + of_int off = x
     else take_bit 32 (a + of_int off) = x \<and>
       (a + of_int off = x \<longleftrightarrow> 0 \<le> uint a + off \<and> uint a + off < 2 ^ 32))"
proof -
  obtain x code st M' where run: "run_state (convert_mem tg seg_base_off pir1 opnd) s = (x, s\<lparr>tc_code := tc_code s @ code, tc_itemp := st\<rparr>)"
    "la_run code M = Some M'"
    "mem_post tg seg_base_off pir1 opnd True (live_temps (reg_itemp_map tg) (tc_itemp s)) M x (live_temps (reg_itemp_map tg) st) M'"
    unfolding convert_mem_def by (rule em_doesE[OF does_convert_mem[OF ok s(2)] s(1) refl])
  let ?off = "mem_off tg opnd True"
  obtain r where r: "x = (greg r, ?off)" "clob (temps tg - live_temps (reg_itemp_map tg) (tc_itemp s)) M M'"
    "reg_read M' (greg r) = mem_reg tg seg_base_off pir1 opnd True M" using run(3) by (auto simp: mem_post_def)
  note ac = address_correct[OF ok, where host_off = True and M = M] and k = mem_split(2,3)[of tg opnd True]
  let ?a = "mem_reg tg seg_base_off pir1 opnd True M"
  have "take_bit 32 ?a = ?a" if "ir1_addr_size pir1 \<noteq> 64"
    using that ok by (auto simp: mem_reg_def mem_opnd_ok_def)
  then have "?a + of_int ?off = guest_address tg seg_base_off pir1 opnd M \<longleftrightarrow> 0 \<le> uint ?a + ?off \<and> uint ?a + ?off < 2 ^ 32"
    if "ir1_addr_size pir1 \<noteq> 64"
    using take_bit_add_iff[OF _ k, of ?a] ac that by (simp only: if_False) (metis)
  then show ?thesis using run(1,2) r k ac
    by (intro exI[of _ r] exI[of _ ?off] exI[of _ code] exI[of _ st] exI[of _ M']) (simp add: Let_def split: if_splits)
qed

section \<open>lea of address zero\<close>

lemma free_home: "0 \<le> r \<Longrightarrow> r < 32 \<Longrightarrow> r \<notin> temps tg \<Longrightarrow> em_free_temp tg (greg r) = em_skip"
  by (simp add: em_free_temp_def is_itemp_greg ir2_opnd_is_ftemp_def State_Monad.return_def)

text \<open>C36: an lea whose address has no base, no index and displacement 0 emits no code at all: the
  destination register is not written, so that the translation is right exactly when the register
  holds 0 already.\<close>

theorem translate_lea_zero:
  assumes "gpr_opnd_ok tg (ir1_get_opnd pir1 0)" "ir1_opnd_size (ir1_get_opnd pir1 0) \<in> {32, 64}"
    and "mem_opnd_ok tg (seg_base_of lay) pir1 (ir1_get_opnd pir1 1)" "\<not> ir1_opnd_has_seg (ir1_get_opnd pir1 1)"
      "\<not> ir1_opnd_has_base (ir1_get_opnd pir1 1)" "\<not> ir1_opnd_has_index (ir1_get_opnd pir1 1)" "op_mem_disp (ir1_get_opnd pir1 1) = 0"
  shows "tc_code (snd (run_state (translate_lea tg lay pir1) s)) = tc_code s \<and>
    (implements tg (translate_lea tg lay pir1) M (x86_lea tg pir1 (x86_of tg M)) \<longleftrightarrow>
     guest_gpr tg M (ir1_opnd_base_reg_num tg (ir1_get_opnd pir1 0)) = 0)"
proof -
  let ?op0 = "ir1_get_opnd pir1 0" and ?op1 = "ir1_get_opnd pir1 1"
  let ?i = "ir1_opnd_base_reg_num tg ?op0"
  note d = gpr_opnd_okD[OF assms(1)]
  have h: "0 \<le> home tg ?i" "home tg ?i < 32" "home tg ?i \<notin> temps tg" using home_range[OF d(3)] by auto
  have ty: "op_type ?op1 = dt_X86_OP_MEM" using assms(3) by (simp add: mem_opnd_ok_def)
  have rip: "ir1_opnd_base_reg ?op1 \<noteq> dt_X86_REG_RIP" using assms(5) by (auto simp: ir1_opnd_has_base_def ir1_opnd_base_reg_def)
  have sz: "\<not> ir1_opnd_size ?op0 < 32" using assms(2) by auto
  have simm: "ir1_opnd_simm tg ?op1 = Inr 0" using simm_mem[OF ty] assms(7) by (simp add: to_longx_def)
  have run: "run_state (translate_lea tg lay pir1) s = (True, s)" for s
    using h rip simm assms(4-6) sz is_itemp_greg[OF h(1,2), of tg] em_gpr_home[OF d(3)]
    by (simp add: translate_lea_def convert_mem_to_specific_gpr_def convert_mem_helper_def em_opt_def em_res_def Let_def
        convert_mem_switch_def free_home)
  let ?s = "\<lparr>tc_code = [], tc_itemp = 0, tc_ftemp = 0, tc_label = 0, tc_ok = True\<rparr>"
  have "implements tg (translate_lea tg lay pir1) M S \<longleftrightarrow> x86_of tg M = S" for S
  proof
    assume "implements tg (translate_lea tg lay pir1) M S"
    moreover have "live_temps (reg_itemp_map tg) (tc_itemp ?s) = {}" by (simp add: live_temps_def)
    ultimately obtain code st M' where "run_state (translate_lea tg lay pir1) ?s = (True, ?s\<lparr>tc_code := tc_code ?s @ code, tc_itemp := st\<rparr>)"
      "la_run code M = Some M'" "reaches tg M S M'" unfolding implements_def by (metis (no_types) tr_ctx.select_convs(5))
    then show "x86_of tg M = S" unfolding run by (auto simp: reaches_def)
  next
    assume "x86_of tg M = S"
    moreover have "s = s\<lparr>tc_code := tc_code s @ [], tc_itemp := tc_itemp s\<rparr>" for s :: tr_ctx by simp
    moreover have "la_run [] M = Some M" by simp
    ultimately show "implements tg (translate_lea tg lay pir1) M S" unfolding implements_def run reaches_def by blast
  qed
  moreover have "x86_of tg M = x86_lea tg pir1 (x86_of tg M) \<longleftrightarrow> guest_gpr tg M ?i = 0"
  proof -
    have "x86_write_reg (ir1_opnd_size ?op0) high old (take_bit n 0) = 0" for high old n
      using assms(2) by (auto simp: x86_write_reg_def)
    moreover have "x86_offset tg pir1 ?op1 g = 0" for g
      using assms(5-7) rip by (simp add: x86_offset_def rip_relative_def ir1_opnd_base_reg_def)
    ultimately have "x86_lea tg pir1 (x86_of tg M) = (x86_of tg M)\<lparr>x_gpr := (x_gpr (x86_of tg M))(?i := 0)\<rparr>"
      by (simp add: x86_lea_def x86_set_gpr_def Let_def norm_def)
    moreover have "x_gpr (x86_of tg M) ?i = guest_gpr tg M ?i" using d(3) by (simp add: x86_of_def)
    ultimately show ?thesis by (metis fun_upd_same fun_upd_triv x86_state.select_convs(1) x86_state.surjective x86_state.update_convs(1))
  qed
  ultimately show ?thesis using run by simp
qed

section \<open>Instances\<close>

definition reg_opnd :: "dt_x86_reg \<Rightarrow> u8 \<Rightarrow> ir1_opnd" where
  "reg_opnd r sz = \<lparr>op_type = dt_X86_OP_REG, op_imm = of_nat r, op_mem_base = dt_X86_REG_INVALID, op_mem_index = dt_X86_REG_INVALID,
     op_mem_scale = 0, op_mem_disp = 0, op_size = sz, op_avx_bcast = 0\<rparr>"

definition mem_opnd :: "dt_x86_reg \<Rightarrow> u64 \<Rightarrow> u8 \<Rightarrow> ir1_opnd" where
  "mem_opnd base disp sz = \<lparr>op_type = dt_X86_OP_MEM, op_imm = 0, op_mem_base = base, op_mem_index = dt_X86_REG_INVALID,
     op_mem_scale = 0, op_mem_disp = disp, op_size = sz, op_avx_bcast = 0\<rparr>"

definition ins_of :: "u8 \<Rightarrow> ir1_opnd list \<Rightarrow> ir1_inst" where
  "ins_of addr_size opnds = \<lparr>i_prefix = [0, 0, 0, 0], i_opcode = [0, 0, 0, 0], i_addr_size = addr_size, i_rex = 0,
     i_op_count = of_nat (length opnds), i_operands = opnds, i_size = 4, i_address = 0x400000, i_bytes = replicate 24 0,
     i_id = 0, i_eflag_use = 0, i_eflag_def = 0\<rparr>"

definition lay0 :: env_layout where
  "lay0 = \<lparr>seg_base_of = \<lambda>_. 0, seg_selector_of = \<lambda>_. 0, seg_limit_of = \<lambda>_. 0, seg_flags_of = \<lambda>_. 0,
     gdt_base_of = 0, ldt_base_of = 0, codemode_of = 0, hflags_of = 0\<rparr>"

text \<open>All registers hold \<open>v\<close>.\<close>

definition mach :: "u64 \<Rightarrow> la_mach" where "mach v = \<lparr>m_reg = \<lambda>_. v, m_mem = \<lambda>_. 0x80\<rparr>"

definition ctx0 :: tr_ctx where "ctx0 = \<lparr>tc_code = [], tc_itemp = 0, tc_ftemp = 0, tc_label = 1, tc_ok = True\<rparr>"

lemma ins_simps [simp]: "ir1_get_opnd (ins_of a ops) n = ops ! n" "ir1_addr_size (ins_of a ops) = 8 * uint a"
  by (simp_all add: ins_of_def ir1_get_opnd_def ir1_addr_size_def push_bit_eq_mult)

lemma opnd_simps [simp]: "op_type (reg_opnd r sz) = dt_X86_OP_REG" "op_size (reg_opnd r sz) = sz" "op_type (mem_opnd b d sz) = dt_X86_OP_MEM"
  "op_size (mem_opnd b d sz) = sz" "op_mem_base (mem_opnd b d sz) = b" "op_mem_disp (mem_opnd b d sz) = d" "op_imm (mem_opnd b d sz) = 0"
  "op_mem_index (mem_opnd b d sz) = dt_X86_REG_INVALID"
  by (simp_all add: reg_opnd_def mem_opnd_def)

lemma op_reg_opnd [simp]: "r < 2 ^ 32 \<Longrightarrow> op_reg (reg_opnd r sz) = r"
  by (simp add: reg_opnd_def op_reg_def unsigned_ucast_eq unsigned_of_nat take_bit_nat_eq_self)

lemma reg_samples:
  "gpr_opnd_ok I386 (reg_opnd dt_X86_REG_EAX 4)" "gpr_opnd_ok AMD64 (reg_opnd dt_X86_REG_RAX 8)" "gpr_opnd_ok AMD64 (reg_opnd dt_X86_REG_AH 1)"
  "gpr_opnd_ok I386 (reg_opnd dt_X86_REG_SP 2)" "gpr_opnd_ok AMD64 (reg_opnd dt_X86_REG_EAX 4)"
  by (simp_all add: gpr_opnd_ok_def ir1_opnd_is_gpr_def gpr_index_def ir1_opnd_base_reg_num_def base_reg_num_gpr_def size_ok_def
      ir1_opnd_size_def ir1_opnd_is_8l_def ir1_opnd_is_8h_def ir1_opnd_is_16bit_def)

lemma mem_samples:
  "mem_opnd_ok I386 (seg_base_of lay0) (ins_of 4 ops) (mem_opnd dt_X86_REG_ECX d sz)"
  "mem_opnd_ok AMD64 (seg_base_of lay0) (ins_of 8 ops) (mem_opnd dt_X86_REG_RCX d sz)"
  "mem_opnd_ok I386 (seg_base_of lay0) (ins_of 4 ops) (mem_opnd dt_X86_REG_INVALID d sz)"
  by (simp_all add: mem_opnd_ok_def rip_relative_def ir1_opnd_has_base_def ir1_opnd_has_index_def ir1_opnd_has_seg_def op_mem_segment_def
      gpr_index_def ir1_opnd_base_reg_num_def base_reg_num_gpr_def)

lemma ctx0_ok: "tc_ok ctx0" "live_temps (reg_itemp_map tg) (tc_itemp ctx0) = {}"
  by (simp_all add: ctx0_def live_temps_def)

lemma mach_read [simp]: "reg_num opnd \<noteq> 0 \<Longrightarrow> reg_read (mach v) opnd = v" "m_mem (mach v) = (\<lambda>_. 0x80)"
  by (simp_all add: mach_def reg_read_def)

lemma mach_home: "gpr_index tg i \<Longrightarrow> reg_read (mach v) (greg (home tg i)) = v"
  using reg_num_home[of tg i] by (auto simp: mach_def reg_read_def)

lemma ecx_num: "ir1_opnd_base_reg_num tg (mem_opnd dt_X86_REG_ECX d sz) = 1"
  by (simp add: ir1_opnd_base_reg_num_def base_reg_num_gpr_def)

lemma memory_sample: "memory_ok I386 lay0 (ins_of 4 ops) (mem_opnd dt_X86_REG_ECX (-4) 4) (mach 0x1000)"
proof -
  have "gpr_index I386 1" by (simp add: gpr_index_def)
  note g = mach_home[OF this]
  note k = to_longx_small(1)[of "-4" I386, simplified] to_longx_small(2,3)[of "-4", simplified]
  have "host_address I386 (seg_base_of lay0) (ins_of 4 ops) (mem_opnd dt_X86_REG_ECX (-4) 4) (mach 0x1000) = 0xffc"
    using g by (simp add: host_address_def mem_reg_def mem_sum_def base_index_def mem_disp_def mem_off_def split_off_def rip_relative_def
        ir1_opnd_has_base_def ir1_opnd_has_index_def ir1_opnd_has_seg_def op_mem_segment_def ecx_num k)
  then have "mem_exact I386 (seg_base_of lay0) (ins_of 4 ops) (mem_opnd dt_X86_REG_ECX (-4) 4) (mach 0x1000)"
    by (simp add: mem_exact_iff[OF mem_samples(1)])
  then show ?thesis using mem_samples(1) by (simp add: memory_ok_def size_ok_def ir1_opnd_size_def)
qed

theorem convert_mem_address_witness:
  "mem_opnd_ok I386 (seg_base_of lay0) (ins_of 4 []) (mem_opnd dt_X86_REG_ECX (-4) 4) \<and>
   (\<exists>r off code st M'. run_state (convert_mem I386 (seg_base_of lay0) (ins_of 4 []) (mem_opnd dt_X86_REG_ECX (-4) 4)) ctx0 =
      ((greg r, off), ctx0\<lparr>tc_code := tc_code ctx0 @ code, tc_itemp := st\<rparr>) \<and> la_run code (mach 0) = Some M' \<and>
      take_bit 32 (reg_read M' (greg r) + of_int off) = 0xfffffffc)"
proof -
  have "gpr_index I386 1" by (simp add: gpr_index_def)
  note g = mach_home[OF this, of 0]
  have x: "guest_address I386 (seg_base_of lay0) (ins_of 4 []) (mem_opnd dt_X86_REG_ECX (-4) 4) (mach 0) = 0xfffffffc"
    using g by (simp add: guest_address_def x86_address_def x86_offset_def rip_relative_def ir1_opnd_has_base_def ir1_opnd_has_index_def
        ir1_opnd_has_seg_def op_mem_segment_def ecx_num guest_gpr_def norm_def)
  have "room I386 (live_temps (reg_itemp_map I386) (tc_itemp ctx0))" unfolding ctx0_ok by (rule room_empty(1))
  from convert_mem_address[OF mem_samples(1) ctx0_ok(1) this, of "[]" "-4" 4 "mach 0"]
  show ?thesis unfolding x Let_def using mem_samples(1) by (simp split: if_splits) blast
qed

theorem translate_mov_correct_witness:
  "mov_ok I386 lay0 (ins_of 4 [reg_opnd dt_X86_REG_EAX 4, mem_opnd dt_X86_REG_ECX (-4) 4]) (mach 0x1000) \<and>
   implements I386 (translate_mov I386 lay0 (ins_of 4 [reg_opnd dt_X86_REG_EAX 4, mem_opnd dt_X86_REG_ECX (-4) 4])) (mach 0x1000)
     (x86_mov I386 (ins_of 4 [reg_opnd dt_X86_REG_EAX 4, mem_opnd dt_X86_REG_ECX (-4) 4]) (seg_bases I386 lay0 (mach 0x1000)) (x86_of I386 (mach 0x1000)))"
proof -
  have "mov_ok I386 lay0 (ins_of 4 [reg_opnd dt_X86_REG_EAX 4, mem_opnd dt_X86_REG_ECX (-4) 4]) (mach 0x1000)"
    using reg_samples(1) memory_sample by (simp add: mov_ok_def src_ok_def dst_ok_def ir1_opnd_size_def)
  with translate_mov_correct[OF this] show ?thesis by simp
qed

theorem translate_movzx_correct_witness:
  "movzx_ok AMD64 lay0 (ins_of 8 [reg_opnd dt_X86_REG_EAX 4, reg_opnd dt_X86_REG_AH 1]) (mach 0x1234) \<and>
   implements AMD64 (translate_movzx AMD64 lay0 (ins_of 8 [reg_opnd dt_X86_REG_EAX 4, reg_opnd dt_X86_REG_AH 1])) (mach 0x1234)
     (x86_movzx AMD64 (ins_of 8 [reg_opnd dt_X86_REG_EAX 4, reg_opnd dt_X86_REG_AH 1]) (seg_bases AMD64 lay0 (mach 0x1234)) (x86_of AMD64 (mach 0x1234)))"
proof -
  have "movzx_ok AMD64 lay0 (ins_of 8 [reg_opnd dt_X86_REG_EAX 4, reg_opnd dt_X86_REG_AH 1]) (mach 0x1234)"
    using reg_samples by (simp add: movzx_ok_def ir1_opnd_size_def)
  with translate_movzx_correct[OF this] show ?thesis by simp
qed

theorem translate_movsx_correct_witness:
  "movsx_ok AMD64 lay0 (ins_of 8 [reg_opnd dt_X86_REG_RAX 8, reg_opnd dt_X86_REG_AH 1]) (mach 0x9234) \<and>
   implements AMD64 (translate_movsx AMD64 lay0 (ins_of 8 [reg_opnd dt_X86_REG_RAX 8, reg_opnd dt_X86_REG_AH 1])) (mach 0x9234)
     (x86_movsx AMD64 (ins_of 8 [reg_opnd dt_X86_REG_RAX 8, reg_opnd dt_X86_REG_AH 1]) (seg_bases AMD64 lay0 (mach 0x9234)) (x86_of AMD64 (mach 0x9234))) \<and>
   movsxd_ok AMD64 lay0 (ins_of 8 [reg_opnd dt_X86_REG_RAX 8, reg_opnd dt_X86_REG_EAX 4]) (mach 0x92345678) \<and>
   implements AMD64 (translate_movsxd AMD64 lay0 (ins_of 8 [reg_opnd dt_X86_REG_RAX 8, reg_opnd dt_X86_REG_EAX 4])) (mach 0x92345678)
     (x86_movsx AMD64 (ins_of 8 [reg_opnd dt_X86_REG_RAX 8, reg_opnd dt_X86_REG_EAX 4]) (seg_bases AMD64 lay0 (mach 0x92345678)) (x86_of AMD64 (mach 0x92345678)))"
proof -
  have 1: "movsx_ok AMD64 lay0 (ins_of 8 [reg_opnd dt_X86_REG_RAX 8, reg_opnd dt_X86_REG_AH 1]) (mach 0x9234)"
    using reg_samples by (simp add: movsx_ok_def dst_ok_def)
  have 2: "movsxd_ok AMD64 lay0 (ins_of 8 [reg_opnd dt_X86_REG_RAX 8, reg_opnd dt_X86_REG_EAX 4]) (mach 0x92345678)"
    using reg_samples by (simp add: movsxd_ok_def movsx_ok_def dst_ok_def ir1_opnd_size_def)
  show ?thesis using 1 2 conjunct1[OF translate_movsx_correct] conjunct2[OF translate_movsx_correct] by blast
qed

theorem translate_lea_correct_witness:
  "lea_ok AMD64 lay0 (ins_of 8 [reg_opnd dt_X86_REG_RAX 8, mem_opnd dt_X86_REG_RCX 0x7fffffff 8]) \<and>
   implements AMD64 (translate_lea AMD64 lay0 (ins_of 8 [reg_opnd dt_X86_REG_RAX 8, mem_opnd dt_X86_REG_RCX 0x7fffffff 8])) (mach 1)
     (x86_lea AMD64 (ins_of 8 [reg_opnd dt_X86_REG_RAX 8, mem_opnd dt_X86_REG_RCX 0x7fffffff 8]) (x86_of AMD64 (mach 1)))"
proof -
  have "lea_ok AMD64 lay0 (ins_of 8 [reg_opnd dt_X86_REG_RAX 8, mem_opnd dt_X86_REG_RCX 0x7fffffff 8])"
    using reg_samples(2) mem_samples(2)
    by (simp add: lea_ok_def ir1_opnd_size_def ir1_opnd_has_seg_def op_mem_segment_def ir1_opnd_has_base_def rip_relative_def)
  with translate_lea_correct[OF this] show ?thesis by simp
qed

theorem translate_lea_zero_witness:
  "\<not> implements I386 (translate_lea I386 lay0 (ins_of 4 [reg_opnd dt_X86_REG_EAX 4, mem_opnd dt_X86_REG_INVALID 0 4])) (mach 5)
     (x86_lea I386 (ins_of 4 [reg_opnd dt_X86_REG_EAX 4, mem_opnd dt_X86_REG_INVALID 0 4]) (x86_of I386 (mach 5)))"
proof -
  have i: "ir1_opnd_base_reg_num I386 (reg_opnd dt_X86_REG_EAX 4) = 0" by (simp add: ir1_opnd_base_reg_num_def base_reg_num_gpr_def)
  have "guest_gpr I386 (mach 5) 0 = 5" using mach_home[of I386 0 5] by (simp add: guest_gpr_def gpr_index_def norm_def)
  then show ?thesis
    using translate_lea_zero[of I386 "ins_of 4 [reg_opnd dt_X86_REG_EAX 4, mem_opnd dt_X86_REG_INVALID 0 4]" lay0 ctx0 "mach 5"]
      reg_samples(1) mem_samples(3) i
    by (simp add: ir1_opnd_size_def ir1_opnd_has_seg_def op_mem_segment_def ir1_opnd_has_base_def ir1_opnd_has_index_def)
qed

lemma stack_sample: "0 \<le> 0x1000 + k \<Longrightarrow> -2048 \<le> k \<Longrightarrow> k \<le> 2047 \<Longrightarrow> stack_ok I386 (ins_of 4 ops) k (mach 0x1000)"
  using mach_home[of I386 esp "0x1000"] by (simp add: stack_ok_def guest_gpr_def norm_def)

lemma not_seg_samples: "\<not> ir1_opnd_is_seg (reg_opnd dt_X86_REG_EAX 4)" "\<not> ir1_opnd_is_seg (reg_opnd dt_X86_REG_SP 2)"
  by (simp_all add: ir1_opnd_is_seg_def)

theorem translate_push_correct_witness:
  "push_ok I386 lay0 (ins_of 4 [reg_opnd dt_X86_REG_EAX 4]) (mach 0x1000) \<and>
   implements I386 (translate_push I386 lay0 (reg_opnd 0 0) (ins_of 4 [reg_opnd dt_X86_REG_EAX 4])) (mach 0x1000)
     (x86_push I386 (ins_of 4 [reg_opnd dt_X86_REG_EAX 4]) (seg_bases I386 lay0 (mach 0x1000)) (x86_of I386 (mach 0x1000)))"
proof -
  have "push_ok I386 lay0 (ins_of 4 [reg_opnd dt_X86_REG_EAX 4]) (mach 0x1000)"
    using reg_samples(1) not_seg_samples(1) stack_sample[of "-4"] by (simp add: push_ok_def src_ok_def dst_ok_def stack_size_def ir1_opnd_size_def)
  with translate_push_correct[OF this] show ?thesis by simp
qed

theorem translate_pop_correct_witness:
  "pop_ok I386 lay0 (ins_of 4 [reg_opnd dt_X86_REG_EAX 4]) (mach 0x1000) \<and>
   implements I386 (translate_pop I386 lay0 (reg_opnd 0 0) (ins_of 4 [reg_opnd dt_X86_REG_EAX 4])) (mach 0x1000)
     (x86_pop I386 (ins_of 4 [reg_opnd dt_X86_REG_EAX 4]) (seg_bases I386 lay0 (mach 0x1000)) (x86_of I386 (mach 0x1000)))"
proof -
  have "pop_ok I386 lay0 (ins_of 4 [reg_opnd dt_X86_REG_EAX 4]) (mach 0x1000)"
    using reg_samples(1) not_seg_samples(1) stack_sample[of 0] by (simp add: pop_ok_def stack_size_def ir1_opnd_size_def)
  with translate_pop_correct[OF this] show ?thesis by simp
qed

lemma load_sample: "load_le 2 (\<lambda>_. 0x80) a = 0x8080"
  unfolding numeral_2_eq_2 load_le.simps by simp

theorem translate_pop_sp_witness:
  "\<exists>T. implements I386 (translate_pop I386 lay0 (reg_opnd 0 0) (ins_of 4 [reg_opnd dt_X86_REG_SP 2])) (mach 0x1000) T \<and>
     take_bit 16 (x_gpr T esp) = 0x8082 \<and>
     take_bit 16 (x_gpr (x86_pop I386 (ins_of 4 [reg_opnd dt_X86_REG_SP 2]) (\<lambda>_. 0) (x86_of I386 (mach 0x1000))) esp) = 0x8080"
proof -
  have i: "ir1_opnd_base_reg_num I386 (reg_opnd dt_X86_REG_SP 2) = esp" by (simp add: ir1_opnd_base_reg_num_def base_reg_num_gpr_def)
  show ?thesis
    using translate_pop_sp[of I386 "ins_of 4 [reg_opnd dt_X86_REG_SP 2]" "mach 0x1000" lay0 "reg_opnd 0 0" "\<lambda>_. 0"]
      reg_samples(4) not_seg_samples(2) stack_sample[of 0] i
    by (simp add: ir1_opnd_size_def x_mem_of load_sample)
qed

theorem translate_popal_correct_witness:
  "popa_ok I386 (ins_of 4 []) 4 (mach 0x1000) \<and>
   implements I386 (translate_popal I386 lay0 (reg_opnd 0 0) (ins_of 4 [])) (mach 0x1000) (x86_popa I386 4 (x86_of I386 (mach 0x1000)))"
proof -
  have "popa_ok I386 (ins_of 4 []) 4 (mach 0x1000)" using stack_sample[of 0] stack_sample[of 28] by (simp add: popa_ok_def)
  with translate_popal_correct[OF this] show ?thesis by simp
qed

theorem translate_popaw_upper_half_witness:
  "\<exists>T. implements I386 (translate_popaw I386 lay0 (reg_opnd 0 0) (ins_of 4 [])) (mach 0x1000) T \<and> x_gpr T 0 = 0xffff8080 \<and>
     x_gpr (x86_popa I386 2 (x86_of I386 (mach 0x1000))) 0 = 0x8080"
proof -
  have v: "popa_slot I386 2 (x86_of I386 (mach 0x1000)) 0 = 0x8080" by (simp add: popa_slot_def x_mem_of load_sample)
  have g: "x_gpr (x86_of I386 (mach 0x1000)) 0 = 0x1000" using mach_home[of I386 0 "0x1000"] by (simp add: x86_of_def guest_gpr_def gpr_index_def norm_def)
  have "popa_ok I386 (ins_of 4 []) 2 (mach 0x1000)" using stack_sample[of 0] stack_sample[of 14] by (simp add: popa_ok_def)
  from translate_popaw_upper_half[OF this, of lay0 "reg_opnd 0 0"] show ?thesis
    by (elim exE conjE) (rule exI, erule conjI, drule spec[of _ 0], simp add: v g mask_eq_exp_minus_1)
qed

theorem translate_pusha_correct_witness:
  "pusha_ok I386 (ins_of 4 []) 2 (mach 0x1000) \<and>
   implements I386 (translate_pushaw I386 lay0 (reg_opnd 0 0) (ins_of 4 [])) (mach 0x1000) (x86_pusha I386 2 (x86_of I386 (mach 0x1000)))"
proof -
  have "pusha_ok I386 (ins_of 4 []) 2 (mach 0x1000)" using stack_sample[of 0] stack_sample[of "-16"] by (simp add: pusha_ok_def)
  with conjunct1[OF translate_pusha_correct] show ?thesis by blast
qed

end
