(* ===== verification/Tr_Block_Correct.thy ===== *)
theory Tr_Block_Correct
  imports Tr_Block Tr_Misc_Correct Tr_Properties
begin

text \<open>
  Correctness of whole blocks.  The locale \<open>block_translation\<close> is what the loop of tr\_ir2\_generate
  needs of the translation of single instructions; the loop is proved correct there, and the locale
  is interpreted with ir1\_translate.
\<close>

section \<open>The contract between ir1\_translate and its caller\<close>

definition fresh :: "target \<Rightarrow> tr_ctx \<Rightarrow> bool" where
  "fresh tg s \<longleftrightarrow> tc_ok s \<and> live_temps (reg_itemp_map tg) (tc_itemp s) = {}"

text \<open>Begun with no temporary in use, the translation succeeds, leaves none in use and appends code
  that takes the machine \<open>M\<close> to a state that represents \<open>S\<close>.\<close>

definition translates :: "target \<Rightarrow> bool em \<Rightarrow> la_mach \<Rightarrow> x86_state \<Rightarrow> bool" where
  "translates tg tr M S \<longleftrightarrow> (\<forall>s. fresh tg s \<longrightarrow>
     (\<exists>code st ft M'. run_state tr s = (True, s\<lparr>tc_code := tc_code s @ code, tc_itemp := st, tc_ftemp := ft\<rparr>) \<and>
       live_temps (reg_itemp_map tg) st = {} \<and> la_run code M = Some M' \<and> reaches tg M S M'))"

definition env_of :: "target \<Rightarrow> la_mach \<Rightarrow> u64" where
  "env_of tg M = reg_read M (env_ir2_opnd tg)"

text \<open>\<open>ok pir1 M\<close>: the translation of \<open>pir1\<close> is correct from \<open>M\<close>; \<open>step pir1 env\<close>: what the
  instruction does on the x86 state, given the address of CPUX86State.\<close>

type_synonym ins_ok = "ir1_inst \<Rightarrow> la_mach \<Rightarrow> bool"
type_synonym ins_step = "ir1_inst \<Rightarrow> u64 \<Rightarrow> x86_state \<Rightarrow> x86_state"

primrec block_ok :: "target \<Rightarrow> ins_ok \<Rightarrow> ins_step \<Rightarrow> ir1_inst list \<Rightarrow> la_mach \<Rightarrow> bool" where
  "block_ok tg ok step [] M \<longleftrightarrow> True"
| "block_ok tg ok step (pir1 # pirs) M \<longleftrightarrow> ok pir1 M \<and>
     (\<forall>M'. reaches tg M (step pir1 (env_of tg M) (x86_of tg M)) M' \<longrightarrow> block_ok tg ok step pirs M')"

definition x86_block :: "ins_step \<Rightarrow> u64 \<Rightarrow> ir1_inst list \<Rightarrow> x86_state \<Rightarrow> x86_state" where
  "x86_block step env pirs = fold (\<lambda>pir1. step pir1 env) pirs"

text \<open>The instructions of the emitted code that become machine code, and the marks.\<close>

definition real_code :: "la_ins list \<Rightarrow> la_ins list" where
  "real_code code = filter (\<lambda>ins. fst ins \<noteq> LISA_X86_INST) code"

definition marks :: "la_ins list \<Rightarrow> la_ins list" where
  "marks code = filter (\<lambda>ins. fst ins = LISA_X86_INST) code"

lemma code_append: "real_code (a @ b) = real_code a @ real_code b" "marks (a @ b) = marks a @ marks b"
  by (simp_all add: real_code_def marks_def)

lemma la_load_mark: "la_load LISA_X86_INST mem a = None"
  by (simp add: la_load_def)

lemma la_value_mark: "la_value LISA_X86_INST opnds M = None"
  by (cases "(LISA_X86_INST, opnds, M)" rule: la_value.cases) (simp_all add: la_load_mark)

lemma la_exec_mark: "la_exec (LISA_X86_INST, opnds) M = None"
  by (simp add: la_exec_def la_value_mark la_store_bytes_def)

text \<open>Code that runs has no marks.\<close>

lemma run_no_marks: "la_run code M = Some M' \<Longrightarrow> real_code code = code \<and> marks code = []"
proof (induction code arbitrary: M)
  case (Cons ins code)
  obtain M1 where M1: "la_exec ins M = Some M1" "la_run code M1 = Some M'" using Cons.prems by (auto simp: bind_eq_Some_conv)
  then have "fst ins \<noteq> LISA_X86_INST" using la_exec_mark[of "snd ins" M] by (cases ins) auto
  then show ?case using Cons.IH[OF M1(2)] by (simp add: real_code_def marks_def)
qed (simp add: real_code_def marks_def)

lemma reaches_env: "reaches tg M S M' \<Longrightarrow> env_of tg M' = env_of tg M"
proof -
  assume r: "reaches tg M S M'"
  have "home tg i \<in> set (reg_gpr_map tg)" if "gpr_index tg i" for i
    unfolding home_def by (rule nth_mem) (use that in \<open>auto simp: gpr_index_def reg_gpr_map_def split: if_splits\<close>)
  moreover have "31 \<notin> set (reg_gpr_map tg)" by (simp add: reg_gpr_map_def)
  ultimately have "31 \<notin> homes tg" by (auto simp: homes_def)
  then show "env_of tg M' = env_of tg M" using r env_not_temp[of tg]
    by (auto simp: env_of_def env_greg reg_read_def reg_num_greg reaches_def)
qed

section \<open>Blocks\<close>

locale block_translation =
  fixes tg :: target and translate :: "ir1_inst \<Rightarrow> bool em" and ok :: ins_ok and step :: ins_step
  assumes translate_ok: "ok pir1 M \<Longrightarrow> translates tg (translate pir1) M (step pir1 (env_of tg M) (x86_of tg M))"
begin

lemma generate_loop_correct:
  assumes "block_ok tg ok step pirs M" "fresh tg s" "i + length pirs \<le> TCG_MAX_INSNS"
  shows "\<exists>code st ft M'. run_state (generate_loop tg translate i pirs) s =
      ((map (ir1_addr tg) pirs, False), s\<lparr>tc_code := tc_code s @ code, tc_itemp := st, tc_ftemp := ft\<rparr>) \<and>
    live_temps (reg_itemp_map tg) st = {} \<and> marks code = map (ins_mark tg) pirs \<and>
    la_run (real_code code) M = Some M' \<and> reaches tg M (x86_block step (env_of tg M) pirs (x86_of tg M)) M'"
  using assms
proof (induction pirs arbitrary: M s i)
  case Nil
  then show ?case
    by (intro exI[of _ "[]"] exI[of _ "tc_itemp s"] exI[of _ "tc_ftemp s"] exI[of _ M])
      (simp add: fresh_def marks_def real_code_def x86_block_def reaches_def)
next
  case (Cons pir1 pirs)
  let ?S = "step pir1 (env_of tg M) (x86_of tg M)" and ?s = "s\<lparr>tc_code := tc_code s @ [ins_mark tg pir1]\<rparr>"
  have s: "fresh tg ?s" using Cons.prems(2) by (simp add: fresh_def)
  obtain c1 st1 ft1 M1 where 1: "run_state (translate pir1) ?s = (True, ?s\<lparr>tc_code := tc_code ?s @ c1, tc_itemp := st1, tc_ftemp := ft1\<rparr>)"
    "live_temps (reg_itemp_map tg) st1 = {}" "la_run c1 M = Some M1" "reaches tg M ?S M1"
    using translate_ok[of pir1 M] Cons.prems(1) s unfolding translates_def block_ok.simps by blast
  let ?s1 = "?s\<lparr>tc_code := tc_code ?s @ c1, tc_itemp := st1, tc_ftemp := ft1\<rparr>"
  have s1: "fresh tg ?s1" using Cons.prems(2) 1(2) by (simp add: fresh_def)
  have M1: "x86_of tg M1 = ?S" "env_of tg M1 = env_of tg M" using 1(4) reaches_env by (auto simp: reaches_def)
  obtain c2 st2 ft2 M2 where 2: "run_state (generate_loop tg translate (i + 1) pirs) ?s1 =
      ((map (ir1_addr tg) pirs, False), ?s1\<lparr>tc_code := tc_code ?s1 @ c2, tc_itemp := st2, tc_ftemp := ft2\<rparr>)"
    "live_temps (reg_itemp_map tg) st2 = {}" "marks c2 = map (ins_mark tg) pirs" "la_run (real_code c2) M1 = Some M2"
    "reaches tg M1 (x86_block step (env_of tg M) pirs ?S) M2"
    using Cons.IH[of M1 ?s1 "i + 1"] Cons.prems 1(4) s1 M1 by auto
  have m: "real_code [ins_mark tg pir1] = []" "marks [ins_mark tg pir1] = [ins_mark tg pir1]"
    by (simp_all add: real_code_def marks_def ins_mark_def)
  have "run_state (generate_loop tg translate i (pir1 # pirs)) s =
      ((map (ir1_addr tg) (pir1 # pirs), False), s\<lparr>tc_code := tc_code s @ ([ins_mark tg pir1] @ c1 @ c2), tc_itemp := st2, tc_ftemp := ft2\<rparr>)"
    using 1(1) 2(1) Cons.prems(3) by (simp add: tr_init_for_each_ir1_in_tb_def)
  moreover have "la_run (real_code ([ins_mark tg pir1] @ c1 @ c2)) M = Some M2"
    using 1(3) 2(4) run_no_marks[OF 1(3)] by (simp only: code_append m) (simp add: la_run_append)
  moreover have "marks ([ins_mark tg pir1] @ c1 @ c2) = map (ins_mark tg) (pir1 # pirs)"
    using run_no_marks[OF 1(3)] 2(3) by (simp only: code_append m) simp
  moreover have "reaches tg M (x86_block step (env_of tg M) (pir1 # pirs) (x86_of tg M)) M2"
    using reaches_trans[OF 1(4) 2(5)] by (simp add: x86_block_def)
  ultimately show ?case using 2(2) by blast
qed

end

section \<open>Single instructions\<close>

text \<open>The base of a segment register, from the x86 state and the address of CPUX86State.\<close>

definition seg_of :: "target \<Rightarrow> env_layout \<Rightarrow> u64 \<Rightarrow> x86_state \<Rightarrow> ir1_opnd \<Rightarrow> u64" where
  "seg_of tg lay env S opnd =
    (case ir1_opnd_get_seg_index opnd of
       Inr k \<Rightarrow> load_le (if CODEIS64 tg then 8 else 4) (x_mem S) (env + of_int (seg_base_of lay k))
     | Inl _ \<Rightarrow> 0)"

lemma seg_of_bases: "seg_of tg lay (env_of tg M) (x86_of tg M) = seg_bases tg lay M"
  by (simp add: fun_eq_iff seg_of_def seg_bases_def x86_seg_base_def env_of_def x86_of_def cong: sum.case_cong)

abbreviation (input) plain_rows :: "dt_x86_insn list" where
  "plain_rows \<equiv> [dt_X86_INS_NOP, dt_X86_INS_PREFETCH, dt_X86_INS_PREFETCHNTA, dt_X86_INS_PREFETCHT1, dt_X86_INS_PREFETCHT2,
     dt_X86_INS_ENDBR32, dt_X86_INS_ENDBR64]"

text \<open>The instructions of a block: call of the next instruction, data movement, stack, sign extension,
  and instructions without effect.\<close>

definition x86_step :: "target \<Rightarrow> env_layout \<Rightarrow> ir1_inst \<Rightarrow> u64 \<Rightarrow> x86_state \<Rightarrow> x86_state" where
  "x86_step tg lay pir1 env S = (let op = ir1_opcode pir1; seg = seg_of tg lay env S in
     if op = dt_X86_INS_CALL then x86_callnext tg pir1 S
     else if op = dt_X86_INS_MOV \<or> op = dt_X86_INS_MOVABS then x86_mov tg pir1 seg S
     else if op = dt_X86_INS_MOVZX then x86_movzx tg pir1 seg S
     else if op = dt_X86_INS_MOVSX \<or> op = dt_X86_INS_MOVSXD then x86_movsx tg pir1 seg S
     else if op = dt_X86_INS_LEA then x86_lea tg pir1 S
     else if op = dt_X86_INS_PUSH then x86_push tg pir1 seg S
     else if op = dt_X86_INS_POP then x86_pop tg pir1 seg S
     else if op = dt_X86_INS_PUSHAW then x86_pusha tg 2 S
     else if op = dt_X86_INS_PUSHAL then x86_pusha tg 4 S
     else if op = dt_X86_INS_POPAL then x86_popa tg 4 S
     else if op = dt_X86_INS_LEAVE then x86_leave tg (ir1_get_opnd_size tg pir1 div 8) S
     else if op = dt_X86_INS_CBW then x86_cbw tg S
     else if op = dt_X86_INS_CWDE then x86_cwde tg S
     else if op = dt_X86_INS_CDQE then x86_cdqe tg S
     else if op = dt_X86_INS_CWD then x86_sign tg 16 S
     else if op = dt_X86_INS_CDQ then x86_sign tg 32 S
     else if op = dt_X86_INS_CQO then x86_sign tg 64 S
     else S)"

definition ins_ok :: "target \<Rightarrow> env_layout \<Rightarrow> ir1_inst \<Rightarrow> la_mach \<Rightarrow> bool" where
  "ins_ok tg lay pir1 M = (let op = ir1_opcode pir1 in
     if op = dt_X86_INS_CALL then
       \<not> ir1_is_indirect_call pir1 \<and> ir1_target_addr tg pir1 = Inr (ir1_addr_next tg pir1) \<and> callnext_ok tg pir1 M
     else if op = dt_X86_INS_MOV \<or> op = dt_X86_INS_MOVABS then mov_ok tg lay pir1 M
     else if op = dt_X86_INS_MOVZX then movzx_ok tg lay pir1 M
     else if op = dt_X86_INS_MOVSX then movsx_ok tg lay pir1 M
     else if op = dt_X86_INS_MOVSXD then movsxd_ok tg lay pir1 M
     else if op = dt_X86_INS_LEA then lea_ok tg lay pir1
     else if op = dt_X86_INS_PUSH then push_ok tg lay pir1 M
     else if op = dt_X86_INS_POP then pop_ok tg lay pir1 M
     else if op = dt_X86_INS_PUSHAW then pusha_ok tg pir1 2 M
     else if op = dt_X86_INS_PUSHAL then pusha_ok tg pir1 4 M
     else if op = dt_X86_INS_POPAL then popa_ok tg pir1 4 M
     else if op = dt_X86_INS_LEAVE then ir1_get_opnd_size tg pir1 = (if CODEIS64 tg then 64 else 32)
     else if op = dt_X86_INS_CDQE \<or> op = dt_X86_INS_CQO then CODEIS64 tg
     else op \<in> {dt_X86_INS_CBW, dt_X86_INS_CWDE, dt_X86_INS_CWD, dt_X86_INS_CDQ} \<union> set plain_rows)"

lemma translates_implements:
  assumes "implements tg tr M S"
  shows "translates tg (do { r \<leftarrow> tr; em_free_all; em_return r }) M S"
  unfolding translates_def
proof (intro allI impI)
  fix s assume "fresh tg s"
  then obtain code st M' where "run_state tr s = (True, s\<lparr>tc_code := tc_code s @ code, tc_itemp := st\<rparr>)"
    "la_run code M = Some M'" "reaches tg M S M'" using assms unfolding implements_def fresh_def by blast
  then show "\<exists>code st ft M'. run_state (do { r \<leftarrow> tr; em_free_all; em_return r }) s =
      (True, s\<lparr>tc_code := tc_code s @ code, tc_itemp := st, tc_ftemp := ft\<rparr>) \<and>
    live_temps (reg_itemp_map tg) st = {} \<and> la_run code M = Some M' \<and> reaches tg M S M'"
    by (intro exI[of _ code] exI[of _ 0] exI[of _ 0] exI[of _ M']) (simp add: em_free_all_def live_temps_def)
qed

lemma implements_return: "implements tg (em_return True) M (x86_of tg M)"
  by (rule implementsI, rule does_return) (simp add: reaches_def)

lemma implements_nop: "implements tg (translate_nop pir1) M (x86_of tg M)"
proof -
  have "em_does tg (la_rri LISA_ANDI zero_ir2_opnd zero_ir2_opnd 0) {} M (\<lambda>_ B' M'. reaches tg M (x86_of tg M) M')"
    by (rule does_op) (simp_all add: reg_write_def reaches_def)
  from implements_true[OF this] show ?thesis by (simp add: translate_nop_def)
qed

lemma translates_callnext:
  assumes "callnext_ok tg pir1 M"
  shows "translates tg (translate_callnext tg pir1) M (x86_callnext tg pir1 (x86_of tg M))"
  unfolding translates_def
proof (intro allI impI)
  fix s assume "fresh tg s"
  then obtain code st M' where "run_state (translate_callnext tg pir1) s = (True, s\<lparr>tc_code := tc_code s @ code, tc_itemp := st\<rparr>)"
    "la_run code M = Some M'" "live_temps (reg_itemp_map tg) st = {}" "reaches tg M (x86_callnext tg pir1 (x86_of tg M)) M'"
    unfolding fresh_def by (elim conjE) (rule em_doesE[OF does_callnext[OF assms]], auto)
  moreover have "s\<lparr>tc_code := c, tc_itemp := st\<rparr> = s\<lparr>tc_code := c, tc_itemp := st, tc_ftemp := tc_ftemp s\<rparr>" for c by simp
  ultimately show "\<exists>code st ft M'. run_state (translate_callnext tg pir1) s =
      (True, s\<lparr>tc_code := tc_code s @ code, tc_itemp := st, tc_ftemp := ft\<rparr>) \<and>
    live_temps (reg_itemp_map tg) st = {} \<and> la_run code M = Some M' \<and> reaches tg M (x86_callnext tg pir1 (x86_of tg M)) M'" by metis
qed

text \<open>The function that the table gives for an instruction of a block.\<close>

lemma function_correct:
  assumes ok: "ins_ok tg (cf_lay cf) pir1 M" and call: "ir1_opcode pir1 \<noteq> dt_X86_INS_CALL"
  shows "\<exists>tr. function_of tg cf pir1 = Some tr \<and> implements tg (tr pir1) M (x86_step tg (cf_lay cf) pir1 (env_of tg M) (x86_of tg M))"
proof -
  note d = function_of_def translate_functions_def x86_step_def Let_def seg_of_bases
  note ok = ok[unfolded ins_ok_def Let_def]
  consider "ir1_opcode pir1 \<in> {dt_X86_INS_MOV, dt_X86_INS_MOVABS, dt_X86_INS_MOVZX, dt_X86_INS_MOVSX, dt_X86_INS_MOVSXD, dt_X86_INS_LEA}"
    | "ir1_opcode pir1 \<in> {dt_X86_INS_PUSH, dt_X86_INS_POP, dt_X86_INS_PUSHAW, dt_X86_INS_PUSHAL, dt_X86_INS_POPAL, dt_X86_INS_LEAVE}"
    | "ir1_opcode pir1 \<in> {dt_X86_INS_CBW, dt_X86_INS_CWDE, dt_X86_INS_CDQE, dt_X86_INS_CWD, dt_X86_INS_CDQ, dt_X86_INS_CQO}"
    | "ir1_opcode pir1 \<in> set plain_rows"
    using ok call by (auto split: if_splits)
  then show ?thesis
  proof cases
    case 1
    then show ?thesis using ok
      by (elim insertE emptyE) (simp_all add: d translate_mov_step translate_movzx_step translate_movsx_step translate_movsxd_step translate_lea_step)
  next
    case 2
    then show ?thesis using ok implements_leave[of "ir1_get_opnd_size tg pir1 div 8" tg pir1 M] translate_pusha_step[of tg pir1 M "cf_lay cf" "cf_opnd cf"]
      by (elim insertE emptyE) (auto simp: d translate_push_step translate_pop_step translate_popal_step split: if_splits)
  next
    case 3
    then show ?thesis using ok
      by (elim insertE emptyE) (simp_all add: d translate_cbw_step translate_cwde_step translate_cdqe_step translate_cwd_step
          translate_cdq_step translate_cqo_step)
  next
    case 4
    then show ?thesis unfolding set_simps
      by (elim insertE emptyE) (simp_all add: d nop_rows_def implements_nop implements_return translate_prefetch_def translate_prefetchnta_def
          translate_prefetcht1_def translate_prefetcht2_def translate_endbr32_def translate_endbr64_def)
  qed
qed

lemma ir1_translate_correct:
  assumes "ins_ok tg (cf_lay cf) pir1 M"
  shows "translates tg (ir1_translate tg cf pir1) M (x86_step tg (cf_lay cf) pir1 (env_of tg M) (x86_of tg M))"
proof (cases "ir1_opcode pir1 = dt_X86_INS_CALL")
  case True
  then have "ir1_translate tg cf pir1 = translate_callnext tg pir1" "callnext_ok tg pir1 M"
    using assms by (simp_all add: ins_ok_def ir1_translate_def call_in_block_def)
  then show ?thesis using translates_callnext True by (simp add: x86_step_def)
next
  case False
  then obtain tr where "function_of tg cf pir1 = Some tr"
    "implements tg (tr pir1) M (x86_step tg (cf_lay cf) pir1 (env_of tg M) (x86_of tg M))" using function_correct[OF assms] by blast
  then show ?thesis using translates_implements False by (simp add: ir1_translate_def call_in_block_def)
qed

interpretation bt: block_translation tg "ir1_translate tg cf" "ins_ok tg (cf_lay cf)" "x86_step tg (cf_lay cf)" for tg cf
  by unfold_locales (rule ir1_translate_correct)

lemma generate_block:
  assumes "block_ok tg (ins_ok tg (cf_lay cf)) (x86_step tg (cf_lay cf)) pirs M" "fresh tg s" "length pirs \<le> TCG_MAX_INSNS"
  shows "\<exists>code st ft M'. run_state (tr_ir2_generate tg cf pirs) s =
      ((1, map (ir1_addr tg) pirs, False), s\<lparr>tc_code := tc_code s @ code, tc_itemp := st, tc_ftemp := ft\<rparr>) \<and>
    marks code = map (ins_mark tg) pirs \<and> la_run (real_code code) M = Some M' \<and>
    reaches tg M (x86_block (x86_step tg (cf_lay cf)) (env_of tg M) pirs (x86_of tg M)) M'"
proof -
  from bt.generate_loop_correct[OF assms(1,2), of 0] assms(3)
  show ?thesis unfolding tr_ir2_generate_def by fastforce
qed

text \<open>C2: blocks are translated correctly.  tr\_ir2\_generate translates every instruction of a block of data
  movement, stack, sign extension, nop and call-next instructions, begun with no temporary in use; it
  records their addresses, marks where the code of each begins, and the code emitted, run from a
  state \<open>M\<close>, reaches a state that represents the x86 state after the whole block.  The conditions on
  the instructions (operands that the encodings allow, no access that wraps around) are those of the
  single translations, required of every state that represents the x86 state before the instruction.\<close>

theorem tr_ir2_generate_correct:
  assumes "block_ok tg (ins_ok tg (cf_lay cf)) (x86_step tg (cf_lay cf)) pirs M" "fresh tg s" "length pirs \<le> TCG_MAX_INSNS"
  shows "\<exists>code st ft M'. run_state (tr_ir2_generate tg cf pirs) s =
      ((1, map (ir1_addr tg) pirs, False), s\<lparr>tc_code := tc_code s @ code, tc_itemp := st, tc_ftemp := ft\<rparr>) \<and>
    marks code = map (ins_mark tg) pirs \<and> la_run (real_code code) M = Some M' \<and>
    reaches tg M (x86_block (x86_step tg (cf_lay cf)) (env_of tg M) pirs (x86_of tg M)) M'"
  using assms by (rule generate_block)

end
