(* ===== verification/Ir2_Relocate.thy ===== *)
theory Ir2_Relocate
  imports Ir2_Assemble Ir2_Edits Reg_Alloc La_Isa
begin

text \<open>
  From the list of generated instructions to machine code: the pseudo instructions of
  ir2/ir2-relocate.c and label\_dispose, boundary\_set and tr\_ir2\_assemble of
  translator/translate.c.  The loops that follow the links of the list are partial functions, so
  that not ending is the result \<open>None\<close>, as is an access outside an array, a division by zero and a
  failed assert.  CONFIG\_LATX\_PROFILER and CONFIG\_LATX\_DEBUG are off.
\<close>

section \<open>Pseudo instructions\<close>

text \<open>What the build and the runtime fix: how realloc behaves (as in \<open>ir2_allocate\<close>), the guest, the
  instruction cache line, the address of an element of the relocation table, the configuration.\<close>

record reloc_cfg =
  rc_moved :: bool
  rc_junk :: "nat \<Rightarrow> ir2_inst"
  rc_target :: target
  rc_imm_reg :: bool
  rc_opnd_junk :: ir2_opnd
  rc_icache_linesize :: nat
  rc_rel_table :: "u32 \<Rightarrow> u64"
  rc_large_cc :: bool
  rc_aot :: bool
  rc_tu :: bool
  rc_xcomisx_opt :: bool
  rc_insts_pattern :: bool
  rc_lazylink :: bool

abbreviation cfg_emit :: "reloc_cfg \<Rightarrow> ir2_opcode \<Rightarrow> ir2_opnd list \<Rightarrow> tr_data \<Rightarrow> (tr_data \<times> nat) option" where
  "cfg_emit cfg \<equiv> la_emit (rc_moved cfg) (rc_junk cfg)"

abbreviation pseudo :: "u32 \<Rightarrow> ir2_opnd" where "pseudo v \<equiv> create_ir2_opnd IR2_OPND_PSEUDO v"

definition la_code_accl :: "reloc_cfg \<Rightarrow> ir2_opnd \<Rightarrow> u32 \<Rightarrow> u32 \<Rightarrow> tr_data \<Rightarrow> (tr_data \<times> nat) option" where
  "la_code_accl cfg data_base ninst filling = cfg_emit cfg LISA_ACCL [data_base, pseudo ninst, pseudo filling]"

definition la_code_align :: "reloc_cfg \<Rightarrow> u32 \<Rightarrow> u32 \<Rightarrow> tr_data \<Rightarrow> (tr_data \<times> nat) option" where
  "la_code_align cfg align filling = cfg_emit cfg LISA_ALIGN [pseudo align, pseudo filling]"

definition la_data_li :: "reloc_cfg \<Rightarrow> ir2_opnd \<Rightarrow> u64 \<Rightarrow> tr_data \<Rightarrow> (tr_data \<times> nat) option" where
  "la_data_li cfg data_temp data = cfg_emit cfg LISA_DATA_LI [data_temp, pseudo (ucast (drop_bit 32 data)), pseudo (ucast data)]"

definition la_data_add :: "reloc_cfg \<Rightarrow> ir2_opnd \<Rightarrow> ir2_opnd \<Rightarrow> ir2_opnd \<Rightarrow> tr_data \<Rightarrow> (tr_data \<times> nat) option" where
  "la_data_add cfg dest src1 src2 = cfg_emit cfg LISA_DATA_ADD [dest, src1, src2]"

definition la_far_jump :: "reloc_cfg \<Rightarrow> ir2_opnd \<Rightarrow> ir2_opnd \<Rightarrow> tr_data \<Rightarrow> (tr_data \<times> nat) option" where
  "la_far_jump cfg jmp_target counter_base = cfg_emit cfg LISA_FAR_JUMP [jmp_target, counter_base]"

definition la_pcaddi_relocate :: "reloc_cfg \<Rightarrow> ir2_opnd \<Rightarrow> ir2_opnd \<Rightarrow> ir2_opnd \<Rightarrow> tr_data \<Rightarrow> (tr_data \<times> nat) option" where
  "la_pcaddi_relocate cfg rd jmp_target counter_base = cfg_emit cfg LISA_PCADDI_RELOCATE [rd, jmp_target, counter_base]"

definition la_jump_epilogue :: "reloc_cfg \<Rightarrow> ir2_opnd \<Rightarrow> ir2_opnd \<Rightarrow> tr_data \<Rightarrow> (tr_data \<times> nat) option" where
  "la_jump_epilogue cfg jmp_target counter_base = cfg_emit cfg LISA_JUMP_EPILOGUE [jmp_target, counter_base]"

definition la_inst_diff :: "reloc_cfg \<Rightarrow> ir2_opnd \<Rightarrow> ir2_opnd \<Rightarrow> ir2_opnd \<Rightarrow> tr_data \<Rightarrow> (tr_data \<times> nat) option" where
  "la_inst_diff cfg dest label1 label2 = cfg_emit cfg LISA_INST_DIFF [dest, label1, label2]"

definition la_data_st :: "reloc_cfg \<Rightarrow> ir2_opnd \<Rightarrow> ir2_opnd \<Rightarrow> tr_data \<Rightarrow> (tr_data \<times> nat) option" where
  "la_data_st cfg mem data_temp = cfg_emit cfg LISA_DATA_ST [mem, data_temp]"

definition la_data_st_rel_table :: "reloc_cfg \<Rightarrow> u32 \<Rightarrow> u32 \<Rightarrow> ir2_opnd \<Rightarrow> tr_data \<Rightarrow> (tr_data \<times> nat) option" where
  "la_data_st_rel_table cfg table_index offset data_temp =
     cfg_emit cfg LISA_DATA_ST_REL_TABLE [pseudo table_index, pseudo offset, data_temp]"

section \<open>ir2\_relocate\<close>

text \<open>The list, *counter, the arrays label and data, and the host memory that the stores write.\<close>

record reloc =
  r_tr :: tr_data
  r_counter :: int
  r_label :: "int list"
  r_data :: "u64 list"
  r_mem :: memory

text \<open>generate\_X and ir2\_insert\_before.\<close>

definition insert_code :: "reloc_cfg \<Rightarrow> ir2_opcode \<Rightarrow> ir2_opnd list \<Rightarrow> nat \<Rightarrow> reloc \<Rightarrow> reloc option" where
  "insert_code cfg opcode opnds cur r =
     map_option (\<lambda>t. r\<lparr>r_tr := t\<rparr>) (do_edit (rc_moved cfg) (rc_junk cfg) (Before opcode opnds cur) (r_tr r))"

definition count_up :: "int \<Rightarrow> reloc \<Rightarrow> reloc" where
  "count_up k r = r\<lparr>r_counter := r_counter r + k\<rparr>"

definition drop_inst :: "nat \<Rightarrow> reloc \<Rightarrow> reloc option" where
  "drop_inst cur r = map_option (\<lambda>t. r\<lparr>r_tr := t\<rparr>) (ir2_remove cur (r_tr r))"

abbreviation filler :: "u32 \<Rightarrow> ir2_opnd list" where
  "filler code \<equiv> [create_ir2_opnd IR2_OPND_PSEUDO code]"

text \<open>The loop of LISA\_ACCL; the number of instructions is less than a quarter of the line size, and
  with 0 the condition insn\_offset > line size is false.\<close>

fun accl_loop :: "reloc_cfg \<Rightarrow> nat \<Rightarrow> int \<Rightarrow> u32 \<Rightarrow> nat \<Rightarrow> reloc \<Rightarrow> reloc option" where
  "accl_loop cfg cur insn_offset code 0 r = Some r"
| "accl_loop cfg cur insn_offset code (Suc k) r =
    (if insn_offset > int (rc_icache_linesize cfg) - 4 * int (Suc k) then do {
       r' \<leftarrow> insert_code cfg LISA_CODE (filler code) cur r;
       accl_loop cfg cur insn_offset code k (count_up 1 r')
     } else Some r)"

text \<open>The loop of LISA\_ALIGN; *counter is converted to uint32\_t.\<close>

partial_function (option) align_loop :: "reloc_cfg \<Rightarrow> nat \<Rightarrow> u32 \<Rightarrow> u32 \<Rightarrow> reloc \<Rightarrow> reloc option" where
  "align_loop cfg cur align code r =
    (if (of_int (r_counter r) :: u32) mod align \<noteq> 0 then do {
       r' \<leftarrow> insert_code cfg LISA_CODE (filler code) cur r;
       align_loop cfg cur align code (count_up 1 r')
     } else Some r)"

text \<open>The distance in instructions from the current position to an absolute address.\<close>

definition jump_distance :: "u64 \<Rightarrow> u64 \<Rightarrow> int \<Rightarrow> u64" where
  "jump_distance target base counter = signed_drop_bit 2 (target - (of_int (4 * counter) + base))"

definition imm_opnd :: "u64 \<Rightarrow> ir2_opnd" where
  "imm_opnd v = create_ir2_opnd IR2_OPND_IMM (ucast v)"

text \<open>pcaddu18i and jirl through a temporary.\<close>

definition far_pair :: "reloc_cfg \<Rightarrow> ir2_opnd \<Rightarrow> u64 \<Rightarrow> nat \<Rightarrow> reloc \<Rightarrow> reloc option" where
  "far_pair cfg rd insn_offset cur r =
    (let lower = scast (ucast insn_offset :: u16) :: u64;
         upper = signed_drop_bit 16 (insn_offset - lower)
     in do {
       (t, tmp) \<leftarrow> ra_alloc_itemp (rc_target cfg) (rc_imm_reg cfg) (rc_opnd_junk cfg) (r_tr r);
       r1 \<leftarrow> insert_code cfg LISA_PCADDU18I [tmp, imm_opnd upper] cur (r\<lparr>r_tr := t\<rparr>);
       r2 \<leftarrow> insert_code cfg LISA_JIRL [rd, tmp, imm_opnd lower] cur r1;
       t' \<leftarrow> ra_free_temp (rc_target cfg) tmp (r_tr r2);
       Some (count_up 2 (r2\<lparr>r_tr := t'\<rparr>))
     })"

definition a0_ir2_opnd :: ir2_opnd where
  "a0_ir2_opnd = create_ir2_opnd IR2_OPND_GPR (of_int la_a0)"

text \<open>The value of an operand that is a data slot, a label or a plain number; any other operand leaves
  the destination as it is, which is \<open>old\<close>.\<close>

definition opnd_value :: "reloc \<Rightarrow> bool \<Rightarrow> u64 \<Rightarrow> ir2_opnd \<Rightarrow> u64 option" where
  "opnd_value r plain old opnd =
    (if ir2_opnd_is_data opnd then arr_get (r_data r) (uint (ir2_opnd_val opnd))
     else if ir2_opnd_is_label opnd then map_option of_int (arr_get (r_label r) (uint (ir2_opnd_val opnd)))
     else if plain \<and> ir2_opnd_is_pseudo opnd then Some (ucast (ir2_opnd_val opnd))
     else Some old)"

definition data_at :: "reloc \<Rightarrow> ir2_opnd \<Rightarrow> u64 option" where
  "data_at r opnd = arr_get (r_data r) (uint (ir2_opnd_val opnd))"

definition set_data :: "ir2_opnd \<Rightarrow> u64 \<Rightarrow> reloc \<Rightarrow> reloc option" where
  "set_data opnd v r = map_option (\<lambda>d. r\<lparr>r_data := d\<rparr>) (arr_set (r_data r) (uint (ir2_opnd_val opnd)) v)"

text \<open>The stores of LISA\_DATA\_ST and LISA\_DATA\_ST\_REL\_TABLE; an operand that is neither a data slot nor
  a label stores nothing.\<close>

definition store_value :: "nat \<Rightarrow> u64 \<Rightarrow> ir2_opnd \<Rightarrow> reloc \<Rightarrow> reloc option" where
  "store_value bytes addr opnd r =
    (if ir2_opnd_is_data opnd \<or> ir2_opnd_is_label opnd
     then map_option (\<lambda>v. r\<lparr>r_mem := store_le bytes v addr (r_mem r)\<rparr>) (opnd_value r False 0 opnd)
     else Some r)"

definition relocate_body :: "reloc_cfg \<Rightarrow> nat \<Rightarrow> ir2_opcode \<Rightarrow> ir2_opnd \<Rightarrow> ir2_opnd \<Rightarrow> ir2_opnd \<Rightarrow> reloc \<Rightarrow> reloc option" where
  "relocate_body cfg cur_id opcode opnd0 opnd1 opnd2 r =
    (if opcode = LISA_ACCL then do {
       base \<leftarrow> data_at r opnd0;
       let ninst = unat (ir2_opnd_val opnd1);
       r' \<leftarrow> (if ninst < rc_icache_linesize cfg div 4 then
           accl_loop cfg cur_id (sint ((base + of_int (4 * r_counter r)) AND (of_nat (rc_icache_linesize cfg) - 1)))
             (ir2_opnd_val opnd2) ninst r
         else None);
       drop_inst cur_id r'
     }
     else if opcode = LISA_ALIGN then do {
       r' \<leftarrow> (if ir2_opnd_val opnd0 = 0 then None else align_loop cfg cur_id (ir2_opnd_val opnd0) (ir2_opnd_val opnd1) r);
       drop_inst cur_id r'
     }
     else if opcode = LISA_FAR_JUMP then do {
       target \<leftarrow> data_at r opnd0;
       base \<leftarrow> data_at r opnd1;
       let insn_offset = jump_distance target base (r_counter r);
       r' \<leftarrow> (if rc_large_cc cfg then
           if insn_offset = signed_take_bit 25 insn_offset then do {
             r1 \<leftarrow> insert_code cfg LISA_B [imm_opnd insn_offset] cur_id r;
             r2 \<leftarrow> insert_code cfg LISA_ANDI [zero_ir2_opnd, zero_ir2_opnd, create_immh_opnd 0] cur_id r1;
             Some (count_up 2 r2)
           } else far_pair cfg zero_ir2_opnd insn_offset cur_id r
         else do {
           r1 \<leftarrow> insert_code cfg LISA_B [imm_opnd insn_offset] cur_id r;
           Some (count_up 1 r1)
         });
       drop_inst cur_id r'
     }
     else if opcode = LISA_PCADDI_RELOCATE then do {
       target \<leftarrow> data_at r opnd1;
       base \<leftarrow> data_at r opnd2;
       r' \<leftarrow> insert_code cfg LISA_PCADDI [opnd0, imm_opnd (jump_distance target base (r_counter r))] cur_id r;
       drop_inst cur_id (count_up 1 r')
     }
     else if opcode = LISA_JUMP_EPILOGUE then do {
       target \<leftarrow> data_at r opnd0;
       base \<leftarrow> data_at r opnd1;
       r' \<leftarrow> far_pair cfg a0_ir2_opnd (jump_distance target base (r_counter r)) cur_id r;
       drop_inst cur_id r'
     }
     else if opcode = LISA_DATA_LI then do {
       r' \<leftarrow> set_data opnd0 (push_bit 32 (ucast (ir2_opnd_val opnd1)) OR ucast (ir2_opnd_val opnd2)) r;
       drop_inst cur_id r'
     }
     else if opcode = LISA_DATA_ADD then do {
       old \<leftarrow> data_at r opnd0;
       v1 \<leftarrow> opnd_value r True old opnd1;
       r1 \<leftarrow> set_data opnd0 v1 r;
       v2 \<leftarrow> opnd_value r1 True 0 opnd2;
       r2 \<leftarrow> set_data opnd0 (v1 + v2) r1;
       drop_inst cur_id r2
     }
     else if opcode = LISA_INST_DIFF then do {
       old \<leftarrow> data_at r opnd0;
       v1 \<leftarrow> opnd_value r False old opnd1;
       r1 \<leftarrow> set_data opnd0 v1 r;
       v2 \<leftarrow> opnd_value r1 False 0 opnd2;
       r2 \<leftarrow> set_data opnd0 (drop_bit 2 (v1 - v2)) r1;
       drop_inst cur_id r2
     }
     else if opcode = LISA_DATA_ST then do {
       addr \<leftarrow> data_at r opnd0;
       r' \<leftarrow> store_value 8 addr opnd1 r;
       drop_inst cur_id r'
     }
     else if rc_aot cfg \<and> opcode = LISA_DATA_ST_REL_TABLE then do {
       r' \<leftarrow> store_value 4 (rc_rel_table cfg (ir2_opnd_val opnd0) + ucast (ir2_opnd_val opnd1)) opnd2 r;
       drop_inst cur_id r'
     }
     else Some r)"

text \<open>The array \_opnd has four elements, \<open>n_opnd\<close> those of them that are known.\<close>

definition inst_opnd :: "ir2_inst \<Rightarrow> nat \<Rightarrow> ir2_opnd" where
  "inst_opnd i k = (if k < length (n_opnd i) then n_opnd i ! k else ir2_opnd_new_none)"

text \<open>The new state and the index of the current instruction.\<close>

definition ir2_relocate :: "reloc_cfg \<Rightarrow> nat \<Rightarrow> reloc \<Rightarrow> (reloc \<times> nat) option" where
  "ir2_relocate cfg current r = do {
     i \<leftarrow> inst_get (r_tr r) current;
     let cur_id = nat (ir2_get_id i);
     r' \<leftarrow> relocate_body cfg cur_id (ir2_opcode_of i) (inst_opnd i 0) (inst_opnd i 1) (inst_opnd i 2) r;
     Some (r', cur_id)
   }"

section \<open>label\_dispose\<close>

text \<open>Step 1: the positions of the labels, and the pseudo instructions.\<close>

definition place_inst :: "reloc_cfg \<Rightarrow> nat \<Rightarrow> reloc \<Rightarrow> (reloc \<times> nat) option" where
  "place_inst cfg cur r = do {
     i \<leftarrow> inst_get (r_tr r) cur;
     if ir2_opcode_of i = LISA_LABEL then do {
       opnd \<leftarrow> arr_get (n_opnd i) 0;
       label \<leftarrow> arr_set (r_label r) (ir2_opnd_label_id opnd) (4 * r_counter r);
       Some (r\<lparr>r_label := label\<rparr>, cur)
     }
     else if ir2_opcode_of i > LISA_PSEUDO_END then Some (count_up 1 r, cur)
     else ir2_relocate cfg cur r
   }"

partial_function (option) place_loop :: "reloc_cfg \<Rightarrow> ir2_ptr \<Rightarrow> reloc \<Rightarrow> reloc option" where
  "place_loop cfg ir2_current r =
    (if ir2_current = Null then Some r
     else do {
       cur \<leftarrow> deref ir2_current;
       (r', cur') \<leftarrow> place_inst cfg cur r;
       i \<leftarrow> inst_get (r_tr r') cur';
       place_loop cfg (ir2_next (r_tr r') i) r'
     })"

text \<open>Step 2: the fields of the block that hold label numbers.  jmp\_indirect shares its storage with
  jmp\_stub\_target\_arg[0], tu\_jmp with jmp\_reset\_offset, and tu\_unlink.stub\_offset with the low half
  of jmp\_target\_arg[0].\<close>

record tb_jumps =
  bool_flags :: u16
  jmp_reset_offset :: "u16 list"
  jmp_target_arg :: "u64 list"
  jmp_stub_reset_offset :: "u16 list"
  jmp_stub_target_arg :: "u64 list"
  eflags_target_arg :: "u16 list"
  first_jmp_align :: u16

abbreviation (input) TB_JMP_RESET_OFFSET_INVALID :: int where "TB_JMP_RESET_OFFSET_INVALID \<equiv> 0xffff"
abbreviation (input) IS_TUNNEL_LIB :: u16 where "IS_TUNNEL_LIB \<equiv> 0x10"
abbreviation (input) IS_TU_JMP :: u16 where "IS_TU_JMP \<equiv> 0x40"
abbreviation (input) IS_INDIRECT_JMP :: u16 where "IS_INDIRECT_JMP \<equiv> 0x80"

definition use_indirect_jmp :: "tb_jumps \<Rightarrow> bool" where
  "use_indirect_jmp tb \<longleftrightarrow> bool_flags tb AND IS_INDIRECT_JMP \<noteq> 0"

definition use_tu_jmp :: "reloc_cfg \<Rightarrow> tb_jumps \<Rightarrow> bool" where
  "use_tu_jmp cfg tb \<longleftrightarrow> rc_tu cfg \<and> bool_flags tb AND IS_TU_JMP \<noteq> 0"

definition B_STUB_SIZE :: "reloc_cfg \<Rightarrow> int" where
  "B_STUB_SIZE cfg = (if rc_lazylink cfg then 0 else if rc_large_cc cfg then 8 else 4)"

text \<open>One jump: the offset after it and the offset of it.\<close>

definition dispose_jump :: "reloc_cfg \<Rightarrow> int list \<Rightarrow> int \<Rightarrow> u16 list \<Rightarrow> u64 list \<Rightarrow> (u16 list \<times> u64 list) option" where
  "dispose_jump cfg ir2_label i reset target = do {
     v \<leftarrow> arr_get reset i;
     if uint v \<noteq> TB_JMP_RESET_OFFSET_INVALID then do {
       off \<leftarrow> arr_get ir2_label (uint v);
       reset' \<leftarrow> arr_set reset i (of_int (off + B_STUB_SIZE cfg));
       target' \<leftarrow> arr_set target i (of_int off);
       Some (reset', target')
     } else Some (reset, target)
   }"

definition dispose_jumps :: "reloc_cfg \<Rightarrow> int list \<Rightarrow> int \<Rightarrow> tb_jumps \<Rightarrow> tb_jumps option" where
  "dispose_jumps cfg ir2_label i tb = do {
     (reset, target) \<leftarrow> dispose_jump cfg ir2_label i (jmp_reset_offset tb) (jmp_target_arg tb);
     let tb1 = tb\<lparr>jmp_reset_offset := reset, jmp_target_arg := target\<rparr>;
     if rc_xcomisx_opt cfg then do {
       (sreset, starget) \<leftarrow> dispose_jump cfg ir2_label i (jmp_stub_reset_offset tb1) (jmp_stub_target_arg tb1);
       Some (tb1\<lparr>jmp_stub_reset_offset := sreset, jmp_stub_target_arg := starget\<rparr>)
     } else Some tb1
   }"

definition dispose_tu_jmp :: "int list \<Rightarrow> int \<Rightarrow> int \<Rightarrow> tb_jumps \<Rightarrow> tb_jumps option" where
  "dispose_tu_jmp ir2_label label_count i tb = do {
     v \<leftarrow> arr_get (jmp_reset_offset tb) i;
     if uint v \<noteq> TB_JMP_RESET_OFFSET_INVALID \<and> uint v < label_count then do {
       off \<leftarrow> arr_get ir2_label (uint v);
       tu_jmp \<leftarrow> arr_set (jmp_reset_offset tb) i (of_int off);
       Some (tb\<lparr>jmp_reset_offset := tu_jmp\<rparr>)
     } else Some tb
   }"

definition dispose_tu_unlink :: "int list \<Rightarrow> tb_jumps \<Rightarrow> tb_jumps option" where
  "dispose_tu_unlink ir2_label tb = do {
     w \<leftarrow> arr_get (jmp_target_arg tb) 0;
     off \<leftarrow> arr_get ir2_label (sint (ucast w :: u32));
     let w' = push_bit 32 (drop_bit 32 w) OR ucast (of_int off :: u32);
     args \<leftarrow> arr_set (jmp_target_arg tb) 0 w';
     Some (tb\<lparr>jmp_target_arg := args\<rparr>)
   }"

definition dispose_field :: "int list \<Rightarrow> u16 \<Rightarrow> u16 option" where
  "dispose_field ir2_label v =
    (if uint v \<noteq> TB_JMP_RESET_OFFSET_INVALID then map_option of_int (arr_get ir2_label (uint v)) else Some v)"

definition dispose_tb :: "reloc_cfg \<Rightarrow> bool \<Rightarrow> int list \<Rightarrow> int \<Rightarrow> tb_jumps \<Rightarrow> tb_jumps option" where
  "dispose_tb cfg in_pre_translate ir2_label label_count tb = do {
     tb1 \<leftarrow> (if use_indirect_jmp tb then do {
         w \<leftarrow> arr_get (jmp_stub_target_arg tb) 0;
         let label_id = sint (ucast w :: u32);
         if label_id \<noteq> TB_JMP_RESET_OFFSET_INVALID then do {
           off \<leftarrow> arr_get ir2_label label_id;
           args \<leftarrow> arr_set (jmp_stub_target_arg tb) 0 (of_int off);
           Some (tb\<lparr>jmp_stub_target_arg := args\<rparr>)
         } else Some tb
       }
       else if \<not> use_tu_jmp cfg tb then do {
         tb0 \<leftarrow> dispose_jumps cfg ir2_label 0 tb;
         dispose_jumps cfg ir2_label 1 tb0
       }
       else if rc_tu cfg \<and> in_pre_translate \<and> bool_flags tb AND IS_TUNNEL_LIB = 0 then do {
         tb0 \<leftarrow> dispose_tu_jmp ir2_label label_count 0 tb;
         tb1 \<leftarrow> dispose_tu_jmp ir2_label label_count 1 tb0;
         dispose_tu_unlink ir2_label tb1
       }
       else Some tb);
     flags \<leftarrow> (if rc_insts_pattern cfg then those (map (dispose_field ir2_label) (eflags_target_arg tb1))
       else Some (eflags_target_arg tb1));
     align \<leftarrow> dispose_field ir2_label (first_jmp_align tb1);
     Some (tb1\<lparr>eflags_target_arg := flags, first_jmp_align := align\<rparr>)
   }"

text \<open>Step 3: the branches.\<close>

definition label_opnd :: "ir2_opcode \<Rightarrow> nat option" where
  "label_opnd opcode =
    (if ir2_opcode_is_branch opcode \<or> ir2_opcode_is_f_branch opcode then
       if opcode = LISA_B \<or> opcode = LISA_BL then Some 0
       else if ir2_opcode_is_branch_with_3opnds opcode then Some 2
       else if ir2_opcode_is_f_branch opcode \<or> ir2_opcode_is_branch_with_2opnds opcode then Some 1
       else None
     else None)"

definition resolve_inst :: "int list \<Rightarrow> int \<Rightarrow> nat \<Rightarrow> tr_data \<Rightarrow> tr_data option" where
  "resolve_inst ir2_label ir2_num cur t = do {
     i \<leftarrow> inst_get t cur;
     case label_opnd (ir2_opcode_of i) of
       None \<Rightarrow> Some t
     | Some k \<Rightarrow> do {
         opnd \<leftarrow> arr_get (n_opnd i) (int k);
         if ir2_opnd_is_label opnd then do {
           target \<leftarrow> arr_get ir2_label (ir2_opnd_label_id opnd);
           inst_upd (\<lambda>i. i\<lparr>n_opnd := (n_opnd i)[k := ir2_opnd_convert_label_to_imm (drop_bit 2 target - ir2_num) opnd]\<rparr>) cur t
         } else Some t
       }
   }"

text \<open>The instructions that take up space in the code.\<close>

definition takes_space :: "ir2_opcode \<Rightarrow> bool" where
  "takes_space opcode \<longleftrightarrow> opcode \<noteq> LISA_LABEL \<and> opcode \<noteq> LISA_X86_INST \<and> opcode \<noteq> LISA_PROFILE"

partial_function (option) branch_loop :: "int list \<Rightarrow> ir2_ptr \<Rightarrow> int \<Rightarrow> tr_data \<Rightarrow> (int \<times> tr_data) option" where
  "branch_loop ir2_label ir2_current ir2_num t =
    (if ir2_current = Null then Some (ir2_num, t)
     else do {
       cur \<leftarrow> deref ir2_current;
       t' \<leftarrow> resolve_inst ir2_label ir2_num cur t;
       i \<leftarrow> inst_get t' cur;
       branch_loop ir2_label (ir2_next t' i) (if takes_space (ir2_opcode_of i) then ir2_num + 1 else ir2_num) t'
     })"

text \<open>The number of instructions, the list, the block and the memory.\<close>

definition label_dispose ::
    "reloc_cfg \<Rightarrow> bool \<Rightarrow> tb_jumps option \<Rightarrow> tr_data \<Rightarrow> memory \<Rightarrow> (int \<times> tr_data \<times> tb_jumps option \<times> memory) option" where
  "label_dispose cfg in_pre_translate tb lat_ctx mem = do {
     r \<leftarrow> place_loop cfg (first_ir2 lat_ctx) \<lparr>r_tr = lat_ctx, r_counter = 0,
       r_label = replicate (nat (label_num lat_ctx)) (-1), r_data = replicate (nat (data_num lat_ctx)) (-1), r_mem = mem\<rparr>;
     tb' \<leftarrow> (case tb of None \<Rightarrow> Some None
       | Some b \<Rightarrow> map_option Some (dispose_tb cfg in_pre_translate (r_label r) (label_num lat_ctx) b));
     (ir2_num, t) \<leftarrow> branch_loop (r_label r) (first_ir2 (r_tr r)) 0 (r_tr r);
     Some (ir2_num, t, tb', r_mem r)
   }"

section \<open>boundary\_set and tr\_ir2\_assemble\<close>

partial_function (option) boundary_loop :: "tr_data \<Rightarrow> ir2_ptr \<Rightarrow> int \<Rightarrow> int \<Rightarrow> u16 list \<Rightarrow> (int \<times> int \<times> u16 list) option" where
  "boundary_loop lat_ctx ir2_current x86 ir2 offs =
    (if ir2_current = Null then Some (x86, ir2, offs)
     else do {
       cur \<leftarrow> deref ir2_current;
       i \<leftarrow> inst_get lat_ctx cur;
       if ir2_opcode_of i = LISA_X86_INST then do {
         offs' \<leftarrow> (if x86 \<noteq> -1 then arr_set offs x86 (of_int (4 * ir2)) else Some offs);
         boundary_loop lat_ctx (ir2_next lat_ctx i) (x86 + 1) ir2 offs'
       }
       else if ir2_opcode_of i \<noteq> LISA_LABEL then boundary_loop lat_ctx (ir2_next lat_ctx i) x86 (ir2 + 1) offs
       else boundary_loop lat_ctx (ir2_next lat_ctx i) x86 ir2 offs
     })"

text \<open>\<open>offs\<close> is tcg\_ctx->gen\_insn\_end\_off.\<close>

definition boundary_set :: "tr_data \<Rightarrow> u16 list \<Rightarrow> u16 list option" where
  "boundary_set lat_ctx offs = do {
     (x86, ir2, offs') \<leftarrow> boundary_loop lat_ctx (first_ir2 lat_ctx) (-1) 0 offs;
     if x86 \<noteq> -1 then arr_set offs' x86 (of_int (4 * ir2)) else Some offs'
   }"

partial_function (option) assemble_loop :: "tr_data \<Rightarrow> ir2_ptr \<Rightarrow> u64 \<Rightarrow> int \<Rightarrow> memory \<Rightarrow> (int \<times> memory) option" where
  "assemble_loop t pir2 code_addr code_nr mem =
    (if pir2 = Null then Some (code_nr, mem)
     else do {
       cur \<leftarrow> deref pir2;
       i \<leftarrow> inst_get t cur;
       if ir2_opcode_of i \<noteq> LISA_LABEL \<and> ir2_opcode_of i \<noteq> LISA_X86_INST then do {
         result \<leftarrow> ir2_assemble i;
         assemble_loop t (ir2_next t i) (code_addr + 4) (code_nr + 1) (store_le 4 (ucast result) code_addr mem)
       }
       else assemble_loop t (ir2_next t i) code_addr code_nr mem
     })"

definition tr_ir2_assemble :: "u64 \<Rightarrow> tr_data \<Rightarrow> memory \<Rightarrow> (int \<times> memory) option" where
  "tr_ir2_assemble code_start_addr t mem = assemble_loop t (first_ir2 t) code_start_addr 0 mem"

end
