(* ===== verification/Ir2_Relocate_Correct.thy ===== *)
theory Ir2_Relocate_Correct
  imports Ir2_Relocate La_Format_Check
begin

text \<open>
  Proofs about \<open>Ir2_Relocate\<close> over the abstract list of \<open>Ir2_Edits\<close>.  The loop of step 1 splits the list
  into a part that is done and a part still to do (\<open>place_inv\<close>); relocating an instruction moves it from
  the one to the other, with the code inserted for it (\<open>grown\<close>, \<open>relocated\<close>).  Step 3 rewrites the
  operands in place.  The last section gives the positions of labels and instructions in the final list.
\<close>

section \<open>Frames\<close>

lemma inst_upd_frame: "inst_upd f i t = Some t' \<Longrightarrow> itemp_status t' = itemp_status t"
  by (auto simp: inst_upd_def split: if_splits)

lemma allocate_frame:
  "ir2_allocate moved junk t = Some (t', p) \<Longrightarrow> 0 < ir2_inst_num_max t \<Longrightarrow> itemp_status t' = itemp_status t"
  by (auto simp: ir2_allocate_def Let_def bind_eq_Some_conv dest!: inst_upd_frame split: if_splits)

lemma generate_frame:
  "generate moved junk op ops t = Some (t', p) \<Longrightarrow> 0 < ir2_inst_num_max t \<Longrightarrow> itemp_status t' = itemp_status t"
  by (auto simp: generate_def Let_def bind_eq_Some_conv dest!: inst_upd_frame allocate_frame split: if_splits prod.splits)

lemma insert_before_frame:
  "ir2_insert_before j k t = Some (t', p) \<Longrightarrow> itemp_status t' = itemp_status t"
  by (auto simp: ir2_insert_before_def Let_def bind_eq_Some_conv dest!: inst_upd_frame split: if_splits)

lemma remove_frame: "ir2_remove k t = Some t' \<Longrightarrow> itemp_status t' = itemp_status t"
  by (auto simp: ir2_remove_def Let_def bind_eq_Some_conv dest!: inst_upd_frame split: if_splits)

lemma remove_next:
  assumes rep: "ir2_rep t (ys @ k # zs)" and rem: "ir2_remove k t = Some t'"
  shows "n_next (ir2_inst_array t' ! k) = (if zs = [] then -1 else int (hd zs))"
proof -
  have d: "dll (ir2_inst_array t) (-1) (ys @ k # zs) (-1)" using rep by (simp add: ir2_rep_def)
  have nx: "n_next (ir2_inst_array t ! k) = (if zs = [] then -1 else int (hd zs))" using dll_next[OF d] .
  have n: "ir2_next t (ir2_inst_array t ! k) = (if zs = [] then Null else At (hd zs))"
    "ir2_prev t (ir2_inst_array t ! k) = (if ys = [] then Null else At (last ys))"
    using rep_split(6,7)[OF rep] by auto
  have "k \<noteq> hd zs" if "zs \<noteq> []" using rep that by (cases zs) (auto simp: ir2_rep_def)
  moreover have "k \<noteq> last ys" if "ys \<noteq> []" using rep that by (auto simp: ir2_rep_def dest: last_in_set)
  ultimately have "n_next (ir2_inst_array t' ! k) = n_next (ir2_inst_array t ! k)"
    using rem n
    by (auto simp: ir2_remove_def inst_get_def inst_upd_def Let_def deref_def ir2_set_opcode_def nth_list_update bind_eq_Some_conv
        split: if_splits)
  then show ?thesis using nx by simp
qed

section \<open>Inserting code before an instruction\<close>

text \<open>The opcodes that the relocation emits, and those that remain in the list.\<close>

definition fresh_op :: "ir2_opcode \<Rightarrow> bool" where
  "fresh_op op \<longleftrightarrow> op = LISA_CODE \<or> LISA_PSEUDO_END < op"

definition label_ok :: "nat \<Rightarrow> ir2_opnd \<Rightarrow> bool" where
  "label_ok L opnd \<longleftrightarrow> 0 \<le> ir2_opnd_label_id opnd \<and> ir2_opnd_label_id opnd < int L"

definition branch_ok :: "nat \<Rightarrow> ir2_opcode \<times> ir2_opnd list \<Rightarrow> bool" where
  "branch_ok L b \<longleftrightarrow> (case label_opnd (fst b) of None \<Rightarrow> True
     | Some j \<Rightarrow> j < length (snd b) \<and> (ir2_opnd_is_label (snd b ! j) \<longrightarrow> label_ok L (snd b ! j)))"

definition known_op :: "ir2_opcode \<Rightarrow> bool" where
  "known_op op \<longleftrightarrow> op < LISA_INVALID + length lisa_format_table"

definition fresh_item :: "ir2_opcode \<times> ir2_opnd list \<Rightarrow> bool" where
  "fresh_item b \<longleftrightarrow> fresh_op (fst b) \<and> known_op (fst b) \<and> snd b \<noteq> [] \<and> branch_ok 0 b"

definition kept_op :: "ir2_opcode \<Rightarrow> bool" where
  "kept_op op \<longleftrightarrow> op = LISA_LABEL \<or> op = LISA_X86_INST \<or> LISA_PSEUDO_END < op"

lemma known_op_iff: "known_op op \<longleftrightarrow> op < 2756"
  by (simp add: known_op_def lisa_format_table_check)

lemma branch_ok_mono: "branch_ok 0 b \<Longrightarrow> branch_ok L b"
  by (auto simp: branch_ok_def label_ok_def split: option.splits)

lemma fresh_items:
  "fresh_item (LISA_CODE, filler code)" "fresh_item (LISA_B, [imm_opnd d])" "fresh_item (LISA_PCADDU18I, [rd, x])"
  "fresh_item (LISA_JIRL, [rd, x, y])" "fresh_item (LISA_ANDI, [rd, x, y])" "fresh_item (LISA_PCADDI, [rd, x])"
  by (simp_all add: fresh_item_def fresh_op_def known_op_iff branch_ok_def label_opnd_def ir2_opcode_is_branch_def
      ir2_opcode_is_f_branch_def ir2_opcode_is_branch_with_3opnds_def ir2_opcode_is_branch_with_2opnds_def
      imm_opnd_def create_ir2_opnd_def ir2_opnd_is_label_def)

lemma fresh_takes_space: "fresh_op op \<Longrightarrow> takes_space op"
  by (auto simp: fresh_op_def takes_space_def)

text \<open>\<open>l\<close> instructions have been inserted between \<open>ys\<close> and the current instruction.\<close>

definition grown :: "code_item \<Rightarrow> code_item list \<Rightarrow> reloc \<Rightarrow> code_item list \<Rightarrow> nat \<Rightarrow> reloc \<Rightarrow> nat \<Rightarrow> bool" where
  "grown c zs r ys m r' l \<longleftrightarrow> (\<exists>new. length new = l \<and> (\<forall>e\<in>set new. m \<le> fst e \<and> fresh_item (snd e)) \<and>
     represents (r_tr r') (ys @ new @ c # zs, m + l) \<and> r_label r' = r_label r \<and> r_data r' = r_data r \<and>
     itemp_status (r_tr r') = itemp_status (r_tr r))"

lemma grown_refl: "represents (r_tr r) (ys @ c # zs, m) \<Longrightarrow> grown c zs r ys m r 0"
  by (auto simp: grown_def)

lemma grown_count_up [simp]: "grown c zs r ys m (count_up k r') l = grown c zs r ys m r' l"
  by (simp add: grown_def count_up_def)

lemma counter_count_up [simp]: "r_counter (count_up k r) = r_counter r + k"
  by (simp add: count_up_def)

lemma represents_max: "represents t s \<Longrightarrow> 0 < ir2_inst_num_max t"
  by (auto simp: represents_def split: prod.splits)

lemma represents_status [simp]: "represents (t\<lparr>itemp_status := st\<rparr>) s = represents t s"
  by (simp add: represents_def ir2_rep_def split: prod.splits)

lemma grown_insert:
  assumes g: "grown c zs r ys m r' l" and room: "m + l < 2 ^ 15" and op: "fresh_item (op, ops)"
  obtains r'' where "insert_code cfg op ops (fst c) r' = Some r''" "grown c zs r ys m r'' (Suc l)" "r_counter r'' = r_counter r'"
proof -
  obtain k b where c: "c = (k, b)" by (cases c)
  obtain new where new: "length new = l" "\<forall>e\<in>set new. m \<le> fst e \<and> fresh_item (snd e)"
    "represents (r_tr r') ((ys @ new) @ (k, b) # zs, m + l)" "r_label r' = r_label r" "r_data r' = r_data r"
    "itemp_status (r_tr r') = itemp_status (r_tr r)" using g c by (auto simp: grown_def)
  obtain t' where t': "do_edit (rc_moved cfg) (rc_junk cfg) (Before op ops k) (r_tr r') = Some t'"
    "represents t' ((ys @ new) @ item (m + l) op ops # (k, b) # zs, m + l + 1)"
    using before_refines[OF new(3) room] by blast
  have "itemp_status t' = itemp_status (r_tr r')"
    using t'(1) represents_max[OF new(3)] by (auto simp: bind_eq_Some_conv dest!: generate_frame insert_before_frame)
  then have "grown c zs r ys m (r'\<lparr>r_tr := t'\<rparr>) (Suc l)"
    unfolding grown_def using new t'(2) op c
    by (intro exI[of _ "new @ [item (m + l) op ops]"]) (auto simp: item_def fresh_item_def)
  then show ?thesis using that[of "r'\<lparr>r_tr := t'\<rparr>"] t'(1) c by (simp add: insert_code_def)
qed

lemma accl_loop_ends:
  assumes "grown c zs r ys m r' l" "m + l + k \<le> 2 ^ 15"
  shows "\<exists>r'' j. j \<le> k \<and> accl_loop cfg (fst c) off code k r' = Some r'' \<and> grown c zs r ys m r'' (l + j) \<and>
    r_counter r'' = r_counter r' + int j"
  using assms
proof (induction k arbitrary: r' l)
  case 0
  then show ?case by auto
next
  case (Suc k)
  show ?case
  proof (cases "off > int (rc_icache_linesize cfg) - 4 * int (Suc k)")
    case True
    obtain r1 where r1: "insert_code cfg LISA_CODE (filler code) (fst c) r' = Some r1" "grown c zs r ys m r1 (Suc l)"
      "r_counter r1 = r_counter r'"
      by (rule grown_insert[OF Suc.prems(1), of LISA_CODE "filler code" cfg]) (use Suc.prems(2) in \<open>auto simp: fresh_items\<close>)
    obtain r2 j where "j \<le> k" "accl_loop cfg (fst c) off code k (count_up 1 r1) = Some r2" "grown c zs r ys m r2 (Suc l + j)"
      "r_counter r2 = r_counter r1 + 1 + int j"
      using Suc.IH[of "count_up 1 r1" "Suc l"] r1(2) Suc.prems(2) by auto
    then show ?thesis using True r1 by (intro exI[of _ r2] exI[of _ "Suc j"]) auto
  next
    case False
    then show ?thesis using Suc.prems by (intro exI[of _ r'] exI[of _ 0]) auto
  qed
qed

text \<open>The alignment loop ends after the remainder to the next multiple.\<close>

lemma counter_mod:
  assumes "q < 2 ^ 32"
  shows "(of_int (int q) :: u32) mod align \<noteq> 0 \<longleftrightarrow> q mod unat align \<noteq> 0"
proof -
  have "unat (of_int (int q) :: u32) = q" using assms by (simp add: unat_of_nat take_bit_nat_eq_self)
  then have "unat ((of_int (int q) :: u32) mod align) = q mod unat align" by (simp add: unat_mod_distrib)
  then show ?thesis by (metis unat_eq_zero)
qed

definition to_align :: "nat \<Rightarrow> nat \<Rightarrow> nat" where
  "to_align a q = (a - q mod a) mod a"

lemma to_align_step:
  assumes "q mod a \<noteq> 0" "0 < a"
  shows "to_align a q = Suc (to_align a (Suc q))"
proof -
  have lt: "q mod a < a" using assms(2) by simp
  then have l: "to_align a q = a - q mod a" using assms by (simp add: to_align_def)
  show ?thesis
  proof (cases "Suc (q mod a) = a")
    case True
    then show ?thesis using l by (simp add: to_align_def mod_Suc)
  next
    case False
    then have "to_align a (Suc q) = a - Suc (q mod a)" using lt by (simp add: to_align_def mod_Suc)
    then show ?thesis using l lt False by simp
  qed
qed

lemma align_loop_ends:
  assumes "grown c zs r ys m r' l" "m + l + to_align (unat align) q \<le> 2 ^ 15" "align \<noteq> 0"
    "r_counter r' = int q" "q + to_align (unat align) q < 2 ^ 32"
  shows "\<exists>r'' j. j = to_align (unat align) q \<and> align_loop cfg (fst c) align code r' = Some r'' \<and>
    grown c zs r ys m r'' (l + j) \<and> r_counter r'' = int (q + j)"
  using assms
proof (induction "to_align (unat align) q" arbitrary: r' l q)
  case 0
  have "q mod unat align = 0"
  proof (rule ccontr)
    assume "q mod unat align \<noteq> 0"
    then show False using to_align_step[of q "unat align"] 0 by (simp add: unat_gt_0)
  qed
  then have "\<not> (of_int (r_counter r') :: u32) mod align \<noteq> 0" using counter_mod[of q align] 0 by simp
  then show ?case using 0 by (subst align_loop.simps) (simp add: \<open>0 = _\<close>[symmetric])
next
  case (Suc j)
  have a: "0 < unat align" using Suc.prems(3) by (simp add: unat_gt_0)
  have nz: "q mod unat align \<noteq> 0" by (rule ccontr) (use Suc.hyps(2) in \<open>simp add: to_align_def\<close>)
  note step = to_align_step[OF nz a]
  have guard: "(of_int (r_counter r') :: u32) mod align \<noteq> 0" using counter_mod[of q align] nz Suc.prems by simp
  obtain r1 where r1: "insert_code cfg LISA_CODE (filler code) (fst c) r' = Some r1" "grown c zs r ys m r1 (Suc l)"
    "r_counter r1 = r_counter r'"
    by (rule grown_insert[OF Suc.prems(1), of LISA_CODE "filler code" cfg]) (use Suc.prems(2) step in \<open>auto simp: fresh_items\<close>)
  obtain r2 where "align_loop cfg (fst c) align code (count_up 1 r1) = Some r2"
    "grown c zs r ys m r2 (Suc l + to_align (unat align) (Suc q))" "r_counter r2 = int (Suc q + to_align (unat align) (Suc q))"
    using Suc.hyps(1)[of "Suc q" "count_up 1 r1" "Suc l"] r1 Suc.prems step Suc.hyps(2) by auto
  then show ?case using guard r1(1) step by (subst align_loop.simps) simp
qed

lemma grown_far_pair:
  assumes g: "grown c zs r ys m r' l" and room: "m + l + 2 \<le> 2 ^ 15"
    and temp: "live_temps (reg_itemp_map (rc_target cfg)) (itemp_status (r_tr r)) \<noteq> set (reg_itemp_map (rc_target cfg))"
    and off: "\<not> rc_imm_reg cfg"
  obtains r'' where "far_pair cfg rd d (fst c) r' = Some r''" "grown c zs r ys m r'' (l + 2)" "r_counter r'' = r_counter r' + 2"
proof -
  let ?m = "reg_itemp_map (rc_target cfg)" and ?st = "itemp_status (r_tr r)"
  obtain st' x where al: "ra_alloc_temp_num ?m ?st = (st', x)" by fastforce
  obtain k where k: "k < length ?m" "x = ?m ! k" "\<not> bit ?st k" "st' = ?st OR 2 ^ k"
    using temp_num_alloc[OF itemp_map_ok(1,2), of "rc_target cfg" ?st] al temp by auto
  have st: "itemp_status (r_tr r') = ?st" using g by (auto simp: grown_def)
  let ?tmp = "ir2_opnd_build (rc_opnd_junk cfg) IR2_OPND_GPR x"
  let ?r1 = "r'\<lparr>r_tr := (r_tr r')\<lparr>itemp_status := st'\<rparr>\<rparr>"
  let ?r = "r\<lparr>r_tr := (r_tr r)\<lparr>itemp_status := st'\<rparr>\<rparr>"
  have alloc: "ra_alloc_itemp (rc_target cfg) (rc_imm_reg cfg) (rc_opnd_junk cfg) (r_tr r') = Some ((r_tr r')\<lparr>itemp_status := st'\<rparr>, ?tmp)"
    using al off st by (simp add: ra_alloc_itemp_def ra_alloc_itemp_num_def)
  have g1: "grown c zs ?r ys m ?r1 l" using g by (auto simp: grown_def)
  obtain r2 where r2: "insert_code cfg LISA_PCADDU18I [?tmp, imm_opnd (signed_drop_bit 16 (d - scast (ucast d :: u16)))] (fst c) ?r1 = Some r2"
    "grown c zs ?r ys m r2 (Suc l)" "r_counter r2 = r_counter r'"
    using grown_insert[OF g1, of LISA_PCADDU18I "[?tmp, imm_opnd (signed_drop_bit 16 (d - scast (ucast d :: u16)))]" cfg] room
    by (auto simp: fresh_items)
  obtain r3 where r3: "insert_code cfg LISA_JIRL [rd, ?tmp, imm_opnd (scast (ucast d :: u16))] (fst c) r2 = Some r3"
    "grown c zs ?r ys m r3 (Suc (Suc l))" "r_counter r3 = r_counter r'"
    using grown_insert[OF r2(2), of LISA_JIRL "[rd, ?tmp, imm_opnd (scast (ucast d :: u16))]" cfg] room r2(3)
    by (auto simp: fresh_items)
  have "itemp_status (r_tr r3) = st'" using r3(2) by (auto simp: grown_def)
  moreover have "(?st OR 2 ^ k) AND NOT (2 ^ k) = ?st"
    by (rule bit_eqI) (use k(1,3) itemp_map_ok(2)[of "rc_target cfg"] in \<open>auto simp: bit_set_bit bit_clear_bit\<close>)
  moreover have "ir2_opnd_base_reg_num ?tmp = x"
    using bspec[OF itemp_map_ok(3)[of "rc_target cfg"] nth_mem[OF k(1)]] k(2)
    by (simp add: ir2_opnd_base_reg_num_def ir2_opnd_build_def signed_of_int signed_take_bit_int_eq_self)
  ultimately have free: "ra_free_temp (rc_target cfg) ?tmp (r_tr r3) = Some ((r_tr r3)\<lparr>itemp_status := ?st\<rparr>)"
    using itemp_reverse_inverse[OF k(1)] k
    by (simp add: ra_free_temp_def ra_free_temp_auto_def ir2_opnd_is_itemp_def ir2_opnd_is_ireg_def ir2_opnd_build_def
        ra_free_itemp_def ra_free_code_def)
  have "grown c zs r ys m (r3\<lparr>r_tr := (r_tr r3)\<lparr>itemp_status := ?st\<rparr>\<rparr>) (l + 2)"
    using r3(2) by (auto simp: grown_def)
  then show ?thesis using that alloc r2(1) r3(1,3) free by (simp add: far_pair_def Let_def)
qed

section \<open>Relocating one instruction\<close>

text \<open>Which operands an instruction needs: \<open>L\<close> labels and \<open>D\<close> data slots exist.\<close>

definition data_ok :: "nat \<Rightarrow> ir2_opnd \<Rightarrow> bool" where
  "data_ok D opnd \<longleftrightarrow> uint (o2_val opnd) < int D"

definition value_ok :: "nat \<Rightarrow> nat \<Rightarrow> ir2_opnd \<Rightarrow> bool" where
  "value_ok L D opnd \<longleftrightarrow> (ir2_opnd_is_data opnd \<longrightarrow> uint (o2_val opnd) < int D) \<and>
     (ir2_opnd_is_label opnd \<longrightarrow> uint (o2_val opnd) < int L)"

fun item_ok :: "reloc_cfg \<Rightarrow> nat \<Rightarrow> nat \<Rightarrow> ir2_opcode \<times> ir2_opnd list \<Rightarrow> bool" where
  "item_ok cfg L D (op, ops) =
    (if op = LISA_LABEL then 1 \<le> length ops \<and> label_ok L (ops ! 0)
     else if LISA_PSEUDO_END < op then
       (case label_opnd op of None \<Rightarrow> True
        | Some k \<Rightarrow> k < length ops \<and> (ir2_opnd_is_label (ops ! k) \<longrightarrow> label_ok L (ops ! k)))
     else if op = LISA_X86_INST then True
     else if op = LISA_ACCL then
       3 \<le> length ops \<and> data_ok D (ops ! 0) \<and> unat (o2_val (ops ! 1)) < rc_icache_linesize cfg div 4
     else if op = LISA_ALIGN then 2 \<le> length ops \<and> o2_val (ops ! 0) \<noteq> 0
     else if op = LISA_FAR_JUMP \<or> op = LISA_JUMP_EPILOGUE then
       2 \<le> length ops \<and> data_ok D (ops ! 0) \<and> data_ok D (ops ! 1)
     else if op = LISA_PCADDI_RELOCATE then 3 \<le> length ops \<and> data_ok D (ops ! 1) \<and> data_ok D (ops ! 2)
     else if op = LISA_DATA_LI then 3 \<le> length ops \<and> data_ok D (ops ! 0)
     else if op = LISA_DATA_ADD \<or> op = LISA_INST_DIFF then
       3 \<le> length ops \<and> data_ok D (ops ! 0) \<and> value_ok L D (ops ! 1) \<and> value_ok L D (ops ! 2)
     else if op = LISA_DATA_ST then 2 \<le> length ops \<and> data_ok D (ops ! 0) \<and> value_ok L D (ops ! 1)
     else if op = LISA_DATA_ST_REL_TABLE then rc_aot cfg \<and> 3 \<le> length ops \<and> value_ok L D (ops ! 2)
     else False)"

text \<open>At most so many instructions replace it.\<close>

fun pad :: "ir2_opcode \<times> ir2_opnd list \<Rightarrow> nat" where
  "pad (op, ops) =
    (if op = LISA_ACCL then unat (o2_val (ops ! 1))
     else if op = LISA_ALIGN then unat (o2_val (ops ! 0))
     else if op = LISA_FAR_JUMP \<or> op = LISA_JUMP_EPILOGUE then 2
     else if op = LISA_PCADDI_RELOCATE then 1
     else 0)"

lemma data_at_ok: "data_ok (length (r_data r)) opnd \<Longrightarrow> \<exists>v. data_at r opnd = Some v"
  by (simp add: data_at_def data_ok_def arr_get_def ir2_opnd_val_def)

lemma set_data_ok:
  assumes "data_ok (length (r_data r)) opnd"
  shows "\<exists>d. length d = length (r_data r) \<and> set_data opnd v r = Some (r\<lparr>r_data := d\<rparr>)"
  by (rule exI[of _ "(r_data r)[nat (uint (o2_val opnd)) := v]"])
    (use assms in \<open>simp add: set_data_def data_ok_def arr_set_def ir2_opnd_val_def\<close>)

lemma opnd_value_ok:
  "value_ok (length (r_label r)) (length (r_data r)) opnd \<Longrightarrow> \<exists>v. opnd_value r plain old opnd = Some v"
  by (auto simp: opnd_value_def value_ok_def arr_get_def ir2_opnd_val_def)

lemma store_value_ok:
  "value_ok (length (r_label r)) (length (r_data r)) opnd \<Longrightarrow> \<exists>mem. store_value n a opnd r = Some (r\<lparr>r_mem := mem\<rparr>)"
  using opnd_value_ok[of r opnd False 0] by (auto simp: store_value_def intro: exI[of _ "r_mem r"])

text \<open>What removing the current instruction leaves behind; the removed element still points to the next one.\<close>

definition ptr_of :: "code_item list \<Rightarrow> ir2_ptr" where
  "ptr_of zs = (case zs of [] \<Rightarrow> Null | z # _ \<Rightarrow> At (fst z))"

definition next_of :: "tr_data \<Rightarrow> nat \<Rightarrow> ir2_ptr option" where
  "next_of t k = map_option (ir2_next t) (inst_get t k)"

lemma next_of_link:
  assumes rep: "represents t (ws @ zs, n)" and k: "k < n"
    and nx: "n_next (ir2_inst_array t ! k) = (if zs = [] then -1 else int (fst (hd zs)))"
  shows "next_of t k = Some (ptr_of zs)"
proof -
  have r: "ir2_rep t (map fst (ws @ zs))" "ir2_inst_num_current t = n" using rep by (auto simp: represents_def)
  have "k < length (ir2_inst_array t)" using rep_facts(1)[OF r(1)] k r(2) by simp
  moreover have "fst (hd zs) < length (ir2_inst_array t)" if "zs \<noteq> []"
    using rep_facts(1,4)[OF r(1)] that by (cases zs) auto
  ultimately show ?thesis using nx
    by (cases zs) (auto simp: next_of_def inst_get_def ir2_next_def ptr_of_def ptr_of_id_def)
qed

lemma next_in_list:
  assumes "represents t (ys @ (k, b) # zs, n)"
  shows "next_of t k = Some (ptr_of zs)"
proof -
  have r: "ir2_rep t (map fst ys @ k # map fst zs)" using assms by (auto simp: represents_def)
  have rep: "represents t ((ys @ [(k, b)]) @ zs, n)" and k: "k < n" using assms represents_ids[OF assms, of "(k, b)"] by auto
  show ?thesis by (rule next_of_link[OF rep k]) (use rep_split(4)[OF r] in \<open>simp add: hd_map\<close>)
qed

definition relocated :: "nat \<Rightarrow> code_item list \<Rightarrow> reloc \<Rightarrow> code_item list \<Rightarrow> nat \<Rightarrow> nat \<Rightarrow> reloc \<Rightarrow> bool" where
  "relocated k zs r ys m l r' \<longleftrightarrow> (\<exists>new. length new = l \<and> (\<forall>e\<in>set new. m \<le> fst e \<and> fresh_item (snd e)) \<and>
     represents (r_tr r') (ys @ new @ zs, m + l) \<and> next_of (r_tr r') k = Some (ptr_of zs) \<and> r_label r' = r_label r \<and>
     length (r_data r') = length (r_data r) \<and> itemp_status (r_tr r') = itemp_status (r_tr r) \<and>
     r_counter r' = r_counter r + int l)"

text \<open>The same labels, temporaries and number of data slots.\<close>

definition like :: "reloc \<Rightarrow> reloc \<Rightarrow> bool" where
  "like r0 r \<longleftrightarrow> r_label r0 = r_label r \<and> length (r_data r0) = length (r_data r) \<and> r_tr r0 = r_tr r \<and> r_counter r0 = r_counter r"

lemma drop_step:
  assumes g: "grown (k, b) zs r0 ys m r' l" and like: "like r0 r" and c: "r_counter r' = r_counter r + int l"
  shows "\<exists>r''. drop_inst k r' = Some r'' \<and> relocated k zs r ys m l r''"
proof -
  obtain new where new: "length new = l" "\<forall>e\<in>set new. m \<le> fst e \<and> fresh_item (snd e)"
    "represents (r_tr r') ((ys @ new) @ (k, b) # zs, m + l)" "r_label r' = r_label r0" "r_data r' = r_data r0"
    "itemp_status (r_tr r') = itemp_status (r_tr r0)" using g by (auto simp: grown_def)
  obtain t' where t': "ir2_remove k (r_tr r') = Some t'" "represents t' ((ys @ new) @ zs, m + l)"
    using remove_refines[OF new(3)] by auto
  have rep: "ir2_rep (r_tr r') (map fst (ys @ new) @ k # map fst zs)" using new(3) by (simp add: represents_def)
  have "n_next (ir2_inst_array t' ! k) = (if zs = [] then -1 else int (fst (hd zs)))"
    using remove_next[OF rep t'(1)] by (simp add: hd_map)
  moreover have "k < m + l" using represents_ids[OF new(3), of "(k, b)"] by simp
  ultimately have "next_of t' k = Some (ptr_of zs)" using next_of_link[of t' "ys @ new" zs "m + l" k] t'(2) by simp
  then show ?thesis
    using new t' remove_frame[OF t'(1)] like c
    by (intro exI[of _ "r'\<lparr>r_tr := t'\<rparr>"]) (auto simp: drop_inst_def relocated_def like_def intro!: exI[of _ new])
qed

lemma bind_eq_case: "Option.bind x f = (case x of Some y \<Rightarrow> f y | None \<Rightarrow> None)"
  by (cases x) simp_all

lemma relocate_data:
  assumes rep: "represents (r_tr r) (ys @ (k, op, ops) # zs, m)"
    and ok: "item_ok cfg (length (r_label r)) (length (r_data r)) (op, ops)"
    and data: "op \<in> {LISA_DATA_LI, LISA_DATA_ADD, LISA_INST_DIFF, LISA_DATA_ST, LISA_DATA_ST_REL_TABLE}"
  shows "\<exists>r'. relocate_body cfg k op (ops ! 0) (ops ! 1) (ops ! 2) r = Some r' \<and> relocated k zs r ys m 0 r'"
proof -
  have fin: "\<exists>r'. drop_inst k r0 = Some r' \<and> relocated k zs r ys m 0 r'" if "like r0 r" for r0
    by (rule drop_step[OF grown_refl that]) (use rep that in \<open>simp_all add: like_def\<close>)
  have sum: "\<exists>r'. (case set_data (ops ! 0) va r of Some r1 \<Rightarrow>
        (case opnd_value r1 plain 0 (ops ! 2) of Some vb \<Rightarrow>
          (case set_data (ops ! 0) (f va vb) r1 of Some r2 \<Rightarrow> drop_inst k r2 | None \<Rightarrow> None) | None \<Rightarrow> None) | None \<Rightarrow> None) = Some r' \<and>
      relocated k zs r ys m 0 r'"
    if o: "data_ok (length (r_data r)) (ops ! 0)" "value_ok (length (r_label r)) (length (r_data r)) (ops ! 2)" for va plain f
  proof -
    obtain d1 where d1: "length d1 = length (r_data r)" "set_data (ops ! 0) va r = Some (r\<lparr>r_data := d1\<rparr>)"
      using set_data_ok[OF o(1)] by blast
    obtain vb where vb: "opnd_value (r\<lparr>r_data := d1\<rparr>) plain 0 (ops ! 2) = Some vb"
      using opnd_value_ok[of "r\<lparr>r_data := d1\<rparr>" "ops ! 2" plain 0] o(2) d1(1) by auto
    obtain d2 where d2: "length d2 = length (r_data r)" "set_data (ops ! 0) (f va vb) (r\<lparr>r_data := d1\<rparr>) = Some (r\<lparr>r_data := d2\<rparr>)"
      using set_data_ok[of "r\<lparr>r_data := d1\<rparr>" "ops ! 0" "f va vb"] o(1) d1(1) by auto
    show ?thesis using d1(2) vb d2 fin[of "r\<lparr>r_data := d2\<rparr>"] by (simp add: like_def)
  qed
  consider (li) "op = LISA_DATA_LI" | (add) "op = LISA_DATA_ADD" | (diff) "op = LISA_INST_DIFF" | (st) "op = LISA_DATA_ST"
    | (rel) "op = LISA_DATA_ST_REL_TABLE" using data by blast
  then show ?thesis
  proof cases
    case li
    then obtain d where "length d = length (r_data r)"
      "set_data (ops ! 0) (push_bit 32 (ucast (ir2_opnd_val (ops ! 1))) OR ucast (ir2_opnd_val (ops ! 2))) r = Some (r\<lparr>r_data := d\<rparr>)"
      using set_data_ok ok by fastforce
    then show ?thesis using li fin[of "r\<lparr>r_data := d\<rparr>"] by (simp add: relocate_body_def like_def)
  next
    case add
    then have o: "data_ok (length (r_data r)) (ops ! 0)" "value_ok (length (r_label r)) (length (r_data r)) (ops ! 1)"
      "value_ok (length (r_label r)) (length (r_data r)) (ops ! 2)" using ok by auto
    obtain old v1 where "data_at r (ops ! 0) = Some old" "opnd_value r True old (ops ! 1) = Some v1"
      using data_at_ok[OF o(1)] opnd_value_ok[OF o(2)] by blast
    then show ?thesis using add sum[OF o(1,3), where va = v1 and plain = True and f = "(+)"] by (simp add: relocate_body_def bind_eq_case)
  next
    case diff
    then have o: "data_ok (length (r_data r)) (ops ! 0)" "value_ok (length (r_label r)) (length (r_data r)) (ops ! 1)"
      "value_ok (length (r_label r)) (length (r_data r)) (ops ! 2)" using ok by auto
    obtain old v1 where "data_at r (ops ! 0) = Some old" "opnd_value r False old (ops ! 1) = Some v1"
      using data_at_ok[OF o(1)] opnd_value_ok[OF o(2)] by blast
    then show ?thesis using diff sum[OF o(1,3), where va = v1 and plain = False and f = "\<lambda>a b. drop_bit 2 (a - b)"] by (simp add: relocate_body_def bind_eq_case)
  next
    case st
    then have o: "data_ok (length (r_data r)) (ops ! 0)" "value_ok (length (r_label r)) (length (r_data r)) (ops ! 1)" using ok by auto
    obtain a where a: "data_at r (ops ! 0) = Some a" using data_at_ok[OF o(1)] by blast
    obtain mem where mem: "store_value 8 a (ops ! 1) r = Some (r\<lparr>r_mem := mem\<rparr>)" using store_value_ok[OF o(2)] by blast
    show ?thesis using st a mem fin[of "r\<lparr>r_mem := mem\<rparr>"] by (simp add: relocate_body_def like_def)
  next
    case rel
    then have o: "rc_aot cfg" "value_ok (length (r_label r)) (length (r_data r)) (ops ! 2)" using ok by auto
    obtain mem where mem: "store_value 4 (rc_rel_table cfg (ir2_opnd_val (ops ! 0)) + ucast (ir2_opnd_val (ops ! 1))) (ops ! 2) r = Some (r\<lparr>r_mem := mem\<rparr>)"
      using store_value_ok[OF o(2)] by blast
    show ?thesis using rel o(1) mem fin[of "r\<lparr>r_mem := mem\<rparr>"] by (simp add: relocate_body_def like_def)
  qed
qed


lemma relocate_code:
  assumes rep: "represents (r_tr r) (ys @ (k, op, ops) # zs, m)"
    and ok: "item_ok cfg (length (r_label r)) (length (r_data r)) (op, ops)"
    and code: "op \<in> {LISA_ACCL, LISA_ALIGN, LISA_FAR_JUMP, LISA_PCADDI_RELOCATE, LISA_JUMP_EPILOGUE}"
    and room: "m + pad (op, ops) \<le> 2 ^ 15" and q: "r_counter r = int q" "q \<le> 2 ^ 15"
    and temp: "live_temps (reg_itemp_map (rc_target cfg)) (itemp_status (r_tr r)) \<noteq> set (reg_itemp_map (rc_target cfg))"
    and off: "\<not> rc_imm_reg cfg"
  shows "\<exists>r' l. l \<le> pad (op, ops) \<and> relocate_body cfg k op (ops ! 0) (ops ! 1) (ops ! 2) r = Some r' \<and> relocated k zs r ys m l r'"
proof -
  let ?c = "(k, op, ops)"
  note g0 = grown_refl[OF rep]
  have fin: "\<exists>r'. drop_inst k r1 = Some r' \<and> relocated k zs r ys m l r'"
    if "grown ?c zs r ys m r1 l" "r_counter r1 = r_counter r + int l" for r1 l
    by (rule drop_step[OF that(1) _ that(2)]) (simp add: like_def)
  have pair: "\<exists>r1. far_pair cfg rd d k r = Some r1 \<and> grown ?c zs r ys m r1 2 \<and> r_counter r1 = r_counter r + 2"
    if "m + 2 \<le> 2 ^ 15" for rd d
    by (rule grown_far_pair[OF g0 _ temp off, of rd d]) (use that in \<open>auto simp: numeral_2_eq_2\<close>)
  have one: "\<exists>r1. insert_code cfg p ps k r0 = Some r1 \<and> grown ?c zs r ys m r1 (Suc l) \<and> r_counter r1 = r_counter r0"
    if "grown ?c zs r ys m r0 l" "m + l < 2 ^ 15" "fresh_item (p, ps)" for p ps r0 l
    by (rule grown_insert[OF that, of cfg]) auto
  consider (accl) "op = LISA_ACCL" | (align) "op = LISA_ALIGN" | (far) "op = LISA_FAR_JUMP" | (pc) "op = LISA_PCADDI_RELOCATE"
    | (epi) "op = LISA_JUMP_EPILOGUE" using code by blast
  then show ?thesis
  proof cases
    case accl
    then have o: "data_ok (length (r_data r)) (ops ! 0)" "unat (o2_val (ops ! 1)) < rc_icache_linesize cfg div 4" using ok by auto
    obtain base where base: "data_at r (ops ! 0) = Some base" using data_at_ok[OF o(1)] by blast
    obtain r1 j where r1: "j \<le> unat (o2_val (ops ! 1))" "accl_loop cfg k (sint ((base + of_int (4 * r_counter r)) AND (of_nat (rc_icache_linesize cfg) - 1)))
        (ir2_opnd_val (ops ! 2)) (unat (o2_val (ops ! 1))) r = Some r1" "grown ?c zs r ys m r1 j" "r_counter r1 = r_counter r + int j"
      using accl_loop_ends[OF g0, of "unat (o2_val (ops ! 1))" cfg] room accl by (metis add_0 fst_conv pad.simps add.right_neutral)
    show ?thesis using accl o(2) base r1 fin[OF r1(3,4)] by (auto simp: relocate_body_def ir2_opnd_val_def)
  next
    case align
    then have nz: "o2_val (ops ! 0) \<noteq> 0" using ok by auto
    have le: "to_align (unat (o2_val (ops ! 0))) q \<le> unat (o2_val (ops ! 0))"
      unfolding to_align_def by (rule order_trans[OF mod_less_eq_dividend]) simp
    have rm: "m + unat (o2_val (ops ! 0)) \<le> 2 ^ 15" using room align by simp
    obtain r1 where r1: "align_loop cfg k (o2_val (ops ! 0)) (o2_val (ops ! 1)) r = Some r1"
      "grown ?c zs r ys m r1 (to_align (unat (o2_val (ops ! 0))) q)" "r_counter r1 = int (q + to_align (unat (o2_val (ops ! 0))) q)"
      using align_loop_ends[OF g0 _ nz q(1), of cfg "o2_val (ops ! 1)"] le rm q(2) by auto
    have "r_counter r1 = r_counter r + int (to_align (unat (o2_val (ops ! 0))) q)" using r1(3) q(1) by simp
    then show ?thesis using align nz le r1 fin[OF r1(2)] by (auto simp: relocate_body_def ir2_opnd_val_def)
  next
    case far
    then have o: "data_ok (length (r_data r)) (ops ! 0)" "data_ok (length (r_data r)) (ops ! 1)" and rm: "m + 2 \<le> 2 ^ 15" using ok room by auto
    obtain target base where tb: "data_at r (ops ! 0) = Some target" "data_at r (ops ! 1) = Some base"
      using data_at_ok[OF o(1)] data_at_ok[OF o(2)] by blast
    let ?d = "jump_distance target base (r_counter r)"
    obtain r1 where r1: "insert_code cfg LISA_B [imm_opnd ?d] k r = Some r1" "grown ?c zs r ys m r1 (Suc 0)" "r_counter r1 = r_counter r"
      using one[OF g0 _ fresh_items(2)] rm by auto
    obtain r2 where r2: "insert_code cfg LISA_ANDI [zero_ir2_opnd, zero_ir2_opnd, create_immh_opnd 0] k r1 = Some r2"
      "grown ?c zs r ys m r2 (Suc (Suc 0))" "r_counter r2 = r_counter r"
      using one[OF r1(2) _ fresh_items(5)[of zero_ir2_opnd zero_ir2_opnd "create_immh_opnd 0"]] rm r1(3) by auto
    obtain r3 where r3: "far_pair cfg zero_ir2_opnd ?d k r = Some r3" "grown ?c zs r ys m r3 2" "r_counter r3 = r_counter r + 2"
      using pair[OF rm] by blast
    obtain r1' where d1: "drop_inst k (count_up 1 r1) = Some r1'" "relocated k zs r ys m 1 r1'"
      using fin[of "count_up 1 r1" 1] r1 by auto
    obtain r2' where d2: "drop_inst k (count_up 2 r2) = Some r2'" "relocated k zs r ys m 2 r2'"
      using fin[of "count_up 2 r2" 2] r2 by (auto simp: numeral_2_eq_2)
    obtain r3' where d3: "drop_inst k r3 = Some r3'" "relocated k zs r ys m 2 r3'" using fin[of r3 2] r3 by auto
    show ?thesis
    proof (cases "rc_large_cc cfg")
      case True
      show ?thesis
      proof (cases "?d = signed_take_bit 25 ?d")
        case near: True
        then show ?thesis using far True tb r1 r2 d2 by (intro exI[of _ r2'] exI[of _ 2]) (simp add: relocate_body_def Let_def)
      next
        case False
        then show ?thesis using far True tb r3 d3 by (intro exI[of _ r3'] exI[of _ 2]) (simp add: relocate_body_def Let_def)
      qed
    next
      case False
      then show ?thesis using far tb r1 d1 by (intro exI[of _ r1'] exI[of _ 1]) (simp add: relocate_body_def Let_def)
    qed
  next
    case pc
    then have o: "data_ok (length (r_data r)) (ops ! 1)" "data_ok (length (r_data r)) (ops ! 2)" and rm: "m + 1 \<le> 2 ^ 15" using ok room by auto
    obtain target base where tb: "data_at r (ops ! 1) = Some target" "data_at r (ops ! 2) = Some base"
      using data_at_ok[OF o(1)] data_at_ok[OF o(2)] by blast
    let ?ps = "[ops ! 0, imm_opnd (jump_distance target base (r_counter r))]"
    obtain r1 where r1: "insert_code cfg LISA_PCADDI ?ps k r = Some r1" "grown ?c zs r ys m r1 (Suc 0)" "r_counter r1 = r_counter r"
      using one[OF g0 _ fresh_items(6)[of "ops ! 0" "imm_opnd (jump_distance target base (r_counter r))"]] rm by auto
    show ?thesis using pc tb r1 fin[of "count_up 1 r1" 1] by (auto simp: relocate_body_def)
  next
    case epi
    then have o: "data_ok (length (r_data r)) (ops ! 0)" "data_ok (length (r_data r)) (ops ! 1)" and rm: "m + 2 \<le> 2 ^ 15" using ok room by auto
    obtain target base where tb: "data_at r (ops ! 0) = Some target" "data_at r (ops ! 1) = Some base"
      using data_at_ok[OF o(1)] data_at_ok[OF o(2)] by blast
    obtain r1 where r1: "far_pair cfg a0_ir2_opnd (jump_distance target base (r_counter r)) k r = Some r1" "grown ?c zs r ys m r1 2" "r_counter r1 = r_counter r + 2"
      using pair[OF rm] by blast
    show ?thesis using epi tb r1 fin[OF r1(2)] by (auto simp: relocate_body_def)
  qed
qed


lemma item_ok_label: "item_ok cfg L D (LISA_LABEL, ops) \<Longrightarrow> 1 \<le> length ops \<and> label_ok L (ops ! 0)"
  by simp

lemma item_ok_cases:
  assumes "item_ok cfg L D (op, ops)" "\<not> kept_op op"
  shows "op \<in> {LISA_DATA_LI, LISA_DATA_ADD, LISA_INST_DIFF, LISA_DATA_ST, LISA_DATA_ST_REL_TABLE} \<or>
    op \<in> {LISA_ACCL, LISA_ALIGN, LISA_FAR_JUMP, LISA_PCADDI_RELOCATE, LISA_JUMP_EPILOGUE}"
  using assms by (auto simp: kept_op_def split: if_splits)

lemma relocate_third:
  "op \<in> {LISA_ALIGN, LISA_FAR_JUMP, LISA_JUMP_EPILOGUE, LISA_DATA_ST} \<Longrightarrow>
   relocate_body cfg k op a b c r = relocate_body cfg k op a b c' r"
  by (auto simp: relocate_body_def)

lemma relocate_opnds:
  assumes "item_ok cfg L D (op, ops)" "\<not> kept_op op" "\<And>j. j < length ops \<Longrightarrow> f j = ops ! j"
  shows "relocate_body cfg k op (f 0) (f 1) (f 2) r = relocate_body cfg k op (ops ! 0) (ops ! 1) (ops ! 2) r"
proof (cases "3 \<le> length ops")
  case True
  then have "ops \<noteq> []" by auto
  then show ?thesis using True assms(3)[of 0] assms(3)[of 1] assms(3)[of 2] by simp
next
  case False
  then have "op \<in> {LISA_ALIGN, LISA_FAR_JUMP, LISA_JUMP_EPILOGUE, LISA_DATA_ST}" "2 \<le> length ops"
    using assms(1,2) by (auto simp: kept_op_def split: if_splits)
  then show ?thesis using relocate_third[of op cfg k "f 0" "f 1" "f 2" r "ops ! 2"] assms(3)[of 0] assms(3)[of 1] by fastforce
qed

declare item_ok.simps [simp del] pad.simps [simp del]

section \<open>Step 1: positions\<close>

fun reals :: "code_item list \<Rightarrow> nat" where
  "reals [] = 0"
| "reals ((k, op, ops) # xs) = (if takes_space op then Suc (reals xs) else reals xs)"

lemma reals_append [simp]: "reals (xs @ ys) = reals xs + reals ys"
  by (induction xs rule: reals.induct) auto

lemma reals_le: "reals xs \<le> length xs"
  by (induction xs rule: reals.induct) auto

text \<open>The label table after the instructions \<open>xs\<close> starting at position \<open>c\<close>.\<close>

fun place_labels :: "nat \<Rightarrow> code_item list \<Rightarrow> int list \<Rightarrow> int list" where
  "place_labels c [] lab = lab"
| "place_labels c ((k, op, ops) # xs) lab =
    place_labels (if takes_space op then Suc c else c) xs
      (if op = LISA_LABEL then lab[nat (ir2_opnd_label_id (ops ! 0)) := 4 * int c] else lab)"

lemma place_labels_append [simp]: "place_labels c (xs @ ys) lab = place_labels (c + reals xs) ys (place_labels c xs lab)"
  by (induction c xs lab rule: place_labels.induct) auto

lemma length_place_labels [simp]: "length (place_labels c xs lab) = length lab"
  by (induction c xs lab rule: place_labels.induct) auto

lemma fresh_space:
  assumes "\<forall>e\<in>set xs. m \<le> fst e \<and> fresh_item (snd e)"
  shows "reals xs = length xs" "place_labels c xs lab = lab"
proof -
  show "reals xs = length xs" using assms by (induction xs rule: reals.induct) (auto simp: fresh_takes_space fresh_item_def)
  show "place_labels c xs lab = lab" using assms
    by (induction c xs lab rule: place_labels.induct) (auto simp: fresh_op_def fresh_item_def)
qed

text \<open>What step 1 makes of one instruction.\<close>

definition placed :: "nat \<Rightarrow> code_item \<Rightarrow> code_item list \<Rightarrow> bool" where
  "placed m x new \<longleftrightarrow> (if kept_op (fst (snd x)) then new = [x]
     else (\<forall>e\<in>set new. m \<le> fst e \<and> fresh_item (snd e)))"

lemma represents_opnd:
  assumes "represents t (xs, n)" "(k, op, ops) \<in> set xs"
  shows "inst_get t k = Some (ir2_inst_array t ! k)" "n_opcode (ir2_inst_array t ! k) = op" "n_id (ir2_inst_array t ! k) = int k"
    "j < length ops \<Longrightarrow> j < length (n_opnd (ir2_inst_array t ! k)) \<and> n_opnd (ir2_inst_array t ! k) ! j = ops ! j"
proof -
  have r: "ir2_rep t (map fst xs)" using assms(1) by (simp add: represents_def)
  have k: "k < ir2_inst_num_current t" using rep_facts(4)[OF r, of k] assms(2) by force
  then show "inst_get t k = Some (ir2_inst_array t ! k)" "n_id (ir2_inst_array t ! k) = int k"
    using rep_facts(1,2)[OF r] by (auto simp: inst_get_def)
  have v: "inst_view (ir2_inst_array t ! k) = (op, ops)" using represents_view[OF assms] .
  then show "n_opcode (ir2_inst_array t ! k) = op" by (simp add: inst_view_def)
  show "j < length ops \<Longrightarrow> j < length (n_opnd (ir2_inst_array t ! k)) \<and> n_opnd (ir2_inst_array t ! k) ! j = ops ! j"
    using v by (auto simp: inst_view_def)
qed

lemma represents_length: "represents t (xs, n) \<Longrightarrow> length xs \<le> n \<and> n \<le> 2 ^ 15"
proof -
  assume "represents t (xs, n)"
  then have "distinct (map fst xs)" "set (map fst xs) \<subseteq> {..<n}" "n \<le> 2 ^ 15" by (auto simp: represents_def ir2_rep_def)
  then show ?thesis using card_mono[of "{..<n}" "set (map fst xs)"] distinct_card[of "map fst xs"] by simp
qed

text \<open>The hypotheses under which one step of the loop goes through.\<close>

definition place_inv :: "reloc_cfg \<Rightarrow> nat \<Rightarrow> reloc \<Rightarrow> code_item list \<Rightarrow> code_item list \<Rightarrow> nat \<Rightarrow> bool" where
  "place_inv cfg D r ys zs m \<longleftrightarrow> represents (r_tr r) (ys @ zs, m) \<and> length (r_data r) = D \<and>
     r_counter r = int (reals ys) \<and> \<not> rc_imm_reg cfg \<and>
     live_temps (reg_itemp_map (rc_target cfg)) (itemp_status (r_tr r)) \<noteq> set (reg_itemp_map (rc_target cfg)) \<and>
     (\<forall>z\<in>set zs. item_ok cfg (length (r_label r)) D (snd z)) \<and> m + sum_list (map (pad \<circ> snd) zs) \<le> 2 ^ 15"

lemma place_step:
  assumes inv: "place_inv cfg D r ys ((k, op, ops) # zs) m"
  shows "\<exists>r' new m'. place_inst cfg k r = Some (r', k) \<and> placed m (k, op, ops) new \<and> m \<le> m' \<and> m' \<le> m + pad (op, ops) \<and>
    place_inv cfg D r' (ys @ new) zs m' \<and> next_of (r_tr r') k = Some (ptr_of zs) \<and>
    r_label r' = place_labels (reals ys) new (r_label r)"
proof -
  let ?i = "ir2_inst_array (r_tr r) ! k"
  have rep: "represents (r_tr r) (ys @ (k, op, ops) # zs, m)" and ok: "item_ok cfg (length (r_label r)) (length (r_data r)) (op, ops)"
    and q: "r_counter r = int (reals ys)" and room: "m + pad (op, ops) + sum_list (map (pad \<circ> snd) zs) \<le> 2 ^ 15"
    and rest: "\<forall>z\<in>set zs. item_ok cfg (length (r_label r)) D (snd z)" and D: "length (r_data r) = D"
    and cf: "\<not> rc_imm_reg cfg" "live_temps (reg_itemp_map (rc_target cfg)) (itemp_status (r_tr r)) \<noteq> set (reg_itemp_map (rc_target cfg))"
    using inv by (auto simp: place_inv_def)
  note i = represents_opnd[OF rep, of k op ops, simplified]
  note nx = next_in_list[OF rep]
  have qn: "reals ys \<le> 2 ^ 15" using represents_length[OF rep] reals_le[of ys] by simp
  show ?thesis
  proof (cases "kept_op op")
    case True
    then consider (label) "op = LISA_LABEL" | (x86) "op = LISA_X86_INST" | (real) "LISA_PSEUDO_END < op" by (auto simp: kept_op_def)
    then show ?thesis
    proof cases
      case label
      let ?r = "r\<lparr>r_label := (r_label r)[nat (ir2_opnd_label_id (ops ! 0)) := 4 * r_counter r]\<rparr>"
      have ne: "ops \<noteq> []" using item_ok_label[OF ok[unfolded label]] by auto
      have "place_inst cfg k r = Some (?r, k)"
        using label i(1,2) i(4)[of 0, simplified, OF ne] item_ok_label[OF ok[unfolded label]]
        by (simp add: place_inst_def ir2_opcode_of_def arr_get_def arr_set_def label_ok_def)
      moreover have "place_inv cfg D ?r (ys @ [(k, op, ops)]) zs m"
        using rep q room rest D cf label by (simp add: place_inv_def takes_space_def)
      ultimately show ?thesis using label nx q
        by (intro exI[of _ ?r] exI[of _ "[(k, op, ops)]"] exI[of _ m]) (auto simp: placed_def kept_op_def takes_space_def)
    next
      case x86
      have "place_inst cfg k r = Some (r, k)"
        using x86 i by (simp add: place_inst_def ir2_opcode_of_def ir2_relocate_def relocate_body_def ir2_get_id_def)
      moreover have "place_inv cfg D r (ys @ [(k, op, ops)]) zs m"
        using rep q room rest D cf x86 by (simp add: place_inv_def takes_space_def)
      ultimately show ?thesis using x86 nx
        by (intro exI[of _ r] exI[of _ "[(k, op, ops)]"] exI[of _ m]) (auto simp: placed_def kept_op_def takes_space_def)
    next
      case real
      have "place_inst cfg k r = Some (count_up 1 r, k)" using real i by (simp add: place_inst_def ir2_opcode_of_def)
      moreover have "place_inv cfg D (count_up 1 r) (ys @ [(k, op, ops)]) zs m"
        using rep q room rest D cf real by (simp add: place_inv_def takes_space_def count_up_def)
      ultimately show ?thesis using real nx
        by (intro exI[of _ "count_up 1 r"] exI[of _ "[(k, op, ops)]"] exI[of _ m])
          (auto simp: placed_def kept_op_def takes_space_def count_up_def)
    qed
  next
    case False
    have opnds: "relocate_body cfg k op (inst_opnd ?i 0) (inst_opnd ?i 1) (inst_opnd ?i 2) r =
        relocate_body cfg k op (ops ! 0) (ops ! 1) (ops ! 2) r"
      by (rule relocate_opnds[OF ok False]) (use i(4) in \<open>simp add: inst_opnd_def\<close>)
    have body: "\<exists>r' l. l \<le> pad (op, ops) \<and> relocate_body cfg k op (inst_opnd ?i 0) (inst_opnd ?i 1) (inst_opnd ?i 2) r = Some r' \<and>
      relocated k zs r ys m l r'"
      using item_ok_cases[OF ok False]
    proof
      assume "op \<in> {LISA_DATA_LI, LISA_DATA_ADD, LISA_INST_DIFF, LISA_DATA_ST, LISA_DATA_ST_REL_TABLE}"
      from relocate_data[OF rep ok this] show ?thesis unfolding opnds by blast
    next
      assume c: "op \<in> {LISA_ACCL, LISA_ALIGN, LISA_FAR_JUMP, LISA_PCADDI_RELOCATE, LISA_JUMP_EPILOGUE}"
      show ?thesis unfolding opnds by (rule relocate_code[OF rep ok c _ q qn cf(2,1)]) (use room in simp)
    qed
    then obtain r' l where b: "l \<le> pad (op, ops)" "relocate_body cfg k op (inst_opnd ?i 0) (inst_opnd ?i 1) (inst_opnd ?i 2) r = Some r'"
      "relocated k zs r ys m l r'" by blast
    obtain new where new: "length new = l" "\<forall>e\<in>set new. m \<le> fst e \<and> fresh_item (snd e)" "represents (r_tr r') (ys @ new @ zs, m + l)"
      "next_of (r_tr r') k = Some (ptr_of zs)" "r_label r' = r_label r" "length (r_data r') = length (r_data r)"
      "itemp_status (r_tr r') = itemp_status (r_tr r)" "r_counter r' = r_counter r + int l" using b(3) by (auto simp: relocated_def)
    note fs = fresh_space[OF new(2)]
    have "place_inst cfg k r = Some (r', k)"
      using False i b(2) by (simp add: place_inst_def ir2_opcode_of_def ir2_relocate_def ir2_get_id_def kept_op_def)
    moreover have "place_inv cfg D r' (ys @ new) zs (m + l)"
      using new fs(1) q room rest D cf b(1) by (simp add: place_inv_def)
    ultimately show ?thesis using b(1) new False fs(2)
      by (intro exI[of _ r'] exI[of _ new] exI[of _ "m + l"]) (simp add: placed_def)
  qed
qed


text \<open>The instructions of before (with ids below \<open>n\<close>) that are kept, and new ones.\<close>

definition expands :: "nat \<Rightarrow> code_item list \<Rightarrow> code_item list \<Rightarrow> bool" where
  "expands n zs fin \<longleftrightarrow> filter (\<lambda>e. fst e < n) fin = filter (\<lambda>e. kept_op (fst (snd e))) zs \<and>
     (\<forall>e\<in>set fin. n \<le> fst e \<longrightarrow> fresh_item (snd e))"

lemma expands_Cons:
  assumes "placed m x new" "expands n zs fin" "n \<le> m" "fst x < n"
  shows "expands n (x # zs) (new @ fin)"
proof -
  have "filter (\<lambda>e. fst e < n) new = []" if "\<forall>e\<in>set new. m \<le> fst e \<and> fresh_item (snd e)"
    using that assms(3) by (auto simp: filter_empty_conv)
  then show ?thesis using assms by (auto simp: expands_def placed_def split: if_splits)
qed

lemma place_loop_Null: "place_loop cfg Null r = Some r"
  by (subst place_loop.simps) simp

lemma place_loop_At:
  assumes "place_inst cfg k r = Some (r', k)" "next_of (r_tr r') k = Some p"
  shows "place_loop cfg (At k) r = place_loop cfg p r'"
  using assms by (subst place_loop.simps) (auto simp: deref_def next_of_def)

lemma place_loop_ends:
  assumes "place_inv cfg D r ys zs m" "n \<le> m" "\<forall>z\<in>set zs. fst z < n"
  shows "\<exists>r' fin m'. place_loop cfg (ptr_of zs) r = Some r' \<and> place_inv cfg D r' (ys @ fin) [] m' \<and> m \<le> m' \<and>
    m' \<le> m + sum_list (map (pad \<circ> snd) zs) \<and> expands n zs fin \<and> r_label r' = place_labels (reals ys) fin (r_label r)"
  using assms
proof (induction zs arbitrary: r ys m)
  case Nil
  then show ?case by (intro exI[of _ r] exI[of _ "[]"] exI[of _ m]) (simp add: ptr_of_def place_loop_Null expands_def)
next
  case (Cons z zs)
  obtain k op ops where z: "z = (k, op, ops)" by (cases z) auto
  obtain r1 new m1 where r1: "place_inst cfg k r = Some (r1, k)" "placed m (k, op, ops) new" "m \<le> m1"
    "place_inv cfg D r1 (ys @ new) zs m1" "next_of (r_tr r1) k = Some (ptr_of zs)"
    "r_label r1 = place_labels (reals ys) new (r_label r)" "m1 \<le> m + pad (op, ops)"
    using place_step[OF Cons.prems(1)[unfolded z]] by blast
  obtain r2 fin m2 where r2: "place_loop cfg (ptr_of zs) r1 = Some r2" "place_inv cfg D r2 ((ys @ new) @ fin) [] m2" "m1 \<le> m2"
    "expands n zs fin" "r_label r2 = place_labels (reals (ys @ new)) fin (r_label r1)" "m2 \<le> m1 + sum_list (map (pad \<circ> snd) zs)"
    using Cons.IH[OF r1(4)] Cons.prems r1(3) by fastforce
  have "expands n (z # zs) (new @ fin)" using expands_Cons[OF r1(2) r2(4)] Cons.prems z by simp
  moreover have "place_loop cfg (ptr_of (z # zs)) r = Some r2"
    using place_loop_At[OF r1(1,5)] r2(1) z by (simp add: ptr_of_def)
  moreover have "m2 \<le> m + sum_list (map (pad \<circ> snd) (z # zs))" using r1(7) r2(6) z by simp
  ultimately show ?case using r1 r2 by (intro exI[of _ r2] exI[of _ "new @ fin"] exI[of _ m2]) (simp add: comp_def)
qed

section \<open>Step 3: branches\<close>

definition resolve_ops :: "int list \<Rightarrow> nat \<Rightarrow> ir2_opcode \<Rightarrow> ir2_opnd list \<Rightarrow> ir2_opnd list" where
  "resolve_ops lab c op ops = (case label_opnd op of None \<Rightarrow> ops
     | Some j \<Rightarrow> if ir2_opnd_is_label (ops ! j)
         then ops[j := ir2_opnd_convert_label_to_imm (drop_bit 2 (lab ! nat (ir2_opnd_label_id (ops ! j))) - int c) (ops ! j)]
         else ops)"

fun resolve :: "int list \<Rightarrow> nat \<Rightarrow> code_item list \<Rightarrow> code_item list" where
  "resolve lab c [] = []"
| "resolve lab c ((k, op, ops) # xs) = (k, op, resolve_ops lab c op ops) # resolve lab (if takes_space op then Suc c else c) xs"

lemma represents_update:
  fixes v :: ir2_opnd
  assumes rep: "represents t (ys @ (k, op, ops) # zs, n)" and j: "j < length ops"
  defines "t' \<equiv> t\<lparr>ir2_inst_array := (ir2_inst_array t)[k := (ir2_inst_array t ! k)\<lparr>n_opnd := (n_opnd (ir2_inst_array t ! k))[j := v]\<rparr>]\<rparr>"
  shows "represents t' (ys @ (k, op, ops[j := v]) # zs, n)"
proof -
  let ?xs = "ys @ (k, op, ops) # zs" and ?a = "ir2_inst_array t"
  have r: "ir2_rep t (map fst ?xs)" "ir2_inst_num_current t = n" using rep by (simp_all add: represents_def)
  have k: "k < length ?a" using rep_facts(1,4)[OF r(1), of k] by simp
  have dll: "dll (?a[k := (?a ! k)\<lparr>n_opnd := w\<rparr>]) p xs q = dll ?a p xs q" for p xs q w
    using k by (induction ?a p xs q rule: dll.induct) (auto simp: nth_list_update split: list.splits)
  have rep': "ir2_rep t' (map fst ?xs)" using r(1) k by (auto simp: t'_def ir2_rep_def dll nth_list_update)
  have dist: "k \<notin> fst ` set ys" "k \<notin> fst ` set zs" using r(1) by (auto simp: ir2_rep_def)
  have "inst_view (?a ! k) = (op, ops)" using represents_view[OF rep, of k] by simp
  then have "inst_view (ir2_inst_array t' ! k) = (op, ops[j := v])"
    using k j by (auto simp: t'_def inst_view_def take_update_swap)
  moreover have "inst_view (ir2_inst_array t' ! i) = b" if "(i, b) \<in> set ys \<union> set zs" for i b
  proof -
    have "i \<noteq> k" using that dist by force
    then show ?thesis using represents_view[OF rep, of i b] that by (auto simp: t'_def)
  qed
  ultimately show ?thesis using rep' r(2) rep by (auto simp: represents_def t'_def)
qed

lemma resolve_step:
  assumes rep: "represents t (ys @ (k, op, ops) # zs, n)" and ok: "branch_ok (length lab) (op, ops)"
  shows "\<exists>t'. resolve_inst lab (int c) k t = Some t' \<and> represents t' (ys @ (k, op, resolve_ops lab c op ops) # zs, n)"
proof (cases "label_opnd op")
  case None
  then show ?thesis using represents_opnd[OF rep, of k op ops] rep by (auto simp: resolve_inst_def resolve_ops_def ir2_opcode_of_def)
next
  case (Some j)
  then have j: "j < length ops" "ir2_opnd_is_label (ops ! j) \<longrightarrow> label_ok (length lab) (ops ! j)" using ok by (auto simp: branch_ok_def)
  have i: "inst_get t k = Some (ir2_inst_array t ! k)" "n_opcode (ir2_inst_array t ! k) = op"
    "j < length (n_opnd (ir2_inst_array t ! k))" "n_opnd (ir2_inst_array t ! k) ! j = ops ! j"
    using represents_opnd[OF rep, of k op ops] j(1) by auto
  have k: "k < length (ir2_inst_array t)" using i(1) by (simp add: inst_get_def split: if_splits)
  show ?thesis
  proof (cases "ir2_opnd_is_label (ops ! j)")
    case False
    then show ?thesis using i Some rep by (simp add: resolve_inst_def resolve_ops_def ir2_opcode_of_def arr_get_def)
  next
    case True
    then have "label_ok (length lab) (ops ! j)" using j(2) by blast
    then show ?thesis using True i Some k represents_update[OF rep j(1)]
      by (simp add: resolve_inst_def resolve_ops_def ir2_opcode_of_def arr_get_def inst_upd_def label_ok_def)
  qed
qed

lemma branch_loop_ends:
  assumes "represents t (ys @ zs, n)" "\<forall>z\<in>set zs. branch_ok (length lab) (snd z)"
  shows "\<exists>t'. branch_loop lab (ptr_of zs) (int c) t = Some (int (c + reals zs), t') \<and> represents t' (ys @ resolve lab c zs, n)"
  using assms
proof (induction zs arbitrary: ys t c)
  case Nil
  then show ?case by (subst branch_loop.simps) (simp add: ptr_of_def)
next
  case (Cons z zs)
  obtain k op ops where z: "z = (k, op, ops)" by (cases z) auto
  obtain t1 where t1: "resolve_inst lab (int c) k t = Some t1" "represents t1 (ys @ (k, op, resolve_ops lab c op ops) # zs, n)"
    using resolve_step Cons.prems z by fastforce
  let ?c = "if takes_space op then Suc c else c"
  obtain t2 where t2: "branch_loop lab (ptr_of zs) (int ?c) t1 = Some (int (?c + reals zs), t2)"
    "represents t2 ((ys @ [(k, op, resolve_ops lab c op ops)]) @ resolve lab ?c zs, n)"
    using Cons.IH[of t1 "ys @ [(k, op, resolve_ops lab c op ops)]" ?c] t1(2) Cons.prems(2) by auto
  have "next_of t1 k = Some (ptr_of zs)" using next_in_list[OF t1(2)] .
  moreover have "inst_get t1 k = Some (ir2_inst_array t1 ! k)" "n_opcode (ir2_inst_array t1 ! k) = op"
    using represents_opnd[OF t1(2), of k op] by auto
  ultimately have "branch_loop lab (At k) (int c) t = branch_loop lab (ptr_of zs) (int ?c) t1"
    using t1(1) by (subst branch_loop.simps) (simp add: deref_def next_of_def ir2_opcode_of_def add.commute)
  then show ?case using t2 z by (simp add: ptr_of_def split: if_splits)
qed

section \<open>Positions of labels and instructions\<close>

fun label_pos :: "code_item list \<Rightarrow> int \<Rightarrow> nat option" where
  "label_pos [] l = None"
| "label_pos ((k, op, ops) # xs) l =
    (if op = LISA_LABEL \<and> ir2_opnd_label_id (ops ! 0) = l then Some 0
     else map_option (\<lambda>p. if takes_space op then Suc p else p) (label_pos xs l))"

definition label_table :: "code_item list \<Rightarrow> nat \<Rightarrow> int list" where
  "label_table xs L = map (\<lambda>l. case label_pos xs (int l) of None \<Rightarrow> -1 | Some p \<Rightarrow> 4 * int p) [0..<L]"

fun labels_of :: "code_item list \<Rightarrow> int list" where
  "labels_of [] = []"
| "labels_of ((k, op, ops) # xs) = (if op = LISA_LABEL then ir2_opnd_label_id (ops ! 0) # labels_of xs else labels_of xs)"

lemma label_pos_None: "label_pos xs l = None \<longleftrightarrow> l \<notin> set (labels_of xs)"
  by (induction xs l rule: label_pos.induct) auto

lemma place_labels_nth:
  assumes "distinct (labels_of xs)" "\<forall>l\<in>set (labels_of xs). 0 \<le> l" "l < length lab"
  shows "place_labels c xs lab ! l = (case label_pos xs (int l) of None \<Rightarrow> lab ! l | Some p \<Rightarrow> 4 * int (c + p))"
  using assms
proof (induction xs arbitrary: c lab)
  case (Cons x xs)
  obtain k op ops where x: "x = (k, op, ops)" by (cases x) auto
  show ?case
  proof (cases "op = LISA_LABEL")
    case True
    then have sp: "\<not> takes_space op" and d: "ir2_opnd_label_id (ops ! 0) \<notin> set (labels_of xs)" and p: "0 \<le> ir2_opnd_label_id (ops ! 0)"
      using Cons.prems x by (auto simp: takes_space_def)
    have "label_pos xs (int l) = None" if "ir2_opnd_label_id (ops ! 0) = int l" using d that by (simp add: label_pos_None)
    then show ?thesis using Cons x True sp p by (cases "ir2_opnd_label_id (ops ! 0) = int l") (auto split: option.splits)
  next
    case False
    then show ?thesis using Cons x by (auto split: option.splits)
  qed
qed simp

lemma place_labels_table:
  assumes "distinct (labels_of xs)" "\<forall>l\<in>set (labels_of xs). 0 \<le> l"
  shows "place_labels 0 xs (replicate L (-1)) = label_table xs L"
  by (rule nth_equalityI) (use place_labels_nth[OF assms] in \<open>auto simp: label_table_def split: option.splits\<close>)

lemma labels_filter: "(\<And>e. e \<in> set xs \<Longrightarrow> fst (snd e) = LISA_LABEL \<Longrightarrow> P e) \<Longrightarrow> labels_of (filter P xs) = labels_of xs"
  by (induction xs rule: labels_of.induct) auto

lemma expands_labels:
  assumes "expands n xs fin"
  shows "labels_of fin = labels_of xs"
proof -
  have "labels_of (filter (\<lambda>e. fst e < n) fin) = labels_of fin"
    by (rule labels_filter) (use assms in \<open>force simp: expands_def fresh_op_def fresh_item_def\<close>)
  moreover have "labels_of (filter (\<lambda>e. kept_op (fst (snd e))) xs) = labels_of xs" by (rule labels_filter) (auto simp: kept_op_def)
  ultimately show ?thesis using assms by (simp add: expands_def)
qed

text \<open>The number of instructions before the one with id \<open>k\<close>.\<close>

definition index_of :: "code_item list \<Rightarrow> nat \<Rightarrow> nat" where
  "index_of xs k = reals (takeWhile (\<lambda>e. fst e \<noteq> k) xs)"

definition target_of :: "code_item list \<Rightarrow> int \<Rightarrow> int" where
  "target_of xs l = (case label_pos xs l of None \<Rightarrow> -1 | Some p \<Rightarrow> int p)"

text \<open>The instruction with the distance to its label in place of the label.\<close>

definition resolve_item :: "code_item list \<Rightarrow> code_item \<Rightarrow> code_item" where
  "resolve_item xs x = (case x of (k, op, ops) \<Rightarrow> (k, op, case label_opnd op of None \<Rightarrow> ops
     | Some j \<Rightarrow> if ir2_opnd_is_label (ops ! j)
         then ops[j := ir2_opnd_convert_label_to_imm (target_of xs (ir2_opnd_label_id (ops ! j)) - int (index_of xs k)) (ops ! j)]
         else ops))"

lemma resolve_map:
  assumes "distinct (map fst xs)"
  shows "resolve lab c xs = map (\<lambda>(k, op, ops). (k, op, resolve_ops lab (c + index_of xs k) op ops)) xs"
  using assms
proof (induction xs arbitrary: c)
  case (Cons x xs)
  obtain k op ops where x: "x = (k, op, ops)" by (cases x) auto
  have "index_of (x # xs) j = (if takes_space op then 1 else 0) + index_of xs j" if "(j, b) \<in> set xs" for j b
  proof -
    have "j \<noteq> k" using that Cons.prems x by force
    then show ?thesis using x by (auto simp: index_of_def)
  qed
  moreover have "index_of (x # xs) k = 0" using x by (simp add: index_of_def)
  ultimately show ?case using Cons.IH[of "if takes_space op then Suc c else c"] Cons.prems x by (auto intro!: map_cong)
qed simp

lemma table_target: "0 \<le> l \<Longrightarrow> l < int L \<Longrightarrow> drop_bit 2 (label_table xs L ! nat l) = target_of xs l"
  by (auto simp: label_table_def target_of_def drop_bit_eq_div split: option.splits)

lemma resolve_items:
  assumes "distinct (map fst xs)" "\<forall>x\<in>set xs. branch_ok L (snd x)"
  shows "resolve (label_table xs L) 0 xs = map (resolve_item xs) xs"
proof -
  have "resolve_ops (label_table xs L) (index_of xs k) op ops = snd (snd (resolve_item xs (k, op, ops)))"
    if "(k, op, ops) \<in> set xs" for k op ops
    using assms(2)[rule_format, OF that]
    by (auto simp: resolve_ops_def resolve_item_def branch_ok_def label_ok_def table_target split: option.splits)
  then show ?thesis unfolding resolve_map[OF assms(1)] by (intro map_cong) (auto simp: resolve_item_def)
qed

lemma label_no_opnd: "label_opnd LISA_LABEL = None"
  by (simp add: label_opnd_def ir2_opcode_is_branch_def ir2_opcode_is_f_branch_def)

lemma resolve_positions:
  "reals (map (resolve_item zs) xs) = reals xs" "label_pos (map (resolve_item zs) xs) = label_pos xs"
  "index_of (map (resolve_item zs) xs) = index_of xs"
proof -
  have sp: "reals (map (resolve_item zs) xs) = reals xs" for xs
    by (induction xs rule: reals.induct) (auto simp: resolve_item_def)
  then show "reals (map (resolve_item zs) xs) = reals xs" .
  have "label_pos (map (resolve_item zs) xs) l = label_pos xs l" for l
    by (induction xs l rule: label_pos.induct) (auto simp: resolve_item_def label_no_opnd)
  then show "label_pos (map (resolve_item zs) xs) = label_pos xs" by blast
  have "takeWhile (\<lambda>e. fst e \<noteq> k) (map (resolve_item zs) xs) = map (resolve_item zs) (takeWhile (\<lambda>e. fst e \<noteq> k) xs)" for k
    by (simp add: takeWhile_map comp_def resolve_item_def case_prod_beta)
  then show "index_of (map (resolve_item zs) xs) = index_of xs" by (auto simp: index_of_def sp)
qed

lemma resolve_item_positions:
  "label_pos ys = label_pos xs \<Longrightarrow> index_of ys = index_of xs \<Longrightarrow> resolve_item ys = resolve_item xs"
  by (auto simp: resolve_item_def target_of_def fun_eq_iff split: option.splits)

end
