(* ===== verification/Ir2_Relocate_Properties.thy ===== *)
theory Ir2_Relocate_Properties
  imports Ir2_Relocate_Correct
begin

text \<open>
  The properties of label\_dispose and tr\_ir2\_assemble: every well-formed list is resolved, and the
  code written to memory has each instruction at the position that the branches were computed for.
\<close>

section \<open>label\_dispose\<close>

text \<open>A list that the translator may hand over: every instruction has its operands, labels and data slots
  are allocated, no label is placed twice, a temporary is free, and the 16-bit ids suffice for what the
  pseudo instructions are replaced by.\<close>

definition code_ok :: "reloc_cfg \<Rightarrow> tr_data \<Rightarrow> code_item list \<Rightarrow> nat \<Rightarrow> bool" where
  "code_ok cfg t xs n \<longleftrightarrow> \<not> rc_imm_reg cfg \<and>
     (\<forall>x\<in>set xs. item_ok cfg (nat (label_num t)) (nat (data_num t)) (snd x) \<and> known_op (fst (snd x))) \<and>
     distinct (labels_of xs) \<and> n + sum_list (map (pad \<circ> snd) xs) \<le> 2 ^ 15 \<and>
     live_temps (reg_itemp_map (rc_target cfg)) (itemp_status t) \<noteq> set (reg_itemp_map (rc_target cfg))"

lemma item_ok_branch:
  assumes "item_ok cfg L D b" "kept_op (fst b)"
  shows "branch_ok L b"
proof -
  obtain op ops where b: "b = (op, ops)" by (cases b)
  have "label_opnd op = None" if "op = LISA_LABEL \<or> op = LISA_X86_INST"
    using that by (auto simp: label_opnd_def ir2_opcode_is_branch_def ir2_opcode_is_f_branch_def)
  then show ?thesis using assms b
    by (cases "LISA_PSEUDO_END < op") (auto simp: item_ok.simps kept_op_def branch_ok_def split: option.splits)
qed

lemma labels_nonneg:
  assumes "\<forall>x\<in>set xs. item_ok cfg L D (snd x)"
  shows "\<forall>l\<in>set (labels_of xs). 0 \<le> l"
  using assms by (induction xs rule: labels_of.induct) (auto dest: item_ok_label simp: label_ok_def)

lemma expands_items:
  assumes "expands n xs fin" "e \<in> set fin"
  shows "e \<in> set xs \<and> kept_op (fst (snd e)) \<or> fresh_item (snd e)"
proof (cases "fst e < n")
  case True
  then have "e \<in> set (filter (\<lambda>e. fst e < n) fin)" using assms(2) by simp
  moreover have "filter (\<lambda>e. fst e < n) fin = filter (\<lambda>e. kept_op (fst (snd e))) xs" using assms(1) by (simp add: expands_def)
  ultimately have "e \<in> set (filter (\<lambda>e. kept_op (fst (snd e))) xs)" by simp
  then show ?thesis by simp
next
  case False
  then show ?thesis using assms by (auto simp: expands_def)
qed

text \<open>After step 1 the list is \<open>fin\<close>.\<close>

lemma place_run:
  assumes rep: "represents t (xs, n)" and ok: "code_ok cfg t xs n"
  obtains r fin m where
    "place_loop cfg (first_ir2 t) \<lparr>r_tr = t, r_counter = 0, r_label = replicate (nat (label_num t)) (-1),
       r_data = replicate (nat (data_num t)) (-1), r_mem = mem\<rparr> = Some r"
    "represents (r_tr r) (fin, m)" "n \<le> m" "expands n xs fin" "r_label r = label_table fin (nat (label_num t))"
    "m \<le> n + sum_list (map (pad \<circ> snd) xs)"
proof -
  let ?r = "\<lparr>r_tr = t, r_counter = 0, r_label = replicate (nat (label_num t)) (-1), r_data = replicate (nat (data_num t)) (-1), r_mem = mem\<rparr>"
  have inv: "place_inv cfg (nat (data_num t)) ?r [] xs n" using rep ok by (auto simp: place_inv_def code_ok_def)
  have ids: "\<forall>x\<in>set xs. fst x < n" using represents_ids[OF rep] by blast
  obtain r fin m where r: "place_loop cfg (ptr_of xs) ?r = Some r" "place_inv cfg (nat (data_num t)) r fin [] m" "n \<le> m"
    "expands n xs fin" "r_label r = place_labels 0 fin (r_label ?r)" "m \<le> n + sum_list (map (pad \<circ> snd) xs)"
    using place_loop_ends[OF inv order_refl ids] by auto
  have "first_ir2 t = ptr_of xs" using rep by (cases xs) (auto simp: represents_def ir2_rep_def ptr_of_def)
  moreover have "distinct (labels_of fin)" "\<forall>l\<in>set (labels_of fin). 0 \<le> l"
    using expands_labels[OF r(4)] labels_nonneg[of xs cfg] ok by (auto simp: code_ok_def)
  ultimately show ?thesis using that[of r fin m] r place_labels_table[of fin "nat (label_num t)"] by (simp add: place_inv_def)
qed

lemma represents_first: "represents t (xs, n) \<Longrightarrow> first_ir2 t = ptr_of xs"
  by (cases xs) (auto simp: represents_def ir2_rep_def ptr_of_def)

text \<open>What label\_dispose leaves: the kept instructions with their branches resolved, in order, and new
  instructions without labels.\<close>

definition resolved :: "nat \<Rightarrow> code_item list \<Rightarrow> code_item list \<Rightarrow> bool" where
  "resolved n xs ys \<longleftrightarrow>
     filter (\<lambda>e. fst e < n) ys = map (resolve_item ys) (filter (\<lambda>e. kept_op (fst (snd e))) xs) \<and>
     (\<forall>e\<in>set ys. n \<le> fst e \<longrightarrow> fresh_item (snd e))"

lemma resolve_fresh: "fresh_item (snd e) \<Longrightarrow> resolve_item xs e = e"
  by (auto simp: resolve_item_def fresh_item_def branch_ok_def label_ok_def split: option.splits prod.splits)

lemma label_dispose_run:
  assumes rep: "represents t (xs, n)" and ok: "code_ok cfg t xs n"
  shows "\<exists>ys t' m mem'. represents t' (ys, m) \<and> resolved n xs ys \<and> m \<le> n + sum_list (map (pad \<circ> snd) xs) \<and>
    label_dispose cfg pre tb t mem = (case tb of None \<Rightarrow> Some (int (reals ys), t', None, mem')
      | Some b \<Rightarrow> map_option (\<lambda>b'. (int (reals ys), t', Some b', mem'))
          (dispose_tb cfg pre (label_table ys (nat (label_num t))) (label_num t) b))"
proof -
  let ?L = "nat (label_num t)"
  obtain r fin m where r: "place_loop cfg (first_ir2 t) \<lparr>r_tr = t, r_counter = 0, r_label = replicate ?L (-1),
       r_data = replicate (nat (data_num t)) (-1), r_mem = mem\<rparr> = Some r"
    "represents (r_tr r) (fin, m)" "n \<le> m" "expands n xs fin" "r_label r = label_table fin ?L"
    "m \<le> n + sum_list (map (pad \<circ> snd) xs)"
    using place_run[OF rep ok] .
  have br: "\<forall>e\<in>set fin. branch_ok ?L (snd e)"
    using expands_items[OF r(4)] ok item_ok_branch branch_ok_mono by (fastforce simp: code_ok_def fresh_item_def)
  then obtain t' where t': "branch_loop (r_label r) (ptr_of fin) 0 (r_tr r) = Some (int (reals fin), t')"
    "represents t' (resolve (r_label r) 0 fin, m)"
    using branch_loop_ends[of "r_tr r" "[]" fin m "r_label r" 0] r(2,5) by (auto simp: label_table_def)
  have dist: "distinct (map fst fin)" using r(2) by (simp add: represents_def ir2_rep_def)
  let ?ys = "map (resolve_item fin) fin"
  have ys: "resolve (r_label r) 0 fin = ?ys" using resolve_items[OF dist br] r(5) by simp
  note pos = resolve_positions[of fin fin] and item = resolve_item_positions[OF resolve_positions(2,3)[of fin fin]]
  have fst: "fst (resolve_item fin e) = fst e" for e by (simp add: resolve_item_def split: prod.splits)
  have "filter (\<lambda>e. fst e < n) ?ys = map (resolve_item fin) (filter (\<lambda>e. fst e < n) fin)"
    by (simp add: filter_map comp_def fst)
  moreover have "fresh_item (snd e)" if e: "e \<in> set ?ys" "n \<le> fst e" for e
  proof -
    obtain x where x: "x \<in> set fin" "e = resolve_item fin x" using e(1) by auto
    then have "fresh_item (snd x)" using e(2) fst[of x] r(4) by (auto simp: expands_def)
    then show ?thesis using resolve_fresh[of x fin] x(2) by simp
  qed
  ultimately have "resolved n xs ?ys" unfolding resolved_def item using r(4) by (simp add: expands_def)
  moreover have "label_table ?ys ?L = label_table fin ?L" by (simp add: label_table_def pos(2))
  ultimately show ?thesis using t' r(1,5,6) represents_first[OF r(2)] ys pos(1)
    by (intro exI[of _ ?ys] exI[of _ t'] exI[of _ m] exI[of _ "r_mem r"])
      (cases tb; cases "dispose_tb cfg pre (label_table fin ?L) (label_num t) (the tb)"; simp add: label_dispose_def)
qed

text \<open>C21: label\_dispose ends and resolves every label.  For a well-formed list of instructions the two
  loops over the links end, also though they insert and remove instructions while they run; no label
  or pseudo instruction with an effect remains; and each instruction that the translator emitted is
  still there, in order, with a label operand replaced by the distance in instructions from the branch
  to the label in the final code.  The result is the number of instructions of the final code; each
  pseudo instruction makes for at most \<open>pad\<close> new ones, any other for none.  With a block, its fields that
  hold label numbers get the byte offsets of these labels, and the call returns if they are label
  numbers.\<close>

theorem label_dispose_resolves:
  assumes "represents t (xs, n)" "code_ok cfg t xs n"
  shows "\<exists>ys t' m mem'. represents t' (ys, m) \<and> resolved n xs ys \<and> m \<le> n + sum_list (map (pad \<circ> snd) xs) \<and>
    label_dispose cfg pre tb t mem = (case tb of None \<Rightarrow> Some (int (reals ys), t', None, mem')
      | Some b \<Rightarrow> map_option (\<lambda>b'. (int (reals ys), t', Some b', mem'))
          (dispose_tb cfg pre (label_table ys (nat (label_num t))) (label_num t) b))"
  by (rule label_dispose_run[OF assms])


section \<open>tr\_ir2\_assemble\<close>

fun write_words :: "u64 \<Rightarrow> u32 list \<Rightarrow> memory \<Rightarrow> memory" where
  "write_words a [] mem = mem"
| "write_words a (w # ws) mem = write_words (a + 4) ws (store_le 4 (ucast w) a mem)"

definition word_of :: "tr_data \<Rightarrow> nat \<Rightarrow> u32" where
  "word_of t k = (case ir2_assemble (ir2_inst_array t ! k) of Some w \<Rightarrow> w | None \<Rightarrow> 0)"

definition words_of :: "tr_data \<Rightarrow> code_item list \<Rightarrow> u32 list" where
  "words_of t xs = map (\<lambda>e. word_of t (fst e)) (filter (\<lambda>e. takes_space (fst (snd e))) xs)"

lemma length_words [simp]: "length (words_of t xs) = reals xs"
  by (induction xs rule: reals.induct) (auto simp: words_of_def)

text \<open>The instructions that tr\_ir2\_assemble can encode.\<close>

definition codable :: "ir2_opcode \<times> ir2_opnd list \<Rightarrow> bool" where
  "codable b \<longleftrightarrow> fst b = LISA_LABEL \<or> fst b = LISA_X86_INST \<or>
     takes_space (fst b) \<and> known_op (fst b) \<and> LISA_INVALID \<le> fst b \<and> (fst b = LISA_CODE \<longrightarrow> snd b \<noteq> [])"

lemma assemble_known:
  assumes rep: "represents t (xs, n)" "(k, op, ops) \<in> set xs" and ok: "codable (op, ops)" "takes_space op"
  shows "ir2_assemble (ir2_inst_array t ! k) = Some (word_of t k)"
proof -
  note i = represents_opnd[OF rep]
  have "op = LISA_CODE \<longrightarrow> ops \<noteq> []" "known_op op" "LISA_INVALID \<le> op" using ok by (auto simp: codable_def takes_space_def)
  then have "op = LISA_CODE \<longrightarrow> n_opnd (ir2_inst_array t ! k) \<noteq> []" "lisa_format op \<noteq> None"
    using i(4)[of 0] by (auto simp: known_op_def lisa_format_def arr_get_def)
  then have "ir2_assemble (ir2_inst_array t ! k) \<noteq> None" using i(2) by (auto simp: ir2_assemble_def ir2_opcode_of_def arr_get_def)
  then show ?thesis by (auto simp: word_of_def)
qed

lemma assemble_loop_ends:
  assumes "represents t (ys @ zs, n)" "\<forall>z\<in>set zs. codable (snd z)"
  shows "assemble_loop t (ptr_of zs) a c mem = Some (c + int (reals zs), write_words a (words_of t zs) mem)"
  using assms
proof (induction zs arbitrary: ys a c mem)
  case Nil
  then show ?case by (subst assemble_loop.simps) (simp add: ptr_of_def words_of_def)
next
  case (Cons z zs)
  obtain k op ops where z: "z = (k, op, ops)" by (cases z) auto
  have rep: "represents t (ys @ (k, op, ops) # zs, n)" using Cons.prems(1) z by simp
  have i: "inst_get t k = Some (ir2_inst_array t ! k)" "n_opcode (ir2_inst_array t ! k) = op" "ir2_next t (ir2_inst_array t ! k) = ptr_of zs"
    using represents_opnd[OF rep, of k op ops] next_in_list[OF rep] by (auto simp: next_of_def)
  note IH = Cons.IH[of "ys @ [z]", simplified, OF Cons.prems(1)]
  have cod: "codable (op, ops)" using Cons.prems(2) z by auto
  show ?case
  proof (cases "takes_space op")
    case True
    then have "ir2_assemble (ir2_inst_array t ! k) = Some (word_of t k)" using assemble_known[OF rep _ cod] by simp
    then show ?thesis using True i IH Cons.prems(2) z
      by (subst assemble_loop.simps) (simp add: ptr_of_def deref_def ir2_opcode_of_def takes_space_def words_of_def)
  next
    case False
    then have "op = LISA_LABEL \<or> op = LISA_X86_INST" using cod by (auto simp: codable_def)
    then show ?thesis using False i IH Cons.prems(2) z
      by (subst assemble_loop.simps) (auto simp: ptr_of_def deref_def ir2_opcode_of_def words_of_def)
  qed
qed


text \<open>The words in memory.\<close>

lemma write_words_other:
  "4 * length ws \<le> unat (x - a) \<Longrightarrow> write_words a ws mem x = mem x"
proof (induction ws arbitrary: a mem)
  case (Cons w ws)
  have "unat (x - (a + 4)) = unat (x - a) - 4"
    using Cons.prems unat_sub[of 4 "x - a"] by (simp add: word_le_nat_alt diff_diff_eq)
  then show ?case using Cons store_le_other[of 4 x a] by simp
qed simp

lemma write_words_read:
  assumes "i < length ws" "4 * length ws < 2 ^ 63"
  shows "load_le 4 (write_words a ws mem) (a + of_nat (4 * i)) = ucast (ws ! i)"
  using assms
proof (induction ws arbitrary: a mem i)
  case (Cons w ws)
  show ?case
  proof (cases i)
    case 0
    have "write_words (a + 4) ws m (a + of_nat j) = m (a + of_nat j)" if j: "j < 4" for j m
    proof (rule write_words_other)
      consider "j = 0" | "j = 1" | "j = 2" | "j = 3" using j by linarith
      then have "2 ^ 63 \<le> unat (of_nat j - 4 :: u64)" by cases (simp_all add: unsigned_minus_1_eq_mask mask_eq_exp_minus_1)
      then show "4 * length ws \<le> unat (a + of_nat j - (a + 4))" using Cons.prems by simp
    qed
    then have "load_le 4 (write_words (a + 4) ws m) a = load_le 4 m a" for m by (rule load_le_cong)
    moreover have "take_bit 32 (ucast w :: u64) = ucast w"
      by (rule bit_eqI) (auto simp: bit_take_bit_iff bit_ucast_iff dest: bit_imp_le_length)
    ultimately show ?thesis using 0 load_store_le[of 4 "ucast w" a mem] by simp
  next
    case (Suc j)
    then show ?thesis using Cons.IH[of j "a + 4"] Cons.prems by (simp add: add.assoc)
  qed
qed simp


section \<open>boundary\_set\<close>

text \<open>The positions where the code of the x86 instructions ends, from inside one of them, and from the
  start of the list.\<close>

fun ends_from :: "nat \<Rightarrow> code_item list \<Rightarrow> nat list" where
  "ends_from c [] = [c]"
| "ends_from c ((k, op, ops) # xs) =
    (if op = LISA_X86_INST then c # ends_from c xs else ends_from (if takes_space op then Suc c else c) xs)"

fun insn_ends :: "nat \<Rightarrow> code_item list \<Rightarrow> nat list" where
  "insn_ends c [] = []"
| "insn_ends c ((k, op, ops) # xs) =
    (if op = LISA_X86_INST then ends_from c xs else insn_ends (if takes_space op then Suc c else c) xs)"

abbreviation offsets :: "nat list \<Rightarrow> u16 list" where "offsets es \<equiv> map (\<lambda>e. of_nat (4 * e)) es"

lemma ends_from_ne [simp]: "ends_from c xs \<noteq> []"
  by (induction c xs rule: ends_from.induct) auto

lemma boundary_step:
  assumes rep: "represents t (ys @ (k, op, ops) # zs, n)"
  shows "boundary_loop t (At k) x c offs = (if op = LISA_X86_INST then do {
       offs' \<leftarrow> (if x \<noteq> -1 then arr_set offs x (of_int (4 * c)) else Some offs);
       boundary_loop t (ptr_of zs) (x + 1) c offs' }
     else boundary_loop t (ptr_of zs) x (if op \<noteq> LISA_LABEL then c + 1 else c) offs)"
proof -
  have "inst_get t k = Some (ir2_inst_array t ! k)" "n_opcode (ir2_inst_array t ! k) = op" "ir2_next t (ir2_inst_array t ! k) = ptr_of zs"
    using represents_opnd[OF rep, of k op ops] next_in_list[OF rep] by (auto simp: next_of_def)
  then show ?thesis by (subst boundary_loop.simps) (simp add: deref_def ir2_opcode_of_def)
qed

text \<open>From inside instruction \<open>x\<close>: the ends are written from index \<open>x\<close> on.\<close>

lemma boundary_inside:
  assumes "represents t (ys @ zs, n)" "\<forall>z\<in>set zs. codable (snd z)" "x + length (ends_from c zs) \<le> length offs"
  shows "\<exists>x' c' offs'. boundary_loop t (ptr_of zs) (int x) (int c) offs = Some (int x', int c', offs') \<and>
    arr_set offs' (int x') (of_int (4 * int c')) =
      Some (take x offs @ offsets (ends_from c zs) @ drop (x + length (ends_from c zs)) offs)"
  using assms
proof (induction zs arbitrary: ys x c offs)
  case Nil
  then have "offs[x := of_nat (4 * c)] = take x offs @ of_nat (4 * c) # drop (Suc x) offs" by (simp add: upd_conv_take_nth_drop)
  then show ?case using Nil by (subst boundary_loop.simps) (auto simp: ptr_of_def arr_set_def intro!: exI[of _ x] exI[of _ c] exI[of _ offs])
next
  case (Cons z zs)
  obtain k op ops where z: "z = (k, op, ops)" by (cases z) auto
  have rep: "represents t (ys @ (k, op, ops) # zs, n)" using Cons.prems(1) z by simp
  note step = boundary_step[OF rep]
  have cod: "codable (op, ops)" and cods: "\<forall>z\<in>set zs. codable (snd z)" using Cons.prems(2) z by auto
  have rep': "represents t ((ys @ [z]) @ zs, n)" using Cons.prems(1) by simp
  show ?case
  proof (cases "op = LISA_X86_INST")
    case True
    let ?offs = "offs[x := of_nat (4 * c)]"
    have len: "Suc x + length (ends_from c zs) \<le> length ?offs" using Cons.prems(3) z True by simp
    have "take (Suc x) ?offs = take x offs @ [of_nat (4 * c)]" "drop (Suc x + l) ?offs = drop (Suc x + l) offs" for l
      using len by (simp_all add: take_Suc_conv_app_nth)
    then show ?thesis using Cons.IH[OF rep' cods len] step[of "int x" "int c" offs] True z len by (simp add: ptr_of_def arr_set_def add.commute)
  next
    case False
    let ?c = "if takes_space op then Suc c else c"
    have "(if op \<noteq> LISA_LABEL then int c + 1 else int c) = int ?c" using cod False by (auto simp: codable_def takes_space_def)
    then show ?thesis using Cons.IH[OF rep' cods, of x ?c offs] step[of "int x" "int c" offs] False z Cons.prems(3) by (simp add: ptr_of_def)
  qed
qed

lemma boundary_outside:
  assumes "represents t (ys @ zs, n)" "\<forall>z\<in>set zs. codable (snd z)" "length (insn_ends c zs) \<le> length offs"
  shows "\<exists>x' c' offs'. boundary_loop t (ptr_of zs) (-1) (int c) offs = Some (x', c', offs') \<and>
    (if x' \<noteq> -1 then arr_set offs' x' (of_int (4 * c')) else Some offs') =
      Some (offsets (insn_ends c zs) @ drop (length (insn_ends c zs)) offs)"
  using assms
proof (induction zs arbitrary: ys c)
  case Nil
  then show ?case by (subst boundary_loop.simps) (simp add: ptr_of_def)
next
  case (Cons z zs)
  obtain k op ops where z: "z = (k, op, ops)" by (cases z) auto
  have rep: "represents t (ys @ (k, op, ops) # zs, n)" using Cons.prems(1) z by simp
  note step = boundary_step[OF rep]
  have cod: "codable (op, ops)" and cods: "\<forall>z\<in>set zs. codable (snd z)" using Cons.prems(2) z by auto
  have rep': "represents t ((ys @ [z]) @ zs, n)" using Cons.prems(1) by simp
  show ?case
  proof (cases "op = LISA_X86_INST")
    case True
    then obtain x' c' offs' where "boundary_loop t (ptr_of zs) 0 (int c) offs = Some (int x', int c', offs')"
      "arr_set offs' (int x') (of_int (4 * int c')) = Some (offsets (ends_from c zs) @ drop (length (ends_from c zs)) offs)"
      using boundary_inside[OF rep' cods, of 0 c offs] Cons.prems(3) z by auto
    then show ?thesis using step[of "-1" "int c" offs] True z by (auto simp: ptr_of_def)
  next
    case False
    let ?c = "if takes_space op then Suc c else c"
    have "(if op \<noteq> LISA_LABEL then int c + 1 else int c) = int ?c" using cod False by (auto simp: codable_def takes_space_def)
    then show ?thesis using Cons.IH[OF rep' cods, of ?c] step[of "-1" "int c" offs] False z Cons.prems(3) by (simp add: ptr_of_def)
  qed
qed

lemma boundary_set_run:
  assumes "represents t (ys, n)" "\<forall>z\<in>set ys. codable (snd z)" "length (insn_ends 0 ys) \<le> length offs"
  shows "boundary_set t offs = Some (offsets (insn_ends 0 ys) @ drop (length (insn_ends 0 ys)) offs)"
  using boundary_outside[of t "[]" ys n 0 offs] assms represents_first[OF assms(1)] by (auto simp: boundary_set_def)


section \<open>The whole\<close>

lemma resolved_codable:
  assumes "resolved n xs ys" "\<forall>x\<in>set xs. item_ok cfg L D (snd x) \<and> known_op (fst (snd x))" "e \<in> set ys"
  shows "codable (snd e)"
proof (cases "fst e < n")
  case True
  then have "e \<in> set (filter (\<lambda>e. fst e < n) ys)" using assms(3) by simp
  then obtain x where "x \<in> set xs" "kept_op (fst (snd x))" "e = resolve_item ys x"
    unfolding assms(1)[unfolded resolved_def, THEN conjunct1] by auto
  then have "kept_op (fst (snd e))" "known_op (fst (snd e))" using assms(2) by (auto simp: resolve_item_def split: prod.splits)
  then show ?thesis by (auto simp: codable_def kept_op_def takes_space_def)
next
  case False
  then have "fresh_item (snd e)" using assms(1,3) by (auto simp: resolved_def)
  then show ?thesis by (auto simp: codable_def fresh_item_def fresh_op_def takes_space_def)
qed

lemma index_word:
  assumes "distinct (map fst ys)" "(k, op, ops) \<in> set ys" "takes_space op"
  shows "index_of ys k < reals ys" "words_of t ys ! index_of ys k = word_of t k"
  using assms
proof (induction ys)
  case (Cons y ys)
  obtain k' op' ops' where y: "y = (k', op', ops')" by (cases y) auto
  case 1
  then show ?case using Cons y by (cases "k' = k") (auto simp: index_of_def split: if_splits)
  case 2
  have "words_of t (y # ys) = (if takes_space op' then word_of t k' # words_of t ys else words_of t ys)" using y by (simp add: words_of_def)
  then show ?case using Cons 2 y by (cases "k' = k") (force simp: index_of_def split: if_splits)+
qed simp_all

lemma assemble_run:
  assumes "represents t (xs, n)" "\<forall>e\<in>set xs. codable (snd e)"
  shows "tr_ir2_assemble code_start t mem = Some (int (reals xs), write_words code_start (words_of t xs) mem)"
  using assemble_loop_ends[of t "[]" xs n] assms represents_first[OF assms(1)] by (simp add: tr_ir2_assemble_def)

text \<open>C22: the code of a well-formed block is always completed.  After label\_dispose, tr\_ir2\_assemble
  returns, with the same number of instructions (the assertion code\_nr == asm\_code\_nr of
  tr\_translate\_tb), and every instruction of the final list is in memory as the word that ir2\_assemble
  gives for it, at the position that label\_dispose used for the branches; boundary\_set records for each
  x86 instruction the offset, modulo 2 to the 16, where its code ends.\<close>

theorem tr_code_completed:
  assumes "represents t (xs, n)" "code_ok cfg t xs n"
  shows "\<exists>nr ys t' mem1 mem2. label_dispose cfg pre None t mem = Some (nr, t', None, mem1) \<and> resolved n xs ys \<and>
    tr_ir2_assemble code_start t' mem1 = Some (nr, mem2) \<and>
    (\<forall>(k, op, ops)\<in>set ys. takes_space op \<longrightarrow> ir2_assemble (ir2_inst_array t' ! k) \<noteq> None \<and>
       load_le 4 mem2 (code_start + of_nat (4 * index_of ys k)) = ucast (the (ir2_assemble (ir2_inst_array t' ! k)))) \<and>
    (length (insn_ends 0 ys) \<le> length offs \<longrightarrow>
       boundary_set t' offs = Some (offsets (insn_ends 0 ys) @ drop (length (insn_ends 0 ys)) offs))"
proof -
  obtain ys t' m mem1 where d: "represents t' (ys, m)" "resolved n xs ys" "label_dispose cfg pre None t mem = Some (int (reals ys), t', None, mem1)"
    using label_dispose_run[OF assms, where pre = pre and tb = None and mem = mem] by auto
  have items: "\<forall>x\<in>set xs. item_ok cfg (nat (label_num t)) (nat (data_num t)) (snd x) \<and> known_op (fst (snd x))"
    using assms(2) by (simp add: code_ok_def)
  have cod: "\<forall>e\<in>set ys. codable (snd e)" using resolved_codable[OF d(2) items] by blast
  let ?mem2 = "write_words code_start (words_of t' ys) mem1"
  note asm = assemble_run[OF d(1) cod]
  have "ir2_assemble (ir2_inst_array t' ! k) = Some (word_of t' k) \<and>
      load_le 4 ?mem2 (code_start + of_nat (4 * index_of ys k)) = ucast (word_of t' k)"
    if e: "(k, op, ops) \<in> set ys" "takes_space op" for k op ops
  proof
    show "ir2_assemble (ir2_inst_array t' ! k) = Some (word_of t' k)" using assemble_known[OF d(1) e(1) _ e(2)] cod e(1) by auto
    have dist: "distinct (map fst ys)" using d(1) by (simp add: represents_def ir2_rep_def)
    have "reals ys \<le> 2 ^ 15" using represents_length[OF d(1)] reals_le[of ys] by simp
    then show "load_le 4 ?mem2 (code_start + of_nat (4 * index_of ys k)) = ucast (word_of t' k)"
      using write_words_read[of "index_of ys k" "words_of t' ys" code_start mem1] index_word(1)[OF dist e] index_word(2)[OF dist e, of t'] by simp
  qed
  then have "\<forall>(k, op, ops)\<in>set ys. takes_space op \<longrightarrow> ir2_assemble (ir2_inst_array t' ! k) \<noteq> None \<and>
       load_le 4 ?mem2 (code_start + of_nat (4 * index_of ys k)) = ucast (the (ir2_assemble (ir2_inst_array t' ! k)))" by fastforce
  then show ?thesis using d asm boundary_set_run[OF d(1) cod, of offs]
    by (intro exI[of _ "int (reals ys)"] exI[of _ ys] exI[of _ t'] exI[of _ mem1] exI[of _ ?mem2]) simp
qed


section \<open>Instances\<close>

text \<open>A loop back to a label, over a far jump and an alignment.\<close>

definition sample_items :: "code_item list" where
  "sample_items = [
     (0, LISA_X86_INST, [pseudo 0]),
     (1, LISA_LABEL, [create_ir2_opnd IR2_OPND_LABEL 0]),
     (2, LISA_ADD_D, [zero_ir2_opnd, zero_ir2_opnd, zero_ir2_opnd]),
     (3, LISA_DATA_LI, [create_ir2_opnd IR2_OPND_DATA 0, pseudo 0x1, pseudo 0x2000]),
     (4, LISA_FAR_JUMP, [create_ir2_opnd IR2_OPND_DATA 0, create_ir2_opnd IR2_OPND_DATA 0]),
     (5, LISA_ALIGN, [pseudo 4, pseudo 0x03400000]),
     (6, LISA_B, [create_ir2_opnd IR2_OPND_LABEL 0])]"

definition sample_insts :: "ir2_inst list" where
  "sample_insts = map (\<lambda>(k, op, ops). \<lparr>n_opcode = op, n_id = int k, n_prev = int k - 1, n_next = (if k = 6 then -1 else int k + 1),
     n_op_count = int (length ops), n_opnd = ops\<rparr>) sample_items"

definition sample_list :: tr_data where
  "sample_list = empty_tr_data\<lparr>ir2_inst_array := sample_insts @ replicate 393 zero_inst, ir2_inst_num_max := 400,
     ir2_inst_num_current := 7, first_ir2 := At 0, last_ir2 := At 6, label_num := 1, data_num := 1\<rparr>"

definition sample_cfg :: reloc_cfg where
  "sample_cfg = \<lparr>rc_moved = True, rc_junk = (\<lambda>_. zero_inst), rc_target = AMD64, rc_imm_reg = False, rc_opnd_junk = ir2_opnd_new_none,
     rc_icache_linesize = 64, rc_rel_table = (\<lambda>_. 0), rc_large_cc = True, rc_aot = False, rc_tu = False, rc_xcomisx_opt = False,
     rc_insts_pattern = False, rc_lazylink = False\<rparr>"

lemma all_less_7: "(\<forall>i<7. P i) \<longleftrightarrow> P 0 \<and> P 1 \<and> P 2 \<and> P 3 \<and> P 4 \<and> P 5 \<and> P (6 :: nat)"
proof -
  have "i < 7 \<longleftrightarrow> i = 0 \<or> i = 1 \<or> i = 2 \<or> i = 3 \<or> i = 4 \<or> i = 5 \<or> i = 6" for i :: nat by linarith
  then show ?thesis by auto
qed

lemma sample_length: "length sample_insts = 7"
  by (simp add: sample_insts_def sample_items_def)

lemma sample_represents: "represents sample_list (sample_items, 7)"
proof -
  have a: "ir2_inst_array sample_list ! i = sample_insts ! i" if "i < 7" for i
    using that sample_length by (simp add: sample_list_def nth_append)
  have len: "length (ir2_inst_array sample_list) = 400" by (simp add: sample_list_def sample_length)
  have ids: "\<forall>i<7. n_id (ir2_inst_array sample_list ! i) = int i"
    unfolding all_less_7 by (simp add: a) (simp add: sample_insts_def sample_items_def)
  have dll: "dll (ir2_inst_array sample_list) (-1) (map fst sample_items) (-1)"
    by (simp add: sample_items_def len a) (simp add: sample_insts_def sample_items_def)
  have view: "inst_view (ir2_inst_array sample_list ! k) = b" if "(k, b) \<in> set sample_items" for k b
  proof -
    have "k < 7" "inst_view (sample_insts ! k) = b" using that by (auto simp: sample_insts_def sample_items_def inst_view_def)
    then show ?thesis by (simp add: a)
  qed
  have "ir2_rep sample_list (map fst sample_items)"
    using dll ids len by (simp add: ir2_rep_def sample_list_def empty_tr_data_def) (simp add: sample_items_def)
  then show ?thesis using view by (auto simp: represents_def sample_list_def)
qed

lemma sample_ok: "code_ok sample_cfg sample_list sample_items 7"
  by (auto simp: code_ok_def sample_list_def sample_items_def sample_cfg_def empty_tr_data_def item_ok.simps pad.simps known_op_iff
      label_ok_def data_ok_def ir2_opnd_label_id_def create_ir2_opnd_def label_opnd_def ir2_opcode_is_branch_def
      ir2_opcode_is_f_branch_def live_temps_def reg_itemp_map_def)

theorem label_dispose_resolves_witness:
  "\<exists>ys t' m mem'. represents t' (ys, m) \<and> resolved 7 sample_items ys \<and>
    label_dispose sample_cfg False None sample_list (\<lambda>_. 0) = Some (int (reals ys), t', None, mem')"
  using label_dispose_resolves[OF sample_represents sample_ok, where pre = False and tb = None and mem = "\<lambda>_. 0"] unfolding option.case by blast

theorem tr_code_completed_witness:
  "\<exists>nr ys t' mem1 mem2. label_dispose sample_cfg False None sample_list (\<lambda>_. 0) = Some (nr, t', None, mem1) \<and>
    resolved 7 sample_items ys \<and> tr_ir2_assemble 0x10000 t' mem1 = Some (nr, mem2)"
  using tr_code_completed[OF sample_represents sample_ok, where pre = False and mem = "\<lambda>_. 0" and code_start = "0x10000" and offs = "[]"] by blast

end
