(* ===== verification/Tr_Block_Code.thy ===== *)
theory Tr_Block_Code
  imports Tr_Block_Correct Ir2_Relocate_Properties
begin

text \<open>
  From a block of x86 instructions to words in memory: tr\_ir2\_generate, the instruction array,
  label\_dispose and tr\_ir2\_assemble composed, as in tr\_translate\_tb.
\<close>

section \<open>Straight-line code\<close>

text \<open>Opcodes that label\_dispose leaves alone.\<close>

definition plain_op :: "ir2_opcode \<Rightarrow> bool" where
  "plain_op op \<longleftrightarrow> op = LISA_X86_INST \<or> LISA_PSEUDO_END < op \<and> known_op op \<and> label_opnd op = None"

definition exec_ops :: "ir2_opcode list" where
  "exec_ops = [LISA_LD_B, LISA_LDX_B, LISA_LD_H, LISA_LDX_H, LISA_LD_W, LISA_LDX_W, LISA_LD_D, LISA_LDX_D, LISA_LD_BU, LISA_LDX_BU,
     LISA_LD_HU, LISA_LDX_HU, LISA_LD_WU, LISA_LDX_WU, LISA_ST_B, LISA_STX_B, LISA_ST_H, LISA_STX_H, LISA_ST_W, LISA_STX_W,
     LISA_ST_D, LISA_STX_D, LISA_LU12I_W, LISA_LU32I_D, LISA_EXT_W_B, LISA_EXT_W_H, LISA_LU52I_D, LISA_ORI, LISA_ANDI,
     LISA_XORI, LISA_ADDI_W, LISA_ADDI_D, LISA_OR, LISA_AND, LISA_XOR, LISA_ADD_D, LISA_ADD_W, LISA_SUB_D, LISA_SUB_W,
     LISA_SLLI_W, LISA_SRLI_W, LISA_SLLI_D, LISA_SRLI_D, LISA_SRAI_D, LISA_SRAI_W, LISA_BSTRPICK_D, LISA_BSTRPICK_W,
     LISA_BSTRINS_D, LISA_BSTRINS_W, LISA_ALSL_D, LISA_ALSL_WU]"

lemma exec_ops_plain: "list_all plain_op exec_ops"
  by (simp add: exec_ops_def plain_op_def known_op_iff label_opnd_def ir2_opcode_is_branch_def ir2_opcode_is_f_branch_def)

lemma not_exec:
  assumes "op \<notin> set exec_ops"
  shows "la_load op mem a = None" "la_store_bytes op = None"
  using assms by (simp_all add: exec_ops_def la_load_def la_store_bytes_def)

lemma not_exec_value:
  assumes "op \<notin> set exec_ops"
  shows "la_value op ops M = None"
proof (cases "(op, ops, M)" rule: la_value.cases)
  case (1 opc rd x M')
  then show ?thesis using assms by (simp add: exec_ops_def)
next
  case (2 opc rd rj b M')
  then show ?thesis using assms not_exec(1)[OF assms] by (simp add: exec_ops_def)
next
  case (3 opc rd rj b c M')
  then show ?thesis using assms by (simp add: exec_ops_def)
qed simp_all

lemma plain_exec: "la_exec ins M = Some M' \<Longrightarrow> plain_op (fst ins)"
  using not_exec(2)[of "fst ins"] not_exec_value[of "fst ins" "snd ins" M] exec_ops_plain
  by (cases ins) (auto simp: la_exec_def list_all_iff split: option.splits)

lemma plain_run: "la_run code M = Some M' \<Longrightarrow> ins \<in> set code \<Longrightarrow> plain_op (fst ins)"
proof (induction code arbitrary: M)
  case (Cons i code)
  then show ?case using plain_exec[of i M] by (auto simp: bind_eq_Some_conv)
qed simp

lemma exec_opnds: "la_exec ins M = Some M' \<Longrightarrow> snd ins \<noteq> []"
  by (cases ins) (auto simp: la_exec_def split: option.splits)

lemma run_opnds: "la_run code M = Some M' \<Longrightarrow> ins \<in> set code \<Longrightarrow> snd ins \<noteq> []"
proof (induction code arbitrary: M)
  case (Cons i code)
  then show ?case using exec_opnds[of i M] by (auto simp: bind_eq_Some_conv)
qed simp

text \<open>The emitted code as items of the instruction array.\<close>

lemma items_snd: "\<forall>ins\<in>set code. snd ins \<noteq> [] \<Longrightarrow> map snd (items n code) = code"
  by (induction n code rule: items.induct) (auto simp: item_def)

lemma mark_label_opnd: "label_opnd LISA_X86_INST = None"
  by (simp add: label_opnd_def ir2_opcode_is_branch_def ir2_opcode_is_f_branch_def)

lemma plain_cases:
  assumes "plain_op op"
  obtains "op = LISA_X86_INST" "label_opnd op = None" | "LISA_PSEUDO_END < op" "label_opnd op = None" "known_op op"
  using assms mark_label_opnd by (auto simp: plain_op_def)

lemma plain_item:
  assumes "plain_op op"
  shows "item_ok cfg L D (op, ops)" "known_op op" "pad (op, ops) = 0" "kept_op op" "takes_space op \<longleftrightarrow> op \<noteq> LISA_X86_INST"
    "resolve_item xs (k, op, ops) = (k, op, ops)" "op \<noteq> LISA_LABEL"
  by (cases rule: plain_cases[OF assms]; simp add: item_ok.simps pad.simps kept_op_def takes_space_def resolve_item_def known_op_iff)+

lemma plain_labels: "\<forall>x\<in>set xs. plain_op (fst (snd x)) \<Longrightarrow> labels_of xs = []"
  using plain_item(7) by (induction xs rule: labels_of.induct) auto

lemma plain_pads: "\<forall>x\<in>set xs. plain_op (fst (snd x)) \<Longrightarrow> sum_list (map (pad \<circ> snd) xs) = 0"
proof -
  have "pad b = 0" if "plain_op (fst b)" for b using plain_item(3)[OF that, of "snd b"] by simp
  then show "\<forall>x\<in>set xs. plain_op (fst (snd x)) \<Longrightarrow> ?thesis" by (induction xs) auto
qed

text \<open>label\_dispose on straight-line code changes nothing.\<close>

lemma label_dispose_plain:
  assumes rep: "represents t (xs, n)" and plain: "\<forall>x\<in>set xs. plain_op (fst (snd x))"
    and cfg: "\<not> rc_imm_reg cfg" "itemp_status t = 0"
  shows "\<exists>t' m mem'. represents t' (xs, m) \<and> label_dispose cfg pre None t mem = Some (int (reals xs), t', None, mem')"
proof -
  have n: "n \<le> 2 ^ 15" using represents_length[OF rep] by simp
  have "live_temps (reg_itemp_map (rc_target cfg)) (itemp_status t) \<noteq> set (reg_itemp_map (rc_target cfg))"
    using cfg(2) by (auto simp: live_temps_def reg_itemp_map_def)
  moreover have "item_ok cfg L D (snd x)" "known_op (fst (snd x))" if "x \<in> set xs" for x L D
    using plain that plain_item(1)[of "fst (snd x)" cfg L D "snd (snd x)"] plain_item(2) by auto
  ultimately have "code_ok cfg t xs n"
    unfolding code_ok_def plain_labels[OF plain] plain_pads[OF plain] using n cfg(1) by simp
  from label_dispose_run[OF rep this, where pre = pre and tb = None and mem = mem] obtain ys t' m mem' where
    l: "represents t' (ys, m)" "resolved n xs ys" "m \<le> n" "label_dispose cfg pre None t mem = Some (int (reals ys), t', None, mem')"
    unfolding plain_pads[OF plain] by auto
  have "filter (\<lambda>e. fst e < n) ys = ys" using represents_ids[OF l(1)] l(3) by (force simp: filter_id_conv)
  moreover have "filter (\<lambda>e. kept_op (fst (snd e))) xs = xs" using plain plain_item(4) by (simp add: filter_id_conv)
  moreover have "map (resolve_item ys) xs = xs" using plain plain_item(6) by (intro map_idI) auto
  ultimately have ys: "ys = xs" using l(2) by (simp add: resolved_def)
  then show ?thesis using l by auto
qed

section \<open>Emission\<close>

lemma inst_upd_keeps: "inst_upd f i t = Some t' \<Longrightarrow> itemp_status t' = itemp_status t \<and> ir2_inst_num_max t' = ir2_inst_num_max t"
  by (auto simp: inst_upd_def split: if_splits)

lemma append_keeps: "ir2_append p t = Some t' \<Longrightarrow> itemp_status t' = itemp_status t \<and> ir2_inst_num_max t' = ir2_inst_num_max t"
  by (auto simp: ir2_append_def Let_def bind_eq_Some_conv split: if_splits dest!: inst_upd_keeps)

lemma generate_keeps:
  assumes "generate moved junk op ops t = Some (t', p)" "0 < ir2_inst_num_max t"
  shows "itemp_status t' = itemp_status t \<and> 0 < ir2_inst_num_max t'"
proof -
  obtain t1 where t1: "ir2_allocate moved junk t = Some (t1, p)" "itemp_status t' = itemp_status t1 \<and> ir2_inst_num_max t' = ir2_inst_num_max t1"
    using assms(1) by (auto simp: generate_def Let_def bind_eq_Some_conv dest!: inst_upd_keeps)
  then show ?thesis using assms(2)
    by (auto simp: ir2_allocate_def Let_def bind_eq_Some_conv split: if_splits dest!: inst_upd_keeps)
qed

lemma emit_code_keeps: "emit_code moved junk code t = Some t' \<Longrightarrow> 0 < ir2_inst_num_max t \<Longrightarrow> itemp_status t' = itemp_status t"
proof (induction code arbitrary: t)
  case (Cons ins code)
  obtain op ops where ins: "ins = (op, ops)" by force
  then obtain t1 t2 p where "generate moved junk op ops t = Some (t1, p)" "ir2_append p t1 = Some t2" "emit_code moved junk code t2 = Some t'"
    using Cons.prems(1) by (auto simp: la_emit_def bind_eq_Some_conv)
  then show ?case using Cons.IH[of t2] generate_keeps[of moved junk op ops t t1 p] append_keeps[of p t1 t2] Cons.prems(2) by simp
qed simp

text \<open>Straight-line code from the translator to memory.\<close>

lemma code_to_memory:
  assumes t: "ir2_inst_num_max t = length (ir2_inst_array t)" "ir2_inst_num_max t = 0 \<or> 400 \<le> ir2_inst_num_max t"
    and code: "\<forall>ins\<in>set code. plain_op (fst ins) \<and> snd ins \<noteq> []" "length code \<le> 2 ^ 15" and cfg: "\<not> rc_imm_reg cfg"
  shows "\<exists>t1 t2 mem1 mem2. emit_code moved junk code (tr_init True t) = Some t1 \<and>
    label_dispose cfg pre None t1 mem = Some (int (length (real_code code)), t2, None, mem1) \<and>
    tr_ir2_assemble code_start t2 mem1 = Some (int (length (real_code code)), mem2) \<and>
    (\<forall>j < length (real_code code). \<exists>i w. inst_view i = real_code code ! j \<and> ir2_assemble i = Some w \<and>
       load_le 4 mem2 (code_start + of_nat (4 * j)) = ucast w)"
proof -
  let ?xs = "items 0 code"
  obtain t1 where t1: "emit_code moved junk code (tr_init True t) = Some t1" "represents t1 (?xs, length code)"
    using emit_code_refines[OF tr_init_represents[OF t, of True] _, of code moved junk] code(2) by auto
  have st: "itemp_status t1 = 0" using emit_code_keeps[OF t1(1)] represents_max[OF tr_init_represents[OF t]]
    by (simp add: tr_init_def ra_free_all_def Let_def)
  have snd: "map snd ?xs = code" using code(1) by (intro items_snd) auto
  have plain: "\<forall>x\<in>set ?xs. plain_op (fst (snd x))" using code(1) by (subst (asm) snd[symmetric]) auto
  obtain t2 m mem1 where t2: "represents t2 (?xs, m)" "label_dispose cfg pre None t1 mem = Some (int (reals ?xs), t2, None, mem1)"
    using label_dispose_plain[OF t1(2) plain cfg st] by blast
  let ?es = "filter (\<lambda>e. takes_space (fst (snd e))) ?xs"
  have es: "map snd ?es = real_code code"
  proof -
    have "?es = filter (\<lambda>e. fst (snd e) \<noteq> LISA_X86_INST) ?xs" by (rule filter_cong[OF refl]) (use plain plain_item(5) in blast)
    then have "map snd ?es = filter (\<lambda>ins. fst ins \<noteq> LISA_X86_INST) (map snd ?xs)" by (simp add: filter_map comp_def)
    then show ?thesis unfolding snd real_code_def .
  qed
  have len: "reals ?xs = length (real_code code)" using arg_cong[OF es, of length] length_words[of t2 ?xs] by (simp add: words_of_def)
  have cod: "\<forall>e\<in>set ?xs. codable (snd e)"
    using plain plain_item by (fastforce simp: codable_def plain_op_def takes_space_def known_op_iff)
  note asm = assemble_run[OF t2(1) cod, of code_start mem1]
  have "\<exists>i w. inst_view i = real_code code ! j \<and> ir2_assemble i = Some w \<and>
      load_le 4 (write_words code_start (words_of t2 ?xs) mem1) (code_start + of_nat (4 * j)) = ucast w" if j: "j < length (real_code code)" for j
  proof -
    have jl: "j < length ?es" using j es by (metis length_map)
    obtain k op ops where e: "?es ! j = (k, op, ops)" by (metis prod_cases3)
    then have mem: "(k, op, ops) \<in> set ?xs" "takes_space op" using nth_mem[OF jl] by auto
    have v: "inst_view (ir2_inst_array t2 ! k) = real_code code ! j" using represents_view[OF t2(1) mem(1)] e es jl by (metis nth_map snd_conv)
    have "words_of t2 ?xs ! j = word_of t2 k" using e jl by (simp add: words_of_def)
    moreover have "4 * length (words_of t2 ?xs) < 2 ^ 63" using represents_length[OF t2(1)] reals_le[of ?xs] by simp
    ultimately show ?thesis using v assemble_known[OF t2(1) mem(1) _ mem(2)] cod mem(1) write_words_read[of j "words_of t2 ?xs" code_start mem1] j len
      by (intro exI[of _ "ir2_inst_array t2 ! k"] exI[of _ "word_of t2 k"]) auto
  qed
  then show ?thesis using t1(1) t2(2) asm unfolding len by blast
qed

lemma mark_opnds:
  assumes "ins \<in> set code" "marks code = map (ins_mark tg) pirs" "fst ins = LISA_X86_INST"
  shows "snd ins \<noteq> []"
proof -
  have "ins \<in> set (marks code)" using assms(1,3) by (simp add: marks_def)
  then show "snd ins \<noteq> []" unfolding assms(2) by (auto simp: ins_mark_def)
qed

lemma block_code_plain:
  assumes "marks code = map (ins_mark tg) pirs" "la_run (real_code code) M = Some M'"
  shows "\<forall>ins\<in>set code. plain_op (fst ins) \<and> snd ins \<noteq> []"
proof
  fix ins assume i: "ins \<in> set code"
  show "plain_op (fst ins) \<and> snd ins \<noteq> []"
  proof (cases "fst ins = LISA_X86_INST")
    case True
    then show ?thesis using mark_opnds[OF i assms(1) True] by (simp add: plain_op_def)
  next
    case False
    then have "ins \<in> set (real_code code)" using i by (simp add: real_code_def)
    then show ?thesis using plain_run[OF assms(2)] run_opnds[OF assms(2)] by blast
  qed
qed

text \<open>C1: from x86 instructions to machine code.  The code that tr\_ir2\_generate emits for a block, put
  in the instruction array, goes through label\_dispose and tr\_ir2\_assemble, which count the same
  instructions; in memory, from \<open>code_start\<close> on, is the word for each instruction of the code, in order
  and without gaps, and these instructions, run from any state \<open>M\<close> that meets the conditions of the
  x86 instructions, reach a state that represents what the x86 block does to the x86 state of \<open>M\<close>.\<close>

theorem block_to_memory:
  assumes "block_ok tg (ins_ok tg (cf_lay cf)) (x86_step tg (cf_lay cf)) pirs M" "fresh tg s" "tc_code s = []" "length pirs \<le> TCG_MAX_INSNS"
    and "length (tc_code (snd (run_state (tr_ir2_generate tg cf pirs) s))) \<le> 2 ^ 15" "\<not> rc_imm_reg cfg"
    and "ir2_inst_num_max t = length (ir2_inst_array t)" "ir2_inst_num_max t = 0 \<or> 400 \<le> ir2_inst_num_max t"
  shows "\<exists>code st ft t1 t2 mem1 mem2 M'.
    run_state (tr_ir2_generate tg cf pirs) s = ((1, map (ir1_addr tg) pirs, False), s\<lparr>tc_code := code, tc_itemp := st, tc_ftemp := ft\<rparr>) \<and>
    marks code = map (ins_mark tg) pirs \<and> emit_code moved junk code (tr_init True t) = Some t1 \<and>
    label_dispose cfg pre None t1 mem = Some (int (length (real_code code)), t2, None, mem1) \<and>
    tr_ir2_assemble code_start t2 mem1 = Some (int (length (real_code code)), mem2) \<and>
    (\<forall>j < length (real_code code). \<exists>i w. inst_view i = real_code code ! j \<and> ir2_assemble i = Some w \<and>
       load_le 4 mem2 (code_start + of_nat (4 * j)) = ucast w) \<and>
    la_run (real_code code) M = Some M' \<and>
    reaches tg M (x86_block (x86_step tg (cf_lay cf)) (env_of tg M) pirs (x86_of tg M)) M'"
proof -
  obtain code st ft M' where g: "run_state (tr_ir2_generate tg cf pirs) s =
      ((1, map (ir1_addr tg) pirs, False), s\<lparr>tc_code := tc_code s @ code, tc_itemp := st, tc_ftemp := ft\<rparr>)"
    "marks code = map (ins_mark tg) pirs" "la_run (real_code code) M = Some M'"
    "reaches tg M (x86_block (x86_step tg (cf_lay cf)) (env_of tg M) pirs (x86_of tg M)) M'"
    using generate_block[OF assms(1,2,4)] by blast
  have "length code \<le> 2 ^ 15" using assms(3,5) g(1) by simp
  then obtain t1 t2 mem1 mem2 where "emit_code moved junk code (tr_init True t) = Some t1"
    "label_dispose cfg pre None t1 mem = Some (int (length (real_code code)), t2, None, mem1)"
    "tr_ir2_assemble code_start t2 mem1 = Some (int (length (real_code code)), mem2)"
    "\<forall>j < length (real_code code). \<exists>i w. inst_view i = real_code code ! j \<and> ir2_assemble i = Some w \<and>
       load_le 4 mem2 (code_start + of_nat (4 * j)) = ucast w"
    using code_to_memory[OF assms(7,8) block_code_plain[OF g(2,3)] _ assms(6), of moved junk pre mem code_start] by metis
  then show ?thesis using g assms(3) by (intro exI conjI) auto
qed

section \<open>Instances\<close>

text \<open>mov ecx, eax; push eax; cdq.\<close>

definition block0 :: "ir1_inst list" where
  "block0 = [(ins_of 4 [reg_opnd dt_X86_REG_ECX 4, reg_opnd dt_X86_REG_EAX 4])\<lparr>i_id := dt_X86_INS_MOV\<rparr>,
     (ins_of 4 [reg_opnd dt_X86_REG_EAX 4])\<lparr>i_id := dt_X86_INS_PUSH\<rparr>, (ins_of 4 [])\<lparr>i_id := dt_X86_INS_CDQ\<rparr>]"

definition conf0 :: tr_conf where
  "conf0 = \<lparr>cf_lay = lay0, cf_opnd = reg_opnd 0 0, cf_thunk = (\<lambda>_. -1), cf_tu = True, cf_ts = False, cf_functions = (\<lambda>_. None),
     cf_movs = (\<lambda>_. em_return False), cf_movsd = (\<lambda>_. em_return False), cf_cmps = (\<lambda>_. em_return False), cf_cmpsd = (\<lambda>_. em_return False)\<rparr>"

lemma block0_code: "length (tc_code (snd (run_state (tr_ir2_generate I386 conf0 block0) ctx0))) \<le> 20"
  by code_simp

lemma ins_of_id [simp]: "ir1_opcode ((ins_of a ops)\<lparr>i_id := k\<rparr>) = k" "ir1_get_opnd ((ins_of a ops)\<lparr>i_id := k\<rparr>) n = ops ! n"
    "ir1_addr_size ((ins_of a ops)\<lparr>i_id := k\<rparr>) = 8 * uint a"
  by (simp_all add: ir1_opcode_def ins_of_def ir1_get_opnd_def ir1_addr_size_def push_bit_eq_mult)

lemma ecx_ok: "gpr_opnd_ok I386 (reg_opnd dt_X86_REG_ECX 4)" "ir1_opnd_base_reg_num I386 (reg_opnd dt_X86_REG_ECX 4) = 1"
  by (simp_all add: gpr_opnd_ok_def ir1_opnd_is_gpr_def gpr_index_def ir1_opnd_base_reg_num_def base_reg_num_gpr_def size_ok_def
      ir1_opnd_size_def ir1_opnd_is_8l_def ir1_opnd_is_8h_def ir1_opnd_is_16bit_def)

lemma block0_ok: "block_ok I386 (ins_ok I386 lay0) (x86_step I386 lay0) block0 (mach 0x1000)"
proof -
  let ?mov = "(ins_of 4 [reg_opnd dt_X86_REG_ECX 4, reg_opnd dt_X86_REG_EAX 4])\<lparr>i_id := dt_X86_INS_MOV\<rparr>"
  let ?push = "(ins_of 4 [reg_opnd dt_X86_REG_EAX 4])\<lparr>i_id := dt_X86_INS_PUSH\<rparr>"
  have mov: "ins_ok I386 lay0 ?mov M" for M
    using reg_samples(1) ecx_ok(1) by (simp add: ins_ok_def mov_ok_def src_ok_def dst_ok_def ir1_opnd_size_def)
  have push: "ins_ok I386 lay0 ?push M'" if "guest_gpr I386 M' esp = 0x1000" for M'
    using that reg_samples(1) not_seg_samples(1)
    by (simp add: ins_ok_def push_ok_def src_ok_def dst_ok_def stack_size_def stack_ok_def ir1_opnd_size_def)
  have esp: "guest_gpr I386 M' esp = 0x1000" if "x86_of I386 M' = x86_step I386 lay0 ?mov e (x86_of I386 (mach 0x1000))" for M' e
  proof -
    have "guest_gpr I386 M' esp = x_gpr (x86_of I386 M') esp" by (simp add: x86_of_def)
    also have "\<dots> = guest_gpr I386 (mach 0x1000) esp"
      unfolding that by (simp add: x86_step_def x86_mov_def x86_set_def x86_set_gpr_def Let_def ecx_ok(2)) (simp add: x86_of_def)
    finally show ?thesis using mach_home[of I386 esp "0x1000"] by (simp add: guest_gpr_def norm_def)
  qed
  show ?thesis unfolding block0_def block_ok.simps using mov push esp by (auto simp: reaches_def ins_ok_def)
qed

theorem tr_ir2_generate_correct_witness:
  "\<exists>code st ft M'. run_state (tr_ir2_generate I386 conf0 block0) ctx0 =
      ((1, map (ir1_addr I386) block0, False), ctx0\<lparr>tc_code := tc_code ctx0 @ code, tc_itemp := st, tc_ftemp := ft\<rparr>) \<and>
    la_run (real_code code) (mach 0x1000) = Some M' \<and>
    x86_of I386 M' = x86_block (x86_step I386 lay0) (env_of I386 (mach 0x1000)) block0 (x86_of I386 (mach 0x1000))"
  using tr_ir2_generate_correct[of I386 conf0 block0 "mach 0x1000" ctx0] block0_ok ctx0_ok(2)[of I386]
  by (fastforce simp: fresh_def reaches_def conf0_def ctx0_def block0_def)

theorem block_to_memory_witness:
  "\<exists>code t1 t2 mem1 mem2 M'. emit_code True (\<lambda>_. zero_inst) code (tr_init True empty_tr_data) = Some t1 \<and>
    label_dispose sample_cfg False None t1 (\<lambda>_. 0) = Some (int (length (real_code code)), t2, None, mem1) \<and>
    tr_ir2_assemble 0x10000 t2 mem1 = Some (int (length (real_code code)), mem2) \<and>
    la_run (real_code code) (mach 0x1000) = Some M' \<and>
    x86_of I386 M' = x86_block (x86_step I386 lay0) (env_of I386 (mach 0x1000)) block0 (x86_of I386 (mach 0x1000))"
proof -
  have "fresh I386 ctx0" "tc_code ctx0 = []" "cf_lay conf0 = lay0" "length block0 \<le> TCG_MAX_INSNS"
    using ctx0_ok by (simp_all add: fresh_def ctx0_def conf0_def block0_def)
  moreover have "ir2_inst_num_max empty_tr_data = length (ir2_inst_array empty_tr_data)"
    "ir2_inst_num_max empty_tr_data = 0 \<or> 400 \<le> ir2_inst_num_max empty_tr_data" "\<not> rc_imm_reg sample_cfg"
    by (simp_all add: empty_tr_data_def sample_cfg_def)
  moreover have "length (tc_code (snd (run_state (tr_ir2_generate I386 conf0 block0) ctx0))) \<le> 2 ^ 15" using block0_code by simp
  ultimately show ?thesis
    using block_to_memory[of I386 conf0 block0 "mach 0x1000" ctx0 sample_cfg empty_tr_data True "\<lambda>_. zero_inst" False "\<lambda>_. 0" "0x10000"]
      block0_ok by (simp add: reaches_def) blast
qed

text \<open>A 16-bit leave with a frame pointer of 0x10000, and a thunk that ends with ret 4.\<close>

theorem translate_leave_correct_iff_witness:
  "\<not> implements I386 (translate_leave I386 ((ins_of 4 [])\<lparr>i_id := dt_X86_INS_LEAVE, i_prefix := [0, 0, 0x66, 0]\<rparr>)) (mach 0x10000)
     (x86_leave I386 2 (x86_of I386 (mach 0x10000)))"
proof -
  let ?i = "(ins_of 4 [])\<lparr>i_id := dt_X86_INS_LEAVE, i_prefix := [0, 0, 0x66, 0]\<rparr>"
  have i: "ir1_opcode ?i = dt_X86_INS_LEAVE" "ir1_get_opnd_size I386 ?i div 8 = 2"
    by (simp_all add: ir1_opcode_def ir1_get_opnd_size_def ir1_prefix_opnd_size_def)
  have "x_gpr (x86_of I386 (mach 0x10000)) ebp_index = 0x10000"
    using mach_home[of I386 ebp_index "0x10000"] by (simp add: x_gpr_low norm_def)
  then have "bit (x_gpr (x86_of I386 (mach 0x10000)) ebp_index) 16" by simp
  with translate_leave_correct_iff[OF i(1), of I386 "mach 0x10000"] i(2) show ?thesis by simp
qed




end
