(* ===== verification/Spec2Isabelle.thy ===== *)
theory Spec2Isabelle
  imports Flag_Properties Ir1_Properties Imm_Cache_Properties Reg_Alloc_Properties Ir2_Assemble_Properties Tr_Block_Code
begin

text \<open>
  LATX translates x86 user programs to LoongArch code.  This development models parts of
  the translator core under src/target/i386/latx and proves them correct.

  Theories:

  \<^item> \<open>Latx_Prelude\<close>: word types, C casts, error outcomes, build targets, bit masks.
  \<^item> \<open>Glib_Hash\<close>, \<open>Pc_Thunk\<close>: the glib hash table interface and the pc-thunk table of
    latx-config.c.
  \<^item> \<open>X86_Enums\<close>, \<open>X86_Ir1\<close>: the x86 instruction representation of include/x86.h and
    ir1/ir1.c.
  \<^item> \<open>Flag_Reduction\<close>, \<open>Flag_Dataflow\<close>, \<open>Flag_Soundness\<close>, \<open>Flag_Properties\<close>: dead flag
    elimination of optimization/flag-reduction.c and optimization/ir1-optimization.c.
\<close>

end
